(* ===== verification/Machine_Prelude.thy ===== *)
theory Machine_Prelude
  imports Main "HOL-Library.Word"
begin

text \<open>
  Shared vocabulary of the development: names for the machine integers of the C++ and Java
  sources, byte order conversions, out-of-range-aware reads of byte buffers, block copies into
  a flat memory, and the two interfaces that several components implement: a byte-addressed
  memory (\<open>flat_memory\<close>) and an encoder with its decoder (\<open>codec\<close>).
\<close>

unbundle bit_operations_syntax

named_theorems byte_order \<open>evaluation and round trips of byte order conversions\<close>
named_theorems block_simps \<open>reads of a memory after a block copy\<close>
named_theorems frame_simps \<open>fields an operation does not write\<close>

type_synonym u8 = "8 word"
type_synonym u16 = "16 word"
type_synonym u32 = "32 word"
type_synonym u64 = "64 word"
type_synonym bytes = "u8 list"

section \<open>Byte order\<close>

text \<open>
  \<open>le_bytes k n\<close> are the \<open>k\<close> low bytes of \<open>n\<close>, least significant first, as the x86 host
  stores an integer; \<open>be_bytes\<close> is the network order that \<open>htons\<close>, \<open>htonl\<close> and Java's
  \<open>DataOutputStream\<close> produce.
\<close>

fun le_bytes :: "nat \<Rightarrow> nat \<Rightarrow> bytes" where
  "le_bytes 0 n = []"
| "le_bytes (Suc k) n = word_of_nat n # le_bytes k (n div 256)"

fun le_nat :: "bytes \<Rightarrow> nat" where
  "le_nat [] = 0"
| "le_nat (b # bs) = unat b + 256 * le_nat bs"

definition be_bytes :: "nat \<Rightarrow> nat \<Rightarrow> bytes" where
  "be_bytes k n = rev (le_bytes k n)"

definition be_nat :: "bytes \<Rightarrow> nat" where
  "be_nat bs = le_nat (rev bs)"

lemma le_bytes_numeral [simp, byte_order]:
  "le_bytes (numeral k) n = word_of_nat n # le_bytes (pred_numeral k) (n div 256)"
  by (simp only: numeral_eq_Suc le_bytes.simps)

lemma length_le_bytes [simp]: "length (le_bytes k n) = k"
  by (induction k n rule: le_bytes.induct) auto

lemma length_be_bytes [simp]: "length (be_bytes k n) = k"
  by (simp add: be_bytes_def)

lemma unat_u8_less: "unat (b :: u8) < 256"
  using unsigned_less [of b] by simp

lemma unat_u8_of_nat: "unat (word_of_nat n :: u8) = n mod 256"
  by (simp add: unat_of_nat)

lemma le_nat_le_bytes [byte_order]: "le_nat (le_bytes k n) = n mod 256 ^ k"
proof (induction k n rule: le_bytes.induct)
  case (1 n)
  show ?case by simp
next
  case (2 k n)
  then show ?case
    by (simp add: unat_u8_of_nat mod_mult2_eq)
qed

lemma le_nat_less: "le_nat bs < 256 ^ length bs"
proof (induction bs)
  case Nil
  show ?case by simp
next
  case (Cons b bs)
  have "unat b < 256" by (rule unat_u8_less)
  with Cons show ?case by simp
qed

lemma le_bytes_le_nat [byte_order]: "le_bytes (length bs) (le_nat bs) = bs"
proof (induction bs)
  case Nil
  show ?case by simp
next
  case (Cons b bs)
  have "unat b < 256" by (rule unat_u8_less)
  then have "(unat b + 256 * le_nat bs) div 256 = le_nat bs"
    by (simp add: div_add1_eq)
  moreover have "word_of_nat (unat b + 256 * le_nat bs) = b"
  proof (rule word_unat_eq_iff [THEN iffD2])
    show "unat (word_of_nat (unat b + 256 * le_nat bs) :: u8) = unat b"
      using \<open>unat b < 256\<close> by (simp only: unat_u8_of_nat mod_mult_self2 mod_less)
  qed
  ultimately show ?case using Cons by simp
qed

lemma be_nat_be_bytes [byte_order]: "be_nat (be_bytes k n) = n mod 256 ^ k"
  by (simp add: be_nat_def be_bytes_def le_nat_le_bytes)

lemma be_bytes_be_nat [byte_order]: "be_bytes (length bs) (be_nat bs) = bs"
  using le_bytes_le_nat [of "rev bs"] by (simp add: be_nat_def be_bytes_def)

text \<open>The widths the sources use: \<open>ntohs\<close>/\<open>htons\<close>, \<open>ntohl\<close>/\<open>htonl\<close>, and the host's own order.\<close>

definition htons :: "u16 \<Rightarrow> bytes" where
  "htons w = be_bytes 2 (unat w)"

definition ntohs :: "bytes \<Rightarrow> u16" where
  "ntohs bs = word_of_nat (be_nat bs)"

definition htonl :: "u32 \<Rightarrow> bytes" where
  "htonl w = be_bytes 4 (unat w)"

definition ntohl :: "bytes \<Rightarrow> u32" where
  "ntohl bs = word_of_nat (be_nat bs)"

definition host64 :: "u64 \<Rightarrow> bytes" where
  "host64 w = le_bytes 8 (unat w)"

lemma length_htons [simp]: "length (htons w) = 2"
  by (simp add: htons_def)

lemma length_htonl [simp]: "length (htonl w) = 4"
  by (simp add: htonl_def)

lemma length_host64 [simp]: "length (host64 w) = 8"
  by (simp add: host64_def)

lemma word_of_nat_unat_mod: "word_of_nat (unat w mod 2 ^ LENGTH('a)) = (w :: 'a::len word)"
  by simp

lemma ntohs_htons [simp, byte_order]: "ntohs (htons w) = w"
  using word_of_nat_unat_mod [of w] by (simp add: ntohs_def htons_def be_nat_be_bytes)

lemma ntohl_htonl [simp, byte_order]: "ntohl (htonl w) = w"
  using word_of_nat_unat_mod [of w] by (simp add: ntohl_def htonl_def be_nat_be_bytes)

lemma be_nat_less: "length bs = k \<Longrightarrow> be_nat bs < 256 ^ k"
  using le_nat_less [of "rev bs"] by (simp add: be_nat_def)

lemma unat_ntohs: "length bs = 2 \<Longrightarrow> unat (ntohs bs) = be_nat bs"
  using be_nat_less [of bs 2] by (simp add: ntohs_def unat_of_nat)

lemma unat_ntohl: "length bs = 4 \<Longrightarrow> unat (ntohl bs) = be_nat bs"
  using be_nat_less [of bs 4] by (simp add: ntohl_def unat_of_nat)

lemma htons_ntohs [byte_order]: "length bs = 2 \<Longrightarrow> htons (ntohs bs) = bs"
  using be_bytes_be_nat [of bs] by (simp add: htons_def unat_ntohs)

lemma htonl_ntohl [byte_order]: "length bs = 4 \<Longrightarrow> htonl (ntohl bs) = bs"
  using be_bytes_be_nat [of bs] by (simp add: htonl_def unat_ntohl)

section \<open>Word arithmetic\<close>

lemma sint_u32: "sint (a :: u32) = (if uint a < 2 ^ 31 then uint a else uint a - 2 ^ 32)"
proof -
  have u: "0 \<le> uint a" "uint a < 2 ^ 32" using uint_lt2p [of a] by simp_all
  have "signed_take_bit 31 (uint a) = take_bit 32 (uint a + 2 ^ 31) - 2 ^ 31"
    by (simp add: signed_take_bit_eq_take_bit_shift)
  also have "\<dots> = (uint a + 2 ^ 31) mod 2 ^ 32 - 2 ^ 31" by (simp only: take_bit_eq_mod)
  also have "\<dots> = (if uint a < 2 ^ 31 then uint a else uint a - 2 ^ 32)"
  proof (cases "uint a < 2 ^ 31")
    case True
    then show ?thesis using u by simp
  next
    case False
    have "(uint a + 2 ^ 31) mod 2 ^ 32 = (uint a + 2 ^ 31 - 2 ^ 32) mod 2 ^ 32"
      by (rule minus_mod_self2 [symmetric])
    also have "\<dots> = uint a + 2 ^ 31 - 2 ^ 32"
      using False u by (intro mod_pos_pos_trivial) simp_all
    finally have "(uint a + 2 ^ 31) mod 2 ^ 32 = uint a + 2 ^ 31 - 2 ^ 32" .
    with False show ?thesis by simp
  qed
  finally show ?thesis by (simp add: sint_uint)
qed

lemma unat_add_small: "unat (a :: u32) + k < 2 ^ 32 \<Longrightarrow> unat (a + word_of_nat k) = unat a + k"
  by (simp add: unat_word_ariths unat_of_nat)

lemma unat_ucast_mod: "unat (ucast (w :: 'a::len word) :: 'b::len word) = unat w mod 2 ^ LENGTH('b)"
  by (simp only: unsigned_ucast_eq unsigned_take_bit_eq take_bit_eq_mod [where ?'a = nat])

lemma and_0xff: "(w :: 'a::len word) AND 0xff = take_bit 8 w"
  by (simp add: take_bit_eq_mask mask_eq_exp_minus_1)

section \<open>Positions on a ring\<close>

lemma mod_add_inj:
  assumes "(i + k) mod n = (i + k') mod n" and "k < n" and "k' < (n :: nat)"
  shows "k = k'"
proof -
  have "k = k'" if "(i + k) mod n = (i + k') mod n" "k < n" "k' \<le> k" for k k'
  proof -
    have "n dvd (i + k) - (i + k')" using that(1,3) by (simp add: mod_eq_dvd_iff_nat)
    then have "n dvd k - k'" by simp
    moreover have "k - k' < n" using that by simp
    ultimately have "k - k' = 0" using dvd_imp_le by fastforce
    with that show ?thesis by simp
  qed
  from this [of k k'] this [of k' k] assms show ?thesis by (cases "k' \<le> k") simp_all
qed

lemma mod_once: "x < n + n \<Longrightarrow> x mod n = (if x < n then x else x - (n :: nat))"
  by (auto simp: mod_if not_less)

section \<open>Reading a buffer\<close>

text \<open>
  A C pointer into a buffer is an offset into a byte list. The sources rarely check lengths, so
  a read outside the buffer is an explicit \<open>None\<close>, never an unspecified byte.
\<close>

definition peek :: "'a list \<Rightarrow> nat \<Rightarrow> 'a option" where
  "peek xs i = (if i < length xs then Some (xs ! i) else None)"

definition peeks :: "'a list \<Rightarrow> nat \<Rightarrow> nat \<Rightarrow> 'a list option" where
  "peeks xs off n = (if off + n \<le> length xs then Some (take n (drop off xs)) else None)"

lemma peeks_SomeD: "peeks xs off n = Some ys \<Longrightarrow> length ys = n \<and> off + n \<le> length xs"
  by (auto simp: peeks_def split: if_splits)

lemma peeks_in_range [simp]: "off + n \<le> length xs \<Longrightarrow> peeks xs off n = Some (take n (drop off xs))"
  by (simp add: peeks_def)

lemma peeks_None_iff: "peeks xs off n = None \<longleftrightarrow> length xs < off + n"
  by (auto simp: peeks_def)

text \<open>\<open>memcpy(xs + off, ys, n)\<close> into a buffer known to be large enough.\<close>

definition poke :: "nat \<Rightarrow> 'a list \<Rightarrow> 'a list \<Rightarrow> 'a list" where
  "poke off ys xs = take off xs @ ys @ drop (off + length ys) xs"

lemma length_poke [simp]: "off + length ys \<le> length xs \<Longrightarrow> length (poke off ys xs) = length xs"
  by (simp add: poke_def)

section \<open>Block copies into a flat memory\<close>

definition blit :: "nat \<Rightarrow> 'a list \<Rightarrow> (nat \<Rightarrow> 'a) \<Rightarrow> nat \<Rightarrow> 'a" where
  "blit base xs m = (\<lambda>i. if base \<le> i \<and> i < base + length xs then xs ! (i - base) else m i)"

definition block :: "(nat \<Rightarrow> 'a) \<Rightarrow> nat \<Rightarrow> nat \<Rightarrow> 'a list" where
  "block m base n = map m [base ..< base + n]"

lemma length_block [simp]: "length (block m base n) = n"
  by (simp add: block_def)

lemma nth_block [simp]: "i < n \<Longrightarrow> block m base n ! i = m (base + i)"
  by (simp add: block_def)

lemma blit_Nil [simp]: "blit base [] m = m"
  by (rule ext) (auto simp: blit_def)

lemma blit_inside [block_simps]: "i < length xs \<Longrightarrow> blit base xs m (base + i) = xs ! i"
  by (simp add: blit_def)

lemma blit_outside [block_simps]: "i < base \<or> base + length xs \<le> i \<Longrightarrow> blit base xs m i = m i"
  by (auto simp: blit_def)

lemma blit_Cons: "blit base (x # xs) m = blit (Suc base) xs (m(base := x))"
proof
  fix i
  show "blit base (x # xs) m i = blit (Suc base) xs (m(base := x)) i"
  proof (cases "i \<le> base")
    case True
    then show ?thesis by (auto simp: blit_def)
  next
    case False
    then have "i - base = Suc (i - Suc base)" by simp
    then show ?thesis using False by (auto simp: blit_def)
  qed
qed

lemma block_blit_same [block_simps]: "block (blit base xs m) base (length xs) = xs"
  by (rule nth_equalityI) (simp_all add: blit_inside)

lemma block_blit_disjoint [block_simps]:
  "base + length xs \<le> b \<or> b + n \<le> base \<Longrightarrow> block (blit base xs m) b n = block m b n"
  by (rule nth_equalityI) (auto simp: blit_def)

lemma block_append: "block m base (n + k) = block m base n @ block m (base + n) k"
proof -
  have "[base ..< base + (n + k)] = [base ..< base + n] @ [base + n ..< base + n + k]"
    by (metis add.assoc upt_add_eq_append le_add1)
  then show ?thesis by (simp add: block_def)
qed

lemma block_blit_part [block_simps]:
  "off + n \<le> length xs \<Longrightarrow> block (blit base xs m) (base + off) n = take n (drop off xs)"
  by (rule nth_equalityI) (auto simp: blit_def)

lemma blit_append: "blit i (xs @ ys) m = blit (i + length xs) ys (blit i xs m)"
  by (rule ext) (auto simp: blit_def nth_append)

section \<open>Interfaces\<close>

text \<open>
  A memory of \<open>limit\<close> cells: a block store inside the limit is seen by exactly the cells it
  covers. Provided by the packet memory of the network card and by the memory of the server.
\<close>

locale flat_memory =
  fixes load :: "'s \<Rightarrow> nat \<Rightarrow> 'v"
    and store :: "nat \<Rightarrow> 'v list \<Rightarrow> 's \<Rightarrow> 's"
    and limit :: "'s \<Rightarrow> nat"
  assumes load_store: "base + length xs \<le> limit s \<Longrightarrow> load (store base xs s) = blit base xs (load s)"
    and limit_store: "limit (store base xs s) = limit s"
begin

lemma read_back:
  "base + length xs \<le> limit s \<Longrightarrow> block (load (store base xs s)) base (length xs) = xs"
  by (simp add: load_store block_blit_same)

lemma read_part:
  assumes "base + length xs \<le> limit s" and "off + n \<le> length xs"
  shows "block (load (store base xs s)) (base + off) n = take n (drop off xs)"
  using assms by (simp add: load_store block_blit_part)

lemma read_disjoint:
  assumes "base + length xs \<le> limit s" and "base + length xs \<le> b \<or> b + n \<le> base"
  shows "block (load (store base xs s)) b n = block (load s) b n"
  using assms by (simp add: load_store block_blit_disjoint)

lemma last_store_wins:
  assumes "base + length xs \<le> limit s" and "length ys = length xs"
  shows "load (store base ys (store base xs s)) = load (store base ys s)"
  using assms by (auto simp: load_store limit_store blit_def)

lemma stores_commute:
  assumes "b1 + length xs \<le> limit s" and "b2 + length ys \<le> limit s"
    and "b1 + length xs \<le> b2 \<or> b2 + length ys \<le> b1"
  shows "load (store b1 xs (store b2 ys s)) = load (store b2 ys (store b1 xs s))"
  using assms by (auto simp: load_store limit_store blit_def)

end

text \<open>
  An encoder \<open>put\<close> and a decoder \<open>get\<close> that reads one value off the front of a byte stream,
  for the values \<open>ok\<close> allows. The decoder fails with an exception of type \<open>'e\<close>.
\<close>

fun get_many :: "(bytes \<Rightarrow> 'e + 'a \<times> bytes) \<Rightarrow> nat \<Rightarrow> bytes \<Rightarrow> 'e + 'a list \<times> bytes" where
  "get_many get 0 bs = Inr ([], bs)"
| "get_many get (Suc n) bs =
     (case get bs of
        Inl e \<Rightarrow> Inl e
      | Inr (x, bs') \<Rightarrow>
          (case get_many get n bs' of
             Inl e \<Rightarrow> Inl e
           | Inr (xs, bs'') \<Rightarrow> Inr (x # xs, bs'')))"

locale codec =
  fixes put :: "'a \<Rightarrow> bytes"
    and get :: "bytes \<Rightarrow> 'e + 'a \<times> bytes"
    and ok :: "'a \<Rightarrow> bool"
  assumes get_put: "ok x \<Longrightarrow> get (put x @ rest) = Inr (x, rest)"
begin

lemma get_put_exact: "ok x \<Longrightarrow> get (put x) = Inr (x, [])"
  using get_put [of x "[]"] by simp

lemma put_prefix_free:
  assumes "ok x" and "ok y" and "put x @ r = put y @ r'"
  shows "x = y \<and> r = r'"
proof -
  have "Inr (x, r) = (Inr (y, r') :: 'e + 'a \<times> bytes)"
    using get_put [OF assms(1), of r] get_put [OF assms(2), of r'] unfolding assms(3) by (rule subst)
  then show ?thesis by simp
qed

lemma put_inj: "ok x \<Longrightarrow> ok y \<Longrightarrow> put x = put y \<Longrightarrow> x = y"
  using put_prefix_free [of x y "[]" "[]"] by simp

lemma get_many_put:
  "list_all ok xs \<Longrightarrow> get_many get (length xs) (concat (map put xs) @ rest) = Inr (xs, rest)"
  by (induction xs) (simp_all add: get_put)

end

text \<open>
  A device drives interrupt lines of a controller. \<open>pin s n\<close> is the level the controller sees on
  line \<open>n\<close>; \<open>lines\<close> are the lines devices may drive.
\<close>

fun drive :: "(nat \<Rightarrow> 's \<Rightarrow> 's) \<Rightarrow> (nat \<Rightarrow> 's \<Rightarrow> 's) \<Rightarrow> (nat \<times> bool) list \<Rightarrow> 's \<Rightarrow> 's" where
  "drive raise lower [] s = s"
| "drive raise lower ((n, level) # es) s = drive raise lower es (if level then raise n s else lower n s)"

fun level_after :: "nat \<Rightarrow> bool \<Rightarrow> (nat \<times> bool) list \<Rightarrow> bool" where
  "level_after n b [] = b"
| "level_after n b ((m, level) # es) = level_after n (if m = n then level else b) es"

locale irq_sink =
  fixes raise :: "nat \<Rightarrow> 's \<Rightarrow> 's"
    and lower :: "nat \<Rightarrow> 's \<Rightarrow> 's"
    and pin :: "'s \<Rightarrow> nat \<Rightarrow> bool"
    and lines :: "nat set"
  assumes pin_raise: "n \<in> lines \<Longrightarrow> m \<in> lines \<Longrightarrow> pin (raise n s) m = (m = n \<or> pin s m)"
    and pin_lower: "n \<in> lines \<Longrightarrow> m \<in> lines \<Longrightarrow> pin (lower n s) m = (m \<noteq> n \<and> pin s m)"
begin

lemma pin_drive:
  "(\<And>e. e \<in> set es \<Longrightarrow> fst e \<in> lines) \<Longrightarrow> n \<in> lines \<Longrightarrow>
   pin (drive raise lower es s) n = level_after n (pin s n) es"
proof (induction es arbitrary: s)
  case (Cons e es)
  obtain m l where e: "e = (m, l)" by fastforce
  have "m \<in> lines" using Cons.prems(1) [of e] e by simp
  then show ?case using Cons.prems Cons.IH by (simp add: e pin_raise pin_lower)
qed simp

lemma raise_idempotent:
  "n \<in> lines \<Longrightarrow> m \<in> lines \<Longrightarrow> pin (raise n (raise n s)) m = pin (raise n s) m"
  by (simp add: pin_raise)

lemma lower_undoes_raise:
  "n \<in> lines \<Longrightarrow> m \<in> lines \<Longrightarrow> \<not> pin s n \<Longrightarrow> pin (lower n (raise n s)) m = pin s m"
  by (auto simp: pin_raise pin_lower)

end

lemma unat_widen: "unat (ucast (d :: u32) :: u64) = unat d"
  by transfer (simp add: take_bit_nat_def)

lemma unat_narrow: "unat (w :: u64) < 2 ^ 32 \<Longrightarrow> unat (ucast w :: u32) = unat w"
  by (simp add: unsigned_ucast_eq unsigned_take_bit_eq take_bit_nat_eq_self)

section \<open>Devices that live in time\<close>

text \<open>
  A device has a single tick and a way to let many ticks pass at once, which skips from event to
  event. On the states in \<open>ok\<close> the skipping is exact.
\<close>

locale timed_device =
  fixes tick :: "'s \<Rightarrow> 's"
    and run :: "'s \<Rightarrow> u32 \<Rightarrow> 's"
    and ok :: "'s \<Rightarrow> bool"
  assumes ok_tick: "ok s \<Longrightarrow> ok (tick s)"
    and run_iterates: "ok s \<Longrightarrow> run s n = (tick ^^ unat n) s"
begin

lemma ok_ticks: "ok s \<Longrightarrow> ok ((tick ^^ n) s)"
  by (induction n) (simp_all add: ok_tick)

lemma ok_run: "ok s \<Longrightarrow> ok (run s n)"
  by (simp add: run_iterates ok_ticks)

lemma run_chunks: "ok s \<Longrightarrow> fold (\<lambda>n s. run s n) ns s = (tick ^^ sum_list (map unat ns)) s"
proof (induction ns arbitrary: s)
  case (Cons n ns)
  then show ?case by (simp add: ok_ticks run_iterates funpow_add add.commute [of "unat n"])
qed simp

lemma run_split:
  assumes "ok s" and "m \<le> n"
  shows "run (run s m) (n - m) = run s n"
proof -
  have n: "unat n = unat (n - m) + unat m"
    using assms(2) by (simp add: unat_sub word_le_nat_alt)
  show ?thesis
    unfolding run_iterates [OF assms(1)] run_iterates [OF ok_ticks [OF assms(1)]] n funpow_add comp_def ..
qed

end

end
