(* ===== verification/Messages.thy ===== *)
theory Messages
  imports Machine_Prelude
begin

text \<open>
  The wire format between a client and the memory server
  (\<^verbatim>\<open>src/src/common/messages/MessageFactory.java\<close>): the seven operations, the result, and
  their encoders and decoders over a byte stream. A Java \<open>int\<close> is a \<open>32 word\<close>, a reference
  that may be null is an option, and an exception is a value that carries what is left of the
  stream when it is thrown, because \<open>readArray\<close> catches exceptions and goes on reading. The heap is
  taken to have room for the arrays that a request or result brings along; a length that announces more than follows
  and exhausts the heap is not modelled.
\<close>

datatype java_exn = EOFException | NegativeArraySize | IndexOutOfBounds | NullPointer | OutOfMemoryError | OtherThrowable

type_synonym 'a reader = "bytes \<Rightarrow> java_exn \<times> bytes + 'a \<times> bytes"

section \<open>Primitive readers and writers of the data streams\<close>

definition put_int :: "u32 \<Rightarrow> bytes" where
  "put_int w = htonl w"

definition get_int :: "u32 reader" where
  "get_int bs = (if length bs < 4 then Inl (EOFException, [])
                 else Inr (ntohl (take 4 bs), drop 4 bs))"

definition put_byte :: "u8 \<Rightarrow> bytes" where
  "put_byte b = [b]"

definition get_byte :: "u8 reader" where
  "get_byte bs = (case bs of [] \<Rightarrow> Inl (EOFException, []) | b # rest \<Rightarrow> Inr (b, rest))"

lemma get_put_int [simp]: "get_int (put_int w @ rest) = Inr (w, rest)"
  by (simp add: get_int_def put_int_def)

interpretation int_codec: codec put_int get_int "\<lambda>_. True"
  by unfold_locales simp

interpretation byte_codec: codec put_byte get_byte "\<lambda>_. True"
  by unfold_locales (simp add: put_byte_def get_byte_def)

lemma length_put_int [simp]: "length (put_int w) = 4"
  by (simp add: put_int_def)

section \<open>Arrays\<close>

text \<open>Every Java array has fewer than \<open>2 ^ 31\<close> elements; a null array is written as length -1.\<close>

definition array_ok :: "'a list option \<Rightarrow> bool" where
  "array_ok a = (case a of None \<Rightarrow> True | Some xs \<Rightarrow> length xs < 2 ^ 31)"

definition writeArray :: "('a \<Rightarrow> bytes) \<Rightarrow> 'a list option \<Rightarrow> bytes" where
  "writeArray put a =
     (case a of
        None \<Rightarrow> put_int (-1)
      | Some xs \<Rightarrow> put_int (word_of_nat (length xs)) @ concat (map put xs))"

text \<open>
  \<open>readArray\<close> and \<open>readArray_b\<close>: \<open>catch (Exception e) { return null; }\<close> turns a short stream and
  a negative length into null, with the stream where the exception left it.
\<close>

definition readArray :: "'a reader \<Rightarrow> 'a list option reader" where
  "readArray get bs =
     (case get_int bs of
        Inl (e, r) \<Rightarrow> Inr (None, r)
      | Inr (n, bs1) \<Rightarrow>
          if n = -1 then Inr (None, bs1)
          else if sint n < 0 then Inr (None, bs1)
          else (case get_many get (unat n) bs1 of
                  Inl (e, r) \<Rightarrow> Inr (None, r)
                | Inr (xs, r) \<Rightarrow> Inr (Some xs, r)))"

lemma small_length_word:
  assumes "n < 2 ^ 31"
  shows "unat (word_of_nat n :: u32) = n" and "\<not> sint (word_of_nat n :: u32) < 0"
    and "(word_of_nat n :: u32) \<noteq> -1"
proof -
  show u: "unat (word_of_nat n :: u32) = n"
    using assms by (simp add: unat_of_nat)
  have "sint (word_of_nat n :: u32) = int n"
    using assms by (simp add: signed_of_nat signed_take_bit_int_eq_self)
  then show "\<not> sint (word_of_nat n :: u32) < 0" by simp
  then show "(word_of_nat n :: u32) \<noteq> -1" by auto
qed

lemma readArray_writeArray:
  assumes "codec put get (\<lambda>_. True)" and "array_ok a"
  shows "readArray get (writeArray put a @ rest) = Inr (a, rest)"
proof (cases a)
  case None
  then show ?thesis by (simp add: writeArray_def readArray_def)
next
  case (Some xs)
  have many: "get_many get (length xs) (concat (map put xs) @ rest) = Inr (xs, rest)"
    by (rule codec.get_many_put [OF assms(1)]) (simp add: list_all_def)
  from Some assms(2) have "length xs < 2 ^ 31" by (simp add: array_ok_def)
  note small_length_word [OF this]
  with Some many show ?thesis by (simp add: writeArray_def readArray_def)
qed

lemmas int_array_roundtrip [simp] = readArray_writeArray [OF int_codec.codec_axioms]
lemmas byte_array_roundtrip [simp] = readArray_writeArray [OF byte_codec.codec_axioms]

lemma concat_map_put_byte [simp]: "concat (map put_byte xs) = xs"
  by (induction xs) (simp_all add: put_byte_def)

lemma get_many_byte [simp]: "get_many get_byte (length xs) (xs @ rest) = Inr (xs, rest)"
  using byte_codec.get_many_put [of xs rest] by (simp add: list_all_def)

section \<open>Operations\<close>

datatype operation =
    Read u32 u32  \<comment> \<open>address, size\<close>
  | Write u32 "u32 list option"  \<comment> \<open>address, values\<close>
  | CAS u32 u32 u32  \<comment> \<open>address, test, value\<close>
  | Run bytes "u32 list option"  \<comment> \<open>md5, arg\<close>
  | Load bytes  \<comment> \<open>code\<close>
  | ReadBytes u32 u32  \<comment> \<open>address, count\<close>
  | WriteBytes u32 "bytes option"  \<comment> \<open>address, data\<close>

text \<open>Opcodes are the ordinals of \<open>enum OpCode\<close>.\<close>

definition OP_READ :: u32 where "OP_READ = 0"
definition OP_WRITE :: u32 where "OP_WRITE = 1"
definition OP_CAS :: u32 where "OP_CAS = 2"
definition OP_RUN :: u32 where "OP_RUN = 3"
definition OP_LOAD :: u32 where "OP_LOAD = 4"
definition OP_READBYTES :: u32 where "OP_READBYTES = 5"
definition OP_WRITEBYTES :: u32 where "OP_WRITEBYTES = 6"

lemmas opcode_defs = OP_READ_def OP_WRITE_def OP_CAS_def OP_RUN_def OP_LOAD_def
  OP_READBYTES_def OP_WRITEBYTES_def

fun write_op :: "operation \<Rightarrow> bytes" where
  "write_op (Read a n) = put_int OP_READ @ put_int a @ put_int n"
| "write_op (Write a vs) = put_int OP_WRITE @ put_int a @ writeArray put_int vs"
| "write_op (CAS a t v) = put_int OP_CAS @ put_int a @ put_int t @ put_int v"
| "write_op (Run h arg) =
     put_int OP_RUN @ put_int (word_of_nat (length h)) @ concat (map put_byte h) @
     writeArray put_int arg"
| "write_op (Load c) = put_int OP_LOAD @ put_int (word_of_nat (length c)) @ c"
| "write_op (ReadBytes a n) = put_int OP_READBYTES @ put_int a @ put_int n"
| "write_op (WriteBytes a d) = put_int OP_WRITEBYTES @ put_int a @ writeArray put_byte d"

definition read_Read :: "operation reader" where
  "read_Read bs =
     (case get_int bs of Inl e \<Rightarrow> Inl e | Inr (a, bs) \<Rightarrow>
      case get_int bs of Inl e \<Rightarrow> Inl e | Inr (n, bs) \<Rightarrow> Inr (Read a n, bs))"

definition read_Write :: "operation reader" where
  "read_Write bs =
     (case get_int bs of Inl e \<Rightarrow> Inl e | Inr (a, bs) \<Rightarrow>
      case readArray get_int bs of Inl e \<Rightarrow> Inl e | Inr (vs, bs) \<Rightarrow> Inr (Write a vs, bs))"

definition read_CAS :: "operation reader" where
  "read_CAS bs =
     (case get_int bs of Inl e \<Rightarrow> Inl e | Inr (a, bs) \<Rightarrow>
      case get_int bs of Inl e \<Rightarrow> Inl e | Inr (t, bs) \<Rightarrow>
      case get_int bs of Inl e \<Rightarrow> Inl e | Inr (v, bs) \<Rightarrow> Inr (CAS a t v, bs))"

definition read_Run :: "operation reader" where
  "read_Run bs =
     (case get_int bs of Inl e \<Rightarrow> Inl e | Inr (n, bs) \<Rightarrow>
      if sint n < 0 then Inl (NegativeArraySize, bs)
      else case get_many get_byte (unat n) bs of Inl e \<Rightarrow> Inl e | Inr (h, bs) \<Rightarrow>
      case readArray get_int bs of Inl e \<Rightarrow> Inl e | Inr (arg, bs) \<Rightarrow> Inr (Run h arg, bs))"

text \<open>
  \<open>Load.read\<close> calls \<open>InputStream.read\<close>, which takes what the stream has: a short stream leaves
  zeros at the end of the array and raises nothing.
\<close>

definition read_Load :: "operation reader" where
  "read_Load bs =
     (case get_int bs of Inl e \<Rightarrow> Inl e | Inr (n, bs) \<Rightarrow>
      if sint n < 0 then Inl (NegativeArraySize, bs)
      else Inr (Load (take (unat n) bs @ replicate (unat n - length bs) 0), drop (unat n) bs))"

definition read_ReadBytes :: "operation reader" where
  "read_ReadBytes bs =
     (case get_int bs of Inl e \<Rightarrow> Inl e | Inr (a, bs) \<Rightarrow>
      case get_int bs of Inl e \<Rightarrow> Inl e | Inr (n, bs) \<Rightarrow> Inr (ReadBytes a n, bs))"

definition read_WriteBytes :: "operation reader" where
  "read_WriteBytes bs =
     (case get_int bs of Inl e \<Rightarrow> Inl e | Inr (a, bs) \<Rightarrow>
      case readArray get_byte bs of Inl e \<Rightarrow> Inl e | Inr (d, bs) \<Rightarrow> Inr (WriteBytes a d, bs))"

text \<open>\<open>MessageFactory.read\<close>: \<open>code_table[code]\<close> throws on an opcode outside the table.\<close>

definition read_op :: "operation reader" where
  "read_op bs =
     (case get_int bs of Inl e \<Rightarrow> Inl e | Inr (c, bs) \<Rightarrow>
      if c = OP_CAS then read_CAS bs
      else if c = OP_READ then read_Read bs
      else if c = OP_WRITE then read_Write bs
      else if c = OP_LOAD then read_Load bs
      else if c = OP_RUN then read_Run bs
      else if c = OP_READBYTES then read_ReadBytes bs
      else if c = OP_WRITEBYTES then read_WriteBytes bs
      else Inl (IndexOutOfBounds, bs))"

lemmas read_op_defs = read_Read_def read_Write_def read_CAS_def read_Run_def read_Load_def
  read_ReadBytes_def read_WriteBytes_def

fun op_ok :: "operation \<Rightarrow> bool" where
  "op_ok (Write a vs) = array_ok vs"
| "op_ok (Run h arg) = (array_ok (Some h) \<and> array_ok arg)"
| "op_ok (Load c) = array_ok (Some c)"
| "op_ok (WriteBytes a d) = array_ok d"
| "op_ok _ = True"

lemma read_op_write_op: "op_ok op \<Longrightarrow> read_op (write_op op @ rest) = Inr (op, rest)"
  by (cases op)
    (simp_all add: read_op_def opcode_defs read_op_defs array_ok_def small_length_word)

interpretation op_codec: codec write_op read_op op_ok
  by unfold_locales (rule read_op_write_op)

section \<open>Results\<close>

datatype error_code = OK | OUT_OF_BOUNDS | TIME_OUT | UNKNOWN_CODE | DUPLCIATED_CODE | ERROR

primrec ordinal :: "error_code \<Rightarrow> nat" where
  "ordinal OK = 0"
| "ordinal OUT_OF_BOUNDS = 1"
| "ordinal TIME_OUT = 2"
| "ordinal UNKNOWN_CODE = 3"
| "ordinal DUPLCIATED_CODE = 4"
| "ordinal ERROR = 5"

definition error_values :: "error_code list" where
  "error_values = [OK, OUT_OF_BOUNDS, TIME_OUT, UNKNOWN_CODE, DUPLCIATED_CODE, ERROR]"

lemma ordinal_inj: "ordinal a = ordinal b \<Longrightarrow> a = b"
  by (cases a; cases b) simp_all

text \<open>Java orders the constants of an enum by their ordinals.\<close>

instantiation error_code :: linorder
begin

definition less_eq_error_code :: "error_code \<Rightarrow> error_code \<Rightarrow> bool" where
  "less_eq_error_code a b = (ordinal a \<le> ordinal b)"

definition less_error_code :: "error_code \<Rightarrow> error_code \<Rightarrow> bool" where
  "less_error_code a b = (ordinal a < ordinal b)"

instance
  by standard (auto simp: less_eq_error_code_def less_error_code_def intro: ordinal_inj)

end

lemma nth_error_values [simp]: "error_values ! ordinal e = e"
  by (cases e) (simp_all add: error_values_def)

lemma ordinal_less: "ordinal e < 6"
  by (cases e) simp_all

record result =
  res_error :: error_code
  res_ints :: "u32 list option"
  res_bytes :: "bytes option"

definition write_result :: "result \<Rightarrow> bytes" where
  "write_result r =
     put_int (word_of_nat (ordinal (res_error r))) @
     writeArray put_int (res_ints r) @ writeArray put_byte (res_bytes r)"

definition read_result :: "result reader" where
  "read_result bs =
     (case get_int bs of Inl e \<Rightarrow> Inl e | Inr (c, bs) \<Rightarrow>
      if unat c < length error_values
      then (case readArray get_int bs of Inl e \<Rightarrow> Inl e | Inr (is, bs) \<Rightarrow>
            case readArray get_byte bs of Inl e \<Rightarrow> Inl e | Inr (d, bs) \<Rightarrow>
            Inr (\<lparr>res_error = error_values ! unat c, res_ints = is, res_bytes = d\<rparr>, bs))
      else Inl (IndexOutOfBounds, bs))"

definition result_ok :: "result \<Rightarrow> bool" where
  "result_ok r = (array_ok (res_ints r) \<and> array_ok (res_bytes r))"

lemma read_result_write_result:
  assumes "result_ok r"
  shows "read_result (write_result r @ rest) = Inr (r, rest)"
proof -
  have len: "length error_values = 6" by (simp add: error_values_def)
  have "ordinal (res_error r) < 2 ^ 31"
    using ordinal_less [of "res_error r"] by simp
  then have "unat (word_of_nat (ordinal (res_error r)) :: u32) = ordinal (res_error r)"
    by (rule small_length_word)
  then show ?thesis
    using assms ordinal_less [of "res_error r"]
    by (simp add: write_result_def read_result_def result_ok_def len)
qed

interpretation result_codec: codec write_result read_result result_ok
  by unfold_locales (rule read_result_write_result)

end
