(* ===== verification/Simple_Server.thy ===== *)
theory Simple_Server
  imports Messages
begin

text \<open>
  The memory server (\<^verbatim>\<open>src/src/server/SimpleServer.java\<close>): one byte array, read, written and
  compare-and-swapped by the seven operations, with three statistics counters and the table of
  loaded classes. \<open>serve\<close> is the entry point that the simulated network card calls. The class
  loader, the MD5 digest and the mobile code itself are not part of the repository's C++ or of
  this class, so they are the parameter record \<open>loader\<close>, whose outcomes are those that the server
  tells apart. \<open>heap_max\<close> is the largest array, in bytes, that the heap of the Java machine has room
  for: a request may name the size of the array that answers it.
\<close>

record 'c server =
  memory :: "nat \<Rightarrow> u8"
  memory_size :: nat
  heap_max :: nat
  stat_rd :: u64
  stat_wr :: u64
  stat_cas :: u64
  class_to_md5 :: "string \<rightharpoonup> bytes"
  md5_to_class :: "bytes \<rightharpoonup> 'c"

datatype 'c loading =
    Defined_Class 'c
  | LinkageError  \<comment> \<open>caught by \<open>_load\<close>\<close>
  | LoadThrows    \<comment> \<open>any other throwable, such as the \<open>SecurityException\<close> for a class of \<open>java.*\<close>\<close>

datatype running =
    Answers "u32 list"  \<comment> \<open>an \<open>Integer\<close> or an \<open>int[]\<close>\<close>
  | RunException         \<comment> \<open>an \<open>Exception\<close>, or a result of another type; caught by \<open>_run\<close>\<close>
  | RunThrows            \<comment> \<open>an \<open>Error\<close> of \<open>getMethod\<close> or \<open>invoke\<close>\<close>

record 'c loader =
  digest :: "bytes \<Rightarrow> bytes"
  loadMobileCode :: "(string \<rightharpoonup> bytes) \<Rightarrow> bytes \<Rightarrow> 'c loading"
  getName :: "'c \<Rightarrow> string"
  invoke :: "'c \<Rightarrow> u32 list option \<Rightarrow> 'c server \<Rightarrow> running \<times> 'c server"

section \<open>Memory access\<close>

text \<open>\<open>memory[address]\<close> for a Java \<open>int\<close> index: \<open>None\<close> is \<open>ArrayIndexOutOfBoundsException\<close>.\<close>

definition in_memory :: "'c server \<Rightarrow> u32 \<Rightarrow> bool" where
  "in_memory s a = (0 \<le> sint a \<and> sint a < int (memory_size s))"

definition get_cell :: "'c server \<Rightarrow> u32 \<Rightarrow> u8 option" where
  "get_cell s a = (if in_memory s a then Some (memory s (unat a)) else None)"

definition set_cell :: "u32 \<Rightarrow> u8 \<Rightarrow> 'c server \<Rightarrow> 'c server option" where
  "set_cell a b s = (if in_memory s a then Some (s\<lparr>memory := (memory s)(unat a := b)\<rparr>) else None)"

definition readW :: "'c server \<Rightarrow> u32 \<Rightarrow> u32 option" where
  "readW s a =
     (case get_cell s a of None \<Rightarrow> None | Some b0 \<Rightarrow>
      case get_cell s (a + 1) of None \<Rightarrow> None | Some b1 \<Rightarrow>
      case get_cell s (a + 2) of None \<Rightarrow> None | Some b2 \<Rightarrow>
      case get_cell s (a + 3) of None \<Rightarrow> None | Some b3 \<Rightarrow>
      Some (ucast b0 OR push_bit 8 (ucast b1 OR push_bit 8 (ucast b2 OR push_bit 8 (ucast b3)))))"

text \<open>
  Four assignments in order. The flag is False when one of them throws; the earlier ones have
  then already happened.
\<close>

fun set_cells :: "u32 \<Rightarrow> bytes \<Rightarrow> 'c server \<Rightarrow> bool \<times> 'c server" where
  "set_cells a [] s = (True, s)"
| "set_cells a (b # bs) s =
     (case set_cell a b s of None \<Rightarrow> (False, s) | Some s' \<Rightarrow> set_cells (a + 1) bs s')"

definition writeW :: "u32 \<Rightarrow> u32 \<Rightarrow> 'c server \<Rightarrow> bool \<times> 'c server" where
  "writeW a w s =
     set_cells a [ucast (w AND 0xff), ucast (drop_bit 8 w AND 0xff),
                  ucast (drop_bit 16 w AND 0xff), ucast (drop_bit 24 w AND 0xff)] s"

section \<open>Operations\<close>

definition out_of_bounds :: "u32 list option \<Rightarrow> result" where
  "out_of_bounds r = \<lparr>res_error = OUT_OF_BOUNDS, res_ints = r, res_bytes = None\<rparr>"

definition srv_cas :: "u32 \<Rightarrow> u32 \<Rightarrow> u32 \<Rightarrow> 'c server \<Rightarrow> result \<times> 'c server" where
  "srv_cas a t v s0 =
     (let s = s0\<lparr>stat_cas := stat_cas s0 + 1\<rparr> in
      case readW s a of
        None \<Rightarrow> (out_of_bounds (Some [a]), s)
      | Some old \<Rightarrow>
          (case (if old = t then writeW a v s else (True, s)) of
             (False, s') \<Rightarrow> (out_of_bounds (Some [a]), s')
           | (True, s') \<Rightarrow>
               (\<lparr>res_error = OK, res_ints = Some [if old = t then 1 else 0], res_bytes = None\<rparr>, s')))"

fun read_words :: "'c server \<Rightarrow> u32 \<Rightarrow> nat \<Rightarrow> u32 list option" where
  "read_words s a 0 = Some []"
| "read_words s a (Suc n) =
     (case readW s a of None \<Rightarrow> None | Some w \<Rightarrow>
        (case read_words s (a + 4) n of None \<Rightarrow> None | Some ws \<Rightarrow> Some (w # ws)))"

definition srv_r :: "u32 \<Rightarrow> u32 \<Rightarrow> 'c server \<Rightarrow> (java_exn + result) \<times> 'c server" where
  "srv_r a n s0 =
     (let s = s0\<lparr>stat_rd := stat_rd s0 + scast (4 * n)\<rparr> in
      if sint n < 0 then (Inl NegativeArraySize, s)
      else if heap_max s < 4 * unat n then (Inl OutOfMemoryError, s)
      else (case read_words s a (unat n) of
              None \<Rightarrow> (Inr (out_of_bounds None), s)
            | Some ws \<Rightarrow> (Inr \<lparr>res_error = OK, res_ints = Some ws, res_bytes = None\<rparr>, s)))"

fun swap_words :: "u32 \<Rightarrow> u32 list \<Rightarrow> 'c server \<Rightarrow> u32 list option \<times> 'c server" where
  "swap_words a [] s = (Some [], s)"
| "swap_words a (v # vs) s =
     (case readW s a of
        None \<Rightarrow> (None, s)
      | Some old \<Rightarrow>
          (case writeW a v s of
             (False, s') \<Rightarrow> (None, s')
           | (True, s') \<Rightarrow>
               (case swap_words (a + 4) vs s' of
                  (None, s'') \<Rightarrow> (None, s'')
                | (Some olds, s'') \<Rightarrow> (Some (old # olds), s''))))"

definition srv_w :: "u32 \<Rightarrow> u32 list option \<Rightarrow> 'c server \<Rightarrow> (java_exn + result) \<times> 'c server" where
  "srv_w a vals s0 =
     (case vals of
        None \<Rightarrow> (Inl NullPointer, s0)
      | Some vs \<Rightarrow>
          (let s = s0\<lparr>stat_wr := stat_wr s0 + scast (4 * (word_of_nat (length vs) :: u32))\<rparr> in
           case swap_words a vs s of
             (None, s') \<Rightarrow> (Inr (out_of_bounds None), s')
           | (Some olds, s') \<Rightarrow> (Inr \<lparr>res_error = OK, res_ints = Some olds, res_bytes = None\<rparr>, s')))"

fun read_cells :: "'c server \<Rightarrow> u32 \<Rightarrow> nat \<Rightarrow> bytes option" where
  "read_cells s a 0 = Some []"
| "read_cells s a (Suc n) =
     (case get_cell s a of None \<Rightarrow> None | Some b \<Rightarrow>
        (case read_cells s (a + 1) n of None \<Rightarrow> None | Some bs \<Rightarrow> Some (b # bs)))"

definition srv_readbytes :: "u32 \<Rightarrow> u32 \<Rightarrow> 'c server \<Rightarrow> (java_exn + result) \<times> 'c server" where
  "srv_readbytes a n s0 =
     (let s = s0\<lparr>stat_rd := stat_rd s0 + scast n\<rparr> in
      if sint n < 0 then (Inl NegativeArraySize, s)
      else if heap_max s < unat n then (Inl OutOfMemoryError, s)
      else (case read_cells s a (unat n) of
              None \<Rightarrow> (Inr (out_of_bounds None), s)
            | Some bs \<Rightarrow> (Inr \<lparr>res_error = OK, res_ints = None, res_bytes = Some bs\<rparr>, s)))"

definition srv_writebytes :: "u32 \<Rightarrow> bytes option \<Rightarrow> 'c server \<Rightarrow> (java_exn + result) \<times> 'c server" where
  "srv_writebytes a vals s0 =
     (case vals of
        None \<Rightarrow> (Inl NullPointer, s0)
      | Some bs \<Rightarrow>
          (let s = s0\<lparr>stat_wr := stat_wr s0 + scast (word_of_nat (length bs) :: u32)\<rparr> in
           case set_cells a bs s of
             (False, s') \<Rightarrow> (Inr (out_of_bounds None), s')
           | (True, s') \<Rightarrow> (Inr \<lparr>res_error = OK, res_ints = None, res_bytes = None\<rparr>, s')))"

section \<open>Mobile code\<close>

definition tableClassAndMd5 :: "'c loader \<Rightarrow> 'c \<Rightarrow> bytes \<Rightarrow> 'c server \<Rightarrow> bool \<times> 'c server" where
  "tableClassAndMd5 ld c code s =
     (if class_to_md5 s (getName ld c) = None
      then (True, s\<lparr>class_to_md5 := (class_to_md5 s)(getName ld c \<mapsto> digest ld code),
                    md5_to_class := (md5_to_class s)(digest ld code \<mapsto> c)\<rparr>)
      else (False, s))"

definition srv_load :: "'c loader \<Rightarrow> bytes \<Rightarrow> 'c server \<Rightarrow> (java_exn + result) \<times> 'c server" where
  "srv_load ld code s =
     (if md5_to_class s (digest ld code) \<noteq> None
      then (Inr \<lparr>res_error = OK, res_ints = Some [1], res_bytes = None\<rparr>, s)
      else (case loadMobileCode ld (class_to_md5 s) code of
              LoadThrows \<Rightarrow> (Inl OtherThrowable, s)
            | LinkageError \<Rightarrow> (Inr \<lparr>res_error = OK, res_ints = Some [0], res_bytes = None\<rparr>, s)
            | Defined_Class c \<Rightarrow>
                (case tableClassAndMd5 ld c code s of
                   (fresh, s') \<Rightarrow>
                     (Inr \<lparr>res_error = OK, res_ints = Some [if fresh then 1 else 0], res_bytes = None\<rparr>, s'))))"

definition srv_run :: "'c loader \<Rightarrow> bytes \<Rightarrow> u32 list option \<Rightarrow> 'c server \<Rightarrow> (java_exn + result) \<times> 'c server" where
  "srv_run ld h arg s =
     (case md5_to_class s h of
        None \<Rightarrow> (Inr \<lparr>res_error = ERROR, res_ints = Some [-1], res_bytes = None\<rparr>, s)
      | Some c \<Rightarrow>
          (case invoke ld c arg s of
             (RunThrows, s') \<Rightarrow> (Inl OtherThrowable, s')
           | (RunException, s') \<Rightarrow> (Inr \<lparr>res_error = ERROR, res_ints = Some [-1], res_bytes = None\<rparr>, s')
           | (Answers is, s') \<Rightarrow> (Inr \<lparr>res_error = OK, res_ints = Some is, res_bytes = None\<rparr>, s')))"

section \<open>Requests\<close>

fun visit :: "'c loader \<Rightarrow> operation \<Rightarrow> 'c server \<Rightarrow> (java_exn + result) \<times> 'c server" where
  "visit ld (Read a n) s = srv_r a n s"
| "visit ld (Write a vs) s = srv_w a vs s"
| "visit ld (CAS a t v) s = (case srv_cas a t v s of (r, s') \<Rightarrow> (Inr r, s'))"
| "visit ld (Run h arg) s = srv_run ld h arg s"
| "visit ld (Load c) s = srv_load ld c s"
| "visit ld (ReadBytes a n) s = srv_readbytes a n s"
| "visit ld (WriteBytes a d) s = srv_writebytes a d s"

text \<open>
  \<open>serve\<close> catches only \<open>IOException\<close>, of which the end of the stream is the one that can occur,
  and returns null for it; any other exception reaches the caller.
\<close>

datatype served = Reply bytes | Null | Throws java_exn

definition serve :: "'c loader \<Rightarrow> bytes \<Rightarrow> 'c server \<Rightarrow> served \<times> 'c server" where
  "serve ld inBytes s =
     (case read_op inBytes of
        Inl (EOFException, _) \<Rightarrow> (Null, s)
      | Inl (e, _) \<Rightarrow> (Throws e, s)
      | Inr (op, _) \<Rightarrow>
          (case visit ld op s of
             (Inl e, s') \<Rightarrow> (Throws e, s')
           | (Inr r, s') \<Rightarrow> (Reply (write_result r), s')))"

definition getStat :: "'c server \<Rightarrow> nat \<Rightarrow> u64" where
  "getStat s k = (if k = 0 then stat_rd s else if k = 1 then stat_wr s
                  else if k = 2 then stat_cas s else 0)"

text \<open>
  The constructor: \<open>new byte[memory_size]\<close> is zeroed, \<open>Alloc.init\<close> writes 4 to the word at
  address 0, and the counters are reset afterwards.
\<close>

definition zero_server :: "nat \<Rightarrow> nat \<Rightarrow> 'c server" where
  "zero_server n h = \<lparr>memory = (\<lambda>_. 0), memory_size = n, heap_max = h, stat_rd = 0, stat_wr = 0, stat_cas = 0,
                    class_to_md5 = Map.empty, md5_to_class = Map.empty\<rparr>"

definition new_server :: "nat \<Rightarrow> nat \<Rightarrow> 'c server" where
  "new_server n h = (snd (srv_w 0 (Some [4]) (zero_server n h)))\<lparr>stat_rd := 0, stat_wr := 0, stat_cas := 0\<rparr>"

section \<open>The operations inside the memory\<close>

text \<open>
  A Java array is shorter than \<open>2 ^ 31\<close>, so an in-range \<open>int\<close> index is its unsigned value, and
  reading and writing words are block operations on the memory. The heap has room for one word.
\<close>

definition in_range :: "'c server \<Rightarrow> u32 \<Rightarrow> nat \<Rightarrow> bool" where
  "in_range s a n = (unat a + n \<le> memory_size s)"

definition server_ok :: "'c server \<Rightarrow> bool" where
  "server_ok s = (4 \<le> memory_size s \<and> memory_size s < 2 ^ 31 \<and> 4 \<le> heap_max s)"

lemma heap_word: "server_ok s \<Longrightarrow> 4 \<le> heap_max s"
  by (simp add: server_ok_def)

lemma in_memory_iff:
  assumes "memory_size s \<le> 2 ^ 31"
  shows "in_memory s a \<longleftrightarrow> unat a < memory_size s"
proof -
  have "unat a < memory_size s \<longleftrightarrow> uint a < int (memory_size s)"
    using of_nat_less_iff [of "unat a" "memory_size s", where ?'a = int] by simp
  moreover have "0 \<le> uint a" "uint a < 2 ^ 32" using uint_lt2p [of a] by simp_all
  ultimately show ?thesis using assms unfolding in_memory_def sint_u32 by auto
qed

lemma le_word32: "ucast (b0::u8) OR push_bit 8 (ucast b1 OR push_bit 8 (ucast b2 OR push_bit 8 (ucast b3)))
   = (word_of_nat (le_nat [b0,b1,b2,b3]) :: u32)"
proof -
  have or8: "(ucast (b::u8) :: u32) OR push_bit 8 w = ucast b + 256 * w" for b w
  proof -
    have "(ucast b :: u32) AND push_bit 8 w = 0"
      by (rule bit_word_eqI) (auto simp: bit_simps dest: bit_imp_le_length)
    then have "(ucast (b::u8) :: u32) OR push_bit 8 w = ucast b + push_bit 8 w"
      by (rule disjunctive_add_eq_or [symmetric])
    then show ?thesis by (simp add: push_bit_eq_mult)
  qed
  show ?thesis unfolding or8 by (simp add: algebra_simps)
qed
lemma le_word32_bytes:
  "[ucast (w AND 0xff), ucast (drop_bit 8 w AND 0xff), ucast (drop_bit 16 w AND 0xff),
    ucast (drop_bit 24 w AND 0xff)] = le_bytes 4 (unat (w :: u32))"
proof -
  have *: "ucast (drop_bit k w AND 0xff) = (word_of_nat (unat w div 2 ^ k) :: u8)" for k
  proof -
    have "ucast (drop_bit k w AND 0xff) = (ucast (drop_bit k w) :: u8)"
      by (rule bit_word_eqI) (auto simp: bit_simps and_0xff)
    also have "\<dots> = word_of_nat (unat (drop_bit k w))" by (rule of_nat_unat [symmetric])
    also have "\<dots> = word_of_nat (drop_bit k (unat w))" by (simp only: unat_drop_bit_eq)
    finally show ?thesis by (simp only: drop_bit_eq_div [where ?'a = nat])
  qed
  from * [of 0] * [of 8] * [of 16] * [of 24] show ?thesis
    by (simp add: div_mult2_eq [symmetric])
qed

lemma get_cell_in:
  "server_ok s \<Longrightarrow> unat a + k < memory_size s \<Longrightarrow> get_cell s (a + word_of_nat k) = Some (memory s (unat a + k))"
  by (simp add: get_cell_def in_memory_iff server_ok_def unat_add_small)

lemma set_cell_in:
  "server_ok s \<Longrightarrow> unat a < memory_size s \<Longrightarrow> set_cell a b s = Some (s\<lparr>memory := (memory s)(unat a := b)\<rparr>)"
  by (simp add: set_cell_def in_memory_iff server_ok_def)

lemma get_cell_out: "server_ok s \<Longrightarrow> memory_size s \<le> unat a \<Longrightarrow> get_cell s a = None"
  by (simp add: get_cell_def in_memory_iff server_ok_def)

lemma set_cells_in:
  "server_ok s \<Longrightarrow> in_range s a (length bs) \<Longrightarrow>
   set_cells a bs s = (True, s\<lparr>memory := blit (unat a) bs (memory s)\<rparr>)"
proof (induction bs arbitrary: a s)
  case Nil
  show ?case by simp
next
  case (Cons b bs)
  let ?s = "s\<lparr>memory := (memory s)(unat a := b)\<rparr>"
  from Cons.prems have lt: "unat a < memory_size s" and ok: "server_ok ?s"
    by (simp_all add: in_range_def server_ok_def)
  show ?case
  proof (cases bs)
    case Nil
    with lt Cons.prems show ?thesis by (simp add: set_cell_in blit_Cons fun_upd_def)
  next
    case (Cons c cs)
    then have "unat (a + 1) = unat a + 1"
      using Cons.prems unat_add_small [of a 1] by (simp add: in_range_def server_ok_def)
    moreover from this Cons.prems have "in_range ?s (a + 1) (length bs)"
      by (simp add: in_range_def)
    ultimately show ?thesis
      using Cons.IH [OF ok] lt Cons.prems by (simp add: set_cell_in blit_Cons fun_upd_def)
  qed
qed

lemma readW_in:
  assumes "server_ok s" and "in_range s a 4"
  shows "readW s a = Some (word_of_nat (le_nat (block (memory s) (unat a) 4)))"
proof -
  have "block (memory s) (unat a) 4 = [memory s (unat a), memory s (unat a + 1), memory s (unat a + 2), memory s (unat a + 3)]"
    by (simp add: block_def upt_rec numeral_eq_Suc)
  then show ?thesis
    using assms get_cell_in [of s a 0] get_cell_in [of s a 1] get_cell_in [of s a 2] get_cell_in [of s a 3]
    unfolding readW_def in_range_def by (simp add: le_word32 [symmetric] del: push_bit_or le_nat.simps)
qed

lemma readW_out:
  assumes "server_ok s" and "\<not> in_range s a 4"
  shows "readW s a = None"
proof (cases "unat a < memory_size s")
  case False
  with assms show ?thesis by (simp add: readW_def get_cell_out)
next
  case True
  with assms(2) obtain k where k: "k \<le> 3" "unat a + k = memory_size s"
    by (intro that [of "memory_size s - unat a"]) (auto simp: in_range_def)
  then have "get_cell s (a + word_of_nat k) = None"
    using assms(1) by (intro get_cell_out) (simp_all add: server_ok_def unat_add_small)
  moreover have "k = 1 \<or> k = 2 \<or> k = 3" using k True by auto
  ultimately show ?thesis by (auto simp: readW_def split: option.splits)
qed

lemma writeW_in:
  assumes "server_ok s" and "in_range s a 4"
  shows "writeW a w s = (True, s\<lparr>memory := blit (unat a) (le_bytes 4 (unat w)) (memory s)\<rparr>)"
  unfolding writeW_def le_word32_bytes using assms by (intro set_cells_in) (simp_all only: length_le_bytes)

lemma in_range_stat [simp]: "in_range (s\<lparr>stat_rd := x\<rparr>) = in_range s" "in_range (s\<lparr>stat_wr := x\<rparr>) = in_range s"
  "in_range (s\<lparr>stat_cas := x\<rparr>) = in_range s" "in_range (s\<lparr>memory := m\<rparr>) = in_range s"
  by (auto simp: in_range_def fun_eq_iff)

lemma server_ok_upd [simp]: "server_ok (s\<lparr>stat_rd := x\<rparr>) = server_ok s" "server_ok (s\<lparr>stat_wr := x\<rparr>) = server_ok s"
  "server_ok (s\<lparr>stat_cas := x\<rparr>) = server_ok s" "server_ok (s\<lparr>memory := m\<rparr>) = server_ok s"
  by (auto simp: server_ok_def)

text \<open>The word at an address, as the operations see it.\<close>

definition word_at :: "(nat \<Rightarrow> u8) \<Rightarrow> nat \<Rightarrow> u32" where
  "word_at m i = word_of_nat (le_nat (block m i 4))"

definition words_at :: "(nat \<Rightarrow> u8) \<Rightarrow> nat \<Rightarrow> nat \<Rightarrow> u32 list" where
  "words_at m i n = map (\<lambda>k. word_at m (i + 4 * k)) [0 ..< n]"

definition word_bytes :: "u32 list \<Rightarrow> bytes" where
  "word_bytes vs = concat (map (\<lambda>v. le_bytes 4 (unat v)) vs)"

lemma word_bytes_simps [simp]: "word_bytes [] = []" "word_bytes (v # vs) = le_bytes 4 (unat v) @ word_bytes vs"
  by (simp_all add: word_bytes_def)

lemma length_word_bytes [simp]: "length (word_bytes vs) = 4 * length vs"
  by (induction vs) simp_all

lemma words_at_Suc: "words_at m i (Suc n) = word_at m i # words_at m (i + 4) n"
  by (simp add: words_at_def upt_rec [of 0] map_Suc_upt [symmetric] comp_def algebra_simps del: upt_Suc)

lemma word_at_blit_same: "word_at (blit i (le_bytes 4 (unat v)) m) i = v"
proof -
  have "block (blit i (le_bytes 4 (unat v)) m) i 4 = le_bytes 4 (unat v)"
    using block_blit_same [of i "le_bytes 4 (unat v)" m] by (simp only: length_le_bytes)
  then show ?thesis using unsigned_less [of v, where ?'a = nat] by (simp only: word_at_def le_nat_le_bytes) simp
qed

lemma word_at_blit_other: "i + length bs \<le> j \<or> j + 4 \<le> i \<Longrightarrow> word_at (blit i bs m) j = word_at m j"
  by (simp add: word_at_def block_blit_disjoint)

lemma words_at_blit_other: "i + length bs \<le> j \<or> j + 4 * n \<le> i \<Longrightarrow> words_at (blit i bs m) j n = words_at m j n"
  by (auto simp: words_at_def intro!: word_at_blit_other)

lemma words_at_blit_words: "words_at (blit i (word_bytes vs) m) i (length vs) = vs"
proof (induction vs arbitrary: i m)
  case Nil
  show ?case by (simp add: words_at_def)
next
  case (Cons v vs)
  have "blit i (word_bytes (v # vs)) m = blit (i + 4) (word_bytes vs) (blit i (le_bytes 4 (unat v)) m)"
    by (simp only: word_bytes_simps blit_append length_le_bytes)
  then show ?case using Cons
    by (simp only: length_Cons words_at_Suc word_at_blit_other word_at_blit_same) (simp add: word_at_blit_other word_at_blit_same del: le_bytes_numeral)
qed

lemma unat_plus4:
  assumes "server_ok s" and "in_range s a (4 * Suc (Suc n))"
  shows "unat (a + 4) = unat a + 4"
  using assms unat_add_small [of a 4] by (simp add: in_range_def server_ok_def)

lemma read_words_in:
  "server_ok s \<Longrightarrow> in_range s a (4 * n) \<Longrightarrow> read_words s a n = Some (words_at (memory s) (unat a) n)"
proof (induction n arbitrary: a)
  case 0
  show ?case by (simp add: words_at_def)
next
  case (Suc n)
  have w: "readW s a = Some (word_at (memory s) (unat a))"
    using Suc.prems by (simp add: readW_in in_range_def word_at_def)
  show ?case
  proof (cases n)
    case 0
    with w show ?thesis by (simp add: words_at_Suc) (simp add: words_at_def)
  next
    case (Suc k)
    with Suc.prems have u: "unat (a + 4) = unat a + 4" by (intro unat_plus4) auto
    then have "in_range s (a + 4) (4 * n)" using Suc.prems by (simp add: in_range_def)
    with Suc.IH Suc.prems w u show ?thesis by (simp add: words_at_Suc)
  qed
qed

lemma swap_words_in:
  "server_ok s \<Longrightarrow> in_range s a (4 * length vs) \<Longrightarrow>
   swap_words a vs s = (Some (words_at (memory s) (unat a) (length vs)),
                        s\<lparr>memory := blit (unat a) (word_bytes vs) (memory s)\<rparr>)"
proof (induction vs arbitrary: a s)
  case Nil
  show ?case by (simp add: words_at_def)
next
  case (Cons v vs)
  let ?s = "s\<lparr>memory := blit (unat a) (le_bytes 4 (unat v)) (memory s)\<rparr>"
  have four: "in_range s a 4" using Cons.prems by (simp add: in_range_def)
  have w: "readW s a = Some (word_at (memory s) (unat a))" and wr: "writeW a v s = (True, ?s)"
    using Cons.prems(1) four by (simp_all add: readW_in word_at_def writeW_in del: le_bytes_numeral)
  show ?case
  proof (cases vs)
    case Nil
    with w wr show ?thesis by (simp add: words_at_Suc del: le_bytes_numeral) (simp add: words_at_def)
  next
    case (Cons u us)
    with Cons.prems have u: "unat (a + 4) = unat a + 4" by (intro unat_plus4) auto
    then have "in_range ?s (a + 4) (4 * length vs)" using Cons.prems by (simp add: in_range_def)
    with Cons.IH [of ?s "a + 4"] Cons.prems w wr u show ?thesis
      by (simp add: words_at_Suc words_at_blit_other blit_append del: le_bytes_numeral)
  qed
qed

lemma read_words_out:
  assumes "server_ok s" and "\<not> in_range s a (4 * n)" and "0 < n"
  shows "read_words s a n = None"
  using assms(2,3)
proof (induction n arbitrary: a)
  case 0
  then show ?case by simp
next
  case (Suc n)
  show ?case
  proof (cases "in_range s a 4")
    case False
    then show ?thesis using assms(1) by (simp add: readW_out)
  next
    case True
    with Suc.prems have "0 < n" by (cases n) simp_all
    moreover have "\<not> in_range s (a + 4) (4 * n)"
    proof
      assume r: "in_range s (a + 4) (4 * n)"
      have "unat (a + 4) = unat a + 4"
        using True assms(1) unat_add_small [of a 4] by (simp add: in_range_def server_ok_def)
      with r Suc.prems show False by (simp add: in_range_def)
    qed
    ultimately show ?thesis using Suc.IH True assms(1) by (simp add: readW_in)
  qed
qed

lemma swap_words_out:
  assumes "server_ok s" and "\<not> in_range s a (4 * length vs)" and "vs \<noteq> []"
  shows "fst (swap_words a vs s) = None"
  using assms
proof (induction vs arbitrary: a s)
  case Nil
  then show ?case by simp
next
  case (Cons v vs)
  show ?case
  proof (cases "in_range s a 4")
    case False
    then show ?thesis using Cons.prems(1) by (simp add: readW_out)
  next
    case True
    let ?s = "s\<lparr>memory := blit (unat a) (le_bytes 4 (unat v)) (memory s)\<rparr>"
    from True Cons.prems have ne: "vs \<noteq> []" by (cases vs) simp_all
    have "\<not> in_range ?s (a + 4) (4 * length vs)"
    proof
      assume r: "in_range ?s (a + 4) (4 * length vs)"
      have "unat (a + 4) = unat a + 4"
        using True Cons.prems(1) unat_add_small [of a 4] by (simp add: in_range_def server_ok_def)
      with r Cons.prems show False by (simp add: in_range_def)
    qed
    then have "fst (swap_words (a + 4) vs ?s) = None"
      using Cons.IH [of ?s "a + 4"] Cons.prems(1) ne by simp
    with True Cons.prems(1) show ?thesis
      by (auto simp: readW_in writeW_in simp del: le_bytes_numeral split: prod.splits option.splits)
  qed
qed

lemma read_cells_in:
  "server_ok s \<Longrightarrow> in_range s a n \<Longrightarrow> read_cells s a n = Some (block (memory s) (unat a) n)"
proof (induction n arbitrary: a)
  case 0
  show ?case by (simp add: block_def)
next
  case (Suc n)
  have c: "get_cell s a = Some (memory s (unat a))"
    using Suc.prems get_cell_in [of s a 0] by (simp add: in_range_def)
  have b: "block (memory s) (unat a) (Suc n) = memory s (unat a) # block (memory s) (Suc (unat a)) n"
    by (simp add: block_def upt_rec)
  show ?case
  proof (cases n)
    case 0
    with c b show ?thesis by (simp add: block_def)
  next
    case (Suc k)
    with Suc.prems have u: "unat (a + 1) = unat a + 1"
      using unat_add_small [of a 1] by (simp add: in_range_def server_ok_def)
    then have "in_range s (a + 1) n" using Suc.prems by (simp add: in_range_def)
    with Suc.IH Suc.prems c b u show ?thesis by simp
  qed
qed

text \<open>The server memory is a flat memory for block stores.\<close>

definition mem_store :: "nat \<Rightarrow> bytes \<Rightarrow> 'c server \<Rightarrow> 'c server" where
  "mem_store base bs s = s\<lparr>memory := blit base bs (memory s)\<rparr>"

interpretation server_mem: flat_memory memory mem_store memory_size
  by unfold_locales (simp_all add: mem_store_def)

lemma srv_cas_in:
  assumes "server_ok s" and "in_range s a 4"
  shows "srv_cas a t v s =
    (\<lparr>res_error = OK, res_ints = Some [if word_at (memory s) (unat a) = t then 1 else 0], res_bytes = None\<rparr>,
     (if word_at (memory s) (unat a) = t then mem_store (unat a) (le_bytes 4 (unat v)) s else s)
       \<lparr>stat_cas := stat_cas s + 1\<rparr>)"
  using assms by (simp add: srv_cas_def readW_in word_at_def writeW_in mem_store_def Let_def del: le_bytes_numeral)

lemma srv_cas_out:
  assumes "server_ok s" and "\<not> in_range s a 4"
  shows "srv_cas a t v s = (out_of_bounds (Some [a]), s\<lparr>stat_cas := stat_cas s + 1\<rparr>)"
  using assms by (simp add: srv_cas_def readW_out Let_def)

lemma srv_r_in:
  assumes "server_ok s" and "in_range s a (4 * unat n)" and "0 \<le> sint n" and "4 * unat n \<le> heap_max s"
  shows "srv_r a n s = (Inr \<lparr>res_error = OK, res_ints = Some (words_at (memory s) (unat a) (unat n)), res_bytes = None\<rparr>,
     s\<lparr>stat_rd := stat_rd s + scast (4 * n)\<rparr>)"
proof -
  have "memory (s\<lparr>stat_rd := x\<rparr>) = memory s" for x by simp
  with assms show ?thesis by (simp add: srv_r_def read_words_in Let_def)
qed

lemma srv_r_out:
  assumes "server_ok s" and "\<not> in_range s a (4 * unat n)" and "0 < sint n" and "4 * unat n \<le> heap_max s"
  shows "srv_r a n s = (Inr (out_of_bounds None), s\<lparr>stat_rd := stat_rd s + scast (4 * n)\<rparr>)"
proof -
  from assms(3) have "n \<noteq> 0" by auto
  then have "0 < unat n" by (simp add: unat_gt_0)
  with assms show ?thesis by (simp add: srv_r_def read_words_out Let_def)
qed

lemma srv_w_in:
  assumes "server_ok s" and "in_range s a (4 * length vs)"
  shows "srv_w a (Some vs) s =
    (Inr \<lparr>res_error = OK, res_ints = Some (words_at (memory s) (unat a) (length vs)), res_bytes = None\<rparr>,
     (mem_store (unat a) (word_bytes vs) s)\<lparr>stat_wr := stat_wr s + scast (4 * (word_of_nat (length vs) :: u32))\<rparr>)"
  using assms by (simp add: srv_w_def swap_words_in Let_def mem_store_def)

lemma srv_readbytes_in:
  assumes "server_ok s" and "in_range s a (unat n)" and "0 \<le> sint n" and "unat n \<le> heap_max s"
  shows "srv_readbytes a n s = (Inr \<lparr>res_error = OK, res_ints = None, res_bytes = Some (block (memory s) (unat a) (unat n))\<rparr>,
     s\<lparr>stat_rd := stat_rd s + scast n\<rparr>)"
  using assms by (simp add: srv_readbytes_def read_cells_in Let_def)

lemma srv_writebytes_in:
  assumes "server_ok s" and "in_range s a (length bs)"
  shows "srv_writebytes a (Some bs) s = (Inr \<lparr>res_error = OK, res_ints = None, res_bytes = None\<rparr>,
     (mem_store (unat a) bs s)\<lparr>stat_wr := stat_wr s + scast (word_of_nat (length bs) :: u32)\<rparr>)"
  using assms by (simp add: srv_writebytes_def set_cells_in Let_def mem_store_def)

lemma mem_store_simps [simp]:
  "memory_size (mem_store i bs s) = memory_size s" "server_ok (mem_store i bs s) = server_ok s"
  "heap_max (mem_store i bs s) = heap_max s" "in_range (mem_store i bs s) = in_range s" "memory (mem_store i bs s) = blit i bs (memory s)"
  by (simp_all add: mem_store_def)

lemma new_server_eq:
  assumes "4 \<le> n" and "n < 2 ^ 31" and "4 \<le> h"
  shows "(new_server n h :: 'c server) = mem_store 0 (le_bytes 4 4) (zero_server n h)"
proof -
  have "server_ok (zero_server n h :: 'c server)" "in_range (zero_server n h :: 'c server) 0 (4 * length [4 :: u32])"
    using assms by (simp_all add: server_ok_def zero_server_def in_range_def)
  from srv_w_in [OF this] show ?thesis
    by (simp only: new_server_def word_bytes_simps) (simp add: zero_server_def mem_store_def)
qed

lemma server_ok_new: "4 \<le> n \<Longrightarrow> n < 2 ^ 31 \<Longrightarrow> 4 \<le> h \<Longrightarrow> server_ok (new_server n h)"
  by (simp add: new_server_eq) (simp add: server_ok_def zero_server_def)

lemma new_server_counter: "4 \<le> n \<Longrightarrow> n < 2 ^ 31 \<Longrightarrow> 4 \<le> h \<Longrightarrow> word_at (memory (new_server n h)) 0 = 4"
  using word_at_blit_same [of 0 4] by (simp add: new_server_eq)

text \<open>
  What escapes from an operation: a size below zero or beyond the heap, a null array, and what
  loading or running code throws that the handlers do not catch.
\<close>

definition size_raises :: "u32 \<Rightarrow> nat \<Rightarrow> nat \<Rightarrow> java_exn option" where
  "size_raises n bytes room = (if sint n < 0 then Some NegativeArraySize
     else if room < bytes * unat n then Some OutOfMemoryError else None)"

fun op_raises :: "'c loader \<Rightarrow> 'c server \<Rightarrow> operation \<Rightarrow> java_exn option" where
  "op_raises ld s (Read a n) = size_raises n 4 (heap_max s)"
| "op_raises ld s (ReadBytes a n) = size_raises n 1 (heap_max s)"
| "op_raises ld s (Write a vs) = (if vs = None then Some NullPointer else None)"
| "op_raises ld s (WriteBytes a d) = (if d = None then Some NullPointer else None)"
| "op_raises ld s (CAS a t v) = None"
| "op_raises ld s (Load c) =
     (if md5_to_class s (digest ld c) = None \<and> loadMobileCode ld (class_to_md5 s) c = LoadThrows
      then Some OtherThrowable else None)"
| "op_raises ld s (Run h arg) =
     (case md5_to_class s h of None \<Rightarrow> None
      | Some c \<Rightarrow> if fst (invoke ld c arg s) = RunThrows then Some OtherThrowable else None)"

lemma visit_raises: "(\<exists>e s'. visit ld op s = (Inl e, s') \<and> op_raises ld s op = Some e) \<or>
    (\<exists>r s'. visit ld op s = (Inr r, s') \<and> op_raises ld s op = None)"
proof (cases op)
  case (Load c)
  then show ?thesis
    by (cases "loadMobileCode ld (class_to_md5 s) c") (auto simp: srv_load_def split: prod.splits)
next
  case (Run h arg)
  then show ?thesis
    by (cases "md5_to_class s h") (auto simp: srv_run_def split: prod.splits running.splits)
qed (auto simp: srv_r_def srv_w_def srv_readbytes_def srv_writebytes_def size_raises_def Let_def
      split: option.splits prod.splits bool.splits)

lemma serve_op:
  assumes "op_ok op"
  shows "serve ld (write_op op @ junk) s =
    (case visit ld op s of
       (Inl e, s') \<Rightarrow> (Throws e, s')
     | (Inr r, s') \<Rightarrow> (Reply (write_result r), s'))"
  using assms by (simp add: serve_def op_codec.get_put)

section \<open>Properties\<close>

lemma zero_server_ok: "server_ok (zero_server 64 1024)" "memory_size (zero_server 64 1024) = 64"
  "heap_max (zero_server 64 1024) = 1024"
  by (simp_all add: server_ok_def zero_server_def)

text \<open>A class loader that loads nothing, for the examples.\<close>

definition no_code :: "unit loader" where
  "no_code = \<lparr>digest = (\<lambda>bs. bs), loadMobileCode = (\<lambda>_ _. LinkageError), getName = (\<lambda>_. ''''), invoke = (\<lambda>_ _ s. (RunException, s))\<rparr>"

text \<open>
  A compare-and-swap inside the memory answers whether the word had the expected value, stores the
  new value exactly then, and changes no other byte.
\<close>

theorem cas_atomic:
  assumes "server_ok s" and "unat a + 4 \<le> memory_size s" and "unat a + 4 \<le> i \<or> i < unat a"
  shows "case srv_cas a t v s of (r, s') \<Rightarrow>
    res_error r = OK \<and>
    res_ints r = Some [if word_at (memory s) (unat a) = t then 1 else 0] \<and>
    word_at (memory s') (unat a) = (if word_at (memory s) (unat a) = t then v else word_at (memory s) (unat a)) \<and>
    memory s' i = memory s i \<and> stat_cas s' = stat_cas s + 1"
proof -
  have "blit (unat a) (le_bytes 4 (unat v)) (memory s) i = memory s i"
    using assms(3) by (intro blit_outside) auto
  with assms show ?thesis
    by (simp add: srv_cas_in in_range_def word_at_blit_same del: le_bytes_numeral)
qed

lemma cas_atomic_witness:
  "case srv_cas 8 0 7 (zero_server 64 1024 :: unit server) of (r, s') \<Rightarrow>
    res_error r = OK \<and>
    res_ints r = Some [if word_at (memory (zero_server 64 1024 :: unit server)) (unat (8 :: u32)) = 0 then 1 else 0] \<and>
    word_at (memory s') (unat (8 :: u32)) =
      (if word_at (memory (zero_server 64 1024 :: unit server)) (unat (8 :: u32)) = 0 then 7
       else word_at (memory (zero_server 64 1024 :: unit server)) (unat (8 :: u32))) \<and>
    memory s' 12 = memory (zero_server 64 1024 :: unit server) 12 \<and>
    stat_cas s' = stat_cas (zero_server 64 1024 :: unit server) + 1"
  by (rule cas_atomic) (simp_all add: zero_server_ok)


text \<open>
  Writing words inside the memory answers with the words they replace, and reading them afterwards
  gives the written words back.
\<close>

theorem write_then_read:
  assumes "server_ok s" and "unat a + 4 * length vs \<le> memory_size s" and "4 * length vs \<le> heap_max s"
  shows "case srv_w a (Some vs) s of (r, s') \<Rightarrow>
     (\<exists>old. r = Inr old \<and> res_error old = OK \<and> res_ints old = Some (words_at (memory s) (unat a) (length vs))) \<and>
     (\<exists>s''. srv_r a (word_of_nat (length vs)) s' =
        (Inr \<lparr>res_error = OK, res_ints = Some vs, res_bytes = None\<rparr>, s''))"
proof -
  have "length vs < 2 ^ 31" using assms by (simp add: server_ok_def)
  note small_length_word [OF this]
  moreover have "in_range s a (4 * length vs)" using assms by (simp add: in_range_def)
  ultimately show ?thesis using assms(1,3)
    by (simp add: srv_w_in srv_r_in words_at_blit_words)
qed

lemma write_then_read_witness:
  "case srv_w 8 (Some [1, 2]) (zero_server 64 1024 :: unit server) of (r, s') \<Rightarrow>
     (\<exists>old. r = Inr old \<and> res_error old = OK \<and>
        res_ints old = Some (words_at (memory (zero_server 64 1024 :: unit server)) (unat (8 :: u32)) (length [1, 2 :: u32]))) \<and>
     (\<exists>s''. srv_r 8 (word_of_nat (length [1, 2 :: u32])) s' =
        (Inr \<lparr>res_error = OK, res_ints = Some [1, 2], res_bytes = None\<rparr>, s''))"
  by (rule write_then_read) (simp_all add: zero_server_ok)


lemma cas_example: "visit no_code (CAS 8 0 7) (zero_server 64 1024) =
    (Inr \<lparr>res_error = OK, res_ints = Some [1], res_bytes = None\<rparr>, snd (srv_cas 8 0 7 (zero_server 64 1024)))"
proof -
  have z: "word_at (memory (zero_server 64 1024 :: unit server)) (unat (8 :: u32)) = 0"
    by (simp add: zero_server_def word_at_def block_def upt_rec)
  have r: "in_range (zero_server 64 1024 :: unit server) 8 4" by (simp add: in_range_def zero_server_def)
  show ?thesis using srv_cas_in [OF zero_server_ok(1) r, of 0 7] z by (simp split: prod.split)
qed

text \<open>
  C36. A request in the wire format, whatever follows it in the packet, is decoded to its operation and
  executed once, and the reply decodes to the operation's result.
\<close>

theorem exchange_roundtrip:
  assumes "op_ok op" and "visit ld op s = (Inr r, s')" and "result_ok r"
  shows "\<exists>reply. serve ld (write_op op @ junk) s = (Reply reply, s') \<and>
     read_result (reply @ junk') = Inr (r, junk')"
  using assms by (simp add: serve_op result_codec.get_put)

lemma exchange_roundtrip_witness:
  "\<exists>reply. serve no_code (write_op (CAS 8 0 7) @ [0]) (zero_server 64 1024) =
       (Reply reply, snd (srv_cas 8 0 7 (zero_server 64 1024))) \<and>
     read_result (reply @ [1]) = Inr (\<lparr>res_error = OK, res_ints = Some [1], res_bytes = None\<rparr>, [1])"
  by (rule exchange_roundtrip [OF _ cas_example]) (simp_all add: result_ok_def array_ok_def)


text \<open>
  C39. A well-formed request is answered, unless it reads a negative number of words or bytes
  (\<open>NegativeArraySize\<close>) or more than the heap has room for (\<open>OutOfMemoryError\<close>), writes a null array
  (\<open>NullPointer\<close>), loads code whose loading throws something other than a \<open>LinkageError\<close>, or runs
  code that throws an \<open>Error\<close> from the call itself: then, and only then, that exception escapes from
  \<open>serve\<close>. The heap is taken to have room for the arrays that the request itself carries.
\<close>

theorem serve_exceptions:
  assumes "op_ok op"
  shows "case op_raises ld s op of
            Some e \<Rightarrow> \<exists>s'. serve ld (write_op op @ junk) s = (Throws e, s')
          | None \<Rightarrow> \<exists>reply s'. serve ld (write_op op @ junk) s = (Reply reply, s')"
  using visit_raises [of ld op s] assms by (auto simp: serve_op)

lemma serve_exceptions_witness:
  "\<exists>s'. serve no_code (write_op (Read 8 (-1)) @ [0]) (zero_server 64 1024 :: unit server) = (Throws NegativeArraySize, s')"
proof -
  have "op_raises no_code (zero_server 64 1024 :: unit server) (Read 8 (-1)) = Some NegativeArraySize"
    by (simp add: size_raises_def)
  with serve_exceptions [where op = "Read 8 (-1)" and ld = no_code and s = "zero_server 64 1024 :: unit server" and junk = "[0]"] show ?thesis by simp
qed


text \<open>
  Bytes written inside the memory are the bytes read back from it.
\<close>

theorem writebytes_then_readbytes:
  assumes "server_ok s" and "unat a + length bs \<le> memory_size s" and "length bs \<le> heap_max s"
  shows "\<exists>r s' s''. srv_writebytes a (Some bs) s = (Inr r, s') \<and> res_error r = OK \<and>
     srv_readbytes a (word_of_nat (length bs)) s' =
        (Inr \<lparr>res_error = OK, res_ints = None, res_bytes = Some bs\<rparr>, s'')"
proof -
  have "length bs < 2 ^ 31" using assms by (simp add: server_ok_def)
  note small_length_word [OF this]
  moreover have "in_range s a (length bs)" using assms by (simp add: in_range_def)
  ultimately show ?thesis using assms(1,3)
    by (simp add: srv_writebytes_in srv_readbytes_in block_blit_same)
qed

lemma writebytes_then_readbytes_witness:
  "\<exists>r s' s''. srv_writebytes 8 (Some [1, 2, 3]) (zero_server 64 1024 :: unit server) = (Inr r, s') \<and> res_error r = OK \<and>
     srv_readbytes 8 (word_of_nat (length [1, 2, 3 :: u8])) s' =
        (Inr \<lparr>res_error = OK, res_ints = None, res_bytes = Some [1, 2, 3]\<rparr>, s'')"
  by (rule writebytes_then_readbytes) (simp_all add: zero_server_ok)

text \<open>
  A compare-and-swap or read of a word that does not lie inside the memory is answered with
  \<open>OUT_OF_BOUNDS\<close> and changes nothing but the statistics.
\<close>

theorem out_of_bounds_reported:
  assumes "server_ok s" and "memory_size s < unat a + 4"
  shows "srv_cas a t v s = (out_of_bounds (Some [a]), s\<lparr>stat_cas := stat_cas s + 1\<rparr>) \<and>
    srv_r a 1 s = (Inr (out_of_bounds None), s\<lparr>stat_rd := stat_rd s + 4\<rparr>)"
  using assms heap_word [OF assms(1)] srv_cas_out [OF assms(1), of a t v] srv_r_out [OF assms(1), of a 1]
  by (simp add: in_range_def)

lemma out_of_bounds_reported_witness:
  "srv_cas 62 0 1 (zero_server 64 1024 :: unit server) =
     (out_of_bounds (Some [62]), (zero_server 64 1024)\<lparr>stat_cas := stat_cas (zero_server 64 1024 :: unit server) + 1\<rparr>) \<and>
   srv_r 62 1 (zero_server 64 1024 :: unit server) =
     (Inr (out_of_bounds None), (zero_server 64 1024)\<lparr>stat_rd := stat_rd (zero_server 64 1024 :: unit server) + 4\<rparr>)"
  by (rule out_of_bounds_reported) (simp_all add: zero_server_ok)

end
