(* ===== verification/Allocator.thy ===== *)
theory Allocator
  imports Simple_Server
begin

text \<open>
  The memory allocator of \<^verbatim>\<open>src/src/common/ActiveRDMA.java\<close>: a counter in the server's first word
  that clients advance with the server's compare-and-swap, retrying until it succeeds. Clients run
  concurrently and the server takes one request at a time, so a run is a schedule: which client's
  next request is served.
\<close>

section \<open>The exception based wrappers\<close>

text \<open>\<open>None\<close> is the \<open>RuntimeException\<close> of a reply that is not \<open>OK\<close>, or the one the server raised.\<close>

definition unwrap :: "result \<Rightarrow> u32 list option option" where
  "unwrap r = (case res_error r of OK \<Rightarrow> Some (res_ints r) | _ \<Rightarrow> None)"

definition unwrap_first :: "u32 list option \<Rightarrow> u32 option" where
  "unwrap_first a = (case a of None \<Rightarrow> Some 0 | Some [] \<Rightarrow> None | Some (x # _) \<Rightarrow> Some x)"

definition api_r :: "u32 \<Rightarrow> 'c server \<Rightarrow> u32 option \<times> 'c server" where
  "api_r a s =
     (case srv_r a 1 s of
        (Inl _, s') \<Rightarrow> (None, s')
      | (Inr r, s') \<Rightarrow> (Option.bind (unwrap r) unwrap_first, s'))"

definition api_cas :: "u32 \<Rightarrow> u32 \<Rightarrow> u32 \<Rightarrow> 'c server \<Rightarrow> u32 option \<times> 'c server" where
  "api_cas a t v s = (case srv_cas a t v s of (r, s') \<Rightarrow> (Option.bind (unwrap r) unwrap_first, s'))"

section \<open>Clients\<close>

definition MEM_COUNTER :: u32 where "MEM_COUNTER = 0"

text \<open>Where a client of \<open>Alloc.execute\<close> is: before its read, before its \<open>cas\<close>, or returned.\<close>

datatype alloc_pc = Start | Loaded u32 | Returned u32 | Failed

definition alloc_turn ::
    "('s \<Rightarrow> u32 option \<times> 's) \<Rightarrow> (u32 \<Rightarrow> u32 \<Rightarrow> 's \<Rightarrow> u32 option \<times> 's) \<Rightarrow> u32 \<Rightarrow> alloc_pc \<times> 's \<Rightarrow> alloc_pc \<times> 's" where
  "alloc_turn r cas amount x =
     (case x of
        (Start, s) \<Rightarrow> (case r s of (None, s') \<Rightarrow> (Failed, s') | (Some c, s') \<Rightarrow> (Loaded c, s'))
      | (Loaded c, s) \<Rightarrow>
          (case cas c (c + amount) s of
             (None, s') \<Rightarrow> (Failed, s')
           | (Some b, s') \<Rightarrow> (if b = 0 then Start else Returned c, s'))
      | (p, s) \<Rightarrow> (p, s))"

fun alloc_run ::
    "('s \<Rightarrow> u32 option \<times> 's) \<Rightarrow> (u32 \<Rightarrow> u32 \<Rightarrow> 's \<Rightarrow> u32 option \<times> 's) \<Rightarrow> u32 list \<Rightarrow> nat list
     \<Rightarrow> alloc_pc list \<times> 's \<Rightarrow> alloc_pc list \<times> 's" where
  "alloc_run r cas sizes [] x = x"
| "alloc_run r cas sizes (i # is) (ps, s) =
     (case alloc_turn r cas (sizes ! i) (ps ! i, s) of
        (p, s') \<Rightarrow> alloc_run r cas sizes is (ps[i := p], s'))"

text \<open>The clients of a server: \<open>sizes\<close> are the arguments of their calls.\<close>

definition run_clients :: "u32 list \<Rightarrow> nat list \<Rightarrow> 'c server \<Rightarrow> alloc_pc list \<times> 'c server" where
  "run_clients sizes sched s =
     alloc_run (api_r MEM_COUNTER) (api_cas MEM_COUNTER) sizes sched (replicate (length sizes) Start, s)"

text \<open>How many turns of a schedule go to clients that have not returned.\<close>

definition unfinished :: "alloc_pc \<Rightarrow> bool" where
  "unfinished p = (case p of Start \<Rightarrow> True | Loaded _ \<Rightarrow> True | _ \<Rightarrow> False)"

fun turns_taken ::
    "('s \<Rightarrow> u32 option \<times> 's) \<Rightarrow> (u32 \<Rightarrow> u32 \<Rightarrow> 's \<Rightarrow> u32 option \<times> 's) \<Rightarrow> u32 list \<Rightarrow> nat list
     \<Rightarrow> alloc_pc list \<times> 's \<Rightarrow> nat" where
  "turns_taken r cas sizes [] x = 0"
| "turns_taken r cas sizes (i # is) (ps, s) =
     (case alloc_turn r cas (sizes ! i) (ps ! i, s) of
        (p, s') \<Rightarrow> (if unfinished (ps ! i) then 1 else 0) + turns_taken r cas sizes is (ps[i := p], s'))"

section \<open>What clients rely on\<close>

definition claimed :: "u32 list \<Rightarrow> alloc_pc list \<Rightarrow> nat \<Rightarrow> nat" where
  "claimed sizes ps i = (case ps ! i of Returned _ \<Rightarrow> unat (sizes ! i) | _ \<Rightarrow> 0)"

definition region :: "u32 list \<Rightarrow> alloc_pc list \<Rightarrow> nat \<Rightarrow> nat set" where
  "region sizes ps i =
     (case ps ! i of Returned a \<Rightarrow> {unat a ..< unat a + unat (sizes ! i)} | _ \<Rightarrow> {})"

text \<open>
  The turns a client may still take: its attempt from the read takes two, and a value that is no
  longer current costs one more. Each client that returns can outdate the others' values once.
\<close>

definition cost :: "u32 \<Rightarrow> alloc_pc \<Rightarrow> nat" where
  "cost v p = (case p of Start \<Rightarrow> 2 | Loaded c \<Rightarrow> if c = v then 1 else 3 | _ \<Rightarrow> 0)"

definition waiting :: "alloc_pc list \<Rightarrow> nat" where
  "waiting ps = (\<Sum>i<length ps. if unfinished (ps ! i) then 1 else 0)"

definition potential :: "u32 \<Rightarrow> alloc_pc list \<Rightarrow> nat" where
  "potential v ps = (\<Sum>i<length ps. cost v (ps ! i)) + waiting ps * (waiting ps - 1)"

lemma sum_list_update:
  fixes f :: "'p \<Rightarrow> nat"
  assumes "i < length ps"
  shows "(\<Sum>j<length ps. f (ps[i := p] ! j)) + f (ps ! i) = (\<Sum>j<length ps. f (ps ! j)) + f p"
proof -
  have in_range: "i \<in> {..<length ps}" using assms by simp
  have same: "(\<Sum>j\<in>{..<length ps} - {i}. f (ps[i := p] ! j)) = (\<Sum>j\<in>{..<length ps} - {i}. f (ps ! j))"
    by (intro sum.cong) auto
  show ?thesis
    using assms same sum.remove [OF finite_lessThan in_range, of "\<lambda>j. f (ps ! j)"]
      sum.remove [OF finite_lessThan in_range, of "\<lambda>j. f (ps[i := p] ! j)"] by simp
qed

lemma waiting_update:
  "i < length ps \<Longrightarrow>
   waiting (ps[i := p]) + (if unfinished (ps ! i) then 1 else 0) = waiting ps + (if unfinished p then 1 else 0)"
  using sum_list_update [of i ps "\<lambda>p. if unfinished p then 1 else 0" p] by (simp add: waiting_def)

lemma cost_le: "cost w p \<le> cost v p + (if unfinished p then 2 else 0)"
  by (cases p) (simp_all add: cost_def unfinished_def)

lemma sum_cost_le: "(\<Sum>j<length ps. cost w (ps ! j)) \<le> (\<Sum>j<length ps. cost v (ps ! j)) + 2 * waiting ps"
proof -
  have "(\<Sum>j<length ps. cost w (ps ! j)) \<le> (\<Sum>j<length ps. cost v (ps ! j) + (if unfinished (ps ! j) then 2 else 0))"
    by (intro sum_mono cost_le)
  also have "\<dots> = (\<Sum>j<length ps. cost v (ps ! j)) + (\<Sum>j<length ps. 2 * (if unfinished (ps ! j) then 1 else 0))"
    unfolding sum.distrib [symmetric] by (intro sum.cong) simp_all
  also have "(\<Sum>j<length ps. 2 * (if unfinished (ps ! j) then 1 else 0)) = 2 * waiting ps"
    unfolding waiting_def by (rule sum_distrib_left [symmetric])
  finally show ?thesis .
qed

locale counter_service =
  fixes r :: "'s \<Rightarrow> u32 option \<times> 's"
    and cas :: "u32 \<Rightarrow> u32 \<Rightarrow> 's \<Rightarrow> u32 option \<times> 's"
    and counter :: "'s \<Rightarrow> u32"
    and ok :: "'s \<Rightarrow> bool"
  assumes r_law: "ok s \<Longrightarrow> \<exists>s'. r s = (Some (counter s), s') \<and> ok s' \<and> counter s' = counter s"
    and cas_law: "ok s \<Longrightarrow> \<exists>s'. cas t v s = (Some (if counter s = t then 1 else 0), s') \<and> ok s' \<and>
      counter s' = (if counter s = t then v else counter s)"
begin

definition alloc_inv :: "nat \<Rightarrow> u32 list \<Rightarrow> alloc_pc list \<Rightarrow> 's \<Rightarrow> bool" where
  "alloc_inv base sizes ps s =
     (ok s \<and> length ps = length sizes \<and> Failed \<notin> set ps \<and>
      unat (counter s) = base + (\<Sum>i<length ps. claimed sizes ps i) \<and>
      (\<forall>i<length ps. region sizes ps i \<subseteq> {base ..< unat (counter s)}) \<and>
      (\<forall>i<length ps. \<forall>j<length ps. i \<noteq> j \<longrightarrow> region sizes ps i \<inter> region sizes ps j = {}))"

lemma turn_cases:
  assumes "ok s"
  obtains (reads) s' where "p = Start" "alloc_turn r cas amount (p, s) = (Loaded (counter s), s')" "ok s'"
      "counter s' = counter s"
    | (wins) s' where "p = Loaded (counter s)" "alloc_turn r cas amount (p, s) = (Returned (counter s), s')" "ok s'"
      "counter s' = counter s + amount"
    | (loses) c s' where "p = Loaded c" "c \<noteq> counter s" "alloc_turn r cas amount (p, s) = (Start, s')" "ok s'"
      "counter s' = counter s"
    | (over) "\<not> unfinished p" "alloc_turn r cas amount (p, s) = (p, s)"
proof (cases p)
  case Start
  then show ?thesis using r_law [OF assms] reads by (auto simp: alloc_turn_def)
next
  case (Loaded c)
  then show ?thesis
    using cas_law [OF assms, of c "c + amount"] wins loses [of c] by (cases "c = counter s") (auto simp: alloc_turn_def)
qed (use over in \<open>auto simp: alloc_turn_def unfinished_def\<close>)

lemma claimed_update:
  "i < length ps \<Longrightarrow> claimed sizes (ps[i := p]) j = (if j = i then (case p of Returned _ \<Rightarrow> unat (sizes ! i) | _ \<Rightarrow> 0) else claimed sizes ps j)"
  by (cases "j = i") (simp_all add: claimed_def)

lemma region_update:
  "i < length ps \<Longrightarrow> region sizes (ps[i := p]) j =
     (if j = i then (case p of Returned a \<Rightarrow> {unat a ..< unat a + unat (sizes ! i)} | _ \<Rightarrow> {}) else region sizes ps j)"
  by (cases "j = i") (simp_all add: region_def)

text \<open>A turn that does not return changes no claim.\<close>

lemma alloc_inv_idle:
  assumes inv: "alloc_inv base sizes ps s" and i: "i < length ps" and "unfinished (ps ! i)" and "unfinished p"
    and "ok s'" and "counter s' = counter s"
  shows "alloc_inv base sizes (ps[i := p]) s'"
proof -
  have same: "claimed sizes (ps[i := p]) = claimed sizes ps" "region sizes (ps[i := p]) = region sizes ps"
    using assms(3,4) i
    by (auto simp: fun_eq_iff claimed_def region_def unfinished_def nth_list_update split: alloc_pc.splits)
  have "Failed \<notin> set (ps[i := p])"
    using inv assms(4) set_update_subset_insert [of ps i p] by (auto simp: alloc_inv_def unfinished_def)
  with inv assms(5) show ?thesis unfolding alloc_inv_def same assms(6) length_list_update by blast
qed

lemma alloc_inv_win:
  assumes inv: "alloc_inv base sizes ps s" and i: "i < length ps" and pc: "unfinished (ps ! i)"
    and room: "base + (\<Sum>j<length sizes. unat (sizes ! j)) < 2 ^ 32"
    and s': "ok s'" "counter s' = counter s + sizes ! i"
  shows "alloc_inv base sizes (ps[i := Returned (counter s)]) s'"
proof -
  let ?ps = "ps[i := Returned (counter s)]"
  have len: "length ps = length sizes" and c: "unat (counter s) = base + (\<Sum>j<length ps. claimed sizes ps j)"
    using inv by (simp_all add: alloc_inv_def)
  have ci: "claimed sizes ps i = 0" using pc by (auto simp: claimed_def unfinished_def split: alloc_pc.splits)
  have mem: "i \<in> {..<length ps}" using i by simp
  have rest: "(\<Sum>j\<in>{..<length ps} - {i}. claimed sizes ps j) \<le> (\<Sum>j\<in>{..<length ps} - {i}. unat (sizes ! j))"
    by (intro sum_mono) (simp add: claimed_def split: alloc_pc.split)
  have "unat (counter s) + unat (sizes ! i) < 2 ^ 32"
    using room rest c ci len sum.remove [OF finite_lessThan mem, of "claimed sizes ps"]
      sum.remove [OF finite_lessThan mem, of "\<lambda>j. unat (sizes ! j)"] by simp
  then have sum: "unat (counter s') = unat (counter s) + unat (sizes ! i)"
    using s'(2) by (simp add: unat_word_ariths)
  have same: "(\<Sum>j\<in>{..<length ps} - {i}. claimed sizes ?ps j) = (\<Sum>j\<in>{..<length ps} - {i}. claimed sizes ps j)"
    using i by (intro sum.cong) (auto simp: claimed_update)
  have "(\<Sum>j<length ps. claimed sizes ?ps j) = unat (sizes ! i) + (\<Sum>j<length ps. claimed sizes ps j)"
    using same ci i sum.remove [OF finite_lessThan mem, of "claimed sizes ps"]
      sum.remove [OF finite_lessThan mem, of "claimed sizes ?ps"] by (simp add: claimed_update)
  then have total: "unat (counter s') = base + (\<Sum>j<length ?ps. claimed sizes ?ps j)"
    using sum c by simp
  have nf: "Failed \<notin> set ?ps"
    using inv set_update_subset_insert [of ps i] by (auto simp: alloc_inv_def)
  have old: "region sizes ps j \<subseteq> {base ..< unat (counter s)}" if "j < length ps" for j
    using inv that unfolding alloc_inv_def by blast
  have new: "region sizes ?ps j \<subseteq> {base ..< unat (counter s')}" if "j < length ps" for j
  proof (cases "j = i")
    case True
    with i show ?thesis using c by (simp add: region_update sum)
  next
    case False
    with i show ?thesis using old [OF that] by (auto simp: region_update sum)
  qed
  have apart: "region sizes ps j \<inter> {unat (counter s) ..< e} = {}" if "j < length ps" for j e
    using old [OF that] by fastforce
  have disj: "region sizes ?ps j \<inter> region sizes ?ps k = {}" if "j < length ps" "k < length ps" "j \<noteq> k" for j k
    using inv that i apart [of j] apart [of k] unfolding alloc_inv_def
    by (cases "j = i"; cases "k = i") (simp_all add: region_update Int_commute)
  show ?thesis using total nf new disj s'(1) len unfolding alloc_inv_def length_list_update by blast
qed

lemma turn_inv:
  assumes inv: "alloc_inv base sizes ps s" and i: "i < length ps"
    and room: "base + (\<Sum>j<length sizes. unat (sizes ! j)) < 2 ^ 32"
    and turn: "alloc_turn r cas (sizes ! i) (ps ! i, s) = (p, s')"
  shows "alloc_inv base sizes (ps[i := p]) s'"
proof -
  have "ok s" using inv by (simp add: alloc_inv_def)
  then show ?thesis
  proof (cases rule: turn_cases [where p = "ps ! i" and amount = "sizes ! i"])
    case (reads t)
    with turn show ?thesis using alloc_inv_idle [OF inv i, of p s'] by (simp add: unfinished_def)
  next
    case (wins t)
    with turn show ?thesis using alloc_inv_win [OF inv i _ room, of s'] by (simp add: unfinished_def)
  next
    case (loses c t)
    with turn show ?thesis using alloc_inv_idle [OF inv i, of p s'] by (simp add: unfinished_def)
  next
    case over
    with turn have "p = ps ! i" "s' = s" by simp_all
    with inv show ?thesis by simp
  qed
qed

lemma run_inv:
  assumes "alloc_inv base sizes ps s" and "set sched \<subseteq> {..<length sizes}"
    and "base + (\<Sum>j<length sizes. unat (sizes ! j)) < 2 ^ 32"
    and "alloc_run r cas sizes sched (ps, s) = (ps', s')"
  shows "alloc_inv base sizes ps' s'"
  using assms
proof (induction sched arbitrary: ps s)
  case (Cons i sched)
  obtain p t where t: "alloc_turn r cas (sizes ! i) (ps ! i, s) = (p, t)" by fastforce
  have "alloc_inv base sizes (ps[i := p]) t"
  proof (rule turn_inv [OF Cons.prems(1) _ Cons.prems(3) t])
    show "i < length ps" using Cons.prems(1,2) by (simp add: alloc_inv_def)
  qed
  with Cons t show ?case by simp
qed simp

lemma alloc_inv_start:
  assumes "ok s"
  shows "alloc_inv (unat (counter s)) sizes (replicate (length sizes) Start) s"
  using assms by (auto simp: alloc_inv_def claimed_def region_def)

lemma turn_potential:
  assumes "ok s" and i: "i < length ps" and turn: "alloc_turn r cas amount (ps ! i, s) = (p, s')"
  shows "ok s'" and "potential (counter s') (ps[i := p]) + (if unfinished (ps ! i) then 1 else 0) \<le> potential (counter s) ps"
proof -
  have both: "ok s' \<and> potential (counter s') (ps[i := p]) + (if unfinished (ps ! i) then 1 else 0) \<le> potential (counter s) ps"
    using assms(1)
  proof (cases rule: turn_cases [where p = "ps ! i" and amount = amount])
    case (reads t)
    with turn i show ?thesis
      using waiting_update [OF i, of p] sum_list_update [OF i, of "cost (counter s)" p]
      by (simp add: potential_def unfinished_def cost_def)
  next
    case (wins t)
    with turn have p: "p = Returned (counter s)" "s' = t" by simp_all
    define k where "k = waiting (ps[i := p])"
    have w: "waiting ps = Suc k"
      using waiting_update [OF i, of p] wins(1) by (simp add: unfinished_def k_def p)
    have "(\<Sum>j<length ps. cost (counter s') (ps[i := p] ! j)) + 1 \<le> (\<Sum>j<length ps. cost (counter s) (ps ! j)) + 2 * k"
      using sum_cost_le [of "counter s'" "ps[i := p]" "counter s"] sum_list_update [OF i, of "cost (counter s)" p]
        wins(1) by (simp add: k_def cost_def p)
    moreover have "k * (k - 1) + 2 * k = Suc k * (Suc k - 1)" by (cases k) (simp_all add: algebra_simps)
    ultimately show ?thesis using wins(1,3) by (simp add: potential_def unfinished_def w k_def [symmetric] p(2))
  next
    case (loses c t)
    with turn i show ?thesis
      using waiting_update [OF i, of p] sum_list_update [OF i, of "cost (counter s)" p]
      by (simp add: potential_def unfinished_def cost_def)
  next
    case over
    with turn have "p = ps ! i" "s' = s" by simp_all
    with over assms(1) show ?thesis by simp
  qed
  show "ok s'" "potential (counter s') (ps[i := p]) + (if unfinished (ps ! i) then 1 else 0) \<le> potential (counter s) ps"
    using both by simp_all
qed

lemma run_potential:
  assumes "ok s" and "set sched \<subseteq> {..<length ps}" and "alloc_run r cas sizes sched (ps, s) = (ps', s')"
  shows "ok s' \<and> length ps' = length ps \<and>
    potential (counter s') ps' + turns_taken r cas sizes sched (ps, s) \<le> potential (counter s) ps"
  using assms
proof (induction sched arbitrary: ps s)
  case (Cons i sched)
  obtain p t where t: "alloc_turn r cas (sizes ! i) (ps ! i, s) = (p, t)" by fastforce
  have i: "i < length ps" using Cons.prems(2) by simp
  note turn_potential [OF Cons.prems(1) i t]
  then show ?case using Cons.IH [of t "ps[i := p]"] Cons.prems(2,3) t by simp
qed simp

lemma run_no_failure:
  assumes "ok s" and "set sched \<subseteq> {..<length ps}" and "Failed \<notin> set ps"
    and "alloc_run r cas sizes sched (ps, s) = (ps', s')"
  shows "Failed \<notin> set ps'"
  using assms
proof (induction sched arbitrary: ps s)
  case (Cons i sched)
  obtain p t where t: "alloc_turn r cas (sizes ! i) (ps ! i, s) = (p, t)" by fastforce
  have i: "i < length ps" using Cons.prems(2) by simp
  have "p \<noteq> Failed"
    using Cons.prems(1)
  proof (cases rule: turn_cases [where p = "ps ! i" and amount = "sizes ! i"])
    case over
    with t Cons.prems(3) i show ?thesis by (auto dest: nth_mem)
  qed (use t in auto)
  then have "Failed \<notin> set (ps[i := p])" using Cons.prems(3) set_update_subset_insert [of ps i p] by auto
  with Cons.IH [OF turn_potential(1) [OF Cons.prems(1) i t], of "ps[i := p]"] Cons.prems(2,4) t show ?case by simp
qed simp

lemma no_turns:
  assumes "ok s" and "set sched \<subseteq> {..<length ps}" and "turns_taken r cas sizes sched (ps, s) = 0"
  shows "alloc_run r cas sizes sched (ps, s) = (ps, s) \<and> (\<forall>i\<in>set sched. \<not> unfinished (ps ! i))"
  using assms
proof (induction sched)
  case (Cons i sched)
  have fin: "\<not> unfinished (ps ! i)" using Cons.prems(3) by (auto split: prod.splits if_splits)
  then have "alloc_turn r cas (sizes ! i) (ps ! i, s) = (ps ! i, s)"
    by (cases "ps ! i") (simp_all add: alloc_turn_def unfinished_def)
  with Cons fin show ?case by simp
qed simp

lemma finished_potential: "(\<forall>i<length ps. \<not> unfinished (ps ! i)) \<or> 0 < potential v ps"
proof (cases "\<forall>i<length ps. \<not> unfinished (ps ! i)")
  case False
  then obtain i where i: "i \<in> {..<length ps}" and "unfinished (ps ! i)" by auto
  then have "0 < cost v (ps ! i)" by (cases "ps ! i") (simp_all add: unfinished_def cost_def)
  then have "0 < (\<Sum>i<length ps. cost v (ps ! i))"
    using sum.remove [OF finite_lessThan i, of "\<lambda>j. cost v (ps ! j)"] by simp
  then show ?thesis by (simp add: potential_def)
qed simp

text \<open>Rounds in each of which every client has a turn: as many as the potential finish all of them.\<close>

lemma rounds_finish:
  assumes "ok s" and "\<And>rnd. rnd \<in> set rounds \<Longrightarrow> set rnd = {..<length ps}"
    and "potential (counter s) ps \<le> length rounds"
    and "alloc_run r cas sizes (concat rounds) (ps, s) = (ps', s')"
  shows "\<forall>i<length ps'. \<not> unfinished (ps' ! i)"
  using assms
proof (induction rounds arbitrary: ps s)
  case Nil
  then show ?case using finished_potential [of ps "counter s"] by simp
next
  case (Cons rnd rounds)
  have run_append: "alloc_run r cas sizes (xs @ ys) x = alloc_run r cas sizes ys (alloc_run r cas sizes xs x)" for xs ys x
    by (induction r cas sizes xs x rule: alloc_run.induct) (simp_all split: prod.split)
  obtain qs t where t: "alloc_run r cas sizes rnd (ps, s) = (qs, t)" by fastforce
  have rnd: "set rnd = {..<length ps}" using Cons.prems(2) by simp
  have pot: "ok t" "length qs = length ps"
    "potential (counter t) qs + turns_taken r cas sizes rnd (ps, s) \<le> potential (counter s) ps"
    using run_potential [OF Cons.prems(1) _ t] rnd by simp_all
  have "potential (counter t) qs \<le> length rounds"
  proof (cases "turns_taken r cas sizes rnd (ps, s) = 0")
    case True
    then have "\<forall>i<length ps. \<not> unfinished (ps ! i)" and "qs = ps"
      using no_turns [OF Cons.prems(1) _ True] rnd t by auto
    then have "cost v (qs ! i) = 0" if "i < length qs" for v i
      using that by (auto simp: cost_def unfinished_def split: alloc_pc.splits)
    moreover have "waiting qs = 0"
      using \<open>\<forall>i<length ps. \<not> unfinished (ps ! i)\<close> \<open>qs = ps\<close> by (simp add: waiting_def)
    ultimately show ?thesis by (simp add: potential_def)
  next
    case False
    with pot(3) Cons.prems(3) show ?thesis by simp
  qed
  moreover have "set rnd' = {..<length qs}" if "rnd' \<in> set rounds" for rnd'
    using Cons.prems(2) [of rnd'] that pot(2) by simp
  moreover have "alloc_run r cas sizes (concat rounds) (qs, t) = (ps', s')"
    using Cons.prems(4) by (simp add: run_append t)
  ultimately show ?case using Cons.IH [OF pot(1)] by blast
qed

lemma potential_start: "potential v (replicate n Start) = n * (n + 1)"
proof -
  have "waiting (replicate n Start) = n" by (simp add: waiting_def unfinished_def)
  moreover have "(\<Sum>i<n. cost v (replicate n Start ! i)) = 2 * n" by (simp add: cost_def)
  ultimately show ?thesis by (cases n) (simp_all add: potential_def)
qed

end

section \<open>The server provides the counter\<close>

abbreviation counter_word :: "'c server \<Rightarrow> u32" where
  "counter_word s \<equiv> word_at (memory s) 0"

lemma counter_in_range: "server_ok s \<Longrightarrow> in_range s MEM_COUNTER 4"
  by (simp add: in_range_def server_ok_def MEM_COUNTER_def)

interpretation alloc_counter: counter_service "api_r MEM_COUNTER" "api_cas MEM_COUNTER" counter_word server_ok
proof unfold_locales
  fix s :: "'c server" and t v :: u32
  assume ok: "server_ok s"
  show "\<exists>s'. api_r MEM_COUNTER s = (Some (counter_word s), s') \<and> server_ok s' \<and> counter_word s' = counter_word s"
    using ok counter_in_range [OF ok] srv_r_in [OF ok, of MEM_COUNTER 1] heap_word [OF ok]
    by (simp add: api_r_def unwrap_def unwrap_first_def words_at_def MEM_COUNTER_def)
  show "\<exists>s'. api_cas MEM_COUNTER t v s = (Some (if counter_word s = t then 1 else 0), s') \<and> server_ok s' \<and>
      counter_word s' = (if counter_word s = t then v else counter_word s)"
    using ok srv_cas_in [OF ok counter_in_range [OF ok], of t v] word_at_blit_same [of 0 v]
    by (simp add: api_cas_def unwrap_def unwrap_first_def MEM_COUNTER_def del: le_bytes_numeral)
qed

section \<open>Concurrent allocation\<close>

text \<open>
  C5. Whatever the interleaving of the clients' requests, as long as the sizes they ask for fit the
  counter, no call fails and the blocks they are given lie between the counter's old and new
  value and do not overlap.
\<close>

theorem clients_get_disjoint_blocks:
  assumes "server_ok s" and "unat (counter_word s) + (\<Sum>i<length sizes. unat (sizes ! i)) < 2 ^ 32"
    and "set sched \<subseteq> {..<length sizes}" and "run_clients sizes sched s = (ps, s')"
  shows "Failed \<notin> set ps \<and>
    (\<forall>i<length sizes. region sizes ps i \<subseteq> {unat (counter_word s) ..< unat (counter_word s')}) \<and>
    (\<forall>i<length sizes. \<forall>j<length sizes. i \<noteq> j \<longrightarrow> region sizes ps i \<inter> region sizes ps j = {})"
proof -
  have inv: "alloc_counter.alloc_inv (unat (counter_word s)) sizes ps s'"
    using alloc_counter.run_inv [OF alloc_counter.alloc_inv_start [OF assms(1)] assms(3,2)] assms(4)
    by (simp add: run_clients_def)
  then have len: "length ps = length sizes" by (simp add: alloc_counter.alloc_inv_def)
  from inv show ?thesis unfolding alloc_counter.alloc_inv_def len by blast
qed

lemma clients_get_disjoint_blocks_witness:
  "\<exists>ps s'. run_clients [8, 4] [0, 1, 0, 1, 1, 1] (zero_server 64 1024 :: unit server) = (ps, s') \<and> Failed \<notin> set ps \<and>
    (\<forall>i<length [8, 4 :: u32]. region [8, 4] ps i \<subseteq> {unat (counter_word (zero_server 64 1024 :: unit server)) ..< unat (counter_word s')}) \<and>
    (\<forall>i<length [8, 4 :: u32]. \<forall>j<length [8, 4 :: u32]. i \<noteq> j \<longrightarrow> region [8, 4] ps i \<inter> region [8, 4] ps j = {})"
proof -
  obtain ps s' where r: "run_clients [8, 4] [0, 1, 0, 1, 1, 1] (zero_server 64 1024 :: unit server) = (ps, s')" by fastforce
  have "counter_word (zero_server 64 1024 :: unit server) = 0"
    by (simp add: zero_server_def word_at_def block_def upt_rec)
  then have "unat (counter_word (zero_server 64 1024 :: unit server)) + (\<Sum>i<length [8, 4 :: u32]. unat ([8, 4 :: u32] ! i)) < 2 ^ 32"
    by (simp add: lessThan_Suc)
  from clients_get_disjoint_blocks [OF zero_server_ok(1) this _ r] show ?thesis using r by auto
qed

text \<open>
  C6. The retry loop ends: for \<open>n\<close> clients, \<open>n * (n + 1)\<close> rounds in which each has at least one
  request served are enough for all of them to return, whatever the order within a round.
\<close>

theorem clients_all_return:
  assumes "server_ok s" and "\<forall>rnd\<in>set rounds. set rnd = {..<length sizes}"
    and "length sizes * (length sizes + 1) \<le> length rounds"
    and "run_clients sizes (concat rounds) s = (ps, s')"
  shows "length ps = length sizes \<and> (\<forall>i<length ps. \<exists>a. ps ! i = Returned a)"
proof -
  let ?start = "replicate (length sizes) Start"
  have run: "alloc_run (api_r MEM_COUNTER) (api_cas MEM_COUNTER) sizes (concat rounds) (?start, s) = (ps, s')"
    using assms(4) by (simp add: run_clients_def)
  have sub: "set (concat rounds) \<subseteq> {..<length ?start}" using assms(2) by auto
  have len: "length ps = length sizes" using alloc_counter.run_potential [OF assms(1) sub run] by simp
  have "\<forall>i<length ps. \<not> unfinished (ps ! i)"
    using assms(2,3) by (intro alloc_counter.rounds_finish [OF assms(1) _ _ run]) (simp_all add: alloc_counter.potential_start)
  moreover have "Failed \<notin> set ps" using alloc_counter.run_no_failure [OF assms(1) sub _ run] by simp
  ultimately have "\<exists>a. ps ! i = Returned a" if "i < length ps" for i
    using that nth_mem [of i ps] by (cases "ps ! i") (auto simp: unfinished_def)
  with len show ?thesis by simp
qed

lemma clients_all_return_witness:
  "\<exists>ps s'. run_clients [8, 4] (concat (replicate 6 [1, 0])) (zero_server 64 1024 :: unit server) = (ps, s') \<and>
     length ps = length [8, 4 :: u32] \<and> (\<forall>i<length ps. \<exists>a. ps ! i = Returned a)"
proof -
  obtain ps s' where r: "run_clients [8, 4] (concat (replicate 6 [1, 0])) (zero_server 64 1024 :: unit server) = (ps, s')" by fastforce
  have "\<forall>rnd\<in>set (replicate 6 [1, 0]). set rnd = {..<length [8, 4 :: u32]}" by auto
  from clients_all_return [OF zero_server_ok(1) this _ r] show ?thesis using r by simp
qed

end
