(* ===== verification/Cpu_State.thy ===== *)
theory Cpu_State
  imports Machine_Prelude
begin

text \<open>
  The part of the processor (\<^verbatim>\<open>BX_CPU_C\<close> in \<^verbatim>\<open>src/sim/bochs/cpu/cpu.h\<close>) that its memory accesses and its
  arithmetic use, in the configuration of \<^verbatim>\<open>config.h\<close>: a 64 bit processor with 32 bit physical addresses.
  The general registers are one 64 bit word each; the 8, 16 and 32 bit names of the C union are parts of
  it. Physical memory is an array of bytes, without devices mapped into it; \<open>direct\<close> tells the pages of
  which the memory object gives out a host pointer, and a host pointer is the physical address of its
  page. An exception ends an instruction (the code leaves it with longjmp) and keeps the state.
\<close>

unbundle bit_operations_syntax

section \<open>Segments, the TLB, flags\<close>

definition SegValidCache :: u32 where "SegValidCache = 1"
definition SegAccessROK :: u32 where "SegAccessROK = 2"
definition SegAccessWOK :: u32 where "SegAccessWOK = 4"

record seg_cache =
  sc_valid :: u32
  sc_p :: bool
  sc_type :: nat
  sc_base :: u64
  sc_limit_scaled :: u32
  sc_d_b :: bool

record tlb_entry =
  lpf :: u64
  lpf_mask :: u64
  ppf :: u32
  accessBits :: u32
  hostPageAddr :: "u32 option"

datatype lf_instr =
    LF_ADD8 | LF_ADC8 | LF_ADD16 | LF_ADC16 | LF_ADD32 | LF_ADC32 | LF_ADD64 | LF_ADC64
  | LF_SUB8 | LF_SBB8 | LF_SUB16 | LF_SBB16 | LF_SUB32 | LF_SBB32 | LF_SUB64 | LF_SBB64
  | LF_INC8 | LF_INC16 | LF_INC32 | LF_INC64
  | LF_DEC8 | LF_DEC16 | LF_DEC32 | LF_DEC64
  | LF_NEG8 | LF_NEG16 | LF_NEG32 | LF_NEG64
  | LF_LOGIC8 | LF_LOGIC16 | LF_LOGIC32 | LF_LOGIC64

record lf_flags_entry =
  lf_op1 :: u64
  lf_op2 :: u64
  lf_result :: u64
  lf_ins :: lf_instr

datatype cpu_mode = IA32_REAL | IA32_V8086 | IA32_PROTECTED | LONG_COMPAT | LONG_64

section \<open>The processor\<close>

record cpu =
  gen_reg :: "nat \<Rightarrow> u64"
  eflags :: u32
  lf_flags_status :: u32
  oszapc :: lf_flags_entry
  sregs :: "nat \<Rightarrow> seg_cache"
  mode :: cpu_mode
  curr_CPL :: nat
  alignment_check_mask :: u32
  cr0_PG :: bool
  cr0_WP :: bool
  cr2 :: u64
  cr3 :: u64
  cr3_masked :: u64
  cr4_PSE :: bool
  cr4_PAE :: bool
  cr4_PGE :: bool
  efer_NXE :: bool
  efer_LMA :: bool
  TLB :: "nat \<Rightarrow> tlb_entry"
  split_large :: bool
  pdpe_valid :: bool
  pdpe_entry :: "nat \<Rightarrow> u64"
  paddress1 :: u32
  paddress2 :: u32
  len1 :: nat
  len2 :: nat
  pages :: "nat + u32"       \<comment> \<open>1 or 2 pages, or a host pointer\<close>
  ram :: "u32 \<Rightarrow> u8"
  direct :: "u32 \<Rightarrow> nat \<Rightarrow> bool"
  panicked :: bool

definition long_mode :: "cpu \<Rightarrow> bool" where "long_mode s = efer_LMA s"
definition USER_PL :: "cpu \<Rightarrow> u32" where "USER_PL s = of_bool (curr_CPL s = 3)"

section \<open>Exceptions\<close>

datatype exn_vector = DE_EXCEPTION | UD_EXCEPTION | SS_EXCEPTION | GP_EXCEPTION | PF_EXCEPTION | AC_EXCEPTION

datatype cpu_fault = Exn exn_vector u32

type_synonym 'a res = "(cpu_fault \<times> cpu) + ('a \<times> cpu)"

definition rbind :: "'a res \<Rightarrow> ('a \<Rightarrow> cpu \<Rightarrow> 'b res) \<Rightarrow> 'b res" where
  "rbind m f = (case m of Inl e \<Rightarrow> Inl e | Inr (x, s) \<Rightarrow> f x s)"

lemma rbind_simps [simp]: "rbind (Inl e) f = Inl e" "rbind (Inr (x, s)) f = f x s"
  by (simp_all add: rbind_def)

lemma rbind_eq_Inr: "rbind m f = Inr r \<longleftrightarrow> (\<exists>x s. m = Inr (x, s) \<and> f x s = Inr r)"
  by (auto simp: rbind_def split: sum.split)

lemma rbind_assoc: "rbind (rbind m f) g = rbind m (\<lambda>x s. rbind (f x s) g)"
  by (auto simp: rbind_def split: sum.split)

definition exception :: "exn_vector \<Rightarrow> u32 \<Rightarrow> cpu \<Rightarrow> 'a res" where
  "exception v code s = Inl (Exn v code, s)"

section \<open>Physical memory\<close>

definition phys_bytes :: "u32 \<Rightarrow> nat \<Rightarrow> (u32 \<Rightarrow> u8) \<Rightarrow> bytes" where
  "phys_bytes a n m = map (\<lambda>i. m (a + word_of_nat i)) [0..<n]"

fun put_bytes :: "u32 \<Rightarrow> bytes \<Rightarrow> (u32 \<Rightarrow> u8) \<Rightarrow> (u32 \<Rightarrow> u8)" where
  "put_bytes a [] m = m"
| "put_bytes a (b # bs) m = put_bytes (a + 1) bs (m(a := b))"

definition access_read_physical :: "u32 \<Rightarrow> nat \<Rightarrow> cpu \<Rightarrow> bytes" where
  "access_read_physical a n s = phys_bytes a n (ram s)"

definition access_write_physical :: "u32 \<Rightarrow> bytes \<Rightarrow> cpu \<Rightarrow> cpu" where
  "access_write_physical a bs s = s\<lparr>ram := put_bytes a bs (ram s)\<rparr>"

definition getHostMemAddr :: "u32 \<Rightarrow> nat \<Rightarrow> cpu \<Rightarrow> u32 option" where
  "getHostMemAddr a rw s = (if direct s a rw then Some a else None)"

text \<open>Words in memory, low byte first.\<close>

definition low_bytes :: "nat \<Rightarrow> 'a::len word \<Rightarrow> bytes" where
  "low_bytes n w = le_bytes n (unat w)"

definition bytes_word :: "bytes \<Rightarrow> 'a::len word" where
  "bytes_word bs = word_of_nat (le_nat bs)"

lemma length_low_bytes [simp]: "length (low_bytes n w) = n"
  by (simp add: low_bytes_def)

lemma length_access_read_physical [simp]: "length (access_read_physical a n s) = n"
  by (simp add: access_read_physical_def phys_bytes_def)

end
