(* ===== verification/Cpu_Paging.thy ===== *)
theory Cpu_Paging
  imports Cpu_State
begin

text \<open>
  Linear to physical addresses (\<^verbatim>\<open>src/sim/bochs/cpu/paging.cc\<close>): the page walks of the three paging modes
  with their accessed and dirty bits, the TLB, and accesses to linear memory. A panic of the code, which
  may go on after it, sets \<open>panicked\<close>.
\<close>

unbundle bit_operations_syntax

section \<open>Constants\<close>

definition BX_READ :: nat where "BX_READ = 0"
definition BX_WRITE :: nat where "BX_WRITE = 1"
definition BX_EXECUTE :: nat where "BX_EXECUTE = 2"
definition BX_RW :: nat where "BX_RW = 3"

definition LPFOf :: "u64 \<Rightarrow> u64" where "LPFOf laddr = laddr AND 0xfffffffffffff000"
definition AlignedAccessLPFOf :: "u64 \<Rightarrow> u64 \<Rightarrow> u64" where
  "AlignedAccessLPFOf laddr alignment_mask = laddr AND (0xfffffffffffff000 OR alignment_mask)"
definition PAGE_OFFSET :: "u64 \<Rightarrow> u32" where "PAGE_OFFSET laddr = ucast laddr AND 0xfff"
definition TLB_LPFOf :: "u64 \<Rightarrow> u64" where "TLB_LPFOf laddr = AlignedAccessLPFOf laddr 0x7ff"

definition TLB_SIZE :: nat where "TLB_SIZE = 1024"
definition TLB_MASK :: u32 where "TLB_MASK = 0x3ff000"
definition TLB_INDEX_OF :: "u64 \<Rightarrow> nat \<Rightarrow> nat" where
  "TLB_INDEX_OF a len = unat (drop_bit 12 ((ucast a + word_of_nat len) AND TLB_MASK :: u32))"

definition INVALID_TLB_ENTRY :: u64 where "INVALID_TLB_ENTRY = 0xffffffffffffffff"
definition TLB_SysOnly :: u32 where "TLB_SysOnly = 1"
definition TLB_ReadOnly :: u32 where "TLB_ReadOnly = 2"
definition TLB_HostPtr :: u64 where "TLB_HostPtr = 0x800"
definition TLB_GlobalPage :: u32 where "TLB_GlobalPage = 0x80000000"

definition PAGING_PHY_ADDRESS_RESERVED_BITS :: u64 where "PAGING_PHY_ADDRESS_RESERVED_BITS = 0xfffff00000000"
definition PAE_PML4_RESERVED_BITS :: u64 where
  "PAE_PML4_RESERVED_BITS = PAGING_PHY_ADDRESS_RESERVED_BITS OR 0x80"
definition PAE_PDPTE_RESERVED_BITS :: u64 where
  "PAE_PDPTE_RESERVED_BITS = PAGING_PHY_ADDRESS_RESERVED_BITS OR 0xfff00000000001e6"
definition PAE_PDE2M_RESERVED_BITS :: u64 where
  "PAE_PDE2M_RESERVED_BITS = PAGING_PHY_ADDRESS_RESERVED_BITS OR 0x1fe000"
definition PDE4M_RESERVED_BITS :: u32 where "PDE4M_RESERVED_BITS = 0x3fe000"
definition PAGE_DIRECTORY_NX_BIT :: u64 where "PAGE_DIRECTORY_NX_BIT = 0x8000000000000000"

definition ERROR_NOT_PRESENT :: u32 where "ERROR_NOT_PRESENT = 0"
definition ERROR_PROTECTION :: u32 where "ERROR_PROTECTION = 1"
definition ERROR_RESERVED :: u32 where "ERROR_RESERVED = 8"
definition ERROR_CODE_ACCESS :: u32 where "ERROR_CODE_ACCESS = 0x10"

text \<open>The privilege check matrix: bit 4 is CR0.WP, bits 3 and 0 the access, bits 2 and 1 the page.\<close>

definition priv_check :: "nat \<Rightarrow> bool" where
  "priv_check n =
     (let wp = bit n 4; us_current = bit n 3; us_combined = bit n 2; rw_combined = bit n 1; rw_current = bit n 0 in
      if wp then
        (if us_current \<and> \<not> us_combined then False else if rw_current \<and> \<not> rw_combined then False else True)
      else if \<not> us_current then True
      else if \<not> us_combined then False
      else if rw_current \<and> \<not> rw_combined then False
      else True)"

definition priv_index :: "cpu \<Rightarrow> bool \<Rightarrow> u32 \<Rightarrow> bool \<Rightarrow> nat" where
  "priv_index s pl combined_access isWrite =
     unat ((push_bit 4 (of_bool (cr0_WP s)) OR push_bit 3 (of_bool pl)) OR (combined_access OR of_bool isWrite) :: u32)"

section \<open>The TLB\<close>

definition set_tlb :: "nat \<Rightarrow> tlb_entry \<Rightarrow> cpu \<Rightarrow> cpu" where
  "set_tlb i e s = s\<lparr>TLB := (TLB s)(i := e)\<rparr>"

definition TLB_flush :: "cpu \<Rightarrow> cpu" where
  "TLB_flush s =
     s\<lparr>TLB := (\<lambda>n. if n < TLB_SIZE then (TLB s n)\<lparr>lpf := INVALID_TLB_ENTRY\<rparr> else TLB s n),
       pdpe_valid := False, split_large := False\<rparr>"

definition TLB_flushNonGlobal :: "cpu \<Rightarrow> cpu" where
  "TLB_flushNonGlobal s =
     s\<lparr>TLB := (\<lambda>n. if n < TLB_SIZE \<and> accessBits (TLB s n) AND TLB_GlobalPage = 0
                   then (TLB s n)\<lparr>lpf := INVALID_TLB_ENTRY\<rparr> else TLB s n),
       split_large := (split_large s \<or>
         (\<exists>n \<in> set [0..<TLB_SIZE]. accessBits (TLB s n) AND TLB_GlobalPage \<noteq> 0 \<and> 0xfff < NOT (lpf_mask (TLB s n)))),
       pdpe_valid := False\<rparr>"

definition TLB_invlpg :: "u64 \<Rightarrow> cpu \<Rightarrow> cpu" where
  "TLB_invlpg laddr s =
     (let covers = (\<lambda>e. laddr AND lpf_mask e = lpf e AND lpf_mask e);
          s1 = (if split_large s then
                  s\<lparr>TLB := (\<lambda>n. if n < TLB_SIZE \<and> covers (TLB s n) then (TLB s n)\<lparr>lpf := INVALID_TLB_ENTRY\<rparr> else TLB s n),
                    split_large := (\<exists>n \<in> set [0..<TLB_SIZE]. \<not> covers (TLB s n) \<and> 0xfff < NOT (lpf_mask (TLB s n)))\<rparr>
                else
                  let i = TLB_INDEX_OF laddr 0 in
                  if TLB_LPFOf (lpf (TLB s i)) = LPFOf laddr then set_tlb i ((TLB s i)\<lparr>lpf := INVALID_TLB_ENTRY\<rparr>) s
                  else s)
      in s1\<lparr>pdpe_valid := False\<rparr>)"

definition pagingCR0Changed :: "u32 \<Rightarrow> u32 \<Rightarrow> cpu \<Rightarrow> cpu" where
  "pagingCR0Changed oldCR0 newCR0 s =
     (if oldCR0 AND 0x80010001 \<noteq> newCR0 AND 0x80010001 then TLB_flush s else s)"

definition pagingCR4Changed :: "u32 \<Rightarrow> u32 \<Rightarrow> cpu \<Rightarrow> cpu" where
  "pagingCR4Changed oldCR4 newCR4 s =
     (let s1 = (if oldCR4 AND 0xb0 \<noteq> newCR4 AND 0xb0 then TLB_flush s else s) in
      if oldCR4 AND 0x20 \<noteq> newCR4 AND 0x20 then
        (if cr4_PAE s1 \<and> \<not> long_mode s1 then s1\<lparr>cr3_masked := cr3 s1 AND 0xffffffe0\<rparr>
         else s1\<lparr>cr3_masked := cr3 s1 AND 0xffffffffff000\<rparr>)
      else s1)"

definition SetCR3 :: "u64 \<Rightarrow> cpu \<Rightarrow> unit res" where
  "SetCR3 val s =
     (let s1 = (if cr4_PGE s then TLB_flushNonGlobal s else TLB_flush s) in
      if cr4_PAE s1 then
        (if long_mode s1 then
           (if val AND NOT 0xffffffff \<noteq> 0 then exception GP_EXCEPTION 0 s1
            else Inr ((), s1\<lparr>cr3_masked := val AND 0xffffffffff000, cr3 := val\<rparr>))
         else Inr ((), s1\<lparr>cr3_masked := val AND 0xffffffe0, cr3 := val\<rparr>))
      else Inr ((), s1\<lparr>cr3_masked := val AND 0xfffff000, cr3 := val\<rparr>))"

section \<open>Page table entries\<close>

definition read_entry32 :: "u32 \<Rightarrow> cpu \<Rightarrow> u32" where
  "read_entry32 a s = bytes_word (access_read_physical a 4 s)"
definition read_entry64 :: "u32 \<Rightarrow> cpu \<Rightarrow> u64" where
  "read_entry64 a s = bytes_word (access_read_physical a 8 s)"
definition write_entry32 :: "u32 \<Rightarrow> u32 \<Rightarrow> cpu \<Rightarrow> cpu" where
  "write_entry32 a w s = access_write_physical a (low_bytes 4 w) s"
definition write_entry64 :: "u32 \<Rightarrow> u64 \<Rightarrow> cpu \<Rightarrow> cpu" where
  "write_entry64 a w s = access_write_physical a (low_bytes 8 w) s"

text \<open>The accessed bit of a table entry; the accessed and dirty bits of an entry that maps a page.\<close>

definition mark_A32 :: "u32 \<Rightarrow> u32 \<Rightarrow> cpu \<Rightarrow> cpu" where
  "mark_A32 a e s = (if e AND 0x20 = 0 then write_entry32 a (e OR 0x20) s else s)"
definition mark_AD32 :: "bool \<Rightarrow> u32 \<Rightarrow> u32 \<Rightarrow> cpu \<Rightarrow> cpu" where
  "mark_AD32 isWrite a e s =
     (if e AND 0x20 = 0 \<or> (isWrite \<and> e AND 0x40 = 0)
      then write_entry32 a (e OR (0x20 OR push_bit 6 (of_bool isWrite))) s else s)"
definition mark_A64 :: "u32 \<Rightarrow> u64 \<Rightarrow> cpu \<Rightarrow> cpu" where
  "mark_A64 a e s = (if e AND 0x20 = 0 then write_entry64 a (e OR 0x20) s else s)"
definition mark_AD64 :: "bool \<Rightarrow> u32 \<Rightarrow> u64 \<Rightarrow> cpu \<Rightarrow> cpu" where
  "mark_AD64 isWrite a e s =
     (if e AND 0x20 = 0 \<or> (isWrite \<and> e AND 0x40 = 0)
      then write_entry64 a (e OR (0x20 OR push_bit 6 (of_bool isWrite))) s else s)"

definition page_fault :: "u32 \<Rightarrow> u64 \<Rightarrow> bool \<Rightarrow> nat \<Rightarrow> cpu \<Rightarrow> 'a res" where
  "page_fault fault laddr user rw s =
     (let error_code = fault OR (push_bit 2 (of_bool user) OR push_bit 1 (of_bool (odd rw)));
          error_code1 = (if cr4_PAE s \<and> efer_NXE s \<and> rw = BX_EXECUTE then error_code OR ERROR_CODE_ACCESS else error_code)
      in exception PF_EXCEPTION error_code1 (s\<lparr>cr2 := laddr\<rparr>))"

text \<open>An error code, or no error; whether execution is forbidden; the state, with the panic.\<close>

definition check_entry_PAE :: "u64 \<Rightarrow> u64 \<Rightarrow> nat \<Rightarrow> bool \<Rightarrow> cpu \<Rightarrow> u32 option \<times> bool \<times> cpu" where
  "check_entry_PAE entry reserved rw nx_fault s =
     (if entry AND 1 = 0 then (Some ERROR_NOT_PRESENT, nx_fault, s)
      else
        let s1 = (if entry AND 0xfffff00000000 \<noteq> 0 then s\<lparr>panicked := True\<rparr> else s) in
        if entry AND reserved \<noteq> 0 then (Some (ERROR_RESERVED OR ERROR_PROTECTION), nx_fault, s1)
        else if \<not> long_mode s1 \<and> entry AND 0x7ff0000000000000 \<noteq> 0
        then (Some (ERROR_RESERVED OR ERROR_PROTECTION), nx_fault, s1)
        else if entry AND PAGE_DIRECTORY_NX_BIT \<noteq> 0 then
          (if \<not> efer_NXE s1 then (Some (ERROR_RESERVED OR ERROR_PROTECTION), nx_fault, s1)
           else (None, if rw = BX_EXECUTE then True else nx_fault, s1))
        else (None, nx_fault, s1))"

text \<open>One level of a walk: read the entry, check it, or fault.\<close>

definition get_entry_PAE ::
  "u32 \<Rightarrow> u64 \<Rightarrow> u64 \<Rightarrow> bool \<Rightarrow> nat \<Rightarrow> bool \<Rightarrow> cpu \<Rightarrow> (u64 \<times> bool) res" where
  "get_entry_PAE a reserved laddr pl rw nx_fault s =
     (let entry = read_entry64 a s in
      case check_entry_PAE entry reserved rw nx_fault s of
        (Some fault, nx, s1) \<Rightarrow> page_fault fault laddr pl rw s1
      | (None, nx, s1) \<Rightarrow> Inr ((entry, nx), s1))"

section \<open>Page walks\<close>

text \<open>A walk gives the page frame, the combined rights and the mask of the page's offset.\<close>

type_synonym walk_result = "u32 \<times> u32 \<times> u64"

text \<open>Two levels of 32 bit entries, with pages of 4K or 4M.\<close>

definition walk_legacy :: "u64 \<Rightarrow> nat \<Rightarrow> nat \<Rightarrow> cpu \<Rightarrow> walk_result res" where
  "walk_legacy laddr curr_pl rw s =
     (let isWrite = odd rw; pl = (curr_pl = 3);
          pde_addr = ucast (cr3_masked s OR drop_bit 20 (laddr AND 0xffc00000));
          pde = read_entry32 pde_addr s
      in
      if pde AND 1 = 0 then page_fault ERROR_NOT_PRESENT laddr pl rw s
      else if pde AND 0x80 \<noteq> 0 \<and> cr4_PSE s then
        (if pde AND PDE4M_RESERVED_BITS \<noteq> 0 then page_fault (ERROR_RESERVED OR ERROR_PROTECTION) laddr pl rw s
         else
           let combined_access = pde AND 6 in
           if \<not> priv_check (priv_index s pl combined_access isWrite) then page_fault ERROR_PROTECTION laddr pl rw s
           else
             Inr (((pde AND 0xffc00000) OR (ucast laddr AND 0x3ff000),
                   if cr4_PGE s then combined_access OR (pde AND 0x100) else combined_access, 0x3fffff),
                  mark_AD32 isWrite pde_addr pde s))
      else
        let pte_addr = (pde AND 0xfffff000) OR ucast (drop_bit 10 (laddr AND 0x3ff000));
            pte = read_entry32 pte_addr s
        in
        if pte AND 1 = 0 then page_fault ERROR_NOT_PRESENT laddr pl rw s
        else
          let combined_access = (pde AND pte) AND 6 in
          if \<not> priv_check (priv_index s pl combined_access isWrite) then page_fault ERROR_PROTECTION laddr pl rw s
          else
            Inr ((pte AND 0xfffff000,
                  if cr4_PGE s then combined_access OR (pte AND 0x100) else combined_access, 0xfff),
                 mark_AD32 isWrite pte_addr pte (mark_A32 pde_addr pde s)))"

text \<open>The last check of a walk over 64 bit entries.\<close>

definition rights_PAE :: "u64 \<Rightarrow> bool \<Rightarrow> nat \<Rightarrow> bool \<Rightarrow> u64 \<Rightarrow> u64 \<Rightarrow> cpu \<Rightarrow> u32 res" where
  "rights_PAE laddr pl rw nx_fault rights e s =
     (let combined_access = ucast (rights AND 6) in
      if \<not> priv_check (priv_index s pl combined_access (odd rw)) \<or> nx_fault
      then page_fault ERROR_PROTECTION laddr pl rw s
      else Inr (if cr4_PGE s then combined_access OR ucast (e AND 0x100) else combined_access, s))"

text \<open>Four levels of 64 bit entries, with pages of 4K or 2M.\<close>

definition walk_long_mode :: "u64 \<Rightarrow> nat \<Rightarrow> nat \<Rightarrow> cpu \<Rightarrow> walk_result res" where
  "walk_long_mode laddr curr_pl rw s =
     (let isWrite = odd rw; pl = (curr_pl = 3);
          pml4_addr = ucast (cr3_masked s OR drop_bit 36 (laddr AND 0xff8000000000))
      in rbind (get_entry_PAE pml4_addr PAE_PML4_RESERVED_BITS laddr pl rw False s) (\<lambda>(pml4, nx1) s1.
      let pdpe_addr = ucast ((pml4 AND 0xffffffffff000) OR drop_bit 27 (laddr AND 0x7fc0000000))
      in rbind (get_entry_PAE pdpe_addr PAGING_PHY_ADDRESS_RESERVED_BITS laddr pl rw nx1 s1) (\<lambda>(pdpe, nx2) s2.
      if pdpe AND 0x80 \<noteq> 0 then page_fault (ERROR_RESERVED OR ERROR_PROTECTION) laddr pl rw s2
      else
      let pde_addr = ucast ((pdpe AND 0xffffffffff000) OR drop_bit 18 (laddr AND 0x3fe00000))
      in rbind (get_entry_PAE pde_addr PAGING_PHY_ADDRESS_RESERVED_BITS laddr pl rw nx2 s2) (\<lambda>(pde, nx3) s3.
      if pde AND 0x80 \<noteq> 0 then
        (if pde AND PAE_PDE2M_RESERVED_BITS \<noteq> 0 then page_fault (ERROR_RESERVED OR ERROR_PROTECTION) laddr pl rw s3
         else rbind (rights_PAE laddr pl rw nx3 (pml4 AND pdpe AND pde) pde s3) (\<lambda>combined_access s4.
           Inr ((ucast ((pde AND 0xfffffffe00000) OR (laddr AND 0x1ff000)), combined_access, 0x1fffff),
                mark_AD64 isWrite pde_addr pde (mark_A64 pdpe_addr pdpe (mark_A64 pml4_addr pml4 s4)))))
      else
      let pte_addr = ucast ((pde AND 0xffffffffff000) OR drop_bit 9 (laddr AND 0x1ff000))
      in rbind (get_entry_PAE pte_addr PAGING_PHY_ADDRESS_RESERVED_BITS laddr pl rw nx3 s3) (\<lambda>(pte, nx4) s4.
         rbind (rights_PAE laddr pl rw nx4 (pml4 AND pdpe AND pde AND pte) pte s4) (\<lambda>combined_access s5.
           Inr ((ucast (pte AND 0xffffffffff000), combined_access, 0xfff),
                mark_AD64 isWrite pte_addr pte
                  (mark_A64 pde_addr pde (mark_A64 pdpe_addr pdpe (mark_A64 pml4_addr pml4 s5))))))))))"

text \<open>The four page directory pointers are loaded together.\<close>

primrec load_pdptrs :: "nat \<Rightarrow> u32 \<Rightarrow> cpu \<Rightarrow> bool \<times> cpu" where
  "load_pdptrs 0 cr3_val s = (True, s\<lparr>pdpe_valid := True\<rparr>)"
| "load_pdptrs (Suc k) cr3_val s =
     (let n = 3 - k; pdptr = read_entry64 (cr3_val OR word_of_nat (8 * n)) s;
          s1 = s\<lparr>pdpe_entry := (pdpe_entry s)(n := pdptr)\<rparr>
      in if pdptr AND 1 \<noteq> 0 \<and> pdptr AND PAE_PDPTE_RESERVED_BITS \<noteq> 0 then (False, s1\<lparr>pdpe_valid := False\<rparr>)
         else load_pdptrs k cr3_val s1)"

definition CheckPDPTR :: "u32 \<Rightarrow> cpu \<Rightarrow> bool \<times> cpu" where
  "CheckPDPTR cr3_val s = load_pdptrs 4 (cr3_val AND 0xffffffe0) s"

definition walk_PAE :: "u64 \<Rightarrow> nat \<Rightarrow> nat \<Rightarrow> cpu \<Rightarrow> walk_result res" where
  "walk_PAE laddr curr_pl rw s0 =
     (if long_mode s0 then walk_long_mode laddr curr_pl rw s0
      else
      let isWrite = odd rw; pl = (curr_pl = 3);
          (ok, s) = (if pdpe_valid s0 then (True, s0) else CheckPDPTR (ucast (cr3_masked s0)) s0)
      in if \<not> ok then exception GP_EXCEPTION 0 s
      else
      let pdpe = pdpe_entry s (unat (drop_bit 30 laddr AND 3)) in
      case check_entry_PAE pdpe PAE_PDPTE_RESERVED_BITS rw False s of
        (Some fault, nx, s1) \<Rightarrow> page_fault fault laddr pl rw s1
      | (None, nx1, s1) \<Rightarrow>
      let pde_addr = ucast ((pdpe AND 0xffffffffff000) OR drop_bit 18 (laddr AND 0x3fe00000))
      in rbind (get_entry_PAE pde_addr PAGING_PHY_ADDRESS_RESERVED_BITS laddr pl rw nx1 s1) (\<lambda>(pde, nx2) s2.
      if pde AND 0x80 \<noteq> 0 then
        (if pde AND PAE_PDE2M_RESERVED_BITS \<noteq> 0 then page_fault (ERROR_RESERVED OR ERROR_PROTECTION) laddr pl rw s2
         else rbind (rights_PAE laddr pl rw nx2 pde pde s2) (\<lambda>combined_access s3.
           Inr ((ucast ((pde AND 0xfffffffe00000) OR (laddr AND 0x1ff000)), combined_access, 0x1fffff),
                mark_AD64 isWrite pde_addr pde s3)))
      else
      let pte_addr = ucast ((pde AND 0xffffffffff000) OR drop_bit 9 (laddr AND 0x1ff000))
      in rbind (get_entry_PAE pte_addr PAGING_PHY_ADDRESS_RESERVED_BITS laddr pl rw nx2 s2) (\<lambda>(pte, nx3) s3.
         rbind (rights_PAE laddr pl rw nx3 (pde AND pte) pte s3) (\<lambda>combined_access s4.
           Inr ((ucast (pte AND 0xffffffffff000), combined_access, 0xfff),
                mark_AD64 isWrite pte_addr pte (mark_A64 pde_addr pde s4))))))"

definition page_walk :: "u64 \<Rightarrow> nat \<Rightarrow> nat \<Rightarrow> cpu \<Rightarrow> walk_result res" where
  "page_walk laddr curr_pl rw s =
     (if cr4_PAE s then walk_PAE laddr curr_pl rw s else walk_legacy laddr curr_pl rw s)"

section \<open>Translation through the TLB\<close>

definition tlb_rights :: "bool \<Rightarrow> u32 \<Rightarrow> u32" where
  "tlb_rights isWrite combined_access =
     ((if combined_access AND 4 = 0 then TLB_SysOnly OR (if \<not> isWrite then TLB_ReadOnly else 0)
       else if \<not> isWrite \<or> combined_access AND 2 = 0 then TLB_ReadOnly else 0)
      OR (if combined_access AND 0x100 \<noteq> 0 then TLB_GlobalPage else 0))"

definition tlb_fill :: "u64 \<Rightarrow> nat \<Rightarrow> walk_result \<Rightarrow> cpu \<Rightarrow> cpu" where
  "tlb_fill laddr rw r s =
     (case r of (frame, combined_access, page_mask) \<Rightarrow>
        let i = TLB_INDEX_OF (LPFOf laddr) 0; host = getHostMemAddr frame rw s;
            s1 = (if 0xfff < page_mask then s\<lparr>split_large := True\<rparr> else s)
        in set_tlb i \<lparr>lpf = (if host = None then LPFOf laddr OR TLB_HostPtr else LPFOf laddr), lpf_mask = NOT page_mask,
                      ppf = frame, accessBits = tlb_rights (odd rw) combined_access, hostPageAddr = host\<rparr> s1)"

definition translate_linear :: "u64 \<Rightarrow> nat \<Rightarrow> nat \<Rightarrow> cpu \<Rightarrow> u32 res" where
  "translate_linear laddr curr_pl rw s =
     (let e = TLB s (TLB_INDEX_OF (LPFOf laddr) 0) in
      if TLB_LPFOf (lpf e) = LPFOf laddr \<and>
         accessBits e AND (push_bit 1 (of_bool (odd rw)) OR of_bool (curr_pl = 3)) = 0
      then Inr (ppf e OR PAGE_OFFSET laddr, s)
      else rbind (page_walk laddr curr_pl rw s) (\<lambda>r s1. Inr (fst r OR PAGE_OFFSET laddr, tlb_fill laddr rw r s1)))"

section \<open>Accesses to linear memory\<close>

text \<open>Where an access goes: the physical address of one page, or the two parts in two pages.\<close>

definition one_page :: "u32 \<Rightarrow> cpu \<Rightarrow> cpu" where
  "one_page a s = s\<lparr>paddress1 := a, pages := Inl 1\<rparr>"

definition two_pages :: "u32 \<Rightarrow> nat \<Rightarrow> nat \<Rightarrow> cpu \<Rightarrow> cpu" where
  "two_pages a l1 l2 s = s\<lparr>paddress1 := a, len1 := l1, len2 := l2, pages := Inl 2\<rparr>"

text \<open>With paging off, a page that is not in the TLB is entered if there is a host pointer to it.\<close>

definition tlb_direct :: "u64 \<Rightarrow> nat \<Rightarrow> u32 \<Rightarrow> cpu \<Rightarrow> cpu" where
  "tlb_direct laddr rw access s =
     (let i = TLB_INDEX_OF laddr 0; frame = LPFOf laddr in
      if TLB_LPFOf (lpf (TLB s i)) \<noteq> frame then
        (case getHostMemAddr (ucast frame) rw s of
           None \<Rightarrow> s
         | Some host \<Rightarrow>
             set_tlb i ((TLB s i)\<lparr>lpf := frame, ppf := ucast frame, hostPageAddr := Some host, accessBits := access\<rparr>) s)
      else s)"

text \<open>The translation of an access, kept for the write of a read-modify-write operation.\<close>

definition xlate_linear :: "u64 \<Rightarrow> nat \<Rightarrow> nat \<Rightarrow> nat \<Rightarrow> cpu \<Rightarrow> unit res" where
  "xlate_linear laddr len curr_pl rw s =
     (let pageOffset = unat (PAGE_OFFSET laddr) in
      if cr0_PG s then
        (if pageOffset + len \<le> 4096 then
           rbind (translate_linear laddr curr_pl rw s) (\<lambda>a s1. Inr ((), one_page a s1))
         else
           rbind (translate_linear laddr curr_pl rw s) (\<lambda>a s1.
             let l1 = 4096 - pageOffset; l2 = len - l1 in
             rbind (translate_linear (laddr + word_of_nat l1) curr_pl rw (two_pages a l1 l2 s1)) (\<lambda>a2 s2.
               Inr ((), s2\<lparr>paddress2 := a2\<rparr>))))
      else
        (if pageOffset + len \<le> 4096 then
           Inr ((), tlb_direct laddr (if rw = BX_WRITE then BX_WRITE else BX_READ)
                      (if rw = BX_WRITE then 0 else TLB_ReadOnly) (one_page (ucast laddr) s))
         else
           let l1 = 4096 - pageOffset in
           Inr ((), (two_pages (ucast laddr) l1 (len - l1) s)\<lparr>paddress2 := ucast (laddr + word_of_nat l1)\<rparr>)))"

definition xlated_read :: "nat \<Rightarrow> cpu \<Rightarrow> bytes" where
  "xlated_read len s =
     (if pages s = Inl 1 then access_read_physical (paddress1 s) len s
      else access_read_physical (paddress1 s) (len1 s) s @ access_read_physical (paddress2 s) (len2 s) s)"

definition xlated_write :: "bytes \<Rightarrow> cpu \<Rightarrow> cpu" where
  "xlated_write bs s =
     (case pages s of
        Inr host \<Rightarrow> access_write_physical host bs s
      | Inl n \<Rightarrow>
          if n = 1 then access_write_physical (paddress1 s) bs s
          else access_write_physical (paddress2 s) (drop (len1 s) bs)
                 (access_write_physical (paddress1 s) (take (len1 s) bs) s))"

definition access_read_linear :: "u64 \<Rightarrow> nat \<Rightarrow> nat \<Rightarrow> nat \<Rightarrow> cpu \<Rightarrow> bytes res" where
  "access_read_linear laddr len curr_pl xlate_rw s =
     rbind (xlate_linear laddr len curr_pl xlate_rw s) (\<lambda>_ s1. Inr (xlated_read len s1, s1))"

definition access_write_linear :: "u64 \<Rightarrow> bytes \<Rightarrow> nat \<Rightarrow> cpu \<Rightarrow> unit res" where
  "access_write_linear laddr bs curr_pl s =
     rbind (xlate_linear laddr (length bs) curr_pl BX_WRITE s) (\<lambda>_ s1. Inr ((), xlated_write bs s1))"

end
