(* ===== verification/Cpu_Paging_Spec.thy ===== *)
theory Cpu_Paging_Spec
  imports Cpu_Paging
begin

text \<open>
  Page table entries in memory and the walk over 32 bit entries
  (\<^verbatim>\<open>src/sim/bochs/cpu/paging.cc\<close>). A walk that found a page finds the same page again, and writes nothing,
  for every later access that the TLB entry made of it lets through, as long as memory differs by accessed and dirty bits only.
\<close>

unbundle bit_operations_syntax

section \<open>Entries in memory\<close>

lemma unat_neg: "x \<noteq> 0 \<Longrightarrow> unat (- x :: u32) = 2 ^ 32 - unat x"
proof -
  assume "x \<noteq> 0"
  then have "uint x \<noteq> 0" using word_eq_iff_unsigned [of x 0, where ?'a = int] by simp
  then have "uint (- x) = 2 ^ 32 - uint x" 
    using unsigned_less [of x, where ?'a = int] unsigned_greater_eq [of x, where ?'a = int]
    by (simp add: uint_word_ariths zmod_zminus1_eq_if)
  then have "int (unat (- x) + unat x) = int (2 ^ 32)" by simp
  then have "unat (- x) + unat x = 2 ^ 32" by (simp only: of_nat_eq_iff)
  then show ?thesis by simp
qed

lemma unat_pred: "unat y \<noteq> 0 \<Longrightarrow> unat (y - 1 :: u32) = unat y - 1"
  by (simp add: unat_sub word_le_nat_alt)

lemma put_bytes_apply:
  "length bs \<le> 2 ^ 32 \<Longrightarrow> put_bytes a bs m x = (if unat (x - a) < length bs then bs ! unat (x - a) else m x)"
proof (induction bs arbitrary: a m)
  case (Cons b bs)
  show ?case
  proof (cases "x = a")
    case True
    have "unat (- 1 :: u32) = 2 ^ 32 - 1" by (subst unat_neg) simp_all
    then have "unat (a - (a + 1)) \<ge> length bs" using Cons.prems by simp
    then show ?thesis using True Cons by simp
  next
    case False
    then have n: "unat (x - a) \<noteq> 0" using word_eq_iff_unsigned [of "x - a" 0, where ?'a = nat] by simp
    have "x - (a + 1) = (x - a) - 1" by (simp add: algebra_simps)
    then have "unat (x - (a + 1)) = unat (x - a) - 1" using unat_pred [OF n] by (simp only:)
    then show ?thesis using False Cons n by (auto simp: nth_Cons' unat_eq_0)
  qed
qed simp

lemma phys_bytes_put_same: "length bs \<le> 2 ^ 32 \<Longrightarrow> phys_bytes a (length bs) (put_bytes a bs m) = bs"
  by (rule nth_equalityI) (auto simp: phys_bytes_def put_bytes_apply unat_of_nat)

lemma phys_bytes_put_other:
  assumes "n \<le> unat (b - a)" and "unat (b - a) + length bs \<le> 2 ^ 32" 
  shows "phys_bytes a n (put_bytes b bs m) = phys_bytes a n m"
proof -
  have "\<not> unat (a + word_of_nat i - b) < length bs" if i: "i < n" for i
  proof -
    have ne: "b \<noteq> a" using assms(1) i by auto
    have "unat (a - b) = 2 ^ 32 - unat (b - a)"
      using ne unat_neg [of "b - a"] by simp
    moreover have "unat (a - b + word_of_nat i) = unat (a - b) + i"
      by (rule unat_add_small) (use calculation i assms in linarith)
    moreover have "a + word_of_nat i - b = a - b + word_of_nat i" by (simp add: algebra_simps)
    ultimately have "unat (a + word_of_nat i - b) = 2 ^ 32 - unat (b - a) + i" by (simp only:)
    then show ?thesis using assms i by linarith
  qed
  moreover have "length bs \<le> 2 ^ 32" using assms(2) by simp
  ultimately show ?thesis by (simp add: phys_bytes_def put_bytes_apply)
qed

lemma bytes_word_bytes32 [simp]: "bytes_word (low_bytes 4 w) = (w :: u32)"
  using unsigned_less [of w, where ?'a = nat] by (simp add: bytes_word_def low_bytes_def le_nat_le_bytes del: le_bytes_numeral)

lemma bytes_word_bytes64 [simp]: "bytes_word (low_bytes 8 w) = (w :: u64)"
  using unsigned_less [of w, where ?'a = nat] by (simp add: bytes_word_def low_bytes_def le_nat_le_bytes del: le_bytes_numeral)

definition aligned :: "nat \<Rightarrow> u32 \<Rightarrow> bool" where
  "aligned k a \<longleftrightarrow> unat a mod k = 0"

lemma aligned_apart:
  assumes "aligned k a" "aligned k b" "a \<noteq> b" "k dvd 2 ^ 32" "0 < k"
  shows "k \<le> unat (b - a) \<and> unat (b - a) + k \<le> 2 ^ 32"
proof -
  have d: "unat (b - a) \<noteq> 0" using assms(3) word_eq_iff_unsigned [of "b - a" 0, where ?'a = nat] by simp
  have "uint (b - a) = (uint b - uint a) mod 2 ^ 32" by (simp add: uint_word_ariths)
  moreover have "int k dvd uint b - uint a" using assms(1,2) by (simp add: aligned_def mod_eq_0_iff_dvd)
    (metis int_dvd_int_iff uint_nat dvd_diff)
  moreover have "int k dvd 2 ^ 32" using assms(4) by (metis int_dvd_int_iff of_nat_numeral of_nat_power)
  ultimately have "int k dvd uint (b - a)" by (simp add: dvd_mod)
  then have v: "k dvd unat (b - a)" by (simp flip: int_dvd_int_iff)
  then have "k \<le> unat (b - a)" using d by (simp add: dvd_imp_le)
  moreover obtain j where "unat (b - a) = k * j" using v by blast
  moreover obtain l where "2 ^ 32 = k * l" using assms(4) by blast
  moreover have "unat (b - a) < 2 ^ 32" using unsigned_less [of "b - a", where ?'a = nat] by simp
  ultimately have "k * j < k * l" by (simp only:)
  then have "j < l" by simp
  then have "k * Suc j \<le> k * l" by (intro mult_le_mono2) simp
  then show ?thesis using \<open>k \<le> unat (b - a)\<close> \<open>unat (b - a) = k * j\<close> \<open>2 ^ 32 = k * l\<close> by simp
qed

lemma read_write_entry32:
  assumes "aligned 4 a" "aligned 4 b"
  shows "read_entry32 a (write_entry32 b w s) = (if a = b then w else read_entry32 a s)"
proof (cases "a = b")
  case True
  then show ?thesis using phys_bytes_put_same [of "low_bytes 4 w" b "ram s"]
    by (simp add: read_entry32_def write_entry32_def access_read_physical_def access_write_physical_def)
next
  case False
  then show ?thesis using aligned_apart [OF assms False] phys_bytes_put_other [of 4 b a "low_bytes 4 w" "ram s"]
    by (simp add: read_entry32_def write_entry32_def access_read_physical_def access_write_physical_def)
qed

lemma read_write_entry64:
  assumes "aligned 8 a" "aligned 8 b"
  shows "read_entry64 a (write_entry64 b w s) = (if a = b then w else read_entry64 a s)"
proof (cases "a = b")
  case True
  then show ?thesis using phys_bytes_put_same [of "low_bytes 8 w" b "ram s"]
    by (simp add: read_entry64_def write_entry64_def access_read_physical_def access_write_physical_def)
next
  case False
  then show ?thesis using aligned_apart [OF assms False] phys_bytes_put_other [of 8 b a "low_bytes 8 w" "ram s"]
    by (simp add: read_entry64_def write_entry64_def access_read_physical_def access_write_physical_def)
qed

section \<open>Accessed and dirty bits\<close>

text \<open>What a walk reads of the state, besides memory.\<close>

definition paging_regs :: "cpu \<Rightarrow> bool \<times> u64 \<times> bool \<times> bool \<times> bool \<times> bool \<times> bool" where
  "paging_regs s = (cr0_WP s, cr3_masked s, cr4_PSE s, cr4_PAE s, cr4_PGE s, efer_NXE s, efer_LMA s)"

text \<open>Memory in which entries have at most more accessed and dirty bits.\<close>

definition ad_ext :: "(u32 \<Rightarrow> cpu \<Rightarrow> 'e::len word) \<Rightarrow> nat \<Rightarrow> cpu \<Rightarrow> cpu \<Rightarrow> bool" where
  "ad_ext rd k s s1 \<longleftrightarrow> paging_regs s1 = paging_regs s \<and>
     (\<forall>a. aligned k a \<longrightarrow> (\<exists>v. rd a s1 = rd a s OR (v AND 0x60)))"

lemma or_ad_and: "c AND 0x60 = 0 \<Longrightarrow> (w OR (v AND 0x60)) AND c = (w :: 'e::len word) AND c"
proof -
  assume "c AND 0x60 = 0"
  moreover have "(v AND 0x60) AND c = v AND (c AND 0x60)" by (simp only: and.assoc and.commute [of "0x60"])
  ultimately have "(v AND 0x60) AND c = 0" by simp
  then show ?thesis by (simp add: bit.conj_disj_distrib2)
qed

lemma or_ad_or: "(w OR (v AND 0x60)) OR (u AND 0x60) = (w :: 'e::len word) OR ((v OR u) AND 0x60)"
  by (simp add: or.assoc bit.conj_disj_distrib2)

lemma or_ad_mono: "w AND c \<noteq> 0 \<Longrightarrow> (w OR v) AND c \<noteq> (0 :: 'e::len word)"
  by (simp add: bit.conj_disj_distrib2 or_eq_0_iff)

locale page_entries =
  fixes rd :: "u32 \<Rightarrow> cpu \<Rightarrow> 'e::len word" and wr :: "u32 \<Rightarrow> 'e word \<Rightarrow> cpu \<Rightarrow> cpu" and k :: nat
  assumes rd_wr: "aligned k a \<Longrightarrow> aligned k b \<Longrightarrow> rd a (wr b w s) = (if a = b then w else rd a s)"
    and wr_regs: "paging_regs (wr b w s) = paging_regs s"
    and low_bits: "(0x20 :: 'e word) \<noteq> 0" "(0x40 :: 'e word) \<noteq> 0" "(0x20 :: 'e word) AND 0x40 = 0"
begin

lemma ext_refl: "ad_ext rd k s s"
proof -
  have "rd a s = rd a s OR (0 AND 0x60)" for a by simp
  then show ?thesis unfolding ad_ext_def by blast
qed

lemma ext_trans: "ad_ext rd k s t \<Longrightarrow> ad_ext rd k t u \<Longrightarrow> ad_ext rd k s u"
  unfolding ad_ext_def by (metis or_ad_or)

lemma ext_mark:
  assumes "ad_ext rd k s t" and "aligned k a" and "c AND 0x60 = c"
  shows "ad_ext rd k s (wr a (rd a s OR c) t)"
  unfolding ad_ext_def
proof (intro conjI allI impI)
  show "paging_regs (wr a (rd a s OR c) t) = paging_regs s" using assms(1) by (simp add: ad_ext_def wr_regs)
  fix b assume "aligned k b"
  then show "\<exists>v. rd b (wr a (rd a s OR c) t) = rd b s OR (v AND 0x60)"
    using assms by (cases "b = a") (auto simp: rd_wr ad_ext_def intro: exI [of _ c])
qed

text \<open>A mark keeps the marks made before.\<close>

lemma keep_mark:
  assumes "aligned k a" "aligned k b" "rd b t AND 0x20 \<noteq> 0" "c AND 0x20 \<noteq> 0"
  shows "rd b (wr a (e OR c) t) AND 0x20 \<noteq> 0"
  using assms or_ad_mono [of c "0x20" e] by (simp add: rd_wr or.commute)

lemma ext_marked:
  assumes "ad_ext rd k s t" and "aligned k a" and "rd a s AND c \<noteq> 0"
  shows "rd a t AND c \<noteq> 0"
  using assms or_ad_mono by (fastforce simp: ad_ext_def)

text \<open>Marking an entry accessed, and accessed and perhaps dirty.\<close>

lemma mark_A:
  assumes "t' = (if e AND 0x20 = 0 then wr a (e OR 0x20) t else t)"
    and "ad_ext rd k s t" and "aligned k a" and "e = rd a s"
  shows "ad_ext rd k s t'" and "rd a t' AND 0x20 \<noteq> 0"
    and "aligned k b \<Longrightarrow> rd b t AND 0x20 \<noteq> 0 \<Longrightarrow> rd b t' AND 0x20 \<noteq> 0"
  using assms ext_mark [OF assms(2,3), of "0x20"] keep_mark [of a b t "0x20" e]
    ext_marked [OF assms(2,3), of "0x20"] or_ad_mono [of "0x20" "0x20" e] low_bits
  by (auto simp: rd_wr or.commute)

lemma mark_AD:
  assumes "t' = (if e AND 0x20 = 0 \<or> (w \<and> e AND 0x40 = 0)
                 then wr a (e OR (0x20 OR push_bit 6 (of_bool w))) t else t)"
    and "ad_ext rd k s t" and "aligned k a" and "e = rd a s"
  shows "ad_ext rd k s t'" and "rd a t' AND 0x20 \<noteq> 0" and "w \<Longrightarrow> rd a t' AND 0x40 \<noteq> 0"
    and "aligned k b \<Longrightarrow> rd b t AND 0x20 \<noteq> 0 \<Longrightarrow> rd b t' AND 0x20 \<noteq> 0"
proof -
  let ?c = "0x20 OR push_bit 6 (of_bool w) :: 'e word"
  have c: "?c AND 0x60 = ?c" "?c AND 0x20 \<noteq> 0" "w \<Longrightarrow> ?c AND 0x40 \<noteq> 0" using low_bits by (cases w; simp)+
  show "ad_ext rd k s t'" using assms ext_mark [OF assms(2,3) c(1)] by simp
  show "rd a t' AND 0x20 \<noteq> 0"
    using assms ext_marked [OF assms(2,3), of "0x20"] or_ad_mono [OF c(2), of e] by (simp add: rd_wr or.commute)
  show "w \<Longrightarrow> rd a t' AND 0x40 \<noteq> 0"
    using assms ext_marked [OF assms(2,3), of "0x40"] or_ad_mono [OF c(3), of e] by (simp add: rd_wr or.commute)
  show "aligned k b \<Longrightarrow> rd b t AND 0x20 \<noteq> 0 \<Longrightarrow> rd b t' AND 0x20 \<noteq> 0"
    using assms(1,3) keep_mark [OF assms(3) _ _ c(2), of b t e] by simp
qed

end

interpretation entries32: page_entries read_entry32 write_entry32 4
  by unfold_locales (simp add: read_write_entry32, simp add: paging_regs_def write_entry32_def access_write_physical_def, simp_all)

interpretation entries64: page_entries read_entry64 write_entry64 8
  by unfold_locales (simp add: read_write_entry64, simp add: paging_regs_def write_entry64_def access_write_physical_def, simp_all)

section \<open>Rights\<close>

definition priv_ok :: "bool \<Rightarrow> bool \<Rightarrow> bool \<Rightarrow> bool \<Rightarrow> bool \<Rightarrow> bool" where
  "priv_ok WP user us rw write \<longleftrightarrow>
     (user \<longrightarrow> us) \<and> (write \<longrightarrow> WP \<or> user \<longrightarrow> rw)"

lemma bit_unat: "bit (unat (w :: u32)) n = bit w n"
  by (simp add: bit_unsigned_iff)

lemma priv_check_eq:
  "priv_check (priv_index s pl (x AND 6) w) = priv_ok (cr0_WP s) pl (bit x 2) (bit x 1) w"
  by (simp add: priv_check_def priv_index_def bit_unat bit_simps priv_ok_def Let_def)

lemma tlb_rights_eq:
  "tlb_rights w c AND (push_bit 1 (of_bool w') OR of_bool u) = 0 \<longleftrightarrow>
     (u \<longrightarrow> bit c 2) \<and> (w' \<longrightarrow> w \<and> (bit c 2 \<longrightarrow> bit c 1))"
proof -
  have "c AND 4 = 0 \<longleftrightarrow> \<not> bit c 2" "c AND 2 = 0 \<longleftrightarrow> \<not> bit c 1"
    using and_exp_eq_0_iff_not_bit [of c 2] and_exp_eq_0_iff_not_bit [of c 1] by simp_all
  then show ?thesis
    by (cases u; cases w'; cases "c AND 0x100 = 0"; cases w; cases "bit c 2"; cases "bit c 1")
      (simp_all add: tlb_rights_def TLB_SysOnly_def TLB_ReadOnly_def TLB_GlobalPage_def)
qed

section \<open>Walking again: 32 bit entries\<close>

lemma aligned4: "\<not> bit a 0 \<Longrightarrow> \<not> bit a 1 \<Longrightarrow> aligned 4 a"
proof -
  assume "\<not> bit a 0" "\<not> bit a 1"
  then have "\<not> bit (unat a) 0" "\<not> bit (unat a) 1" by (simp_all only: bit_unat not_False_eq_True)
  then have "even (unat a)" "even (unat a div 2)" by (simp_all add: bit_iff_odd)
  then show ?thesis unfolding aligned_def by presburger
qed

lemma aligned8: "\<not> bit a 0 \<Longrightarrow> \<not> bit a 1 \<Longrightarrow> \<not> bit a 2 \<Longrightarrow> aligned 8 a"
proof -
  assume "\<not> bit a 0" "\<not> bit a 1" "\<not> bit a 2"
  then have "\<not> bit (unat a) 0" "\<not> bit (unat a) 1" "\<not> bit (unat a) 2" by (simp_all only: bit_unat not_False_eq_True)
  then have "even (unat a)" "even (unat a div 2)" "even (unat a div 4)" by (simp_all add: bit_iff_odd)
  then show ?thesis unfolding aligned_def by presburger
qed

lemma page_bits:
  assumes "c AND 0xfff = (0 :: u64)"
  shows "\<not> bit c 0" "\<not> bit c 1" "\<not> bit c 2"
proof -
  have "bit (c AND 0xfff) 0 = bit c 0" "bit (c AND 0xfff) 1 = bit c 1" "bit (c AND 0xfff) 2 = bit c 2"
    by (simp_all add: bit_simps)
  then show "\<not> bit c 0" "\<not> bit c 1" "\<not> bit c 2" using assms by simp_all
qed

lemma legacy_addresses:
  "c AND 0xfff = (0 :: u64) \<Longrightarrow> aligned 4 (ucast (c OR drop_bit 20 (laddr AND 0xffc00000)))"
  "aligned 4 ((pde AND 0xfffff000) OR ucast (drop_bit 10 (laddr AND 0x3ff000 :: u64)))"
  by (rule aligned4; simp add: page_bits page_bits [unfolded One_nat_def] bit_simps)+

lemma page_fault_Inr [simp]: "page_fault e la u rw s \<noteq> Inr r"
  by (simp add: page_fault_def exception_def Let_def)

lemma regs_eq:
  "paging_regs s = paging_regs t \<Longrightarrow> cr3_masked s = cr3_masked t \<and> cr0_WP s = cr0_WP t \<and> cr4_PSE s = cr4_PSE t \<and>
     cr4_PGE s = cr4_PGE t \<and> cr4_PAE s = cr4_PAE t \<and> efer_LMA s = efer_LMA t \<and> efer_NXE s = efer_NXE t"
  by (simp add: paging_regs_def)

lemma priv_ok_again:
  "priv_ok WP u us rw w \<Longrightarrow> (u' \<longrightarrow> us) \<Longrightarrow> (w' \<longrightarrow> w \<and> (us \<longrightarrow> rw)) \<Longrightarrow> priv_ok WP u' us rw w'"
  by (auto simp: priv_ok_def)

lemma marked_A32 [simp]: "e AND 0x20 \<noteq> 0 \<Longrightarrow> mark_A32 a e s = s"
  by (simp add: mark_A32_def)

lemma marked_AD32: "e AND 0x20 \<noteq> 0 \<Longrightarrow> (w \<longrightarrow> e AND 0x40 \<noteq> 0) \<Longrightarrow> mark_AD32 w a e s = s"
  by (auto simp: mark_AD32_def)


lemmas mark_A32_ext = entries32.mark_A [OF mark_A32_def]
lemmas mark_AD32_ext = entries32.mark_AD [OF mark_AD32_def]


text \<open>What an entry that has been used looks like after more marks.\<close>

lemma ext32_entry:
  assumes "ad_ext read_entry32 4 s t" "aligned 4 a"
  obtains v where "read_entry32 a t = read_entry32 a s OR (v AND 0x60)"
  using assms unfolding ad_ext_def by blast

text \<open>The rights of a walk: allowed, and allowed again for whatever the TLB entry lets through.\<close>

lemma priv_again:
  assumes "priv_check (priv_index s u (x AND 6) w)" and "cr0_WP t = cr0_WP s"
    and "c = (if G then (x AND 6) OR (e AND 0x100) else x AND 6)"
    and "tlb_rights w c AND (push_bit 1 (of_bool w') OR of_bool u') = 0"
  shows "priv_check (priv_index t u' (x AND 6) w')" and "w' \<longrightarrow> w"
proof -
  have "bit c 2 = bit x 2" "bit c 1 = bit x 1" using assms(3) by (cases G; simp add: bit_simps)+
  then have p: "u' \<longrightarrow> bit x 2" "w' \<longrightarrow> w \<and> (bit x 2 \<longrightarrow> bit x 1)" using assms(4) unfolding tlb_rights_eq by simp_all
  show "priv_check (priv_index t u' (x AND 6) w')"
    using assms(1,2) priv_ok_again [OF _ p] unfolding priv_check_eq by simp
  show "w' \<longrightarrow> w" using p by blast
qed

lemma and_and_ad:
  "c AND 0x60 = 0 \<Longrightarrow> ((a OR (v AND 0x60)) AND (b OR (u AND 0x60))) AND c = (a AND b) AND (c :: 'e::len word)"
proof -
  assume c: "c AND 0x60 = 0"
  have d: "(x AND y) AND c = (x AND c) AND (y AND c)" for x y :: "'e word"
    by (simp add: and.assoc and.left_commute)
  show ?thesis by (simp only: d or_ad_and [OF c])
qed

text \<open>The directory and table entries of an address.\<close>

definition legacy_pde :: "u64 \<Rightarrow> cpu \<Rightarrow> u32" where
  "legacy_pde la s = ucast (cr3_masked s OR drop_bit 20 (la AND 0xffc00000))"
definition legacy_pte :: "u64 \<Rightarrow> cpu \<Rightarrow> u32" where
  "legacy_pte la s = (read_entry32 (legacy_pde la s) s AND 0xfffff000) OR ucast (drop_bit 10 (la AND 0x3ff000))"

lemma legacy_regs:
  assumes "ad_ext read_entry32 4 s t"
  shows "cr4_PSE t = cr4_PSE s" "cr4_PGE t = cr4_PGE s" "cr0_WP t = cr0_WP s"
  using assms regs_eq unfolding ad_ext_def by blast+

lemma legacy_again:
  assumes "ad_ext read_entry32 4 s t" "cr3_masked s AND 0xfff = 0"
  shows "legacy_pde la t = legacy_pde la s" "legacy_pte la t = legacy_pte la s"
    and "\<exists>v. read_entry32 (legacy_pde la s) t = read_entry32 (legacy_pde la s) s OR (v AND 0x60)"
    and "\<exists>v. read_entry32 (legacy_pte la s) t = read_entry32 (legacy_pte la s) s OR (v AND 0x60)"
proof -
  have "cr3_masked t = cr3_masked s" using assms(1) regs_eq unfolding ad_ext_def by blast
  then show 1: "legacy_pde la t = legacy_pde la s" by (simp add: legacy_pde_def)
  show e: "\<exists>v. read_entry32 (legacy_pde la s) t = read_entry32 (legacy_pde la s) s OR (v AND 0x60)"
    using assms legacy_addresses(1) unfolding ad_ext_def legacy_pde_def by blast
  show "legacy_pte la t = legacy_pte la s" using e unfolding legacy_pte_def 1 by (auto simp: or_ad_and)
  show "\<exists>v. read_entry32 (legacy_pte la s) t = read_entry32 (legacy_pte la s) s OR (v AND 0x60)"
    using assms(1) legacy_addresses(2) unfolding ad_ext_def legacy_pte_def by blast
qed

text \<open>When the walk succeeds: with a page of 4M, and with a page of 4K.\<close>

definition legacy_4M :: "u64 \<Rightarrow> nat \<Rightarrow> nat \<Rightarrow> cpu \<Rightarrow> walk_result \<times> cpu \<Rightarrow> bool" where
  "legacy_4M la pl rw s r \<longleftrightarrow>
     (let pde = read_entry32 (legacy_pde la s) s in
      pde AND PDE4M_RESERVED_BITS = 0 \<and> priv_check (priv_index s (pl = 3) (pde AND 6) (odd rw)) \<and>
      r = (((pde AND 0xffc00000) OR (ucast la AND 0x3ff000),
            if cr4_PGE s then (pde AND 6) OR (pde AND 0x100) else pde AND 6, 0x3fffff),
           mark_AD32 (odd rw) (legacy_pde la s) pde s))"

definition legacy_4K :: "u64 \<Rightarrow> nat \<Rightarrow> nat \<Rightarrow> cpu \<Rightarrow> walk_result \<times> cpu \<Rightarrow> bool" where
  "legacy_4K la pl rw s r \<longleftrightarrow>
     (let pde = read_entry32 (legacy_pde la s) s; pte = read_entry32 (legacy_pte la s) s in
      pte AND 1 \<noteq> 0 \<and> priv_check (priv_index s (pl = 3) ((pde AND pte) AND 6) (odd rw)) \<and>
      r = ((pte AND 0xfffff000,
            if cr4_PGE s then ((pde AND pte) AND 6) OR (pte AND 0x100) else (pde AND pte) AND 6, 0xfff),
           mark_AD32 (odd rw) (legacy_pte la s) pte (mark_A32 (legacy_pde la s) pde s)))"

lemma walk_legacy_iff:
  "walk_legacy la pl rw s = Inr r \<longleftrightarrow>
     (let pde = read_entry32 (legacy_pde la s) s in
      pde AND 1 \<noteq> 0 \<and> (if pde AND 0x80 \<noteq> 0 \<and> cr4_PSE s then legacy_4M la pl rw s r else legacy_4K la pl rw s r))"
  unfolding walk_legacy_def legacy_4M_def legacy_4K_def Let_def legacy_pde_def [symmetric] legacy_pte_def [symmetric]
  by (auto split: if_splits)

lemma legacy_4M_again:
  assumes page: "legacy_4M la pl rw s ((f, c, m), s1)" and cr3: "cr3_masked s AND 0xfff = 0"
  shows "ad_ext read_entry32 4 s s1"
    and "\<And>s2 pl' rw'. ad_ext read_entry32 4 s1 s2 \<Longrightarrow>
      tlb_rights (odd rw) c AND (push_bit 1 (of_bool (odd rw')) OR of_bool (pl' = 3)) = 0 \<Longrightarrow>
      legacy_4M la pl' rw' s2 ((f, c, m), s2)"
proof -
  let ?A = "legacy_pde la s" and ?pde = "read_entry32 (legacy_pde la s) s"
  have al: "aligned 4 ?A" using legacy_addresses(1) cr3 by (simp add: legacy_pde_def)
  have w: "?pde AND PDE4M_RESERVED_BITS = 0" "priv_check (priv_index s (pl = 3) (?pde AND 6) (odd rw))"
    "f = (?pde AND 0xffc00000) OR (ucast la AND 0x3ff000)" "m = 0x3fffff"
    "c = (if cr4_PGE s then (?pde AND 6) OR (?pde AND 0x100) else ?pde AND 6)" "s1 = mark_AD32 (odd rw) ?A ?pde s"
    using page unfolding legacy_4M_def Let_def by simp_all
  note e = mark_AD32_ext [where w = "odd rw", OF entries32.ext_refl [where s = s] al refl, folded w(6)]
  show "ad_ext read_entry32 4 s s1" by (rule e(1))
  fix s2 :: cpu and pl' rw' :: nat
  assume later: "ad_ext read_entry32 4 s1 s2"
    and hit: "tlb_rights (odd rw) c AND (push_bit 1 (of_bool (odd rw')) OR of_bool (pl' = 3)) = 0"
  note ss = entries32.ext_trans [OF e(1) later]
  note regs = legacy_regs [OF ss] and again = legacy_again [OF ss cr3, of la]
  obtain v where v: "read_entry32 ?A s2 = ?pde OR (v AND 0x60)" using again(3) by blast
  note p = priv_again [OF w(2) regs(3) w(5) hit]
  have "read_entry32 ?A s2 AND 0x20 \<noteq> 0" "odd rw' \<longrightarrow> read_entry32 ?A s2 AND 0x40 \<noteq> 0"
    using entries32.ext_marked [OF later al] e(2,3) p(2) by blast+
  then have n: "mark_AD32 (odd rw') ?A (read_entry32 ?A s2) s2 = s2" by (rule marked_AD32)
  show "legacy_4M la pl' rw' s2 ((f, c, m), s2)"
    unfolding legacy_4M_def Let_def again(1,2) regs n using w p(1) by (simp add: v or_ad_and PDE4M_RESERVED_BITS_def)
qed

lemma legacy_4K_again:
  assumes page: "legacy_4K la pl rw s ((f, c, m), s1)" and cr3: "cr3_masked s AND 0xfff = 0"
  shows "ad_ext read_entry32 4 s s1"
    and "\<And>s2 pl' rw'. ad_ext read_entry32 4 s1 s2 \<Longrightarrow>
      tlb_rights (odd rw) c AND (push_bit 1 (of_bool (odd rw')) OR of_bool (pl' = 3)) = 0 \<Longrightarrow>
      legacy_4K la pl' rw' s2 ((f, c, m), s2)"
proof -
  let ?A = "legacy_pde la s" and ?B = "legacy_pte la s"
  let ?pde = "read_entry32 ?A s" and ?pte = "read_entry32 ?B s"
  have al: "aligned 4 ?A" "aligned 4 ?B" using legacy_addresses cr3 by (simp_all add: legacy_pde_def legacy_pte_def)
  have w: "?pte AND 1 \<noteq> 0" "priv_check (priv_index s (pl = 3) ((?pde AND ?pte) AND 6) (odd rw))"
    "f = ?pte AND 0xfffff000" "m = 0xfff"
    "c = (if cr4_PGE s then ((?pde AND ?pte) AND 6) OR (?pte AND 0x100) else (?pde AND ?pte) AND 6)"
    "s1 = mark_AD32 (odd rw) ?B ?pte (mark_A32 ?A ?pde s)"
    using page unfolding legacy_4K_def Let_def by simp_all
  note e1 = mark_A32_ext [OF entries32.ext_refl [where s = s] al(1) refl]
  note e = mark_AD32_ext [where w = "odd rw", OF e1(1) al(2) refl, folded w(6)]
  show "ad_ext read_entry32 4 s s1" by (rule e(1))
  fix s2 :: cpu and pl' rw' :: nat
  assume later: "ad_ext read_entry32 4 s1 s2"
    and hit: "tlb_rights (odd rw) c AND (push_bit 1 (of_bool (odd rw')) OR of_bool (pl' = 3)) = 0"
  note ss = entries32.ext_trans [OF e(1) later]
  note regs = legacy_regs [OF ss] and again = legacy_again [OF ss cr3, of la]
  obtain v u where v: "read_entry32 ?A s2 = ?pde OR (v AND 0x60)" "read_entry32 ?B s2 = ?pte OR (u AND 0x60)"
    using again(3,4) by blast
  note p = priv_again [OF w(2) regs(3) w(5) hit]
  have "read_entry32 ?A s2 AND 0x20 \<noteq> 0"
    using entries32.ext_marked [OF later al(1)] e(4) [OF al(1) e1(2)] by blast
  moreover have "read_entry32 ?B s2 AND 0x20 \<noteq> 0" "odd rw' \<longrightarrow> read_entry32 ?B s2 AND 0x40 \<noteq> 0"
    using entries32.ext_marked [OF later al(2)] e(2,3) p(2) by blast+
  ultimately have n: "mark_AD32 (odd rw') ?B (read_entry32 ?B s2) (mark_A32 ?A (read_entry32 ?A s2) s2) = s2"
    by (simp add: marked_AD32)
  show "legacy_4K la pl' rw' s2 ((f, c, m), s2)"
    unfolding legacy_4K_def Let_def again(1,2) regs n using w p(1) by (simp add: v or_ad_and and_and_ad)
qed

lemma walk_legacy_again:
  assumes walk: "walk_legacy la pl rw s = Inr ((f, c, m), s1)" and cr3: "cr3_masked s AND 0xfff = 0"
  shows "ad_ext read_entry32 4 s s1"
    and "\<And>s2 pl' rw'. ad_ext read_entry32 4 s1 s2 \<Longrightarrow>
      tlb_rights (odd rw) c AND (push_bit 1 (of_bool (odd rw')) OR of_bool (pl' = 3)) = 0 \<Longrightarrow>
      walk_legacy la pl' rw' s2 = Inr ((f, c, m), s2)"
proof -
  let ?pde = "read_entry32 (legacy_pde la s) s" and ?big = "read_entry32 (legacy_pde la s) s AND 0x80 \<noteq> 0 \<and> cr4_PSE s"
  have w: "?pde AND 1 \<noteq> 0" "if ?big then legacy_4M la pl rw s ((f, c, m), s1) else legacy_4K la pl rw s ((f, c, m), s1)"
    using walk unfolding walk_legacy_iff Let_def by blast+
  show ext: "ad_ext read_entry32 4 s s1"
    using w(2) legacy_4M_again(1) [OF _ cr3] legacy_4K_again(1) [OF _ cr3] by meson
  fix s2 :: cpu and pl' rw' :: nat
  assume later: "ad_ext read_entry32 4 s1 s2"
    and hit: "tlb_rights (odd rw) c AND (push_bit 1 (of_bool (odd rw')) OR of_bool (pl' = 3)) = 0"
  note ss = entries32.ext_trans [OF ext later]
  note regs = legacy_regs [OF ss] and again = legacy_again [OF ss cr3, of la]
  obtain v where v: "read_entry32 (legacy_pde la s) s2 = ?pde OR (v AND 0x60)" using again(3) by blast
  have "if ?big then legacy_4M la pl' rw' s2 ((f, c, m), s2) else legacy_4K la pl' rw' s2 ((f, c, m), s2)"
    using w(2) legacy_4M_again(2) [OF _ cr3 later hit] legacy_4K_again(2) [OF _ cr3 later hit] by meson
  then show "walk_legacy la pl' rw' s2 = Inr ((f, c, m), s2)"
    unfolding walk_legacy_iff Let_def again(1,2) regs v using w(1) by (simp add: or_ad_and)
qed

end
