(* ===== verification/Cpu_Long_Walk.thy ===== *)
theory Cpu_Long_Walk
  imports Cpu_Paging_Spec
begin

text \<open>
  The walk of long mode, over four levels of 64 bit entries (\<^verbatim>\<open>translate_linear_long_mode\<close> of
  \<^verbatim>\<open>src/sim/bochs/cpu/paging.cc\<close>): when it succeeds, what it marks, and that it finds its page again without a write.
\<close>

unbundle bit_operations_syntax

section \<open>Walking again: 64 bit entries\<close>

lemmas mark_A64_ext = entries64.mark_A [OF mark_A64_def]
lemmas mark_AD64_ext = entries64.mark_AD [OF mark_AD64_def]

lemma marked_A64 [simp]: "e AND 0x20 \<noteq> 0 \<Longrightarrow> mark_A64 a e s = s"
  by (simp add: mark_A64_def)

lemma marked_AD64: "e AND 0x20 \<noteq> 0 \<Longrightarrow> (w \<longrightarrow> e AND 0x40 \<noteq> 0) \<Longrightarrow> mark_AD64 w a e s = s"
  by (auto simp: mark_AD64_def)

definition entry_ok :: "u64 \<Rightarrow> u64 \<Rightarrow> cpu \<Rightarrow> bool" where
  "entry_ok reserved e s \<longleftrightarrow> e AND 1 \<noteq> 0 \<and> e AND reserved = 0 \<and> (long_mode s \<or> e AND 0x7ff0000000000000 = 0) \<and>
     (e AND PAGE_DIRECTORY_NX_BIT \<noteq> 0 \<longrightarrow> efer_NXE s)"

definition reserved_ok :: "u64 \<Rightarrow> bool" where
  "reserved_ok r \<longleftrightarrow> r AND 0xfffff00000000 = 0xfffff00000000 \<and> r AND 0x60 = 0"

lemma reserved_ok_simps [simp]:
  "reserved_ok PAGING_PHY_ADDRESS_RESERVED_BITS" "reserved_ok PAE_PML4_RESERVED_BITS"
  by (simp_all add: reserved_ok_def PAGING_PHY_ADDRESS_RESERVED_BITS_def PAE_PML4_RESERVED_BITS_def)

lemma get_entry_PAE_Inr:
  assumes "reserved_ok r"
  shows "get_entry_PAE a r la u rw nx s = Inr ((e, nx'), s') \<longleftrightarrow>
    e = read_entry64 a s \<and> s' = s \<and> entry_ok r e s \<and> nx' = (nx \<or> (rw = BX_EXECUTE \<and> e AND PAGE_DIRECTORY_NX_BIT \<noteq> 0))"
proof -
  let ?e = "read_entry64 a s"
  have "?e AND 0xfffff00000000 = (?e AND r) AND 0xfffff00000000"
    using assms by (simp add: reserved_ok_def and.assoc)
  then have "?e AND r = 0 \<Longrightarrow> ?e AND 0xfffff00000000 = 0" by simp
  then show ?thesis
    by (auto simp: get_entry_PAE_def check_entry_PAE_def entry_ok_def Let_def long_mode_def)
qed

lemma rights_PAE_Inr:
  "rights_PAE la u rw nx x e s = Inr (c, s') \<longleftrightarrow> \<not> nx \<and> s' = s \<and>
     priv_check (priv_index s u (ucast x AND 6) (odd rw)) \<and>
     c = (if cr4_PGE s then (ucast x AND 6) OR (ucast e AND 0x100) else ucast x AND 6)"
proof -
  have "ucast (x AND 6) = (ucast x AND 6 :: u32)" "ucast (e AND 0x100) = (ucast e AND 0x100 :: u32)"
    by (rule bit_word_eqI; simp add: bit_simps)+
  then show ?thesis by (auto simp: rights_PAE_def Let_def)
qed

definition table_at :: "u64 \<Rightarrow> u64 \<Rightarrow> u32" where
  "table_at e x = ucast ((e AND 0xffffffffff000) OR x)"

lemma table_at_ad [simp]: "table_at (e OR (v AND 0x60)) x = table_at e x"
  by (simp add: table_at_def or_ad_and)

lemma table_at_aligned:
  "aligned 8 (table_at e (drop_bit 27 (la AND 0x7fc0000000)))" "aligned 8 (table_at e (drop_bit 18 (la AND 0x3fe00000)))"
  "aligned 8 (table_at e (drop_bit 9 (la AND 0x1ff000)))"
  "c AND 0xfff = 0 \<Longrightarrow> aligned 8 (ucast (c OR drop_bit 36 (la AND 0xff8000000000 :: u64)))"
  by (rule aligned8; simp add: table_at_def page_bits page_bits [unfolded One_nat_def] bit_simps)+

definition nx_hit :: "nat \<Rightarrow> u64 \<Rightarrow> bool" where
  "nx_hit rw e \<longleftrightarrow> rw = BX_EXECUTE \<and> e AND PAGE_DIRECTORY_NX_BIT \<noteq> 0"

lemma nx_hit_ad [simp]: "nx_hit rw (e OR (v AND 0x60)) = nx_hit rw e"
  by (simp add: nx_hit_def PAGE_DIRECTORY_NX_BIT_def or_ad_and)

text \<open>The entries of a walk in long mode, and when it succeeds.\<close>

definition pml4_addr :: "u64 \<Rightarrow> cpu \<Rightarrow> u32" where
  "pml4_addr la s = ucast (cr3_masked s OR drop_bit 36 (la AND 0xff8000000000))"
definition pdpe_addr :: "u64 \<Rightarrow> cpu \<Rightarrow> u32" where
  "pdpe_addr la s = table_at (read_entry64 (pml4_addr la s) s) (drop_bit 27 (la AND 0x7fc0000000))"
definition pde_addr :: "u64 \<Rightarrow> cpu \<Rightarrow> u32" where
  "pde_addr la s = table_at (read_entry64 (pdpe_addr la s) s) (drop_bit 18 (la AND 0x3fe00000))"
definition pte_addr :: "u64 \<Rightarrow> cpu \<Rightarrow> u32" where
  "pte_addr la s = table_at (read_entry64 (pde_addr la s) s) (drop_bit 9 (la AND 0x1ff000))"

lemmas long_addrs = pml4_addr_def pdpe_addr_def pde_addr_def pte_addr_def

definition rights_ok :: "nat \<Rightarrow> nat \<Rightarrow> u64 \<Rightarrow> u64 \<Rightarrow> cpu \<Rightarrow> u32 \<Rightarrow> bool" where
  "rights_ok pl rw x e s c \<longleftrightarrow> priv_check (priv_index s (pl = 3) (ucast x AND 6) (odd rw)) \<and>
     c = (if cr4_PGE s then (ucast x AND 6) OR (ucast e AND 0x100) else ucast x AND 6)"

text \<open>Each step of a walk that succeeds.\<close>

lemma then_entry:
  assumes "reserved_ok r"
  shows "rbind (get_entry_PAE a r la u rw nx s) g = Inr x \<longleftrightarrow>
    entry_ok r (read_entry64 a s) s \<and> g (read_entry64 a s, nx \<or> nx_hit rw (read_entry64 a s)) s = Inr x"
  by (auto simp: rbind_eq_Inr get_entry_PAE_Inr [OF assms] nx_hit_def)

lemma then_rights:
  "rbind (rights_PAE la (pl = 3) rw nx x e s) g = Inr r \<longleftrightarrow> \<not> nx \<and> (\<exists>c. rights_ok pl rw x e s c \<and> g c s = Inr r)"
  by (auto simp: rbind_eq_Inr rights_PAE_Inr rights_ok_def)

lemma unless_fault: "(if b then page_fault e la u rw s else r) = Inr x \<longleftrightarrow> \<not> b \<and> r = Inr x"
  by simp

lemma then_page:
  "(if b then r1 else r2) = Inr x \<longleftrightarrow> (if b then r1 = Inr x else r2 = Inr x)"
  by simp

lemmas walk_steps = then_entry [OF reserved_ok_simps(1)] then_entry [OF reserved_ok_simps(2)] then_rights unless_fault
  prod.case Let_def

definition long_page_2M :: "u64 \<Rightarrow> nat \<Rightarrow> nat \<Rightarrow> cpu \<Rightarrow> walk_result \<times> cpu \<Rightarrow> bool" where
  "long_page_2M la pl rw s r \<longleftrightarrow>
     (let pml4 = read_entry64 (pml4_addr la s) s; pdpe = read_entry64 (pdpe_addr la s) s;
          pde = read_entry64 (pde_addr la s) s in
      pde AND PAE_PDE2M_RESERVED_BITS = 0 \<and>
      (\<exists>c. rights_ok pl rw (pml4 AND pdpe AND pde) pde s c \<and>
         r = ((ucast ((pde AND 0xfffffffe00000) OR (la AND 0x1ff000)), c, 0x1fffff),
              mark_AD64 (odd rw) (pde_addr la s) pde (mark_A64 (pdpe_addr la s) pdpe (mark_A64 (pml4_addr la s) pml4 s)))))"

definition long_page_4K :: "u64 \<Rightarrow> nat \<Rightarrow> nat \<Rightarrow> cpu \<Rightarrow> walk_result \<times> cpu \<Rightarrow> bool" where
  "long_page_4K la pl rw s r \<longleftrightarrow>
     (let pml4 = read_entry64 (pml4_addr la s) s; pdpe = read_entry64 (pdpe_addr la s) s;
          pde = read_entry64 (pde_addr la s) s; pte = read_entry64 (pte_addr la s) s in
      entry_ok PAGING_PHY_ADDRESS_RESERVED_BITS pte s \<and> \<not> nx_hit rw pte \<and>
      (\<exists>c. rights_ok pl rw (pml4 AND pdpe AND pde AND pte) pte s c \<and>
         r = ((ucast (pte AND 0xffffffffff000), c, 0xfff),
              mark_AD64 (odd rw) (pte_addr la s) pte (mark_A64 (pde_addr la s) pde
                (mark_A64 (pdpe_addr la s) pdpe (mark_A64 (pml4_addr la s) pml4 s))))))"

lemma walk_long_mode_iff:
  fixes la s
  defines "pml4 \<equiv> read_entry64 (pml4_addr la s) s" and "pdpe \<equiv> read_entry64 (pdpe_addr la s) s"
    and "pde \<equiv> read_entry64 (pde_addr la s) s"
  shows "walk_long_mode la pl rw s = Inr r \<longleftrightarrow>
    entry_ok PAE_PML4_RESERVED_BITS pml4 s \<and> entry_ok PAGING_PHY_ADDRESS_RESERVED_BITS pdpe s \<and> pdpe AND 0x80 = 0 \<and>
    entry_ok PAGING_PHY_ADDRESS_RESERVED_BITS pde s \<and> \<not> nx_hit rw pml4 \<and> \<not> nx_hit rw pdpe \<and> \<not> nx_hit rw pde \<and>
    (if pde AND 0x80 \<noteq> 0 then long_page_2M la pl rw s r else long_page_4K la pl rw s r)"
  unfolding walk_long_mode_def walk_steps table_at_def [symmetric] pml4_addr_def [symmetric] pdpe_addr_def [symmetric]
    pde_addr_def [symmetric] pte_addr_def [symmetric] assms long_page_2M_def long_page_4K_def then_page
  by (cases r) auto

lemma entry_ok_again:
  assumes "entry_ok r e s" "reserved_ok r" "ad_ext read_entry64 8 s t"
  shows "entry_ok r (e OR (v AND 0x60)) t"
proof -
  have "efer_LMA t = efer_LMA s" "efer_NXE t = efer_NXE s" using assms(3) regs_eq unfolding ad_ext_def by blast+
  then show ?thesis using assms(1,2)
    by (simp add: entry_ok_def reserved_ok_def or_ad_and long_mode_def PAGE_DIRECTORY_NX_BIT_def)
qed

lemma rights_ok_again:
  assumes "rights_ok pl rw x e s c" and "x' AND 6 = x AND 6" and "e' AND 0x100 = e AND 0x100"
    and "ad_ext read_entry64 8 s t"
    and "tlb_rights (odd rw) c AND (push_bit 1 (of_bool (odd rw')) OR of_bool (pl' = 3)) = 0"
  shows "rights_ok pl' rw' x' e' t c" and "odd rw' \<longrightarrow> odd rw"
proof -
  have u: "ucast y AND 6 = (ucast (y AND 6) :: u32)" "ucast y AND 0x100 = (ucast (y AND 0x100) :: u32)" for y :: u64
    by (rule bit_word_eqI; simp add: bit_simps)+
  have x: "ucast x' AND 6 = (ucast x AND 6 :: u32)" "ucast e' AND 0x100 = (ucast e AND 0x100 :: u32)"
    by (simp_all only: u assms(2,3))
  have regs: "cr0_WP t = cr0_WP s" "cr4_PGE t = cr4_PGE s" using assms(4) regs_eq unfolding ad_ext_def by blast+
  note p = priv_again [of s "pl = 3" "ucast x" "odd rw" t c "cr4_PGE s" "ucast e" "odd rw'" "pl' = 3"]
  have a: "priv_check (priv_index s (pl = 3) (ucast x AND 6) (odd rw))"
    "c = (if cr4_PGE s then (ucast x AND 6) OR (ucast e AND 0x100) else ucast x AND 6)"
    using assms(1) by (simp_all add: rights_ok_def)
  show "rights_ok pl' rw' x' e' t c" using p(1) [OF a(1) regs(1) a(2) assms(5)] a(2)
    by (simp add: rights_ok_def x regs)
  show "odd rw' \<longrightarrow> odd rw" by (rule p(2) [OF a(1) regs(1) a(2) assms(5)])
qed

lemma long_addrs_aligned:
  "cr3_masked s AND 0xfff = 0 \<Longrightarrow> aligned 8 (pml4_addr la s)"
  "aligned 8 (pdpe_addr la s)" "aligned 8 (pde_addr la s)" "aligned 8 (pte_addr la s)"
  unfolding long_addrs by (rule table_at_aligned, assumption, rule table_at_aligned, rule table_at_aligned, rule table_at_aligned)

text \<open>The entries and their addresses when only marks were added.\<close>

lemma long_entries_again:
  assumes "ad_ext read_entry64 8 s t" and "cr3_masked s AND 0xfff = 0"
  shows "pml4_addr la t = pml4_addr la s" "pdpe_addr la t = pdpe_addr la s" "pde_addr la t = pde_addr la s"
    "pte_addr la t = pte_addr la s"
    and "\<exists>v. read_entry64 (pml4_addr la s) t = read_entry64 (pml4_addr la s) s OR (v AND 0x60)"
    and "\<exists>v. read_entry64 (pdpe_addr la s) t = read_entry64 (pdpe_addr la s) s OR (v AND 0x60)"
    and "\<exists>v. read_entry64 (pde_addr la s) t = read_entry64 (pde_addr la s) s OR (v AND 0x60)"
    and "\<exists>v. read_entry64 (pte_addr la s) t = read_entry64 (pte_addr la s) s OR (v AND 0x60)"
proof -
  note al = long_addrs_aligned(1) [OF assms(2), of la] long_addrs_aligned(2-4) [of la s]
  have ext: "\<exists>v. read_entry64 a t = read_entry64 a s OR (v AND 0x60)" if "aligned 8 a" for a
    using assms(1) that unfolding ad_ext_def by blast
  show "\<exists>v. read_entry64 (pml4_addr la s) t = read_entry64 (pml4_addr la s) s OR (v AND 0x60)"
    "\<exists>v. read_entry64 (pdpe_addr la s) t = read_entry64 (pdpe_addr la s) s OR (v AND 0x60)"
    "\<exists>v. read_entry64 (pde_addr la s) t = read_entry64 (pde_addr la s) s OR (v AND 0x60)"
    "\<exists>v. read_entry64 (pte_addr la s) t = read_entry64 (pte_addr la s) s OR (v AND 0x60)"
    using ext al by blast+
  have "cr3_masked t = cr3_masked s" using assms(1) regs_eq unfolding ad_ext_def by blast
  then show 1: "pml4_addr la t = pml4_addr la s" by (simp add: pml4_addr_def)
  show 2: "pdpe_addr la t = pdpe_addr la s" unfolding pdpe_addr_def 1 by (rule exE [OF ext [OF al(1)]]) (simp only: table_at_ad)
  show 3: "pde_addr la t = pde_addr la s" unfolding pde_addr_def 2 by (rule exE [OF ext [OF al(2)]]) (simp only: table_at_ad)
  show "pte_addr la t = pte_addr la s" unfolding pte_addr_def 3 by (rule exE [OF ext [OF al(3)]]) (simp only: table_at_ad)
qed

lemma and_ads:
  fixes a b c d :: u64
  shows "((a OR (v AND 0x60)) AND (b OR (u AND 0x60)) AND (c OR (w AND 0x60))) AND 6 = (a AND b AND c) AND 6"
    "((a OR (v AND 0x60)) AND (b OR (u AND 0x60)) AND (c OR (w AND 0x60)) AND (d OR (z AND 0x60))) AND 6 =
     (a AND b AND c AND d) AND 6"
proof -
  have d: "(x AND y) AND 6 = (x AND 6) AND (y AND 6)" for x y :: u64
    by (simp add: and.assoc and.left_commute)
  have o: "(x OR (y AND 0x60)) AND 6 = x AND 6" for x y :: u64 by (rule or_ad_and) simp
  show "((a OR (v AND 0x60)) AND (b OR (u AND 0x60)) AND (c OR (w AND 0x60))) AND 6 = (a AND b AND c) AND 6"
    "((a OR (v AND 0x60)) AND (b OR (u AND 0x60)) AND (c OR (w AND 0x60)) AND (d OR (z AND 0x60))) AND 6 =
     (a AND b AND c AND d) AND 6"
    by (simp_all only: d o)
qed

text \<open>The marks a walk in long mode makes: what it read has at most more marks, and the marks stay.\<close>

definition long_marked :: "u64 \<Rightarrow> nat \<Rightarrow> bool \<Rightarrow> cpu \<Rightarrow> cpu \<Rightarrow> bool" where
  "long_marked la rw big s t \<longleftrightarrow>
     (let last = (if big then pde_addr la s else pte_addr la s) in
      (\<forall>a \<in> {pml4_addr la s, pdpe_addr la s, pde_addr la s, last}. read_entry64 a t AND 0x20 \<noteq> 0) \<and>
      (odd rw \<longrightarrow> read_entry64 last t AND 0x40 \<noteq> 0))"

lemma walk_marks_2M:
  assumes "cr3_masked s AND 0xfff = 0" "long_page_2M la pl rw s (r, s1)"
  shows "ad_ext read_entry64 8 s s1" and "long_marked la rw True s s1"
proof -
  note al = long_addrs_aligned(1) [OF assms(1), of la] long_addrs_aligned(2-4) [of la s]
  have s1: "s1 = mark_AD64 (odd rw) (pde_addr la s) (read_entry64 (pde_addr la s) s)
      (mark_A64 (pdpe_addr la s) (read_entry64 (pdpe_addr la s) s)
        (mark_A64 (pml4_addr la s) (read_entry64 (pml4_addr la s) s) s))"
    using assms(2) by (auto simp: long_page_2M_def Let_def)
  note e1 = mark_A64_ext [OF entries64.ext_refl al(1) refl]
  note e2 = mark_A64_ext [OF e1(1) al(2) refl]
  note e3 = mark_AD64_ext [where w = "odd rw", OF e2(1) al(3) refl]
  show "ad_ext read_entry64 8 s s1" using e3(1) s1 by simp
  have "read_entry64 (pml4_addr la s) s1 AND 0x20 \<noteq> 0" unfolding s1 by (rule e3(4) [OF al(1) e2(3) [OF al(1) e1(2)]])
  moreover have "read_entry64 (pdpe_addr la s) s1 AND 0x20 \<noteq> 0" unfolding s1 by (rule e3(4) [OF al(2) e2(2)])
  moreover have "read_entry64 (pde_addr la s) s1 AND 0x20 \<noteq> 0" unfolding s1 by (rule e3(2))
  moreover have "odd rw \<longrightarrow> read_entry64 (pde_addr la s) s1 AND 0x40 \<noteq> 0" unfolding s1 using e3(3) by blast
  ultimately show "long_marked la rw True s s1" by (simp add: long_marked_def Let_def)
qed

lemma walk_marks_4K:
  assumes "cr3_masked s AND 0xfff = 0" "long_page_4K la pl rw s (r, s1)"
  shows "ad_ext read_entry64 8 s s1" and "long_marked la rw False s s1"
proof -
  note al = long_addrs_aligned(1) [OF assms(1), of la] long_addrs_aligned(2-4) [of la s]
  have s1: "s1 = mark_AD64 (odd rw) (pte_addr la s) (read_entry64 (pte_addr la s) s)
      (mark_A64 (pde_addr la s) (read_entry64 (pde_addr la s) s)
      (mark_A64 (pdpe_addr la s) (read_entry64 (pdpe_addr la s) s)
        (mark_A64 (pml4_addr la s) (read_entry64 (pml4_addr la s) s) s)))"
    using assms(2) by (auto simp: long_page_4K_def Let_def)
  note e1 = mark_A64_ext [OF entries64.ext_refl al(1) refl]
  note e2 = mark_A64_ext [OF e1(1) al(2) refl]
  note e3 = mark_A64_ext [OF e2(1) al(3) refl]
  note e4 = mark_AD64_ext [where w = "odd rw", OF e3(1) al(4) refl]
  show "ad_ext read_entry64 8 s s1" using e4(1) s1 by simp
  have "read_entry64 (pml4_addr la s) s1 AND 0x20 \<noteq> 0"
    unfolding s1 by (rule e4(4) [OF al(1) e3(3) [OF al(1) e2(3) [OF al(1) e1(2)]]])
  moreover have "read_entry64 (pdpe_addr la s) s1 AND 0x20 \<noteq> 0"
    unfolding s1 by (rule e4(4) [OF al(2) e3(3) [OF al(2) e2(2)]])
  moreover have "read_entry64 (pde_addr la s) s1 AND 0x20 \<noteq> 0" unfolding s1 by (rule e4(4) [OF al(3) e3(2)])
  moreover have "read_entry64 (pte_addr la s) s1 AND 0x20 \<noteq> 0" unfolding s1 by (rule e4(2))
  moreover have "odd rw \<longrightarrow> read_entry64 (pte_addr la s) s1 AND 0x40 \<noteq> 0" unfolding s1 using e4(3) by blast
  ultimately show "long_marked la rw False s s1" by (simp add: long_marked_def Let_def)
qed

lemma long_marked_ext:
  assumes "long_marked la rw big s s1" "ad_ext read_entry64 8 s1 s2" "cr3_masked s AND 0xfff = 0"
  shows "long_marked la rw big s s2"
proof -
  note al = long_addrs_aligned(1) [OF assms(3), of la] long_addrs_aligned(2-4) [of la s]
  have keep: "read_entry64 a s2 AND c \<noteq> 0" if "read_entry64 a s1 AND c \<noteq> 0" "aligned 8 a" for a c
    using entries64.ext_marked [OF assms(2) that(2)] that(1) .
  show ?thesis using assms(1) keep al by (cases big) (simp_all add: long_marked_def Let_def)
qed

lemma page_2M_again:
  assumes p: "long_page_2M la pl rw s ((f, c, m), s1)" and cr3: "cr3_masked s AND 0xfff = 0"
    and ext: "ad_ext read_entry64 8 s t" and marked: "long_marked la rw True s t"
    and hit: "tlb_rights (odd rw) c AND (push_bit 1 (of_bool (odd rw')) OR of_bool (pl' = 3)) = 0"
  shows "long_page_2M la pl' rw' t ((f, c, m), t)"
proof -
  note again = long_entries_again [OF ext cr3, of la]
  let ?pml4 = "read_entry64 (pml4_addr la s) s" and ?pdpe = "read_entry64 (pdpe_addr la s) s"
  let ?pde = "read_entry64 (pde_addr la s) s"
  obtain v1 v2 v3 where v: "read_entry64 (pml4_addr la s) t = ?pml4 OR (v1 AND 0x60)"
    "read_entry64 (pdpe_addr la s) t = ?pdpe OR (v2 AND 0x60)" "read_entry64 (pde_addr la s) t = ?pde OR (v3 AND 0x60)"
    using again(5-7) by blast
  have w: "?pde AND PAE_PDE2M_RESERVED_BITS = 0" "rights_ok pl rw (?pml4 AND ?pdpe AND ?pde) ?pde s c"
    "f = ucast ((?pde AND 0xfffffffe00000) OR (la AND 0x1ff000))" "m = 0x1fffff"
    using p by (auto simp: long_page_2M_def Let_def)
  note r = rights_ok_again [OF w(2) and_ads(1) or_ad_and ext hit]
  have "mark_AD64 (odd rw') (pde_addr la s) (read_entry64 (pde_addr la s) t)
      (mark_A64 (pdpe_addr la s) (read_entry64 (pdpe_addr la s) t)
        (mark_A64 (pml4_addr la s) (read_entry64 (pml4_addr la s) t) t)) = t"
    using marked r(2) by (simp add: long_marked_def Let_def marked_AD64)
  moreover have "rights_ok pl' rw' ((?pml4 OR (v1 AND 0x60)) AND (?pdpe OR (v2 AND 0x60)) AND (?pde OR (v3 AND 0x60)))
      (?pde OR (v3 AND 0x60)) t c" by (rule r(1)) simp
  ultimately show ?thesis using w unfolding long_page_2M_def Let_def again(1-3) v
    by (simp add: or_ad_and PAE_PDE2M_RESERVED_BITS_def PAGING_PHY_ADDRESS_RESERVED_BITS_def)
qed

lemma page_4K_again:
  assumes p: "long_page_4K la pl rw s ((f, c, m), s1)" and cr3: "cr3_masked s AND 0xfff = 0"
    and ext: "ad_ext read_entry64 8 s t" and marked: "long_marked la rw False s t" and nx: "\<not> nx_hit rw' (read_entry64 (pte_addr la s) s)"
    and hit: "tlb_rights (odd rw) c AND (push_bit 1 (of_bool (odd rw')) OR of_bool (pl' = 3)) = 0"
  shows "long_page_4K la pl' rw' t ((f, c, m), t)"
proof -
  note again = long_entries_again [OF ext cr3, of la]
  let ?pml4 = "read_entry64 (pml4_addr la s) s" and ?pdpe = "read_entry64 (pdpe_addr la s) s"
  let ?pde = "read_entry64 (pde_addr la s) s" and ?pte = "read_entry64 (pte_addr la s) s"
  obtain v1 v2 v3 v4 where v: "read_entry64 (pml4_addr la s) t = ?pml4 OR (v1 AND 0x60)"
    "read_entry64 (pdpe_addr la s) t = ?pdpe OR (v2 AND 0x60)" "read_entry64 (pde_addr la s) t = ?pde OR (v3 AND 0x60)"
    "read_entry64 (pte_addr la s) t = ?pte OR (v4 AND 0x60)"
    using again(5-8) by blast
  have w: "entry_ok PAGING_PHY_ADDRESS_RESERVED_BITS ?pte s"
    "rights_ok pl rw (?pml4 AND ?pdpe AND ?pde AND ?pte) ?pte s c" "f = ucast (?pte AND 0xffffffffff000)" "m = 0xfff"
    using p by (auto simp: long_page_4K_def Let_def)
  note r = rights_ok_again [OF w(2) and_ads(2) or_ad_and ext hit]
  have "mark_AD64 (odd rw') (pte_addr la s) (read_entry64 (pte_addr la s) t)
      (mark_A64 (pde_addr la s) (read_entry64 (pde_addr la s) t)
      (mark_A64 (pdpe_addr la s) (read_entry64 (pdpe_addr la s) t)
        (mark_A64 (pml4_addr la s) (read_entry64 (pml4_addr la s) t) t))) = t"
    using marked r(2) by (simp add: long_marked_def Let_def marked_AD64)
  moreover have "rights_ok pl' rw' ((?pml4 OR (v1 AND 0x60)) AND (?pdpe OR (v2 AND 0x60)) AND (?pde OR (v3 AND 0x60)) AND
      (?pte OR (v4 AND 0x60))) (?pte OR (v4 AND 0x60)) t c" by (rule r(1)) simp
  moreover have "entry_ok PAGING_PHY_ADDRESS_RESERVED_BITS (?pte OR (v4 AND 0x60)) t"
    by (rule entry_ok_again [OF w(1) reserved_ok_simps(1) ext])
  ultimately show ?thesis using w(3,4) nx unfolding long_page_4K_def Let_def again(1-4) v
    by (simp add: or_ad_and)
qed

lemma walk_long_mode_again:
  assumes walk: "walk_long_mode la pl rw s = Inr ((f, c, m), s1)" and cr3: "cr3_masked s AND 0xfff = 0"
  shows "ad_ext read_entry64 8 s s1"
    and "\<And>s2 pl' rw'. ad_ext read_entry64 8 s1 s2 \<Longrightarrow> rw' \<noteq> BX_EXECUTE \<or> \<not> efer_NXE s2 \<Longrightarrow>
      tlb_rights (odd rw) c AND (push_bit 1 (of_bool (odd rw')) OR of_bool (pl' = 3)) = 0 \<Longrightarrow>
      walk_long_mode la pl' rw' s2 = Inr ((f, c, m), s2)"
proof -
  let ?pde = "read_entry64 (pde_addr la s) s" and ?big = "read_entry64 (pde_addr la s) s AND 0x80 \<noteq> 0"
  note w = walk [unfolded walk_long_mode_iff]
  have page: "if ?big then long_page_2M la pl rw s ((f, c, m), s1) else long_page_4K la pl rw s ((f, c, m), s1)"
    using w by blast
  have marks: "ad_ext read_entry64 8 s s1" "long_marked la rw ?big s s1"
    using walk_marks_2M [OF cr3] walk_marks_4K [OF cr3] page by (cases "?big"; simp; blast)+
  show "ad_ext read_entry64 8 s s1" by (rule marks(1))
  fix s2 :: cpu and pl' rw' :: nat
  assume later: "ad_ext read_entry64 8 s1 s2" and rw': "rw' \<noteq> BX_EXECUTE \<or> \<not> efer_NXE s2"
    and hit: "tlb_rights (odd rw) c AND (push_bit 1 (of_bool (odd rw')) OR of_bool (pl' = 3)) = 0"
  have ext: "ad_ext read_entry64 8 s s2" by (rule entries64.ext_trans [OF marks(1) later])
  note again = long_entries_again [OF ext cr3, of la]
  obtain v1 v2 v3 where v: "read_entry64 (pml4_addr la s) s2 = read_entry64 (pml4_addr la s) s OR (v1 AND 0x60)"
    "read_entry64 (pdpe_addr la s) s2 = read_entry64 (pdpe_addr la s) s OR (v2 AND 0x60)"
    "read_entry64 (pde_addr la s) s2 = ?pde OR (v3 AND 0x60)"
    using again(5-7) by blast
  have "efer_NXE s2 = efer_NXE s" using ext regs_eq unfolding ad_ext_def by blast
  then have nx: "\<not> nx_hit rw' e" if "entry_ok r e s" for r e using that rw' by (auto simp: nx_hit_def entry_ok_def)
  have nx4: "\<not> nx_hit rw' (read_entry64 (pte_addr la s) s)" if "long_page_4K la pl rw s ((f, c, m), s1)"
    using that nx unfolding long_page_4K_def Let_def by blast
  have "if ?big then long_page_2M la pl' rw' s2 ((f, c, m), s2) else long_page_4K la pl' rw' s2 ((f, c, m), s2)"
    using page page_2M_again [OF _ cr3 ext _ hit] page_4K_again [OF _ cr3 ext _ nx4 hit]
      long_marked_ext [OF marks(2) later cr3] by (cases "?big"; simp)
  then show "walk_long_mode la pl' rw' s2 = Inr ((f, c, m), s2)"
    unfolding walk_long_mode_iff again(1-3) v
    using w nx [OF conjunct1 [OF w]] by (auto simp: entry_ok_again [OF _ _ ext] or_ad_and dest: nx)
qed

end
