(* ===== verification/Cpu_Tlb.thy ===== *)
theory Cpu_Tlb
  imports Cpu_Long_Walk
begin

text \<open>
  The TLB (\<^verbatim>\<open>src/sim/bochs/cpu/paging.cc\<close>): when it is coherent with the page tables, and that
  filling an entry keeps it so.
\<close>

unbundle bit_operations_syntax

section \<open>What a walk leaves alone\<close>

definition same_tables :: "cpu \<Rightarrow> cpu \<Rightarrow> bool" where
  "same_tables s t \<longleftrightarrow> ram t = ram s \<and> TLB t = TLB s \<and> split_large t = split_large s \<and> paging_regs t = paging_regs s"

lemma same_tables_refl [simp]: "same_tables s s"
  by (simp add: same_tables_def)

lemma same_tables_trans: "same_tables s t \<Longrightarrow> same_tables t u \<Longrightarrow> same_tables s u"
  by (simp add: same_tables_def)

lemma rbind_eq_Inl: "rbind m f = Inl e \<longleftrightarrow> m = Inl e \<or> (\<exists>x s. m = Inr (x, s) \<and> f x s = Inl e)"
  by (auto simp: rbind_def split: sum.split)

lemma page_fault_state: "page_fault e la u rw s = Inl (f, t) \<Longrightarrow> same_tables s t"
  by (auto simp: page_fault_def exception_def Let_def same_tables_def paging_regs_def)

lemma get_entry_state:
  "get_entry_PAE a r la u rw nx s = Inl (f, t) \<Longrightarrow> same_tables s t"
  "get_entry_PAE a r la u rw nx s = Inr (x, t) \<Longrightarrow> same_tables s t"
  by (auto simp: get_entry_PAE_def check_entry_PAE_def Let_def same_tables_def paging_regs_def dest!: page_fault_state
      split: if_splits)

lemma rights_state:
  "rights_PAE la u rw nx x e s = Inl (f, t) \<Longrightarrow> same_tables s t"
  "rights_PAE la u rw nx x e s = Inr (c, t) \<Longrightarrow> same_tables s t"
  by (auto simp: rights_PAE_def Let_def dest: page_fault_state split: if_splits)

lemma walk_legacy_fault: "walk_legacy la pl rw s = Inl (f, t) \<Longrightarrow> same_tables s t"
  by (auto simp: walk_legacy_def Let_def dest: page_fault_state split: if_splits)

lemma walk_long_mode_fault: "walk_long_mode la pl rw s = Inl (f, t) \<Longrightarrow> same_tables s t"
  unfolding walk_long_mode_def Let_def
  by (auto simp: rbind_eq_Inl dest!: get_entry_state rights_state page_fault_state split: if_splits)
    (simp_all add: same_tables_def)

lemma marks_keep [simp]:
  "TLB (mark_A32 a e s) = TLB s" "split_large (mark_A32 a e s) = split_large s"
  "TLB (mark_AD32 w a e s) = TLB s" "split_large (mark_AD32 w a e s) = split_large s"
  "TLB (mark_A64 a f s) = TLB s" "split_large (mark_A64 a f s) = split_large s"
  "TLB (mark_AD64 w a f s) = TLB s" "split_large (mark_AD64 w a f s) = split_large s"
  by (simp_all add: mark_A32_def mark_AD32_def mark_A64_def mark_AD64_def write_entry32_def write_entry64_def
      access_write_physical_def)

lemma walk_legacy_keeps: "walk_legacy la pl rw s = Inr (r, t) \<Longrightarrow> TLB t = TLB s \<and> split_large t = split_large s"
  by (auto simp: walk_legacy_iff legacy_4M_def legacy_4K_def Let_def split: if_splits)

lemma walk_long_mode_keeps: "walk_long_mode la pl rw s = Inr (r, t) \<Longrightarrow> TLB t = TLB s \<and> split_large t = split_large s"
  by (auto simp: walk_long_mode_iff long_page_2M_def long_page_4K_def Let_def split: if_splits)

section \<open>Pages\<close>

definition plain_paging :: "cpu \<Rightarrow> bool" where
  "plain_paging s \<longleftrightarrow> cr3_masked s AND 0xfff = 0 \<and> (cr4_PAE s \<longrightarrow> long_mode s)"

definition tables_ext :: "cpu \<Rightarrow> cpu \<Rightarrow> bool" where
  "tables_ext s t \<longleftrightarrow> (if cr4_PAE s then ad_ext read_entry64 8 s t else ad_ext read_entry32 4 s t)"

definition may_run :: "nat \<Rightarrow> cpu \<Rightarrow> bool" where
  "may_run rw s \<longleftrightarrow> rw \<noteq> BX_EXECUTE \<or> \<not> efer_NXE s"

lemma page_walk_plain:
  "plain_paging s \<Longrightarrow> page_walk la pl rw s = (if cr4_PAE s then walk_long_mode la pl rw s else walk_legacy la pl rw s)"
  by (simp add: plain_paging_def page_walk_def walk_PAE_def)

lemma ext_regs: "tables_ext s t \<Longrightarrow> paging_regs t = paging_regs s"
  by (simp add: tables_ext_def ad_ext_def split: if_splits)

lemma tables_ext_refl [simp]: "tables_ext s s"
  by (simp add: tables_ext_def entries32.ext_refl entries64.ext_refl)

lemma tables_ext_trans: "tables_ext s t \<Longrightarrow> tables_ext t u \<Longrightarrow> tables_ext s u"
  using ext_regs [of s t] by (auto simp: tables_ext_def paging_regs_def split: if_splits
      intro: entries32.ext_trans entries64.ext_trans)

lemma no_mark: "\<exists>v. w = w OR (v AND 0x60)" for w :: "'e::len word"
  by (rule exI [of _ 0]) simp

lemma same_tables_ext: "same_tables s t \<Longrightarrow> tables_ext s t" "same_tables s t \<Longrightarrow> tables_ext t s"
proof -
  assume a: "same_tables s t"
  then have e: "read_entry32 x t = read_entry32 x s" "read_entry64 x t = read_entry64 x s" "paging_regs t = paging_regs s"
    "cr4_PAE t = cr4_PAE s" for x
    by (simp_all add: same_tables_def read_entry32_def read_entry64_def access_read_physical_def paging_regs_def)
  show "tables_ext s t" "tables_ext t s" by (auto simp: e tables_ext_def ad_ext_def intro: no_mark)
qed

lemma plain_paging_regs: "paging_regs t = paging_regs s \<Longrightarrow> plain_paging t = plain_paging s"
  by (simp add: paging_regs_def plain_paging_def long_mode_def)

lemma page_walk_again:
  assumes "page_walk la pl rw s = Inr ((f, c, m), s1)" and "plain_paging s"
  shows "tables_ext s s1" and "TLB s1 = TLB s" and "split_large s1 = split_large s"
    and "\<And>t pl' rw'. tables_ext s1 t \<Longrightarrow> may_run rw' t \<Longrightarrow>
      tlb_rights (odd rw) c AND (push_bit 1 (of_bool (odd rw')) OR of_bool (pl' = 3)) = 0 \<Longrightarrow>
      page_walk la pl' rw' t = Inr ((f, c, m), t)"
proof -
  note w = assms(1) [unfolded page_walk_plain [OF assms(2)]]
  have cr3: "cr3_masked s AND 0xfff = 0" using assms(2) by (simp add: plain_paging_def)
  show ext: "tables_ext s s1"
    using w walk_legacy_again(1) [OF _ cr3, of la pl rw f c m s1] walk_long_mode_again(1) [OF _ cr3, of la pl rw f c m s1]
    by (cases "cr4_PAE s") (simp_all add: tables_ext_def)
  show "TLB s1 = TLB s" "split_large s1 = split_large s"
    using w walk_legacy_keeps [of la pl rw s "(f, c, m)" s1] walk_long_mode_keeps [of la pl rw s "(f, c, m)" s1]
    by (cases "cr4_PAE s"; simp)+
  fix t :: cpu and pl' rw' :: nat
  assume t: "tables_ext s1 t" and nx: "may_run rw' t"
    and hit: "tlb_rights (odd rw) c AND (push_bit 1 (of_bool (odd rw')) OR of_bool (pl' = 3)) = 0"
  have regs: "paging_regs s1 = paging_regs s" "paging_regs t = paging_regs s" using ext_regs [OF ext] ext_regs [OF t] by simp_all
  then have pae: "cr4_PAE s1 = cr4_PAE s" "cr4_PAE t = cr4_PAE s" by (simp_all add: paging_regs_def)
  have p: "plain_paging t" using plain_paging_regs [OF regs(2)] assms(2) by blast
  show "page_walk la pl' rw' t = Inr ((f, c, m), t)"
  proof (cases "cr4_PAE s")
    case True
    then have "walk_long_mode la pl rw s = Inr ((f, c, m), s1)" "ad_ext read_entry64 8 s1 t"
      using w t pae by (simp_all add: tables_ext_def)
    from walk_long_mode_again(2) [OF this(1) cr3 this(2) _ hit] show ?thesis
      using nx True pae page_walk_plain [OF p] by (simp add: may_run_def)
  next
    case False
    then have "walk_legacy la pl rw s = Inr ((f, c, m), s1)" "ad_ext read_entry32 4 s1 t"
      using w t pae by (simp_all add: tables_ext_def)
    from walk_legacy_again(2) [OF this(1) cr3 this(2) hit] show ?thesis
      using False pae page_walk_plain [OF p] by simp
  qed
qed

lemma and_page:
  assumes "LPFOf la = LPFOf la'" and c: "0xfffffffffffff000 AND c = c"
  shows "la AND c = la' AND c"
proof -
  have "x AND c = LPFOf x AND c" for x by (simp only: LPFOf_def and.assoc c)
  then show ?thesis by (metis assms(1))
qed

lemma ucast_and_page:
  assumes "LPFOf la = LPFOf la'"
  shows "(ucast la AND 0x3ff000 :: u32) = ucast la' AND 0x3ff000"
proof -
  have "(ucast x AND 0x3ff000 :: u32) = ucast (x AND 0x3ff000)" for x :: u64
    by (rule bit_word_eqI) (simp add: bit_simps)
  then show ?thesis using and_page [OF assms, of "0x3ff000"] by simp
qed

text \<open>A walk that succeeds gives the same result for every address of the page.\<close>

lemma page_walk_page:
  assumes "LPFOf la = LPFOf la'" and "plain_paging s"
  shows "page_walk la pl rw s = Inr r \<longleftrightarrow> page_walk la' pl rw s = Inr r"
proof -
  note a = and_page [OF assms(1)] and u = ucast_and_page [OF assms(1)]
  have l: "legacy_pde la s = legacy_pde la' s" "legacy_pte la s = legacy_pte la' s"
    by (simp_all add: legacy_pde_def legacy_pte_def a [of "0xffc00000"] a [of "0x3ff000"])
  have g: "pml4_addr la s = pml4_addr la' s" "pdpe_addr la s = pdpe_addr la' s" "pde_addr la s = pde_addr la' s"
    "pte_addr la s = pte_addr la' s"
    unfolding long_addrs a [of "0xff8000000000", simplified] a [of "0x7fc0000000", simplified]
      a [of "0x3fe00000", simplified] a [of "0x1ff000", simplified] by (rule refl)+
  show ?thesis unfolding page_walk_plain [OF assms(2)]
    by (simp add: walk_legacy_iff walk_long_mode_iff l g legacy_4M_def legacy_4K_def long_page_2M_def long_page_4K_def
        u a [of "0x1ff000", simplified])
qed

section \<open>The TLB\<close>

definition tlb_slot :: "u64 \<Rightarrow> nat" where
  "tlb_slot la = TLB_INDEX_OF (LPFOf la) 0"

definition tlb_hit :: "u64 \<Rightarrow> nat \<Rightarrow> nat \<Rightarrow> cpu \<Rightarrow> bool" where
  "tlb_hit la pl rw s \<longleftrightarrow>
     (let e = TLB s (tlb_slot la) in
      TLB_LPFOf (lpf e) = LPFOf la \<and> accessBits e AND (push_bit 1 (of_bool (odd rw)) OR of_bool (pl = 3)) = 0)"

text \<open>
  The TLB is coherent: an access that it lets through is one for which a walk of the tables, now or after more
  accessed and dirty bits, finds the same frame and writes nothing.
\<close>

definition tlb_coherent :: "cpu \<Rightarrow> bool" where
  "tlb_coherent s \<longleftrightarrow>
     (\<forall>la pl rw t. tlb_hit la pl rw s \<longrightarrow> may_run rw s \<longrightarrow> tables_ext s t \<longrightarrow>
        (\<exists>c m. page_walk la pl rw t = Inr ((ppf (TLB s (tlb_slot la)), c, m), t)))"

lemma translate_linear_cases:
  "translate_linear la pl rw s =
     (if tlb_hit la pl rw s then Inr (ppf (TLB s (tlb_slot la)) OR PAGE_OFFSET la, s)
      else rbind (page_walk la pl rw s) (\<lambda>r s1. Inr (fst r OR PAGE_OFFSET la, tlb_fill la rw r s1)))"
  by (simp add: translate_linear_def tlb_hit_def tlb_slot_def Let_def)

lemma TLB_LPFOf_tag [simp]:
  "TLB_LPFOf (LPFOf la) = LPFOf la" "TLB_LPFOf (LPFOf la OR TLB_HostPtr) = LPFOf la"
  "TLB_LPFOf INVALID_TLB_ENTRY \<noteq> LPFOf la"
proof -
  show "TLB_LPFOf (LPFOf la) = LPFOf la" "TLB_LPFOf (LPFOf la OR TLB_HostPtr) = LPFOf la"
    by (simp_all add: TLB_LPFOf_def AlignedAccessLPFOf_def LPFOf_def TLB_HostPtr_def and.assoc bit.conj_disj_distrib2)
  have "bit (TLB_LPFOf INVALID_TLB_ENTRY) 0" "\<not> bit (LPFOf la) 0"
    by (simp_all add: TLB_LPFOf_def AlignedAccessLPFOf_def LPFOf_def INVALID_TLB_ENTRY_def bit_simps)
  then show "TLB_LPFOf INVALID_TLB_ENTRY \<noteq> LPFOf la" by metis
qed

lemma tlb_fill_same: "ram (tlb_fill la rw r s) = ram s" "paging_regs (tlb_fill la rw r s) = paging_regs s"
  by (cases r; simp add: tlb_fill_def set_tlb_def Let_def paging_regs_def)+

lemma tlb_fill_entry:
  "TLB (tlb_fill la rw (f, c, m) s) (tlb_slot la) =
     \<lparr>lpf = (if getHostMemAddr f rw s = None then LPFOf la OR TLB_HostPtr else LPFOf la), lpf_mask = NOT m,
      ppf = f, accessBits = tlb_rights (odd rw) c, hostPageAddr = getHostMemAddr f rw s\<rparr>"
  "i \<noteq> tlb_slot la \<Longrightarrow> TLB (tlb_fill la rw (f, c, m) s) i = TLB s i"
  by (simp_all add: tlb_fill_def set_tlb_def Let_def tlb_slot_def)

lemma tables_ext_cong:
  assumes "ram s = ram s'" "paging_regs s = paging_regs s'"
  shows "tables_ext s t \<longleftrightarrow> tables_ext s' t"
proof -
  have "read_entry32 x s = read_entry32 x s'" "read_entry64 x s = read_entry64 x s'" for x
    using assms(1) by (simp_all add: read_entry32_def read_entry64_def access_read_physical_def)
  then show ?thesis using assms(2) by (simp add: tables_ext_def ad_ext_def paging_regs_def)
qed

lemma may_run_regs: "paging_regs s = paging_regs t \<Longrightarrow> may_run rw s = may_run rw t"
  by (simp add: paging_regs_def may_run_def)

text \<open>Filling an entry by a walk keeps the TLB coherent, and so does what leaves it alone.\<close>

lemma coherent_same:
  assumes "tlb_coherent s" "tables_ext s t" "TLB t = TLB s"
  shows "tlb_coherent t"
  unfolding tlb_coherent_def
proof (intro allI impI)
  fix la pl rw u
  assume "tlb_hit la pl rw t" "may_run rw t" "tables_ext t u"
  then show "\<exists>c m. page_walk la pl rw u = Inr ((ppf (TLB t (tlb_slot la)), c, m), u)"
    using assms tables_ext_trans [of s t u] may_run_regs [OF ext_regs [OF assms(2)], of rw]
    unfolding tlb_coherent_def tlb_hit_def by auto
qed

lemma coherent_fill:
  assumes "tlb_coherent s" "plain_paging s" "page_walk la pl rw s = Inr ((f, c, m), s1)"
  shows "tlb_coherent (tlb_fill la rw (f, c, m) s1)"
  unfolding tlb_coherent_def
proof (intro allI impI)
  fix la' pl' rw' t
  let ?s2 = "tlb_fill la rw (f, c, m) s1"
  assume hit: "tlb_hit la' pl' rw' ?s2" and run: "may_run rw' ?s2" and "tables_ext ?s2 t"
  then have ext: "tables_ext s1 t" using tables_ext_cong [OF tlb_fill_same] by blast
  note w = page_walk_again [OF assms(3,2)]
  have regs: "paging_regs ?s2 = paging_regs s" "paging_regs t = paging_regs s"
    using tlb_fill_same(2) ext_regs [OF w(1)] ext_regs [OF ext] by simp_all
  show "\<exists>c' m'. page_walk la' pl' rw' t = Inr ((ppf (TLB ?s2 (tlb_slot la')), c', m'), t)"
  proof (cases "tlb_slot la' = tlb_slot la")
    case True
    have e: "LPFOf la' = LPFOf la" "tlb_rights (odd rw) c AND (push_bit 1 (of_bool (odd rw')) OR of_bool (pl' = 3)) = 0"
      using hit unfolding tlb_hit_def True Let_def by (auto simp: tlb_fill_entry split: if_splits)
    have "page_walk la pl' rw' t = Inr ((f, c, m), t)"
      by (rule w(4) [OF ext _ e(2)]) (use run may_run_regs [of ?s2 t] regs in simp)
    then have "page_walk la' pl' rw' t = Inr ((f, c, m), t)"
      using page_walk_page [OF e(1)] plain_paging_regs [OF regs(2)] assms(2) by simp
    then show ?thesis using True by (simp add: tlb_fill_entry)
  next
    case False
    then have "TLB ?s2 (tlb_slot la') = TLB s (tlb_slot la')" using w(2) by (simp add: tlb_fill_entry)
    moreover have "tlb_hit la' pl' rw' s" using hit calculation by (simp add: tlb_hit_def)
    moreover have "may_run rw' s" using run may_run_regs [of ?s2 s] regs by simp
    ultimately show ?thesis using assms(1) tables_ext_trans [OF w(1) ext] unfolding tlb_coherent_def by simp
  qed
qed

section \<open>Translation with the TLB is the walk\<close>

definition res_state :: "'a res \<Rightarrow> cpu" where
  "res_state r = (case r of Inl (e, s) \<Rightarrow> s | Inr (x, s) \<Rightarrow> s)"

text \<open>Without a TLB every access walks the tables.\<close>

definition walk_linear :: "u64 \<Rightarrow> nat \<Rightarrow> nat \<Rightarrow> cpu \<Rightarrow> u32 res" where
  "walk_linear la pl rw s = rbind (page_walk la pl rw s) (\<lambda>r s1. Inr (fst r OR PAGE_OFFSET la, s1))"

definition without_tlb :: "cpu \<Rightarrow> cpu" where
  "without_tlb s = s\<lparr>TLB := (\<lambda>_. \<lparr>lpf = INVALID_TLB_ENTRY, lpf_mask = 0, ppf = 0, accessBits = 0, hostPageAddr = None\<rparr>),
     split_large := False\<rparr>"

definition res_without_tlb :: "'a res \<Rightarrow> 'a res" where
  "res_without_tlb r = map_sum (map_prod id without_tlb) (map_prod id without_tlb) r"

lemma without_tlb_fill [simp]: "without_tlb (tlb_fill la rw r s) = without_tlb s"
  by (cases r) (simp add: without_tlb_def tlb_fill_def set_tlb_def Let_def)

lemma page_walk_fault: "plain_paging s \<Longrightarrow> page_walk la pl rw s = Inl (f, t) \<Longrightarrow> same_tables s t"
  by (auto simp: page_walk_plain dest: walk_legacy_fault walk_long_mode_fault split: if_splits)

end
