(* ===== verification/Cpu_Tlb_Spec.thy ===== *)
theory Cpu_Tlb_Spec
  imports Cpu_Tlb
begin

text \<open>
  Properties of the TLB and of memory behind it (\<^verbatim>\<open>src/sim/bochs/cpu/paging.cc\<close>): translation
  through a coherent TLB is the walk of the tables and keeps it coherent; what flushing, a new directory and INVLPG remove; a store is read back, in one
  page or across two.
\<close>

unbundle bit_operations_syntax

section \<open>Translation with the TLB\<close>

lemma coherent_translation:
  assumes "tlb_coherent s"
  shows "may_run rw s \<Longrightarrow> res_without_tlb (translate_linear la pl rw s) = res_without_tlb (walk_linear la pl rw s)"
    and "plain_paging s \<Longrightarrow>
      tlb_coherent (res_state (translate_linear la pl rw s)) \<and> plain_paging (res_state (translate_linear la pl rw s))"
proof -
  show "res_without_tlb (translate_linear la pl rw s) = res_without_tlb (walk_linear la pl rw s)" if run: "may_run rw s"
  proof (cases "tlb_hit la pl rw s")
    case True
    then obtain c m where "page_walk la pl rw s = Inr ((ppf (TLB s (tlb_slot la)), c, m), s)"
      using assms run tables_ext_refl unfolding tlb_coherent_def by blast
    then show ?thesis using True by (simp add: translate_linear_cases walk_linear_def)
  next
    case False
    then show ?thesis
      by (auto simp: translate_linear_cases walk_linear_def rbind_def res_without_tlb_def split: sum.split)
  qed
  assume pp: "plain_paging s"
  show "tlb_coherent (res_state (translate_linear la pl rw s)) \<and> plain_paging (res_state (translate_linear la pl rw s))"
  proof (cases "tlb_hit la pl rw s")
    case True
    then show ?thesis using assms pp by (simp add: translate_linear_cases res_state_def)
  next
    case miss: False
    show ?thesis
    proof (cases "page_walk la pl rw s")
      case (Inl e)
      obtain f t where e: "e = (f, t)" by (cases e)
      then have same: "same_tables s t" using page_walk_fault [OF pp] Inl by simp
      then have "TLB t = TLB s" "paging_regs t = paging_regs s" by (simp_all add: same_tables_def)
      then have "tlb_coherent t \<and> plain_paging t"
        using coherent_same [OF assms same_tables_ext(1) [OF same]] plain_paging_regs pp by blast
      then show ?thesis using miss Inl e by (simp add: translate_linear_cases res_state_def rbind_def)
    next
      case (Inr x)
      obtain f c m t where x: "x = ((f, c, m), t)" by (cases x) auto
      have "paging_regs (tlb_fill la rw (f, c, m) t) = paging_regs s"
        using ext_regs [OF page_walk_again(1) [OF Inr [unfolded x] pp]] by (simp add: tlb_fill_same)
      then have "plain_paging (tlb_fill la rw (f, c, m) t)" using plain_paging_regs pp by blast
      then show ?thesis using miss Inr x coherent_fill [OF assms pp Inr [unfolded x]]
        by (simp add: translate_linear_cases res_state_def rbind_def)
    qed
  qed
qed

text \<open>
  C11. Translation keeps the TLB coherent, whether it finds an entry, fills one or faults.
\<close>
theorem translation_keeps_coherence:
  assumes "tlb_coherent s" "plain_paging s"
  shows "tlb_coherent (res_state (translate_linear la pl rw s)) \<and> plain_paging (res_state (translate_linear la pl rw s))"
  by (rule coherent_translation(2) [OF assms])

section \<open>Removing entries\<close>

lemma tlb_slot_less: "tlb_slot la < TLB_SIZE"
proof -
  have "unat (drop_bit 12 (x AND TLB_MASK)) < TLB_SIZE" for x :: u32
  proof -
    have "drop_bit 12 (x AND TLB_MASK) = drop_bit 12 x AND 1023"
      by (rule bit_word_eqI) (auto simp: TLB_MASK_def bit_simps)
    then have "drop_bit 12 (x AND TLB_MASK) \<le> 1023" by (simp only: word_and_le1)
    then have "unat (drop_bit 12 (x AND TLB_MASK)) \<le> 1023" by (simp only: word_le_nat_alt) simp
    then show ?thesis by (simp only: TLB_SIZE_def)
  qed
  then show ?thesis unfolding tlb_slot_def TLB_INDEX_OF_def .
qed

lemma no_hit_invalid: "lpf (TLB s (tlb_slot la)) = INVALID_TLB_ENTRY \<Longrightarrow> \<not> tlb_hit la pl rw s"
  by (simp add: tlb_hit_def)

lemma TLB_flush_hit: "\<not> tlb_hit la pl rw (TLB_flush s)"
  by (rule no_hit_invalid) (simp add: TLB_flush_def tlb_slot_less)

lemma TLB_flush_coherent: "tlb_coherent (TLB_flush s)"
  by (simp add: tlb_coherent_def TLB_flush_hit)

text \<open>
  Loading CR3 without global pages leaves a TLB that is coherent with the new tables, whatever they hold.
\<close>
theorem new_tables_are_used:
  assumes "SetCR3 v s = Inr ((), t)" and "\<not> cr4_PGE s" and "cr4_PAE s \<longrightarrow> long_mode s"
  shows "tlb_coherent t \<and> plain_paging t \<and> cr3 t = v"
proof -
  have hit: "\<not> tlb_hit la pl rw t" for la pl rw
    using assms TLB_flush_hit [of la pl rw s] by (auto simp: SetCR3_def exception_def tlb_hit_def Let_def split: if_splits)
  have "(v AND 0xffffffffff000) AND 0xfff = 0" "(v AND 0xfffff000) AND 0xfff = 0" by (simp_all add: and.assoc)
  then show ?thesis using assms hit
    by (auto simp: SetCR3_def exception_def tlb_coherent_def plain_paging_def TLB_flush_def long_mode_def Let_def
        split: if_splits)
qed

text \<open>The shape of the entries: frames and masks are those of pages, and large pages are announced.\<close>

definition tlb_shape :: "cpu \<Rightarrow> bool" where
  "tlb_shape s \<longleftrightarrow> (\<forall>i < TLB_SIZE.
     let e = TLB s i in
     lpf_mask e AND 0xfff = 0 \<and> ppf e AND 0xfff = 0 \<and>
     (lpf e \<noteq> INVALID_TLB_ENTRY \<and> 0xfff < NOT (lpf_mask e) \<longrightarrow> split_large s))"

lemma walk_shape:
  assumes "page_walk la pl rw s = Inr ((f, c, m), t)" "plain_paging s"
  shows "f AND 0xfff = 0 \<and> NOT m AND 0xfff = 0"
proof -
  have m: "ucast (x AND (c :: u64)) AND 0xfff = (0 :: u32)" if "c AND 0xfff = 0" for x c
  proof -
    have "ucast (x AND c) AND (0xfff :: u32) = ucast (x AND (c AND 0xfff))" by (rule bit_word_eqI) (auto simp: bit_simps)
    then show ?thesis by (simp add: that)
  qed
  have o: "ucast (a OR b :: u64) = (ucast a OR ucast b :: u32)" for a b by (rule bit_word_eqI) (simp add: bit_simps)
  have "walk_long_mode la pl rw s = Inr ((f, c, m), t) \<Longrightarrow> ?thesis"
    by (auto simp: walk_long_mode_iff long_page_2M_def long_page_4K_def Let_def o m and.assoc
        bit.conj_disj_distrib2 split: if_splits)
  moreover have "walk_legacy la pl rw s = Inr ((f, c, m), t) \<Longrightarrow> ?thesis"
    by (auto simp: walk_legacy_iff legacy_4M_def legacy_4K_def Let_def and.assoc bit.conj_disj_distrib2 split: if_splits)
  ultimately show ?thesis using assms(1) unfolding page_walk_plain [OF assms(2)] by (simp split: if_splits)
qed

lemma translate_shape:
  assumes "tlb_shape s" "plain_paging s"
  shows "tlb_shape (res_state (translate_linear la pl rw s))"
proof (cases "tlb_hit la pl rw s")
  case True
  then show ?thesis using assms by (simp add: translate_linear_cases res_state_def)
next
  case miss: False
  show ?thesis
  proof (cases "page_walk la pl rw s")
    case (Inl e)
    then have "same_tables s (snd e)" using page_walk_fault [OF assms(2), of la pl rw "fst e" "snd e"] by simp
    then show ?thesis using miss Inl assms(1)
      by (cases e) (simp add: translate_linear_cases res_state_def rbind_def tlb_shape_def same_tables_def)
  next
    case (Inr x)
    obtain f c m t where x: "x = ((f, c, m), t)" by (cases x) auto
    note w = page_walk_again(2,3) [OF Inr [unfolded x] assms(2)] walk_shape [OF Inr [unfolded x] assms(2)]
    have "tlb_shape (tlb_fill la rw (f, c, m) t)"
      unfolding tlb_shape_def Let_def
    proof (intro allI impI)
      fix i assume "i < TLB_SIZE"
      then show "lpf_mask (TLB (tlb_fill la rw (f, c, m) t) i) AND 0xfff = 0 \<and> ppf (TLB (tlb_fill la rw (f, c, m) t) i) AND 0xfff = 0 \<and>
        (lpf (TLB (tlb_fill la rw (f, c, m) t) i) \<noteq> INVALID_TLB_ENTRY \<and> 0xfff < NOT (lpf_mask (TLB (tlb_fill la rw (f, c, m) t) i)) \<longrightarrow>
         split_large (tlb_fill la rw (f, c, m) t))"
        using w assms(1) by (cases "i = tlb_slot la")
          (auto simp: tlb_fill_entry tlb_shape_def tlb_fill_def set_tlb_def Let_def)
    qed
    then show ?thesis using miss Inr x by (simp add: translate_linear_cases res_state_def rbind_def)
  qed
qed

lemma invlpg_entry:
  "TLB (TLB_invlpg la s) i = TLB s i \<or> lpf (TLB (TLB_invlpg la s) i) = INVALID_TLB_ENTRY"
  by (auto simp: TLB_invlpg_def set_tlb_def Let_def)

lemma page_mask: "m AND 0xfff = 0 \<Longrightarrow> \<not> 0xfff < NOT m \<Longrightarrow> m = (0xfffffffffffff000 :: u64)"
proof -
  assume a: "m AND 0xfff = 0" "\<not> 0xfff < NOT m"
  then have "NOT m \<le> 0xfff" by simp
  moreover have "0xfff AND NOT m = 0xfff"
  proof -
    have "0xfff AND NOT m = 0xfff AND NOT (m AND 0xfff)" by (simp add: bit.conj_disj_distrib)
    then show ?thesis using a(1) by simp
  qed
  then have "0xfff \<le> NOT m" by (metis word_and_le1)
  ultimately have "NOT m = 0xfff" by simp
  then have "NOT (NOT m) = NOT 0xfff" by (simp only:)
  then show ?thesis by simp
qed

lemma page_and_mask:
  assumes "m AND 0xfff = (0 :: u64)"
  shows "0xfffffffffffff000 AND m = m" "(0xfffffffffffff000 OR 0x7ff) AND m = m"
proof -
  have "(0xfff OR 0xfffffffffffff000 :: u64) = - 1" by simp
  then have e: "m = (m AND 0xfff) OR (m AND 0xfffffffffffff000)" by (simp only: flip: bit.conj_disj_distrib) simp
  have "m AND 0xfffffffffffff000 = m" using e by (simp add: assms)
  then show 1: "0xfffffffffffff000 AND m = m" by (simp only: and.commute)
  have "(0xfffffffffffff000 OR 0x7ff) AND m = (0xfffffffffffff000 OR 0x7ff) AND (0xfffffffffffff000 AND m)"
    by (simp only: 1)
  also have "\<dots> = 0xfffffffffffff000 AND m" by (simp flip: and.assoc)
  finally show "(0xfffffffffffff000 OR 0x7ff) AND m = m" by (simp only: 1)
qed

lemma TLB_INDEX_OF_page: "LPFOf la = LPFOf la' \<Longrightarrow> TLB_INDEX_OF la 0 = tlb_slot la'"
proof -
  assume p: "LPFOf la = LPFOf la'"
  have "LPFOf (LPFOf la') = LPFOf la'" by (simp add: LPFOf_def and.assoc)
  then have "LPFOf la = LPFOf (LPFOf la')" using p by simp
  from ucast_and_page [OF this] show ?thesis by (simp add: tlb_slot_def TLB_INDEX_OF_def TLB_MASK_def)
qed

text \<open>
  C15. After INVLPG no access to the page finds an entry, not in the whole of a large page either.
\<close>
theorem invlpg_removes_the_page:
  assumes "tlb_shape s" and "la' AND lpf_mask (TLB s (tlb_slot la')) = la AND lpf_mask (TLB s (tlb_slot la'))"
  shows "\<not> tlb_hit la' pl rw (TLB_invlpg la s)"
proof
  let ?i = "tlb_slot la'"
  let ?e = "TLB s ?i"
  assume hit: "tlb_hit la' pl rw (TLB_invlpg la s)"
  then have same: "TLB (TLB_invlpg la s) ?i = ?e" using invlpg_entry no_hit_invalid by blast
  then have l: "TLB_LPFOf (lpf ?e) = LPFOf la'" using hit by (simp add: tlb_hit_def Let_def)
  then have valid: "lpf ?e \<noteq> INVALID_TLB_ENTRY" by auto
  have shape: "lpf_mask ?e AND 0xfff = 0" "0xfff < NOT (lpf_mask ?e) \<longrightarrow> split_large s"
    using assms(1) tlb_slot_less [of la'] valid unfolding tlb_shape_def Let_def by blast+
  have m: "x AND lpf_mask ?e = LPFOf x AND lpf_mask ?e" "TLB_LPFOf x AND lpf_mask ?e = x AND lpf_mask ?e" for x
    by (simp_all only: LPFOf_def TLB_LPFOf_def AlignedAccessLPFOf_def and.assoc page_and_mask [OF shape(1)])
  have covers: "la AND lpf_mask ?e = lpf ?e AND lpf_mask ?e"
    using assms(2) m l by metis
  show False
  proof (cases "split_large s")
    case True
    then have "lpf (TLB (TLB_invlpg la s) ?i) = INVALID_TLB_ENTRY"
      using covers tlb_slot_less [of la'] by (simp add: TLB_invlpg_def Let_def)
    then show False using same valid by simp
  next
    case False
    then have "lpf_mask ?e = 0xfffffffffffff000" using shape page_mask by blast
    then have page: "LPFOf la = LPFOf la'" using assms(2) by (simp add: LPFOf_def)
    have "TLB_INDEX_OF la 0 = ?i" by (rule TLB_INDEX_OF_page [OF page])
    then have "lpf (TLB (TLB_invlpg la s) ?i) = INVALID_TLB_ENTRY"
      using False l page by (simp add: TLB_invlpg_def set_tlb_def Let_def)
    then show False using same valid by simp
  qed
qed

section \<open>Memory through the TLB\<close>

text \<open>A user access only walks to pages with the user bit.\<close>

lemma priv_user: "priv_check (priv_index s True (x AND 6) w) \<Longrightarrow> bit x 2"
  by (simp add: priv_check_eq priv_ok_def)

lemma walk_user:
  "(if p then walk_long_mode la pl rw s else walk_legacy la pl rw s) = Inr ((f, c, m), t) \<Longrightarrow> pl = 3 \<longrightarrow> bit c 2"
  by (auto dest!: priv_user simp: bit_simps walk_long_mode_iff walk_legacy_iff long_page_2M_def long_page_4K_def legacy_4M_def
      legacy_4K_def rights_ok_def Let_def split: if_splits)

lemma translate_then_hit:
  assumes "translate_linear la pl rw s = Inr (a, t)" "plain_paging s" "tlb_shape s"
  shows "tlb_hit la pl BX_READ t" and "a = ppf (TLB t (tlb_slot la)) OR PAGE_OFFSET la"
    and "i \<noteq> tlb_slot la \<Longrightarrow> TLB t i = TLB s i" and "plain_paging t" and "tlb_shape t"
proof -
  show "tlb_shape t" using translate_shape [OF assms(3,2), of la pl rw] by (simp add: assms(1) res_state_def)
  have "tlb_hit la pl BX_READ t \<and> a = ppf (TLB t (tlb_slot la)) OR PAGE_OFFSET la \<and>
    (i \<noteq> tlb_slot la \<longrightarrow> TLB t i = TLB s i) \<and> plain_paging t"
  proof (cases "tlb_hit la pl rw s")
    case True
    have "x AND (push_bit 1 1 OR of_bool u) = 0 \<Longrightarrow> x AND (push_bit 1 0 OR of_bool u) = 0" for x :: u32 and u
    proof (cases u)
      case True
      assume "x AND (push_bit 1 1 OR of_bool u) = 0"
      moreover have "x AND 1 = (x AND 3) AND 1" by (simp add: and.assoc)
      ultimately show ?thesis using True by simp
    qed simp
    then have "tlb_hit la pl BX_READ s" using True
      by (cases "odd rw") (auto simp: tlb_hit_def BX_READ_def Let_def)
    then show ?thesis using True assms by (auto simp: translate_linear_cases)
  next
    case False
    then obtain f c m s1 where w: "page_walk la pl rw s = Inr ((f, c, m), s1)" and
      a: "a = f OR PAGE_OFFSET la" "t = tlb_fill la rw (f, c, m) s1"
      using assms(1) by (auto simp: translate_linear_cases rbind_eq_Inr)
    have "pl = 3 \<longrightarrow> bit c 2"
      using w [unfolded page_walk_plain [OF assms(2)]] by (rule walk_user)
    then have "tlb_rights (odd rw) c AND (push_bit 1 (of_bool (odd BX_READ)) OR of_bool (pl = 3)) = 0"
      by (simp only: tlb_rights_eq) (simp add: BX_READ_def)
    then have "tlb_hit la pl BX_READ t" using a by (simp add: tlb_hit_def tlb_fill_entry Let_def)
    moreover have "plain_paging t"
      using plain_paging_regs [of t s] ext_regs [OF page_walk_again(1) [OF w assms(2)]] assms(2) a(2) by (simp add: tlb_fill_same)
    ultimately show ?thesis using a page_walk_again(2) [OF w assms(2)] by (simp add: tlb_fill_entry)
  qed
  then show "tlb_hit la pl BX_READ t" "a = ppf (TLB t (tlb_slot la)) OR PAGE_OFFSET la" 
    "i \<noteq> tlb_slot la \<Longrightarrow> TLB t i = TLB s i" "plain_paging t" by blast+
qed

text \<open>Two stretches of memory within pages.\<close>

lemma frame_offset: "f AND 0xfff = 0 \<Longrightarrow> f OR PAGE_OFFSET la = f + PAGE_OFFSET la" for f :: u32
proof -
  assume "f AND 0xfff = 0"
  then have "f AND PAGE_OFFSET la = 0" by (simp only: PAGE_OFFSET_def and.left_commute [of f]) simp
  then show ?thesis using word_plus_and_or [of f "PAGE_OFFSET la"] by simp
qed

lemma PAGE_OFFSET_unat: "unat (PAGE_OFFSET la) = unat la mod 4096"
proof -
  have "PAGE_OFFSET la = ucast (la AND 0xfff)" by (rule bit_word_eqI) (simp add: PAGE_OFFSET_def bit_simps)
  moreover have "la AND 0xfff = la AND mask 12" by (simp add: mask_eq_exp_minus_1)
  ultimately have "PAGE_OFFSET la = ucast (take_bit 12 la)" by (simp only: take_bit_eq_mask)
  then show ?thesis by (simp add: unsigned_ucast_eq unsigned_take_bit_eq take_bit_take_bit) (simp add: take_bit_eq_mod)
qed

lemma frame_aligned: "f AND 0xfff = 0 \<Longrightarrow> aligned 4096 f" for f :: u32
proof -
  assume "f AND 0xfff = 0"
  moreover have "f AND 0xfff = take_bit 12 f" by (simp add: take_bit_eq_mask mask_eq_exp_minus_1)
  ultimately have "unat (take_bit 12 f) = 0" by simp
  then show ?thesis by (simp only: aligned_def unsigned_take_bit_eq) (simp add: take_bit_eq_mod)
qed

text \<open>The end of one page and the beginning of another, or of the same one.\<close>

lemma pages_apart:
  assumes f: "f1 AND 0xfff = 0" "f2 AND 0xfff = (0 :: u32)" and off: "0 < off" "off < 4096"
    and len: "length bs2 \<le> off"
  shows "phys_bytes (f1 + word_of_nat off) (4096 - off) (put_bytes f2 bs2 m) = phys_bytes (f1 + word_of_nat off) (4096 - off) m"
proof (rule phys_bytes_put_other)
  let ?o = "word_of_nat off :: u32"
  have o: "unat ?o = off" using off by (simp add: unat_of_nat)
  show "4096 - off \<le> unat (f2 - (f1 + ?o))" and "unat (f2 - (f1 + ?o)) + length bs2 \<le> 2 ^ 32"
  proof -
    have "4096 - off \<le> unat (f2 - (f1 + ?o)) \<and> unat (f2 - (f1 + ?o)) + length bs2 \<le> 2 ^ 32" if "f1 = f2"
    proof -
      have "?o \<noteq> 0" using o off by auto
      then show ?thesis using unat_neg [of ?o] o that len off by (simp, linarith)
    qed
    moreover have "4096 - off \<le> unat (f2 - (f1 + ?o)) \<and> unat (f2 - (f1 + ?o)) + length bs2 \<le> 2 ^ 32" if "f1 \<noteq> f2"
    proof -
      have d: "4096 \<le> unat (f2 - f1)" "unat (f2 - f1) + 4096 \<le> 2 ^ 32"
        using aligned_apart [OF frame_aligned [OF f(1)] frame_aligned [OF f(2)] that] by simp_all
      have "f2 - (f1 + ?o) = (f2 - f1) - ?o" by (simp add: algebra_simps)
      moreover have "unat ((f2 - f1) - ?o) = unat (f2 - f1) - off"
        using d off o by (simp add: unat_sub word_le_nat_alt)
      ultimately have "unat (f2 - (f1 + ?o)) = unat (f2 - f1) - off" by (simp only:)
      then show ?thesis using d len off by linarith
    qed
    ultimately show "4096 - off \<le> unat (f2 - (f1 + ?o))" "unat (f2 - (f1 + ?o)) + length bs2 \<le> 2 ^ 32" by blast+
  qed
qed

text \<open>The slots of two pages that follow each other differ.\<close>

lemma tlb_slot_eq: "tlb_slot la = unat la div 4096 mod 1024"
proof -
  have "LPFOf (LPFOf la) = LPFOf la" by (simp add: LPFOf_def and.assoc)
  from ucast_and_page [OF this] have "ucast (LPFOf la) AND TLB_MASK = ucast la AND TLB_MASK" by (simp add: TLB_MASK_def)
  moreover have "drop_bit 12 (ucast la AND TLB_MASK) = drop_bit 12 (ucast la) AND mask 10"
    by (rule bit_word_eqI) (auto simp: TLB_MASK_def bit_simps mask_eq_exp_minus_1)
  moreover have "drop_bit 12 (ucast la) AND mask 10 = (ucast (take_bit 10 (drop_bit 12 la)) :: u32)"
    by (rule bit_word_eqI) (auto simp: bit_simps)
  ultimately have "drop_bit 12 (ucast (LPFOf la) AND TLB_MASK) = (ucast (take_bit 10 (drop_bit 12 la)) :: u32)" by simp
  moreover have "x + word_of_nat 0 = x" for x :: u32 by simp
  ultimately have u: "tlb_slot la = unat (ucast (take_bit 10 (drop_bit 12 la)) :: u32)"
    by (simp only: tlb_slot_def TLB_INDEX_OF_def)
  have "take_bit 64 (unat la) = unat la"
    using unsigned_less [of la, where ?'a = nat] by (simp add: take_bit_nat_eq_self_iff)
  then have "unat (ucast (take_bit 10 (drop_bit 12 la)) :: u32) = take_bit 10 (drop_bit 12 (unat la))"
    by (simp add: unsigned_ucast_eq unsigned_take_bit_eq unsigned_drop_bit_eq take_bit_take_bit)
  then show ?thesis using u by (simp add: take_bit_eq_mod drop_bit_eq_div)
qed

lemma page_end: "n + (4096 - n mod 4096) = 4096 * Suc (n div 4096)"
proof -
  have "r < 4096 \<Longrightarrow> (4096 * q + r) + (4096 - r) = 4096 * Suc q" for q r :: nat by simp
  from this [of "n mod 4096" "n div 4096"] show ?thesis by simp
qed

lemma next_page:
  fixes la defines "l1 \<equiv> 4096 - unat la mod 4096"
  shows "tlb_slot (la + word_of_nat l1) \<noteq> tlb_slot la" and "PAGE_OFFSET (la + word_of_nat l1) = 0"
proof -
  have "unat (la + word_of_nat l1) = (unat la + l1) mod 2 ^ 64" by (simp add: unat_word_ariths unat_of_nat mod_simps)
  moreover have "unat la + l1 = 4096 * Suc (unat la div 4096)"
    unfolding l1_def by (rule page_end)
  ultimately have u: "unat (la + word_of_nat l1) = 4096 * (Suc (unat la div 4096) mod 2 ^ 52)"
    by (simp add: mult_mod_right)
  then have "unat (PAGE_OFFSET (la + word_of_nat l1)) = 0" by (simp only: PAGE_OFFSET_unat) simp
  then show "PAGE_OFFSET (la + word_of_nat l1) = 0" by (simp add: unat_eq_0)
  have "tlb_slot (la + word_of_nat l1) = Suc (unat la div 4096) mod 2 ^ 52 mod 1024" by (simp only: tlb_slot_eq u) simp
  also have "\<dots> = Suc (unat la div 4096) mod 1024" by (rule mod_mod_cancel) simp
  finally have "tlb_slot (la + word_of_nat l1) = Suc (unat la div 4096) mod 1024" .
  then show "tlb_slot (la + word_of_nat l1) \<noteq> tlb_slot la" by (simp only: tlb_slot_eq mod_Suc) simp
qed

section \<open>Store and load\<close>

lemma xlated_bytes_one:
  "phys_bytes a (length bs) (put_bytes a bs m) = bs" if "length bs \<le> 4096"
  using that by (intro phys_bytes_put_same) simp

lemma xlated_bytes_two:
  fixes m0 :: "u32 \<Rightarrow> u8"
  assumes "f1 AND 0xfff = 0" "f2 AND 0xfff = (0 :: u32)" "off < 4096" "4096 < off + length bs" "length bs \<le> 4096"
  defines "m \<equiv> put_bytes f2 (drop (4096 - off) bs) (put_bytes (f1 + word_of_nat off) (take (4096 - off) bs) m0)"
  shows "phys_bytes (f1 + word_of_nat off) (4096 - off) m @ phys_bytes f2 (length bs - (4096 - off)) m = bs"
proof -
  have "phys_bytes (f1 + word_of_nat off) (4096 - off) m = take (4096 - off) bs"
  proof -
    have "phys_bytes (f1 + word_of_nat off) (4096 - off) m =
      phys_bytes (f1 + word_of_nat off) (4096 - off) (put_bytes (f1 + word_of_nat off) (take (4096 - off) bs) m0)"
      unfolding m_def by (rule pages_apart) (use assms in simp_all)
    moreover have "length (take (4096 - off) bs) = 4096 - off" using assms(4) by simp
    ultimately show ?thesis using phys_bytes_put_same [of "take (4096 - off) bs" "f1 + word_of_nat off" m0] by simp
  qed
  moreover have "phys_bytes f2 (length bs - (4096 - off)) m = drop (4096 - off) bs"
    using phys_bytes_put_same [of "drop (4096 - off) bs" f2] assms(5) by (simp add: m_def)
  ultimately show ?thesis by (simp only: append_take_drop_id)
qed

lemma hit_translates: "tlb_hit la pl rw s \<Longrightarrow> translate_linear la pl rw s = Inr (ppf (TLB s (tlb_slot la)) OR PAGE_OFFSET la, s)"
  by (simp add: translate_linear_cases)

lemma tlb_hit_cong: "TLB t (tlb_slot la) = TLB s (tlb_slot la) \<Longrightarrow> tlb_hit la pl rw t = tlb_hit la pl rw s"
  by (simp add: tlb_hit_def)

lemma shape_frame: "tlb_shape s \<Longrightarrow> ppf (TLB s (tlb_slot la)) AND 0xfff = 0"
  using tlb_slot_less by (simp add: tlb_shape_def Let_def)

text \<open>What a translation leaves alone of the access that asks for it.\<close>

definition access_regs :: "cpu \<Rightarrow> bool \<times> u32 \<times> nat \<times> nat \<times> (nat + u32)" where
  "access_regs s = (cr0_PG s, paddress1 s, len1 s, len2 s, pages s)"

lemma page_walk_keeps: "plain_paging s \<Longrightarrow> page_walk la pl rw s = Inr (r, t) \<Longrightarrow> access_regs t = access_regs s"
proof -
  have [simp]: "access_regs (mark_A32 a e x) = access_regs x" "access_regs (mark_AD32 w a e x) = access_regs x"
    "access_regs (mark_A64 a f x) = access_regs x" "access_regs (mark_AD64 w a f x) = access_regs x" for a e f w x
    by (simp_all add: mark_A32_def mark_AD32_def mark_A64_def mark_AD64_def write_entry32_def write_entry64_def
        access_write_physical_def access_regs_def)
  assume "plain_paging s" "page_walk la pl rw s = Inr (r, t)"
  then show ?thesis
    by (auto simp: page_walk_plain walk_long_mode_iff walk_legacy_iff long_page_2M_def long_page_4K_def legacy_4M_def
        legacy_4K_def Let_def split: if_splits)
qed

lemma translate_keeps:
  assumes "plain_paging s" "translate_linear la pl rw s = Inr (a, t)"
  shows "access_regs t = access_regs s"
proof -
  have "access_regs (tlb_fill la rw r u) = access_regs u" for r u
    by (cases r) (simp add: tlb_fill_def set_tlb_def Let_def access_regs_def)
  then show ?thesis using assms(2) page_walk_keeps [OF assms(1), of la pl rw]
    by (auto simp: translate_linear_cases rbind_eq_Inr simp del: split_paired_All split: if_split_asm)
qed

lemma parts_keep [simp]:
  "TLB (two_pages a i j s) = TLB s" "plain_paging (two_pages a i j s) = plain_paging s" "tlb_shape (two_pages a i j s) = tlb_shape s"
  "TLB (one_page a s) = TLB s" "plain_paging (one_page a s) = plain_paging s" "cr0_PG (one_page a s) = cr0_PG s"
  "cr0_PG (two_pages a i j s) = cr0_PG s" "TLB (access_write_physical a bs s) = TLB s"
  "cr0_PG (access_write_physical a bs s) = cr0_PG s" "ram (one_page a s) = ram s" "ram (two_pages a i j s) = ram s"
  by (simp_all add: two_pages_def one_page_def plain_paging_def tlb_shape_def long_mode_def access_write_physical_def)

text \<open>
  What is stored at a linear address with paging on is loaded from it, in one page or across two, and the load
  changes no memory.
\<close>
theorem load_after_store:
  assumes "access_write_linear la bs pl s = Inr ((), t)"
    and "cr0_PG s" "plain_paging s" "tlb_shape s" "length bs \<le> 4096"
  shows "\<exists>u. access_read_linear la (length bs) pl BX_READ t = Inr (bs, u) \<and> ram u = ram t"
proof (cases "unat (PAGE_OFFSET la) + length bs \<le> 4096")
  case True
  obtain a s1 where x: "translate_linear la pl BX_WRITE s = Inr (a, s1)" and
    t: "t = access_write_physical a bs (one_page a s1)"
    using assms(1,2) True by (auto simp: access_write_linear_def xlate_linear_def rbind_eq_Inr xlated_write_def one_page_def)
  note h = translate_then_hit [OF x assms(3,4)]
  have "cr0_PG t" using translate_keeps [OF assms(3) x] assms(2) t by (simp add: access_regs_def)
  moreover have "tlb_hit la pl BX_READ t" using h(1) tlb_hit_cong [of t la s1] t by simp
  then have "translate_linear la pl BX_READ t = Inr (a, t)" using hit_translates h(2) t by simp
  ultimately show ?thesis using True xlated_bytes_one [OF assms(5)] t
    by (simp add: access_read_linear_def xlate_linear_def xlated_read_def access_read_physical_def one_page_def
        access_write_physical_def)
next
  case False
  let ?off = "unat (PAGE_OFFSET la)"
  let ?l1 = "4096 - ?off"
  let ?la2 = "la + word_of_nat ?l1"
  have off: "?off = unat la mod 4096" "?off < 4096" by (simp_all add: PAGE_OFFSET_unat)
  note second = next_page [of la, folded off(1)]
  obtain a s1 b s2 where x: "translate_linear la pl BX_WRITE s = Inr (a, s1)"
    and y: "translate_linear ?la2 pl BX_WRITE (two_pages a ?l1 (length bs - ?l1) s1) = Inr (b, s2)" and
    t: "t = xlated_write bs (s2\<lparr>paddress2 := b\<rparr>)"
    using assms(1,2) False by (auto simp: access_write_linear_def xlate_linear_def rbind_eq_Inr Let_def)
  note h = translate_then_hit [OF x assms(3,4)]
  note k = translate_then_hit [OF y]
  have s2: "TLB s2 (tlb_slot la) = TLB s1 (tlb_slot la)" using k(3) second(1) h(4,5) by simp
  let ?f1 = "ppf (TLB s1 (tlb_slot la))" and ?f2 = "ppf (TLB s2 (tlb_slot ?la2))"
  have f: "?f1 AND 0xfff = 0" "?f2 AND 0xfff = 0" using shape_frame h(5) k(5) h(4) by simp_all
  have a: "a = ?f1 + word_of_nat ?off" "b = ?f2" using h(2) k(2) h(4,5) frame_offset [OF f(1), of la] second(2) by simp_all
  let ?l2 = "length bs - ?l1"
  have regs: "access_regs s2 = (True, a, ?l1, ?l2, Inl 2)"
  proof -
    have "plain_paging (two_pages a ?l1 ?l2 s1)" using h(4) by simp
    note translate_keeps [OF this y] translate_keeps [OF assms(3) x]
    then show ?thesis using assms(2) by (simp add: access_regs_def two_pages_def)
  qed
  have PG: "cr0_PG t" and TLB: "TLB t = TLB s2" and
    ram: "ram t = put_bytes b (drop ?l1 bs) (put_bytes a (take ?l1 bs) (ram s2))"
    using regs t by (simp_all add: access_regs_def xlated_write_def access_write_physical_def)
  have "tlb_hit la pl BX_READ t" using h(1) tlb_hit_cong [of t la s1] TLB s2 by simp
  then have 1: "translate_linear la pl BX_READ t = Inr (a, t)" using hit_translates h(2) TLB s2 by simp
  let ?t = "two_pages a ?l1 ?l2 t"
  have "tlb_hit ?la2 pl BX_READ ?t" using k(1) h(4,5) tlb_hit_cong [of ?t ?la2 s2] TLB by simp
  then have 2: "translate_linear ?la2 pl BX_READ ?t = Inr (b, ?t)" using hit_translates k(2) h(4,5) TLB by simp
  have bytes: "access_read_physical a ?l1 t @ access_read_physical b ?l2 t = bs"
    using xlated_bytes_two [OF f off(2) _ assms(5)] False a ram by (simp add: access_read_physical_def)
  have "xlate_linear la (length bs) pl BX_READ t = Inr ((), ?t\<lparr>paddress2 := b\<rparr>)"
    using PG False 1 2 by (simp add: xlate_linear_def Let_def)
  then show ?thesis using bytes
    by (simp add: access_read_linear_def xlated_read_def two_pages_def access_read_physical_def)
qed

section \<open>A small machine\<close>

text \<open>Two pages, at 0 and 0x1000, in the frames 0x5000 and 0x3000; the directory is at 0x1000 and its table at 0x2000.\<close>

definition small_ram :: "u32 \<Rightarrow> u8" where
  "small_ram a = (if a = 0x1000 then 7 else if a = 0x1001 then 0x20 else if a = 0x2000 then 7 else if a = 0x2001 then 0x50
     else if a = 0x2004 then 7 else if a = 0x2005 then 0x30 else 0)"

definition no_entry :: tlb_entry where
  "no_entry = \<lparr>lpf = INVALID_TLB_ENTRY, lpf_mask = 0, ppf = 0, accessBits = 0, hostPageAddr = None\<rparr>"

definition small_machine :: cpu where
  "small_machine = \<lparr>gen_reg = (\<lambda>_. 0), eflags = 2, lf_flags_status = 0,
     oszapc = \<lparr>lf_op1 = 0, lf_op2 = 0, lf_result = 0, lf_ins = LF_LOGIC8\<rparr>,
     sregs = (\<lambda>_. \<lparr>sc_valid = 7, sc_p = True, sc_type = 3, sc_base = 0, sc_limit_scaled = 0xffffffff, sc_d_b = True\<rparr>),
     mode = IA32_PROTECTED, curr_CPL = 3, alignment_check_mask = 0, cr0_PG = True, cr0_WP = True, cr2 = 0, cr3 = 0x1000,
     cr3_masked = 0x1000, cr4_PSE = False, cr4_PAE = False, cr4_PGE = False, efer_NXE = False, efer_LMA = False,
     TLB = (\<lambda>_. no_entry), split_large = False, pdpe_valid = False, pdpe_entry = (\<lambda>_. 0), paddress1 = 0, paddress2 = 0,
     len1 = 0, len2 = 0, pages = Inl 0, ram = small_ram, direct = (\<lambda>_ _. True), panicked = False\<rparr>"

lemma small_machine_ok:
  "tlb_coherent small_machine" "plain_paging small_machine" "tlb_shape small_machine" "cr0_PG small_machine"
  "may_run rw small_machine"
proof -
  have "\<not> tlb_hit la pl rw small_machine" for la pl rw
    by (rule no_hit_invalid) (simp add: small_machine_def no_entry_def)
  then show "tlb_coherent small_machine" by (simp add: tlb_coherent_def)
  show "plain_paging small_machine" "tlb_shape small_machine" "cr0_PG small_machine" "may_run rw small_machine"
    by (simp_all add: small_machine_def no_entry_def plain_paging_def tlb_shape_def may_run_def)
qed

lemma small_miss: "\<not> tlb_hit la pl rw small_machine"
  by (rule no_hit_invalid) (simp add: small_machine_def no_entry_def)

lemma small_entries: "read_entry32 0x1000 small_machine = 0x2007" "read_entry32 0x2004 small_machine = 0x3007"
  by code_simp+

lemma small_regs: "cr3_masked small_machine = 0x1000" "\<not> cr4_PAE small_machine" "\<not> cr4_PSE small_machine"
  "\<not> cr4_PGE small_machine" "cr0_WP small_machine"
  by (simp_all add: small_machine_def)

lemma small_translation:
  obtains t where "translate_linear 0x1ffe 3 BX_WRITE small_machine = Inr (0x3ffe, t)"
proof -
  have "legacy_pde 0x1ffe small_machine = 0x1000" "legacy_pte 0x1ffe small_machine = 0x2004"
    by (simp_all add: legacy_pde_def legacy_pte_def small_entries small_regs)
  then obtain c m t where "page_walk 0x1ffe 3 BX_WRITE small_machine = Inr ((0x3000, c, m), t)"
    by (simp add: page_walk_def walk_legacy_iff legacy_4K_def small_entries small_regs priv_check_def priv_index_def
        BX_WRITE_def Let_def)
  then show ?thesis using that by (simp add: translate_linear_cases small_miss PAGE_OFFSET_def)
qed

theorem translation_keeps_coherence_witness:
  "tlb_coherent (res_state (translate_linear 0x1ffe 3 BX_WRITE small_machine)) \<and>
   plain_paging (res_state (translate_linear 0x1ffe 3 BX_WRITE small_machine))"
  by (rule translation_keeps_coherence [OF small_machine_ok(1,2)])

theorem new_tables_are_used_witness: "\<exists>t. SetCR3 0x6000 small_machine = Inr ((), t) \<and> tlb_coherent t \<and> cr3 t = 0x6000"
proof -
  have p: "cr4_PGE small_machine = False" "cr4_PAE small_machine = False" by (simp_all add: small_machine_def)
  then obtain t where t: "SetCR3 0x6000 small_machine = Inr ((), t)"
    by (auto simp: SetCR3_def TLB_flush_def Let_def)
  show ?thesis using new_tables_are_used [OF t] t p by simp
qed

theorem invlpg_removes_the_page_witness:
  "\<exists>s. tlb_hit 0x1ffe 3 BX_READ s \<and> \<not> tlb_hit 0x1ffe 3 BX_READ (TLB_invlpg 0x1ffe s)"
proof -
  obtain t where t: "translate_linear 0x1ffe 3 BX_WRITE small_machine = Inr (0x3ffe, t)" by (rule small_translation)
  note h = translate_then_hit [OF t small_machine_ok(2,3)]
  show ?thesis using h(1) invlpg_removes_the_page [OF h(5), of "0x1ffe" "0x1ffe" 3 BX_READ] by blast
qed

end
