(* ===== verification/Cpu_Tlb_Reach.thy ===== *)
theory Cpu_Tlb_Reach
  imports Cpu_Tlb_Spec
begin

text \<open>
  The TLB over a run: from a flush or a new directory on, whatever is translated, invalidated or stored outside
  the page tables, a translation is the walk of the tables (\<^verbatim>\<open>src/sim/bochs/cpu/paging.cc\<close>).
\<close>

unbundle bit_operations_syntax

section \<open>The memory of the page tables\<close>

text \<open>The entries that a walk can reach, and the bytes they occupy.\<close>

definition table_entry32 :: "cpu \<Rightarrow> u32 \<Rightarrow> bool" where
  "table_entry32 s a \<longleftrightarrow>
     (\<exists>la. let pde = read_entry32 (legacy_pde la s) s in
        a = legacy_pde la s \<or> pde AND 1 \<noteq> 0 \<and> \<not> (pde AND 0x80 \<noteq> 0 \<and> cr4_PSE s) \<and> a = legacy_pte la s)"

definition table_entry64 :: "cpu \<Rightarrow> u32 \<Rightarrow> bool" where
  "table_entry64 s a \<longleftrightarrow>
     (\<exists>la. a = pml4_addr la s \<or> read_entry64 (pml4_addr la s) s AND 1 \<noteq> 0 \<and>
        (a = pdpe_addr la s \<or> read_entry64 (pdpe_addr la s) s AND 1 \<noteq> 0 \<and>
          (a = pde_addr la s \<or> read_entry64 (pde_addr la s) s AND 1 \<noteq> 0 \<and> read_entry64 (pde_addr la s) s AND 0x80 = 0 \<and>
            a = pte_addr la s)))"

definition table_memory :: "cpu \<Rightarrow> u32 set" where
  "table_memory s =
     (if cr4_PAE s then {a + word_of_nat i | a i. table_entry64 s a \<and> i < 8}
      else {a + word_of_nat i | a i. table_entry32 s a \<and> i < 4})"

lemma table_entry_aligned:
  assumes "cr3_masked s AND 0xfff = 0"
  shows "table_entry32 s a \<Longrightarrow> aligned 4 a" "table_entry64 s a \<Longrightarrow> aligned 8 a"
  using legacy_addresses assms long_addrs_aligned
  by (auto simp: table_entry32_def table_entry64_def legacy_pde_def legacy_pte_def Let_def)

lemma table_entry32_ext:
  assumes "ad_ext read_entry32 4 s t" "cr3_masked s AND 0xfff = 0"
  shows "table_entry32 t = table_entry32 s"
proof -
  note e = legacy_again [OF assms]
  have b: "(read_entry32 (legacy_pde la s) t AND 1 \<noteq> 0) = (read_entry32 (legacy_pde la s) s AND 1 \<noteq> 0)"
    "(read_entry32 (legacy_pde la s) t AND 0x80 \<noteq> 0) = (read_entry32 (legacy_pde la s) s AND 0x80 \<noteq> 0)" for la
    using e(3) [of la] by (auto simp: or_ad_and)
  show ?thesis unfolding table_entry32_def fun_eq_iff Let_def e(1,2) b legacy_regs(1) [OF assms(1)] by blast
qed

lemma table_entry64_ext:
  assumes "ad_ext read_entry64 8 s t" "cr3_masked s AND 0xfff = 0"
  shows "table_entry64 t = table_entry64 s"
proof -
  note e = long_entries_again [OF assms]
  have b: "(read_entry64 (pml4_addr la s) t AND 1 \<noteq> 0) = (read_entry64 (pml4_addr la s) s AND 1 \<noteq> 0)"
    "(read_entry64 (pdpe_addr la s) t AND 1 \<noteq> 0) = (read_entry64 (pdpe_addr la s) s AND 1 \<noteq> 0)"
    "(read_entry64 (pde_addr la s) t AND 1 \<noteq> 0) = (read_entry64 (pde_addr la s) s AND 1 \<noteq> 0)"
    "(read_entry64 (pde_addr la s) t AND 0x80 = 0) = (read_entry64 (pde_addr la s) s AND 0x80 = 0)" for la
    using e(5) [of la] e(6) [of la] e(7) [of la] by (auto simp: or_ad_and)
  show ?thesis unfolding table_entry64_def fun_eq_iff e(1-4) b by blast
qed

section \<open>A walk reads its entries only\<close>

lemma legacy_4M_marked:
  assumes "legacy_4M la pl rw t (x, t)" "cr3_masked t AND 0xfff = 0"
  shows "read_entry32 (legacy_pde la t) t AND 0x20 \<noteq> 0" "odd rw \<Longrightarrow> read_entry32 (legacy_pde la t) t AND 0x40 \<noteq> 0"
proof -
  let ?A = "legacy_pde la t"
  have al: "aligned 4 ?A" using legacy_addresses(1) assms(2) by (simp add: legacy_pde_def)
  have "mark_AD32 (odd rw) ?A (read_entry32 ?A t) t = t" using assms(1) by (simp add: legacy_4M_def Let_def)
  note e = mark_AD32_ext [where w = "odd rw", OF entries32.ext_refl [where s = t] al refl, unfolded this]
  show "read_entry32 ?A t AND 0x20 \<noteq> 0" "odd rw \<Longrightarrow> read_entry32 ?A t AND 0x40 \<noteq> 0" using e(2,3) .
qed

lemma legacy_4K_marked:
  assumes "legacy_4K la pl rw t (x, t)" "cr3_masked t AND 0xfff = 0"
  shows "read_entry32 (legacy_pde la t) t AND 0x20 \<noteq> 0" "read_entry32 (legacy_pte la t) t AND 0x20 \<noteq> 0"
    "odd rw \<Longrightarrow> read_entry32 (legacy_pte la t) t AND 0x40 \<noteq> 0"
proof -
  let ?A = "legacy_pde la t" and ?B = "legacy_pte la t"
  have al: "aligned 4 ?A" "aligned 4 ?B" using legacy_addresses assms(2) by (simp_all add: legacy_pde_def legacy_pte_def)
  have w: "mark_AD32 (odd rw) ?B (read_entry32 ?B t) (mark_A32 ?A (read_entry32 ?A t) t) = t"
    using assms(1) by (simp add: legacy_4K_def Let_def)
  note e1 = mark_A32_ext [OF entries32.ext_refl [where s = t] al(1) refl]
  note e = mark_AD32_ext [where w = "odd rw", OF e1(1) al(2) refl, unfolded w]
  show "read_entry32 ?A t AND 0x20 \<noteq> 0" by (rule e(4) [OF al(1) e1(2)])
  show "read_entry32 ?B t AND 0x20 \<noteq> 0" "odd rw \<Longrightarrow> read_entry32 ?B t AND 0x40 \<noteq> 0" using e(2,3) .
qed

lemma walk_legacy_entries:
  assumes walk: "walk_legacy la pl rw t = Inr (x, t)" and cr3: "cr3_masked t AND 0xfff = 0"
    and regs: "paging_regs t' = paging_regs t" and same: "\<And>a. table_entry32 t a \<Longrightarrow> read_entry32 a t' = read_entry32 a t"
  shows "walk_legacy la pl rw t' = Inr (x, t')"
proof -
  let ?pde = "read_entry32 (legacy_pde la t) t" and ?big = "read_entry32 (legacy_pde la t) t AND 0x80 \<noteq> 0 \<and> cr4_PSE t"
  note w = walk [unfolded walk_legacy_iff Let_def]
  have r: "cr3_masked t' = cr3_masked t" "cr0_WP t' = cr0_WP t" "cr4_PSE t' = cr4_PSE t" "cr4_PGE t' = cr4_PGE t"
    using regs by (simp_all add: paging_regs_def)
  have A: "legacy_pde la t' = legacy_pde la t" by (simp add: legacy_pde_def r)
  have a: "read_entry32 (legacy_pde la t) t' = ?pde" by (rule same) (auto simp: table_entry32_def Let_def)
  have B: "legacy_pte la t' = legacy_pte la t" by (simp add: legacy_pte_def A a)
  have p: "priv_index t' = priv_index t" by (simp add: priv_index_def r fun_eq_iff)
  show ?thesis
  proof (cases ?big)
    case True
    then have page: "legacy_4M la pl rw t (x, t)" using w by simp
    note m = legacy_4M_marked [OF page cr3]
    have "legacy_4M la pl rw t' (x, t')"
      using page m unfolding legacy_4M_def Let_def A a r p by (auto simp: marked_AD32)
    then show ?thesis using w True unfolding walk_legacy_iff Let_def A a r by simp
  next
    case False
    then have page: "legacy_4K la pl rw t (x, t)" using w by (simp split: if_splits)
    note m = legacy_4K_marked [OF page cr3]
    have b: "read_entry32 (legacy_pte la t) t' = read_entry32 (legacy_pte la t) t"
      using w False by (intro same) (auto simp: table_entry32_def Let_def)
    have "legacy_4K la pl rw t' (x, t')"
      using page m unfolding legacy_4K_def Let_def A B a b r p by (auto simp: marked_AD32)
    then show ?thesis using w False unfolding walk_legacy_iff Let_def A a r by auto
  qed
qed

lemma walk_long_entries:
  assumes walk: "walk_long_mode la pl rw t = Inr (x, t)" and cr3: "cr3_masked t AND 0xfff = 0"
    and regs: "paging_regs t' = paging_regs t" and same: "\<And>a. table_entry64 t a \<Longrightarrow> read_entry64 a t' = read_entry64 a t"
  shows "walk_long_mode la pl rw t' = Inr (x, t')"
proof -
  let ?big = "read_entry64 (pde_addr la t) t AND 0x80 \<noteq> 0"
  note w = walk [unfolded walk_long_mode_iff]
  have r: "cr3_masked t' = cr3_masked t" "cr0_WP t' = cr0_WP t" "cr4_PGE t' = cr4_PGE t" "efer_LMA t' = efer_LMA t"
    "efer_NXE t' = efer_NXE t"
    using regs by (simp_all add: paging_regs_def)
  have present: "read_entry64 (pml4_addr la t) t AND 1 \<noteq> 0" "read_entry64 (pdpe_addr la t) t AND 1 \<noteq> 0"
    "read_entry64 (pde_addr la t) t AND 1 \<noteq> 0"
    using w by (simp_all add: entry_ok_def)
  have A: "pml4_addr la t' = pml4_addr la t" by (simp add: pml4_addr_def r)
  have a: "read_entry64 (pml4_addr la t) t' = read_entry64 (pml4_addr la t) t"
    by (rule same) (auto simp: table_entry64_def)
  have B: "pdpe_addr la t' = pdpe_addr la t" by (simp add: pdpe_addr_def A a)
  have b: "read_entry64 (pdpe_addr la t) t' = read_entry64 (pdpe_addr la t) t"
    using present by (intro same) (auto simp: table_entry64_def)
  have C: "pde_addr la t' = pde_addr la t" by (simp add: pde_addr_def B b)
  have c: "read_entry64 (pde_addr la t) t' = read_entry64 (pde_addr la t) t"
    using present by (intro same) (auto simp: table_entry64_def)
  have D: "pte_addr la t' = pte_addr la t" by (simp add: pte_addr_def C c)
  have p: "entry_ok k e t' = entry_ok k e t" "rights_ok pl rw y e t' = rights_ok pl rw y e t" for k e y
    by (simp_all add: entry_ok_def rights_ok_def priv_check_def priv_index_def long_mode_def r fun_eq_iff)
  have "if ?big then long_page_2M la pl rw t' (x, t') else long_page_4K la pl rw t' (x, t')"
  proof (cases ?big)
    case True
    then have page: "long_page_2M la pl rw t (x, t)" using w by simp
    have "long_page_2M la pl rw t' (x, t')"
      using page walk_marks_2M(2) [OF cr3 page]
      unfolding long_page_2M_def long_marked_def Let_def A B C a b c p by (auto simp: marked_AD64)
    then show ?thesis using True by simp
  next
    case False
    then have page: "long_page_4K la pl rw t (x, t)" using w by simp
    have d: "read_entry64 (pte_addr la t) t' = read_entry64 (pte_addr la t) t"
      using present False by (intro same) (auto simp: table_entry64_def)
    have "long_page_4K la pl rw t' (x, t')"
      using page walk_marks_4K(2) [OF cr3 page]
      unfolding long_page_4K_def long_marked_def Let_def A B C D a b c d p by (auto simp: marked_AD64)
    then show ?thesis using False by simp
  qed
  then show ?thesis using w unfolding walk_long_mode_iff A B C a b c p by simp
qed

section \<open>Stores outside the tables\<close>

lemma aligned_blocks:
  assumes "aligned k a" "aligned k b" "k dvd 2 ^ 32" "a + word_of_nat i = b + word_of_nat j" "i < k" "j < k"
  shows "a = b"
proof (rule ccontr)
  assume ne: "a \<noteq> b"
  have small: "unat (word_of_nat m :: u32) = m" if "m < k" for m
  proof -
    have "k \<le> 2 ^ 32" using assms(3) by (rule dvd_imp_le) simp
    then show ?thesis using that by (simp add: unat_of_nat)
  qed
  have k: "0 < k" using assms(5) by simp
  show False
  proof (cases "j \<le> i")
    case True
    then have "b - a = word_of_nat (i - j)" using assms(4) by (simp add: of_nat_diff algebra_simps)
    then have "unat (b - a) < k" using small [of "i - j"] assms(5) by simp
    then show False using aligned_apart [OF assms(1,2) ne assms(3) k] by simp
  next
    case False
    then have "a - b = word_of_nat (j - i)" using assms(4) by (simp add: of_nat_diff algebra_simps)
    then have "unat (a - b) < k" using small [of "j - i"] assms(6) by simp
    then show False using aligned_apart [OF assms(2,1) ne [symmetric] assms(3) k] by simp
  qed
qed

text \<open>Memory of which the bytes of some entries come from one state and the rest from another.\<close>

definition spliced :: "u32 set \<Rightarrow> cpu \<Rightarrow> cpu \<Rightarrow> cpu" where
  "spliced T t s = t\<lparr>ram := (\<lambda>x. if x \<in> T then ram t x else ram s x)\<rparr>"

lemma spliced_regs [simp]: "paging_regs (spliced T t s) = paging_regs t"
  by (simp add: spliced_def paging_regs_def)

lemma spliced_bytes:
  assumes T: "T = {a + word_of_nat i | a i. P a \<and> i < k}" and al: "\<And>a. P a \<Longrightarrow> aligned k a" and k: "k dvd 2 ^ 32"
    and a: "aligned k a"
  shows "access_read_physical a k (spliced T t s) = access_read_physical a k (if P a then t else s)"
proof -
  have "(a + word_of_nat i \<in> T) = P a" if "i < k" for i
    using that aligned_blocks [OF a al k] unfolding T by blast
  then show ?thesis by (simp add: access_read_physical_def phys_bytes_def spliced_def)
qed

lemma spliced_ext:
  assumes T: "T = {a + word_of_nat i | a i. P a \<and> i < k}" and al: "\<And>a. P a \<Longrightarrow> aligned k a" and k: "k dvd 2 ^ 32"
    and rd: "\<And>a u. rd a u = bytes_word (access_read_physical a k u)"
    and ext: "ad_ext rd k s' t" and regs: "paging_regs s' = paging_regs s"
    and same: "\<And>a. P a \<Longrightarrow> rd a s' = rd a s"
  shows "ad_ext rd k s (spliced T t s)" "P a \<Longrightarrow> rd a t = rd a (spliced T t s)"
proof -
  have r: "rd a (spliced T t s) = rd a (if P a then t else s)" if "aligned k a" for a
    using spliced_bytes [OF T al k that, of t s] by (simp only: rd)
  show "ad_ext rd k s (spliced T t s)"
    unfolding ad_ext_def
  proof (intro conjI allI impI)
    show "paging_regs (spliced T t s) = paging_regs s" using ext regs by (simp add: ad_ext_def)
    fix a assume a: "aligned k a"
    obtain v where v: "rd a t = rd a s' OR (v AND 0x60)" using ext a unfolding ad_ext_def by blast
    show "\<exists>v. rd a (spliced T t s) = rd a s OR (v AND 0x60)"
    proof (cases "P a")
      case True
      then show ?thesis using v r [OF a] same [OF True] by auto
    qed (use r [OF a] no_mark in simp)
  qed
  show "P a \<Longrightarrow> rd a t = rd a (spliced T t s)" using r al by simp
qed

lemma coherent_elsewhere:
  assumes coh: "tlb_coherent s" and pp: "plain_paging s" and TLB: "TLB s' = TLB s" and regs: "paging_regs s' = paging_regs s"
    and same: "\<And>x. x \<in> table_memory s \<Longrightarrow> ram s' x = ram s x"
  shows "tlb_coherent s'"
  unfolding tlb_coherent_def
proof (intro allI impI)
  fix la pl rw t
  assume hit: "tlb_hit la pl rw s'" and run: "may_run rw s'" and ext: "tables_ext s' t"
  let ?T = "table_memory s" and ?f = "ppf (TLB s (tlb_slot la))"
  let ?u = "spliced ?T t s"
  have cr3: "cr3_masked s AND 0xfff = 0" using pp by (simp add: plain_paging_def)
  have rt: "paging_regs t = paging_regs s" using ext_regs [OF ext] regs by simp
  then have cr3u: "cr3_masked ?u AND 0xfff = 0" and pae: "cr4_PAE ?u = cr4_PAE s" "cr4_PAE t = cr4_PAE s" "cr4_PAE s' = cr4_PAE s"
    using cr3 regs spliced_regs [of ?T t s] by (simp_all add: paging_regs_def spliced_def)
  have pu: "plain_paging ?u" "plain_paging t" using plain_paging_regs rt pp spliced_regs by metis+
  have hs: "tlb_hit la pl rw s" "may_run rw s" using hit run may_run_regs [OF regs] by (simp_all add: tlb_hit_def TLB)
  have "\<exists>c m. page_walk la pl rw t = Inr ((?f, c, m), t)"
  proof (cases "cr4_PAE s")
    case True
    have T: "?T = {a + word_of_nat i | a i. table_entry64 s a \<and> i < 8}" using True by (simp add: table_memory_def)
    have "read_entry64 a s' = read_entry64 a s" if "table_entry64 s a" for a
    proof -
      have "ram s' (a + word_of_nat i) = ram s (a + word_of_nat i)" if "i < 8" for i
        using that \<open>table_entry64 s a\<close> by (intro same) (auto simp: T)
      then have "map (\<lambda>i. ram s' (a + word_of_nat i)) [0..<8] = map (\<lambda>i. ram s (a + word_of_nat i)) [0..<8]"
        by (intro map_cong) simp_all
      then show ?thesis by (simp only: read_entry64_def access_read_physical_def phys_bytes_def)
    qed
    note sp = spliced_ext [OF T table_entry_aligned(2) [OF cr3] _ read_entry64_def _ regs this, of t, simplified]
    have "ad_ext read_entry64 8 s' t" using ext True pae by (simp add: tables_ext_def)
    note sp = sp [OF this]
    have "tables_ext s ?u" using sp(1) True by (simp add: tables_ext_def)
    then obtain c m where w: "page_walk la pl rw ?u = Inr ((?f, c, m), ?u)"
      using coh hs unfolding tlb_coherent_def by blast
    have "walk_long_mode la pl rw t = Inr ((?f, c, m), t)"
    proof (rule walk_long_entries [OF _ cr3u])
      show "walk_long_mode la pl rw ?u = Inr ((?f, c, m), ?u)" using w True pae page_walk_plain [OF pu(1)] by simp
      show "paging_regs t = paging_regs ?u" by simp
      show "read_entry64 a t = read_entry64 a ?u" if "table_entry64 ?u a" for a
        using that sp(2) table_entry64_ext [OF sp(1) cr3] by simp
    qed
    then show ?thesis using True pae page_walk_plain [OF pu(2)] by simp
  next
    case False
    have T: "?T = {a + word_of_nat i | a i. table_entry32 s a \<and> i < 4}" using False by (simp add: table_memory_def)
    have "read_entry32 a s' = read_entry32 a s" if "table_entry32 s a" for a
    proof -
      have "ram s' (a + word_of_nat i) = ram s (a + word_of_nat i)" if "i < 4" for i
        using that \<open>table_entry32 s a\<close> by (intro same) (auto simp: T)
      then have "map (\<lambda>i. ram s' (a + word_of_nat i)) [0..<4] = map (\<lambda>i. ram s (a + word_of_nat i)) [0..<4]"
        by (intro map_cong) simp_all
      then show ?thesis by (simp only: read_entry32_def access_read_physical_def phys_bytes_def)
    qed
    note sp = spliced_ext [OF T table_entry_aligned(1) [OF cr3] _ read_entry32_def _ regs this, of t, simplified]
    have "ad_ext read_entry32 4 s' t" using ext False pae by (simp add: tables_ext_def)
    note sp = sp [OF this]
    have "tables_ext s ?u" using sp(1) False by (simp add: tables_ext_def)
    then obtain c m where w: "page_walk la pl rw ?u = Inr ((?f, c, m), ?u)"
      using coh hs unfolding tlb_coherent_def by blast
    have "walk_legacy la pl rw t = Inr ((?f, c, m), t)"
    proof (rule walk_legacy_entries [OF _ cr3u])
      show "walk_legacy la pl rw ?u = Inr ((?f, c, m), ?u)" using w False pae page_walk_plain [OF pu(1)] by simp
      show "paging_regs t = paging_regs ?u" by simp
      show "read_entry32 a t = read_entry32 a ?u" if "table_entry32 ?u a" for a
        using that sp(2) table_entry32_ext [OF sp(1) cr3] by simp
    qed
    then show ?thesis using False pae page_walk_plain [OF pu(2)] by simp
  qed
  then show "\<exists>c m. page_walk la pl rw t = Inr ((ppf (TLB s' (tlb_slot la)), c, m), t)" by (simp add: TLB)
qed

section \<open>Translation is the walk\<close>

text \<open>
  The states of a run: a flush, whatever memory holds then; a new directory; translations, which also set the
  accessed and dirty bits; INVLPG; and anything that leaves the TLB, the paging registers and the memory of the tables
  as they are, such as a store to another page.
\<close>

inductive tlb_reach :: "cpu \<Rightarrow> bool" where
  Flush: "plain_paging s \<Longrightarrow> tlb_reach (TLB_flush s)"
| Directory: "SetCR3 v s = Inr ((), t) \<Longrightarrow> \<not> cr4_PGE s \<Longrightarrow> (cr4_PAE s \<longrightarrow> long_mode s) \<Longrightarrow> tlb_reach t"
| Translate: "tlb_reach s \<Longrightarrow> tlb_reach (res_state (translate_linear la pl rw s))"
| Invalidate: "tlb_reach s \<Longrightarrow> tlb_reach (TLB_invlpg la s)"
| Elsewhere: "tlb_reach s \<Longrightarrow> TLB t = TLB s \<Longrightarrow> paging_regs t = paging_regs s \<Longrightarrow>
    (\<forall>x \<in> table_memory s. ram t x = ram s x) \<Longrightarrow> tlb_reach t"

lemma invlpg_keeps: "ram (TLB_invlpg la s) = ram s" "paging_regs (TLB_invlpg la s) = paging_regs s"
  by (simp_all add: TLB_invlpg_def set_tlb_def Let_def paging_regs_def)

lemma coherent_invlpg:
  assumes "tlb_coherent s"
  shows "tlb_coherent (TLB_invlpg la s)"
  unfolding tlb_coherent_def
proof (intro allI impI)
  fix la' pl rw t
  assume hit: "tlb_hit la' pl rw (TLB_invlpg la s)" "may_run rw (TLB_invlpg la s)" "tables_ext (TLB_invlpg la s) t"
  have e: "TLB (TLB_invlpg la s) (tlb_slot la') = TLB s (tlb_slot la')" using hit(1) invlpg_entry no_hit_invalid by blast
  then have "tlb_hit la' pl rw s" using hit(1) by (simp add: tlb_hit_def)
  moreover have "may_run rw s" "tables_ext s t"
    using hit(2,3) may_run_regs [OF invlpg_keeps(2)] tables_ext_cong [OF invlpg_keeps] by simp_all
  ultimately show "\<exists>c m. page_walk la' pl rw t = Inr ((ppf (TLB (TLB_invlpg la s) (tlb_slot la')), c, m), t)"
    using assms unfolding tlb_coherent_def e by blast
qed

lemma tlb_reach_coherent: "tlb_reach s \<Longrightarrow> tlb_coherent s \<and> plain_paging s"
proof (induction rule: tlb_reach.induct)
  case (Flush s)
  then show ?case using TLB_flush_coherent by (simp add: plain_paging_def TLB_flush_def long_mode_def)
next
  case (Directory v s t)
  then show ?case using new_tables_are_used by blast
next
  case (Translate s la pl rw)
  then show ?case using coherent_translation(2) by blast
next
  case (Invalidate s la)
  then show ?case using coherent_invlpg plain_paging_regs [OF invlpg_keeps(2)] by simp
next
  case (Elsewhere s t)
  then show ?case using coherent_elsewhere plain_paging_regs [of t s] by blast
qed

text \<open>
  C10. In a run that starts with a flush of the TLB or the load of a directory (with global pages disabled), and in which
  addresses are translated, pages invalidated and memory other than that of the page tables stored to, a translation
  through the TLB gives what a walk of the page tables gives: the same physical address or the same fault, the same
  accessed and dirty bits, the same memory. This holds in the legacy and the long mode of paging, and for every access
  but the fetch of code with no-execute pages enabled. A store to the tables has to be followed by a flush.
\<close>
theorem translation_is_the_walk:
  assumes "tlb_reach s" "may_run rw s"
  shows "res_without_tlb (translate_linear la pl rw s) = res_without_tlb (walk_linear la pl rw s)"
  using coherent_translation(1) [OF _ assms(2)] tlb_reach_coherent [OF assms(1)] by blast

text \<open>The tables of the small machine are in the frames 0x1000 and 0x2000, so its page at 0x3000 can be stored to.\<close>

lemma frame_or:
  assumes "c AND 0xfff = (0 :: u32)" "c \<le> 0xffffe000"
  shows "c \<le> c OR (x AND 0xfff) \<and> c OR (x AND 0xfff) < c + 0x1000"
proof -
  have "c AND (x AND 0xfff) = 0" by (simp only: and.left_commute [of c] assms(1)) simp
  then have "c OR (x AND 0xfff) = c + (x AND 0xfff)" using word_plus_and_or [of c "x AND 0xfff"] by simp
  moreover have "x AND 0xfff \<le> 0xfff" by (rule word_and_le1)
  ultimately show ?thesis using assms(2)
    by (simp add: word_le_nat_alt word_less_nat_alt unat_word_ariths)
qed

lemma present_byte:
  assumes "read_entry32 a s AND 1 \<noteq> 0"
  shows "odd (unat (ram s a))"
proof -
  let ?N = "unat (ram s (a + 1)) + 256 * (unat (ram s (a + 2)) + 256 * unat (ram s (a + 3)))"
  have "read_entry32 a s = word_of_nat (unat (ram s a) + 256 * ?N)"
    by (simp add: read_entry32_def access_read_physical_def phys_bytes_def bytes_word_def upt_rec del: of_nat_add of_nat_mult)
  moreover have "bit (read_entry32 a s) 0" using assms and_exp_eq_0_iff_not_bit [of "read_entry32 a s" 0] by simp
  ultimately have "bit (word_of_nat (unat (ram s a) + 256 * ?N) :: u32) 0" by simp
  then have "bit (unat (ram s a) + 256 * ?N) 0" by (simp only: bit_of_nat_iff)
  then have "odd (unat (ram s a) + 256 * ?N)" unfolding bit_0 .
  then show ?thesis by simp
qed

lemma small_tables:
  assumes "table_entry32 small_machine a"
  shows "0x1000 \<le> a \<and> a < 0x3000"
proof -
  have d: "legacy_pde la small_machine = 0x1000 OR (ucast (drop_bit 20 (la AND 0xffc00000)) AND 0xfff)" for la
    by (simp add: legacy_pde_def small_regs unsigned_or_eq unsigned_and_eq and.assoc)
  have pde: "0x1000 \<le> legacy_pde la small_machine" "legacy_pde la small_machine < 0x2000" for la
    unfolding d using frame_or [of "0x1000" "ucast (drop_bit 20 (la AND 0xffc00000))"] by simp_all
  have present: "legacy_pde la small_machine = 0x1000" if "read_entry32 (legacy_pde la small_machine) small_machine AND 1 \<noteq> 0" for la
  proof -
    let ?a = "legacy_pde la small_machine"
    have "ram small_machine = small_ram" by (simp add: small_machine_def)
    then have "odd (unat (small_ram ?a))" using present_byte [OF that] by simp
    then show ?thesis using pde [of la] by (auto simp: small_ram_def split: if_splits)
  qed
  have pte: "0x2000 \<le> legacy_pte la small_machine \<and> legacy_pte la small_machine < 0x3000"
    if "legacy_pde la small_machine = 0x1000" for la
  proof -
    have "legacy_pte la small_machine = 0x2000 OR (ucast (drop_bit 10 (la AND 0x3ff000)) AND 0xfff)"
      unfolding legacy_pte_def that small_entries by (simp add: unsigned_or_eq unsigned_and_eq and.assoc)
    then show ?thesis using frame_or [of "0x2000" "ucast (drop_bit 10 (la AND 0x3ff000))"] by simp
  qed
  obtain la where "a = legacy_pde la small_machine \<or> legacy_pde la small_machine = 0x1000 \<and> a = legacy_pte la small_machine"
    using assms present unfolding table_entry32_def Let_def by blast
  then show ?thesis using pde [of la] pte [of la] by (auto simp: word_le_nat_alt word_less_nat_alt)
qed

lemma translate_ext:
  assumes "plain_paging s"
  shows "tables_ext s (res_state (translate_linear la pl rw s))"
proof (cases "tlb_hit la pl rw s")
  case False
  show ?thesis
  proof (cases "page_walk la pl rw s")
    case (Inl e)
    then show ?thesis using False page_walk_fault [OF assms, of la pl rw "fst e" "snd e"] same_tables_ext(1)
      by (cases e) (simp add: translate_linear_cases res_state_def rbind_def)
  next
    case (Inr x)
    obtain f c m t where x: "x = ((f, c, m), t)" by (cases x) auto
    have "tables_ext t (tlb_fill la rw (f, c, m) t)" using tables_ext_cong [OF tlb_fill_same] tables_ext_refl by blast
    then have "tables_ext s (tlb_fill la rw (f, c, m) t)"
      using tables_ext_trans page_walk_again(1) [OF Inr [unfolded x] assms] by blast
    then show ?thesis using False Inr x by (simp add: translate_linear_cases res_state_def rbind_def)
  qed
qed (simp add: translate_linear_cases res_state_def)

text \<open>A write is translated, its page stored to, and a read of the same page translated.\<close>

definition stored_machine :: cpu where
  "stored_machine = (let s = res_state (translate_linear 0x1ffe 3 BX_WRITE (TLB_flush small_machine))
     in s\<lparr>ram := (ram s)(0x3ffe := 0x99)\<rparr>)"

lemma translation_is_the_walk_witness:
  "res_without_tlb (translate_linear 0x1ffe 3 BX_READ stored_machine) =
   res_without_tlb (walk_linear 0x1ffe 3 BX_READ stored_machine)"
proof (rule translation_is_the_walk)
  let ?f = "TLB_flush small_machine"
  let ?s = "res_state (translate_linear 0x1ffe 3 BX_WRITE ?f)"
  have p: "plain_paging ?f" using small_machine_ok(2) by (simp add: plain_paging_def TLB_flush_def long_mode_def)
  have r: "tlb_reach ?s" by (rule tlb_reach.Translate [OF tlb_reach.Flush [OF small_machine_ok(2)]])
  have f: "ad_ext read_entry32 4 small_machine ?f" "\<not> cr4_PAE ?f"
    by (simp_all add: ad_ext_def TLB_flush_def paging_regs_def read_entry32_def access_read_physical_def small_regs no_mark)
  then have e: "ad_ext read_entry32 4 small_machine ?s" "\<not> cr4_PAE ?s"
    using translate_ext [OF p, of "0x1ffe" 3 BX_WRITE] entries32.ext_trans [OF f(1)]
      regs_eq [OF ext_regs [OF translate_ext [OF p, of "0x1ffe" 3 BX_WRITE]]]
    by (simp_all add: tables_ext_def)
  have "table_entry32 ?s = table_entry32 small_machine"
    by (rule table_entry32_ext [OF e(1)]) (simp add: small_regs)
  then have "0x3ffe \<notin> table_memory ?s"
  proof -
    have "a + word_of_nat i \<noteq> 0x3ffe" if "table_entry32 small_machine a" "i < 4" for a i
    proof -
      have "unat (word_of_nat i :: u32) < 4" using that(2) by (simp add: unat_of_nat)
      then have "unat (a + word_of_nat i) < 0x3ffe"
        using small_tables [OF that(1)] by (simp add: word_le_nat_alt word_less_nat_alt unat_word_ariths)
      then show ?thesis by auto
    qed
    then show ?thesis using \<open>table_entry32 ?s = table_entry32 small_machine\<close> e(2)
      unfolding table_memory_def by fastforce
  qed
  then show "tlb_reach stored_machine"
    unfolding stored_machine_def Let_def
    by (intro tlb_reach.Elsewhere [OF r]) (auto simp: paging_regs_def)
  have "efer_NXE ?s = efer_NXE ?f" using regs_eq [OF ext_regs [OF translate_ext [OF p]]] by blast
  then show "may_run BX_READ stored_machine"
    by (simp add: may_run_def BX_READ_def BX_EXECUTE_def)
qed

end
