(* ===== verification/Ne2k_State.thy ===== *)
theory Ne2k_State
  imports Machine_Prelude
begin

text \<open>
  The state of the NE2000 network card (\<^verbatim>\<open>bx_ne2k_t\<close> in
  \<^verbatim>\<open>src/sim/bochs/iodev/ne2k.h\<close>): one record per hardware register that the source keeps as a
  struct of flags, the register file, the 32 KB packet memory, and the host side of the card. What
  the card asks of its environment, and every place where the source stops with a panic or leaves
  an array, is appended to the event list \<open>out\<close>. An array is a function on indices; what it holds
  outside its bounds stands for whatever lies beside the array, and an access there is recorded.
\<close>

unbundle bit_operations_syntax

definition MEMSIZ :: nat where "MEMSIZ = 32 * 1024"
definition MEMSTART :: nat where "MEMSTART = 16 * 1024"
definition MEMEND :: nat where "MEMEND = MEMSTART + MEMSIZ"

lemmas mem_consts = MEMSIZ_def MEMSTART_def MEMEND_def

datatype ne2k_event =
    Pic_Raise nat                   \<comment> \<open>\<open>DEV_pic_raise_irq\<close>\<close>
  | Pic_Lower nat                   \<comment> \<open>\<open>DEV_pic_lower_irq\<close>\<close>
  | Pci_Set_Irq u8 u8 bool          \<comment> \<open>\<open>DEV_pci_set_irq(devfunc, line, level)\<close>\<close>
  | Send_Pkt bytes                  \<comment> \<open>\<open>ethdev->sendpkt\<close>\<close>
  | Start_Tx_Timer nat              \<comment> \<open>\<open>activate_timer\<close>, in microseconds\<close>
  | Set_Base_Io u32 u32             \<comment> \<open>port handlers moved from the old base to the new one\<close>
  | Panic string                    \<comment> \<open>\<open>BX_PANIC\<close>: the code goes on if the user lets it\<close>
  | Bad_Read int nat                \<comment> \<open>a read outside an array: index, length\<close>
  | Bad_Copy int int int            \<comment> \<open>a \<open>memcpy\<close> outside its arrays: target, source, length\<close>

record ne2k_CR =
  CR_stop :: bool
  CR_start :: bool
  CR_tx_packet :: bool
  CR_rdma_cmd :: u8
  CR_pgsel :: u8

record ne2k_ISR =
  ISR_pkt_rx :: bool
  ISR_pkt_tx :: bool
  ISR_rx_err :: bool
  ISR_tx_err :: bool
  ISR_overwrite :: bool
  ISR_cnt_oflow :: bool
  ISR_rdma_done :: bool
  ISR_reset :: bool

record ne2k_IMR =
  IMR_rx_inte :: bool
  IMR_tx_inte :: bool
  IMR_rxerr_inte :: bool
  IMR_txerr_inte :: bool
  IMR_overw_inte :: bool
  IMR_cofl_inte :: bool
  IMR_rdma_inte :: bool

record ne2k_DCR =
  DCR_wdsize :: bool
  DCR_endian :: bool
  DCR_longaddr :: bool
  DCR_loop :: bool
  DCR_auto_rx :: bool
  DCR_fifo_size :: u8

record ne2k_TCR =
  TCR_crc_disable :: bool
  TCR_loop_cntl :: u8
  TCR_ext_stoptx :: bool
  TCR_coll_prio :: bool

record ne2k_TSR =
  TSR_tx_ok :: bool
  TSR_collided :: bool
  TSR_aborted :: bool
  TSR_no_carrier :: bool
  TSR_fifo_ur :: bool
  TSR_cd_hbeat :: bool
  TSR_ow_coll :: bool

record ne2k_RCR =
  RCR_errors_ok :: bool
  RCR_runts_ok :: bool
  RCR_broadcast :: bool
  RCR_multicast :: bool
  RCR_promisc :: bool
  RCR_monitor :: bool

record ne2k_RSR =
  RSR_rx_ok :: bool
  RSR_bad_crc :: bool
  RSR_bad_falign :: bool
  RSR_fifo_or :: bool
  RSR_rx_missed :: bool
  RSR_rx_mbit :: bool
  RSR_rx_disabled :: bool
  RSR_deferred :: bool

record ne2k =
  CR :: ne2k_CR
  ISR :: ne2k_ISR
  IMR :: ne2k_IMR
  DCR :: ne2k_DCR
  TCR :: ne2k_TCR
  TSR :: ne2k_TSR
  RCR :: ne2k_RCR
  RSR :: ne2k_RSR
  local_dma :: u16
  page_start :: u8
  page_stop :: u8
  bound_ptr :: u8
  tx_page_start :: u8
  num_coll :: u8
  tx_bytes :: u16
  fifo :: u8
  remote_dma :: u16
  remote_start :: u16
  remote_bytes :: u16
  tallycnt_0 :: u8
  tallycnt_1 :: u8
  tallycnt_2 :: u8
  physaddr :: bytes
  curr_page :: u8
  mchash :: bytes
  rempkt_ptr :: u8
  localpkt_ptr :: u8
  address_cnt :: u16
  macaddr :: "nat \<Rightarrow> u8"
  mem :: "nat \<Rightarrow> u8"
  base_address :: u32
  base_irq :: nat
  tx_timer_active :: bool
  pci_enabled :: bool
  devfunc :: u8
  pci_conf :: "nat \<Rightarrow> u8"
  out :: "ne2k_event list"

section \<open>Events and the interrupt line\<close>

definition emit :: "ne2k_event \<Rightarrow> ne2k \<Rightarrow> ne2k" where
  "emit e s = s\<lparr>out := out s @ [e]\<rparr>"

definition set_irq_level :: "bool \<Rightarrow> ne2k \<Rightarrow> ne2k" where
  "set_irq_level level s =
     (if pci_enabled s then emit (Pci_Set_Irq (devfunc s) (pci_conf s 0x3d) level) s
      else if level then emit (Pic_Raise (base_irq s)) s
      else emit (Pic_Lower (base_irq s)) s)"

text \<open>The level the environment has been told last, \<open>start\<close> before any event.\<close>

fun line_after :: "bool \<Rightarrow> ne2k_event list \<Rightarrow> bool" where
  "line_after start [] = start"
| "line_after start (Pic_Raise _ # es) = line_after True es"
| "line_after start (Pic_Lower _ # es) = line_after False es"
| "line_after start (Pci_Set_Irq _ _ l # es) = line_after l es"
| "line_after start (_ # es) = line_after start es"

definition irq_line :: "ne2k \<Rightarrow> bool" where
  "irq_line s = line_after False (out s)"

lemma line_after_append: "line_after b (xs @ ys) = line_after (line_after b xs) ys"
  by (induction b xs rule: line_after.induct) simp_all

lemma irq_line_set [simp]: "irq_line (set_irq_level l s) = l"
  by (simp add: irq_line_def set_irq_level_def emit_def line_after_append)

lemma irq_line_emit [simp]:
  "irq_line (emit (Panic p) s) = irq_line s"
  "irq_line (emit (Send_Pkt bs) s) = irq_line s"
  "irq_line (emit (Start_Tx_Timer n) s) = irq_line s"
  "irq_line (emit (Set_Base_Io a b) s) = irq_line s"
  "irq_line (emit (Bad_Read i m) s) = irq_line s"
  "irq_line (emit (Bad_Copy d f k) s) = irq_line s"
  by (simp_all add: irq_line_def emit_def line_after_append)

text \<open>The registers as bytes, as the source packs them.\<close>

definition flag :: "nat \<Rightarrow> bool \<Rightarrow> u32" where
  "flag k b = push_bit k (of_bool b)"

definition isr_pending :: "ne2k_ISR \<Rightarrow> u32" where
  "isr_pending r =
     flag 6 (ISR_rdma_done r) OR flag 5 (ISR_cnt_oflow r) OR flag 4 (ISR_overwrite r) OR
     flag 3 (ISR_tx_err r) OR flag 2 (ISR_rx_err r) OR flag 1 (ISR_pkt_tx r) OR flag 0 (ISR_pkt_rx r)"

definition imr_byte :: "ne2k_IMR \<Rightarrow> u32" where
  "imr_byte r =
     flag 6 (IMR_rdma_inte r) OR flag 5 (IMR_cofl_inte r) OR flag 4 (IMR_overw_inte r) OR
     flag 3 (IMR_txerr_inte r) OR flag 2 (IMR_rxerr_inte r) OR flag 1 (IMR_tx_inte r) OR
     flag 0 (IMR_rx_inte r)"

lemma bit_flag [simp]: "bit (flag k b) n \<longleftrightarrow> b \<and> n = k \<and> n < 32"
  by (auto simp: flag_def bit_simps)

section \<open>The packet memory\<close>

text \<open>
  \<open>copy_in d buf f n\<close> is \<open>memcpy(&s.mem[d], buf + f, n)\<close>; a copy that leaves the packet memory or
  the source buffer is recorded and does not take place.
\<close>

definition copy_in :: "int \<Rightarrow> bytes \<Rightarrow> int \<Rightarrow> int \<Rightarrow> ne2k \<Rightarrow> ne2k" where
  "copy_in d buf f n s =
     (if 0 \<le> n \<and> 0 \<le> d \<and> d + n \<le> int MEMSIZ \<and> 0 \<le> f \<and> f + n \<le> int (length buf)
      then s\<lparr>mem := blit (nat d) (take (nat n) (drop (nat f) buf)) (mem s)\<rparr>
      else emit (Bad_Copy d f n) s)"

text \<open>
  A little-endian read of 1, 2 or 4 bytes at an index of an array of \<open>size\<close> bytes; other lengths
  read one byte, as the source's tests on \<open>io_len\<close> do.
\<close>

definition fetch :: "(nat \<Rightarrow> u8) \<Rightarrow> nat \<Rightarrow> nat \<Rightarrow> nat \<Rightarrow> ne2k \<Rightarrow> u32 \<times> ne2k" where
  "fetch arr len i io_len s =
     (let n = (if io_len = 4 then 4 else if io_len = 2 then 2 else 1) in
      (word_of_nat (le_nat (block arr i n)),
       if i + n \<le> len then s else emit (Bad_Read (int i) n) s))"

definition chipmem_read :: "nat \<Rightarrow> nat \<Rightarrow> ne2k \<Rightarrow> u32 \<times> ne2k" where
  "chipmem_read address io_len s =
     (let s1 = (if io_len = 2 \<and> odd address then emit (Panic ''unaligned chipmem word read'') s else s) in
      if address \<le> 31 then fetch (macaddr s) 32 address io_len s1
      else if MEMSTART \<le> address \<and> address < MEMEND
      then fetch (mem s) MEMSIZ (address - MEMSTART) io_len s1
      else (0xff, s1))"

definition chipmem_write :: "nat \<Rightarrow> u32 \<Rightarrow> nat \<Rightarrow> ne2k \<Rightarrow> ne2k" where
  "chipmem_write address v io_len s =
     (let s1 = (if io_len = 2 \<and> odd address then emit (Panic ''unaligned chipmem word write'') s else s);
          n = (if io_len = 4 then 4 else if io_len = 2 then 2 else 1) in
      if MEMSTART \<le> address \<and> address < MEMEND
      then copy_in (int address - int MEMSTART) (le_bytes n (unat v)) 0 (int n) s1
      else s1)"

definition mem_blit :: "nat \<Rightarrow> bytes \<Rightarrow> ne2k \<Rightarrow> ne2k" where
  "mem_blit base bs s = s\<lparr>mem := blit base bs (mem s)\<rparr>"

definition mem_limit :: "ne2k \<Rightarrow> nat" where
  "mem_limit s = MEMSIZ"

interpretation chip_mem: flat_memory mem mem_blit mem_limit
  by unfold_locales (simp_all add: mem_blit_def mem_limit_def)

lemma copy_in_mem_blit:
  "d + n \<le> MEMSIZ \<Longrightarrow> f + n \<le> length buf \<Longrightarrow>
   copy_in (int d) buf (int f) (int n) s = mem_blit d (take n (drop f buf)) s"
  by (simp add: copy_in_def mem_blit_def flip: of_nat_add)

end
