(* ===== verification/Ne2k.thy ===== *)
theory Ne2k
  imports Ne2k_State
begin

text \<open>
  The operations of the NE2000 card (\<^verbatim>\<open>src/sim/bochs/iodev/ne2k.cc\<close>): reset, the command
  register, the data port with its remote DMA, the register pages, the transmit timer, the receive
  ring with its address filter, and the PCI configuration space. Each function of the source is one
  definition, built from a definition per case of its \<open>switch\<close> statements.
\<close>

unbundle bit_operations_syntax

section \<open>Reset\<close>

datatype reset_type = RESET_SOFTWARE | RESET_HARDWARE

definition isr_zero :: ne2k_ISR where
  "isr_zero = \<lparr>ISR_pkt_rx = False, ISR_pkt_tx = False, ISR_rx_err = False, ISR_tx_err = False,
               ISR_overwrite = False, ISR_cnt_oflow = False, ISR_rdma_done = False, ISR_reset = False\<rparr>"

definition ne2k_power_up :: "ne2k \<Rightarrow> ne2k" where
  "ne2k_power_up s = s\<lparr>
     CR := \<lparr>CR_stop = True, CR_start = False, CR_tx_packet = False, CR_rdma_cmd = 4, CR_pgsel = 0\<rparr>,
     IMR := \<lparr>IMR_rx_inte = False, IMR_tx_inte = False, IMR_rxerr_inte = False, IMR_txerr_inte = False,
             IMR_overw_inte = False, IMR_cofl_inte = False, IMR_rdma_inte = False\<rparr>,
     DCR := \<lparr>DCR_wdsize = False, DCR_endian = False, DCR_longaddr = True, DCR_loop = False,
             DCR_auto_rx = False, DCR_fifo_size = 0\<rparr>,
     TCR := \<lparr>TCR_crc_disable = False, TCR_loop_cntl = 0, TCR_ext_stoptx = False, TCR_coll_prio = False\<rparr>,
     TSR := \<lparr>TSR_tx_ok = False, TSR_collided = False, TSR_aborted = False, TSR_no_carrier = False,
             TSR_fifo_ur = False, TSR_cd_hbeat = False, TSR_ow_coll = False\<rparr>,
     RCR := \<lparr>RCR_errors_ok = False, RCR_runts_ok = False, RCR_broadcast = False, RCR_multicast = False,
             RCR_promisc = False, RCR_monitor = False\<rparr>,
     RSR := \<lparr>RSR_rx_ok = False, RSR_bad_crc = False, RSR_bad_falign = False, RSR_fifo_or = False,
             RSR_rx_missed = False, RSR_rx_mbit = False, RSR_rx_disabled = False, RSR_deferred = False\<rparr>,
     local_dma := 0, page_start := 0, page_stop := 0, bound_ptr := 0, tx_page_start := 0,
     num_coll := 0, tx_bytes := 0, fifo := 0, remote_dma := 0, remote_start := 0, remote_bytes := 0,
     tallycnt_0 := 0, tallycnt_1 := 0, tallycnt_2 := 0,
     physaddr := replicate 6 0, mchash := replicate 8 0, curr_page := 0,
     rempkt_ptr := 0, localpkt_ptr := 0, address_cnt := 0, mem := (\<lambda>_. 0)\<rparr>"

definition ne2k_reset :: "reset_type \<Rightarrow> ne2k \<Rightarrow> ne2k" where
  "ne2k_reset type s =
     (let s1 = (if type = RESET_HARDWARE then set_irq_level False (ne2k_power_up s) else s)
      in s1\<lparr>ISR := isr_zero\<lparr>ISR_reset := True\<rparr>\<rparr>)"

section \<open>Remote DMA and the data port\<close>

definition finish_rdma :: "ne2k \<Rightarrow> ne2k" where
  "finish_rdma s =
     (if remote_bytes s = 0
      then let s1 = s\<lparr>ISR := (ISR s)\<lparr>ISR_rdma_done := True\<rparr>\<rparr> in
           if IMR_rdma_inte (IMR s1) then set_irq_level True s1 else s1
      else s)"

definition dma_width :: "nat \<Rightarrow> ne2k \<Rightarrow> u16" where
  "dma_width io_len s = (if io_len = 4 then 4 else of_bool (DCR_wdsize (DCR s)) + 1)"

definition bump_remote_dma :: "nat \<Rightarrow> ne2k \<Rightarrow> ne2k" where
  "bump_remote_dma io_len s =
     (let a = remote_dma s + dma_width io_len s in
      s\<lparr>remote_dma := (if a = push_bit 8 (ucast (page_stop s)) then push_bit 8 (ucast (page_start s)) else a)\<rparr>)"

definition asic_read :: "u32 \<Rightarrow> nat \<Rightarrow> ne2k \<Rightarrow> u32 \<times> ne2k" where
  "asic_read offset io_len s =
     (if offset = 0x0 then
        let (retval, s1) = chipmem_read (unat (remote_dma s)) io_len s;
            s2 = bump_remote_dma io_len s1;
            s3 = s2\<lparr>remote_bytes :=
                      (if of_bool (DCR_wdsize (DCR s2)) < remote_bytes s2
                       then remote_bytes s2 - dma_width io_len s2 else 0)\<rparr>
        in (retval, finish_rdma s3)
      else if offset = 0xf then (0, ne2k_reset RESET_SOFTWARE s)
      else (0, s))"

definition asic_write :: "u32 \<Rightarrow> u32 \<Rightarrow> nat \<Rightarrow> ne2k \<Rightarrow> ne2k" where
  "asic_write offset v io_len s =
     (if offset = 0x0 then
        if 1 < io_len \<and> \<not> DCR_wdsize (DCR s) then emit (Panic ''dma write length on byte mode operation'') s
        else
          let s1 = chipmem_write (unat (remote_dma s)) v io_len s;
              s2 = bump_remote_dma io_len s1;
              n = remote_bytes s2 - dma_width io_len s2;
              s3 = s2\<lparr>remote_bytes := (if MEMSIZ < unat n then 0 else n)\<rparr>
          in finish_rdma s3
      else s)"

section \<open>Page 0\<close>

definition cr_byte :: "ne2k_CR \<Rightarrow> u32" where
  "cr_byte r = push_bit 6 (ucast (CR_pgsel r) AND 0x03) OR push_bit 3 (ucast (CR_rdma_cmd r) AND 0x07) OR
               flag 2 (CR_tx_packet r) OR flag 1 (CR_start r) OR flag 0 (CR_stop r)"

definition read_cr :: "ne2k \<Rightarrow> u32" where
  "read_cr s = cr_byte (CR s)"

definition isr_byte :: "ne2k_ISR \<Rightarrow> u32" where
  "isr_byte r = flag 7 (ISR_reset r) OR isr_pending r"

definition tsr_byte :: "ne2k_TSR \<Rightarrow> u32" where
  "tsr_byte r = flag 7 (TSR_ow_coll r) OR flag 6 (TSR_cd_hbeat r) OR flag 5 (TSR_fifo_ur r) OR
                flag 4 (TSR_no_carrier r) OR flag 3 (TSR_aborted r) OR flag 2 (TSR_collided r) OR
                flag 0 (TSR_tx_ok r)"

definition rsr_byte :: "ne2k_RSR \<Rightarrow> u32" where
  "rsr_byte r = flag 7 (RSR_deferred r) OR flag 6 (RSR_rx_disabled r) OR flag 5 (RSR_rx_mbit r) OR
                flag 4 (RSR_rx_missed r) OR flag 3 (RSR_fifo_or r) OR flag 2 (RSR_bad_falign r) OR
                flag 1 (RSR_bad_crc r) OR flag 0 (RSR_rx_ok r)"

definition page0_read :: "u32 \<Rightarrow> nat \<Rightarrow> ne2k \<Rightarrow> u32 \<times> ne2k" where
  "page0_read offset io_len s =
     (if 1 < io_len then (0, s)
      else if offset = 0x1 then (ucast (local_dma s AND 0xff), s)
      else if offset = 0x2 then (ucast (drop_bit 8 (local_dma s)), s)
      else if offset = 0x3 then (ucast (bound_ptr s), s)
      else if offset = 0x4 then (tsr_byte (TSR s), s)
      else if offset = 0x5 then (ucast (num_coll s), s)
      else if offset = 0x6 then (ucast (fifo s), s)
      else if offset = 0x7 then (isr_byte (ISR s), s)
      else if offset = 0x8 then (ucast (remote_dma s AND 0xff), s)
      else if offset = 0x9 then (ucast (drop_bit 8 (remote_dma s)), s)
      else if offset = 0xa then (if pci_enabled s then 0x50 else 0xff, s)
      else if offset = 0xb then (if pci_enabled s then 0x43 else 0xff, s)
      else if offset = 0xc then (rsr_byte (RSR s), s)
      else if offset = 0xd then (ucast (tallycnt_0 s), s)
      else if offset = 0xe then (ucast (tallycnt_1 s), s)
      else if offset = 0xf then (ucast (tallycnt_2 s), s)
      else (0, emit (Panic ''page 0 register out of range'') s))"

text \<open>Re-inserting the low or the high byte of a 16 bit register.\<close>

definition set_lo :: "u16 \<Rightarrow> u32 \<Rightarrow> u16" where
  "set_lo w v = (w AND 0xff00) OR ucast (v AND 0xff)"

definition set_hi :: "u16 \<Rightarrow> u32 \<Rightarrow> u16" where
  "set_hi w v = (w AND 0x00ff) OR ucast (push_bit 8 (v AND 0xff))"

definition isr_clear :: "u32 \<Rightarrow> ne2k_ISR \<Rightarrow> ne2k_ISR" where
  "isr_clear v r = r\<lparr>
     ISR_pkt_rx := (ISR_pkt_rx r \<and> \<not> bit v 0), ISR_pkt_tx := (ISR_pkt_tx r \<and> \<not> bit v 1),
     ISR_rx_err := (ISR_rx_err r \<and> \<not> bit v 2), ISR_tx_err := (ISR_tx_err r \<and> \<not> bit v 3),
     ISR_overwrite := (ISR_overwrite r \<and> \<not> bit v 4), ISR_cnt_oflow := (ISR_cnt_oflow r \<and> \<not> bit v 5),
     ISR_rdma_done := (ISR_rdma_done r \<and> \<not> bit v 6)\<rparr>"

definition isr_write :: "u32 \<Rightarrow> ne2k \<Rightarrow> ne2k" where
  "isr_write v s =
     (let s1 = s\<lparr>ISR := isr_clear v (ISR s)\<rparr> in
      if isr_pending (ISR s1) AND imr_byte (IMR s1) = 0 then set_irq_level False s1 else s1)"

definition rcr_of :: "u32 \<Rightarrow> ne2k_RCR" where
  "rcr_of v = \<lparr>RCR_errors_ok = bit v 0, RCR_runts_ok = bit v 1, RCR_broadcast = bit v 2,
               RCR_multicast = bit v 3, RCR_promisc = bit v 4, RCR_monitor = bit v 5\<rparr>"

definition tcr_write :: "u32 \<Rightarrow> ne2k \<Rightarrow> ne2k" where
  "tcr_write v s =
     (let s1 = s\<lparr>TCR := (TCR s)\<lparr>TCR_loop_cntl :=
                   (if v AND 0x06 \<noteq> 0 then ucast (drop_bit 1 (v AND 0x6)) else 0)\<rparr>\<rparr>;
          s2 = (if bit v 0 then emit (Panic ''TCR write, inhibit-CRC not supported'') s1 else s1);
          s3 = (if bit v 3 then emit (Panic ''TCR write, auto transmit disable not supported'') s2 else s2)
      in s3\<lparr>TCR := (TCR s3)\<lparr>TCR_coll_prio := bit v 3\<rparr>\<rparr>)"

definition dcr_of :: "u32 \<Rightarrow> ne2k_DCR" where
  "dcr_of v = \<lparr>DCR_wdsize = bit v 0, DCR_endian = bit v 1, DCR_longaddr = bit v 2, DCR_loop = bit v 3,
               DCR_auto_rx = bit v 4, DCR_fifo_size = ucast (drop_bit 5 (v AND 0x50))\<rparr>"

definition imr_of :: "u32 \<Rightarrow> ne2k_IMR" where
  "imr_of v = \<lparr>IMR_rx_inte = bit v 0, IMR_tx_inte = bit v 1, IMR_rxerr_inte = bit v 2,
               IMR_txerr_inte = bit v 3, IMR_overw_inte = bit v 4, IMR_cofl_inte = bit v 5,
               IMR_rdma_inte = bit v 6\<rparr>"

definition imr_write :: "u32 \<Rightarrow> ne2k \<Rightarrow> ne2k" where
  "imr_write v s =
     (let s1 = s\<lparr>IMR := imr_of v\<rparr> in
      set_irq_level ((v AND isr_pending (ISR s1)) AND 0x7f \<noteq> 0) s1)"

definition page0_write1 :: "u32 \<Rightarrow> u32 \<Rightarrow> ne2k \<Rightarrow> ne2k" where
  "page0_write1 offset v s =
     (if offset = 0x1 then s\<lparr>page_start := ucast v\<rparr>
      else if offset = 0x2 then s\<lparr>page_stop := ucast v\<rparr>
      else if offset = 0x3 then s\<lparr>bound_ptr := ucast v\<rparr>
      else if offset = 0x4 then s\<lparr>tx_page_start := ucast v\<rparr>
      else if offset = 0x5 then s\<lparr>tx_bytes := set_lo (tx_bytes s) v\<rparr>
      else if offset = 0x6 then s\<lparr>tx_bytes := set_hi (tx_bytes s) v\<rparr>
      else if offset = 0x7 then isr_write (v AND 0x7f) s
      else if offset = 0x8 then
        s\<lparr>remote_start := set_lo (remote_start s) v, remote_dma := set_lo (remote_start s) v\<rparr>
      else if offset = 0x9 then
        s\<lparr>remote_start := set_hi (remote_start s) v, remote_dma := set_hi (remote_start s) v\<rparr>
      else if offset = 0xa then s\<lparr>remote_bytes := set_lo (remote_bytes s) v\<rparr>
      else if offset = 0xb then s\<lparr>remote_bytes := set_hi (remote_bytes s) v\<rparr>
      else if offset = 0xc then s\<lparr>RCR := rcr_of v\<rparr>
      else if offset = 0xd then tcr_write v s
      else if offset = 0xe then s\<lparr>DCR := dcr_of v\<rparr>
      else if offset = 0xf then imr_write v s
      else emit (Panic ''page 0 write, bad register'') s)"

text \<open>A word write is two byte writes.\<close>

definition page0_write :: "u32 \<Rightarrow> u32 \<Rightarrow> nat \<Rightarrow> ne2k \<Rightarrow> ne2k" where
  "page0_write offset v io_len s =
     (if io_len = 2
      then let s1 = page0_write1 offset (v AND 0xff) s in
           if offset < 0x0f then page0_write1 (offset + 1) (drop_bit 8 v AND 0xff) s1 else s1
      else page0_write1 offset v s)"

section \<open>Pages 1 to 3\<close>

definition page1_read :: "u32 \<Rightarrow> nat \<Rightarrow> ne2k \<Rightarrow> u32 \<times> ne2k" where
  "page1_read offset io_len s =
     (let s1 = (if 1 < io_len then emit (Panic ''bad length! page 1 read'') s else s) in
      if 0x1 \<le> offset \<and> offset \<le> 0x6 then (ucast (physaddr s1 ! (unat offset - 1)), s1)
      else if offset = 0x7 then (ucast (curr_page s1), s1)
      else if 0x8 \<le> offset \<and> offset \<le> 0xf then (ucast (mchash s1 ! (unat offset - 8)), s1)
      else (0, emit (Panic ''page 1 read register out of range'') s1))"

definition page1_write :: "u32 \<Rightarrow> u32 \<Rightarrow> nat \<Rightarrow> ne2k \<Rightarrow> ne2k" where
  "page1_write offset v io_len s =
     (if 0x1 \<le> offset \<and> offset \<le> 0x6
      then s\<lparr>physaddr := (physaddr s)[unat offset - 1 := ucast v]\<rparr>
      else if offset = 0x7 then s\<lparr>curr_page := ucast v\<rparr>
      else if 0x8 \<le> offset \<and> offset \<le> 0xf
      then s\<lparr>mchash := (mchash s)[unat offset - 8 := ucast v]\<rparr>
      else emit (Panic ''page 1 write register out of range'') s)"

definition rcr_byte :: "ne2k_RCR \<Rightarrow> u32" where
  "rcr_byte r = flag 5 (RCR_monitor r) OR flag 4 (RCR_promisc r) OR flag 3 (RCR_multicast r) OR
                flag 2 (RCR_broadcast r) OR flag 1 (RCR_runts_ok r) OR flag 0 (RCR_errors_ok r)"

definition tcr_byte :: "ne2k_TCR \<Rightarrow> u32" where
  "tcr_byte r = flag 4 (TCR_coll_prio r) OR flag 3 (TCR_ext_stoptx r) OR
                push_bit 1 (ucast (TCR_loop_cntl r) AND 0x3) OR flag 0 (TCR_crc_disable r)"

definition dcr_byte :: "ne2k_DCR \<Rightarrow> u32" where
  "dcr_byte r = push_bit 5 (ucast (DCR_fifo_size r) AND 0x3) OR flag 4 (DCR_auto_rx r) OR
                flag 3 (DCR_loop r) OR flag 2 (DCR_longaddr r) OR flag 1 (DCR_endian r) OR
                flag 0 (DCR_wdsize r)"

definition page2_read :: "u32 \<Rightarrow> nat \<Rightarrow> ne2k \<Rightarrow> u32 \<times> ne2k" where
  "page2_read offset io_len s =
     (let s1 = (if 1 < io_len then emit (Panic ''bad length!  page 2 read'') s else s) in
      if offset = 0x1 then (ucast (page_start s1), s1)
      else if offset = 0x2 then (ucast (page_stop s1), s1)
      else if offset = 0x3 then (ucast (rempkt_ptr s1), s1)
      else if offset = 0x4 then (ucast (tx_page_start s1), s1)
      else if offset = 0x5 then (ucast (localpkt_ptr s1), s1)
      else if offset = 0x6 then (ucast (drop_bit 8 (address_cnt s1)), s1)
      else if offset = 0x7 then (ucast (address_cnt s1 AND 0xff), s1)
      else if 0x8 \<le> offset \<and> offset \<le> 0xb then (0xff, s1)
      else if offset = 0xc then (rcr_byte (RCR s1), s1)
      else if offset = 0xd then (tcr_byte (TCR s1), s1)
      else if offset = 0xe then (dcr_byte (DCR s1), s1)
      else if offset = 0xf then (imr_byte (IMR s1), s1)
      else (0, emit (Panic ''page 2 register out of range'') s1))"

definition page2_write :: "u32 \<Rightarrow> u32 \<Rightarrow> nat \<Rightarrow> ne2k \<Rightarrow> ne2k" where
  "page2_write offset v io_len s =
     (if offset = 0x1 then s\<lparr>local_dma := set_lo (local_dma s) v\<rparr>
      else if offset = 0x2 then s\<lparr>local_dma := set_hi (local_dma s) v\<rparr>
      else if offset = 0x3 then s\<lparr>rempkt_ptr := ucast v\<rparr>
      else if offset = 0x4 then emit (Panic ''page 2 write to reserved register 0x04'') s
      else if offset = 0x5 then s\<lparr>localpkt_ptr := ucast v\<rparr>
      else if offset = 0x6 then s\<lparr>address_cnt := set_hi (address_cnt s) v\<rparr>
      else if offset = 0x7 then s\<lparr>address_cnt := set_lo (address_cnt s) v\<rparr>
      else if 0x8 \<le> offset \<and> offset \<le> 0xf then emit (Panic ''page 2 write to reserved register'') s
      else emit (Panic ''page 2 write, illegal register'') s)"

definition page3_read :: "u32 \<Rightarrow> nat \<Rightarrow> ne2k \<Rightarrow> u32 \<times> ne2k" where
  "page3_read offset io_len s =
     (if pci_enabled s
      then (if offset = 0x3 then 0 else if offset = 0x5 then 0x40 else if offset = 0x6 then 0x40 else 0, s)
      else (0, s))"

definition page3_write :: "u32 \<Rightarrow> u32 \<Rightarrow> nat \<Rightarrow> ne2k \<Rightarrow> ne2k" where
  "page3_write offset v io_len s = s"

end
