(* ===== verification/Ne2k_Ring.thy ===== *)
theory Ne2k_Ring
  imports Ne2k
begin

text \<open>
  Reception: the multicast hash, the address filter and the receive ring of \<open>rx_frame\<close>, with the
  proof that the ring is a queue of frames.
\<close>

unbundle bit_operations_syntax

section \<open>The address filter\<close>

definition POLYNOMIAL :: u32 where "POLYNOMIAL = 0x04c11db6"

definition crc_step :: "u8 \<Rightarrow> nat \<Rightarrow> u32 \<Rightarrow> u32" where
  "crc_step b j crc =
     (let carry = (bit crc 31 \<noteq> bit b j);
          crc1 = push_bit 1 crc
      in if carry then (crc1 XOR POLYNOMIAL) OR 1 else crc1)"

definition crc_byte :: "u8 \<Rightarrow> u32 \<Rightarrow> u32" where
  "crc_byte b crc = fold (crc_step b) [0..<8] crc"

definition mcast_index :: "bytes \<Rightarrow> u32" where
  "mcast_index dst = drop_bit 26 (fold crc_byte (take 6 dst) 0xffffffff)"

definition broadcast_macaddr :: bytes where
  "broadcast_macaddr = [0xff, 0xff, 0xff, 0xff, 0xff, 0xff]"

text \<open>The low bit of the first address byte marks a group address.\<close>

definition is_group :: "bytes \<Rightarrow> bool" where
  "is_group buf = bit (hd buf) 0"

definition rx_accept :: "bytes \<Rightarrow> ne2k \<Rightarrow> bool" where
  "rx_accept buf s =
     (if RCR_promisc (RCR s) then True
      else if take 6 buf = broadcast_macaddr then RCR_broadcast (RCR s)
      else if is_group buf then
        RCR_multicast (RCR s) \<and>
        (let idx = mcast_index buf in bit (mchash s ! unat (drop_bit 3 idx)) (unat (idx AND 0x7)))
      else take 6 buf = physaddr s)"

section \<open>The receive ring\<close>

definition rx_pages :: "nat \<Rightarrow> int" where
  "rx_pages io_len = int ((io_len + 4 + 4 + 255) mod 2 ^ 32 div 256)"

definition rx_avail :: "ne2k \<Rightarrow> int" where
  "rx_avail s =
     (if curr_page s < bound_ptr s then uint (bound_ptr s) - uint (curr_page s)
      else (uint (page_stop s) - uint (page_start s)) - (uint (curr_page s) - uint (bound_ptr s)))"

definition rx_next :: "int \<Rightarrow> ne2k \<Rightarrow> int" where
  "rx_next pages s =
     (let next = uint (curr_page s) + pages in
      if uint (page_stop s) \<le> next then next - (uint (page_stop s) - uint (page_start s)) else next)"

definition rx_header :: "bytes \<Rightarrow> nat \<Rightarrow> int \<Rightarrow> bytes" where
  "rx_header buf io_len next =
     [if is_group buf then 0x21 else 0x01, word_of_int next,
      word_of_nat (io_len + 4), word_of_nat ((io_len + 4) mod 2 ^ 32 div 256)]"

definition rx_ignores :: "ne2k \<Rightarrow> bool" where
  "rx_ignores s = (CR_stop (CR s) \<or> page_start s = 0 \<or> (\<not> DCR_loop (DCR s) \<and> TCR_loop_cntl (TCR s) \<noteq> 0))"

text \<open>
  The copy into the packet memory. \<open>buf\<close> is the memory from the frame pointer on: at least the
  \<open>io_len\<close> bytes of the frame, and what follows it, since the wrapping branch copies 4 bytes more.
\<close>

definition rx_store :: "bytes \<Rightarrow> nat \<Rightarrow> int \<Rightarrow> ne2k \<Rightarrow> ne2k" where
  "rx_store buf io_len pages s =
     (let cur = uint (curr_page s);
          next = rx_next pages s;
          pkthdr = rx_header buf io_len next;
          startptr = cur * 256 - int MEMSTART;
          s1 = copy_in startptr pkthdr 0 4 s
      in if cur < next \<or> cur + pages = uint (page_stop s) then
           (copy_in (startptr + 4) buf 0 (int io_len) s1)\<lparr>curr_page := word_of_int next\<rparr>
         else
           let endbytes = (uint (page_stop s) - cur) * 256;
               s2 = copy_in (startptr + 4) buf 0 (endbytes - 4) s1;
               s3 = copy_in (uint (page_start s) * 256 - int MEMSTART) buf (endbytes - 4)
                      (int io_len - endbytes + 8) s2
           in s3\<lparr>curr_page := word_of_int next\<rparr>)"

definition rx_signal :: "bytes \<Rightarrow> ne2k \<Rightarrow> ne2k" where
  "rx_signal buf s =
     (let s1 = s\<lparr>RSR := (RSR s)\<lparr>RSR_rx_ok := True, RSR_rx_mbit := is_group buf\<rparr>,
                 ISR := (ISR s)\<lparr>ISR_pkt_rx := True\<rparr>\<rparr>
      in if IMR_rx_inte (IMR s1) then set_irq_level True s1 else s1)"

definition rx_frame :: "bytes \<Rightarrow> nat \<Rightarrow> ne2k \<Rightarrow> ne2k" where
  "rx_frame buf io_len s =
     (let pages = rx_pages io_len in
      if rx_ignores s then s
      else if rx_avail s < pages \<or> rx_avail s = pages then s
      else if io_len < 60 \<and> \<not> RCR_runts_ok (RCR s) then s
      else if length buf < (if RCR_promisc (RCR s) then 1 else 6) then emit (Bad_Read 0 6) s
      else if \<not> rx_accept buf s then s
      else rx_signal buf (rx_store buf io_len pages s))"

section \<open>Geometry of the ring\<close>

text \<open>
  The pages a driver may program: the ring lies in the packet memory, and the current page and the
  boundary are pages of it. \<open>span\<close> and \<open>used\<close> count pages, \<open>cell s k\<close> is the index in the packet
  memory of the \<open>k\<close>-th byte of the ring, counted from the boundary page.
\<close>

definition ring_ok :: "ne2k \<Rightarrow> bool" where
  "ring_ok s =
     (0x40 \<le> unat (page_start s) \<and> unat (page_start s) < unat (page_stop s) \<and> unat (page_stop s) \<le> 0xc0 \<and>
      unat (page_start s) \<le> unat (curr_page s) \<and> unat (curr_page s) < unat (page_stop s) \<and>
      unat (page_start s) \<le> unat (bound_ptr s) \<and> unat (bound_ptr s) < unat (page_stop s))"

lemma rx_pages_nat:
  "n < 2 ^ 31 \<Longrightarrow> rx_pages n = int ((n + 263) div 256)"
  by (simp add: rx_pages_def)

text \<open>Distances around the ring, in pages from the boundary pointer.\<close>

definition span :: "ne2k \<Rightarrow> nat" where
  "span s = unat (page_stop s) - unat (page_start s)"

definition used :: "ne2k \<Rightarrow> nat" where
  "used s = (if unat (bound_ptr s) \<le> unat (curr_page s) then unat (curr_page s) - unat (bound_ptr s)
             else span s - (unat (bound_ptr s) - unat (curr_page s)))"

definition page_at :: "ne2k \<Rightarrow> nat \<Rightarrow> nat" where
  "page_at s d = unat (page_start s) + (unat (bound_ptr s) - unat (page_start s) + d) mod span s"

definition cell :: "ne2k \<Rightarrow> nat \<Rightarrow> nat" where
  "cell s k = (unat (page_start s) * 256 - MEMSTART) +
     ((unat (bound_ptr s) - unat (page_start s)) * 256 + k) mod (span s * 256)"

lemma cell_inj: "cell s k = cell s k' \<Longrightarrow> k < span s * 256 \<Longrightarrow> k' < span s * 256 \<Longrightarrow> k = k'"
  unfolding cell_def by (drule add_left_imp_eq) (rule mod_add_inj)

lemma used_less: "ring_ok s \<Longrightarrow> used s < span s"
  by (auto simp: ring_ok_def used_def span_def)

lemma rx_avail_used: "ring_ok s \<Longrightarrow> rx_avail s = int (span s) - int (used s)"
proof -
  assume "ring_ok s"
  moreover have u: "uint x = int (unat x)" for x :: u8 by simp
  ultimately show ?thesis
    unfolding ring_ok_def used_def span_def rx_avail_def word_less_nat_alt u
    by (simp only: split: if_split) (intro conjI impI; linarith)
qed

lemma page_at_used: "ring_ok s \<Longrightarrow> page_at s (used s) = unat (curr_page s)"
proof -
  assume ok: "ring_ok s"
  let ?x = "unat (bound_ptr s) - unat (page_start s) + used s"
  have "?x = unat (curr_page s) - unat (page_start s) \<or>
        ?x = unat (curr_page s) - unat (page_start s) + span s"
    using ok by (auto simp: ring_ok_def used_def span_def)
  moreover have "unat (curr_page s) - unat (page_start s) < span s"
    using ok by (auto simp: ring_ok_def span_def)
  ultimately have "?x mod span s = unat (curr_page s) - unat (page_start s)" by fastforce
  then show ?thesis using ok by (simp add: page_at_def ring_ok_def)
qed

lemma cell_page:
  "cell s (d * 256 + k) = unat (page_start s) * 256 - MEMSTART +
     ((page_at s d - unat (page_start s)) * 256 + k) mod (span s * 256)"
proof -
  let ?o = "unat (bound_ptr s) - unat (page_start s)"
  have "(page_at s d - unat (page_start s)) * 256 = ((?o + d) * 256) mod (span s * 256)"
    by (simp add: page_at_def mult_mod_left)
  then have "((page_at s d - unat (page_start s)) * 256 + k) mod (span s * 256) = ((?o + d) * 256 + k) mod (span s * 256)"
    by (simp only: mod_add_left_eq)
  then show ?thesis by (simp add: cell_def algebra_simps)
qed

lemma cell_wrap: "cell s (k + span s * 256) = cell s k"
  by (simp add: cell_def flip: add.assoc)

lemma page_at_in: "ring_ok s \<Longrightarrow> unat (page_start s) \<le> page_at s d \<and> page_at s d < unat (page_stop s)"
proof -
  assume ok: "ring_ok s"
  have "(unat (bound_ptr s) - unat (page_start s) + d) mod span s < span s"
    using ok by (intro mod_less_divisor) (simp add: ring_ok_def span_def)
  then show ?thesis using ok unfolding page_at_def ring_ok_def span_def by linarith
qed

lemma take_header: "length h = 4 \<Longrightarrow> take (4 + n) (h @ buf) = h @ take n buf"
  by simp

lemma copy_in_seq:
  assumes "length h = 4" and "d + 4 + n \<le> MEMSIZ" and "n \<le> length buf"
  shows "copy_in (int d + 4) buf 0 (int n) (copy_in (int d) h 0 4 s) = mem_blit d (take (4 + n) (h @ buf)) s"
proof -
  have "copy_in (int d) h (int 0) (int 4) s = mem_blit d (take 4 (drop 0 h)) s"
    using assms by (intro copy_in_mem_blit) simp_all
  then have 1: "copy_in (int d) h 0 4 s = mem_blit d h s" using assms(1) by simp
  have "copy_in (int (d + 4)) buf (int 0) (int n) (mem_blit d h s) = mem_blit (d + 4) (take n (drop 0 buf)) (mem_blit d h s)"
    using assms by (intro copy_in_mem_blit) simp_all
  then show ?thesis using assms(1) by (simp add: 1 mem_blit_def blit_append take_header)
qed

lemma curr_page_mem_blit [simp]: "curr_page (mem_blit d bs s) = curr_page s"
  by (simp add: mem_blit_def)

text \<open>Where \<open>rx_store\<close> puts the header and the frame, cell by cell from the current page on.\<close>

lemma rx_store_straight:
  assumes ok: "ring_ok s" and le: "unat (curr_page s) + P \<le> unat (page_stop s)"
    and n: "n + 8 \<le> P * 256" and P: "P < span s" and buf: "n \<le> length buf"
  defines "base \<equiv> unat (curr_page s) * 256 - MEMSTART"
  shows "rx_store buf n (int P) s =
    (mem_blit base (take (4 + n) (rx_header buf n (rx_next (int P) s) @ buf)) s)
      \<lparr>curr_page := word_of_int (rx_next (int P) s)\<rparr>"
proof -
  have u: "uint x = int (unat x)" for x :: u8 by simp
  have b: "uint (curr_page s) * 256 - int MEMSTART = int base"
    using ok unfolding ring_ok_def base_def mem_consts u by linarith
  have room: "base + 4 + n \<le> MEMSIZ"
    using ok le n unfolding ring_ok_def base_def mem_consts by linarith
  have 0: "uint (curr_page s) < rx_next (int P) s \<or> uint (curr_page s) + int P = uint (page_stop s)"
    using ok le n unfolding ring_ok_def rx_next_def Let_def u
    by (simp only: split: if_split) (intro conjI impI; linarith)
  have "length (rx_header buf n (rx_next (int P) s)) = 4" by (simp add: rx_header_def)
  then show ?thesis
    unfolding rx_store_def Let_def if_P [OF 0] b using room buf by (simp only: copy_in_seq)
qed

lemma rx_store_wrapped:
  assumes ok: "ring_ok s" and gt: "unat (page_stop s) < unat (curr_page s) + P"
    and n: "P * 256 < n + 8 + 256" and n': "n + 8 \<le> P * 256" and P: "P < span s"
    and buf: "n + 4 \<le> length buf"
  defines "base \<equiv> unat (curr_page s) * 256 - MEMSTART"
    and "E \<equiv> (unat (page_stop s) - unat (curr_page s)) * 256"
    and "h \<equiv> rx_header buf n (rx_next (int P) s)"
  shows "E < n + 8" and "rx_store buf n (int P) s =
    (mem_blit (unat (page_start s) * 256 - MEMSTART) (take (n + 8 - E) (drop E (h @ buf)))
      (mem_blit base (take E (h @ buf)) s))\<lparr>curr_page := word_of_int (rx_next (int P) s)\<rparr>"
proof -
  have u: "uint x = int (unat x)" for x :: u8 by simp
  define a0 where "a0 = unat (page_start s) * 256 - MEMSTART"
  define e4 where "e4 = E - 4"
  have E: "E = 4 + e4" using ok unfolding ring_ok_def E_def e4_def by linarith
  show En: "E < n + 8" using gt n ok unfolding E_def ring_ok_def by linarith
  define k where "k = n + 8 - E"
  have b: "uint (curr_page s) * 256 - int MEMSTART = int base"
    "uint (page_start s) * 256 - int MEMSTART = int a0"
    using ok unfolding ring_ok_def base_def a0_def mem_consts u by linarith+
  have e: "(uint (page_stop s) - uint (curr_page s)) * 256 = int E"
    using ok unfolding ring_ok_def E_def u by simp
  have "base + 4 + e4 \<le> MEMSIZ"
    using ok E unfolding ring_ok_def base_def E_def mem_consts by linarith
  moreover have "n + 8 \<le> E + k" "k + E \<le> P * 256" using En n' unfolding k_def by linarith+
  moreover from this(2) have "a0 + k \<le> MEMSIZ"
    using ok P unfolding ring_ok_def a0_def E_def mem_consts span_def by linarith
  moreover have "e4 \<le> length buf" "e4 + k \<le> length buf" using En E buf unfolding k_def by linarith+
  ultimately have room: "base + 4 + e4 \<le> MEMSIZ" "a0 + k \<le> MEMSIZ" "e4 \<le> length buf" "e4 + k \<le> length buf"
    by simp_all
  have no: "\<not> (uint (curr_page s) < rx_next (int P) s \<or> uint (curr_page s) + int P = uint (page_stop s))"
    using ok gt n P unfolding ring_ok_def rx_next_def Let_def span_def u
    by (simp only: split: if_split) (intro conjI impI; linarith)
  have l: "length h = 4" by (simp add: h_def rx_header_def)
  have ks: "int n - int E + 8 = int k" "int E - 4 = int e4" using En E unfolding k_def by linarith+
  have ps: "page_start (mem_blit d xs t) = page_start t" for d xs t by (simp add: mem_blit_def)
  have "copy_in (int base + 4) buf 0 (int e4) (copy_in (int base) h 0 4 s) = mem_blit base (take E (h @ buf)) s"
    unfolding E by (rule copy_in_seq [OF l room(1,3)])
  moreover have "copy_in (int a0) buf (int e4) (int k) t = mem_blit a0 (take k (drop E (h @ buf))) t" for t
    using room l by (simp only: copy_in_mem_blit) (simp add: E)
  ultimately show "rx_store buf n (int P) s =
    (mem_blit (unat (page_start s) * 256 - MEMSTART) (take (n + 8 - E) (drop E (h @ buf)))
      (mem_blit base (take E (h @ buf)) s))\<lparr>curr_page := word_of_int (rx_next (int P) s)\<rparr>"
    unfolding rx_store_def Let_def if_not_P [OF no] b e ks h_def [symmetric] a0_def [symmetric] k_def [symmetric]
    by (simp add: ps b a0_def [symmetric])
qed

lemma cell_from_curr:
  assumes ok: "ring_ok s" and k: "k < span s * 256"
  defines "E \<equiv> (unat (page_stop s) - unat (curr_page s)) * 256"
  shows "cell s (used s * 256 + k) =
    (if k < E then unat (curr_page s) * 256 - MEMSTART + k
     else unat (page_start s) * 256 - MEMSTART + (k - E))"
proof -
  let ?o = "unat (curr_page s) - unat (page_start s)"
  have "?o * 256 + E = span s * 256" using ok by (auto simp: ring_ok_def E_def span_def)
  then have "(?o * 256 + k) mod (span s * 256) = (if k < E then ?o * 256 + k else k - E)"
    using k by (auto simp: mod_if [of "?o * 256 + k"] not_less)
  then have "cell s (used s * 256 + k) = unat (page_start s) * 256 - MEMSTART + (if k < E then ?o * 256 + k else k - E)"
    by (simp add: cell_page page_at_used [OF ok])
  moreover have "unat (page_start s) * 256 - MEMSTART + (?o * 256 + k) = unat (curr_page s) * 256 - MEMSTART + k"
    using ok unfolding ring_ok_def mem_consts by linarith
  ultimately show ?thesis by simp
qed

lemma rx_next_page:
  assumes ok: "ring_ok s" and P: "P < span s - used s"
  shows "rx_next (int P) s = int (page_at s (used s + P))"
proof -
  have u: "uint x = int (unat x)" for x :: u8 by simp
  let ?o = "unat (curr_page s) - unat (page_start s)"
  have "(unat (bound_ptr s) - unat (page_start s) + used s) mod span s = ?o"
    using page_at_used [OF ok] unfolding page_at_def by simp
  then have "(unat (bound_ptr s) - unat (page_start s) + (used s + P)) mod span s = (?o + P) mod span s"
    by (metis add.assoc mod_add_left_eq)
  also have "\<dots> = (if ?o + P < span s then ?o + P else ?o + P - span s)"
    using ok P unfolding ring_ok_def span_def by (intro mod_once) linarith
  finally have "page_at s (used s + P) = unat (page_start s) + (if ?o + P < span s then ?o + P else ?o + P - span s)"
    unfolding page_at_def by simp
  then show ?thesis
    using ok unfolding rx_next_def Let_def ring_ok_def span_def u
    by (simp only: split: if_split) (intro conjI impI; linarith)
qed

lemma blits_upper:
  "a + length ys \<le> b \<Longrightarrow> k < e \<Longrightarrow> e \<le> length xs \<Longrightarrow> blit a ys (blit b (take e xs) m) (b + k) = xs ! k"
  by (simp add: blit_def)

lemma blits_lower:
  "a + j < b \<Longrightarrow> e + n \<le> length xs \<Longrightarrow>
   blit a (take n (drop e xs)) (blit b zs m) (a + j) = (if j < n then xs ! (e + j) else m (a + j))"
  by (simp add: blit_def)

lemma rx_store_cells:
  assumes ok: "ring_ok s" and P: "P < span s - used s" "P = (n + 263) div 256" and buf: "n + 4 \<le> length buf"
  shows "\<exists>M w. rx_store buf n (int P) s = s\<lparr>mem := M, curr_page := word_of_nat (page_at s (used s + P))\<rparr> \<and>
    n + 4 \<le> w \<and> w \<le> P * 256 \<and>
    (\<forall>k < span s * 256. M (cell s (used s * 256 + k)) =
       (if k < w then (rx_header buf n (int (page_at s (used s + P))) @ buf) ! k
        else mem s (cell s (used s * 256 + k))))"
proof -
  have n: "n + 8 \<le> P * 256" "P * 256 < n + 8 + 256" unfolding P(2) by linarith+
  have Ps: "P < span s" using P(1) by simp
  let ?h = "rx_header buf n (int (page_at s (used s + P)))"
  have nx: "rx_next (int P) s = int (page_at s (used s + P))" by (rule rx_next_page [OF ok P(1)])
  have l: "length ?h = 4" by (simp add: rx_header_def)
  let ?E = "(unat (page_stop s) - unat (curr_page s)) * 256"
  let ?b = "unat (curr_page s) * 256 - MEMSTART" and ?a = "unat (page_start s) * 256 - MEMSTART"
  have ab: "?a \<le> ?b" "span s * 256 + ?a = ?b + ?E" "256 \<le> ?E"
    using ok unfolding ring_ok_def span_def mem_consts by linarith+
  show ?thesis
  proof (cases "unat (curr_page s) + P \<le> unat (page_stop s)")
    case True
    have PE: "P * 256 \<le> ?E" using True by simp
    let ?M = "blit ?b (take (4 + n) (?h @ buf)) (mem s)"
    have "rx_store buf n (int P) s = s\<lparr>mem := ?M, curr_page := word_of_nat (page_at s (used s + P))\<rparr>"
      using rx_store_straight [OF ok True n(1) Ps, of buf] buf by (simp add: nx mem_blit_def)
    moreover have "?M (cell s (used s * 256 + k)) =
        (if k < n + 4 then (?h @ buf) ! k else mem s (cell s (used s * 256 + k)))"
      if k: "k < span s * 256" for k
    proof (cases "k < ?E")
      case True
      then show ?thesis using buf l by (auto simp: cell_from_curr [OF ok k] blit_def nth_append)
    next
      case False
      moreover have "?a + (k - ?E) < ?b" using ab k False by linarith
      ultimately show ?thesis using PE n(1) by (simp add: cell_from_curr [OF ok k] blit_def)
    qed
    ultimately show ?thesis using n(1) by (intro exI [of _ ?M] exI [of _ "n + 4"]) simp
  next
    case False
    then have gt: "unat (page_stop s) < unat (curr_page s) + P" by simp
    note wrapped = rx_store_wrapped [OF ok gt n(2) n(1) Ps buf]
    let ?M = "blit ?a (take (n + 8 - ?E) (drop ?E (?h @ buf))) (blit ?b (take ?E (?h @ buf)) (mem s))"
    have "rx_store buf n (int P) s = s\<lparr>mem := ?M, curr_page := word_of_nat (page_at s (used s + P))\<rparr>"
      using wrapped(2) by (simp add: nx mem_blit_def)
    moreover have "?M (cell s (used s * 256 + k)) =
        (if k < n + 8 then (?h @ buf) ! k else mem s (cell s (used s * 256 + k)))"
      if k: "k < span s * 256" for k
    proof (cases "k < ?E")
      case True
      have "length (take (n + 8 - ?E) (drop ?E (?h @ buf))) \<le> n + 8 - ?E"
        by (simp only: length_take min.cobounded2)
      then have "?a + length (take (n + 8 - ?E) (drop ?E (?h @ buf))) \<le> ?b"
        using ab n(1) Ps wrapped(1) by linarith
      moreover have "?E \<le> length (?h @ buf)" using wrapped(1) buf l by simp
      ultimately have "?M (?b + k) = (?h @ buf) ! k" using True by (intro blits_upper)
      then show ?thesis using True wrapped(1) by (simp only: cell_from_curr [OF ok k]) simp
    next
      case False
      have "?a + (k - ?E) < ?b" using ab k False by linarith
      moreover have "?E + (n + 8 - ?E) \<le> length (?h @ buf)" using wrapped(1) buf l by simp
      ultimately have "?M (?a + (k - ?E)) =
          (if k - ?E < n + 8 - ?E then (?h @ buf) ! (?E + (k - ?E)) else mem s (?a + (k - ?E)))"
        by (rule blits_lower)
      moreover have "k - ?E < n + 8 - ?E \<longleftrightarrow> k < n + 8" "?E + (k - ?E) = k"
        using False wrapped(1) by linarith+
      ultimately show ?thesis by (simp only: cell_from_curr [OF ok k] if_not_P [OF False])
    qed
    ultimately show ?thesis using n(1) by (intro exI [of _ ?M] exI [of _ "n + 8"]) simp
  qed
qed

text \<open>
  The frames of the ring between two distances from the boundary: each one with the header whose
  second byte is the page of the next, as a driver that follows these pointers finds them.
\<close>

definition frame_pages :: "bytes \<Rightarrow> nat" where
  "frame_pages f = (length f + 263) div 256"

definition ring_bytes :: "ne2k \<Rightarrow> nat \<Rightarrow> nat \<Rightarrow> bytes" where
  "ring_bytes s d n = map (\<lambda>k. mem s (cell s (d * 256 + k))) [0..<n]"

fun ring_holds :: "ne2k \<Rightarrow> nat \<Rightarrow> bytes list \<Rightarrow> nat \<Rightarrow> bool" where
  "ring_holds s d [] e = (d = e)"
| "ring_holds s d (f # fs) e =
     (ring_bytes s d (4 + length f) = rx_header f (length f) (int (page_at s (d + frame_pages f))) @ f \<and>
      ring_holds s (d + frame_pages f) fs e)"

lemma frame_pages_bounds: "4 + length f \<le> frame_pages f * 256" "0 < frame_pages f"
  unfolding frame_pages_def by linarith+

lemma ring_holds_le: "ring_holds s d fs e \<Longrightarrow> d \<le> e"
proof (induction fs arbitrary: d)
  case (Cons f fs)
  then have "d + frame_pages f \<le> e" by simp
  then show ?case by simp
qed simp

lemma ring_holds_append:
  "ring_holds s d (fs @ gs) e \<longleftrightarrow> (\<exists>m. ring_holds s d fs m \<and> ring_holds s m gs e)"
  by (induction fs arbitrary: d) auto

text \<open>Two states that agree on the registers of the ring and on its used cells hold the same frames.\<close>

definition same_ring :: "ne2k \<Rightarrow> ne2k \<Rightarrow> bool" where
  "same_ring s s' = (page_start s' = page_start s \<and> page_stop s' = page_stop s \<and> bound_ptr s' = bound_ptr s)"

lemma same_ring_layout:
  "same_ring s s' \<Longrightarrow> span s' = span s \<and> cell s' = cell s \<and> page_at s' = page_at s"
  by (auto simp: same_ring_def span_def cell_def page_at_def fun_eq_iff)

lemma ring_bytes_cong:
  assumes "same_ring s s'" and "\<And>k. k < e * 256 \<Longrightarrow> mem s' (cell s k) = mem s (cell s k)"
    and "d * 256 + n \<le> e * 256"
  shows "ring_bytes s' d n = ring_bytes s d n"
  using assms by (auto simp: ring_bytes_def same_ring_layout)

lemma ring_holds_cong:
  assumes same: "same_ring s s'" and cells: "\<And>k. k < e * 256 \<Longrightarrow> mem s' (cell s k) = mem s (cell s k)"
  shows "ring_holds s d fs e \<Longrightarrow> ring_holds s' d fs e"
proof (induction fs arbitrary: d)
  case (Cons f fs)
  then have h: "ring_holds s (d + frame_pages f) fs e"
    "ring_bytes s d (4 + length f) = rx_header f (length f) (int (page_at s (d + frame_pages f))) @ f"
    by simp_all
  have "d + frame_pages f \<le> e" using ring_holds_le [OF h(1)] .
  then have "ring_bytes s' d (4 + length f) = ring_bytes s d (4 + length f)"
    using frame_pages_bounds(1) [of f] by (intro ring_bytes_cong [where e = e, OF same cells]) linarith+
  then show ?case using h Cons.IH [OF h(1)] same by (simp add: same_ring_layout)
qed simp

lemma rx_header_take: "0 < n \<Longrightarrow> rx_header (take n buf) n p = rx_header buf n p"
  by (cases buf; cases n) (simp_all add: rx_header_def is_group_def)

definition rx_room :: "nat \<Rightarrow> ne2k \<Rightarrow> bool" where
  "rx_room n s = ((n + 263) div 256 < span s - used s)"

lemma rx_store_queue:
  assumes ok: "ring_ok s" and room: "rx_room n s" and n: "0 < n" and buf: "n + 4 \<le> length buf"
    and q: "ring_holds s d fs (used s)"
  defines "s' \<equiv> rx_store buf n (int ((n + 263) div 256)) s"
  shows "ring_holds s' d (fs @ [take n buf]) (used s')" and "ring_ok s'"
    and "used s' = used s + (n + 263) div 256" and "same_ring s s'" and "out s' = out s"
proof -
  define P where "P = (n + 263) div 256"
  have P: "P < span s - used s" using room by (simp add: rx_room_def P_def)
  obtain M w where st: "s' = s\<lparr>mem := M, curr_page := word_of_nat (page_at s (used s + P))\<rparr>"
    and w: "n + 4 \<le> w" "w \<le> P * 256"
    and M: "\<And>k. k < span s * 256 \<Longrightarrow> M (cell s (used s * 256 + k)) =
       (if k < w then (rx_header buf n (int (page_at s (used s + P))) @ buf) ! k
        else mem s (cell s (used s * 256 + k)))"
    using rx_store_cells [OF ok P P_def buf] unfolding s'_def P_def by blast
  show same: "same_ring s s'" by (simp add: st same_ring_def)
  show "out s' = out s" by (simp add: st)
  have pg: "page_at s (used s + P) < 256" "unat (word_of_nat (page_at s (used s + P)) :: u8) = page_at s (used s + P)"
    using page_at_in [OF ok, of "used s + P"] ok by (auto simp: ring_ok_def unat_of_nat)
  show ok': "ring_ok s'"
    using ok page_at_in [OF ok, of "used s + P"] by (simp add: st ring_ok_def pg)
  show used': "used s' = used s + (n + 263) div 256"
  proof -
    let ?o = "unat (bound_ptr s) - unat (page_start s)"
    have "page_at s' (used s') = page_at s (used s + P)"
      using page_at_used [OF ok'] pg by (simp add: st)
    then have "(?o + used s') mod span s = (?o + (used s + P)) mod span s"
      using same_ring_layout [OF same] by (simp add: page_at_def)
    moreover have "used s' < span s" using used_less [OF ok'] same_ring_layout [OF same] by simp
    moreover have "used s + P < span s" using P by simp
    ultimately show ?thesis using mod_add_inj unfolding P_def by blast
  qed
  have below: "mem s' (cell s k) = mem s (cell s k)" if "k < used s * 256" for k
  proof -
    let ?k = "(span s - used s) * 256 + k"
    have k: "?k < span s * 256" "\<not> ?k < w"
      using used_less [OF ok] that w(2) P by (simp_all add: diff_mult_distrib)
    have "used s * 256 + ?k = k + span s * 256"
      using used_less [OF ok] by (simp add: diff_mult_distrib)
    then have "cell s (used s * 256 + ?k) = cell s k" by (simp only: cell_wrap)
    then have "M (cell s k) = mem s (cell s k)" using M [OF k(1)] k(2) by (simp only: if_False)
    then show ?thesis by (simp add: st)
  qed
  have old: "ring_holds s' d fs (used s)" by (rule ring_holds_cong [OF same below q])
  have l4: "length (rx_header buf n (int (page_at s (used s + P)))) = 4" by (simp add: rx_header_def)
  have new: "ring_bytes s' (used s) (4 + n) = rx_header buf n (int (page_at s (used s + P))) @ take n buf"
  proof (rule nth_equalityI)
    show "length (ring_bytes s' (used s) (4 + n)) = length (rx_header buf n (int (page_at s (used s + P))) @ take n buf)"
      using buf by (simp add: ring_bytes_def rx_header_def)
    fix k assume "k < length (ring_bytes s' (used s) (4 + n))"
    then have k: "k < 4 + n" by (simp add: ring_bytes_def)
    then have "k < span s * 256" using w P by linarith
    from M [OF this] show "ring_bytes s' (used s) (4 + n) ! k = (rx_header buf n (int (page_at s (used s + P))) @ take n buf) ! k"
      using k w(1) same_ring_layout [OF same] l4 by (simp add: ring_bytes_def st nth_append)
  qed
  have "length (take n buf) = n" using buf by simp
  then have "ring_holds s' (used s) [take n buf] (used s')"
    using new n same_ring_layout [OF same]
    by (simp add: frame_pages_def used' P_def rx_header_take)
  with old show "ring_holds s' d (fs @ [take n buf]) (used s')"
    unfolding ring_holds_append by blast
qed


section \<open>Reception as a queue\<close>

definition rx_takes :: "bytes \<Rightarrow> nat \<Rightarrow> ne2k \<Rightarrow> bool" where
  "rx_takes buf n s =
     (\<not> rx_ignores s \<and> rx_room n s \<and> (60 \<le> n \<or> RCR_runts_ok (RCR s)) \<and> rx_accept buf s)"

lemma rx_frame_cases:
  assumes ok: "ring_ok s" and n: "6 \<le> n" "n < 2 ^ 31" and buf: "n \<le> length buf"
  shows "rx_frame buf n s =
    (if rx_takes buf n s then rx_signal buf (rx_store buf n (int ((n + 263) div 256)) s) else s)"
proof -
  have "(rx_avail s < rx_pages n \<or> rx_avail s = rx_pages n) = (\<not> rx_room n s)"
    using used_less [OF ok] unfolding rx_avail_used [OF ok] rx_pages_nat [OF n(2)] rx_room_def
    by (simp only: of_nat_diff [symmetric] of_nat_less_iff of_nat_eq_iff less_imp_le) linarith
  moreover have "\<not> length buf < (if RCR_promisc (RCR s) then 1 else 6)" using n(1) buf by (cases buf) auto
  ultimately show ?thesis
    unfolding rx_frame_def Let_def rx_takes_def rx_pages_nat [OF n(2)] by auto
qed

lemma set_irq_level_fields [frame_simps]:
  "mem (set_irq_level l s) = mem s" "page_start (set_irq_level l s) = page_start s"
  "page_stop (set_irq_level l s) = page_stop s" "bound_ptr (set_irq_level l s) = bound_ptr s"
  "curr_page (set_irq_level l s) = curr_page s" "ISR (set_irq_level l s) = ISR s"
  "IMR (set_irq_level l s) = IMR s"
  by (simp_all add: set_irq_level_def emit_def)

lemma rx_signal_fields [frame_simps]:
  "mem (rx_signal buf s) = mem s" "page_start (rx_signal buf s) = page_start s"
  "page_stop (rx_signal buf s) = page_stop s" "bound_ptr (rx_signal buf s) = bound_ptr s"
  "curr_page (rx_signal buf s) = curr_page s" "IMR (rx_signal buf s) = IMR s"
  "ISR_pkt_rx (ISR (rx_signal buf s)) = True"
  by (simp_all add: rx_signal_def Let_def set_irq_level_fields)

lemma rx_signal_ring:
  "ring_ok (rx_signal buf s) = ring_ok s" "used (rx_signal buf s) = used s"
  "ring_holds (rx_signal buf s) d fs e = ring_holds s d fs e" "same_ring s (rx_signal buf s)"
proof -
  show same: "same_ring s (rx_signal buf s)" by (simp add: same_ring_def frame_simps)
  then have converse: "same_ring (rx_signal buf s) s" by (simp add: same_ring_def)
  show "ring_ok (rx_signal buf s) = ring_ok s" by (simp add: ring_ok_def frame_simps)
  show "used (rx_signal buf s) = used s"
    using same_ring_layout [OF same] by (simp add: used_def frame_simps)
  show "ring_holds (rx_signal buf s) d fs e = ring_holds s d fs e"
    using ring_holds_cong [OF same, of e d fs] ring_holds_cong [OF converse, of e d fs]
    by (auto simp: frame_simps)
qed

lemma out_rx_signal:
  "out (rx_signal buf s) = out s @
     (if IMR_rx_inte (IMR s)
      then [if pci_enabled s then Pci_Set_Irq (devfunc s) (pci_conf s 0x3d) True else Pic_Raise (base_irq s)]
      else [])"
  by (simp add: rx_signal_def Let_def set_irq_level_def emit_def)

lemma rx_frame_queue:
  assumes ok: "ring_ok s" and n: "6 \<le> n" "n < 2 ^ 31" and buf: "n + 4 \<le> length buf"
    and q: "ring_holds s d fs (used s)"
  defines "s' \<equiv> rx_frame buf n s"
  shows "ring_ok s'" and "same_ring s s'"
    and "ring_holds s' d (if rx_takes buf n s then fs @ [take n buf] else fs) (used s')"
    and "rx_takes buf n s \<Longrightarrow> ISR_pkt_rx (ISR s')"
    and "rx_takes buf n s \<Longrightarrow> used s' = used s + (n + 263) div 256"
    and "\<not> rx_takes buf n s \<Longrightarrow> s' = s"
proof -
  have cases: "s' = (if rx_takes buf n s then rx_signal buf (rx_store buf n (int ((n + 263) div 256)) s) else s)"
    unfolding s'_def using buf by (intro rx_frame_cases [OF ok n]) simp
  have room: "rx_room n s" if "rx_takes buf n s" using that by (simp add: rx_takes_def)
  note store = rx_store_queue [OF ok room _ buf q]
  have pos: "0 < n" using n(1) by simp
  show "ring_ok s'" using ok store(2) [OF _ pos] by (simp add: cases rx_signal_ring)
  show "same_ring s s'" using store(4) [OF _ pos] by (simp add: cases same_ring_def frame_simps)
  show "ring_holds s' d (if rx_takes buf n s then fs @ [take n buf] else fs) (used s')"
    using q store(1) [OF _ pos] by (simp add: cases rx_signal_ring)
  show "rx_takes buf n s \<Longrightarrow> ISR_pkt_rx (ISR s')" by (simp add: cases frame_simps)
  show "rx_takes buf n s \<Longrightarrow> used s' = used s + (n + 263) div 256"
    using store(3) [OF _ pos] by (simp add: cases rx_signal_ring)
  show "\<not> rx_takes buf n s \<Longrightarrow> s' = s" by (simp add: cases)
qed

text \<open>What the copies of a frame record: nothing, unless they read past the buffer of the frame.\<close>

definition rx_wraps :: "nat \<Rightarrow> ne2k \<Rightarrow> bool" where
  "rx_wraps n s \<longleftrightarrow> unat (page_stop s) < unat (curr_page s) + (n + 263) div 256"

definition overread :: "nat \<Rightarrow> bytes \<Rightarrow> ne2k_event \<Rightarrow> bool" where
  "overread n buf e \<longleftrightarrow> (\<exists>d f k. e = Bad_Copy d f k \<and> 0 \<le> d \<and> 0 \<le> k \<and> d + k \<le> int MEMSIZ \<and> 0 \<le> f \<and>
     int (length buf) < f + k \<and> f + k \<le> int n + 4)"

lemma out_copy_in:
  "out (copy_in d b f k s) = out s @
     (if 0 \<le> k \<and> 0 \<le> d \<and> d + k \<le> int MEMSIZ \<and> 0 \<le> f \<and> f + k \<le> int (length b) then [] else [Bad_Copy d f k])"
  by (simp add: copy_in_def emit_def)

lemma rx_store_out:
  assumes ok: "ring_ok s" and room: "rx_room n s" and buf: "n \<le> length buf"
  shows "\<exists>bad. out (rx_store buf n (int ((n + 263) div 256)) s) = out s @ bad \<and> list_all (overread n buf) bad \<and>
    (bad = [] \<longleftrightarrow> \<not> (rx_wraps n s \<and> length buf < n + 4))"
proof -
  define P where "P = (n + 263) div 256"
  have n: "n + 8 \<le> P * 256" "P * 256 < n + 8 + 256" unfolding P_def by linarith+
  have P: "P < span s" using room by (simp add: rx_room_def P_def)
  show ?thesis
  proof (cases "rx_wraps n s")
    case False
    then have "unat (curr_page s) + P \<le> unat (page_stop s)" by (simp add: rx_wraps_def P_def)
    then show ?thesis using rx_store_straight [OF ok _ n(1) P buf] False by (simp add: P_def mem_blit_def)
  next
    case True
    then have gt: "unat (page_stop s) < unat (curr_page s) + P" by (simp add: rx_wraps_def P_def)
    have u: "uint x = int (unat x)" for x :: u8 by simp
    define E where "E = (unat (page_stop s) - unat (curr_page s)) * 256"
    define b where "b = unat (curr_page s) * 256 - MEMSTART"
    define a where "a = unat (page_start s) * 256 - MEMSTART"
    have E: "E < n + 8" "256 \<le> E" "b + E \<le> MEMSIZ" using gt n ok unfolding E_def b_def ring_ok_def mem_consts by linarith+
    have a: "a + (n + 8 - E) \<le> MEMSIZ"
      using E(1) n(1) P ok unfolding ring_ok_def a_def E_def mem_consts span_def by linarith
    have i: "uint (curr_page s) * 256 - int MEMSTART = int b" "uint (page_start s) * 256 - int MEMSTART = int a"
      "(uint (page_stop s) - uint (curr_page s)) * 256 = int E"
      using ok unfolding ring_ok_def a_def b_def E_def mem_consts u by simp_all
    have no: "\<not> (uint (curr_page s) < rx_next (int P) s \<or> uint (curr_page s) + int P = uint (page_stop s))"
      using ok gt n P unfolding ring_ok_def rx_next_def Let_def span_def u
      by (simp only: split: if_split) (intro conjI impI; linarith)
    have l: "length (rx_header buf n p) = 4" for p by (simp add: rx_header_def)
    have fields: "page_start (copy_in d c f k t) = page_start t" for d c f k t by (simp add: copy_in_def emit_def)
    let ?b1 = "if E - 4 \<le> length buf then [] else [Bad_Copy (int b + 4) 0 (int E - 4)]"
    let ?b2 = "if n + 4 \<le> length buf then [] else [Bad_Copy (int a) (int E - 4) (int n - int E + 8)]"
    have "out (rx_store buf n (int P) s) = out s @ ?b1 @ ?b2"
      unfolding rx_store_def Let_def if_not_P [OF no] i fields using E a l by (auto simp: out_copy_in)
    moreover have "list_all (overread n buf) (?b1 @ ?b2)" using E a by (auto simp: overread_def)
    moreover have "?b1 @ ?b2 = [] \<longleftrightarrow> \<not> (rx_wraps n s \<and> length buf < n + 4)" using True E by auto
    ultimately show ?thesis unfolding P_def by blast
  qed
qed

lemma rx_frame_records:
  assumes "ring_ok s" and "6 \<le> n" "n < 2 ^ 31" and "n \<le> length buf"
  shows "\<exists>bad irq. out (rx_frame buf n s) = out s @ bad @ irq \<and> list_all (overread n buf) bad \<and>
    (bad = [] \<longleftrightarrow> \<not> (rx_takes buf n s \<and> rx_wraps n s \<and> length buf < n + 4)) \<and>
    irq \<in> {[], [Pic_Raise (base_irq s)], [Pci_Set_Irq (devfunc s) (pci_conf s 0x3d) True]}"
proof (cases "rx_takes buf n s")
  case False
  then show ?thesis using rx_frame_cases [OF assms] by simp
next
  case True
  let ?t = "rx_store buf n (int ((n + 263) div 256)) s"
  have room: "rx_room n s" using True by (simp add: rx_takes_def)
  obtain bad where bad: "out ?t = out s @ bad" "list_all (overread n buf) bad"
    "bad = [] \<longleftrightarrow> \<not> (rx_wraps n s \<and> length buf < n + 4)"
    using rx_store_out [OF assms(1) room assms(4)] by blast
  have "base_irq (copy_in d c f k u) = base_irq u" "devfunc (copy_in d c f k u) = devfunc u"
    "pci_conf (copy_in d c f k u) = pci_conf u" for d c f k u by (simp_all add: copy_in_def emit_def)
  then have "base_irq ?t = base_irq s" "devfunc ?t = devfunc s" "pci_conf ?t = pci_conf s"
    by (simp_all add: rx_store_def Let_def)
  then have "\<exists>irq. out (rx_frame buf n s) = out s @ bad @ irq \<and>
      irq \<in> {[], [Pic_Raise (base_irq s)], [Pci_Set_Irq (devfunc s) (pci_conf s 0x3d) True]}"
    using rx_frame_cases [OF assms] True bad(1) by (simp add: out_rx_signal)
  then show ?thesis using True bad(2,3) by blast
qed

section \<open>Releasing pages\<close>

text \<open>
  The driver takes frames off the queue by moving the boundary register. All distances then count
  from the new boundary page.
\<close>

lemma page_at_inj: "ring_ok s \<Longrightarrow> page_at s d = page_at s d' \<Longrightarrow> d < span s \<Longrightarrow> d' < span s \<Longrightarrow> d = d'"
  unfolding page_at_def by (drule add_left_imp_eq) (rule mod_add_inj)

lemma release_layout:
  assumes ok: "ring_ok s" and b: "unat (bound_ptr s') = page_at s e"
    and same: "page_start s' = page_start s" "page_stop s' = page_stop s" "curr_page s' = curr_page s" "mem s' = mem s"
  shows "ring_ok s'" and "page_at s' d = page_at s (e + d)" and "cell s' k = cell s (e * 256 + k)"
    and "e \<le> used s \<Longrightarrow> used s' = used s - e"
    and "ring_bytes s' d n = ring_bytes s (e + d) n"
proof -
  show ok': "ring_ok s'" using ok page_at_in [OF ok, of e] b same by (simp add: ring_ok_def)
  have sp: "span s' = span s" using same by (simp add: span_def)
  have "page_at s e - unat (page_start s) = (unat (bound_ptr s) - unat (page_start s) + e) mod span s"
    by (simp add: page_at_def)
  then have at: "page_at s' d = page_at s (e + d)" for d
    unfolding page_at_def [of s'] b same sp by (simp only: mod_add_left_eq) (simp add: page_at_def add.assoc)
  then show "page_at s' d = page_at s (e + d)" .
  have cell: "cell s' k = cell s (e * 256 + k)" for k
    unfolding cell_page by (simp add: cell_def b same sp)
  then show "cell s' k = cell s (e * 256 + k)" .
  show "ring_bytes s' d n = ring_bytes s (e + d) n"
    by (simp add: ring_bytes_def cell same algebra_simps)
  assume e: "e \<le> used s"
  have "page_at s' (used s') = page_at s' (used s - e)"
    using page_at_used [OF ok'] page_at_used [OF ok] e by (simp add: at same)
  moreover have "used s - e < span s'" using used_less [OF ok] by (simp add: sp)
  ultimately show "used s' = used s - e" using page_at_inj [OF ok'] used_less [OF ok'] by blast
qed

lemma release_holds:
  assumes ok: "ring_ok s" and b: "unat (bound_ptr s') = page_at s e"
    and same: "page_start s' = page_start s" "page_stop s' = page_stop s" "curr_page s' = curr_page s" "mem s' = mem s"
  shows "ring_holds s (e + d) fs (e + n) \<Longrightarrow> ring_holds s' d fs n"
proof (induction fs arbitrary: d)
  case (Cons f fs)
  note lay = release_layout [OF ok b same]
  from Cons show ?case by (simp add: lay(2,5) add.assoc)
qed simp

lemma write_boundary:
  "page0_write1 0x3 v s = s\<lparr>bound_ptr := ucast v\<rparr>"
  by (simp add: page0_write1_def)

lemma release_frame:
  assumes ok: "ring_ok s" and q: "ring_holds s 0 (f # fs) (used s)"
  defines "s' \<equiv> page0_write1 0x3 (word_of_nat (page_at s (frame_pages f))) s"
  shows "ring_ok s'" and "ring_holds s' 0 fs (used s')" and "used s' = used s - frame_pages f"
    and "span s' = span s"
proof -
  have "page_at s (frame_pages f) < 256" using page_at_in [OF ok, of "frame_pages f"] ok by (simp add: ring_ok_def)
  then have b: "unat (bound_ptr s') = page_at s (frame_pages f)"
    by (simp add: s'_def write_boundary unat_ucast_mod unat_of_nat)
  have same: "page_start s' = page_start s" "page_stop s' = page_stop s" "curr_page s' = curr_page s" "mem s' = mem s"
    by (simp_all add: s'_def write_boundary)
  note lay = release_layout [OF ok b same]
  have le: "frame_pages f \<le> used s" using q ring_holds_le [of s "frame_pages f" fs "used s"] by simp
  show "ring_ok s'" and "used s' = used s - frame_pages f" using lay(1) lay(4) [OF le] by simp_all
  then show "ring_holds s' 0 fs (used s')"
    using q le by (intro release_holds [OF ok b same]) simp
  show "span s' = span s" by (simp add: span_def same)
qed
section \<open>The multicast hash\<close>

lemma mcast_index_less: "unat (mcast_index dst) < 64"
proof -
  let ?c = "fold crc_byte (take 6 dst) 0xffffffff"
  have "unat ?c < 2 ^ 32" using unsigned_less [of ?c, where ?'a = nat] by simp
  then have "unat ?c div 2 ^ 26 < 64" by (simp add: less_mult_imp_div_less)
  then show ?thesis by (simp only: mcast_index_def unat_drop_bit_eq drop_bit_eq_div [where ?'a = nat])
qed

end
