(* ===== verification/Active_RDMA.thy ===== *)
theory Active_RDMA
  imports Machine_Prelude
begin

text \<open>
  The packet interceptor of the simulated network card
  (\<^verbatim>\<open>src/sim/bochs/iodev/ActiveRDMA.cc\<close> and \<^verbatim>\<open>ActiveRDMA.h\<close>). It looks at each received
  Ethernet frame, answers ARP requests for its address, passes UDP port 15712 to the memory server
  running in a Java machine, answers port 15713 with timing counters, and leaves every other frame
  to the card. A frame is the byte list \<open>data\<close> of length \<open>len\<close>. The code checks no lengths, so a
  read past the frame, a reply that does not fit the 2048 byte buffer, a negative array length and
  a null reply are faults, values that end the run. The Java machine is the parameter record
  \<open>jvm\<close>, the card's address registers are the argument \<open>my_eth\<close>, and the frames handed to
  \<open>m_sender\<close> are collected in \<open>sent\<close>.
\<close>

unbundle bit_operations_syntax

definition PROT_UDP :: u8 where "PROT_UDP = 17"
definition UDP_PORT :: u16 where "UDP_PORT = 15712"
definition BUF_SIZE :: nat where "BUF_SIZE = 2048"

datatype rdma_fault =
    Out_Of_Bounds     \<comment> \<open>a read past the end of the received frame\<close>
  | Buffer_Overflow   \<comment> \<open>a write past the 2048 byte frame buffer\<close>
  | Negative_Length   \<comment> \<open>\<open>NewByteArray\<close> with a negative length\<close>
  | Null_Reply        \<comment> \<open>\<open>GetByteArrayElements\<close> on a null result\<close>

record 'v jvm =
  serve_call :: "'v \<Rightarrow> bytes \<Rightarrow> bytes option \<times> 'v"  \<comment> \<open>None: null or a pending exception\<close>
  stat_call :: "'v \<Rightarrow> nat \<Rightarrow> u64"

record timing =
  jvm_nsec :: u64
  insns :: u64
  pkt :: u64
  mem_rd :: u64
  mem_wr :: u64
  mem_cas :: u64

record 'v rdma =
  m_srv :: 'v
  m_partner_eth :: bytes
  m_my_ip :: u32
  m_timing :: timing
  sent :: "bytes list"

type_synonym timespec = "int \<times> int"

section \<open>The checksum\<close>

text \<open>\<open>while (cksum > 0xffff) cksum = (cksum & 0xffff) + (cksum >> 16);\<close>\<close>

lemma fold_decreases:
  assumes "0xffff < (c :: u32)"
  shows "unat ((c AND 0xffff) + drop_bit 16 c) < unat c"
proof -
  have m: "c AND 0xffff = take_bit 16 c"
    by (simp add: take_bit_eq_mask mask_eq_exp_minus_1)
  have lo: "unat (take_bit 16 c) = unat c mod 65536"
    by (simp only: unsigned_take_bit_eq take_bit_eq_mod [where ?'a = nat]) simp
  have hi: "unat (drop_bit 16 c) = unat c div 65536"
    by (simp only: unat_drop_bit_eq drop_bit_eq_div [where ?'a = nat]) simp
  have "65536 \<le> unat c" using assms by (simp add: word_less_nat_alt)
  then have "0 < unat c div 65536" by (simp add: div_greater_zero_iff)
  moreover have "unat c div 65536 * 65536 + unat c mod 65536 = unat c"
    by (rule div_mult_mod_eq)
  ultimately have "unat c mod 65536 + unat c div 65536 < unat c" by linarith
  moreover from this have "unat (take_bit 16 c + drop_bit 16 c) = unat c mod 65536 + unat c div 65536"
    using unsigned_less [of c, where ?'a = nat]
    by (simp add: unat_word_ariths lo hi)
  ultimately show ?thesis by (simp add: m)
qed

function fold_carry :: "u32 \<Rightarrow> u32" where
  "fold_carry c = (if 0xffff < c then fold_carry ((c AND 0xffff) + drop_bit 16 c) else c)"
  by pat_completeness auto
termination
  by (relation "measure unat") (auto intro: fold_decreases)

declare fold_carry.simps [simp del]

text \<open>The two-byte loop adds native 16 bit words and folds one carry after each.\<close>

definition host16 :: "u8 \<Rightarrow> u8 \<Rightarrow> u32" where
  "host16 b0 b1 = word_of_nat (le_nat [b0, b1])"

fun sum_words :: "bytes \<Rightarrow> u32 \<Rightarrow> u32" where
  "sum_words [] c = c"
| "sum_words [b] c = c + host16 b 0"
| "sum_words (b0 # b1 # rest) c =
     (let c1 = c + host16 b0 b1 in
      sum_words rest (if 0xffff < c1 then (c1 AND 0xffff) + drop_bit 16 c1 else c1))"

definition checksum :: "bytes \<Rightarrow> u16 \<Rightarrow> u16" where
  "checksum data init = ucast (fold_carry (sum_words data (scast init)))"

section \<open>Sending\<close>

text \<open>
  \<open>send_udp_packet\<close> fills the frame buffer field by field, in the order of the code: the Ethernet
  header, the IPv4 header with its checksum, the UDP header, the payload.
\<close>

definition eth_header :: "bytes \<Rightarrow> bytes \<Rightarrow> bytes \<Rightarrow> bytes" where
  "eth_header dst src buf = poke 12 [0x08, 0x00] (poke 6 src (poke 0 dst buf))"

definition ip_header :: "u32 \<Rightarrow> u32 \<Rightarrow> nat \<Rightarrow> bytes \<Rightarrow> bytes" where
  "ip_header src dst len buf =
     (let b1 = poke 14 (replicate 20 0) buf;
          b2 = poke 14 [0x45] b1;                       \<comment> \<open>\<open>version = 4\<close>, \<open>ihl = 5\<close>\<close>
          b3 = poke 22 [255] b2;                        \<comment> \<open>\<open>ttl\<close>\<close>
          b4 = poke 23 [PROT_UDP] b3;
          b5 = poke 26 (htonl src) b4;
          b6 = poke 30 (htonl dst) b5;
          b7 = poke 16 (htons (word_of_nat (20 + 8 + len))) b6;
          b8 = poke 24 [0, 0] b7;
          chk = NOT (checksum (take 20 (drop 14 b8)) 0);
          b9 = poke 24 (le_bytes 2 (unat chk)) b8
      in if chk = 0 then poke 24 (le_bytes 2 0xffff) b9 else b9)"

definition udp_header :: "u16 \<Rightarrow> nat \<Rightarrow> bytes \<Rightarrow> bytes" where
  "udp_header port len buf =
     (let b1 = poke 34 (replicate 8 0) buf;
          b2 = poke 34 (htons UDP_PORT) b1;
          b3 = poke 36 (htons port) b2;
          b4 = poke 38 (htons (word_of_nat (8 + len))) b3
      in poke 40 [0, 0] b4)"

definition send_udp_packet ::
    "bytes \<Rightarrow> u32 \<Rightarrow> u16 \<Rightarrow> bytes \<Rightarrow> 'v rdma \<Rightarrow> rdma_fault + 'v rdma" where
  "send_udp_packet my_eth addr port udp_data s =
     (let len = length udp_data in
      if BUF_SIZE < 42 + len then Inl Buffer_Overflow
      else
        let b0 = replicate BUF_SIZE 0;
            b1 = eth_header (m_partner_eth s) my_eth b0;
            b2 = ip_header (m_my_ip s) addr len b1;
            b3 = udp_header port len b2;
            b4 = poke 42 udp_data b3;
            tot_len = 14 + 20 + 8 + len;
            tot_len = (if tot_len < 60 then 60 else tot_len)
        in Inr (s\<lparr>sent := sent s @ [take tot_len b4]\<rparr>))"

section \<open>Receiving\<close>

definition update_mem_stats :: "'v jvm \<Rightarrow> 'v rdma \<Rightarrow> 'v rdma" where
  "update_mem_stats J s =
     s\<lparr>m_timing := (m_timing s)\<lparr>mem_rd := stat_call J (m_srv s) 0,
                               mem_wr := stat_call J (m_srv s) 1,
                               mem_cas := stat_call J (m_srv s) 2\<rparr>\<rparr>"

definition timing_bytes :: "timing \<Rightarrow> bytes" where
  "timing_bytes t = host64 (jvm_nsec t) @ host64 (insns t) @ host64 (pkt t) @
                    host64 (mem_rd t) @ host64 (mem_wr t) @ host64 (mem_cas t)"

text \<open>
  \<open>handle_rdma_req\<close>: \<open>len\<close> bytes of the frame, from offset \<open>off\<close>, go to the server; \<open>t1\<close> and \<open>t2\<close>
  are what \<open>clock_gettime\<close> returned around the call.
\<close>

definition handle_rdma_req ::
    "'v jvm \<Rightarrow> timespec \<times> timespec \<Rightarrow> bytes \<Rightarrow> u32 \<Rightarrow> u16 \<Rightarrow> bytes \<Rightarrow> nat \<Rightarrow> int \<Rightarrow> 'v rdma
     \<Rightarrow> rdma_fault + 'v rdma" where
  "handle_rdma_req J clk my_eth src_addr src_port data off len s =
     (if len < 0 then Inl Negative_Length
      else case peeks data off (nat len) of
        None \<Rightarrow> Inl Out_Of_Bounds
      | Some req \<Rightarrow>
          (case serve_call J (m_srv s) req of
             (ret, srv') \<Rightarrow>
               let (t1, t2) = clk;
                   nsec = 1000000000 * (fst t2 - fst t1) + (snd t2 - snd t1);
                   s1 = s\<lparr>m_srv := srv',
                          m_timing := (m_timing s)\<lparr>jvm_nsec := jvm_nsec (m_timing s) + word_of_int nsec\<rparr>\<rparr>
               in case ret of
                    None \<Rightarrow> Inl Null_Reply
                  | Some ret_data \<Rightarrow> send_udp_packet my_eth src_addr src_port ret_data s1))"

definition handle_udp_packet ::
    "'v jvm \<Rightarrow> timespec \<times> timespec \<Rightarrow> bytes \<Rightarrow> u32 \<Rightarrow> bytes \<Rightarrow> nat \<Rightarrow> 'v rdma
     \<Rightarrow> rdma_fault + bool \<times> 'v rdma" where
  "handle_udp_packet J clk my_eth src_addr data off s =
     (case peeks data (off + 2) 2 of None \<Rightarrow> Inl Out_Of_Bounds | Some dest \<Rightarrow>
      if ntohs dest = UDP_PORT then
        (case (peeks data off 2, peeks data (off + 4) 2) of
           (Some source, Some ulen) \<Rightarrow>
             (case handle_rdma_req J clk my_eth src_addr (ntohs source) data (off + 8)
                     (int (unat (ntohs ulen)) - 8) s of
                Inl e \<Rightarrow> Inl e
              | Inr s' \<Rightarrow> Inr (True, s'))
         | _ \<Rightarrow> Inl Out_Of_Bounds)
      else if unat (ntohs dest) = unat UDP_PORT + 1 then
        (case peeks data off 2 of
           Some source \<Rightarrow>
             (let s1 = update_mem_stats J s in
              case send_udp_packet my_eth src_addr (ntohs source) (timing_bytes (m_timing s1)) s1 of
                Inl e \<Rightarrow> Inl e
              | Inr s' \<Rightarrow> Inr (True, s'))
         | None \<Rightarrow> Inl Out_Of_Bounds)
      else Inr (False, s))"

definition handle_ip_packet ::
    "'v jvm \<Rightarrow> timespec \<times> timespec \<Rightarrow> bytes \<Rightarrow> bytes \<Rightarrow> nat \<Rightarrow> 'v rdma
     \<Rightarrow> rdma_fault + bool \<times> 'v rdma" where
  "handle_ip_packet J clk my_eth data off s =
     (case (peeks data (off + 12) 4, peeks data (off + 16) 4) of
        (Some saddr, Some daddr) \<Rightarrow>
          if ntohl daddr \<noteq> m_my_ip s then Inr (False, s)
          else (case (peek data (off + 9), peek data off) of
                  (Some protocol, Some b0) \<Rightarrow>
                    if protocol = PROT_UDP
                    then handle_udp_packet J clk my_eth (ntohl saddr) data
                           (off + 4 * unat (b0 AND 0x0f)) s
                    else Inr (False, s)
                | _ \<Rightarrow> Inl Out_Of_Bounds)
      | _ \<Rightarrow> Inl Out_Of_Bounds)"

text \<open>
  \<open>handle_arp_packet\<close> turns the request into the reply in place and sends its first 42 bytes: the
  14 byte Ethernet header, the 8 byte \<open>arphdr\<close> and 20 address bytes.
\<close>

definition arp_reply :: "bytes \<Rightarrow> u32 \<Rightarrow> bytes \<Rightarrow> bytes" where
  "arp_reply my_eth ip frame =
     (let f1 = poke (14 + 8 + 10) (take 10 (drop (14 + 8) frame)) frame;
          f2 = poke (14 + 6) (htons 2) f1;                \<comment> \<open>\<open>ARPOP_REPLY\<close>\<close>
          f3 = poke (14 + 8) my_eth f2;
          f4 = poke (14 + 8 + 6) (htonl ip) f3;
          f5 = poke 0 (take 6 (drop 6 f4)) f4;
          f6 = poke 6 my_eth f5
      in take (14 + 8 + 20) f6)"

definition handle_arp_packet ::
    "bytes \<Rightarrow> bytes \<Rightarrow> 'v rdma \<Rightarrow> rdma_fault + bool \<times> 'v rdma" where
  "handle_arp_packet my_eth data s =
     (case peeks data (14 + 6) 2 of
        None \<Rightarrow> Inl Out_Of_Bounds
      | Some ar_op \<Rightarrow>
          if ntohs ar_op = 1                              \<comment> \<open>\<open>ARPOP_REQUEST\<close>\<close>
          then (case peeks data (14 + 8 + 10 + 6) 4 of
                  None \<Rightarrow> Inl Out_Of_Bounds
                | Some target \<Rightarrow>
                    if target = htonl (m_my_ip s)
                    then Inr (True, s\<lparr>sent := sent s @ [arp_reply my_eth (m_my_ip s) data]\<rparr>)
                    else Inr (False, s))
          else Inr (False, s))"

definition handle_packet ::
    "'v jvm \<Rightarrow> timespec \<times> timespec \<Rightarrow> bytes \<Rightarrow> bytes \<Rightarrow> 'v rdma \<Rightarrow> rdma_fault + bool \<times> 'v rdma" where
  "handle_packet J clk my_eth data s =
     (case peek data 12 of None \<Rightarrow> Inl Out_Of_Bounds | Some b12 \<Rightarrow>
      if b12 \<noteq> 0x08 then Inr (False, s)
      else case peek data 13 of None \<Rightarrow> Inl Out_Of_Bounds | Some b13 \<Rightarrow>
      if b13 = 0x00                                       \<comment> \<open>IPv4\<close>
      then let s1 = s\<lparr>m_partner_eth := take 6 (drop 6 data),
                      m_timing := (m_timing s)\<lparr>pkt := pkt (m_timing s) + 1\<rparr>\<rparr>
           in handle_ip_packet J clk my_eth data 14 s1
      else if b13 = 0x06                                  \<comment> \<open>ARP\<close>
      then handle_arp_packet my_eth data s
      else Inr (False, s))"

text \<open>The hook of the CPU loop, called once per instruction.\<close>

definition count_insn :: "'v rdma \<Rightarrow> 'v rdma" where
  "count_insn s = s\<lparr>m_timing := (m_timing s)\<lparr>insns := insns (m_timing s) + 1\<rparr>\<rparr>"

text \<open>
  The constructor: counters zero, address 10.0.0.2; \<open>m_partner_eth\<close> is left as the allocation
  left it.
\<close>

definition new_rdma :: "'v \<Rightarrow> bytes \<Rightarrow> 'v rdma" where
  "new_rdma srv junk =
     \<lparr>m_srv = srv, m_partner_eth = junk,
      m_my_ip = push_bit 24 10 OR push_bit 16 0 OR push_bit 8 0 OR push_bit 0 2,
      m_timing = \<lparr>jvm_nsec = 0, insns = 0, pkt = 0, mem_rd = 0, mem_wr = 0, mem_cas = 0\<rparr>,
      sent = []\<rparr>"

section \<open>The checksum is a one's complement sum\<close>

fun word_sum :: "bytes \<Rightarrow> nat" where
  "word_sum [] = 0"
| "word_sum [b] = unat b"
| "word_sum (b0 # b1 # rest) = unat b0 + 256 * unat b1 + word_sum rest"

definition fold_once :: "u32 \<Rightarrow> u32" where
  "fold_once c = (c AND 0xffff) + drop_bit 16 c"

lemma unat_fold_once: "unat (fold_once c) = unat c mod 65536 + unat c div 65536"
proof -
  have m: "c AND 0xffff = take_bit 16 c"
    by (simp add: take_bit_eq_mask mask_eq_exp_minus_1)
  have lo: "unat (take_bit 16 c) = unat c mod 65536"
    by (simp only: unsigned_take_bit_eq take_bit_eq_mod [where ?'a = nat]) simp
  have hi: "unat (drop_bit 16 c) = unat c div 65536"
    by (simp only: unat_drop_bit_eq drop_bit_eq_div [where ?'a = nat]) simp
  have "unat c < 65536 * 65536" using unsigned_less [of c, where ?'a = nat] by simp
  then have "unat c div 65536 < 65536" by (rule less_mult_imp_div_less)
  moreover have "unat c mod 65536 < 65536" by simp
  ultimately show ?thesis by (simp add: fold_once_def m unat_word_ariths lo hi)
qed

lemma fold_once_mod: "unat (fold_once c) mod 65535 = unat c mod 65535"
proof -
  have "unat c = 65535 * (unat c div 65536) + unat (fold_once c)"
    using div_mult_mod_eq [of "unat c" 65536] by (simp add: unat_fold_once)
  then show ?thesis by (metis mod_mult_self4)
qed

lemma fold_once_zero: "unat (fold_once c) = 0 \<longleftrightarrow> unat c = 0"
  using div_mult_mod_eq [of "unat c" 65536] by (auto simp: unat_fold_once)

lemma host16_unat: "unat (host16 b0 b1) = unat b0 + 256 * unat b1"
proof -
  have "unat b0 + 256 * unat b1 < 2 ^ 32" using unat_u8_less [of b0] unat_u8_less [of b1] by simp
  then show ?thesis by (simp only: host16_def unat_of_nat) simp
qed

definition loop_ok :: "u32 \<Rightarrow> nat \<Rightarrow> bool" where
  "loop_ok c n = (unat c mod 65535 = n mod 65535 \<and> (unat c = 0 \<longleftrightarrow> n = 0))"

lemma sum_words_ok:
  "unat c \<le> 65535 \<Longrightarrow> loop_ok c n \<Longrightarrow> loop_ok (sum_words bs c) (n + word_sum bs)"
proof (induction bs c arbitrary: n rule: sum_words.induct)
  case (1 c)
  then show ?case by simp
next
  case (2 b c)
  have "unat b < 256" by (rule unat_u8_less)
  then have "unat (c + host16 b 0) = unat c + unat b"
    using "2.prems" by (simp add: unat_word_ariths host16_unat)
  with "2.prems" show ?case by (auto simp: loop_ok_def intro: mod_add_cong)
next
  case (3 b0 b1 rest c)
  let ?c1 = "c + host16 b0 b1"
  have "unat b0 < 256" "unat b1 < 256" by (rule unat_u8_less)+
  then have u: "unat ?c1 = unat c + (unat b0 + 256 * unat b1)" and le: "unat ?c1 \<le> 131070"
    using "3.prems" by (simp_all add: unat_word_ariths host16_unat)
  let ?c2 = "if 0xffff < ?c1 then fold_once ?c1 else ?c1"
  have "unat (fold_once ?c1) \<le> 65535"
  proof (cases "unat ?c1 < 65536")
    case True
    then show ?thesis by (simp add: unat_fold_once)
  next
    case False
    then have "65536 \<le> unat ?c1" by linarith
    then obtain k where k: "unat ?c1 = 65536 + k" by (metis le_iff_add)
    with le have "k \<le> 65534" by linarith
    note k = k this
    then have "unat ?c1 mod 65536 = k" "unat ?c1 div 65536 = 1" by simp_all
    with k show ?thesis by (simp add: unat_fold_once)
  qed
  then have "unat ?c2 \<le> 65535"
    by (auto simp: word_less_nat_alt not_less)
  moreover have "loop_ok ?c2 (n + (unat b0 + 256 * unat b1))"
  proof -
    have "loop_ok ?c1 (n + (unat b0 + 256 * unat b1))"
      using "3.prems" u by (auto simp: loop_ok_def intro: mod_add_cong)
    then show ?thesis by (simp add: loop_ok_def fold_once_mod fold_once_zero)
  qed
  ultimately have "loop_ok (sum_words rest ?c2) (n + (unat b0 + 256 * unat b1) + word_sum rest)"
    using "3.IH" [OF refl, folded fold_once_def] by blast
  then show ?case by (simp only: fold_once_def Let_def sum_words.simps word_sum.simps add.assoc)
qed

lemma fold_carry_ok: "unat (fold_carry c) \<le> 65535 \<and> loop_ok (fold_carry c) (unat c)"
proof (induction c rule: fold_carry.induct)
  case (1 c)
  show ?case
  proof (cases "0xffff < c")
    case True
    with "1.IH" have "unat (fold_carry (fold_once c)) \<le> 65535 \<and> loop_ok (fold_carry (fold_once c)) (unat (fold_once c))"
      by (simp add: fold_once_def)
    with True show ?thesis
      by (auto simp: fold_carry.simps [of c] fold_once_def [symmetric] loop_ok_def fold_once_mod fold_once_zero)
  next
    case False
    then show ?thesis by (simp add: fold_carry.simps [of c] loop_ok_def word_less_nat_alt)
  qed
qed

text \<open>The checksum of \<open>bs\<close> is the sum of its words in one's complement arithmetic.\<close>

definition ones_complement :: "nat \<Rightarrow> nat" where
  "ones_complement n = (if n = 0 then 0 else if n mod 65535 = 0 then 65535 else n mod 65535)"

lemma loop_ok_ones: "unat c \<le> 65535 \<Longrightarrow> loop_ok c n \<Longrightarrow> unat c = ones_complement n"
proof -
  assume *: "unat c \<le> 65535" "loop_ok c n"
  show ?thesis
  proof (cases "unat c = 65535")
    case True
    with * show ?thesis by (auto simp: loop_ok_def ones_complement_def)
  next
    case False
    with *(1) have "unat c mod 65535 = unat c" by simp
    with * show ?thesis by (auto simp: loop_ok_def ones_complement_def)
  qed
qed

lemma checksum_ones: "unat (checksum bs 0) = ones_complement (word_sum bs)"
proof -
  let ?c = "sum_words bs 0"
  have "loop_ok ?c (0 + word_sum bs)"
    by (rule sum_words_ok) (simp_all add: loop_ok_def)
  then have "loop_ok (fold_carry ?c) (word_sum bs)" and le: "unat (fold_carry ?c) \<le> 65535"
    using fold_carry_ok [of ?c] by (auto simp: loop_ok_def)
  then have "unat (fold_carry ?c) = ones_complement (word_sum bs)"
    by (intro loop_ok_ones)
  moreover have "unat (ucast (fold_carry ?c) :: u16) = unat (fold_carry ?c)"
    using le by (simp add: unat_ucast_mod)
  ultimately show ?thesis by (simp add: checksum_def)
qed

lemma word_sum_append: "even (length xs) \<Longrightarrow> word_sum (xs @ ys) = word_sum xs + word_sum ys"
  by (induction xs rule: word_sum.induct) auto

lemma ones_complement_le: "ones_complement n \<le> 65535"
  by (simp add: ones_complement_def less_imp_le)

lemma ones_complement_cancel:
  assumes "0 < n"
  shows "ones_complement (n + (65535 - ones_complement n)) = 65535"
proof (cases "n mod 65535 = 0")
  case True
  with assms show ?thesis by (simp add: ones_complement_def)
next
  case False
  then have r: "ones_complement n = n mod 65535" using assms by (simp add: ones_complement_def)
  have "n = q * 65535 + r \<Longrightarrow> r < 65535 \<Longrightarrow> n + (65535 - r) = 65535 * (q + 1)" for q r :: nat
    by simp
  from this [OF div_mult_mod_eq [symmetric]]
  have "n + (65535 - n mod 65535) = 65535 * (n div 65535 + 1)" by simp
  then show ?thesis using assms unfolding r by (simp add: ones_complement_def)
qed

lemma unat_not16: "unat (NOT (w :: u16)) = 65535 - unat w"
proof -
  have "NOT w = 65535 - w" by (simp add: not_eq_complement)
  moreover have "w \<le> 65535"
    using unsigned_less [of w, where ?'a = nat] by (simp add: word_le_nat_alt)
  ultimately show ?thesis by (simp add: unat_sub)
qed

text \<open>The IPv4 header of a sent packet, byte by byte, with the check field \<open>chk\<close>.\<close>

definition ip_bytes :: "u32 \<Rightarrow> u32 \<Rightarrow> nat \<Rightarrow> bytes \<Rightarrow> bytes" where
  "ip_bytes src dst len chk =
     [0x45, 0] @ htons (word_of_nat (20 + 8 + len)) @ [0, 0, 0, 0, 255, PROT_UDP] @ chk @
     htonl src @ htonl dst"

definition ip_check :: "u32 \<Rightarrow> u32 \<Rightarrow> nat \<Rightarrow> bytes" where
  "ip_check src dst len =
     (let c = NOT (checksum (ip_bytes src dst len [0, 0]) 0)
      in le_bytes 2 (unat (if c = 0 then 0xffff else c)))"

lemma word_sum_2: "length bs = 2 \<Longrightarrow> word_sum bs = le_nat bs"
  by (cases bs rule: word_sum.cases) auto

lemma word_sum_ip_bytes:
  assumes "length chk = 2"
  shows "word_sum (ip_bytes src dst len chk) = word_sum (ip_bytes src dst len [0, 0]) + le_nat chk"
  using assms by (simp add: ip_bytes_def word_sum_append word_sum_2)

lemma ip_check_verifies:
  "unat (checksum (ip_bytes src dst len (ip_check src dst len)) 0) = 65535"
proof -
  let ?n = "word_sum (ip_bytes src dst len [0, 0])"
  let ?c = "NOT (checksum (ip_bytes src dst len [0, 0]) 0)"
  have pos: "0 < ?n" by (simp add: ip_bytes_def)
  have c: "unat ?c = 65535 - ones_complement ?n" by (simp add: unat_not16 checksum_ones)
  have k: "le_nat (ip_check src dst len) = (if ?c = 0 then 65535 else unat ?c)"
    using unsigned_less [of ?c, where ?'a = nat]
    by (simp add: ip_check_def Let_def le_nat_le_bytes del: le_bytes_numeral)
  have "ones_complement (?n + le_nat (ip_check src dst len)) = 65535"
  proof (cases "?c = 0")
    case True
    then have "ones_complement ?n = 65535" using c ones_complement_le [of ?n] by simp
    with True k pos show ?thesis by (auto simp: ones_complement_def split: if_splits)
  next
    case False
    with k c pos show ?thesis by (simp add: ones_complement_cancel)
  qed
  moreover have "length (ip_check src dst len) = 2" by (simp add: ip_check_def Let_def)
  ultimately show ?thesis by (simp only: checksum_ones word_sum_ip_bytes [of "ip_check src dst len"])
qed

lemma eth_header_buf:
  assumes "length dst = 6" and "length src = 6" and "length junk = 14"
  shows "eth_header dst src (junk @ rest) = (dst @ src @ [0x08, 0x00]) @ rest"
  using assms by (simp add: eth_header_def poke_def)

lemma poke_after: "length xs \<le> off \<Longrightarrow> poke off ys (xs @ zs) = xs @ poke (off - length xs) ys zs"
  by (simp add: poke_def)

lemma ip_fields:
  "poke 10 [0, 0] (poke 2 (htons (word_of_nat (20 + 8 + len))) (poke 16 (htonl dst)
     (poke 12 (htonl src) (poke 9 [PROT_UDP] (poke 8 [255] (poke 0 [0x45] (replicate 20 0)))))))
   = ip_bytes src dst len [0, 0]"
  by (simp add: poke_def ip_bytes_def) (simp add: numeral_eq_Suc)

lemma poke_check:
  "length d = 2 \<Longrightarrow> length c = 2 \<Longrightarrow> poke 10 c (ip_bytes src dst len d) = ip_bytes src dst len c"
  by (simp add: poke_def ip_bytes_def)

lemma ip_header_buf:
  assumes "length eth = 14" and "length junk = 20"
  shows "ip_header src dst len (eth @ junk @ rest) =
    eth @ ip_bytes src dst len (ip_check src dst len) @ rest"
proof -
  have in_eth: "14 \<le> off \<Longrightarrow> poke off ys (eth @ zs) = eth @ poke (off - 14) ys zs" for off ys zs
    using assms(1) poke_after [of eth off ys zs] by simp
  have in_hdr: "length h = 20 \<Longrightarrow> off + length ys \<le> 20 \<Longrightarrow> poke off ys (h @ rest) = poke off ys h @ rest" for h off ys
    by (simp add: poke_def)
  have zero: "poke 0 (replicate 20 0) (junk @ rest) = replicate 20 0 @ rest"
    using assms(2) by (simp add: poke_def)
  have len: "length (ip_bytes src dst len c) = 20" if "length c = 2" for c
    using that by (simp add: ip_bytes_def)
  have hdr: "take 20 (drop 14 (eth @ ip_bytes src dst len [0, 0] @ rest)) = ip_bytes src dst len [0, 0]"
    using assms(1) len [of "[0, 0]"] by simp
  let ?b = "eth @ ip_bytes src dst len [0, 0] @ rest"
  have b8: "poke 24 [0, 0] (poke 16 (htons (word_of_nat (20 + 8 + len))) (poke 30 (htonl dst)
      (poke 26 (htonl src) (poke 23 [PROT_UDP] (poke 22 [255] (poke 14 [0x45]
        (poke 14 (replicate 20 0) (eth @ junk @ rest)))))))) = ?b"
    unfolding ip_fields [symmetric] by (simp add: in_eth zero in_hdr)
  have chk: "poke 24 c (eth @ ip_bytes src dst len d @ rest) = eth @ ip_bytes src dst len c @ rest"
    if "length c = 2" "length d = 2" for c d
    using that len [of d] by (simp add: in_eth in_hdr poke_check)
  show ?thesis
    unfolding ip_header_def Let_def b8 hdr ip_check_def
    by (simp add: chk del: le_bytes_numeral)
qed

lemma udp_header_buf:
  assumes "length hdrs = 34" and "length junk = 8"
  shows "udp_header port len (hdrs @ junk @ rest) =
    hdrs @ (htons UDP_PORT @ htons port @ htons (word_of_nat (8 + len)) @ [0, 0]) @ rest"
  using assms by (simp add: udp_header_def poke_def)

text \<open>The whole frame a sent UDP payload makes.\<close>

definition udp_frame :: "bytes \<Rightarrow> bytes \<Rightarrow> u32 \<Rightarrow> u32 \<Rightarrow> u16 \<Rightarrow> bytes \<Rightarrow> bytes" where
  "udp_frame dst src src_ip dst_ip port payload =
     (dst @ src @ [0x08, 0x00]) @
     ip_bytes src_ip dst_ip (length payload) (ip_check src_ip dst_ip (length payload)) @
     (htons UDP_PORT @ htons port @ htons (word_of_nat (8 + length payload)) @ [0, 0]) @
     payload @ replicate (18 - length payload) 0"

lemma send_udp_packet_frame:
  assumes "length (m_partner_eth s) = 6" and "length my_eth = 6" and "length payload \<le> 2006"
  shows "send_udp_packet my_eth addr port payload s =
    Inr (s\<lparr>sent := sent s @ [udp_frame (m_partner_eth s) my_eth (m_my_ip s) addr port payload]\<rparr>)"
proof -
  let ?eth = "m_partner_eth s @ my_eth @ [0x08, 0x00]"
  let ?ip = "ip_bytes (m_my_ip s) addr (length payload) (ip_check (m_my_ip s) addr (length payload))"
  let ?udp = "htons UDP_PORT @ htons port @ htons (word_of_nat (8 + length payload)) @ [0, 0]"
  have ip20: "length ?ip = 20" by (simp add: ip_bytes_def ip_check_def Let_def)
  have split: "replicate BUF_SIZE 0 = replicate 14 0 @ replicate 20 0 @ replicate 8 0 @ replicate 2006 (0 :: u8)"
    by (simp add: BUF_SIZE_def replicate_add [symmetric])
  have b2: "ip_header (m_my_ip s) addr (length payload) (eth_header (m_partner_eth s) my_eth (replicate BUF_SIZE 0))
      = (?eth @ ?ip) @ replicate 8 0 @ replicate 2006 0"
    unfolding split using assms(1,2)
    by (simp add: eth_header_buf ip_header_buf del: append_assoc)
  have b3: "udp_header port (length payload) ((?eth @ ?ip) @ replicate 8 0 @ replicate 2006 0) =
      (?eth @ ?ip) @ ?udp @ replicate 2006 0"
    using assms(1,2) ip20 by (intro udp_header_buf) simp_all
  have b4: "poke 42 payload ((?eth @ ?ip) @ ?udp @ replicate 2006 0) =
      (?eth @ ?ip @ ?udp) @ payload @ replicate (2006 - length payload) 0"
  proof -
    let ?h = "?eth @ ?ip @ ?udp"
    have "length ?h = 42" using assms ip20 by simp
    then have "poke 42 payload (?h @ replicate 2006 0) = ?h @ poke 0 payload (replicate 2006 0)"
      by (simp only: poke_after diff_self_eq_0 order_refl)
    also have "poke 0 payload (replicate 2006 0) = payload @ replicate (2006 - length payload) 0"
      by (simp add: poke_def)
    finally show ?thesis by (simp only: append_assoc)
  qed
  have tot: "(if 14 + 20 + 8 + length payload < 60 then 60 else 14 + 20 + 8 + length payload) =
      42 + (length payload + (18 - length payload))" by auto
  have "take (42 + (length payload + (18 - length payload))) ((?eth @ ?ip @ ?udp) @ payload @ replicate (2006 - length payload) 0)
      = udp_frame (m_partner_eth s) my_eth (m_my_ip s) addr port payload"
  proof -
    have "length (?eth @ ?ip @ ?udp) = 42" using assms ip20 by simp
    then have "take (42 + k) ((?eth @ ?ip @ ?udp) @ zs) = (?eth @ ?ip @ ?udp) @ take k zs" for k zs
      by (simp only: take_append) simp
    then show ?thesis using assms by (simp only: udp_frame_def) (simp add: min_def)
  qed
  then show ?thesis
    using assms(3) by (simp only: send_udp_packet_def Let_def b2 b3 b4 tot) (simp add: BUF_SIZE_def)
qed

lemma send_udp_packet_overflow:
  "2006 < length payload \<Longrightarrow> send_udp_packet my_eth addr port payload s = Inl Buffer_Overflow"
  by (simp add: send_udp_packet_def BUF_SIZE_def)

lemma send_udp_packet_cases:
  "(length payload \<le> 2006 \<and> (\<exists>f. send_udp_packet my_eth addr port payload s = Inr (s\<lparr>sent := sent s @ [f]\<rparr>))) \<or>
   (2006 < length payload \<and> send_udp_packet my_eth addr port payload s = Inl Buffer_Overflow)"
  by (auto simp: send_udp_packet_def BUF_SIZE_def Let_def)

section \<open>Requests for the memory server\<close>

text \<open>
  \<open>udp_to me dport data\<close>: the frame is an IPv4 UDP packet for address \<open>me\<close> and port \<open>dport\<close>
  without IP options, its UDP length counts \<open>n\<close> payload bytes and they are all in the frame.
\<close>

definition udp_to :: "u32 \<Rightarrow> u16 \<Rightarrow> bytes \<Rightarrow> nat \<Rightarrow> bool" where
  "udp_to me dport data n =
     (42 + n \<le> length data \<and> data ! 12 = 0x08 \<and> data ! 13 = 0x00 \<and>
      data ! 14 AND 0x0f = 5 \<and> data ! 23 = PROT_UDP \<and>
      ntohl (take 4 (drop 30 data)) = me \<and>
      ntohs (take 2 (drop 36 data)) = dport \<and>
      unat (ntohs (take 2 (drop 38 data))) = 8 + n)"

definition arrived :: "bytes \<Rightarrow> 'v rdma \<Rightarrow> 'v rdma" where
  "arrived data s = s\<lparr>m_partner_eth := take 6 (drop 6 data),
                      m_timing := (m_timing s)\<lparr>pkt := pkt (m_timing s) + 1\<rparr>\<rparr>"

lemma handle_packet_udp:
  assumes "udp_to (m_my_ip s) dport data n"
  shows "handle_packet J clk my_eth data s =
    handle_udp_packet J clk my_eth (ntohl (take 4 (drop 26 data))) data 34 (arrived data s)"
  using assms
  by (simp add: handle_packet_def handle_ip_packet_def udp_to_def peek_def arrived_def)

definition after_serve :: "timespec \<times> timespec \<Rightarrow> 'v \<Rightarrow> 'v rdma \<Rightarrow> 'v rdma" where
  "after_serve clk srv' s =
     s\<lparr>m_srv := srv',
       m_timing := (m_timing s)\<lparr>jvm_nsec := jvm_nsec (m_timing s) +
         word_of_int (1000000000 * (fst (snd clk) - fst (fst clk)) + (snd (snd clk) - snd (fst clk)))\<rparr>\<rparr>"

lemma handle_packet_request:
  assumes "udp_to (m_my_ip s) UDP_PORT data n"
    and "serve_call J (m_srv s) (take n (drop 42 data)) = (ret, srv')"
  shows "handle_packet J clk my_eth data s =
     (case ret of None \<Rightarrow> Inl Null_Reply | Some reply \<Rightarrow>
      case send_udp_packet my_eth (ntohl (take 4 (drop 26 data))) (ntohs (take 2 (drop 34 data))) reply
             (after_serve clk srv' (arrived data s)) of
          Inl e \<Rightarrow> Inl e | Inr s' \<Rightarrow> Inr (True, s'))"
proof -
  have "m_srv (arrived data s) = m_srv s" by (simp add: arrived_def)
  then show ?thesis
    using assms(2) assms(1)
    by (simp add: handle_packet_udp [OF assms(1)] handle_udp_packet_def handle_rdma_req_def udp_to_def
        after_serve_def Let_def split: prod.split option.split)
qed

lemma handle_arp_request:
  assumes "42 \<le> length data" and "data ! 12 = 0x08" and "data ! 13 = 0x06"
  shows "handle_packet J clk my_eth data s =
    (if ntohs (take 2 (drop 20 data)) = 1 \<and> take 4 (drop 38 data) = htonl (m_my_ip s)
     then Inr (True, s\<lparr>sent := sent s @ [arp_reply my_eth (m_my_ip s) data]\<rparr>)
     else Inr (False, s))"
  using assms by (simp add: handle_packet_def handle_arp_packet_def peek_def)

lemma arp_reply_bytes:
  assumes "42 \<le> length data" and "length my_eth = 6"
  shows "arp_reply my_eth ip data =
    take 6 (drop 6 data) @ my_eth @ take 8 (drop 12 data) @ htons 2 @ my_eth @ htonl ip @
    take 10 (drop 22 data)"
proof -
  obtain e1 e2 h op' sm tm rest where
    d: "data = e1 @ e2 @ h @ op' @ sm @ tm @ rest" and
    l: "length e1 = 6" "length e2 = 6" "length h = 8" "length op' = 2" "length sm = 10" "length tm = 10"
  proof (rule that [of "take 6 data" "take 6 (drop 6 data)" "take 8 (drop 12 data)" "take 2 (drop 20 data)"
        "take 10 (drop 22 data)" "take 10 (drop 32 data)" "drop 42 data"])
    show "data = take 6 data @ take 6 (drop 6 data) @ take 8 (drop 12 data) @ take 2 (drop 20 data) @
        take 10 (drop 22 data) @ take 10 (drop 32 data) @ drop 42 data"
      using append_take_drop_id [of 10 "drop 32 data"] append_take_drop_id [of 10 "drop 22 data"]
        append_take_drop_id [of 2 "drop 20 data"] append_take_drop_id [of 8 "drop 12 data"]
        append_take_drop_id [of 6 "drop 6 data"] append_take_drop_id [of 6 data]
      by (simp del: append_take_drop_id)
  qed (use assms in simp_all)
  have "poke 32 (take 10 (drop 22 data)) data = e1 @ e2 @ h @ op' @ sm @ sm @ rest"
    unfolding d using l by (simp add: poke_def)
  moreover have "poke 20 (htons 2) (e1 @ e2 @ h @ op' @ sm @ sm @ rest) = e1 @ e2 @ h @ htons 2 @ sm @ sm @ rest"
    using l by (simp add: poke_def)
  moreover have "poke 28 (htonl ip) (poke 22 my_eth (e1 @ e2 @ h @ htons 2 @ sm @ sm @ rest)) =
      e1 @ e2 @ h @ htons 2 @ my_eth @ htonl ip @ sm @ rest"
    using l assms(2) by (simp add: poke_def)
  moreover have "poke 6 my_eth (poke 0 e2 (e1 @ e2 @ h @ htons 2 @ my_eth @ htonl ip @ sm @ rest)) =
      e2 @ my_eth @ h @ htons 2 @ my_eth @ htonl ip @ sm @ rest"
    using l assms(2) by (simp add: poke_def)
  moreover have "take 6 (drop 6 (e1 @ e2 @ h @ htons 2 @ my_eth @ htonl ip @ sm @ rest)) = e2"
    using l by simp
  ultimately have "arp_reply my_eth ip data = take 42 (e2 @ my_eth @ h @ htons 2 @ my_eth @ htonl ip @ sm @ rest)"
    by (simp add: arp_reply_def)
  also have "\<dots> = e2 @ my_eth @ h @ htons 2 @ my_eth @ htonl ip @ sm"
    using l assms(2) by simp
  finally show ?thesis unfolding d using l by simp
qed

section \<open>Interception and faults\<close>

text \<open>
  \<open>frame_ok me data\<close>: the headers the code looks at are inside the frame, and for a memory
  request the UDP length is inside it too. \<open>memory_request\<close>: the frame is one for the server, which gets
  \<open>request_payload\<close>.
\<close>

definition udp_start :: "bytes \<Rightarrow> nat" where
  "udp_start data = 14 + 4 * unat (data ! 14 AND 0x0f)"

definition udp_for :: "u32 \<Rightarrow> bytes \<Rightarrow> bool" where
  "udp_for me data \<longleftrightarrow>
     data ! 12 = 0x08 \<and> data ! 13 = 0x00 \<and> ntohl (take 4 (drop 30 data)) = me \<and> data ! 23 = PROT_UDP"

definition memory_request :: "u32 \<Rightarrow> bytes \<Rightarrow> bool" where
  "memory_request me data \<longleftrightarrow> udp_for me data \<and> ntohs (take 2 (drop (udp_start data + 2) data)) = UDP_PORT"

definition udp_length :: "bytes \<Rightarrow> nat" where
  "udp_length data = unat (ntohs (take 2 (drop (udp_start data + 4) data)))"

definition request_payload :: "bytes \<Rightarrow> bytes" where
  "request_payload data = take (udp_length data - 8) (drop (udp_start data + 8) data)"

definition frame_ok :: "u32 \<Rightarrow> bytes \<Rightarrow> bool" where
  "frame_ok me data \<longleftrightarrow>
     42 \<le> length data \<and>
     (udp_for me data \<longrightarrow> udp_start data + 8 \<le> length data) \<and>
     (memory_request me data \<longrightarrow> 8 \<le> udp_length data \<and> udp_start data + udp_length data \<le> length data)"

lemma send_ok:
  "length payload \<le> 2006 \<Longrightarrow> \<exists>f. send_udp_packet my_eth addr port payload s = Inr (s\<lparr>sent := sent s @ [f]\<rparr>)"
  using send_udp_packet_cases [of payload my_eth addr port s] by auto

lemma length_timing_bytes [simp]: "length (timing_bytes t) = 48"
  by (simp add: timing_bytes_def)

text \<open>What becomes of the request when the server is called.\<close>

lemma handle_rdma_req_fault:
  assumes "off + k \<le> length data"
  shows "handle_rdma_req J clk my_eth a p data off (int k) s = Inl e \<longleftrightarrow>
    (case fst (serve_call J (m_srv s) (take k (drop off data))) of
       None \<Rightarrow> e = Null_Reply | Some reply \<Rightarrow> 2006 < length reply \<and> e = Buffer_Overflow)"
proof -
  obtain ret v where r: "serve_call J (m_srv s) (take k (drop off data)) = (ret, v)" by fastforce
  show ?thesis
  proof (cases ret)
    case (Some reply)
    then have "handle_rdma_req J clk my_eth a p data off (int k) s = send_udp_packet my_eth a p reply (after_serve clk v s)"
      using assms r by (simp add: handle_rdma_req_def after_serve_def Let_def split: prod.split)
    then show ?thesis using Some r send_udp_packet_cases [of reply my_eth a p "after_serve clk v s"] by auto
  qed (use assms r in \<open>auto simp: handle_rdma_req_def Let_def split: prod.split\<close>)
qed

lemma handle_udp_packet_fault:
  assumes "off + 8 \<le> length data"
  defines "n \<equiv> unat (ntohs (take 2 (drop (off + 4) data)))"
  assumes "ntohs (take 2 (drop (off + 2) data)) = UDP_PORT \<longrightarrow> 8 \<le> n \<and> off + n \<le> length data"
  shows "handle_udp_packet J clk my_eth a data off s = Inl e \<longleftrightarrow>
    ntohs (take 2 (drop (off + 2) data)) = UDP_PORT \<and>
    (case fst (serve_call J (m_srv s) (take (n - 8) (drop (off + 8) data))) of
       None \<Rightarrow> e = Null_Reply | Some reply \<Rightarrow> 2006 < length reply \<and> e = Buffer_Overflow)"
proof (cases "ntohs (take 2 (drop (off + 2) data)) = UDP_PORT")
  case True
  then have n: "8 \<le> n" "off + n \<le> length data" using assms(3) by auto
  then have "int n - 8 = int (n - 8)" "off + 8 + (n - 8) \<le> length data" by simp_all
  note f = handle_rdma_req_fault [OF this(2), folded this(1)]
  show ?thesis
    using True assms(1) f [of J clk my_eth a "ntohs (take 2 (drop off data))" s e]
    by (auto simp: handle_udp_packet_def n_def split: sum.splits)
next
  case False
  let ?s = "update_mem_stats J s"
  have "length (timing_bytes (m_timing ?s)) \<le> 2006" by simp
  from send_ok [OF this, of my_eth a "ntohs (take 2 (drop off data))" ?s]
  have "\<exists>s'. send_udp_packet my_eth a (ntohs (take 2 (drop off data))) (timing_bytes (m_timing ?s)) ?s = Inr s'"
    by blast
  with False assms(1) show ?thesis by (auto simp: handle_udp_packet_def Let_def)
qed

lemma handle_packet_fault:
  assumes "frame_ok (m_my_ip s) data"
  shows "handle_packet J clk my_eth data s = Inl e \<longleftrightarrow>
    memory_request (m_my_ip s) data \<and>
    (case fst (serve_call J (m_srv s) (request_payload data)) of
       None \<Rightarrow> e = Null_Reply | Some reply \<Rightarrow> 2006 < length reply \<and> e = Buffer_Overflow)"
proof (cases "udp_for (m_my_ip s) data")
  case True
  let ?s = "arrived data s"
  have "handle_packet J clk my_eth data s =
      handle_udp_packet J clk my_eth (ntohl (take 4 (drop 26 data))) data (udp_start data) ?s"
    using True assms by (simp add: handle_packet_def handle_ip_packet_def peek_def frame_ok_def udp_for_def
        udp_start_def arrived_def)
  moreover have "m_srv ?s = m_srv s" by (simp add: arrived_def)
  ultimately show ?thesis
    using True assms handle_udp_packet_fault [of "udp_start data" data J clk my_eth _ ?s e]
    by (simp add: frame_ok_def memory_request_def request_payload_def udp_length_def)
next
  case False
  then have "\<exists>r. handle_packet J clk my_eth data s = Inr r"
    using assms by (auto simp: handle_packet_def handle_ip_packet_def handle_arp_packet_def peek_def frame_ok_def
        udp_for_def Let_def split: option.splits)
  then show ?thesis using False by (auto simp: memory_request_def)
qed

lemma send_udp_packet_Inr:
  "send_udp_packet my_eth addr port payload s = Inr s' \<Longrightarrow> \<exists>f. s' = s\<lparr>sent := sent s @ [f]\<rparr>"
  using send_udp_packet_cases [of payload my_eth addr port s] by auto

lemma handle_rdma_req_sends:
  "handle_rdma_req J clk my_eth a p data off len s = Inr s' \<Longrightarrow>
   m_my_ip s' = m_my_ip s \<and> (\<exists>f. sent s' = sent s @ [f])"
  by (auto simp: handle_rdma_req_def Let_def dest!: send_udp_packet_Inr
      split: if_splits option.splits prod.splits)

lemma handle_udp_packet_sends:
  "handle_udp_packet J clk my_eth a data off s = Inr (b, s') \<Longrightarrow>
   m_my_ip s' = m_my_ip s \<and> (if b then \<exists>f. sent s' = sent s @ [f] else s' = s)"
  by (auto simp: handle_udp_packet_def Let_def update_mem_stats_def
      dest!: handle_rdma_req_sends send_udp_packet_Inr
      split: if_splits option.splits sum.splits)

lemma handle_packet_intercepts:
  assumes "handle_packet J clk my_eth data s = Inr (b, s')"
  shows "m_my_ip s' = m_my_ip s \<and>
    (if b then \<exists>f. sent s' = sent s @ [f] else sent s' = sent s \<and> m_srv s' = m_srv s)"
  using assms
  by (auto simp: handle_packet_def handle_ip_packet_def handle_arp_packet_def Let_def
      split: if_splits option.splits dest!: handle_udp_packet_sends)

section \<open>Properties\<close>

text \<open>
  C34. The checksum routine computes the one's complement sum of its 16 bit words, whatever the
  length and contents of the data.
\<close>

theorem checksum_is_ones_complement: "unat (checksum bs 0) = ones_complement (word_sum bs)"
  by (rule checksum_ones)

lemma udp_frame_parses:
  fixes a b :: u32 and port :: u16
  assumes "length dst = 6" and "length src = 6" and "length payload \<le> 2006"
  defines "f \<equiv> udp_frame dst src a b port payload"
  shows "udp_to b port f (length payload)" and "take (length payload) (drop 42 f) = payload"
    and "unat (checksum (take 20 (drop 14 f)) 0) = 0xffff" and "60 \<le> length f"
proof -
  let ?ip = "ip_bytes a b (length payload) (ip_check a b (length payload))"
  let ?udp = "htons UDP_PORT @ htons port @ htons (word_of_nat (8 + length payload)) @ [0, 0]"
  have c: "length (ip_check a b (length payload)) = 2" by (simp add: ip_check_def Let_def)
  have ip: "length ?ip = 20" by (simp add: ip_bytes_def c)
  have f: "f = (dst @ src @ [0x08, 0x00]) @ ?ip @ ?udp @ payload @ replicate (18 - length payload) 0"
    by (simp only: f_def udp_frame_def)
  have n: "unat (word_of_nat (8 + length payload) :: u16) = 8 + length payload"
    using assms(3) by (simp add: unat_of_nat del: of_nat_add)
  show "take (length payload) (drop 42 f) = payload" "60 \<le> length f"
    using assms(1,2) ip by (simp_all add: f)
  have "take 20 (drop 14 f) = ?ip" using assms(1,2) ip by (simp add: f)
  then show "unat (checksum (take 20 (drop 14 f)) 0) = 0xffff" using ip_check_verifies by simp
  have d: "drop 14 f = ?ip @ ?udp @ payload @ replicate (18 - length payload) 0" using assms(1,2) by (simp add: f)
  have nths: "f ! (14 + k) = ?ip ! k" if "k < 20" for k
    using that ip assms(1,2) by (simp add: f nth_append)
  show "udp_to b port f (length payload)"
    unfolding udp_to_def
  proof (intro conjI)
    show "42 + length payload \<le> length f" using assms(1,2) ip by (simp add: f)
    show "f ! 12 = 0x08" "f ! 13 = 0x00" using assms(1,2) by (simp_all add: f nth_append)
    show "f ! 14 AND 0x0f = 5" using nths [of 0] by (simp add: ip_bytes_def)
    show "f ! 23 = PROT_UDP" using nths [of 9] by (simp add: ip_bytes_def nth_append)
    have "take 4 (drop 30 f) = take 4 (drop 16 (drop 14 f))" by simp
    also have "\<dots> = htonl b" by (simp only: d) (simp add: ip_bytes_def c)
    finally show "ntohl (take 4 (drop 30 f)) = b" by simp
    have u: "drop 34 f = ?udp @ payload @ replicate (18 - length payload) 0" using assms(1,2) ip by (simp add: f)
    have "take 2 (drop 36 f) = take 2 (drop 2 (drop 34 f))" "take 2 (drop 38 f) = take 2 (drop 4 (drop 34 f))" by simp_all
    then show "ntohs (take 2 (drop 36 f)) = port" "unat (ntohs (take 2 (drop 38 f))) = 8 + length payload"
      using n by (simp_all only: u) simp_all
  qed
qed

lemma udp_to_request:
  assumes "udp_to me UDP_PORT data n"
  shows "frame_ok me data" "memory_request me data" "request_payload data = take n (drop 42 data)"
  using assms by (simp_all add: udp_to_def frame_ok_def memory_request_def udp_for_def udp_start_def udp_length_def
      request_payload_def)

text \<open>
  C35. A reply that fits is sent as one frame that the other side parses: an IPv4 UDP packet for the
  requester's address and port whose header checksum verifies, carrying the payload, and at least
  as long as the shortest Ethernet frame.
\<close>

theorem sent_frame_parses:
  assumes "length (m_partner_eth s) = 6" and "length my_eth = 6" and "length payload \<le> 2006"
  shows "\<exists>f. send_udp_packet my_eth addr port payload s = Inr (s\<lparr>sent := sent s @ [f]\<rparr>) \<and>
    udp_to addr port f (length payload) \<and> take (length payload) (drop 42 f) = payload \<and>
    unat (checksum (take 20 (drop 14 f)) 0) = 0xffff \<and> 60 \<le> length f"
  using send_udp_packet_frame [OF assms, of addr port]
    udp_frame_parses [OF assms, where a = "m_my_ip s" and b = addr and port = port] by blast

lemma sent_frame_parses_witness:
  "\<exists>f. send_udp_packet [2, 0, 0, 0, 0, 1] 0x0a000001 40000 [1, 2, 3] (new_rdma () [2, 0, 0, 0, 0, 9]) =
      Inr ((new_rdma () [2, 0, 0, 0, 0, 9])\<lparr>sent := sent (new_rdma () [2, 0, 0, 0, 0, 9]) @ [f]\<rparr>) \<and>
    udp_to 0x0a000001 40000 f (length [1, 2, 3 :: u8]) \<and> take (length [1, 2, 3 :: u8]) (drop 42 f) = [1, 2, 3] \<and>
    unat (checksum (take 20 (drop 14 f)) 0) = 0xffff \<and> 60 \<le> length f"
  by (rule sent_frame_parses) (simp_all add: new_rdma_def)

text \<open>
  The 2048 byte frame buffer of a reply overflows exactly when the payload is longer than 2006
  bytes; the code makes no check, and a request can ask for such a reply.
\<close>

theorem reply_overflow_iff:
  "send_udp_packet my_eth addr port payload s = Inl Buffer_Overflow \<longleftrightarrow> 2006 < length payload"
  using send_udp_packet_cases [of payload my_eth addr port s] by auto

text \<open>A server for the examples, which answers with the start of the request.\<close>

definition echo_jvm :: "unit jvm" where
  "echo_jvm = \<lparr>serve_call = (\<lambda>v req. (Some (take 4 req), v)), stat_call = (\<lambda>_ _. 0)\<rparr>"

text \<open>
  The UDP length of a memory request is trusted: below 8 it makes a negative array length, and
  beyond the end of the frame a read past it.
\<close>

theorem udp_length_is_trusted:
  assumes "42 \<le> length data" and "data ! 12 = 0x08" "data ! 13 = 0x00" "data ! 14 AND 0x0f = 5" "data ! 23 = PROT_UDP"
    and "ntohl (take 4 (drop 30 data)) = m_my_ip s" and "ntohs (take 2 (drop 36 data)) = UDP_PORT"
  defines "n \<equiv> unat (ntohs (take 2 (drop 38 data)))"
  shows "(n < 8 \<longrightarrow> handle_packet J clk my_eth data s = Inl Negative_Length) \<and>
    (8 \<le> n \<and> length data < 34 + n \<longrightarrow> handle_packet J clk my_eth data s = Inl Out_Of_Bounds)"
proof -
  have "handle_packet J clk my_eth data s =
    handle_udp_packet J clk my_eth (ntohl (take 4 (drop 26 data))) data 34 (arrived data s)"
    using assms by (simp add: handle_packet_def handle_ip_packet_def peek_def arrived_def)
  moreover have "peeks data 42 (nat (int n - 8)) = None" if "8 \<le> n" "length data < 34 + n"
    using that by (simp add: peeks_None_iff)
  ultimately show ?thesis
    using assms(1,7) by (auto simp: handle_udp_packet_def handle_rdma_req_def n_def [symmetric])
qed

definition short_request :: bytes where
  "short_request = replicate 12 0 @ [0x08, 0x00, 0x45] @ replicate 8 0 @ [PROT_UDP] @ replicate 6 0 @
     htonl 0x0a000002 @ [0, 0] @ htons UDP_PORT @ htons 4 @ [0, 0]"

lemma udp_length_is_trusted_witness:
  "handle_packet echo_jvm ((0, 0), (0, 5)) [2, 0, 0, 0, 0, 1] short_request (new_rdma () []) = Inl Negative_Length"
proof -
  have l: "unat (ntohs (take 2 (drop 38 short_request))) = 4"
    by (simp add: short_request_def)
  show ?thesis
    using udp_length_is_trusted [of short_request "new_rdma () []" echo_jvm "((0, 0), (0, 5))" "[2, 0, 0, 0, 0, 1]"] l
    by (simp add: short_request_def new_rdma_def nth_append)
qed

text \<open>
  An ARP request for the interceptor's address is answered with the frame that has the
  requester as destination and target and the card as source and sender; every other ARP packet is
  left to the card.
\<close>

theorem arp_request_answered:
  assumes "42 \<le> length data" and "data ! 12 = 0x08" "data ! 13 = 0x06" and "length my_eth = 6"
  shows "handle_packet J clk my_eth data s =
    (if ntohs (take 2 (drop 20 data)) = 1 \<and> take 4 (drop 38 data) = htonl (m_my_ip s)
     then Inr (True, s\<lparr>sent := sent s @ [take 6 (drop 6 data) @ my_eth @ take 8 (drop 12 data) @ htons 2 @
            my_eth @ htonl (m_my_ip s) @ take 10 (drop 22 data)]\<rparr>)
     else Inr (False, s))"
  unfolding handle_arp_request [OF assms(1-3)] arp_reply_bytes [OF assms(1,4)] by (rule refl)

lemma arp_request_answered_witness:
  "handle_packet echo_jvm ((0, 0), (0, 5)) [2, 0, 0, 0, 0, 1]
     (replicate 6 0xff @ [2, 0, 0, 0, 0, 9, 0x08, 0x06, 0, 1, 8, 0, 6, 4, 0, 1, 2, 0, 0, 0, 0, 9, 10, 0, 0, 1,
      0, 0, 0, 0, 0, 0, 10, 0, 0, 2]) (new_rdma () []) =
   Inr (True, (new_rdma () [])\<lparr>sent := [[2, 0, 0, 0, 0, 9, 2, 0, 0, 0, 0, 1, 0x08, 0x06, 0, 1, 8, 0, 6, 4, 0, 2,
      2, 0, 0, 0, 0, 1, 10, 0, 0, 2, 2, 0, 0, 0, 0, 9, 10, 0, 0, 1]]\<rparr>)"
proof -
  have ip: "htonl (m_my_ip (new_rdma () [])) = [10, 0, 0, 2]" and e: "sent (new_rdma () []) = []"
    by (simp_all add: new_rdma_def htonl_def be_bytes_def)
  have "ntohs [0, 1] = 1" "htons 2 = [0, 2]" by (simp_all add: ntohs_def htons_def be_bytes_def be_nat_def)
  then show ?thesis
    by (subst arp_request_answered) (simp_all add: ip e numeral_eq_Suc)
qed

end
