(* ===== verification/Ne2k_Card.thy ===== *)
theory Ne2k_Card
  imports Ne2k_Ring Active_RDMA
begin

text \<open>
  The card as a whole: the command register, transmission, the port handlers, the PCI configuration
  space and the receive callback that asks the memory server first. The operations together are a
  step relation; every reachable card asserts its interrupt line while an unmasked event is pending.
\<close>

unbundle bit_operations_syntax

section \<open>The command register\<close>

definition mem_index :: "u8 \<Rightarrow> int" where
  "mem_index page = uint page * 256 - int MEMSTART"

text \<open>Everything of the packet memory from an index on, as a pointer to it sees it.\<close>

definition mem_from :: "int \<Rightarrow> ne2k \<Rightarrow> bytes" where
  "mem_from i s = block (mem s) (nat i) (MEMSIZ - nat i)"

definition cr_safe :: "u32 \<Rightarrow> u32" where
  "cr_safe v = (if v AND 0x38 = 0 then v OR 0x20 else v)"

definition cr_fields :: "u32 \<Rightarrow> ne2k \<Rightarrow> ne2k" where
  "cr_fields v s =
     (let s1 = (if bit v 0
                then s\<lparr>ISR := (ISR s)\<lparr>ISR_reset := True\<rparr>, CR := (CR s)\<lparr>CR_stop := True\<rparr>\<rparr>
                else s\<lparr>CR := (CR s)\<lparr>CR_stop := False\<rparr>\<rparr>);
          s2 = s1\<lparr>CR := (CR s1)\<lparr>CR_rdma_cmd := ucast (drop_bit 3 (v AND 0x38))\<rparr>\<rparr>;
          s3 = (if bit v 1 \<and> \<not> CR_start (CR s2) then s2\<lparr>ISR := (ISR s2)\<lparr>ISR_reset := False\<rparr>\<rparr> else s2)
      in s3\<lparr>CR := (CR s3)\<lparr>CR_start := bit v 1, CR_pgsel := ucast (drop_bit 6 (v AND 0xc0))\<rparr>\<rparr>)"

text \<open>Remote DMA command 3: read the packet at the boundary page.\<close>

definition cr_send_packet :: "ne2k \<Rightarrow> ne2k" where
  "cr_send_packet s =
     (if CR_rdma_cmd (CR s) = 3 then
        let a = push_bit 8 (ucast (bound_ptr s));
            i = mem_index (bound_ptr s) + 2;
            s1 = s\<lparr>remote_start := a, remote_dma := a\<rparr>
        in if 0 \<le> i \<and> i + 2 \<le> int MEMSIZ
           then s1\<lparr>remote_bytes := word_of_nat (le_nat (block (mem s1) (nat i) 2))\<rparr>
           else emit (Bad_Read i 2) s1
      else s)"

definition cr_loopback :: "ne2k \<Rightarrow> ne2k" where
  "cr_loopback s =
     (if TCR_loop_cntl (TCR s) \<noteq> 1 then s
      else let i = mem_index (tx_page_start s) in
           if 0 \<le> i \<and> i \<le> int MEMSIZ then rx_frame (mem_from i s) (unat (tx_bytes s)) s
           else emit (Bad_Read i (unat (tx_bytes s))) s)"

definition tx_microseconds :: "u16 \<Rightarrow> nat" where
  "tx_microseconds n = (64 + 96 + 4 * 8 + unat n * 8) div 10"

definition cr_transmit :: "ne2k \<Rightarrow> ne2k" where
  "cr_transmit s =
     (let s1 = (if CR_stop (CR s) \<or> (\<not> CR_start (CR s) \<and> \<not> pci_enabled s)
                then emit (Panic ''CR write - tx start, dev in reset'') s else s);
          s2 = (if tx_bytes s1 = 0 then emit (Panic ''CR write - tx start, tx bytes == 0'') s1 else s1);
          s3 = s2\<lparr>CR := (CR s2)\<lparr>CR_tx_packet := True\<rparr>\<rparr>;
          i = mem_index (tx_page_start s3);
          n = unat (tx_bytes s3);
          s4 = (if 0 \<le> i \<and> i + int n \<le> int MEMSIZ then emit (Send_Pkt (block (mem s3) (nat i) n)) s3
                else emit (Bad_Read i n) s3)
      in (emit (Start_Tx_Timer (tx_microseconds (tx_bytes s4))) s4)\<lparr>tx_timer_active := True\<rparr>)"

text \<open>The zero-length remote read by which Linux probes for an interrupt.\<close>

definition cr_probe :: "ne2k \<Rightarrow> ne2k" where
  "cr_probe s =
     (if CR_rdma_cmd (CR s) = 0x01 \<and> CR_start (CR s) \<and> remote_bytes s = 0 then
        let s1 = s\<lparr>ISR := (ISR s)\<lparr>ISR_rdma_done := True\<rparr>\<rparr> in
        if IMR_rdma_inte (IMR s1) then set_irq_level True s1 else s1
      else s)"

definition write_cr :: "u32 \<Rightarrow> ne2k \<Rightarrow> ne2k" where
  "write_cr v0 s =
     (let v = cr_safe v0;
          s1 = cr_send_packet (cr_fields v s)
      in if bit v 2 \<and> TCR_loop_cntl (TCR s1) \<noteq> 0 then cr_probe (cr_loopback s1)
         else if bit v 2 then
           if (CR_stop (CR s1) \<or> (\<not> CR_start (CR s1) \<and> \<not> pci_enabled s1)) \<and> tx_bytes s1 = 0
           then s1                                             \<comment> \<open>Solaris 9 probe\<close>
           else cr_probe (cr_transmit s1)
         else cr_probe s1)"

definition tx_timer :: "ne2k \<Rightarrow> ne2k" where
  "tx_timer s =
     (let s1 = s\<lparr>CR := (CR s)\<lparr>CR_tx_packet := False\<rparr>, TSR := (TSR s)\<lparr>TSR_tx_ok := True\<rparr>\<rparr>;
          s2 = (if IMR_tx_inte (IMR s1) \<and> \<not> ISR_pkt_tx (ISR s1)
                then set_irq_level True (s1\<lparr>ISR := (ISR s1)\<lparr>ISR_pkt_tx := True\<rparr>\<rparr>) else s1)
      in s2\<lparr>tx_timer_active := False\<rparr>)"

section \<open>The port handlers\<close>

definition ne2k_read :: "u32 \<Rightarrow> nat \<Rightarrow> ne2k \<Rightarrow> u32 \<times> ne2k" where
  "ne2k_read address io_len s =
     (let offset = address - base_address s in
      if 0x10 \<le> sint offset then asic_read (offset - 0x10) io_len s
      else if offset = 0x00 then (read_cr s, s)
      else if CR_pgsel (CR s) = 0x00 then page0_read offset io_len s
      else if CR_pgsel (CR s) = 0x01 then page1_read offset io_len s
      else if CR_pgsel (CR s) = 0x02 then page2_read offset io_len s
      else if CR_pgsel (CR s) = 0x03 then page3_read offset io_len s
      else (0, emit (Panic ''ne2K: unknown value of pgsel in read'') s))"

definition ne2k_write :: "u32 \<Rightarrow> u32 \<Rightarrow> nat \<Rightarrow> ne2k \<Rightarrow> ne2k" where
  "ne2k_write address v io_len s =
     (let offset = address - base_address s in
      if 0x10 \<le> sint offset then asic_write (offset - 0x10) v io_len s
      else if offset = 0x00 then write_cr v s
      else if CR_pgsel (CR s) = 0x00 then page0_write offset v io_len s
      else if CR_pgsel (CR s) = 0x01 then page1_write offset v io_len s
      else if CR_pgsel (CR s) = 0x02 then page2_write offset v io_len s
      else if CR_pgsel (CR s) = 0x03 then page3_write offset v io_len s
      else emit (Panic ''ne2K: unknown value of pgsel in write'') s)"

section \<open>PCI configuration space\<close>

definition pci_read_handler :: "u8 \<Rightarrow> nat \<Rightarrow> ne2k \<Rightarrow> u32 \<times> ne2k" where
  "pci_read_handler address io_len s =
     (word_of_nat (le_nat (block (pci_conf s) (unat address) io_len)),
      if unat address + io_len \<le> 256 then s else emit (Bad_Read (int (unat address)) io_len) s)"

text \<open>
  \<open>pci_set_base_io\<close> of \<^verbatim>\<open>pci.cc\<close>, for the 32 ports of the card: the base address register is cut
  to the port range, and unless the guest is only sizing it (all ones) the handlers move.
\<close>

definition pci_set_base_io :: "ne2k \<Rightarrow> ne2k" where
  "pci_set_base_io s =
     (let mask = NOT (32 - 1 :: u16);
          c = pci_conf s;
          pci_flags = c 0x10 AND 0x03;
          c1 = c(0x10 := c 0x10 AND ucast (mask AND 0xfc), 0x11 := c 0x11 AND ucast (drop_bit 8 mask));
          newbase = word_of_nat (le_nat (block c1 0x10 4)) :: u32;
          c2 = c1(0x10 := c1 0x10 OR pci_flags);
          s1 = s\<lparr>pci_conf := c2\<rparr>
      in if newbase AND 0xfffc \<noteq> ucast mask \<and> newbase \<noteq> base_address s
         then (emit (Set_Base_Io (base_address s) newbase) s1)\<lparr>base_address := newbase\<rparr>
         else s1)"

definition pci_write_byte :: "nat \<Rightarrow> u8 \<Rightarrow> ne2k \<times> bool \<Rightarrow> ne2k \<times> bool" where
  "pci_write_byte a v sc =
     (let (s, change) = sc;
          oldval = pci_conf s a;
          put = (\<lambda>b. s\<lparr>pci_conf := (pci_conf s)(a := b)\<rparr>)
      in if 256 \<le> a then (emit (Bad_Copy (int a) 0 1) s, change)
         else if a = 0x05 \<or> a = 0x06 \<or> a = 0x3d then (s, change)
         else if a = 0x04 then (put (v AND 0x03), change)
         else if a = 0x3c then (if v \<noteq> oldval then put v else s, change)
         else if a = 0x10 then
           let v1 = (v AND 0xfc) OR 0x01 in (put v1, change \<or> v1 \<noteq> oldval)
         else if a = 0x11 \<or> a = 0x12 \<or> a = 0x13 then (put v, change \<or> v \<noteq> oldval)
         else (put v, change))"

definition pci_write_handler :: "u8 \<Rightarrow> u32 \<Rightarrow> nat \<Rightarrow> ne2k \<Rightarrow> ne2k" where
  "pci_write_handler address v io_len s =
     (if 0x13 < address \<and> address < 0x34 then s
      else let (s1, change) = fold (\<lambda>i. pci_write_byte (unat address + i) (ucast (drop_bit (i * 8) v AND 0xff)))
                                [0..<io_len] (s, False)
           in if change then pci_set_base_io s1 else s1)"

definition after_restore_state :: "ne2k \<Rightarrow> ne2k" where
  "after_restore_state s = (if pci_enabled s then pci_set_base_io s else s)"

section \<open>Initialisation\<close>

text \<open>
  The card's ROM: every byte of the address twice, then the signature. \<open>init\<close> configures the card
  on the PCI bus (\<open>Some dev\<close>, with the device number the bridge assigns) or on fixed ports.
\<close>

definition mac_rom :: "bytes \<Rightarrow> nat \<Rightarrow> u8" where
  "mac_rom mac = (\<lambda>i. if i < 12 then mac ! (i div 2) else if i < 32 then 0x57 else 0)"

definition pci_conf_init :: "nat \<Rightarrow> u8" where
  "pci_conf_init = (\<lambda>_. 0)(0x00 := 0xec, 0x01 := 0x10, 0x02 := 0x29, 0x03 := 0x80, 0x04 := 0x01,
     0x0a := 0x00, 0x0b := 0x02, 0x0e := 0x00, 0x10 := 0x01, 0x3d := 0x01)"

definition ne2k_init :: "bytes \<Rightarrow> u8 option \<Rightarrow> u32 \<Rightarrow> nat \<Rightarrow> ne2k \<Rightarrow> ne2k" where
  "ne2k_init mac pci ioaddr irq s =
     (case pci of
        Some dev \<Rightarrow> s\<lparr>pci_enabled := True, devfunc := dev, pci_conf := pci_conf_init, base_address := 0,
                      macaddr := mac_rom mac\<rparr>
      | None \<Rightarrow> s\<lparr>pci_enabled := False, base_address := ioaddr, base_irq := irq, macaddr := mac_rom mac\<rparr>)"

section \<open>The receive callback\<close>

definition rx_handler ::
    "'v jvm \<Rightarrow> timespec \<times> timespec \<Rightarrow> bytes \<Rightarrow> nat \<Rightarrow> ne2k \<times> 'v rdma \<Rightarrow> rdma_fault + ne2k \<times> 'v rdma" where
  "rx_handler J clk buf len sr =
     (let (s, r) = sr in
      case handle_packet J clk (physaddr s) (take len buf) r of
        Inl e \<Rightarrow> Inl e
      | Inr (True, r') \<Rightarrow> Inr (fold (\<lambda>f. emit (Send_Pkt f)) (drop (length (sent r)) (sent r')) s, r')
      | Inr (False, r') \<Rightarrow> Inr (rx_frame buf len s, r'))"

end
