(* ===== verification/Ne2k_Invariant.thy ===== *)
theory Ne2k_Invariant
  imports Ne2k_Card
begin

text \<open>
  The card as a transition system, and what every reachable card keeps: while an event is pending
  and not masked its interrupt line is high, its address registers have their length and its command
  register holds a page and a remote DMA command of their widths.
\<close>

unbundle bit_operations_syntax

section \<open>Pending events and the interrupt line\<close>

definition irq_due :: "ne2k \<Rightarrow> bool" where
  "irq_due s = (isr_pending (ISR s) AND imr_byte (IMR s) \<noteq> 0)"


definition isr_flags :: "ne2k_ISR \<Rightarrow> bool list" where
  "isr_flags r = [ISR_pkt_rx r, ISR_pkt_tx r, ISR_rx_err r, ISR_tx_err r, ISR_overwrite r, ISR_cnt_oflow r, ISR_rdma_done r]"

definition imr_flags :: "ne2k_IMR \<Rightarrow> bool list" where
  "imr_flags r = [IMR_rx_inte r, IMR_tx_inte r, IMR_rxerr_inte r, IMR_txerr_inte r, IMR_overw_inte r, IMR_cofl_inte r, IMR_rdma_inte r]"

lemma less_7: "n < 7 \<longleftrightarrow> n = 0 \<or> n = 1 \<or> n = 2 \<or> n = 3 \<or> n = 4 \<or> n = 5 \<or> n = (6 :: nat)"
  by auto

lemma ex_less_7: "(\<exists>n < 7. P n) \<longleftrightarrow> P 0 \<or> P 1 \<or> P 2 \<or> P 3 \<or> P 4 \<or> P 5 \<or> P (6 :: nat)"
  unfolding less_7 by (simp only: conj_disj_distribR ex_disj_distrib simp_thms)

lemma bit_isr_pending: "bit (isr_pending r) n \<longleftrightarrow> n < 7 \<and> isr_flags r ! n"
proof (cases "n < 7")
  case True
  then show ?thesis
    unfolding less_7 by (elim disjE) (simp_all add: isr_pending_def isr_flags_def bit_or_iff)
next
  case False
  then show ?thesis by (simp add: isr_pending_def bit_or_iff not_less)
qed

lemma bit_imr_byte: "bit (imr_byte r) n \<longleftrightarrow> n < 7 \<and> imr_flags r ! n"
proof (cases "n < 7")
  case True
  then show ?thesis
    unfolding less_7 by (elim disjE) (simp_all add: imr_byte_def imr_flags_def bit_or_iff)
next
  case False
  then show ?thesis by (simp add: imr_byte_def bit_or_iff not_less)
qed

lemma irq_due_flags: "irq_due s \<longleftrightarrow> (\<exists>n < 7. isr_flags (ISR s) ! n \<and> imr_flags (IMR s) ! n)"
proof -
  have "irq_due s \<longleftrightarrow> (\<exists>n. bit (isr_pending (ISR s) AND imr_byte (IMR s)) n)"
    using bit_imp_le_length by (fastforce simp: irq_due_def bit_eq_iff)
  then show ?thesis by (auto simp: bit_and_iff bit_isr_pending bit_imr_byte)
qed

lemma irq_due_iff:
  "irq_due s \<longleftrightarrow>
     ISR_pkt_rx (ISR s) \<and> IMR_rx_inte (IMR s) \<or> ISR_pkt_tx (ISR s) \<and> IMR_tx_inte (IMR s) \<or>
     ISR_rx_err (ISR s) \<and> IMR_rxerr_inte (IMR s) \<or> ISR_tx_err (ISR s) \<and> IMR_txerr_inte (IMR s) \<or>
     ISR_overwrite (ISR s) \<and> IMR_overw_inte (IMR s) \<or> ISR_cnt_oflow (ISR s) \<and> IMR_cofl_inte (IMR s) \<or>
     ISR_rdma_done (ISR s) \<and> IMR_rdma_inte (IMR s)"
  unfolding irq_due_flags ex_less_7 by (simp add: isr_flags_def imr_flags_def)

definition irq_inv :: "ne2k \<Rightarrow> bool" where
  "irq_inv s = (irq_due s \<longrightarrow> irq_line s)"

lemma irq_line_updates [simp]:
  "irq_line (CR_update g1 s) = irq_line s" "irq_line (ISR_update g2 s) = irq_line s"
  "irq_line (IMR_update g3 s) = irq_line s" "irq_line (DCR_update g4 s) = irq_line s"
  "irq_line (TCR_update g5 s) = irq_line s" "irq_line (TSR_update g6 s) = irq_line s"
  "irq_line (RCR_update g7 s) = irq_line s" "irq_line (RSR_update g8 s) = irq_line s"
  "irq_line (local_dma_update g9 s) = irq_line s" "irq_line (page_start_update g10 s) = irq_line s"
  "irq_line (page_stop_update g11 s) = irq_line s" "irq_line (bound_ptr_update g12 s) = irq_line s"
  "irq_line (tx_page_start_update g13 s) = irq_line s" "irq_line (num_coll_update g14 s) = irq_line s"
  "irq_line (tx_bytes_update g15 s) = irq_line s" "irq_line (fifo_update g16 s) = irq_line s"
  "irq_line (remote_dma_update g17 s) = irq_line s" "irq_line (remote_start_update g18 s) = irq_line s"
  "irq_line (remote_bytes_update g19 s) = irq_line s" "irq_line (tallycnt_0_update g20 s) = irq_line s"
  "irq_line (tallycnt_1_update g21 s) = irq_line s" "irq_line (tallycnt_2_update g22 s) = irq_line s"
  "irq_line (physaddr_update g23 s) = irq_line s" "irq_line (curr_page_update g24 s) = irq_line s"
  "irq_line (mchash_update g25 s) = irq_line s" "irq_line (rempkt_ptr_update g26 s) = irq_line s"
  "irq_line (localpkt_ptr_update g27 s) = irq_line s" "irq_line (address_cnt_update g28 s) = irq_line s"
  "irq_line (macaddr_update g29 s) = irq_line s" "irq_line (mem_update g30 s) = irq_line s"
  "irq_line (base_address_update g31 s) = irq_line s" "irq_line (base_irq_update g32 s) = irq_line s"
  "irq_line (tx_timer_active_update g33 s) = irq_line s" "irq_line (pci_enabled_update g34 s) = irq_line s"
  "irq_line (devfunc_update g35 s) = irq_line s" "irq_line (pci_conf_update g36 s) = irq_line s"
  by (simp_all add: irq_line_def)

lemma irq_inv_set: "irq_inv (set_irq_level True s)"
  by (simp add: irq_inv_def)

lemma set_irq_level_regs [simp]:
  "ISR (set_irq_level l s) = ISR s" "IMR (set_irq_level l s) = IMR s"
  by (simp_all add: set_irq_level_def emit_def)

lemma emit_regs [simp]: "ISR (emit e s) = ISR s" "IMR (emit e s) = IMR s"
  by (simp_all add: emit_def)

lemma irq_inv_cong:
  "ISR s' = ISR s \<Longrightarrow> IMR s' = IMR s \<Longrightarrow> irq_line s' = irq_line s \<Longrightarrow> irq_inv s' = irq_inv s"
  by (simp add: irq_inv_def irq_due_def)

fun quiet :: "ne2k_event \<Rightarrow> bool" where
  "quiet (Pic_Raise _) = False"
| "quiet (Pic_Lower _) = False"
| "quiet (Pci_Set_Irq _ _ _) = False"
| "quiet _ = True"

lemma irq_line_quiet [simp]: "quiet e \<Longrightarrow> irq_line (emit e s) = irq_line s"
  by (cases e) simp_all

lemma irq_inv_emit [simp]: "quiet e \<Longrightarrow> irq_inv (emit e s) = irq_inv s"
  by (rule irq_inv_cong) simp_all

text \<open>An update of fields that carry no interrupt state.\<close>

definition same_irq :: "ne2k \<Rightarrow> ne2k \<Rightarrow> bool" where
  "same_irq s s' = (ISR s' = ISR s \<and> IMR s' = IMR s \<and> irq_line s' = irq_line s)"

lemma same_irq_inv: "same_irq s s' \<Longrightarrow> irq_inv s \<Longrightarrow> irq_inv s'"
  using irq_inv_cong unfolding same_irq_def by blast

lemma same_irq_trans [trans]: "same_irq a b \<Longrightarrow> same_irq b c \<Longrightarrow> same_irq a c"
  by (simp add: same_irq_def)

lemma copy_in_same_irq [simp]: "same_irq s (copy_in d buf f n s)"
  by (simp add: same_irq_def copy_in_def)

lemma fetch_same_irq: "same_irq s (snd (fetch arr len i io_len s))"
  by (simp add: same_irq_def fetch_def)

lemma chipmem_read_same_irq: "same_irq s (snd (chipmem_read a io_len s))"
  using fetch_same_irq by (auto simp: chipmem_read_def Let_def same_irq_def)

lemma chipmem_write_same_irq: "same_irq s (chipmem_write a v io_len s)"
  using copy_in_same_irq by (auto simp: chipmem_write_def Let_def same_irq_def)

lemma irq_inv_reset: "irq_inv (ne2k_reset t s)"
  by (simp add: irq_inv_def irq_due_iff ne2k_reset_def isr_zero_def)

lemma irq_inv_finish:
  "irq_inv s \<Longrightarrow> irq_inv (finish_rdma s)"
  by (auto simp: finish_rdma_def Let_def irq_inv_def irq_due_iff)

lemma irq_inv_probe: "irq_inv s \<Longrightarrow> irq_inv (cr_probe s)"
  by (auto simp: cr_probe_def Let_def irq_inv_def irq_due_iff)

lemma irq_inv_tx_timer: "irq_inv s \<Longrightarrow> irq_inv (tx_timer s)"
  by (auto simp: tx_timer_def Let_def irq_inv_def irq_due_iff)

lemma irq_inv_signal: "irq_inv s \<Longrightarrow> irq_inv (rx_signal buf s)"
  by (auto simp: rx_signal_def Let_def irq_inv_def irq_due_iff)

lemma irq_inv_isr_write: "irq_inv s \<Longrightarrow> irq_inv (isr_write v s)"
proof -
  assume inv: "irq_inv s"
  let ?s = "s\<lparr>ISR := isr_clear v (ISR s)\<rparr>"
  have "irq_due ?s \<Longrightarrow> irq_due s" by (auto simp: irq_due_iff isr_clear_def)
  then have "irq_inv ?s" using inv by (auto simp: irq_inv_def)
  then show ?thesis by (auto simp: isr_write_def Let_def irq_inv_def irq_due_def)
qed

lemma imr_flags_of: "imr_flags (imr_of v) ! n = bit v n" if "n < 7"
  using that unfolding less_7 by (elim disjE) (simp_all add: imr_flags_def imr_of_def)

lemma imr_byte_of: "imr_byte (imr_of v) = v AND 0x7f"
proof -
  have "(0x7f :: u32) = mask 7" by (simp add: mask_eq_exp_minus_1)
  moreover have "imr_byte (imr_of v) = v AND mask 7"
    by (rule bit_word_eqI) (auto simp: bit_imr_byte imr_flags_of bit_and_iff bit_mask_iff)
  ultimately show ?thesis by simp
qed

lemma irq_inv_imr_write: "irq_inv (imr_write v s)"
  by (simp add: irq_inv_def irq_due_def imr_write_def Let_def imr_byte_of ac_simps)

lemma irq_inv_update:
  "irq_inv s \<Longrightarrow> (irq_due s' \<Longrightarrow> irq_due s) \<Longrightarrow> irq_line s' = irq_line s \<Longrightarrow> irq_inv s'"
  by (auto simp: irq_inv_def)

lemma irq_due_updates [simp]:
  "irq_due (s\<lparr>mem := m\<rparr>) = irq_due s" "irq_due (s\<lparr>remote_dma := a\<rparr>) = irq_due s"
  "irq_due (s\<lparr>remote_bytes := a\<rparr>) = irq_due s" "irq_due (s\<lparr>curr_page := p\<rparr>) = irq_due s"
  "irq_due (s\<lparr>CR := r1\<rparr>) = irq_due s" "irq_due (s\<lparr>TSR := r2\<rparr>) = irq_due s"
  "irq_due (s\<lparr>RSR := r3\<rparr>) = irq_due s" "irq_due (s\<lparr>tx_timer_active := b\<rparr>) = irq_due s"
  "irq_due (s\<lparr>pci_conf := c\<rparr>) = irq_due s" "irq_due (s\<lparr>base_address := d\<rparr>) = irq_due s"
  "irq_due (emit e s) = irq_due s"
  by (simp_all add: irq_due_def)

text \<open>Every interrupt event went to the line the card is wired to.\<close>

fun own_event :: "bool \<Rightarrow> nat \<Rightarrow> ne2k_event \<Rightarrow> bool" where
  "own_event pci line (Pic_Raise n) = (\<not> pci \<and> n = line)"
| "own_event pci line (Pic_Lower n) = (\<not> pci \<and> n = line)"
| "own_event pci line (Pci_Set_Irq _ _ _) = pci"
| "own_event pci line _ = True"

definition wired :: "ne2k \<Rightarrow> bool" where
  "wired s = list_all (own_event (pci_enabled s) (base_irq s)) (out s)"

lemma wired_updates [simp]:
  "wired (CR_update g1 s) = wired s" "wired (ISR_update g2 s) = wired s"
  "wired (IMR_update g3 s) = wired s" "wired (DCR_update g4 s) = wired s"
  "wired (TCR_update g5 s) = wired s" "wired (TSR_update g6 s) = wired s"
  "wired (RCR_update g7 s) = wired s" "wired (RSR_update g8 s) = wired s"
  "wired (local_dma_update g9 s) = wired s" "wired (page_start_update g10 s) = wired s"
  "wired (page_stop_update g11 s) = wired s" "wired (bound_ptr_update g12 s) = wired s"
  "wired (tx_page_start_update g13 s) = wired s" "wired (num_coll_update g14 s) = wired s"
  "wired (tx_bytes_update g15 s) = wired s" "wired (fifo_update g16 s) = wired s"
  "wired (remote_dma_update g17 s) = wired s" "wired (remote_start_update g18 s) = wired s"
  "wired (remote_bytes_update g19 s) = wired s" "wired (tallycnt_0_update g20 s) = wired s"
  "wired (tallycnt_1_update g21 s) = wired s" "wired (tallycnt_2_update g22 s) = wired s"
  "wired (physaddr_update g23 s) = wired s" "wired (curr_page_update g24 s) = wired s"
  "wired (mchash_update g25 s) = wired s" "wired (rempkt_ptr_update g26 s) = wired s"
  "wired (localpkt_ptr_update g27 s) = wired s" "wired (address_cnt_update g28 s) = wired s"
  "wired (macaddr_update g29 s) = wired s" "wired (mem_update g30 s) = wired s"
  "wired (base_address_update g31 s) = wired s" "wired (tx_timer_active_update g32 s) = wired s"
  "wired (devfunc_update g33 s) = wired s" "wired (pci_conf_update g34 s) = wired s"
  by (simp_all add: wired_def)

lemma wired_set_irq [simp]: "wired (set_irq_level l s) = wired s"
  by (simp add: wired_def set_irq_level_def) (simp add: emit_def)

lemma wired_emit [simp]: "quiet e \<Longrightarrow> wired (emit e s) = wired s"
  by (cases e) (simp_all add: wired_def emit_def)

lemma wired_reset [simp]: "wired (ne2k_reset t s) = wired s"
  by (simp add: ne2k_reset_def ne2k_power_up_def)

definition nic_shape :: "ne2k \<Rightarrow> bool" where
  "nic_shape s = (length (physaddr s) = 6 \<and> length (mchash s) = 8 \<and>
                  unat (CR_pgsel (CR s)) < 4 \<and> unat (CR_rdma_cmd (CR s)) < 8)"

definition same_core :: "ne2k \<Rightarrow> ne2k \<Rightarrow> bool" where
  "same_core s s' = (same_irq s s' \<and> wired s' = wired s \<and> physaddr s' = physaddr s \<and> mchash s' = mchash s \<and>
     CR_pgsel (CR s') = CR_pgsel (CR s) \<and> CR_rdma_cmd (CR s') = CR_rdma_cmd (CR s))"

definition nic_ok :: "ne2k \<Rightarrow> bool" where
  "nic_ok s = (irq_inv s \<and> nic_shape s \<and> wired s)"

lemma nic_okI: "irq_inv s \<Longrightarrow> nic_shape s \<Longrightarrow> wired s \<Longrightarrow> nic_ok s"
  by (simp add: nic_ok_def)

lemma same_core_ok: "same_core s s' \<Longrightarrow> nic_ok s \<Longrightarrow> nic_ok s'"
  using same_irq_inv by (auto simp: same_core_def nic_ok_def nic_shape_def)

lemma nic_shape_set_irq [simp]: "nic_shape (set_irq_level l s) = nic_shape s"
  by (simp add: nic_shape_def set_irq_level_def emit_def)

lemma nic_shape_emit [simp]: "nic_shape (emit e s) = nic_shape s"
  by (simp add: nic_shape_def emit_def)

lemma nic_shape_updates [simp]:
  "nic_shape (s\<lparr>ISR := r\<rparr>) = nic_shape s" "nic_shape (s\<lparr>RSR := r1\<rparr>) = nic_shape s"
  "nic_shape (s\<lparr>TSR := r2\<rparr>) = nic_shape s" "nic_shape (s\<lparr>IMR := r3\<rparr>) = nic_shape s"
  "nic_shape (s\<lparr>tx_timer_active := b\<rparr>) = nic_shape s"
  by (simp_all add: nic_shape_def)

lemma nic_ok_emit: "quiet e \<Longrightarrow> nic_ok s \<Longrightarrow> nic_ok (emit e s)"
  by (simp add: nic_ok_def)

lemma same_core_emit: "quiet e \<Longrightarrow> same_core s (emit e s)"
  by (simp add: same_core_def same_irq_def) (simp add: emit_def)

lemma copy_in_core: "same_core s (copy_in d buf f n s)"
  by (simp add: copy_in_def same_core_emit) (simp add: same_core_def same_irq_def)

lemma fetch_core: "same_core s (snd (fetch arr len i io_len s))"
  by (simp add: fetch_def same_core_emit) (simp add: same_core_def same_irq_def)

lemma same_core_refl [simp]: "same_core s s"
  by (simp add: same_core_def same_irq_def)

lemma same_core_trans [trans]: "same_core a b \<Longrightarrow> same_core b c \<Longrightarrow> same_core a c"
  by (simp add: same_core_def same_irq_def)

lemma chipmem_read_core: "same_core s (snd (chipmem_read a io_len s))"
  unfolding chipmem_read_def Let_def
  by (auto intro: same_core_trans [OF same_core_emit fetch_core] fetch_core same_core_emit)

lemma chipmem_write_core: "same_core s (chipmem_write a v io_len s)"
  unfolding chipmem_write_def Let_def
  by (auto intro: same_core_trans [OF same_core_emit copy_in_core] copy_in_core same_core_emit)

lemma nic_ok_finish: "nic_ok s \<Longrightarrow> nic_ok (finish_rdma s)"
  using irq_inv_finish by (auto simp: nic_ok_def finish_rdma_def Let_def)

lemma bump_core: "same_core s ((bump_remote_dma n s)\<lparr>remote_bytes := k\<rparr>)"
  by (simp add: bump_remote_dma_def Let_def same_core_def same_irq_def)

lemma nic_shape_reset: "nic_shape s \<Longrightarrow> nic_shape (ne2k_reset t s)"
  by (simp add: ne2k_reset_def nic_shape_def ne2k_power_up_def set_irq_level_def emit_def)

lemma nic_ok_reset: "nic_shape s \<Longrightarrow> wired s \<Longrightarrow> nic_ok (ne2k_reset t s)"
  by (intro nic_okI irq_inv_reset nic_shape_reset) simp_all

lemma nic_ok_asic_read: "nic_ok s \<Longrightarrow> nic_ok (snd (asic_read offset io_len s))"
proof -
  assume ok: "nic_ok s"
  obtain r s1 where r: "chipmem_read (unat (remote_dma s)) io_len s = (r, s1)" by fastforce
  then have "same_core s s1" using chipmem_read_core [of s "unat (remote_dma s)" io_len] by simp
  then have "nic_ok (finish_rdma ((bump_remote_dma io_len s1)\<lparr>remote_bytes := k\<rparr>))" for k
    using ok bump_core same_core_ok nic_ok_finish by blast
  moreover have "nic_ok (ne2k_reset RESET_SOFTWARE s)" using ok by (intro nic_ok_reset) (simp_all add: nic_ok_def)
  ultimately show ?thesis using ok by (simp add: asic_read_def r Let_def)
qed

lemma nic_ok_asic_write: "nic_ok s \<Longrightarrow> nic_ok (asic_write offset v io_len s)"
proof -
  assume ok: "nic_ok s"
  let ?s = "chipmem_write (unat (remote_dma s)) v io_len s"
  have "nic_ok (finish_rdma ((bump_remote_dma io_len ?s)\<lparr>remote_bytes := k\<rparr>))" for k
    using ok chipmem_write_core bump_core same_core_ok nic_ok_finish by blast
  then show ?thesis using ok nic_ok_emit by (simp add: asic_write_def Let_def)
qed

lemma nic_ok_page_reads:
  assumes "nic_ok s"
  shows "nic_ok (snd (page0_read offset io_len s))" and "nic_ok (snd (page1_read offset io_len s))"
    and "nic_ok (snd (page2_read offset io_len s))" and "nic_ok (snd (page3_read offset io_len s))"
proof -
  have e: "nic_ok (emit (Panic m) s)" "nic_ok (emit (Panic m) (emit (Panic m') s))" for m m'
    using assms nic_ok_emit by simp_all
  show "nic_ok (snd (page0_read offset io_len s))"
    using assms e unfolding page0_read_def by (simp split: if_split)
  show "nic_ok (snd (page1_read offset io_len s))"
    using assms e unfolding page1_read_def Let_def by (simp split: if_split)
  show "nic_ok (snd (page2_read offset io_len s))"
    using assms e unfolding page2_read_def Let_def by (simp split: if_split)
  show "nic_ok (snd (page3_read offset io_len s))"
    using assms e unfolding page3_read_def by simp
qed

lemma nic_ok_field:
  "nic_ok s \<Longrightarrow> same_core s s' \<Longrightarrow> nic_ok s'" by (rule same_core_ok)

lemma nic_ok_isr_write: "nic_ok s \<Longrightarrow> nic_ok (isr_write v s)"
  using irq_inv_isr_write by (auto simp: nic_ok_def isr_write_def Let_def)

lemma nic_ok_imr_write: "nic_ok s \<Longrightarrow> nic_ok (imr_write v s)"
  using irq_inv_imr_write by (auto simp: nic_ok_def imr_write_def Let_def)

lemma nic_ok_tcr_write: "nic_ok s \<Longrightarrow> nic_ok (tcr_write v s)"
  by (erule same_core_ok [rotated])
    (simp add: tcr_write_def Let_def same_core_def same_irq_def, simp add: emit_def)

lemma nic_ok_page0_write1: "nic_ok s \<Longrightarrow> nic_ok (page0_write1 offset v s)"
proof -
  assume ok: "nic_ok s"
  have "same_core s (s\<lparr>page_start := x\<rparr>)" "same_core s (s\<lparr>page_stop := x\<rparr>)" "same_core s (s\<lparr>bound_ptr := x\<rparr>)"
    "same_core s (s\<lparr>tx_page_start := x\<rparr>)" "same_core s (s\<lparr>tx_bytes := w\<rparr>)" "same_core s (s\<lparr>remote_bytes := w\<rparr>)"
    "same_core s (s\<lparr>remote_start := w, remote_dma := w\<rparr>)" "same_core s (s\<lparr>RCR := r\<rparr>)" "same_core s (s\<lparr>DCR := d\<rparr>)"
    for x w r d by (simp_all add: same_core_def same_irq_def)
  note simple = this [THEN same_core_ok, OF ok]
  show ?thesis
    unfolding page0_write1_def
    using simple nic_ok_isr_write [OF ok] nic_ok_imr_write [OF ok] nic_ok_tcr_write [OF ok]
      nic_ok_emit [OF _ ok, of "Panic _"]
    by (simp split: if_split)
qed

lemma nic_ok_page0_write: "nic_ok s \<Longrightarrow> nic_ok (page0_write offset v io_len s)"
  by (simp add: page0_write_def Let_def nic_ok_page0_write1)

lemma nic_ok_page1_write: "nic_ok s \<Longrightarrow> nic_ok (page1_write offset v io_len s)"
proof -
  assume ok: "nic_ok s"
  have "nic_ok (s\<lparr>curr_page := x\<rparr>)" "nic_ok (s\<lparr>physaddr := (physaddr s)[i := x]\<rparr>)"
    "nic_ok (s\<lparr>mchash := (mchash s)[i := x]\<rparr>)" for x i
    using ok by (simp_all add: nic_ok_def nic_shape_def irq_inv_def irq_due_def)
  then show ?thesis
    unfolding page1_write_def using nic_ok_emit [OF _ ok, of "Panic _"] by (simp split: if_split)
qed

lemma nic_ok_page2_write: "nic_ok s \<Longrightarrow> nic_ok (page2_write offset v io_len s)"
proof -
  assume ok: "nic_ok s"
  have "same_core s (s\<lparr>local_dma := w\<rparr>)" "same_core s (s\<lparr>rempkt_ptr := x\<rparr>)"
    "same_core s (s\<lparr>localpkt_ptr := x\<rparr>)" "same_core s (s\<lparr>address_cnt := w\<rparr>)" for w x
    by (simp_all add: same_core_def same_irq_def)
  note simple = this [THEN same_core_ok, OF ok]
  show ?thesis
    unfolding page2_write_def using simple nic_ok_emit [OF _ ok, of "Panic _"] by (simp split: if_split)
qed

lemma u8_part_less:
  "unat (ucast ((w :: u32) AND 7) :: u8) < 8" "unat (ucast ((w :: u32) AND 3) :: u8) < 4"
proof -
  have *: "unat (ucast (w AND m) :: u8) \<le> unat m" for m
  proof -
    have "unat (w AND m) \<le> unat m" using word_and_le1 [of w m] by (simp add: word_le_nat_alt)
    moreover have "unat (ucast (w AND m) :: u8) \<le> unat (w AND m)" by (simp add: unat_ucast_mod)
    ultimately show ?thesis by simp
  qed
  show "unat (ucast (w AND 7) :: u8) < 8" "unat (ucast (w AND 3) :: u8) < 4"
    using * [of 7] * [of 3] by simp_all
qed

lemma isr_pending_reset [simp]: "isr_pending (r\<lparr>ISR_reset := b\<rparr>) = isr_pending r"
  by (simp add: isr_pending_def)

lemma nic_ok_cr_fields: "nic_ok s \<Longrightarrow> nic_ok (cr_fields v s)"
proof -
  assume ok: "nic_ok s"
  have "irq_due (cr_fields v s) = irq_due s" "irq_line (cr_fields v s) = irq_line s"
    by (simp_all add: cr_fields_def Let_def) (simp_all add: irq_due_def)
  moreover have "wired (cr_fields v s) = wired s" by (simp add: cr_fields_def Let_def)
  moreover have "nic_shape (cr_fields v s)"
    using ok by (simp add: cr_fields_def Let_def nic_ok_def nic_shape_def u8_part_less)
  ultimately show ?thesis using ok by (simp add: nic_ok_def irq_inv_def)
qed

lemma nic_ok_cr_send_packet: "nic_ok s \<Longrightarrow> nic_ok (cr_send_packet s)"
  by (erule same_core_ok [rotated])
    (simp add: cr_send_packet_def Let_def same_core_def same_irq_def, simp add: emit_def)

lemma rx_store_core: "same_core s (rx_store buf n p s)"
proof -
  have c: "same_core t (t\<lparr>curr_page := x\<rparr>)" for t x by (simp add: same_core_def same_irq_def)
  show ?thesis
    unfolding rx_store_def Let_def
    by (auto intro!: same_core_trans [OF _ c] same_core_trans [OF _ copy_in_core] copy_in_core)
qed

lemma nic_ok_rx_frame: "nic_ok s \<Longrightarrow> nic_ok (rx_frame buf n s)"
proof -
  assume ok: "nic_ok s"
  have "nic_ok (rx_signal buf t)" if "nic_ok t" for t
    using that irq_inv_signal by (auto simp: nic_ok_def rx_signal_def Let_def)
  moreover have "nic_ok (rx_store buf n p s)" for p using ok rx_store_core same_core_ok by blast
  ultimately show ?thesis using ok nic_ok_emit by (simp add: rx_frame_def Let_def)
qed

lemma nic_ok_cr_loopback: "nic_ok s \<Longrightarrow> nic_ok (cr_loopback s)"
  by (simp add: cr_loopback_def Let_def nic_ok_rx_frame nic_ok_emit)

lemma nic_ok_cr_transmit: "nic_ok s \<Longrightarrow> nic_ok (cr_transmit s)"
  by (erule same_core_ok [rotated])
    (simp add: cr_transmit_def Let_def same_core_def same_irq_def, simp add: emit_def)

lemma nic_ok_cr_probe: "nic_ok s \<Longrightarrow> nic_ok (cr_probe s)"
  using irq_inv_probe by (auto simp: nic_ok_def cr_probe_def Let_def)

lemma nic_ok_write_cr: "nic_ok s \<Longrightarrow> nic_ok (write_cr v s)"
  by (simp add: write_cr_def Let_def nic_ok_cr_probe nic_ok_cr_transmit nic_ok_cr_loopback
      nic_ok_cr_send_packet nic_ok_cr_fields)

lemma nic_ok_tx_timer: "nic_ok s \<Longrightarrow> nic_ok (tx_timer s)"
proof -
  assume ok: "nic_ok s"
  have "nic_shape (tx_timer s)"
    using ok by (simp add: tx_timer_def Let_def nic_ok_def) (simp add: nic_shape_def)
  moreover have "wired (tx_timer s) = wired s" by (simp add: tx_timer_def Let_def)
  ultimately show ?thesis using ok irq_inv_tx_timer by (simp add: nic_ok_def)
qed

lemma nic_ok_read: "nic_ok s \<Longrightarrow> nic_ok (snd (ne2k_read a n s))"
  by (simp add: ne2k_read_def Let_def nic_ok_asic_read nic_ok_page_reads nic_ok_emit)

lemma nic_ok_write: "nic_ok s \<Longrightarrow> nic_ok (ne2k_write a v n s)"
  by (simp add: ne2k_write_def Let_def nic_ok_asic_write nic_ok_write_cr nic_ok_page0_write
      nic_ok_page1_write nic_ok_page2_write page3_write_def nic_ok_emit)

lemma pci_set_base_io_core: "same_core s (pci_set_base_io s)"
  by (simp add: pci_set_base_io_def Let_def same_core_def same_irq_def) (simp add: emit_def)

lemma pci_write_byte_core: "same_core s (fst (pci_write_byte a v (s, c)))"
  by (simp add: pci_write_byte_def Let_def same_core_def same_irq_def) (simp add: emit_def)

lemma pci_fold_core:
  "same_core s (fst (fold (\<lambda>i. pci_write_byte (f i) (g i)) is (s, c)))"
proof (induction "is" arbitrary: s c)
  case (Cons i "is")
  obtain s1 c1 where r: "pci_write_byte (f i) (g i) (s, c) = (s1, c1)" by fastforce
  then have "same_core s s1" using pci_write_byte_core [of s "f i" "g i" c] by simp
  from same_core_trans [OF this Cons.IH [of s1 c1]] show ?case by (simp add: r)
qed simp

lemma nic_ok_pci_write: "nic_ok s \<Longrightarrow> nic_ok (pci_write_handler a v n s)"
proof -
  assume ok: "nic_ok s"
  let ?r = "fold (\<lambda>i. pci_write_byte (unat a + i) (ucast (drop_bit (i * 8) v AND 0xff))) [0..<n] (s, False)"
  have "nic_ok (fst ?r)" by (rule same_core_ok [OF pci_fold_core ok])
  obtain s1 c where r: "?r = (s1, c)" by fastforce
  with \<open>nic_ok (fst ?r)\<close> have s1: "nic_ok s1" by (simp only: fst_conv)
  have "nic_ok (pci_set_base_io s1)" by (rule same_core_ok [OF pci_set_base_io_core s1])
  with s1 ok show ?thesis unfolding pci_write_handler_def r by simp
qed

section \<open>The card as a transition system\<close>

text \<open>Everything the guest, the network, the timer and the machine can do to the card.\<close>

inductive nic_step :: "ne2k \<Rightarrow> ne2k \<Rightarrow> bool" where
  io_read: "nic_step s (snd (ne2k_read a n s))"
| io_write: "nic_step s (ne2k_write a v n s)"
| config_read: "nic_step s (snd (pci_read_handler i n s))"
| config_write: "nic_step s (pci_write_handler i v n s)"
| timer: "nic_step s (tx_timer s)"
| receive: "nic_step s (rx_frame buf n s)"
| interceptor_reply: "nic_step s (emit (Send_Pkt f) s)"
| machine_reset: "nic_step s (ne2k_reset RESET_HARDWARE s)"
| restore: "nic_step s (after_restore_state s)"

inductive nic_reach :: "ne2k \<Rightarrow> bool" where
  power_on: "out s = [] \<Longrightarrow> nic_reach (ne2k_reset RESET_HARDWARE (ne2k_init mac pci ioaddr irq s))"
| further: "nic_reach s \<Longrightarrow> nic_step s s' \<Longrightarrow> nic_reach s'"

lemma nic_step_ok: "nic_step s s' \<Longrightarrow> nic_ok s \<Longrightarrow> nic_ok s'"
proof (induction rule: nic_step.induct)
  case (config_read s i n)
  then show ?case by (simp add: pci_read_handler_def nic_ok_emit)
next
  case (restore s)
  then show ?case using pci_set_base_io_core same_core_ok by (auto simp: after_restore_state_def)
next
  case (machine_reset s)
  then show ?case by (intro nic_ok_reset) (simp_all add: nic_ok_def)
qed (simp_all add: nic_ok_read nic_ok_write nic_ok_pci_write nic_ok_tx_timer nic_ok_rx_frame nic_ok_emit)

lemma nic_ok_power_on: "out s = [] \<Longrightarrow> nic_ok (ne2k_reset RESET_HARDWARE (ne2k_init mac pci ioaddr irq s))"
proof -
  assume o: "out s = []"
  let ?s = "ne2k_init mac pci ioaddr irq s"
  have "wired ?s" using o by (simp add: wired_def ne2k_init_def split: option.split)
  moreover have "nic_shape (ne2k_reset RESET_HARDWARE ?s)"
    by (simp add: ne2k_reset_def nic_shape_def ne2k_power_up_def set_irq_level_def emit_def)
  ultimately show ?thesis by (intro nic_okI irq_inv_reset) simp_all
qed

lemma nic_reach_ok: "nic_reach s \<Longrightarrow> nic_ok s"
  by (induction rule: nic_reach.induct) (auto intro: nic_ok_power_on nic_step_ok)


end
