(* ===== verification/Frame_Queue.thy ===== *)
theory Frame_Queue
  imports Machine_Prelude
begin

text \<open>
  What the receive path of a network card promises: a queue of frames. \<open>arrive\<close> is a frame coming
  in, which the card may refuse; \<open>take_front\<close> is what the driver does to get the oldest one. The
  laws speak about one step; the lemmas extend them to any interleaving of arrivals and takes.
\<close>

datatype 'p queue_op = Arrive 'p | Take

text \<open>A run returns the frames taken, the frames the card accepted, and the final state.\<close>

fun queue_run ::
    "('p \<Rightarrow> 's \<Rightarrow> 's) \<Rightarrow> ('p \<Rightarrow> 's \<Rightarrow> bool) \<Rightarrow> ('p \<Rightarrow> 'f) \<Rightarrow> ('s \<Rightarrow> bool) \<Rightarrow> ('s \<Rightarrow> 'f \<times> 's)
     \<Rightarrow> 'p queue_op list \<Rightarrow> 's \<Rightarrow> 'f list \<times> 'f list \<times> 's" where
  "queue_run arrive accepts frame is_empty take_front [] s = ([], [], s)"
| "queue_run arrive accepts frame is_empty take_front (Arrive p # ops) s =
     (case queue_run arrive accepts frame is_empty take_front ops (arrive p s) of
        (taken, acc, s') \<Rightarrow> (taken, (if accepts p s then frame p # acc else acc), s'))"
| "queue_run arrive accepts frame is_empty take_front (Take # ops) s =
     (if is_empty s then queue_run arrive accepts frame is_empty take_front ops s
      else let (f, s1) = take_front s in
           case queue_run arrive accepts frame is_empty take_front ops s1 of
             (taken, acc, s') \<Rightarrow> (f # taken, acc, s'))"

locale frame_queue =
  fixes arrive :: "'p \<Rightarrow> 's \<Rightarrow> 's"
    and accepts :: "'p \<Rightarrow> 's \<Rightarrow> bool"
    and frame :: "'p \<Rightarrow> 'f"
    and is_empty :: "'s \<Rightarrow> bool"
    and take_front :: "'s \<Rightarrow> 'f \<times> 's"
    and holds :: "'s \<Rightarrow> 'f list \<Rightarrow> bool"
    and fits :: "'p \<Rightarrow> bool"
  assumes arrive_law: "holds s fs \<Longrightarrow> fits p \<Longrightarrow>
      holds (arrive p s) (if accepts p s then fs @ [frame p] else fs)"
    and take_law: "holds s (f # fs) \<Longrightarrow> fst (take_front s) = f \<and> holds (snd (take_front s)) fs"
    and empty_law: "holds s fs \<Longrightarrow> is_empty s = (fs = [])"
begin

lemma run_fifo:
  "holds s fs \<Longrightarrow> (\<And>p. Arrive p \<in> set ops \<Longrightarrow> fits p) \<Longrightarrow>
   queue_run arrive accepts frame is_empty take_front ops s = (taken, acc, s') \<Longrightarrow>
   \<exists>rest. fs @ acc = taken @ rest \<and> holds s' rest"
proof (induction ops arbitrary: s fs taken acc)
  case (Cons op ops)
  show ?case
  proof (cases op)
    case (Arrive p)
    then have "fits p" using Cons.prems(2) by simp
    obtain acc' where run: "queue_run arrive accepts frame is_empty take_front ops (arrive p s) = (taken, acc', s')"
      and acc: "acc = (if accepts p s then frame p # acc' else acc')"
      using Cons.prems(3) Arrive by (auto split: prod.splits)
    show ?thesis
      using Cons.IH [OF arrive_law [OF Cons.prems(1) \<open>fits p\<close>] _ run] Cons.prems(2) acc by (auto split: if_splits)
  next
    case Take
    show ?thesis
    proof (cases fs)
      case Nil
      then have run: "queue_run arrive accepts frame is_empty take_front ops s = (taken, acc, s')"
        using Cons.prems(3) Take empty_law [OF Cons.prems(1)] by simp
      show ?thesis using Cons.IH [OF Cons.prems(1) _ run] Cons.prems(2) by simp
    next
      case (Cons f fs')
      note front = take_law [OF Cons.prems(1) [unfolded Cons]]
      obtain taken' where run: "queue_run arrive accepts frame is_empty take_front ops (snd (take_front s)) = (taken', acc, s')"
        and taken: "taken = f # taken'"
        using Cons.prems(3) Take front empty_law [OF Cons.prems(1)] Cons by (auto split: prod.splits)
      show ?thesis using Cons.IH [OF conjunct2 [OF front] _ run] Cons.prems(2) taken Cons by simp
    qed
  qed
qed simp

end

end
