(* ===== verification/Ne2k_Driver.thy ===== *)
theory Ne2k_Driver
  imports Ne2k_Invariant Frame_Queue
begin

text \<open>
  The card as a driver uses it: a block is read or written through the data port after the remote
  address and count registers are programmed. The read lemma follows the ring across its end, so a
  driver that reads at the page of a queued frame gets the header and the frame; the transmit lemma
  says that the packet handed to the host network is the one the driver wrote.
\<close>

unbundle bit_operations_syntax

section \<open>Reading through the data port\<close>

text \<open>
  A driver moves a block through the data port: \<open>n\<close> accesses of \<open>w\<close> bytes (\<open>insb\<close>/\<open>outsb\<close> or
  \<open>insw\<close>/\<open>outsw\<close>).
\<close>

fun remote_read :: "nat \<Rightarrow> nat \<Rightarrow> ne2k \<Rightarrow> bytes \<times> ne2k" where
  "remote_read w 0 s = ([], s)"
| "remote_read w (Suc n) s =
     (let (v, s1) = asic_read 0 w s; (bs, s2) = remote_read w n s1 in (le_bytes w (unat v) @ bs, s2))"

definition transfer_mode :: "nat \<Rightarrow> ne2k \<Rightarrow> bool" where
  "transfer_mode w s = ((w = 1 \<and> \<not> DCR_wdsize (DCR s)) \<or> (w = 2 \<and> DCR_wdsize (DCR s)))"

lemma transfer_mode_width: "transfer_mode w s \<Longrightarrow> dma_width w s = word_of_nat w"
  by (auto simp: transfer_mode_def dma_width_def)

lemma fetch_block:
  "w = 1 \<or> w = 2 \<Longrightarrow> i + w \<le> len \<Longrightarrow> fetch arr len i w s = (word_of_nat (le_nat (block arr i w)), s)"
  by (auto simp: fetch_def)

lemma chipmem_read_mem:
  assumes "w = 1 \<or> w = 2" and "MEMSTART \<le> a" and "a + w \<le> MEMEND" and "w = 2 \<longrightarrow> even a"
  shows "chipmem_read a w s = (word_of_nat (le_nat (block (mem s) (a - MEMSTART) w)), s)"
proof -
  have "\<not> (w = 2 \<and> odd a)" "\<not> a \<le> 31" "a < MEMEND" "a - MEMSTART + w \<le> MEMSIZ"
    using assms unfolding mem_consts by auto
  then show ?thesis using assms(1,2)
    unfolding chipmem_read_def Let_def by (simp only: if_False if_True simp_thms fetch_block)
qed

lemma finish_rdma_frame [simp]:
  "mem (finish_rdma s) = mem s" "remote_dma (finish_rdma s) = remote_dma s"
  "remote_bytes (finish_rdma s) = remote_bytes s" "DCR (finish_rdma s) = DCR s"
  "page_start (finish_rdma s) = page_start s" "page_stop (finish_rdma s) = page_stop s"
  "bound_ptr (finish_rdma s) = bound_ptr s" "curr_page (finish_rdma s) = curr_page s"
  by (simp_all add: finish_rdma_def Let_def set_irq_level_def emit_def)

lemma finish_rdma_done: "remote_bytes s = 0 \<Longrightarrow> ISR_rdma_done (ISR (finish_rdma s))"
  by (simp add: finish_rdma_def Let_def)

lemma unat_page_base: "unat (push_bit 8 (ucast (p :: u8)) :: u16) = unat p * 256"
proof -
  have "unat p * 256 < 65536" using unat_u8_less [of p] by simp
  then show ?thesis by (simp add: push_bit_eq_mult unat_word_ariths unat_ucast_mod)
qed

lemma bump_remote_dma_unat:
  assumes "transfer_mode w s" and "unat (remote_dma s) + w < 65536"
  shows "unat (remote_dma (bump_remote_dma w s)) =
    (let a = unat (remote_dma s) + w in if a = unat (page_stop s) * 256 then unat (page_start s) * 256 else a)"
proof -
  have a: "unat (remote_dma s + dma_width w s) = unat (remote_dma s) + w"
    using assms transfer_mode_width [OF assms(1)] by (simp add: unat_word_ariths unat_of_nat)
  have "(remote_dma s + dma_width w s = push_bit 8 (ucast (page_stop s))) =
      (unat (remote_dma s) + w = unat (page_stop s) * 256)"
    by (simp only: word_unat_eq_iff a unat_page_base)
  then show ?thesis unfolding bump_remote_dma_def Let_def by (simp add: a unat_page_base)
qed

text \<open>The remote address registers stay on the ring, at the offset \<open>j\<close> from the boundary page.\<close>

definition dma_at :: "ne2k \<Rightarrow> nat \<Rightarrow> bool" where
  "dma_at s j = (unat (remote_dma s) = MEMSTART + cell s j)"

lemma cell_bounds:
  assumes "ring_ok s"
  shows "cell s j + MEMSTART < unat (page_stop s) * 256" "unat (page_start s) * 256 \<le> cell s j + MEMSTART"
proof -
  let ?m = "((unat (bound_ptr s) - unat (page_start s)) * 256 + j) mod (span s * 256)"
  have "?m < span s * 256" using assms by (intro mod_less_divisor) (simp add: ring_ok_def span_def)
  then show "cell s j + MEMSTART < unat (page_stop s) * 256" "unat (page_start s) * 256 \<le> cell s j + MEMSTART"
    using assms unfolding cell_def ring_ok_def span_def mem_consts by linarith+
qed

lemma mod_even: "even m \<Longrightarrow> even (x mod m) = even (x :: nat)"
  by (simp add: dvd_mod_iff)

lemma cell_step:
  assumes ok: "ring_ok s" and w: "w = 1 \<or> w = 2 \<and> even j"
  shows "MEMSTART + cell s (j + w) =
    (let a = MEMSTART + cell s j + w in if a = unat (page_stop s) * 256 then unat (page_start s) * 256 else a)"
    and "w = 2 \<longrightarrow> even (MEMSTART + cell s j)" and "i < w \<Longrightarrow> cell s (j + i) = cell s j + i"
    and "MEMSTART + cell s j + w \<le> unat (page_stop s) * 256"
proof -
  let ?N = "span s * 256"
  define x where "x = (unat (bound_ptr s) - unat (page_start s)) * 256 + j"
  define b where "b = unat (page_start s) * 256 - MEMSTART"
  have N: "0 < ?N" and bN: "MEMSTART + b + ?N = unat (page_stop s) * 256" "MEMSTART + b = unat (page_start s) * 256"
    using ok unfolding ring_ok_def span_def b_def mem_consts by linarith+
  have c: "cell s (j + i) = b + (x + i) mod ?N" for i by (simp add: cell_def x_def b_def add.assoc)
  have c0: "cell s j = b + x mod ?N" using c [of 0] by simp
  have even: "w = 2 \<Longrightarrow> even (x mod ?N)" using w by (simp add: mod_even x_def)
  have lt: "x mod ?N < ?N" using N by simp
  have le: "x mod ?N + w \<le> ?N"
  proof (cases "w = 1")
    case False
    with w even have "w = 2" "even (x mod ?N)" by auto
    moreover have "y + 2 \<le> n" if "even y" "even n" "y < n" for y n :: nat using that by presburger
    ultimately show ?thesis using lt by simp
  qed (use lt in simp)
  have step: "(x + i) mod ?N = (x mod ?N + i) mod ?N" for i by (simp only: mod_add_left_eq)
  show "w = 2 \<longrightarrow> even (MEMSTART + cell s j)"
    using even by (simp add: c0 b_def mem_consts)
  show "i < w \<Longrightarrow> cell s (j + i) = cell s j + i"
    using le lt by (simp add: c c0 step [of i])
  show "MEMSTART + cell s j + w \<le> unat (page_stop s) * 256" using le bN c0 by linarith
  show "MEMSTART + cell s (j + w) =
    (let a = MEMSTART + cell s j + w in if a = unat (page_stop s) * 256 then unat (page_start s) * 256 else a)"
  proof (cases "x mod ?N + w = ?N")
    case True
    then have "(x + w) mod ?N = 0" by (simp add: step [of w])
    then have "cell s (j + w) = b" by (simp add: c)
    moreover have "MEMSTART + cell s j + w = unat (page_stop s) * 256" using True bN c0 by linarith
    ultimately show ?thesis using bN by (simp add: Let_def)
  next
    case False
    then have "(x + w) mod ?N = x mod ?N + w" using le by (simp add: step [of w])
    moreover have "MEMSTART + cell s j + w \<noteq> unat (page_stop s) * 256" using False bN c0 by linarith
    ultimately show ?thesis by (simp add: Let_def c c0)
  qed
qed

lemma asic_read_ring:
  assumes ok: "ring_ok s" and w: "transfer_mode w s" "w = 2 \<longrightarrow> even j" and at: "dma_at s j"
    and n: "w \<le> unat (remote_bytes s)"
  defines "s' \<equiv> snd (asic_read 0 w s)"
  shows "fst (asic_read 0 w s) = word_of_nat (le_nat (map (\<lambda>i. mem s (cell s (j + i))) [0..<w]))"
    and "dma_at s' (j + w)" and "unat (remote_bytes s') = unat (remote_bytes s) - w"
    and "mem s' = mem s" and "same_ring s s'" and "curr_page s' = curr_page s" and "DCR s' = DCR s"
    and "unat (remote_bytes s) = w \<Longrightarrow> ISR_rdma_done (ISR s')"
proof -
  have w12: "w = 1 \<or> w = 2" using w(1) by (auto simp: transfer_mode_def)
  then have wj: "w = 1 \<or> w = 2 \<and> even j" using w(2) by auto
  note step = cell_step [OF ok wj]
  have lo: "MEMSTART \<le> MEMSTART + cell s j" by simp
  have stop: "unat (page_stop s) * 256 \<le> MEMEND" using ok unfolding ring_ok_def mem_consts by linarith
  have rd: "chipmem_read (unat (remote_dma s)) w s = (word_of_nat (le_nat (block (mem s) (cell s j) w)), s)"
    using chipmem_read_mem [OF w12 lo _ step(2), of s] step(4) stop at by (simp add: dma_at_def)
  have blk: "block (mem s) (cell s j) w = map (\<lambda>i. mem s (cell s (j + i))) [0..<w]"
    by (rule nth_equalityI) (simp_all add: step(3))
  have small: "unat (remote_dma s) + w < 65536" using step(4) stop at by (simp add: dma_at_def mem_consts)
  let ?b = "bump_remote_dma w s"
  have regs: "mem ?b = mem s" "same_ring s ?b" "curr_page ?b = curr_page s" "DCR ?b = DCR s" "remote_bytes ?b = remote_bytes s"
    by (simp_all add: bump_remote_dma_def Let_def same_ring_def)
  have gt: "of_bool (DCR_wdsize (DCR ?b)) < remote_bytes ?b"
    using w(1) n by (auto simp: regs word_less_nat_alt transfer_mode_def)
  have "dma_width w ?b = word_of_nat w" using w(1) by (intro transfer_mode_width) (simp add: transfer_mode_def regs)
  then have nb: "unat (remote_bytes ?b - dma_width w ?b) = unat (remote_bytes s) - w"
    using n w12 by (auto simp: regs unat_sub word_le_nat_alt)
  have eq: "asic_read 0 w s = (word_of_nat (le_nat (block (mem s) (cell s j) w)),
      finish_rdma (?b\<lparr>remote_bytes := remote_bytes ?b - dma_width w ?b\<rparr>))"
    unfolding asic_read_def using rd gt by (simp add: Let_def)
  show "fst (asic_read 0 w s) = word_of_nat (le_nat (map (\<lambda>i. mem s (cell s (j + i))) [0..<w]))"
    by (simp add: eq blk)
  have s': "s' = finish_rdma (?b\<lparr>remote_bytes := remote_bytes ?b - dma_width w ?b\<rparr>)" by (simp add: s'_def eq)
  show same: "same_ring s s'" using regs by (simp add: s' same_ring_def)
  show "dma_at s' (j + w)"
    using bump_remote_dma_unat [OF w(1) small] step(1) at same_ring_layout [OF same]
    by (simp add: s' dma_at_def)
  show "unat (remote_bytes s') = unat (remote_bytes s) - w" using nb by (simp add: s')
  show "mem s' = mem s" "curr_page s' = curr_page s" "DCR s' = DCR s" by (simp_all add: s' regs)
  show "ISR_rdma_done (ISR s')" if "unat (remote_bytes s) = w"
    unfolding s' by (rule finish_rdma_done) (use nb that in \<open>simp add: word_unat_eq_iff\<close>)
qed

lemma ring_ok_same:
  "same_ring s s' \<Longrightarrow> curr_page s' = curr_page s \<Longrightarrow> ring_ok s' = ring_ok s"
  by (simp add: ring_ok_def same_ring_def)

lemma le_bytes_le_nat_word:
  "length bs = w \<Longrightarrow> w \<le> 4 \<Longrightarrow> le_bytes w (unat (word_of_nat (le_nat bs) :: u32)) = bs"
proof -
  assume l: "length bs = w" "w \<le> 4"
  have "le_nat bs < 256 ^ w" using le_nat_less [of bs] l by simp
  also have "\<dots> \<le> 256 ^ 4" using l(2) by (intro power_increasing) simp_all
  finally have "unat (word_of_nat (le_nat bs) :: u32) = le_nat bs" by (simp add: unat_of_nat)
  then show ?thesis using le_bytes_le_nat [of bs] l(1) by simp
qed

lemma remote_read_ring:
  assumes "ring_ok s" and "transfer_mode w s" "w = 2 \<longrightarrow> even j" and "dma_at s j"
    and "n * w \<le> unat (remote_bytes s)"
  shows "fst (remote_read w n s) = map (\<lambda>i. mem s (cell s (j + i))) [0..<n * w] \<and>
    mem (snd (remote_read w n s)) = mem s \<and> same_ring s (snd (remote_read w n s)) \<and>
    curr_page (snd (remote_read w n s)) = curr_page s \<and> DCR (snd (remote_read w n s)) = DCR s \<and>
    (0 < n \<and> unat (remote_bytes s) = n * w \<longrightarrow> ISR_rdma_done (ISR (snd (remote_read w n s))))"
  using assms
proof (induction n arbitrary: s j)
  case 0
  then show ?case by (simp add: same_ring_def)
next
  case (Suc n)
  have w: "w = 1 \<or> w = 2" using Suc.prems(2) by (auto simp: transfer_mode_def)
  obtain v s1 where r: "asic_read 0 w s = (v, s1)" by fastforce
  obtain bs s2 where r2: "remote_read w n s1 = (bs, s2)" by fastforce
  have nw: "w \<le> unat (remote_bytes s)" using Suc.prems(5) by simp
  note a = asic_read_ring [OF Suc.prems(1,2,3,4) nw, unfolded r, simplified]
  have s1: "ring_ok s1" "transfer_mode w s1" "w = 2 \<longrightarrow> even (j + w)" "n * w \<le> unat (remote_bytes s1)"
    using Suc.prems a ring_ok_same [OF a(5,6)] by (auto simp: transfer_mode_def)
  have IH: "bs = map (\<lambda>i. mem s1 (cell s1 (j + w + i))) [0..<n * w]"
    "mem s2 = mem s1" "same_ring s1 s2" "curr_page s2 = curr_page s1" "DCR s2 = DCR s1"
    "0 < n \<and> unat (remote_bytes s1) = n * w \<longrightarrow> ISR_rdma_done (ISR s2)"
    using Suc.IH [OF s1(1,2,3) a(2) s1(4)] r2 by simp_all
  have "le_bytes w (unat v) = map (\<lambda>i. mem s (cell s (j + i))) [0..<w]"
    unfolding a(1) using w by (intro le_bytes_le_nat_word) auto
  moreover have "[0..<Suc n * w] = [0..<w] @ map (\<lambda>i. w + i) [0..<n * w]"
    by (simp add: map_add_upt upt_add_eq_append [of 0 w] ac_simps)
  moreover have "bs = map (\<lambda>i. mem s (cell s (j + i))) (map (\<lambda>i. w + i) [0..<n * w])"
    using IH(1) a(4) same_ring_layout [OF a(5)] by (simp add: add.assoc o_def)
  ultimately have "le_bytes w (unat v) @ bs = map (\<lambda>i. mem s (cell s (j + i))) [0..<Suc n * w]"
    by simp
  moreover have "ISR_rdma_done (ISR s2)" if "unat (remote_bytes s) = Suc n * w"
  proof (cases "n = 0")
    case True
    then have "ISR_rdma_done (ISR s1)" using that a(8) by simp
    moreover have "s2 = s1" using True r2 by simp
    ultimately show ?thesis by simp
  next
    case False
    then show ?thesis using IH(6) that a(3) by simp
  qed
  ultimately show ?case
    using IH a by (simp add: r r2 same_ring_def)
qed

section \<open>Writing the registers of a transfer\<close>

lemma set_bytes_eq:
  "set_hi (set_lo w a) b = push_bit 8 (ucast (b AND 0xff)) + ucast (a AND 0xff)"
proof -
  have m: "(0xff00 :: u16) = push_bit 8 (mask 8)" "(0xff :: u16) = mask 8" "(0xff :: u32) = mask 8"
    by (simp_all add: mask_eq_exp_minus_1)
  have "set_hi (set_lo w a) b = push_bit 8 (ucast (b AND 0xff)) OR ucast (a AND 0xff)"
    unfolding set_hi_def set_lo_def m
    by (rule bit_word_eqI) (auto simp: bit_or_iff bit_and_iff bit_push_bit_iff bit_mask_iff bit_ucast_iff)
  also have "\<dots> = push_bit 8 (ucast (b AND 0xff)) + ucast (a AND 0xff)"
    unfolding m
    by (rule disjunctive_add_eq_or [symmetric])
      (rule bit_word_eqI, auto simp: bit_and_iff bit_push_bit_iff bit_mask_iff bit_ucast_iff)
  finally show ?thesis .
qed

lemma unat_set_bytes:
  "unat (set_hi (set_lo w a) b) = (unat b mod 256) * 256 + unat a mod 256"
proof -
  have a: "unat (ucast (x AND 0xff) :: u16) = unat x mod 256" for x :: u32
    by (simp only: unat_ucast_mod and_0xff unsigned_take_bit_eq take_bit_eq_mod [where ?'a = nat])
      (simp add: mod_mod_cancel)
  have "unat x mod 256 < 256" for x :: u32 by simp
  then have "(unat b mod 256) * 256 + unat a mod 256 < 65536"
    using mod_less_divisor [of 256 "unat b"] mod_less_divisor [of 256 "unat a"] by linarith
  then show ?thesis
    by (simp add: set_bytes_eq unat_word_ariths push_bit_eq_mult a)
qed

definition program_transfer :: "nat \<Rightarrow> nat \<Rightarrow> ne2k \<Rightarrow> ne2k" where
  "program_transfer a n s =
     (let s1 = page0_write1 0x8 (word_of_nat (a mod 256)) s;
          s2 = page0_write1 0x9 (word_of_nat (a div 256)) s1;
          s3 = page0_write1 0xa (word_of_nat (n mod 256)) s2
      in page0_write1 0xb (word_of_nat (n div 256)) s3)"

lemma program_transfer_regs:
  assumes "a < 65536" and "n < 65536"
  shows "unat (remote_dma (program_transfer a n s)) = a" and "unat (remote_bytes (program_transfer a n s)) = n"
    and "mem (program_transfer a n s) = mem s" and "same_ring s (program_transfer a n s)"
    and "curr_page (program_transfer a n s) = curr_page s" and "DCR (program_transfer a n s) = DCR s"
    and "out (program_transfer a n s) = out s" and "CR (program_transfer a n s) = CR s"
    and "TCR (program_transfer a n s) = TCR s"
proof -
  have b: "unat (word_of_nat (x mod 256) :: u32) mod 256 = x mod 256"
    "x < 65536 \<Longrightarrow> unat (word_of_nat (x div 256) :: u32) mod 256 = x div 256" for x
    by (simp_all add: unat_of_nat less_mult_imp_div_less)
  show "unat (remote_dma (program_transfer a n s)) = a"
    using assms(1) by (simp add: program_transfer_def Let_def page0_write1_def unat_set_bytes b)
  show "unat (remote_bytes (program_transfer a n s)) = n"
    using assms(2) by (simp add: program_transfer_def Let_def page0_write1_def unat_set_bytes b)
qed (simp_all add: program_transfer_def Let_def page0_write1_def same_ring_def)

definition driver_read :: "nat \<Rightarrow> nat \<Rightarrow> nat \<Rightarrow> ne2k \<Rightarrow> bytes \<times> ne2k" where
  "driver_read w page n s = remote_read w n (program_transfer (page * 256) (n * w) s)"

lemma driver_read_ring:
  fixes d :: nat
  assumes ok: "ring_ok s" and w: "transfer_mode w s" and n: "0 < n" "n * w < 65536"
  defines "s' \<equiv> snd (driver_read w (page_at s d) n s)"
  shows "fst (driver_read w (page_at s d) n s) = ring_bytes s d (n * w)"
    and "ISR_rdma_done (ISR s')" and "mem s' = mem s" and "same_ring s s'" and "curr_page s' = curr_page s"
    and "DCR s' = DCR s"
proof -
  let ?s = "program_transfer (page_at s d * 256) (n * w) s"
  have pg: "64 \<le> page_at s d" "page_at s d < 192" using page_at_in [OF ok, of d] ok unfolding ring_ok_def by linarith+
  then have a: "page_at s d * 256 < 65536" by linarith
  note regs = program_transfer_regs [OF a n(2), of s]
  note lay = same_ring_layout [OF regs(4)]
  have ok': "ring_ok ?s" using ok ring_ok_same [OF regs(4,5)] by simp
  have w': "transfer_mode w ?s" using w by (simp add: transfer_mode_def regs(6))
  have "cell s (d * 256) = unat (page_start s) * 256 - MEMSTART +
      ((page_at s d - unat (page_start s)) * 256) mod (span s * 256)"
    using cell_page [of s d 0] by simp
  also have "((page_at s d - unat (page_start s)) * 256) mod (span s * 256) = (page_at s d - unat (page_start s)) * 256"
    using page_at_in [OF ok, of d] unfolding span_def by (intro mod_less) linarith
  finally have "MEMSTART + cell s (d * 256) = page_at s d * 256"
    using pg page_at_in [OF ok, of d] ok unfolding ring_ok_def mem_consts by linarith
  then have at: "dma_at ?s (d * 256)" using lay by (simp add: dma_at_def regs(1))
  have "n * w \<le> unat (remote_bytes ?s)" using regs(2) by simp
  then have r: "fst (remote_read w n ?s) = map (\<lambda>i. mem s (cell s (d * 256 + i))) [0..<n * w]"
    "mem (snd (remote_read w n ?s)) = mem s" "ISR_rdma_done (ISR (snd (remote_read w n ?s)))"
    "same_ring ?s (snd (remote_read w n ?s))" "curr_page (snd (remote_read w n ?s)) = curr_page s"
    "DCR (snd (remote_read w n ?s)) = DCR s"
    using remote_read_ring [OF ok' w' _ at, of n] lay regs n(1) by auto
  then show "fst (driver_read w (page_at s d) n s) = ring_bytes s d (n * w)"
    by (simp add: driver_read_def ring_bytes_def)
  show "ISR_rdma_done (ISR s')" "mem s' = mem s" "curr_page s' = curr_page s" "DCR s' = DCR s" "same_ring s s'"
    using r regs(4) by (simp_all add: s'_def driver_read_def same_ring_def)
qed

lemma take_ring_bytes: "k \<le> n \<Longrightarrow> take k (ring_bytes s d n) = ring_bytes s d k"
  by (simp add: ring_bytes_def take_map take_upt)

lemma driver_read_frame:
  assumes ok: "ring_ok s" and w: "transfer_mode w s" and q: "ring_holds s d (f # fs) (used s)"
    and n: "4 + length f \<le> n * w" "n * w < 65536"
  shows "take (4 + length f) (fst (driver_read w (page_at s d) n s)) =
      rx_header f (length f) (int (page_at s (d + frame_pages f))) @ f"
proof -
  have "0 < n" using n(1) by (cases n) simp_all
  from driver_read_ring(1) [OF ok w this n(2), of d]
  have "take (4 + length f) (fst (driver_read w (page_at s d) n s)) = ring_bytes s d (4 + length f)"
    using n(1) by (simp only: take_ring_bytes)
  then show ?thesis using q by (simp only: ring_holds.simps)
qed

text \<open>
  Taking the frame at the boundary page off the ring: its header, from it the length, the frame
  itself, and the boundary moved to the page the header names as the next.
\<close>

definition driver_take :: "nat \<Rightarrow> ne2k \<Rightarrow> bytes \<times> ne2k" where
  "driver_take w s =
     (let p = unat (bound_ptr s);
          (h, s1) = driver_read w p (4 div w) s;
          n = le_nat [h ! 2, h ! 3] - 4;
          (bs, s2) = driver_read w p ((n + 4 + (w - 1)) div w) s1
      in (take n (drop 4 bs), page0_write1 0x3 (ucast (h ! 1)) s2))"

lemma ring_holds_same:
  assumes "same_ring s s'" and "mem s' = mem s" and "curr_page s' = curr_page s"
  shows "ring_holds s d fs e \<Longrightarrow> ring_holds s' d fs e" and "used s' = used s"
  using assms same_ring_layout [OF assms(1)]
  by (auto intro: ring_holds_cong simp: used_def same_ring_def)

lemma rx_header_length:
  assumes "n + 4 < 65536"
  shows "le_nat [rx_header f n p ! 2, rx_header f n p ! 3] = n + 4"
proof -
  have "unat (word_of_nat (n + 4) :: u8) = (n + 4) mod 256"
    using unat_of_nat [of "n + 4", where ?'a = 8] by (simp del: of_nat_add)
  moreover have "unat (word_of_nat ((n + 4) mod 2 ^ 32 div 256) :: u8) = (n + 4) div 256"
    using assms by (simp add: unat_of_nat)
  ultimately show ?thesis by (simp add: rx_header_def del: of_nat_add)
qed

lemma driver_take_frame:
  assumes ok: "ring_ok s" and w: "transfer_mode w s" and q: "ring_holds s 0 (f # fs) (used s)"
  defines "s' \<equiv> snd (driver_take w s)"
  shows "fst (driver_take w s) = f" and "ring_holds s' 0 fs (used s')" and "ring_ok s'" and "transfer_mode w s'"
proof -
  have w12: "w = 1 \<or> w = 2" using w by (auto simp: transfer_mode_def)
  have p: "unat (bound_ptr s) = page_at s 0" using ok by (auto simp: page_at_def ring_ok_def span_def)
  obtain h s1 where r1: "driver_read w (page_at s 0) (4 div w) s = (h, s1)" by fastforce
  have k1: "0 < 4 div w" "4 div w * w = 4" using w12 by auto
  note R1 = driver_read_ring [OF ok w k1(1), of 0, unfolded r1 k1(2) fst_conv snd_conv, simplified]
  have pages: "frame_pages f \<le> used s" using q ring_holds_le by (auto dest: ring_holds_le)
  have "used s * 256 < 32768" using used_less [OF ok] ok by (auto simp: span_def ring_ok_def)
  then have len: "4 + length f < 32768" using pages frame_pages_bounds(1) [of f] by linarith
  have "take 4 (ring_bytes s 0 (4 + length f)) = rx_header f (length f) (int (page_at s (frame_pages f)))"
    using q by (simp add: rx_header_def)
  then have h: "h = rx_header f (length f) (int (page_at s (frame_pages f)))"
    using R1(1) by (simp only: take_ring_bytes le_add1)
  have "le_nat [h ! 2, h ! 3] = length f + 4" unfolding h by (rule rx_header_length) (use len in simp)
  then have n: "le_nat [h ! 2, h ! 3] - 4 = length f" by simp
  have ok1: "ring_ok s1" using ok ring_ok_same [OF R1(4,5)] by simp
  have w1: "transfer_mode w s1" using w by (simp add: transfer_mode_def R1(6))
  note same1 = ring_holds_same [OF R1(4,3,5)]
  have q1: "ring_holds s1 0 (f # fs) (used s1)" using same1(1) [OF q] same1(2) by simp
  have lay1: "page_at s1 = page_at s" using same_ring_layout [OF R1(4)] by simp
  define k where "k = (length f + 4 + (w - 1)) div w"
  have k2: "4 + length f \<le> k * w" "k * w < 65536" "0 < k" using w12 len unfolding k_def by auto
  obtain bs s2 where r2: "driver_read w (page_at s1 0) k s1 = (bs, s2)" by fastforce
  note R2 = driver_read_ring [OF ok1 w1 k2(3,2), of 0, unfolded r2 fst_conv snd_conv]
  have "take (4 + length f) bs = h @ f"
    using driver_read_frame [OF ok1 w1 q1 k2(1,2)] unfolding r2 fst_conv by (simp add: lay1 h)
  then have "drop 4 (take (4 + length f) bs) = drop 4 (h @ f)" by (rule arg_cong)
  moreover have "length h = 4" by (simp add: h rx_header_def)
  ultimately have f: "take (length f) (drop 4 bs) = f" by (simp add: drop_take)
  have ok2: "ring_ok s2" using ok1 ring_ok_same [OF R2(4,5)] by simp
  note same2 = ring_holds_same [OF R2(4,3,5)]
  have q2: "ring_holds s2 0 (f # fs) (used s2)" using same2(1) [OF q1] same2(2) by simp
  have lay2: "page_at s2 = page_at s" using same_ring_layout [OF R2(4)] lay1 by simp
  have nxt: "ucast (h ! 1) = (word_of_nat (page_at s2 (frame_pages f)) :: u32)"
    using page_at_in [OF ok, of "frame_pages f"] ok
    by (simp add: h rx_header_def lay2 ring_ok_def word_unat_eq_iff unat_ucast_mod unat_of_nat)
  have eq: "driver_take w s = (f, page0_write1 0x3 (word_of_nat (page_at s2 (frame_pages f))) s2)"
    unfolding driver_take_def Let_def p r1 prod.case n k_def [symmetric] r2 [unfolded lay1] f nxt by (rule refl)
  show "fst (driver_take w s) = f" by (simp add: eq)
  show "ring_holds s' 0 fs (used s')" "ring_ok s'"
    using release_frame [OF ok2 q2] by (simp_all add: s'_def eq)
  show "transfer_mode w s'"
    using w1 by (simp add: s'_def eq write_boundary transfer_mode_def R2(6))
qed

text \<open>
  The card and its driver provide the queue: a packet is a buffer and the length of the frame in it,
  and the driver takes a frame when the current page is not the boundary page.
\<close>

definition arrive_frame :: "bytes \<times> nat \<Rightarrow> ne2k \<Rightarrow> ne2k" where
  "arrive_frame p s = rx_frame (fst p) (snd p) s"

definition frame_of :: "bytes \<times> nat \<Rightarrow> bytes" where
  "frame_of p = take (snd p) (fst p)"

definition accepts_frame :: "bytes \<times> nat \<Rightarrow> ne2k \<Rightarrow> bool" where
  "accepts_frame p s = rx_takes (fst p) (snd p) s"

definition ring_empty :: "ne2k \<Rightarrow> bool" where
  "ring_empty s = (curr_page s = bound_ptr s)"

definition readable_frame :: "bytes \<times> nat \<Rightarrow> bool" where
  "readable_frame p = (6 \<le> snd p \<and> snd p < 2 ^ 31 \<and> snd p + 4 \<le> length (fst p))"

definition card_holds :: "nat \<Rightarrow> ne2k \<Rightarrow> bytes list \<Rightarrow> bool" where
  "card_holds w s fs = (ring_ok s \<and> transfer_mode w s \<and> ring_holds s 0 fs (used s))"

lemma ring_empty_used: "ring_ok s \<Longrightarrow> ring_empty s = (used s = 0)"
  by (auto simp: ring_empty_def used_def ring_ok_def span_def word_unat_eq_iff split: if_splits)

lemma rx_frame_DCR: "DCR (rx_frame buf n s) = DCR s"
proof -
  have c: "DCR (copy_in d xs f k t) = DCR t" for d xs f k t by (simp add: copy_in_def emit_def)
  have "DCR (rx_store buf n P t) = DCR t" for P t by (simp add: rx_store_def Let_def c)
  moreover have "DCR (rx_signal buf t) = DCR t" for t by (simp add: rx_signal_def set_irq_level_def emit_def Let_def)
  ultimately show ?thesis by (simp add: rx_frame_def emit_def Let_def)
qed

interpretation card_queue: frame_queue arrive_frame accepts_frame frame_of ring_empty "driver_take w"
    "card_holds w" readable_frame for w
proof unfold_locales
  fix s fs p
  assume s: "card_holds w s fs" and p: "readable_frame p"
  from s have ok: "ring_ok s" and q: "ring_holds s 0 fs (used s)" by (simp_all add: card_holds_def)
  from p have n: "6 \<le> snd p" "snd p < 2 ^ 31" and buf: "snd p + 4 \<le> length (fst p)"
    by (simp_all add: readable_frame_def)
  note frames = rx_frame_queue [OF ok n buf q]
  show "card_holds w (arrive_frame p s) (if accepts_frame p s then fs @ [frame_of p] else fs)"
    using s frames(1,3)
    by (cases "rx_takes (fst p) (snd p) s")
      (simp_all add: card_holds_def arrive_frame_def accepts_frame_def frame_of_def transfer_mode_def rx_frame_DCR)
next
  fix s f fs
  assume "card_holds w s (f # fs)"
  then show "fst (driver_take w s) = f \<and> card_holds w (snd (driver_take w s)) fs"
    using driver_take_frame [of s w f fs] by (simp add: card_holds_def)
next
  fix s fs
  assume s: "card_holds w s fs"
  have "used s = 0 \<longleftrightarrow> fs = []"
  proof (cases fs)
    case Nil
    then show ?thesis using s by (simp add: card_holds_def)
  next
    case (Cons f gs)
    then have "frame_pages f \<le> used s" using s ring_holds_le [of s "frame_pages f" gs "used s"] by (simp add: card_holds_def)
    then show ?thesis using Cons frame_pages_bounds(2) [of f] by simp
  qed
  then show "ring_empty s = (fs = [])" using s ring_empty_used by (simp add: card_holds_def)
qed

section \<open>Transmission\<close>

lemma copy_in_bytes:
  "d + length bs \<le> MEMSIZ \<Longrightarrow> copy_in (int d) bs 0 (int (length bs)) s = mem_blit d bs s"
  using copy_in_mem_blit [of d "length bs" 0 bs s] by simp

lemma chipmem_write_mem:
  assumes "w = 1 \<or> w = 2" and "MEMSTART \<le> a" and "a + w \<le> MEMEND" and "w = 2 \<longrightarrow> even a"
  shows "chipmem_write a v w s = mem_blit (a - MEMSTART) (le_bytes w (unat v)) s"
proof -
  have p: "\<not> (w = 2 \<and> odd a)" "MEMSTART \<le> a \<and> a < MEMEND" "a - MEMSTART + w \<le> MEMSIZ"
    "int a - int MEMSTART = int (a - MEMSTART)"
    "(if w = 4 then 4 else if w = 2 then 2 else 1) = w"
    using assms unfolding mem_consts by auto
  show ?thesis
    unfolding chipmem_write_def Let_def p(4,5)
    using p(1,2,3) copy_in_bytes [of "a - MEMSTART" "le_bytes w (unat v)" s]
    by (auto simp del: le_bytes_numeral)
qed

definition remote_write :: "nat \<Rightarrow> u32 list \<Rightarrow> ne2k \<Rightarrow> ne2k" where
  "remote_write w vs = fold (\<lambda>v. asic_write 0 v w) vs"

definition words_bytes :: "nat \<Rightarrow> u32 list \<Rightarrow> bytes" where
  "words_bytes w vs = concat (map (\<lambda>v. le_bytes w (unat v)) vs)"

lemma length_words_bytes [simp]: "length (words_bytes w vs) = length vs * w"
  by (induction vs) (simp_all add: words_bytes_def)

definition same_tx :: "ne2k \<Rightarrow> ne2k \<Rightarrow> bool" where
  "same_tx s s' = (DCR s' = DCR s \<and> CR s' = CR s \<and> TCR s' = TCR s \<and> page_stop s' = page_stop s \<and>
     page_start s' = page_start s \<and> pci_enabled s' = pci_enabled s)"

lemma finish_rdma_tx [simp]: "same_tx s (finish_rdma t) = same_tx s t"
  by (simp add: finish_rdma_def Let_def set_irq_level_def emit_def same_tx_def)

fun sent_packets :: "ne2k_event list \<Rightarrow> bytes list" where
  "sent_packets [] = []"
| "sent_packets (Send_Pkt p # es) = p # sent_packets es"
| "sent_packets (_ # es) = sent_packets es"

lemma sent_packets_append [simp]: "sent_packets (xs @ ys) = sent_packets xs @ sent_packets ys"
  by (induction xs rule: sent_packets.induct) simp_all

lemma sent_packets_finish [simp]: "sent_packets (out (finish_rdma s)) = sent_packets (out s)"
  by (simp add: finish_rdma_def Let_def set_irq_level_def emit_def)

lemma asic_write_step:
  fixes v :: u32
  assumes w: "transfer_mode w s" and a: "unat (remote_dma s) = a" "MEMSTART \<le> a" "a + w \<le> MEMEND" "w = 2 \<longrightarrow> even a"
    and stop: "a + w \<noteq> unat (page_stop s) * 256 \<or> unat (remote_bytes s) = w"
    and n: "w \<le> unat (remote_bytes s)" "unat (remote_bytes s) \<le> MEMSIZ"
  defines "s' \<equiv> asic_write 0 v w s"
  shows "mem s' = blit (a - MEMSTART) (le_bytes w (unat v)) (mem s)"
    and "unat (remote_bytes s') = unat (remote_bytes s) - w"
    and "unat (remote_bytes s) = w \<or> unat (remote_dma s') = a + w"
    and "same_tx s s'" and "sent_packets (out s') = sent_packets (out s)"
    and "unat (remote_bytes s) = w \<Longrightarrow> ISR_rdma_done (ISR s')"
proof -
  have w12: "w = 1 \<or> w = 2" using w by (auto simp: transfer_mode_def)
  have small: "a + w < 65536" using a(3) by (simp add: mem_consts)
  let ?m = "mem_blit (a - MEMSTART) (le_bytes w (unat v)) s"
  have cw: "chipmem_write (unat (remote_dma s)) v w s = ?m"
    unfolding a(1) by (rule chipmem_write_mem [OF w12 a(2,3,4)])
  have m: "remote_dma ?m = remote_dma s" "remote_bytes ?m = remote_bytes s" "DCR ?m = DCR s"
    "page_stop ?m = page_stop s" "page_start ?m = page_start s" "same_tx s ?m" "out ?m = out s"
    "mem ?m = blit (a - MEMSTART) (le_bytes w (unat v)) (mem s)"
    by (simp_all add: mem_blit_def same_tx_def)
  let ?b = "bump_remote_dma w ?m"
  have wm: "transfer_mode w ?m" using w by (simp add: transfer_mode_def m)
  have b: "remote_bytes ?b = remote_bytes s" "dma_width w ?b = word_of_nat w" "mem ?b = blit (a - MEMSTART) (le_bytes w (unat v)) (mem s)"
    "same_tx s ?b" "out ?b = out s"
    using wm transfer_mode_width [of w ?b] m
    by (simp_all add: bump_remote_dma_def Let_def transfer_mode_def same_tx_def)
  have nb: "unat (remote_bytes ?b - dma_width w ?b) = unat (remote_bytes s) - w"
    using n w12 by (auto simp: b unat_sub word_le_nat_alt)
  then have clamp: "\<not> MEMSIZ < unat (remote_bytes ?b - dma_width w ?b)" using n by simp
  have mode: "\<not> (1 < w \<and> \<not> DCR_wdsize (DCR s))" using w by (auto simp: transfer_mode_def)
  have eq: "s' = finish_rdma (?b\<lparr>remote_bytes := remote_bytes ?b - dma_width w ?b\<rparr>)"
    unfolding s'_def asic_write_def Let_def cw if_not_P [OF mode] if_not_P [OF clamp] by simp
  show "mem s' = blit (a - MEMSTART) (le_bytes w (unat v)) (mem s)" using b(3) by (simp add: eq)
  show "unat (remote_bytes s') = unat (remote_bytes s) - w" using nb by (simp add: eq)
  show "unat (remote_bytes s) = w \<or> unat (remote_dma s') = a + w"
    using stop bump_remote_dma_unat [OF wm] small a(1) by (auto simp: eq m Let_def)
  show "same_tx s s'" using b(4) by (simp add: eq) (simp add: same_tx_def)
  show "sent_packets (out s') = sent_packets (out s)" by (simp add: eq b)
  show "ISR_rdma_done (ISR s')" if "unat (remote_bytes s) = w"
    unfolding eq by (rule finish_rdma_done) (use nb that in \<open>simp add: word_unat_eq_iff\<close>)
qed

lemma remote_write_mem:
  assumes "transfer_mode w s" and "unat (remote_dma s) = a" "MEMSTART \<le> a" "a + length vs * w \<le> MEMEND" "w = 2 \<longrightarrow> even a"
    and "unat (page_stop s) * 256 \<le> a \<or> a + length vs * w \<le> unat (page_stop s) * 256"
    and "unat (remote_bytes s) = length vs * w"
  shows "mem (remote_write w vs s) = blit (a - MEMSTART) (words_bytes w vs) (mem s) \<and>
    same_tx s (remote_write w vs s) \<and> sent_packets (out (remote_write w vs s)) = sent_packets (out s) \<and>
    (vs \<noteq> [] \<longrightarrow> ISR_rdma_done (ISR (remote_write w vs s)))"
  using assms
proof (induction vs arbitrary: s a)
  case Nil
  then show ?case by (simp add: remote_write_def words_bytes_def same_tx_def)
next
  case (Cons v vs)
  have w: "w = 1 \<or> w = 2" using Cons.prems(1) by (auto simp: transfer_mode_def)
  have len: "length (v # vs) * w = w + length vs * w" by simp
  have p: "a + w \<le> MEMEND" "w \<le> unat (remote_bytes s)" "unat (remote_bytes s) \<le> MEMSIZ"
    using Cons.prems w unfolding len mem_consts by auto
  have p4: "a + w \<noteq> unat (page_stop s) * 256 \<or> unat (remote_bytes s) = w"
    using Cons.prems(6,7) w unfolding len by linarith
  let ?s = "asic_write 0 v w s"
  note a = asic_write_step [OF Cons.prems(1,2,3) p(1) Cons.prems(5) p4 p(2,3), of v]
  have rw: "remote_write w (v # vs) s = remote_write w vs ?s" by (simp add: remote_write_def)
  have wb: "words_bytes w (v # vs) = le_bytes w (unat v) @ words_bytes w vs" by (simp add: words_bytes_def)
  show ?case
  proof (cases "vs = []")
    case True
    then have "unat (remote_bytes s) = w" using Cons.prems(7) by simp
    with True a show ?thesis by (simp add: rw wb) (simp add: remote_write_def words_bytes_def)
  next
    case False
    then have "0 < length vs * w" using w by auto
    then have nw: "unat (remote_bytes s) \<noteq> w" using Cons.prems(7) unfolding len by linarith
    have t: "transfer_mode w ?s" "page_stop ?s = page_stop s"
      using a(4) Cons.prems(1) by (simp_all add: transfer_mode_def same_tx_def)
    have IH: "mem (remote_write w vs ?s) = blit (a + w - MEMSTART) (words_bytes w vs) (mem ?s) \<and>
      same_tx ?s (remote_write w vs ?s) \<and> sent_packets (out (remote_write w vs ?s)) = sent_packets (out ?s) \<and>
      (vs \<noteq> [] \<longrightarrow> ISR_rdma_done (ISR (remote_write w vs ?s)))"
    proof (rule Cons.IH [OF t(1)])
      show "unat (remote_dma ?s) = a + w" using a(3) nw by simp
      show "unat (remote_bytes ?s) = length vs * w" using a(2) Cons.prems(7) by simp
      show "w = 2 \<longrightarrow> even (a + w)" using Cons.prems(5) by simp
    qed (use Cons.prems t in \<open>auto simp: len\<close>)
    have "a + w - MEMSTART = a - MEMSTART + w" using Cons.prems(3) by simp
    then have "blit (a + w - MEMSTART) (words_bytes w vs) (mem ?s) =
        blit (a - MEMSTART) (words_bytes w (v # vs)) (mem s)"
      by (simp only: wb a(1) blit_append length_le_bytes)
    with IH a(4,5) False show ?thesis by (simp add: rw same_tx_def)
  qed
qed

text \<open>The driver's transmit sequence: the frame into the packet memory, its page and length, start.\<close>

definition driver_transmit :: "nat \<Rightarrow> u32 list \<Rightarrow> nat \<Rightarrow> nat \<Rightarrow> ne2k \<Rightarrow> ne2k" where
  "driver_transmit w vs page len s =
     (let s1 = remote_write w vs (program_transfer (page * 256) (length vs * w) s);
          s2 = page0_write1 0x4 (word_of_nat page) s1;
          s3 = page0_write1 0x5 (word_of_nat (len mod 256)) s2;
          s4 = page0_write1 0x6 (word_of_nat (len div 256)) s3
      in write_cr 0x26 s4)"

lemma cr_fields_start:
  "cr_fields 0x26 s =
     s\<lparr>CR := (CR s)\<lparr>CR_stop := False, CR_rdma_cmd := 4, CR_start := True, CR_pgsel := 0\<rparr>,
       ISR := (ISR s)\<lparr>ISR_reset := (ISR_reset (ISR s) \<and> CR_start (CR s))\<rparr>\<rparr>"
proof -
  have self: "s\<lparr>CR := c, ISR := (ISR s)\<lparr>ISR_reset := ISR_reset (ISR s)\<rparr>\<rparr> = s\<lparr>CR := c\<rparr>" for c by simp
  have bits: "bit (0x26 :: u32) 1" "\<not> bit (0x26 :: u32) 0" by simp_all
  show ?thesis
    by (cases "CR_start (CR s)") (simp_all add: cr_fields_def Let_def self bits)
qed

lemma write_cr_start_tx:
  assumes "TCR_loop_cntl (TCR s) = 0" and "0 < tx_bytes s"
    and "MEMSTART \<le> unat (tx_page_start s) * 256" "unat (tx_page_start s) * 256 + unat (tx_bytes s) \<le> MEMEND"
  shows "write_cr 0x26 s = (cr_fields 0x26 s)\<lparr>
      CR := (CR (cr_fields 0x26 s))\<lparr>CR_tx_packet := True\<rparr>, tx_timer_active := True,
      out := out s @ [Send_Pkt (block (mem s) (unat (tx_page_start s) * 256 - MEMSTART) (unat (tx_bytes s))),
                      Start_Tx_Timer (tx_microseconds (tx_bytes s))]\<rparr>"
proof -
  have bits: "bit (0x26 :: u32) 2" "cr_safe 0x26 = 0x26" by (simp_all add: cr_safe_def)
  have u: "uint (tx_page_start s) = int (unat (tx_page_start s))" by simp
  define i where "i = unat (tx_page_start s) * 256 - MEMSTART"
  have i: "mem_index (tx_page_start s) = int i" using assms(3) unfolding mem_index_def u i_def by linarith
  have r: "0 \<le> int i \<and> int i + int (unat (tx_bytes s)) \<le> int MEMSIZ"
    using assms(3,4) unfolding i_def mem_consts by linarith
  let ?s1 = "cr_fields 0x26 s"
  have f: "CR_start (CR ?s1)" "\<not> CR_stop (CR ?s1)" "CR_rdma_cmd (CR ?s1) = 4" "TCR ?s1 = TCR s"
    "tx_bytes ?s1 = tx_bytes s" "tx_page_start ?s1 = tx_page_start s" "mem ?s1 = mem s" "out ?s1 = out s"
    by (simp_all add: cr_fields_start)
  have s2: "cr_send_packet ?s1 = ?s1" using f by (simp add: cr_send_packet_def)
  have nz: "tx_bytes s \<noteq> 0" using assms(2) by simp
  have "write_cr 0x26 s = cr_probe (cr_transmit ?s1)"
    unfolding write_cr_def Let_def bits(2) s2 using assms(1) bits(1) f by simp
  also have "cr_transmit ?s1 = ?s1\<lparr>CR := (CR ?s1)\<lparr>CR_tx_packet := True\<rparr>, tx_timer_active := True,
      out := out s @ [Send_Pkt (block (mem s) i (unat (tx_bytes s))), Start_Tx_Timer (tx_microseconds (tx_bytes s))]\<rparr>"
    using nz r by (simp add: cr_transmit_def Let_def f i emit_def)
  also have "cr_probe \<dots> = \<dots>" by (simp add: cr_probe_def f)
  finally show ?thesis by (simp only: i_def)
qed

lemma driver_transmit_sends:
  assumes mode: "transfer_mode w s" and loop: "TCR_loop_cntl (TCR s) = 0"
    and page: "MEMSTART \<le> page * 256" "page * 256 + length vs * w \<le> MEMEND"
    and ring: "unat (page_stop s) \<le> page \<or> page * 256 + length vs * w \<le> unat (page_stop s) * 256"
    and len: "0 < len" "len \<le> length vs * w"
  defines "s' \<equiv> driver_transmit w vs page len s"
  shows "sent_packets (out s') = sent_packets (out s) @ [take len (words_bytes w vs)]"
    and "CR_tx_packet (CR s')" and "tx_timer_active s'"
    and "mem s' = blit (page * 256 - MEMSTART) (words_bytes w vs) (mem s)"
proof -
  have a: "page * 256 < 65536" "length vs * w < 65536" using page by (simp_all add: mem_consts)
  let ?p = "program_transfer (page * 256) (length vs * w) s"
  note regs = program_transfer_regs [OF a, of s]
  have mp: "transfer_mode w ?p" using mode by (simp add: transfer_mode_def regs(6))
  have stop: "unat (page_stop ?p) * 256 \<le> page * 256 \<or> page * 256 + length vs * w \<le> unat (page_stop ?p) * 256"
    using ring regs(4) by (auto simp: same_ring_def)
  let ?s1 = "remote_write w vs ?p"
  have r: "mem ?s1 = blit (page * 256 - MEMSTART) (words_bytes w vs) (mem ?p)" "same_tx ?p ?s1"
    "sent_packets (out ?s1) = sent_packets (out ?p)"
    using remote_write_mem [OF mp regs(1) page(1) page(2) _ stop regs(2)] by simp_all
  define s4 where "s4 = page0_write1 0x6 (word_of_nat (len div 256)) (page0_write1 0x5 (word_of_nat (len mod 256))
      (page0_write1 0x4 (word_of_nat page) ?s1))"
  have s4: "mem s4 = mem ?s1" "out s4 = out ?s1" "TCR s4 = TCR ?s1" "unat (tx_page_start s4) = page"
    "unat (tx_bytes s4) = len"
  proof -
    have "page < 192" "len < 65536" using page len by (simp_all add: mem_consts)
    then show "unat (tx_page_start s4) = page" "unat (tx_bytes s4) = len"
      by (simp_all add: s4_def page0_write1_def unat_set_bytes unat_of_nat unat_ucast_mod less_mult_imp_div_less)
  qed (simp_all add: s4_def page0_write1_def)
  have "0 < tx_bytes s4" using s4(5) len(1) by (simp add: word_less_nat_alt)
  moreover have "TCR_loop_cntl (TCR s4) = 0" using loop r(2) regs(9) by (simp add: s4 same_tx_def)
  moreover have "MEMSTART \<le> unat (tx_page_start s4) * 256"
    "unat (tx_page_start s4) * 256 + unat (tx_bytes s4) \<le> MEMEND" using page len by (simp_all add: s4)
  ultimately have eq: "s' = (cr_fields 0x26 s4)\<lparr>CR := (CR (cr_fields 0x26 s4))\<lparr>CR_tx_packet := True\<rparr>,
      tx_timer_active := True,
      out := out s4 @ [Send_Pkt (block (mem s4) (unat (tx_page_start s4) * 256 - MEMSTART) (unat (tx_bytes s4))),
                       Start_Tx_Timer (tx_microseconds (tx_bytes s4))]\<rparr>"
    using write_cr_start_tx unfolding s'_def driver_transmit_def Let_def s4_def [symmetric] by blast
  have "block (mem s4) (page * 256 - MEMSTART) len = take len (words_bytes w vs)"
    using block_blit_part [of 0 len "words_bytes w vs" "page * 256 - MEMSTART" "mem ?p"] len(2)
    by (simp add: s4 r(1))
  then show "sent_packets (out s') = sent_packets (out s) @ [take len (words_bytes w vs)]"
    using r(3) regs(7) by (simp add: eq s4)
  show "CR_tx_packet (CR s')" "tx_timer_active s'" by (simp_all add: eq)
  show "mem s' = blit (page * 256 - MEMSTART) (words_bytes w vs) (mem s)"
    using r(1) regs(3) s4(1) by (simp add: eq cr_fields_start)
qed


section \<open>Reading the registers back\<close>

lemma bit_rcr_byte: "bit (rcr_byte r) n \<longleftrightarrow> n < 6 \<and>
  [RCR_errors_ok r, RCR_runts_ok r, RCR_broadcast r, RCR_multicast r, RCR_promisc r, RCR_monitor r] ! n"
proof (cases "n < 6")
  case True
  then have "n = 0 \<or> n = 1 \<or> n = 2 \<or> n = 3 \<or> n = 4 \<or> n = 5" by auto
  then show ?thesis by (elim disjE) (simp_all add: rcr_byte_def bit_or_iff)
next
  case False
  then show ?thesis by (simp add: rcr_byte_def bit_or_iff not_less)
qed

lemma rcr_byte_of: "rcr_byte (rcr_of v) = v AND 0x3f"
proof -
  have f: "[RCR_errors_ok (rcr_of v), RCR_runts_ok (rcr_of v), RCR_broadcast (rcr_of v), RCR_multicast (rcr_of v),
      RCR_promisc (rcr_of v), RCR_monitor (rcr_of v)] ! n = bit v n" if "n < 6" for n
  proof -
    have "n = 0 \<or> n = 1 \<or> n = 2 \<or> n = 3 \<or> n = 4 \<or> n = 5" using that by auto
    then show ?thesis by (elim disjE) (simp_all add: rcr_of_def)
  qed
  have "rcr_byte (rcr_of v) = v AND mask 6"
    by (rule bit_word_eqI) (auto simp: bit_rcr_byte f bit_and_iff bit_mask_iff)
  moreover have "(mask 6 :: u32) = 0x3f" by (simp add: mask_eq_exp_minus_1)
  ultimately show ?thesis by simp
qed

lemma isr_flags_clear: "n < 7 \<Longrightarrow> isr_flags (isr_clear v r) ! n = (isr_flags r ! n \<and> \<not> bit v n)"
  unfolding less_7 by (elim disjE) (simp_all add: isr_flags_def isr_clear_def)

lemma isr_pending_clear: "isr_pending (isr_clear v r) = isr_pending r AND NOT v"
  by (rule bit_word_eqI) (auto simp: bit_isr_pending isr_flags_clear bit_and_iff bit_not_iff)

lemma isr_write_ISR: "ISR (isr_write v s) = isr_clear v (ISR s)"
  by (simp add: isr_write_def Let_def)

lemma bit_isr_byte: "bit (isr_byte r) n \<longleftrightarrow> n = 7 \<and> ISR_reset r \<or> n < 7 \<and> isr_flags r ! n"
  by (auto simp: isr_byte_def bit_or_iff bit_isr_pending)

lemma isr_byte_clear: "isr_byte (isr_clear (v AND 0x7f) r) = isr_byte r AND NOT (v AND 0x7f)"
proof -
  have m: "(0x7f :: u32) = mask 7" by (simp add: mask_eq_exp_minus_1)
  have r: "ISR_reset (isr_clear x r) = ISR_reset r" for x by (simp add: isr_clear_def)
  show ?thesis
    unfolding m by (rule bit_word_eqI)
      (auto simp: bit_isr_byte r isr_flags_clear bit_and_iff bit_or_iff bit_not_iff bit_mask_iff)
qed

lemma page0_write1_regs:
  "page0_write1 0x7 v s = isr_write (v AND 0x7f) s" "page0_write1 0xc v s = s\<lparr>RCR := rcr_of v\<rparr>"
  "page0_write1 0xe v s = s\<lparr>DCR := dcr_of v\<rparr>" "page0_write1 0xf v s = imr_write v s"
  "page0_write1 0xd v s = tcr_write v s"
  by (simp_all add: page0_write1_def)

lemma register_readback:
  "fst (page2_read 0xc 1 (page0_write 0xc v 1 s)) = v AND 0x3f"
  "fst (page2_read 0xf 1 (page0_write 0xf v 1 s)) = v AND 0x7f"
  by (simp_all add: page0_write_def page0_write1_regs page2_read_def rcr_byte_of imr_write_def imr_byte_of Let_def)

text \<open>The data configuration register loses bit 5 of its FIFO threshold.\<close>

lemma bit_numeral_above:
  assumes "7 \<le> n"
  shows "\<not> bit (0x5f :: nat) n" "\<not> bit (0x60 :: nat) n" "\<not> bit (0x5f :: int) n" "\<not> bit (0x60 :: int) n"
proof -
  have "(0x5f :: nat) = take_bit 7 0x5f" "(0x60 :: nat) = take_bit 7 0x60"
    "(0x5f :: int) = take_bit 7 0x5f" "(0x60 :: int) = take_bit 7 0x60" by simp_all
  with assms show "\<not> bit (0x5f :: nat) n" "\<not> bit (0x60 :: nat) n" "\<not> bit (0x5f :: int) n" "\<not> bit (0x60 :: int) n"
    by (metis bit_take_bit_iff not_less)+
qed

lemma dcr_byte_of: "dcr_byte (dcr_of v) = v AND 0x5f"
proof (rule bit_word_eqI)
  fix n assume "n < LENGTH(32)"
  show "bit (dcr_byte (dcr_of v)) n = bit (v AND 0x5f) n"
  proof (cases "n < 7")
    case True
    then show ?thesis unfolding less_7
      by (elim disjE) (simp_all add: dcr_byte_def dcr_of_def bit_or_iff bit_and_iff bit_push_bit_iff bit_ucast_iff bit_drop_bit_eq)
  next
    case False
    then have "7 \<le> n" by simp
    then show ?thesis
      by (simp add: dcr_byte_def bit_or_iff bit_and_iff bit_push_bit_iff bit_numeral_above)
  qed
qed

lemma dcr_readback: "fst (page2_read 0xe 1 (page0_write 0xe v 1 s)) = v AND 0x5f"
  by (simp add: page0_write_def page0_write1_regs page2_read_def Let_def dcr_byte_of)

section \<open>Properties\<close>

text \<open>A card as a driver leaves it: started, the ring in pages 46 to 7f, reception unmasked.\<close>

definition live_card :: ne2k where
  "live_card = \<lparr>
     CR = \<lparr>CR_stop = False, CR_start = True, CR_tx_packet = False, CR_rdma_cmd = 4, CR_pgsel = 0\<rparr>,
     ISR = isr_zero,
     IMR = \<lparr>IMR_rx_inte = True, IMR_tx_inte = True, IMR_rxerr_inte = False, IMR_txerr_inte = False,
            IMR_overw_inte = False, IMR_cofl_inte = False, IMR_rdma_inte = False\<rparr>,
     DCR = \<lparr>DCR_wdsize = True, DCR_endian = False, DCR_longaddr = False, DCR_loop = True,
            DCR_auto_rx = False, DCR_fifo_size = 2\<rparr>,
     TCR = \<lparr>TCR_crc_disable = False, TCR_loop_cntl = 0, TCR_ext_stoptx = False, TCR_coll_prio = False\<rparr>,
     TSR = \<lparr>TSR_tx_ok = False, TSR_collided = False, TSR_aborted = False, TSR_no_carrier = False,
            TSR_fifo_ur = False, TSR_cd_hbeat = False, TSR_ow_coll = False\<rparr>,
     RCR = \<lparr>RCR_errors_ok = False, RCR_runts_ok = False, RCR_broadcast = True, RCR_multicast = False,
            RCR_promisc = False, RCR_monitor = False\<rparr>,
     RSR = \<lparr>RSR_rx_ok = False, RSR_bad_crc = False, RSR_bad_falign = False, RSR_fifo_or = False,
            RSR_rx_missed = False, RSR_rx_mbit = False, RSR_rx_disabled = False, RSR_deferred = False\<rparr>,
     local_dma = 0, page_start = 0x46, page_stop = 0x80, bound_ptr = 0x7f, tx_page_start = 0x40,
     num_coll = 0, tx_bytes = 0, fifo = 0, remote_dma = 0, remote_start = 0, remote_bytes = 0,
     tallycnt_0 = 0, tallycnt_1 = 0, tallycnt_2 = 0,
     physaddr = [0x52, 0x54, 0, 0x12, 0x34, 0x56], curr_page = 0x7f, mchash = replicate 8 0,
     rempkt_ptr = 0, localpkt_ptr = 0, address_cnt = 0, macaddr = (\<lambda>_. 0), mem = (\<lambda>_. 0),
     base_address = 0x300, base_irq = 3, tx_timer_active = False, pci_enabled = False, devfunc = 0,
     pci_conf = (\<lambda>_. 0), out = []\<rparr>"

lemma live_card_ring: "ring_ok live_card" "transfer_mode 2 live_card" "used live_card = 0" "span live_card = 58"
  by (simp_all add: live_card_def ring_ok_def transfer_mode_def used_def span_def)

lemma live_card_holds: "card_holds 2 live_card []"
  using live_card_ring by (simp add: card_holds_def)

text \<open>A broadcast frame of 300 bytes, in a larger buffer: it takes two pages, across the ring's end.\<close>

definition broadcast_buf :: bytes where
  "broadcast_buf = replicate 6 0xff @ replicate 294 7 @ replicate 4 0"

lemma broadcast_fits: "readable_frame (broadcast_buf, 300)"
  by (simp add: readable_frame_def broadcast_buf_def)

lemma live_card_takes: "rx_takes broadcast_buf 300 live_card"
proof -
  have "rx_room 300 live_card" using live_card_ring by (simp add: rx_room_def)
  moreover have "take 6 broadcast_buf = broadcast_macaddr"
    by (simp add: broadcast_buf_def broadcast_macaddr_def numeral_eq_Suc)
  ultimately show ?thesis by (simp add: rx_takes_def rx_accept_def rx_ignores_def) (simp add: live_card_def)
qed

text \<open>
  C2. The receive ring is a queue: through any interleaving of frames arriving from the network and
  the driver taking frames off the ring through the data port, across the end of the ring and
  whatever the transfer width, the frames taken are, in order and byte for byte, the first of those
  the card held and accepted, and the rest are still in the ring.
\<close>

theorem receive_ring_refines_queue:
  assumes "card_holds w s fs" and "\<forall>p. Arrive p \<in> set ops \<longrightarrow> readable_frame p"
    and "queue_run arrive_frame accepts_frame frame_of ring_empty (driver_take w) ops s = (taken, acc, s')"
  shows "\<exists>rest. fs @ acc = taken @ rest \<and> card_holds w s' rest"
  using card_queue.run_fifo [OF assms(1) _ assms(3)] assms(2) by blast

lemma receive_ring_refines_queue_witness:
  "\<exists>taken acc s' rest. queue_run arrive_frame accepts_frame frame_of ring_empty (driver_take 2)
       [Arrive (broadcast_buf, 300), Take, Take] live_card = (taken, acc, s') \<and>
     [] @ acc = taken @ rest \<and> card_holds 2 s' rest"
proof -
  let ?ops = "[Arrive (broadcast_buf, 300), Take, Take]"
  obtain taken acc s' where r: "queue_run arrive_frame accepts_frame frame_of ring_empty (driver_take 2)
       ?ops live_card = (taken, acc, s')" by (meson prod_cases3)
  have "\<forall>p. Arrive p \<in> set ?ops \<longrightarrow> readable_frame p" by (auto simp: broadcast_fits)
  from receive_ring_refines_queue [OF live_card_holds this r] r show ?thesis by blast
qed

text \<open>
  A frame that the card takes is read back whole by the driver: the block read from the page
  that was current starts with the card's header and the frame's bytes.
\<close>

theorem received_frame_is_read:
  assumes "ring_ok s" and "transfer_mode w s" and "6 \<le> n" "n < 2 ^ 31" and "n + 4 \<le> length buf"
    and "rx_takes buf n s" and "4 + n \<le> k * w" "k * w < 65536"
  shows "\<exists>header. length header = 4 \<and>
    take (4 + n) (fst (driver_read w (unat (curr_page s)) k (rx_frame buf n s))) = header @ take n buf"
proof -
  let ?s = "rx_frame buf n s"
  have q: "ring_holds s (used s) [] (used s)" by simp
  note frames = rx_frame_queue [OF assms(1,3,4,5) q]
  have len: "length (take n buf) = n" using assms(5) by simp
  have page: "page_at ?s (used s) = unat (curr_page s)"
    using same_ring_layout [OF frames(2)] page_at_used [OF assms(1)] by simp
  have w: "transfer_mode w ?s" using assms(2) by (simp add: transfer_mode_def rx_frame_DCR)
  have "ring_holds ?s (used s) (take n buf # []) (used ?s)" using frames(3) assms(6) by simp
  from driver_read_frame [OF frames(1) w this, of k] assms(7,8) show ?thesis
    unfolding len page by (intro exI conjI) (auto simp: rx_header_def)
qed

lemma received_frame_is_read_witness:
  "\<exists>header. length header = 4 \<and>
    take (4 + 300) (fst (driver_read 2 (unat (curr_page live_card)) 160 (rx_frame broadcast_buf 300 live_card))) =
      header @ take 300 broadcast_buf"
  by (rule received_frame_is_read) (use live_card_ring live_card_takes in \<open>simp_all add: broadcast_buf_def\<close>)

text \<open>
  C37. Receiving a frame of 6 bytes or more into a ring within the packet memory never writes outside the packet memory.
  It reads past the buffer of the frame exactly when the frame is taken, wraps around the end of the ring, and the
  buffer holds less than four bytes behind the frame; then by no more than four bytes past the frame. Nothing
  else is recorded but, at most, the interrupt.
\<close>

theorem reception_stays_in_memory:
  assumes "ring_ok s" and "6 \<le> n" "n < 2 ^ 31" and "n \<le> length buf"
  shows "\<exists>bad irq. out (rx_frame buf n s) = out s @ bad @ irq \<and>
    (\<forall>e \<in> set bad. \<exists>d f k. e = Bad_Copy d f k \<and> 0 \<le> d \<and> 0 \<le> k \<and> d + k \<le> int MEMSIZ \<and> 0 \<le> f \<and>
       int (length buf) < f + k \<and> f + k \<le> int n + 4) \<and>
    (bad \<noteq> [] \<longleftrightarrow> rx_takes buf n s \<and> unat (page_stop s) < unat (curr_page s) + (n + 263) div 256 \<and> length buf < n + 4) \<and>
    irq \<in> {[], [Pic_Raise (base_irq s)], [Pci_Set_Irq (devfunc s) (pci_conf s 0x3d) True]}"
  using rx_frame_records [OF assms] unfolding list_all_iff overread_def rx_wraps_def by blast

text \<open>A frame of 300 bytes in a buffer of that size, received at the last page of the ring, is read past its end.\<close>

lemma reception_stays_in_memory_witness:
  "\<exists>bad irq. bad \<noteq> [] \<and> out (rx_frame (take 300 broadcast_buf) 300 live_card) = out live_card @ bad @ irq"
proof -
  let ?b = "take 300 broadcast_buf"
  have l: "length ?b = 300" by (simp add: broadcast_buf_def)
  have "rx_room 300 live_card" using live_card_ring by (simp add: rx_room_def)
  moreover have "take 6 ?b = broadcast_macaddr"
    by (simp add: broadcast_buf_def broadcast_macaddr_def numeral_eq_Suc)
  ultimately have "rx_takes ?b 300 live_card" by (simp add: rx_takes_def rx_accept_def rx_ignores_def) (simp add: live_card_def)
  moreover have "unat (page_stop live_card) < unat (curr_page live_card) + (300 + 263) div 256"
    by (simp add: live_card_def)
  moreover have "length ?b < 300 + 4" "(6 :: nat) \<le> 300" "(300 :: nat) < 2 ^ 31" "300 \<le> length ?b" using l by simp_all
  note c = calculation this and r = reception_stays_in_memory [OF live_card_ring(1) this(2-4)]
  show ?thesis using r c(1-3) by blast
qed

text \<open>
  The packet handed to the host network by a driver's transmit sequence is the one the driver
  wrote through the data port, of the length it programmed.
\<close>

theorem transmitted_packet_is_written:
  assumes "transfer_mode w s" and "TCR_loop_cntl (TCR s) = 0"
    and "MEMSTART \<le> page * 256" "page * 256 + length vs * w \<le> MEMEND"
    and "unat (page_stop s) \<le> page \<or> page * 256 + length vs * w \<le> unat (page_stop s) * 256"
    and "0 < len" "len \<le> length vs * w"
  shows "sent_packets (out (driver_transmit w vs page len s)) = sent_packets (out s) @ [take len (words_bytes w vs)] \<and>
    CR_tx_packet (CR (driver_transmit w vs page len s)) \<and> tx_timer_active (driver_transmit w vs page len s)"
  using driver_transmit_sends [OF assms] by simp

lemma transmitted_packet_is_written_witness:
  "sent_packets (out (driver_transmit 2 [0x0201, 0x0403, 5] 0x40 5 live_card)) =
     sent_packets (out live_card) @ [take 5 (words_bytes 2 [0x0201, 0x0403, 5])] \<and>
   CR_tx_packet (CR (driver_transmit 2 [0x0201, 0x0403, 5] 0x40 5 live_card)) \<and>
   tx_timer_active (driver_transmit 2 [0x0201, 0x0403, 5] 0x40 5 live_card)"
  by (rule transmitted_packet_is_written) (simp_all add: transfer_mode_def live_card_def mem_consts)

text \<open>
  C3. On every card reachable from power-on by port accesses, configuration accesses, received
  frames, timer expiry, resets and restores, the interrupt line is high while an unmasked event is
  pending: no interrupt is lost.
\<close>

theorem no_interrupt_lost:
  assumes "nic_reach s" and "irq_due s"
  shows "irq_line s"
  using nic_reach_ok [OF assms(1)] assms(2) by (simp add: nic_ok_def irq_inv_def)

text \<open>The zero-length remote read by which a driver provokes an interrupt, from power-on.\<close>

definition cold_card :: ne2k where
  "cold_card = ne2k_reset RESET_HARDWARE (ne2k_init [0x52, 0x54, 0, 0x12, 0x34, 0x56] None 0x300 3 live_card)"

lemma cold_card_fields:
  "base_address cold_card = 0x300" "CR_pgsel (CR cold_card) = 0" "remote_bytes cold_card = 0"
  "base_irq cold_card = 3" "\<not> pci_enabled cold_card"
  by (simp_all add: cold_card_def ne2k_init_def ne2k_reset_def ne2k_power_up_def set_irq_level_def emit_def Let_def)

definition probed_card :: ne2k where
  "probed_card = ne2k_write 0x300 0x0a 1 (ne2k_write 0x30f 0x40 1 cold_card)"

lemma probed_card_reach: "nic_reach probed_card"
proof -
  have "out live_card = []" by (simp add: live_card_def)
  note on = nic_reach.power_on [OF this]
  show ?thesis
    unfolding probed_card_def cold_card_def by (rule nic_reach.further [OF nic_reach.further [OF on nic_step.io_write] nic_step.io_write])
qed

lemma probe_interrupts:
  assumes "base_address s = 0x300" and "CR_pgsel (CR s) = 0" and "remote_bytes s = 0"
  defines "s' \<equiv> ne2k_write 0x300 0x0a 1 (ne2k_write 0x30f 0x40 1 s)"
  shows "irq_due s'" and "base_irq s' = base_irq s" and "pci_enabled s' = pci_enabled s"
proof -
  let ?s = "imr_write 0x40 s"
  have imr: "ne2k_write 0x30f 0x40 1 s = ?s"
    using assms by (simp add: ne2k_write_def page0_write_def page0_write1_regs Let_def)
  have s: "base_address ?s = 0x300" "remote_bytes ?s = 0" "IMR_rdma_inte (IMR ?s)"
    using assms by (simp_all add: imr_write_def imr_of_def set_irq_level_def emit_def Let_def)
  have cr: "ne2k_write 0x300 0x0a 1 ?s = write_cr 0x0a ?s"
    using s by (simp add: ne2k_write_def Let_def)
  let ?t = "cr_fields 0x0a ?s"
  have b: "bit (0x0a :: u32) 1" "\<not> bit (0x0a :: u32) 2" "cr_safe 0x0a = 0x0a" by (simp_all add: cr_safe_def)
  have t: "CR_rdma_cmd (CR ?t) = 1" "CR_start (CR ?t)" "remote_bytes ?t = 0" "IMR ?t = IMR ?s"
    using s(2) b(1) by (simp_all add: cr_fields_def Let_def)
  then have "s' = cr_probe ?t" unfolding s'_def imr cr by (simp add: write_cr_def b Let_def cr_send_packet_def)
  then have s': "s' = set_irq_level True (?t\<lparr>ISR := (ISR ?t)\<lparr>ISR_rdma_done := True\<rparr>\<rparr>)"
    using t s(3) by (simp add: cr_probe_def Let_def)
  show "irq_due s'" using t s(3) by (simp add: s' irq_due_iff)
  show "base_irq s' = base_irq s" "pci_enabled s' = pci_enabled s"
    by (simp_all add: s' set_irq_level_def emit_def cr_fields_def imr_write_def Let_def)
qed

lemma probed_card_due: "irq_due probed_card"
  and probed_card_line: "base_irq probed_card = 3" "\<not> pci_enabled probed_card"
  using probe_interrupts [OF cold_card_fields(1-3)] by (simp_all only: probed_card_def cold_card_fields not_False_eq_True)

lemma no_interrupt_lost_witness: "irq_line probed_card"
  by (rule no_interrupt_lost [OF probed_card_reach probed_card_due])

text \<open>
  C38. On every reachable card the registers keep the shape their code relies on: six address bytes,
  eight multicast filter bytes, a page number below 4 and a remote DMA command below 8; so the
  panics for other pages are never reached.
\<close>

theorem register_shape:
  assumes "nic_reach s"
  shows "length (physaddr s) = 6 \<and> length (mchash s) = 8 \<and> unat (CR_pgsel (CR s)) < 4 \<and> unat (CR_rdma_cmd (CR s)) < 8"
  using nic_reach_ok [OF assms] by (simp add: nic_ok_def nic_shape_def)

lemma register_shape_witness:
  "length (physaddr probed_card) = 6 \<and> length (mchash probed_card) = 8 \<and>
   unat (CR_pgsel (CR probed_card)) < 4 \<and> unat (CR_rdma_cmd (CR probed_card)) < 8"
  by (rule register_shape [OF probed_card_reach])

text \<open>
  Writing the interrupt status register clears exactly the written ones of its seven event bits.
\<close>

theorem isr_write_one_to_clear:
  "fst (page0_read 0x7 1 (page0_write 0x7 v 1 s)) = fst (page0_read 0x7 1 s) AND NOT (v AND 0x7f)"
  by (simp add: page0_write_def page0_write1_regs page0_read_def isr_write_ISR isr_byte_clear)

text \<open>
  The receive configuration, interrupt mask and data configuration registers written on page 0
  read back on page 2, except for bit 5 of the data configuration register, the low bit of the FIFO
  threshold, which is lost.
\<close>

theorem registers_read_back:
  "fst (page2_read 0xc 1 (page0_write 0xc v 1 s)) = v AND 0x3f \<and>
   fst (page2_read 0xf 1 (page0_write 0xf v 1 s)) = v AND 0x7f \<and>
   fst (page2_read 0xe 1 (page0_write 0xe v 1 s)) = v AND 0x5f"
  using register_readback dcr_readback by simp

end
