(* ===== verification/Pic.thy ===== *)
theory Pic
  imports Machine_Prelude
begin

text \<open>
  The pair of 8259A interrupt controllers (\<^verbatim>\<open>bx_pic_c\<close> in \<^verbatim>\<open>src/sim/bochs/iodev/pic.cc\<close>):
  request, mask and service registers, rotating priorities, the initialisation sequence, and the
  acknowledge cycle of the CPU. The \<open>irq\<close> and \<open>lowest_priority\<close> bytes are numbers below 8. Calls of
  the CPU and of the IO-APIC are appended to \<open>pic_out\<close>.
\<close>

unbundle bit_operations_syntax

section \<open>State\<close>

datatype pic_event =
    Set_Intr bool             \<comment> \<open>\<open>BX_SET_INTR\<close>\<close>
  | Ioapic_Level nat bool     \<comment> \<open>\<open>DEV_ioapic_set_irq_level\<close>\<close>
  | Pic_Panic string

record pic =
  single_PIC :: bool
  interrupt_offset :: u8
  cascade :: u8               \<comment> \<open>the union of \<open>slave_connect_mask\<close> and \<open>slave_id\<close>\<close>
  sfnm :: bool
  buffered_mode :: bool
  master_slave :: bool
  auto_eoi :: bool
  imr :: u8
  isr :: u8
  irr :: u8
  read_reg_select :: bool     \<comment> \<open>False: IRR, True: ISR\<close>
  irq :: nat
  lowest_priority :: nat
  INT_req :: bool
  IRQ_in :: u8
  in_init :: bool
  requires_4 :: bool
  byte_expected :: nat
  special_mask :: bool
  polled :: bool
  rotate_on_autoeoi :: bool
  edge_level :: u8

record pics =
  master_pic :: pic
  slave_pic :: pic
  ioapic_present :: bool
  pic_out :: "pic_event list"

definition pic_emit :: "pic_event \<Rightarrow> pics \<Rightarrow> pics" where
  "pic_emit e s = s\<lparr>pic_out := pic_out s @ [e]\<rparr>"

definition pic_power_on :: "bool \<Rightarrow> u8 \<Rightarrow> u8 \<Rightarrow> pic" where
  "pic_power_on is_master offset con =
     \<lparr>single_PIC = False, interrupt_offset = offset, cascade = con, sfnm = False, buffered_mode = False,
      master_slave = is_master, auto_eoi = False, imr = 0xff, isr = 0, irr = 0, read_reg_select = False,
      irq = 0, lowest_priority = 7, INT_req = False, IRQ_in = 0, in_init = False, requires_4 = False,
      byte_expected = 0, special_mask = False, polled = False, rotate_on_autoeoi = False, edge_level = 0\<rparr>"

definition pic_init :: "bool \<Rightarrow> pics" where
  "pic_init apic = \<lparr>master_pic = pic_power_on True 0x08 0x04, slave_pic = pic_power_on False 0x70 0x02,
                    ioapic_present = apic, pic_out = []\<rparr>"

section \<open>Priorities\<close>

definition next_irq :: "nat \<Rightarrow> nat" where
  "next_irq i = (if 7 < i + 1 then 0 else i + 1)"

definition highest_priority :: "pic \<Rightarrow> nat" where
  "highest_priority p = next_irq (lowest_priority p)"

text \<open>
  The loop \<open>do \<dots> irq++ \<dots> while (irq != stop)\<close>, leaving at the first line with \<open>P\<close>. There are eight
  lines, so eight rounds are enough.
\<close>

fun scan :: "nat \<Rightarrow> (nat \<Rightarrow> bool) \<Rightarrow> nat \<Rightarrow> nat \<Rightarrow> nat option" where
  "scan 0 P stop i = None"
| "scan (Suc k) P stop i =
     (if P i then Some i else if next_irq i = stop then None else scan k P stop (next_irq i))"

definition clear_bit :: "nat \<Rightarrow> u8 \<Rightarrow> u8" where
  "clear_bit i w = w AND NOT (push_bit i 1)"

definition clear_highest_interrupt :: "pic \<Rightarrow> pic" where
  "clear_highest_interrupt p =
     (case scan 8 (bit (isr p)) (highest_priority p) (highest_priority p) of
        None \<Rightarrow> p
      | Some i \<Rightarrow> p\<lparr>isr := clear_bit i (isr p)\<rparr>)"

text \<open>
  The common part of \<open>service_master_pic\<close> and \<open>service_slave_pic\<close>: which line to signal, if any.
  \<open>max_irq\<close> is where the search for a request stops, None when the line in service has the highest
  priority.
\<close>

definition max_irq :: "pic \<Rightarrow> nat option" where
  "max_irq p =
     (let h = highest_priority p in
      if special_mask p then Some h
      else if isr p \<noteq> 0 then
        (case scan 8 (bit (isr p)) h h of
           Some m \<Rightarrow> if m = h then None else Some m
         | None \<Rightarrow> None)
      else Some h)"

definition pic_request :: "pic \<Rightarrow> nat option" where
  "pic_request p =
     (if INT_req p then None
      else case max_irq p of
        None \<Rightarrow> None
      | Some m \<Rightarrow>
          let unmasked_requests = irr p AND NOT (imr p) in
          if unmasked_requests = 0 then None
          else scan 8 (\<lambda>i. \<not> (special_mask p \<and> bit (isr p) i) \<and> bit unmasked_requests i) m
                 (highest_priority p))"

definition service_master_pic :: "pics \<Rightarrow> pics" where
  "service_master_pic s =
     (case pic_request (master_pic s) of
        None \<Rightarrow> s
      | Some i \<Rightarrow> pic_emit (Set_Intr True) (s\<lparr>master_pic := (master_pic s)\<lparr>irq := i, INT_req := True\<rparr>\<rparr>))"

section \<open>Interrupt lines\<close>

text \<open>The half of \<open>raise_irq\<close> for the lines of the master; the slave's request is its line 2.\<close>

definition raise_master :: "nat \<Rightarrow> pics \<Rightarrow> pics" where
  "raise_master n s =
     (if bit (IRQ_in (master_pic s)) n then s
      else service_master_pic
             (s\<lparr>master_pic := (master_pic s)\<lparr>IRQ_in := IRQ_in (master_pic s) OR push_bit n 1,
                                            irr := irr (master_pic s) OR push_bit n 1\<rparr>\<rparr>))"

definition service_slave_pic :: "pics \<Rightarrow> pics" where
  "service_slave_pic s =
     (case pic_request (slave_pic s) of
        None \<Rightarrow> s
      | Some i \<Rightarrow> raise_master 2 (s\<lparr>slave_pic := (slave_pic s)\<lparr>irq := i, INT_req := True\<rparr>\<rparr>))"

definition forward_ioapic :: "nat \<Rightarrow> bool \<Rightarrow> pics \<Rightarrow> pics" where
  "forward_ioapic n level s =
     (if ioapic_present s \<and> n \<noteq> 2 then pic_emit (Ioapic_Level n level) s else s)"

definition raise_irq :: "nat \<Rightarrow> pics \<Rightarrow> pics" where
  "raise_irq n s0 =
     (let s = forward_ioapic n True s0 in
      if n \<le> 7 then raise_master n s
      else if n \<le> 15 \<and> \<not> bit (IRQ_in (slave_pic s)) (n - 8) then
        service_slave_pic
          (s\<lparr>slave_pic := (slave_pic s)\<lparr>IRQ_in := IRQ_in (slave_pic s) OR push_bit (n - 8) 1,
                                       irr := irr (slave_pic s) OR push_bit (n - 8) 1\<rparr>\<rparr>)
      else s)"

definition lower_irq :: "nat \<Rightarrow> pics \<Rightarrow> pics" where
  "lower_irq n s0 =
     (let s = forward_ioapic n False s0 in
      if n \<le> 7 \<and> bit (IRQ_in (master_pic s)) n then
        s\<lparr>master_pic := (master_pic s)\<lparr>IRQ_in := clear_bit n (IRQ_in (master_pic s)),
                                      irr := clear_bit n (irr (master_pic s))\<rparr>\<rparr>
      else if 7 < n \<and> n \<le> 15 \<and> bit (IRQ_in (slave_pic s)) (n - 8) then
        s\<lparr>slave_pic := (slave_pic s)\<lparr>IRQ_in := clear_bit (n - 8) (IRQ_in (slave_pic s)),
                                    irr := clear_bit (n - 8) (irr (slave_pic s))\<rparr>\<rparr>
      else s)"

definition set_mode :: "bool \<Rightarrow> u8 \<Rightarrow> pics \<Rightarrow> pics" where
  "set_mode ma_sl mode s =
     (if ma_sl then s\<lparr>master_pic := (master_pic s)\<lparr>edge_level := mode\<rparr>\<rparr>
      else s\<lparr>slave_pic := (slave_pic s)\<lparr>edge_level := mode\<rparr>\<rparr>)"

section \<open>The acknowledge cycle\<close>

text \<open>A pic that hands its current line to the CPU.\<close>

definition acknowledge :: "pic \<Rightarrow> pic" where
  "acknowledge p =
     (let p1 = (if \<not> bit (edge_level p) (irq p) then p\<lparr>irr := clear_bit (irq p) (irr p)\<rparr> else p) in
      if \<not> auto_eoi p1 then p1\<lparr>isr := isr p1 OR push_bit (irq p1) 1\<rparr>
      else if rotate_on_autoeoi p1 then p1\<lparr>lowest_priority := irq p1\<rparr>
      else p1)"

definition IAC :: "pics \<Rightarrow> u8 \<times> pics" where
  "IAC s0 =
     (let s = pic_emit (Set_Intr False) s0;
          s1 = s\<lparr>master_pic := (master_pic s)\<lparr>INT_req := False\<rparr>\<rparr>
      in if irr (master_pic s1) = 0 then (interrupt_offset (master_pic s1) + 7, s1)
         else
           let s2 = s1\<lparr>master_pic := acknowledge (master_pic s1)\<rparr> in
           if irq (master_pic s2) \<noteq> 2
           then (word_of_nat (irq (master_pic s2)) + interrupt_offset (master_pic s2), service_master_pic s2)
           else
             let s3 = s2\<lparr>slave_pic := (slave_pic s2)\<lparr>INT_req := False\<rparr>,
                         master_pic := (master_pic s2)\<lparr>IRQ_in := clear_bit 2 (IRQ_in (master_pic s2))\<rparr>\<rparr>
             in if irr (slave_pic s3) = 0 then (interrupt_offset (slave_pic s3) + 7, s3)
                else
                  let vector = word_of_nat (irq (slave_pic s3)) + interrupt_offset (slave_pic s3);
                      s4 = s3\<lparr>slave_pic := acknowledge (slave_pic s3)\<rparr>
                  in (vector, service_master_pic (service_slave_pic s4)))"

section \<open>Reading the ports\<close>

definition irq_twice :: "nat \<Rightarrow> nat \<Rightarrow> u32" where
  "irq_twice io_len i = (if io_len = 1 then word_of_nat i else push_bit 8 (word_of_nat i) OR word_of_nat i)"

definition pic_read :: "nat \<Rightarrow> nat \<Rightarrow> pics \<Rightarrow> u32 \<times> pics" where
  "pic_read address io_len s =
     (if (address = 0x20 \<or> address = 0x21) \<and> polled (master_pic s) then
        let s1 = service_master_pic
                   (s\<lparr>master_pic := (clear_highest_interrupt (master_pic s))\<lparr>polled := False\<rparr>\<rparr>)
        in (irq_twice io_len (irq (master_pic s1)), s1)
      else if (address = 0xa0 \<or> address = 0xa1) \<and> polled (slave_pic s) then
        let s1 = service_slave_pic
                   (s\<lparr>slave_pic := (clear_highest_interrupt (slave_pic s))\<lparr>polled := False\<rparr>\<rparr>)
        in (irq_twice io_len (irq (slave_pic s1)), s1)
      else if address = 0x20 then
        (ucast (if read_reg_select (master_pic s) then isr (master_pic s) else irr (master_pic s)), s)
      else if address = 0x21 then (ucast (imr (master_pic s)), s)
      else if address = 0xa0 then
        (ucast (if read_reg_select (slave_pic s) then isr (slave_pic s) else irr (slave_pic s)), s)
      else if address = 0xa1 then (ucast (imr (slave_pic s)), s)
      else (0, pic_emit (Pic_Panic ''io read'') s))"

section \<open>Writing the ports\<close>

text \<open>
  The command words on one controller. The second component of \<open>ocw3\<close> and \<open>ocw2\<close> says whether the
  code then looks for a request to signal; \<open>ocw2\<close> is None for the values the code panics on.
\<close>

definition icw1 :: "u32 \<Rightarrow> pic \<Rightarrow> pic" where
  "icw1 v p = p\<lparr>in_init := True, requires_4 := bit v 0, byte_expected := 2, imr := 0, isr := 0, irr := 0,
                lowest_priority := 7, INT_req := False, auto_eoi := False, rotate_on_autoeoi := False\<rparr>"

definition icw1_panics :: "u32 \<Rightarrow> pics \<Rightarrow> pics" where
  "icw1_panics v s =
     (let s1 = (if bit v 1 then pic_emit (Pic_Panic ''ICW1: single mode not supported'') s else s) in
      if bit v 3 then pic_emit (Pic_Panic ''ICW1: level sensitive mode not supported'') s1 else s1)"

definition ocw3 :: "u32 \<Rightarrow> pic \<Rightarrow> pic \<times> bool" where
  "ocw3 v p =
     (let sm = drop_bit 5 (v AND 0x60); read_op = v AND 0x03 in
      if bit v 2 then (p\<lparr>polled := True\<rparr>, False)
      else
        let p1 = (if read_op = 0x02 then p\<lparr>read_reg_select := False\<rparr>
                  else if read_op = 0x03 then p\<lparr>read_reg_select := True\<rparr> else p)
        in if sm = 0x02 then (p1\<lparr>special_mask := False\<rparr>, False)
           else if sm = 0x03 then (p1\<lparr>special_mask := True\<rparr>, True)
           else (p1, False))"

definition ocw2 :: "u32 \<Rightarrow> pic \<Rightarrow> (pic \<times> bool) option" where
  "ocw2 v p =
     (if v = 0x00 \<or> v = 0x80 then Some (p\<lparr>rotate_on_autoeoi := (v \<noteq> 0)\<rparr>, False)
      else if v = 0x0a then Some (p\<lparr>read_reg_select := False\<rparr>, False)
      else if v = 0x0b then Some (p\<lparr>read_reg_select := True\<rparr>, False)
      else if v = 0xa0 \<or> v = 0x20 then
        let p1 = clear_highest_interrupt p in
        Some (if v = 0xa0 then p1\<lparr>lowest_priority := next_irq (lowest_priority p1)\<rparr> else p1, True)
      else if v = 0x40 then Some (p, False)
      else if 0x60 \<le> v \<and> v \<le> 0x67 then Some (p\<lparr>isr := clear_bit (unat v - 0x60) (isr p)\<rparr>, True)
      else if 0xc0 \<le> v \<and> v \<le> 0xc7 then Some (p\<lparr>lowest_priority := unat v - 0xc0\<rparr>, False)
      else if 0xe0 \<le> v \<and> v \<le> 0xe7 then
        Some (p\<lparr>isr := clear_bit (unat v - 0xe0) (isr p), lowest_priority := unat v - 0xe0\<rparr>, True)
      else None)"

text \<open>
  A byte of the initialisation sequence: what the controller becomes, with a panic outside 80x86
  mode. In no expected position the code panics and goes on with the mask register.
\<close>

definition icw_byte :: "u32 \<Rightarrow> pic \<Rightarrow> pic option" where
  "icw_byte v p =
     (if byte_expected p = 2 then Some (p\<lparr>interrupt_offset := ucast (v AND 0xf8), byte_expected := 3\<rparr>)
      else if byte_expected p = 3 then
        Some (if requires_4 p then p\<lparr>byte_expected := 4\<rparr> else p\<lparr>in_init := False\<rparr>)
      else if byte_expected p = 4 then Some (p\<lparr>auto_eoi := bit v 1, in_init := False\<rparr>)
      else None)"

definition icw_panic :: "u32 \<Rightarrow> pic \<Rightarrow> pics \<Rightarrow> pics" where
  "icw_panic v p s =
     (if byte_expected p = 4 \<and> \<not> bit v 0 then pic_emit (Pic_Panic ''not 80x86 mode'') s else s)"

definition write_20 :: "u32 \<Rightarrow> pics \<Rightarrow> pics" where
  "write_20 v s =
     (let put = (\<lambda>p. s\<lparr>master_pic := p\<rparr>) in
      if bit v 4 then pic_emit (Set_Intr False) (icw1_panics v (put (icw1 v (master_pic s))))
      else if v AND 0x18 = 0x08 then
        (case ocw3 v (master_pic s) of (p, serve) \<Rightarrow> if serve then service_master_pic (put p) else put p)
      else
        (case ocw2 v (master_pic s) of
           Some (p, serve) \<Rightarrow> if serve then service_master_pic (put p) else put p
         | None \<Rightarrow> pic_emit (Pic_Panic ''write to port 20h'') s))"

definition write_21 :: "u32 \<Rightarrow> pics \<Rightarrow> pics" where
  "write_21 v s =
     (let set_imr = (\<lambda>s. service_master_pic (s\<lparr>master_pic := (master_pic s)\<lparr>imr := ucast v\<rparr>\<rparr>)) in
      if in_init (master_pic s) then
        (case icw_byte v (master_pic s) of
           Some p \<Rightarrow> icw_panic v (master_pic s) (s\<lparr>master_pic := p\<rparr>)
         | None \<Rightarrow> set_imr (pic_emit (Pic_Panic ''master expecting bad init command'') s))
      else set_imr s)"

definition write_A0 :: "u32 \<Rightarrow> pics \<Rightarrow> pics" where
  "write_A0 v s =
     (let put = (\<lambda>p. s\<lparr>slave_pic := p\<rparr>) in
      if bit v 4 then
        icw1_panics v ((put (icw1 v (slave_pic s)))
          \<lparr>master_pic := (master_pic s)\<lparr>IRQ_in := clear_bit 2 (IRQ_in (master_pic s))\<rparr>\<rparr>)
      else if v AND 0x18 = 0x08 then
        (case ocw3 v (slave_pic s) of (p, serve) \<Rightarrow> if serve then service_slave_pic (put p) else put p)
      else
        (case ocw2 v (slave_pic s) of
           Some (p, serve) \<Rightarrow> if serve then service_slave_pic (put p) else put p
         | None \<Rightarrow> pic_emit (Pic_Panic ''write to port A0h'') s))"

definition write_A1 :: "u32 \<Rightarrow> pics \<Rightarrow> pics" where
  "write_A1 v s =
     (let set_imr = (\<lambda>s. service_slave_pic (s\<lparr>slave_pic := (slave_pic s)\<lparr>imr := ucast v\<rparr>\<rparr>)) in
      if in_init (slave_pic s) then
        (case icw_byte v (slave_pic s) of
           Some p \<Rightarrow> icw_panic v (slave_pic s) (s\<lparr>slave_pic := p\<rparr>)
         | None \<Rightarrow> set_imr (pic_emit (Pic_Panic ''slave: expecting bad init command'') s))
      else set_imr s)"

definition pic_write :: "nat \<Rightarrow> u32 \<Rightarrow> pics \<Rightarrow> pics" where
  "pic_write address v s =
     (if address = 0x20 then write_20 v s
      else if address = 0x21 then write_21 v s
      else if address = 0xa0 then write_A0 v s
      else if address = 0xa1 then write_A1 v s
      else s)"

end
