(* ===== verification/Pic_Spec.thy ===== *)
theory Pic_Spec
  imports Pic
begin

text \<open>
  What the pair of interrupt controllers promises: the line it signals is the deliverable request of
  the highest priority, the CPU pin is high exactly while a request is being signalled, no
  deliverable request waits unsignalled, and the acknowledge cycle hands out the vector of the line
  that was raised.
\<close>

unbundle bit_operations_syntax

section \<open>The priority search\<close>

lemma next_irq_mod: "i < 8 \<Longrightarrow> next_irq i = (i + 1) mod 8"
  by (auto simp: next_irq_def mod_if)

lemma next_irq_less: "next_irq i < 8"
  by (auto simp: next_irq_def)

text \<open>From line \<open>h\<close>, the line at distance \<open>a\<close>; \<open>rank h i\<close> is the distance of line \<open>i\<close>.\<close>

definition rank :: "nat \<Rightarrow> nat \<Rightarrow> nat" where
  "rank h i = (i + 8 - h) mod 8"

lemma rank_less: "rank h i < 8"
  by (simp add: rank_def)

lemma line_of_rank: "h < 8 \<Longrightarrow> i < 8 \<Longrightarrow> (h + rank h i) mod 8 = i"
  by (simp add: rank_def mod_add_right_eq)

lemma rank_of_line: "h < 8 \<Longrightarrow> a < 8 \<Longrightarrow> rank h ((h + a) mod 8) = a"
  by (auto simp: rank_def mod_if)

lemma scan_from:
  assumes "h < 8" and "a < L" and "L \<le> 8" and "stop = (h + L) mod 8" and "L - a \<le> k"
  shows "scan k P stop ((h + a) mod 8) =
    map_option (\<lambda>b. (h + b) mod 8) (find (\<lambda>b. P ((h + b) mod 8)) [a..<L])"
  using assms
proof (induction k arbitrary: a)
  case 0
  then show ?case by simp
next
  case (Suc k)
  have nx: "next_irq ((h + a) mod 8) = (h + Suc a) mod 8"
    by (subst next_irq_mod) (simp_all add: mod_Suc_eq)
  have stop: "(h + Suc a) mod 8 = stop \<longleftrightarrow> Suc a = L"
  proof -
    have "(h + x) mod 8 = (h + y) mod 8 \<Longrightarrow> 0 < x \<Longrightarrow> x \<le> y \<Longrightarrow> y \<le> 8 \<Longrightarrow> x = y" for x y
      using mod_add_inj [of "h + x" 0 8 "y - x"] by (cases "y - x < 8") simp_all
    from this [of "Suc a" L] show ?thesis using Suc.prems by auto
  qed
  have up: "[a..<L] = a # [Suc a..<L]" using Suc.prems by (simp add: upt_conv_Cons)
  show ?case
  proof (cases "P ((h + a) mod 8) \<or> Suc a = L")
    case True
    then show ?thesis by (auto simp: up nx stop [simplified])
  next
    case False
    then have "Suc a < L" using Suc.prems by simp
    then have "scan k P stop ((h + Suc a) mod 8) =
        map_option (\<lambda>b. (h + b) mod 8) (find (\<lambda>b. P ((h + b) mod 8)) [Suc a..<L])"
      using Suc.prems by (intro Suc.IH) simp_all
    then show ?thesis using False by (simp add: up nx stop [simplified])
  qed
qed

lemma find_first:
  "find Q [a..<L] = Some b \<longleftrightarrow> a \<le> b \<and> b < L \<and> Q b \<and> (\<forall>c. a \<le> c \<and> c < b \<longrightarrow> \<not> Q c)"
proof -
  have "find Q [a..<L] = Some b \<longleftrightarrow> (\<exists>i<L - a. Q (a + i) \<and> b = a + i \<and> (\<forall>j<i. \<not> Q (a + j)))"
    by (auto simp: find_Some_iff)
  also have "\<dots> \<longleftrightarrow> a \<le> b \<and> b < L \<and> Q b \<and> (\<forall>c. a \<le> c \<and> c < b \<longrightarrow> \<not> Q c)"
  proof
    assume "\<exists>i<L - a. Q (a + i) \<and> b = a + i \<and> (\<forall>j<i. \<not> Q (a + j))"
    then obtain i where i: "i < L - a" "Q (a + i)" "b = a + i" "\<forall>j<i. \<not> Q (a + j)" by blast
    moreover have "\<not> Q c" if "a \<le> c" "c < b" for c using i(4) [rule_format, of "c - a"] that i(3) by simp
    ultimately show "a \<le> b \<and> b < L \<and> Q b \<and> (\<forall>c. a \<le> c \<and> c < b \<longrightarrow> \<not> Q c)" by auto
  next
    assume "a \<le> b \<and> b < L \<and> Q b \<and> (\<forall>c. a \<le> c \<and> c < b \<longrightarrow> \<not> Q c)"
    then show "\<exists>i<L - a. Q (a + i) \<and> b = a + i \<and> (\<forall>j<i. \<not> Q (a + j))"
      by (intro exI [of _ "b - a"]) auto
  qed
  finally show ?thesis .
qed

text \<open>A full round, or a round that stops before a line, finds the line of the least rank.\<close>

definition scan_limit :: "nat \<Rightarrow> nat \<Rightarrow> nat" where
  "scan_limit h stop = (if stop = h then 8 else rank h stop)"

lemma scan_Some_iff:
  assumes "h < 8" and "stop < 8"
  shows "scan 8 P stop h = Some i \<longleftrightarrow>
    i < 8 \<and> P i \<and> rank h i < scan_limit h stop \<and> (\<forall>j < 8. rank h j < rank h i \<longrightarrow> \<not> P j)"
proof -
  let ?L = "scan_limit h stop"
  have pos: "stop \<noteq> h \<Longrightarrow> 0 < rank h stop"
    using line_of_rank [OF assms] assms(1) by (cases "rank h stop") auto
  have L1: "0 < ?L" using pos by (simp add: scan_limit_def)
  have L2: "?L \<le> 8" using rank_less [of h stop] by (simp add: scan_limit_def)
  have L3: "stop = (h + ?L) mod 8"
    using assms line_of_rank [OF assms] by (simp add: scan_limit_def)
  note L = L1 L2 L3
  have "scan 8 P stop ((h + 0) mod 8) =
      map_option (\<lambda>b. (h + b) mod 8) (find (\<lambda>b. P ((h + b) mod 8)) [0..<?L])"
    by (rule scan_from [OF assms(1) L]) (simp add: L2)
  then have "scan 8 P stop h = Some i \<longleftrightarrow>
      (\<exists>b. i = (h + b) mod 8 \<and> b < ?L \<and> P i \<and> (\<forall>c<b. \<not> P ((h + c) mod 8)))"
    using assms(1) by (auto simp: find_first)
  also have "\<dots> \<longleftrightarrow> i < 8 \<and> P i \<and> rank h i < ?L \<and> (\<forall>j < 8. rank h j < rank h i \<longrightarrow> \<not> P j)"
  proof
    assume "\<exists>b. i = (h + b) mod 8 \<and> b < ?L \<and> P i \<and> (\<forall>c<b. \<not> P ((h + c) mod 8))"
    then obtain b where b: "i = (h + b) mod 8" "b < ?L" "P i" "\<forall>c<b. \<not> P ((h + c) mod 8)" by blast
    have r: "rank h i = b" unfolding b(1) using b(2) L(2) assms(1) by (intro rank_of_line) simp_all
    moreover have "\<not> P j" if "j < 8" "rank h j < b" for j
      using b(4) that line_of_rank [OF assms(1) that(1)] by fastforce
    ultimately show "i < 8 \<and> P i \<and> rank h i < ?L \<and> (\<forall>j < 8. rank h j < rank h i \<longrightarrow> \<not> P j)"
      using b by simp
  next
    assume i: "i < 8 \<and> P i \<and> rank h i < ?L \<and> (\<forall>j < 8. rank h j < rank h i \<longrightarrow> \<not> P j)"
    have "\<not> P ((h + c) mod 8)" if "c < rank h i" for c
      using i that rank_of_line [OF assms(1), of c] rank_less [of h i] by simp
    with i show "\<exists>b. i = (h + b) mod 8 \<and> b < ?L \<and> P i \<and> (\<forall>c<b. \<not> P ((h + c) mod 8))"
      using line_of_rank [OF assms(1), of i] by (intro exI [of _ "rank h i"]) auto
  qed
  finally show ?thesis .
qed

lemma scan_None_iff:
  assumes "h < 8" and "stop < 8"
  shows "scan 8 P stop h = None \<longleftrightarrow> (\<forall>i < 8. rank h i < scan_limit h stop \<longrightarrow> \<not> P i)"
proof
  assume "scan 8 P stop h = None"
  show "\<forall>i < 8. rank h i < scan_limit h stop \<longrightarrow> \<not> P i"
  proof (intro allI impI, rule ccontr)
    fix i assume i: "i < 8" "rank h i < scan_limit h stop" "\<not> \<not> P i"
    define R where "R = {r. \<exists>j < 8. rank h j = r \<and> P j}"
    have "rank h i \<in> R" using i by (auto simp: R_def)
    then have "(LEAST r. r \<in> R) \<in> R" "(LEAST r. r \<in> R) \<le> rank h i" by (rule LeastI, rule Least_le)
    then obtain j where j: "j < 8" "rank h j = (LEAST r. r \<in> R)" "P j" "rank h j \<le> rank h i"
      by (auto simp: R_def)
    have lim: "rank h j < scan_limit h stop" using j(4) i(2) by simp
    have first: "\<not> P k" if "k < 8" "rank h k < rank h j" for k
    proof -
      have "rank h k \<notin> R" using that(2) unfolding j(2) by (rule not_less_Least)
      then show ?thesis using that(1) by (auto simp: R_def)
    qed
    have "scan 8 P stop h = Some j"
      by (rule scan_Some_iff [OF assms, THEN iffD2], intro conjI allI impI) (fact j(1) j(3) lim first)+
    with \<open>scan 8 P stop h = None\<close> show False by simp
  qed
next
  assume none: "\<forall>i < 8. rank h i < scan_limit h stop \<longrightarrow> \<not> P i"
  show "scan 8 P stop h = None"
  proof (cases "scan 8 P stop h")
    case (Some i)
    then show ?thesis using none by (simp only: scan_Some_iff [OF assms]) blast
  qed simp
qed

section \<open>Which request is signalled\<close>

text \<open>
  The contract of the controller: a request is deliverable when it is not masked and no line of
  its own or a higher priority is in service (in the special mask mode: when it is not itself in
  service). The controller signals the deliverable request of the highest priority.
\<close>

definition prio :: "pic \<Rightarrow> nat \<Rightarrow> nat" where
  "prio p i = rank (highest_priority p) i"

definition deliverable :: "pic \<Rightarrow> nat \<Rightarrow> bool" where
  "deliverable p i =
     (i < 8 \<and> bit (irr p) i \<and> \<not> bit (imr p) i \<and>
      (if special_mask p then \<not> bit (isr p) i
       else (\<forall>j < 8. bit (isr p) j \<longrightarrow> prio p i < prio p j)))"

lemma u8_nonzero_bit: "(w :: u8) \<noteq> 0 \<longleftrightarrow> (\<exists>i < 8. bit w i)"
  using bit_imp_le_length [of w] by (fastforce simp: bit_eq_iff)

lemma highest_less [simp]: "highest_priority p < 8"
  by (simp add: highest_priority_def next_irq_less)

lemma max_irq_None: "max_irq p = None \<Longrightarrow> \<not> deliverable p i"
proof -
  assume n: "max_irq p = None"
  let ?h = "highest_priority p"
  have sp: "\<not> special_mask p" and nz: "isr p \<noteq> 0"
    using n by (auto simp: max_irq_def Let_def split: if_splits)
  have "scan 8 (bit (isr p)) ?h ?h \<noteq> None"
    using nz by (simp add: scan_None_iff scan_limit_def rank_less u8_nonzero_bit)
  then have "scan 8 (bit (isr p)) ?h ?h = Some ?h"
    using n sp nz by (auto simp: max_irq_def Let_def split: if_splits option.splits)
  then have "bit (isr p) ?h" by (simp add: scan_Some_iff)
  moreover have "prio p ?h = 0" by (simp add: prio_def rank_def)
  ultimately show ?thesis using sp by (auto simp: deliverable_def intro!: exI [of _ ?h])
qed

lemma max_irq_Some:
  assumes "max_irq p = Some m"
  shows "m < 8" and "deliverable p i \<longleftrightarrow>
    i < 8 \<and> (\<not> (special_mask p \<and> bit (isr p) i) \<and> bit (irr p AND NOT (imr p)) i) \<and>
    prio p i < scan_limit (highest_priority p) m"
proof -
  let ?h = "highest_priority p"
  have b: "i < 8 \<Longrightarrow> bit (irr p AND NOT (imr p)) i \<longleftrightarrow> bit (irr p) i \<and> \<not> bit (imr p) i"
    by (auto simp: bit_and_iff bit_not_iff)
  have "m < 8 \<and> (deliverable p i \<longleftrightarrow>
    i < 8 \<and> (\<not> (special_mask p \<and> bit (isr p) i) \<and> bit (irr p AND NOT (imr p)) i) \<and> prio p i < scan_limit ?h m)"
  proof (cases "special_mask p \<or> isr p = 0")
    case True
    then have "m = ?h" using assms by (auto simp: max_irq_def Let_def split: if_splits)
    then show ?thesis using True b by (auto simp: deliverable_def scan_limit_def prio_def rank_less)
  next
    case False
    then have sc: "scan 8 (bit (isr p)) ?h ?h = Some m" "m \<noteq> ?h"
      using assms by (auto simp: max_irq_def Let_def split: option.splits if_splits)
    then have m: "m < 8" "bit (isr p) m" "\<And>j. j < 8 \<Longrightarrow> bit (isr p) j \<Longrightarrow> rank ?h m \<le> rank ?h j"
      by (simp_all add: scan_Some_iff) (meson not_less)
    have "(\<forall>j < 8. bit (isr p) j \<longrightarrow> prio p i < prio p j) \<longleftrightarrow> prio p i < rank ?h m"
      using m less_le_trans unfolding prio_def by blast
    then show ?thesis using False b m(1) sc(2) by (auto simp: deliverable_def scan_limit_def)
  qed
  then show "m < 8" "deliverable p i \<longleftrightarrow>
    i < 8 \<and> (\<not> (special_mask p \<and> bit (isr p) i) \<and> bit (irr p AND NOT (imr p)) i) \<and>
    prio p i < scan_limit (highest_priority p) m" by blast+
qed

lemma pic_request_scan:
  "max_irq p = Some m \<Longrightarrow> \<not> INT_req p \<Longrightarrow> pic_request p =
     scan 8 (\<lambda>i. \<not> (special_mask p \<and> bit (isr p) i) \<and> bit (irr p AND NOT (imr p)) i) m (highest_priority p)"
proof -
  assume a: "max_irq p = Some m" "\<not> INT_req p"
  have "scan 8 (\<lambda>i. \<not> (special_mask p \<and> bit (isr p) i) \<and> bit (irr p AND NOT (imr p)) i) m (highest_priority p) = None"
    if "irr p AND NOT (imr p) = 0"
    using max_irq_Some(1) [OF a(1)] that by (simp add: scan_None_iff)
  then show ?thesis using a by (simp add: pic_request_def Let_def)
qed

lemma pic_request_Some_iff:
  "pic_request p = Some i \<longleftrightarrow>
     \<not> INT_req p \<and> deliverable p i \<and> (\<forall>j. deliverable p j \<longrightarrow> prio p i \<le> prio p j)"
proof (cases "INT_req p \<or> max_irq p = None")
  case True
  then show ?thesis using max_irq_None by (auto simp: pic_request_def)
next
  case False
  then obtain m where m: "max_irq p = Some m" "\<not> INT_req p" by auto
  note del = max_irq_Some [OF m(1)]
  show ?thesis
    unfolding pic_request_scan [OF m] scan_Some_iff [OF highest_less del(1)]
    using m(2) by (auto simp: del(2) prio_def not_less)
qed

lemma pic_request_None_iff: "pic_request p = None \<longleftrightarrow> INT_req p \<or> (\<forall>i. \<not> deliverable p i)"
proof (cases "INT_req p \<or> max_irq p = None")
  case True
  then show ?thesis using max_irq_None by (auto simp: pic_request_def)
next
  case False
  then obtain m where m: "max_irq p = Some m" "\<not> INT_req p" by auto
  note del = max_irq_Some [OF m(1)]
  show ?thesis
    unfolding pic_request_scan [OF m] scan_None_iff [OF highest_less del(1)]
    using m(2) by (auto simp: del(2) prio_def)
qed

lemma pic_request_less: "pic_request p = Some i \<Longrightarrow> i < 8"
  by (simp add: pic_request_Some_iff deliverable_def)

section \<open>Operations and their invariant\<close>

datatype pic_op = Raise nat | Lower nat | Mode bool u8 | Ack | Port_Read nat nat | Port_Write nat u32

fun pic_exec :: "pic_op \<Rightarrow> pics \<Rightarrow> pics" where
  "pic_exec (Raise n) s = raise_irq n s"
| "pic_exec (Lower n) s = lower_irq n s"
| "pic_exec (Mode m v) s = set_mode m v s"
| "pic_exec Ack s = snd (IAC s)"
| "pic_exec (Port_Read a n) s = snd (pic_read a n s)"
| "pic_exec (Port_Write a v) s = pic_write a v s"

text \<open>The level of the CPU's interrupt pin.\<close>

fun intr_after :: "bool \<Rightarrow> pic_event list \<Rightarrow> bool" where
  "intr_after b [] = b"
| "intr_after b (Set_Intr l # es) = intr_after l es"
| "intr_after b (_ # es) = intr_after b es"

definition intr_line :: "pics \<Rightarrow> bool" where
  "intr_line s = intr_after False (pic_out s)"

lemma intr_after_append: "intr_after b (xs @ ys) = intr_after (intr_after b xs) ys"
  by (induction b xs rule: intr_after.induct) simp_all

lemma intr_line_emit [simp]:
  "intr_line (pic_emit (Set_Intr l) s) = l"
  "intr_line (pic_emit (Ioapic_Level n l) s) = intr_line s"
  "intr_line (pic_emit (Pic_Panic m) s) = intr_line s"
  by (simp_all add: intr_line_def pic_emit_def intr_after_append)

lemma intr_line_update [simp]:
  "intr_line (s\<lparr>master_pic := p\<rparr>) = intr_line s" "intr_line (s\<lparr>slave_pic := q\<rparr>) = intr_line s"
  by (simp_all add: intr_line_def)

lemma pic_emit_fields [simp]:
  "master_pic (pic_emit e s) = master_pic s" "slave_pic (pic_emit e s) = slave_pic s"
  "ioapic_present (pic_emit e s) = ioapic_present s"
  by (simp_all add: pic_emit_def)

definition pic_ok :: "pic \<Rightarrow> bool" where
  "pic_ok p = (irq p < 8 \<and> lowest_priority p < 8)"

definition pics_ok :: "pics \<Rightarrow> bool" where
  "pics_ok s = (pic_ok (master_pic s) \<and> pic_ok (slave_pic s) \<and> (INT_req (master_pic s) = intr_line s))"

lemma pics_ok_init: "pics_ok (pic_init apic)"
  by (simp add: pics_ok_def pic_ok_def pic_init_def pic_power_on_def intr_line_def)

lemma service_master_ok:
  assumes "pic_ok (master_pic s)" and "pic_ok (slave_pic s)" and "INT_req (master_pic s) = intr_line s"
  shows "pics_ok (service_master_pic s)"
  using assms pic_request_less [of "master_pic s"]
  by (auto simp: service_master_pic_def pics_ok_def pic_ok_def split: option.split)

lemma raise_master_ok: "pics_ok s \<Longrightarrow> pics_ok (raise_master n s)"
  by (simp add: raise_master_def, intro impI service_master_ok) (simp_all add: pics_ok_def pic_ok_def)

lemma service_slave_ok:
  assumes "pics_ok s"
  shows "pics_ok (service_slave_pic s)"
proof (cases "pic_request (slave_pic s)")
  case None
  then show ?thesis using assms by (simp add: service_slave_pic_def)
next
  case (Some i)
  then have "pics_ok (s\<lparr>slave_pic := (slave_pic s)\<lparr>irq := i, INT_req := True\<rparr>\<rparr>)"
    using assms pic_request_less [OF Some] by (simp add: pics_ok_def pic_ok_def)
  then show ?thesis by (simp add: service_slave_pic_def Some raise_master_ok)
qed

text \<open>Updates that keep the invariant, for the proofs of the port handlers.\<close>

lemma pics_ok_master:
  "pics_ok s \<Longrightarrow> pic_ok p \<Longrightarrow> INT_req p = INT_req (master_pic s) \<Longrightarrow> pics_ok (s\<lparr>master_pic := p\<rparr>)"
  by (simp add: pics_ok_def)

lemma pics_ok_slave: "pics_ok s \<Longrightarrow> pic_ok p \<Longrightarrow> pics_ok (s\<lparr>slave_pic := p\<rparr>)"
  by (simp add: pics_ok_def)

lemma pics_ok_emit [simp]:
  "pics_ok (pic_emit (Ioapic_Level n l) s) = pics_ok s" "pics_ok (pic_emit (Pic_Panic m) s) = pics_ok s"
  by (simp_all add: pics_ok_def)

lemma service_master_pics_ok: "pics_ok s \<Longrightarrow> pics_ok (service_master_pic s)"
  by (rule service_master_ok) (simp_all add: pics_ok_def)

lemma forward_ok: "pics_ok s \<Longrightarrow> pics_ok (forward_ioapic n l s)"
  by (simp add: forward_ioapic_def)

lemma raise_irq_ok: "pics_ok s \<Longrightarrow> pics_ok (raise_irq n s)"
proof -
  assume "pics_ok s"
  then have f: "pics_ok (forward_ioapic n True s)" by (rule forward_ok)
  then have "pics_ok (service_slave_pic ((forward_ioapic n True s)\<lparr>slave_pic := (slave_pic (forward_ioapic n True s))\<lparr>IRQ_in := x, irr := y\<rparr>\<rparr>))" for x y
    by (intro service_slave_ok pics_ok_slave) (simp_all add: pics_ok_def pic_ok_def)
  with f show ?thesis by (simp add: raise_irq_def Let_def raise_master_ok)
qed

lemma lower_irq_ok: "pics_ok s \<Longrightarrow> pics_ok (lower_irq n s)"
proof -
  assume "pics_ok s"
  then have f: "pics_ok (forward_ioapic n False s)" by (rule forward_ok)
  then show ?thesis
    unfolding lower_irq_def Let_def
    by (auto intro!: pics_ok_master pics_ok_slave simp: pics_ok_def pic_ok_def)
qed

lemma acknowledge_ok: "pic_ok p \<Longrightarrow> pic_ok (acknowledge p)"
  by (simp add: acknowledge_def Let_def pic_ok_def)

lemma acknowledge_fields [simp]:
  "INT_req (acknowledge p) = INT_req p" "irq (acknowledge p) = irq p" "IRQ_in (acknowledge p) = IRQ_in p"
  "interrupt_offset (acknowledge p) = interrupt_offset p"
  by (simp_all add: acknowledge_def Let_def)

lemma IAC_ok: "pics_ok s \<Longrightarrow> pics_ok (snd (IAC s))"
proof -
  assume ok: "pics_ok s"
  let ?s1 = "(pic_emit (Set_Intr False) s)\<lparr>master_pic := (master_pic s)\<lparr>INT_req := False\<rparr>\<rparr>"
  have s1: "pics_ok ?s1" using ok by (simp add: pics_ok_def pic_ok_def)
  let ?s2 = "?s1\<lparr>master_pic := acknowledge (master_pic ?s1)\<rparr>"
  have s2: "pics_ok ?s2" by (rule pics_ok_master [OF s1]) (use s1 in \<open>simp_all add: acknowledge_ok pics_ok_def\<close>)
  let ?s3 = "?s2\<lparr>slave_pic := (slave_pic ?s2)\<lparr>INT_req := False\<rparr>,
                 master_pic := (master_pic ?s2)\<lparr>IRQ_in := clear_bit 2 (IRQ_in (master_pic ?s2))\<rparr>\<rparr>"
  have s3: "pics_ok ?s3"
    using s2 by (simp add: pics_ok_def pic_ok_def)
  let ?s4 = "?s3\<lparr>slave_pic := acknowledge (slave_pic ?s3)\<rparr>"
  have s4: "pics_ok ?s4"
    by (rule pics_ok_slave [OF s3], rule acknowledge_ok) (use s3 in \<open>simp add: pics_ok_def\<close>)
  from s1 s3 service_master_pics_ok [OF s2] service_master_pics_ok [OF service_slave_ok [OF s4]]
  show ?thesis unfolding IAC_def Let_def by (simp split: if_split)
qed

lemma clear_highest_fields [simp]:
  "INT_req (clear_highest_interrupt p) = INT_req p" "irq (clear_highest_interrupt p) = irq p"
  "lowest_priority (clear_highest_interrupt p) = lowest_priority p"
  by (simp_all add: clear_highest_interrupt_def split: option.split)

lemma pic_read_ok: "pics_ok s \<Longrightarrow> pics_ok (snd (pic_read a n s))"
proof -
  assume ok: "pics_ok s"
  have "pics_ok (service_master_pic (s\<lparr>master_pic := (clear_highest_interrupt (master_pic s))\<lparr>polled := False\<rparr>\<rparr>))"
    using ok by (intro service_master_pics_ok pics_ok_master) (simp_all add: pics_ok_def pic_ok_def)
  moreover have "pics_ok (service_slave_pic (s\<lparr>slave_pic := (clear_highest_interrupt (slave_pic s))\<lparr>polled := False\<rparr>\<rparr>))"
    using ok by (intro service_slave_ok pics_ok_slave) (simp_all add: pics_ok_def pic_ok_def)
  ultimately show ?thesis using ok unfolding pic_read_def Let_def by (simp split: if_split)
qed

lemma ocw3_ok: "ocw3 v p = (p', b) \<Longrightarrow> pic_ok p \<Longrightarrow> pic_ok p' \<and> INT_req p' = INT_req p"
  by (auto simp: ocw3_def Let_def pic_ok_def split: if_splits)

lemma ocw2_ok: "ocw2 v p = Some (p', b) \<Longrightarrow> pic_ok p \<Longrightarrow> pic_ok p' \<and> INT_req p' = INT_req p"
proof -
  have "0xc0 \<le> v \<Longrightarrow> v \<le> 0xc7 \<Longrightarrow> unat v - 0xc0 < 8" "0xe0 \<le> v \<Longrightarrow> v \<le> 0xe7 \<Longrightarrow> unat v - 0xe0 < 8"
    by (simp_all add: word_le_nat_alt)
  then show "ocw2 v p = Some (p', b) \<Longrightarrow> pic_ok p \<Longrightarrow> pic_ok p' \<and> INT_req p' = INT_req p"
    by (auto simp: ocw2_def Let_def pic_ok_def next_irq_less split: if_splits)
qed

lemma icw_byte_ok: "icw_byte v p = Some p' \<Longrightarrow> pic_ok p \<Longrightarrow> pic_ok p' \<and> INT_req p' = INT_req p"
  by (auto simp: icw_byte_def pic_ok_def split: if_splits)

lemma icw_panics_ok [simp]: "pics_ok (icw_panic v p s) = pics_ok s"
  by (simp add: icw_panic_def)

lemma icw1_panics_fields [simp]:
  "master_pic (icw1_panics v s) = master_pic s" "slave_pic (icw1_panics v s) = slave_pic s"
  "intr_line (icw1_panics v s) = intr_line s" "pics_ok (icw1_panics v s) = pics_ok s"
  by (simp_all add: icw1_panics_def Let_def)

lemma write_20_ok: "pics_ok s \<Longrightarrow> pics_ok (write_20 v s)"
proof -
  assume ok: "pics_ok s"
  then have m: "pic_ok (master_pic s)" by (simp add: pics_ok_def)
  have put: "pics_ok (s\<lparr>master_pic := p\<rparr>)" if "pic_ok p \<and> INT_req p = INT_req (master_pic s)" for p
    using that ok by (intro pics_ok_master) simp_all
  have "pics_ok (pic_emit (Set_Intr False) (icw1_panics v (s\<lparr>master_pic := icw1 v (master_pic s)\<rparr>)))"
    using ok by (simp add: pics_ok_def pic_ok_def icw1_def)
  then show ?thesis
    using put [OF ocw3_ok [OF _ m]] put [OF ocw2_ok [OF _ m]] ok
    unfolding write_20_def Let_def
    by (auto intro: service_master_pics_ok split: prod.split option.split)
qed

lemma write_A0_ok: "pics_ok s \<Longrightarrow> pics_ok (write_A0 v s)"
proof -
  assume ok: "pics_ok s"
  then have m: "pic_ok (slave_pic s)" by (simp add: pics_ok_def)
  have put: "pics_ok (s\<lparr>slave_pic := p\<rparr>)" if "pic_ok p \<and> INT_req p = INT_req (slave_pic s)" for p
    using that ok by (intro pics_ok_slave) simp_all
  have "pics_ok (icw1_panics v (s\<lparr>slave_pic := icw1 v (slave_pic s),
      master_pic := (master_pic s)\<lparr>IRQ_in := x\<rparr>\<rparr>))" for x
    using ok by (simp add: pics_ok_def pic_ok_def icw1_def)
  then show ?thesis
    using put [OF ocw3_ok [OF _ m]] put [OF ocw2_ok [OF _ m]] ok
    unfolding write_A0_def Let_def
    by (auto intro: service_slave_ok split: prod.split option.split)
qed

lemma write_21_ok: "pics_ok s \<Longrightarrow> pics_ok (write_21 v s)"
proof -
  assume ok: "pics_ok s"
  have set: "pics_ok (service_master_pic (t\<lparr>master_pic := (master_pic t)\<lparr>imr := x\<rparr>\<rparr>))" if "pics_ok t" for t x
    using that by (intro service_master_pics_ok pics_ok_master) (simp_all add: pics_ok_def pic_ok_def)
  have "pics_ok (s\<lparr>master_pic := p\<rparr>)" if "icw_byte v (master_pic s) = Some p" for p
    using ok icw_byte_ok [OF that] by (intro pics_ok_master) (simp_all add: pics_ok_def)
  then show ?thesis
    using ok set set [of "pic_emit (Pic_Panic ''master expecting bad init command'') s"]
    by (simp add: write_21_def Let_def split: option.split)
qed

lemma write_A1_ok: "pics_ok s \<Longrightarrow> pics_ok (write_A1 v s)"
proof -
  assume ok: "pics_ok s"
  have set: "pics_ok (service_slave_pic (t\<lparr>slave_pic := (slave_pic t)\<lparr>imr := x\<rparr>\<rparr>))" if "pics_ok t" for t x
    using that by (intro service_slave_ok pics_ok_slave) (simp_all add: pics_ok_def pic_ok_def)
  have "pics_ok (s\<lparr>slave_pic := p\<rparr>)" if "icw_byte v (slave_pic s) = Some p" for p
    using ok icw_byte_ok [OF that] by (intro pics_ok_slave) (simp_all add: pics_ok_def)
  then show ?thesis
    using ok set set [of "pic_emit (Pic_Panic ''slave: expecting bad init command'') s"]
    by (simp add: write_A1_def Let_def split: option.split)
qed

lemma pic_exec_ok: "pics_ok s \<Longrightarrow> pics_ok (pic_exec op s)"
proof (cases op)
  case (Mode m v)
  then show "pics_ok s \<Longrightarrow> ?thesis" by (simp add: set_mode_def pics_ok_def pic_ok_def)
qed (simp_all add: raise_irq_ok lower_irq_ok IAC_ok pic_read_ok pic_write_def write_20_ok write_21_ok write_A0_ok write_A1_ok)

inductive pic_reach :: "pics \<Rightarrow> bool" where
  pic_start: "pic_reach (pic_init apic)"
| pic_next: "pic_reach s \<Longrightarrow> pic_reach (pic_exec op s)"

lemma pic_reach_ok: "pic_reach s \<Longrightarrow> pics_ok s"
  by (induction rule: pic_reach.induct) (simp_all add: pics_ok_init pic_exec_ok)

section \<open>No request is left behind\<close>

definition settled :: "pics \<Rightarrow> bool" where
  "settled s = (pic_request (master_pic s) = None \<and> pic_request (slave_pic s) = None)"

text \<open>
  The operations after which the code looks for requests again. It does not for the commands that
  only rotate the priorities (OCW2 \<open>C0\<close> to \<open>C7\<close>), nor when the acknowledged request of the slave has
  gone (the spurious vector of the slave is returned at once).
\<close>

fun looks_again :: "pic_op \<Rightarrow> pics \<Rightarrow> bool" where
  "looks_again (Port_Write a v) s = (\<not> ((a = 0x20 \<or> a = 0xa0) \<and> 0xc0 \<le> v \<and> v \<le> 0xc7))"
| "looks_again Ack s =
     (irr (master_pic s) = 0 \<or> irq (master_pic s) \<noteq> 2 \<or> irr (slave_pic s) \<noteq> 0)"
| "looks_again _ s = True"

lemma settled_service_master: "pic_request (slave_pic s) = None \<Longrightarrow> settled (service_master_pic s)"
proof (cases "pic_request (master_pic s)")
  case (Some i)
  then show "pic_request (slave_pic s) = None \<Longrightarrow> ?thesis"
    by (simp add: service_master_pic_def settled_def pic_request_def [of "_\<lparr>irq := i, INT_req := True\<rparr>"])
qed (simp add: service_master_pic_def settled_def)

lemma settled_raise_master: "settled s \<Longrightarrow> settled (raise_master n s)"
proof -
  assume s: "settled s"
  then have "settled (service_master_pic (s\<lparr>master_pic := p\<rparr>))" for p
    by (intro settled_service_master) (simp add: settled_def)
  with s show ?thesis by (simp add: raise_master_def)
qed

lemma settled_service_slave: "pic_request (master_pic s) = None \<Longrightarrow> settled (service_slave_pic s)"
proof (cases "pic_request (slave_pic s)")
  case (Some i)
  assume m: "pic_request (master_pic s) = None"
  have "settled (s\<lparr>slave_pic := (slave_pic s)\<lparr>irq := i, INT_req := True\<rparr>\<rparr>)"
    using m by (simp add: settled_def pic_request_def [of "_\<lparr>irq := i, INT_req := True\<rparr>"])
  then show ?thesis by (simp add: service_slave_pic_def Some settled_raise_master)
qed (simp add: service_slave_pic_def settled_def)

lemma request_shrinks:
  "pic_request p = None \<Longrightarrow> (INT_req p \<Longrightarrow> INT_req p') \<Longrightarrow> (\<And>i. deliverable p' i \<Longrightarrow> deliverable p i) \<Longrightarrow>
   pic_request p' = None"
  by (auto simp: pic_request_None_iff)

lemma request_same:
  assumes "INT_req p' = INT_req p" and "irr p' = irr p" and "imr p' = imr p" and "isr p' = isr p"
    and "special_mask p' = special_mask p" and "lowest_priority p' = lowest_priority p"
  shows "pic_request p' = pic_request p"
  by (simp only: pic_request_def max_irq_def highest_priority_def assms)

lemma bit_clear_bit [simp]: "bit (clear_bit n w) i \<longleftrightarrow> bit w i \<and> i \<noteq> n"
  by (auto simp: clear_bit_def bit_and_iff bit_not_iff bit_exp_iff dest: bit_imp_le_length)

lemma request_lowered:
  "pic_request p = None \<Longrightarrow> pic_request (p\<lparr>IRQ_in := x, irr := clear_bit n (irr p)\<rparr>) = None"
  by (erule request_shrinks) (auto simp: deliverable_def prio_def highest_priority_def split: if_splits)

lemma request_cancel_special:
  "pic_request p = None \<Longrightarrow> pic_request (p\<lparr>special_mask := False\<rparr>) = None"
  by (erule request_shrinks) (auto simp: deliverable_def prio_def highest_priority_def split: if_splits)

lemma request_no_irr: "irr p = 0 \<Longrightarrow> pic_request p = None"
  by (simp add: pic_request_None_iff deliverable_def)

lemma settled_simps [simp]:
  "settled (pic_emit e s) = settled s" "settled (s\<lparr>master_pic := p\<rparr>) = (pic_request p = None \<and> pic_request (slave_pic s) = None)"
  "settled (s\<lparr>slave_pic := q\<rparr>) = (pic_request (master_pic s) = None \<and> pic_request q = None)"
  by (auto simp: settled_def)

lemma settled_forward [simp]: "settled (forward_ioapic n l s) = settled s"
  by (simp add: forward_ioapic_def)

lemma settled_raise_irq: "settled s \<Longrightarrow> settled (raise_irq n s)"
proof -
  assume "settled s"
  then have s: "settled (forward_ioapic n True s)" by simp
  have "settled (service_slave_pic ((forward_ioapic n True s)\<lparr>slave_pic := q\<rparr>))" for q
    by (rule settled_service_slave) (use s in \<open>simp add: settled_def\<close>)
  with s settled_raise_master [OF s] show ?thesis by (simp add: raise_irq_def Let_def)
qed

lemma settled_lower_irq: "settled s \<Longrightarrow> settled (lower_irq n s)"
proof -
  assume "settled s"
  then have s: "settled (forward_ioapic n False s)" by simp
  then show ?thesis
    unfolding lower_irq_def Let_def by (simp add: settled_def request_lowered)
qed

lemma settled_set_mode: "settled s \<Longrightarrow> settled (set_mode m v s)"
proof -
  assume s: "settled s"
  have "pic_request (p\<lparr>edge_level := v\<rparr>) = pic_request p" for p by (rule request_same) simp_all
  with s show ?thesis by (simp add: set_mode_def settled_def)
qed

lemma settled_IAC:
  assumes s: "settled s" and again: "looks_again Ack s"
  shows "settled (snd (IAC s))"
proof -
  have sl: "pic_request (slave_pic s) = None" using s by (simp add: settled_def)
  have m: "settled (service_master_pic t)" if "slave_pic t = slave_pic s" for t
    using that sl by (intro settled_service_master) simp
  have both: "settled (service_master_pic (service_slave_pic t))" for t
  proof (rule settled_service_master)
    show "pic_request (slave_pic (service_slave_pic t)) = None"
      by (cases "pic_request (slave_pic t)")
        (simp_all add: service_slave_pic_def raise_master_def service_master_pic_def pic_request_def [of "_\<lparr>irq := _, INT_req := True\<rparr>"]
          split: option.split)
  qed
  show ?thesis
    using again m both sl unfolding IAC_def Let_def
    by (simp add: request_no_irr split: if_split) blast
qed

lemma settled_pic_read: "settled s \<Longrightarrow> settled (snd (pic_read a n s))"
proof -
  assume s: "settled s"
  have "settled (service_master_pic (s\<lparr>master_pic := p\<rparr>))" for p
    by (rule settled_service_master) (use s in \<open>simp add: settled_def\<close>)
  moreover have "settled (service_slave_pic (s\<lparr>slave_pic := p\<rparr>))" for p
    by (rule settled_service_slave) (use s in \<open>simp add: settled_def\<close>)
  ultimately show ?thesis using s unfolding pic_read_def Let_def by simp
qed

lemma ocw3_quiet: "ocw3 v p = (p', False) \<Longrightarrow> pic_request p = None \<Longrightarrow> pic_request p' = None"
proof -
  assume o: "ocw3 v p = (p', False)" and p: "pic_request p = None"
  define p1 where "p1 = (if v AND 0x03 = 0x02 then p\<lparr>read_reg_select := False\<rparr>
                  else if v AND 0x03 = 0x03 then p\<lparr>read_reg_select := True\<rparr> else p)"
  have "pic_request (p\<lparr>polled := True\<rparr>) = pic_request p" by (rule request_same) simp_all
  moreover have p1: "pic_request p1 = pic_request p" by (rule request_same) (simp_all add: p1_def)
  moreover have "pic_request (p1\<lparr>special_mask := False\<rparr>) = None" using p p1 by (simp add: request_cancel_special)
  moreover have "p' = p\<lparr>polled := True\<rparr> \<or> p' = p1 \<or> p' = p1\<lparr>special_mask := False\<rparr>"
    using o unfolding ocw3_def Let_def p1_def [symmetric] by (auto split: if_splits)
  ultimately show ?thesis using p by auto
qed

lemma ocw2_quiet:
  "ocw2 v p = Some (p', False) \<Longrightarrow> \<not> (0xc0 \<le> v \<and> v \<le> 0xc7) \<Longrightarrow> pic_request p' = pic_request p"
  by (rule request_same) (auto simp: ocw2_def Let_def split: if_splits)

lemma icw_byte_quiet: "icw_byte v p = Some p' \<Longrightarrow> pic_request p' = pic_request p"
  by (rule request_same) (auto simp: icw_byte_def split: if_splits)

lemma settled_icw_panics [simp]:
  "settled (icw_panic v p s) = settled s" "settled (icw1_panics v s) = settled s"
  by (simp_all add: icw_panic_def icw1_panics_def Let_def)

lemma settled_write_20:
  assumes s: "settled s" and v: "\<not> (0xc0 \<le> v \<and> v \<le> 0xc7)"
  shows "settled (write_20 v s)"
proof -
  have p: "pic_request (master_pic s) = None" "pic_request (slave_pic s) = None" using s by (simp_all add: settled_def)
  have look: "settled (service_master_pic (s\<lparr>master_pic := q\<rparr>))" for q
    using p by (intro settled_service_master) simp
  have "pic_request (icw1 v q) = None" for q by (rule request_no_irr) (simp add: icw1_def)
  then show ?thesis
    using s p look ocw3_quiet [OF _ p(1)] ocw2_quiet [OF _ v]
    unfolding write_20_def Let_def by (auto split: prod.split option.split)
qed

lemma settled_write_A0:
  assumes s: "settled s" and v: "\<not> (0xc0 \<le> v \<and> v \<le> 0xc7)"
  shows "settled (write_A0 v s)"
proof -
  have p: "pic_request (master_pic s) = None" "pic_request (slave_pic s) = None" using s by (simp_all add: settled_def)
  have look: "settled (service_slave_pic (s\<lparr>slave_pic := q\<rparr>))" for q
    using p by (intro settled_service_slave) simp
  have "pic_request (icw1 v q) = None" for q by (rule request_no_irr) (simp add: icw1_def)
  moreover have "pic_request (q\<lparr>IRQ_in := x\<rparr>) = pic_request q" for q x by (rule request_same) simp_all
  ultimately show ?thesis
    using s p look ocw3_quiet [OF _ p(2)] ocw2_quiet [OF _ v]
    unfolding write_A0_def Let_def by (auto split: prod.split option.split)
qed

lemma settled_write_data: "settled s \<Longrightarrow> settled (write_21 v s) \<and> settled (write_A1 v s)"
proof -
  assume s: "settled s"
  then have p: "pic_request (master_pic s) = None" "pic_request (slave_pic s) = None" by (simp_all add: settled_def)
  have m: "settled (service_master_pic (t\<lparr>master_pic := q\<rparr>))" if "slave_pic t = slave_pic s" for q t
    using p that by (intro settled_service_master) simp
  have sl: "settled (service_slave_pic (t\<lparr>slave_pic := q\<rparr>))" if "master_pic t = master_pic s" for q t
    using p that by (intro settled_service_slave) simp
  show ?thesis
    using s p m sl icw_byte_quiet unfolding write_21_def write_A1_def Let_def
    by (auto split: option.split)
qed

lemma settled_exec: "settled s \<Longrightarrow> looks_again op s \<Longrightarrow> settled (pic_exec op s)"
proof (cases op)
  case (Port_Write a v)
  then show "settled s \<Longrightarrow> looks_again op s \<Longrightarrow> ?thesis"
    using settled_write_data [of s v] settled_write_20 [of s v] settled_write_A0 [of s v]
    by (auto simp: pic_write_def)
next
  case Ack
  then show "settled s \<Longrightarrow> looks_again op s \<Longrightarrow> ?thesis" using settled_IAC [of s] by simp
qed (simp_all add: settled_raise_irq settled_lower_irq settled_set_mode settled_pic_read)

section \<open>The lines devices drive\<close>

definition pic_lines :: "nat set" where
  "pic_lines = {n. n < 16 \<and> n \<noteq> 2}"

definition pic_pin :: "pics \<Rightarrow> nat \<Rightarrow> bool" where
  "pic_pin s n = (if n < 8 then bit (IRQ_in (master_pic s)) n else bit (IRQ_in (slave_pic s)) (n - 8))"

lemma IRQ_in_service [simp]:
  "IRQ_in (master_pic (service_master_pic s)) = IRQ_in (master_pic s)"
  "slave_pic (service_master_pic s) = slave_pic s"
  by (simp_all add: service_master_pic_def split: option.split)

lemma bit_set_line: "n < 8 \<Longrightarrow> bit (w OR push_bit n 1 :: u8) m \<longleftrightarrow> bit w m \<or> m = n"
  by (auto simp: bit_or_iff bit_exp_iff)

lemma forward_pics [simp]:
  "master_pic (forward_ioapic n l s) = master_pic s" "slave_pic (forward_ioapic n l s) = slave_pic s"
  by (simp_all add: forward_ioapic_def)

lemma pin_raise_master:
  "n < 8 \<Longrightarrow> bit (IRQ_in (master_pic (raise_master n s))) m \<longleftrightarrow> bit (IRQ_in (master_pic s)) m \<or> m = n"
  "slave_pic (raise_master n s) = slave_pic s"
  by (auto simp: raise_master_def bit_set_line [simplified])

lemma service_slave_pins:
  "IRQ_in (slave_pic (service_slave_pic s)) = IRQ_in (slave_pic s)"
  "m \<noteq> 2 \<Longrightarrow> bit (IRQ_in (master_pic (service_slave_pic s))) m = bit (IRQ_in (master_pic s)) m"
  by (simp_all add: service_slave_pic_def pin_raise_master split: option.split)

lemma pic_pin_forward [simp]: "pic_pin (forward_ioapic n l s) m = pic_pin s m"
  by (simp add: forward_ioapic_def pic_pin_def)

lemma pic_pin_raise:
  assumes "n \<in> pic_lines" and "m \<in> pic_lines"
  shows "pic_pin (raise_irq n s0) m = (m = n \<or> pic_pin s0 m)"
proof -
  define s where "s = forward_ioapic n True s0"
  have s: "pic_pin s0 m = pic_pin s m" by (simp add: s_def)
  show ?thesis
  proof (cases "n < 8")
    case True
    then show ?thesis
      using assms unfolding raise_irq_def Let_def s_def [symmetric] s
      by (auto simp: pic_pin_def pin_raise_master pic_lines_def)
  next
    case False
    then have n: "7 < n" "n < 16" "n - 8 < 8" "m \<noteq> 2" "m < 16" using assms by (auto simp: pic_lines_def)
    have eq: "m - 8 = n - 8 \<longleftrightarrow> m = n" if "\<not> m < 8" using that n by auto
    show ?thesis
      using n unfolding raise_irq_def Let_def s_def [symmetric] s
      by (auto simp: pic_pin_def service_slave_pins bit_set_line [simplified] eq)
  qed
qed

lemma pic_pin_lower:
  assumes "n \<in> pic_lines" and "m \<in> pic_lines"
  shows "pic_pin (lower_irq n s0) m = (m \<noteq> n \<and> pic_pin s0 m)"
proof -
  define s where "s = forward_ioapic n False s0"
  have s: "pic_pin s0 m = pic_pin s m" by (simp add: s_def)
  have n: "n < 16" "m < 16" using assms by (auto simp: pic_lines_def)
  have eq: "m - 8 = n - 8 \<longleftrightarrow> m = n" if "\<not> m < 8" "\<not> n < 8" using that n by auto
  show ?thesis
    using n unfolding lower_irq_def Let_def s_def [symmetric] s
    by (auto simp: pic_pin_def eq)
qed

interpretation pic_sink: irq_sink raise_irq lower_irq pic_pin pic_lines
  by unfold_locales (rule pic_pin_raise pic_pin_lower; assumption)+

section \<open>The acknowledge cycle\<close>

text \<open>A controller with nothing in service and nothing requested, in the edge mode of the PC.\<close>

definition pic_idle :: "pic \<Rightarrow> nat \<Rightarrow> bool" where
  "pic_idle p n =
     (\<not> INT_req p \<and> isr p = 0 \<and> irr p = 0 \<and> \<not> bit (IRQ_in p) n \<and> \<not> bit (imr p) n \<and>
      \<not> bit (edge_level p) n \<and> \<not> auto_eoi p \<and> n < 8)"

lemma idle_request:
  assumes "pic_idle p n"
  shows "pic_request (p\<lparr>IRQ_in := x, irr := irr p OR push_bit n 1\<rparr>) = Some n"
  using assms
  by (auto simp: pic_idle_def pic_request_Some_iff deliverable_def bit_exp_iff)

text \<open>The registers after the line was signalled and acknowledged: in service, no longer requested.\<close>

definition in_service :: "nat \<Rightarrow> u8 \<Rightarrow> pic \<Rightarrow> pic" where
  "in_service n pins p = p\<lparr>IRQ_in := pins, irr := 0, isr := push_bit n 1, irq := n\<rparr>"

lemma acknowledge_idle:
  assumes "pic_idle p n"
  shows "acknowledge (p\<lparr>IRQ_in := x, irr := irr p OR push_bit n 1, irq := n, INT_req := False\<rparr>) =
    in_service n x p"
proof -
  have c: "clear_bit n (push_bit n 1) = 0"
    by (rule bit_word_eqI) (auto simp: bit_exp_iff)
  have "INT_req p = False" "irr p = 0" "isr p = 0" "\<not> bit (edge_level p) n" "\<not> auto_eoi p"
    using assms by (simp_all add: pic_idle_def)
  then show ?thesis using c by (simp add: acknowledge_def Let_def in_service_def)
qed

lemma in_service_request: "pic_request (in_service n x p) = None"
  by (rule request_no_irr) (simp add: in_service_def)

lemma raise_master_idle:
  assumes "pic_idle (master_pic s) n"
  shows "raise_master n s = pic_emit (Set_Intr True) (s\<lparr>master_pic := (master_pic s)\<lparr>
    IRQ_in := IRQ_in (master_pic s) OR push_bit n 1, irr := irr (master_pic s) OR push_bit n 1,
    irq := n, INT_req := True\<rparr>\<rparr>)"
proof -
  have "\<not> bit (IRQ_in (master_pic s)) n" using assms by (simp add: pic_idle_def)
  then show ?thesis
    unfolding raise_master_def service_master_pic_def
    using idle_request [OF assms, of "IRQ_in (master_pic s) OR push_bit n 1"] by simp
qed

lemma idle_irr_nonzero: "pic_idle p n \<Longrightarrow> irr p OR push_bit n 1 \<noteq> 0"
proof
  assume i: "pic_idle p n" and z: "irr p OR push_bit n 1 = 0"
  have "bit (irr p OR push_bit n 1) n" using i by (simp add: pic_idle_def bit_or_iff bit_exp_iff)
  then show False unfolding z by simp
qed

lemma ack_master:
  assumes idle: "pic_idle (master_pic s) n" and n: "n \<noteq> 2"
  defines "r \<equiv> IAC (raise_irq n s)"
  shows "fst r = word_of_nat n + interrupt_offset (master_pic s)"
    and "master_pic (snd r) = in_service n (IRQ_in (master_pic s) OR push_bit n 1) (master_pic s)"
    and "slave_pic (snd r) = slave_pic s"
proof -
  have n8: "n \<le> 7" using idle by (simp add: pic_idle_def)
  let ?f = "forward_ioapic n True s"
  have f: "master_pic ?f = master_pic s" "slave_pic ?f = slave_pic s" by simp_all
  have i: "pic_idle (master_pic ?f) n" using idle f by simp
  let ?p = "(master_pic s)\<lparr>IRQ_in := IRQ_in (master_pic s) OR push_bit n 1,
    irr := irr (master_pic s) OR push_bit n 1, irq := n, INT_req := False\<rparr>"
  have ack: "acknowledge ?p = in_service n (IRQ_in (master_pic s) OR push_bit n 1) (master_pic s)"
    by (rule acknowledge_idle [OF idle])
  have no: "pic_request (in_service n x q) = None" for x q by (rule in_service_request)
  have irq: "irq (in_service n x q) = n" "interrupt_offset (in_service n x q) = interrupt_offset q" for x q
    by (simp_all add: in_service_def)
  have nz: "irr (master_pic s) OR push_bit n 1 \<noteq> 0" by (rule idle_irr_nonzero [OF idle])
  have "raise_irq n s = pic_emit (Set_Intr True) (?f\<lparr>master_pic := ?p\<lparr>INT_req := True\<rparr>\<rparr>)"
    using n8 by (simp add: raise_irq_def raise_master_idle [OF i] f)
  then have r: "r = (word_of_nat n + interrupt_offset (master_pic s),
      (pic_emit (Set_Intr False) (pic_emit (Set_Intr True) (?f\<lparr>master_pic := ?p\<lparr>INT_req := True\<rparr>\<rparr>)))
        \<lparr>master_pic := in_service n (IRQ_in (master_pic s) OR push_bit n 1) (master_pic s)\<rparr>)"
    using n nz unfolding r_def IAC_def Let_def
    by (simp add: ack irq service_master_pic_def no del: push_bit_of_1)
  show "fst r = word_of_nat n + interrupt_offset (master_pic s)"
    and "master_pic (snd r) = in_service n (IRQ_in (master_pic s) OR push_bit n 1) (master_pic s)"
    and "slave_pic (snd r) = slave_pic s"
    by (simp_all add: r f)
qed

lemma ack_slave:
  assumes master: "pic_idle (master_pic s) 2" and slave: "pic_idle (slave_pic s) k" and n: "n = k + 8"
  defines "r \<equiv> IAC (raise_irq n s)"
  shows "fst r = word_of_nat k + interrupt_offset (slave_pic s)"
    and "slave_pic (snd r) = in_service k (IRQ_in (slave_pic s) OR push_bit k 1) (slave_pic s)"
    and "master_pic (snd r) =
      in_service 2 (clear_bit 2 (IRQ_in (master_pic s) OR push_bit 2 1)) (master_pic s)"
proof -
  have k: "k < 8" using slave by (simp add: pic_idle_def)
  let ?f = "forward_ioapic n True s"
  have f: "master_pic ?f = master_pic s" "slave_pic ?f = slave_pic s" by simp_all
  let ?x = "IRQ_in (slave_pic s) OR push_bit k 1" and ?y = "IRQ_in (master_pic s) OR push_bit 2 1"
  let ?q = "(slave_pic s)\<lparr>IRQ_in := ?x, irr := irr (slave_pic s) OR push_bit k 1, irq := k, INT_req := False\<rparr>"
  let ?p = "(master_pic s)\<lparr>IRQ_in := ?y, irr := irr (master_pic s) OR push_bit 2 1, irq := 2, INT_req := False\<rparr>"
  have ack: "acknowledge ?q = in_service k ?x (slave_pic s)" "acknowledge ?p = in_service 2 ?y (master_pic s)"
    using acknowledge_idle [OF slave] acknowledge_idle [OF master] by blast+
  have no: "pic_request (in_service j x q) = None" for j x q by (rule in_service_request)
  have irq: "irq (in_service j x q) = j" "IRQ_in (in_service j x q) = x"
    "(in_service j x q)\<lparr>IRQ_in := z\<rparr> = in_service j z q" for j x z q
    by (simp_all add: in_service_def)
  have nz: "irr (master_pic s) OR push_bit 2 1 \<noteq> 0" "irr (slave_pic s) OR push_bit k 1 \<noteq> 0"
    by (rule idle_irr_nonzero [OF master], rule idle_irr_nonzero [OF slave])
  have q: "pic_request ((slave_pic s)\<lparr>IRQ_in := ?x, irr := irr (slave_pic s) OR push_bit k 1\<rparr>) = Some k"
    by (rule idle_request [OF slave])
  have low: "\<not> bit (IRQ_in (slave_pic s)) k" using slave by (simp add: pic_idle_def)
  let ?g = "?f\<lparr>slave_pic := ?q\<lparr>INT_req := True\<rparr>\<rparr>"
  have "pic_idle (master_pic ?g) 2" using master by (simp add: f)
  from raise_master_idle [OF this]
  have "raise_master 2 ?g = pic_emit (Set_Intr True) (?g\<lparr>master_pic := ?p\<lparr>INT_req := True\<rparr>\<rparr>)"
    by (simp add: f del: push_bit_of_1)
  moreover have "raise_irq n s = raise_master 2 ?g"
    using k n low q by (simp add: raise_irq_def service_slave_pic_def f Let_def del: push_bit_of_1)
  ultimately have "raise_irq n s = pic_emit (Set_Intr True) (?g\<lparr>master_pic := ?p\<lparr>INT_req := True\<rparr>\<rparr>)" by simp
  then have r: "fst r = word_of_nat k + interrupt_offset (slave_pic s) \<and>
      slave_pic (snd r) = in_service k ?x (slave_pic s) \<and>
      master_pic (snd r) = in_service 2 (clear_bit 2 ?y) (master_pic s)"
    using nz unfolding r_def IAC_def Let_def
    by (simp add: ack irq service_master_pic_def service_slave_pic_def no del: push_bit_of_1)
  then show "fst r = word_of_nat k + interrupt_offset (slave_pic s)"
    and "slave_pic (snd r) = in_service k (IRQ_in (slave_pic s) OR push_bit k 1) (slave_pic s)"
    and "master_pic (snd r) =
      in_service 2 (clear_bit 2 (IRQ_in (master_pic s) OR push_bit 2 1)) (master_pic s)" by simp_all
qed

section \<open>Properties\<close>

text \<open>
  C8. The controller signals a line exactly when it is not already signalling one and that line is
  the deliverable request of the highest priority: requested, not masked, and with no line of its
  own or a higher priority in service, in the rotated priority order and in the special mask mode.
\<close>

theorem highest_priority_signalled:
  "(pic_request p = Some i \<longleftrightarrow> \<not> INT_req p \<and> deliverable p i \<and> (\<forall>j. deliverable p j \<longrightarrow> prio p i \<le> prio p j)) \<and>
   (pic_request p = None \<longleftrightarrow> INT_req p \<or> (\<forall>j. \<not> deliverable p j))"
  using pic_request_Some_iff pic_request_None_iff by blast

text \<open>A controller with lines 3 and 6 requested after the priorities were rotated to start at 5.\<close>

definition busy_pic :: pic where
  "busy_pic = (pic_power_on True 0x08 0x04)\<lparr>imr := 0, irr := 0x48, lowest_priority := 4\<rparr>"

lemma highest_priority_signalled_witness: "pic_request busy_pic = Some 6"
proof -
  have b: "bit (0x48 :: u8) j \<longleftrightarrow> j = 3 \<or> j = 6" if "j < 8" for j
    using that by (auto simp: less_Suc_eq numeral_eq_Suc)
  have d: "deliverable busy_pic j \<longleftrightarrow> j = 3 \<or> j = 6" for j
    using b by (auto simp: deliverable_def busy_pic_def pic_power_on_def)
  have "prio busy_pic 6 = 1" "prio busy_pic 3 = 6"
    by (simp_all add: prio_def rank_def highest_priority_def next_irq_def busy_pic_def)
  then show ?thesis
    using highest_priority_signalled [of busy_pic 6] by (auto simp: d) (simp add: busy_pic_def pic_power_on_def)
qed

text \<open>
  After any sequence of operations from power-on, the level of the CPU's interrupt pin is the
  master's request flag, and the line it holds is one of its eight.
\<close>

theorem cpu_pin_follows_request:
  assumes "pic_reach s"
  shows "intr_line s = INT_req (master_pic s) \<and> irq (master_pic s) < 8 \<and> irq (slave_pic s) < 8"
  using pic_reach_ok [OF assms] by (simp add: pics_ok_def pic_ok_def)

lemma cpu_pin_follows_request_witness:
  "intr_line (pic_exec (Raise 9) (pic_init False)) = INT_req (master_pic (pic_exec (Raise 9) (pic_init False))) \<and>
   irq (master_pic (pic_exec (Raise 9) (pic_init False))) < 8 \<and> irq (slave_pic (pic_exec (Raise 9) (pic_init False))) < 8"
  by (rule cpu_pin_follows_request) (intro pic_next pic_start)

text \<open>
  C29. No request is left behind: when neither controller has an undelivered request that it should
  signal, the same holds after any operation but the commands that only rotate the priorities and
  the acknowledge cycle in which the slave's request has gone.
\<close>

theorem no_request_left_behind:
  assumes "settled s" and "looks_again op s"
  shows "settled (pic_exec op s)"
  by (rule settled_exec [OF assms])

lemma settled_start: "settled (pic_init apic)"
  by (simp add: settled_def pic_init_def pic_power_on_def request_no_irr)

lemma no_request_left_behind_witness: "settled (pic_exec (Raise 9) (pic_init False))"
  by (rule no_request_left_behind) (simp_all add: settled_start)

text \<open>
  The commands that only rotate the priorities are an exception: they can give a waiting request
  the highest priority and leave it without a signal to the CPU.
\<close>

definition rotating_pics :: pics where
  "rotating_pics = (pic_init False)\<lparr>master_pic := (pic_power_on True 0x08 0x04)\<lparr>imr := 0, isr := 1, irr := 2\<rparr>\<rparr>"

theorem rotation_leaves_request:
  "settled rotating_pics \<and> \<not> settled (pic_exec (Port_Write 0x20 0xc0) rotating_pics)"
proof -
  have slave: "pic_request (slave_pic rotating_pics) = None"
    by (simp add: rotating_pics_def pic_init_def pic_power_on_def request_no_irr)
  have bits: "bit (2 :: u8) j \<longleftrightarrow> j = 1" "bit (1 :: u8) j \<longleftrightarrow> j = 0" if "j < 8" for j
    using that by (auto simp: less_Suc_eq numeral_eq_Suc)
  have d: "deliverable (master_pic rotating_pics) j \<Longrightarrow> j = 1" for j
    using bits(1) [of j] by (simp add: deliverable_def rotating_pics_def)
  have "\<not> deliverable (master_pic rotating_pics) 1"
    by (auto simp: deliverable_def rotating_pics_def pic_power_on_def prio_def rank_def highest_priority_def
        next_irq_def intro!: exI [of _ 0])
  with d have "pic_request (master_pic rotating_pics) = None" unfolding pic_request_None_iff by blast
  then have before: "settled rotating_pics" using slave by (simp add: settled_def)
  let ?p = "master_pic (pic_exec (Port_Write 0x20 0xc0) rotating_pics)"
  have p: "?p = (master_pic rotating_pics)\<lparr>lowest_priority := 0\<rparr>"
    by (simp add: pic_write_def write_20_def ocw2_def rotating_pics_def)
  have "deliverable ?p 1"
    unfolding p using bits(2)
    by (auto simp: deliverable_def rotating_pics_def pic_power_on_def prio_def rank_def highest_priority_def next_irq_def)
  moreover have "\<not> INT_req ?p" unfolding p by (simp add: rotating_pics_def pic_power_on_def)
  ultimately have "pic_request ?p \<noteq> None" unfolding pic_request_None_iff by blast
  with before show ?thesis by (simp add: settled_def del: pic_exec.simps)
qed

section \<open>The acknowledge cycle on either controller\<close>

definition line_idle :: "nat \<Rightarrow> pics \<Rightarrow> bool" where
  "line_idle n p = (if n < 8 then n \<noteq> 2 \<and> pic_idle (master_pic p) n
                    else pic_idle (master_pic p) 2 \<and> pic_idle (slave_pic p) (n - 8))"

definition irq_vector :: "nat \<Rightarrow> pics \<Rightarrow> u8" where
  "irq_vector n p = (if n < 8 then word_of_nat n + interrupt_offset (master_pic p)
                     else word_of_nat (n - 8) + interrupt_offset (slave_pic p))"

lemma idle_vector: "line_idle n p \<Longrightarrow> fst (IAC (raise_irq n p)) = irq_vector n p"
  using ack_master(1) [of p n] ack_slave(1) [of p "n - 8" n]
  by (auto simp: line_idle_def irq_vector_def split: if_splits)

text \<open>
  An interrupt on an idle line, of the master or through the slave's cascade, is acknowledged
  with the vector programmed for it, and leaves exactly that line in service and nothing requested.
\<close>

theorem acknowledge_returns_vector:
  assumes "line_idle n s"
  shows "fst (IAC (raise_irq n s)) = irq_vector n s \<and>
    (if n < 8 then isr (master_pic (snd (IAC (raise_irq n s)))) = push_bit n 1 \<and>
                   slave_pic (snd (IAC (raise_irq n s))) = slave_pic s
     else isr (master_pic (snd (IAC (raise_irq n s)))) = push_bit 2 1 \<and>
          isr (slave_pic (snd (IAC (raise_irq n s)))) = push_bit (n - 8) 1 \<and>
          irr (slave_pic (snd (IAC (raise_irq n s)))) = 0) \<and>
    irr (master_pic (snd (IAC (raise_irq n s)))) = 0"
proof (cases "n < 8")
  case True
  then have "n \<noteq> 2" "pic_idle (master_pic s) n" using assms by (simp_all add: line_idle_def)
  with True show ?thesis
    using idle_vector [OF assms] ack_master(2,3) [of s n] by (simp add: in_service_def)
next
  case False
  then have idle: "pic_idle (master_pic s) 2" "pic_idle (slave_pic s) (n - 8)" and n: "n = (n - 8) + 8"
    using assms by (simp_all add: line_idle_def)
  with False show ?thesis
    using idle_vector [OF assms] ack_slave(2,3) [OF idle n] by (simp add: in_service_def)
qed

text \<open>Both controllers after the BIOS has unmasked everything.\<close>

definition open_pics :: pics where
  "open_pics = (pic_init False)\<lparr>master_pic := (pic_power_on True 0x08 0x04)\<lparr>imr := 0\<rparr>,
                                slave_pic := (pic_power_on False 0x70 0x02)\<lparr>imr := 0\<rparr>\<rparr>"

lemma open_pics_idle: "n < 16 \<Longrightarrow> n \<noteq> 2 \<Longrightarrow> line_idle n open_pics"
  by (auto simp: line_idle_def open_pics_def pic_idle_def pic_power_on_def)

lemma acknowledge_returns_vector_witness:
  "fst (IAC (raise_irq 9 open_pics)) = 0x71 \<and> isr (slave_pic (snd (IAC (raise_irq 9 open_pics)))) = 2"
  using acknowledge_returns_vector [OF open_pics_idle, of 9]
  by (simp add: irq_vector_def) (simp add: open_pics_def pic_power_on_def)

end
