(* ===== verification/Dma.thy ===== *)
theory Dma
  imports Machine_Prelude
begin

text \<open>
  The pair of 8237 DMA controllers (\<^verbatim>\<open>bx_dma_c\<close> in \<^verbatim>\<open>src/sim/bochs/iodev/dma.cc\<close>). The
  controllers are \<open>ctl False\<close> (channels 0 to 3, bytes) and \<open>ctl True\<close> (channels 4 to 7, words; its
  channel 0 cascades the other), as the source indexes them by \<open>ma_sl\<close>. The handlers that devices
  register are the parameter \<open>dma_handlers\<close>; the machine's memory is the field \<open>ram\<close>; the hold
  request line and the panics go to \<open>dma_out\<close>.
\<close>

unbundle bit_operations_syntax

section \<open>State\<close>

datatype dma_event = Set_HRQ bool | Dma_Panic string

definition DMA_MODE_DEMAND :: nat where "DMA_MODE_DEMAND = 0"
definition DMA_MODE_SINGLE :: nat where "DMA_MODE_SINGLE = 1"
definition DMA_MODE_BLOCK :: nat where "DMA_MODE_BLOCK = 2"
definition DMA_MODE_CASCADE :: nat where "DMA_MODE_CASCADE = 3"

record dma_channel =
  mode_type :: nat
  address_decrement :: bool
  autoinit_enable :: bool
  transfer_type :: nat
  chan_base_address :: u16
  current_address :: u16
  base_count :: u16
  current_count :: u16
  page_reg :: u8
  used_chan :: bool

record dma_ctrl =
  DRQ :: "nat \<Rightarrow> bool"
  DACK :: "nat \<Rightarrow> bool"
  mask_bit :: "nat \<Rightarrow> bool"
  flip_flop :: bool
  status_reg :: u8
  command_reg :: u8
  ctrl_disabled :: bool
  chan :: "nat \<Rightarrow> dma_channel"

record dma =
  ctl :: "bool \<Rightarrow> dma_ctrl"
  HLDA :: bool
  TC :: bool
  ext_page_reg :: "nat \<Rightarrow> u8"
  ram :: "nat \<Rightarrow> u8"
  dma_out :: "dma_event list"

text \<open>The registered handlers, by channel; None is a null pointer.\<close>

record dma_handlers =
  dmaRead8 :: "nat \<Rightarrow> (u8 \<Rightarrow> dma \<Rightarrow> dma) option"
  dmaWrite8 :: "nat \<Rightarrow> (dma \<Rightarrow> u8 \<times> dma) option"
  dmaRead16 :: "nat \<Rightarrow> (u16 \<Rightarrow> dma \<Rightarrow> dma) option"
  dmaWrite16 :: "nat \<Rightarrow> (dma \<Rightarrow> u16 \<times> dma) option"

definition dma_emit :: "dma_event \<Rightarrow> dma \<Rightarrow> dma" where
  "dma_emit e s = s\<lparr>dma_out := dma_out s @ [e]\<rparr>"

definition on_ctl :: "bool \<Rightarrow> (dma_ctrl \<Rightarrow> dma_ctrl) \<Rightarrow> dma \<Rightarrow> dma" where
  "on_ctl i f s = s\<lparr>ctl := (ctl s)(i := f (ctl s i))\<rparr>"

definition on_chan :: "bool \<Rightarrow> nat \<Rightarrow> (dma_channel \<Rightarrow> dma_channel) \<Rightarrow> dma \<Rightarrow> dma" where
  "on_chan i c f = on_ctl i (\<lambda>k. k\<lparr>chan := (chan k)(c := f (chan k c))\<rparr>)"

section \<open>Registration and initialisation\<close>

definition registerDMA8Channel :: "nat \<Rightarrow> dma \<Rightarrow> bool \<times> dma" where
  "registerDMA8Channel channel s =
     (if 3 < channel then (False, dma_emit (Dma_Panic ''registerDMA8Channel: invalid channel number'') s)
      else if used_chan (chan (ctl s False) channel)
      then (False, dma_emit (Dma_Panic ''registerDMA8Channel: channel already in use'') s)
      else (True, on_chan False channel (\<lambda>k. k\<lparr>used_chan := True\<rparr>) s))"

definition registerDMA16Channel :: "nat \<Rightarrow> dma \<Rightarrow> bool \<times> dma" where
  "registerDMA16Channel channel s =
     (if channel < 4 \<or> 7 < channel
      then (False, dma_emit (Dma_Panic ''registerDMA16Channel: invalid channel number'') s)
      else if used_chan (chan (ctl s True) (channel mod 4))
      then (False, dma_emit (Dma_Panic ''registerDMA16Channel: channel already in use'') s)
      else (True, on_chan True (channel mod 4) (\<lambda>k. k\<lparr>used_chan := True\<rparr>) s))"

definition unregisterDMAChannel :: "nat \<Rightarrow> dma \<Rightarrow> dma" where
  "unregisterDMAChannel channel s = on_chan (3 < channel) (channel mod 4) (\<lambda>k. k\<lparr>used_chan := False\<rparr>) s"

definition chan_init :: dma_channel where
  "chan_init = \<lparr>mode_type = 0, address_decrement = False, autoinit_enable = False, transfer_type = 0,
     chan_base_address = 0, current_address = 0, base_count = 0, current_count = 0, page_reg = 0,
     used_chan = False\<rparr>"

definition dma_init :: "dma \<Rightarrow> dma" where
  "dma_init s =
     (let clear = (\<lambda>k. k\<lparr>DRQ := (\<lambda>_. False), DACK := (\<lambda>_. False), chan := (\<lambda>_. chan_init)\<rparr>);
          s1 = (on_ctl True clear (on_ctl False clear s))\<lparr>HLDA := False, TC := False, ext_page_reg := (\<lambda>_. 0)\<rparr>
      in on_chan True 0 (\<lambda>k. k\<lparr>used_chan := True\<rparr>) s1)"

definition reset_controller :: "bool \<Rightarrow> dma \<Rightarrow> dma" where
  "reset_controller i =
     on_ctl i (\<lambda>k. k\<lparr>mask_bit := (\<lambda>_. True), ctrl_disabled := False, command_reg := 0, status_reg := 0,
                     flip_flop := False\<rparr>)"

definition dma_reset :: "dma \<Rightarrow> dma" where
  "dma_reset s = reset_controller True (reset_controller False s)"

section \<open>Requests\<close>

definition set_status :: "nat \<Rightarrow> bool \<Rightarrow> dma_ctrl \<Rightarrow> dma_ctrl" where
  "set_status b v k =
     k\<lparr>status_reg := (if v then status_reg k OR push_bit b 1 else status_reg k AND NOT (push_bit b 1))\<rparr>"

definition requesting :: "dma_ctrl \<Rightarrow> nat \<Rightarrow> bool" where
  "requesting k c = (bit (status_reg k) (c + 4) \<and> \<not> mask_bit k c)"

text \<open>The loop over the channels, from the highest priority on.\<close>

definition first_channel :: "dma_ctrl \<Rightarrow> nat option" where
  "first_channel k = find (requesting k) [0..<4]"

text \<open>What \<open>control_HRQ\<close> tells the next stage: drop the request, make it, or nothing.\<close>

definition hrq_decision :: "dma_ctrl \<Rightarrow> bool option" where
  "hrq_decision k =
     (if ctrl_disabled k then None
      else if status_reg k AND 0xf0 = 0 then Some False
      else if first_channel k \<noteq> None then Some True else None)"

definition control_HRQ_master :: "dma \<Rightarrow> dma" where
  "control_HRQ_master s =
     (case hrq_decision (ctl s True) of None \<Rightarrow> s | Some b \<Rightarrow> dma_emit (Set_HRQ b) s)"

definition outside_boundary :: "bool \<Rightarrow> dma_channel \<Rightarrow> bool" where
  "outside_boundary i k =
     (let sh = (if i then 1 else 0);
          dma_base = push_bit 16 (ucast (page_reg k)) OR push_bit sh (ucast (chan_base_address k)) :: u32;
          len = push_bit sh (ucast (base_count k)) :: u32;
          dma_roof = (if \<not> address_decrement k then dma_base + len else dma_base - len);
          m = push_bit sh 0x7fff0000 :: u32
      in dma_base AND m \<noteq> dma_roof AND m)"

definition set_DRQ_with :: "(dma \<Rightarrow> dma) \<Rightarrow> bool \<Rightarrow> nat \<Rightarrow> bool \<Rightarrow> dma \<Rightarrow> dma" where
  "set_DRQ_with control i c val s =
     (let s1 = on_ctl i (\<lambda>k. k\<lparr>DRQ := (DRQ k)(c := val)\<rparr>) s in
      if \<not> used_chan (chan (ctl s1 i) c) then dma_emit (Dma_Panic ''set_DRQ(): channel not connected'') s1
      else if \<not> val then control (on_ctl i (set_status (c + 4) False) s1)
      else
        let s2 = on_ctl i (set_status (c + 4) True) s1;
            k = chan (ctl s2 i) c;
            s3 = (if mode_type k \<noteq> DMA_MODE_SINGLE \<and> mode_type k \<noteq> DMA_MODE_DEMAND \<and> mode_type k \<noteq> DMA_MODE_CASCADE
                  then dma_emit (Dma_Panic ''set_DRQ: mode_type not handled'') s2 else s2);
            s4 = (if outside_boundary i k then dma_emit (Dma_Panic ''request outside boundary'') s3 else s3)
        in control s4)"

text \<open>
  \<open>control_HRQ\<close> of the first controller sets the request of channel 4, whose \<open>control_HRQ\<close> drives
  the CPU: the recursion of the source, unrolled.
\<close>

definition control_HRQ :: "bool \<Rightarrow> dma \<Rightarrow> dma" where
  "control_HRQ i s =
     (if i then control_HRQ_master s
      else case hrq_decision (ctl s False) of
        None \<Rightarrow> s
      | Some b \<Rightarrow> set_DRQ_with control_HRQ_master True 0 b s)"

definition set_DRQ :: "nat \<Rightarrow> bool \<Rightarrow> dma \<Rightarrow> dma" where
  "set_DRQ channel val s =
     (if 7 < channel then dma_emit (Dma_Panic ''set_DRQ() channel > 7'') s
      else set_DRQ_with (control_HRQ (3 < channel)) (3 < channel) (channel mod 4) val s)"

section \<open>Reading the ports\<close>

definition port_channel :: "nat \<Rightarrow> nat" where
  "port_channel address = (if 0xc0 \<le> address then address div 4 mod 4 else address div 2 mod 4)"

text \<open>\<open>channelindex\<close>: page registers are not in the order of the channels.\<close>

definition channelindex :: "nat \<Rightarrow> nat" where
  "channelindex i = [2, 3, 1, 0, 0, 0, 0] ! i"

definition address_ports :: "nat list" where
  "address_ports = [0x00, 0x02, 0x04, 0x06, 0xc0, 0xc4, 0xc8, 0xcc]"

definition count_ports :: "nat list" where
  "count_ports = [0x01, 0x03, 0x05, 0x07, 0xc2, 0xc6, 0xca, 0xce]"

definition extra_page_ports :: "nat list" where
  "extra_page_ports = [0x80, 0x84, 0x85, 0x86, 0x88, 0x8c, 0x8d, 0x8e]"

definition half :: "bool \<Rightarrow> u16 \<Rightarrow> u32" where
  "half second w = (if second then ucast (drop_bit 8 w) else ucast (w AND 0xff))"

definition dma_read :: "nat \<Rightarrow> dma \<Rightarrow> u32 \<times> dma" where
  "dma_read address s =
     (let i = (0xc0 \<le> address); k = ctl s i; toggle = on_ctl i (\<lambda>k. k\<lparr>flip_flop := \<not> flip_flop k\<rparr>) in
      if address \<in> set address_ports then
        (half (flip_flop k) (current_address (chan k (port_channel address))), toggle s)
      else if address \<in> set count_ports then
        (half (flip_flop k) (current_count (chan k (port_channel address))), toggle s)
      else if address = 0x08 \<or> address = 0xd0 then
        (ucast (status_reg k), on_ctl i (\<lambda>k. k\<lparr>status_reg := status_reg k AND 0xf0\<rparr>) s)
      else if address = 0x0d \<or> address = 0xda then (0, s)
      else if address \<in> {0x81, 0x82, 0x83, 0x87} then
        (ucast (page_reg (chan (ctl s False) (channelindex (address - 0x81)))), s)
      else if address \<in> {0x89, 0x8a, 0x8b, 0x8f} then
        (ucast (page_reg (chan (ctl s True) (channelindex (address - 0x89)))), s)
      else if address \<in> set extra_page_ports then (ucast (ext_page_reg s (address mod 16)), s)
      else if address = 0x0f \<or> address = 0xde then
        (0xf0 OR (of_bool (mask_bit k 0) OR push_bit 1 (of_bool (mask_bit k 1)) OR
                  push_bit 2 (of_bool (mask_bit k 2)) OR push_bit 3 (of_bool (mask_bit k 3))), s)
      else (0, s))"

section \<open>Writing the ports\<close>

definition load_half :: "bool \<Rightarrow> u32 \<Rightarrow> u16 \<Rightarrow> u16" where
  "load_half second v w = (if second then w OR ucast (push_bit 8 v) else ucast v)"

definition write_address :: "nat \<Rightarrow> u32 \<Rightarrow> dma \<Rightarrow> dma" where
  "write_address address v s =
     (let i = (0xc0 \<le> address); second = flip_flop (ctl s i);
          s1 = on_chan i (port_channel address)
                 (\<lambda>k. k\<lparr>chan_base_address := load_half second v (chan_base_address k),
                        current_address := load_half second v (current_address k)\<rparr>) s
      in on_ctl i (\<lambda>k. k\<lparr>flip_flop := \<not> flip_flop k\<rparr>) s1)"

definition write_count :: "nat \<Rightarrow> u32 \<Rightarrow> dma \<Rightarrow> dma" where
  "write_count address v s =
     (let i = (0xc0 \<le> address); second = flip_flop (ctl s i);
          s1 = on_chan i (port_channel address)
                 (\<lambda>k. k\<lparr>base_count := load_half second v (base_count k),
                        current_count := load_half second v (current_count k)\<rparr>) s
      in on_ctl i (\<lambda>k. k\<lparr>flip_flop := \<not> flip_flop k\<rparr>) s1)"

definition write_mode :: "bool \<Rightarrow> u32 \<Rightarrow> dma \<Rightarrow> dma" where
  "write_mode i v =
     on_chan i (unat (v AND 0x03))
       (\<lambda>k. k\<lparr>mode_type := unat (drop_bit 6 v AND 0x03), address_decrement := bit v 5,
              autoinit_enable := bit v 4, transfer_type := unat (drop_bit 2 v AND 0x03)\<rparr>)"

definition dma_write1 :: "nat \<Rightarrow> u32 \<Rightarrow> dma \<Rightarrow> dma" where
  "dma_write1 address v s =
     (let i = (0xc0 \<le> address) in
      if address \<in> set address_ports then write_address address v s
      else if address \<in> set count_ports then write_count address v s
      else if address = 0x08 \<or> address = 0xd0 then
        control_HRQ i (on_ctl i (\<lambda>k. k\<lparr>command_reg := ucast v, ctrl_disabled := bit v 2\<rparr>) s)
      else if address = 0x09 \<or> address = 0xd2 then
        control_HRQ i (on_ctl i (set_status (unat (v AND 0x03) + 4) (bit v 2)) s)
      else if address = 0x0a \<or> address = 0xd4 then
        control_HRQ i (on_ctl i (\<lambda>k. k\<lparr>mask_bit := (mask_bit k)(unat (v AND 0x03) := bit v 2)\<rparr>) s)
      else if address = 0x0b \<or> address = 0xd6 then write_mode i v s
      else if address = 0x0c \<or> address = 0xd8 then on_ctl i (\<lambda>k. k\<lparr>flip_flop := False\<rparr>) s
      else if address = 0x0d \<or> address = 0xda then reset_controller i s
      else if address = 0x0e \<or> address = 0xdc then
        control_HRQ i (on_ctl i (\<lambda>k. k\<lparr>mask_bit := (\<lambda>_. False)\<rparr>) s)
      else if address = 0x0f \<or> address = 0xde then
        control_HRQ i (on_ctl i (\<lambda>k. k\<lparr>mask_bit := bit v\<rparr>) s)
      else if address \<in> {0x81, 0x82, 0x83, 0x87} then
        on_chan False (channelindex (address - 0x81)) (\<lambda>k. k\<lparr>page_reg := ucast v\<rparr>) s
      else if address \<in> {0x89, 0x8a, 0x8b, 0x8f} then
        on_chan True (channelindex (address - 0x89)) (\<lambda>k. k\<lparr>page_reg := ucast v\<rparr>) s
      else if address \<in> set extra_page_ports then
        s\<lparr>ext_page_reg := (ext_page_reg s)(address mod 16 := ucast v)\<rparr>
      else s)"

definition dma_write :: "nat \<Rightarrow> u32 \<Rightarrow> nat \<Rightarrow> dma \<Rightarrow> dma" where
  "dma_write address v io_len s =
     (if 1 < io_len then
        if io_len = 2 \<and> address = 0x0b
        then dma_write1 (address + 1) (drop_bit 8 v) (dma_write1 address (v AND 0xff) s)
        else s
      else dma_write1 address v s)"

section \<open>The transfer cycle\<close>

definition ram_write :: "nat \<Rightarrow> bytes \<Rightarrow> dma \<Rightarrow> dma" where
  "ram_write a bs s = s\<lparr>ram := blit a bs (ram s)\<rparr>"

text \<open>Which channel is served, with the acknowledge of the cascade.\<close>

definition select_channel :: "dma \<Rightarrow> (bool \<times> nat) option \<times> dma" where
  "select_channel s =
     (case first_channel (ctl s True) of
        None \<Rightarrow> (None, s)
      | Some c \<Rightarrow>
          if c = 0 then
            let s1 = on_ctl True (\<lambda>k. k\<lparr>DACK := (DACK k)(0 := True)\<rparr>) s in
            (map_option (Pair False) (first_channel (ctl s1 False)), s1)
          else (Some (True, c), s))"

definition phy_addr :: "bool \<Rightarrow> dma_channel \<Rightarrow> nat" where
  "phy_addr i k =
     unat (push_bit 16 (ucast (page_reg k)) OR push_bit (if i then 1 else 0) (ucast (current_address k)) :: u32)"

text \<open>Address and count of the channel advance; the flag says that the count expired.\<close>

definition advance :: "bool \<Rightarrow> nat \<Rightarrow> dma \<Rightarrow> bool \<times> dma" where
  "advance i c s =
     (let s1 = on_ctl i (\<lambda>k. k\<lparr>DACK := (DACK k)(c := True)\<rparr>) s;
          s2 = on_chan i c (\<lambda>k. k\<lparr>current_address :=
                 (if \<not> address_decrement k then current_address k + 1 else current_address k - 1)\<rparr>) s1;
          s3 = on_chan i c (\<lambda>k. k\<lparr>current_count := current_count k - 1\<rparr>) s2
      in if current_count (chan (ctl s3 i) c) = 0xffff then
           let s4 = (on_ctl i (set_status c True) s3)\<lparr>TC := True\<rparr> in
           (True,
            if \<not> autoinit_enable (chan (ctl s4 i) c)
            then on_ctl i (\<lambda>k. k\<lparr>mask_bit := (mask_bit k)(c := True)\<rparr>) s4
            else on_chan i c (\<lambda>k. k\<lparr>current_address := chan_base_address k, current_count := base_count k\<rparr>) s4)
         else (False, s3))"

definition no_handler :: "dma \<Rightarrow> dma" where
  "no_handler = dma_emit (Dma_Panic ''no dmaWrite handler'')"

text \<open>\<open>junk\<close> is what the uninitialised local variable holds when no handler fills it.\<close>

definition move_data :: "dma_handlers \<Rightarrow> u16 \<Rightarrow> bool \<Rightarrow> nat \<Rightarrow> nat \<Rightarrow> dma \<Rightarrow> dma" where
  "move_data h junk i c a s =
     (let t = transfer_type (chan (ctl s i) c);
          from_dev8 = (case dmaWrite8 h c of Some f \<Rightarrow> f s | None \<Rightarrow> (ucast junk, no_handler s));
          from_dev16 = (case dmaWrite16 h c of Some f \<Rightarrow> f s | None \<Rightarrow> (junk, no_handler s))
      in if t = 1 then
           if \<not> i then (let (b, s1) = from_dev8 in ram_write a [b] s1)
           else (let (w, s1) = from_dev16 in ram_write a (le_bytes 2 (unat w)) s1)
         else if t = 2 then
           if \<not> i then (case dmaRead8 h c of Some f \<Rightarrow> f (ram s a) s | None \<Rightarrow> s)
           else (case dmaRead16 h c of Some f \<Rightarrow> f (word_of_nat (le_nat (block (ram s) a 2))) s | None \<Rightarrow> s)
         else if t = 0 then (if \<not> i then snd from_dev8 else snd from_dev16)
         else dma_emit (Dma_Panic ''hlda: transfer_type 3 is undefined'') s)"

definition end_of_count :: "bool \<Rightarrow> nat \<Rightarrow> dma \<Rightarrow> dma" where
  "end_of_count i c s =
     (let s1 = dma_emit (Set_HRQ False) (s\<lparr>TC := False, HLDA := False\<rparr>);
          s2 = on_ctl i (\<lambda>k. k\<lparr>DACK := (DACK k)(c := False)\<rparr>) s1
      in if \<not> i then on_ctl True (\<lambda>k. k\<lparr>DACK := (DACK k)(0 := False)\<rparr>) (set_DRQ 4 False s2)
         else s2)"

definition raise_HLDA :: "dma_handlers \<Rightarrow> u16 \<Rightarrow> dma \<Rightarrow> dma" where
  "raise_HLDA h junk s =
     (case select_channel (s\<lparr>HLDA := True\<rparr>) of
        (None, s1) \<Rightarrow> s1
      | (Some (i, c), s1) \<Rightarrow>
          let a = phy_addr i (chan (ctl s1 i) c);
              (count_expired, s2) = advance i c s1;
              s3 = move_data h junk i c a s2
          in if count_expired then end_of_count i c s3 else s3)"

end
