(* ===== verification/Dma_Spec.thy ===== *)
theory Dma_Spec
  imports Dma
begin

text \<open>
  What the DMA controllers promise: a 16 bit register programmed through the flip-flop reads back,
  and a byte channel in write mode stores exactly the bytes its device delivers, one per hold
  acknowledge, until the count expires and the channel is masked.
\<close>

unbundle bit_operations_syntax

interpretation dma_ram: flat_memory ram ram_write "\<lambda>_. 2 ^ 32"
  by unfold_locales (simp_all add: ram_write_def)

section \<open>Fields\<close>

lemma ctl_on_ctl [simp]: "ctl (on_ctl i f s) j = (if j = i then f (ctl s i) else ctl s j)"
  by (simp add: on_ctl_def)

lemma on_ctl_fields [simp]:
  "ram (on_ctl i f s) = ram s" "TC (on_ctl i f s) = TC s" "HLDA (on_ctl i f s) = HLDA s"
  "dma_out (on_ctl i f s) = dma_out s" "ext_page_reg (on_ctl i f s) = ext_page_reg s"
  by (simp_all add: on_ctl_def)

lemma ctl_on_chan [simp]:
  "ctl (on_chan i c f s) j = (if j = i then (ctl s i)\<lparr>chan := (chan (ctl s i))(c := f (chan (ctl s i) c))\<rparr> else ctl s j)"
  by (simp add: on_chan_def)

lemma on_chan_fields [simp]:
  "ram (on_chan i c f s) = ram s" "TC (on_chan i c f s) = TC s" "HLDA (on_chan i c f s) = HLDA s"
  "dma_out (on_chan i c f s) = dma_out s" "ext_page_reg (on_chan i c f s) = ext_page_reg s"
  by (simp_all add: on_chan_def)

lemma dma_emit_fields [simp]:
  "ram (dma_emit e s) = ram s" "ctl (dma_emit e s) = ctl s" "TC (dma_emit e s) = TC s"
  "HLDA (dma_emit e s) = HLDA s" "dma_out (dma_emit e s) = dma_out s @ [e]" "ext_page_reg (dma_emit e s) = ext_page_reg s"
  by (simp_all add: dma_emit_def)

lemma ram_write_fields [simp]:
  "ctl (ram_write a bs s) = ctl s" "TC (ram_write a bs s) = TC s" "HLDA (ram_write a bs s) = HLDA s"
  "dma_out (ram_write a bs s) = dma_out s" "ram (ram_write a bs s) = blit a bs (ram s)"
  by (simp_all add: ram_write_def)

section \<open>Ports\<close>

text \<open>Programming a 16 bit register through the flip-flop and reading it back.\<close>

definition program_word :: "(nat \<Rightarrow> u32 \<Rightarrow> dma \<Rightarrow> dma) \<Rightarrow> nat \<Rightarrow> u16 \<Rightarrow> dma \<Rightarrow> dma" where
  "program_word wr address w s = wr address (half True w) (wr address (half False w) s)"

lemma load_halves: "load_half True (half True w) (load_half False (half False w) x) = w"
proof -
  have m: "(0xff :: u16) = mask 8" by (simp add: mask_eq_exp_minus_1)
  show ?thesis
    unfolding half_def load_half_def m
    by (rule bit_word_eqI)
      (auto simp: bit_and_iff bit_or_iff bit_push_bit_iff bit_mask_iff bit_ucast_iff bit_drop_bit_eq not_less)
qed

lemma flip_flop_off: "\<not> flip_flop k \<Longrightarrow> k\<lparr>chan := x, flip_flop := False\<rparr> = k\<lparr>chan := x\<rparr>"
  by (cases k) simp

lemma program_address:
  assumes "\<not> flip_flop (ctl s (0xc0 \<le> address))"
  shows "program_word write_address address w s =
    on_chan (0xc0 \<le> address) (port_channel address) (\<lambda>k. k\<lparr>chan_base_address := w, current_address := w\<rparr>) s"
  using assms
  by (simp add: program_word_def write_address_def Let_def on_chan_def on_ctl_def load_halves flip_flop_off)

lemma program_count:
  assumes "\<not> flip_flop (ctl s (0xc0 \<le> address))"
  shows "program_word write_count address w s =
    on_chan (0xc0 \<le> address) (port_channel address) (\<lambda>k. k\<lparr>base_count := w, current_count := w\<rparr>) s"
  using assms
  by (simp add: program_word_def write_count_def Let_def on_chan_def on_ctl_def load_halves flip_flop_off)

definition read_word :: "nat \<Rightarrow> dma \<Rightarrow> u32 \<times> u32 \<times> dma" where
  "read_word address s =
     (let (lo, s1) = dma_read address s; (hi, s2) = dma_read address s1 in (lo, hi, s2))"

lemma dma_write1_ports:
  "address \<in> set address_ports \<Longrightarrow> dma_write1 address v s = write_address address v s"
  "address \<in> set count_ports \<Longrightarrow> dma_write1 address v s = write_count address v s"
  by (auto simp: dma_write1_def Let_def address_ports_def count_ports_def)

lemma flip_flop_twice:
  "\<not> flip_flop (ctl s i) \<Longrightarrow>
   on_ctl i (\<lambda>k. k\<lparr>flip_flop := \<not> flip_flop k\<rparr>) (on_ctl i (\<lambda>k. k\<lparr>flip_flop := \<not> flip_flop k\<rparr>) s) = s"
proof -
  have same: "\<not> flip_flop k \<Longrightarrow> k\<lparr>flip_flop := False\<rparr> = k" for k :: dma_ctrl by (cases k) simp
  assume "\<not> flip_flop (ctl s i)"
  then have "(ctl s)(i := (ctl s i)\<lparr>flip_flop := False\<rparr>) = ctl s" by (rule fun_upd_idem [OF same [symmetric]])
  with \<open>\<not> flip_flop (ctl s i)\<close> show ?thesis by (simp add: on_ctl_def)
qed

lemma address_roundtrip:
  fixes w :: u16
  assumes ff: "\<not> flip_flop (ctl s (0xc0 \<le> address))" and a: "address \<in> set address_ports"
  defines "s' \<equiv> program_word dma_write1 address w s"
  shows "current_address (chan (ctl s' (0xc0 \<le> address)) (port_channel address)) = w"
    and "chan_base_address (chan (ctl s' (0xc0 \<le> address)) (port_channel address)) = w"
    and "read_word address s' = (ucast (w AND 0xff), ucast (drop_bit 8 w), s')"
proof -
  have s': "s' = on_chan (0xc0 \<le> address) (port_channel address) (\<lambda>k. k\<lparr>chan_base_address := w, current_address := w\<rparr>) s"
    using program_address [OF ff] by (simp add: s'_def program_word_def dma_write1_ports(1) [OF a])
  then show "current_address (chan (ctl s' (0xc0 \<le> address)) (port_channel address)) = w"
    and "chan_base_address (chan (ctl s' (0xc0 \<le> address)) (port_channel address)) = w" by simp_all
  have ff': "\<not> flip_flop (ctl s' (0xc0 \<le> address))" using ff by (simp add: s')
  show "read_word address s' = (ucast (w AND 0xff), ucast (drop_bit 8 w), s')"
    using a ff' flip_flop_twice [OF ff'] by (simp add: read_word_def dma_read_def Let_def half_def s')
qed

lemma count_roundtrip:
  fixes w :: u16
  assumes ff: "\<not> flip_flop (ctl s (0xc0 \<le> address))" and a: "address \<in> set count_ports"
  defines "s' \<equiv> program_word dma_write1 address w s"
  shows "current_count (chan (ctl s' (0xc0 \<le> address)) (port_channel address)) = w"
    and "base_count (chan (ctl s' (0xc0 \<le> address)) (port_channel address)) = w"
    and "read_word address s' = (ucast (w AND 0xff), ucast (drop_bit 8 w), s')"
proof -
  have s': "s' = on_chan (0xc0 \<le> address) (port_channel address) (\<lambda>k. k\<lparr>base_count := w, current_count := w\<rparr>) s"
    using program_count [OF ff] by (simp add: s'_def program_word_def dma_write1_ports(2) [OF a])
  then show "current_count (chan (ctl s' (0xc0 \<le> address)) (port_channel address)) = w"
    and "base_count (chan (ctl s' (0xc0 \<le> address)) (port_channel address)) = w" by simp_all
  have ff': "\<not> flip_flop (ctl s' (0xc0 \<le> address))" using ff by (simp add: s')
  have "address \<notin> set address_ports" using a by (auto simp: address_ports_def count_ports_def)
  then show "read_word address s' = (ucast (w AND 0xff), ucast (drop_bit 8 w), s')"
    using a ff' flip_flop_twice [OF ff'] by (simp add: read_word_def dma_read_def Let_def half_def s')
qed

section \<open>Block transfers\<close>

text \<open>A device that hands over one byte on channel \<open>c\<close> and does nothing else.\<close>

definition byte_source :: "nat \<Rightarrow> u8 \<Rightarrow> dma_handlers" where
  "byte_source c b = \<lparr>dmaRead8 = (\<lambda>_. None), dmaWrite8 = (\<lambda>_. None)(c := Some (\<lambda>s. (b, s))),
                      dmaRead16 = (\<lambda>_. None), dmaWrite16 = (\<lambda>_. None)\<rparr>"

definition receive_block :: "nat \<Rightarrow> u16 \<Rightarrow> bytes \<Rightarrow> dma \<Rightarrow> dma" where
  "receive_block c junk = fold (\<lambda>b. raise_HLDA (byte_source c b) junk)"

text \<open>Channel \<open>c\<close> is the next to be served, and it moves bytes from its device to ascending addresses.\<close>

definition receiving :: "nat \<Rightarrow> dma \<Rightarrow> bool" where
  "receiving c s =
     (first_channel (ctl s True) = Some 0 \<and> first_channel (ctl s False) = Some c \<and>
      transfer_type (chan (ctl s False) c) = 1 \<and> \<not> address_decrement (chan (ctl s False) c) \<and>
      \<not> autoinit_enable (chan (ctl s False) c))"

lemma first_channel_cong:
  "status_reg k' = status_reg k \<Longrightarrow> mask_bit k' = mask_bit k \<Longrightarrow> first_channel k' = first_channel k"
proof -
  assume "status_reg k' = status_reg k" "mask_bit k' = mask_bit k"
  then have "requesting k' = requesting k" by (simp add: requesting_def fun_eq_iff)
  then show ?thesis by (simp add: first_channel_def)
qed

lemma select_receiving:
  "receiving c s \<Longrightarrow> select_channel (s\<lparr>HLDA := True\<rparr>) =
     (Some (False, c), on_ctl True (\<lambda>k. k\<lparr>DACK := (DACK k)(0 := True)\<rparr>) (s\<lparr>HLDA := True\<rparr>))"
  by (simp add: select_channel_def receiving_def Let_def on_ctl_def)

lemma count_not_expired: "(x :: u16) \<noteq> 0 \<Longrightarrow> x - 1 \<noteq> 0xffff"
proof
  assume x: "x \<noteq> 0" and "x - 1 = 0xffff"
  then have "x = 0xffff + 1" by (metis diff_add_cancel)
  with x show False by simp
qed

lemma cycle_continues:
  fixes b :: u8 and junk :: u16
  assumes r: "receiving c s" and n: "current_count (chan (ctl s False) c) \<noteq> 0"
  defines "s' \<equiv> raise_HLDA (byte_source c b) junk s"
  shows "ram s' = blit (phy_addr False (chan (ctl s False) c)) [b] (ram s)"
    and "chan (ctl s' False) c = (chan (ctl s False) c)\<lparr>
           current_address := current_address (chan (ctl s False) c) + 1,
           current_count := current_count (chan (ctl s False) c) - 1\<rparr>"
    and "receiving c s'" and "dma_out s' = dma_out s" and "chan (ctl s' True) = chan (ctl s True)"
proof -
  let ?k = "chan (ctl s False) c"
  let ?s1 = "on_ctl True (\<lambda>k. k\<lparr>DACK := (DACK k)(0 := True)\<rparr>) (s\<lparr>HLDA := True\<rparr>)"
  have nz: "current_count ?k - 1 \<noteq> 0xffff" using n by (rule count_not_expired)
  have k: "chan (ctl ?s1 False) c = ?k" by simp
  let ?s2 = "on_chan False c (\<lambda>k. k\<lparr>current_count := current_count k - 1\<rparr>)
     (on_chan False c (\<lambda>k. k\<lparr>current_address := current_address k + 1\<rparr>)
       (on_ctl False (\<lambda>k. k\<lparr>DACK := (DACK k)(c := True)\<rparr>) ?s1))"
  have adv: "advance False c ?s1 = (False, ?s2)"
    using r nz by (simp add: advance_def Let_def receiving_def on_chan_def on_ctl_def)
  have s': "s' = ram_write (phy_addr False ?k) [b] ?s2"
    unfolding s'_def raise_HLDA_def select_receiving [OF r]
    using r by (simp add: adv k Let_def) (simp add: move_data_def receiving_def byte_source_def)
  show "ram s' = blit (phy_addr False (chan (ctl s False) c)) [b] (ram s)" by (simp add: s')
  show "chan (ctl s' False) c = (chan (ctl s False) c)\<lparr>
           current_address := current_address (chan (ctl s False) c) + 1,
           current_count := current_count (chan (ctl s False) c) - 1\<rparr>" by (simp add: s')
  show "dma_out s' = dma_out s" "chan (ctl s' True) = chan (ctl s True)" by (simp_all add: s')
  show "receiving c s'"
    using r first_channel_cong [of "ctl s' True" "ctl s True"] first_channel_cong [of "ctl s' False" "ctl s False"]
    by (simp add: receiving_def s')
qed

lemma set_DRQ_cascade:
  fixes s :: dma
  defines "s' \<equiv> set_DRQ 4 False s"
  shows "ram s' = ram s" and "ctl s' False = ctl s False" and "TC s' = TC s"
    and "used_chan (chan (ctl s True) 0) \<Longrightarrow> \<not> requesting (ctl s' True) 0"
proof -
  have c: "ram (control_HRQ True t) = ram t" "ctl (control_HRQ True t) = ctl t" "TC (control_HRQ True t) = TC t" for t
    by (simp_all add: control_HRQ_def control_HRQ_master_def split: option.split)
  show "ram s' = ram s" "ctl s' False = ctl s False" "TC s' = TC s"
    by (simp_all add: s'_def set_DRQ_def set_DRQ_with_def Let_def c)
  have "\<not> bit (w AND NOT (push_bit 4 1)) 4" for w :: u8
    by (simp only: bit_and_iff bit_not_iff bit_push_bit_iff) simp
  then show "used_chan (chan (ctl s True) 0) \<Longrightarrow> \<not> requesting (ctl s' True) 0"
    by (simp add: s'_def set_DRQ_def set_DRQ_with_def Let_def c requesting_def set_status_def)
qed

lemma cycle_expires:
  fixes b :: u8 and junk :: u16
  assumes r: "receiving c s" and n: "current_count (chan (ctl s False) c) = 0"
  defines "s' \<equiv> raise_HLDA (byte_source c b) junk s"
  shows "ram s' = blit (phy_addr False (chan (ctl s False) c)) [b] (ram s)"
    and "mask_bit (ctl s' False) c" and "bit (status_reg (ctl s' False)) c" and "\<not> TC s'"
    and "bit (status_reg (ctl s' False)) (c + 4)" and "used_chan (chan (ctl s True) 0) \<Longrightarrow> \<not> requesting (ctl s' True) 0"
proof -
  let ?k = "chan (ctl s False) c"
  let ?s1 = "on_ctl True (\<lambda>k. k\<lparr>DACK := (DACK k)(0 := True)\<rparr>) (s\<lparr>HLDA := True\<rparr>)"
  have c4: "c < 4" using r by (auto simp: receiving_def first_channel_def find_Some_iff)
  have k: "chan (ctl ?s1 False) c = ?k" by simp
  let ?s3 = "on_chan False c (\<lambda>k. k\<lparr>current_count := current_count k - 1\<rparr>)
     (on_chan False c (\<lambda>k. k\<lparr>current_address := current_address k + 1\<rparr>)
       (on_ctl False (\<lambda>k. k\<lparr>DACK := (DACK k)(c := True)\<rparr>) ?s1))"
  let ?s4 = "on_ctl False (\<lambda>k. k\<lparr>mask_bit := (mask_bit k)(c := True)\<rparr>) ((on_ctl False (set_status c True) ?s3)\<lparr>TC := True\<rparr>)"
  have adv: "advance False c ?s1 = (True, ?s4)"
    using r n by (simp add: advance_def Let_def receiving_def on_chan_def on_ctl_def set_status_def)
  have s': "s' = end_of_count False c (ram_write (phy_addr False ?k) [b] ?s4)"
    unfolding s'_def raise_HLDA_def select_receiving [OF r]
    using r by (simp add: adv k Let_def) (simp add: move_data_def receiving_def byte_source_def set_status_def)
  let ?e = "on_ctl False (\<lambda>k. k\<lparr>DACK := (DACK k)(c := False)\<rparr>)
      (dma_emit (Set_HRQ False) ((ram_write (phy_addr False ?k) [b] ?s4)\<lparr>TC := False, HLDA := False\<rparr>))"
  have e: "s' = on_ctl True (\<lambda>k. k\<lparr>DACK := (DACK k)(0 := False)\<rparr>) (set_DRQ 4 False ?e)"
    by (simp add: s' end_of_count_def Let_def)
  note d = set_DRQ_cascade [of ?e]
  show "ram s' = blit (phy_addr False ?k) [b] (ram s)" by (simp add: e d(1))
  show "mask_bit (ctl s' False) c" by (simp add: e d(2) set_status_def)
  show "\<not> TC s'" by (simp add: e d(3))
  have "bit (status_reg (ctl s' False)) c = bit (status_reg (ctl s False) OR push_bit c 1) c"
    by (simp add: e d(2) set_status_def)
  then show "bit (status_reg (ctl s' False)) c" using c4 by (simp add: bit_or_iff bit_exp_iff)
  have "bit (status_reg (ctl s False)) (c + 4)"
    using r by (auto simp: receiving_def first_channel_def find_Some_iff requesting_def)
  then show "bit (status_reg (ctl s' False)) (c + 4)" by (simp add: e d(2) set_status_def bit_or_iff)
  show "used_chan (chan (ctl s True) 0) \<Longrightarrow> \<not> requesting (ctl s' True) 0"
    using d(4) by (simp add: e requesting_def)
qed

lemma phy_addr_sum: "phy_addr False k = unat (page_reg k) * 65536 + unat (current_address k)"
proof -
  have d: "push_bit 16 (ucast (page_reg k)) AND (ucast (current_address k) :: u32) = 0"
    by (rule bit_word_eqI) (auto simp: bit_and_iff bit_push_bit_iff bit_ucast_iff dest: bit_imp_le_length)
  have p: "unat (page_reg k) * 65536 < 2 ^ 24" using unat_u8_less [of "page_reg k"] by simp
  have c: "unat (current_address k) < 65536" using unsigned_less [of "current_address k", where ?'a = nat] by simp
  have "unat (push_bit 16 (ucast (page_reg k)) :: u32) = unat (page_reg k) * 65536"
    using p unat_u8_less [of "page_reg k"] by (simp add: push_bit_eq_mult unat_word_ariths unat_ucast_mod)
  moreover have "unat (ucast (current_address k) :: u32) = unat (current_address k)"
    using c by (simp add: unat_ucast_mod)
  ultimately show ?thesis
    using p c by (simp add: phy_addr_def disjunctive_add_eq_or [OF d, symmetric] unat_word_ariths)
qed

lemma receive_block_ram:
  fixes bs :: bytes
  assumes "receiving c s" and "length bs = unat (current_count (chan (ctl s False) c)) + 1"
    and "unat (current_address (chan (ctl s False) c)) + length bs \<le> 65536"
    and "used_chan (chan (ctl s True) 0)"
  shows "ram (receive_block c junk bs s) = blit (phy_addr False (chan (ctl s False) c)) bs (ram s) \<and>
    mask_bit (ctl (receive_block c junk bs s) False) c \<and>
    bit (status_reg (ctl (receive_block c junk bs s) False)) c \<and>
    bit (status_reg (ctl (receive_block c junk bs s) False)) (c + 4) \<and>
    \<not> TC (receive_block c junk bs s) \<and> \<not> requesting (ctl (receive_block c junk bs s) True) 0"
  using assms
proof (induction bs arbitrary: s)
  case Nil
  then show ?case by simp
next
  case (Cons b bs)
  let ?k = "chan (ctl s False) c" and ?s = "raise_HLDA (byte_source c b) junk s"
  have step: "receive_block c junk (b # bs) s = receive_block c junk bs ?s" by (simp add: receive_block_def)
  show ?case
  proof (cases "current_count ?k = 0")
    case True
    then have "bs = []" using Cons.prems(2) by simp
    then have "receive_block c junk (b # bs) s = ?s" by (simp add: receive_block_def)
    then show ?thesis using cycle_expires [OF Cons.prems(1) True, of b junk] Cons.prems(4) \<open>bs = []\<close> by simp
  next
    case False
    note cy = cycle_continues [OF Cons.prems(1) False, of b junk]
    have n: "unat (current_count ?k - 1) = unat (current_count ?k) - 1"
      using False by (simp add: unat_minus_one)
    have pos: "0 < unat (current_count ?k)" using False by (simp add: unat_gt_0)
    have a: "unat (current_address ?k + 1) = unat (current_address ?k) + 1"
      using Cons.prems(2,3) pos by (simp add: unat_word_ariths)
    have p: "phy_addr False (chan (ctl ?s False) c) = phy_addr False ?k + 1"
      by (simp add: cy(2) phy_addr_sum a)
    have used: "used_chan (chan (ctl ?s True) 0)" using Cons.prems(4) by (simp add: cy(5))
    have len: "length bs = unat (current_count (chan (ctl ?s False) c)) + 1"
      using Cons.prems(2) pos by (simp add: cy(2) n)
    have room: "unat (current_address (chan (ctl ?s False) c)) + length bs \<le> 65536"
      using Cons.prems(3) by (simp add: cy(2) a)
    from Cons.IH [OF cy(3) len room used] show ?thesis
      unfolding step by (simp add: cy(1) p blit_Cons) (simp add: blit_def fun_eq_iff)
  qed
qed

section \<open>Properties\<close>

text \<open>A pair of controllers with channel 1 requested for a block of four bytes to address 20100.\<close>

definition block_dma :: dma where
  "block_dma = \<lparr>
     ctl = (\<lambda>i. if i
       then \<lparr>DRQ = (\<lambda>_. False), DACK = (\<lambda>_. False), mask_bit = (\<lambda>_. False), flip_flop = False,
             status_reg = 0x10, command_reg = 0, ctrl_disabled = False,
             chan = (\<lambda>_. chan_init\<lparr>used_chan := True\<rparr>)\<rparr>
       else \<lparr>DRQ = (\<lambda>_. False)(1 := True), DACK = (\<lambda>_. False), mask_bit = (\<lambda>_. False), flip_flop = False,
             status_reg = 0x20, command_reg = 0, ctrl_disabled = False,
             chan = (\<lambda>_. chan_init\<lparr>mode_type := 1, transfer_type := 1, current_count := 3,
               current_address := 0x100, page_reg := 2\<rparr>)\<rparr>),
     HLDA = False, TC = False, ext_page_reg = (\<lambda>_. 0), ram = (\<lambda>_. 0), dma_out = []\<rparr>"

text \<open>
  C33. A device hands over a block of bytes, one per acknowledge cycle, on a channel of the first controller that
  is programmed to write memory at ascending addresses without autoinitialisation, that is the next to be served,
  and whose programmed count is the length of the block; the block ends within the 64K of its page, and the
  device's handler only hands over the byte. The block is then stored at the programmed page and address in
  ascending order; the last byte masks the channel, sets its terminal count status, lowers the terminal count
  line and drops the request of the cascade to the second controller. The channel's own request stays in the
  status register: dropping it is left to the device.
\<close>

theorem block_transfer_stores:
  fixes bs :: bytes
  assumes "receiving c s" and "length bs = unat (current_count (chan (ctl s False) c)) + 1"
    and "unat (current_address (chan (ctl s False) c)) + length bs \<le> 65536"
    and "used_chan (chan (ctl s True) 0)"
  shows "ram (receive_block c junk bs s) =
      blit (unat (page_reg (chan (ctl s False) c)) * 65536 + unat (current_address (chan (ctl s False) c))) bs (ram s) \<and>
    mask_bit (ctl (receive_block c junk bs s) False) c \<and>
    bit (status_reg (ctl (receive_block c junk bs s) False)) c \<and>
    bit (status_reg (ctl (receive_block c junk bs s) False)) (c + 4) \<and>
    \<not> TC (receive_block c junk bs s) \<and> \<not> requesting (ctl (receive_block c junk bs s) True) 0"
  using receive_block_ram [OF assms, of junk] unfolding phy_addr_sum .

lemma block_transfer_stores_witness:
  "ram (receive_block 1 0 [1, 2, 3, 4] block_dma) = blit 0x20100 [1, 2, 3, 4] (\<lambda>_. 0) \<and>
   mask_bit (ctl (receive_block 1 0 [1, 2, 3, 4] block_dma) False) 1"
proof -
  have "receiving 1 block_dma"
    by (simp add: receiving_def block_dma_def first_channel_def requesting_def chan_init_def upt_rec)
  from block_transfer_stores [OF this, of "[1, 2, 3, 4]" 0] show ?thesis
    by (simp add: block_dma_def chan_init_def)
qed

text \<open>
  A channel's address written through its port as two bytes is its base and current address, and
  reads back as the same two bytes, the flip-flop returning to where it was.
\<close>

theorem address_reads_back:
  fixes w :: u16
  assumes "\<not> flip_flop (ctl s (0xc0 \<le> address))" and "address \<in> set address_ports"
  shows "chan_base_address (chan (ctl (program_word dma_write1 address w s) (0xc0 \<le> address)) (port_channel address)) = w \<and>
    current_address (chan (ctl (program_word dma_write1 address w s) (0xc0 \<le> address)) (port_channel address)) = w \<and>
    read_word address (program_word dma_write1 address w s) =
      (ucast (w AND 0xff), ucast (drop_bit 8 w), program_word dma_write1 address w s)"
  using address_roundtrip [OF assms] by simp

lemma address_reads_back_witness:
  "chan_base_address (chan (ctl (program_word dma_write1 0xc4 0x1234 block_dma) (0xc0 \<le> (0xc4 :: nat))) (port_channel 0xc4)) = 0x1234 \<and>
   current_address (chan (ctl (program_word dma_write1 0xc4 0x1234 block_dma) (0xc0 \<le> (0xc4 :: nat))) (port_channel 0xc4)) = 0x1234 \<and>
   read_word 0xc4 (program_word dma_write1 0xc4 0x1234 block_dma) =
     (ucast ((0x1234 :: u16) AND 0xff), ucast (drop_bit 8 (0x1234 :: u16)), program_word dma_write1 0xc4 0x1234 block_dma)"
  by (rule address_reads_back) (simp_all add: block_dma_def address_ports_def)

text \<open>The same for a channel's transfer count.\<close>

theorem count_reads_back:
  fixes w :: u16
  assumes "\<not> flip_flop (ctl s (0xc0 \<le> address))" and "address \<in> set count_ports"
  shows "base_count (chan (ctl (program_word dma_write1 address w s) (0xc0 \<le> address)) (port_channel address)) = w \<and>
    current_count (chan (ctl (program_word dma_write1 address w s) (0xc0 \<le> address)) (port_channel address)) = w \<and>
    read_word address (program_word dma_write1 address w s) =
      (ucast (w AND 0xff), ucast (drop_bit 8 w), program_word dma_write1 address w s)"
  using count_roundtrip [OF assms] by simp

lemma count_reads_back_witness:
  "base_count (chan (ctl (program_word dma_write1 0x03 0x1234 block_dma) (0xc0 \<le> (0x03 :: nat))) (port_channel 0x03)) = 0x1234 \<and>
   current_count (chan (ctl (program_word dma_write1 0x03 0x1234 block_dma) (0xc0 \<le> (0x03 :: nat))) (port_channel 0x03)) = 0x1234 \<and>
   read_word 0x03 (program_word dma_write1 0x03 0x1234 block_dma) =
     (ucast ((0x1234 :: u16) AND 0xff), ucast (drop_bit 8 (0x1234 :: u16)), program_word dma_write1 0x03 0x1234 block_dma)"
  by (rule count_reads_back) (simp_all add: block_dma_def count_ports_def)

end
