(* ===== verification/Ioapic.thy ===== *)
theory Ioapic
  imports Pic_Spec
begin

text \<open>
  The I/O APIC (\<^verbatim>\<open>bx_ioapic_c\<close> in \<^verbatim>\<open>src/sim/bochs/iodev/ioapic.cc\<close> and \<^verbatim>\<open>ioapic.h\<close>): 24
  interrupt inputs, each with a 64 bit redirection entry, and their delivery as messages. The local
  APICs that accept a message or not are the parameter \<open>bus\<close>, which answers for a message after
  those sent before it; the interrupt controllers that an
  entry in the ExtINT mode asks for a vector are the field \<open>ext_pics\<close>.
\<close>

unbundle bit_operations_syntax

definition NUM_PINS :: nat where "NUM_PINS = 0x18"
definition IOAPIC_VERSION_ID :: u32 where
  "IOAPIC_VERSION_ID = push_bit 16 (word_of_nat (NUM_PINS - 1)) OR 0x11"
definition APIC_ID_MASK :: u32 where "APIC_ID_MASK = 0xff"

section \<open>State\<close>

record redirect =
  hi :: u32
  lo :: u32

record apic_msg =
  msg_vector :: u8
  msg_dest :: u8
  msg_mode :: u8
  msg_logical :: bool
  msg_polarity :: bool
  msg_trigger :: bool

record ioapic =
  ioapic_id :: u32
  ioregsel :: u32
  intin :: u32
  io_irr :: u32
  ioredtbl :: "nat \<Rightarrow> redirect"
  ext_pics :: pics
  sent_msgs :: "apic_msg list"
  io_panics :: "string list"

definition io_panic :: "string \<Rightarrow> ioapic \<Rightarrow> ioapic" where
  "io_panic m s = s\<lparr>io_panics := io_panics s @ [m]\<rparr>"

section \<open>Redirection entries\<close>

definition destination :: "redirect \<Rightarrow> u8" where "destination e = ucast (drop_bit 24 (hi e) AND APIC_ID_MASK)"
definition is_masked :: "redirect \<Rightarrow> bool" where "is_masked e = bit (lo e) 16"
definition trigger_mode :: "redirect \<Rightarrow> bool" where "trigger_mode e = bit (lo e) 15"
definition pin_polarity :: "redirect \<Rightarrow> bool" where "pin_polarity e = bit (lo e) 13"
definition destination_mode :: "redirect \<Rightarrow> bool" where "destination_mode e = bit (lo e) 11"
definition delivery_mode :: "redirect \<Rightarrow> u8" where "delivery_mode e = ucast (drop_bit 8 (lo e) AND 7)"
definition vector :: "redirect \<Rightarrow> u8" where "vector e = ucast (lo e AND 0xff)"

definition set_delivery_status :: "redirect \<Rightarrow> redirect" where
  "set_delivery_status e = e\<lparr>lo := lo e OR push_bit 12 1\<rparr>"

definition clear_delivery_status :: "redirect \<Rightarrow> redirect" where
  "clear_delivery_status e = e\<lparr>lo := lo e AND NOT (push_bit 12 1)\<rparr>"

definition set_lo_part :: "u32 \<Rightarrow> redirect \<Rightarrow> redirect" where
  "set_lo_part v e = e\<lparr>lo := v AND 0xffffafff\<rparr>"

definition set_hi_part :: "u32 \<Rightarrow> redirect \<Rightarrow> redirect" where
  "set_hi_part v e = e\<lparr>hi := v\<rparr>"

section \<open>Delivery\<close>

definition put_entry :: "nat \<Rightarrow> redirect \<Rightarrow> ioapic \<Rightarrow> ioapic" where
  "put_entry n e s = s\<lparr>ioredtbl := (ioredtbl s)(n := e)\<rparr>"

definition message :: "u8 \<Rightarrow> redirect \<Rightarrow> apic_msg" where
  "message v e = \<lparr>msg_vector = v, msg_dest = destination e, msg_mode = delivery_mode e,
     msg_logical = destination_mode e, msg_polarity = pin_polarity e, msg_trigger = trigger_mode e\<rparr>"

text \<open>One round of the loop of \<open>service_ioapic\<close>; its counter \<open>stuck\<close> only limits a log message.\<close>

definition service_pin :: "(apic_msg list \<Rightarrow> apic_msg \<Rightarrow> bool) \<Rightarrow> nat \<Rightarrow> ioapic \<Rightarrow> ioapic" where
  "service_pin bus n s =
     (let e = ioredtbl s n in
      if bit (io_irr s) n \<and> \<not> is_masked e then
        let (v, s1) = (if delivery_mode e = 7
                       then (let (v, p) = IAC (ext_pics s) in (v, s\<lparr>ext_pics := p\<rparr>))
                       else (vector e, s));
            s2 = s1\<lparr>sent_msgs := sent_msgs s1 @ [message v e]\<rparr>
        in if bus (sent_msgs s) (message v e)
           then put_entry n (clear_delivery_status e)
                  (if \<not> trigger_mode e then s2\<lparr>io_irr := io_irr s2 AND NOT (push_bit n 1)\<rparr> else s2)
           else put_entry n (set_delivery_status e) s2
      else s)"

definition service_ioapic :: "(apic_msg list \<Rightarrow> apic_msg \<Rightarrow> bool) \<Rightarrow> ioapic \<Rightarrow> ioapic" where
  "service_ioapic bus s = fold (service_pin bus) [0..<NUM_PINS] s"

definition set_irq_level_io :: "(apic_msg list \<Rightarrow> apic_msg \<Rightarrow> bool) \<Rightarrow> nat \<Rightarrow> bool \<Rightarrow> ioapic \<Rightarrow> ioapic" where
  "set_irq_level_io bus n level s =
     (if n < NUM_PINS \<and> level \<noteq> bit (intin s) n then
        if level then
          service_ioapic bus (s\<lparr>intin := intin s OR push_bit n 1, io_irr := io_irr s OR push_bit n 1\<rparr>)
        else if trigger_mode (ioredtbl s n) then
          s\<lparr>intin := intin s AND NOT (push_bit n 1), io_irr := io_irr s AND NOT (push_bit n 1)\<rparr>
        else s\<lparr>intin := intin s AND NOT (push_bit n 1)\<rparr>
      else s)"

section \<open>Registers\<close>

definition ioapic_reset :: "ioapic \<Rightarrow> ioapic" where
  "ioapic_reset s =
     s\<lparr>ioredtbl := (\<lambda>i. set_hi_part 0 (set_lo_part 0x00010000 (ioredtbl s i))),
       intin := 0, io_irr := 0, ioregsel := 0\<rparr>"

text \<open>\<open>(ioregsel - 0x10) >> 1\<close> of the unsigned register, as the int the code compares.\<close>

definition reg_index :: "ioapic \<Rightarrow> int" where
  "reg_index s = sint (drop_bit 1 (ioregsel s - 0x10))"

definition read_aligned :: "u32 \<Rightarrow> ioapic \<Rightarrow> u32 \<times> ioapic" where
  "read_aligned address s =
     (let a = address AND 0xff in
      if a = 0x00 then (ioregsel s, s)
      else
        let s1 = (if a \<noteq> 0x10 then io_panic ''read from unsupported address'' s else s);
            i = reg_index s1
        in if ioregsel s1 = 0x00 then (push_bit 24 (ioapic_id s1 AND APIC_ID_MASK), s1)
           else if ioregsel s1 = 0x01 then (IOAPIC_VERSION_ID, s1)
           else if ioregsel s1 = 0x02 then (0, s1)
           else if 0 \<le> i \<and> i < int NUM_PINS then
             (let e = ioredtbl s1 (nat i) in if bit (ioregsel s1) 0 then hi e else lo e, s1)
           else (0, io_panic ''IOREGSEL points to undefined register'' s1))"

definition write_aligned :: "(apic_msg list \<Rightarrow> apic_msg \<Rightarrow> bool) \<Rightarrow> u32 \<Rightarrow> u32 \<Rightarrow> ioapic \<Rightarrow> ioapic" where
  "write_aligned bus address v s =
     (let a = address AND 0xff in
      if a = 0x00 then s\<lparr>ioregsel := v\<rparr>
      else
        let s1 = (if a \<noteq> 0x10 then io_panic ''write to unsupported address'' s else s);
            i = reg_index s1
        in if ioregsel s1 = 0x00 then s1\<lparr>ioapic_id := drop_bit 24 v AND APIC_ID_MASK\<rparr>
           else if ioregsel s1 = 0x01 \<or> ioregsel s1 = 0x02 then s1
           else if 0 \<le> i \<and> i < int NUM_PINS then
             let e = ioredtbl s1 (nat i) in
             service_ioapic bus
               (put_entry (nat i) (if bit (ioregsel s1) 0 then set_hi_part v e else set_lo_part v e) s1)
           else io_panic ''IOREGSEL points to undefined register'' s1)"

text \<open>The memory handlers: reads of 1, 2 or 4 bytes inside a register, writes of 4 aligned bytes.\<close>

definition ioapic_read :: "u32 \<Rightarrow> nat \<Rightarrow> ioapic \<Rightarrow> u32 \<times> ioapic" where
  "ioapic_read a len s =
     (if a AND NOT 3 \<noteq> (a + word_of_nat len - 1) AND NOT 3 then (0, io_panic ''read spans 32-bit boundary'' s)
      else
        let (v, s1) = read_aligned (a AND NOT 3) s;
            w = drop_bit (unat (a AND 3) * 8) v
        in if len = 4 then (v, s1)
           else if len = 1 then (w AND 0xff, s1)
           else if len = 2 then (w AND 0xffff, s1)
           else (0, io_panic ''Unsupported I/O APIC read'' s1))"

definition ioapic_write :: "(apic_msg list \<Rightarrow> apic_msg \<Rightarrow> bool) \<Rightarrow> u32 \<Rightarrow> nat \<Rightarrow> u32 \<Rightarrow> ioapic \<Rightarrow> ioapic" where
  "ioapic_write bus a len v s =
     (if len \<noteq> 4 then io_panic ''I/O apic write with len (should be 4)'' s
      else if a AND 0xf \<noteq> 0 then io_panic ''I/O apic write at unaligned address'' s
      else write_aligned bus a v s)"

section \<open>Inputs\<close>

lemma service_pin_intin [simp]: "intin (service_pin bus n s) = intin s"
  by (simp add: service_pin_def put_entry_def Let_def split: prod.split)

lemma service_ioapic_intin [simp]: "intin (service_ioapic bus s) = intin s"
proof -
  have "intin (fold (service_pin bus) ns s) = intin s" for ns
    by (induction ns arbitrary: s) simp_all
  then show ?thesis by (simp add: service_ioapic_def)
qed

lemma bit_set_clear_u32:
  "n < 32 \<Longrightarrow> bit (w OR push_bit n 1 :: u32) m \<longleftrightarrow> bit w m \<or> m = n"
  "bit (w AND NOT (push_bit n 1) :: u32) m \<longleftrightarrow> bit w m \<and> m \<noteq> n"
  by (auto simp: bit_or_iff bit_and_iff bit_not_iff bit_exp_iff dest: bit_imp_le_length)

lemma intin_set_level:
  "n < NUM_PINS \<Longrightarrow> bit (intin (set_irq_level_io bus n level s)) m = (if m = n then level else bit (intin s) m)"
  by (auto simp: set_irq_level_io_def bit_set_clear_u32 [simplified] NUM_PINS_def)

interpretation ioapic_sink: irq_sink "\<lambda>n. set_irq_level_io bus n True" "\<lambda>n. set_irq_level_io bus n False"
    "\<lambda>s. bit (intin s)" "{n. n < NUM_PINS}" for bus
  by unfold_locales (auto simp: intin_set_level)

section \<open>Delivery of requests\<close>

lemma service_pin_other:
  "m \<noteq> n \<Longrightarrow> ioredtbl (service_pin bus n s) m = ioredtbl s m"
  "m \<noteq> n \<Longrightarrow> bit (io_irr (service_pin bus n s)) m = bit (io_irr s) m"
  by (auto simp: service_pin_def put_entry_def Let_def bit_set_clear_u32 [simplified] split: prod.split)

text \<open>A pin has nothing left to deliver: not requested, or masked, or refused, or level triggered.\<close>

definition drained :: "(apic_msg list \<Rightarrow> apic_msg \<Rightarrow> bool) \<Rightarrow> nat \<Rightarrow> ioapic \<Rightarrow> bool" where
  "drained bus n s = (bit (io_irr s) n \<longrightarrow> is_masked (ioredtbl s n) \<or> trigger_mode (ioredtbl s n))"

lemma clear_delivery_status_keeps [simp]:
  "is_masked (clear_delivery_status e) = is_masked e"
  "trigger_mode (clear_delivery_status e) = trigger_mode e"
  using bit_set_clear_u32(2) [of "lo e" 12 16] bit_set_clear_u32(2) [of "lo e" 12 15]
  by (simp_all add: clear_delivery_status_def is_masked_def trigger_mode_def)

lemma service_pin_drained:
  assumes "\<And>h m. bus h m"
  shows "drained bus n (service_pin bus n s)"
  using assms
  by (auto simp: drained_def service_pin_def put_entry_def Let_def bit_set_clear_u32 [simplified]
      split: prod.split)

lemma service_pin_keeps_drained: "m \<noteq> n \<Longrightarrow> drained bus m (service_pin bus n s) = drained bus m s"
  by (simp add: drained_def service_pin_other)

lemma service_ioapic_drains:
  assumes bus: "\<And>h m. bus h m" and n: "n < NUM_PINS"
  shows "drained bus n (service_ioapic bus s)"
proof -
  have keep: "drained bus n (fold (service_pin bus) ns t) = drained bus n t" if "n \<notin> set ns" for ns t
    using that by (induction ns arbitrary: t) (simp_all add: service_pin_keeps_drained)
  have "[0..<NUM_PINS] = [0..<n] @ n # [Suc n..<NUM_PINS]"
    using n upt_add_eq_append [of 0 n "NUM_PINS - n"] by (simp add: upt_conv_Cons)
  then show ?thesis
    by (simp add: service_ioapic_def keep service_pin_drained [OF bus])
qed

lemma service_pin_masked: "is_masked (ioredtbl s n) \<Longrightarrow> service_pin bus n s = s"
  by (simp add: service_pin_def Let_def)

lemma service_ioapic_masked:
  assumes "\<And>n. is_masked (ioredtbl s n)"
  shows "service_ioapic bus s = s"
proof -
  have "fold (service_pin bus) ns s = s" for ns
    by (induction ns) (simp_all add: service_pin_masked assms)
  then show ?thesis by (simp add: service_ioapic_def)
qed

lemma set_irq_level_io_masked:
  assumes "\<And>n. is_masked (ioredtbl s n)"
  shows "sent_msgs (set_irq_level_io bus n level s) = sent_msgs s" and "ioredtbl (set_irq_level_io bus n level s) = ioredtbl s"
proof -
  have "service_ioapic bus (s\<lparr>intin := x, io_irr := y\<rparr>) = s\<lparr>intin := x, io_irr := y\<rparr>" for x y
    by (rule service_ioapic_masked) (simp add: assms)
  then show "sent_msgs (set_irq_level_io bus n level s) = sent_msgs s" "ioredtbl (set_irq_level_io bus n level s) = ioredtbl s"
    by (simp_all add: set_irq_level_io_def)
qed

section \<open>Properties\<close>

text \<open>
  When the bus accepts every message, a service round of the I/O APIC leaves no edge triggered
  request of an unmasked pin undelivered.
\<close>

theorem accepted_requests_drain:
  assumes "\<forall>h m. bus h m" and "n < NUM_PINS" and "bit (io_irr (service_ioapic bus s)) n"
  shows "is_masked (ioredtbl (service_ioapic bus s) n) \<or> trigger_mode (ioredtbl (service_ioapic bus s) n)"
  using service_ioapic_drains [of bus n s] assms by (simp add: drained_def)

text \<open>An I/O APIC out of reset, and one whose pin 4 is a level triggered request for vector 51.\<close>

definition quiet_ioapic :: ioapic where
  "quiet_ioapic = \<lparr>ioapic_id = 1, ioregsel = 0, intin = 0, io_irr = 0, ioredtbl = (\<lambda>_. \<lparr>hi = 0, lo = 0x10000\<rparr>),
     ext_pics = pic_init True, sent_msgs = [], io_panics = []\<rparr>"

definition level_ioapic :: ioapic where
  "level_ioapic = quiet_ioapic\<lparr>intin := 0x10, io_irr := 0x10,
     ioredtbl := (\<lambda>_. \<lparr>hi = 0, lo = 0x10000\<rparr>)(4 := \<lparr>hi = 0, lo = 0x8051\<rparr>)\<rparr>"

lemma accepted_requests_drain_witness:
  "is_masked (ioredtbl (service_ioapic (\<lambda>_ _. True) level_ioapic) 4) \<or>
   trigger_mode (ioredtbl (service_ioapic (\<lambda>_ _. True) level_ioapic) 4)"
proof (rule accepted_requests_drain)
  have keep: "bit (io_irr t) 4 \<and> trigger_mode (ioredtbl t 4) \<Longrightarrow>
      bit (io_irr (service_pin bus k t)) 4 \<and> trigger_mode (ioredtbl (service_pin bus k t) 4)" for bus k t
    by (cases "k = 4")
      (auto simp: service_pin_other service_pin_def put_entry_def Let_def trigger_mode_def set_delivery_status_def
        clear_delivery_status_def bit_or_iff bit_and_iff bit_not_iff bit_exp_iff split: prod.split)
  have "bit (io_irr t) 4 \<and> trigger_mode (ioredtbl t 4) \<Longrightarrow> bit (io_irr (fold (service_pin bus) ks t)) 4" for bus ks t
    by (induction ks arbitrary: t) (use keep in auto)
  then show "bit (io_irr (service_ioapic (\<lambda>_ _. True) level_ioapic)) 4"
    unfolding service_ioapic_def by (simp add: level_ioapic_def trigger_mode_def)
qed (simp_all add: NUM_PINS_def)

text \<open>
  Out of reset the I/O APIC sends nothing, whatever the devices do to its pins, until an entry
  is written.
\<close>

theorem reset_ioapic_is_silent:
  "sent_msgs (fold (\<lambda>(n, level). set_irq_level_io bus n level) levels (ioapic_reset s)) = sent_msgs s"
proof -
  have masked: "is_masked (ioredtbl (ioapic_reset s) n)" for n
    by (simp add: ioapic_reset_def is_masked_def set_hi_part_def set_lo_part_def)
  have "(\<And>n. is_masked (ioredtbl t n)) \<Longrightarrow>
      sent_msgs (fold (\<lambda>(n, level). set_irq_level_io bus n level) levels t) = sent_msgs t" for t
  proof (induction levels arbitrary: t)
    case (Cons e levels)
    obtain n l where e: "e = (n, l)" by fastforce
    have "is_masked (ioredtbl (set_irq_level_io bus n l t) m)" for m
      using Cons.prems by (simp only: set_irq_level_io_masked(2))
    from Cons.IH [OF this] show ?case using set_irq_level_io_masked(1) [OF Cons.prems] by (simp add: e)
  qed simp
  from this [OF masked] show ?thesis by (simp add: ioapic_reset_def)
qed

end
