(* ===== verification/Lapic.thy ===== *)
theory Lapic
  imports Ioapic
begin

text \<open>
  The local APICs and the bus between them (\<^verbatim>\<open>src/sim/bochs/cpu/apic.cc\<close>, \<^verbatim>\<open>apic.h\<close>), in the configuration of
  \<^verbatim>\<open>config.h\<close> (xAPIC). The processors' APICs are a list in the order of the loops. What an APIC asks of its
  processor, of the system timer and of the I/O APIC is appended to \<open>cpu_calls\<close>; readings of the system
  clock are arguments (\<open>now\<close>).
\<close>

unbundle bit_operations_syntax

section \<open>State\<close>

definition APIC_MAX_ID :: u32 where "APIC_MAX_ID = 0xff"
definition LAPIC_VERSION_ID :: u32 where "LAPIC_VERSION_ID = 0x00050014"
definition LAPIC_BASE_ADDR :: u32 where "LAPIC_BASE_ADDR = 0xfee00000"
definition FIRST_VECTOR :: nat where "FIRST_VECTOR = 0x10"
definition LAST_VECTOR :: nat where "LAST_VECTOR = 0xfe"
definition LVT_ENTRIES :: nat where "LVT_ENTRIES = 6"

definition DM_FIXED :: u8 where "DM_FIXED = 0"
definition DM_LOWPRI :: u8 where "DM_LOWPRI = 1"
definition DM_SMI :: u8 where "DM_SMI = 2"
definition DM_NMI :: u8 where "DM_NMI = 4"
definition DM_INIT :: u8 where "DM_INIT = 5"
definition DM_SIPI :: u8 where "DM_SIPI = 6"
definition DM_EXTINT :: u8 where "DM_EXTINT = 7"

definition ERR_ILLEGAL_ADDR :: u32 where "ERR_ILLEGAL_ADDR = 0x80"
definition ERR_RX_ILLEGAL_VEC :: u32 where "ERR_RX_ILLEGAL_VEC = 0x40"
definition ERR_TX_ACCEPT_ERR :: u32 where "ERR_TX_ACCEPT_ERR = 0x04"

datatype cpu_call = SMI | NMI | INIT | SIPI u8 | EOI_Message u8 | Timer_On u64 bool | Timer_Off

record lapic =
  base_addr :: u32
  apic_mode :: u32
  apic_id :: u32
  software_enabled :: bool
  spurious_vector :: u8
  focus_disable :: bool
  task_priority :: u32
  ldr :: u32
  dest_format :: u32
  l_isr :: "nat \<Rightarrow> bool"
  l_tmr :: "nat \<Rightarrow> bool"
  l_irr :: "nat \<Rightarrow> bool"
  error_status :: u32
  shadow_error_status :: u32
  icr_hi :: u32
  icr_lo :: u32
  lvt :: "nat \<Rightarrow> u32"
  timer_initial :: u32
  timer_current :: u32
  timer_divconf :: u32
  timer_divide_factor :: u32
  timer_active :: bool
  ticksInitial :: u64
  l_INTR :: bool
  async_event :: bool
  cpu_calls :: "cpu_call list"
  l_panics :: "string list"

definition cpu_call :: "cpu_call \<Rightarrow> lapic \<Rightarrow> lapic" where
  "cpu_call e s = s\<lparr>cpu_calls := cpu_calls s @ [e]\<rparr>"

definition l_panic :: "string \<Rightarrow> lapic \<Rightarrow> lapic" where
  "l_panic m s = s\<lparr>l_panics := l_panics s @ [m]\<rparr>"

definition add_error :: "u32 \<Rightarrow> lapic \<Rightarrow> lapic" where
  "add_error e s = s\<lparr>shadow_error_status := shadow_error_status s OR e\<rparr>"

definition stop_timer :: "lapic \<Rightarrow> lapic" where
  "stop_timer s = (if timer_active s then (cpu_call Timer_Off s)\<lparr>timer_active := False\<rparr> else s)"

definition lapic_reset :: "lapic \<Rightarrow> lapic" where
  "lapic_reset s0 =
     (let s1 = s0\<lparr>base_addr := LAPIC_BASE_ADDR, error_status := 0, shadow_error_status := 0, ldr := 0,
                  dest_format := 0xf, icr_hi := 0, icr_lo := 0, task_priority := 0, l_irr := (\<lambda>_. False),
                  l_isr := (\<lambda>_. False), l_tmr := (\<lambda>_. False), timer_divconf := 0, timer_divide_factor := 1,
                  timer_initial := 0, timer_current := 0\<rparr>
      in (stop_timer s1)\<lparr>lvt := (\<lambda>_. 0x10000), spurious_vector := 0xff, software_enabled := False,
            focus_disable := False, apic_mode := 2, l_INTR := False\<rparr>)"

definition lapic_new :: "u32 \<Rightarrow> lapic \<Rightarrow> lapic" where
  "lapic_new ident s = lapic_reset (s\<lparr>base_addr := LAPIC_BASE_ADDR, apic_id := ident, timer_active := False\<rparr>)"

definition set_base :: "u32 \<Rightarrow> lapic \<Rightarrow> lapic" where
  "set_base newbase s = s\<lparr>apic_mode := drop_bit 10 newbase AND 3, base_addr := newbase AND NOT 0xfff\<rparr>"

definition is_selected :: "u32 \<Rightarrow> lapic \<Rightarrow> bool" where
  "is_selected addr s = (apic_mode s = 2 \<and> addr AND NOT 0xfff = base_addr s)"

section \<open>Requests and priorities\<close>

definition highest_priority_int :: "(nat \<Rightarrow> bool) \<Rightarrow> nat option" where
  "highest_priority_int a = find a (rev [FIRST_VECTOR..<Suc LAST_VECTOR])"

definition service_local_apic :: "lapic \<Rightarrow> lapic" where
  "service_local_apic s =
     (if l_INTR s then s
      else case highest_priority_int (l_irr s) of
        None \<Rightarrow> s
      | Some first_irr \<Rightarrow>
          if (case highest_priority_int (l_isr s) of None \<Rightarrow> False | Some first_isr \<Rightarrow> first_irr \<le> first_isr) then s
          else if word_of_nat first_irr AND 0xf0 \<le> task_priority s AND 0xf0 then s
          else s\<lparr>l_INTR := True, async_event := True\<rparr>)"

definition trigger_irq :: "u8 \<Rightarrow> bool \<Rightarrow> bool \<Rightarrow> lapic \<Rightarrow> lapic" where
  "trigger_irq vec trig bypass_irr_isr s =
     (if LAST_VECTOR < unat vec \<or> unat vec < FIRST_VECTOR then add_error ERR_RX_ILLEGAL_VEC s
      else if \<not> bypass_irr_isr \<and> l_irr s (unat vec) then s
      else service_local_apic
             (s\<lparr>l_irr := (l_irr s)(unat vec := True), l_tmr := (l_tmr s)(unat vec := trig)\<rparr>))"

definition untrigger_irq :: "u8 \<Rightarrow> lapic \<Rightarrow> lapic" where
  "untrigger_irq vec s = s\<lparr>l_irr := (l_irr s)(unat vec := False)\<rparr>"

definition get_tpr :: "lapic \<Rightarrow> u8" where
  "get_tpr s = ucast (task_priority s)"

definition get_ppr :: "lapic \<Rightarrow> u8" where
  "get_ppr s =
     (case highest_priority_int (l_isr s) of
        None \<Rightarrow> ucast (task_priority s)
      | Some ppr \<Rightarrow>
          if word_of_nat ppr AND 0xf0 \<le> task_priority s AND 0xF0 then ucast (task_priority s)
          else word_of_nat ppr AND 0xF0)"

definition set_tpr :: "u8 \<Rightarrow> lapic \<Rightarrow> lapic" where
  "set_tpr priority s =
     (let s1 = s\<lparr>task_priority := ucast priority\<rparr> in
      if ucast priority < task_priority s then service_local_apic s1 else s1)"

definition get_apr :: "lapic \<Rightarrow> u8" where
  "get_apr s =
     (let tpr = drop_bit 4 (task_priority s) AND 0xf;
          top = (\<lambda>a. case highest_priority_int a of None \<Rightarrow> 0 | Some v \<Rightarrow> (word_of_nat v :: u32));
          isrv = drop_bit 4 (top (l_isr s)) AND 0xf; irrv = drop_bit 4 (top (l_irr s)) AND 0xf
      in if irrv \<le> tpr \<and> isrv < tpr then ucast (task_priority s AND 0xff)
         else push_bit 4 (ucast (if irrv < tpr AND isrv then tpr AND isrv else irrv)))"

definition is_focus :: "u8 \<Rightarrow> lapic \<Rightarrow> bool" where
  "is_focus vec s = (\<not> focus_disable s \<and> (l_irr s (unat vec) \<or> l_isr s (unat vec)))"

definition acknowledge_int :: "lapic \<Rightarrow> u8 \<times> lapic" where
  "acknowledge_int s0 =
     (let s = (if l_INTR s0 then s0 else l_panic ''acknowledged an interrupt, but INTR=0'' s0);
          spurious = (spurious_vector s, s\<lparr>l_INTR := False, async_event := True\<rparr>)
      in case highest_priority_int (l_irr s) of
           None \<Rightarrow> spurious
         | Some v \<Rightarrow>
             if word_of_nat v AND 0xf0 \<le> get_ppr s then spurious
             else (word_of_nat v,
                   service_local_apic
                     (s\<lparr>l_irr := (l_irr s)(v := False), l_isr := (l_isr s)(v := True), l_INTR := False,
                        async_event := True\<rparr>)))"

definition receive_EOI :: "lapic \<Rightarrow> lapic" where
  "receive_EOI s =
     (case highest_priority_int (l_isr s) of
        None \<Rightarrow> s
      | Some v \<Rightarrow>
          if word_of_nat v = spurious_vector s then s
          else
            let s1 = s\<lparr>l_isr := (l_isr s)(v := False)\<rparr>;
                s2 = (if l_tmr s1 v then (cpu_call (EOI_Message (word_of_nat v)) s1)\<lparr>l_tmr := (l_tmr s1)(v := False)\<rparr>
                      else s1)
            in service_local_apic s2)"

section \<open>The timer\<close>

definition lapic_periodic :: "u64 \<Rightarrow> lapic \<Rightarrow> lapic" where
  "lapic_periodic now s =
     (if \<not> timer_active s then s
      else
        let timervec = lvt s 0;
            interrupt = (if bit timervec 16 then id else trigger_irq (ucast (timervec AND 0xff)) False False)
        in if bit timervec 17 then
             let s1 = interrupt s in s1\<lparr>timer_current := timer_initial s1, ticksInitial := now\<rparr>
           else cpu_call Timer_Off ((interrupt (s\<lparr>timer_current := 0\<rparr>))\<lparr>timer_active := False\<rparr>))"

definition set_divide_configuration :: "u32 \<Rightarrow> lapic \<Rightarrow> lapic" where
  "set_divide_configuration value s =
     (let v = drop_bit 1 (value AND 8) OR (value AND 3) in
      s\<lparr>timer_divide_factor := (if v = 7 then 1 else push_bit (unat v) 2)\<rparr>)"

definition set_initial_timer_count :: "u64 \<Rightarrow> u32 \<Rightarrow> lapic \<Rightarrow> lapic" where
  "set_initial_timer_count now value s =
     (let s1 = (stop_timer s)\<lparr>timer_initial := value, timer_current := 0\<rparr> in
      if timer_initial s1 \<noteq> 0 then
        let s2 = s1\<lparr>timer_current := timer_initial s1, timer_active := True, ticksInitial := now\<rparr>
        in cpu_call (Timer_On (ucast (timer_initial s2) * ucast (timer_divide_factor s2)) (bit (lvt s2 0) 17)) s2
      else s1)"

definition current_count :: "u64 \<Rightarrow> lapic \<Rightarrow> u32 \<times> lapic" where
  "current_count now s =
     (if \<not> timer_active s then (timer_current s, s)
      else
        let delta32 = ucast ((now - ticksInitial s) div ucast (timer_divide_factor s));
            s1 = (if timer_initial s < delta32 then l_panic ''APIC: R(curr timer count): delta < initial'' s else s);
            s2 = s1\<lparr>timer_current := timer_initial s1 - delta32\<rparr>
        in (timer_current s2, s2))"

section \<open>The bus\<close>

definition match_logical_addr :: "u8 \<Rightarrow> lapic \<Rightarrow> bool" where
  "match_logical_addr address s =
     (if dest_format s = 0xf then ucast address AND ldr s \<noteq> 0
      else if dest_format s = 0 then
        address = 0xff \<or> (ucast address AND 0xf0 = ldr s AND 0xf0 \<and> ucast address AND ldr s AND 0x0f \<noteq> 0)
      else False)"

definition deliver :: "u8 \<Rightarrow> u8 \<Rightarrow> bool \<Rightarrow> lapic \<Rightarrow> lapic" where
  "deliver vec dm trig s =
     (if dm = DM_FIXED \<or> dm = DM_LOWPRI then trigger_irq vec trig False s
      else if dm = DM_SMI then cpu_call SMI s
      else if dm = DM_NMI then cpu_call NMI s
      else if dm = DM_INIT then cpu_call INIT s
      else if dm = DM_SIPI then cpu_call (SIPI vec) s
      else if dm = DM_EXTINT then trigger_irq vec trig True s
      else s)"

definition on_lapic :: "nat \<Rightarrow> (lapic \<Rightarrow> lapic) \<Rightarrow> lapic list \<Rightarrow> lapic list" where
  "on_lapic i f bus = bus[i := f (bus ! i)]"

text \<open>The search keeps the first agent of a priority below all earlier ones.\<close>

fun lowest_agent :: "(lapic \<Rightarrow> bool) \<Rightarrow> nat \<Rightarrow> lapic list \<Rightarrow> nat option \<times> nat \<Rightarrow> nat option \<times> nat" where
  "lowest_agent sel i [] best = best"
| "lowest_agent sel i (s # bus) (agent, lowest) =
     lowest_agent sel (Suc i) bus
       (if sel s \<and> unat (get_tpr s) < lowest then (Some i, unat (get_tpr s)) else (agent, lowest))"

definition apic_bus_deliver_lowest_priority :: "u8 \<Rightarrow> u8 \<Rightarrow> bool \<Rightarrow> bool \<Rightarrow> lapic list \<Rightarrow> bool \<times> lapic list" where
  "apic_bus_deliver_lowest_priority vec dest trig broadcast bus =
     (case fst (lowest_agent (\<lambda>s. broadcast \<or> match_logical_addr dest s) 0 bus (None, 0x100)) of
        Some i \<Rightarrow> (True, on_lapic i (deliver vec DM_LOWPRI trig) bus)
      | None \<Rightarrow> (False, bus))"

definition apic_bus_broadcast_interrupt :: "u8 \<Rightarrow> u8 \<Rightarrow> bool \<Rightarrow> nat \<Rightarrow> lapic list \<Rightarrow> bool \<times> lapic list" where
  "apic_bus_broadcast_interrupt vec dm trig exclude_cpu bus =
     (if dm = DM_LOWPRI then apic_bus_deliver_lowest_priority vec 0 trig True bus
      else (True, map2 (\<lambda>i s. if i = exclude_cpu then s else deliver vec dm trig s) [0..<length bus] bus))"

fun find_id :: "u32 \<Rightarrow> nat \<Rightarrow> lapic list \<Rightarrow> nat option" where
  "find_id d i [] = None"
| "find_id d i (s # bus) = (if apic_id s = d then Some i else find_id d (Suc i) bus)"

definition apic_bus_deliver_interrupt :: "u8 \<Rightarrow> u8 \<Rightarrow> u8 \<Rightarrow> bool \<Rightarrow> bool \<Rightarrow> lapic list \<Rightarrow> bool \<times> lapic list" where
  "apic_bus_deliver_interrupt vec dest dm logical_dest trig bus =
     (if dm = DM_LOWPRI then
        if \<not> logical_dest then (False, bus) else apic_bus_deliver_lowest_priority vec dest trig False bus
      else if \<not> logical_dest then
        if ucast dest AND APIC_ID_MASK = APIC_MAX_ID
        then apic_bus_broadcast_interrupt vec dm trig (unat APIC_MAX_ID) bus
        else case find_id (ucast dest) 0 bus of
               Some i \<Rightarrow> (True, on_lapic i (deliver vec dm trig) bus)
             | None \<Rightarrow> (False, bus)
      else if dest = 0 then (False, bus)
      else (\<exists>s \<in> set bus. match_logical_addr dest s,
            map (\<lambda>s. if match_logical_addr dest s then deliver vec dm trig s else s) bus))"

definition send_ipi :: "nat \<Rightarrow> lapic list \<Rightarrow> lapic list" where
  "send_ipi i bus =
     (let s = bus ! i;
          dest = ucast (drop_bit 24 (icr_hi s) AND 0xff); dest_shorthand = drop_bit 18 (icr_lo s) AND 3;
          trig = bit (icr_lo s) 15; level = bit (icr_lo s) 14; logical_dest = bit (icr_lo s) 11;
          dm = ucast (drop_bit 8 (icr_lo s) AND 7); vec = ucast (icr_lo s AND 0xff)
      in if dm = DM_INIT \<and> \<not> level \<and> trig then bus
         else
           let (accepted, bus') =
                 (if dest_shorthand = 0 then apic_bus_deliver_interrupt vec dest dm logical_dest trig bus
                  else if dest_shorthand = 1 then (True, on_lapic i (trigger_irq vec trig False) bus)
                  else if dest_shorthand = 2 then apic_bus_broadcast_interrupt vec dm trig (unat APIC_MAX_ID) bus
                  else apic_bus_broadcast_interrupt vec dm trig (unat (apic_id s)) bus)
           in if accepted then bus' else on_lapic i (add_error ERR_TX_ACCEPT_ERR) bus')"

definition apic_bus_deliver_smi :: "lapic list \<Rightarrow> lapic list" where
  "apic_bus_deliver_smi bus = on_lapic 0 (cpu_call SMI) bus"

definition apic_bus_broadcast_smi :: "lapic list \<Rightarrow> lapic list" where
  "apic_bus_broadcast_smi bus = map (cpu_call SMI) bus"

section \<open>Registers\<close>

definition mask_lvt :: "lapic \<Rightarrow> lapic" where
  "mask_lvt s = s\<lparr>lvt := (\<lambda>i. if i < LVT_ENTRIES then lvt s i OR 0x10000 else lvt s i)\<rparr>"

definition write_spurious_interrupt_register :: "u32 \<Rightarrow> lapic \<Rightarrow> lapic" where
  "write_spurious_interrupt_register value s =
     (let s1 = s\<lparr>spurious_vector := ucast (value AND 0xff), software_enabled := bit value 8,
                 focus_disable := bit value 9\<rparr>
      in if software_enabled s1 then s1 else mask_lvt s1)"

definition lvt_mask :: "nat \<Rightarrow> u32" where
  "lvt_mask i = [0x000310ff, 0x000117ff, 0x000117ff, 0x0001f7ff, 0x0001f7ff, 0x000110ff] ! i"

definition write_lvt :: "nat \<Rightarrow> u32 \<Rightarrow> lapic \<Rightarrow> lapic" where
  "write_lvt i value s =
     s\<lparr>lvt := (lvt s)(i := (value AND lvt_mask i) OR (if software_enabled s then 0 else 0x10000))\<rparr>"

definition read_only :: "u32 \<Rightarrow> bool" where
  "read_only r =
     (r \<in> {0x020, 0x030, 0x090, 0x0A0, 0x390} \<or> (0x100 \<le> r \<and> r \<le> 0x270))"

definition write_own :: "u64 \<Rightarrow> u32 \<Rightarrow> u32 \<Rightarrow> lapic \<Rightarrow> lapic" where
  "write_own now r value s =
     (if r = 0x080 then set_tpr (ucast (value AND 0xff)) s
      else if r = 0x0B0 then receive_EOI s
      else if r = 0x0D0 then s\<lparr>ldr := drop_bit 24 value AND APIC_ID_MASK\<rparr>
      else if r = 0x0E0 then s\<lparr>dest_format := drop_bit 28 value AND 0xf\<rparr>
      else if r = 0x0F0 then write_spurious_interrupt_register value s
      else if r = 0x280 then s\<lparr>error_status := shadow_error_status s, shadow_error_status := 0\<rparr>
      else if r = 0x310 then s\<lparr>icr_hi := value AND 0xff000000\<rparr>
      else if 0x320 \<le> r \<and> r \<le> 0x370 then write_lvt (unat (drop_bit 4 (r - 0x320))) value s
      else if r = 0x380 then set_initial_timer_count now value s
      else if r = 0x3E0 then set_divide_configuration (value AND 0xb) (s\<lparr>timer_divconf := value AND 0xb\<rparr>)
      else if read_only r then s
      else l_panic ''APIC register not implemented'' (add_error ERR_ILLEGAL_ADDR s))"

definition lapic_write_aligned :: "u64 \<Rightarrow> nat \<Rightarrow> u32 \<Rightarrow> u32 \<Rightarrow> lapic list \<Rightarrow> lapic list" where
  "lapic_write_aligned now i addr value bus =
     (let r = addr AND 0xff0 in
      if r = 0x300 then send_ipi i (on_lapic i (\<lambda>s. s\<lparr>icr_lo := value AND NOT (push_bit 12 1)\<rparr>) bus)
      else on_lapic i (write_own now r value) bus)"

definition lapic_write :: "u64 \<Rightarrow> nat \<Rightarrow> u32 \<Rightarrow> nat \<Rightarrow> u32 \<Rightarrow> lapic list \<Rightarrow> lapic list" where
  "lapic_write now i addr len data bus =
     (if len \<noteq> 4 then on_lapic i (l_panic ''APIC write with len (should be 4)'') bus
      else if addr AND 0xf \<noteq> 0 then on_lapic i (l_panic ''APIC write at unaligned address'') bus
      else lapic_write_aligned now i addr data bus)"

definition vector_word :: "(nat \<Rightarrow> bool) \<Rightarrow> nat \<Rightarrow> u32" where
  "vector_word a index = fold (\<lambda>i value. if a (index + i) then value OR push_bit i 1 else value) [0..<32] 0"

definition lapic_read_aligned :: "u64 \<Rightarrow> u32 \<Rightarrow> lapic \<Rightarrow> u32 \<times> lapic" where
  "lapic_read_aligned now addr s =
     (let r = addr AND 0xff0 in
      if r = 0x020 then (push_bit 24 (apic_id s), s)
      else if r = 0x030 then (LAPIC_VERSION_ID, s)
      else if r = 0x080 then (task_priority s AND 0xff, s)
      else if r = 0x090 then (ucast (get_apr s), s)
      else if r = 0x0A0 then (ucast (get_ppr s), s)
      else if r = 0x0D0 then (push_bit 24 (ldr s AND APIC_ID_MASK), s)
      else if r = 0x0E0 then (push_bit 28 (dest_format s AND 0xf) OR 0x0fffffff, s)
      else if r = 0x0F0 then
        (ucast (spurious_vector s) OR (if software_enabled s then 0x100 else 0) OR
           (if focus_disable s then 0x200 else 0), s)
      else if 0x100 \<le> r \<and> r \<le> 0x170 then (vector_word (l_isr s) (unat (push_bit 1 (r - 0x100))), s)
      else if 0x180 \<le> r \<and> r \<le> 0x1F0 then (vector_word (l_tmr s) (unat (push_bit 1 (r - 0x180))), s)
      else if 0x200 \<le> r \<and> r \<le> 0x270 then (vector_word (l_irr s) (unat (push_bit 1 (r - 0x200))), s)
      else if r = 0x280 then (error_status s, s)
      else if r = 0x300 then (icr_lo s, s)
      else if r = 0x310 then (icr_hi s, s)
      else if 0x320 \<le> r \<and> r \<le> 0x370 then (lvt s (unat (drop_bit 4 (r - 0x320))), s)
      else if r = 0x380 then (timer_initial s, s)
      else if r = 0x390 then current_count now s
      else if r = 0x3E0 then (timer_divconf s, s)
      else (0, s))"

definition lapic_read :: "u64 \<Rightarrow> u32 \<Rightarrow> nat \<Rightarrow> lapic \<Rightarrow> u32 \<times> lapic" where
  "lapic_read now addr len s =
     (if addr AND NOT 3 \<noteq> (addr + word_of_nat len - 1) AND NOT 3
      then (0, l_panic ''APIC read spans 32-bit boundary'' s)
      else
        let (v, s1) = lapic_read_aligned now (addr AND NOT 3) s;
            w = drop_bit (unat (addr AND 3) * 8) v
        in if len = 4 then (v, s1)
           else if len = 1 then (w AND 0xff, s1)
           else if len = 2 then (w AND 0xffff, s1)
           else (0, l_panic ''Unsupported APIC read'' s1))"

end
