(* ===== verification/Lapic_Spec.thy ===== *)
theory Lapic_Spec
  imports Lapic
begin

text \<open>
  The contract of the local APICs: the invariant \<open>lapic_ok\<close> on every run of a bus of them, and the
  vectors in service as a stack.
\<close>

unbundle bit_operations_syntax

section \<open>The highest vector\<close>

lemma find_rev_upt:
  "find P (rev [m..<n]) = Some v \<longleftrightarrow> m \<le> v \<and> v < n \<and> P v \<and> (\<forall>u. v < u \<and> u < n \<longrightarrow> \<not> P u)"
proof (induction n)
  case (Suc n)
  then show ?case by (cases "m \<le> n") (auto simp: less_Suc_eq)
qed simp

definition vector_range :: "nat \<Rightarrow> bool" where
  "vector_range v \<longleftrightarrow> 16 \<le> v \<and> v \<le> 254"

lemma highest_Some:
  "highest_priority_int a = Some v \<longleftrightarrow> vector_range v \<and> a v \<and> (\<forall>u. vector_range u \<and> a u \<longrightarrow> u \<le> v)"
proof -
  have "(\<forall>u. v < u \<and> u < 255 \<longrightarrow> \<not> a u) \<longleftrightarrow> (\<forall>u. 16 \<le> u \<and> u \<le> 254 \<and> a u \<longrightarrow> u \<le> v)" if "16 \<le> v"
  proof (intro iffI allI impI)
    fix u
    assume all: "\<forall>u. v < u \<and> u < 255 \<longrightarrow> \<not> a u" and u: "16 \<le> u \<and> u \<le> 254 \<and> a u"
    then have "u < 255" "a u" by simp_all
    with all show "u \<le> v" using not_le by blast
  next
    fix u
    assume all: "\<forall>u. 16 \<le> u \<and> u \<le> 254 \<and> a u \<longrightarrow> u \<le> v" and u: "v < u \<and> u < 255"
    then have "16 \<le> u" "u \<le> 254" "\<not> u \<le> v" using that by simp_all
    with all show "\<not> a u" by blast
  qed
  moreover have "Suc 254 = 255" by simp
  ultimately show ?thesis
    unfolding highest_priority_int_def FIRST_VECTOR_def LAST_VECTOR_def find_rev_upt vector_range_def
    by (auto simp: less_Suc_eq_le)
qed

lemma highest_None: "highest_priority_int a = None \<longleftrightarrow> (\<forall>v. vector_range v \<longrightarrow> \<not> a v)"
  unfolding highest_priority_int_def FIRST_VECTOR_def LAST_VECTOR_def vector_range_def find_None_iff set_rev
    set_upt atLeastLessThan_iff less_Suc_eq_le by blast

section \<open>Priority classes\<close>

lemma nat_and_f0: "(n :: nat) AND 240 = 16 * (n div 16 mod 16)"
proof -
  have e: "(240 :: nat) = push_bit 4 (mask 4)" by (simp add: mask_eq_exp_minus_1)
  have "n AND 240 = push_bit 4 (take_bit 4 (drop_bit 4 n))"
    unfolding e by (rule bit_eqI) (auto simp: bit_simps simp del: push_bit_mask_eq)
  then show ?thesis by (simp add: push_bit_eq_mult drop_bit_eq_div take_bit_eq_mod)
qed

lemma unat_and_f0: "unat ((w :: u32) AND 0xf0) = 16 * (unat w div 16 mod 16)" "unat ((b :: u8) AND 0xf0) = 16 * (unat b div 16 mod 16)"
  by (simp_all add: unsigned_and_eq nat_and_f0)

definition tpr :: "lapic \<Rightarrow> nat" where
  "tpr s = unat (task_priority s)"

definition lapic_shape :: "lapic \<Rightarrow> bool" where
  "lapic_shape s \<longleftrightarrow> tpr s < 256 \<and> (\<forall>v. l_irr s v \<or> l_isr s v \<longrightarrow> vector_range v)"

definition can_deliver :: "lapic \<Rightarrow> nat \<Rightarrow> bool" where
  "can_deliver s v \<longleftrightarrow> l_irr s v \<and> tpr s div 16 < v div 16 \<and> (\<forall>p. l_isr s p \<longrightarrow> p div 16 < v div 16)"

lemma class_word:
  "v < 256 \<Longrightarrow> unat ((word_of_nat v :: u32) AND 0xf0) = 16 * (v div 16)"
  "v < 256 \<Longrightarrow> unat ((word_of_nat v :: u8) AND 0xf0) = 16 * (v div 16)"
  by (simp_all add: unat_and_f0 unat_of_nat)

lemma class_tpr: "lapic_shape s \<Longrightarrow> unat (task_priority s AND 0xf0) = 16 * (tpr s div 16)"
  using less_mult_imp_div_less [of "unat (task_priority s)" 16 16] by (simp add: unat_and_f0 lapic_shape_def tpr_def)

lemma get_ppr_value:
  assumes "lapic_shape s"
  shows "unat (get_ppr s) = (case highest_priority_int (l_isr s) of None \<Rightarrow> tpr s
    | Some p \<Rightarrow> if p div 16 \<le> tpr s div 16 then tpr s else 16 * (p div 16))"
proof -
  have t: "unat (ucast (task_priority s) :: u8) = tpr s"
    using assms by (simp add: lapic_shape_def tpr_def unsigned_ucast_eq unsigned_take_bit_eq take_bit_nat_eq_self)
  have p: "word_of_nat p AND 0xf0 \<le> task_priority s AND 0xf0 \<longleftrightarrow> p div 16 \<le> tpr s div 16"
    if "highest_priority_int (l_isr s) = Some p" for p
    using that class_word(1) [of p] class_tpr [OF assms] by (simp add: word_le_nat_alt highest_Some vector_range_def)
  show ?thesis
  proof (cases "highest_priority_int (l_isr s)")
    case (Some q)
    then have "q < 256" by (simp add: highest_Some vector_range_def)
    then show ?thesis using class_word(2) [of q] t p [OF Some] by (simp add: get_ppr_def Some)
  qed (simp add: get_ppr_def t)
qed

text \<open>What \<open>acknowledge_int\<close> tests of the highest request.\<close>

lemma acknowledged_iff:
  assumes s: "lapic_shape s" and v: "highest_priority_int (l_irr s) = Some v"
  shows "\<not> word_of_nat v AND 0xf0 \<le> get_ppr s \<longleftrightarrow> can_deliver s v"
proof -
  have r: "v < 256" "l_irr s v" using v by (auto simp: highest_Some vector_range_def)
  have i: "p div 16 \<le> q div 16"
    if "highest_priority_int (l_isr s) = Some q" "l_isr s p" for p q
    using that s by (auto simp: highest_Some lapic_shape_def intro: div_le_mono)
  have "\<not> word_of_nat v AND 0xf0 \<le> get_ppr s \<longleftrightarrow> unat (get_ppr s) < 16 * (v div 16)"
    using class_word(2) [OF r(1)] by (simp add: word_le_nat_alt not_le)
  also have "\<dots> \<longleftrightarrow> can_deliver s v"
  proof (cases "highest_priority_int (l_isr s)")
    case None
    then have "\<not> l_isr s p" for p using s by (auto simp: highest_None lapic_shape_def)
    moreover have "tpr s < 16 * (v div 16) \<longleftrightarrow> tpr s div 16 < v div 16" by linarith
    ultimately show ?thesis using r by (simp add: get_ppr_value [OF s] None can_deliver_def)
  next
    case (Some q)
    then have q: "l_isr s q" by (simp add: highest_Some)
    have "can_deliver s v \<longleftrightarrow> tpr s div 16 < v div 16 \<and> q div 16 < v div 16"
      using i [OF Some] q r unfolding can_deliver_def by (meson le_less_trans)
    then show ?thesis by (simp add: get_ppr_value [OF s] Some) linarith
  qed
  finally show ?thesis .
qed

section \<open>Looking for a request\<close>

lemma service_cases:
  "service_local_apic s = s \<or> service_local_apic s = s\<lparr>l_INTR := True, async_event := True\<rparr>"
  by (auto simp: service_local_apic_def split: option.split)

lemma service_fields [simp]:
  "l_irr (service_local_apic s) = l_irr s" "l_isr (service_local_apic s) = l_isr s"
  "l_tmr (service_local_apic s) = l_tmr s" "task_priority (service_local_apic s) = task_priority s"
  "spurious_vector (service_local_apic s) = spurious_vector s" "apic_id (service_local_apic s) = apic_id s"
  "timer_active (service_local_apic s) = timer_active s" "lvt (service_local_apic s) = lvt s"
  "ldr (service_local_apic s) = ldr s" "dest_format (service_local_apic s) = dest_format s"
  using service_cases [of s] by auto

lemma service_finds:
  assumes s: "lapic_shape s" and d: "can_deliver s v"
  shows "l_INTR (service_local_apic s)"
proof (rule ccontr)
  assume n: "\<not> l_INTR (service_local_apic s)"
  have r: "vector_range v" "l_irr s v" using s d by (auto simp: lapic_shape_def can_deliver_def)
  then obtain w where w: "highest_priority_int (l_irr s) = Some w"
    using highest_None [of "l_irr s"] by (cases "highest_priority_int (l_irr s)") auto
  have vw: "v div 16 \<le> w div 16" using w r by (auto simp: highest_Some intro: div_le_mono)
  have w256: "w < 256" using w by (auto simp: highest_Some vector_range_def)
  have "word_of_nat w AND 0xf0 \<le> task_priority s AND 0xf0 \<longleftrightarrow> w div 16 \<le> tpr s div 16"
    using class_word(1) [OF w256] class_tpr [OF s] by (simp add: word_le_nat_alt)
  moreover have "\<not> w div 16 \<le> tpr s div 16" using d vw by (auto simp: can_deliver_def)
  moreover have "\<not> w \<le> p" if "highest_priority_int (l_isr s) = Some p" for p
    using that d vw div_le_mono [of w p 16] by (auto simp: highest_Some can_deliver_def)
  ultimately show False
    using n w by (auto simp: service_local_apic_def split: option.splits if_splits)
qed

lemma service_no_INTR:
  "l_INTR (service_local_apic s) \<Longrightarrow> l_INTR s \<or> (\<exists>v. highest_priority_int (l_irr s) = Some v)"
  by (auto simp: service_local_apic_def split: option.splits if_splits)

section \<open>The invariant\<close>

text \<open>In-service vectors have distinct classes, and without a raised line no request can be delivered.\<close>

definition one_per_class :: "(nat \<Rightarrow> bool) \<Rightarrow> bool" where
  "one_per_class a \<longleftrightarrow> (\<forall>p q. a p \<and> a q \<and> p div 16 = q div 16 \<longrightarrow> p = q)"

definition lapic_ok :: "lapic \<Rightarrow> bool" where
  "lapic_ok s \<longleftrightarrow> lapic_shape s \<and> one_per_class (l_isr s) \<and>
     (\<forall>v. can_deliver s v \<longrightarrow> l_INTR s)"

lemma same_lapic:
  assumes "l_irr t = l_irr s" "l_isr t = l_isr s" "task_priority t = task_priority s"
  shows "lapic_shape t = lapic_shape s" "can_deliver t v = can_deliver s v"
    "l_INTR t = l_INTR s \<Longrightarrow> lapic_ok t = lapic_ok s"
  using assms by (simp_all add: lapic_shape_def can_deliver_def lapic_ok_def tpr_def)

lemma service_same [simp]:
  "lapic_shape (service_local_apic s) = lapic_shape s" "can_deliver (service_local_apic s) v = can_deliver s v"
  by (rule same_lapic; simp)+

lemma service_ok:
  assumes "lapic_shape s" and "one_per_class (l_isr s)"
  shows "lapic_ok (service_local_apic s)"
  using assms service_finds [OF assms(1)] unfolding lapic_ok_def by simp

lemma add_error_same [simp]:
  "lapic_ok (add_error e s) = lapic_ok s" "l_isr (add_error e s) = l_isr s" "l_INTR (add_error e s) = l_INTR s"
  by (simp_all add: add_error_def lapic_ok_def lapic_shape_def can_deliver_def tpr_def)

lemma trigger_ok:
  assumes "lapic_ok s"
  shows "lapic_ok (trigger_irq v t b s)"
proof -
  let ?s = "s\<lparr>l_irr := (l_irr s)(unat v := True), l_tmr := (l_tmr s)(unat v := t)\<rparr>"
  have "lapic_ok (service_local_apic ?s)" if "vector_range (unat v)"
    using assms that by (intro service_ok) (auto simp: lapic_ok_def lapic_shape_def tpr_def)
  then show ?thesis
    using assms by (simp add: trigger_irq_def vector_range_def FIRST_VECTOR_def LAST_VECTOR_def)
qed

lemma set_tpr_ok:
  assumes "lapic_ok s"
  shows "lapic_ok (set_tpr b s)"
proof -
  have b: "unat (ucast b :: u32) = unat b" by transfer (simp add: take_bit_nat_def)
  let ?s = "s\<lparr>task_priority := ucast b\<rparr>"
  have sh: "lapic_shape ?s"
    using assms unsigned_less [of b, where ?'a = nat] by (simp add: lapic_ok_def lapic_shape_def tpr_def b)
  show ?thesis
  proof (cases "ucast b < task_priority s")
    case True
    have "one_per_class (l_isr s)" using assms by (simp add: lapic_ok_def)
    then show ?thesis using service_ok [OF sh] True by (simp add: set_tpr_def)
  next
    case False
    then have "tpr s \<le> tpr ?s" by (simp add: tpr_def not_less word_le_nat_alt)
    then have "tpr s div 16 \<le> tpr ?s div 16" by (rule div_le_mono)
    then have "can_deliver s v" if "can_deliver ?s v" for v using that by (auto simp: can_deliver_def)
    then show ?thesis using sh assms False by (auto simp: set_tpr_def Let_def lapic_ok_def)
  qed
qed

lemma l_panic_same [simp]:
  "lapic_ok (l_panic m s) = lapic_ok s" "l_irr (l_panic m s) = l_irr s" "l_isr (l_panic m s) = l_isr s"
  "l_INTR (l_panic m s) = l_INTR s" "spurious_vector (l_panic m s) = spurious_vector s"
  "get_ppr (l_panic m s) = get_ppr s"
  by (simp_all add: l_panic_def lapic_ok_def lapic_shape_def can_deliver_def tpr_def get_ppr_def
      split: option.split)

lemma cpu_call_same [simp]:
  "lapic_ok (cpu_call e s) = lapic_ok s" "l_irr (cpu_call e s) = l_irr s" "l_isr (cpu_call e s) = l_isr s"
  "l_INTR (cpu_call e s) = l_INTR s" "l_tmr (cpu_call e s) = l_tmr s"
  "task_priority (cpu_call e s) = task_priority s" "spurious_vector (cpu_call e s) = spurious_vector s"
  by (simp_all add: cpu_call_def lapic_ok_def lapic_shape_def can_deliver_def tpr_def)

text \<open>
  The two outcomes of the acknowledge cycle: the highest request if it can be delivered, the spurious
  vector if not.
\<close>

lemma acknowledge_vector:
  assumes ok: "lapic_ok s" and i: "l_INTR s" and d: "can_deliver s w"
  obtains v where "highest_priority_int (l_irr s) = Some v" "can_deliver s v"
    "acknowledge_int s = (word_of_nat v, service_local_apic
       (s\<lparr>l_irr := (l_irr s)(v := False), l_isr := (l_isr s)(v := True), l_INTR := False, async_event := True\<rparr>))"
proof -
  have sh: "lapic_shape s" using ok by (simp add: lapic_ok_def)
  have r: "vector_range w" "l_irr s w" using sh d by (auto simp: lapic_shape_def can_deliver_def)
  then obtain v where v: "highest_priority_int (l_irr s) = Some v"
    using highest_None [of "l_irr s"] by (cases "highest_priority_int (l_irr s)") auto
  have "w div 16 \<le> v div 16" using v r by (auto simp: highest_Some intro: div_le_mono)
  then have dv: "can_deliver s v" using d v by (auto simp: can_deliver_def highest_Some dest: less_le_trans)
  have "\<not> word_of_nat v AND 0xf0 \<le> get_ppr s" using acknowledged_iff [OF sh v] dv by simp
  then show thesis using that [OF v dv] i by (simp add: acknowledge_int_def v)
qed

lemma acknowledge_spurious:
  assumes ok: "lapic_ok s" and i: "l_INTR s" and d: "\<And>v. \<not> can_deliver s v"
  shows "acknowledge_int s = (spurious_vector s, s\<lparr>l_INTR := False, async_event := True\<rparr>)"
proof (cases "highest_priority_int (l_irr s)")
  case (Some v)
  then have "word_of_nat v AND 0xf0 \<le> get_ppr s"
    using acknowledged_iff [OF _ Some] d ok by (auto simp: lapic_ok_def)
  then show ?thesis using i by (simp add: acknowledge_int_def Some)
qed (use i in \<open>simp add: acknowledge_int_def\<close>)

lemma one_per_class_insert:
  "one_per_class a \<Longrightarrow> (\<And>p. a p \<Longrightarrow> p div 16 < v div 16) \<Longrightarrow> one_per_class (a(v := True))"
  unfolding one_per_class_def by (metis fun_upd_apply less_irrefl)

lemma one_per_class_remove: "one_per_class a \<Longrightarrow> one_per_class (a(v := False))"
  unfolding one_per_class_def by (metis fun_upd_apply)

lemma acknowledge_int_ok:
  assumes ok: "lapic_ok s" and i: "l_INTR s"
  shows "lapic_ok (snd (acknowledge_int s))"
proof (cases "\<exists>v. can_deliver s v")
  case True
  then obtain w where "can_deliver s w" ..
  from acknowledge_vector [OF ok i this] obtain v where v: "highest_priority_int (l_irr s) = Some v" "can_deliver s v"
    and a: "acknowledge_int s = (word_of_nat v, service_local_apic
       (s\<lparr>l_irr := (l_irr s)(v := False), l_isr := (l_isr s)(v := True), l_INTR := False, async_event := True\<rparr>))"
    by blast
  have "one_per_class ((l_isr s)(v := True))"
    using ok v(2) by (intro one_per_class_insert) (auto simp: lapic_ok_def can_deliver_def)
  then show ?thesis unfolding a snd_conv using ok v(1)
    by (intro service_ok) (auto simp: lapic_ok_def lapic_shape_def tpr_def highest_Some)
next
  case False
  then show ?thesis using acknowledge_spurious [OF ok i] ok
    by (auto simp: lapic_ok_def lapic_shape_def can_deliver_def tpr_def)
qed

lemma EOI_ok:
  assumes "lapic_ok s"
  shows "lapic_ok (receive_EOI s)"
proof (cases "highest_priority_int (l_isr s)")
  case (Some v)
  have "one_per_class ((l_isr s)(v := False))" using assms by (simp add: lapic_ok_def one_per_class_remove)
  moreover have "lapic_shape (s\<lparr>l_isr := (l_isr s)(v := False)\<rparr>)"
    using assms by (simp add: lapic_ok_def lapic_shape_def tpr_def)
  ultimately have "lapic_ok (service_local_apic t)"
    if "l_irr t = l_irr s" "l_isr t = (l_isr s)(v := False)" "task_priority t = task_priority s" for t
    using that by (intro service_ok) (simp_all add: lapic_shape_def tpr_def)
  then show ?thesis using assms by (simp add: receive_EOI_def Some Let_def)
qed (use assms in \<open>simp add: receive_EOI_def\<close>)

lemma stop_timer_same [simp]:
  "lapic_ok (stop_timer s) = lapic_ok s" "l_irr (stop_timer s) = l_irr s" "l_isr (stop_timer s) = l_isr s"
  "task_priority (stop_timer s) = task_priority s"
  by (simp_all add: stop_timer_def) (simp_all add: lapic_ok_def lapic_shape_def can_deliver_def tpr_def)

lemma ok_fields [simp]:
  "lapic_ok (s\<lparr>timer_current := x\<rparr>) = lapic_ok s" "lapic_ok (s\<lparr>timer_initial := x\<rparr>) = lapic_ok s"
  "lapic_ok (s\<lparr>ticksInitial := y\<rparr>) = lapic_ok s" "lapic_ok (s\<lparr>timer_active := b\<rparr>) = lapic_ok s"
  "lapic_ok (s\<lparr>timer_divconf := x\<rparr>) = lapic_ok s" "lapic_ok (s\<lparr>timer_divide_factor := x\<rparr>) = lapic_ok s"
  "lapic_ok (s\<lparr>ldr := x\<rparr>) = lapic_ok s" "lapic_ok (s\<lparr>dest_format := x\<rparr>) = lapic_ok s"
  "lapic_ok (s\<lparr>error_status := x\<rparr>) = lapic_ok s" "lapic_ok (s\<lparr>shadow_error_status := x\<rparr>) = lapic_ok s"
  "lapic_ok (s\<lparr>icr_hi := x\<rparr>) = lapic_ok s" "lapic_ok (s\<lparr>icr_lo := x\<rparr>) = lapic_ok s"
  "lapic_ok (s\<lparr>lvt := f\<rparr>) = lapic_ok s" "lapic_ok (s\<lparr>spurious_vector := sv\<rparr>) = lapic_ok s"
  "lapic_ok (s\<lparr>software_enabled := b\<rparr>) = lapic_ok s" "lapic_ok (s\<lparr>focus_disable := b\<rparr>) = lapic_ok s"
  "lapic_ok (s\<lparr>base_addr := x\<rparr>) = lapic_ok s" "lapic_ok (s\<lparr>apic_mode := x\<rparr>) = lapic_ok s"
  by (simp_all add: lapic_ok_def lapic_shape_def can_deliver_def tpr_def)

lemma reset_ok [simp]: "lapic_ok (lapic_reset s)"
  by (simp add: lapic_reset_def Let_def lapic_ok_def lapic_shape_def can_deliver_def tpr_def one_per_class_def)

lemma periodic_ok: "lapic_ok s \<Longrightarrow> lapic_ok (lapic_periodic now s)"
  by (simp add: lapic_periodic_def Let_def trigger_ok)

lemma deliver_ok: "lapic_ok s \<Longrightarrow> lapic_ok (deliver v dm t s)"
  by (simp add: deliver_def trigger_ok)

lemma write_own_ok: "lapic_ok s \<Longrightarrow> lapic_ok (write_own now r value s)"
  by (simp add: write_own_def set_tpr_ok EOI_ok write_spurious_interrupt_register_def mask_lvt_def write_lvt_def
      set_initial_timer_count_def set_divide_configuration_def Let_def)

lemma read_ok: "lapic_ok s \<Longrightarrow> lapic_ok (snd (lapic_read now addr len s))"
proof -
  assume s: "lapic_ok s"
  have "lapic_ok (snd (current_count now s))" using s by (simp add: current_count_def Let_def)
  then have "lapic_ok (snd (lapic_read_aligned now a s))" for a
    using s by (simp add: lapic_read_aligned_def Let_def split del: if_split) (simp split: if_split)
  then show ?thesis using s by (simp add: lapic_read_def case_prod_beta Let_def)
qed

section \<open>The bus\<close>

definition bus_ok :: "lapic list \<Rightarrow> bool" where
  "bus_ok bus \<longleftrightarrow> list_all lapic_ok bus"

lemma bus_ok_on:
  assumes "bus_ok bus" and "\<And>s. lapic_ok s \<Longrightarrow> lapic_ok (f s)"
  shows "bus_ok (on_lapic i f bus)"
proof (cases "i < length bus")
  case True
  then show ?thesis using assms by (auto simp: bus_ok_def on_lapic_def list_all_length nth_list_update)
qed (use assms in \<open>simp add: bus_ok_def on_lapic_def list_update_beyond not_less\<close>)

lemma lowest_priority_ok:
  "bus_ok bus \<Longrightarrow> bus_ok (snd (apic_bus_deliver_lowest_priority v d t b bus))"
  by (simp add: apic_bus_deliver_lowest_priority_def bus_ok_on deliver_ok split: option.split)

lemma broadcast_ok: "bus_ok bus \<Longrightarrow> bus_ok (snd (apic_bus_broadcast_interrupt v dm t x bus))"
  by (simp add: apic_bus_broadcast_interrupt_def lowest_priority_ok)
    (auto simp: bus_ok_def list_all_length deliver_ok)

lemma deliver_interrupt_ok: "bus_ok bus \<Longrightarrow> bus_ok (snd (apic_bus_deliver_interrupt v d dm l t bus))"
  by (simp add: apic_bus_deliver_interrupt_def lowest_priority_ok broadcast_ok bus_ok_on deliver_ok split: option.split)
    (auto simp: bus_ok_def list_all_iff deliver_ok)

lemma send_ipi_ok:
  assumes "bus_ok bus"
  shows "bus_ok (send_ipi i bus)"
proof -
  have e: "bus_ok (on_lapic i (add_error e) b)" if "bus_ok b" for e b using that by (simp add: bus_ok_on)
  show ?thesis
    unfolding send_ipi_def Let_def
    using assms deliver_interrupt_ok broadcast_ok
    by (simp add: case_prod_beta bus_ok_on trigger_ok e)
qed

lemma lapic_write_ok: "bus_ok bus \<Longrightarrow> bus_ok (lapic_write now i addr len data bus)"
  by (simp add: lapic_write_def lapic_write_aligned_def Let_def bus_ok_on write_own_ok send_ipi_ok)

section \<open>Runs\<close>

text \<open>
  What happens to the local APICs: register accesses by the processors, messages from the bus, the
  acknowledge cycle of a processor whose line is raised, writes of its task priority through the
  control register, and the timer.
\<close>

inductive apic_step :: "lapic list \<Rightarrow> lapic list \<Rightarrow> bool" where
  Write: "apic_step bus (lapic_write now i addr len data bus)"
| Read: "apic_step bus (on_lapic i (\<lambda>s. snd (lapic_read now addr len s)) bus)"
| Message: "apic_step bus (snd (apic_bus_deliver_interrupt v d dm l t bus))"
| Acknowledge: "i < length bus \<Longrightarrow> l_INTR (bus ! i) \<Longrightarrow> apic_step bus (on_lapic i (snd \<circ> acknowledge_int) bus)"
| Priority: "apic_step bus (on_lapic i (set_tpr b) bus)"
| Timer: "apic_step bus (on_lapic i (lapic_periodic now) bus)"
| Reset: "apic_step bus (on_lapic i lapic_reset bus)"
| Base: "apic_step bus (on_lapic i (set_base a) bus)"

inductive apic_reach :: "lapic list \<Rightarrow> bool" where
  Start: "apic_reach (map lapic_reset bus)"
| Step: "apic_reach bus \<Longrightarrow> apic_step bus bus' \<Longrightarrow> apic_reach bus'"

inductive_cases apic_stepE: "apic_step bus bus'"

lemma step_ok: "apic_step bus bus' \<Longrightarrow> bus_ok bus \<Longrightarrow> bus_ok bus'"
proof (induction rule: apic_step.induct)
  case (Acknowledge i bus)
  then show ?case by (auto simp: bus_ok_def on_lapic_def list_all_length nth_list_update acknowledge_int_ok)
qed (simp_all add: lapic_write_ok bus_ok_on read_ok deliver_interrupt_ok set_tpr_ok periodic_ok set_base_def)

lemma reach_ok: "apic_reach bus \<Longrightarrow> bus_ok bus"
  by (induction rule: apic_reach.induct) (simp add: bus_ok_def list_all_length, rule step_ok)

lemma reach_lapic_ok: "apic_reach bus \<Longrightarrow> i < length bus \<Longrightarrow> lapic_ok (bus ! i)"
  using reach_ok by (auto simp: bus_ok_def list_all_length)

section \<open>The vectors in service\<close>

text \<open>Abstractly the in-service register is a stack, the last acknowledged vector on top.\<close>

definition descending :: "nat list" where
  "descending = rev [16..<255]"

definition served :: "lapic \<Rightarrow> nat list" where
  "served s = filter (l_isr s) descending"

lemma set_descending: "v \<in> set descending \<longleftrightarrow> vector_range v"
  unfolding descending_def vector_range_def set_rev set_upt atLeastLessThan_iff by linarith

lemma sorted_descending: "sorted_wrt (\<lambda>p q. q < p) descending"
  unfolding descending_def sorted_wrt_rev by (rule sorted_wrt_upt)

lemma filter_insert_top:
  "sorted_wrt (\<lambda>p q. q < p) (xs :: nat list) \<Longrightarrow> v \<in> set xs \<Longrightarrow> (\<And>p. a p \<Longrightarrow> p < v) \<Longrightarrow>
   filter (a(v := True)) xs = v # filter a xs"
proof (induction xs)
  case (Cons x xs)
  show ?case
  proof (cases "x = v")
    case True
    then have "\<forall>x \<in> set xs. x < v" using Cons.prems(1) by simp
    then have "v \<notin> set xs" by (metis less_irrefl)
    then have "filter (a(v := True)) xs = filter a xs" by (intro filter_cong) auto
    then show ?thesis using True Cons.prems(3) [of v] by (simp del: fun_upd_apply add: fun_upd_same) auto
  next
    case False
    then have "v < x" "v \<in> set xs" using Cons.prems(1,2) by auto
    then have "\<not> a x" using Cons.prems(3) [of x] by (meson less_asym)
    then show ?thesis using False Cons.IH [OF _ \<open>v \<in> set xs\<close> Cons.prems(3)] Cons.prems(1) by simp
  qed
qed simp

lemma filter_top:
  "vector_range v \<Longrightarrow> (\<And>p. a p \<Longrightarrow> p < v) \<Longrightarrow> filter (a(v := True)) descending = v # filter a descending"
  by (rule filter_insert_top [OF sorted_descending]) (simp_all add: set_descending)

lemma filter_pop:
  assumes "highest_priority_int a = Some v" and "\<And>p. a p \<Longrightarrow> vector_range p"
  shows "filter a descending = v # filter (a(v := False)) descending"
proof -
  have v: "vector_range v" "a v" "\<And>p. a p \<Longrightarrow> p \<le> v" using assms by (auto simp: highest_Some)
  have "p < v" if "(a(v := False)) p" for p using that v(3) [of p] by (auto split: if_splits simp: less_le)
  from filter_top [OF v(1) this] have "filter ((a(v := False))(v := True)) descending = v # filter (a(v := False)) descending" .
  moreover have "(a(v := False))(v := True) = a" using v(2) by (intro ext) simp
  ultimately show ?thesis by (simp only:)
qed

lemma in_service_top:
  assumes "lapic_shape s" and s: "served s = v # vs"
  shows "highest_priority_int (l_isr s) = Some v \<and> filter ((l_isr s)(v := False)) descending = vs"
proof -
  have r: "\<And>p. l_isr s p \<Longrightarrow> vector_range p" using assms(1) by (simp add: lapic_shape_def)
  have "v \<in> set (served s)" using s by simp
  then have "l_isr s v" by (simp add: served_def)
  then obtain w where w: "highest_priority_int (l_isr s) = Some w"
    using r highest_None [of "l_isr s"] by (cases "highest_priority_int (l_isr s)") auto
  from filter_pop [OF this r] s show ?thesis by (auto simp: served_def w)
qed

lemma in_service_classes:
  assumes "lapic_ok s"
  shows "sorted_wrt (\<lambda>p q. q div 16 < p div 16) (served s)"
proof -
  have "sorted_wrt (\<lambda>p q. q < p) (served s)"
    unfolding served_def by (rule sorted_wrt_filter [OF sorted_descending])
  then show ?thesis
  proof (rule sorted_wrt_mono_rel [rotated])
    fix p q
    assume "p \<in> set (served s)" "q \<in> set (served s)" "q < p"
    then have i: "l_isr s p" "l_isr s q" "p \<noteq> q" "q div 16 \<le> p div 16"
      by (simp_all add: served_def div_le_mono)
    have "one_per_class (l_isr s)" using assms by (simp add: lapic_ok_def)
    then have "p div 16 \<noteq> q div 16" using i(1-3) unfolding one_per_class_def by blast
    then show "q div 16 < p div 16" using i(4) by simp
  qed
qed

lemma in_service_service [simp]: "served (service_local_apic s) = served s"
  by (simp add: served_def)

lemma acknowledge_outcome:
  assumes "apic_reach bus" and "i < length bus" and "l_INTR (bus ! i)" and "acknowledge_int (bus ! i) = (b, s')"
  shows "if \<exists>v. can_deliver (bus ! i) v
    then can_deliver (bus ! i) (unat b) \<and> (\<forall>w. can_deliver (bus ! i) w \<longrightarrow> w \<le> unat b) \<and>
      served s' = unat b # served (bus ! i) \<and> l_irr s' = (l_irr (bus ! i))(unat b := False)
    else b = spurious_vector (bus ! i) \<and> served s' = served (bus ! i) \<and> l_irr s' = l_irr (bus ! i)"
proof -
  let ?s = "bus ! i"
  have ok: "lapic_ok ?s" by (rule reach_lapic_ok [OF assms(1,2)])
  show ?thesis
  proof (cases "\<exists>v. can_deliver ?s v")
    case True
    then obtain w where "can_deliver ?s w" ..
    from acknowledge_vector [OF ok assms(3) this] obtain v
      where v: "highest_priority_int (l_irr ?s) = Some v" "can_deliver ?s v"
        and a: "acknowledge_int ?s = (word_of_nat v, service_local_apic
          (?s\<lparr>l_irr := (l_irr ?s)(v := False), l_isr := (l_isr ?s)(v := True), l_INTR := False, async_event := True\<rparr>))"
      by blast
    have r: "vector_range v" "\<And>u. l_irr ?s u \<Longrightarrow> u \<le> v"
      using v(1) ok by (auto simp: highest_Some lapic_ok_def lapic_shape_def)
    then have u: "unat (word_of_nat v :: u8) = v" by (simp add: unat_of_nat vector_range_def)
    have "p < v" if "l_isr ?s p" for p
    proof (rule ccontr)
      assume "\<not> p < v"
      then have "v div 16 \<le> p div 16" by (simp add: div_le_mono)
      then show False using v(2) that by (auto simp: can_deliver_def)
    qed
    then have "served s' = v # served ?s"
      using assms(4) filter_top [OF r(1), of "l_isr ?s"] by (auto simp: a served_def)
    moreover have "w \<le> v" if "can_deliver ?s w" for w using that r(2) by (simp add: can_deliver_def)
    ultimately show ?thesis using True v(2) assms(4) u by (auto simp: a)
  next
    case False
    then show ?thesis using acknowledge_spurious [OF ok assms(3)] assms(4) by (auto simp: served_def)
  qed
qed

lemma acknowledge_highest:
  assumes "apic_reach bus" and "i < length bus" and "l_INTR (bus ! i)" and "acknowledge_int (bus ! i) = (b, s')"
    and "can_deliver (bus ! i) w"
  shows "can_deliver (bus ! i) (unat b)" "w \<le> unat b"
  using acknowledge_outcome [OF assms(1-4)] assms(5) by (auto split: if_splits)

lemma acknowledge_state:
  assumes "apic_reach bus" and "i < length bus" and "l_INTR (bus ! i)" and "acknowledge_int (bus ! i) = (b, s')"
  shows "if \<exists>v. can_deliver (bus ! i) v
    then s'\<lparr>l_INTR := False, async_event := True\<rparr> = (bus ! i)\<lparr>l_irr := (l_irr (bus ! i))(unat b := False),
        l_isr := (l_isr (bus ! i))(unat b := True), l_INTR := False, async_event := True\<rparr> \<and>
      (\<forall>w. can_deliver s' w \<longrightarrow> l_INTR s')
    else s' = (bus ! i)\<lparr>l_INTR := False, async_event := True\<rparr>"
proof (cases "\<exists>v. can_deliver (bus ! i) v")
  case True
  let ?s = "bus ! i"
  have ok: "lapic_ok ?s" by (rule reach_lapic_ok [OF assms(1,2)])
  obtain w where "can_deliver ?s w" using True ..
  from acknowledge_vector [OF ok assms(3) this] obtain v
    where v: "highest_priority_int (l_irr ?s) = Some v"
      and a: "acknowledge_int ?s = (word_of_nat v, service_local_apic
        (?s\<lparr>l_irr := (l_irr ?s)(v := False), l_isr := (l_isr ?s)(v := True), l_INTR := False, async_event := True\<rparr>))"
    by blast
  have "v < 256" using v ok by (auto simp: highest_Some lapic_ok_def lapic_shape_def vector_range_def)
  then have "unat (word_of_nat v :: u8) = v" by (simp add: unat_of_nat)
  then have u: "unat b = v" using assms(4) by (auto simp: a)
  have "lapic_ok s'" using acknowledge_int_ok [OF ok assms(3)] assms(4) by simp
  then have "\<forall>w. can_deliver s' w \<longrightarrow> l_INTR s'" by (simp add: lapic_ok_def)
  moreover have "(service_local_apic t)\<lparr>l_INTR := False, async_event := True\<rparr> = t\<lparr>l_INTR := False, async_event := True\<rparr>" for t
    using service_cases [of t] by auto
  then have "s'\<lparr>l_INTR := False, async_event := True\<rparr> = ?s\<lparr>l_irr := (l_irr ?s)(v := False),
      l_isr := (l_isr ?s)(v := True), l_INTR := False, async_event := True\<rparr>"
    using assms(4) by (auto simp: a)
  ultimately show ?thesis using True u by simp
next
  case False
  then show ?thesis using acknowledge_spurious [OF reach_lapic_ok [OF assms(1,2)] assms(3)] assms(4) by auto
qed

text \<open>
  C27. The acknowledge cycle of a local APIC whose line is raised, in any run. When a request outranks everything in
  service and the task priority, the highest such request is returned, it moves from the requests to the top of
  the stack of vectors in service, nothing changes besides the line (\<open>INTR\<close>) and \<open>async_event\<close>, and the line stays
  raised while another request can be delivered. Otherwise the spurious vector is returned, the line is
  lowered, \<open>async_event\<close> is set, and nothing else changes.
\<close>

theorem apic_acknowledge:
  assumes "apic_reach bus" and "i < length bus" and "l_INTR (bus ! i)" and "acknowledge_int (bus ! i) = (b, s')"
  shows "if \<exists>v. can_deliver (bus ! i) v
    then can_deliver (bus ! i) (unat b) \<and> (\<forall>w. can_deliver (bus ! i) w \<longrightarrow> w \<le> unat b) \<and>
      served s' = unat b # served (bus ! i) \<and>
      s'\<lparr>l_INTR := False, async_event := True\<rparr> = (bus ! i)\<lparr>l_irr := (l_irr (bus ! i))(unat b := False),
        l_isr := (l_isr (bus ! i))(unat b := True), l_INTR := False, async_event := True\<rparr> \<and>
      (\<forall>w. can_deliver s' w \<longrightarrow> l_INTR s')
    else b = spurious_vector (bus ! i) \<and> s' = (bus ! i)\<lparr>l_INTR := False, async_event := True\<rparr>"
  using acknowledge_outcome [OF assms] acknowledge_state [OF assms] by auto

text \<open>
  The end of an interrupt in any run takes the top off the stack of vectors in service (the
  vectors on it have strictly decreasing priority classes), and afterwards no request that can be
  delivered is left without a raised line.
\<close>

theorem apic_end_of_interrupt:
  assumes "apic_reach bus" and "i < length bus" and "served (bus ! i) = v # vs"
    and "word_of_nat v \<noteq> spurious_vector (bus ! i)"
  shows "served (receive_EOI (bus ! i)) = vs \<and> sorted_wrt (\<lambda>p q. q div 16 < p div 16) (v # vs) \<and>
    (\<forall>w. can_deliver (receive_EOI (bus ! i)) w \<longrightarrow> l_INTR (receive_EOI (bus ! i)))"
proof -
  let ?s = "bus ! i"
  have ok: "lapic_ok ?s" by (rule reach_lapic_ok [OF assms(1,2)])
  then have "lapic_shape ?s" by (simp add: lapic_ok_def)
  note t = in_service_top [OF this assms(3)]
  have "served (receive_EOI ?s) = vs"
    using t assms(4) by (simp add: receive_EOI_def Let_def served_def)
  moreover have "sorted_wrt (\<lambda>p q. q div 16 < p div 16) (v # vs)"
    using in_service_classes [OF ok] assms(3) by simp
  ultimately show ?thesis using EOI_ok [OF ok] by (auto simp: lapic_ok_def)
qed

text \<open>The facts of the two properties for one local APIC, for other theories.\<close>

lemma apic_request_signal: "apic_reach bus \<Longrightarrow> i < length bus \<Longrightarrow> can_deliver (bus ! i) v \<Longrightarrow> l_INTR (bus ! i)"
  using reach_lapic_ok [of bus i] by (auto simp: lapic_ok_def)

text \<open>
  C28. Whatever processors, devices and timers do, a request that outranks everything in service and
  the task priority of a local APIC never waits: the processor's line is raised.
\<close>

theorem apic_request_is_signalled:
  assumes "apic_reach bus" and "i < length bus" and "can_deliver (bus ! i) v"
  shows "l_INTR (bus ! i)"
  using reach_lapic_ok [OF assms(1,2)] assms(3) by (auto simp: lapic_ok_def)

end
