(* ===== verification/Apic_Delivery.thy ===== *)
theory Apic_Delivery
  imports Lapic_Spec
begin

text \<open>
  The local APICs at work: arbitration between processors, the way from a pin of the I/O APIC (whose
  parameter, the answers of the bus, are here those of the modelled local APICs) to an interrupt vector,
  the timer, and requests of one priority class.
\<close>

unbundle bit_operations_syntax

section \<open>Arbitration\<close>

lemma lowest_agent_spec:
  "case lowest_agent sel i bus (agent, lowest) of (a, l) \<Rightarrow>
     l \<le> lowest \<and> (\<forall>j < length bus. sel (bus ! j) \<longrightarrow> l \<le> unat (get_tpr (bus ! j))) \<and>
     ((a, l) = (agent, lowest) \<or>
      (\<exists>j < length bus. sel (bus ! j) \<and> a = Some (i + j) \<and> unat (get_tpr (bus ! j)) = l \<and> l < lowest))"
proof (induction bus arbitrary: i agent lowest)
  case (Cons s bus)
  let ?t = "unat (get_tpr s)"
  let ?b = "if sel s \<and> ?t < lowest then (Some i, ?t) else (agent, lowest)"
  obtain a l where r: "lowest_agent sel i (s # bus) (agent, lowest) = (a, l)" by fastforce
  have IH: "l \<le> snd ?b \<and> (\<forall>j < length bus. sel (bus ! j) \<longrightarrow> l \<le> unat (get_tpr (bus ! j))) \<and>
     ((a, l) = ?b \<or>
      (\<exists>j < length bus. sel (bus ! j) \<and> a = Some (Suc i + j) \<and> unat (get_tpr (bus ! j)) = l \<and> l < snd ?b))"
    using Cons.IH [where i = "Suc i" and agent = "fst ?b" and lowest = "snd ?b"] r by (simp del: split_paired_All split del: if_split)
  have b: "snd ?b \<le> lowest" "sel s \<longrightarrow> snd ?b \<le> ?t" by auto
  have "\<forall>j < length (s # bus). sel ((s # bus) ! j) \<longrightarrow> l \<le> unat (get_tpr ((s # bus) ! j))"
    using IH b by (auto simp: nth_Cons split: nat.split)
  moreover have "(a, l) = (agent, lowest) \<or>
      (\<exists>j < length (s # bus). sel ((s # bus) ! j) \<and> a = Some (i + j) \<and> unat (get_tpr ((s # bus) ! j)) = l \<and> l < lowest)"
  proof (cases "(a, l) = ?b")
    case True
    then show ?thesis by (cases "sel s \<and> ?t < lowest") auto
  next
    case False
    then obtain j where "j < length bus" "sel (bus ! j)" "a = Some (Suc i + j)" "unat (get_tpr (bus ! j)) = l" "l < snd ?b"
      using IH by blast
    then have "Suc j < length (s # bus) \<and> sel ((s # bus) ! Suc j) \<and> a = Some (i + Suc j) \<and>
        unat (get_tpr ((s # bus) ! Suc j)) = l \<and> l < lowest" using b(1) by simp
    then show ?thesis by blast
  qed
  moreover have "l \<le> lowest" using IH b(1) by linarith
  ultimately show ?case unfolding r by blast
qed simp

text \<open>
  Lowest priority delivery: if a local APIC matches the logical destination, the interrupt goes to
  one that matches and has the least task priority of those that do; otherwise it is refused.
\<close>

theorem lowest_priority_arbitration:
  "if \<exists>s \<in> set bus. match_logical_addr d s
   then \<exists>i < length bus. match_logical_addr d (bus ! i) \<and>
     (\<forall>j < length bus. match_logical_addr d (bus ! j) \<longrightarrow> get_tpr (bus ! i) \<le> get_tpr (bus ! j)) \<and>
     apic_bus_deliver_interrupt v d DM_LOWPRI True trig bus = (True, on_lapic i (trigger_irq v trig False) bus)
   else apic_bus_deliver_interrupt v d DM_LOWPRI True trig bus = (False, bus)"
proof -
  let ?sel = "match_logical_addr d"
  obtain a l where r: "lowest_agent ?sel 0 bus (None, 0x100) = (a, l)" by fastforce
  note spec = lowest_agent_spec [where sel = ?sel and i = 0 and bus = bus and agent = None and lowest = "0x100", unfolded r prod.case]
  have deliver: "deliver v DM_LOWPRI trig = trigger_irq v trig False" by (simp add: deliver_def [abs_def])
  have D: "apic_bus_deliver_interrupt v d DM_LOWPRI True trig bus =
      (case a of Some i \<Rightarrow> (True, on_lapic i (trigger_irq v trig False) bus) | None \<Rightarrow> (False, bus))"
    by (simp add: apic_bus_deliver_interrupt_def apic_bus_deliver_lowest_priority_def r deliver split: option.split)
  show ?thesis
  proof (cases "\<exists>s \<in> set bus. ?sel s")
    case True
    then obtain k where k: "k < length bus" "?sel (bus ! k)" by (auto simp: in_set_conv_nth)
    have "l \<le> unat (get_tpr (bus ! k))" using spec k by blast
    then have "l < 0x100" using unsigned_less [of "get_tpr (bus ! k)", where ?'a = nat] by simp
    then obtain i where "i < length bus" "?sel (bus ! i)" "a = Some i" "unat (get_tpr (bus ! i)) = l"
      using spec by auto
    then show ?thesis using True spec D by (auto simp: word_le_nat_alt)
  next
    case False
    then have "\<not> ?sel (bus ! j)" if "j < length bus" for j using that nth_mem by blast
    then have "a = None" using spec by blast
    then show ?thesis using False D by simp
  qed
qed

section \<open>From a pin of the I/O APIC to a processor\<close>

definition deliver_msg :: "apic_msg \<Rightarrow> lapic list \<Rightarrow> bool \<times> lapic list" where
  "deliver_msg m bus =
     apic_bus_deliver_interrupt (msg_vector m) (msg_dest m) (msg_mode m) (msg_logical m) (msg_trigger m) bus"

definition bus_after :: "apic_msg list \<Rightarrow> lapic list \<Rightarrow> lapic list" where
  "bus_after ms bus = fold (\<lambda>m b. snd (deliver_msg m b)) ms bus"

text \<open>The answers of local APICs that are in the states \<open>bus\<close> after the first \<open>k\<close> messages.\<close>

definition answers :: "nat \<Rightarrow> lapic list \<Rightarrow> apic_msg list \<Rightarrow> apic_msg \<Rightarrow> bool" where
  "answers k bus sent m = fst (deliver_msg m (bus_after (drop k sent) bus))"

lemma service_pin_idle: "\<not> bit (io_irr s) n \<Longrightarrow> service_pin b n s = s"
  by (simp add: service_pin_def)

lemma service_pins_idle: "(\<And>n. n \<in> set ns \<Longrightarrow> \<not> bit (io_irr s) n) \<Longrightarrow> fold (service_pin b) ns s = s"
  by (induction ns) (simp_all add: service_pin_idle)

lemma service_one_pin:
  assumes "n < NUM_PINS" and irr: "\<And>m. bit (io_irr s) m \<Longrightarrow> m = n"
  shows "service_ioapic b s = service_pin b n s"
proof -
  have l: "[0..<NUM_PINS] = [0..<n] @ n # [Suc n..<NUM_PINS]"
    using assms(1) upt_add_eq_append [of 0 n "NUM_PINS - n"] by (simp add: upt_conv_Cons)
  have "fold (service_pin b) [0..<n] s = s" by (rule service_pins_idle) (use irr in force)
  moreover have "fold (service_pin b) [Suc n..<NUM_PINS] (service_pin b n s) = service_pin b n s"
    by (rule service_pins_idle) (use irr in \<open>force simp: service_pin_other\<close>)
  ultimately show ?thesis by (simp add: service_ioapic_def l)
qed

lemma find_id_at:
  "distinct (map apic_id bus) \<Longrightarrow> i < length bus \<Longrightarrow> find_id (apic_id (bus ! i)) k bus = Some (k + i)"
proof (induction bus arbitrary: i k)
  case (Cons s bus)
  then show ?case by (cases i) (force simp: in_set_conv_nth)+
qed simp

lemma deliver_to_id:
  assumes "distinct (map apic_id bus)" and "i < length bus" and "apic_id (bus ! i) = ucast d" and "d \<noteq> 0xff"
  shows "apic_bus_deliver_interrupt v d DM_FIXED False t bus = (True, on_lapic i (trigger_irq v t False) bus)"
proof -
  have m: "(0xff :: u32) = mask 8" by (simp add: mask_eq_exp_minus_1)
  have "(ucast d :: u32) AND 0xff = ucast d"
    unfolding m by (rule bit_word_eqI) (auto simp: bit_simps dest: bit_imp_le_length)
  moreover have "(ucast d :: u32) \<noteq> 0xff"
  proof
    assume "ucast d = (0xff :: u32)"
    then have "ucast (ucast d :: u32) = (ucast (0xff :: u32) :: u8)" by simp
    moreover have "ucast (ucast d :: u32) = d" by (rule bit_word_eqI) (auto simp: bit_simps)
    ultimately show False using assms(4) by simp
  qed
  ultimately show ?thesis
    using find_id_at [OF assms(1,2), of 0] assms(3)
    by (simp add: apic_bus_deliver_interrupt_def DM_FIXED_def DM_LOWPRI_def APIC_ID_MASK_def APIC_MAX_ID_def
        deliver_def [abs_def])
qed

lemma service_one_request:
  assumes n: "n < NUM_PINS" and irr: "io_irr s = push_bit n 1" and e: "e = ioredtbl s n"
    and mask: "\<not> is_masked e" "\<not> trigger_mode e" "delivery_mode e = 0"
    and ans: "b (sent_msgs s) (message (vector e) e)"
  shows "sent_msgs (service_ioapic b s) = sent_msgs s @ [message (vector e) e]" "io_irr (service_ioapic b s) = 0"
proof -
  have bits: "bit (io_irr s) m \<longleftrightarrow> m = n" for m
    using n by (auto simp: irr bit_simps NUM_PINS_def)
  have p: "service_ioapic b s = service_pin b n s" by (rule service_one_pin [OF n]) (simp add: bits)
  have "push_bit n (1 :: u32) AND NOT (push_bit n 1) = 0" by simp
  then show "sent_msgs (service_ioapic b s) = sent_msgs s @ [message (vector e) e]" "io_irr (service_ioapic b s) = 0"
    unfolding p using mask ans bits e irr by (simp_all add: service_pin_def put_entry_def Let_def)
qed

text \<open>
  C9. A rising edge at a pin of the I/O APIC, when no pin has a request pending and the pin's entry is unmasked,
  edge-triggered and sends a legal fixed vector to one processor by its identifier (not 0xff, the broadcast; in any run
  of the local APICs, whose identifiers are distinct). If the vector's class is above the task priority's class and above the class of
  everything that processor has in service, and the vector above everything it has requested, then its line is raised, its
  next acknowledge cycle returns the vector, the pin's request is cleared and no other local APIC changes.
\<close>

theorem pin_interrupts_processor:
  assumes pin: "n < NUM_PINS" "\<not> bit (intin s) n" "io_irr s = 0"
    and e: "e = ioredtbl s n" "\<not> is_masked e" "\<not> trigger_mode e" "delivery_mode e = 0" "\<not> destination_mode e"
      "destination e \<noteq> 0xff"
    and bus: "apic_reach bus" "distinct (map apic_id bus)" "i < length bus" "apic_id (bus ! i) = ucast (destination e)"
    and v: "vector_range (unat (vector e))" "\<forall>w. l_irr (bus ! i) w \<longrightarrow> w < unat (vector e)"
      "tpr (bus ! i) div 16 < unat (vector e) div 16"
      "\<forall>p. l_isr (bus ! i) p \<longrightarrow> p div 16 < unat (vector e) div 16"
    and s': "s' = set_irq_level_io (answers (length (sent_msgs s)) bus) n True s"
    and bus': "bus' = bus_after (drop (length (sent_msgs s)) (sent_msgs s')) bus"
  shows "l_INTR (bus' ! i) \<and> fst (acknowledge_int (bus' ! i)) = vector e \<and> io_irr s' = 0 \<and>
    (\<forall>j < length bus. j \<noteq> i \<longrightarrow> bus' ! j = bus ! j)"
proof -
  let ?m = "message (vector e) e" and ?t = "trigger_irq (vector e) (trigger_mode e) False"
  let ?s = "s\<lparr>intin := intin s OR push_bit n 1, io_irr := push_bit n 1\<rparr>"
  have "apic_bus_deliver_interrupt (vector e) (destination e) DM_FIXED False (trigger_mode e) bus = (True, on_lapic i ?t bus)"
    by (rule deliver_to_id [OF bus(2-4) e(6)])
  then have d: "deliver_msg ?m bus = (True, on_lapic i ?t bus)"
    using e by (simp add: deliver_msg_def message_def DM_FIXED_def)
  then have a: "answers (length (sent_msgs s)) bus (sent_msgs ?s) ?m"
    by (simp add: answers_def bus_after_def)
  have "s' = service_ioapic (answers (length (sent_msgs s)) bus) ?s"
    using pin by (simp add: s' set_irq_level_io_def)
  then have r: "sent_msgs s' = sent_msgs s @ [?m]" "io_irr s' = 0"
    using service_one_request [OF pin(1), of ?s e "answers (length (sent_msgs s)) bus"] e a by simp_all
  then have b: "bus' = on_lapic i ?t bus" by (simp add: bus' bus_after_def d)
  have reach: "apic_reach bus'"
  proof -
    have "bus' = snd (apic_bus_deliver_interrupt (vector e) (destination e) DM_FIXED False (trigger_mode e) bus)"
      unfolding b by (simp add: deliver_to_id [OF bus(2-4) e(6)])
    then show ?thesis using apic_reach.Step [OF bus(1)] apic_step.Message by simp
  qed
  have i: "i < length bus'" "bus' ! i = ?t (bus ! i)" using bus(3) by (simp_all add: b on_lapic_def)
  let ?l = "bus' ! i" and ?v = "unat (vector e)"
  have t: "l_irr ?l = (l_irr (bus ! i))(?v := True)" "l_isr ?l = l_isr (bus ! i)" "tpr ?l = tpr (bus ! i)"
    using v(1,2) unfolding i(2)
    by (auto simp: trigger_irq_def vector_range_def FIRST_VECTOR_def LAST_VECTOR_def tpr_def)
  have dv: "can_deliver ?l ?v" using v(3,4) by (simp add: can_deliver_def t)
  have intr: "l_INTR ?l" by (rule apic_request_signal [OF reach i(1) dv])
  obtain u l where ack: "acknowledge_int ?l = (u, l)" by fastforce
  have "can_deliver ?l (unat u)" "?v \<le> unat u"
    using acknowledge_highest [OF reach i(1) intr ack dv] dv by auto
  moreover have "unat u \<le> ?v" using calculation(1) v(2) by (auto simp: can_deliver_def t split: if_splits intro: less_imp_le)
  ultimately have "u = vector e" by (simp add: word_eq_iff_unsigned [where ?'a = nat])
  then show ?thesis using intr ack r(2) bus(3) by (simp add: b on_lapic_def)
qed

section \<open>The timer\<close>

text \<open>
  The timer of a local APIC: setting the divide configuration and then a count of \<open>n\<close> asks for a
  call after \<open>n * d\<close> ticks of the system, and until then the current count read is \<open>n\<close> less the
  whole multiples of \<open>d\<close> that have passed.
\<close>

theorem apic_timer_counts:
  assumes "(v, d) \<in> set (zip [0, 1, 2, 3, 8, 9, 10, 11] [2, 4, 8, 16, 32, 64, 128, 1])" and "n \<noteq> 0"
    and s': "s' = set_initial_timer_count t0 n (set_divide_configuration v s)"
    and "t0 \<le> t" and "unat t - unat t0 < unat n * d"
  shows "unat (fst (current_count t s')) = unat n - (unat t - unat t0) div d \<and>
    last (cpu_calls s') = Timer_On (word_of_nat (unat n * d)) (bit (lvt s 0) 17) \<and>
    l_panics (snd (current_count t s')) = l_panics s"
proof -
  have f: "unat (timer_divide_factor (set_divide_configuration v s)) = d" and d: "0 < d" "d \<le> 128"
    using assms(1) by (auto simp: set_divide_configuration_def)
  let ?k = "timer_divide_factor s'"
  have k: "unat ?k = d" "timer_active s'" "timer_initial s' = n" "ticksInitial s' = t0" "l_panics s' = l_panics s"
    using f assms(2) by (simp_all add: s' set_initial_timer_count_def Let_def stop_timer_def cpu_call_def
        set_divide_configuration_def)
  have w: "unat (ucast ?k :: u64) = d" using k(1) by (simp add: unat_widen)
  have "unat (t - t0) = unat t - unat t0" using assms(4) by (simp add: unat_sub word_le_nat_alt)
  then have q: "unat ((t - t0) div ucast ?k) = (unat t - unat t0) div d"
    by (simp add: unat_div_distrib w)
  have l: "(unat t - unat t0) div d < unat n" using assms(5) d(1) by (simp add: less_mult_imp_div_less)
  moreover have n32: "unat n < 2 ^ 32" using unsigned_less [of n, where ?'a = nat] by simp
  ultimately have q32: "unat (ucast ((t - t0) div ucast ?k) :: u32) = (unat t - unat t0) div d"
    by (subst unat_narrow) (simp_all add: q)
  have c: "current_count t s' =
      (n - ucast ((t - t0) div ucast ?k), s'\<lparr>timer_current := n - ucast ((t - t0) div ucast ?k)\<rparr>)"
    using l q32 k by (simp add: current_count_def Let_def word_less_nat_alt)
  have "ucast n * ucast ?k = (word_of_nat (unat n * d) :: u64)"
    using w d(2) by (simp add: word_eq_iff_unsigned [where ?'a = nat] unat_word_ariths unat_widen unat_of_nat)
  then have "last (cpu_calls s') = Timer_On (word_of_nat (unat n * d)) (bit (lvt s 0) 17)"
    using assms(2) by (simp add: s' set_initial_timer_count_def Let_def cpu_call_def stop_timer_def set_divide_configuration_def)
  then show ?thesis unfolding c using l q32 k(5) by (simp add: unat_sub word_le_nat_alt)
qed

section \<open>Requests of one class\<close>


section \<open>Witnesses\<close>

definition idle_lapic :: lapic where
  "idle_lapic = lapic_reset \<lparr>base_addr = 0, apic_mode = 2, apic_id = 0, software_enabled = False,
     spurious_vector = 0xff, focus_disable = False, task_priority = 0, ldr = 0, dest_format = 0xf,
     l_isr = (\<lambda>_. False), l_tmr = (\<lambda>_. False), l_irr = (\<lambda>_. False), error_status = 0, shadow_error_status = 0,
     icr_hi = 0, icr_lo = 0, lvt = (\<lambda>_. 0x10000), timer_initial = 0, timer_current = 0, timer_divconf = 0,
     timer_divide_factor = 1, timer_active = False, ticksInitial = 0, l_INTR = False, async_event = False,
     cpu_calls = [], l_panics = []\<rparr>"

lemma idle_lapic_fields [simp]:
  "apic_id idle_lapic = 0" "l_irr idle_lapic v = False" "l_isr idle_lapic v = False" "l_INTR idle_lapic = False"
  "task_priority idle_lapic = 0" "spurious_vector idle_lapic = 0xff" "timer_active idle_lapic = False"
  "lvt idle_lapic i = 0x10000"
  by (simp_all add: idle_lapic_def lapic_reset_def stop_timer_def)

text \<open>One processor: idle, asked for vector 65, and serving it.\<close>

definition asked_lapic :: lapic where
  "asked_lapic = trigger_irq 65 False False idle_lapic"

definition serving_lapic :: lapic where
  "serving_lapic = snd (acknowledge_int asked_lapic)"

lemma idle_reach: "apic_reach [idle_lapic]"
proof -
  have "[idle_lapic] = map lapic_reset [idle_lapic]" by (simp add: idle_lapic_def lapic_reset_def stop_timer_def)
  then show ?thesis using apic_reach.Start by metis
qed

lemma asked_reach: "apic_reach [asked_lapic]"
proof -
  have "[asked_lapic] = snd (apic_bus_deliver_interrupt 65 0 DM_FIXED False False [idle_lapic])"
    by (subst deliver_to_id [of _ 0]) (simp_all add: on_lapic_def asked_lapic_def)
  then show ?thesis using apic_reach.Step [OF idle_reach] apic_step.Message by metis
qed

lemma asked_fields:
  "l_irr asked_lapic = (\<lambda>v. v = 65)" "l_isr asked_lapic v = False" "tpr asked_lapic = 0"
  "spurious_vector asked_lapic = 0xff"
  by (intro ext) (auto simp: asked_lapic_def trigger_irq_def FIRST_VECTOR_def LAST_VECTOR_def tpr_def)

lemma asked_deliverable: "can_deliver asked_lapic v \<longleftrightarrow> v = 65"
  by (auto simp: can_deliver_def asked_fields)

lemma apic_request_is_signalled_witness: "l_INTR asked_lapic"
  using apic_request_is_signalled [OF asked_reach, of 0 65] by (simp add: asked_deliverable)

lemma asked_INTR: "l_INTR asked_lapic"
  using apic_request_signal [OF asked_reach, of 0 65] by (simp add: asked_deliverable)

lemma asked_in_service: "served asked_lapic = []"
  by (simp add: served_def filter_empty_conv asked_fields)

lemma apic_acknowledge_witness:
  "fst (acknowledge_int asked_lapic) = 65 \<and> served serving_lapic = [65]"
proof -
  have "unat (fst (acknowledge_int asked_lapic)) = 65 \<and> served serving_lapic = [65]"
    using apic_acknowledge [OF asked_reach, of 0 "fst (acknowledge_int asked_lapic)" serving_lapic]
    by (auto simp: asked_deliverable asked_INTR asked_in_service serving_lapic_def)
  then show ?thesis by (simp add: word_eq_iff_unsigned [where ?'a = nat])
qed

lemma serving_fields:
  "served serving_lapic = [65]" "l_irr serving_lapic v = False" "tpr serving_lapic = 0"
  "spurious_vector serving_lapic = 0xff"
proof -
  have a: "acknowledge_int asked_lapic = (fst (acknowledge_int asked_lapic), serving_lapic)"
    by (simp add: serving_lapic_def)
  have "served serving_lapic = [65] \<and> l_irr serving_lapic = (\<lambda>v. False)"
    using acknowledge_outcome [of "[asked_lapic]" 0, OF asked_reach] a
    by (auto simp: asked_deliverable asked_INTR asked_in_service asked_fields fun_eq_iff)
  then show "served serving_lapic = [65]" "l_irr serving_lapic v = False" by auto
  show "tpr serving_lapic = 0" "spurious_vector serving_lapic = 0xff"
    using asked_fields by (auto simp: serving_lapic_def acknowledge_int_def Let_def tpr_def asked_INTR split: option.split)
qed

lemma serving_reach: "apic_reach [serving_lapic]"
proof -
  have "apic_step [asked_lapic] (on_lapic 0 (snd \<circ> acknowledge_int) [asked_lapic])"
    by (rule apic_step.Acknowledge) (simp_all add: asked_INTR)
  then show ?thesis using apic_reach.Step [OF asked_reach] by (simp add: on_lapic_def serving_lapic_def)
qed

lemma apic_end_of_interrupt_witness: "served (receive_EOI serving_lapic) = []"
  using apic_end_of_interrupt [OF serving_reach, of 0 65 "[]"] by (simp add: serving_fields)


lemma lowest_priority_arbitration_witness:
  "fst (apic_bus_deliver_interrupt 65 1 DM_LOWPRI True False [idle_lapic, idle_lapic\<lparr>ldr := 1\<rparr>])"
proof -
  have "\<exists>s \<in> set [idle_lapic, idle_lapic\<lparr>ldr := 1\<rparr>]. match_logical_addr 1 s"
    by (simp add: match_logical_addr_def idle_lapic_def lapic_reset_def stop_timer_def)
  then show ?thesis
    using lowest_priority_arbitration [where d = 1 and bus = "[idle_lapic, idle_lapic\<lparr>ldr := 1\<rparr>]" and v = 65 and trig = False]
    by (metis fst_conv)
qed

lemma apic_timer_counts_witness:
  "unat (fst (current_count 5000 (set_initial_timer_count 0 1000 (set_divide_configuration 3 idle_lapic)))) = 688"
  using apic_timer_counts [of 3 16 1000 _ 0 idle_lapic 5000] by simp

definition edge_ioapic :: ioapic where
  "edge_ioapic = quiet_ioapic\<lparr>ioredtbl := (\<lambda>_. \<lparr>hi = 0, lo = 65\<rparr>)\<rparr>"

lemma pin_interrupts_processor_witness:
  "l_INTR (bus_after (sent_msgs (set_irq_level_io (answers 0 [idle_lapic]) 4 True edge_ioapic)) [idle_lapic] ! 0)"
proof -
  let ?e = "\<lparr>hi = 0, lo = 65\<rparr>" and ?s = "set_irq_level_io (answers (length (sent_msgs edge_ioapic)) [idle_lapic]) 4 True edge_ioapic"
  have s: "sent_msgs edge_ioapic = []" "io_irr edge_ioapic = 0" "intin edge_ioapic = 0" "ioredtbl edge_ioapic 4 = ?e"
    by (simp_all add: edge_ioapic_def quiet_ioapic_def)
  have e: "\<not> is_masked ?e" "\<not> trigger_mode ?e" "delivery_mode ?e = 0" "\<not> destination_mode ?e" "destination ?e = 0"
    "unat (vector ?e) = 65"
    by (simp_all add: is_masked_def trigger_mode_def delivery_mode_def destination_mode_def destination_def
        vector_def bit_numeral_rec)
  have "l_INTR (bus_after (drop (length (sent_msgs edge_ioapic)) (sent_msgs ?s)) [idle_lapic] ! 0) \<and>
    fst (acknowledge_int (bus_after (drop (length (sent_msgs edge_ioapic)) (sent_msgs ?s)) [idle_lapic] ! 0)) = vector ?e \<and>
    io_irr ?s = 0 \<and>
    (\<forall>j < length [idle_lapic]. j \<noteq> 0 \<longrightarrow>
       bus_after (drop (length (sent_msgs edge_ioapic)) (sent_msgs ?s)) [idle_lapic] ! j = [idle_lapic] ! j)"
    by (rule pin_interrupts_processor [where e = ?e and n = 4 and s = edge_ioapic, OF _ _ _ _ _ _ _ _ _ idle_reach])
      (simp_all add: s e NUM_PINS_def vector_range_def tpr_def)
  then show ?thesis by (simp add: s)
qed

end
