(* ===== verification/Pit.thy ===== *)
theory Pit
  imports Machine_Prelude
begin

text \<open>
  The 82C54 interval timer (\<^verbatim>\<open>pit_82C54\<close> in \<^verbatim>\<open>src/sim/bochs/iodev/pit82c54.cc\<close>): three counters with
  six modes, binary or BCD, their latches and the two ways the source lets time pass, one clock at a
  time (\<open>clock\<close>) and many at once (\<open>clock_multiple\<close>). What the output pin tells its handler is
  appended to \<open>out_calls\<close>.
\<close>

unbundle bit_operations_syntax

section \<open>State\<close>

datatype rw_status = LSByte | MSByte | LSByte_multiple | MSByte_multiple

record counter =
  GATE :: bool
  OUTpin :: bool
  count :: u32
  outlatch :: u16
  inlatch :: u16
  status_latch :: u8
  rw_mode :: u8
  mode :: u8
  bcd_mode :: bool
  null_count :: bool
  count_LSB_latched :: bool
  count_MSB_latched :: bool
  status_latched :: bool
  count_binary :: u32
  triggerGATE :: bool
  write_state :: rw_status
  read_state :: rw_status
  count_written :: bool
  first_pass :: bool
  state_bit_1 :: bool
  state_bit_2 :: bool
  next_change_time :: u32
  out_handler :: bool          \<comment> \<open>whether a handler is installed\<close>
  out_calls :: "bool list"     \<comment> \<open>the calls of the handler\<close>

record pit82 =
  ctr :: "nat \<Rightarrow> counter"
  controlword :: u8

definition MAX_COUNTER :: nat where "MAX_COUNTER = 2"
definition CONTROL_ADDRESS :: nat where "CONTROL_ADDRESS = 3"

definition on_counter :: "nat \<Rightarrow> (counter \<Rightarrow> counter) \<Rightarrow> pit82 \<Rightarrow> pit82" where
  "on_counter i f p = p\<lparr>ctr := (ctr p)(i := f (ctr p i))\<rparr>"

section \<open>Counting\<close>

definition latch_counter :: "counter \<Rightarrow> counter" where
  "latch_counter c =
     (let latch = c\<lparr>outlatch := ucast (count c AND 0xffff)\<rparr> in
      if count_LSB_latched c \<or> count_MSB_latched c then c
      else case read_state c of
        MSByte \<Rightarrow> latch\<lparr>count_MSB_latched := True\<rparr>
      | LSByte \<Rightarrow> latch\<lparr>count_LSB_latched := True\<rparr>
      | LSByte_multiple \<Rightarrow> latch\<lparr>count_LSB_latched := True, count_MSB_latched := True\<rparr>
      | MSByte_multiple \<Rightarrow>
          latch\<lparr>read_state := LSByte_multiple, count_LSB_latched := True, count_MSB_latched := True\<rparr>)"

definition set_OUT :: "bool \<Rightarrow> counter \<Rightarrow> counter" where
  "set_OUT v c =
     (if OUTpin c \<noteq> v
      then c\<lparr>OUTpin := v, out_calls := (if out_handler c then out_calls c @ [v] else out_calls c)\<rparr>
      else c)"

definition bcd_of :: "u32 \<Rightarrow> u32" where
  "bcd_of n = ((n div 1) mod 10) OR push_bit 4 ((n div 10) mod 10) OR
              push_bit 8 ((n div 100) mod 10) OR push_bit 12 ((n div 1000) mod 10)"

definition of_bcd :: "u32 \<Rightarrow> u32" where
  "of_bcd n = 1 * (n AND 0xf) + 10 * (drop_bit 4 n AND 0xf) +
              100 * (drop_bit 8 n AND 0xf) + 1000 * (drop_bit 12 n AND 0xf)"

definition set_count_to_binary :: "counter \<Rightarrow> counter" where
  "set_count_to_binary c = c\<lparr>count := (if bcd_mode c then bcd_of (count_binary c) else count_binary c)\<rparr>"

definition set_binary_to_count :: "counter \<Rightarrow> counter" where
  "set_binary_to_count c = c\<lparr>count_binary := (if bcd_mode c then of_bcd (count c) else count c)\<rparr>"

definition set_count :: "u32 \<Rightarrow> counter \<Rightarrow> counter" where
  "set_count v c = set_binary_to_count (c\<lparr>count := v AND 0xffff\<rparr>)"

definition decrement :: "counter \<Rightarrow> counter" where
  "decrement c =
     (if count c = 0
      then (if bcd_mode c then c\<lparr>count := 0x9999, count_binary := 9999\<rparr>
            else c\<lparr>count := 0xffff, count_binary := 0xffff\<rparr>)
      else set_count_to_binary (c\<lparr>count_binary := count_binary c - 1\<rparr>))"

function decrement_multiple :: "counter \<Rightarrow> u32 \<Rightarrow> counter" where
  "decrement_multiple c cycles =
     (if cycles = 0 then c
      else if cycles \<le> count_binary c
      then set_count_to_binary (c\<lparr>count_binary := count_binary c - cycles\<rparr>)
      else decrement_multiple (decrement (set_count_to_binary (c\<lparr>count_binary := 0\<rparr>)))
             (cycles - (count_binary c + 1)))"
  by pat_completeness auto
termination
proof (relation "measure (\<lambda>(c, n). unat n)")
  fix c :: counter and n :: u32
  assume "\<not> n \<le> count_binary c"
  then have l: "unat (count_binary c) < unat n" by (simp add: word_le_nat_alt)
  then have "unat (count_binary c + 1) = unat (count_binary c) + 1"
    using unsigned_less [of n, where ?'a = nat] by (simp add: unat_word_ariths)
  with l show "((decrement (set_count_to_binary (c\<lparr>count_binary := 0\<rparr>)), n - (count_binary c + 1)), c, n)
             \<in> measure (\<lambda>(c, n). unat n)"
    by (simp add: unat_sub word_le_nat_alt)
qed simp

declare decrement_multiple.simps [simp del]

text \<open>How many counts a clock takes off: the square wave counts by two.\<close>

definition counts :: "counter \<Rightarrow> u32 \<Rightarrow> u32" where
  "counts c n = (if mode c = 3 then n * 2 else n)"

section \<open>One clock\<close>

text \<open>Until the next event: at least one clock, as a count of zero stands for the largest one.\<close>

definition clocks_left :: "u32 \<Rightarrow> u32" where
  "clocks_left n = (if n = 0 then 1 else n AND 0xffff)"

definition load :: "counter \<Rightarrow> counter" where
  "load c = (set_count (ucast (inlatch c)) c)\<lparr>null_count := False\<rparr>"

definition counting :: "counter \<Rightarrow> bool" where
  "counting c = (GATE c \<and> write_state c \<noteq> MSByte_multiple)"

definition clock_0 :: "counter \<Rightarrow> counter" where
  "clock_0 c =
     (if \<not> count_written c then c\<lparr>next_change_time := 0\<rparr>
      else if null_count c then
        let c1 = load c in c1\<lparr>next_change_time := (if GATE c1 then clocks_left (count_binary c1) else 0)\<rparr>
      else if \<not> counting c then c\<lparr>next_change_time := 0\<rparr>
      else
        let c1 = decrement c in
        if OUTpin c1 then c1\<lparr>next_change_time := 0\<rparr>
        else let c2 = c1\<lparr>next_change_time := count_binary c1 AND 0xffff\<rparr> in
             if count c2 = 0 then set_OUT True c2 else c2)"

definition clock_1 :: "counter \<Rightarrow> counter" where
  "clock_1 c =
     (if \<not> count_written c then c\<lparr>next_change_time := 0\<rparr>
      else if triggerGATE c then
        let c1 = load c in set_OUT False (c1\<lparr>next_change_time := clocks_left (count_binary c1)\<rparr>)
      else
        let c1 = decrement c in
        if OUTpin c1 then c1\<lparr>next_change_time := 0\<rparr>
        else let c2 = c1\<lparr>next_change_time := clocks_left (count_binary c1)\<rparr> in
             if count c2 = 0 then set_OUT True c2 else c2)"

definition clock_2 :: "counter \<Rightarrow> counter" where
  "clock_2 c =
     (if \<not> count_written c then c\<lparr>next_change_time := 0\<rparr>
      else if triggerGATE c \<or> first_pass c then
        let c1 = load c in
        (set_OUT True (c1\<lparr>next_change_time := (count_binary c1 - 1) AND 0xffff\<rparr>))\<lparr>first_pass := False\<rparr>
      else if \<not> GATE c then c\<lparr>next_change_time := 0\<rparr>
      else
        let c1 = decrement c; c2 = c1\<lparr>next_change_time := (count_binary c1 - 1) AND 0xffff\<rparr> in
        if count c2 = 1 then (set_OUT False (c2\<lparr>next_change_time := 1\<rparr>))\<lparr>first_pass := True\<rparr> else c2)"

definition clock_3 :: "counter \<Rightarrow> counter" where
  "clock_3 c =
     (if \<not> count_written c then c\<lparr>next_change_time := 0\<rparr>
      else if (triggerGATE c \<or> first_pass c \<or> state_bit_2 c) \<and> GATE c then
        let c1 = (set_count (ucast (inlatch c) AND 0xfffe) c)\<lparr>state_bit_1 := bit (inlatch c) 0\<rparr>;
            half = (if \<not> OUTpin c1 \<or> \<not> state_bit_1 c1 then count_binary c1 div 2 - 1 else count_binary c1 div 2);
            c2 = c1\<lparr>next_change_time := clocks_left half, null_count := False\<rparr>;
            c3 = (if \<not> OUTpin c2 then set_OUT True c2
                  else if \<not> first_pass c2 then set_OUT False c2 else c2)
        in c3\<lparr>state_bit_2 := False, first_pass := False\<rparr>
      else if \<not> GATE c then c\<lparr>next_change_time := 0\<rparr>
      else
        let c1 = decrement (decrement c);
            low = (\<not> OUTpin c1 \<or> \<not> state_bit_1 c1);
            c2 = c1\<lparr>next_change_time :=
                      (if low then count_binary c1 div 2 - 1 else count_binary c1 div 2) AND 0xffff\<rparr>;
            c3 = (if count c2 = 0 then c2\<lparr>state_bit_2 := True, next_change_time := 1\<rparr> else c2)
        in if count c3 = 2 \<and> low then c3\<lparr>state_bit_2 := True, next_change_time := 1\<rparr> else c3)"

definition clock_4 :: "counter \<Rightarrow> counter" where
  "clock_4 c0 =
     (if \<not> count_written c0 then c0\<lparr>next_change_time := 0\<rparr>
      else
        let c = set_OUT True c0 in
        if null_count c then
          let c1 = (set_count (ucast (inlatch c)) c) in
          c1\<lparr>next_change_time := (if GATE c1 then clocks_left (count_binary c1) else 0),
             null_count := False, first_pass := True\<rparr>
        else if \<not> GATE c then c\<lparr>next_change_time := 0\<rparr>
        else
          let c1 = decrement c in
          if \<not> first_pass c1 then c1\<lparr>next_change_time := 0\<rparr>
          else let c2 = c1\<lparr>next_change_time := count_binary c1 AND 0xffff\<rparr> in
               if count c2 = 0 then (set_OUT False c2)\<lparr>next_change_time := 1, first_pass := False\<rparr> else c2)"

definition clock_5 :: "counter \<Rightarrow> counter" where
  "clock_5 c0 =
     (if \<not> count_written c0 then c0\<lparr>next_change_time := 0\<rparr>
      else
        let c = set_OUT True c0 in
        if triggerGATE c then
          let c1 = set_count (ucast (inlatch c)) c in
          c1\<lparr>next_change_time := clocks_left (count_binary c1), null_count := False, first_pass := True\<rparr>
        else
          let c1 = decrement c in
          if \<not> first_pass c1 then c1\<lparr>next_change_time := 0\<rparr>
          else let c2 = c1\<lparr>next_change_time := count_binary c1 AND 0xffff\<rparr> in
               if count c2 = 0 then (set_OUT False c2)\<lparr>next_change_time := 1, first_pass := False\<rparr> else c2)"

text \<open>The two modes without a case of their own only log an error.\<close>

definition clock :: "counter \<Rightarrow> counter" where
  "clock c =
     (if mode c = 0 then clock_0 c else if mode c = 1 then clock_1 c else if mode c = 2 then clock_2 c
      else if mode c = 3 then clock_3 c else if mode c = 4 then clock_4 c else if mode c = 5 then clock_5 c
      else c\<lparr>next_change_time := 0\<rparr>)\<lparr>triggerGATE := False\<rparr>"

section \<open>Many clocks\<close>

text \<open>
  Without an event to come the counter at most counts on; with one, it counts to the clock before
  the event and takes that clock by itself.
\<close>

definition counts_on :: "counter \<Rightarrow> bool" where
  "counts_on c =
     (if mode c = 0 then counting c
      else if mode c = 1 \<or> mode c = 5 then True
      else if mode c = 2 \<or> mode c = 3 then \<not> first_pass c \<and> GATE c
      else mode c = 4 \<and> GATE c)"

function clock_multiple :: "counter \<Rightarrow> u32 \<Rightarrow> counter" where
  "clock_multiple c cycles =
     (if cycles = 0 then c
      else if next_change_time c = 0 then
        if count_written c \<and> counts_on c then decrement_multiple c (counts c cycles) else c
      else if 5 < mode c then c
      else if cycles < next_change_time c then
        (decrement_multiple c (counts c cycles))\<lparr>next_change_time := next_change_time c - cycles\<rparr>
      else clock_multiple (clock (decrement_multiple c (counts c (next_change_time c - 1))))
             (cycles - next_change_time c))"
  by pat_completeness auto
termination
  by (relation "measure (\<lambda>(c, n). unat n)")
    (auto simp: unat_sub word_le_nat_alt unat_gt_0 not_less intro!: diff_less)

declare clock_multiple.simps [simp del]

section \<open>The whole timer\<close>

definition init_counter :: "counter \<Rightarrow> counter" where
  "init_counter c = c\<lparr>read_state := LSByte, write_state := LSByte, GATE := True, OUTpin := True,
     triggerGATE := False, mode := 4, first_pass := False, bcd_mode := False, count := 0, count_binary := 0,
     state_bit_1 := False, state_bit_2 := False, null_count := False, rw_mode := 1, count_written := True,
     count_LSB_latched := False, count_MSB_latched := False, status_latched := False,
     next_change_time := 0, out_handler := False\<rparr>"

definition pit_init :: "pit82 \<Rightarrow> pit82" where
  "pit_init p = fold (\<lambda>i. on_counter i init_counter) [0..<3] p"

definition set_OUT_handler :: "nat \<Rightarrow> pit82 \<Rightarrow> pit82" where
  "set_OUT_handler i = on_counter i (\<lambda>c. c\<lparr>out_handler := True\<rparr>)"

definition pit_clock_multiple :: "nat \<Rightarrow> u32 \<Rightarrow> pit82 \<Rightarrow> pit82" where
  "pit_clock_multiple i cycles p =
     (if MAX_COUNTER < i then p else on_counter i (\<lambda>c. clock_multiple c cycles) p)"

definition clock_all :: "u32 \<Rightarrow> pit82 \<Rightarrow> pit82" where
  "clock_all cycles p =
     pit_clock_multiple 2 cycles (pit_clock_multiple 1 cycles (pit_clock_multiple 0 cycles p))"

section \<open>Reading\<close>

definition low_byte :: "u32 \<Rightarrow> u8" where "low_byte w = ucast (w AND 0xff)"
definition high_byte :: "u32 \<Rightarrow> u8" where "high_byte w = ucast (drop_bit 8 w AND 0xff)"

definition read_latch :: "counter \<Rightarrow> u8 \<times> counter" where
  "read_latch c =
     (if count_LSB_latched c then
        (low_byte (ucast (outlatch c)),
         c\<lparr>read_state := (if read_state c = LSByte_multiple then MSByte_multiple else read_state c),
           count_LSB_latched := False\<rparr>)
      else
        (high_byte (ucast (outlatch c)),
         c\<lparr>read_state := (if read_state c = MSByte_multiple then LSByte_multiple else read_state c),
           count_MSB_latched := False\<rparr>))"

definition read_count :: "counter \<Rightarrow> u8 \<times> counter" where
  "read_count c =
     (case read_state c of
        LSByte \<Rightarrow> (low_byte (count c), c)
      | LSByte_multiple \<Rightarrow> (low_byte (count c), c\<lparr>read_state := MSByte_multiple\<rparr>)
      | MSByte \<Rightarrow> (high_byte (count c), c)
      | MSByte_multiple \<Rightarrow> (high_byte (count c), c\<lparr>read_state := LSByte_multiple\<rparr>))"

definition counter_read :: "counter \<Rightarrow> u8 \<times> counter" where
  "counter_read c =
     (if status_latched c then
        if count_MSB_latched c \<and> read_state c = MSByte_multiple then (0, c)
        else (status_latch c, c\<lparr>status_latched := False\<rparr>)
      else if count_LSB_latched c \<or> count_MSB_latched c then read_latch c
      else read_count c)"

definition pit_chip_read :: "nat \<Rightarrow> pit82 \<Rightarrow> u8 \<times> pit82" where
  "pit_chip_read address p =
     (if CONTROL_ADDRESS \<le> address then (0, p)
      else let (v, c) = counter_read (ctr p address) in (v, on_counter address (\<lambda>_. c) p))"

section \<open>Writing\<close>

definition status_byte :: "counter \<Rightarrow> u8" where
  "status_byte c = push_bit 7 (of_bool (OUTpin c)) OR push_bit 6 (of_bool (null_count c)) OR
     push_bit 4 (rw_mode c AND 0x3) OR push_bit 1 (mode c AND 0x7) OR of_bool (bcd_mode c)"

definition latch_status :: "counter \<Rightarrow> counter" where
  "latch_status c = (if status_latched c then c else c\<lparr>status_latch := status_byte c, status_latched := True\<rparr>)"

definition read_back :: "u8 \<Rightarrow> counter \<Rightarrow> counter" where
  "read_back w c =
     (let c1 = (if \<not> bit w 5 then latch_counter c else c) in if \<not> bit w 4 then latch_status c1 else c1)"

definition program_counter :: "u8 \<Rightarrow> u8 \<Rightarrow> bool \<Rightarrow> counter \<Rightarrow> counter" where
  "program_counter rw m bcd c =
     (let c1 = c\<lparr>null_count := True, count_LSB_latched := False, count_MSB_latched := False,
                 status_latched := False, inlatch := 0, count_written := False, first_pass := True,
                 rw_mode := rw, bcd_mode := bcd, mode := m\<rparr>;
          c2 = (if rw = 1 then c1\<lparr>read_state := LSByte, write_state := LSByte\<rparr>
                else if rw = 2 then c1\<lparr>read_state := MSByte, write_state := MSByte\<rparr>
                else if rw = 3 then c1\<lparr>read_state := LSByte_multiple, write_state := LSByte_multiple\<rparr>
                else c1)
      in (set_OUT (m \<noteq> 0) c2)\<lparr>next_change_time := 0\<rparr>)"

definition control_write :: "u8 \<Rightarrow> pit82 \<Rightarrow> pit82" where
  "control_write w p0 =
     (let p = p0\<lparr>controlword := w\<rparr>;
          SC = unat (drop_bit 6 w AND 0x3); RW = drop_bit 4 w AND 0x3; M = drop_bit 1 w AND 0x7; BCD = w AND 0x1
      in if SC = 3 then fold (\<lambda>i p. if bit M i then on_counter i (read_back w) p else p) [0..<Suc MAX_COUNTER] p
         else if RW = 0 then on_counter SC latch_counter p
         else on_counter SC (program_counter RW M (0 < BCD)) p)"

definition load_inlatch :: "u8 \<Rightarrow> counter \<Rightarrow> counter" where
  "load_inlatch v c =
     (case write_state c of
        LSByte_multiple \<Rightarrow> c\<lparr>inlatch := ucast v, write_state := MSByte_multiple\<rparr>
      | LSByte \<Rightarrow> c\<lparr>inlatch := ucast v, count_written := True\<rparr>
      | MSByte_multiple \<Rightarrow>
          c\<lparr>write_state := LSByte_multiple, inlatch := inlatch c OR push_bit 8 (ucast v), count_written := True\<rparr>
      | MSByte \<Rightarrow> c\<lparr>inlatch := push_bit 8 (ucast v), count_written := True\<rparr>)"

definition write_counter :: "u8 \<Rightarrow> counter \<Rightarrow> counter" where
  "write_counter v c0 =
     (let c1 = load_inlatch v c0;
          c2 = (if count_written c1 \<and> write_state c1 \<noteq> MSByte_multiple
                then set_count (ucast (inlatch c1)) (c1\<lparr>null_count := True\<rparr>) else c1)
      in if mode c2 = 0 then
           (if write_state c2 = MSByte_multiple then set_OUT False c2 else c2)\<lparr>next_change_time := 1\<rparr>
         else if mode c2 = 1 \<or> mode c2 = 5 then
           if triggerGATE c2 then c2\<lparr>next_change_time := 1\<rparr> else c2
         else if mode c2 \<le> 7 then c2\<lparr>next_change_time := 1\<rparr>
         else c2)"

definition pit_chip_write :: "nat \<Rightarrow> u8 \<Rightarrow> pit82 \<Rightarrow> pit82" where
  "pit_chip_write address v p =
     (if CONTROL_ADDRESS < address then p
      else if address = CONTROL_ADDRESS then control_write v p
      else on_counter address (write_counter v) p)"

section \<open>The gates and the pins\<close>

definition gate_0 :: "bool \<Rightarrow> counter \<Rightarrow> u32" where
  "gate_0 v c =
     (if v \<and> count_written c then
        if null_count c then 1
        else if \<not> OUTpin c \<and> write_state c \<noteq> MSByte_multiple then clocks_left (count_binary c) else 0
      else if null_count c then 1 else 0)"

definition gate_4 :: "bool \<Rightarrow> counter \<Rightarrow> u32" where
  "gate_4 v c =
     (if \<not> OUTpin c \<or> null_count c then 1
      else if v \<and> count_written c then if first_pass c then clocks_left (count_binary c) else 0
      else 0)"

definition counter_gate :: "bool \<Rightarrow> counter \<Rightarrow> counter" where
  "counter_gate v c0 =
     (if GATE c0 = v then c0
      else
        let c = c0\<lparr>GATE := v, triggerGATE := (v \<or> triggerGATE c0)\<rparr> in
        if mode c = 0 then c\<lparr>next_change_time := gate_0 v c\<rparr>
        else if mode c = 1 \<or> mode c = 5 then if v \<and> count_written c then c\<lparr>next_change_time := 1\<rparr> else c
        else if mode c = 2 then
          (if \<not> v then set_OUT True c else c)\<lparr>next_change_time := of_bool (v \<and> count_written c)\<rparr>
        else if mode c = 3 then
          (if \<not> v then (set_OUT True c)\<lparr>first_pass := True\<rparr> else c)
            \<lparr>next_change_time := of_bool (v \<and> count_written c)\<rparr>
        else if mode c = 4 then c\<lparr>next_change_time := gate_4 v c\<rparr>
        else c)"

definition set_GATE :: "nat \<Rightarrow> bool \<Rightarrow> pit82 \<Rightarrow> pit82" where
  "set_GATE i v p = (if MAX_COUNTER < i then p else on_counter i (counter_gate v) p)"

definition read_OUT :: "nat \<Rightarrow> pit82 \<Rightarrow> bool" where
  "read_OUT i p = (i \<le> MAX_COUNTER \<and> OUTpin (ctr p i))"

definition read_GATE :: "nat \<Rightarrow> pit82 \<Rightarrow> bool" where
  "read_GATE i p = (i \<le> MAX_COUNTER \<and> GATE (ctr p i))"

definition get_clock_event_time :: "nat \<Rightarrow> pit82 \<Rightarrow> u32" where
  "get_clock_event_time i p = (if MAX_COUNTER < i then 0 else next_change_time (ctr p i))"

definition get_next_event_time :: "pit82 \<Rightarrow> u32" where
  "get_next_event_time p =
     (let time0 = get_clock_event_time 0 p; time1 = get_clock_event_time 1 p; time2 = get_clock_event_time 2 p;
          out1 = (if time1 \<noteq> 0 \<and> time1 < time0 then time1 else time0)
      in if time2 \<noteq> 0 \<and> time2 < out1 then time2 else out1)"

definition get_inlatch :: "nat \<Rightarrow> pit82 \<Rightarrow> u16" where
  "get_inlatch i p = inlatch (ctr p i)"

end
