(* ===== verification/Pit_Count.thy ===== *)
theory Pit_Count
  imports Pit
begin
text \<open>
  The counter of the 82C54 as a number: binary and BCD counts, counting down modulo 65536 or 10000,
  many counts at once, loading from the latch, and when the next event of a counter is due.
\<close>

unbundle bit_operations_syntax

section \<open>Binary coded decimals\<close>

lemma bit_digit: "bit d n \<Longrightarrow> (d :: u32) < 16 \<Longrightarrow> n < 4"
proof (rule ccontr)
  assume d: "bit d n" "d < 16" and n: "\<not> n < 4"
  have "take_bit 4 d = d"
    using d(2) by (simp add: take_bit_eq_mod word_less_nat_alt word_eq_iff_unsigned [where ?'a = nat] unat_mod_distrib)
  then have "bit (take_bit 4 d) n" using d(1) by simp
  with n show False by (simp add: bit_take_bit_iff)
qed

lemma digit_less: "(x :: u32) mod 10 < 16"
  by (rule less_trans [OF word_mod_less_divisor]) simp_all

lemma of_bcd_digits:
  fixes a b c d :: u32
  assumes "a < 16" "b < 16" "c < 16" "d < 16"
  shows "of_bcd (a OR push_bit 4 b OR push_bit 8 c OR push_bit 12 d) = a + 10 * b + 100 * c + 1000 * d"
proof -
  let ?w = "a OR push_bit 4 b OR push_bit 8 c OR push_bit 12 d"
  have f: "0xf = (mask 4 :: u32)" by (simp add: mask_eq_exp_minus_1)
  note bits = bit_digit [OF _ assms(1)] bit_digit [OF _ assms(2)] bit_digit [OF _ assms(3)] bit_digit [OF _ assms(4)]
  have "?w AND 0xf = a" unfolding f by (rule bit_word_eqI) (auto simp: bit_simps dest: bits)
  moreover have "drop_bit 4 ?w AND 0xf = b" unfolding f
    by (rule bit_word_eqI) (auto simp: bit_simps add.commute dest: bits)
  moreover have "drop_bit 8 ?w AND 0xf = c" unfolding f
    by (rule bit_word_eqI) (auto simp: bit_simps add.commute dest: bits)
  moreover have "drop_bit 12 ?w AND 0xf = d" unfolding f
    by (rule bit_word_eqI) (auto simp: bit_simps add.commute dest: bits)
  ultimately show ?thesis by (simp add: of_bcd_def)
qed

lemma of_bcd_of: "n < 10000 \<Longrightarrow> of_bcd (bcd_of n) = n"
proof -
  assume n: "n < 10000"
  define m where "m = unat n"
  have m: "m < 10000" and nm: "n = word_of_nat m" using n by (simp_all add: m_def word_less_nat_alt)
  have "of_bcd (bcd_of n) = n mod 10 + 10 * (n div 10 mod 10) + 100 * (n div 100 mod 10) + 1000 * (n div 1000 mod 10)"
    unfolding bcd_of_def by (simp add: of_bcd_digits digit_less)
  also have "\<dots> = word_of_nat (m mod 10 + 10 * (m div 10 mod 10) + 100 * (m div 100 mod 10) + 1000 * (m div 1000 mod 10))"
  proof -
    have d: "(n div k) mod 10 = word_of_nat (m div unat k mod 10)" for k
      using of_nat_unat [of "n div k mod 10", where ?'a = "32 word"]
      by (simp add: unat_mod_distrib unat_div_distrib m_def)
    from d [of 1] d [of 10] d [of 100] d [of 1000] show ?thesis by simp
  qed
  also have "m mod 10 + 10 * (m div 10 mod 10) + 100 * (m div 100 mod 10) + 1000 * (m div 1000 mod 10) = m"
  proof -
    define q where "q = m div 10"
    define r where "r = q div 10"
    define u where "u = r div 10"
    have e: "m div 100 = r" "m div 1000 = u" unfolding u_def r_def q_def by (simp_all flip: div_mult2_eq)
    have "u mod 10 = u" using m unfolding u_def r_def q_def by (simp flip: div_mult2_eq)
    moreover have "m = 10 * q + m mod 10" "q = 10 * r + q mod 10" "r = 10 * u + r mod 10"
      unfolding q_def r_def u_def by simp_all
    ultimately show ?thesis unfolding q_def [symmetric] e by linarith
  qed
  finally show ?thesis by (simp add: nm)
qed


section \<open>The counter as a number\<close>

definition modulus :: "counter \<Rightarrow> nat" where
  "modulus c = (if bcd_mode c then 10000 else 65536)"

definition count_ok :: "counter \<Rightarrow> bool" where
  "count_ok c \<longleftrightarrow> unat (count_binary c) < modulus c \<and>
     count c = (if bcd_mode c then bcd_of (count_binary c) else count_binary c)"

definition latch_ok :: "counter \<Rightarrow> bool" where
  "latch_ok c \<longleftrightarrow> (bcd_mode c \<longrightarrow>
     of_bcd (ucast (inlatch c)) < 10000 \<and> bcd_of (of_bcd (ucast (inlatch c))) = ucast (inlatch c))"

lemma count_eq_iff:
  assumes "count_ok c"
  shows "count c = 0 \<longleftrightarrow> count_binary c = 0" "count c = 1 \<longleftrightarrow> count_binary c = 1" "count c = 2 \<longleftrightarrow> count_binary c = 2"
proof -
  have k: "bcd_of 0 = 0" "bcd_of 1 = 1" "bcd_of 2 = 2" by (simp_all add: bcd_of_def)
  have c: "count c = (if bcd_mode c then bcd_of (count_binary c) else count_binary c)"
    using assms by (simp add: count_ok_def)
  have inj: "bcd_of (count_binary c) = bcd_of n \<longleftrightarrow> count_binary c = n" if "n < 10000" "bcd_mode c" for n
  proof -
    have "count_binary c < 10000" using assms that(2) by (simp add: count_ok_def modulus_def word_less_nat_alt)
    then show ?thesis using of_bcd_of that(1) by metis
  qed
  show "count c = 0 \<longleftrightarrow> count_binary c = 0" "count c = 1 \<longleftrightarrow> count_binary c = 1" "count c = 2 \<longleftrightarrow> count_binary c = 2"
    using inj [of 0, unfolded k] inj [of 1, unfolded k] inj [of 2, unfolded k] unfolding c by simp_all
qed

lemma decrement_fields [simp]:
  "mode (decrement c) = mode c" "GATE (decrement c) = GATE c" "OUTpin (decrement c) = OUTpin c"
  "bcd_mode (decrement c) = bcd_mode c" "null_count (decrement c) = null_count c"
  "inlatch (decrement c) = inlatch c" "triggerGATE (decrement c) = triggerGATE c"
  "write_state (decrement c) = write_state c" "count_written (decrement c) = count_written c"
  "first_pass (decrement c) = first_pass c" "state_bit_1 (decrement c) = state_bit_1 c"
  "state_bit_2 (decrement c) = state_bit_2 c" "next_change_time (decrement c) = next_change_time c"
  "out_handler (decrement c) = out_handler c" "out_calls (decrement c) = out_calls c"
  "modulus (decrement c) = modulus c" "latch_ok (decrement c) = latch_ok c" "counting (decrement c) = counting c"
  by (simp_all add: decrement_def set_count_to_binary_def modulus_def latch_ok_def counting_def)

lemma decrement_next [simp]: "decrement (c\<lparr>next_change_time := t\<rparr>) = (decrement c)\<lparr>next_change_time := t\<rparr>"
  by (simp add: decrement_def set_count_to_binary_def)

lemma decrement_value:
  assumes "count_ok c"
  shows "unat (count_binary (decrement c)) =
           (if count_binary c = 0 then modulus c - 1 else unat (count_binary c) - 1)"
    and "count_ok (decrement c)"
proof -
  have m: "bcd_of 9999 = 0x9999" by (simp add: bcd_of_def)
  have s: "unat (count_binary c - 1) = unat (count_binary c) - 1" if "count_binary c \<noteq> 0"
    using that by (simp add: unat_sub word_le_nat_alt unat_gt_0 Suc_le_eq)
  show "unat (count_binary (decrement c)) =
           (if count_binary c = 0 then modulus c - 1 else unat (count_binary c) - 1)"
    using assms s by (auto simp: decrement_def count_eq_iff set_count_to_binary_def modulus_def)
  show "count_ok (decrement c)"
    using assms s [unfolded One_nat_def] m count_eq_iff(1) [OF assms]
    by (auto simp: decrement_def set_count_to_binary_def modulus_def count_ok_def)
qed


lemma count_ok_next [simp]: "count_ok (c\<lparr>next_change_time := t\<rparr>) = count_ok c"
  by (simp add: count_ok_def modulus_def)

text \<open>Counting down without passing zero.\<close>

lemma decrement_down:
  assumes "count_ok c" and "n \<le> unat (count_binary c)"
  shows "(decrement ^^ n) c = set_count_to_binary (c\<lparr>count_binary := count_binary c - word_of_nat n\<rparr>)"
  using assms(2)
proof (induction n)
  case 0
  then show ?case using assms(1) by (simp add: set_count_to_binary_def count_ok_def)
next
  case (Suc n)
  let ?c = "set_count_to_binary (c\<lparr>count_binary := count_binary c - word_of_nat n\<rparr>)"
  have lt: "n < unat (count_binary c)" using Suc.prems by simp
  then have n: "unat (word_of_nat n :: u32) = n"
    using unsigned_less [of "count_binary c", where ?'a = nat] by (simp add: unat_of_nat)
  then have u: "unat (count_binary c - word_of_nat n) = unat (count_binary c) - n"
    using lt by (simp add: unat_sub word_le_nat_alt)
  then have ok: "count_ok ?c"
    using assms(1) lt by (auto simp: count_ok_def set_count_to_binary_def modulus_def)
  have "count_binary ?c \<noteq> 0" using u lt by (auto simp: set_count_to_binary_def)
  then have "count ?c \<noteq> 0" using count_eq_iff(1) [OF ok] by simp
  then have "decrement ?c = set_count_to_binary (?c\<lparr>count_binary := count_binary ?c - 1\<rparr>)"
    by (simp add: decrement_def)
  then show ?case using Suc.IH lt by (simp add: set_count_to_binary_def algebra_simps)
qed

lemma decrement_pow_ok: "count_ok c \<Longrightarrow> count_ok ((decrement ^^ n) c)"
  by (induction n) (simp_all add: decrement_value)

theorem decrement_multiple_is_iterated: "count_ok c \<Longrightarrow> decrement_multiple c n = (decrement ^^ unat n) c"
proof (induction c n rule: decrement_multiple.induct)
  case (1 c n)
  note [simp] = decrement_multiple.simps [of c n]
  consider "n = 0" | "n \<noteq> 0" "n \<le> count_binary c" | "n \<noteq> 0" "\<not> n \<le> count_binary c" by blast
  then show ?case
  proof cases
    case 2
    then show ?thesis using decrement_down [OF "1.prems", of "unat n"] by (simp add: word_le_nat_alt)
  next
    case 3
    let ?v = "unat (count_binary c)" and ?z = "set_count_to_binary (c\<lparr>count_binary := 0\<rparr>)"
    have z: "(decrement ^^ ?v) c = ?z" using decrement_down [OF "1.prems", of ?v] by simp
    have less: "?v < unat n" using 3 by (simp add: word_le_nat_alt)
    then have "unat (count_binary c + 1) = ?v + 1"
      using unsigned_less [of n, where ?'a = nat] by (simp add: unat_word_ariths)
    then have u: "unat (n - (count_binary c + 1)) = unat n - (?v + 1)"
      using less by (simp add: unat_sub word_le_nat_alt)
    have "decrement_multiple c n = (decrement ^^ (unat n - (?v + 1))) (decrement ?z)"
      using "1.IH" [OF 3] decrement_pow_ok [OF "1.prems", of "Suc ?v"] 3 u z by simp
    also have "\<dots> = (decrement ^^ (unat n - (?v + 1) + (?v + 1))) c"
      unfolding funpow_add using z by (simp add: funpow_swap1 [symmetric])
    finally show ?thesis using less by simp
  qed (simp add: decrement_multiple.simps)
qed


section \<open>When an event is due\<close>

text \<open>
  What \<open>next_change_time\<close> means: 0 when clocks only count, 1 when the next clock does more, and more
  when so many clocks less one only count. \<open>due\<close> says when the recorded time is right, mode by mode.
  Left out are the combinations for which the source gets it wrong: a count of 1, or of zero in BCD,
  and a low gate on a fresh count for the rate generator; odd counts and zero for the square wave; a
  half written count taken up by mode 0.
\<close>

definition due_0 :: "counter \<Rightarrow> bool" where
  "due_0 c \<longleftrightarrow> (null_count c \<longrightarrow> next_change_time c = 1 \<and> write_state c \<noteq> MSByte_multiple \<and> \<not> OUTpin c) \<and>
     (next_change_time c = 0 \<longrightarrow> \<not> counting c \<or> OUTpin c) \<and>
     (1 < next_change_time c \<longrightarrow> counting c \<and> \<not> OUTpin c \<and> count_binary c = next_change_time c)"

definition due_1 :: "counter \<Rightarrow> bool" where
  "due_1 c \<longleftrightarrow> (next_change_time c = 0 \<longrightarrow> OUTpin c) \<and>
     (1 < next_change_time c \<longrightarrow> \<not> OUTpin c \<and> count_binary c = next_change_time c)"

definition due_2 :: "counter \<Rightarrow> bool" where
  "due_2 c \<longleftrightarrow> inlatch c \<noteq> 1 \<and> (bcd_mode c \<longrightarrow> inlatch c \<noteq> 0) \<and>
     (GATE c \<or> \<not> first_pass c \<and> \<not> triggerGATE c) \<and> (next_change_time c = 0 \<longrightarrow> \<not> GATE c) \<and>
     (next_change_time c = 1 \<longrightarrow> first_pass c \<or> triggerGATE c \<or> count_binary c \<noteq> 1) \<and>
     (1 < next_change_time c \<longrightarrow> GATE c \<and> \<not> first_pass c \<and>
        unat (next_change_time c) = (unat (count_binary c) + modulus c - 1) mod modulus c)"

definition due_3 :: "counter \<Rightarrow> bool" where
  "due_3 c \<longleftrightarrow> \<not> bit (inlatch c) 0 \<and> inlatch c \<noteq> 0 \<and> (next_change_time c = 0 \<longrightarrow> \<not> GATE c) \<and>
     (next_change_time c \<noteq> 0 \<longrightarrow>
        \<not> GATE c \<or> triggerGATE c \<or> first_pass c \<or> state_bit_2 c \<or> \<not> state_bit_1 c \<and> even (unat (count_binary c))) \<and>
     (1 < next_change_time c \<longrightarrow> GATE c \<and> \<not> first_pass c \<and> \<not> state_bit_2 c \<and>
        unat (count_binary c) = 2 * (unat (next_change_time c) + 1))"

definition due_4 :: "counter \<Rightarrow> bool" where
  "due_4 c \<longleftrightarrow> (null_count c \<longrightarrow> next_change_time c = 1) \<and>
     (next_change_time c = 0 \<longrightarrow> OUTpin c \<and> (\<not> GATE c \<or> \<not> first_pass c)) \<and>
     (1 < next_change_time c \<longrightarrow> OUTpin c \<and> GATE c \<and> first_pass c \<and> count_binary c = next_change_time c)"

definition due_5 :: "counter \<Rightarrow> bool" where
  "due_5 c \<longleftrightarrow> (next_change_time c = 0 \<longrightarrow> OUTpin c \<and> \<not> first_pass c) \<and>
     (1 < next_change_time c \<longrightarrow> OUTpin c \<and> first_pass c \<and> count_binary c = next_change_time c)"

definition due :: "counter \<Rightarrow> bool" where
  "due c = (if mode c = 0 then due_0 c else if mode c = 1 then due_1 c else if mode c = 2 then due_2 c
            else if mode c = 3 then due_3 c else if mode c = 4 then due_4 c else mode c = 5 \<and> due_5 c)"

definition in_step :: "counter \<Rightarrow> bool" where
  "in_step c \<longleftrightarrow> mode c \<le> 5 \<and> (triggerGATE c \<longrightarrow> next_change_time c = 1) \<and>
     (if count_written c then count_ok c \<and> latch_ok c \<and> due c else next_change_time c \<le> 1)"

lemmas due_defs = due_0_def due_1_def due_2_def due_3_def due_4_def due_5_def

section \<open>Loading\<close>

lemma low16: "unat (w :: u32) < 65536 \<Longrightarrow> w AND 0xffff = w"
proof -
  assume w: "unat w < 65536"
  have m: "(0xffff :: u32) = mask 16" by (simp add: mask_eq_exp_minus_1)
  show ?thesis unfolding m take_bit_eq_mask [symmetric] using w
    by (simp add: take_bit_eq_mod word_eq_iff_unsigned [where ?'a = nat] unat_mod_distrib)
qed

lemma unat_latch [simp]: "unat (ucast (w :: u16) :: u32) = unat w"
  by transfer (simp add: take_bit_nat_def)

lemma latch_low16 [simp]: "ucast (w :: u16) AND (0xffff :: u32) = ucast w"
  using unsigned_less [of w, where ?'a = nat] by (intro low16) simp

lemma set_count_fields [simp]:
  "mode (set_count v c) = mode c" "GATE (set_count v c) = GATE c" "OUTpin (set_count v c) = OUTpin c"
  "bcd_mode (set_count v c) = bcd_mode c" "null_count (set_count v c) = null_count c"
  "inlatch (set_count v c) = inlatch c" "triggerGATE (set_count v c) = triggerGATE c"
  "write_state (set_count v c) = write_state c" "count_written (set_count v c) = count_written c"
  "first_pass (set_count v c) = first_pass c" "state_bit_1 (set_count v c) = state_bit_1 c"
  "state_bit_2 (set_count v c) = state_bit_2 c" "next_change_time (set_count v c) = next_change_time c"
  "out_handler (set_count v c) = out_handler c" "out_calls (set_count v c) = out_calls c"
  "counting (set_count v c) = counting c"
  by (simp_all add: set_count_def set_binary_to_count_def counting_def)

lemma set_OUT_fields [simp]:
  "mode (set_OUT v c) = mode c" "GATE (set_OUT v c) = GATE c" "OUTpin (set_OUT v c) = v"
  "bcd_mode (set_OUT v c) = bcd_mode c" "null_count (set_OUT v c) = null_count c"
  "inlatch (set_OUT v c) = inlatch c" "triggerGATE (set_OUT v c) = triggerGATE c"
  "write_state (set_OUT v c) = write_state c" "count_written (set_OUT v c) = count_written c"
  "first_pass (set_OUT v c) = first_pass c" "state_bit_1 (set_OUT v c) = state_bit_1 c"
  "state_bit_2 (set_OUT v c) = state_bit_2 c" "next_change_time (set_OUT v c) = next_change_time c"
  "count (set_OUT v c) = count c" "count_binary (set_OUT v c) = count_binary c"
  "counting (set_OUT v c) = counting c" "modulus (set_OUT v c) = modulus c"
  "count_ok (set_OUT v c) = count_ok c" "latch_ok (set_OUT v c) = latch_ok c"
  by (simp_all add: set_OUT_def counting_def modulus_def count_ok_def latch_ok_def)

lemma set_OUT_same [simp]: "OUTpin c = v \<Longrightarrow> set_OUT v c = c"
  by (simp add: set_OUT_def)

lemma count_ok_load:
  assumes "latch_ok c" and "v = ucast (inlatch c)"
  shows "count_ok (set_count v c)"
    and "count_binary (set_count v c) = (if bcd_mode c then of_bcd (ucast (inlatch c)) else ucast (inlatch c))"
  using assms unsigned_less [of "inlatch c", where ?'a = nat]
  by (auto simp: count_ok_def set_count_def set_binary_to_count_def latch_ok_def modulus_def word_less_nat_alt)

end
