(* ===== verification/Pit_Spec.thy ===== *)
theory Pit_Spec
  imports Pit_Count
begin
text \<open>
  The two clocks of the 82C54 agree: on a counter whose recorded event time is right,
  \<open>clock_multiple\<close> is \<open>clock\<close> repeated. Mode by mode: without an event to come a clock only counts,
  before an event it counts and brings the event one clock nearer, and the clock of the event
  records the next one.
\<close>

unbundle bit_operations_syntax

section \<open>The clocks between two events\<close>

definition one_count :: "counter \<Rightarrow> counter" where
  "one_count c = (if mode c = 3 then decrement (decrement c) else decrement c)"

definition coast :: "counter \<Rightarrow> counter" where
  "coast c = (if count_written c \<and> counts_on c then one_count c else c)"

lemma update_same [simp]:
  "\<not> triggerGATE c \<Longrightarrow> c\<lparr>triggerGATE := False\<rparr> = c" "next_change_time c = t \<Longrightarrow> c\<lparr>next_change_time := t\<rparr> = c"
  by (cases c; simp)+

lemma next_fields [simp]:
  "latch_ok (c\<lparr>next_change_time := t\<rparr>) = latch_ok c" "counting (c\<lparr>next_change_time := t\<rparr>) = counting c"
  "modulus (c\<lparr>next_change_time := t\<rparr>) = modulus c"
  by (simp_all add: latch_ok_def counting_def modulus_def)

lemma one_count_fields [simp]:
  "mode (one_count c) = mode c" "count_written (one_count c) = count_written c" "GATE (one_count c) = GATE c"
  "first_pass (one_count c) = first_pass c" "counting (one_count c) = counting c"
  "next_change_time (one_count c) = next_change_time c" "counts_on (one_count c) = counts_on c"
  "OUTpin (one_count c) = OUTpin c" "null_count (one_count c) = null_count c"
  "triggerGATE (one_count c) = triggerGATE c" "latch_ok (one_count c) = latch_ok c"
  by (simp_all add: one_count_def counts_on_def)

lemma one_count_next [simp]: "one_count (c\<lparr>next_change_time := t\<rparr>) = (one_count c)\<lparr>next_change_time := t\<rparr>"
  by (simp add: one_count_def)

lemma count_ok_one [simp]: "count_ok c \<Longrightarrow> count_ok (one_count c)"
  by (simp add: one_count_def decrement_value)

lemma small_mode:
  assumes "(m :: u8) \<le> 5"
  shows "m = 0 \<or> m = 1 \<or> m = 2 \<or> m = 3 \<or> m = 4 \<or> m = 5"
proof -
  have "unat m \<le> 5" using assms by (simp add: word_le_nat_alt)
  then have "unat m \<in> {0, 1, 2, 3, 4, 5}" by auto
  then have "m \<in> word_of_nat ` {0, 1, 2, 3, 4, 5}" using of_nat_unat [of m, where ?'a = "8 word"]
    by (metis imageI ucast_id)
  then show ?thesis by auto
qed

text \<open>With no event to come a clock only counts.\<close>

lemma no_event_0:
  assumes "in_step c" and "next_change_time c = 0" and "mode c = 0"
  shows "clock c = coast c" and "in_step (coast c)"
  using assms
  by (simp_all add: in_step_def due_def due_0_def clock_def clock_0_def coast_def counts_on_def one_count_def
      decrement_value split: if_splits)

lemma no_event_1:
  assumes "in_step c" and "next_change_time c = 0" and "mode c = 1"
  shows "clock c = coast c" and "in_step (coast c)"
  using assms
  by (simp_all add: in_step_def due_def due_1_def clock_def clock_1_def coast_def counts_on_def one_count_def
      decrement_value split: if_splits)

lemma no_event_2:
  assumes "in_step c" and "next_change_time c = 0" and "mode c = 2"
  shows "clock c = coast c" and "in_step (coast c)"
  using assms
  by (auto simp: in_step_def due_def due_2_def clock_def clock_2_def coast_def counts_on_def one_count_def
      decrement_value split: if_splits)

lemma no_event_3:
  assumes "in_step c" and "next_change_time c = 0" and "mode c = 3"
  shows "clock c = coast c" and "in_step (coast c)"
  using assms
  by (simp_all add: in_step_def due_def due_3_def clock_def clock_3_def coast_def counts_on_def one_count_def
      decrement_value split: if_splits)

lemma no_event_4:
  assumes "in_step c" and "next_change_time c = 0" and "mode c = 4"
  shows "clock c = coast c" and "in_step (coast c)"
  using assms
  by (simp_all add: in_step_def due_def due_4_def clock_def clock_4_def coast_def counts_on_def one_count_def
      decrement_value split: if_splits)

lemma no_event_5:
  assumes "in_step c" and "next_change_time c = 0" and "mode c = 5"
  shows "clock c = coast c" and "in_step (coast c)"
  using assms
  by (simp_all add: in_step_def due_def due_5_def clock_def clock_5_def coast_def counts_on_def one_count_def
      decrement_value split: if_splits)

text \<open>Before the clock of the event it counts, and the event is one clock nearer.\<close>

lemma minus_1: "1 < (t :: u32) \<Longrightarrow> unat (t - 1) = unat t - 1" "1 < t \<Longrightarrow> 1 \<le> t - 1"
  by (simp_all add: unat_sub word_le_nat_alt word_less_nat_alt)

lemma count_less: "count_ok c \<Longrightarrow> unat (count_binary c) < 65536"
  by (auto simp: count_ok_def modulus_def split: if_splits)

lemma low16_count [simp]: "count_ok c \<Longrightarrow> count_binary c AND 0xffff = count_binary c"
  by (rule low16) (rule count_less)

lemma decrement_word: "count_ok c \<Longrightarrow> count_binary c \<noteq> 0 \<Longrightarrow> count_binary (decrement c) = count_binary c - 1"
  using count_eq_iff(1) [of c] by (simp add: decrement_def set_count_to_binary_def)

lemma towards_event:
  assumes "count_ok c" and "1 < next_change_time c" and "count_binary c = next_change_time c"
  shows "count_ok (decrement c)" and "count_binary (decrement c) = next_change_time c - 1"
    and "count (decrement c) \<noteq> 0" and "next_change_time c - 1 \<noteq> 0"
    and "next_change_time c - 1 AND 0xffff = next_change_time c - 1"
    and "1 \<le> next_change_time c - 1"
proof -
  show ok: "count_ok (decrement c)" using assms(1) by (rule decrement_value)
  have "next_change_time c \<noteq> 0" using assms(2) by auto
  then show b: "count_binary (decrement c) = next_change_time c - 1"
    using decrement_word [OF assms(1)] assms(3) by simp
  show z: "next_change_time c - 1 \<noteq> 0" using assms(2) by auto
  show "count (decrement c) \<noteq> 0" using count_eq_iff(1) [OF ok] z b by simp
  show "next_change_time c - 1 AND 0xffff = next_change_time c - 1" using low16_count [OF ok] b by simp
  show "1 \<le> next_change_time c - 1" using assms(2) by (rule minus_1)
qed

lemma before_event_0:
  assumes "in_step c" and "1 < next_change_time c" and "mode c = 0"
  shows "clock c = (one_count c)\<lparr>next_change_time := next_change_time c - 1\<rparr>" and "in_step (clock c)"
proof -
  have w: "count_written c" "\<not> triggerGATE c" "count_ok c" "latch_ok c" "due_0 c"
    using assms by (auto simp: in_step_def due_def split: if_splits)
  then have v: "count_binary c = next_change_time c" using assms(2) by (auto simp: due_0_def)
  note e = towards_event [OF w(3) assms(2) v]
  show c: "clock c = (one_count c)\<lparr>next_change_time := next_change_time c - 1\<rparr>"
    using w assms(2,3) e by (auto simp: clock_def clock_0_def due_0_def one_count_def clocks_left_def)
  show "in_step (clock c)"
    unfolding c using w assms(2,3) e by (auto simp: in_step_def due_def due_0_def one_count_def)
qed

lemma before_event_1:
  assumes "in_step c" and "1 < next_change_time c" and "mode c = 1"
  shows "clock c = (one_count c)\<lparr>next_change_time := next_change_time c - 1\<rparr>" and "in_step (clock c)"
proof -
  have w: "count_written c" "\<not> triggerGATE c" "count_ok c" "latch_ok c" "due_1 c"
    using assms by (auto simp: in_step_def due_def split: if_splits)
  then have v: "count_binary c = next_change_time c" using assms(2) by (auto simp: due_1_def)
  note e = towards_event [OF w(3) assms(2) v]
  show c: "clock c = (one_count c)\<lparr>next_change_time := next_change_time c - 1\<rparr>"
    using w assms(2,3) e by (auto simp: clock_def clock_1_def due_1_def one_count_def clocks_left_def)
  show "in_step (clock c)"
    unfolding c using w assms(2,3) e by (auto simp: in_step_def due_def due_1_def one_count_def)
qed

lemma before_event_4:
  assumes "in_step c" and "1 < next_change_time c" and "mode c = 4"
  shows "clock c = (one_count c)\<lparr>next_change_time := next_change_time c - 1\<rparr>" and "in_step (clock c)"
proof -
  have w: "count_written c" "\<not> triggerGATE c" "count_ok c" "latch_ok c" "due_4 c"
    using assms by (auto simp: in_step_def due_def split: if_splits)
  then have v: "count_binary c = next_change_time c" using assms(2) by (auto simp: due_4_def)
  note e = towards_event [OF w(3) assms(2) v]
  show c: "clock c = (one_count c)\<lparr>next_change_time := next_change_time c - 1\<rparr>"
    using w assms(2,3) e by (auto simp: clock_def clock_4_def due_4_def one_count_def clocks_left_def)
  show "in_step (clock c)"
    unfolding c using w assms(2,3) e by (auto simp: in_step_def due_def due_4_def one_count_def)
qed

lemma before_event_5:
  assumes "in_step c" and "1 < next_change_time c" and "mode c = 5"
  shows "clock c = (one_count c)\<lparr>next_change_time := next_change_time c - 1\<rparr>" and "in_step (clock c)"
proof -
  have w: "count_written c" "\<not> triggerGATE c" "count_ok c" "latch_ok c" "due_5 c"
    using assms by (auto simp: in_step_def due_def split: if_splits)
  then have v: "count_binary c = next_change_time c" using assms(2) by (auto simp: due_5_def)
  note e = towards_event [OF w(3) assms(2) v]
  show c: "clock c = (one_count c)\<lparr>next_change_time := next_change_time c - 1\<rparr>"
    using w assms(2,3) e by (auto simp: clock_def clock_5_def due_5_def one_count_def clocks_left_def)
  show "in_step (clock c)"
    unfolding c using w assms(2,3) e by (auto simp: in_step_def due_def due_5_def one_count_def)
qed

lemma due_2_next:
  "due_2 (c\<lparr>next_change_time := t\<rparr>) \<longleftrightarrow> inlatch c \<noteq> 1 \<and> (bcd_mode c \<longrightarrow> inlatch c \<noteq> 0) \<and>
     (GATE c \<or> \<not> first_pass c \<and> \<not> triggerGATE c) \<and> (t = 0 \<longrightarrow> \<not> GATE c) \<and>
     (t = 1 \<longrightarrow> first_pass c \<or> triggerGATE c \<or> count_binary c \<noteq> 1) \<and>
     (1 < t \<longrightarrow> GATE c \<and> \<not> first_pass c \<and> unat t = (unat (count_binary c) + modulus c - 1) mod modulus c)"
  by (simp add: due_2_def)

lemma pred_mod: "(v :: nat) < m \<Longrightarrow> (v + m - 1) mod m = (if v = 0 then m - 1 else v - 1)"
proof (cases "v = 0")
  case False
  then have e: "v + m - 1 = v - 1 + m" by simp
  assume "v < m"
  then show ?thesis unfolding e using False by (simp only: mod_add_self2) simp
qed simp

lemma before_event_2:
  assumes "in_step c" and "1 < next_change_time c" and "mode c = 2"
  shows "clock c = (one_count c)\<lparr>next_change_time := next_change_time c - 1\<rparr>" and "in_step (clock c)"
proof -
  have w: "count_written c" "\<not> triggerGATE c" "count_ok c" "latch_ok c" "due_2 c"
    using assms by (auto simp: in_step_def due_def split: if_splits)
  let ?d = "decrement c" and ?t = "unat (next_change_time c)"
  have t: "1 < ?t" "?t = (unat (count_binary c) + modulus c - 1) mod modulus c"
    using w(5) assms(2) by (simp_all add: due_2_def word_less_nat_alt)
  have ok: "count_ok ?d" using w(3) by (rule decrement_value)
  have v: "unat (count_binary c) < modulus c" "1 < modulus c" using w(3) by (simp_all add: count_ok_def modulus_def)
  have b: "unat (count_binary ?d) = ?t"
    unfolding t(2) pred_mod [OF v(1)] decrement_value(1) [OF w(3)] by (simp add: unat_eq_0)
  then have b': "count_binary ?d = next_change_time c" by (rule unsigned_word_eqI)
  have n: "count ?d \<noteq> 1" using count_eq_iff(2) [OF ok] b' assms(2) by auto
  have l: "next_change_time c - 1 AND 0xffff = next_change_time c - 1"
    using minus_1(1) [OF assms(2)] count_less [OF ok] b' by (intro low16) simp
  show c: "clock c = (one_count c)\<lparr>next_change_time := next_change_time c - 1\<rparr>"
    using w assms(2,3) n b' l by (auto simp: clock_def clock_2_def due_2_def one_count_def Let_def)
  have "?t < modulus c" using ok b by (simp add: count_ok_def)
  then have m: "unat (next_change_time c - 1) = (unat (next_change_time c) + modulus c - 1) mod modulus c"
    unfolding minus_1(1) [OF assms(2)] using t(1) by (simp only: pred_mod) simp
  have "inlatch c \<noteq> 1 \<and> (bcd_mode c \<longrightarrow> inlatch c \<noteq> 0) \<and> GATE c \<and> \<not> first_pass c"
    "next_change_time c \<noteq> 1" "next_change_time c - 1 \<noteq> 0"
    using w(5) assms(2) by (auto simp: due_2_def)
  moreover have "unat (next_change_time c - 1) = (unat (count_binary ?d) + modulus ?d - 1) mod modulus ?d"
    using m unfolding b' decrement_fields .
  moreover have "count_binary ?d \<noteq> 1" unfolding b' using assms(2) by auto
  ultimately have "due_2 (?d\<lparr>next_change_time := next_change_time c - 1\<rparr>)"
    unfolding due_2_next decrement_fields by blast
  then show "in_step (clock c)"
    unfolding c using w(1-4) assms(3) ok by (simp add: in_step_def due_def one_count_def)
qed

lemma before_event_3:
  assumes "in_step c" and "1 < next_change_time c" and "mode c = 3"
  shows "clock c = (one_count c)\<lparr>next_change_time := next_change_time c - 1\<rparr>" and "in_step (clock c)"
proof -
  have w: "count_written c" "\<not> triggerGATE c" "count_ok c" "latch_ok c" "due_3 c"
    using assms by (auto simp: in_step_def due_def split: if_splits)
  let ?d = "decrement (decrement c)" and ?t = "unat (next_change_time c)"
  have t: "1 < ?t" "unat (count_binary c) = 2 * (?t + 1)"
    using w(5) assms(2) by (simp_all add: due_3_def word_less_nat_alt)
  have ok: "count_ok (decrement c)" "count_ok ?d" using w(3) by (simp_all add: decrement_value)
  have "count_binary c \<noteq> 0" using t(2) by auto
  then have b1: "unat (count_binary (decrement c)) = 2 * ?t + 1" using t decrement_value(1) [OF w(3)] by simp
  then have "count_binary (decrement c) \<noteq> 0" by auto
  then have b: "unat (count_binary ?d) = 2 * ?t" using b1 decrement_value(1) [OF ok(1)] by simp
  then have "unat (count_binary ?d div 2) = ?t" by (simp add: unat_div_distrib)
  then have h: "count_binary ?d div 2 = next_change_time c" by (rule unsigned_word_eqI)
  have n: "count ?d \<noteq> 0" "count ?d \<noteq> 2"
    using count_eq_iff(1,3) [OF ok(2)] b t(1) by auto
  have l: "next_change_time c - 1 AND 0xffff = next_change_time c - 1"
    using minus_1(1) [OF assms(2)] count_less [OF ok(2)] b by (intro low16) simp
  show c: "clock c = (one_count c)\<lparr>next_change_time := next_change_time c - 1\<rparr>"
    using w assms(2,3) n h l by (auto simp: clock_def clock_3_def due_3_def one_count_def Let_def)
  have "unat (count_binary ?d) = 2 * (unat (next_change_time c - 1) + 1)"
    using b minus_1(1) [OF assms(2)] t(1) by simp
  then show "in_step (clock c)"
    unfolding c using w assms(2,3) ok b minus_1 [OF assms(2)]
    by (auto simp: in_step_def due_def due_3_def one_count_def)
qed

lemma event_ahead:
  assumes "in_step c"
  shows "next_change_time c = 0 \<Longrightarrow> clock c = coast c \<and> in_step (coast c)"
    and "1 < next_change_time c \<Longrightarrow>
      clock c = (one_count c)\<lparr>next_change_time := next_change_time c - 1\<rparr> \<and> in_step (clock c)"
proof -
  have m: "mode c = 0 \<or> mode c = 1 \<or> mode c = 2 \<or> mode c = 3 \<or> mode c = 4 \<or> mode c = 5"
    using assms by (intro small_mode) (simp add: in_step_def)
  show "next_change_time c = 0 \<Longrightarrow> clock c = coast c \<and> in_step (coast c)"
    using m no_event_0 no_event_1 no_event_2 no_event_3 no_event_4 no_event_5 assms by metis
  show "1 < next_change_time c \<Longrightarrow>
      clock c = (one_count c)\<lparr>next_change_time := next_change_time c - 1\<rparr> \<and> in_step (clock c)"
    using m before_event_0 before_event_1 before_event_2 before_event_3 before_event_4 before_event_5 assms by metis
qed

text \<open>The clock of the event records the next one.\<close>

lemma other_fields [simp]:
  "count_ok (c\<lparr>triggerGATE := b\<rparr>) = count_ok c" "latch_ok (c\<lparr>triggerGATE := b\<rparr>) = latch_ok c"
  "counting (c\<lparr>triggerGATE := b\<rparr>) = counting c" "modulus (c\<lparr>triggerGATE := b\<rparr>) = modulus c"
  "count_ok (c\<lparr>first_pass := b\<rparr>) = count_ok c" "latch_ok (c\<lparr>first_pass := b\<rparr>) = latch_ok c"
  "modulus (c\<lparr>first_pass := b\<rparr>) = modulus c"
  "count_ok (c\<lparr>null_count := b\<rparr>) = count_ok c" "latch_ok (c\<lparr>null_count := b\<rparr>) = latch_ok c"
  "counting (c\<lparr>null_count := b\<rparr>) = counting c" "modulus (c\<lparr>null_count := b\<rparr>) = modulus c"
  "count_ok (c\<lparr>state_bit_1 := b\<rparr>) = count_ok c" "latch_ok (c\<lparr>state_bit_1 := b\<rparr>) = latch_ok c"
  "count_ok (c\<lparr>state_bit_2 := b\<rparr>) = count_ok c" "latch_ok (c\<lparr>state_bit_2 := b\<rparr>) = latch_ok c"
  by (simp_all add: count_ok_def latch_ok_def counting_def modulus_def)

lemma clocks_left_cases:
  assumes "count_ok c"
  shows "clocks_left (count_binary c) = (if count_binary c = 0 then 1 else count_binary c)"
  using assms by (simp add: clocks_left_def)

lemma not_1_less_1: "\<not> 1 < (1 :: u32)" "\<not> 1 < (0 :: u32)" "1 \<noteq> (0 :: u32)"
  by simp_all

lemma latch_ok_load [simp]: "latch_ok (set_count v c) = latch_ok c"
  by (simp add: latch_ok_def)

lemma load_fields [simp]:
  "mode (load c) = mode c" "GATE (load c) = GATE c" "OUTpin (load c) = OUTpin c" "\<not> null_count (load c)"
  "bcd_mode (load c) = bcd_mode c" "inlatch (load c) = inlatch c" "triggerGATE (load c) = triggerGATE c"
  "write_state (load c) = write_state c" "count_written (load c) = count_written c"
  "first_pass (load c) = first_pass c" "counting (load c) = counting c" "latch_ok (load c) = latch_ok c"
  "modulus (load c) = modulus c"
  by (simp_all add: load_def modulus_def)

lemma count_ok_load' [simp]: "latch_ok c \<Longrightarrow> count_ok (load c)"
  by (simp add: load_def count_ok_load)

lemma event_0:
  assumes "in_step c" and "next_change_time c = 1" and "mode c = 0"
  shows "in_step (clock c)"
proof (cases "count_written c")
  case True
  then have w: "count_ok c" "latch_ok c" "null_count c \<longrightarrow> write_state c \<noteq> MSByte_multiple \<and> \<not> OUTpin c"
    using assms by (auto simp: in_step_def due_def due_0_def)
  note d = decrement_value(2) [OF w(1)]
  show ?thesis
    using True w d assms(3) clocks_left_cases [OF count_ok_load' [OF w(2)]] count_eq_iff(1) [OF d] low16_count [OF d]
    by (simp add: in_step_def due_def due_0_def clock_def clock_0_def Let_def counting_def)
qed (use assms in \<open>simp add: in_step_def clock_def clock_0_def\<close>)

lemma event_1:
  assumes "in_step c" and "next_change_time c = 1" and "mode c = 1"
  shows "in_step (clock c)"
proof (cases "count_written c")
  case True
  then have w: "count_ok c" "latch_ok c" using assms by (auto simp: in_step_def due_def)
  note d = decrement_value(2) [OF w(1)]
  show ?thesis
    using True w d assms(3) clocks_left_cases [OF count_ok_load' [OF w(2)]] clocks_left_cases [OF d] count_eq_iff(1) [OF d]
    by (simp add: in_step_def due_def due_1_def clock_def clock_1_def clocks_left_def Let_def)
qed (use assms in \<open>simp add: in_step_def clock_def clock_1_def\<close>)

lemma event_4:
  assumes "in_step c" and "next_change_time c = 1" and "mode c = 4"
  shows "in_step (clock c)"
proof (cases "count_written c")
  case True
  then have w: "count_ok c" "latch_ok c" using assms by (auto simp: in_step_def due_def)
  let ?o = "set_OUT True c"
  have o: "count_ok ?o" "latch_ok ?o" using w by simp_all
  note d = decrement_value(2) [OF o(1)] and l = count_ok_load(1) [OF o(2), simplified]
  show ?thesis
    using True o d l assms(3) clocks_left_cases [OF l] count_eq_iff(1) [OF d] low16_count [OF d]
    by (simp add: in_step_def due_def due_4_def clock_def clock_4_def Let_def)
qed (use assms in \<open>simp add: in_step_def clock_def clock_4_def\<close>)

lemma event_5:
  assumes "in_step c" and "next_change_time c = 1" and "mode c = 5"
  shows "in_step (clock c)"
proof (cases "count_written c")
  case True
  then have w: "count_ok c" "latch_ok c" using assms by (auto simp: in_step_def due_def)
  let ?o = "set_OUT True c"
  have o: "count_ok ?o" "latch_ok ?o" using w by simp_all
  note d = decrement_value(2) [OF o(1)] and l = count_ok_load(1) [OF o(2), simplified]
  show ?thesis
    using True o d l assms(3) clocks_left_cases [OF l] count_eq_iff(1) [OF d] low16_count [OF d]
    by (simp add: in_step_def due_def due_5_def clock_def clock_5_def Let_def)
qed (use assms in \<open>simp add: in_step_def clock_def clock_5_def\<close>)

lemma load_value:
  "latch_ok c \<Longrightarrow> count_binary (load c) = (if bcd_mode c then of_bcd (ucast (inlatch c)) else ucast (inlatch c))"
  by (simp add: load_def count_ok_load)

lemma latch_is:
  assumes "latch_ok c" and "bcd_mode c \<longrightarrow> inlatch c \<noteq> 0"
  shows "count_binary (load c) = 1 \<longleftrightarrow> inlatch c = 1" and "count_binary (load c) = 0 \<longrightarrow> \<not> bcd_mode c"
proof -
  have inj: "ucast (inlatch c) = (ucast k :: u32) \<longleftrightarrow> inlatch c = k" for k
    by (auto simp: word_eq_iff_unsigned [where ?'a = nat])
  have b: "of_bcd 1 = 1" "of_bcd 0 = 0" by (simp_all add: of_bcd_def)
  have d: "bcd_of 1 = 1" "bcd_of 0 = 0" by (simp_all add: bcd_of_def)
  note l = assms(1)[unfolded latch_ok_def]
  show "count_binary (load c) = 1 \<longleftrightarrow> inlatch c = 1"
    using inj [of 1] l b(1) d(1) unfolding load_value [OF assms(1)] by auto
  show "count_binary (load c) = 0 \<longrightarrow> \<not> bcd_mode c"
    using inj [of 0] l b(2) d(2) assms(2) unfolding load_value [OF assms(1)] by auto
qed

text \<open>The recorded time of the rate generator, one less than the count.\<close>

lemma rate_time:
  assumes "count_ok c" and "count_binary c = 0 \<longrightarrow> \<not> bcd_mode c" and "t = count_binary c - 1 AND 0xffff"
  shows "unat t = (unat (count_binary c) + modulus c - 1) mod modulus c" and "t = 0 \<longleftrightarrow> count_binary c = 1"
proof -
  have v: "unat (count_binary c) < modulus c" using assms(1) by (simp add: count_ok_def)
  have n: "unat t = (if count_binary c = 0 then 65535 else unat (count_binary c) - 1)"
  proof (cases "count_binary c = 0")
    case False
    then have "unat (count_binary c - 1) = unat (count_binary c) - 1"
      by (simp add: unat_sub word_le_nat_alt unat_gt_0 Suc_le_eq)
    moreover from this have "count_binary c - 1 AND 0xffff = count_binary c - 1"
      using count_less [OF assms(1)] by (intro low16) simp
    ultimately show ?thesis using assms(3) False by simp
  qed (simp add: assms(3))
  then show u: "unat t = (unat (count_binary c) + modulus c - 1) mod modulus c"
    unfolding pred_mod [OF v] using assms(2) by (simp add: unat_eq_0 modulus_def)
  have "t = 0 \<longleftrightarrow> unat t = 0" by (simp add: unat_eq_zero)
  also have "\<dots> \<longleftrightarrow> unat (count_binary c) = 1"
    using n by (cases "count_binary c = 0") (auto simp: unat_eq_zero le_Suc_eq)
  also have "\<dots> \<longleftrightarrow> count_binary c = 1" by (simp add: word_eq_iff_unsigned [where ?'a = nat])
  finally show "t = 0 \<longleftrightarrow> count_binary c = 1" .
qed

lemma due_2_intro:
  assumes "count_ok c" and "count_binary c = 0 \<longrightarrow> \<not> bcd_mode c" and "count_binary c \<noteq> 1"
    and "inlatch c \<noteq> 1" "bcd_mode c \<longrightarrow> inlatch c \<noteq> 0" and "GATE c" "\<not> first_pass c"
  shows "due_2 (c\<lparr>next_change_time := count_binary c - 1 AND 0xffff\<rparr>)"
  using assms(3-) rate_time [OF assms(1,2) refl] unfolding due_2_next by blast

lemma decrement_zero:
  assumes "count_ok c" and "count_binary c \<noteq> 1"
  shows "count_binary (decrement c) \<noteq> 0"
proof (cases "count_binary c = 0")
  case True
  then have "unat (count_binary (decrement c)) = modulus c - 1" using decrement_value(1) [OF assms(1)] by simp
  then show ?thesis by (auto simp: modulus_def split: if_splits)
next
  case False
  then show ?thesis using decrement_word [OF assms(1)] assms(2) by simp
qed

lemma event_2:
  assumes "in_step c" and "next_change_time c = 1" and "mode c = 2"
  shows "in_step (clock c)"
proof (cases "count_written c")
  case True
  then have w: "count_ok c" "latch_ok c" "inlatch c \<noteq> 1" "bcd_mode c \<longrightarrow> inlatch c \<noteq> 0"
      "GATE c \<or> \<not> first_pass c \<and> \<not> triggerGATE c" "first_pass c \<or> triggerGATE c \<or> count_binary c \<noteq> 1"
    using assms by (auto simp: in_step_def due_def due_2_def)
  consider (reload) "triggerGATE c \<or> first_pass c" | (stop) "\<not> triggerGATE c" "\<not> first_pass c" "\<not> GATE c"
    | (run) "\<not> triggerGATE c" "\<not> first_pass c" "GATE c" by blast
  then show ?thesis
  proof cases
    case reload
    let ?l = "set_OUT True ((load c)\<lparr>first_pass := False, triggerGATE := False\<rparr>)"
    have "clock c = ?l\<lparr>next_change_time := count_binary ?l - 1 AND 0xffff\<rparr>"
      using True reload assms(3) by (auto simp: clock_def clock_2_def Let_def set_OUT_def)
    moreover have "due_2 (?l\<lparr>next_change_time := count_binary ?l - 1 AND 0xffff\<rparr>)"
      using reload w latch_is [OF w(2,4)] by (intro due_2_intro) auto
    ultimately show ?thesis using True w assms(3) by (simp add: in_step_def due_def)
  next
    case stop
    then show ?thesis using True w assms(3) by (auto simp: in_step_def due_def due_2_def clock_def clock_2_def)
  next
    case run
    let ?d = "decrement c"
    have d: "count_ok ?d" "count_binary ?d \<noteq> 0"
      using w(1) decrement_zero [OF w(1)] w(6) run by (auto simp: decrement_value)
    show ?thesis
    proof (cases "count ?d = 1")
      case True
      then show ?thesis using \<open>count_written c\<close> w run d assms(3)
        by (auto simp: in_step_def due_def due_2_def clock_def clock_2_def Let_def)
    next
      case False
      then have c: "clock c = ?d\<lparr>next_change_time := count_binary ?d - 1 AND 0xffff\<rparr>"
        using \<open>count_written c\<close> run assms(3) by (simp add: clock_def clock_2_def Let_def)
      have "due_2 (?d\<lparr>next_change_time := count_binary ?d - 1 AND 0xffff\<rparr>)"
        using False w run d count_eq_iff(2) [OF d(1)] by (intro due_2_intro) auto
      then show ?thesis unfolding c using \<open>count_written c\<close> w run d assms(3) by (simp add: in_step_def due_def)
    qed
  qed
qed (use assms in \<open>simp add: in_step_def clock_def clock_2_def\<close>)

lemma even_unat: "even (unat (w :: u32)) \<longleftrightarrow> even w"
proof -
  have "bit (unat w) 0 \<longleftrightarrow> bit w 0" by (simp only: bit_unsigned_iff) simp
  then show ?thesis by (simp add: bit_0)
qed

lemma even_latch:
  assumes "latch_ok c" and "\<not> bit (inlatch c) 0" and "inlatch c \<noteq> 0"
  shows "even (unat (count_binary (load c)))" and "count_binary (load c) \<noteq> 0"
    and "ucast (inlatch c) AND (0xfffe :: u32) = ucast (inlatch c)"
proof -
  have "\<not> bit (ucast (inlatch c) :: u32) 0" using assms(2) by (simp only: bit_ucast_iff) simp
  then have e: "even (ucast (inlatch c) :: u32)" by (simp add: bit_0)
  then have "even (count_binary (load c))"
    unfolding load_value [OF assms(1)] by (auto simp: of_bcd_def even_and_iff)
  then show "even (unat (count_binary (load c)))" by (simp add: even_unat)
  show "count_binary (load c) \<noteq> 0"
    using latch_is(2) [OF assms(1)] assms(3) load_value [OF assms(1)]
    by (auto simp: word_eq_iff_unsigned [where ?'a = nat])
  show "ucast (inlatch c) AND (0xfffe :: u32) = ucast (inlatch c)"
  proof (rule bit_word_eqI)
    fix n
    have m: "(0xfffe :: u32) = mask 16 AND NOT (mask 1)" by (simp add: mask_eq_exp_minus_1)
    show "bit (ucast (inlatch c) AND (0xfffe :: u32)) n = bit (ucast (inlatch c) :: u32) n"
      unfolding m using assms(2) by (cases "n = 0") (auto simp: bit_simps dest: bit_imp_le_length)
  qed
qed

lemma half_time:
  assumes "count_ok c" and "even (unat (count_binary c))" and "count_binary c \<noteq> 0"
  shows "unat (count_binary c div 2 - 1) = unat (count_binary c) div 2 - 1"
    and "count_binary c div 2 - 1 AND 0xffff = count_binary c div 2 - 1"
    and "unat (count_binary c) = 2 * (unat (count_binary c div 2 - 1) + 1)"
    and "count_binary c div 2 - 1 = 0 \<longleftrightarrow> count_binary c = 2"
proof -
  have v: "0 < unat (count_binary c)" using assms(3) by (simp add: unat_gt_0)
  with assms(2) have h: "1 \<le> unat (count_binary c) div 2" by auto
  have d: "unat (count_binary c div 2) = unat (count_binary c) div 2" by (simp add: unat_div_distrib)
  with h show u: "unat (count_binary c div 2 - 1) = unat (count_binary c) div 2 - 1"
    by (simp add: unat_sub word_le_nat_alt)
  show "count_binary c div 2 - 1 AND 0xffff = count_binary c div 2 - 1"
    using u count_less [OF assms(1)] by (intro low16) simp
  show "unat (count_binary c) = 2 * (unat (count_binary c div 2 - 1) + 1)"
    unfolding u using assms(2) h by auto
  then show "count_binary c div 2 - 1 = 0 \<longleftrightarrow> count_binary c = 2"
    using u assms(2) by (auto simp: word_eq_iff_unsigned [where ?'a = nat])
qed

lemma decrement_twice:
  assumes "count_ok c" and "even (unat (count_binary c))"
  shows "count_ok (decrement (decrement c))" and "even (unat (count_binary (decrement (decrement c))))"
proof -
  have ok: "count_ok (decrement c)" using assms(1) by (rule decrement_value)
  show "count_ok (decrement (decrement c))" using ok by (rule decrement_value)
  show "even (unat (count_binary (decrement (decrement c))))"
  proof (cases "count_binary c = 0")
    case True
    then have "unat (count_binary (decrement c)) = modulus c - 1" using decrement_value(1) [OF assms(1)] by simp
    moreover from this have "count_binary (decrement c) \<noteq> 0" by (auto simp: modulus_def split: if_splits)
    ultimately have "unat (count_binary (decrement (decrement c))) = modulus c - 2"
      using decrement_value(1) [OF ok] by simp
    then show ?thesis by (simp add: modulus_def)
  next
    case False
    then have "0 < unat (count_binary c)" by (simp add: unat_gt_0)
    then have g: "2 \<le> unat (count_binary c)" using assms(2) by presburger
    have u: "unat (count_binary (decrement c)) = unat (count_binary c) - 1"
      using False decrement_value(1) [OF assms(1)] by simp
    with g have "count_binary (decrement c) \<noteq> 0" by auto
    then have "unat (count_binary (decrement (decrement c))) = unat (count_binary c) - 2"
      using u decrement_value(1) [OF ok] by simp
    then show ?thesis using assms(2) g by simp
  qed
qed

lemma due_3_next:
  "due_3 (c\<lparr>next_change_time := t\<rparr>) \<longleftrightarrow> \<not> bit (inlatch c) 0 \<and> inlatch c \<noteq> 0 \<and> (t = 0 \<longrightarrow> \<not> GATE c) \<and>
     (t \<noteq> 0 \<longrightarrow> \<not> GATE c \<or> triggerGATE c \<or> first_pass c \<or> state_bit_2 c \<or>
        \<not> state_bit_1 c \<and> even (unat (count_binary c))) \<and>
     (1 < t \<longrightarrow> GATE c \<and> \<not> first_pass c \<and> \<not> state_bit_2 c \<and> unat (count_binary c) = 2 * (unat t + 1))"
  by (simp add: due_3_def)

lemma set_OUT_update:
  "(set_OUT v c)\<lparr>first_pass := b\<rparr> = set_OUT v (c\<lparr>first_pass := b\<rparr>)"
  "(set_OUT v c)\<lparr>state_bit_2 := b\<rparr> = set_OUT v (c\<lparr>state_bit_2 := b\<rparr>)"
  "(set_OUT v c)\<lparr>triggerGATE := b\<rparr> = set_OUT v (c\<lparr>triggerGATE := b\<rparr>)"
  by (simp_all add: set_OUT_def)

lemma due_3_intro:
  assumes "count_ok c" and "even (unat (count_binary c))" and "count_binary c \<noteq> 0"
    and "\<not> bit (inlatch c) 0" "inlatch c \<noteq> 0" and "GATE c" "\<not> first_pass c" "\<not> state_bit_1 c" "\<not> state_bit_2 c"
  shows "due_3 (c\<lparr>next_change_time := clocks_left (count_binary c div 2 - 1)\<rparr>)"
proof (cases "count_binary c div 2 - 1 = 0")
  case True
  then show ?thesis unfolding due_3_next clocks_left_def using assms by simp
next
  case False
  then have l: "clocks_left (count_binary c div 2 - 1) = count_binary c div 2 - 1"
    unfolding clocks_left_def using half_time(2) [OF assms(1-3)] by simp
  show ?thesis unfolding due_3_next l using False assms half_time(3) [OF assms(1-3)] by blast
qed

lemma due_3_last:
  assumes "\<not> bit (inlatch c) 0" "inlatch c \<noteq> 0" and "state_bit_2 c"
  shows "due_3 (c\<lparr>next_change_time := 1\<rparr>)"
  using assms by (simp add: due_3_def)

lemma in_step_3:
  "mode c = 3 \<Longrightarrow> count_written c \<Longrightarrow> \<not> triggerGATE c \<Longrightarrow> count_ok c \<Longrightarrow> latch_ok c \<Longrightarrow> due_3 c \<Longrightarrow> in_step c"
  by (simp add: in_step_def due_def)

lemma due_3_out [simp]: "due_3 (set_OUT v c) = due_3 c"
  by (simp add: due_3_def)

lemma event_3_reload:
  assumes "mode c = 3" "count_written c" "latch_ok c" "\<not> bit (inlatch c) 0" "inlatch c \<noteq> 0"
    and "triggerGATE c \<or> first_pass c \<or> state_bit_2 c" and "GATE c"
  shows "in_step (clock c)"
proof -
  note e = even_latch [OF assms(3-5)]
  define l where "l = (load c)\<lparr>state_bit_1 := False, first_pass := False, state_bit_2 := False, triggerGATE := False\<rparr>"
  define n where "n = l\<lparr>next_change_time := clocks_left (count_binary l div 2 - 1)\<rparr>"
  have l: "count_ok l" "latch_ok l" "even (unat (count_binary l))" "count_binary l \<noteq> 0" "GATE l" "\<not> first_pass l"
      "\<not> state_bit_1 l" "\<not> state_bit_2 l" "inlatch l = inlatch c" "mode l = 3" "count_written l" "\<not> triggerGATE l"
    using assms e by (simp_all add: l_def)
  have b: "bit (inlatch c) 0 = False" using assms(4) by blast
  have m: "mode c \<noteq> 0" "mode c \<noteq> 1" "mode c \<noteq> 2" using assms(1) by simp_all
  have "clock c = set_OUT (\<not> OUTpin c \<or> first_pass c) n"
    unfolding clock_def clock_3_def Let_def if_not_P [OF m(1)] if_not_P [OF m(2)] if_not_P [OF m(3)]
      if_P [OF assms(1)] e(3) b
    using assms(2,6,7)
    by (simp add: n_def l_def load_def set_OUT_update [symmetric] set_count_def set_binary_to_count_def set_OUT_def)
  moreover have "due_3 n" unfolding n_def using l assms(4,5) by (intro due_3_intro) auto
  ultimately show ?thesis
    using l by (simp add: n_def in_step_3)
qed

lemma event_3_run:
  assumes "mode c = 3" "count_written c" "count_ok c" "latch_ok c" "\<not> bit (inlatch c) 0" "inlatch c \<noteq> 0"
    and "\<not> triggerGATE c" "\<not> first_pass c" "\<not> state_bit_2 c" and "GATE c"
    and "\<not> state_bit_1 c" "even (unat (count_binary c))"
  shows "in_step (clock c)"
proof -
  let ?d = "decrement (decrement c)"
  note d = decrement_twice [OF assms(3,12)]
  note z = count_eq_iff [OF d(1)]
  show ?thesis
  proof (cases "count ?d = 0 \<or> count ?d = 2")
    case True
    then have "clock c = ?d\<lparr>state_bit_2 := True, next_change_time := 1\<rparr>"
      using assms by (auto simp: clock_def clock_3_def Let_def)
    moreover have "due_3 (?d\<lparr>state_bit_2 := True, next_change_time := 1\<rparr>)"
      using assms due_3_last [of "?d\<lparr>state_bit_2 := True\<rparr>"] by simp
    ultimately show ?thesis using assms d by (auto intro!: in_step_3)
  next
    case False
    then have h: "count_binary ?d \<noteq> 0" "count_binary ?d div 2 - 1 \<noteq> 0"
      using z half_time(4) [OF d] by auto
    then have "clock c = ?d\<lparr>next_change_time := clocks_left (count_binary ?d div 2 - 1)\<rparr>"
      using False assms by (simp add: clock_def clock_3_def Let_def clocks_left_def)
    moreover have "due_3 (?d\<lparr>next_change_time := clocks_left (count_binary ?d div 2 - 1)\<rparr>)"
      using assms d h by (intro due_3_intro) auto
    ultimately show ?thesis using assms d by (auto intro!: in_step_3)
  qed
qed

lemma event_3:
  assumes "in_step c" and "next_change_time c = 1" and "mode c = 3"
  shows "in_step (clock c)"
proof (cases "count_written c")
  case True
  then have w: "count_ok c" "latch_ok c" "\<not> bit (inlatch c) 0" "inlatch c \<noteq> 0"
      "\<not> GATE c \<or> triggerGATE c \<or> first_pass c \<or> state_bit_2 c \<or> \<not> state_bit_1 c \<and> even (unat (count_binary c))"
    using assms by (auto simp: in_step_def due_def due_3_def)
  consider "triggerGATE c \<or> first_pass c \<or> state_bit_2 c" "GATE c" | "\<not> GATE c"
    | "\<not> triggerGATE c" "\<not> first_pass c" "\<not> state_bit_2 c" "GATE c" by blast
  then show ?thesis
  proof cases
    case 1
    then show ?thesis using event_3_reload assms(3) True w by blast
  next
    case 2
    then show ?thesis using True w assms(3) by (auto simp: in_step_def due_def due_3_def clock_def clock_3_def)
  next
    case 3
    then show ?thesis using event_3_run assms(3) True w by blast
  qed
qed (use assms in \<open>simp add: in_step_def clock_def clock_3_def\<close>)

lemma event_now: "in_step c \<Longrightarrow> next_change_time c = 1 \<Longrightarrow> in_step (clock c)"
  using small_mode [of "mode c"] event_0 event_1 event_2 event_3 event_4 event_5
  by (metis in_step_def)

lemma word_0_1_more: "(t :: u32) = 0 \<or> t = 1 \<or> 1 < t"
proof -
  consider "unat t = 0" | "unat t = 1" | "1 < unat t" by linarith
  then show ?thesis
  proof cases
    case 2
    then have "t = 1" by (intro unsigned_word_eqI [where ?'a = nat]) simp
    then show ?thesis by simp
  qed (simp_all add: unat_eq_zero word_less_nat_alt)
qed

lemma in_step_clock: "in_step c \<Longrightarrow> in_step (clock c)"
  using event_ahead [of c] event_now [of c] word_0_1_more [of "next_change_time c"] by metis

section \<open>Many clocks at once\<close>

text \<open>A clock sets the time of the next event whatever it was.\<close>

lemma next_through:
  "load (c\<lparr>next_change_time := t\<rparr>) = (load c)\<lparr>next_change_time := t\<rparr>"
  "set_count v (c\<lparr>next_change_time := t\<rparr>) = (set_count v c)\<lparr>next_change_time := t\<rparr>"
  "set_OUT b (c\<lparr>next_change_time := t\<rparr>) = (set_OUT b c)\<lparr>next_change_time := t\<rparr>"
  by (simp_all add: load_def set_count_def set_binary_to_count_def set_OUT_def)

lemma clock_0_next: "clock_0 (c\<lparr>next_change_time := t\<rparr>) = clock_0 c"
  by (simp add: clock_0_def Let_def next_through counting_def del: update_same split del: if_split cong: if_cong)

lemma clock_1_next: "clock_1 (c\<lparr>next_change_time := t\<rparr>) = clock_1 c"
  by (simp add: clock_1_def Let_def next_through counting_def del: update_same split del: if_split cong: if_cong)

lemma clock_2_next: "clock_2 (c\<lparr>next_change_time := t\<rparr>) = clock_2 c"
  by (simp add: clock_2_def Let_def next_through counting_def del: update_same split del: if_split cong: if_cong)

lemma clock_3_next: "clock_3 (c\<lparr>next_change_time := t\<rparr>) = clock_3 c"
  by (simp add: clock_3_def Let_def next_through counting_def del: update_same split del: if_split cong: if_cong)

lemma clock_4_next: "clock_4 (c\<lparr>next_change_time := t\<rparr>) = clock_4 c"
  by (simp add: clock_4_def Let_def next_through counting_def del: update_same split del: if_split cong: if_cong)

lemma clock_5_next: "clock_5 (c\<lparr>next_change_time := t\<rparr>) = clock_5 c"
  by (simp add: clock_5_def Let_def next_through counting_def del: update_same split del: if_split cong: if_cong)

lemma clock_next [simp]: "clock (c\<lparr>next_change_time := t\<rparr>) = clock c"
  by (simp add: clock_def clock_0_next clock_1_next clock_2_next clock_3_next clock_4_next clock_5_next)

lemma in_step_pow: "in_step c \<Longrightarrow> in_step ((clock ^^ n) c)"
  by (induction n) (simp_all add: in_step_clock)

lemma one_count_pow: "(one_count ^^ n) c = (decrement ^^ (if mode c = 3 then n * 2 else n)) c"
proof (induction n)
  case (Suc n)
  have "mode ((one_count ^^ n) c) = mode c" by (induction n) simp_all
  then have "(one_count ^^ Suc n) c = (if mode c = 3 then decrement (decrement ((one_count ^^ n) c)) else decrement ((one_count ^^ n) c))"
    by (simp add: one_count_def [of "(one_count ^^ n) c"] del: one_count_fields)
  then show ?case unfolding Suc.IH by simp
qed simp

lemma decrement_multiple_counts:
  assumes "count_ok c" and "mode c = 3 \<longrightarrow> unat n < 2 ^ 31"
  shows "decrement_multiple c (counts c n) = (one_count ^^ unat n) c"
proof -
  have "unat (counts c n) = (if mode c = 3 then unat n * 2 else unat n)"
    using assms(2) by (simp add: counts_def unat_word_ariths)
  then show ?thesis using decrement_multiple_is_iterated [OF assms(1)] one_count_pow by simp
qed

lemma clock_coasts:
  assumes "in_step c" and "next_change_time c = 0"
  shows "(clock ^^ n) c = (if count_written c \<and> counts_on c then (one_count ^^ n) c else c)"
proof (induction n)
  case (Suc n)
  let ?c = "(clock ^^ n) c"
  have f: "count_written ((one_count ^^ k) c) = count_written c \<and> counts_on ((one_count ^^ k) c) = counts_on c \<and>
      next_change_time ((one_count ^^ k) c) = next_change_time c" for k
    by (induction k) simp_all
  have "next_change_time ?c = 0" unfolding Suc.IH using f assms(2) by simp
  then have "clock ?c = coast ?c" using event_ahead(1) in_step_pow [OF assms(1)] by blast
  then show ?case unfolding funpow.simps o_apply using Suc.IH f by (simp add: coast_def)
qed simp

lemma clock_approaches:
  assumes "in_step c" and "n < unat (next_change_time c)"
  shows "(clock ^^ n) c = ((one_count ^^ n) c)\<lparr>next_change_time := next_change_time c - word_of_nat n\<rparr>"
  using assms(2)
proof (induction n)
  case (Suc n)
  let ?c = "(clock ^^ n) c"
  have c: "?c = ((one_count ^^ n) c)\<lparr>next_change_time := next_change_time c - word_of_nat n\<rparr>"
    using Suc by simp
  have "unat (word_of_nat n :: u32) = n"
    using Suc.prems unsigned_less [of "next_change_time c", where ?'a = nat] by (simp add: unat_of_nat)
  then have "unat (next_change_time c - word_of_nat n) = unat (next_change_time c) - n"
    using Suc.prems by (simp add: unat_sub word_le_nat_alt)
  then have "1 < next_change_time ?c" using Suc.prems c by (simp add: word_less_nat_alt)
  then have "clock ?c = (one_count ?c)\<lparr>next_change_time := next_change_time ?c - 1\<rparr>"
    using event_ahead(2) in_step_pow [OF assms(1)] by blast
  then show ?case unfolding funpow.simps o_apply using c by (simp add: algebra_simps)
qed simp

lemma event_is_near:
  assumes "in_step c" and "count_written c" and "mode c = 3" and "unat n < unat (next_change_time c)"
  shows "unat n < 2 ^ 31"
proof (cases "1 < next_change_time c")
  case True
  then have "unat (count_binary c) = 2 * (unat (next_change_time c) + 1)" "count_ok c"
    using assms by (auto simp: in_step_def due_def due_3_def)
  then have "2 * (unat (next_change_time c) + 1) < 65536" using count_less [of c] by simp
  then show ?thesis using assms(4) by simp
next
  case False
  then show ?thesis using assms(4) word_0_1_more [of "next_change_time c"] by auto
qed

text \<open>
  The fast path is right: taking many clocks at once leaves a counter in step where as many single
  clocks leave it.
\<close>

lemma clock_multiple_iterates: "in_step c \<Longrightarrow> clock_multiple c n = (clock ^^ unat n) c"
proof (induction c n rule: clock_multiple.induct)
  case (1 c n)
  let ?t = "next_change_time c"
  have m: "\<not> 5 < mode c" using "1.prems" by (simp add: in_step_def not_less)
  have ok: "count_written c \<Longrightarrow> count_ok c" using "1.prems" by (simp add: in_step_def)
  note [simp] = clock_multiple.simps [of c n]
  consider "n = 0" | "n \<noteq> 0" "?t = 0" | "n \<noteq> 0" "?t \<noteq> 0" "n < ?t" | "n \<noteq> 0" "?t \<noteq> 0" "\<not> n < ?t" by blast
  then show ?case
  proof cases
    case 2
    have "mode c = 3 \<Longrightarrow> count_written c \<Longrightarrow> \<not> counts_on c"
      using "1.prems" 2 by (auto simp: in_step_def due_def due_3_def counts_on_def)
    then show ?thesis
      using 2 clock_coasts [OF "1.prems" 2(2)] decrement_multiple_counts [OF ok] by auto
  next
    case 3
    then have l: "unat n < unat ?t" by (simp add: word_less_nat_alt)
    have "1 < ?t" using 3 word_0_1_more [of ?t] by (auto simp: word_less_1)
    then have w: "count_written c" using "1.prems" by (auto simp: in_step_def split: if_splits)
    then have "decrement_multiple c (counts c n) = (one_count ^^ unat n) c"
      using decrement_multiple_counts [OF ok [OF w]] event_is_near [OF "1.prems" w _ l] by blast
    then show ?thesis using 3 m clock_approaches [OF "1.prems" l] by simp
  next
    case 4
    have t: "unat (?t - 1) = unat ?t - 1" "0 < unat ?t"
      using 4(2) by (simp_all add: unat_sub word_le_nat_alt unat_gt_0 Suc_le_eq)
    let ?d = "decrement_multiple c (counts c (?t - 1))" and ?k = "unat ?t - 1"
    have "?d = (one_count ^^ ?k) c"
    proof (cases "count_written c")
      case True
      then show ?thesis
        using decrement_multiple_counts [OF ok, of "?t - 1"] event_is_near [OF "1.prems" True, of "?t - 1"] t by auto
    next
      case False
      then have "?t = 1" using "1.prems" 4(2) word_0_1_more [of ?t] by (auto simp: in_step_def)
      then show ?thesis by (simp add: counts_def decrement_multiple.simps)
    qed
    moreover have "clock ((clock ^^ ?k) c) = clock ((one_count ^^ ?k) c)"
      using clock_approaches [OF "1.prems", of ?k] t(2) by simp
    ultimately have d: "clock ?d = (clock ^^ unat ?t) c" using t(2) by (cases "unat ?t") simp_all
    have n: "unat n = (unat n - unat ?t) + unat ?t" "unat (n - ?t) = unat n - unat ?t"
      using 4(3) by (simp_all add: unat_sub word_le_nat_alt not_less)
    have "clock_multiple (clock ?d) (n - ?t) = (clock ^^ unat (n - ?t)) (clock ?d)"
      using "1.IH" 4 m in_step_pow [OF "1.prems", of "unat ?t"] d by simp
    also have "\<dots> = (clock ^^ unat n) c" unfolding d n(2) by (subst (2) n(1)) (simp add: funpow_add)
    finally show ?thesis using 4 m by simp
  qed (simp add: clock_multiple.simps)
qed

interpretation counter_time: timed_device clock clock_multiple in_step
  by unfold_locales (rule in_step_clock clock_multiple_iterates; assumption)+

end
