(* ===== verification/Pit_Rate.thy ===== *)
theory Pit_Rate
  imports Pit_Spec
begin

text \<open>
  Counters as a driver programs them: a control word and the two bytes of a count, then time. The
  clock skipping of \<open>clock_multiple\<close> is exact for them; mode 2 divides the clock, mode 3 is a square
  wave.
\<close>

unbundle bit_operations_syntax

section \<open>A programmed counter\<close>

text \<open>The control word for 16 bit binary counts in mode \<open>m\<close>, then the two bytes of the count.\<close>

definition programmed :: "u8 \<Rightarrow> u16 \<Rightarrow> counter \<Rightarrow> counter" where
  "programmed m k c =
     write_counter (ucast (drop_bit 8 k)) (write_counter (ucast k) (program_counter 3 m False c))"

definition program_ok :: "u8 \<Rightarrow> u16 \<Rightarrow> counter \<Rightarrow> bool" where
  "program_ok m k c \<longleftrightarrow>
     (if m = 2 then GATE c \<and> k \<noteq> 1 else if m = 3 then \<not> bit k 0 \<and> k \<noteq> 0 else m \<in> {0, 1, 4})"

lemma latch_word: "ucast (ucast k :: u8) OR push_bit 8 (ucast (ucast (drop_bit 8 k) :: u8)) = (k :: u16)"
  by (rule bit_word_eqI) (auto simp: bit_simps dest: bit_imp_le_length)

lemma program_is:
  "program_counter 3 m False c =
     (set_OUT (m \<noteq> 0) c)\<lparr>null_count := True, count_LSB_latched := False, count_MSB_latched := False,
        status_latched := False, inlatch := 0, count_written := False, first_pass := True, rw_mode := 3,
        bcd_mode := False, mode := m, read_state := LSByte_multiple, write_state := LSByte_multiple,
        next_change_time := 0\<rparr>"
  by (simp add: program_counter_def set_OUT_def)

lemma programmed_is:
  assumes "m \<in> {0, 1, 2, 3, 4}"
  shows "programmed m k c =
     (set_OUT (m \<noteq> 0) c)\<lparr>null_count := True, count_LSB_latched := False, count_MSB_latched := False,
        status_latched := False, inlatch := k, count_written := True, first_pass := True, rw_mode := 3,
        bcd_mode := False, mode := m, read_state := LSByte_multiple, write_state := LSByte_multiple,
        next_change_time := (if m = 1 \<and> \<not> triggerGATE c then 0 else 1), count := ucast k, count_binary := ucast k\<rparr>"
proof -
  let ?p = "program_counter 3 m False c"
  let ?t = "if m = 1 \<and> \<not> triggerGATE c then 0 else 1 :: u32"
  have o: "\<not> OUTpin ?p" if "m = 0" using that by (simp add: program_is)
  have s: "m = 0 \<or> m = 1 \<or> m = 2 \<or> m = 3 \<or> m = 4" using assms by blast
  have w1: "write_counter v ?p = ?p\<lparr>inlatch := ucast v, write_state := MSByte_multiple, next_change_time := ?t\<rparr>" for v
    using s o by (elim disjE) (simp_all add: write_counter_def load_inlatch_def program_is Let_def set_OUT_def)
  show ?thesis
    unfolding programmed_def w1 using s
    by (elim disjE) (simp_all add: write_counter_def load_inlatch_def program_is Let_def set_count_def
        set_binary_to_count_def latch_word)
qed

lemma programmed_in_step:
  assumes "program_ok m k c"
  shows "in_step (programmed m k c)"
proof -
  have m: "m \<in> {0, 1, 2, 3, 4}" using assms by (auto simp: program_ok_def split: if_splits)
  have ok: "count_ok (programmed m k c)" "latch_ok (programmed m k c)"
    using unsigned_less [of k, where ?'a = nat]
    by (simp_all add: count_ok_def latch_ok_def modulus_def programmed_is [OF m])
  have "due (programmed m k c)"
    using assms m unfolding program_ok_def programmed_is [OF m]
    by (elim insertE emptyE) (simp_all add: due_def due_defs)
  then show ?thesis using ok m unfolding in_step_def by (auto simp: programmed_is [OF m])
qed

section \<open>The rate generator\<close>

text \<open>A count of zero stands for 65536.\<close>

definition period :: "u16 \<Rightarrow> nat" where
  "period k = (if k = 0 then 65536 else unat k)"

lemma period_bound: "k \<noteq> 1 \<Longrightarrow> 2 \<le> period k" "period k \<le> 65536" "unat k = period k mod 65536"
proof -
  have "unat k < 65536" using unsigned_less [of k, where ?'a = nat] by simp
  then show "period k \<le> 65536" "unat k = period k mod 65536" by (auto simp: period_def)
  assume "k \<noteq> 1"
  then have "unat k \<noteq> 1" by (auto simp: word_eq_iff_unsigned [where ?'a = nat])
  moreover have "k \<noteq> 0 \<Longrightarrow> unat k \<noteq> 0" by (simp add: unat_eq_zero)
  ultimately show "2 \<le> period k" by (auto simp: period_def)
qed

definition rate_at :: "u16 \<Rightarrow> nat \<Rightarrow> counter \<Rightarrow> bool" where
  "rate_at k j s \<longleftrightarrow> mode s = 2 \<and> inlatch s = k \<and> \<not> bcd_mode s \<and> count_written s \<and> GATE s \<and> \<not> triggerGATE s \<and>
     count_ok s \<and> unat (count_binary s) = (period k - j) mod 65536 \<and>
     OUTpin s = (j \<noteq> period k - 1) \<and> first_pass s = (j = period k - 1)"

lemma rate_reload:
  assumes "mode s = 2" "inlatch s = k" "\<not> bcd_mode s" "count_written s" "GATE s" "triggerGATE s \<or> first_pass s"
    and "k \<noteq> 1"
  shows "rate_at k 0 (clock s)"
proof -
  have l: "latch_ok s" using assms(3) by (simp add: latch_ok_def)
  have v: "unat (count_binary (load s)) = period k mod 65536"
    using load_value [OF l] assms(2,3) period_bound(3) by simp
  have c: "clock s = (set_OUT True ((load s)\<lparr>next_change_time := count_binary (load s) - 1 AND 0xffff\<rparr>))
      \<lparr>first_pass := False, triggerGATE := False\<rparr>"
    using assms by (auto simp: clock_def clock_2_def Let_def)
  show ?thesis
    unfolding c rate_at_def using assms l v period_bound(1) [OF assms(7)] by simp
qed

lemma rate_step:
  assumes "rate_at k j s" and "j < period k" and "k \<noteq> 1"
  shows "rate_at k (if j = period k - 1 then 0 else Suc j) (clock s)"
proof (cases "j = period k - 1")
  case True
  then show ?thesis using rate_reload [of s k] assms by (simp add: rate_at_def)
next
  case False
  let ?d = "decrement s"
  have s: "mode s = 2" "inlatch s = k" "\<not> bcd_mode s" "count_written s" "GATE s" "\<not> triggerGATE s" "count_ok s"
    "unat (count_binary s) = (period k - j) mod 65536" "OUTpin s" "\<not> first_pass s"
    using assms(1) False by (simp_all add: rate_at_def)
  have ok: "count_ok ?d" using s(7) by (rule decrement_value)
  have m: "modulus s = 65536" using s(3) by (simp add: modulus_def)
  have d: "unat (count_binary ?d) = (period k - Suc j) mod 65536"
  proof (cases "count_binary s = 0")
    case True
    then have "(period k - j) mod 65536 = 0" using s(8) by simp
    then have "period k - j = 65536"
      using assms(2) period_bound(2) [of k] by (metis diff_is_0_eq diff_le_self le_antisym le_trans mod_less not_le)
    then show ?thesis using True decrement_value(1) [OF s(7)] m by simp
  next
    case F: False
    then have "unat (count_binary s) \<noteq> 0" by (simp add: unat_eq_zero)
    then have "unat (count_binary s) = period k - j" using s(8) period_bound(2) [of k]
      by (metis diff_le_self le_neq_implies_less le_trans mod_less mod_self)
    then show ?thesis using F decrement_value(1) [OF s(7)] period_bound(2) [of k] assms(2) by simp
  qed
  have "period k - Suc j < 65536" using period_bound(2) [of k] assms(2) by linarith
  then have u: "unat (count_binary ?d) = period k - Suc j" using d by simp
  have one: "count ?d = 1 \<longleftrightarrow> Suc j = period k - 1"
  proof -
    have "count ?d = 1 \<longleftrightarrow> unat (count_binary ?d) = 1"
      unfolding count_eq_iff(2) [OF ok] by (simp add: word_eq_iff_unsigned [where ?'a = nat])
    then show ?thesis unfolding u using False assms(2) by linarith
  qed
  show ?thesis
  proof (cases "Suc j = period k - 1")
    case True
    then have "clock s = (set_OUT False (?d\<lparr>next_change_time := 1\<rparr>))\<lparr>first_pass := True, triggerGATE := False\<rparr>"
      using s one by (simp add: clock_def clock_2_def Let_def)
    then show ?thesis using False True s ok d unfolding rate_at_def by simp
  next
    case F: False
    then have "clock s = ?d\<lparr>next_change_time := count_binary ?d - 1 AND 0xffff, triggerGATE := False\<rparr>"
      using s one by (simp add: clock_def clock_2_def Let_def)
    then show ?thesis using False F s ok d unfolding rate_at_def by simp
  qed
qed

lemma rate_state:
  assumes "GATE c" and "k \<noteq> 1"
  shows "rate_at k (n mod period k) ((clock ^^ Suc n) (programmed 2 k c))"
proof (induction n)
  case 0
  show ?case using rate_reload [of "programmed 2 k c" k] assms by (simp add: programmed_is)
next
  case (Suc n)
  have "0 < period k" using period_bound(1) [OF assms(2)] by simp
  then have "n mod period k < period k" by simp
  moreover have i: "(if n mod period k = period k - 1 then 0 else Suc (n mod period k)) = Suc n mod period k"
    using \<open>0 < period k\<close> by (auto simp: mod_Suc)
  ultimately show ?case using rate_step [OF Suc.IH _ assms(2)] by (simp add: i [symmetric])
qed

lemma rate_output:
  assumes "GATE c" and "k \<noteq> 1"
  shows "OUTpin ((clock ^^ n) (programmed 2 k c)) \<longleftrightarrow> n = 0 \<or> n mod period k \<noteq> 0"
proof (cases n)
  case 0
  then show ?thesis using assms by (simp add: programmed_is)
next
  case (Suc m)
  have "2 \<le> period k" using period_bound(1) [OF assms(2)] .
  then have "Suc m mod period k \<noteq> 0 \<longleftrightarrow> m mod period k \<noteq> period k - 1" by (auto simp: mod_Suc)
  then show ?thesis using rate_state [OF assms, of m] Suc by (simp add: rate_at_def)
qed

section \<open>The edges of the output\<close>

definition rises :: "counter \<Rightarrow> nat" where
  "rises c = length (filter id (out_calls c))"

lemma set_OUT_handler [simp]: "out_handler (set_OUT v c) = out_handler c"
  by (simp add: set_OUT_def)

lemma load_calls [simp]: "out_handler (load c) = out_handler c" "out_calls (load c) = out_calls c"
  by (simp_all add: load_def)

lemma rises_set_OUT: "rises (set_OUT v c) = rises c + of_bool (out_handler c \<and> v \<and> \<not> OUTpin c)"
  by (auto simp: rises_def set_OUT_def)

lemma rises_fields [simp]:
  "rises (c\<lparr>next_change_time := t\<rparr>) = rises c" "rises (c\<lparr>first_pass := b\<rparr>) = rises c"
  "rises (c\<lparr>triggerGATE := b\<rparr>) = rises c" "rises (load c) = rises c" "rises (decrement c) = rises c"
  by (simp_all add: rises_def)

lemma rises_clock_2:
  assumes "mode s = 2" "count_written s" "GATE s" "out_handler s"
  shows "rises (clock s) = rises s + of_bool ((triggerGATE s \<or> first_pass s) \<and> \<not> OUTpin s)"
    and "out_handler (clock s)"
  using assms by (auto simp: clock_def clock_2_def Let_def rises_set_OUT)

lemma rate_rises:
  assumes "GATE c" and "k \<noteq> 1" and "out_handler c"
  shows "rises ((clock ^^ n) (programmed 2 k c)) = rises (programmed 2 k c) + (n - 1) div period k"
proof (cases n)
  case (Suc m)
  have p: "0 < period k" using period_bound(1) [OF assms(2)] by simp
  have "out_handler ((clock ^^ Suc m) (programmed 2 k c)) \<and>
      rises ((clock ^^ Suc m) (programmed 2 k c)) = rises (programmed 2 k c) + m div period k"
  proof (induction m)
    case 0
    show ?case using rises_clock_2 [of "programmed 2 k c"] assms by (simp add: programmed_is)
  next
    case (Suc m)
    let ?s = "(clock ^^ Suc m) (programmed 2 k c)"
    have s: "out_handler (clock ?s)" "rises (clock ?s) = rises ?s + of_bool (m mod period k = period k - 1)"
      using rises_clock_2 [of ?s] rate_state [OF assms(1,2), of m] Suc.IH by (auto simp: rate_at_def)
    moreover have "Suc m div period k = m div period k + of_bool (m mod period k = period k - 1)"
      using p by (auto simp: div_Suc mod_Suc)
    ultimately show ?case using Suc.IH by simp
  qed
  then show ?thesis using Suc by simp
qed simp

section \<open>The square wave\<close>

definition wave_at :: "u16 \<Rightarrow> nat \<Rightarrow> bool \<Rightarrow> counter \<Rightarrow> bool" where
  "wave_at k j v s \<longleftrightarrow> mode s = 3 \<and> inlatch s = k \<and> \<not> bcd_mode s \<and> count_written s \<and> GATE s \<and> \<not> triggerGATE s \<and>
     count_ok s \<and> unat (count_binary s) = unat k - 2 * j \<and> OUTpin s = v \<and> \<not> first_pass s \<and> \<not> state_bit_1 s \<and>
     state_bit_2 s = (Suc j = unat k div 2)"

definition wave_ok :: "u16 \<Rightarrow> bool" where
  "wave_ok k \<longleftrightarrow> \<not> bit k 0 \<and> 4 \<le> unat k"

lemma even_u16: "\<not> bit (k :: u16) 0 \<longleftrightarrow> even (unat k)"
proof -
  have "bit (unat k) 0 \<longleftrightarrow> bit k 0" by (simp only: bit_unsigned_iff) simp
  then show ?thesis by (simp add: bit_0)
qed

lemma wave_reload:
  assumes "mode s = 3" "inlatch s = k" "\<not> bcd_mode s" "count_written s" "GATE s"
    and "triggerGATE s \<or> first_pass s \<or> state_bit_2 s" and "wave_ok k" and "first_pass s \<longrightarrow> OUTpin s"
  shows "wave_at k 0 (if first_pass s then True else \<not> OUTpin s) (clock s)"
proof -
  have l: "latch_ok s" using assms(3) by (simp add: latch_ok_def)
  have nb: "bit k 0 = False" and z: "inlatch s \<noteq> 0" using assms(2,7) by (auto simp: wave_ok_def)
  have e: "set_count (ucast (inlatch s) AND 0xfffe) s = set_count (ucast (inlatch s)) s"
    using even_latch(3) [OF l _ z] assms(2) nb by simp
  let ?l = "(load s)\<lparr>state_bit_1 := False, state_bit_2 := False, first_pass := False, triggerGATE := False\<rparr>"
  have v: "unat (count_binary ?l) = unat k" using load_value [OF l] assms(2,3) by simp
  have "\<exists>t. clock s = set_OUT (if first_pass s then True else \<not> OUTpin s) (?l\<lparr>next_change_time := t\<rparr>)"
    using assms(1,2,4-6,8) nb e
    by (cases "first_pass s"; cases "OUTpin s"; intro exI [of _ "clocks_left (count_binary ?l div 2 - 1)"])
      (auto simp: clock_def clock_3_def Let_def load_def set_OUT_def)
  then obtain t where c: "clock s = set_OUT (if first_pass s then True else \<not> OUTpin s) (?l\<lparr>next_change_time := t\<rparr>)" ..
  have "2 \<le> unat k div 2" using assms(7) div_le_mono [of 4 "unat k" 2] by (simp add: wave_ok_def)
  then have "Suc 0 \<noteq> unat k div 2" by simp
  then show ?thesis unfolding c wave_at_def using assms l v by simp
qed

lemma keep_state_2: "\<not> state_bit_2 c \<Longrightarrow> c = c\<lparr>state_bit_2 := False\<rparr>"
  by (cases c) simp

lemma wave_step:
  assumes "wave_at k j v s" and "j < unat k div 2" and "wave_ok k"
  shows "wave_at k (if Suc j = unat k div 2 then 0 else Suc j) (if Suc j = unat k div 2 then \<not> v else v) (clock s)"
proof (cases "Suc j = unat k div 2")
  case True
  then show ?thesis using wave_reload [of s k] assms by (simp add: wave_at_def)
next
  case False
  let ?d = "decrement (decrement s)"
  have s: "mode s = 3" "inlatch s = k" "\<not> bcd_mode s" "count_written s" "GATE s" "\<not> triggerGATE s" "count_ok s"
    "unat (count_binary s) = unat k - 2 * j" "OUTpin s = v" "\<not> first_pass s" "\<not> state_bit_1 s" "\<not> state_bit_2 s"
    using assms(1) False by (simp_all add: wave_at_def)
  have k: "even (unat k)" "4 \<le> unat k" using assms(3) even_u16 by (auto simp: wave_ok_def)
  obtain h where h: "unat k = 2 * h" using k(1) by (elim evenE)
  then have j: "2 * j + 4 \<le> unat k" using False assms(2) by simp
  then have "unat (count_binary s) \<noteq> 0" using s(8) by simp
  then have "count_binary s \<noteq> 0" by (simp add: unat_eq_zero)
  then have d1: "unat (count_binary (decrement s)) = unat k - 2 * j - 1" using decrement_value(1) [OF s(7)] s(8) by simp
  then have "unat (count_binary (decrement s)) \<noteq> 0" using j by simp
  then have "count_binary (decrement s) \<noteq> 0" by (simp add: unat_eq_zero)
  then have d: "unat (count_binary ?d) = unat k - 2 * Suc j"
    using decrement_value(1) [OF decrement_value(2) [OF s(7)]] d1 by simp
  have ok: "count_ok ?d" using s(7) by (simp add: decrement_value)
  have n0: "count ?d \<noteq> 0" using count_eq_iff(1) [OF ok] d j by auto
  have two: "count ?d = 2 \<longleftrightarrow> Suc (Suc j) = unat k div 2"
  proof -
    have "count ?d = 2 \<longleftrightarrow> unat (count_binary ?d) = 2"
      unfolding count_eq_iff(3) [OF ok] by (simp add: word_eq_iff_unsigned [where ?'a = nat])
    also have "\<dots> \<longleftrightarrow> Suc (Suc j) = unat k div 2" unfolding d h using j h by simp linarith
    finally show ?thesis .
  qed
  have f: "mode s = 3" "count_written s" "GATE s" "\<not> triggerGATE s" "\<not> first_pass s" "\<not> state_bit_1 s" "\<not> state_bit_2 s"
    by fact+
  have "\<exists>t. clock s = ?d\<lparr>next_change_time := t, state_bit_2 := (count ?d = 2)\<rparr>"
  proof (cases "count ?d = 2")
    case True
    then have "clock s = ?d\<lparr>next_change_time := 1, state_bit_2 := True\<rparr>"
      using f n0 by (simp add: clock_def clock_3_def Let_def)
    then show ?thesis using True by auto
  next
    case False
    then have "clock s = ?d\<lparr>next_change_time := (count_binary ?d div 2 - 1) AND 0xffff\<rparr>"
      using f n0 by (simp add: clock_def clock_3_def Let_def)
    also have "\<dots> = ?d\<lparr>next_change_time := (count_binary ?d div 2 - 1) AND 0xffff, state_bit_2 := False\<rparr>"
      using f by (intro keep_state_2) simp
    finally show ?thesis using False by auto
  qed
  note this [unfolded two]
  then obtain t where c: "clock s = ?d\<lparr>next_change_time := t, state_bit_2 := (Suc (Suc j) = unat k div 2)\<rparr>" ..
  show ?thesis using False s ok d unfolding c wave_at_def by simp
qed

lemma wave_state:
  assumes "GATE c" and "wave_ok k"
  shows "wave_at k (n mod (unat k div 2)) (even (n div (unat k div 2))) ((clock ^^ Suc n) (programmed 3 k c))"
proof (induction n)
  case 0
  show ?case using wave_reload [of "programmed 3 k c" k] assms by (simp add: programmed_is)
next
  case (Suc n)
  let ?h = "unat k div 2"
  have h: "2 \<le> ?h" using assms(2) div_le_mono [of 4 "unat k" 2] by (simp add: wave_ok_def)
  then have "n mod ?h < ?h" by simp
  note w = wave_step [OF Suc.IH this assms(2)]
  have "(if Suc (n mod ?h) = ?h then 0 else Suc (n mod ?h)) = Suc n mod ?h"
    "(if Suc (n mod ?h) = ?h then \<not> even (n div ?h) else even (n div ?h)) = even (Suc n div ?h)"
    by (auto simp: mod_Suc div_Suc)
  with w show ?case by simp
qed

lemma wave_output:
  assumes "GATE c" and "wave_ok k"
  shows "OUTpin ((clock ^^ n) (programmed 3 k c)) \<longleftrightarrow> even ((n - 1) div (unat k div 2))"
proof (cases n)
  case (Suc m)
  then show ?thesis using wave_state [OF assms, of m] by (simp add: wave_at_def)
qed (use assms in \<open>simp add: programmed_is\<close>)

section \<open>What the counters do when time passes in steps\<close>

lemma multiple_programmed:
  "program_ok m k c \<Longrightarrow> clock_multiple (programmed m k c) n = (clock ^^ unat n) (programmed m k c)"
  by (rule counter_time.run_iterates [OF programmed_in_step])

text \<open>
  C32. For a counter that has just been given a binary count, low byte first, in one of the modes 0 to 4 (\<open>program_ok\<close>: in
  mode 2 with the gate high and a rate other than one, in mode 3 an even count other than zero), jumping from event to event is
  exact: however a stretch of time is cut into steps, the counter ends in the state that single clocks reach.
\<close>

theorem jumping_is_exact:
  assumes "program_ok m k c"
  shows "fold (\<lambda>n c. clock_multiple c n) ns (programmed m k c) =
           (clock ^^ sum_list (map unat ns)) (programmed m k c)"
  by (rule counter_time.run_chunks [OF programmed_in_step [OF assms]])

text \<open>
  Mode 2 divides the clock: with count \<open>k\<close> (0 for 65536) the output is low for exactly one of
  every \<open>k\<close> clocks, and its handler sees one rising edge in each period.
\<close>

theorem rate_generator:
  assumes "GATE c" and "k \<noteq> 1" and "out_handler c"
  shows "(OUTpin (clock_multiple (programmed 2 k c) n) \<longleftrightarrow> n = 0 \<or> unat n mod period k \<noteq> 0) \<and>
         rises (clock_multiple (programmed 2 k c) n) = rises (programmed 2 k c) + (unat n - 1) div period k"
proof -
  have "program_ok 2 k c" using assms by (simp add: program_ok_def)
  note m = multiple_programmed [OF this]
  show ?thesis unfolding m rate_output [OF assms(1,2)] rate_rises [OF assms] by (simp add: unat_eq_zero)
qed

text \<open>
  Mode 3 with an even count of at least 4 is a square wave: the output is high for half of the
  count and low for the other half, from the clock that loads the count on.
\<close>

theorem square_wave:
  assumes "GATE c" and "even (unat k)" and "4 \<le> unat k"
  shows "OUTpin (clock_multiple (programmed 3 k c) n) \<longleftrightarrow> even ((unat n - 1) div (unat k div 2))"
proof -
  have w: "wave_ok k" using assms(2,3) even_u16 by (simp add: wave_ok_def)
  then have "program_ok 3 k c" by (auto simp: program_ok_def wave_ok_def)
  from multiple_programmed [OF this] wave_output [OF assms(1) w] show ?thesis by simp
qed

section \<open>Witnesses\<close>

definition idle_counter :: counter where
  "idle_counter = \<lparr>GATE = True, OUTpin = True, count = 0, outlatch = 0, inlatch = 0, status_latch = 0, rw_mode = 1,
     mode = 4, bcd_mode = False, null_count = False, count_LSB_latched = False, count_MSB_latched = False,
     status_latched = False, count_binary = 0, triggerGATE = False, write_state = LSByte, read_state = LSByte,
     count_written = True, first_pass = False, state_bit_1 = False, state_bit_2 = False, next_change_time = 0,
     out_handler = True, out_calls = []\<rparr>"

lemma jumping_is_exact_witness:
  "clock_multiple (clock_multiple (programmed 2 1000 idle_counter) 700) 700 =
     (clock ^^ 1400) (programmed 2 1000 idle_counter)"
  using jumping_is_exact [of 2 1000 idle_counter "[700, 700]"] by (simp add: program_ok_def idle_counter_def)

lemma rate_generator_witness:
  "\<not> OUTpin (clock_multiple (programmed 2 1000 idle_counter) 5000) \<and>
   rises (clock_multiple (programmed 2 1000 idle_counter) 5001) = rises (programmed 2 1000 idle_counter) + 5"
  using rate_generator [of idle_counter 1000 5000] rate_generator [of idle_counter 1000 5001]
  by (simp add: period_def idle_counter_def)

lemma square_wave_witness:
  "\<not> OUTpin (clock_multiple (programmed 3 1000 idle_counter) 501) \<and>
   OUTpin (clock_multiple (programmed 3 1000 idle_counter) 1001)"
  using square_wave [of idle_counter 1000 501] square_wave [of idle_counter 1000 1001]
  by (simp add: idle_counter_def)

text \<open>A square wave of count 0 (65536): the event is put at the end of a whole period, not half of one.\<close>

lemma zero_wave_event: "next_change_time (clock (programmed 3 0 idle_counter)) = 65535"
  by (simp add: programmed_is clock_def clock_3_def Let_def idle_counter_def set_count_def set_binary_to_count_def
      clocks_left_def)

end
