(* ===== verification/Pit_Wrap.thy ===== *)
theory Pit_Wrap
  imports Pit_Rate Pic_Spec
begin

text \<open>
  The device around the timer chip (\<^verbatim>\<open>bx_pit_c\<close> in \<^verbatim>\<open>src/sim/bochs/iodev/pit_wrap.cc\<close>): its ports, the
  conversion of virtual microseconds to ticks of 1.193181 MHz, and the interrupt line. Readings of the
  virtual clock are arguments (\<open>now\<close>). Requests to the virtual timer and the speaker are appended to
  \<open>requests\<close>; the interrupt line is what counter 0 told its handler.
\<close>

unbundle bit_operations_syntax

section \<open>State\<close>

datatype pit_request = Register_Timer u32 | Activate_Timer u32 | Deactivate_Timer | Beep_On u16 | Beep_Off

record pit_dev =
  timer :: pit82
  speaker_data_on :: u8
  refresh_clock_div2 :: bool
  last_usec :: u64
  last_next_event_time :: u32
  total_ticks :: u64
  total_usec :: u64
  timer_registered :: bool
  requests :: "pit_request list"

definition on_timer :: "(pit82 \<Rightarrow> pit82) \<Rightarrow> pit_dev \<Rightarrow> pit_dev" where
  "on_timer f w = w\<lparr>timer := f (timer w)\<rparr>"

definition request :: "pit_request \<Rightarrow> pit_dev \<Rightarrow> pit_dev" where
  "request r w = w\<lparr>requests := requests w @ [r]\<rparr>"

definition USEC_PER_SECOND :: u64 where "USEC_PER_SECOND = 1000000"
definition TICKS_PER_SECOND :: u64 where "TICKS_PER_SECOND = 1193181"

definition TICKS_TO_USEC :: "u32 \<Rightarrow> u32" where
  "TICKS_TO_USEC a = (a * ucast USEC_PER_SECOND) div ucast TICKS_PER_SECOND"

definition USEC_TO_TICKS :: "u64 \<Rightarrow> u64" where
  "USEC_TO_TICKS a = (a * TICKS_PER_SECOND) div USEC_PER_SECOND"

section \<open>Time\<close>

function carry_seconds :: "pit_dev \<Rightarrow> pit_dev" where
  "carry_seconds w =
     (if TICKS_PER_SECOND \<le> total_ticks w \<and> USEC_PER_SECOND \<le> total_usec w
      then carry_seconds (w\<lparr>total_ticks := total_ticks w - TICKS_PER_SECOND,
                            total_usec := total_usec w - USEC_PER_SECOND\<rparr>)
      else w)"
  by pat_completeness auto
termination
  by (relation "measure (\<lambda>w. unat (total_usec w))")
    (auto simp: USEC_PER_SECOND_def unat_sub word_le_nat_alt intro!: diff_less)

declare carry_seconds.simps [simp del]

text \<open>The ticks go to the counters in steps that end at the next event of a counter.\<close>

definition step_to_event :: "u32 \<Rightarrow> pit82 \<Rightarrow> u32" where
  "step_to_event ticks_delta p =
     (let maxchange = get_next_event_time p in
      if maxchange = 0 \<or> ticks_delta < maxchange then ticks_delta else maxchange)"

lemma step_to_event_bounds: "0 < n \<Longrightarrow> 0 < step_to_event n p \<and> step_to_event n p \<le> n"
  by (auto simp: step_to_event_def Let_def word_neq_0_conv)

function run_ticks :: "u32 \<Rightarrow> pit82 \<Rightarrow> pit82" where
  "run_ticks ticks_delta p =
     (if 0 < ticks_delta
      then run_ticks (ticks_delta - step_to_event ticks_delta p) (clock_all (step_to_event ticks_delta p) p)
      else p)"
  by pat_completeness auto
termination
proof (relation "measure (\<lambda>(n, p). unat n)")
  fix n :: u32 and p :: pit82
  assume "0 < n"
  then have "0 < unat (step_to_event n p)" "unat (step_to_event n p) \<le> unat n" "0 < unat n"
    using step_to_event_bounds [of n p] by (simp_all add: word_less_nat_alt word_le_nat_alt)
  then show "((n - step_to_event n p, clock_all (step_to_event n p) p), n, p) \<in> measure (\<lambda>(n, p). unat n)"
    by (simp add: unat_sub word_le_nat_alt)
qed simp

declare run_ticks.simps [simp del]

definition periodic :: "u32 \<Rightarrow> pit_dev \<Rightarrow> pit_dev" where
  "periodic usec_delta w0 =
     (let w1 = w0\<lparr>total_usec := total_usec w0 + ucast usec_delta\<rparr>;
          ticks_delta = ucast (USEC_TO_TICKS (total_usec w1) - total_ticks w1);
          w2 = w1\<lparr>total_ticks := total_ticks w1 + ucast ticks_delta\<rparr>
      in on_timer (run_ticks ticks_delta) (carry_seconds w2))"

text \<open>The common beginning and end of the entries: let time pass, ask for the next wake-up.\<close>

definition catch_up :: "u64 \<Rightarrow> pit_dev \<Rightarrow> pit_dev" where
  "catch_up now w =
     (let time_passed = now - last_usec w; time_passed32 = ucast time_passed;
          w1 = (if time_passed32 \<noteq> 0 then periodic time_passed32 w else w)
      in w1\<lparr>last_usec := last_usec w1 + time_passed\<rparr>)"

definition arm :: "pit_dev \<Rightarrow> pit_dev" where
  "arm w =
     (let t = get_next_event_time (timer w); w1 = request Deactivate_Timer w;
          w2 = (if t \<noteq> 0 then request (Activate_Timer (max 1 (TICKS_TO_USEC t))) w1 else w1)
      in w2\<lparr>last_next_event_time := t\<rparr>)"

definition rearm :: "u64 \<Rightarrow> pit_dev \<Rightarrow> pit_dev" where
  "rearm time_passed w =
     (if time_passed \<noteq> 0 \<or> last_next_event_time w \<noteq> get_next_event_time (timer w) then arm w else w)"

definition handle_timer :: "u64 \<Rightarrow> pit_dev \<Rightarrow> pit_dev" where
  "handle_timer now w = rearm (now - last_usec w) (catch_up now w)"

section \<open>Initialisation and ports\<close>

definition pit_dev_init :: "u64 \<Rightarrow> pit_dev \<Rightarrow> pit_dev" where
  "pit_dev_init now w0 =
     (let w1 = on_timer (set_OUT_handler 0 \<circ> pit_init) (w0\<lparr>speaker_data_on := 0, refresh_clock_div2 := False\<rparr>);
          w2 = (if timer_registered w1 then w1 else (request (Register_Timer 100) w1)\<lparr>timer_registered := True\<rparr>)
      in (arm w2)\<lparr>last_usec := now, total_ticks := 0, total_usec := 0\<rparr>)"

definition get_timer :: "nat \<Rightarrow> pit_dev \<Rightarrow> u16" where
  "get_timer i w = get_inlatch i (timer w)"

text \<open>\<open>now\<close> is the clock when time passes, \<open>now'\<close> the second reading, for the refresh bit.\<close>

definition pit_read :: "u64 \<Rightarrow> u64 \<Rightarrow> u32 \<Rightarrow> pit_dev \<Rightarrow> u8 \<times> pit_dev" where
  "pit_read now now' address w0 =
     (let w = handle_timer now w0 in
      if 0x40 \<le> address \<and> address \<le> 0x43 then
        let (v, p) = pit_chip_read (unat (address - 0x40)) (timer w) in (v, w\<lparr>timer := p\<rparr>)
      else if address = 0x61 then
        let w1 = w\<lparr>refresh_clock_div2 := bit (now' div 15) 0\<rparr> in
        (push_bit 5 (of_bool (read_OUT 2 (timer w1))) OR push_bit 4 (of_bool (refresh_clock_div2 w1)) OR
         push_bit 1 (speaker_data_on w1) OR of_bool (read_GATE 2 (timer w1)), w1)
      else (0, w))"

definition speaker_write :: "u8 \<Rightarrow> pit_dev \<Rightarrow> pit_dev" where
  "speaker_write value w =
     (let w1 = w\<lparr>speaker_data_on := drop_bit 1 value AND 0x01\<rparr>;
          w2 = (if speaker_data_on w1 \<noteq> 0 then request (Beep_On (get_timer 2 w1)) w1 else request Beep_Off w1)
      in on_timer (set_GATE 2 (value AND 0x01 \<noteq> 0)) w2)"

definition pit_write :: "u64 \<Rightarrow> u32 \<Rightarrow> u32 \<Rightarrow> pit_dev \<Rightarrow> pit_dev" where
  "pit_write now address dvalue w0 =
     (let w = catch_up now w0; value = ucast dvalue :: u8;
          w1 = (if 0x40 \<le> address \<and> address \<le> 0x43
                then on_timer (pit_chip_write (unat (address - 0x40)) value) w
                else if address = 0x61 then speaker_write value w else w)
      in rearm (now - last_usec w0) w1)"

definition irq_handler :: "bool \<Rightarrow> pics \<Rightarrow> pics" where
  "irq_handler value = (if value then raise_irq 0 else lower_irq 0)"

text \<open>The interrupt controllers after the calls of counter 0's handler.\<close>

definition pics_told :: "pit_dev \<Rightarrow> pics \<Rightarrow> pics" where
  "pics_told w p = fold irq_handler (out_calls (ctr (timer w) 0)) p"

section \<open>Ticks\<close>

lemma ctr_on_counter [simp]: "ctr (on_counter i f p) j = (if j = i then f (ctr p i) else ctr p j)"
  by (simp add: on_counter_def)

lemma ctr_clock_all: "i \<le> 2 \<Longrightarrow> ctr (clock_all n p) i = clock_multiple (ctr p i) n"
  by (auto simp: clock_all_def pit_clock_multiple_def MAX_COUNTER_def numeral_2_eq_2 le_Suc_eq)

lemma run_ticks_counter:
  "i \<le> 2 \<Longrightarrow> in_step (ctr p i) \<Longrightarrow> ctr (run_ticks n p) i = (clock ^^ unat n) (ctr p i)"
proof (induction n p rule: run_ticks.induct)
  case (1 n p)
  show ?case
  proof (cases "0 < n")
    case True
    let ?d = "step_to_event n p"
    have d: "?d \<le> n" using step_to_event_bounds [OF True] by simp
    have c: "ctr (clock_all ?d p) i = clock_multiple (ctr p i) ?d" by (rule ctr_clock_all [OF "1.prems"(1)])
    have ok: "in_step (ctr (clock_all ?d p) i)" unfolding c by (rule counter_time.ok_run [OF "1.prems"(2)])
    have "ctr (run_ticks n p) i = (clock ^^ unat (n - ?d)) (ctr (clock_all ?d p) i)"
      using "1.IH" [OF True "1.prems"(1) ok] True by (simp add: run_ticks.simps [of n])
    also have "\<dots> = clock_multiple (clock_multiple (ctr p i) ?d) (n - ?d)"
      unfolding c by (rule counter_time.run_iterates [symmetric, OF counter_time.ok_run [OF "1.prems"(2)]])
    also have "\<dots> = (clock ^^ unat n) (ctr p i)"
      using counter_time.run_split [OF "1.prems"(2) d] counter_time.run_iterates [OF "1.prems"(2)] by simp
    finally show ?thesis .
  next
    case False
    then have "n = 0" using word_neq_0_conv by blast
    then show ?thesis by (simp add: run_ticks.simps)
  qed
qed

definition ticks_at :: "nat \<Rightarrow> nat" where
  "ticks_at u = u * 1193181 div 1000000"

lemma ticks_at_second: "ticks_at (u + 1000000) = ticks_at u + 1193181"
  by (simp add: ticks_at_def add_mult_distrib)

lemma ticks_at_seconds: "ticks_at (u + 1000000 * q) = ticks_at u + 1193181 * q"
proof (induction q)
  case (Suc q)
  then show ?case using ticks_at_second [of "u + 1000000 * q"] by (simp add: algebra_simps)
qed simp

lemma ticks_at_mono: "u \<le> v \<Longrightarrow> ticks_at u \<le> ticks_at v"
  unfolding ticks_at_def by (intro div_le_mono mult_le_mono1)

lemma ticks_at_bound: "u \<le> 4000000000 \<Longrightarrow> ticks_at u \<le> 4772724000"
  using ticks_at_mono [of u 4000000000] by (simp add: ticks_at_def)

lemma ticks_from: "ticks_at (u mod 1000000 + d) - ticks_at (u mod 1000000) = ticks_at (u + d) - ticks_at u"
proof -
  have "u = u mod 1000000 + 1000000 * (u div 1000000)" by simp
  then have "ticks_at u = ticks_at (u mod 1000000) + 1193181 * (u div 1000000)"
    "ticks_at (u + d) = ticks_at (u mod 1000000 + d) + 1193181 * (u div 1000000)"
    using ticks_at_seconds [of "u mod 1000000" "u div 1000000"]
      ticks_at_seconds [of "u mod 1000000 + d" "u div 1000000"] by (simp_all add: algebra_simps)
  then show ?thesis by simp
qed

definition time_ok :: "pit_dev \<Rightarrow> bool" where
  "time_ok w \<longleftrightarrow> unat (total_usec w) < 1000000 \<and> unat (total_ticks w) = ticks_at (unat (total_usec w))"

lemma carry_keeps [simp]: "timer (carry_seconds w) = timer w" "last_usec (carry_seconds w) = last_usec w"
  by (induction w rule: carry_seconds.induct; subst carry_seconds.simps; simp)+

lemma carry_seconds_mod:
  assumes "unat (total_ticks w) = ticks_at (unat (total_usec w))"
  shows "unat (total_usec (carry_seconds w)) = unat (total_usec w) mod 1000000 \<and> time_ok (carry_seconds w)"
  using assms
proof (induction w rule: carry_seconds.induct)
  case (1 w)
  let ?u = "unat (total_usec w)"
  have c: "TICKS_PER_SECOND \<le> total_ticks w \<and> USEC_PER_SECOND \<le> total_usec w \<longleftrightarrow> 1000000 \<le> ?u"
    using "1.prems" ticks_at_mono [of 1000000 ?u]
    by (auto simp: TICKS_PER_SECOND_def USEC_PER_SECOND_def word_le_nat_alt ticks_at_def)
  show ?case
  proof (cases "1000000 \<le> ?u")
    case True
    let ?w = "w\<lparr>total_ticks := total_ticks w - TICKS_PER_SECOND, total_usec := total_usec w - USEC_PER_SECOND\<rparr>"
    have u: "unat (total_usec ?w) = ?u - 1000000"
      using c True by (simp add: unat_sub word_le_nat_alt USEC_PER_SECOND_def)
    moreover have "unat (total_ticks ?w) = ticks_at (unat (total_usec w)) - 1193181"
      using c True "1.prems" by (simp add: unat_sub word_le_nat_alt TICKS_PER_SECOND_def)
    ultimately have t: "unat (total_ticks ?w) = ticks_at (unat (total_usec ?w))"
      using ticks_at_second [of "?u - 1000000"] True by simp
    have "carry_seconds w = carry_seconds ?w" using c True by (subst carry_seconds.simps) simp
    moreover have "?u mod 1000000 = (?u - 1000000) mod 1000000" using True by (simp add: le_mod_geq)
    ultimately show ?thesis using "1.IH" [OF _ t] c True u by simp
  next
    case False
    then have "\<not> (TICKS_PER_SECOND \<le> total_ticks w \<and> USEC_PER_SECOND \<le> total_usec w)" using c by blast
    then have "carry_seconds w = w" by (subst carry_seconds.simps) (rule if_not_P)
    then show ?thesis using False "1.prems" by (simp add: time_ok_def)
  qed
qed

lemma USEC_TO_TICKS_value:
  assumes "unat a \<le> 4000000000"
  shows "unat (USEC_TO_TICKS a) = ticks_at (unat a)"
proof -
  have "unat a * 1193181 < 2 ^ 64" using assms by simp
  then have "unat (a * 1193181) = unat a * 1193181" by (subst unat_mult_lem [THEN iffD1]) simp_all
  then show ?thesis
    by (simp add: USEC_TO_TICKS_def TICKS_PER_SECOND_def USEC_PER_SECOND_def ticks_at_def unat_div_distrib)
qed

lemma periodic_time:
  assumes ok: "time_ok w" and d: "unat d \<le> 3000000000"
  shows "time_ok (periodic d w)"
    and "unat (total_usec (periodic d w)) = (unat (total_usec w) + unat d) mod 1000000"
    and "last_usec (periodic d w) = last_usec w"
    and "i \<le> 2 \<Longrightarrow> in_step (ctr (timer w) i) \<Longrightarrow>
      ctr (timer (periodic d w)) i =
        (clock ^^ (ticks_at (unat (total_usec w) + unat d) - ticks_at (unat (total_usec w)))) (ctr (timer w) i)"
proof -
  let ?u = "unat (total_usec w)"
  let ?v = "total_usec w + ucast d"
  define n :: u32 where "n = ucast (USEC_TO_TICKS ?v - total_ticks w)"
  define w2 where "w2 = w\<lparr>total_usec := ?v, total_ticks := total_ticks w + ucast n\<rparr>"
  have u: "?u < 1000000" "unat (total_ticks w) = ticks_at ?u" using ok by (auto simp: time_ok_def)
  have v: "unat ?v = ?u + unat d"
    using u(1) d by (subst unat_add_lem [THEN iffD1]) (simp_all add: unat_widen)
  have t: "unat (USEC_TO_TICKS ?v) = ticks_at (?u + unat d)" using USEC_TO_TICKS_value [of ?v] v u(1) d by simp
  have le: "ticks_at ?u \<le> ticks_at (?u + unat d)" by (rule ticks_at_mono) simp
  have "ticks_at (?u + unat d) - ticks_at ?u < 2 ^ 32"
  proof -
    have "ticks_at (?u + unat d) \<le> ticks_at (?u + 3000000000)" using d by (intro ticks_at_mono) simp
    also have "\<dots> = ticks_at ?u + 3579543000" using ticks_at_seconds [of ?u 3000] by simp
    finally show ?thesis by simp
  qed
  moreover have "unat (USEC_TO_TICKS ?v - total_ticks w) = ticks_at (?u + unat d) - ticks_at ?u"
    using t u(2) le by (simp add: unat_sub word_le_nat_alt)
  ultimately have n: "unat n = ticks_at (?u + unat d) - ticks_at ?u"
    unfolding n_def by (simp add: unat_narrow)
  have "unat (total_ticks w2) = ticks_at (unat (total_usec w2))"
    using n u le ticks_at_bound [of "?u + unat d"] d v
    by (simp add: w2_def unat_widen unat_word_ariths)
  note c = carry_seconds_mod [OF this]
  have p: "periodic d w = on_timer (run_ticks n) (carry_seconds w2)"
    by (simp add: periodic_def Let_def n_def w2_def)
  show "time_ok (periodic d w)" "unat (total_usec (periodic d w)) = (?u + unat d) mod 1000000"
    "last_usec (periodic d w) = last_usec w"
    using c v by (simp_all add: p on_timer_def time_ok_def) (simp_all add: w2_def)
  assume "i \<le> 2" "in_step (ctr (timer w) i)"
  then show "ctr (timer (periodic d w)) i = (clock ^^ (ticks_at (?u + unat d) - ticks_at ?u)) (ctr (timer w) i)"
    using run_ticks_counter [of i "timer w" n] n by (simp add: p on_timer_def w2_def)
qed

lemma request_fields [simp]:
  "timer (request r w) = timer w" "last_usec (request r w) = last_usec w"
  "total_usec (request r w) = total_usec w" "total_ticks (request r w) = total_ticks w"
  "timer_registered (request r w) = timer_registered w"
  by (simp_all add: request_def)

lemma arm_fields [simp]:
  "timer (arm w) = timer w" "last_usec (arm w) = last_usec w" "total_usec (arm w) = total_usec w"
  "total_ticks (arm w) = total_ticks w"
  by (simp_all add: arm_def Let_def)

lemma rearm_fields [simp]:
  "timer (rearm t w) = timer w" "last_usec (rearm t w) = last_usec w" "total_usec (rearm t w) = total_usec w"
  "total_ticks (rearm t w) = total_ticks w"
  by (simp_all add: rearm_def)

lemma time_ok_rearm [simp]: "time_ok (rearm t w) = time_ok w"
  by (simp add: time_ok_def)

lemma ticks_from_0 [simp]: "(clock ^^ (ticks_at u - ticks_at u)) c = c"
  by simp

lemma handle_timer_time:
  assumes ok: "time_ok w" and le: "last_usec w \<le> now" and gap: "unat now - unat (last_usec w) \<le> 3000000000"
  shows "time_ok (handle_timer now w)"
    and "last_usec (handle_timer now w) = now"
    and "unat (total_usec (handle_timer now w)) =
      (unat (total_usec w) + (unat now - unat (last_usec w))) mod 1000000"
    and "i \<le> 2 \<Longrightarrow> in_step (ctr (timer w) i) \<Longrightarrow>
      ctr (timer (handle_timer now w)) i =
        (clock ^^ (ticks_at (unat (total_usec w) + (unat now - unat (last_usec w))) - ticks_at (unat (total_usec w))))
          (ctr (timer w) i)"
proof -
  let ?d = "now - last_usec w"
  have d: "unat ?d = unat now - unat (last_usec w)" using le by (simp add: unat_sub word_le_nat_alt)
  have n: "unat (ucast ?d :: u32) = unat now - unat (last_usec w)" using d gap by (simp add: unat_narrow)
  have u: "unat (total_usec w) < 1000000" using ok by (simp add: time_ok_def)
  have "time_ok (handle_timer now w) \<and> last_usec (handle_timer now w) = now \<and>
    unat (total_usec (handle_timer now w)) = (unat (total_usec w) + (unat now - unat (last_usec w))) mod 1000000 \<and>
    (i \<le> 2 \<longrightarrow> in_step (ctr (timer w) i) \<longrightarrow>
      ctr (timer (handle_timer now w)) i =
        (clock ^^ (ticks_at (unat (total_usec w) + (unat now - unat (last_usec w))) - ticks_at (unat (total_usec w))))
          (ctr (timer w) i))" for i
  proof (cases "ucast ?d = (0 :: u32)")
    case True
    then have z: "unat now - unat (last_usec w) = 0" using n by simp
    then have "?d = 0" using d by (metis unat_eq_zero)
    then have "handle_timer now w = rearm 0 (w\<lparr>last_usec := now\<rparr>)" by (simp add: handle_timer_def catch_up_def)
    then show ?thesis using ok z u by (simp add: time_ok_def)
  next
    case False
    then have h: "handle_timer now w =
        rearm ?d ((periodic (ucast ?d) w)\<lparr>last_usec := last_usec (periodic (ucast ?d) w) + ?d\<rparr>)"
      by (simp add: handle_timer_def catch_up_def Let_def)
    have g: "unat (ucast ?d :: u32) \<le> 3000000000" using n gap by simp
    note p = periodic_time [OF ok g]
    show ?thesis unfolding h using p(1,2,3) p(4) [of i] n by (simp add: time_ok_def)
  qed
  then show "time_ok (handle_timer now w)" "last_usec (handle_timer now w) = now"
    "unat (total_usec (handle_timer now w)) = (unat (total_usec w) + (unat now - unat (last_usec w))) mod 1000000"
    "i \<le> 2 \<Longrightarrow> in_step (ctr (timer w) i) \<Longrightarrow>
      ctr (timer (handle_timer now w)) i =
        (clock ^^ (ticks_at (unat (total_usec w) + (unat now - unat (last_usec w))) - ticks_at (unat (total_usec w))))
          (ctr (timer w) i)"
    by blast+
qed

text \<open>Wake-ups that come in order, none more than fifty minutes after the one before.\<close>

fun on_time :: "u64 \<Rightarrow> u64 list \<Rightarrow> bool" where
  "on_time t [] = True"
| "on_time t (now # ts) = (t \<le> now \<and> unat now - unat t \<le> 3000000000 \<and> on_time now ts)"

lemma on_time_last: "on_time t ts \<Longrightarrow> unat t \<le> unat (last (t # ts))"
proof (induction t ts rule: on_time.induct)
  case (2 t now ts)
  then have "unat t \<le> unat now" "unat now \<le> unat (last (now # ts))" by (simp_all add: word_le_nat_alt)
  then show ?case by simp
qed simp

lemma funpow_through:
  assumes "i \<le> j" and "j \<le> n"
  shows "(f ^^ (n - j)) ((f ^^ (j - i)) x) = (f ^^ (n - i)) x"
proof -
  have "n - i = (n - j) + (j - i)" using assms by simp
  then show ?thesis by (simp add: funpow_add)
qed

lemma wake_ups_keep_time:
  assumes "time_ok w" and "on_time (last_usec w) ts" and "i \<le> 2" and "in_step (ctr (timer w) i)"
  shows "ctr (timer (fold handle_timer ts w)) i =
    (clock ^^ (ticks_at (unat (total_usec w) + (unat (last (last_usec w # ts)) - unat (last_usec w)))
               - ticks_at (unat (total_usec w)))) (ctr (timer w) i)"
  using assms
proof (induction ts arbitrary: w)
  case (Cons now ts)
  let ?w = "handle_timer now w" and ?u = "unat (total_usec w)" and ?e = "unat (last (now # ts))"
  let ?g = "unat now - unat (last_usec w)"
  have t: "last_usec w \<le> now" "?g \<le> 3000000000" "on_time now ts" using Cons.prems(2) by simp_all
  note h = handle_timer_time [OF Cons.prems(1) t(1,2)]
  have c: "ctr (timer ?w) i = (clock ^^ (ticks_at (?u + ?g) - ticks_at ?u)) (ctr (timer w) i)"
    by (rule h(4) [OF Cons.prems(3,4)])
  have ok: "in_step (ctr (timer ?w) i)" unfolding c by (rule counter_time.ok_ticks [OF Cons.prems(4)])
  have "on_time (last_usec ?w) ts" using t(3) h(2) by simp
  note IH = Cons.IH [OF h(1) this Cons.prems(3) ok]
  have e: "unat now \<le> ?e" by (rule on_time_last [OF t(3)])
  have g: "?u + ?g + (?e - unat now) = ?u + (?e - unat (last_usec w))"
    using t(1) e by (simp add: word_le_nat_alt)
  have m: "ticks_at ?u \<le> ticks_at (?u + ?g)" "ticks_at (?u + ?g) \<le> ticks_at (?u + ?g + (?e - unat now))"
    by (rule ticks_at_mono; simp)+
  have "ctr (timer (fold handle_timer ts ?w)) i =
      (clock ^^ (ticks_at (?u + ?g + (?e - unat now)) - ticks_at (?u + ?g))) (ctr (timer ?w) i)"
    using IH unfolding h(2,3) ticks_from .
  also have "\<dots> = (clock ^^ (ticks_at (?u + ?g + (?e - unat now)) - ticks_at ?u)) (ctr (timer w) i)"
    unfolding c by (rule funpow_through [OF m])
  finally show ?case unfolding g by simp
qed simp

section \<open>The interrupt line\<close>

lemma pics_told_drive:
  "pics_told w p = drive raise_irq lower_irq (map (Pair 0) (out_calls (ctr (timer w) 0))) p"
proof -
  have "fold irq_handler bs p = drive raise_irq lower_irq (map (Pair 0) bs) p" for bs
    by (induction bs arbitrary: p) (simp_all add: irq_handler_def)
  then show ?thesis by (simp add: pics_told_def)
qed

lemma level_after_same: "bs \<noteq> [] \<Longrightarrow> level_after n b (map (Pair n) bs) = last bs"
  by (induction bs arbitrary: b) auto

text \<open>The last call of the handler is the level of the pin.\<close>

definition told :: "counter \<Rightarrow> bool" where
  "told c \<longleftrightarrow> out_handler c \<and> (out_calls c \<noteq> [] \<longrightarrow> last (out_calls c) = OUTpin c)"

lemma told_set_OUT [simp]: "told c \<Longrightarrow> told (set_OUT v c)"
  by (simp add: told_def set_OUT_def)

lemma told_fields [simp]:
  "told (c\<lparr>next_change_time := t\<rparr>) = told c" "told (c\<lparr>first_pass := b\<rparr>) = told c"
  "told (c\<lparr>triggerGATE := b\<rparr>) = told c" "told (c\<lparr>state_bit_1 := b\<rparr>) = told c"
  "told (c\<lparr>state_bit_2 := b\<rparr>) = told c" "told (c\<lparr>null_count := b\<rparr>) = told c"
  "told (decrement c) = told c" "told (set_count v c) = told c" "told (load c) = told c"
  by (simp_all add: told_def load_def)

lemma told_clock [simp]: "told c \<Longrightarrow> told (clock c)"
  by (simp add: clock_def clock_0_def clock_1_def clock_2_def clock_3_def clock_4_def clock_5_def Let_def
      del: update_same)

lemma told_clocks: "told c \<Longrightarrow> told ((clock ^^ n) c)"
  by (induction n) simp_all

lemma interrupt_pin:
  assumes "told (ctr (timer w) 0)" and "out_calls (ctr (timer w) 0) \<noteq> []"
  shows "pic_pin (pics_told w p) 0 = OUTpin (ctr (timer w) 0)"
proof -
  have "pic_pin (pics_told w p) 0 = level_after 0 (pic_pin p 0) (map (Pair 0) (out_calls (ctr (timer w) 0)))"
    unfolding pics_told_drive by (rule pic_sink.pin_drive) (auto simp: pic_lines_def)
  also have "\<dots> = OUTpin (ctr (timer w) 0)" using assms by (simp add: level_after_same told_def)
  finally show ?thesis .
qed

section \<open>A periodic interrupt\<close>

text \<open>What a kernel writes at one time to have counter 0 interrupt it: mode 2, then the count.\<close>

definition program_rate :: "u64 \<Rightarrow> u16 \<Rightarrow> pit_dev \<Rightarrow> pit_dev" where
  "program_rate now k w =
     pit_write now 0x40 (ucast (drop_bit 8 k)) (pit_write now 0x40 (ucast k) (pit_write now 0x43 0x34 w))"

lemma pit_write_now:
  assumes "last_usec w = now"
  shows "timer (pit_write now 0x43 0x34 w) = control_write 0x34 (timer w)"
    and "timer (pit_write now 0x40 v w) = on_counter 0 (write_counter (ucast v)) (timer w)"
    and "last_usec (pit_write now 0x43 0x34 w) = now" "last_usec (pit_write now 0x40 v w) = now"
    and "time_ok (pit_write now 0x43 0x34 w) = time_ok w" "time_ok (pit_write now 0x40 v w) = time_ok w"
    and "total_usec (pit_write now 0x43 0x34 w) = total_usec w" "total_usec (pit_write now 0x40 v w) = total_usec w"
  using assms by (simp_all add: pit_write_def catch_up_def Let_def on_timer_def pit_chip_write_def
      CONTROL_ADDRESS_def time_ok_def)

lemma control_rate: "control_write 0x34 p = on_counter 0 (program_counter 3 2 False) (p\<lparr>controlword := 0x34\<rparr>)"
  by (simp add: control_write_def)

lemma byte_through_32: "ucast (ucast (k :: u16) :: u32) = (ucast k :: u8)"
  by (rule bit_word_eqI) (auto simp: bit_simps)

lemma program_rate_counter:
  assumes "last_usec w = now"
  shows "ctr (timer (program_rate now k w)) 0 = programmed 2 k (ctr (timer w) 0)"
    and "last_usec (program_rate now k w) = now" "time_ok (program_rate now k w) = time_ok w"
    and "total_usec (program_rate now k w) = total_usec w"
  using assms by (simp_all add: program_rate_def pit_write_now control_rate programmed_def byte_through_32)

lemma init_counter_0:
  assumes "out_calls (ctr (timer w) 0) = []"
  shows "GATE (ctr (timer (pit_dev_init now w)) 0)" "out_handler (ctr (timer (pit_dev_init now w)) 0)"
    "OUTpin (ctr (timer (pit_dev_init now w)) 0)" "out_calls (ctr (timer (pit_dev_init now w)) 0) = []"
    "last_usec (pit_dev_init now w) = now" "time_ok (pit_dev_init now w)" "total_usec (pit_dev_init now w) = 0"
  using assms by (simp_all add: pit_dev_init_def Let_def on_timer_def set_OUT_handler_def pit_init_def
      init_counter_def time_ok_def ticks_at_def upt_rec numeral_3_eq_3 arm_def)

text \<open>
  C25. A counter that has just been programmed keeps the virtual clock's time without drift. The counter is one of the
  three, given a binary count, low byte first, in one of the modes 0 to 4, and left alone from then on (\<open>program_ok\<close>: in mode 2 with the gate high and a rate
  other than one, in mode 3 an even count other than zero), and the device's totals of microseconds and ticks
  are zero, as \<open>pit_dev_init\<close> leaves them. However the stretch of time from then on is cut by the wake-ups of the
  device, the counter has been clocked \<open>u * 1193181 div 1000000\<close> times after \<open>u\<close> microseconds. Each wake-up
  may be up to fifty minutes after the one before; more would overflow the 32 bit tick count.
\<close>

theorem timer_keeps_time:
  assumes "program_ok m k c" and "ctr (timer w) i = programmed m k c" and "i \<le> 2"
    and "total_usec w = 0" and "total_ticks w = 0" and "on_time (last_usec w) ts"
  shows "ctr (timer (fold handle_timer ts w)) i =
    (clock ^^ ((unat (last (last_usec w # ts)) - unat (last_usec w)) * 1193181 div 1000000)) (programmed m k c)"
proof -
  have "time_ok w" using assms(4,5) by (simp add: time_ok_def ticks_at_def)
  from wake_ups_keep_time [OF this assms(6,3)] programmed_in_step [OF assms(1)] assms(2,4)
  show ?thesis by (simp add: ticks_at_def)
qed

text \<open>
  C7. The periodic interrupt: initialise the device, have counter 0 divide by \<open>k\<close>, and let it be woken
  at any times. The handler of the interrupt line has then seen exactly one rising edge for each whole
  period, and after the first one the line at the interrupt controller is low in one tick of each
  period.
\<close>

theorem periodic_interrupt:
  assumes "k \<noteq> 1" and "out_calls (ctr (timer w0) 0) = []" and "on_time now ts"
    and w: "w = fold handle_timer ts (program_rate now k (pit_dev_init now w0))"
    and n: "n = (unat (last (now # ts)) - unat now) * 1193181 div 1000000"
  shows "rises (ctr (timer w) 0) = (n - 1) div period k \<and>
    (period k < n \<longrightarrow> pic_pin (pics_told w p) 0 = (n mod period k \<noteq> 0))"
proof -
  let ?w = "program_rate now k (pit_dev_init now w0)"
  let ?c = "ctr (timer (pit_dev_init now w0)) 0"
  note c = init_counter_0 [OF assms(2), of now]
  note r = program_rate_counter [OF c(5), of k]
  have ok: "program_ok 2 k ?c" using c(1) assms(1) by (simp add: program_ok_def)
  have z: "out_calls (programmed 2 k ?c) = []" and told: "told (programmed 2 k ?c)"
    using c(2,3,4) by (simp_all add: programmed_is told_def)
  have "ctr (timer w) 0 = (clock ^^ n) (ctr (timer ?w) 0)"
    using wake_ups_keep_time [of ?w ts 0] assms(3) c(5-7) programmed_in_step [OF ok] r
    by (simp add: w n ticks_at_def)
  then have cn: "ctr (timer w) 0 = (clock ^^ n) (programmed 2 k ?c)" unfolding r(1) .
  have rises: "rises (ctr (timer w) 0) = (n - 1) div period k"
    using rate_rises [OF c(1) assms(1) c(2), of n] z by (simp add: cn rises_def)
  have "pic_pin (pics_told w p) 0 = (n mod period k \<noteq> 0)" if "period k < n"
  proof -
    have "0 < period k" using period_bound(1) [OF assms(1)] by simp
    then have "0 < rises (ctr (timer w) 0)" using that by (simp add: rises div_greater_zero_iff)
    then have "out_calls (ctr (timer w) 0) \<noteq> []" by (auto simp: rises_def)
    then have "pic_pin (pics_told w p) 0 = OUTpin (ctr (timer w) 0)"
      using told_clocks [OF told] by (intro interrupt_pin) (simp_all add: cn)
    then show ?thesis using rate_output [OF c(1) assms(1), of n] that by (simp add: cn)
  qed
  with rises show ?thesis by blast
qed

text \<open>
  The wake-up is asked for in microseconds, by a product of 32 bits: from 4295 ticks on it wraps
  and the device is woken early.
\<close>

lemma wake_up_wraps: "TICKS_TO_USEC 65535 = 930" "65535 * 1000000 div 1193181 = (54924 :: nat)"
  by (simp_all add: TICKS_TO_USEC_def USEC_PER_SECOND_def TICKS_PER_SECOND_def)

section \<open>Witnesses\<close>

definition idle_pit :: pit_dev where
  "idle_pit = \<lparr>timer = \<lparr>ctr = (\<lambda>_. idle_counter), controlword = 0\<rparr>, speaker_data_on = 0,
     refresh_clock_div2 = False, last_usec = 0, last_next_event_time = 0, total_ticks = 0, total_usec = 0,
     timer_registered = False, requests = []\<rparr>"

lemma timer_keeps_time_witness:
  "ctr (timer (fold handle_timer [400000, 1000000] (idle_pit\<lparr>timer := \<lparr>ctr = (\<lambda>_. programmed 2 1000 idle_counter), controlword = 0\<rparr>\<rparr>))) 2 =
     (clock ^^ 1193181) (programmed 2 1000 idle_counter)"
  using timer_keeps_time [of 2 1000 idle_counter
      "idle_pit\<lparr>timer := \<lparr>ctr = (\<lambda>_. programmed 2 1000 idle_counter), controlword = 0\<rparr>\<rparr>" 2 "[400000, 1000000]"]
  by (simp add: program_ok_def idle_pit_def idle_counter_def)

lemma periodic_interrupt_witness:
  "rises (ctr (timer (fold handle_timer [400000, 1000000] (program_rate 0 11932 (pit_dev_init 0 idle_pit)))) 0) = 99"
  using periodic_interrupt [of 11932 idle_pit 0 "[400000, 1000000]"]
  by (simp add: period_def idle_pit_def idle_counter_def)

end
