(* ===== verification/Pc_System.thy ===== *)
theory Pc_System
  imports Machine_Prelude
begin

text \<open>
  The system's timers (\<^verbatim>\<open>bx_pc_system_c\<close> in \<^verbatim>\<open>src/sim/bochs/pc_system.cc\<close>, \<^verbatim>\<open>pc_system.h\<close>): a table of
  timers in ticks of the processor, a countdown to the next of them, and the calls of their handlers. A
  function pointer with its argument is a value of type \<open>'h\<close>; \<open>call\<close> gives its effect on the system and
  on the devices (\<open>'d\<close>), and \<open>fired\<close> lists the calls with their times. The conversions between
  microseconds and ticks, products of doubles, are parameters. The 64 bit tick counts are natural
  numbers: they would wrap after \<open>2 ^ 64\<close> instructions.
\<close>

unbundle bit_operations_syntax

section \<open>State\<close>

definition MAX_TIMERS :: nat where "MAX_TIMERS = 64"
definition NullTimerInterval :: nat where "NullTimerInterval = 0x7fffffff"

record 'h sys_timer =
  inUse :: bool
  t_period :: nat
  timeToFire :: nat
  t_active :: bool
  continuous :: bool
  funct :: "'h option"

text \<open>What the system asks of the processors (all of them unless it says otherwise) and of the devices.\<close>

datatype reset_type = Software | Hardware
datatype sys_event =
    Async_Event
  | Interrupt_Line bool
  | TLB_Flush
  | TLB_Invlpg u64
  | Purge_ICaches
  | Reset_Cpus reset_type
  | Reset_Devices reset_type
  | Exit_Devices
  | User_Quit

record ('h, 'd) pc_system =
  timers :: "nat \<Rightarrow> 'h sys_timer"
  numTimers :: nat
  triggeredTimer :: nat
  currCountdown :: u32
  currCountdownPeriod :: u32
  ticksTotal :: nat
  lastTimeUsec :: nat
  usecSinceLast :: nat
  sys_HRQ :: bool
  enable_a20 :: bool
  a20_mask :: u32
  kill_bochs_request :: bool
  sys_events :: "sys_event list"
  fired :: "(nat \<times> nat) list"
  faulted :: bool     \<comment> \<open>a call of a null pointer, an access past the table or of an unset flag\<close>
  devices :: 'd

definition put_timer :: "nat \<Rightarrow> 'h sys_timer \<Rightarrow> ('h, 'd) pc_system \<Rightarrow> ('h, 'd) pc_system" where
  "put_timer i t s = s\<lparr>timers := (timers s)(i := t)\<rparr>"

definition time_ticks :: "('h, 'd) pc_system \<Rightarrow> nat" where
  "time_ticks s = ticksTotal s + unat (currCountdownPeriod s - currCountdown s)"

text \<open>The constructor, with the handler of the null timer.\<close>

definition pc_system_new :: "'h \<Rightarrow> ('h, 'd) pc_system \<Rightarrow> ('h, 'd) pc_system" where
  "pc_system_new null s =
     put_timer 0 ((timers s 0)\<lparr>inUse := True, t_period := NullTimerInterval, t_active := True, continuous := True,
                               funct := Some null\<rparr>)
       (s\<lparr>ticksTotal := 0, numTimers := 1\<rparr>)"

definition initialize :: "('h, 'd) pc_system \<Rightarrow> ('h, 'd) pc_system" where
  "initialize s =
     put_timer 0 ((timers s 0)\<lparr>timeToFire := NullTimerInterval\<rparr>)
       (s\<lparr>ticksTotal := 0, currCountdown := word_of_nat NullTimerInterval,
          currCountdownPeriod := word_of_nat NullTimerInterval, lastTimeUsec := 0, usecSinceLast := 0,
          triggeredTimer := 0, sys_HRQ := False, kill_bochs_request := False\<rparr>)"

section \<open>Setting timers\<close>

text \<open>A timer that is due before the end of the countdown shortens it.\<close>

definition skew :: "nat \<Rightarrow> ('h, 'd) pc_system \<Rightarrow> ('h, 'd) pc_system" where
  "skew ticks s =
     (if ticks < unat (currCountdown s)
      then s\<lparr>currCountdownPeriod := currCountdownPeriod s - (currCountdown s - word_of_nat ticks),
             currCountdown := word_of_nat ticks\<rparr>
      else s)"

definition free_slot :: "('h, 'd) pc_system \<Rightarrow> nat" where
  "free_slot s =
     (case find (\<lambda>i. \<not> inUse (timers s i)) [1..<numTimers s] of Some i \<Rightarrow> i | None \<Rightarrow> max 1 (numTimers s))"

definition register_timer_ticks ::
  "'h \<Rightarrow> nat \<Rightarrow> bool \<Rightarrow> bool \<Rightarrow> ('h, 'd) pc_system \<Rightarrow> nat \<times> ('h, 'd) pc_system" where
  "register_timer_ticks f ticks0 cont active s =
     (let ticks = max 1 ticks0; i = free_slot s;
          s1 = put_timer i \<lparr>inUse = True, t_period = ticks, timeToFire = time_ticks s + ticks, t_active = active,
                            continuous = cont, funct = Some f\<rparr> (s\<lparr>faulted := faulted s \<or> MAX_TIMERS \<le> i\<rparr>);
          s2 = (if active then skew ticks s1 else s1);
          s3 = (if i = numTimers s2 then s2\<lparr>numTimers := numTimers s2 + 1\<rparr> else s2)
      in (i, s3))"

definition register_timer ::
  "(u32 \<Rightarrow> nat) \<Rightarrow> 'h \<Rightarrow> u32 \<Rightarrow> bool \<Rightarrow> bool \<Rightarrow> ('h, 'd) pc_system \<Rightarrow> nat \<times> ('h, 'd) pc_system" where
  "register_timer ticks_of f useconds cont active s =
     register_timer_ticks f (ticks_of useconds) cont active s"

definition activate_timer_ticks :: "nat \<Rightarrow> nat \<Rightarrow> bool \<Rightarrow> ('h, 'd) pc_system \<Rightarrow> ('h, 'd) pc_system" where
  "activate_timer_ticks i ticks0 cont s =
     (let ticks = max 1 ticks0 in
      skew ticks (put_timer i ((timers s i)\<lparr>t_period := ticks, timeToFire := time_ticks s + ticks, t_active := True,
                                           continuous := cont\<rparr>) s))"

definition activate_timer :: "(u32 \<Rightarrow> nat) \<Rightarrow> nat \<Rightarrow> u32 \<Rightarrow> bool \<Rightarrow> ('h, 'd) pc_system \<Rightarrow> ('h, 'd) pc_system" where
  "activate_timer ticks_of i useconds cont s =
     (if useconds = 0 then activate_timer_ticks i (t_period (timers s i)) cont s
      else
        let ticks = max 1 (ticks_of useconds) in
        activate_timer_ticks i ticks cont (put_timer i ((timers s i)\<lparr>t_period := ticks\<rparr>) s))"

definition deactivate_timer :: "nat \<Rightarrow> ('h, 'd) pc_system \<Rightarrow> ('h, 'd) pc_system" where
  "deactivate_timer i s = put_timer i ((timers s i)\<lparr>t_active := False\<rparr>) s"

definition unregisterTimer :: "nat \<Rightarrow> ('h, 'd) pc_system \<Rightarrow> bool \<times> ('h, 'd) pc_system" where
  "unregisterTimer i s =
     (if t_active (timers s i) then (False, s)
      else
        let s1 = put_timer i \<lparr>inUse = False, t_period = 2 ^ 63 - 1, timeToFire = 2 ^ 63 - 1, t_active = False,
                              continuous = False, funct = None\<rparr> s
        in (True, if i = numTimers s1 - 1 then s1\<lparr>numTimers := numTimers s1 - 1\<rparr> else s1))"

section \<open>The end of a countdown\<close>

definition is_due :: "nat \<Rightarrow> 'h sys_timer \<Rightarrow> bool" where
  "is_due now t = (t_active t \<and> now = timeToFire t)"

text \<open>A one-shot timer that is due becomes inactive, a continuous one is due again after its period.\<close>

definition rearmed :: "nat \<Rightarrow> 'h sys_timer \<Rightarrow> 'h sys_timer" where
  "rearmed now t =
     (if \<not> is_due now t then t
      else if \<not> continuous t then t\<lparr>t_active := False\<rparr>
      else t\<lparr>timeToFire := timeToFire t + t_period t\<rparr>)"

text \<open>The earliest time of an active timer; none is the greatest 64 bit number.\<close>

definition earliest :: "'h sys_timer list \<Rightarrow> nat option" where
  "earliest ts =
     fold (\<lambda>t m. if t_active t \<and> (case m of None \<Rightarrow> True | Some n \<Rightarrow> timeToFire t < n) then Some (timeToFire t) else m)
       ts None"

definition run_callback ::
  "('h \<Rightarrow> ('h, 'd) pc_system \<Rightarrow> ('h, 'd) pc_system) \<Rightarrow> nat \<Rightarrow> ('h, 'd) pc_system \<Rightarrow> ('h, 'd) pc_system" where
  "run_callback call i s =
     (case funct (timers s i) of
        None \<Rightarrow> s\<lparr>faulted := True\<rparr>
      | Some h \<Rightarrow>
          (call h (s\<lparr>triggeredTimer := i, fired := fired s @ [(i, time_ticks s)]\<rparr>))\<lparr>triggeredTimer := 0\<rparr>)"

text \<open>
  The loop that calls the handlers runs up to the number of timers, which a handler may change; the
  flags of timers beyond the old number are not set.
\<close>

definition call_handlers ::
  "('h \<Rightarrow> ('h, 'd) pc_system \<Rightarrow> ('h, 'd) pc_system) \<Rightarrow> (nat \<Rightarrow> bool) \<Rightarrow> nat \<Rightarrow> ('h, 'd) pc_system
     \<Rightarrow> ('h, 'd) pc_system" where
  "call_handlers call triggered n s =
     fold (\<lambda>i s. if numTimers s \<le> i then s
                 else if n \<le> i then s\<lparr>faulted := True\<rparr>
                 else if triggered i then run_callback call i s
                 else s)
       [0..<MAX_TIMERS] s"

definition countdownEvent ::
  "('h \<Rightarrow> ('h, 'd) pc_system \<Rightarrow> ('h, 'd) pc_system) \<Rightarrow> ('h, 'd) pc_system \<Rightarrow> ('h, 'd) pc_system" where
  "countdownEvent call s0 =
     (let s = s0\<lparr>ticksTotal := ticksTotal s0 + unat (currCountdownPeriod s0)\<rparr>;
          now = ticksTotal s; n = numTimers s;
          triggered = (\<lambda>i. is_due now (timers s i));
          ts = (\<lambda>i. if i < n then rearmed now (timers s i) else timers s i);
          next = (case earliest (map ts [0..<n]) of None \<Rightarrow> 2 ^ 64 - 1 | Some t \<Rightarrow> t);
          c = word_of_nat (next - now)
      in call_handlers call triggered n (s\<lparr>timers := ts, currCountdownPeriod := c, currCountdown := c\<rparr>))"

section \<open>Ticks\<close>

definition tick1 ::
  "('h \<Rightarrow> ('h, 'd) pc_system \<Rightarrow> ('h, 'd) pc_system) \<Rightarrow> ('h, 'd) pc_system \<Rightarrow> ('h, 'd) pc_system" where
  "tick1 call s0 =
     (let s = s0\<lparr>currCountdown := currCountdown s0 - 1\<rparr> in
      if currCountdown s = 0 then countdownEvent call s else s)"

partial_function (option) tickn ::
  "('h \<Rightarrow> ('h, 'd) pc_system \<Rightarrow> ('h, 'd) pc_system) \<Rightarrow> u32 \<Rightarrow> ('h, 'd) pc_system \<Rightarrow> ('h, 'd) pc_system option" where
  "tickn call n s =
     (if currCountdown s \<le> n
      then tickn call (n - currCountdown s) (countdownEvent call (s\<lparr>currCountdown := 0\<rparr>))
      else Some (s\<lparr>currCountdown := currCountdown s - n\<rparr>))"

definition getNumCpuTicksLeftNextEvent :: "('h, 'd) pc_system \<Rightarrow> u32" where
  "getNumCpuTicksLeftNextEvent s = currCountdown s"

section \<open>Microseconds\<close>

definition time_usec :: "(nat \<Rightarrow> nat) \<Rightarrow> ('h, 'd) pc_system \<Rightarrow> nat" where
  "time_usec usec_of s = usec_of (time_ticks s)"

definition time_usec_sequential :: "(nat \<Rightarrow> nat) \<Rightarrow> ('h, 'd) pc_system \<Rightarrow> nat \<times> ('h, 'd) pc_system" where
  "time_usec_sequential usec_of s =
     (let this_time_usec = time_usec usec_of s;
          s1 = (if this_time_usec \<noteq> lastTimeUsec s then
                  let diff_usec = this_time_usec - lastTimeUsec s in
                  s\<lparr>lastTimeUsec := this_time_usec,
                    usecSinceLast := (if usecSinceLast s \<le> diff_usec then 0 else usecSinceLast s - diff_usec)\<rparr>
                else s);
          s2 = s1\<lparr>usecSinceLast := usecSinceLast s1 + 1\<rparr>
      in (this_time_usec + usecSinceLast s2, s2))"

section \<open>Lines\<close>

definition sys_emit :: "sys_event \<Rightarrow> ('h, 'd) pc_system \<Rightarrow> ('h, 'd) pc_system" where
  "sys_emit e s = s\<lparr>sys_events := sys_events s @ [e]\<rparr>"

definition set_HRQ :: "bool \<Rightarrow> ('h, 'd) pc_system \<Rightarrow> ('h, 'd) pc_system" where
  "set_HRQ v s = (if v then sys_emit Async_Event (s\<lparr>sys_HRQ := v\<rparr>) else s\<lparr>sys_HRQ := v\<rparr>)"

definition MemoryMappingChanged :: "('h, 'd) pc_system \<Rightarrow> ('h, 'd) pc_system" where
  "MemoryMappingChanged s = sys_emit TLB_Flush s"

definition set_enable_a20 :: "bool \<Rightarrow> ('h, 'd) pc_system \<Rightarrow> ('h, 'd) pc_system" where
  "set_enable_a20 v s =
     (let s1 = s\<lparr>enable_a20 := v, a20_mask := (if v then 0xffffffff else 0xffefffff)\<rparr> in
      if enable_a20 s \<noteq> enable_a20 s1 then MemoryMappingChanged s1 else s1)"

definition get_enable_a20 :: "('h, 'd) pc_system \<Rightarrow> bool" where
  "get_enable_a20 s = enable_a20 s"

definition sys_exit :: "('h, 'd) pc_system \<Rightarrow> ('h, 'd) pc_system" where
  "sys_exit s = sys_emit Exit_Devices (s\<lparr>numTimers := 1 + 1\<rparr>)"

definition set_INTR_line :: "bool \<Rightarrow> ('h, 'd) pc_system \<Rightarrow> ('h, 'd) pc_system" where
  "set_INTR_line v s = sys_emit (Interrupt_Line v) s"

definition sys_invlpg :: "u64 \<Rightarrow> ('h, 'd) pc_system \<Rightarrow> ('h, 'd) pc_system" where
  "sys_invlpg a s = sys_emit (TLB_Invlpg a) s"

definition sys_Reset :: "reset_type \<Rightarrow> ('h, 'd) pc_system \<Rightarrow> ('h, 'd) pc_system" where
  "sys_Reset type s =
     (let s1 = sys_emit (Reset_Cpus type) (set_enable_a20 True s) in
      if type = Hardware then sys_emit (Reset_Devices type) s1 else s1)"

text \<open>The two handlers that the system itself installs.\<close>

definition nullTimer :: "('h, 'd) pc_system \<Rightarrow> ('h, 'd) pc_system" where
  "nullTimer s = sys_emit Purge_ICaches s"

definition benchmarkTimer :: "('h, 'd) pc_system \<Rightarrow> ('h, 'd) pc_system" where
  "benchmarkTimer s = sys_emit User_Quit (s\<lparr>kill_bochs_request := True\<rparr>)"

end
