(* ===== verification/Pc_System_Spec.thy ===== *)
theory Pc_System_Spec
  imports Pc_System
begin

text \<open>
  The system's timers keep time: the countdown never runs past an active timer (\<open>sys_ok\<close>, kept by every
  operation, by handlers that use the interface, and by ticks), so that skipping many ticks equals taking
  them one by one (an instance of \<open>timed_device\<close>), and every timer is called when it is due and only then.
\<close>

section \<open>The invariant\<close>

definition timer_ahead :: "nat \<Rightarrow> nat \<Rightarrow> 'h sys_timer \<Rightarrow> bool" where
  "timer_ahead now c t \<longleftrightarrow> (t_active t \<longrightarrow> now + c \<le> timeToFire t \<and> 0 < t_period t)"

definition null_timer_ok :: "nat \<Rightarrow> 'h sys_timer \<Rightarrow> bool" where
  "null_timer_ok now t \<longleftrightarrow> t_active t \<and> continuous t \<and> t_period t = NullTimerInterval \<and>
     timeToFire t \<le> now + NullTimerInterval"

definition sys_ok :: "('h, 'd) pc_system \<Rightarrow> bool" where
  "sys_ok s \<longleftrightarrow> 0 < numTimers s \<and> numTimers s \<le> MAX_TIMERS \<and>
     0 < unat (currCountdown s) \<and> currCountdown s \<le> currCountdownPeriod s \<and>
     null_timer_ok (time_ticks s) (timers s 0) \<and>
     (\<forall>i < numTimers s. timer_ahead (time_ticks s) (unat (currCountdown s)) (timers s i))"

lemma time_ticks_fields [simp]:
  "time_ticks (s\<lparr>timers := f\<rparr>) = time_ticks s" "time_ticks (s\<lparr>numTimers := n\<rparr>) = time_ticks s"
  "time_ticks (s\<lparr>triggeredTimer := n\<rparr>) = time_ticks s" "time_ticks (s\<lparr>fired := l\<rparr>) = time_ticks s"
  "time_ticks (s\<lparr>faulted := b\<rparr>) = time_ticks s" "time_ticks (s\<lparr>devices := d\<rparr>) = time_ticks s"
  "time_ticks (s\<lparr>lastTimeUsec := m\<rparr>) = time_ticks s" "time_ticks (s\<lparr>usecSinceLast := m\<rparr>) = time_ticks s"
  "time_ticks (s\<lparr>sys_HRQ := b\<rparr>) = time_ticks s" "time_ticks (s\<lparr>enable_a20 := b\<rparr>) = time_ticks s"
  "time_ticks (s\<lparr>a20_mask := m32\<rparr>) = time_ticks s" "time_ticks (s\<lparr>kill_bochs_request := b\<rparr>) = time_ticks s"
  "time_ticks (s\<lparr>sys_events := es\<rparr>) = time_ticks s"
  by (simp_all add: time_ticks_def)

lemma put_timer_fields [simp]:
  "time_ticks (put_timer i t s) = time_ticks s" "currCountdown (put_timer i t s) = currCountdown s"
  "currCountdownPeriod (put_timer i t s) = currCountdownPeriod s" "numTimers (put_timer i t s) = numTimers s"
  "timers (put_timer i t s) j = (if j = i then t else timers s j)" "fired (put_timer i t s) = fired s"
  "ticksTotal (put_timer i t s) = ticksTotal s"
  by (simp_all add: put_timer_def)

text \<open>Shortening the countdown does not move the clock.\<close>

lemma skew_fields [simp]:
  "timers (skew k s) = timers s" "numTimers (skew k s) = numTimers s" "fired (skew k s) = fired s"
  by (simp_all add: skew_def)

lemma unat_currCountdown_skew: "unat (currCountdown (skew k s)) = min k (unat (currCountdown s))"
proof (cases "k < unat (currCountdown s)")
  case True
  then have "k < 2 ^ 32" using unsigned_less [of "currCountdown s", where ?'a = nat] by simp
  then show ?thesis using True by (simp add: skew_def unat_of_nat)
qed (simp add: skew_def)

lemma skew_time:
  assumes "currCountdown s \<le> currCountdownPeriod s"
  shows "time_ticks (skew k s) = time_ticks s"
    and "currCountdown (skew k s) \<le> currCountdownPeriod (skew k s)"
proof -
  let ?c = "currCountdown s" and ?p = "currCountdownPeriod s"
  have p: "time_ticks (skew k s) = time_ticks s \<and> currCountdown (skew k s) \<le> currCountdownPeriod (skew k s)"
    if k: "k < unat ?c"
  proof -
    have w: "unat (word_of_nat k :: u32) = k" using k unsigned_less [of ?c, where ?'a = nat] by (simp add: unat_of_nat)
    have "word_of_nat k \<le> ?c" using k w by (simp add: word_le_nat_alt)
    then have d: "unat (?c - word_of_nat k) = unat ?c - k" using w by (simp add: unat_sub)
    moreover have "?c - word_of_nat k \<le> ?p" using d assms by (simp add: word_le_nat_alt)
    ultimately have "unat (?p - (?c - word_of_nat k)) = unat ?p - (unat ?c - k)" by (simp add: unat_sub)
    then show ?thesis using k w assms by (simp add: skew_def time_ticks_def word_le_nat_alt)
  qed
  then show "time_ticks (skew k s) = time_ticks s" "currCountdown (skew k s) \<le> currCountdownPeriod (skew k s)"
    using assms by (cases "k < unat ?c"; simp add: skew_def)+
qed

lemma timer_ahead_less: "timer_ahead now c t \<Longrightarrow> c' \<le> c \<Longrightarrow> timer_ahead now c' t"
  by (auto simp: timer_ahead_def)

section \<open>The interface keeps the invariant\<close>

lemma set_timer_ok:
  assumes "sys_ok s" and "0 < k" and "i \<noteq> 0" and "t_active t \<longrightarrow> timeToFire t = time_ticks s + k \<and> 0 < t_period t"
  shows "sys_ok (skew k (put_timer i t s))"
proof -
  let ?s = "skew k (put_timer i t s)"
  have o: "currCountdown (put_timer i t s) \<le> currCountdownPeriod (put_timer i t s)" using assms(1) by (simp add: sys_ok_def)
  have c: "unat (currCountdown ?s) = min k (unat (currCountdown s))" by (simp add: unat_currCountdown_skew)
  have tm: "time_ticks ?s = time_ticks s" using skew_time(1) [OF o, of k] by simp
  have "timer_ahead (time_ticks ?s) (unat (currCountdown ?s)) (timers ?s j)" if "j < numTimers s" for j
  proof (cases "j = i")
    case True
    then show ?thesis using assms(4) by (auto simp: timer_ahead_def c tm)
  next
    case False
    have "timer_ahead (time_ticks s) (unat (currCountdown s)) (timers s j)" using assms(1) that by (simp add: sys_ok_def)
    from timer_ahead_less [OF this min.cobounded2] show ?thesis using False by (simp add: c tm)
  qed
  then show ?thesis
    using assms(1-3) skew_time(2) [OF o, of k] unfolding sys_ok_def by (simp add: c tm)
qed

lemma put_inactive_ok: "sys_ok s \<Longrightarrow> i \<noteq> 0 \<Longrightarrow> \<not> t_active t \<Longrightarrow> sys_ok (put_timer i t s)"
  by (auto simp: sys_ok_def timer_ahead_def)

lemma more_timers_ok:
  assumes "sys_ok s" and "n \<le> MAX_TIMERS" and "0 < n"
    and "\<And>i. numTimers s \<le> i \<Longrightarrow> i < n \<Longrightarrow> timer_ahead (time_ticks s) (unat (currCountdown s)) (timers s i)"
  shows "sys_ok (s\<lparr>numTimers := n\<rparr>)"
  using assms by (auto simp: sys_ok_def not_less) (metis not_less)

lemma free_slot_cases:
  assumes "0 < numTimers s"
  shows "0 < free_slot s" "free_slot s \<le> numTimers s"
  using assms by (auto simp: free_slot_def find_Some_iff max_def split: option.split)

lemma sys_ok_faulted [simp]: "sys_ok (s\<lparr>faulted := b\<rparr>) = sys_ok s"
  by (simp add: sys_ok_def)

lemma register_ok:
  assumes "sys_ok s" and "free_slot s < MAX_TIMERS"
  shows "sys_ok (snd (register_timer_ticks f k cont act s))"
proof -
  let ?i = "free_slot s" and ?k = "max 1 k"
  have n: "0 < numTimers s" using assms(1) by (simp add: sys_ok_def)
  let ?t = "\<lparr>inUse = True, t_period = ?k, timeToFire = time_ticks s + ?k, t_active = act, continuous = cont, funct = Some f\<rparr>"
  let ?s1 = "put_timer ?i ?t (s\<lparr>faulted := faulted s \<or> MAX_TIMERS \<le> ?i\<rparr>)"
  define s2 where "s2 = (if act then skew ?k ?s1 else ?s1)"
  have s: "sys_ok (s\<lparr>faulted := faulted s \<or> MAX_TIMERS \<le> ?i\<rparr>)" using assms(1) by simp
  have ok: "sys_ok s2"
    using set_timer_ok [OF s, of ?k ?i ?t] put_inactive_ok [OF s, of ?i ?t] free_slot_cases(1) [OF n]
    by (auto simp: s2_def)
  have o: "currCountdown ?s1 \<le> currCountdownPeriod ?s1" using assms(1) by (simp add: sys_ok_def)
  have f: "timers s2 ?i = ?t" "numTimers s2 = numTimers s" by (simp_all add: s2_def)
  have ahead: "timer_ahead (time_ticks s2) (unat (currCountdown s2)) ?t"
    using skew_time(1) [OF o, of ?k] by (auto simp: timer_ahead_def unat_currCountdown_skew s2_def)
  have more: "sys_ok (s2\<lparr>numTimers := numTimers s2 + 1\<rparr>)" if "?i = numTimers s2"
    using ok that assms(2) f ahead by (intro more_timers_ok) (auto simp: less_Suc_eq)
  have "snd (register_timer_ticks f k cont act s) =
      (if ?i = numTimers s2 then s2\<lparr>numTimers := numTimers s2 + 1\<rparr> else s2)"
    by (simp add: register_timer_ticks_def Let_def s2_def)
  then show ?thesis using ok more by (cases "?i = numTimers s2") (simp_all only: if_True if_False refl)
qed

lemma activate_ok: "sys_ok s \<Longrightarrow> i \<noteq> 0 \<Longrightarrow> sys_ok (activate_timer_ticks i k cont s)"
  unfolding activate_timer_ticks_def Let_def by (rule set_timer_ok) auto

lemma deactivate_ok: "sys_ok s \<Longrightarrow> i \<noteq> 0 \<Longrightarrow> sys_ok (deactivate_timer i s)"
  by (simp add: deactivate_timer_def put_inactive_ok)

lemma unregister_ok:
  assumes "sys_ok s" and "i \<noteq> 0"
  shows "sys_ok (snd (unregisterTimer i s))"
proof -
  let ?t = "\<lparr>inUse = False, t_period = 2 ^ 63 - 1, timeToFire = 2 ^ 63 - 1, t_active = False, continuous = False, funct = None\<rparr>"
  have ok: "sys_ok (put_timer i ?t s)" by (rule put_inactive_ok [OF assms]) simp
  have "sys_ok ((put_timer i ?t s)\<lparr>numTimers := numTimers s - 1\<rparr>)" if "i = numTimers s - 1"
    using ok that assms(2) by (intro more_timers_ok) (auto simp: sys_ok_def)
  then show ?thesis using ok assms(1) by (simp add: unregisterTimer_def Let_def)
qed

text \<open>What handlers and devices may do to the system: use its interface, and change the devices.\<close>

inductive sys_op :: "('h, 'd) pc_system \<Rightarrow> ('h, 'd) pc_system \<Rightarrow> bool" where
  Register: "free_slot s < MAX_TIMERS \<Longrightarrow> sys_op s (snd (register_timer_ticks f k cont act s))"
| Activate: "i \<noteq> 0 \<Longrightarrow> sys_op s (activate_timer_ticks i k cont s)"
| Deactivate: "i \<noteq> 0 \<Longrightarrow> sys_op s (deactivate_timer i s)"
| Unregister: "i \<noteq> 0 \<Longrightarrow> sys_op s (snd (unregisterTimer i s))"
| Sequential: "sys_op s (snd (time_usec_sequential u s))"
| HRQ: "sys_op s (set_HRQ v s)"
| A20: "sys_op s (set_enable_a20 v s)"
| Emit: "sys_op s (sys_emit e s)"
| Quit: "sys_op s (benchmarkTimer s)"
| Devices: "sys_op s (s\<lparr>devices := d\<rparr>)"

lemma sys_ok_fields [simp]:
  "sys_ok (s\<lparr>triggeredTimer := n\<rparr>) = sys_ok s" "sys_ok (s\<lparr>fired := l\<rparr>) = sys_ok s"
  "sys_ok (s\<lparr>devices := d\<rparr>) = sys_ok s" "sys_ok (s\<lparr>lastTimeUsec := m\<rparr>) = sys_ok s"
  "sys_ok (s\<lparr>usecSinceLast := m\<rparr>) = sys_ok s" "sys_ok (s\<lparr>sys_HRQ := b\<rparr>) = sys_ok s"
  "sys_ok (s\<lparr>enable_a20 := b\<rparr>) = sys_ok s" "sys_ok (s\<lparr>a20_mask := w\<rparr>) = sys_ok s"
  "sys_ok (s\<lparr>sys_events := es\<rparr>) = sys_ok s" "sys_ok (s\<lparr>kill_bochs_request := b\<rparr>) = sys_ok s"
  by (simp_all add: sys_ok_def)

lemma sys_op_ok: "sys_op s s' \<Longrightarrow> sys_ok s \<Longrightarrow> sys_ok s'"
  by (induction rule: sys_op.induct)
    (simp_all add: register_ok activate_ok deactivate_ok unregister_ok time_usec_sequential_def set_HRQ_def
      set_enable_a20_def MemoryMappingChanged_def benchmarkTimer_def sys_emit_def Let_def)

text \<open>The timer that is given a new period before it is activated.\<close>

lemma activate_timer_ticks_period:
  "activate_timer_ticks i k cont (put_timer i ((timers s i)\<lparr>t_period := p\<rparr>) s) = activate_timer_ticks i k cont s"
  by (simp add: activate_timer_ticks_def put_timer_def Let_def)

lemma activate_timer_op: "i \<noteq> 0 \<Longrightarrow> sys_op s (activate_timer ticks_of i u cont s)"
  by (simp add: activate_timer_def Let_def activate_timer_ticks_period sys_op.Activate)

definition handlers_ok :: "('h \<Rightarrow> ('h, 'd) pc_system \<Rightarrow> ('h, 'd) pc_system) \<Rightarrow> bool" where
  "handlers_ok call \<longleftrightarrow> (\<forall>h s. sys_op\<^sup>*\<^sup>* s (call h s))"

lemma sys_ops_ok: "sys_op\<^sup>*\<^sup>* s s' \<Longrightarrow> sys_ok s \<Longrightarrow> sys_ok s'"
  by (induction rule: rtranclp_induct) (simp_all add: sys_op_ok)

lemma call_ok: "handlers_ok call \<Longrightarrow> sys_ok s \<Longrightarrow> sys_ok (call h s)"
  using sys_ops_ok unfolding handlers_ok_def by blast

text \<open>The clock stands still in a handler.\<close>

lemma sys_op_time: "sys_op s s' \<Longrightarrow> sys_ok s \<Longrightarrow> time_ticks s' = time_ticks s \<and> fired s' = fired s"
  by (induction rule: sys_op.induct)
    (simp_all add: register_timer_ticks_def activate_timer_ticks_def deactivate_timer_def unregisterTimer_def
      time_usec_sequential_def set_HRQ_def set_enable_a20_def MemoryMappingChanged_def benchmarkTimer_def sys_emit_def Let_def
      skew_time(1) sys_ok_def)

lemma sys_ops_time: "sys_op\<^sup>*\<^sup>* s s' \<Longrightarrow> sys_ok s \<Longrightarrow> time_ticks s' = time_ticks s \<and> fired s' = fired s"
proof (induction rule: rtranclp_induct)
  case (step y z)
  then show ?case using sys_op_time [of y z] sys_ops_ok [of s y] by simp
qed simp

lemma call_time: "handlers_ok call \<Longrightarrow> sys_ok s \<Longrightarrow> time_ticks (call h s) = time_ticks s \<and> fired (call h s) = fired s"
  using sys_ops_time unfolding handlers_ok_def by blast

section \<open>The end of a countdown\<close>

lemma earliest_spec:
  "case earliest ts of
     None \<Rightarrow> \<forall>t \<in> set ts. \<not> t_active t
   | Some m \<Rightarrow> (\<exists>t \<in> set ts. t_active t \<and> timeToFire t = m) \<and> (\<forall>t \<in> set ts. t_active t \<longrightarrow> m \<le> timeToFire t)"
proof (induction ts rule: rev_induct)
  case (snoc t ts)
  have "earliest (ts @ [t]) =
      (if t_active t \<and> (case earliest ts of None \<Rightarrow> True | Some n \<Rightarrow> timeToFire t < n) then Some (timeToFire t)
       else earliest ts)"
    by (simp add: earliest_def)
  then show ?case using snoc by (cases "earliest ts") (auto simp: not_less intro: less_imp_le order.trans)
qed (simp add: earliest_def)

lemma rearmed_ahead:
  assumes "timer_ahead now 0 t" and "t_active (rearmed now t)"
  shows "now < timeToFire (rearmed now t)" and "0 < t_period (rearmed now t)"
  using assms by (auto simp: timer_ahead_def rearmed_def is_due_def split: if_splits)

lemma rearmed_null: "null_timer_ok now t \<Longrightarrow> null_timer_ok now (rearmed now t)"
  by (auto simp: null_timer_ok_def rearmed_def is_due_def)

text \<open>The state in which the handlers are called.\<close>

definition rearm_all :: "('h, 'd) pc_system \<Rightarrow> ('h, 'd) pc_system" where
  "rearm_all s0 =
     (let now = ticksTotal s0 + unat (currCountdownPeriod s0); n = numTimers s0;
          ts = (\<lambda>i. if i < n then rearmed now (timers s0 i) else timers s0 i);
          next = (case earliest (map ts [0..<n]) of None \<Rightarrow> 2 ^ 64 - 1 | Some t \<Rightarrow> t);
          c = word_of_nat (next - now)
      in s0\<lparr>ticksTotal := now, timers := ts, currCountdownPeriod := c, currCountdown := c\<rparr>)"

lemma countdownEvent_rearm:
  "currCountdown s = 0 \<Longrightarrow>
   countdownEvent call s = call_handlers call (\<lambda>i. is_due (time_ticks s) (timers s i)) (numTimers s) (rearm_all s)"
  by (simp add: countdownEvent_def rearm_all_def Let_def time_ticks_def cong: if_cong)

definition at_event :: "('h, 'd) pc_system \<Rightarrow> bool" where
  "at_event s \<longleftrightarrow> currCountdown s = 0 \<and> 0 < numTimers s \<and> numTimers s \<le> MAX_TIMERS \<and>
     null_timer_ok (time_ticks s) (timers s 0) \<and> (\<forall>i < numTimers s. timer_ahead (time_ticks s) 0 (timers s i))"

lemma rearm_all_fields:
  "numTimers (rearm_all s) = numTimers s" "fired (rearm_all s) = fired s"
  "time_ticks (rearm_all s) = ticksTotal s + unat (currCountdownPeriod s)"
  "timers (rearm_all s) i =
     (if i < numTimers s then rearmed (ticksTotal s + unat (currCountdownPeriod s)) (timers s i) else timers s i)"
  by (simp_all add: rearm_all_def Let_def time_ticks_def)

lemma rearm_all_ok:
  assumes "at_event s"
  shows "sys_ok (rearm_all s)" and "time_ticks (rearm_all s) = time_ticks s"
proof -
  let ?now = "time_ticks s" and ?n = "numTimers s"
  have e: "currCountdown s = 0" "0 < ?n" "?n \<le> MAX_TIMERS" "null_timer_ok ?now (timers s 0)"
    "\<And>i. i < ?n \<Longrightarrow> timer_ahead ?now 0 (timers s i)" using assms by (auto simp: at_event_def)
  have now: "ticksTotal s + unat (currCountdownPeriod s) = ?now" using e(1) by (simp add: time_ticks_def)
  show t: "time_ticks (rearm_all s) = ?now" by (simp add: rearm_all_fields now)
  define ts where "ts = (\<lambda>i. if i < ?n then rearmed ?now (timers s i) else timers s i)"
  have ts0: "null_timer_ok ?now (ts 0)" using e(2,4) by (simp add: ts_def rearmed_null)
  have ahead: "t_active (ts i) \<Longrightarrow> ?now < timeToFire (ts i) \<and> 0 < t_period (ts i)" if "i < ?n" for i
    using rearmed_ahead [OF e(5) [OF that]] that by (simp add: ts_def)
  obtain m where m: "earliest (map ts [0..<?n]) = Some m"
    using earliest_spec [of "map ts [0..<?n]"] ts0 e(2)
    by (cases "earliest (map ts [0..<?n])") (auto simp: null_timer_ok_def)
  have ms: "\<exists>i < ?n. t_active (ts i) \<and> timeToFire (ts i) = m" "\<And>i. i < ?n \<Longrightarrow> t_active (ts i) \<Longrightarrow> m \<le> timeToFire (ts i)"
    using earliest_spec [of "map ts [0..<?n]"] m by auto
  have b: "?now < m" "m \<le> ?now + NullTimerInterval"
    using ms(1) ahead ms(2) [OF e(2)] ts0 by (auto simp: null_timer_ok_def)
  define c :: u32 where "c = word_of_nat (m - ?now)"
  have "m - ?now < 2 ^ 32" using b(2) by (simp add: NullTimerInterval_def)
  then have c: "unat c = m - ?now" by (simp add: c_def unat_of_nat)
  have r: "timers (rearm_all s) = ts" "currCountdown (rearm_all s) = c" "currCountdownPeriod (rearm_all s) = c"
    using m by (simp_all add: rearm_all_def Let_def now ts_def c_def)
  show "sys_ok (rearm_all s)"
    unfolding sys_ok_def t r rearm_all_fields(1) using e(2,3) ts0 ms(2) ahead b c
    by (auto simp: timer_ahead_def)
qed

definition handler_step ::
  "('h \<Rightarrow> ('h, 'd) pc_system \<Rightarrow> ('h, 'd) pc_system) \<Rightarrow> (nat \<Rightarrow> bool) \<Rightarrow> nat \<Rightarrow> nat \<Rightarrow> ('h, 'd) pc_system \<Rightarrow>
   ('h, 'd) pc_system" where
  "handler_step call triggered n i s =
     (if numTimers s \<le> i then s else if n \<le> i then s\<lparr>faulted := True\<rparr>
      else if triggered i then run_callback call i s else s)"

lemma call_handlers_fold: "call_handlers call triggered n s = fold (handler_step call triggered n) [0..<MAX_TIMERS] s"
  by (simp add: call_handlers_def handler_step_def [abs_def])

lemma run_callback_ok:
  assumes "handlers_ok call" and "sys_ok s"
  shows "sys_ok (run_callback call i s)" "time_ticks (run_callback call i s) = time_ticks s"
  using assms call_ok [OF assms(1)] call_time [OF assms(1)] by (simp_all add: run_callback_def split: option.split)

lemma handler_step_ok:
  assumes "handlers_ok call" and "sys_ok s"
  shows "sys_ok (handler_step call triggered n i s)" "time_ticks (handler_step call triggered n i s) = time_ticks s"
  using assms by (simp_all add: handler_step_def run_callback_ok)

lemma handlers_fold_ok:
  "handlers_ok call \<Longrightarrow> sys_ok s \<Longrightarrow>
   sys_ok (fold (handler_step call triggered n) xs s) \<and> time_ticks (fold (handler_step call triggered n) xs s) = time_ticks s"
  by (induction xs arbitrary: s) (simp_all add: handler_step_ok)

lemma countdownEvent_ok:
  assumes "handlers_ok call" and "at_event s"
  shows "sys_ok (countdownEvent call s)" and "time_ticks (countdownEvent call s) = time_ticks s"
proof -
  have z: "currCountdown s = 0" using assms(2) by (simp add: at_event_def)
  show "sys_ok (countdownEvent call s)" "time_ticks (countdownEvent call s) = time_ticks s"
    unfolding countdownEvent_rearm [OF z] call_handlers_fold
    using handlers_fold_ok [OF assms(1) rearm_all_ok(1) [OF assms(2)]] rearm_all_ok(2) [OF assms(2)] by simp_all
qed

section \<open>Ticks\<close>

lemma pass_time:
  assumes "sys_ok s" and "k < unat (currCountdown s)"
  shows "sys_ok (s\<lparr>currCountdown := currCountdown s - word_of_nat k\<rparr>)"
    and "time_ticks (s\<lparr>currCountdown := currCountdown s - word_of_nat k\<rparr>) = time_ticks s + k"
    and "unat (currCountdown s - word_of_nat k) = unat (currCountdown s) - k"
proof -
  let ?c = "currCountdown s" and ?p = "currCountdownPeriod s"
  have w: "unat (word_of_nat k :: u32) = k" using assms(2) unsigned_less [of ?c, where ?'a = nat] by (simp add: unat_of_nat)
  have "word_of_nat k \<le> ?c" using assms(2) w by (simp add: word_le_nat_alt)
  then show c: "unat (?c - word_of_nat k) = unat ?c - k" using w by (simp add: unat_sub)
  have cp: "?c \<le> ?p" using assms(1) by (simp add: sys_ok_def)
  then have le: "?c - word_of_nat k \<le> ?p" using c by (simp add: word_le_nat_alt)
  then show t: "time_ticks (s\<lparr>currCountdown := ?c - word_of_nat k\<rparr>) = time_ticks s + k"
    using c cp assms(2) by (simp add: time_ticks_def unat_sub word_le_nat_alt)
  show "sys_ok (s\<lparr>currCountdown := ?c - word_of_nat k\<rparr>)"
    using assms le c t unfolding sys_ok_def by (auto simp: timer_ahead_def null_timer_ok_def)
qed

lemma end_of_countdown:
  assumes "sys_ok s"
  shows "at_event (s\<lparr>currCountdown := 0\<rparr>)"
    and "time_ticks (s\<lparr>currCountdown := 0\<rparr>) = time_ticks s + unat (currCountdown s)"
proof -
  have "currCountdown s \<le> currCountdownPeriod s" using assms by (simp add: sys_ok_def)
  then show t: "time_ticks (s\<lparr>currCountdown := 0\<rparr>) = time_ticks s + unat (currCountdown s)"
    by (simp add: time_ticks_def unat_sub word_le_nat_alt)
  show "at_event (s\<lparr>currCountdown := 0\<rparr>)"
    using assms unfolding at_event_def sys_ok_def t by (auto simp: timer_ahead_def null_timer_ok_def)
qed

lemma tick1_cases:
  assumes "sys_ok s"
  shows "tick1 call s = (if unat (currCountdown s) = 1 then countdownEvent call (s\<lparr>currCountdown := 0\<rparr>)
                         else s\<lparr>currCountdown := currCountdown s - 1\<rparr>)"
proof -
  have "currCountdown s = 1 \<longleftrightarrow> unat (currCountdown s) = 1"
    by (simp add: word_eq_iff_unsigned [where ?'a = nat])
  then show ?thesis by (cases "currCountdown s = 1") (simp_all add: tick1_def)
qed

lemma tick1_ok:
  assumes "handlers_ok call" and "sys_ok s"
  shows "sys_ok (tick1 call s)" and "time_ticks (tick1 call s) = time_ticks s + 1"
proof -
  have "0 < unat (currCountdown s)" using assms(2) by (simp add: sys_ok_def)
  then have "sys_ok (tick1 call s) \<and> time_ticks (tick1 call s) = time_ticks s + 1"
    using countdownEvent_ok [OF assms(1) end_of_countdown(1) [OF assms(2)]] end_of_countdown(2) [OF assms(2)]
      pass_time(1,2) [OF assms(2), of 1]
    by (simp add: tick1_cases [OF assms(2)])
  then show "sys_ok (tick1 call s)" "time_ticks (tick1 call s) = time_ticks s + 1" by simp_all
qed

lemma tick1_run:
  "sys_ok s \<Longrightarrow> k < unat (currCountdown s) \<Longrightarrow>
   (tick1 call ^^ k) s = s\<lparr>currCountdown := currCountdown s - word_of_nat k\<rparr>"
proof (induction k)
  case (Suc k)
  let ?s = "s\<lparr>currCountdown := currCountdown s - word_of_nat k\<rparr>"
  have k: "k < unat (currCountdown s)" using Suc.prems by simp
  have "tick1 call ?s = ?s\<lparr>currCountdown := currCountdown ?s - 1\<rparr>"
    using pass_time(1,3) [OF Suc.prems(1) k] Suc.prems(2) by (simp add: tick1_cases)
  moreover have "currCountdown s - word_of_nat k - 1 = currCountdown s - word_of_nat (Suc k)"
    by (simp add: algebra_simps)
  ultimately show ?case using Suc.IH [OF Suc.prems(1) k] by simp
qed simp

lemma tick1_event:
  assumes "sys_ok s"
  shows "(tick1 call ^^ unat (currCountdown s)) s = countdownEvent call (s\<lparr>currCountdown := 0\<rparr>)"
proof -
  let ?k = "unat (currCountdown s) - 1"
  have c: "0 < unat (currCountdown s)" using assms by (simp add: sys_ok_def)
  then have k: "?k < unat (currCountdown s)" by simp
  let ?s = "s\<lparr>currCountdown := currCountdown s - word_of_nat ?k\<rparr>"
  have "unat (currCountdown ?s) = 1" using pass_time(3) [OF assms k] c by simp
  then have "tick1 call ?s = countdownEvent call (s\<lparr>currCountdown := 0\<rparr>)"
    using pass_time(1) [OF assms k] by (simp add: tick1_cases)
  moreover have "unat (currCountdown s) = Suc ?k" using c by simp
  ultimately show ?thesis using tick1_run [OF assms k, of call] by (metis funpow.simps(2) comp_apply)
qed

lemma tickn_iterates:
  "handlers_ok call \<Longrightarrow> sys_ok s \<Longrightarrow> tickn call n s = Some ((tick1 call ^^ unat n) s)"
proof (induction "unat n" arbitrary: n s rule: less_induct)
  case less
  let ?c = "currCountdown s"
  show ?case
  proof (cases "?c \<le> n")
    case True
    have c: "0 < unat ?c" "unat ?c \<le> unat n" using less.prems(2) True by (auto simp: sys_ok_def word_le_nat_alt)
    have d: "unat (n - ?c) = unat n - unat ?c" using True by (simp add: unat_sub)
    let ?s = "countdownEvent call (s\<lparr>currCountdown := 0\<rparr>)"
    have ok: "sys_ok ?s" by (rule countdownEvent_ok(1) [OF less.prems(1) end_of_countdown(1) [OF less.prems(2)]])
    have "tickn call n s = tickn call (n - ?c) ?s" using True by (simp add: tickn.simps [of _ n])
    also have "\<dots> = Some ((tick1 call ^^ (unat n - unat ?c)) ((tick1 call ^^ unat ?c) s))"
      using less.hyps [of "n - ?c" ?s] d c less.prems(1) ok tick1_event [OF less.prems(2), of call] by simp
    also have "(tick1 call ^^ (unat n - unat ?c)) ((tick1 call ^^ unat ?c) s) = (tick1 call ^^ unat n) s"
      using c(2) by (simp flip: funpow_add [unfolded comp_def, THEN fun_cong])
    finally show ?thesis .
  next
    case False
    then show ?thesis using tick1_run [OF less.prems(2), of "unat n" call]
      by (simp add: tickn.simps [of _ n] word_le_nat_alt)
  qed
qed

interpretation sys_time: timed_device "tick1 call" "\<lambda>s n. the (tickn call n s)" "\<lambda>s. handlers_ok call \<and> sys_ok s"
  for call :: "'h \<Rightarrow> ('h, 'd) pc_system \<Rightarrow> ('h, 'd) pc_system"
  by unfold_locales (auto simp: tick1_ok tickn_iterates)

section \<open>One timer\<close>

definition calls_of :: "nat \<Rightarrow> ('h, 'd) pc_system \<Rightarrow> (nat \<times> nat) list" where
  "calls_of i s = filter (\<lambda>e. fst e = i) (fired s)"

text \<open>The handlers leave timer \<open>i\<close> as it is.\<close>

definition leave_timer ::
  "nat \<Rightarrow> ('h \<Rightarrow> ('h, 'd) pc_system \<Rightarrow> ('h, 'd) pc_system) \<Rightarrow> bool" where
  "leave_timer i call \<longleftrightarrow>
     (\<forall>h s. i < numTimers s \<longrightarrow> i < numTimers (call h s) \<and> timers (call h s) i = timers s i)"

lemma run_callback_timer:
  assumes "handlers_ok call" "leave_timer i call" "sys_ok s" "i < numTimers s"
  shows "i < numTimers (run_callback call j s)" "timers (run_callback call j s) i = timers s i"
    and "funct (timers s j) \<noteq> None \<Longrightarrow> fired (run_callback call j s) = fired s @ [(j, time_ticks s)]"
    and "j \<noteq> i \<Longrightarrow> calls_of i (run_callback call j s) = calls_of i s"
  using assms call_time [OF assms(1)]
  by (auto simp: run_callback_def leave_timer_def calls_of_def split: option.split)

lemma handlers_fold_timer:
  assumes "handlers_ok call" "leave_timer i call" "sys_ok s" "i < numTimers s" "i < n" "distinct xs"
    and "funct (timers s i) \<noteq> None"
  shows "i < numTimers (fold (handler_step call triggered n) xs s) \<and>
    timers (fold (handler_step call triggered n) xs s) i = timers s i \<and>
    calls_of i (fold (handler_step call triggered n) xs s) =
      calls_of i s @ (if i \<in> set xs \<and> triggered i then [(i, time_ticks s)] else [])"
  using assms(3,4,6,7)
proof (induction xs arbitrary: s)
  case (Cons j xs)
  let ?s = "handler_step call triggered n j s"
  note r = run_callback_timer [OF assms(1,2) Cons.prems(1,2)]
  have ok: "sys_ok ?s" "time_ticks ?s = time_ticks s" using handler_step_ok [OF assms(1) Cons.prems(1)] by blast+
  have k: "i < numTimers ?s" "timers ?s i = timers s i"
    using r(1,2) [of j] Cons.prems(2) by (simp_all add: handler_step_def)
  have c: "calls_of i ?s = calls_of i s @ (if j = i \<and> triggered i then [(i, time_ticks s)] else [])"
    using r(3) [of i] r(4) [of j] Cons.prems(2,4) assms(5) by (auto simp: handler_step_def calls_of_def)
  have "distinct xs" "funct (timers ?s i) \<noteq> None" using Cons.prems(3,4) k(2) by simp_all
  from Cons.IH [OF ok(1) k(1) this] show ?case using c k ok(2) Cons.prems(3) by auto
qed simp

lemma tick1_timer:
  assumes "handlers_ok call" "leave_timer i call" "sys_ok s" "i < numTimers s" "funct (timers s i) \<noteq> None"
  shows "i < numTimers (tick1 call s) \<and> timers (tick1 call s) i = rearmed (time_ticks s + 1) (timers s i) \<and>
    calls_of i (tick1 call s) =
      calls_of i s @ (if is_due (time_ticks s + 1) (timers s i) then [(i, time_ticks s + 1)] else [])"
proof (cases "unat (currCountdown s) = 1")
  case True
  let ?s = "s\<lparr>currCountdown := 0\<rparr>"
  have at: "at_event ?s" by (rule end_of_countdown(1) [OF assms(3)])
  have t: "time_ticks ?s = time_ticks s + 1" using end_of_countdown(2) [OF assms(3)] True by simp
  have now: "ticksTotal s + unat (currCountdownPeriod s) = time_ticks s + 1" using t by (simp add: time_ticks_def)
  have f: "numTimers (rearm_all ?s) = numTimers s" "fired (rearm_all ?s) = fired s"
    "timers (rearm_all ?s) i = rearmed (time_ticks s + 1) (timers s i)"
    using assms(4) by (simp_all add: rearm_all_fields now)
  have "funct (timers (rearm_all ?s) i) \<noteq> None" using assms(5) by (simp add: f rearmed_def)
  moreover have "i < numTimers (rearm_all ?s)" "i < numTimers s" "i \<in> set [0..<MAX_TIMERS]"
    using assms(3,4) f by (auto simp: sys_ok_def)
  moreover have "tick1 call s = fold (handler_step call (\<lambda>i. is_due (time_ticks s + 1) (timers s i)) (numTimers s))
      [0..<MAX_TIMERS] (rearm_all ?s)"
    using True t by (simp add: tick1_cases [OF assms(3)] countdownEvent_rearm call_handlers_fold)
  ultimately show ?thesis
    using handlers_fold_timer [OF assms(1,2) rearm_all_ok(1) [OF at], of "numTimers s" "[0..<MAX_TIMERS]"
        "\<lambda>i. is_due (time_ticks s + 1) (timers s i)"] rearm_all_ok(2) [OF at] t f
    by (simp add: calls_of_def)
next
  case False
  have c: "1 < unat (currCountdown s)" using False assms(3) by (auto simp: sys_ok_def)
  have "timer_ahead (time_ticks s) (unat (currCountdown s)) (timers s i)" using assms(3,4) by (simp add: sys_ok_def)
  then have "\<not> is_due (time_ticks s + 1) (timers s i)" using c by (auto simp: timer_ahead_def is_due_def)
  then show ?thesis using False assms(4) by (simp add: tick1_cases [OF assms(3)] rearmed_def calls_of_def)
qed

text \<open>How often a continuous timer, due at \<open>T\<close> and then every \<open>p\<close> ticks, has been due at time \<open>now\<close>.\<close>

definition times_due :: "nat \<Rightarrow> nat \<Rightarrow> nat \<Rightarrow> nat" where
  "times_due T p now = (if now < T then 0 else (now - T) div p + 1)"

lemma times_due_Suc:
  assumes "0 < p"
  shows "times_due T p (Suc now) = times_due T p now + of_bool (T + times_due T p now * p = Suc now)"
proof (cases "now < T")
  case True
  then show ?thesis by (auto simp: times_due_def)
next
  case False
  then obtain d where d: "now = T + d" using le_Suc_ex not_less by blast
  have "(d div p + 1) * p = Suc d \<longleftrightarrow> Suc d mod p = 0"
  proof
    assume "(d div p + 1) * p = Suc d"
    then show "Suc d mod p = 0" by (metis mod_mult_self2_is_0)
  next
    assume m: "Suc d mod p = 0"
    then have "Suc d div p = d div p + 1" by (simp add: div_Suc)
    then show "(d div p + 1) * p = Suc d" using m div_mult_mod_eq [of "Suc d" p] by simp
  qed
  then show ?thesis using d by (simp add: times_due_def div_Suc)
qed

lemma timer_runs:
  assumes h: "handlers_ok call" "leave_timer i call" and s: "sys_ok s" "i < numTimers s" "funct (timers s i) \<noteq> None"
    and t: "t_active (timers s i)"
  defines "T \<equiv> timeToFire (timers s i)" and "p \<equiv> t_period (timers s i)"
  shows "i < numTimers ((tick1 call ^^ n) s) \<and>
    timers ((tick1 call ^^ n) s) i =
      (if continuous (timers s i) then (timers s i)\<lparr>timeToFire := T + times_due T p (time_ticks s + n) * p\<rparr>
       else (timers s i)\<lparr>t_active := time_ticks s + n < T\<rparr>) \<and>
    calls_of i ((tick1 call ^^ n) s) = calls_of i s @
      (if continuous (timers s i) then map (\<lambda>j. (i, T + j * p)) [0..<times_due T p (time_ticks s + n)]
       else if time_ticks s + n < T then [] else [(i, T)])"
proof (induction n)
  case 0
  have "time_ticks s < T"
  proof -
    have "timer_ahead (time_ticks s) (unat (currCountdown s)) (timers s i)" "0 < unat (currCountdown s)"
      using s by (simp_all add: sys_ok_def)
    then show ?thesis using t by (simp add: timer_ahead_def T_def)
  qed
  then show ?case using s(2) t by (simp add: times_due_def T_def)
next
  case (Suc n)
  let ?s = "(tick1 call ^^ n) s" and ?now = "time_ticks s + n"
  have ok: "sys_ok ?s" using sys_time.ok_ticks [of call s n] h(1) s(1) by simp
  have now: "time_ticks ?s = ?now"
  proof -
    have "sys_ok ((tick1 call ^^ m) s) \<and> time_ticks ((tick1 call ^^ m) s) = time_ticks s + m" for m
      by (induction m) (use s(1) tick1_ok [OF h(1)] in auto)
    then show ?thesis by simp
  qed
  have p: "0 < p"
  proof -
    have "timer_ahead (time_ticks s) (unat (currCountdown s)) (timers s i)" using s by (simp add: sys_ok_def)
    then show ?thesis using t by (simp add: timer_ahead_def p_def)
  qed
  have f: "funct (timers ?s i) \<noteq> None" using Suc.IH s(3) by simp
  note step = tick1_timer [OF h ok conjunct1 [OF Suc.IH] f]
  show ?case
  proof (cases "continuous (timers s i)")
    case True
    then have ti: "timers ?s i = (timers s i)\<lparr>timeToFire := T + times_due T p ?now * p\<rparr>" using Suc.IH by simp
    have "is_due (?now + 1) (timers ?s i) \<longleftrightarrow> T + times_due T p ?now * p = Suc ?now"
      using t by (auto simp: ti is_due_def)
    then show ?thesis using step Suc.IH True times_due_Suc [OF p, of T ?now]
      by (auto simp: ti now rearmed_def p_def)
  next
    case False
    then have ti: "timers ?s i = (timers s i)\<lparr>t_active := ?now < T\<rparr>" using Suc.IH by simp
    have "is_due (?now + 1) (timers ?s i) \<longleftrightarrow> Suc ?now = T" by (auto simp: ti is_due_def T_def)
    then show ?thesis using step Suc.IH False by (auto simp: ti now rearmed_def)
  qed
qed

text \<open>
  What is due when the countdown ends is called, even when the handler of another timer deactivates it in
  the same event: it is enough that the handlers leave its handler in the table.
\<close>

definition keep_handler :: "nat \<Rightarrow> ('h \<Rightarrow> ('h, 'd) pc_system \<Rightarrow> ('h, 'd) pc_system) \<Rightarrow> bool" where
  "keep_handler i call \<longleftrightarrow>
     (\<forall>h s. i < numTimers s \<longrightarrow> funct (timers s i) \<noteq> None \<longrightarrow>
        i < numTimers (call h s) \<and> funct (timers (call h s) i) \<noteq> None)"

lemma handler_step_calls:
  assumes "handlers_ok call" "keep_handler i call" "sys_ok s" "i < numTimers s" "funct (timers s i) \<noteq> None"
  shows "i < numTimers (handler_step call tr n j s) \<and> funct (timers (handler_step call tr n j s) i) \<noteq> None \<and>
    set (fired s) \<subseteq> set (fired (handler_step call tr n j s)) \<and>
    (j = i \<and> tr i \<and> i < n \<longrightarrow> (i, time_ticks s) \<in> set (fired (handler_step call tr n j s)))"
  using assms call_time [OF assms(1)]
  by (auto simp: handler_step_def run_callback_def keep_handler_def split: option.split)

lemma handlers_fold_calls:
  assumes "handlers_ok call" "keep_handler i call" "sys_ok s" "i < numTimers s" "funct (timers s i) \<noteq> None"
  shows "set (fired s) \<subseteq> set (fired (fold (handler_step call tr n) xs s)) \<and>
    (i \<in> set xs \<and> tr i \<and> i < n \<longrightarrow> (i, time_ticks s) \<in> set (fired (fold (handler_step call tr n) xs s)))"
  using assms(3-5)
proof (induction xs arbitrary: s)
  case (Cons j xs)
  note step = handler_step_calls [OF assms(1,2) Cons.prems, of tr n j]
    and ok = handler_step_ok [OF assms(1) Cons.prems(1), of tr n j]
  from Cons.IH [OF ok(1) conjunct1 [OF step]] step ok(2) show ?case by auto
qed simp

lemma due_is_called:
  assumes "handlers_ok call" "keep_handler i call" "at_event s" "i < numTimers s" "funct (timers s i) \<noteq> None"
    and "is_due (time_ticks s) (timers s i)"
  shows "(i, time_ticks s) \<in> set (fired (countdownEvent call s))"
proof -
  have z: "currCountdown s = 0" and m: "i < MAX_TIMERS" using assms(3,4) by (auto simp: at_event_def)
  have f: "i < numTimers (rearm_all s)" "funct (timers (rearm_all s) i) \<noteq> None"
    using assms(4,5) by (simp_all add: rearm_all_fields rearmed_def)
  from handlers_fold_calls [OF assms(1,2) rearm_all_ok(1) [OF assms(3)] f, of "\<lambda>i. is_due (time_ticks s) (timers s i)" "numTimers s" "[0..<MAX_TIMERS]"]
  show ?thesis
    using assms(4,6) m rearm_all_ok(2) [OF assms(3)] by (simp add: countdownEvent_rearm [OF z] call_handlers_fold)
qed

lemma deactivating_keeps_handler: "keep_handler i (\<lambda>h. deactivate_timer (f h))"
  by (simp add: keep_handler_def deactivate_timer_def)

section \<open>Runs of the system\<close>

inductive sys_reach ::
  "('h \<Rightarrow> ('h, 'd) pc_system \<Rightarrow> ('h, 'd) pc_system) \<Rightarrow> ('h, 'd) pc_system \<Rightarrow> bool" for call where
  Start: "sys_reach call (initialize (pc_system_new null s))"
| Op: "sys_reach call s \<Longrightarrow> sys_op s s' \<Longrightarrow> sys_reach call s'"
| Tick: "sys_reach call s \<Longrightarrow> sys_reach call (tick1 call s)"

lemma initialize_ok: "sys_ok (initialize (pc_system_new null s))"
  by (simp add: initialize_def pc_system_new_def put_timer_def sys_ok_def MAX_TIMERS_def NullTimerInterval_def
      null_timer_ok_def timer_ahead_def time_ticks_def)

lemma sys_reach_ok: "sys_reach call s \<Longrightarrow> handlers_ok call \<Longrightarrow> sys_ok s"
  by (induction rule: sys_reach.induct) (simp_all add: initialize_ok sys_op_ok tick1_ok)

text \<open>
  C30. Skipping time is exact and returns: in any run of the system, with handlers that use its interface,
  \<open>tickn n\<close> ends in the state that \<open>n\<close> single ticks reach, whatever the handlers that are called on the
  way register, activate or deactivate.
\<close>

theorem ticks_are_exact:
  assumes "sys_reach call s" and "handlers_ok call"
  shows "tickn call n s = Some ((tick1 call ^^ unat n) s)"
  by (rule tickn_iterates [OF assms(2) sys_reach_ok [OF assms]])

text \<open>
  In any run the countdown is positive and ends before any active timer of the table is due, so that
  none is passed over.
\<close>

theorem no_timer_is_missed:
  assumes "sys_reach call s" and "handlers_ok call" and "i < numTimers s" and "t_active (timers s i)"
  shows "0 < currCountdown s \<and> time_ticks s + unat (currCountdown s) \<le> timeToFire (timers s i)"
  using sys_reach_ok [OF assms(1,2)] assms(3,4) by (auto simp: sys_ok_def timer_ahead_def unat_gt_0 word_neq_0_conv)

text \<open>
  C31. An active timer that the handlers leave alone is called when it is due and at no other time: a
  one-shot timer once, at its time; a continuous one at its time and then once in every period.
\<close>

theorem timer_fires_on_time:
  assumes "sys_reach call s" and "handlers_ok call" and "leave_timer i call"
    and "i < numTimers s" and "funct (timers s i) \<noteq> None" and "t_active (timers s i)"
    and "T = timeToFire (timers s i)" and "p = t_period (timers s i)" and "tickn call n s = Some s'"
  shows "calls_of i s' = calls_of i s @
    (if continuous (timers s i) then map (\<lambda>j. (i, T + j * p)) [0..<times_due T p (time_ticks s + unat n)]
     else if time_ticks s + unat n < T then [] else [(i, T)])"
proof -
  have ok: "sys_ok s" by (rule sys_reach_ok [OF assms(1,2)])
  have "s' = (tick1 call ^^ unat n) s" using tickn_iterates [OF assms(2) ok] assms(9) by simp
  then show ?thesis using timer_runs [OF assms(2,3) ok assms(4-6), of "unat n"] assms(7,8) by simp
qed

text \<open>Successive readings of the sequential time increase strictly while the time does not run backwards.\<close>

theorem sequential_time_increases:
  assumes "time_usec_sequential u s = (a, s1)" and "lastTimeUsec s \<le> u (time_ticks s)"
    and "u (time_ticks s) \<le> u (time_ticks s2)"
    and "lastTimeUsec s2 = lastTimeUsec s1" and "usecSinceLast s2 = usecSinceLast s1"
    and "time_usec_sequential u s2 = (b, s3)"
  shows "a < b"
  using assms by (auto simp: time_usec_sequential_def time_usec_def Let_def split: if_splits)

section \<open>A concrete system\<close>

text \<open>One continuous timer of 100 ticks, with handlers that do nothing.\<close>

definition idle_system :: "(unit, unit) pc_system" where
  "idle_system =
     initialize (pc_system_new ()
       \<lparr>timers = (\<lambda>_. \<lparr>inUse = False, t_period = 0, timeToFire = 0, t_active = False, continuous = False, funct = None\<rparr>),
        numTimers = 0, triggeredTimer = 0, currCountdown = 0, currCountdownPeriod = 0, ticksTotal = 0, lastTimeUsec = 0,
        usecSinceLast = 0, sys_HRQ = False, enable_a20 = True, a20_mask = 0xffffffff, kill_bochs_request = False,
        sys_events = [], fired = [], faulted = False, devices = ()\<rparr>)"

definition one_timer :: "(unit, unit) pc_system" where
  "one_timer = snd (register_timer_ticks () 100 True True idle_system)"

lemma free_slot_idle: "free_slot idle_system = 1"
  by (simp add: idle_system_def initialize_def pc_system_new_def put_timer_def free_slot_def)

lemma one_timer_reach: "sys_reach call one_timer"
  unfolding one_timer_def
proof (rule sys_reach.Op)
  show "sys_reach call idle_system" unfolding idle_system_def by (rule sys_reach.Start)
  show "sys_op idle_system (snd (register_timer_ticks () 100 True True idle_system))"
    by (rule sys_op.Register) (simp add: free_slot_idle MAX_TIMERS_def)
qed

lemma one_timer_fields:
  "timers one_timer 1 =
     \<lparr>inUse = True, t_period = 100, timeToFire = 100, t_active = True, continuous = True, funct = Some ()\<rparr>"
  "numTimers one_timer = 2" "fired one_timer = []" "time_ticks one_timer = 0"
  by (simp_all add: one_timer_def register_timer_ticks_def free_slot_idle)
    (simp_all add: idle_system_def initialize_def pc_system_new_def put_timer_def skew_def time_ticks_def
      NullTimerInterval_def)

definition idle_call :: "unit \<Rightarrow> (unit, unit) pc_system \<Rightarrow> (unit, unit) pc_system" where
  "idle_call h s = s"

lemma idle_call_ok: "handlers_ok idle_call" "leave_timer i idle_call"
  by (simp_all add: handlers_ok_def leave_timer_def idle_call_def)

lemma ticks_are_exact_witness:
  "sys_reach idle_call one_timer \<and> tickn idle_call 250 one_timer = Some ((tick1 idle_call ^^ unat (250 :: u32)) one_timer)"
  using ticks_are_exact [OF one_timer_reach idle_call_ok(1)] one_timer_reach by blast

lemma no_timer_is_missed_witness:
  "0 < currCountdown one_timer \<and> time_ticks one_timer + unat (currCountdown one_timer) \<le> timeToFire (timers one_timer 1)"
  by (rule no_timer_is_missed [OF one_timer_reach idle_call_ok(1)]) (simp_all add: one_timer_fields [simplified])

lemma timer_fires_on_time_witness:
  "\<exists>s'. tickn idle_call 250 one_timer = Some s' \<and> calls_of 1 s' = [(1, 100), (1, 200)]"
proof -
  obtain s' where s: "tickn idle_call 250 one_timer = Some s'"
    using tickn_iterates [OF idle_call_ok(1) sys_reach_ok [OF one_timer_reach idle_call_ok(1)]] by blast
  have "[0..<2] = [0, 1 :: nat]" by (simp add: upt_rec)
  then have "calls_of 1 s' = [(1, 100), (1, 200)]"
    using timer_fires_on_time [OF one_timer_reach idle_call_ok(1) idle_call_ok(2) _ _ _ refl refl s, of 1]
    by (simp add: one_timer_fields [simplified] times_due_def calls_of_def)
  then show ?thesis using s by blast
qed

lemma sequential_time_increases_witness:
  "fst (time_usec_sequential id idle_system)
     < fst (time_usec_sequential id (snd (time_usec_sequential id idle_system)))"
  by (rule sequential_time_increases [of id idle_system _ "snd (time_usec_sequential id idle_system)"
        "snd (time_usec_sequential id idle_system)" _ "snd (time_usec_sequential id (snd (time_usec_sequential id idle_system)))"])
    (simp_all add: idle_system_def initialize_def pc_system_new_def put_timer_def time_usec_sequential_def
      time_usec_def time_ticks_def Let_def)

end
