(* ===== verification/Cpu_Access.thy ===== *)
theory Cpu_Access
  imports Cpu_Paging
begin

text \<open>
  Memory as instructions reach it, through a segment: the segment checks (\<^verbatim>\<open>src/sim/bochs/cpu/access.cc\<close>)
  and the accesses of legacy mode (\<^verbatim>\<open>access32.cc\<close>) and of 64 bit mode (\<^verbatim>\<open>access64.cc\<close>). The functions of
  the four sizes have the same body; here each is the body at its size. A host pointer is the physical address of its page.
\<close>

unbundle bit_operations_syntax

section \<open>Segment checks\<close>

definition BX_SEG_REG_SS :: nat where "BX_SEG_REG_SS = 2"
definition BX_SEG_REG_FS :: nat where "BX_SEG_REG_FS = 4"

definition int_number :: "nat \<Rightarrow> exn_vector" where
  "int_number s = (if s = BX_SEG_REG_SS then SS_EXCEPTION else GP_EXCEPTION)"

definition beyond_limit :: "seg_cache \<Rightarrow> u32 \<Rightarrow> u32 \<Rightarrow> bool" where
  "beyond_limit c offset len \<longleftrightarrow> offset > sc_limit_scaled c - len + 1 \<or> len - 1 > sc_limit_scaled c"

definition beyond_limit_ED :: "seg_cache \<Rightarrow> u32 \<Rightarrow> u32 \<Rightarrow> bool" where
  "beyond_limit_ED c offset len \<longleftrightarrow>
     (let upper_limit = (if sc_d_b c then 0xffffffff else 0xffff) in
      offset \<le> sc_limit_scaled c \<or> offset > upper_limit \<or> upper_limit - offset < len - 1)"

definition set_valid :: "nat \<Rightarrow> u32 \<Rightarrow> cpu \<Rightarrow> cpu" where
  "set_valid s bits t =
     t\<lparr>sregs := (sregs t)(s := (sregs t s)\<lparr>sc_valid := sc_valid (sregs t s) OR bits\<rparr>)\<rparr>"

text \<open>The check of an access, and the cache of its result for the accesses that follow.\<close>

definition write_virtual_checks :: "nat \<Rightarrow> u32 \<Rightarrow> u32 \<Rightarrow> cpu \<Rightarrow> bool \<times> cpu" where
  "write_virtual_checks s offset len t =
     (let c = sregs t s in
      if sc_valid c = 0 then (False, t)
      else if \<not> sc_p c then (False, t)
      else if sc_type c \<in> {0, 1, 4, 5, 8, 9, 10, 11, 12, 13, 14, 15} then (False, t)
      else if sc_type c \<in> {2, 3} then
        (if beyond_limit c offset len then (False, t)
         else (True, if 15 \<le> sc_limit_scaled c then set_valid s (SegAccessROK OR SegAccessWOK) t else t))
      else if sc_type c \<in> {6, 7} then
        (if beyond_limit_ED c offset len then (False, t) else (True, t))
      else (True, t\<lparr>panicked := True\<rparr>))"

definition read_virtual_checks :: "nat \<Rightarrow> u32 \<Rightarrow> u32 \<Rightarrow> cpu \<Rightarrow> bool \<times> cpu" where
  "read_virtual_checks s offset len t =
     (let c = sregs t s in
      if sc_valid c = 0 then (False, t)
      else if \<not> sc_p c then (False, t)
      else if sc_type c \<in> {0, 1, 2, 3, 10, 11, 14, 15} then
        (if beyond_limit c offset len then (False, t)
         else (True, if 15 \<le> sc_limit_scaled c then set_valid s SegAccessROK t else t))
      else if sc_type c \<in> {4, 5, 6, 7} then
        (if beyond_limit_ED c offset len then (False, t) else (True, t))
      else if sc_type c \<in> {8, 9, 12, 13} then (False, t)
      else (True, t\<lparr>panicked := True\<rparr>))"

definition execute_virtual_checks :: "nat \<Rightarrow> u32 \<Rightarrow> u32 \<Rightarrow> cpu \<Rightarrow> bool \<times> cpu" where
  "execute_virtual_checks s offset len t =
     (let c = sregs t s in
      if sc_valid c = 0 then (False, t)
      else if \<not> sc_p c then (False, t)
      else if sc_type c \<in> {0, 1, 2, 3, 10, 11, 14, 15} then
        (if beyond_limit c offset len then (False, t)
         else (True, if 15 \<le> sc_limit_scaled c then set_valid s SegAccessROK t else t))
      else if sc_type c \<in> {8, 9, 12, 13} then
        (if beyond_limit c offset len then (False, t) else (True, t))
      else if sc_type c \<in> {4, 5, 6, 7} then
        (if beyond_limit_ED c offset len then (False, t) else (True, t))
      else (True, t\<lparr>panicked := True\<rparr>))"

text \<open>The simple check when the cache says that the type of the segment allows the access.\<close>

definition within_limit :: "nat \<Rightarrow> u32 \<Rightarrow> u32 \<Rightarrow> bool" where
  "within_limit len offset limit \<longleftrightarrow>
     (if len = 1 then offset \<le> limit
      else if len = 2 then offset < limit
      else if len = 4 then offset < limit - 2
      else offset \<le> limit - (word_of_nat len - 1))"

definition check_segment ::
  "(nat \<Rightarrow> u32 \<Rightarrow> u32 \<Rightarrow> cpu \<Rightarrow> bool \<times> cpu) \<Rightarrow> u32 \<Rightarrow> nat \<Rightarrow> u32 \<Rightarrow> nat \<Rightarrow> cpu \<Rightarrow> unit res" where
  "check_segment checks cached s offset len t =
     (if sc_valid (sregs t s) AND cached \<noteq> 0 then
        (if within_limit len offset (sc_limit_scaled (sregs t s)) then Inr ((), t) else exception (int_number s) 0 t)
      else case checks s offset (word_of_nat len) t of
        (ok, t1) \<Rightarrow> if ok then Inr ((), t1) else exception (int_number s) 0 t1)"

section \<open>Linear addresses\<close>

definition get_laddr32 :: "nat \<Rightarrow> u32 \<Rightarrow> cpu \<Rightarrow> u64" where
  "get_laddr32 s offset t = ucast (ucast (sc_base (sregs t s)) + offset :: u32)"

definition get_laddr64 :: "nat \<Rightarrow> u64 \<Rightarrow> cpu \<Rightarrow> u64" where
  "get_laddr64 s offset t = (if s < BX_SEG_REG_FS then offset else sc_base (sregs t s) + offset)"

definition get_laddr :: "nat \<Rightarrow> u64 \<Rightarrow> cpu \<Rightarrow> u64" where
  "get_laddr s offset t =
     (if mode t = LONG_64 then get_laddr64 s offset t else get_laddr32 s (ucast offset) t)"

definition IsCanonical :: "u64 \<Rightarrow> bool" where
  "IsCanonical offset \<longleftrightarrow> signed_drop_bit 47 offset + 1 < (2 :: u64)"

text \<open>The host pointer to the bytes of an access, when the TLB has one that allows it.\<close>

definition host_pointer :: "u64 \<Rightarrow> nat \<Rightarrow> u64 \<Rightarrow> u32 \<Rightarrow> cpu \<Rightarrow> u32 option" where
  "host_pointer laddr len alignment forbidden t =
     (let e = TLB t (TLB_INDEX_OF laddr (len - 1)) in
      if lpf e = AlignedAccessLPFOf laddr alignment \<and> accessBits e AND forbidden = 0
      then Some ((case hostPageAddr e of Some host \<Rightarrow> host | None \<Rightarrow> 0) OR PAGE_OFFSET laddr)
      else None)"

definition alignment_of :: "nat \<Rightarrow> cpu \<Rightarrow> u64" where
  "alignment_of len t = word_of_nat (len - 1) AND ucast (alignment_check_mask t)"

definition misaligned :: "u64 \<Rightarrow> nat \<Rightarrow> cpu \<Rightarrow> bool" where
  "misaligned laddr len t \<longleftrightarrow> alignment_check_mask t \<noteq> 0 \<and> laddr AND word_of_nat (len - 1) \<noteq> 0"

definition host_write :: "u32 \<Rightarrow> bytes \<Rightarrow> cpu \<Rightarrow> cpu" where
  "host_write host bs t = t\<lparr>ram := put_bytes host bs (ram t)\<rparr>"

definition host_read :: "u32 \<Rightarrow> nat \<Rightarrow> cpu \<Rightarrow> bytes" where
  "host_read host len t = phys_bytes host len (ram t)"

section \<open>Accesses in legacy mode\<close>

text \<open>Bits of \<open>accessBits\<close> that forbid a read, and a write.\<close>

definition no_read :: "cpu \<Rightarrow> u32" where "no_read t = USER_PL t"
definition no_write :: "cpu \<Rightarrow> u32" where "no_write t = 2 OR USER_PL t"

text \<open>The access once the segment allows it: through the TLB's host pointer if there is one.\<close>

definition linear_store :: "u64 \<Rightarrow> bytes \<Rightarrow> cpu \<Rightarrow> unit res" where
  "linear_store laddr bs t =
     (let len = length bs in
      case host_pointer laddr len (alignment_of len t) (no_write t) t of
        Some host \<Rightarrow> Inr ((), host_write host bs t)
      | None \<Rightarrow>
          if misaligned laddr len t then exception AC_EXCEPTION 0 t
          else access_write_linear laddr bs (curr_CPL t) t)"

definition linear_load :: "u64 \<Rightarrow> nat \<Rightarrow> cpu \<Rightarrow> 'a::len word res" where
  "linear_load laddr len t =
     (case host_pointer laddr len (alignment_of len t) (no_read t) t of
        Some host \<Rightarrow> Inr (bytes_word (host_read host len t), t)
      | None \<Rightarrow>
          if misaligned laddr len t then exception AC_EXCEPTION 0 t
          else rbind (access_read_linear laddr len (curr_CPL t) BX_READ t) (\<lambda>bs t2. Inr (bytes_word bs, t2)))"

definition write_virtual_32 :: "nat \<Rightarrow> u32 \<Rightarrow> bytes \<Rightarrow> cpu \<Rightarrow> unit res" where
  "write_virtual_32 s offset bs t =
     rbind (check_segment write_virtual_checks SegAccessWOK s offset (length bs) t) (\<lambda>_ t1.
     linear_store (get_laddr32 s offset t1) bs t1)"

definition read_virtual_32 :: "nat \<Rightarrow> u32 \<Rightarrow> nat \<Rightarrow> cpu \<Rightarrow> 'a::len word res" where
  "read_virtual_32 s offset len t =
     rbind (check_segment read_virtual_checks SegAccessROK s offset len t) (\<lambda>_ t1.
     linear_load (get_laddr32 s offset t1) len t1)"

text \<open>The read of a read-modify-write operation checks that the write is allowed, and keeps where it went.\<close>

definition read_RMW_virtual_32 :: "nat \<Rightarrow> u32 \<Rightarrow> nat \<Rightarrow> cpu \<Rightarrow> 'a::len word res" where
  "read_RMW_virtual_32 s offset len t =
     rbind (check_segment write_virtual_checks SegAccessWOK s offset len t) (\<lambda>_ t1.
     let laddr = get_laddr32 s offset t1 in
     case host_pointer laddr len (alignment_of len t1) (no_write t1) t1 of
       Some host \<Rightarrow> Inr (bytes_word (host_read host len t1), t1\<lparr>pages := Inr host\<rparr>)
     | None \<Rightarrow>
         if misaligned laddr len t1 then exception AC_EXCEPTION 0 t1
         else rbind (access_read_linear laddr len (curr_CPL t1) BX_RW t1) (\<lambda>bs t2. Inr (bytes_word bs, t2)))"

section \<open>Accesses in 64 bit mode\<close>

definition checks_64 :: "nat \<Rightarrow> u64 \<Rightarrow> nat \<Rightarrow> cpu \<Rightarrow> unit res" where
  "checks_64 s laddr len t =
     (if \<not> IsCanonical laddr then exception (int_number s) 0 t
      else if misaligned laddr len t then exception AC_EXCEPTION 0 t
      else if \<not> IsCanonical (laddr + word_of_nat (len - 1)) then exception (int_number s) 0 t
      else Inr ((), t))"

definition write_virtual_64 :: "nat \<Rightarrow> u64 \<Rightarrow> bytes \<Rightarrow> cpu \<Rightarrow> unit res" where
  "write_virtual_64 s offset bs t =
     (let laddr = get_laddr64 s offset t; len = length bs in
      case host_pointer laddr len (alignment_of len t) (no_write t) t of
        Some host \<Rightarrow> Inr ((), host_write host bs t)
      | None \<Rightarrow> rbind (checks_64 s laddr len t) (\<lambda>_ t1. access_write_linear laddr bs (curr_CPL t1) t1))"

definition read_virtual_64 :: "nat \<Rightarrow> u64 \<Rightarrow> nat \<Rightarrow> cpu \<Rightarrow> 'a::len word res" where
  "read_virtual_64 s offset len t =
     (let laddr = get_laddr64 s offset t in
      case host_pointer laddr len (alignment_of len t) (no_read t) t of
        Some host \<Rightarrow> Inr (bytes_word (host_read host len t), t)
      | None \<Rightarrow> rbind (checks_64 s laddr len t) (\<lambda>_ t1.
          rbind (access_read_linear laddr len (curr_CPL t1) BX_READ t1) (\<lambda>bs t2. Inr (bytes_word bs, t2))))"

definition read_RMW_virtual_64 :: "nat \<Rightarrow> u64 \<Rightarrow> nat \<Rightarrow> cpu \<Rightarrow> 'a::len word res" where
  "read_RMW_virtual_64 s offset len t =
     (let laddr = get_laddr64 s offset t in
      case host_pointer laddr len (alignment_of len t) (no_write t) t of
        Some host \<Rightarrow> Inr (bytes_word (host_read host len t), t\<lparr>pages := Inr host\<rparr>)
      | None \<Rightarrow> rbind (checks_64 s laddr len t) (\<lambda>_ t1.
          rbind (access_read_linear laddr len (curr_CPL t1) BX_RW t1) (\<lambda>bs t2. Inr (bytes_word bs, t2))))"

section \<open>The functions of each size\<close>

definition write_virtual_byte_32 :: "nat \<Rightarrow> u32 \<Rightarrow> u8 \<Rightarrow> cpu \<Rightarrow> unit res" where
  "write_virtual_byte_32 s offset data t = write_virtual_32 s offset (low_bytes 1 data) t"

definition write_virtual_word_32 :: "nat \<Rightarrow> u32 \<Rightarrow> u16 \<Rightarrow> cpu \<Rightarrow> unit res" where
  "write_virtual_word_32 s offset data t = write_virtual_32 s offset (low_bytes 2 data) t"

definition write_virtual_dword_32 :: "nat \<Rightarrow> u32 \<Rightarrow> u32 \<Rightarrow> cpu \<Rightarrow> unit res" where
  "write_virtual_dword_32 s offset data t = write_virtual_32 s offset (low_bytes 4 data) t"

definition write_virtual_qword_32 :: "nat \<Rightarrow> u32 \<Rightarrow> u64 \<Rightarrow> cpu \<Rightarrow> unit res" where
  "write_virtual_qword_32 s offset data t = write_virtual_32 s offset (low_bytes 8 data) t"

definition read_virtual_byte_32 :: "nat \<Rightarrow> u32 \<Rightarrow> cpu \<Rightarrow> u8 res" where
  "read_virtual_byte_32 s offset t = read_virtual_32 s offset 1 t"

definition read_virtual_word_32 :: "nat \<Rightarrow> u32 \<Rightarrow> cpu \<Rightarrow> u16 res" where
  "read_virtual_word_32 s offset t = read_virtual_32 s offset 2 t"

definition read_virtual_dword_32 :: "nat \<Rightarrow> u32 \<Rightarrow> cpu \<Rightarrow> u32 res" where
  "read_virtual_dword_32 s offset t = read_virtual_32 s offset 4 t"

definition read_virtual_qword_32 :: "nat \<Rightarrow> u32 \<Rightarrow> cpu \<Rightarrow> u64 res" where
  "read_virtual_qword_32 s offset t = read_virtual_32 s offset 8 t"

definition read_RMW_virtual_byte_32 :: "nat \<Rightarrow> u32 \<Rightarrow> cpu \<Rightarrow> u8 res" where
  "read_RMW_virtual_byte_32 s offset t = read_RMW_virtual_32 s offset 1 t"

definition read_RMW_virtual_word_32 :: "nat \<Rightarrow> u32 \<Rightarrow> cpu \<Rightarrow> u16 res" where
  "read_RMW_virtual_word_32 s offset t = read_RMW_virtual_32 s offset 2 t"

definition read_RMW_virtual_dword_32 :: "nat \<Rightarrow> u32 \<Rightarrow> cpu \<Rightarrow> u32 res" where
  "read_RMW_virtual_dword_32 s offset t = read_RMW_virtual_32 s offset 4 t"

definition read_RMW_virtual_qword_32 :: "nat \<Rightarrow> u32 \<Rightarrow> cpu \<Rightarrow> u64 res" where
  "read_RMW_virtual_qword_32 s offset t = read_RMW_virtual_32 s offset 8 t"

definition write_virtual_byte_64 :: "nat \<Rightarrow> u64 \<Rightarrow> u8 \<Rightarrow> cpu \<Rightarrow> unit res" where
  "write_virtual_byte_64 s offset data t = write_virtual_64 s offset (low_bytes 1 data) t"

definition write_virtual_word_64 :: "nat \<Rightarrow> u64 \<Rightarrow> u16 \<Rightarrow> cpu \<Rightarrow> unit res" where
  "write_virtual_word_64 s offset data t = write_virtual_64 s offset (low_bytes 2 data) t"

definition write_virtual_dword_64 :: "nat \<Rightarrow> u64 \<Rightarrow> u32 \<Rightarrow> cpu \<Rightarrow> unit res" where
  "write_virtual_dword_64 s offset data t = write_virtual_64 s offset (low_bytes 4 data) t"

definition write_virtual_qword_64 :: "nat \<Rightarrow> u64 \<Rightarrow> u64 \<Rightarrow> cpu \<Rightarrow> unit res" where
  "write_virtual_qword_64 s offset data t = write_virtual_64 s offset (low_bytes 8 data) t"

definition read_virtual_byte_64 :: "nat \<Rightarrow> u64 \<Rightarrow> cpu \<Rightarrow> u8 res" where
  "read_virtual_byte_64 s offset t = read_virtual_64 s offset 1 t"

definition read_virtual_word_64 :: "nat \<Rightarrow> u64 \<Rightarrow> cpu \<Rightarrow> u16 res" where
  "read_virtual_word_64 s offset t = read_virtual_64 s offset 2 t"

definition read_virtual_dword_64 :: "nat \<Rightarrow> u64 \<Rightarrow> cpu \<Rightarrow> u32 res" where
  "read_virtual_dword_64 s offset t = read_virtual_64 s offset 4 t"

definition read_virtual_qword_64 :: "nat \<Rightarrow> u64 \<Rightarrow> cpu \<Rightarrow> u64 res" where
  "read_virtual_qword_64 s offset t = read_virtual_64 s offset 8 t"

definition read_RMW_virtual_byte_64 :: "nat \<Rightarrow> u64 \<Rightarrow> cpu \<Rightarrow> u8 res" where
  "read_RMW_virtual_byte_64 s offset t = read_RMW_virtual_64 s offset 1 t"

definition read_RMW_virtual_word_64 :: "nat \<Rightarrow> u64 \<Rightarrow> cpu \<Rightarrow> u16 res" where
  "read_RMW_virtual_word_64 s offset t = read_RMW_virtual_64 s offset 2 t"

definition read_RMW_virtual_dword_64 :: "nat \<Rightarrow> u64 \<Rightarrow> cpu \<Rightarrow> u32 res" where
  "read_RMW_virtual_dword_64 s offset t = read_RMW_virtual_64 s offset 4 t"

definition read_RMW_virtual_qword_64 :: "nat \<Rightarrow> u64 \<Rightarrow> cpu \<Rightarrow> u64 res" where
  "read_RMW_virtual_qword_64 s offset t = read_RMW_virtual_64 s offset 8 t"

text \<open>The functions that instructions call: by the mode of the processor.\<close>

definition write_virtual_byte :: "nat \<Rightarrow> u64 \<Rightarrow> u8 \<Rightarrow> cpu \<Rightarrow> unit res" where
  "write_virtual_byte s offset data t = 
     (if mode t = LONG_64 then write_virtual_byte_64 s offset data t else write_virtual_byte_32 s (ucast offset) data t)"

definition write_virtual_word :: "nat \<Rightarrow> u64 \<Rightarrow> u16 \<Rightarrow> cpu \<Rightarrow> unit res" where
  "write_virtual_word s offset data t = 
     (if mode t = LONG_64 then write_virtual_word_64 s offset data t else write_virtual_word_32 s (ucast offset) data t)"

definition write_virtual_dword :: "nat \<Rightarrow> u64 \<Rightarrow> u32 \<Rightarrow> cpu \<Rightarrow> unit res" where
  "write_virtual_dword s offset data t = 
     (if mode t = LONG_64 then write_virtual_dword_64 s offset data t else write_virtual_dword_32 s (ucast offset) data t)"

definition write_virtual_qword :: "nat \<Rightarrow> u64 \<Rightarrow> u64 \<Rightarrow> cpu \<Rightarrow> unit res" where
  "write_virtual_qword s offset data t = 
     (if mode t = LONG_64 then write_virtual_qword_64 s offset data t else write_virtual_qword_32 s (ucast offset) data t)"

definition read_virtual_byte :: "nat \<Rightarrow> u64 \<Rightarrow> cpu \<Rightarrow> u8 res" where
  "read_virtual_byte s offset t = 
     (if mode t = LONG_64 then read_virtual_byte_64 s offset t else read_virtual_byte_32 s (ucast offset) t)"

definition read_RMW_virtual_byte :: "nat \<Rightarrow> u64 \<Rightarrow> cpu \<Rightarrow> u8 res" where
  "read_RMW_virtual_byte s offset t = 
     (if mode t = LONG_64 then read_RMW_virtual_byte_64 s offset t else read_RMW_virtual_byte_32 s (ucast offset) t)"

definition read_virtual_word :: "nat \<Rightarrow> u64 \<Rightarrow> cpu \<Rightarrow> u16 res" where
  "read_virtual_word s offset t = 
     (if mode t = LONG_64 then read_virtual_word_64 s offset t else read_virtual_word_32 s (ucast offset) t)"

definition read_RMW_virtual_word :: "nat \<Rightarrow> u64 \<Rightarrow> cpu \<Rightarrow> u16 res" where
  "read_RMW_virtual_word s offset t = 
     (if mode t = LONG_64 then read_RMW_virtual_word_64 s offset t else read_RMW_virtual_word_32 s (ucast offset) t)"

definition read_virtual_dword :: "nat \<Rightarrow> u64 \<Rightarrow> cpu \<Rightarrow> u32 res" where
  "read_virtual_dword s offset t = 
     (if mode t = LONG_64 then read_virtual_dword_64 s offset t else read_virtual_dword_32 s (ucast offset) t)"

definition read_RMW_virtual_dword :: "nat \<Rightarrow> u64 \<Rightarrow> cpu \<Rightarrow> u32 res" where
  "read_RMW_virtual_dword s offset t = 
     (if mode t = LONG_64 then read_RMW_virtual_dword_64 s offset t else read_RMW_virtual_dword_32 s (ucast offset) t)"

definition read_virtual_qword :: "nat \<Rightarrow> u64 \<Rightarrow> cpu \<Rightarrow> u64 res" where
  "read_virtual_qword s offset t = 
     (if mode t = LONG_64 then read_virtual_qword_64 s offset t else read_virtual_qword_32 s (ucast offset) t)"

definition read_RMW_virtual_qword :: "nat \<Rightarrow> u64 \<Rightarrow> cpu \<Rightarrow> u64 res" where
  "read_RMW_virtual_qword s offset t = 
     (if mode t = LONG_64 then read_RMW_virtual_qword_64 s offset t else read_RMW_virtual_qword_32 s (ucast offset) t)"

text \<open>The write of a read-modify-write operation goes where its read was.\<close>

definition write_RMW :: "bytes \<Rightarrow> nat \<Rightarrow> nat \<Rightarrow> cpu \<Rightarrow> unit res" where
  "write_RMW bs l1 l2 t =
     (case pages t of
        Inr host \<Rightarrow> Inr ((), host_write host bs t)
      | Inl n \<Rightarrow>
          if n = 1 then Inr ((), access_write_physical (paddress1 t) bs t)
          else Inr ((), access_write_physical (paddress2 t) (take l2 (drop l1 bs)) (access_write_physical (paddress1 t) (take l1 bs) t)))"

definition write_RMW_virtual_byte :: "u8 \<Rightarrow> cpu \<Rightarrow> unit res" where
  "write_RMW_virtual_byte val8 t =
     (case pages t of
        Inr host \<Rightarrow> Inr ((), host_write host (low_bytes 1 val8) t)
      | Inl n \<Rightarrow> Inr ((), access_write_physical (paddress1 t) (low_bytes 1 val8) t))"

definition write_RMW_virtual_word :: "u16 \<Rightarrow> cpu \<Rightarrow> unit res" where
  "write_RMW_virtual_word val16 t = write_RMW (low_bytes 2 val16) 1 1 t"

definition write_RMW_virtual_dword :: "u32 \<Rightarrow> cpu \<Rightarrow> unit res" where
  "write_RMW_virtual_dword val32 t = write_RMW (low_bytes 4 val32) (len1 t) (len2 t) t"

definition write_RMW_virtual_qword :: "u64 \<Rightarrow> cpu \<Rightarrow> unit res" where
  "write_RMW_virtual_qword val64 t = write_RMW (low_bytes 8 val64) (len1 t) (len2 t) t"

section \<open>Accesses of the processor itself\<close>

text \<open>
  With the rights of the supervisor. The writes keep the page of the address in 32 bits, and compare it with the
  64 bit page of the entry.
\<close>

definition system_read :: "u64 \<Rightarrow> nat \<Rightarrow> cpu \<Rightarrow> 'a::len word res" where
  "system_read laddr len t =
     (case host_pointer laddr len 0 0 t of
        Some host \<Rightarrow> Inr (bytes_word (host_read host len t), t)
      | None \<Rightarrow> rbind (access_read_linear laddr len 0 BX_READ t) (\<lambda>bs t1. Inr (bytes_word bs, t1)))"

definition system_write :: "u64 \<Rightarrow> bytes \<Rightarrow> cpu \<Rightarrow> unit res" where
  "system_write laddr bs t =
     (let e = TLB t (TLB_INDEX_OF laddr (length bs - 1)); page = (ucast (LPFOf laddr) :: u32) in
      if lpf e = ucast page \<and> accessBits e AND 2 = 0
      then Inr ((), host_write ((case hostPageAddr e of Some host \<Rightarrow> host | None \<Rightarrow> 0) OR PAGE_OFFSET laddr) bs t)
      else access_write_linear laddr bs 0 t)"

definition system_read_byte :: "u64 \<Rightarrow> cpu \<Rightarrow> u8 res" where
  "system_read_byte laddr t = system_read laddr 1 t"

definition system_read_word :: "u64 \<Rightarrow> cpu \<Rightarrow> u16 res" where
  "system_read_word laddr t = system_read laddr 2 t"

definition system_read_dword :: "u64 \<Rightarrow> cpu \<Rightarrow> u32 res" where
  "system_read_dword laddr t = system_read laddr 4 t"

definition system_read_qword :: "u64 \<Rightarrow> cpu \<Rightarrow> u64 res" where
  "system_read_qword laddr t = system_read laddr 8 t"

definition system_write_byte :: "u64 \<Rightarrow> u8 \<Rightarrow> cpu \<Rightarrow> unit res" where
  "system_write_byte laddr data t = system_write laddr (low_bytes 1 data) t"

definition system_write_word :: "u64 \<Rightarrow> u16 \<Rightarrow> cpu \<Rightarrow> unit res" where
  "system_write_word laddr data t = system_write laddr (low_bytes 2 data) t"

definition system_write_dword :: "u64 \<Rightarrow> u32 \<Rightarrow> cpu \<Rightarrow> unit res" where
  "system_write_dword laddr data t = system_write laddr (low_bytes 4 data) t"

definition v2h_read_byte :: "u64 \<Rightarrow> bool \<Rightarrow> cpu \<Rightarrow> u32 option" where
  "v2h_read_byte laddr user t = host_pointer laddr 1 0 (of_bool user) t"

definition v2h_write_byte :: "u64 \<Rightarrow> bool \<Rightarrow> cpu \<Rightarrow> u32 option" where
  "v2h_write_byte laddr user t = host_pointer laddr 1 0 (2 OR of_bool user) t"

end
