(* ===== verification/Cpu_Access_Spec.thy ===== *)
theory Cpu_Access_Spec
  imports Cpu_Tlb_Spec Cpu_Access
begin

text \<open>
  What an access through a segment does, whichever way it is served: the cached bits of a segment stand for its full
  check, a host pointer of the TLB for the translation of the page, and a load gives what the store before it wrote.
\<close>

unbundle bit_operations_syntax

section \<open>The cached segment check\<close>

definition access_size :: "nat \<Rightarrow> bool" where "access_size len \<longleftrightarrow> len \<in> {1, 2, 4, 8}"

text \<open>What the access bits of a segment's cache promise.\<close>

definition seg_ok :: "seg_cache \<Rightarrow> bool" where
  "seg_ok c \<longleftrightarrow>
     (sc_valid c AND SegAccessROK \<noteq> 0 \<longrightarrow> sc_p c \<and> sc_type c \<in> {0, 1, 2, 3, 10, 11, 14, 15} \<and> 15 \<le> sc_limit_scaled c) \<and>
     (sc_valid c AND SegAccessWOK \<noteq> 0 \<longrightarrow>
        sc_p c \<and> sc_type c \<in> {2, 3} \<and> 15 \<le> sc_limit_scaled c \<and> sc_valid c AND SegAccessROK \<noteq> 0)"

definition seg_caches :: "cpu \<Rightarrow> bool" where "seg_caches t \<longleftrightarrow> (\<forall>s. seg_ok (sregs t s))"

lemma small_minus: "unat k \<le> unat l \<Longrightarrow> unat (l - k) = unat l - unat (k :: u32)"
  by (simp add: unat_sub word_le_nat_alt)

lemma within_limit_eq:
  assumes "access_size len" "15 \<le> sc_limit_scaled c"
  shows "within_limit len off (sc_limit_scaled c) \<longleftrightarrow> \<not> beyond_limit c off (word_of_nat len)"
proof -
  let ?l = "sc_limit_scaled c"
  have l: "15 \<le> unat ?l" using assms(2) by (simp add: word_le_nat_alt)
  have b: "beyond_limit c off (word_of_nat len) \<longleftrightarrow> unat off > unat ?l - (len - 1)"
  proof -
    have n: "word_of_nat len - 1 = (word_of_nat (len - 1) :: u32)" "unat (word_of_nat (len - 1) :: u32) = len - 1"
      using assms(1) by (auto simp: access_size_def)
    have "?l - word_of_nat len + 1 = ?l - word_of_nat (len - 1)" using n(1) by (simp add: algebra_simps)
    moreover have "unat (?l - word_of_nat (len - 1)) = unat ?l - (len - 1)"
      using small_minus [of "word_of_nat (len - 1)" ?l] n(2) l assms(1) by (auto simp: access_size_def)
    ultimately show ?thesis using n l assms(1)
      by (auto simp: beyond_limit_def word_less_nat_alt access_size_def)
  qed
  have "unat (?l - 2) = unat ?l - 2" "unat (?l - 7) = unat ?l - 7"
    using small_minus [of 2 ?l] small_minus [of 7 ?l] l by simp_all
  then show ?thesis using assms(1) l unfolding b
    by (auto simp: within_limit_def access_size_def word_less_nat_alt word_le_nat_alt)
qed

lemma cached_bits: "SegAccessROK = 2" "SegAccessWOK = 4"
  by (simp_all add: SegAccessROK_def SegAccessWOK_def)

lemma cached_check:
  assumes "seg_caches t" "access_size len"
  shows "(isl (check_segment read_virtual_checks SegAccessROK s off len t) \<longleftrightarrow> \<not> fst (read_virtual_checks s off (word_of_nat len) t)) \<and>
    (isl (check_segment write_virtual_checks SegAccessWOK s off len t) \<longleftrightarrow> \<not> fst (write_virtual_checks s off (word_of_nat len) t))"
proof (intro conjI)
  let ?c = "sregs t s"
  have c: "seg_ok ?c" using assms(1) by (simp add: seg_caches_def)
  have "fst (read_virtual_checks s off (word_of_nat len) t) \<longleftrightarrow> within_limit len off (sc_limit_scaled ?c)"
    if "sc_valid ?c AND SegAccessROK \<noteq> 0"
  proof -
    have f: "sc_valid ?c \<noteq> 0" "sc_p ?c" "sc_type ?c \<in> {0, 1, 2, 3, 10, 11, 14, 15}" "15 \<le> sc_limit_scaled ?c"
      using that c unfolding seg_ok_def by (fastforce, blast+)
    show ?thesis using f(1,2) within_limit_eq [OF assms(2) f(4), of off]
      unfolding read_virtual_checks_def Let_def if_P [OF f(3)] by simp
  qed
  then show "isl (check_segment read_virtual_checks SegAccessROK s off len t) \<longleftrightarrow> \<not> fst (read_virtual_checks s off (word_of_nat len) t)"
    by (auto simp: check_segment_def exception_def split: prod.split)
  have "fst (write_virtual_checks s off (word_of_nat len) t) \<longleftrightarrow> within_limit len off (sc_limit_scaled ?c)"
    if "sc_valid ?c AND SegAccessWOK \<noteq> 0"
  proof -
    have f: "sc_valid ?c \<noteq> 0" "sc_p ?c" "sc_type ?c \<in> {2, 3}" "15 \<le> sc_limit_scaled ?c"
      using that c unfolding seg_ok_def by (fastforce, blast+)
    have n: "sc_type ?c \<notin> {0, 1, 4, 5, 8, 9, 10, 11, 12, 13, 14, 15}" using f(3) by auto
    show ?thesis using f(1,2) within_limit_eq [OF assms(2) f(4), of off]
      unfolding write_virtual_checks_def Let_def if_not_P [OF n] if_P [OF f(3)] by simp
  qed
  then show "isl (check_segment write_virtual_checks SegAccessWOK s off len t) \<longleftrightarrow> \<not> fst (write_virtual_checks s off (word_of_nat len) t)"
    by (auto simp: check_segment_def exception_def split: prod.split)
qed

lemma checks_keep:
  assumes "seg_caches t"
  shows "seg_caches (snd (read_virtual_checks s off len t))" "seg_caches (snd (write_virtual_checks s off len t))"
    "seg_caches (snd (execute_virtual_checks s off len t))"
proof -
  have o: "(v OR 2) AND 4 = v AND 4" "(v OR 6) AND 4 \<noteq> 0" "(v OR 2) AND 2 \<noteq> 0" "(v OR 6) AND 2 \<noteq> 0" for v :: u32
    by (simp_all add: bit.conj_disj_distrib2 or_eq_0_iff)
  have c: "seg_ok (sregs t s)" using assms by (simp add: seg_caches_def)
  have r: "seg_caches (set_valid s SegAccessROK t)"
    if "sc_p (sregs t s)" "sc_type (sregs t s) \<in> {0, 1, 2, 3, 10, 11, 14, 15}" "15 \<le> sc_limit_scaled (sregs t s)"
    using that c assms unfolding seg_caches_def set_valid_def by (simp add: seg_ok_def cached_bits o del: insert_iff)
  have w: "seg_caches (set_valid s (SegAccessROK OR SegAccessWOK) t)"
    if "sc_p (sregs t s)" "sc_type (sregs t s) \<in> {2, 3}" "15 \<le> sc_limit_scaled (sregs t s)"
  proof -
    have "sc_type (sregs t s) \<in> {0, 1, 2, 3, 10, 11, 14, 15}" using that(2) by auto
    then show ?thesis using that c assms unfolding seg_caches_def set_valid_def
      by (simp add: seg_ok_def cached_bits o del: insert_iff)
  qed
  have p: "seg_caches (t\<lparr>panicked := b\<rparr>)" for b using assms by (simp add: seg_caches_def)
  show "seg_caches (snd (read_virtual_checks s off len t))" "seg_caches (snd (write_virtual_checks s off len t))"
    "seg_caches (snd (execute_virtual_checks s off len t))"
    using assms r w p unfolding read_virtual_checks_def write_virtual_checks_def execute_virtual_checks_def Let_def
    by (simp_all split: if_split del: insert_iff)
qed

text \<open>
  What a segment register holds after it is loaded: a descriptor whose access bits are still clear
  (\<open>load_seg_reg\<close>, \<open>load_ss\<close>, \<open>load_null_selector\<close>), or, after a reset, in system management mode and in virtual 8086
  mode, a present data segment that can be written, with all bits set.
\<close>

definition loaded_cache :: "seg_cache \<Rightarrow> bool" where
  "loaded_cache c \<longleftrightarrow>
     sc_valid c AND (SegAccessROK OR SegAccessWOK) = 0 \<or>
     sc_valid c = (SegValidCache OR SegAccessROK OR SegAccessWOK) \<and> sc_p c \<and> sc_type c = 3 \<and> 0xffff \<le> sc_limit_scaled c"

text \<open>The states of a run: registers are loaded and checked, and everything else leaves them alone.\<close>

inductive segs_reach :: "cpu \<Rightarrow> bool" where
  Loaded: "(\<forall>s. loaded_cache (sregs t s)) \<Longrightarrow> segs_reach t"
| Load: "segs_reach t \<Longrightarrow> loaded_cache c \<Longrightarrow> segs_reach (t\<lparr>sregs := (sregs t)(s := c)\<rparr>)"
| Read_Check: "segs_reach t \<Longrightarrow> segs_reach (snd (read_virtual_checks s off len t))"
| Write_Check: "segs_reach t \<Longrightarrow> segs_reach (snd (write_virtual_checks s off len t))"
| Execute_Check: "segs_reach t \<Longrightarrow> segs_reach (snd (execute_virtual_checks s off len t))"
| Other: "segs_reach t \<Longrightarrow> sregs u = sregs t \<Longrightarrow> segs_reach u"

lemma loaded_cache_ok: "loaded_cache c \<Longrightarrow> seg_ok c"
proof -
  have "x AND 6 = 0 \<Longrightarrow> x AND 2 = 0 \<and> x AND 4 = 0" for x :: u32
  proof -
    assume "x AND 6 = 0"
    moreover have "x AND 2 = (x AND 6) AND 2" "x AND 4 = (x AND 6) AND 4" by (simp_all add: and.assoc)
    ultimately show ?thesis by simp
  qed
  then show "loaded_cache c \<Longrightarrow> seg_ok c"
    by (auto simp: loaded_cache_def seg_ok_def cached_bits SegValidCache_def word_le_nat_alt)
qed

lemma segs_reach_caches: "segs_reach t \<Longrightarrow> seg_caches t"
proof (induction rule: segs_reach.induct)
  case (Loaded t)
  then show ?case by (simp add: seg_caches_def loaded_cache_ok)
next
  case (Load t c s)
  then show ?case by (simp add: seg_caches_def loaded_cache_ok)
next
  case (Other t u)
  then show ?case by (simp add: seg_caches_def)
qed (rule checks_keep; assumption)+

text \<open>
  C14. In a run in which segment registers are loaded as \<open>load_seg_reg\<close>, a reset, system management mode and virtual
  8086 mode load them, and checked for reading, writing and execution in between, the cached check of an access
  of 1, 2, 4 or 8 bytes passes exactly when the full check does. SYSENTER, SYSCALL, SYSRET and the exit of a virtual
  machine, which give a code segment the bit for writing, are not steps of such a run: after them it is false.
\<close>
theorem segment_cache_is_the_check:
  assumes "segs_reach t" "access_size len"
  shows "(isl (check_segment read_virtual_checks SegAccessROK s off len t) \<longleftrightarrow> \<not> fst (read_virtual_checks s off (word_of_nat len) t)) \<and>
    (isl (check_segment write_virtual_checks SegAccessWOK s off len t) \<longleftrightarrow> \<not> fst (write_virtual_checks s off (word_of_nat len) t))"
  by (rule cached_check [OF segs_reach_caches [OF assms(1)] assms(2)])

section \<open>Host pointers\<close>

text \<open>An entry is in the slot of its page, and one without the tag has the host pointer of its frame.\<close>

definition tlb_host :: "cpu \<Rightarrow> bool" where
  "tlb_host t \<longleftrightarrow> (\<forall>i < TLB_SIZE.
     let e = TLB t i in
     lpf e = INVALID_TLB_ENTRY \<or>
     (\<exists>page. LPFOf page = page \<and> tlb_slot page = i \<and>
        (lpf e = page \<and> hostPageAddr e = Some (ppf e) \<or> lpf e = page OR TLB_HostPtr)))"

lemma LPFOf_idem [simp]: "LPFOf (LPFOf x) = LPFOf x"
  by (simp add: LPFOf_def and.assoc)

lemma tlb_slot_LPFOf [simp]: "tlb_slot (LPFOf x) = tlb_slot x"
  by (simp add: tlb_slot_def)

lemma TLB_INDEX_OF_eq: "TLB_INDEX_OF la k = (unat la + k) div 4096 mod 1024"
proof -
  have "TLB_INDEX_OF la k = unat (drop_bit 12 (take_bit 22 (ucast la + word_of_nat k :: u32)))"
  proof -
    have m: "TLB_MASK = push_bit 12 (mask 10)" by (simp add: TLB_MASK_def mask_eq_exp_minus_1)
    have "bit TLB_MASK (12 + n) \<longleftrightarrow> n < 10" for n unfolding m by (auto simp: bit_simps)
    then have "drop_bit 12 (x AND TLB_MASK) = drop_bit 12 (take_bit 22 x)" for x :: u32
      by (intro bit_word_eqI) (auto simp: bit_simps)
    then show ?thesis by (simp only: TLB_INDEX_OF_def)
  qed
  also have "\<dots> = (unat (ucast la + word_of_nat k :: u32)) mod 2 ^ 22 div 4096"
    by (simp only: unsigned_drop_bit_eq unsigned_take_bit_eq take_bit_take_bit) (simp add: take_bit_eq_mod drop_bit_eq_div)
  also have "unat (ucast la + word_of_nat k :: u32) = (unat la + k) mod 2 ^ 32"
    by (simp add: unat_word_ariths unsigned_ucast_eq unat_of_nat take_bit_eq_mod mod_simps)
  also have "((unat la + k) mod 2 ^ 32) mod 2 ^ 22 = (unat la + k) mod 2 ^ 22" by (rule mod_mod_cancel) simp
  also have "(unat la + k) mod 2 ^ 22 div 4096 = (unat la + k) div 4096 mod 1024"
    using mod_mult2_eq [of "unat la + k" 4096 1024] by simp
  finally show ?thesis .
qed

lemma within_page:
  assumes "TLB_INDEX_OF la (len - 1) = tlb_slot la" "0 < len" "len \<le> 4096"
  shows "unat (PAGE_OFFSET la) + len \<le> 4096"
proof (rule ccontr)
  let ?q = "unat la div 4096" and ?r = "unat la mod 4096"
  assume "\<not> ?thesis"
  then have r: "4096 \<le> ?r + (len - 1)" using assms(2) by (simp add: PAGE_OFFSET_unat)
  have "?r < 4096" by simp
  then have "?r + (len - 1) < 2 * 4096" using assms(3) by simp
  then have "(?r + (len - 1)) div 4096 = 1" using r by (simp add: div_nat_eqI)
  moreover have "unat la + (len - 1) = (?r + (len - 1)) + 4096 * ?q" using mod_mult_div_eq [of "unat la" 4096] by linarith
  ultimately have "(unat la + (len - 1)) div 4096 = Suc ?q" by (simp only: div_mult_self2)
  then have "Suc ?q mod 1024 = ?q mod 1024" using assms(1) unfolding TLB_INDEX_OF_eq tlb_slot_eq by (simp only:)
  then show False by (simp add: mod_Suc split: if_splits)
qed

lemma alignment_bits:
  assumes "access_size len"
  shows "alignment_of len t AND 7 = alignment_of len t"
proof -
  have "(word_of_nat (len - 1) :: u64) AND 7 = word_of_nat (len - 1)" using assms by (auto simp: access_size_def)
  moreover have "(w AND m) AND 7 = (w AND 7) AND m" for w m :: u64 by (simp only: and.assoc and.commute [of m 7])
  ultimately show ?thesis unfolding alignment_of_def by (simp only:)
qed

lemma aligned_page:
  assumes "al AND 7 = al"
  shows "AlignedAccessLPFOf la al AND 0xfffffffffffff000 = LPFOf la" "\<not> bit (AlignedAccessLPFOf la al) 11"
    "AlignedAccessLPFOf la al = LPFOf la OR (la AND al)"
proof -
  have z: "al AND 0xfffffffffffff000 = 0"
  proof -
    have "al AND 0xfffffffffffff000 = al AND (7 AND 0xfffffffffffff000)" using assms by (metis and.assoc)
    then show ?thesis by simp
  qed
  show 3: "AlignedAccessLPFOf la al = LPFOf la OR (la AND al)"
    by (simp add: AlignedAccessLPFOf_def LPFOf_def bit.conj_disj_distrib)
  show "AlignedAccessLPFOf la al AND 0xfffffffffffff000 = LPFOf la"
    unfolding 3 by (simp add: bit.conj_disj_distrib2 and.assoc z LPFOf_def)
  have "\<not> bit al 11"
  proof -
    have "bit (al AND 7) 11 = False" by (simp add: bit_simps)
    then show ?thesis using assms by simp
  qed
  then show "\<not> bit (AlignedAccessLPFOf la al) 11" unfolding 3 by (simp add: LPFOf_def bit_simps)
qed

text \<open>An access that the TLB serves lies in one page, is aligned where that is checked, and goes to the page's frame.\<close>

lemma host_pointer_hit:
  assumes "tlb_host t" "access_size len" and hit: "host_pointer la len (alignment_of len t) forbidden t = Some host"
  shows "TLB_INDEX_OF la (len - 1) = tlb_slot la" and "lpf (TLB t (tlb_slot la)) = LPFOf la"
    and "host = ppf (TLB t (tlb_slot la)) OR PAGE_OFFSET la" and "accessBits (TLB t (tlb_slot la)) AND forbidden = 0"
    and "unat (PAGE_OFFSET la) + len \<le> 4096" and "la AND alignment_of len t = 0"
proof -
  let ?i = "TLB_INDEX_OF la (len - 1)" and ?al = "alignment_of len t"
  note al = aligned_page [OF alignment_bits [OF assms(2), of t], of la]
  have e: "lpf (TLB t ?i) = AlignedAccessLPFOf la ?al" "accessBits (TLB t ?i) AND forbidden = 0"
    "host = (case hostPageAddr (TLB t ?i) of Some host \<Rightarrow> host | None \<Rightarrow> 0) OR PAGE_OFFSET la"
    using hit by (auto simp: host_pointer_def Let_def split: if_splits)
  have "?i < TLB_SIZE" unfolding TLB_INDEX_OF_eq TLB_SIZE_def by simp
  moreover have "lpf (TLB t ?i) \<noteq> INVALID_TLB_ENTRY"
  proof
    assume "lpf (TLB t ?i) = INVALID_TLB_ENTRY"
    then have "bit (lpf (TLB t ?i)) 11" by (simp add: INVALID_TLB_ENTRY_def bit_simps)
    then show False using al(2) e(1) by simp
  qed
  ultimately obtain page where p: "LPFOf page = page" "tlb_slot page = ?i"
    "lpf (TLB t ?i) = page \<and> hostPageAddr (TLB t ?i) = Some (ppf (TLB t ?i)) \<or> lpf (TLB t ?i) = page OR TLB_HostPtr"
    using assms(1) unfolding tlb_host_def Let_def by blast
  have "\<not> lpf (TLB t ?i) = page OR TLB_HostPtr"
  proof
    assume "lpf (TLB t ?i) = page OR TLB_HostPtr"
    then have "bit (lpf (TLB t ?i)) 11" by (simp add: TLB_HostPtr_def bit_simps)
    then show False using al(2) e(1) by simp
  qed
  then have h: "lpf (TLB t ?i) = page" "hostPageAddr (TLB t ?i) = Some (ppf (TLB t ?i))" using p(3) by blast+
  have page: "page = LPFOf la" using al(1) e(1) h(1) p(1) by (simp add: LPFOf_def)
  then show i: "?i = tlb_slot la" using p(2) by simp
  show "lpf (TLB t (tlb_slot la)) = LPFOf la" "host = ppf (TLB t (tlb_slot la)) OR PAGE_OFFSET la"
    "accessBits (TLB t (tlb_slot la)) AND forbidden = 0" using h e page unfolding i by simp_all
  show "unat (PAGE_OFFSET la) + len \<le> 4096" by (rule within_page [OF i]) (use assms(2) in \<open>auto simp: access_size_def\<close>)
  have "LPFOf la AND 7 = (LPFOf la OR (la AND ?al)) AND 7" using al(3) e(1) h(1) page by simp
  moreover have "LPFOf la AND 7 = 0" by (simp add: LPFOf_def and.assoc)
  moreover have "(la AND ?al) AND 7 = la AND ?al" using alignment_bits [OF assms(2), of t] by (simp only: and.assoc)
  ultimately show "la AND ?al = 0" by (simp only: bit.conj_disj_distrib2) simp
qed

section \<open>The fast path is the slow path\<close>

lemma rights_hit:
  "no_write t = (push_bit 1 (of_bool (odd BX_WRITE)) OR of_bool (curr_CPL t = 3))"
  "no_read t = (push_bit 1 (of_bool (odd BX_READ)) OR of_bool (curr_CPL t = 3))"
  by (simp_all add: no_write_def no_read_def USER_PL_def BX_WRITE_def BX_READ_def)

lemma host_pointer_translates:
  assumes "tlb_host t" "access_size len"
  shows "host_pointer la len (alignment_of len t) (no_write t) t = Some host \<Longrightarrow>
      translate_linear la (curr_CPL t) BX_WRITE t = Inr (host, t)"
    and "host_pointer la len (alignment_of len t) (no_read t) t = Some host \<Longrightarrow>
      translate_linear la (curr_CPL t) BX_READ t = Inr (host, t)"
  using host_pointer_hit [OF assms] hit_translates [of la "curr_CPL t" _ t] unfolding tlb_hit_def rights_hit Let_def
  by simp_all

lemma fast_write:
  assumes "cr0_PG t" "tlb_host t" "access_size (length bs)"
    and "host_pointer la (length bs) (alignment_of (length bs) t) (no_write t) t = Some host"
  shows "access_write_linear la bs (curr_CPL t) t = Inr ((), one_page host (host_write host bs t))"
    and "misaligned la (length bs) t \<Longrightarrow> la AND alignment_of (length bs) t = 0"
  using host_pointer_translates(1) [OF assms(2-4)] host_pointer_hit(5,6) [OF assms(2-4)] assms(1)
  by (simp_all add: access_write_linear_def xlate_linear_def xlated_write_def one_page_def access_write_physical_def host_write_def)

lemma fast_read:
  assumes "cr0_PG t" "tlb_host t" "access_size len"
    and "host_pointer la len (alignment_of len t) (no_read t) t = Some host"
  shows "access_read_linear la len (curr_CPL t) BX_READ t = Inr (host_read host len t, one_page host t)"
  using host_pointer_translates(2) [OF assms(2-4)] host_pointer_hit(5) [OF assms(2-4)] assms(1)
  by (simp add: access_read_linear_def xlate_linear_def xlated_read_def one_page_def access_read_physical_def host_read_def)

lemma no_host_alignment:
  "alignment_check_mask t \<in> {0, 0xf} \<Longrightarrow> access_size len \<Longrightarrow> la AND alignment_of len t = 0 \<Longrightarrow> \<not> misaligned la len t"
  by (auto simp: misaligned_def alignment_of_def access_size_def)

text \<open>Without the fast path: every access walks or looks the page up.\<close>

definition slow_write_32 :: "nat \<Rightarrow> u32 \<Rightarrow> bytes \<Rightarrow> cpu \<Rightarrow> unit res" where
  "slow_write_32 s offset bs t =
     rbind (check_segment write_virtual_checks SegAccessWOK s offset (length bs) t) (\<lambda>_ t1.
     let laddr = get_laddr32 s offset t1 in
     if misaligned laddr (length bs) t1 then exception AC_EXCEPTION 0 t1
     else access_write_linear laddr bs (curr_CPL t1) t1)"

definition slow_read_32 :: "nat \<Rightarrow> u32 \<Rightarrow> nat \<Rightarrow> cpu \<Rightarrow> 'a::len word res" where
  "slow_read_32 s offset len t =
     rbind (check_segment read_virtual_checks SegAccessROK s offset len t) (\<lambda>_ t1.
     let laddr = get_laddr32 s offset t1 in
     if misaligned laddr len t1 then exception AC_EXCEPTION 0 t1
     else rbind (access_read_linear laddr len (curr_CPL t1) BX_READ t1) (\<lambda>bs t2. Inr (bytes_word bs, t2)))"

text \<open>What an access keeps for a write that follows a read: where it went.\<close>

definition forget_access :: "cpu \<Rightarrow> cpu" where
  "forget_access t = t\<lparr>paddress1 := 0, paddress2 := 0, len1 := 0, len2 := 0, pages := Inl 0\<rparr>"

definition res_forget :: "'a res \<Rightarrow> 'a res" where
  "res_forget r = map_sum (map_prod id forget_access) (map_prod id forget_access) r"

lemma res_forget_simps [simp]:
  "res_forget (Inr (x, t)) = Inr (x, forget_access t)" "res_forget (Inl (e, t)) = Inl (e, forget_access t)"
  by (simp_all add: res_forget_def)

lemma forget_one_page [simp]: "forget_access (one_page a t) = forget_access t"
  by (simp add: forget_access_def one_page_def)

definition access_ok :: "cpu \<Rightarrow> bool" where
  "access_ok t \<longleftrightarrow> cr0_PG t \<and> tlb_host t \<and> alignment_check_mask t \<in> {0, 0xf}"

lemma checks_state:
  "snd (read_virtual_checks s off len t) = t\<lparr>sregs := sregs (snd (read_virtual_checks s off len t)),
     panicked := panicked (snd (read_virtual_checks s off len t))\<rparr>"
  "snd (write_virtual_checks s off len t) = t\<lparr>sregs := sregs (snd (write_virtual_checks s off len t)),
     panicked := panicked (snd (write_virtual_checks s off len t))\<rparr>"
  by (simp_all add: read_virtual_checks_def write_virtual_checks_def set_valid_def Let_def split: if_split del: insert_iff)

lemma check_segment_passed:
  "check_segment checks cached s off len t = Inr ((), u) \<Longrightarrow> u = t \<or> u = snd (checks s off (word_of_nat len) t)"
  by (auto simp: check_segment_def exception_def split: if_splits prod.splits)

lemma check_segment_state:
  "check_segment read_virtual_checks cached s off len t = Inr ((), u) \<Longrightarrow> \<exists>r p. u = t\<lparr>sregs := r, panicked := p\<rparr>"
  "check_segment write_virtual_checks cached s off len t = Inr ((), u) \<Longrightarrow> \<exists>r p. u = t\<lparr>sregs := r, panicked := p\<rparr>"
proof -
  have same: "\<exists>r p. t = t\<lparr>sregs := r, panicked := p\<rparr>" by (intro exI [of _ "sregs t"] exI [of _ "panicked t"]) simp
  show "\<exists>r p. u = t\<lparr>sregs := r, panicked := p\<rparr>" if "check_segment read_virtual_checks cached s off len t = Inr ((), u)"
    using check_segment_passed [OF that] same checks_state(1) [of s off "word_of_nat len" t] by blast
  show "\<exists>r p. u = t\<lparr>sregs := r, panicked := p\<rparr>" if "check_segment write_virtual_checks cached s off len t = Inr ((), u)"
    using check_segment_passed [OF that] same checks_state(2) [of s off "word_of_nat len" t] by blast
qed

lemma access_ok_segments [simp]: "access_ok (t\<lparr>sregs := r, panicked := p\<rparr>) = access_ok t"
  by (simp add: access_ok_def tlb_host_def)

text \<open>
  C13. The TLB's fast path changes nothing but speed: a load or a store that takes it gives the value, the memory and
  the faults of the access that looks its page up.
\<close>
theorem fast_path_is_invisible:
  assumes "access_ok t" "access_size len" "length bs = len"
  shows "res_forget (write_virtual_32 s off bs t) = res_forget (slow_write_32 s off bs t) \<and>
    res_forget (read_virtual_32 s off len t :: 'a::len word res) = res_forget (slow_read_32 s off len t)"
proof
  show "res_forget (write_virtual_32 s off bs t) = res_forget (slow_write_32 s off bs t)"
  proof (cases "check_segment write_virtual_checks SegAccessWOK s off (length bs) t")
    case (Inr x)
    then obtain u where u: "check_segment write_virtual_checks SegAccessWOK s off (length bs) t = Inr ((), u)" by (cases x) auto
    then have ok: "access_ok u" using check_segment_state(2) [OF u] assms(1) by auto
    show ?thesis
    proof (cases "host_pointer (get_laddr32 s off u) (length bs) (alignment_of (length bs) u) (no_write u) u")
      case (Some host)
      note f = fast_write [OF _ _ _ Some] host_pointer_hit(6) [OF _ _ Some]
      have "\<not> misaligned (get_laddr32 s off u) (length bs) u"
        using no_host_alignment f(3) ok assms(2,3) by (simp add: access_ok_def)
      then show ?thesis using Some u f(1) ok assms(2,3)
        by (simp add: write_virtual_32_def linear_store_def slow_write_32_def access_ok_def Let_def)
    qed (simp add: write_virtual_32_def linear_store_def slow_write_32_def u Let_def)
  qed (simp add: write_virtual_32_def linear_store_def slow_write_32_def)
next
  show "res_forget (read_virtual_32 s off len t :: 'a word res) = res_forget (slow_read_32 s off len t)"
  proof (cases "check_segment read_virtual_checks SegAccessROK s off len t")
    case (Inr x)
    then obtain u where u: "check_segment read_virtual_checks SegAccessROK s off len t = Inr ((), u)" by (cases x) auto
    then have ok: "access_ok u" using check_segment_state(1) [OF u] assms(1) by auto
    show ?thesis
    proof (cases "host_pointer (get_laddr32 s off u) len (alignment_of len u) (no_read u) u")
      case (Some host)
      note f = fast_read [OF _ _ _ Some] host_pointer_hit(6) [OF _ _ Some]
      have "\<not> misaligned (get_laddr32 s off u) len u"
        using no_host_alignment f(2) ok assms(2) by (simp add: access_ok_def)
      then show ?thesis using Some u f(1) ok assms(2)
        by (simp add: read_virtual_32_def linear_load_def slow_read_32_def access_ok_def Let_def)
    qed (simp add: read_virtual_32_def linear_load_def slow_read_32_def u Let_def)
  qed (simp add: read_virtual_32_def linear_load_def slow_read_32_def)
qed

section \<open>Loads see stores\<close>

text \<open>A segment that was stored through can be loaded from at the same place, and the check finds nothing to cache.\<close>

lemma read_check_after_write:
  assumes w: "check_segment write_virtual_checks SegAccessWOK s off len t = Inr ((), u)"
    and "seg_caches t" "access_size len" and types: "sc_type (sregs t s) < 16" and v: "sregs v = sregs u"
  shows "check_segment read_virtual_checks SegAccessROK s off len v = Inr ((), v)"
proof -
  let ?c = "sregs t s"
  have c: "seg_ok ?c" using assms(2) by (simp add: seg_caches_def)
  have cached: ?thesis if "sc_valid (sregs u s) AND SegAccessROK \<noteq> 0" "sc_limit_scaled (sregs u s) = sc_limit_scaled ?c"
    "within_limit len off (sc_limit_scaled ?c)"
    using that v by (simp add: check_segment_def)
  show ?thesis
  proof (cases "sc_valid ?c AND SegAccessWOK \<noteq> 0")
    case True
    then have "u = t" "within_limit len off (sc_limit_scaled ?c)" using w by (auto simp: check_segment_def exception_def split: if_splits)
    moreover have "sc_valid ?c AND SegAccessROK \<noteq> 0" using True c unfolding seg_ok_def by blast
    ultimately show ?thesis using cached by simp
  next
    case False
    then have ok: "fst (write_virtual_checks s off (word_of_nat len) t)" and u: "u = snd (write_virtual_checks s off (word_of_nat len) t)"
      using w by (auto simp: check_segment_def exception_def split: if_splits prod.splits)
    have pv: "sc_valid ?c \<noteq> 0" "sc_p ?c"
      using ok by (auto simp: write_virtual_checks_def Let_def split: if_splits simp del: insert_iff)
    consider (rw) "sc_type ?c \<in> {2, 3}" | (ed) "sc_type ?c \<in> {6, 7}"
    proof -
      have "sc_type ?c \<notin> {0, 1, 4, 5, 8, 9, 10, 11, 12, 13, 14, 15}"
        using ok pv unfolding write_virtual_checks_def Let_def by (auto simp del: insert_iff split: if_splits)
      then have "sc_type ?c \<in> {2, 3} \<or> sc_type ?c \<in> {6, 7}" using types by simp presburger
      then show ?thesis using that by blast
    qed
    then show ?thesis
    proof cases
      case rw
      then have n: "sc_type ?c \<notin> {0, 1, 4, 5, 8, 9, 10, 11, 12, 13, 14, 15}" by auto
      have r: "sc_type ?c \<in> {0, 1, 2, 3, 10, 11, 14, 15}" using rw by auto
      have b: "\<not> beyond_limit ?c off (word_of_nat len)"
        and uu: "u = (if 15 \<le> sc_limit_scaled ?c then set_valid s (SegAccessROK OR SegAccessWOK) t else t)"
        using ok u pv unfolding write_virtual_checks_def Let_def if_not_P [OF n] if_P [OF rw] by (auto split: if_splits)
      show ?thesis
      proof (cases "15 \<le> sc_limit_scaled ?c")
        case True
        have "(x OR 6) AND 2 \<noteq> 0" for x :: u32 by (simp add: bit.conj_disj_distrib2 or_eq_0_iff)
        then show ?thesis using cached uu True b within_limit_eq [OF assms(3) True] by (simp add: set_valid_def cached_bits)
      next
        case small: False
        then have "sc_valid ?c AND SegAccessROK = 0" using c unfolding seg_ok_def by blast
        then show ?thesis using small uu v b pv r
          unfolding check_segment_def read_virtual_checks_def Let_def by (simp del: insert_iff)
      qed
    next
      case ed
      then have n: "sc_type ?c \<notin> {0, 1, 4, 5, 8, 9, 10, 11, 12, 13, 14, 15}" "sc_type ?c \<notin> {2, 3}"
        "sc_type ?c \<notin> {0, 1, 2, 3, 10, 11, 14, 15}" and r: "sc_type ?c \<in> {4, 5, 6, 7}" by auto
      have b: "\<not> beyond_limit_ED ?c off (word_of_nat len)" and uu: "u = t"
        using ok u pv unfolding write_virtual_checks_def Let_def if_not_P [OF n(1)] if_not_P [OF n(2)] if_P [OF ed]
        by (auto split: if_splits)
      have "sc_valid ?c AND SegAccessROK = 0" using c n(3) unfolding seg_ok_def by blast
      then show ?thesis using uu v b pv n(3) r
        unfolding check_segment_def read_virtual_checks_def Let_def by (simp del: insert_iff)
    qed
  qed
qed

text \<open>The states in which the processor's memory accesses run with paging on.\<close>

definition memory_ok :: "cpu \<Rightarrow> bool" where
  "memory_ok t \<longleftrightarrow> access_ok t \<and> plain_paging t \<and> tlb_shape t"

lemma memory_ok_segments [simp]: "memory_ok (t\<lparr>sregs := r, panicked := p\<rparr>) = memory_ok t"
  by (simp add: memory_ok_def plain_paging_def tlb_shape_def long_mode_def)

lemma misaligned_cong: "alignment_check_mask u = alignment_check_mask t \<Longrightarrow> misaligned la len u = misaligned la len t"
  by (simp add: misaligned_def)

lemma walk_keeps_mask:
  assumes "plain_paging s"
  shows "page_walk la pl rw s = Inr (r, t) \<Longrightarrow> alignment_check_mask t = alignment_check_mask s \<and> sregs t = sregs s \<and> curr_CPL t = curr_CPL s \<and> mode t = mode s"
proof -
  have [simp]: "alignment_check_mask (mark_A32 a e x) = alignment_check_mask x" "alignment_check_mask (mark_AD32 w a e x) = alignment_check_mask x"
    "alignment_check_mask (mark_A64 a f x) = alignment_check_mask x" "alignment_check_mask (mark_AD64 w a f x) = alignment_check_mask x"
    "sregs (mark_A32 a e x) = sregs x" "sregs (mark_AD32 w a e x) = sregs x"
    "sregs (mark_A64 a f x) = sregs x" "sregs (mark_AD64 w a f x) = sregs x"
    "mode (mark_A32 a e x) = mode x" "mode (mark_AD32 w a e x) = mode x"
    "mode (mark_A64 a f x) = mode x" "mode (mark_AD64 w a f x) = mode x"
    "curr_CPL (mark_A32 a e x) = curr_CPL x" "curr_CPL (mark_AD32 w a e x) = curr_CPL x"
    "curr_CPL (mark_A64 a f x) = curr_CPL x" "curr_CPL (mark_AD64 w a f x) = curr_CPL x" for a e f w x
    by (simp_all add: mark_A32_def mark_AD32_def mark_A64_def mark_AD64_def write_entry32_def write_entry64_def
        access_write_physical_def)
  assume "page_walk la pl rw s = Inr (r, t)"
  then show ?thesis using assms
    by (auto simp: page_walk_plain walk_long_mode_iff walk_legacy_iff long_page_2M_def long_page_4K_def legacy_4M_def
        legacy_4K_def Let_def split: if_splits)
qed

lemma translate_keeps_host:
  assumes "tlb_host s" "plain_paging s" "translate_linear la pl rw s = Inr (a, t)"
  shows "tlb_host t" "alignment_check_mask t = alignment_check_mask s" "sregs t = sregs s" "curr_CPL t = curr_CPL s" "mode t = mode s"
proof -
  have "tlb_host t \<and> alignment_check_mask t = alignment_check_mask s \<and> sregs t = sregs s \<and> curr_CPL t = curr_CPL s \<and> mode t = mode s"
  proof (cases "tlb_hit la pl rw s")
    case True
    then show ?thesis using assms by (auto simp: translate_linear_cases)
  next
    case False
    then obtain f c m s1 where w: "page_walk la pl rw s = Inr ((f, c, m), s1)" and t: "t = tlb_fill la rw (f, c, m) s1"
      using assms(3) by (auto simp: translate_linear_cases rbind_eq_Inr)
    have TLB: "TLB s1 = TLB s" by (rule page_walk_again(2) [OF w assms(2)])
    have "tlb_host t"
      unfolding tlb_host_def Let_def
    proof (intro allI impI)
      fix i assume i: "i < TLB_SIZE"
      show "lpf (TLB t i) = INVALID_TLB_ENTRY \<or>
        (\<exists>page. LPFOf page = page \<and> tlb_slot page = i \<and>
          (lpf (TLB t i) = page \<and> hostPageAddr (TLB t i) = Some (ppf (TLB t i)) \<or> lpf (TLB t i) = page OR TLB_HostPtr))"
      proof (cases "i = tlb_slot la")
        case True
        have "getHostMemAddr f rw s1 = None \<or> getHostMemAddr f rw s1 = Some f" by (simp add: getHostMemAddr_def)
        then have "\<exists>page. LPFOf page = page \<and> tlb_slot page = i \<and>
          (lpf (TLB t i) = page \<and> hostPageAddr (TLB t i) = Some (ppf (TLB t i)) \<or> lpf (TLB t i) = page OR TLB_HostPtr)"
          by (intro exI [of _ "LPFOf la"]) (auto simp: t True tlb_fill_entry)
        then show ?thesis by blast
      next
        case other: False
        then have "TLB t i = TLB s i" using TLB by (simp add: t tlb_fill_entry)
        then show ?thesis using assms(1) i unfolding tlb_host_def Let_def by simp
      qed
    qed
    then show ?thesis using walk_keeps_mask [OF assms(2) w] t by (simp add: tlb_fill_def set_tlb_def Let_def)
  qed
  then show "tlb_host t" "alignment_check_mask t = alignment_check_mask s" "sregs t = sregs s" "curr_CPL t = curr_CPL s" "mode t = mode s"
    by blast+
qed

lemma tlb_host_cong: "TLB u = TLB v \<Longrightarrow> tlb_host u = tlb_host v"
  by (simp add: tlb_host_def)

lemma write_linear_keeps:
  assumes w: "access_write_linear la bs pl s = Inr ((), u)" and ok: "memory_ok s"
  shows "access_ok u" "sregs u = sregs s" "alignment_check_mask u = alignment_check_mask s" "curr_CPL u = curr_CPL s" "mode u = mode s"
proof -
  have s: "cr0_PG s" "tlb_host s" "plain_paging s" "tlb_shape s" using ok by (simp_all add: memory_ok_def access_ok_def)
  have "tlb_host u \<and> cr0_PG u \<and> sregs u = sregs s \<and> alignment_check_mask u = alignment_check_mask s \<and> curr_CPL u = curr_CPL s \<and> mode u = mode s"
  proof (cases "unat (PAGE_OFFSET la) + length bs \<le> 4096")
    case True
    then obtain a v where x: "translate_linear la pl BX_WRITE s = Inr (a, v)" and u: "u = access_write_physical a bs (one_page a v)"
      using w s(1) by (auto simp: access_write_linear_def xlate_linear_def rbind_eq_Inr xlated_write_def one_page_def)
    show ?thesis using translate_keeps_host [OF s(2,3) x] translate_keeps [OF s(3) x] s(1) tlb_host_cong [of u v]
      by (simp add: u access_write_physical_def one_page_def access_regs_def)
  next
    case False
    let ?l1 = "4096 - unat (PAGE_OFFSET la)"
    let ?l2 = "length bs - ?l1"
    obtain a v b z where x: "translate_linear la pl BX_WRITE s = Inr (a, v)"
      and y: "translate_linear (la + word_of_nat ?l1) pl BX_WRITE (two_pages a ?l1 ?l2 v) = Inr (b, z)"
      and u: "u = xlated_write bs (z\<lparr>paddress2 := b\<rparr>)"
      using w s(1) False by (auto simp: access_write_linear_def xlate_linear_def rbind_eq_Inr Let_def)
    note h = translate_then_hit(4) [OF x s(3,4)] translate_keeps_host [OF s(2,3) x] translate_keeps [OF s(3) x]
    have p: "plain_paging (two_pages a ?l1 ?l2 v)" "tlb_host (two_pages a ?l1 ?l2 v)"
      using h(1,2) tlb_host_cong [of "two_pages a ?l1 ?l2 v" v] by simp_all
    note k = translate_keeps_host [OF p(2,1) y] translate_keeps [OF p(1) y]
    have "pages z = Inl 2" using k(6) by (simp add: access_regs_def two_pages_def)
    then show ?thesis using k h s(1) tlb_host_cong [of u z]
      by (simp add: u xlated_write_def access_write_physical_def access_regs_def two_pages_def)
  qed
  then show "access_ok u" "sregs u = sregs s" "alignment_check_mask u = alignment_check_mask s" "curr_CPL u = curr_CPL s" "mode u = mode s"
    using ok by (auto simp: memory_ok_def access_ok_def)
qed

lemma host_pointer_read:
  assumes "host_pointer la len (alignment_of len t) (no_write t) t = Some host"
    and "TLB u = TLB t" "alignment_check_mask u = alignment_check_mask t" "curr_CPL u = curr_CPL t"
  shows "host_pointer la len (alignment_of len u) (no_read u) u = Some host"
proof -
  have "x AND (2 OR y) = 0 \<Longrightarrow> x AND y = 0" for x y :: u32 by (simp add: bit.conj_disj_distrib or_eq_0_iff)
  then show ?thesis using assms
    by (auto simp: host_pointer_def alignment_of_def no_write_def no_read_def USER_PL_def Let_def split: if_splits)
qed

text \<open>A load gives the value of the linear access.\<close>

lemma load_gives_value:
  assumes "access_ok u" "access_size len" "\<not> misaligned la len u"
    and read: "access_read_linear la len (curr_CPL u) BX_READ u = Inr (bs, z)" and "ram z = ram u"
  shows "\<exists>v. linear_load la len u = Inr (bytes_word bs :: 'a::len word, v) \<and> ram v = ram u"
proof (cases "host_pointer la len (alignment_of len u) (no_read u) u")
  case None
  then show ?thesis using assms by (simp add: linear_load_def)
next
  case (Some host)
  then have "host_read host len u = bs" using fast_read [OF _ _ assms(2) Some] assms(1) read by (simp add: access_ok_def)
  then show ?thesis using Some by (simp add: linear_load_def)
qed

text \<open>A store leaves the bytes where a load with the same rights finds them.\<close>

lemma linear_store_then_load:
  assumes ok: "memory_ok t" "access_size (length bs)" and w: "linear_store la bs t = Inr ((), u)"
  shows "\<exists>v. linear_load la (length bs) u = Inr (bytes_word bs :: 'a::len word, v) \<and> ram v = ram u"
    and "sregs u = sregs t" "mode u = mode t"
proof -
  have small: "length bs \<le> 4096" using ok(2) by (auto simp: access_size_def)
  have "(\<exists>v. linear_load la (length bs) u = Inr (bytes_word bs :: 'a word, v) \<and> ram v = ram u) \<and> sregs u = sregs t \<and> mode u = mode t"
  proof (cases "host_pointer la (length bs) (alignment_of (length bs) t) (no_write t) t")
    case (Some host)
    then have u: "u = host_write host bs t" using w by (simp add: linear_store_def)
    have "host_pointer la (length bs) (alignment_of (length bs) u) (no_read u) u = Some host"
      by (rule host_pointer_read [OF Some]) (simp_all add: u host_write_def)
    moreover have "host_read host (length bs) u = bs"
      using phys_bytes_put_same [of bs host "ram t"] small by (simp add: u host_write_def host_read_def)
    ultimately show ?thesis by (simp add: linear_load_def u host_write_def)
  next
    case None
    then have x: "\<not> misaligned la (length bs) t" "access_write_linear la bs (curr_CPL t) t = Inr ((), u)"
      using w by (auto simp: linear_store_def exception_def split: if_splits)
    note k = write_linear_keeps [OF x(2) ok(1)]
    obtain z where z: "access_read_linear la (length bs) (curr_CPL u) BX_READ u = Inr (bs, z)" "ram z = ram u"
      using load_after_store [OF x(2) _ _ _ small] ok(1) k(4) by (auto simp: memory_ok_def access_ok_def)
    have m: "\<not> misaligned la (length bs) u" using x(1) misaligned_cong [OF k(3)] by simp
    show ?thesis using load_gives_value [OF k(1) ok(2) m z, where ?'a = 'a] k(2,5) by simp
  qed
  then show "\<exists>v. linear_load la (length bs) u = Inr (bytes_word bs :: 'a word, v) \<and> ram v = ram u" "sregs u = sregs t"
    "mode u = mode t" by blast+
qed

text \<open>
  C12. A store of a byte, word, dword or qword through a segment that completes is seen by the load of the same
  size at the same place, whichever of the fast and the slow path each takes and whether or not the access crosses
  a page: the load is allowed, and gives the stored value.
\<close>
theorem loads_see_stores:
  assumes "write_virtual_32 s off bs t = Inr ((), u)" "memory_ok t" "seg_caches t" "access_size (length bs)"
    and "sc_type (sregs t s) < 16"
  shows "\<exists>v. read_virtual_32 s off (length bs) u = Inr (bytes_word bs :: 'a::len word, v) \<and> ram v = ram u"
proof -
  obtain t1 where c: "check_segment write_virtual_checks SegAccessWOK s off (length bs) t = Inr ((), t1)"
    and w: "linear_store (get_laddr32 s off t1) bs t1 = Inr ((), u)"
    using assms(1) by (auto simp: write_virtual_32_def rbind_eq_Inr)
  have ok: "memory_ok t1" using assms(2) check_segment_state(2) [OF c] by (metis memory_ok_segments)
  note l = linear_store_then_load(1) [OF ok assms(4) w, where ?'a = 'a] linear_store_then_load(2) [OF ok assms(4) w]
  have "check_segment read_virtual_checks SegAccessROK s off (length bs) u = Inr ((), u)"
    by (rule read_check_after_write [OF c assms(3,4,5) l(2)])
  moreover have "get_laddr32 s off u = get_laddr32 s off t1" by (simp add: get_laddr32_def l(2))
  ultimately show ?thesis using l(1) by (simp add: read_virtual_32_def)
qed

section \<open>Witnesses\<close>

lemma small_access: "memory_ok small_machine" "access_ok small_machine" "seg_caches small_machine"
  "sregs small_machine s = \<lparr>sc_valid = 7, sc_p = True, sc_type = 3, sc_base = 0, sc_limit_scaled = 0xffffffff, sc_d_b = True\<rparr>"
proof -
  show "access_ok small_machine"
    using small_machine_ok(4) by (simp add: access_ok_def tlb_host_def Let_def small_machine_def no_entry_def)
  then show "memory_ok small_machine" using small_machine_ok(2,3) by (simp add: memory_ok_def)
  show "seg_caches small_machine" by (simp add: seg_caches_def seg_ok_def small_machine_def cached_bits)
  show "sregs small_machine s = \<lparr>sc_valid = 7, sc_p = True, sc_type = 3, sc_base = 0, sc_limit_scaled = 0xffffffff, sc_d_b = True\<rparr>"
    by (simp add: small_machine_def)
qed

lemma small_store: obtains u where "write_virtual_32 3 0x1ffe [1, 2] small_machine = Inr ((), u)"
proof -
  obtain t where t: "translate_linear 0x1ffe 3 BX_WRITE small_machine = Inr (0x3ffe, t)" by (rule small_translation)
  have o: "unat (PAGE_OFFSET 0x1ffe) = 0xffe" by (simp add: PAGE_OFFSET_def)
  obtain u where u: "access_write_linear 0x1ffe [1, 2] 3 small_machine = Inr ((), u)"
    using t o small_machine_ok(4) by (simp add: access_write_linear_def xlate_linear_def)
  have c: "check_segment write_virtual_checks SegAccessWOK 3 0x1ffe 2 small_machine = Inr ((), small_machine)"
    by (simp add: check_segment_def small_access cached_bits within_limit_def)
  have l: "get_laddr32 3 0x1ffe small_machine = 0x1ffe" by (simp add: get_laddr32_def small_access)
  have "TLB small_machine i = no_entry" for i by (simp add: small_machine_def)
  then have h: "host_pointer 0x1ffe 2 (alignment_of 2 small_machine) (no_write small_machine) small_machine = None"
    by (simp add: host_pointer_def no_entry_def alignment_of_def small_machine_def INVALID_TLB_ENTRY_def AlignedAccessLPFOf_def)
  have m: "\<not> misaligned 0x1ffe 2 small_machine" "curr_CPL small_machine = 3" by (simp_all add: misaligned_def small_machine_def)
  have two: "length [1, 2 :: u8] = 2" by simp
  have "write_virtual_32 3 0x1ffe [1, 2] small_machine = Inr ((), u)"
    unfolding write_virtual_32_def linear_store_def Let_def two using c l h m u by simp
  then show ?thesis using that by blast
qed

text \<open>Register 3 is loaded with a descriptor without access bits and checked once; the bits are then set.\<close>

definition checked_machine :: cpu where
  "checked_machine = snd (read_virtual_checks 3 7 4
     (small_machine\<lparr>sregs := (sregs small_machine)(3 := (sregs small_machine 3)\<lparr>sc_valid := SegValidCache\<rparr>)\<rparr>))"

lemma checked_machine_reach: "segs_reach checked_machine"
proof -
  have "segs_reach small_machine"
    by (rule segs_reach.Loaded) (simp add: loaded_cache_def small_machine_def cached_bits SegValidCache_def)
  then show ?thesis unfolding checked_machine_def
    by (intro segs_reach.Read_Check segs_reach.Load) (simp_all add: loaded_cache_def cached_bits SegValidCache_def)
qed

theorem segment_cache_is_the_check_witness:
  "(isl (check_segment read_virtual_checks SegAccessROK 3 7 4 checked_machine) \<longleftrightarrow>
      \<not> fst (read_virtual_checks 3 7 4 checked_machine)) \<and>
   (isl (check_segment write_virtual_checks SegAccessWOK 3 7 4 checked_machine) \<longleftrightarrow>
      \<not> fst (write_virtual_checks 3 7 4 checked_machine))"
  using segment_cache_is_the_check [OF checked_machine_reach, of 4 3 7] by (simp add: access_size_def)

theorem fast_path_is_invisible_witness:
  "res_forget (write_virtual_32 3 0x1ffe [1, 2] small_machine) = res_forget (slow_write_32 3 0x1ffe [1, 2] small_machine)"
  by (rule conjunct1 [OF fast_path_is_invisible [OF small_access(2), of 2]]) (simp_all add: access_size_def)

theorem loads_see_stores_witness:
  "\<exists>u v. write_virtual_32 3 0x1ffe [1, 2] small_machine = Inr ((), u) \<and>
     read_virtual_32 3 0x1ffe 2 u = Inr (0x201 :: u16, v) \<and> ram v = ram u"
proof -
  obtain u where u: "write_virtual_32 3 0x1ffe [1, 2] small_machine = Inr ((), u)" by (rule small_store)
  obtain v where "read_virtual_32 3 0x1ffe (length [1, 2 :: u8]) u = Inr (bytes_word [1, 2] :: u16, v)" "ram v = ram u"
    using loads_see_stores [OF u small_access(1,3)] by (auto simp: access_size_def small_access(4))
  moreover have "(bytes_word [1, 2] :: u16) = 0x201" by code_simp
  ultimately show ?thesis using u by (auto simp: numeral_2_eq_2)
qed
end
