(* ===== verification/Cpu_Flags.thy ===== *)
theory Cpu_Flags
  imports Cpu_State
begin

text \<open>
  The arithmetic flags (\<^verbatim>\<open>src/sim/bochs/cpu/lazy_flags.cc\<close> and the macros of \<^verbatim>\<open>cpu.h\<close>). An arithmetic
  instruction keeps its operands, sign extended to 64 bits, and what it was; a flag is computed from them
  when it is asked for. A bit of \<open>lf_flags_status\<close> says that the flag is still to be computed, else it is in
  \<open>eflags\<close>. The functions \<open>get_*Lazy\<close> panic for an instruction they do not know: \<open>None\<close>.
\<close>

unbundle bit_operations_syntax

datatype arith_flag = CF_flag | PF_flag | AF_flag | ZF_flag | SF_flag | OF_flag

fun bitShift :: "arith_flag \<Rightarrow> nat" where
  "bitShift OF_flag = 11"
| "bitShift SF_flag = 7"
| "bitShift ZF_flag = 6"
| "bitShift AF_flag = 4"
| "bitShift PF_flag = 2"
| "bitShift CF_flag = 0"

definition lfMask :: "arith_flag \<Rightarrow> u32" where "lfMask f = push_bit (bitShift f) 1"

definition EFlagsOSZAPMask :: u32 where
  "EFlagsOSZAPMask = lfMask PF_flag OR lfMask AF_flag OR lfMask ZF_flag OR lfMask SF_flag OR lfMask OF_flag"

definition EFlagsOSZAPCMask :: u32 where
  "EFlagsOSZAPCMask = lfMask CF_flag OR lfMask PF_flag OR lfMask AF_flag OR lfMask ZF_flag OR lfMask SF_flag OR lfMask OF_flag"

section \<open>Flags computed from the last instruction\<close>

definition bx_parity_lookup :: "nat list" where
  "bx_parity_lookup =
   [1, 0, 0, 1, 0, 1, 1, 0, 0, 1, 1, 0, 1, 0, 0, 1,
    0, 1, 1, 0, 1, 0, 0, 1, 1, 0, 0, 1, 0, 1, 1, 0,
    0, 1, 1, 0, 1, 0, 0, 1, 1, 0, 0, 1, 0, 1, 1, 0,
    1, 0, 0, 1, 0, 1, 1, 0, 0, 1, 1, 0, 1, 0, 0, 1,
    0, 1, 1, 0, 1, 0, 0, 1, 1, 0, 0, 1, 0, 1, 1, 0,
    1, 0, 0, 1, 0, 1, 1, 0, 0, 1, 1, 0, 1, 0, 0, 1,
    1, 0, 0, 1, 0, 1, 1, 0, 0, 1, 1, 0, 1, 0, 0, 1,
    0, 1, 1, 0, 1, 0, 0, 1, 1, 0, 0, 1, 0, 1, 1, 0,
    0, 1, 1, 0, 1, 0, 0, 1, 1, 0, 0, 1, 0, 1, 1, 0,
    1, 0, 0, 1, 0, 1, 1, 0, 0, 1, 1, 0, 1, 0, 0, 1,
    1, 0, 0, 1, 0, 1, 1, 0, 0, 1, 1, 0, 1, 0, 0, 1,
    0, 1, 1, 0, 1, 0, 0, 1, 1, 0, 0, 1, 0, 1, 1, 0,
    1, 0, 0, 1, 0, 1, 1, 0, 0, 1, 1, 0, 1, 0, 0, 1,
    0, 1, 1, 0, 1, 0, 0, 1, 1, 0, 0, 1, 0, 1, 1, 0,
    0, 1, 1, 0, 1, 0, 0, 1, 1, 0, 0, 1, 0, 1, 1, 0,
    1, 0, 0, 1, 0, 1, 1, 0, 0, 1, 1, 0, 1, 0, 0, 1]"

definition get_CFLazy :: "cpu \<Rightarrow> bool option" where
  "get_CFLazy s =
     (let o1 = lf_op1 (oszapc s); o2 = lf_op2 (oszapc s); r = lf_result (oszapc s);
          op1_8 = (ucast o1 :: u8); op2_8 = (ucast o2 :: u8); result_8 = (ucast r :: u8);
          op1_16 = (ucast o1 :: u16); op2_16 = (ucast o2 :: u16); result_16 = (ucast r :: u16);
          op1_32 = (ucast o1 :: u32); op2_32 = (ucast o2 :: u32); result_32 = (ucast r :: u32) in
      case lf_ins (oszapc s) of
        LF_ADD8 \<Rightarrow> Some (result_32 < op1_32) | LF_ADD16 \<Rightarrow> Some (result_32 < op1_32) | LF_ADD32 \<Rightarrow> Some (result_32 < op1_32)
      | LF_ADD64 \<Rightarrow> Some (r < o1)
      | LF_ADC8 \<Rightarrow> Some (result_32 \<le> op1_32) | LF_ADC16 \<Rightarrow> Some (result_32 \<le> op1_32) | LF_ADC32 \<Rightarrow> Some (result_32 \<le> op1_32)
      | LF_ADC64 \<Rightarrow> Some (r \<le> o1)
      | LF_SUB8 \<Rightarrow> Some (op1_32 < op2_32) | LF_SUB16 \<Rightarrow> Some (op1_32 < op2_32) | LF_SUB32 \<Rightarrow> Some (op1_32 < op2_32)
      | LF_SUB64 \<Rightarrow> Some (o1 < o2)
      | LF_SBB8 \<Rightarrow> Some (op1_8 < result_8 \<or> op2_8 = 0xff)
      | LF_SBB16 \<Rightarrow> Some (op1_16 < result_16 \<or> op2_16 = 0xffff)
      | LF_SBB32 \<Rightarrow> Some (op1_32 < result_32 \<or> op2_32 = 0xffffffff)
      | LF_SBB64 \<Rightarrow> Some (o1 < r \<or> o2 = 0xffffffffffffffff)
      | LF_NEG8 \<Rightarrow> Some (result_32 \<noteq> 0) | LF_NEG16 \<Rightarrow> Some (result_32 \<noteq> 0) | LF_NEG32 \<Rightarrow> Some (result_32 \<noteq> 0)
      | LF_NEG64 \<Rightarrow> Some (r \<noteq> 0)
      | LF_LOGIC8 \<Rightarrow> Some False | LF_LOGIC16 \<Rightarrow> Some False | LF_LOGIC32 \<Rightarrow> Some False | LF_LOGIC64 \<Rightarrow> Some False
      | _ \<Rightarrow> None)"

definition get_AFLazy :: "cpu \<Rightarrow> bool option" where
  "get_AFLazy s =
     (let op1_8 = (ucast (lf_op1 (oszapc s)) :: u8); op2_8 = (ucast (lf_op2 (oszapc s)) :: u8);
          result_8 = (ucast (lf_result (oszapc s)) :: u8); i = lf_ins (oszapc s) in
      if i \<in> {LF_ADD8, LF_ADC8, LF_SUB8, LF_SBB8, LF_ADD16, LF_ADC16, LF_SUB16, LF_SBB16,
              LF_ADD32, LF_ADC32, LF_SUB32, LF_SBB32, LF_ADD64, LF_ADC64, LF_SUB64, LF_SBB64}
      then Some (((op1_8 XOR op2_8) XOR result_8) AND 0x10 \<noteq> 0)
      else if i \<in> {LF_NEG8, LF_NEG16, LF_NEG32, LF_NEG64} then Some (result_8 AND 0xf \<noteq> 0)
      else if i \<in> {LF_INC8, LF_INC16, LF_INC32, LF_INC64} then Some (result_8 AND 0xf = 0)
      else if i \<in> {LF_DEC8, LF_DEC16, LF_DEC32, LF_DEC64} then Some (result_8 AND 0xf = 0xf)
      else if i \<in> {LF_LOGIC8, LF_LOGIC16, LF_LOGIC32, LF_LOGIC64} then Some False
      else None)"

definition GET_ADD_OVERFLOW :: "'a::len word \<Rightarrow> 'a word \<Rightarrow> 'a word \<Rightarrow> 'a word \<Rightarrow> bool" where
  "GET_ADD_OVERFLOW op1 op2 result m \<longleftrightarrow> (NOT (op1 XOR op2) AND (op2 XOR result)) AND m \<noteq> 0"

definition GET_SUB_OVERFLOW :: "'a::len word \<Rightarrow> 'a word \<Rightarrow> 'a word \<Rightarrow> 'a word \<Rightarrow> bool" where
  "GET_SUB_OVERFLOW op1 op2 result m \<longleftrightarrow> ((op1 XOR op2) AND (op1 XOR result)) AND m \<noteq> 0"

definition get_OFLazy :: "cpu \<Rightarrow> bool option" where
  "get_OFLazy s =
     (let o1 = lf_op1 (oszapc s); o2 = lf_op2 (oszapc s); r = lf_result (oszapc s);
          result_8 = (ucast r :: u8); result_16 = (ucast r :: u16);
          op1_32 = (ucast o1 :: u32); op2_32 = (ucast o2 :: u32); result_32 = (ucast r :: u32);
          i = lf_ins (oszapc s) in
      if i \<in> {LF_ADD8, LF_ADC8, LF_ADD16, LF_ADC16, LF_ADD32, LF_ADC32}
      then Some (GET_ADD_OVERFLOW op1_32 op2_32 result_32 0x80000000)
      else if i \<in> {LF_ADD64, LF_ADC64} then Some (GET_ADD_OVERFLOW o1 o2 r 0x8000000000000000)
      else if i \<in> {LF_SUB8, LF_SBB8, LF_SUB16, LF_SBB16, LF_SUB32, LF_SBB32}
      then Some (GET_SUB_OVERFLOW op1_32 op2_32 result_32 0x80000000)
      else if i \<in> {LF_SUB64, LF_SBB64} then Some (GET_SUB_OVERFLOW o1 o2 r 0x8000000000000000)
      else if i \<in> {LF_LOGIC8, LF_LOGIC16, LF_LOGIC32, LF_LOGIC64} then Some False
      else if i \<in> {LF_NEG8, LF_INC8} then Some (result_8 = 0x80)
      else if i \<in> {LF_NEG16, LF_INC16} then Some (result_16 = 0x8000)
      else if i \<in> {LF_NEG32, LF_INC32} then Some (result_32 = 0x80000000)
      else if i \<in> {LF_NEG64, LF_INC64} then Some (r = 0x8000000000000000)
      else if i = LF_DEC8 then Some (result_8 = 0x7f)
      else if i = LF_DEC16 then Some (result_16 = 0x7fff)
      else if i = LF_DEC32 then Some (result_32 = 0x7fffffff)
      else if i = LF_DEC64 then Some (r = 0x7fffffffffffffff)
      else None)"

definition get_ZFLazy :: "cpu \<Rightarrow> bool" where "get_ZFLazy s \<longleftrightarrow> lf_result (oszapc s) = 0"
definition get_SFLazy :: "cpu \<Rightarrow> bool" where "get_SFLazy s \<longleftrightarrow> drop_bit 63 (lf_result (oszapc s)) \<noteq> 0"
definition get_PFLazy :: "cpu \<Rightarrow> bool" where
  "get_PFLazy s \<longleftrightarrow> bx_parity_lookup ! unat (ucast (lf_result (oszapc s)) :: u8) \<noteq> 0"

section \<open>Reading and writing a flag\<close>

fun get_lazy :: "arith_flag \<Rightarrow> cpu \<Rightarrow> bool option" where
  "get_lazy CF_flag s = get_CFLazy s"
| "get_lazy AF_flag s = get_AFLazy s"
| "get_lazy OF_flag s = get_OFLazy s"
| "get_lazy ZF_flag s = Some (get_ZFLazy s)"
| "get_lazy SF_flag s = Some (get_SFLazy s)"
| "get_lazy PF_flag s = Some (get_PFLazy s)"

definition getB_flag :: "arith_flag \<Rightarrow> cpu \<Rightarrow> bool" where
  "getB_flag f s \<longleftrightarrow>
     (if lf_flags_status s AND lfMask f = 0 then drop_bit (bitShift f) (eflags s) AND 1 = 1
      else get_lazy f s = Some True)"

definition get_flag :: "arith_flag \<Rightarrow> cpu \<Rightarrow> bool" where
  "get_flag f s \<longleftrightarrow>
     (if lf_flags_status s AND lfMask f = 0 then eflags s AND lfMask f \<noteq> 0 else get_lazy f s = Some True)"

definition set_flag :: "arith_flag \<Rightarrow> bool \<Rightarrow> cpu \<Rightarrow> cpu" where
  "set_flag f val s =
     s\<lparr>lf_flags_status := lf_flags_status s AND NOT (lfMask f),
       eflags := (eflags s AND NOT (lfMask f)) OR push_bit (bitShift f) (of_bool val)\<rparr>"

definition clear_flag :: "arith_flag \<Rightarrow> cpu \<Rightarrow> cpu" where
  "clear_flag f s =
     s\<lparr>lf_flags_status := lf_flags_status s AND NOT (lfMask f), eflags := eflags s AND NOT (lfMask f)\<rparr>"

definition assert_flag :: "arith_flag \<Rightarrow> cpu \<Rightarrow> cpu" where
  "assert_flag f s = s\<lparr>lf_flags_status := lf_flags_status s AND NOT (lfMask f), eflags := eflags s OR lfMask f\<rparr>"

definition force_flag :: "arith_flag \<Rightarrow> cpu \<Rightarrow> cpu" where
  "force_flag f s =
     (if lf_flags_status s AND lfMask f \<noteq> 0 then
        set_flag f (get_lazy f s = Some True) (if get_lazy f s = None then s\<lparr>panicked := True\<rparr> else s)
      else s)"

definition set_PF_base :: "u8 \<Rightarrow> cpu \<Rightarrow> cpu" where
  "set_PF_base val s =
     s\<lparr>lf_flags_status := lf_flags_status s AND NOT (lfMask PF_flag),
       eflags := (eflags s AND NOT 4) OR push_bit 2 (word_of_nat (bx_parity_lookup ! unat val))\<rparr>"

definition setEFlagsOSZAPC :: "u32 \<Rightarrow> cpu \<Rightarrow> cpu" where
  "setEFlagsOSZAPC flags32 s =
     s\<lparr>eflags := (eflags s AND NOT EFlagsOSZAPCMask) OR (flags32 AND EFlagsOSZAPCMask), lf_flags_status := 0\<rparr>"

definition flag_bit :: "arith_flag \<Rightarrow> cpu \<Rightarrow> u32" where
  "flag_bit f s = (if get_flag f s then lfMask f else 0)"

definition force_flags :: "cpu \<Rightarrow> u32 \<times> cpu" where
  "force_flags s =
     (let s = (if lf_flags_status s \<noteq> 0 then
                 setEFlagsOSZAPC (flag_bit CF_flag s OR flag_bit PF_flag s OR flag_bit AF_flag s OR
                   flag_bit ZF_flag s OR flag_bit SF_flag s OR flag_bit OF_flag s) s
               else s) in
      (eflags s, s))"

definition ASSERT_FLAGS_OxxxxC :: "cpu \<Rightarrow> cpu" where
  "ASSERT_FLAGS_OxxxxC s =
     s\<lparr>eflags := eflags s OR (lfMask OF_flag OR lfMask CF_flag),
       lf_flags_status := lf_flags_status s AND NOT (lfMask OF_flag OR lfMask CF_flag)\<rparr>"

definition SET_FLAGS_OxxxxC :: "u32 \<Rightarrow> u32 \<Rightarrow> cpu \<Rightarrow> cpu" where
  "SET_FLAGS_OxxxxC new_of new_cf s =
     s\<lparr>eflags := (eflags s AND NOT (lfMask OF_flag OR lfMask CF_flag)) OR (push_bit 11 new_of OR new_cf),
       lf_flags_status := lf_flags_status s AND NOT (lfMask OF_flag OR lfMask CF_flag)\<rparr>"

text \<open>The direction flag, which is not lazy.\<close>

definition assert_DF :: "cpu \<Rightarrow> cpu" where "assert_DF s = s\<lparr>eflags := eflags s OR push_bit 10 1\<rparr>"
definition clear_DF :: "cpu \<Rightarrow> cpu" where "clear_DF s = s\<lparr>eflags := eflags s AND NOT (push_bit 10 1)\<rparr>"

section \<open>Flags of an operation\<close>

definition SET_FLAGS_OSZAPC_SIZE :: "'a::len word \<Rightarrow> 'a word \<Rightarrow> 'a word \<Rightarrow> lf_instr \<Rightarrow> cpu \<Rightarrow> cpu" where
  "SET_FLAGS_OSZAPC_SIZE op1 op2 res ins s =
     s\<lparr>oszapc := \<lparr>lf_op1 = scast op1, lf_op2 = scast op2, lf_result = scast res, lf_ins = ins\<rparr>,
       lf_flags_status := EFlagsOSZAPCMask\<rparr>"

definition SET_FLAGS_OSZAPC_RESULT_SIZE :: "'a::len word \<Rightarrow> lf_instr \<Rightarrow> cpu \<Rightarrow> cpu" where
  "SET_FLAGS_OSZAPC_RESULT_SIZE res ins s =
     s\<lparr>oszapc := (oszapc s)\<lparr>lf_result := scast res, lf_ins := ins\<rparr>, lf_flags_status := EFlagsOSZAPCMask\<rparr>"

definition SET_FLAGS_OSZAP_RESULT_SIZE :: "'a::len word \<Rightarrow> lf_instr \<Rightarrow> cpu \<Rightarrow> cpu" where
  "SET_FLAGS_OSZAP_RESULT_SIZE res ins s =
     (let s1 = force_flag CF_flag s in
      s1\<lparr>oszapc := (oszapc s1)\<lparr>lf_result := scast res, lf_ins := ins\<rparr>, lf_flags_status := EFlagsOSZAPMask\<rparr>)"

text \<open>Operations of 8 bits.\<close>

definition BX_LF_INSTR_ADD_ADC8 :: "bool \<Rightarrow> lf_instr" where
  "BX_LF_INSTR_ADD_ADC8 cf = (if cf then LF_ADC8 else LF_ADD8)"
definition BX_LF_INSTR_SUB_SBB8 :: "bool \<Rightarrow> lf_instr" where
  "BX_LF_INSTR_SUB_SBB8 cf = (if cf then LF_SBB8 else LF_SUB8)"
definition SET_FLAGS_OSZAPC_8 :: "u8 \<Rightarrow> u8 \<Rightarrow> u8 \<Rightarrow> lf_instr \<Rightarrow> cpu \<Rightarrow> cpu" where
  "SET_FLAGS_OSZAPC_8 op1 op2 res ins s = SET_FLAGS_OSZAPC_SIZE op1 op2 res ins s"
definition SET_FLAGS_OSZAPC_ADD_8 :: "u8 \<Rightarrow> u8 \<Rightarrow> u8 \<Rightarrow> cpu \<Rightarrow> cpu" where
  "SET_FLAGS_OSZAPC_ADD_8 op1 op2 tot s = SET_FLAGS_OSZAPC_8 op1 op2 tot LF_ADD8 s"
definition SET_FLAGS_OSZAPC_SUB_8 :: "u8 \<Rightarrow> u8 \<Rightarrow> u8 \<Rightarrow> cpu \<Rightarrow> cpu" where
  "SET_FLAGS_OSZAPC_SUB_8 op1 op2 diff s = SET_FLAGS_OSZAPC_8 op1 op2 diff LF_SUB8 s"
definition SET_FLAGS_OSZAPC_RESULT_8 :: "u8 \<Rightarrow> lf_instr \<Rightarrow> cpu \<Rightarrow> cpu" where
  "SET_FLAGS_OSZAPC_RESULT_8 res ins s = SET_FLAGS_OSZAPC_RESULT_SIZE res ins s"
definition SET_FLAGS_OSZAPC_LOGIC_8 :: "u8 \<Rightarrow> cpu \<Rightarrow> cpu" where
  "SET_FLAGS_OSZAPC_LOGIC_8 res s = SET_FLAGS_OSZAPC_RESULT_8 res LF_LOGIC8 s"
definition SET_FLAGS_OSZAPC_INC_8 :: "u8 \<Rightarrow> cpu \<Rightarrow> cpu" where
  "SET_FLAGS_OSZAPC_INC_8 res s = SET_FLAGS_OSZAP_RESULT_SIZE res LF_INC8 s"
definition SET_FLAGS_OSZAPC_DEC_8 :: "u8 \<Rightarrow> cpu \<Rightarrow> cpu" where
  "SET_FLAGS_OSZAPC_DEC_8 res s = SET_FLAGS_OSZAP_RESULT_SIZE res LF_DEC8 s"

text \<open>Operations of 16 bits.\<close>

definition BX_LF_INSTR_ADD_ADC16 :: "bool \<Rightarrow> lf_instr" where
  "BX_LF_INSTR_ADD_ADC16 cf = (if cf then LF_ADC16 else LF_ADD16)"
definition BX_LF_INSTR_SUB_SBB16 :: "bool \<Rightarrow> lf_instr" where
  "BX_LF_INSTR_SUB_SBB16 cf = (if cf then LF_SBB16 else LF_SUB16)"
definition SET_FLAGS_OSZAPC_16 :: "u16 \<Rightarrow> u16 \<Rightarrow> u16 \<Rightarrow> lf_instr \<Rightarrow> cpu \<Rightarrow> cpu" where
  "SET_FLAGS_OSZAPC_16 op1 op2 res ins s = SET_FLAGS_OSZAPC_SIZE op1 op2 res ins s"
definition SET_FLAGS_OSZAPC_ADD_16 :: "u16 \<Rightarrow> u16 \<Rightarrow> u16 \<Rightarrow> cpu \<Rightarrow> cpu" where
  "SET_FLAGS_OSZAPC_ADD_16 op1 op2 tot s = SET_FLAGS_OSZAPC_16 op1 op2 tot LF_ADD16 s"
definition SET_FLAGS_OSZAPC_SUB_16 :: "u16 \<Rightarrow> u16 \<Rightarrow> u16 \<Rightarrow> cpu \<Rightarrow> cpu" where
  "SET_FLAGS_OSZAPC_SUB_16 op1 op2 diff s = SET_FLAGS_OSZAPC_16 op1 op2 diff LF_SUB16 s"
definition SET_FLAGS_OSZAPC_RESULT_16 :: "u16 \<Rightarrow> lf_instr \<Rightarrow> cpu \<Rightarrow> cpu" where
  "SET_FLAGS_OSZAPC_RESULT_16 res ins s = SET_FLAGS_OSZAPC_RESULT_SIZE res ins s"
definition SET_FLAGS_OSZAPC_LOGIC_16 :: "u16 \<Rightarrow> cpu \<Rightarrow> cpu" where
  "SET_FLAGS_OSZAPC_LOGIC_16 res s = SET_FLAGS_OSZAPC_RESULT_16 res LF_LOGIC16 s"
definition SET_FLAGS_OSZAPC_INC_16 :: "u16 \<Rightarrow> cpu \<Rightarrow> cpu" where
  "SET_FLAGS_OSZAPC_INC_16 res s = SET_FLAGS_OSZAP_RESULT_SIZE res LF_INC16 s"
definition SET_FLAGS_OSZAPC_DEC_16 :: "u16 \<Rightarrow> cpu \<Rightarrow> cpu" where
  "SET_FLAGS_OSZAPC_DEC_16 res s = SET_FLAGS_OSZAP_RESULT_SIZE res LF_DEC16 s"

text \<open>Operations of 32 bits.\<close>

definition BX_LF_INSTR_ADD_ADC32 :: "bool \<Rightarrow> lf_instr" where
  "BX_LF_INSTR_ADD_ADC32 cf = (if cf then LF_ADC32 else LF_ADD32)"
definition BX_LF_INSTR_SUB_SBB32 :: "bool \<Rightarrow> lf_instr" where
  "BX_LF_INSTR_SUB_SBB32 cf = (if cf then LF_SBB32 else LF_SUB32)"
definition SET_FLAGS_OSZAPC_32 :: "u32 \<Rightarrow> u32 \<Rightarrow> u32 \<Rightarrow> lf_instr \<Rightarrow> cpu \<Rightarrow> cpu" where
  "SET_FLAGS_OSZAPC_32 op1 op2 res ins s = SET_FLAGS_OSZAPC_SIZE op1 op2 res ins s"
definition SET_FLAGS_OSZAPC_ADD_32 :: "u32 \<Rightarrow> u32 \<Rightarrow> u32 \<Rightarrow> cpu \<Rightarrow> cpu" where
  "SET_FLAGS_OSZAPC_ADD_32 op1 op2 tot s = SET_FLAGS_OSZAPC_32 op1 op2 tot LF_ADD32 s"
definition SET_FLAGS_OSZAPC_SUB_32 :: "u32 \<Rightarrow> u32 \<Rightarrow> u32 \<Rightarrow> cpu \<Rightarrow> cpu" where
  "SET_FLAGS_OSZAPC_SUB_32 op1 op2 diff s = SET_FLAGS_OSZAPC_32 op1 op2 diff LF_SUB32 s"
definition SET_FLAGS_OSZAPC_RESULT_32 :: "u32 \<Rightarrow> lf_instr \<Rightarrow> cpu \<Rightarrow> cpu" where
  "SET_FLAGS_OSZAPC_RESULT_32 res ins s = SET_FLAGS_OSZAPC_RESULT_SIZE res ins s"
definition SET_FLAGS_OSZAPC_LOGIC_32 :: "u32 \<Rightarrow> cpu \<Rightarrow> cpu" where
  "SET_FLAGS_OSZAPC_LOGIC_32 res s = SET_FLAGS_OSZAPC_RESULT_32 res LF_LOGIC32 s"
definition SET_FLAGS_OSZAPC_INC_32 :: "u32 \<Rightarrow> cpu \<Rightarrow> cpu" where
  "SET_FLAGS_OSZAPC_INC_32 res s = SET_FLAGS_OSZAP_RESULT_SIZE res LF_INC32 s"
definition SET_FLAGS_OSZAPC_DEC_32 :: "u32 \<Rightarrow> cpu \<Rightarrow> cpu" where
  "SET_FLAGS_OSZAPC_DEC_32 res s = SET_FLAGS_OSZAP_RESULT_SIZE res LF_DEC32 s"

text \<open>Operations of 64 bits.\<close>

definition BX_LF_INSTR_ADD_ADC64 :: "bool \<Rightarrow> lf_instr" where
  "BX_LF_INSTR_ADD_ADC64 cf = (if cf then LF_ADC64 else LF_ADD64)"
definition BX_LF_INSTR_SUB_SBB64 :: "bool \<Rightarrow> lf_instr" where
  "BX_LF_INSTR_SUB_SBB64 cf = (if cf then LF_SBB64 else LF_SUB64)"
definition SET_FLAGS_OSZAPC_64 :: "u64 \<Rightarrow> u64 \<Rightarrow> u64 \<Rightarrow> lf_instr \<Rightarrow> cpu \<Rightarrow> cpu" where
  "SET_FLAGS_OSZAPC_64 op1 op2 res ins s = SET_FLAGS_OSZAPC_SIZE op1 op2 res ins s"
definition SET_FLAGS_OSZAPC_ADD_64 :: "u64 \<Rightarrow> u64 \<Rightarrow> u64 \<Rightarrow> cpu \<Rightarrow> cpu" where
  "SET_FLAGS_OSZAPC_ADD_64 op1 op2 tot s = SET_FLAGS_OSZAPC_64 op1 op2 tot LF_ADD64 s"
definition SET_FLAGS_OSZAPC_SUB_64 :: "u64 \<Rightarrow> u64 \<Rightarrow> u64 \<Rightarrow> cpu \<Rightarrow> cpu" where
  "SET_FLAGS_OSZAPC_SUB_64 op1 op2 diff s = SET_FLAGS_OSZAPC_64 op1 op2 diff LF_SUB64 s"
definition SET_FLAGS_OSZAPC_RESULT_64 :: "u64 \<Rightarrow> lf_instr \<Rightarrow> cpu \<Rightarrow> cpu" where
  "SET_FLAGS_OSZAPC_RESULT_64 res ins s = SET_FLAGS_OSZAPC_RESULT_SIZE res ins s"
definition SET_FLAGS_OSZAPC_LOGIC_64 :: "u64 \<Rightarrow> cpu \<Rightarrow> cpu" where
  "SET_FLAGS_OSZAPC_LOGIC_64 res s = SET_FLAGS_OSZAPC_RESULT_64 res LF_LOGIC64 s"
definition SET_FLAGS_OSZAPC_INC_64 :: "u64 \<Rightarrow> cpu \<Rightarrow> cpu" where
  "SET_FLAGS_OSZAPC_INC_64 res s = SET_FLAGS_OSZAP_RESULT_SIZE res LF_INC64 s"
definition SET_FLAGS_OSZAPC_DEC_64 :: "u64 \<Rightarrow> cpu \<Rightarrow> cpu" where
  "SET_FLAGS_OSZAPC_DEC_64 res s = SET_FLAGS_OSZAP_RESULT_SIZE res LF_DEC64 s"

end
