(* ===== verification/Cpu_Registers.thy ===== *)
theory Cpu_Registers
  imports Cpu_Access Cpu_Flags
begin

text \<open>
  The general registers as instructions name them (the macros of \<^verbatim>\<open>src/sim/bochs/cpu/cpu.h\<close>), the decoded
  instruction (\<^verbatim>\<open>instr.h\<close>) and the address of its memory operand (\<^verbatim>\<open>resolver.cc\<close>). The unions of the
  code are parts of one word, low part first.
\<close>

unbundle bit_operations_syntax

section \<open>Registers\<close>

definition rl :: "nat \<Rightarrow> cpu \<Rightarrow> u8" where "rl n s = ucast (gen_reg s n)"
definition rh :: "nat \<Rightarrow> cpu \<Rightarrow> u8" where "rh n s = ucast (drop_bit 8 (gen_reg s n))"
definition rx :: "nat \<Rightarrow> cpu \<Rightarrow> u16" where "rx n s = ucast (gen_reg s n)"
definition erx :: "nat \<Rightarrow> cpu \<Rightarrow> u32" where "erx n s = ucast (gen_reg s n)"
definition rrx :: "nat \<Rightarrow> cpu \<Rightarrow> u64" where "rrx n s = gen_reg s n"

definition set_rrx :: "nat \<Rightarrow> u64 \<Rightarrow> cpu \<Rightarrow> cpu" where
  "set_rrx n v s = s\<lparr>gen_reg := (gen_reg s)(n := v)\<rparr>"
definition set_erx :: "nat \<Rightarrow> u32 \<Rightarrow> cpu \<Rightarrow> cpu" where
  "set_erx n v s = set_rrx n ((gen_reg s n AND 0xffffffff00000000) OR ucast v) s"
definition set_rx :: "nat \<Rightarrow> u16 \<Rightarrow> cpu \<Rightarrow> cpu" where
  "set_rx n v s = set_rrx n ((gen_reg s n AND 0xffffffffffff0000) OR ucast v) s"
definition set_rl :: "nat \<Rightarrow> u8 \<Rightarrow> cpu \<Rightarrow> cpu" where
  "set_rl n v s = set_rrx n ((gen_reg s n AND 0xffffffffffffff00) OR ucast v) s"
definition set_rh :: "nat \<Rightarrow> u8 \<Rightarrow> cpu \<Rightarrow> cpu" where
  "set_rh n v s = set_rrx n ((gen_reg s n AND 0xffffffffffff00ff) OR push_bit 8 (ucast v)) s"

definition BX_READ_8BIT_REGx :: "nat \<Rightarrow> bool \<Rightarrow> cpu \<Rightarrow> u8" where
  "BX_READ_8BIT_REGx index extended s = (if index AND 4 = 0 \<or> extended then rl index s else rh (index - 4) s)"
definition BX_READ_16BIT_REG :: "nat \<Rightarrow> cpu \<Rightarrow> u16" where "BX_READ_16BIT_REG index s = rx index s"
definition BX_READ_32BIT_REG :: "nat \<Rightarrow> cpu \<Rightarrow> u32" where "BX_READ_32BIT_REG index s = erx index s"
definition BX_READ_64BIT_REG :: "nat \<Rightarrow> cpu \<Rightarrow> u64" where "BX_READ_64BIT_REG index s = rrx index s"

definition BX_WRITE_8BIT_REGx :: "nat \<Rightarrow> bool \<Rightarrow> u8 \<Rightarrow> cpu \<Rightarrow> cpu" where
  "BX_WRITE_8BIT_REGx index extended v s =
     (if index AND 4 = 0 \<or> extended then set_rl index v s else set_rh (index - 4) v s)"
definition BX_WRITE_16BIT_REG :: "nat \<Rightarrow> u16 \<Rightarrow> cpu \<Rightarrow> cpu" where "BX_WRITE_16BIT_REG index v s = set_rx index v s"
text \<open>A write of 32 bits clears the upper half.\<close>
definition BX_WRITE_32BIT_REGZ :: "nat \<Rightarrow> u32 \<Rightarrow> cpu \<Rightarrow> cpu" where
  "BX_WRITE_32BIT_REGZ index v s = set_rrx index (ucast v) s"
definition BX_WRITE_64BIT_REG :: "nat \<Rightarrow> u64 \<Rightarrow> cpu \<Rightarrow> cpu" where "BX_WRITE_64BIT_REG index v s = set_rrx index v s"
definition BX_CLEAR_64BIT_HIGH :: "nat \<Rightarrow> cpu \<Rightarrow> cpu" where
  "BX_CLEAR_64BIT_HIGH index s = set_rrx index (gen_reg s index AND 0xffffffff) s"

definition AL :: "cpu \<Rightarrow> u8" where "AL s = rl 0 s"
definition CL :: "cpu \<Rightarrow> u8" where "CL s = rl 1 s"
definition AH :: "cpu \<Rightarrow> u8" where "AH s = rh 0 s"
definition AX :: "cpu \<Rightarrow> u16" where "AX s = rx 0 s"
definition CX :: "cpu \<Rightarrow> u16" where "CX s = rx 1 s"
definition DX :: "cpu \<Rightarrow> u16" where "DX s = rx 2 s"
definition BX :: "cpu \<Rightarrow> u16" where "BX s = rx 3 s"
definition EAX :: "cpu \<Rightarrow> u32" where "EAX s = erx 0 s"
definition ECX :: "cpu \<Rightarrow> u32" where "ECX s = erx 1 s"
definition EDX :: "cpu \<Rightarrow> u32" where "EDX s = erx 2 s"
definition EBX :: "cpu \<Rightarrow> u32" where "EBX s = erx 3 s"
definition RAX :: "cpu \<Rightarrow> u64" where "RAX s = rrx 0 s"
definition RCX :: "cpu \<Rightarrow> u64" where "RCX s = rrx 1 s"
definition RDX :: "cpu \<Rightarrow> u64" where "RDX s = rrx 2 s"
definition RBX :: "cpu \<Rightarrow> u64" where "RBX s = rrx 3 s"
definition set_AL :: "u8 \<Rightarrow> cpu \<Rightarrow> cpu" where "set_AL v s = set_rl 0 v s"
definition set_AH :: "u8 \<Rightarrow> cpu \<Rightarrow> cpu" where "set_AH v s = set_rh 0 v s"
definition set_AX :: "u16 \<Rightarrow> cpu \<Rightarrow> cpu" where "set_AX v s = set_rx 0 v s"
definition set_DX :: "u16 \<Rightarrow> cpu \<Rightarrow> cpu" where "set_DX v s = set_rx 2 v s"
definition set_RAX :: "u64 \<Rightarrow> cpu \<Rightarrow> cpu" where "set_RAX v s = set_rrx 0 v s"
definition set_RDX :: "u64 \<Rightarrow> cpu \<Rightarrow> cpu" where "set_RDX v s = set_rrx 2 v s"

section \<open>The decoded instruction\<close>

datatype resolver =
    BxResolve16BaseIndex | BxResolve32Base | BxResolve32BaseIndex | BxResolve64Base | BxResolve64BaseIndex

record instr =
  i_resolver :: resolver
  metaInfo1 :: u8
  metaInfo3 :: u8
  i_seg :: nat
  i_nnn :: nat
  i_rm :: nat
  sibBase :: nat
  sibIndex :: nat
  sibScale :: nat
  i_Id :: u32
  displ32u :: u32

definition opcodeReg :: "instr \<Rightarrow> nat" where "opcodeReg i = i_rm i"
definition b1 :: "instr \<Rightarrow> u8" where "b1 i = metaInfo3 i"
definition os32L :: "instr \<Rightarrow> bool" where "os32L i \<longleftrightarrow> metaInfo1 i AND 8 \<noteq> 0"
definition modC0 :: "instr \<Rightarrow> bool" where "modC0 i \<longleftrightarrow> metaInfo1 i AND 4 \<noteq> 0"
definition as32L :: "instr \<Rightarrow> bool" where "as32L i \<longleftrightarrow> metaInfo1 i AND 0x10 \<noteq> 0"
definition as64L :: "instr \<Rightarrow> bool" where "as64L i \<longleftrightarrow> metaInfo1 i AND 0x40 \<noteq> 0"
definition extend8bitL :: "instr \<Rightarrow> bool" where "extend8bitL i \<longleftrightarrow> metaInfo1 i AND 0x80 \<noteq> 0"
definition i_Iw :: "instr \<Rightarrow> u16" where "i_Iw i = ucast (i_Id i)"
definition i_Ib :: "instr \<Rightarrow> u8" where "i_Ib i = ucast (i_Id i)"
definition i_Iq :: "instr \<Rightarrow> u64" where "i_Iq i = push_bit 32 (ucast (displ32u i)) OR ucast (i_Id i)"
definition displ16u :: "instr \<Rightarrow> u16" where "displ16u i = ucast (displ32u i)"

section \<open>The address of the operand\<close>

fun ResolveModrm :: "resolver \<Rightarrow> instr \<Rightarrow> cpu \<Rightarrow> u64" where
  "ResolveModrm BxResolve16BaseIndex i s =
     ucast (BX_READ_16BIT_REG (sibBase i) s + BX_READ_16BIT_REG (sibIndex i) s + displ16u i)"
| "ResolveModrm BxResolve32Base i s = ucast (BX_READ_32BIT_REG (sibBase i) s + displ32u i)"
| "ResolveModrm BxResolve32BaseIndex i s =
     ucast (BX_READ_32BIT_REG (sibBase i) s + push_bit (sibScale i) (BX_READ_32BIT_REG (sibIndex i) s) + displ32u i)"
| "ResolveModrm BxResolve64Base i s = BX_READ_64BIT_REG (sibBase i) s + scast (displ32u i)"
| "ResolveModrm BxResolve64BaseIndex i s =
     BX_READ_64BIT_REG (sibBase i) s + push_bit (sibScale i) (BX_READ_64BIT_REG (sibIndex i) s) + scast (displ32u i)"

definition resolve :: "instr \<Rightarrow> cpu \<Rightarrow> u64" where "resolve i s = ResolveModrm (i_resolver i) i s"

text \<open>A handler of an instruction.\<close>

type_synonym handler = "instr \<Rightarrow> cpu \<Rightarrow> unit res"

end
