(* ===== verification/Cpu_Alu8.thy ===== *)
theory Cpu_Alu8
  imports Cpu_Registers
begin

text \<open>
  Arithmetic and logic of 8 bits (\<^verbatim>\<open>src/sim/bochs/cpu/arith8.cc\<close>, \<^verbatim>\<open>logical8.cc\<close>), one definition per handler.
\<close>

unbundle bit_operations_syntax

section \<open>\<^verbatim>\<open>arith8.cc\<close>\<close>

definition ADD_EbGbM :: handler where
  "ADD_EbGbM i s =
    (let eaddr = resolve i s in
     rbind (read_RMW_virtual_byte (i_seg i) eaddr s) (\<lambda>op1 s.
     let op2 = BX_READ_8BIT_REGx (i_nnn i) (extend8bitL i) s in
     let sum = op1 + op2 in
     rbind (write_RMW_virtual_byte sum s) (\<lambda>_ s.
     Inr ((), SET_FLAGS_OSZAPC_ADD_8 op1 op2 sum s))))"

definition ADD_GbEbR :: handler where
  "ADD_GbEbR i s =
    (let op1 = BX_READ_8BIT_REGx (i_nnn i) (extend8bitL i) s in
     let op2 = BX_READ_8BIT_REGx (i_rm i) (extend8bitL i) s in
     let sum = op1 + op2 in
     let s = BX_WRITE_8BIT_REGx (i_nnn i) (extend8bitL i) sum s in
     Inr ((), SET_FLAGS_OSZAPC_ADD_8 op1 op2 sum s))"

definition ADD_ALIb :: handler where
  "ADD_ALIb i s =
    (let op1 = AL s in
     let op2 = i_Ib i in
     let sum = op1 + op2 in
     let s = set_AL sum s in
     Inr ((), SET_FLAGS_OSZAPC_ADD_8 op1 op2 sum s))"

definition ADC_EbGbM :: handler where
  "ADC_EbGbM i s =
    (let temp_CF = getB_flag CF_flag s in
     let eaddr = resolve i s in
     rbind (read_RMW_virtual_byte (i_seg i) eaddr s) (\<lambda>op1 s.
     let op2 = BX_READ_8BIT_REGx (i_nnn i) (extend8bitL i) s in
     let sum = ((op1 + op2) + (of_bool temp_CF) :: u8) in
     rbind (write_RMW_virtual_byte sum s) (\<lambda>_ s.
     Inr ((), SET_FLAGS_OSZAPC_8 op1 op2 sum (BX_LF_INSTR_ADD_ADC8 temp_CF) s))))"

definition ADC_GbEbR :: handler where
  "ADC_GbEbR i s =
    (let temp_CF = getB_flag CF_flag s in
     let op1 = BX_READ_8BIT_REGx (i_nnn i) (extend8bitL i) s in
     let op2 = BX_READ_8BIT_REGx (i_rm i) (extend8bitL i) s in
     let sum = ((op1 + op2) + (of_bool temp_CF) :: u8) in
     let s = BX_WRITE_8BIT_REGx (i_nnn i) (extend8bitL i) sum s in
     Inr ((), SET_FLAGS_OSZAPC_8 op1 op2 sum (BX_LF_INSTR_ADD_ADC8 temp_CF) s))"

definition ADC_ALIb :: handler where
  "ADC_ALIb i s =
    (let temp_CF = getB_flag CF_flag s in
     let op1 = AL s in
     let op2 = i_Ib i in
     let sum = ((op1 + op2) + (of_bool temp_CF) :: u8) in
     let s = set_AL sum s in
     Inr ((), SET_FLAGS_OSZAPC_8 op1 op2 sum (BX_LF_INSTR_ADD_ADC8 temp_CF) s))"

definition SBB_EbGbM :: handler where
  "SBB_EbGbM i s =
    (let temp_CF = getB_flag CF_flag s in
     let eaddr = resolve i s in
     rbind (read_RMW_virtual_byte (i_seg i) eaddr s) (\<lambda>op1_8 s.
     let op2_8 = BX_READ_8BIT_REGx (i_nnn i) (extend8bitL i) s in
     let diff_8 = (op1_8 - (op2_8 + (of_bool temp_CF)) :: u8) in
     rbind (write_RMW_virtual_byte diff_8 s) (\<lambda>_ s.
     Inr ((), SET_FLAGS_OSZAPC_8 op1_8 op2_8 diff_8 (BX_LF_INSTR_SUB_SBB8 temp_CF) s))))"

definition SBB_GbEbR :: handler where
  "SBB_GbEbR i s =
    (let temp_CF = getB_flag CF_flag s in
     let op1_8 = BX_READ_8BIT_REGx (i_nnn i) (extend8bitL i) s in
     let op2_8 = BX_READ_8BIT_REGx (i_rm i) (extend8bitL i) s in
     let diff_8 = (op1_8 - (op2_8 + (of_bool temp_CF)) :: u8) in
     let s = BX_WRITE_8BIT_REGx (i_nnn i) (extend8bitL i) diff_8 s in
     Inr ((), SET_FLAGS_OSZAPC_8 op1_8 op2_8 diff_8 (BX_LF_INSTR_SUB_SBB8 temp_CF) s))"

definition SBB_ALIb :: handler where
  "SBB_ALIb i s =
    (let temp_CF = getB_flag CF_flag s in
     let op1_8 = AL s in
     let op2_8 = i_Ib i in
     let diff_8 = (op1_8 - (op2_8 + (of_bool temp_CF)) :: u8) in
     let s = set_AL diff_8 s in
     Inr ((), SET_FLAGS_OSZAPC_8 op1_8 op2_8 diff_8 (BX_LF_INSTR_SUB_SBB8 temp_CF) s))"

definition SBB_EbIbM :: handler where
  "SBB_EbIbM i s =
    (let op2_8 = i_Ib i in
     let temp_CF = getB_flag CF_flag s in
     let eaddr = resolve i s in
     rbind (read_RMW_virtual_byte (i_seg i) eaddr s) (\<lambda>op1_8 s.
     let diff_8 = (op1_8 - (op2_8 + (of_bool temp_CF)) :: u8) in
     rbind (write_RMW_virtual_byte diff_8 s) (\<lambda>_ s.
     Inr ((), SET_FLAGS_OSZAPC_8 op1_8 op2_8 diff_8 (BX_LF_INSTR_SUB_SBB8 temp_CF) s))))"

definition SBB_EbIbR :: handler where
  "SBB_EbIbR i s =
    (let op2_8 = i_Ib i in
     let temp_CF = getB_flag CF_flag s in
     let op1_8 = BX_READ_8BIT_REGx (i_rm i) (extend8bitL i) s in
     let diff_8 = (op1_8 - (op2_8 + (of_bool temp_CF)) :: u8) in
     let s = BX_WRITE_8BIT_REGx (i_rm i) (extend8bitL i) diff_8 s in
     Inr ((), SET_FLAGS_OSZAPC_8 op1_8 op2_8 diff_8 (BX_LF_INSTR_SUB_SBB8 temp_CF) s))"

definition SUB_EbGbM :: handler where
  "SUB_EbGbM i s =
    (let eaddr = resolve i s in
     rbind (read_RMW_virtual_byte (i_seg i) eaddr s) (\<lambda>op1_8 s.
     let op2_8 = BX_READ_8BIT_REGx (i_nnn i) (extend8bitL i) s in
     let diff_8 = op1_8 - op2_8 in
     rbind (write_RMW_virtual_byte diff_8 s) (\<lambda>_ s.
     Inr ((), SET_FLAGS_OSZAPC_SUB_8 op1_8 op2_8 diff_8 s))))"

definition SUB_GbEbR :: handler where
  "SUB_GbEbR i s =
    (let op1_8 = BX_READ_8BIT_REGx (i_nnn i) (extend8bitL i) s in
     let op2_8 = BX_READ_8BIT_REGx (i_rm i) (extend8bitL i) s in
     let diff_8 = op1_8 - op2_8 in
     let s = BX_WRITE_8BIT_REGx (i_nnn i) (extend8bitL i) diff_8 s in
     Inr ((), SET_FLAGS_OSZAPC_SUB_8 op1_8 op2_8 diff_8 s))"

definition SUB_ALIb :: handler where
  "SUB_ALIb i s =
    (let op1_8 = AL s in
     let op2_8 = i_Ib i in
     let diff_8 = op1_8 - op2_8 in
     let s = set_AL diff_8 s in
     Inr ((), SET_FLAGS_OSZAPC_SUB_8 op1_8 op2_8 diff_8 s))"

definition CMP_EbGbM :: handler where
  "CMP_EbGbM i s =
    (let eaddr = resolve i s in
     rbind (read_virtual_byte (i_seg i) eaddr s) (\<lambda>op1_8 s.
     let op2_8 = BX_READ_8BIT_REGx (i_nnn i) (extend8bitL i) s in
     let diff_8 = op1_8 - op2_8 in
     Inr ((), SET_FLAGS_OSZAPC_SUB_8 op1_8 op2_8 diff_8 s)))"

definition CMP_GbEbR :: handler where
  "CMP_GbEbR i s =
    (let op1_8 = BX_READ_8BIT_REGx (i_nnn i) (extend8bitL i) s in
     let op2_8 = BX_READ_8BIT_REGx (i_rm i) (extend8bitL i) s in
     let diff_8 = op1_8 - op2_8 in
     Inr ((), SET_FLAGS_OSZAPC_SUB_8 op1_8 op2_8 diff_8 s))"

definition CMP_ALIb :: handler where
  "CMP_ALIb i s =
    (let op1_8 = AL s in
     let op2_8 = i_Ib i in
     let diff_8 = op1_8 - op2_8 in
     Inr ((), SET_FLAGS_OSZAPC_SUB_8 op1_8 op2_8 diff_8 s))"

definition XADD_EbGbM :: handler where
  "XADD_EbGbM i s =
    (let eaddr = resolve i s in
     rbind (read_RMW_virtual_byte (i_seg i) eaddr s) (\<lambda>op1 s.
     let op2 = BX_READ_8BIT_REGx (i_nnn i) (extend8bitL i) s in
     let sum = op1 + op2 in
     rbind (write_RMW_virtual_byte sum s) (\<lambda>_ s.
     let s = BX_WRITE_8BIT_REGx (i_nnn i) (extend8bitL i) op1 s in
     Inr ((), SET_FLAGS_OSZAPC_ADD_8 op1 op2 sum s))))"

definition XADD_EbGbR :: handler where
  "XADD_EbGbR i s =
    (let op1 = BX_READ_8BIT_REGx (i_rm i) (extend8bitL i) s in
     let op2 = BX_READ_8BIT_REGx (i_nnn i) (extend8bitL i) s in
     let sum = op1 + op2 in
     let s = BX_WRITE_8BIT_REGx (i_nnn i) (extend8bitL i) op1 s in
     let s = BX_WRITE_8BIT_REGx (i_rm i) (extend8bitL i) sum s in
     Inr ((), SET_FLAGS_OSZAPC_ADD_8 op1 op2 sum s))"

definition ADD_EbIbM :: handler where
  "ADD_EbIbM i s =
    (let op2 = i_Ib i in
     let eaddr = resolve i s in
     rbind (read_RMW_virtual_byte (i_seg i) eaddr s) (\<lambda>op1 s.
     let sum = op1 + op2 in
     rbind (write_RMW_virtual_byte sum s) (\<lambda>_ s.
     Inr ((), SET_FLAGS_OSZAPC_ADD_8 op1 op2 sum s))))"

definition ADD_EbIbR :: handler where
  "ADD_EbIbR i s =
    (let op2 = i_Ib i in
     let op1 = BX_READ_8BIT_REGx (i_rm i) (extend8bitL i) s in
     let sum = op1 + op2 in
     let s = BX_WRITE_8BIT_REGx (i_rm i) (extend8bitL i) sum s in
     Inr ((), SET_FLAGS_OSZAPC_ADD_8 op1 op2 sum s))"

definition ADC_EbIbM :: handler where
  "ADC_EbIbM i s =
    (let op2 = i_Ib i in
     let temp_CF = getB_flag CF_flag s in
     let eaddr = resolve i s in
     rbind (read_RMW_virtual_byte (i_seg i) eaddr s) (\<lambda>op1 s.
     let sum = ((op1 + op2) + (of_bool temp_CF) :: u8) in
     rbind (write_RMW_virtual_byte sum s) (\<lambda>_ s.
     Inr ((), SET_FLAGS_OSZAPC_8 op1 op2 sum (BX_LF_INSTR_ADD_ADC8 temp_CF) s))))"

definition ADC_EbIbR :: handler where
  "ADC_EbIbR i s =
    (let op2 = i_Ib i in
     let temp_CF = getB_flag CF_flag s in
     let op1 = BX_READ_8BIT_REGx (i_rm i) (extend8bitL i) s in
     let sum = ((op1 + op2) + (of_bool temp_CF) :: u8) in
     let s = BX_WRITE_8BIT_REGx (i_rm i) (extend8bitL i) sum s in
     Inr ((), SET_FLAGS_OSZAPC_8 op1 op2 sum (BX_LF_INSTR_ADD_ADC8 temp_CF) s))"

definition SUB_EbIbM :: handler where
  "SUB_EbIbM i s =
    (let op2_8 = i_Ib i in
     let eaddr = resolve i s in
     rbind (read_RMW_virtual_byte (i_seg i) eaddr s) (\<lambda>op1_8 s.
     let diff_8 = op1_8 - op2_8 in
     rbind (write_RMW_virtual_byte diff_8 s) (\<lambda>_ s.
     Inr ((), SET_FLAGS_OSZAPC_SUB_8 op1_8 op2_8 diff_8 s))))"

definition SUB_EbIbR :: handler where
  "SUB_EbIbR i s =
    (let op2_8 = i_Ib i in
     let op1_8 = BX_READ_8BIT_REGx (i_rm i) (extend8bitL i) s in
     let diff_8 = op1_8 - op2_8 in
     let s = BX_WRITE_8BIT_REGx (i_rm i) (extend8bitL i) diff_8 s in
     Inr ((), SET_FLAGS_OSZAPC_SUB_8 op1_8 op2_8 diff_8 s))"

definition CMP_EbIbM :: handler where
  "CMP_EbIbM i s =
    (let op2_8 = i_Ib i in
     let eaddr = resolve i s in
     rbind (read_virtual_byte (i_seg i) eaddr s) (\<lambda>op1_8 s.
     let diff_8 = op1_8 - op2_8 in
     Inr ((), SET_FLAGS_OSZAPC_SUB_8 op1_8 op2_8 diff_8 s)))"

definition CMP_EbIbR :: handler where
  "CMP_EbIbR i s =
    (let op2_8 = i_Ib i in
     let op1_8 = BX_READ_8BIT_REGx (i_rm i) (extend8bitL i) s in
     let diff_8 = op1_8 - op2_8 in
     Inr ((), SET_FLAGS_OSZAPC_SUB_8 op1_8 op2_8 diff_8 s))"

definition NEG_EbM :: handler where
  "NEG_EbM i s =
    (let eaddr = resolve i s in
     rbind (read_RMW_virtual_byte (i_seg i) eaddr s) (\<lambda>op1_8 s.
     let op1_8 = - op1_8 in
     rbind (write_RMW_virtual_byte op1_8 s) (\<lambda>_ s.
     Inr ((), SET_FLAGS_OSZAPC_RESULT_8 op1_8 LF_NEG8 s))))"

definition NEG_EbR :: handler where
  "NEG_EbR i s =
    (let op1_8 = BX_READ_8BIT_REGx (i_rm i) (extend8bitL i) s in
     let op1_8 = - op1_8 in
     let s = BX_WRITE_8BIT_REGx (i_rm i) (extend8bitL i) op1_8 s in
     Inr ((), SET_FLAGS_OSZAPC_RESULT_8 op1_8 LF_NEG8 s))"

definition INC_EbM :: handler where
  "INC_EbM i s =
    (let eaddr = resolve i s in
     rbind (read_RMW_virtual_byte (i_seg i) eaddr s) (\<lambda>op1_8 s.
     let op1_8 = op1_8 + 1 in
     rbind (write_RMW_virtual_byte op1_8 s) (\<lambda>_ s.
     Inr ((), SET_FLAGS_OSZAPC_INC_8 op1_8 s))))"

definition INC_EbR :: handler where
  "INC_EbR i s =
    (let op1_8 = BX_READ_8BIT_REGx (i_rm i) (extend8bitL i) s in
     let op1_8 = op1_8 + 1 in
     let s = BX_WRITE_8BIT_REGx (i_rm i) (extend8bitL i) op1_8 s in
     Inr ((), SET_FLAGS_OSZAPC_INC_8 op1_8 s))"

definition DEC_EbM :: handler where
  "DEC_EbM i s =
    (let eaddr = resolve i s in
     rbind (read_RMW_virtual_byte (i_seg i) eaddr s) (\<lambda>op1_8 s.
     let op1_8 = op1_8 - 1 in
     rbind (write_RMW_virtual_byte op1_8 s) (\<lambda>_ s.
     Inr ((), SET_FLAGS_OSZAPC_DEC_8 op1_8 s))))"

definition DEC_EbR :: handler where
  "DEC_EbR i s =
    (let op1_8 = BX_READ_8BIT_REGx (i_rm i) (extend8bitL i) s in
     let op1_8 = op1_8 - 1 in
     let s = BX_WRITE_8BIT_REGx (i_rm i) (extend8bitL i) op1_8 s in
     Inr ((), SET_FLAGS_OSZAPC_DEC_8 op1_8 s))"

definition CMPXCHG_EbGbM :: handler where
  "CMPXCHG_EbGbM i s =
    (let eaddr = resolve i s in
     rbind (read_RMW_virtual_byte (i_seg i) eaddr s) (\<lambda>op1_8 s.
     let diff_8 = (AL s) - op1_8 in
     let s = SET_FLAGS_OSZAPC_SUB_8 (AL s) op1_8 diff_8 s in
     (if diff_8 = 0 then
       let op2_8 = BX_READ_8BIT_REGx (i_nnn i) (extend8bitL i) s in
       write_RMW_virtual_byte op2_8 s
     else
     Inr ((), set_AL op1_8 s))))"

definition CMPXCHG_EbGbR :: handler where
  "CMPXCHG_EbGbR i s =
    (let op1_8 = BX_READ_8BIT_REGx (i_rm i) (extend8bitL i) s in
     let diff_8 = (AL s) - op1_8 in
     let s = SET_FLAGS_OSZAPC_SUB_8 (AL s) op1_8 diff_8 s in
     (if diff_8 = 0 then
       let op2_8 = BX_READ_8BIT_REGx (i_nnn i) (extend8bitL i) s in
       Inr ((), BX_WRITE_8BIT_REGx (i_rm i) (extend8bitL i) op2_8 s)
     else
     Inr ((), set_AL op1_8 s)))"

section \<open>\<^verbatim>\<open>logical8.cc\<close>\<close>

definition XOR_EbGbM :: handler where
  "XOR_EbGbM i s =
    (let eaddr = resolve i s in
     rbind (read_RMW_virtual_byte (i_seg i) eaddr s) (\<lambda>op1 s.
     let op2 = BX_READ_8BIT_REGx (i_nnn i) (extend8bitL i) s in
     let op1 = op1 XOR op2 in
     rbind (write_RMW_virtual_byte op1 s) (\<lambda>_ s.
     Inr ((), SET_FLAGS_OSZAPC_LOGIC_8 op1 s))))"

definition XOR_GbEbR :: handler where
  "XOR_GbEbR i s =
    (let op1 = BX_READ_8BIT_REGx (i_nnn i) (extend8bitL i) s in
     let op2 = BX_READ_8BIT_REGx (i_rm i) (extend8bitL i) s in
     let op1 = op1 XOR op2 in
     let s = BX_WRITE_8BIT_REGx (i_nnn i) (extend8bitL i) op1 s in
     Inr ((), SET_FLAGS_OSZAPC_LOGIC_8 op1 s))"

definition XOR_ALIb :: handler where
  "XOR_ALIb i s =
    (let op1 = AL s in
     let op1 = op1 XOR (i_Ib i) in
     let s = set_AL op1 s in
     Inr ((), SET_FLAGS_OSZAPC_LOGIC_8 op1 s))"

definition XOR_EbIbM :: handler where
  "XOR_EbIbM i s =
    (let op2 = i_Ib i in
     let eaddr = resolve i s in
     rbind (read_RMW_virtual_byte (i_seg i) eaddr s) (\<lambda>op1 s.
     let op1 = op1 XOR op2 in
     rbind (write_RMW_virtual_byte op1 s) (\<lambda>_ s.
     Inr ((), SET_FLAGS_OSZAPC_LOGIC_8 op1 s))))"

definition XOR_EbIbR :: handler where
  "XOR_EbIbR i s =
    (let op2 = i_Ib i in
     let op1 = BX_READ_8BIT_REGx (i_rm i) (extend8bitL i) s in
     let op1 = op1 XOR op2 in
     let s = BX_WRITE_8BIT_REGx (i_rm i) (extend8bitL i) op1 s in
     Inr ((), SET_FLAGS_OSZAPC_LOGIC_8 op1 s))"

definition OR_EbIbM :: handler where
  "OR_EbIbM i s =
    (let op2 = i_Ib i in
     let eaddr = resolve i s in
     rbind (read_RMW_virtual_byte (i_seg i) eaddr s) (\<lambda>op1 s.
     let op1 = op1 OR op2 in
     rbind (write_RMW_virtual_byte op1 s) (\<lambda>_ s.
     Inr ((), SET_FLAGS_OSZAPC_LOGIC_8 op1 s))))"

definition OR_EbIbR :: handler where
  "OR_EbIbR i s =
    (let op2 = i_Ib i in
     let op1 = BX_READ_8BIT_REGx (i_rm i) (extend8bitL i) s in
     let op1 = op1 OR op2 in
     let s = BX_WRITE_8BIT_REGx (i_rm i) (extend8bitL i) op1 s in
     Inr ((), SET_FLAGS_OSZAPC_LOGIC_8 op1 s))"

definition NOT_EbM :: handler where
  "NOT_EbM i s =
    (let eaddr = resolve i s in
     rbind (read_RMW_virtual_byte (i_seg i) eaddr s) (\<lambda>op1_8 s.
     let op1_8 = NOT op1_8 in
     write_RMW_virtual_byte op1_8 s))"

definition NOT_EbR :: handler where
  "NOT_EbR i s =
    (let op1_8 = BX_READ_8BIT_REGx (i_rm i) (extend8bitL i) s in
     let op1_8 = NOT op1_8 in
     Inr ((), BX_WRITE_8BIT_REGx (i_rm i) (extend8bitL i) op1_8 s))"

definition OR_EbGbM :: handler where
  "OR_EbGbM i s =
    (let eaddr = resolve i s in
     rbind (read_RMW_virtual_byte (i_seg i) eaddr s) (\<lambda>op1 s.
     let op2 = BX_READ_8BIT_REGx (i_nnn i) (extend8bitL i) s in
     let op1 = op1 OR op2 in
     rbind (write_RMW_virtual_byte op1 s) (\<lambda>_ s.
     Inr ((), SET_FLAGS_OSZAPC_LOGIC_8 op1 s))))"

definition OR_GbEbR :: handler where
  "OR_GbEbR i s =
    (let op1 = BX_READ_8BIT_REGx (i_nnn i) (extend8bitL i) s in
     let op2 = BX_READ_8BIT_REGx (i_rm i) (extend8bitL i) s in
     let op1 = op1 OR op2 in
     let s = BX_WRITE_8BIT_REGx (i_nnn i) (extend8bitL i) op1 s in
     Inr ((), SET_FLAGS_OSZAPC_LOGIC_8 op1 s))"

definition OR_ALIb :: handler where
  "OR_ALIb i s =
    (let op1 = AL s in
     let op2 = i_Ib i in
     let op1 = op1 OR op2 in
     let s = set_AL op1 s in
     Inr ((), SET_FLAGS_OSZAPC_LOGIC_8 op1 s))"

definition AND_EbGbM :: handler where
  "AND_EbGbM i s =
    (let eaddr = resolve i s in
     rbind (read_RMW_virtual_byte (i_seg i) eaddr s) (\<lambda>op1 s.
     let op2 = BX_READ_8BIT_REGx (i_nnn i) (extend8bitL i) s in
     let op1 = op1 AND op2 in
     rbind (write_RMW_virtual_byte op1 s) (\<lambda>_ s.
     Inr ((), SET_FLAGS_OSZAPC_LOGIC_8 op1 s))))"

definition AND_GbEbR :: handler where
  "AND_GbEbR i s =
    (let op1 = BX_READ_8BIT_REGx (i_nnn i) (extend8bitL i) s in
     let op2 = BX_READ_8BIT_REGx (i_rm i) (extend8bitL i) s in
     let op1 = op1 AND op2 in
     let s = BX_WRITE_8BIT_REGx (i_nnn i) (extend8bitL i) op1 s in
     Inr ((), SET_FLAGS_OSZAPC_LOGIC_8 op1 s))"

definition AND_ALIb :: handler where
  "AND_ALIb i s =
    (let op1 = AL s in
     let op2 = i_Ib i in
     let op1 = op1 AND op2 in
     let s = set_AL op1 s in
     Inr ((), SET_FLAGS_OSZAPC_LOGIC_8 op1 s))"

definition AND_EbIbM :: handler where
  "AND_EbIbM i s =
    (let op2 = i_Ib i in
     let eaddr = resolve i s in
     rbind (read_RMW_virtual_byte (i_seg i) eaddr s) (\<lambda>op1 s.
     let op1 = op1 AND op2 in
     rbind (write_RMW_virtual_byte op1 s) (\<lambda>_ s.
     Inr ((), SET_FLAGS_OSZAPC_LOGIC_8 op1 s))))"

definition AND_EbIbR :: handler where
  "AND_EbIbR i s =
    (let op2 = i_Ib i in
     let op1 = BX_READ_8BIT_REGx (i_rm i) (extend8bitL i) s in
     let op1 = op1 AND op2 in
     let s = BX_WRITE_8BIT_REGx (i_rm i) (extend8bitL i) op1 s in
     Inr ((), SET_FLAGS_OSZAPC_LOGIC_8 op1 s))"

definition TEST_EbGbR :: handler where
  "TEST_EbGbR i s =
    (let op1 = BX_READ_8BIT_REGx (i_rm i) (extend8bitL i) s in
     let op2 = BX_READ_8BIT_REGx (i_nnn i) (extend8bitL i) s in
     let op1 = op1 AND op2 in
     Inr ((), SET_FLAGS_OSZAPC_LOGIC_8 op1 s))"

definition TEST_ALIb :: handler where
  "TEST_ALIb i s =
    (let op1 = AL s in
     let op2 = i_Ib i in
     let op1 = op1 AND op2 in
     Inr ((), SET_FLAGS_OSZAPC_LOGIC_8 op1 s))"

definition TEST_EbIbR :: handler where
  "TEST_EbIbR i s =
    (let op1 = BX_READ_8BIT_REGx (i_rm i) (extend8bitL i) s in
     let op1 = op1 AND (i_Ib i) in
     Inr ((), SET_FLAGS_OSZAPC_LOGIC_8 op1 s))"

end
