(* ===== verification/Cpu_Alu16.thy ===== *)
theory Cpu_Alu16
  imports Cpu_Registers
begin

text \<open>
  Arithmetic and logic of 16 bits (\<^verbatim>\<open>src/sim/bochs/cpu/arith16.cc\<close>, \<^verbatim>\<open>logical16.cc\<close>), one definition per handler.
\<close>

unbundle bit_operations_syntax

section \<open>\<^verbatim>\<open>arith16.cc\<close>\<close>

definition INC_RX :: handler where
  "INC_RX i s =
    (let rx = BX_READ_16BIT_REG (opcodeReg i) s + 1 in
     let s = set_rx (opcodeReg i) rx s in
     Inr ((), SET_FLAGS_OSZAPC_INC_16 rx s))"

definition DEC_RX :: handler where
  "DEC_RX i s =
    (let rx = BX_READ_16BIT_REG (opcodeReg i) s - 1 in
     let s = set_rx (opcodeReg i) rx s in
     Inr ((), SET_FLAGS_OSZAPC_DEC_16 rx s))"

definition ADD_EwGwM :: handler where
  "ADD_EwGwM i s =
    (let eaddr = resolve i s in
     rbind (read_RMW_virtual_word (i_seg i) eaddr s) (\<lambda>op1_16 s.
     let op2_16 = BX_READ_16BIT_REG (i_nnn i) s in
     let sum_16 = op1_16 + op2_16 in
     rbind (write_RMW_virtual_word sum_16 s) (\<lambda>_ s.
     Inr ((), SET_FLAGS_OSZAPC_ADD_16 op1_16 op2_16 sum_16 s))))"

definition ADD_GwEwR :: handler where
  "ADD_GwEwR i s =
    (let op1_16 = BX_READ_16BIT_REG (i_nnn i) s in
     let op2_16 = BX_READ_16BIT_REG (i_rm i) s in
     let sum_16 = op1_16 + op2_16 in
     let s = BX_WRITE_16BIT_REG (i_nnn i) sum_16 s in
     Inr ((), SET_FLAGS_OSZAPC_ADD_16 op1_16 op2_16 sum_16 s))"

definition ADD_AXIw :: handler where
  "ADD_AXIw i s =
    (let op1_16 = AX s in
     let op2_16 = i_Iw i in
     let sum_16 = op1_16 + op2_16 in
     let s = set_AX sum_16 s in
     Inr ((), SET_FLAGS_OSZAPC_ADD_16 op1_16 op2_16 sum_16 s))"

definition ADC_EwGwM :: handler where
  "ADC_EwGwM i s =
    (let temp_CF = getB_flag CF_flag s in
     let eaddr = resolve i s in
     rbind (read_RMW_virtual_word (i_seg i) eaddr s) (\<lambda>op1_16 s.
     let op2_16 = BX_READ_16BIT_REG (i_nnn i) s in
     let sum_16 = ((op1_16 + op2_16) + (of_bool temp_CF) :: u16) in
     rbind (write_RMW_virtual_word sum_16 s) (\<lambda>_ s.
     Inr ((), SET_FLAGS_OSZAPC_16 op1_16 op2_16 sum_16 (BX_LF_INSTR_ADD_ADC16 temp_CF) s))))"

definition ADC_GwEwR :: handler where
  "ADC_GwEwR i s =
    (let temp_CF = getB_flag CF_flag s in
     let op1_16 = BX_READ_16BIT_REG (i_nnn i) s in
     let op2_16 = BX_READ_16BIT_REG (i_rm i) s in
     let sum_16 = ((op1_16 + op2_16) + (of_bool temp_CF) :: u16) in
     let s = BX_WRITE_16BIT_REG (i_nnn i) sum_16 s in
     Inr ((), SET_FLAGS_OSZAPC_16 op1_16 op2_16 sum_16 (BX_LF_INSTR_ADD_ADC16 temp_CF) s))"

definition ADC_AXIw :: handler where
  "ADC_AXIw i s =
    (let temp_CF = getB_flag CF_flag s in
     let op1_16 = AX s in
     let op2_16 = i_Iw i in
     let sum_16 = ((op1_16 + op2_16) + (of_bool temp_CF) :: u16) in
     let s = set_AX sum_16 s in
     Inr ((), SET_FLAGS_OSZAPC_16 op1_16 op2_16 sum_16 (BX_LF_INSTR_ADD_ADC16 temp_CF) s))"

definition SBB_EwGwM :: handler where
  "SBB_EwGwM i s =
    (let temp_CF = getB_flag CF_flag s in
     let eaddr = resolve i s in
     rbind (read_RMW_virtual_word (i_seg i) eaddr s) (\<lambda>op1_16 s.
     let op2_16 = BX_READ_16BIT_REG (i_nnn i) s in
     let diff_16 = (op1_16 - (op2_16 + (of_bool temp_CF)) :: u16) in
     rbind (write_RMW_virtual_word diff_16 s) (\<lambda>_ s.
     Inr ((), SET_FLAGS_OSZAPC_16 op1_16 op2_16 diff_16 (BX_LF_INSTR_SUB_SBB16 temp_CF) s))))"

definition SBB_GwEwR :: handler where
  "SBB_GwEwR i s =
    (let temp_CF = getB_flag CF_flag s in
     let op1_16 = BX_READ_16BIT_REG (i_nnn i) s in
     let op2_16 = BX_READ_16BIT_REG (i_rm i) s in
     let diff_16 = (op1_16 - (op2_16 + (of_bool temp_CF)) :: u16) in
     let s = BX_WRITE_16BIT_REG (i_nnn i) diff_16 s in
     Inr ((), SET_FLAGS_OSZAPC_16 op1_16 op2_16 diff_16 (BX_LF_INSTR_SUB_SBB16 temp_CF) s))"

definition SBB_AXIw :: handler where
  "SBB_AXIw i s =
    (let temp_CF = getB_flag CF_flag s in
     let op1_16 = AX s in
     let op2_16 = i_Iw i in
     let diff_16 = (op1_16 - (op2_16 + (of_bool temp_CF)) :: u16) in
     let s = set_AX diff_16 s in
     Inr ((), SET_FLAGS_OSZAPC_16 op1_16 op2_16 diff_16 (BX_LF_INSTR_SUB_SBB16 temp_CF) s))"

definition SBB_EwIwM :: handler where
  "SBB_EwIwM i s =
    (let temp_CF = getB_flag CF_flag s in
     let op2_16 = i_Iw i in
     let eaddr = resolve i s in
     rbind (read_RMW_virtual_word (i_seg i) eaddr s) (\<lambda>op1_16 s.
     let diff_16 = (op1_16 - (op2_16 + (of_bool temp_CF)) :: u16) in
     rbind (write_RMW_virtual_word diff_16 s) (\<lambda>_ s.
     Inr ((), SET_FLAGS_OSZAPC_16 op1_16 op2_16 diff_16 (BX_LF_INSTR_SUB_SBB16 temp_CF) s))))"

definition SBB_EwIwR :: handler where
  "SBB_EwIwR i s =
    (let temp_CF = getB_flag CF_flag s in
     let op2_16 = i_Iw i in
     let op1_16 = BX_READ_16BIT_REG (i_rm i) s in
     let diff_16 = (op1_16 - (op2_16 + (of_bool temp_CF)) :: u16) in
     let s = BX_WRITE_16BIT_REG (i_rm i) diff_16 s in
     Inr ((), SET_FLAGS_OSZAPC_16 op1_16 op2_16 diff_16 (BX_LF_INSTR_SUB_SBB16 temp_CF) s))"

definition SUB_EwGwM :: handler where
  "SUB_EwGwM i s =
    (let eaddr = resolve i s in
     rbind (read_RMW_virtual_word (i_seg i) eaddr s) (\<lambda>op1_16 s.
     let op2_16 = BX_READ_16BIT_REG (i_nnn i) s in
     let diff_16 = op1_16 - op2_16 in
     rbind (write_RMW_virtual_word diff_16 s) (\<lambda>_ s.
     Inr ((), SET_FLAGS_OSZAPC_SUB_16 op1_16 op2_16 diff_16 s))))"

definition SUB_GwEwR :: handler where
  "SUB_GwEwR i s =
    (let op1_16 = BX_READ_16BIT_REG (i_nnn i) s in
     let op2_16 = BX_READ_16BIT_REG (i_rm i) s in
     let diff_16 = op1_16 - op2_16 in
     let s = BX_WRITE_16BIT_REG (i_nnn i) diff_16 s in
     Inr ((), SET_FLAGS_OSZAPC_SUB_16 op1_16 op2_16 diff_16 s))"

definition SUB_AXIw :: handler where
  "SUB_AXIw i s =
    (let op1_16 = AX s in
     let op2_16 = i_Iw i in
     let diff_16 = op1_16 - op2_16 in
     let s = set_AX diff_16 s in
     Inr ((), SET_FLAGS_OSZAPC_SUB_16 op1_16 op2_16 diff_16 s))"

definition CMP_EwGwM :: handler where
  "CMP_EwGwM i s =
    (let eaddr = resolve i s in
     rbind (read_virtual_word (i_seg i) eaddr s) (\<lambda>op1_16 s.
     let op2_16 = BX_READ_16BIT_REG (i_nnn i) s in
     let diff_16 = op1_16 - op2_16 in
     Inr ((), SET_FLAGS_OSZAPC_SUB_16 op1_16 op2_16 diff_16 s)))"

definition CMP_GwEwR :: handler where
  "CMP_GwEwR i s =
    (let op1_16 = BX_READ_16BIT_REG (i_nnn i) s in
     let op2_16 = BX_READ_16BIT_REG (i_rm i) s in
     let diff_16 = op1_16 - op2_16 in
     Inr ((), SET_FLAGS_OSZAPC_SUB_16 op1_16 op2_16 diff_16 s))"

definition CMP_AXIw :: handler where
  "CMP_AXIw i s =
    (let op1_16 = AX s in
     let op2_16 = i_Iw i in
     let diff_16 = op1_16 - op2_16 in
     Inr ((), SET_FLAGS_OSZAPC_SUB_16 op1_16 op2_16 diff_16 s))"

definition CBW :: handler where
  "CBW i s =
    (Inr ((), set_AX (scast (AL s :: u8)) s))"

definition CWD :: handler where
  "CWD i s =
    ((if ((AX s) AND 0x8000) \<noteq> 0 then
       Inr ((), set_DX 0xffff s)
     else
     Inr ((), set_DX 0x0000 s)))"

definition XADD_EwGwM :: handler where
  "XADD_EwGwM i s =
    (let eaddr = resolve i s in
     rbind (read_RMW_virtual_word (i_seg i) eaddr s) (\<lambda>op1_16 s.
     let op2_16 = BX_READ_16BIT_REG (i_nnn i) s in
     let sum_16 = op1_16 + op2_16 in
     rbind (write_RMW_virtual_word sum_16 s) (\<lambda>_ s.
     let s = BX_WRITE_16BIT_REG (i_nnn i) op1_16 s in
     Inr ((), SET_FLAGS_OSZAPC_ADD_16 op1_16 op2_16 sum_16 s))))"

definition XADD_EwGwR :: handler where
  "XADD_EwGwR i s =
    (let op1_16 = BX_READ_16BIT_REG (i_rm i) s in
     let op2_16 = BX_READ_16BIT_REG (i_nnn i) s in
     let sum_16 = op1_16 + op2_16 in
     let s = BX_WRITE_16BIT_REG (i_nnn i) op1_16 s in
     let s = BX_WRITE_16BIT_REG (i_rm i) sum_16 s in
     Inr ((), SET_FLAGS_OSZAPC_ADD_16 op1_16 op2_16 sum_16 s))"

definition ADD_EwIwM :: handler where
  "ADD_EwIwM i s =
    (let op2_16 = i_Iw i in
     let eaddr = resolve i s in
     rbind (read_RMW_virtual_word (i_seg i) eaddr s) (\<lambda>op1_16 s.
     let sum_16 = op1_16 + op2_16 in
     rbind (write_RMW_virtual_word sum_16 s) (\<lambda>_ s.
     Inr ((), SET_FLAGS_OSZAPC_ADD_16 op1_16 op2_16 sum_16 s))))"

definition ADD_EwIwR :: handler where
  "ADD_EwIwR i s =
    (let op2_16 = i_Iw i in
     let op1_16 = BX_READ_16BIT_REG (i_rm i) s in
     let sum_16 = op1_16 + op2_16 in
     let s = BX_WRITE_16BIT_REG (i_rm i) sum_16 s in
     Inr ((), SET_FLAGS_OSZAPC_ADD_16 op1_16 op2_16 sum_16 s))"

definition ADC_EwIwM :: handler where
  "ADC_EwIwM i s =
    (let temp_CF = getB_flag CF_flag s in
     let op2_16 = i_Iw i in
     let eaddr = resolve i s in
     rbind (read_RMW_virtual_word (i_seg i) eaddr s) (\<lambda>op1_16 s.
     let sum_16 = ((op1_16 + op2_16) + (of_bool temp_CF) :: u16) in
     rbind (write_RMW_virtual_word sum_16 s) (\<lambda>_ s.
     Inr ((), SET_FLAGS_OSZAPC_16 op1_16 op2_16 sum_16 (BX_LF_INSTR_ADD_ADC16 temp_CF) s))))"

definition ADC_EwIwR :: handler where
  "ADC_EwIwR i s =
    (let temp_CF = getB_flag CF_flag s in
     let op2_16 = i_Iw i in
     let op1_16 = BX_READ_16BIT_REG (i_rm i) s in
     let sum_16 = ((op1_16 + op2_16) + (of_bool temp_CF) :: u16) in
     let s = BX_WRITE_16BIT_REG (i_rm i) sum_16 s in
     Inr ((), SET_FLAGS_OSZAPC_16 op1_16 op2_16 sum_16 (BX_LF_INSTR_ADD_ADC16 temp_CF) s))"

definition SUB_EwIwM :: handler where
  "SUB_EwIwM i s =
    (let op2_16 = i_Iw i in
     let eaddr = resolve i s in
     rbind (read_RMW_virtual_word (i_seg i) eaddr s) (\<lambda>op1_16 s.
     let diff_16 = op1_16 - op2_16 in
     rbind (write_RMW_virtual_word diff_16 s) (\<lambda>_ s.
     Inr ((), SET_FLAGS_OSZAPC_SUB_16 op1_16 op2_16 diff_16 s))))"

definition SUB_EwIwR :: handler where
  "SUB_EwIwR i s =
    (let op2_16 = i_Iw i in
     let op1_16 = BX_READ_16BIT_REG (i_rm i) s in
     let diff_16 = op1_16 - op2_16 in
     let s = BX_WRITE_16BIT_REG (i_rm i) diff_16 s in
     Inr ((), SET_FLAGS_OSZAPC_SUB_16 op1_16 op2_16 diff_16 s))"

definition CMP_EwIwM :: handler where
  "CMP_EwIwM i s =
    (let op2_16 = i_Iw i in
     let eaddr = resolve i s in
     rbind (read_virtual_word (i_seg i) eaddr s) (\<lambda>op1_16 s.
     let diff_16 = op1_16 - op2_16 in
     Inr ((), SET_FLAGS_OSZAPC_SUB_16 op1_16 op2_16 diff_16 s)))"

definition CMP_EwIwR :: handler where
  "CMP_EwIwR i s =
    (let op2_16 = i_Iw i in
     let op1_16 = BX_READ_16BIT_REG (i_rm i) s in
     let diff_16 = op1_16 - op2_16 in
     Inr ((), SET_FLAGS_OSZAPC_SUB_16 op1_16 op2_16 diff_16 s))"

definition NEG_EwM :: handler where
  "NEG_EwM i s =
    (let eaddr = resolve i s in
     rbind (read_RMW_virtual_word (i_seg i) eaddr s) (\<lambda>op1_16 s.
     let op1_16 = - op1_16 in
     rbind (write_RMW_virtual_word op1_16 s) (\<lambda>_ s.
     Inr ((), SET_FLAGS_OSZAPC_RESULT_16 op1_16 LF_NEG16 s))))"

definition NEG_EwR :: handler where
  "NEG_EwR i s =
    (let op1_16 = BX_READ_16BIT_REG (i_rm i) s in
     let op1_16 = - op1_16 in
     let s = BX_WRITE_16BIT_REG (i_rm i) op1_16 s in
     Inr ((), SET_FLAGS_OSZAPC_RESULT_16 op1_16 LF_NEG16 s))"

definition INC_EwM :: handler where
  "INC_EwM i s =
    (let eaddr = resolve i s in
     rbind (read_RMW_virtual_word (i_seg i) eaddr s) (\<lambda>op1_16 s.
     let op1_16 = op1_16 + 1 in
     rbind (write_RMW_virtual_word op1_16 s) (\<lambda>_ s.
     Inr ((), SET_FLAGS_OSZAPC_INC_16 op1_16 s))))"

definition DEC_EwM :: handler where
  "DEC_EwM i s =
    (let eaddr = resolve i s in
     rbind (read_RMW_virtual_word (i_seg i) eaddr s) (\<lambda>op1_16 s.
     let op1_16 = op1_16 - 1 in
     rbind (write_RMW_virtual_word op1_16 s) (\<lambda>_ s.
     Inr ((), SET_FLAGS_OSZAPC_DEC_16 op1_16 s))))"

definition CMPXCHG_EwGwM :: handler where
  "CMPXCHG_EwGwM i s =
    (let eaddr = resolve i s in
     rbind (read_RMW_virtual_word (i_seg i) eaddr s) (\<lambda>op1_16 s.
     let diff_16 = (AX s) - op1_16 in
     let s = SET_FLAGS_OSZAPC_SUB_16 (AX s) op1_16 diff_16 s in
     (if diff_16 = 0 then
       let op2_16 = BX_READ_16BIT_REG (i_nnn i) s in
       write_RMW_virtual_word op2_16 s
     else
     Inr ((), set_AX op1_16 s))))"

definition CMPXCHG_EwGwR :: handler where
  "CMPXCHG_EwGwR i s =
    (let op1_16 = BX_READ_16BIT_REG (i_rm i) s in
     let diff_16 = (AX s) - op1_16 in
     let s = SET_FLAGS_OSZAPC_SUB_16 (AX s) op1_16 diff_16 s in
     (if diff_16 = 0 then
       let op2_16 = BX_READ_16BIT_REG (i_nnn i) s in
       Inr ((), BX_WRITE_16BIT_REG (i_rm i) op2_16 s)
     else
     Inr ((), set_AX op1_16 s)))"

section \<open>\<^verbatim>\<open>logical16.cc\<close>\<close>

definition XOR_EwGwM :: handler where
  "XOR_EwGwM i s =
    (let eaddr = resolve i s in
     rbind (read_RMW_virtual_word (i_seg i) eaddr s) (\<lambda>op1_16 s.
     let op2_16 = BX_READ_16BIT_REG (i_nnn i) s in
     let op1_16 = op1_16 XOR op2_16 in
     rbind (write_RMW_virtual_word op1_16 s) (\<lambda>_ s.
     Inr ((), SET_FLAGS_OSZAPC_LOGIC_16 op1_16 s))))"

definition XOR_GwEwR :: handler where
  "XOR_GwEwR i s =
    (let op1_16 = BX_READ_16BIT_REG (i_nnn i) s in
     let op2_16 = BX_READ_16BIT_REG (i_rm i) s in
     let op1_16 = op1_16 XOR op2_16 in
     let s = BX_WRITE_16BIT_REG (i_nnn i) op1_16 s in
     Inr ((), SET_FLAGS_OSZAPC_LOGIC_16 op1_16 s))"

definition XOR_AXIw :: handler where
  "XOR_AXIw i s =
    (let op1_16 = AX s in
     let op1_16 = op1_16 XOR (i_Iw i) in
     let s = set_AX op1_16 s in
     Inr ((), SET_FLAGS_OSZAPC_LOGIC_16 op1_16 s))"

definition XOR_EwIwM :: handler where
  "XOR_EwIwM i s =
    (let eaddr = resolve i s in
     rbind (read_RMW_virtual_word (i_seg i) eaddr s) (\<lambda>op1_16 s.
     let op1_16 = op1_16 XOR (i_Iw i) in
     rbind (write_RMW_virtual_word op1_16 s) (\<lambda>_ s.
     Inr ((), SET_FLAGS_OSZAPC_LOGIC_16 op1_16 s))))"

definition XOR_EwIwR :: handler where
  "XOR_EwIwR i s =
    (let op1_16 = BX_READ_16BIT_REG (i_rm i) s in
     let op1_16 = op1_16 XOR (i_Iw i) in
     let s = BX_WRITE_16BIT_REG (i_rm i) op1_16 s in
     Inr ((), SET_FLAGS_OSZAPC_LOGIC_16 op1_16 s))"

definition OR_EwIwM :: handler where
  "OR_EwIwM i s =
    (let eaddr = resolve i s in
     rbind (read_RMW_virtual_word (i_seg i) eaddr s) (\<lambda>op1_16 s.
     let op1_16 = op1_16 OR (i_Iw i) in
     rbind (write_RMW_virtual_word op1_16 s) (\<lambda>_ s.
     Inr ((), SET_FLAGS_OSZAPC_LOGIC_16 op1_16 s))))"

definition OR_EwIwR :: handler where
  "OR_EwIwR i s =
    (let op1_16 = BX_READ_16BIT_REG (i_rm i) s in
     let op1_16 = op1_16 OR (i_Iw i) in
     let s = BX_WRITE_16BIT_REG (i_rm i) op1_16 s in
     Inr ((), SET_FLAGS_OSZAPC_LOGIC_16 op1_16 s))"

definition NOT_EwM :: handler where
  "NOT_EwM i s =
    (let eaddr = resolve i s in
     rbind (read_RMW_virtual_word (i_seg i) eaddr s) (\<lambda>op1_16 s.
     let op1_16 = NOT op1_16 in
     write_RMW_virtual_word op1_16 s))"

definition NOT_EwR :: handler where
  "NOT_EwR i s =
    (let op1_16 = BX_READ_16BIT_REG (i_rm i) s in
     let op1_16 = NOT op1_16 in
     Inr ((), BX_WRITE_16BIT_REG (i_rm i) op1_16 s))"

definition OR_EwGwM :: handler where
  "OR_EwGwM i s =
    (let eaddr = resolve i s in
     rbind (read_RMW_virtual_word (i_seg i) eaddr s) (\<lambda>op1_16 s.
     let op2_16 = BX_READ_16BIT_REG (i_nnn i) s in
     let op1_16 = op1_16 OR op2_16 in
     rbind (write_RMW_virtual_word op1_16 s) (\<lambda>_ s.
     Inr ((), SET_FLAGS_OSZAPC_LOGIC_16 op1_16 s))))"

definition OR_GwEwR :: handler where
  "OR_GwEwR i s =
    (let op1_16 = BX_READ_16BIT_REG (i_nnn i) s in
     let op2_16 = BX_READ_16BIT_REG (i_rm i) s in
     let op1_16 = op1_16 OR op2_16 in
     let s = BX_WRITE_16BIT_REG (i_nnn i) op1_16 s in
     Inr ((), SET_FLAGS_OSZAPC_LOGIC_16 op1_16 s))"

definition OR_AXIw :: handler where
  "OR_AXIw i s =
    (let op1_16 = AX s in
     let op2_16 = i_Iw i in
     let op1_16 = op1_16 OR op2_16 in
     let s = set_AX op1_16 s in
     Inr ((), SET_FLAGS_OSZAPC_LOGIC_16 op1_16 s))"

definition AND_EwGwM :: handler where
  "AND_EwGwM i s =
    (let eaddr = resolve i s in
     rbind (read_RMW_virtual_word (i_seg i) eaddr s) (\<lambda>op1_16 s.
     let op2_16 = BX_READ_16BIT_REG (i_nnn i) s in
     let op1_16 = op1_16 AND op2_16 in
     rbind (write_RMW_virtual_word op1_16 s) (\<lambda>_ s.
     Inr ((), SET_FLAGS_OSZAPC_LOGIC_16 op1_16 s))))"

definition AND_GwEwR :: handler where
  "AND_GwEwR i s =
    (let op1_16 = BX_READ_16BIT_REG (i_nnn i) s in
     let op2_16 = BX_READ_16BIT_REG (i_rm i) s in
     let op1_16 = op1_16 AND op2_16 in
     let s = BX_WRITE_16BIT_REG (i_nnn i) op1_16 s in
     Inr ((), SET_FLAGS_OSZAPC_LOGIC_16 op1_16 s))"

definition AND_AXIw :: handler where
  "AND_AXIw i s =
    (let op1_16 = AX s in
     let op2_16 = i_Iw i in
     let op1_16 = op1_16 AND op2_16 in
     let s = set_AX op1_16 s in
     Inr ((), SET_FLAGS_OSZAPC_LOGIC_16 op1_16 s))"

definition AND_EwIwM :: handler where
  "AND_EwIwM i s =
    (let eaddr = resolve i s in
     rbind (read_RMW_virtual_word (i_seg i) eaddr s) (\<lambda>op1_16 s.
     let op1_16 = op1_16 AND (i_Iw i) in
     rbind (write_RMW_virtual_word op1_16 s) (\<lambda>_ s.
     Inr ((), SET_FLAGS_OSZAPC_LOGIC_16 op1_16 s))))"

definition AND_EwIwR :: handler where
  "AND_EwIwR i s =
    (let op1_16 = BX_READ_16BIT_REG (i_rm i) s in
     let op1_16 = op1_16 AND (i_Iw i) in
     let s = BX_WRITE_16BIT_REG (i_rm i) op1_16 s in
     Inr ((), SET_FLAGS_OSZAPC_LOGIC_16 op1_16 s))"

definition TEST_EwGwR :: handler where
  "TEST_EwGwR i s =
    (let op1_16 = BX_READ_16BIT_REG (i_rm i) s in
     let op2_16 = BX_READ_16BIT_REG (i_nnn i) s in
     let op1_16 = op1_16 AND op2_16 in
     Inr ((), SET_FLAGS_OSZAPC_LOGIC_16 op1_16 s))"

definition TEST_AXIw :: handler where
  "TEST_AXIw i s =
    (let op1_16 = AX s in
     let op2_16 = i_Iw i in
     let op1_16 = op1_16 AND op2_16 in
     Inr ((), SET_FLAGS_OSZAPC_LOGIC_16 op1_16 s))"

definition TEST_EwIwR :: handler where
  "TEST_EwIwR i s =
    (let op1_16 = BX_READ_16BIT_REG (i_rm i) s in
     let op1_16 = op1_16 AND (i_Iw i) in
     Inr ((), SET_FLAGS_OSZAPC_LOGIC_16 op1_16 s))"

end
