(* ===== verification/Cpu_Alu32.thy ===== *)
theory Cpu_Alu32
  imports Cpu_Registers
begin

text \<open>
  Arithmetic and logic of 32 bits (\<^verbatim>\<open>src/sim/bochs/cpu/arith32.cc\<close>, \<^verbatim>\<open>logical32.cc\<close>), one definition per handler.
\<close>

unbundle bit_operations_syntax

section \<open>\<^verbatim>\<open>arith32.cc\<close>\<close>

definition INC_ERX :: handler where
  "INC_ERX i s =
    (let erx = BX_READ_32BIT_REG (opcodeReg i) s + 1 in
     let s = set_erx (opcodeReg i) erx s in
     let s = SET_FLAGS_OSZAPC_INC_32 erx s in
     Inr ((), BX_CLEAR_64BIT_HIGH (opcodeReg i) s))"

definition DEC_ERX :: handler where
  "DEC_ERX i s =
    (let erx = BX_READ_32BIT_REG (opcodeReg i) s - 1 in
     let s = set_erx (opcodeReg i) erx s in
     let s = SET_FLAGS_OSZAPC_DEC_32 erx s in
     Inr ((), BX_CLEAR_64BIT_HIGH (opcodeReg i) s))"

definition ADD_EdGdM :: handler where
  "ADD_EdGdM i s =
    (let eaddr = resolve i s in
     rbind (read_RMW_virtual_dword (i_seg i) eaddr s) (\<lambda>op1_32 s.
     let op2_32 = BX_READ_32BIT_REG (i_nnn i) s in
     let sum_32 = op1_32 + op2_32 in
     rbind (write_RMW_virtual_dword sum_32 s) (\<lambda>_ s.
     Inr ((), SET_FLAGS_OSZAPC_ADD_32 op1_32 op2_32 sum_32 s))))"

definition ADD_GdEdR :: handler where
  "ADD_GdEdR i s =
    (let op1_32 = BX_READ_32BIT_REG (i_nnn i) s in
     let op2_32 = BX_READ_32BIT_REG (i_rm i) s in
     let sum_32 = op1_32 + op2_32 in
     let s = BX_WRITE_32BIT_REGZ (i_nnn i) sum_32 s in
     Inr ((), SET_FLAGS_OSZAPC_ADD_32 op1_32 op2_32 sum_32 s))"

definition ADD_EAXId :: handler where
  "ADD_EAXId i s =
    (let op2_32 = i_Id i in
     let op1_32 = EAX s in
     let sum_32 = op1_32 + op2_32 in
     let s = set_RAX (ucast sum_32) s in
     Inr ((), SET_FLAGS_OSZAPC_ADD_32 op1_32 op2_32 sum_32 s))"

definition ADC_EdGdM :: handler where
  "ADC_EdGdM i s =
    (let temp_CF = getB_flag CF_flag s in
     let eaddr = resolve i s in
     rbind (read_RMW_virtual_dword (i_seg i) eaddr s) (\<lambda>op1_32 s.
     let op2_32 = BX_READ_32BIT_REG (i_nnn i) s in
     let sum_32 = ((op1_32 + op2_32) + (of_bool temp_CF) :: u32) in
     rbind (write_RMW_virtual_dword sum_32 s) (\<lambda>_ s.
     Inr ((), SET_FLAGS_OSZAPC_32 op1_32 op2_32 sum_32 (BX_LF_INSTR_ADD_ADC32 temp_CF) s))))"

definition ADC_GdEdR :: handler where
  "ADC_GdEdR i s =
    (let temp_CF = getB_flag CF_flag s in
     let op1_32 = BX_READ_32BIT_REG (i_nnn i) s in
     let op2_32 = BX_READ_32BIT_REG (i_rm i) s in
     let sum_32 = ((op1_32 + op2_32) + (of_bool temp_CF) :: u32) in
     let s = BX_WRITE_32BIT_REGZ (i_nnn i) sum_32 s in
     Inr ((), SET_FLAGS_OSZAPC_32 op1_32 op2_32 sum_32 (BX_LF_INSTR_ADD_ADC32 temp_CF) s))"

definition ADC_EAXId :: handler where
  "ADC_EAXId i s =
    (let temp_CF = getB_flag CF_flag s in
     let op2_32 = i_Id i in
     let op1_32 = EAX s in
     let sum_32 = ((op1_32 + op2_32) + (of_bool temp_CF) :: u32) in
     let s = set_RAX (ucast sum_32) s in
     Inr ((), SET_FLAGS_OSZAPC_32 op1_32 op2_32 sum_32 (BX_LF_INSTR_ADD_ADC32 temp_CF) s))"

definition SBB_EdGdM :: handler where
  "SBB_EdGdM i s =
    (let temp_CF = getB_flag CF_flag s in
     let eaddr = resolve i s in
     rbind (read_RMW_virtual_dword (i_seg i) eaddr s) (\<lambda>op1_32 s.
     let op2_32 = BX_READ_32BIT_REG (i_nnn i) s in
     let diff_32 = (op1_32 - (op2_32 + (of_bool temp_CF)) :: u32) in
     rbind (write_RMW_virtual_dword diff_32 s) (\<lambda>_ s.
     Inr ((), SET_FLAGS_OSZAPC_32 op1_32 op2_32 diff_32 (BX_LF_INSTR_SUB_SBB32 temp_CF) s))))"

definition SBB_GdEdR :: handler where
  "SBB_GdEdR i s =
    (let temp_CF = getB_flag CF_flag s in
     let op1_32 = BX_READ_32BIT_REG (i_nnn i) s in
     let op2_32 = BX_READ_32BIT_REG (i_rm i) s in
     let diff_32 = (op1_32 - (op2_32 + (of_bool temp_CF)) :: u32) in
     let s = BX_WRITE_32BIT_REGZ (i_nnn i) diff_32 s in
     Inr ((), SET_FLAGS_OSZAPC_32 op1_32 op2_32 diff_32 (BX_LF_INSTR_SUB_SBB32 temp_CF) s))"

definition SBB_EAXId :: handler where
  "SBB_EAXId i s =
    (let temp_CF = getB_flag CF_flag s in
     let op1_32 = EAX s in
     let op2_32 = i_Id i in
     let diff_32 = (op1_32 - (op2_32 + (of_bool temp_CF)) :: u32) in
     let s = set_RAX (ucast diff_32) s in
     Inr ((), SET_FLAGS_OSZAPC_32 op1_32 op2_32 diff_32 (BX_LF_INSTR_SUB_SBB32 temp_CF) s))"

definition SBB_EdIdM :: handler where
  "SBB_EdIdM i s =
    (let temp_CF = getB_flag CF_flag s in
     let op2_32 = i_Id i in
     let eaddr = resolve i s in
     rbind (read_RMW_virtual_dword (i_seg i) eaddr s) (\<lambda>op1_32 s.
     let diff_32 = (op1_32 - (op2_32 + (of_bool temp_CF)) :: u32) in
     rbind (write_RMW_virtual_dword diff_32 s) (\<lambda>_ s.
     Inr ((), SET_FLAGS_OSZAPC_32 op1_32 op2_32 diff_32 (BX_LF_INSTR_SUB_SBB32 temp_CF) s))))"

definition SBB_EdIdR :: handler where
  "SBB_EdIdR i s =
    (let temp_CF = getB_flag CF_flag s in
     let op2_32 = i_Id i in
     let op1_32 = BX_READ_32BIT_REG (i_rm i) s in
     let diff_32 = (op1_32 - (op2_32 + (of_bool temp_CF)) :: u32) in
     let s = BX_WRITE_32BIT_REGZ (i_rm i) diff_32 s in
     Inr ((), SET_FLAGS_OSZAPC_32 op1_32 op2_32 diff_32 (BX_LF_INSTR_SUB_SBB32 temp_CF) s))"

definition SUB_EdGdM :: handler where
  "SUB_EdGdM i s =
    (let eaddr = resolve i s in
     rbind (read_RMW_virtual_dword (i_seg i) eaddr s) (\<lambda>op1_32 s.
     let op2_32 = BX_READ_32BIT_REG (i_nnn i) s in
     let diff_32 = op1_32 - op2_32 in
     rbind (write_RMW_virtual_dword diff_32 s) (\<lambda>_ s.
     Inr ((), SET_FLAGS_OSZAPC_SUB_32 op1_32 op2_32 diff_32 s))))"

definition SUB_GdEdR :: handler where
  "SUB_GdEdR i s =
    (let op1_32 = BX_READ_32BIT_REG (i_nnn i) s in
     let op2_32 = BX_READ_32BIT_REG (i_rm i) s in
     let diff_32 = op1_32 - op2_32 in
     let s = BX_WRITE_32BIT_REGZ (i_nnn i) diff_32 s in
     Inr ((), SET_FLAGS_OSZAPC_SUB_32 op1_32 op2_32 diff_32 s))"

definition SUB_EAXId :: handler where
  "SUB_EAXId i s =
    (let op1_32 = EAX s in
     let op2_32 = i_Id i in
     let diff_32 = op1_32 - op2_32 in
     let s = set_RAX (ucast diff_32) s in
     Inr ((), SET_FLAGS_OSZAPC_SUB_32 op1_32 op2_32 diff_32 s))"

definition CMP_EdGdM :: handler where
  "CMP_EdGdM i s =
    (let eaddr = resolve i s in
     rbind (read_virtual_dword (i_seg i) eaddr s) (\<lambda>op1_32 s.
     let op2_32 = BX_READ_32BIT_REG (i_nnn i) s in
     let diff_32 = op1_32 - op2_32 in
     Inr ((), SET_FLAGS_OSZAPC_SUB_32 op1_32 op2_32 diff_32 s)))"

definition CMP_GdEdR :: handler where
  "CMP_GdEdR i s =
    (let op1_32 = BX_READ_32BIT_REG (i_nnn i) s in
     let op2_32 = BX_READ_32BIT_REG (i_rm i) s in
     let diff_32 = op1_32 - op2_32 in
     Inr ((), SET_FLAGS_OSZAPC_SUB_32 op1_32 op2_32 diff_32 s))"

definition CMP_EAXId :: handler where
  "CMP_EAXId i s =
    (let op1_32 = EAX s in
     let op2_32 = i_Id i in
     let diff_32 = op1_32 - op2_32 in
     Inr ((), SET_FLAGS_OSZAPC_SUB_32 op1_32 op2_32 diff_32 s))"

definition CWDE :: handler where
  "CWDE i s =
    (let tmp = (scast (AX s :: u16) :: u32) in
     Inr ((), set_RAX (ucast tmp) s))"

definition CDQ :: handler where
  "CDQ i s =
    ((if ((EAX s) AND 0x80000000) \<noteq> 0 then
       Inr ((), set_RDX 0xffffffff s)
     else
     Inr ((), set_RDX 0x00000000 s)))"

definition CMPXCHG_XBTS :: handler where
  "CMPXCHG_XBTS i s =
    (exception UD_EXCEPTION 0 s)"

definition CMPXCHG_IBTS :: handler where
  "CMPXCHG_IBTS i s =
    (exception UD_EXCEPTION 0 s)"

definition XADD_EdGdM :: handler where
  "XADD_EdGdM i s =
    (let eaddr = resolve i s in
     rbind (read_RMW_virtual_dword (i_seg i) eaddr s) (\<lambda>op1_32 s.
     let op2_32 = BX_READ_32BIT_REG (i_nnn i) s in
     let sum_32 = op1_32 + op2_32 in
     rbind (write_RMW_virtual_dword sum_32 s) (\<lambda>_ s.
     let s = BX_WRITE_32BIT_REGZ (i_nnn i) op1_32 s in
     Inr ((), SET_FLAGS_OSZAPC_ADD_32 op1_32 op2_32 sum_32 s))))"

definition XADD_EdGdR :: handler where
  "XADD_EdGdR i s =
    (let op1_32 = BX_READ_32BIT_REG (i_rm i) s in
     let op2_32 = BX_READ_32BIT_REG (i_nnn i) s in
     let sum_32 = op1_32 + op2_32 in
     let s = BX_WRITE_32BIT_REGZ (i_nnn i) op1_32 s in
     let s = BX_WRITE_32BIT_REGZ (i_rm i) sum_32 s in
     Inr ((), SET_FLAGS_OSZAPC_ADD_32 op1_32 op2_32 sum_32 s))"

definition ADD_EdIdM :: handler where
  "ADD_EdIdM i s =
    (let eaddr = resolve i s in
     rbind (read_RMW_virtual_dword (i_seg i) eaddr s) (\<lambda>op1_32 s.
     let op2_32 = i_Id i in
     let sum_32 = op1_32 + op2_32 in
     rbind (write_RMW_virtual_dword sum_32 s) (\<lambda>_ s.
     Inr ((), SET_FLAGS_OSZAPC_ADD_32 op1_32 op2_32 sum_32 s))))"

definition ADD_EdIdR :: handler where
  "ADD_EdIdR i s =
    (let op1_32 = BX_READ_32BIT_REG (i_rm i) s in
     let op2_32 = i_Id i in
     let sum_32 = op1_32 + op2_32 in
     let s = BX_WRITE_32BIT_REGZ (i_rm i) sum_32 s in
     Inr ((), SET_FLAGS_OSZAPC_ADD_32 op1_32 op2_32 sum_32 s))"

definition ADC_EdIdM :: handler where
  "ADC_EdIdM i s =
    (let temp_CF = getB_flag CF_flag s in
     let op2_32 = i_Id i in
     let eaddr = resolve i s in
     rbind (read_RMW_virtual_dword (i_seg i) eaddr s) (\<lambda>op1_32 s.
     let sum_32 = ((op1_32 + op2_32) + (of_bool temp_CF) :: u32) in
     rbind (write_RMW_virtual_dword sum_32 s) (\<lambda>_ s.
     Inr ((), SET_FLAGS_OSZAPC_32 op1_32 op2_32 sum_32 (BX_LF_INSTR_ADD_ADC32 temp_CF) s))))"

definition ADC_EdIdR :: handler where
  "ADC_EdIdR i s =
    (let temp_CF = getB_flag CF_flag s in
     let op2_32 = i_Id i in
     let op1_32 = BX_READ_32BIT_REG (i_rm i) s in
     let sum_32 = ((op1_32 + op2_32) + (of_bool temp_CF) :: u32) in
     let s = BX_WRITE_32BIT_REGZ (i_rm i) sum_32 s in
     Inr ((), SET_FLAGS_OSZAPC_32 op1_32 op2_32 sum_32 (BX_LF_INSTR_ADD_ADC32 temp_CF) s))"

definition SUB_EdIdM :: handler where
  "SUB_EdIdM i s =
    (let op2_32 = i_Id i in
     let eaddr = resolve i s in
     rbind (read_RMW_virtual_dword (i_seg i) eaddr s) (\<lambda>op1_32 s.
     let diff_32 = op1_32 - op2_32 in
     rbind (write_RMW_virtual_dword diff_32 s) (\<lambda>_ s.
     Inr ((), SET_FLAGS_OSZAPC_SUB_32 op1_32 op2_32 diff_32 s))))"

definition SUB_EdIdR :: handler where
  "SUB_EdIdR i s =
    (let op2_32 = i_Id i in
     let op1_32 = BX_READ_32BIT_REG (i_rm i) s in
     let diff_32 = op1_32 - op2_32 in
     let s = BX_WRITE_32BIT_REGZ (i_rm i) diff_32 s in
     Inr ((), SET_FLAGS_OSZAPC_SUB_32 op1_32 op2_32 diff_32 s))"

definition CMP_EdIdM :: handler where
  "CMP_EdIdM i s =
    (let eaddr = resolve i s in
     rbind (read_virtual_dword (i_seg i) eaddr s) (\<lambda>op1_32 s.
     let op2_32 = i_Id i in
     let diff_32 = op1_32 - op2_32 in
     Inr ((), SET_FLAGS_OSZAPC_SUB_32 op1_32 op2_32 diff_32 s)))"

definition CMP_EdIdR :: handler where
  "CMP_EdIdR i s =
    (let op1_32 = BX_READ_32BIT_REG (i_rm i) s in
     let op2_32 = i_Id i in
     let diff_32 = op1_32 - op2_32 in
     Inr ((), SET_FLAGS_OSZAPC_SUB_32 op1_32 op2_32 diff_32 s))"

definition NEG_EdM :: handler where
  "NEG_EdM i s =
    (let eaddr = resolve i s in
     rbind (read_RMW_virtual_dword (i_seg i) eaddr s) (\<lambda>op1_32 s.
     let op1_32 = - op1_32 in
     rbind (write_RMW_virtual_dword op1_32 s) (\<lambda>_ s.
     Inr ((), SET_FLAGS_OSZAPC_RESULT_32 op1_32 LF_NEG32 s))))"

definition NEG_EdR :: handler where
  "NEG_EdR i s =
    (let op1_32 = BX_READ_32BIT_REG (i_rm i) s in
     let op1_32 = - op1_32 in
     let s = BX_WRITE_32BIT_REGZ (i_rm i) op1_32 s in
     Inr ((), SET_FLAGS_OSZAPC_RESULT_32 op1_32 LF_NEG32 s))"

definition INC_EdM :: handler where
  "INC_EdM i s =
    (let eaddr = resolve i s in
     rbind (read_RMW_virtual_dword (i_seg i) eaddr s) (\<lambda>op1_32 s.
     let op1_32 = op1_32 + 1 in
     rbind (write_RMW_virtual_dword op1_32 s) (\<lambda>_ s.
     Inr ((), SET_FLAGS_OSZAPC_INC_32 op1_32 s))))"

definition DEC_EdM :: handler where
  "DEC_EdM i s =
    (let eaddr = resolve i s in
     rbind (read_RMW_virtual_dword (i_seg i) eaddr s) (\<lambda>op1_32 s.
     let op1_32 = op1_32 - 1 in
     rbind (write_RMW_virtual_dword op1_32 s) (\<lambda>_ s.
     Inr ((), SET_FLAGS_OSZAPC_DEC_32 op1_32 s))))"

definition CMPXCHG_EdGdM :: handler where
  "CMPXCHG_EdGdM i s =
    (let eaddr = resolve i s in
     rbind (read_RMW_virtual_dword (i_seg i) eaddr s) (\<lambda>op1_32 s.
     let diff_32 = (EAX s) - op1_32 in
     let s = SET_FLAGS_OSZAPC_SUB_32 (EAX s) op1_32 diff_32 s in
     (if diff_32 = 0 then
       let op2_32 = BX_READ_32BIT_REG (i_nnn i) s in
       write_RMW_virtual_dword op2_32 s
     else
     Inr ((), set_RAX (ucast op1_32) s))))"

definition CMPXCHG_EdGdR :: handler where
  "CMPXCHG_EdGdR i s =
    (let op1_32 = BX_READ_32BIT_REG (i_rm i) s in
     let diff_32 = (EAX s) - op1_32 in
     let s = SET_FLAGS_OSZAPC_SUB_32 (EAX s) op1_32 diff_32 s in
     (if diff_32 = 0 then
       let op2_32 = BX_READ_32BIT_REG (i_nnn i) s in
       Inr ((), BX_WRITE_32BIT_REGZ (i_rm i) op2_32 s)
     else
     Inr ((), set_RAX (ucast op1_32) s)))"

definition CMPXCHG8B :: handler where
  "CMPXCHG8B i s =
    (let eaddr = resolve i s in
     rbind (read_RMW_virtual_qword (i_seg i) eaddr s) (\<lambda>op1_64 s.
     let op2_64 = ((push_bit 32 (ucast (EDX s))) OR (ucast (EAX s)) :: u64) in
     (if op1_64 = op2_64 then
       let op2_64 = ((push_bit 32 (ucast (ECX s))) OR (ucast (EBX s)) :: u64) in
       rbind (write_RMW_virtual_qword op2_64 s) (\<lambda>_ s.
       Inr ((), assert_flag ZF_flag s))
     else
     let s = set_RAX (ucast (ucast op1_64 :: u32)) s in
     let s = set_RDX (ucast (ucast (drop_bit 32 op1_64 :: u64) :: u32)) s in
     Inr ((), clear_flag ZF_flag s))))"

section \<open>\<^verbatim>\<open>logical32.cc\<close>\<close>

definition XOR_EdGdM :: handler where
  "XOR_EdGdM i s =
    (let eaddr = resolve i s in
     rbind (read_RMW_virtual_dword (i_seg i) eaddr s) (\<lambda>op1_32 s.
     let op2_32 = BX_READ_32BIT_REG (i_nnn i) s in
     let op1_32 = op1_32 XOR op2_32 in
     rbind (write_RMW_virtual_dword op1_32 s) (\<lambda>_ s.
     Inr ((), SET_FLAGS_OSZAPC_LOGIC_32 op1_32 s))))"

definition XOR_GdEdR :: handler where
  "XOR_GdEdR i s =
    (let op1_32 = BX_READ_32BIT_REG (i_nnn i) s in
     let op2_32 = BX_READ_32BIT_REG (i_rm i) s in
     let op1_32 = op1_32 XOR op2_32 in
     let s = BX_WRITE_32BIT_REGZ (i_nnn i) op1_32 s in
     Inr ((), SET_FLAGS_OSZAPC_LOGIC_32 op1_32 s))"

definition XOR_EAXId :: handler where
  "XOR_EAXId i s =
    (let op1_32 = EAX s in
     let op1_32 = op1_32 XOR (i_Id i) in
     let s = set_RAX (ucast op1_32) s in
     Inr ((), SET_FLAGS_OSZAPC_LOGIC_32 op1_32 s))"

definition XOR_EdIdM :: handler where
  "XOR_EdIdM i s =
    (let eaddr = resolve i s in
     rbind (read_RMW_virtual_dword (i_seg i) eaddr s) (\<lambda>op1_32 s.
     let op1_32 = op1_32 XOR (i_Id i) in
     rbind (write_RMW_virtual_dword op1_32 s) (\<lambda>_ s.
     Inr ((), SET_FLAGS_OSZAPC_LOGIC_32 op1_32 s))))"

definition XOR_EdIdR :: handler where
  "XOR_EdIdR i s =
    (let op1_32 = BX_READ_32BIT_REG (i_rm i) s in
     let op1_32 = op1_32 XOR (i_Id i) in
     let s = BX_WRITE_32BIT_REGZ (i_rm i) op1_32 s in
     Inr ((), SET_FLAGS_OSZAPC_LOGIC_32 op1_32 s))"

definition OR_EdIdM :: handler where
  "OR_EdIdM i s =
    (let eaddr = resolve i s in
     rbind (read_RMW_virtual_dword (i_seg i) eaddr s) (\<lambda>op1_32 s.
     let op1_32 = op1_32 OR (i_Id i) in
     rbind (write_RMW_virtual_dword op1_32 s) (\<lambda>_ s.
     Inr ((), SET_FLAGS_OSZAPC_LOGIC_32 op1_32 s))))"

definition OR_EdIdR :: handler where
  "OR_EdIdR i s =
    (let op1_32 = BX_READ_32BIT_REG (i_rm i) s in
     let op1_32 = op1_32 OR (i_Id i) in
     let s = BX_WRITE_32BIT_REGZ (i_rm i) op1_32 s in
     Inr ((), SET_FLAGS_OSZAPC_LOGIC_32 op1_32 s))"

definition NOT_EdM :: handler where
  "NOT_EdM i s =
    (let eaddr = resolve i s in
     rbind (read_RMW_virtual_dword (i_seg i) eaddr s) (\<lambda>op1_32 s.
     let op1_32 = NOT op1_32 in
     write_RMW_virtual_dword op1_32 s))"

definition NOT_EdR :: handler where
  "NOT_EdR i s =
    (let op1_32 = BX_READ_32BIT_REG (i_rm i) s in
     let op1_32 = NOT op1_32 in
     Inr ((), BX_WRITE_32BIT_REGZ (i_rm i) op1_32 s))"

definition OR_EdGdM :: handler where
  "OR_EdGdM i s =
    (let eaddr = resolve i s in
     rbind (read_RMW_virtual_dword (i_seg i) eaddr s) (\<lambda>op1_32 s.
     let op2_32 = BX_READ_32BIT_REG (i_nnn i) s in
     let op1_32 = op1_32 OR op2_32 in
     rbind (write_RMW_virtual_dword op1_32 s) (\<lambda>_ s.
     Inr ((), SET_FLAGS_OSZAPC_LOGIC_32 op1_32 s))))"

definition OR_GdEdR :: handler where
  "OR_GdEdR i s =
    (let op1_32 = BX_READ_32BIT_REG (i_nnn i) s in
     let op2_32 = BX_READ_32BIT_REG (i_rm i) s in
     let op1_32 = op1_32 OR op2_32 in
     let s = BX_WRITE_32BIT_REGZ (i_nnn i) op1_32 s in
     Inr ((), SET_FLAGS_OSZAPC_LOGIC_32 op1_32 s))"

definition OR_EAXId :: handler where
  "OR_EAXId i s =
    (let op1_32 = EAX s in
     let op2_32 = i_Id i in
     let op1_32 = op1_32 OR op2_32 in
     let s = set_RAX (ucast op1_32) s in
     Inr ((), SET_FLAGS_OSZAPC_LOGIC_32 op1_32 s))"

definition AND_EdGdM :: handler where
  "AND_EdGdM i s =
    (let eaddr = resolve i s in
     rbind (read_RMW_virtual_dword (i_seg i) eaddr s) (\<lambda>op1_32 s.
     let op2_32 = BX_READ_32BIT_REG (i_nnn i) s in
     let op1_32 = op1_32 AND op2_32 in
     rbind (write_RMW_virtual_dword op1_32 s) (\<lambda>_ s.
     Inr ((), SET_FLAGS_OSZAPC_LOGIC_32 op1_32 s))))"

definition AND_GdEdR :: handler where
  "AND_GdEdR i s =
    (let op1_32 = BX_READ_32BIT_REG (i_nnn i) s in
     let op2_32 = BX_READ_32BIT_REG (i_rm i) s in
     let op1_32 = op1_32 AND op2_32 in
     let s = BX_WRITE_32BIT_REGZ (i_nnn i) op1_32 s in
     Inr ((), SET_FLAGS_OSZAPC_LOGIC_32 op1_32 s))"

definition AND_EAXId :: handler where
  "AND_EAXId i s =
    (let op1_32 = EAX s in
     let op2_32 = i_Id i in
     let op1_32 = op1_32 AND op2_32 in
     let s = set_RAX (ucast op1_32) s in
     Inr ((), SET_FLAGS_OSZAPC_LOGIC_32 op1_32 s))"

definition AND_EdIdM :: handler where
  "AND_EdIdM i s =
    (let eaddr = resolve i s in
     rbind (read_RMW_virtual_dword (i_seg i) eaddr s) (\<lambda>op1_32 s.
     let op1_32 = op1_32 AND (i_Id i) in
     rbind (write_RMW_virtual_dword op1_32 s) (\<lambda>_ s.
     Inr ((), SET_FLAGS_OSZAPC_LOGIC_32 op1_32 s))))"

definition AND_EdIdR :: handler where
  "AND_EdIdR i s =
    (let op1_32 = BX_READ_32BIT_REG (i_rm i) s in
     let op1_32 = op1_32 AND (i_Id i) in
     let s = BX_WRITE_32BIT_REGZ (i_rm i) op1_32 s in
     Inr ((), SET_FLAGS_OSZAPC_LOGIC_32 op1_32 s))"

definition TEST_EdGdR :: handler where
  "TEST_EdGdR i s =
    (let op1_32 = BX_READ_32BIT_REG (i_rm i) s in
     let op2_32 = BX_READ_32BIT_REG (i_nnn i) s in
     let op1_32 = op1_32 AND op2_32 in
     Inr ((), SET_FLAGS_OSZAPC_LOGIC_32 op1_32 s))"

definition TEST_EAXId :: handler where
  "TEST_EAXId i s =
    (let op1_32 = EAX s in
     let op2_32 = i_Id i in
     let op1_32 = op1_32 AND op2_32 in
     Inr ((), SET_FLAGS_OSZAPC_LOGIC_32 op1_32 s))"

definition TEST_EdIdR :: handler where
  "TEST_EdIdR i s =
    (let op1_32 = BX_READ_32BIT_REG (i_rm i) s in
     let op1_32 = op1_32 AND (i_Id i) in
     Inr ((), SET_FLAGS_OSZAPC_LOGIC_32 op1_32 s))"

end
