(* ===== verification/Cpu_Alu64.thy ===== *)
theory Cpu_Alu64
  imports Cpu_Registers
begin

text \<open>
  Arithmetic and logic of 64 bits (\<^verbatim>\<open>src/sim/bochs/cpu/arith64.cc\<close>, \<^verbatim>\<open>logical64.cc\<close>), one definition per handler.
\<close>

unbundle bit_operations_syntax

section \<open>\<^verbatim>\<open>arith64.cc\<close>\<close>

definition ADD_EqGqM :: handler where
  "ADD_EqGqM i s =
    (let eaddr = resolve i s in
     rbind (read_RMW_virtual_qword_64 (i_seg i) eaddr s) (\<lambda>op1_64 s.
     let op2_64 = BX_READ_64BIT_REG (i_nnn i) s in
     let sum_64 = op1_64 + op2_64 in
     rbind (write_RMW_virtual_qword sum_64 s) (\<lambda>_ s.
     Inr ((), SET_FLAGS_OSZAPC_ADD_64 op1_64 op2_64 sum_64 s))))"

definition ADD_GqEqR :: handler where
  "ADD_GqEqR i s =
    (let op1_64 = BX_READ_64BIT_REG (i_nnn i) s in
     let op2_64 = BX_READ_64BIT_REG (i_rm i) s in
     let sum_64 = op1_64 + op2_64 in
     let s = BX_WRITE_64BIT_REG (i_nnn i) sum_64 s in
     Inr ((), SET_FLAGS_OSZAPC_ADD_64 op1_64 op2_64 sum_64 s))"

definition ADD_RAXId :: handler where
  "ADD_RAXId i s =
    (let op1_64 = RAX s in
     let op2_64 = (scast (i_Id i :: u32) :: u64) in
     let sum_64 = op1_64 + op2_64 in
     let s = set_RAX sum_64 s in
     Inr ((), SET_FLAGS_OSZAPC_ADD_64 op1_64 op2_64 sum_64 s))"

definition ADC_EqGqM :: handler where
  "ADC_EqGqM i s =
    (let temp_CF = getB_flag CF_flag s in
     let eaddr = resolve i s in
     rbind (read_RMW_virtual_qword_64 (i_seg i) eaddr s) (\<lambda>op1_64 s.
     let op2_64 = BX_READ_64BIT_REG (i_nnn i) s in
     let sum_64 = ((op1_64 + op2_64) + (of_bool temp_CF) :: u64) in
     rbind (write_RMW_virtual_qword sum_64 s) (\<lambda>_ s.
     Inr ((), SET_FLAGS_OSZAPC_64 op1_64 op2_64 sum_64 (BX_LF_INSTR_ADD_ADC64 temp_CF) s))))"

definition ADC_GqEqR :: handler where
  "ADC_GqEqR i s =
    (let temp_CF = getB_flag CF_flag s in
     let op1_64 = BX_READ_64BIT_REG (i_nnn i) s in
     let op2_64 = BX_READ_64BIT_REG (i_rm i) s in
     let sum_64 = ((op1_64 + op2_64) + (of_bool temp_CF) :: u64) in
     let s = BX_WRITE_64BIT_REG (i_nnn i) sum_64 s in
     Inr ((), SET_FLAGS_OSZAPC_64 op1_64 op2_64 sum_64 (BX_LF_INSTR_ADD_ADC64 temp_CF) s))"

definition ADC_RAXId :: handler where
  "ADC_RAXId i s =
    (let temp_CF = getB_flag CF_flag s in
     let op1_64 = RAX s in
     let op2_64 = (scast (i_Id i :: u32) :: u64) in
     let sum_64 = ((op1_64 + op2_64) + (of_bool temp_CF) :: u64) in
     let s = set_RAX sum_64 s in
     Inr ((), SET_FLAGS_OSZAPC_64 op1_64 op2_64 sum_64 (BX_LF_INSTR_ADD_ADC64 temp_CF) s))"

definition SBB_EqGqM :: handler where
  "SBB_EqGqM i s =
    (let temp_CF = getB_flag CF_flag s in
     let eaddr = resolve i s in
     rbind (read_RMW_virtual_qword_64 (i_seg i) eaddr s) (\<lambda>op1_64 s.
     let op2_64 = BX_READ_64BIT_REG (i_nnn i) s in
     let diff_64 = (op1_64 - (op2_64 + (of_bool temp_CF)) :: u64) in
     rbind (write_RMW_virtual_qword diff_64 s) (\<lambda>_ s.
     Inr ((), SET_FLAGS_OSZAPC_64 op1_64 op2_64 diff_64 (BX_LF_INSTR_SUB_SBB64 temp_CF) s))))"

definition SBB_GqEqR :: handler where
  "SBB_GqEqR i s =
    (let temp_CF = getB_flag CF_flag s in
     let op1_64 = BX_READ_64BIT_REG (i_nnn i) s in
     let op2_64 = BX_READ_64BIT_REG (i_rm i) s in
     let diff_64 = (op1_64 - (op2_64 + (of_bool temp_CF)) :: u64) in
     let s = BX_WRITE_64BIT_REG (i_nnn i) diff_64 s in
     Inr ((), SET_FLAGS_OSZAPC_64 op1_64 op2_64 diff_64 (BX_LF_INSTR_SUB_SBB64 temp_CF) s))"

definition SBB_RAXId :: handler where
  "SBB_RAXId i s =
    (let temp_CF = getB_flag CF_flag s in
     let op1_64 = RAX s in
     let op2_64 = (scast (i_Id i :: u32) :: u64) in
     let diff_64 = (op1_64 - (op2_64 + (of_bool temp_CF)) :: u64) in
     let s = set_RAX diff_64 s in
     Inr ((), SET_FLAGS_OSZAPC_64 op1_64 op2_64 diff_64 (BX_LF_INSTR_SUB_SBB64 temp_CF) s))"

definition SBB_EqIdM :: handler where
  "SBB_EqIdM i s =
    (let temp_CF = getB_flag CF_flag s in
     let eaddr = resolve i s in
     rbind (read_RMW_virtual_qword_64 (i_seg i) eaddr s) (\<lambda>op1_64 s.
     let op2_64 = (scast (i_Id i :: u32) :: u64) in
     let diff_64 = (op1_64 - (op2_64 + (of_bool temp_CF)) :: u64) in
     rbind (write_RMW_virtual_qword diff_64 s) (\<lambda>_ s.
     Inr ((), SET_FLAGS_OSZAPC_64 op1_64 op2_64 diff_64 (BX_LF_INSTR_SUB_SBB64 temp_CF) s))))"

definition SBB_EqIdR :: handler where
  "SBB_EqIdR i s =
    (let temp_CF = getB_flag CF_flag s in
     let op1_64 = BX_READ_64BIT_REG (i_rm i) s in
     let op2_64 = (scast (i_Id i :: u32) :: u64) in
     let diff_64 = (op1_64 - (op2_64 + (of_bool temp_CF)) :: u64) in
     let s = BX_WRITE_64BIT_REG (i_rm i) diff_64 s in
     Inr ((), SET_FLAGS_OSZAPC_64 op1_64 op2_64 diff_64 (BX_LF_INSTR_SUB_SBB64 temp_CF) s))"

definition SUB_EqGqM :: handler where
  "SUB_EqGqM i s =
    (let eaddr = resolve i s in
     rbind (read_RMW_virtual_qword_64 (i_seg i) eaddr s) (\<lambda>op1_64 s.
     let op2_64 = BX_READ_64BIT_REG (i_nnn i) s in
     let diff_64 = op1_64 - op2_64 in
     rbind (write_RMW_virtual_qword diff_64 s) (\<lambda>_ s.
     Inr ((), SET_FLAGS_OSZAPC_SUB_64 op1_64 op2_64 diff_64 s))))"

definition SUB_GqEqR :: handler where
  "SUB_GqEqR i s =
    (let op1_64 = BX_READ_64BIT_REG (i_nnn i) s in
     let op2_64 = BX_READ_64BIT_REG (i_rm i) s in
     let diff_64 = op1_64 - op2_64 in
     let s = BX_WRITE_64BIT_REG (i_nnn i) diff_64 s in
     Inr ((), SET_FLAGS_OSZAPC_SUB_64 op1_64 op2_64 diff_64 s))"

definition SUB_RAXId :: handler where
  "SUB_RAXId i s =
    (let op1_64 = RAX s in
     let op2_64 = (scast (i_Id i :: u32) :: u64) in
     let diff_64 = op1_64 - op2_64 in
     let s = set_RAX diff_64 s in
     Inr ((), SET_FLAGS_OSZAPC_SUB_64 op1_64 op2_64 diff_64 s))"

definition CMP_EqGqM :: handler where
  "CMP_EqGqM i s =
    (let eaddr = resolve i s in
     rbind (read_virtual_qword_64 (i_seg i) eaddr s) (\<lambda>op1_64 s.
     let op2_64 = BX_READ_64BIT_REG (i_nnn i) s in
     let diff_64 = op1_64 - op2_64 in
     Inr ((), SET_FLAGS_OSZAPC_SUB_64 op1_64 op2_64 diff_64 s)))"

definition CMP_GqEqR :: handler where
  "CMP_GqEqR i s =
    (let op1_64 = BX_READ_64BIT_REG (i_nnn i) s in
     let op2_64 = BX_READ_64BIT_REG (i_rm i) s in
     let diff_64 = op1_64 - op2_64 in
     Inr ((), SET_FLAGS_OSZAPC_SUB_64 op1_64 op2_64 diff_64 s))"

definition CMP_RAXId :: handler where
  "CMP_RAXId i s =
    (let op1_64 = RAX s in
     let op2_64 = (scast (i_Id i :: u32) :: u64) in
     let diff_64 = op1_64 - op2_64 in
     Inr ((), SET_FLAGS_OSZAPC_SUB_64 op1_64 op2_64 diff_64 s))"

definition CDQE :: handler where
  "CDQE i s =
    (Inr ((), set_RAX (scast (EAX s :: u32)) s))"

definition CQO :: handler where
  "CQO i s =
    ((if ((RAX s) AND 0x8000000000000000) \<noteq> 0 then
       Inr ((), set_RDX 0xffffffffffffffff s)
     else
     Inr ((), set_RDX 0 s)))"

definition XADD_EqGqM :: handler where
  "XADD_EqGqM i s =
    (let eaddr = resolve i s in
     rbind (read_RMW_virtual_qword_64 (i_seg i) eaddr s) (\<lambda>op1_64 s.
     let op2_64 = BX_READ_64BIT_REG (i_nnn i) s in
     let sum_64 = op1_64 + op2_64 in
     rbind (write_RMW_virtual_qword sum_64 s) (\<lambda>_ s.
     let s = BX_WRITE_64BIT_REG (i_nnn i) op1_64 s in
     Inr ((), SET_FLAGS_OSZAPC_ADD_64 op1_64 op2_64 sum_64 s))))"

definition XADD_EqGqR :: handler where
  "XADD_EqGqR i s =
    (let op1_64 = BX_READ_64BIT_REG (i_rm i) s in
     let op2_64 = BX_READ_64BIT_REG (i_nnn i) s in
     let sum_64 = op1_64 + op2_64 in
     let s = BX_WRITE_64BIT_REG (i_nnn i) op1_64 s in
     let s = BX_WRITE_64BIT_REG (i_rm i) sum_64 s in
     Inr ((), SET_FLAGS_OSZAPC_ADD_64 op1_64 op2_64 sum_64 s))"

definition ADD_EqIdM :: handler where
  "ADD_EqIdM i s =
    (let eaddr = resolve i s in
     rbind (read_RMW_virtual_qword_64 (i_seg i) eaddr s) (\<lambda>op1_64 s.
     let op2_64 = (scast (i_Id i :: u32) :: u64) in
     let sum_64 = op1_64 + op2_64 in
     rbind (write_RMW_virtual_qword sum_64 s) (\<lambda>_ s.
     Inr ((), SET_FLAGS_OSZAPC_ADD_64 op1_64 op2_64 sum_64 s))))"

definition ADD_EqIdR :: handler where
  "ADD_EqIdR i s =
    (let op1_64 = BX_READ_64BIT_REG (i_rm i) s in
     let op2_64 = (scast (i_Id i :: u32) :: u64) in
     let sum_64 = op1_64 + op2_64 in
     let s = BX_WRITE_64BIT_REG (i_rm i) sum_64 s in
     Inr ((), SET_FLAGS_OSZAPC_ADD_64 op1_64 op2_64 sum_64 s))"

definition ADC_EqIdM :: handler where
  "ADC_EqIdM i s =
    (let temp_CF = getB_flag CF_flag s in
     let eaddr = resolve i s in
     rbind (read_RMW_virtual_qword_64 (i_seg i) eaddr s) (\<lambda>op1_64 s.
     let op2_64 = (scast (i_Id i :: u32) :: u64) in
     let sum_64 = ((op1_64 + op2_64) + (of_bool temp_CF) :: u64) in
     rbind (write_RMW_virtual_qword sum_64 s) (\<lambda>_ s.
     Inr ((), SET_FLAGS_OSZAPC_64 op1_64 op2_64 sum_64 (BX_LF_INSTR_ADD_ADC64 temp_CF) s))))"

definition ADC_EqIdR :: handler where
  "ADC_EqIdR i s =
    (let temp_CF = getB_flag CF_flag s in
     let op1_64 = BX_READ_64BIT_REG (i_rm i) s in
     let op2_64 = (scast (i_Id i :: u32) :: u64) in
     let sum_64 = ((op1_64 + op2_64) + (of_bool temp_CF) :: u64) in
     let s = BX_WRITE_64BIT_REG (i_rm i) sum_64 s in
     Inr ((), SET_FLAGS_OSZAPC_64 op1_64 op2_64 sum_64 (BX_LF_INSTR_ADD_ADC64 temp_CF) s))"

definition SUB_EqIdM :: handler where
  "SUB_EqIdM i s =
    (let eaddr = resolve i s in
     rbind (read_RMW_virtual_qword_64 (i_seg i) eaddr s) (\<lambda>op1_64 s.
     let op2_64 = (scast (i_Id i :: u32) :: u64) in
     let diff_64 = op1_64 - op2_64 in
     rbind (write_RMW_virtual_qword diff_64 s) (\<lambda>_ s.
     Inr ((), SET_FLAGS_OSZAPC_SUB_64 op1_64 op2_64 diff_64 s))))"

definition SUB_EqIdR :: handler where
  "SUB_EqIdR i s =
    (let op1_64 = BX_READ_64BIT_REG (i_rm i) s in
     let op2_64 = (scast (i_Id i :: u32) :: u64) in
     let diff_64 = op1_64 - op2_64 in
     let s = BX_WRITE_64BIT_REG (i_rm i) diff_64 s in
     Inr ((), SET_FLAGS_OSZAPC_SUB_64 op1_64 op2_64 diff_64 s))"

definition CMP_EqIdM :: handler where
  "CMP_EqIdM i s =
    (let eaddr = resolve i s in
     rbind (read_virtual_qword_64 (i_seg i) eaddr s) (\<lambda>op1_64 s.
     let op2_64 = (scast (i_Id i :: u32) :: u64) in
     let diff_64 = op1_64 - op2_64 in
     Inr ((), SET_FLAGS_OSZAPC_SUB_64 op1_64 op2_64 diff_64 s)))"

definition CMP_EqIdR :: handler where
  "CMP_EqIdR i s =
    (let op1_64 = BX_READ_64BIT_REG (i_rm i) s in
     let op2_64 = (scast (i_Id i :: u32) :: u64) in
     let diff_64 = op1_64 - op2_64 in
     Inr ((), SET_FLAGS_OSZAPC_SUB_64 op1_64 op2_64 diff_64 s))"

definition NEG_EqM :: handler where
  "NEG_EqM i s =
    (let eaddr = resolve i s in
     rbind (read_RMW_virtual_qword_64 (i_seg i) eaddr s) (\<lambda>op1_64 s.
     let op1_64 = - op1_64 in
     rbind (write_RMW_virtual_qword op1_64 s) (\<lambda>_ s.
     Inr ((), SET_FLAGS_OSZAPC_RESULT_64 op1_64 LF_NEG64 s))))"

definition NEG_EqR :: handler where
  "NEG_EqR i s =
    (let op1_64 = BX_READ_64BIT_REG (i_rm i) s in
     let op1_64 = - op1_64 in
     let s = BX_WRITE_64BIT_REG (i_rm i) op1_64 s in
     Inr ((), SET_FLAGS_OSZAPC_RESULT_64 op1_64 LF_NEG64 s))"

definition INC_EqM :: handler where
  "INC_EqM i s =
    (let eaddr = resolve i s in
     rbind (read_RMW_virtual_qword_64 (i_seg i) eaddr s) (\<lambda>op1_64 s.
     let op1_64 = op1_64 + 1 in
     rbind (write_RMW_virtual_qword op1_64 s) (\<lambda>_ s.
     Inr ((), SET_FLAGS_OSZAPC_INC_64 op1_64 s))))"

definition INC_EqR :: handler where
  "INC_EqR i s =
    (let rrx = BX_READ_64BIT_REG (i_rm i) s + 1 in
     let s = set_rrx (i_rm i) rrx s in
     Inr ((), SET_FLAGS_OSZAPC_INC_64 rrx s))"

definition DEC_EqM :: handler where
  "DEC_EqM i s =
    (let eaddr = resolve i s in
     rbind (read_RMW_virtual_qword_64 (i_seg i) eaddr s) (\<lambda>op1_64 s.
     let op1_64 = op1_64 - 1 in
     rbind (write_RMW_virtual_qword op1_64 s) (\<lambda>_ s.
     Inr ((), SET_FLAGS_OSZAPC_DEC_64 op1_64 s))))"

definition DEC_EqR :: handler where
  "DEC_EqR i s =
    (let rrx = BX_READ_64BIT_REG (i_rm i) s - 1 in
     let s = set_rrx (i_rm i) rrx s in
     Inr ((), SET_FLAGS_OSZAPC_INC_64 rrx s))"

definition CMPXCHG_EqGqM :: handler where
  "CMPXCHG_EqGqM i s =
    (let eaddr = resolve i s in
     rbind (read_RMW_virtual_qword_64 (i_seg i) eaddr s) (\<lambda>op1_64 s.
     let diff_64 = (RAX s) - op1_64 in
     let s = SET_FLAGS_OSZAPC_SUB_64 (RAX s) op1_64 diff_64 s in
     (if diff_64 = 0 then
       let op2_64 = BX_READ_64BIT_REG (i_nnn i) s in
       write_RMW_virtual_qword op2_64 s
     else
     Inr ((), set_RAX op1_64 s))))"

definition CMPXCHG_EqGqR :: handler where
  "CMPXCHG_EqGqR i s =
    (let op1_64 = BX_READ_64BIT_REG (i_rm i) s in
     let diff_64 = (RAX s) - op1_64 in
     let s = SET_FLAGS_OSZAPC_SUB_64 (RAX s) op1_64 diff_64 s in
     (if diff_64 = 0 then
       let op2_64 = BX_READ_64BIT_REG (i_nnn i) s in
       Inr ((), BX_WRITE_64BIT_REG (i_rm i) op2_64 s)
     else
     Inr ((), set_RAX op1_64 s)))"

definition CMPXCHG16B :: handler where
  "CMPXCHG16B i s =
    (let eaddr = resolve i s in
     let laddr = get_laddr64 (i_seg i) eaddr s in
     (if (laddr AND 0xf) \<noteq> 0 then
       exception GP_EXCEPTION 0 s
     else
     rbind (read_RMW_virtual_qword_64 (i_seg i) eaddr s) (\<lambda>op1_64_lo s.
     rbind (read_RMW_virtual_qword_64 (i_seg i) (eaddr + 8) s) (\<lambda>op1_64_hi s.
     let diff = (RAX s) - op1_64_lo in
     let diff = diff OR ((RDX s) - op1_64_hi) in
     (if diff = 0 then
       rbind (write_RMW_virtual_qword (RCX s) s) (\<lambda>_ s.
       rbind (write_virtual_qword_64 (i_seg i) eaddr (RBX s) s) (\<lambda>_ s.
       Inr ((), assert_flag ZF_flag s)))
     else
     let s = clear_flag ZF_flag s in
     let s = set_RAX op1_64_lo s in
     Inr ((), set_RDX op1_64_hi s))))))"

section \<open>\<^verbatim>\<open>logical64.cc\<close>\<close>

definition XOR_EqGqM :: handler where
  "XOR_EqGqM i s =
    (let eaddr = resolve i s in
     rbind (read_RMW_virtual_qword_64 (i_seg i) eaddr s) (\<lambda>op1_64 s.
     let op2_64 = BX_READ_64BIT_REG (i_nnn i) s in
     let op1_64 = op1_64 XOR op2_64 in
     rbind (write_RMW_virtual_qword op1_64 s) (\<lambda>_ s.
     Inr ((), SET_FLAGS_OSZAPC_LOGIC_64 op1_64 s))))"

definition XOR_GqEqR :: handler where
  "XOR_GqEqR i s =
    (let op1_64 = BX_READ_64BIT_REG (i_nnn i) s in
     let op2_64 = BX_READ_64BIT_REG (i_rm i) s in
     let op1_64 = op1_64 XOR op2_64 in
     let s = BX_WRITE_64BIT_REG (i_nnn i) op1_64 s in
     Inr ((), SET_FLAGS_OSZAPC_LOGIC_64 op1_64 s))"

definition XOR_RAXId :: handler where
  "XOR_RAXId i s =
    (let op1_64 = RAX s in
     let op2_64 = (scast (i_Id i :: u32) :: u64) in
     let op1_64 = op1_64 XOR op2_64 in
     let s = set_RAX op1_64 s in
     Inr ((), SET_FLAGS_OSZAPC_LOGIC_64 op1_64 s))"

definition XOR_EqIdM :: handler where
  "XOR_EqIdM i s =
    (let op2_64 = (scast (i_Id i :: u32) :: u64) in
     let eaddr = resolve i s in
     rbind (read_RMW_virtual_qword_64 (i_seg i) eaddr s) (\<lambda>op1_64 s.
     let op1_64 = op1_64 XOR op2_64 in
     rbind (write_RMW_virtual_qword op1_64 s) (\<lambda>_ s.
     Inr ((), SET_FLAGS_OSZAPC_LOGIC_64 op1_64 s))))"

definition XOR_EqIdR :: handler where
  "XOR_EqIdR i s =
    (let op2_64 = (scast (i_Id i :: u32) :: u64) in
     let op1_64 = BX_READ_64BIT_REG (i_rm i) s in
     let op1_64 = op1_64 XOR op2_64 in
     let s = BX_WRITE_64BIT_REG (i_rm i) op1_64 s in
     Inr ((), SET_FLAGS_OSZAPC_LOGIC_64 op1_64 s))"

definition OR_EqIdM :: handler where
  "OR_EqIdM i s =
    (let op2_64 = (scast (i_Id i :: u32) :: u64) in
     let eaddr = resolve i s in
     rbind (read_RMW_virtual_qword_64 (i_seg i) eaddr s) (\<lambda>op1_64 s.
     let op1_64 = op1_64 OR op2_64 in
     rbind (write_RMW_virtual_qword op1_64 s) (\<lambda>_ s.
     Inr ((), SET_FLAGS_OSZAPC_LOGIC_64 op1_64 s))))"

definition OR_EqIdR :: handler where
  "OR_EqIdR i s =
    (let op2_64 = (scast (i_Id i :: u32) :: u64) in
     let op1_64 = BX_READ_64BIT_REG (i_rm i) s in
     let op1_64 = op1_64 OR op2_64 in
     let s = BX_WRITE_64BIT_REG (i_rm i) op1_64 s in
     Inr ((), SET_FLAGS_OSZAPC_LOGIC_64 op1_64 s))"

definition NOT_EqM :: handler where
  "NOT_EqM i s =
    (let eaddr = resolve i s in
     rbind (read_RMW_virtual_qword_64 (i_seg i) eaddr s) (\<lambda>op1_64 s.
     let op1_64 = NOT op1_64 in
     write_RMW_virtual_qword op1_64 s))"

definition NOT_EqR :: handler where
  "NOT_EqR i s =
    (let op1_64 = BX_READ_64BIT_REG (i_rm i) s in
     let op1_64 = NOT op1_64 in
     Inr ((), BX_WRITE_64BIT_REG (i_rm i) op1_64 s))"

definition OR_EqGqM :: handler where
  "OR_EqGqM i s =
    (let eaddr = resolve i s in
     rbind (read_RMW_virtual_qword_64 (i_seg i) eaddr s) (\<lambda>op1_64 s.
     let op2_64 = BX_READ_64BIT_REG (i_nnn i) s in
     let op1_64 = op1_64 OR op2_64 in
     rbind (write_RMW_virtual_qword op1_64 s) (\<lambda>_ s.
     Inr ((), SET_FLAGS_OSZAPC_LOGIC_64 op1_64 s))))"

definition OR_GqEqR :: handler where
  "OR_GqEqR i s =
    (let op1_64 = BX_READ_64BIT_REG (i_nnn i) s in
     let op2_64 = BX_READ_64BIT_REG (i_rm i) s in
     let op1_64 = op1_64 OR op2_64 in
     let s = BX_WRITE_64BIT_REG (i_nnn i) op1_64 s in
     Inr ((), SET_FLAGS_OSZAPC_LOGIC_64 op1_64 s))"

definition OR_RAXId :: handler where
  "OR_RAXId i s =
    (let op1_64 = RAX s in
     let op2_64 = (scast (i_Id i :: u32) :: u64) in
     let op1_64 = op1_64 OR op2_64 in
     let s = set_RAX op1_64 s in
     Inr ((), SET_FLAGS_OSZAPC_LOGIC_64 op1_64 s))"

definition AND_EqGqM :: handler where
  "AND_EqGqM i s =
    (let eaddr = resolve i s in
     rbind (read_RMW_virtual_qword_64 (i_seg i) eaddr s) (\<lambda>op1_64 s.
     let op2_64 = BX_READ_64BIT_REG (i_nnn i) s in
     let op1_64 = op1_64 AND op2_64 in
     rbind (write_RMW_virtual_qword op1_64 s) (\<lambda>_ s.
     Inr ((), SET_FLAGS_OSZAPC_LOGIC_64 op1_64 s))))"

definition AND_GqEqR :: handler where
  "AND_GqEqR i s =
    (let op1_64 = BX_READ_64BIT_REG (i_nnn i) s in
     let op2_64 = BX_READ_64BIT_REG (i_rm i) s in
     let op1_64 = op1_64 AND op2_64 in
     let s = BX_WRITE_64BIT_REG (i_nnn i) op1_64 s in
     Inr ((), SET_FLAGS_OSZAPC_LOGIC_64 op1_64 s))"

definition AND_RAXId :: handler where
  "AND_RAXId i s =
    (let op1_64 = RAX s in
     let op2_64 = (scast (i_Id i :: u32) :: u64) in
     let op1_64 = op1_64 AND op2_64 in
     let s = set_RAX op1_64 s in
     Inr ((), SET_FLAGS_OSZAPC_LOGIC_64 op1_64 s))"

definition AND_EqIdM :: handler where
  "AND_EqIdM i s =
    (let op2_64 = (scast (i_Id i :: u32) :: u64) in
     let eaddr = resolve i s in
     rbind (read_RMW_virtual_qword_64 (i_seg i) eaddr s) (\<lambda>op1_64 s.
     let op1_64 = op1_64 AND op2_64 in
     rbind (write_RMW_virtual_qword op1_64 s) (\<lambda>_ s.
     Inr ((), SET_FLAGS_OSZAPC_LOGIC_64 op1_64 s))))"

definition AND_EqIdR :: handler where
  "AND_EqIdR i s =
    (let op2_64 = (scast (i_Id i :: u32) :: u64) in
     let op1_64 = BX_READ_64BIT_REG (i_rm i) s in
     let op1_64 = op1_64 AND op2_64 in
     let s = BX_WRITE_64BIT_REG (i_rm i) op1_64 s in
     Inr ((), SET_FLAGS_OSZAPC_LOGIC_64 op1_64 s))"

definition TEST_EqGqR :: handler where
  "TEST_EqGqR i s =
    (let op1_64 = BX_READ_64BIT_REG (i_rm i) s in
     let op2_64 = BX_READ_64BIT_REG (i_nnn i) s in
     let op1_64 = op1_64 AND op2_64 in
     Inr ((), SET_FLAGS_OSZAPC_LOGIC_64 op1_64 s))"

definition TEST_RAXId :: handler where
  "TEST_RAXId i s =
    (let op1_64 = RAX s in
     let op2_64 = (scast (i_Id i :: u32) :: u64) in
     let op1_64 = op1_64 AND op2_64 in
     Inr ((), SET_FLAGS_OSZAPC_LOGIC_64 op1_64 s))"

definition TEST_EqIdR :: handler where
  "TEST_EqIdR i s =
    (let op1_64 = BX_READ_64BIT_REG (i_rm i) s in
     let op2_64 = (scast (i_Id i :: u32) :: u64) in
     let op1_64 = op1_64 AND op2_64 in
     Inr ((), SET_FLAGS_OSZAPC_LOGIC_64 op1_64 s))"

end
