(* ===== verification/Cpu_Shift.thy ===== *)
theory Cpu_Shift
  imports Cpu_Registers
begin

text \<open>
  Shifts and rotates (\<^verbatim>\<open>src/sim/bochs/cpu/shift8.cc\<close>, \<^verbatim>\<open>shift16.cc\<close>, \<^verbatim>\<open>shift32.cc\<close>, \<^verbatim>\<open>shift64.cc\<close>), one definition per handler.
\<close>

unbundle bit_operations_syntax

section \<open>\<^verbatim>\<open>shift8.cc\<close>\<close>

definition ROL_Eb :: handler where
  "ROL_Eb i s =
    (let count =
       (if (b1 i) = 0xd2 then
         (ucast (CL s) :: u32)
       else
         (ucast (i_Ib i) :: u32)) in
     rbind (if modC0 i then
         Inr (BX_READ_8BIT_REGx (i_rm i) (extend8bitL i) s, s)
       else
         let eaddr = resolve i s in
         read_RMW_virtual_byte (i_seg i) eaddr s)
     (\<lambda>op1_8 s.
     (if (count AND 0x07) = 0 then
       let s =
         (if (count AND 0x18) \<noteq> 0 then
           let bit0 = ((ucast op1_8) AND 1 :: u32) in
           let bit7 = (ucast (drop_bit 7 op1_8 :: u8) :: u32) in
           SET_FLAGS_OxxxxC (bit0 XOR bit7) bit0 s
         else
           s) in
       Inr ((), s)
     else
     let count = count AND 0x7 in
     let result_8 = (push_bit (unat count) op1_8) OR (drop_bit (unat (8 - count)) op1_8) in
     rbind (if modC0 i then
         Inr ((), BX_WRITE_8BIT_REGx (i_rm i) (extend8bitL i) result_8 s)
       else
         write_RMW_virtual_byte result_8 s)
     (\<lambda>_ s.
     let bit0 = ((ucast result_8) AND 1 :: u32) in
     let bit7 = (ucast (drop_bit 7 result_8 :: u8) :: u32) in
     Inr ((), SET_FLAGS_OxxxxC (bit0 XOR bit7) bit0 s)))))"

definition ROR_Eb :: handler where
  "ROR_Eb i s =
    (let count =
       (if (b1 i) = 0xd2 then
         (ucast (CL s) :: u32)
       else
         (ucast (i_Ib i) :: u32)) in
     rbind (if modC0 i then
         Inr (BX_READ_8BIT_REGx (i_rm i) (extend8bitL i) s, s)
       else
         let eaddr = resolve i s in
         read_RMW_virtual_byte (i_seg i) eaddr s)
     (\<lambda>op1_8 s.
     (if (count AND 0x07) = 0 then
       let s =
         (if (count AND 0x18) \<noteq> 0 then
           let bit6 = ((ucast (drop_bit 6 op1_8 :: u8)) AND 1 :: u32) in
           let bit7 = ((ucast (drop_bit 7 op1_8 :: u8)) AND 1 :: u32) in
           SET_FLAGS_OxxxxC (bit6 XOR bit7) bit7 s
         else
           s) in
       Inr ((), s)
     else
     let count = count AND 0x7 in
     let result_8 = (drop_bit (unat count) op1_8) OR (push_bit (unat (8 - count)) op1_8) in
     rbind (if modC0 i then
         Inr ((), BX_WRITE_8BIT_REGx (i_rm i) (extend8bitL i) result_8 s)
       else
         write_RMW_virtual_byte result_8 s)
     (\<lambda>_ s.
     let bit6 = ((ucast (drop_bit 6 result_8 :: u8)) AND 1 :: u32) in
     let bit7 = ((ucast (drop_bit 7 result_8 :: u8)) AND 1 :: u32) in
     Inr ((), SET_FLAGS_OxxxxC (bit6 XOR bit7) bit7 s)))))"

definition RCL_Eb :: handler where
  "RCL_Eb i s =
    (let count =
       (if (b1 i) = 0xd2 then
         (ucast (CL s) :: u32)
       else
         (ucast (i_Ib i) :: u32)) in
     rbind (if modC0 i then
         Inr (BX_READ_8BIT_REGx (i_rm i) (extend8bitL i) s, s)
       else
         let eaddr = resolve i s in
         read_RMW_virtual_byte (i_seg i) eaddr s)
     (\<lambda>op1_8 s.
     let count = (count AND 0x1f) mod 9 in
     (if count = 0 then
       Inr ((), s)
     else
     let result_8 =
       (if count = 1 then
         ((push_bit 1 op1_8) OR (of_bool (getB_flag CF_flag s)) :: u8)
       else
         (((push_bit (unat count) op1_8) OR (push_bit (unat (count - 1)) (of_bool (getB_flag CF_flag s)))) OR (drop_bit (unat (9 - count)) op1_8) :: u8)) in
     rbind (if modC0 i then
         Inr ((), BX_WRITE_8BIT_REGx (i_rm i) (extend8bitL i) result_8 s)
       else
         write_RMW_virtual_byte result_8 s)
     (\<lambda>_ s.
     let cf = ((ucast (drop_bit (unat (8 - count)) op1_8 :: u8)) AND 0x01 :: u32) in
     let of1 = (cf XOR (ucast (drop_bit 7 result_8 :: u8)) :: u32) in
     Inr ((), SET_FLAGS_OxxxxC of1 cf s)))))"

definition RCR_Eb :: handler where
  "RCR_Eb i s =
    (let count =
       (if (b1 i) = 0xd2 then
         (ucast (CL s) :: u32)
       else
         (ucast (i_Ib i) :: u32)) in
     rbind (if modC0 i then
         Inr (BX_READ_8BIT_REGx (i_rm i) (extend8bitL i) s, s)
       else
         let eaddr = resolve i s in
         read_RMW_virtual_byte (i_seg i) eaddr s)
     (\<lambda>op1_8 s.
     let count = (count AND 0x1f) mod 9 in
     (if count = 0 then
       Inr ((), s)
     else
     let result_8 = (((drop_bit (unat count) op1_8) OR (push_bit (unat (8 - count)) (of_bool (getB_flag CF_flag s)))) OR (push_bit (unat (9 - count)) op1_8) :: u8) in
     rbind (if modC0 i then
         Inr ((), BX_WRITE_8BIT_REGx (i_rm i) (extend8bitL i) result_8 s)
       else
         write_RMW_virtual_byte result_8 s)
     (\<lambda>_ s.
     let cf = ((ucast (drop_bit (unat (count - 1)) op1_8 :: u8)) AND 0x1 :: u32) in
     let of1 = ((drop_bit 7 ((push_bit 1 (ucast result_8)) XOR (ucast result_8))) AND 0x1 :: u32) in
     Inr ((), SET_FLAGS_OxxxxC of1 cf s)))))"

definition SHL_Eb :: handler where
  "SHL_Eb i s =
    (let of1 = (0 :: u32) in
     let cf = (0 :: u32) in
     let count =
       (if (b1 i) = 0xd2 then
         (ucast (CL s) :: u32)
       else
         (ucast (i_Ib i) :: u32)) in
     let count = count AND 0x1f in
     rbind (if modC0 i then
         Inr (BX_READ_8BIT_REGx (i_rm i) (extend8bitL i) s, s)
       else
         let eaddr = resolve i s in
         read_RMW_virtual_byte (i_seg i) eaddr s)
     (\<lambda>op1_8 s.
     (if count = 0 then
       Inr ((), s)
     else
     let (result_8, cf, of1) =
       (if count \<le> 8 then
         let result_8 = push_bit (unat count) op1_8 in
         let cf = ((ucast (drop_bit (unat (8 - count)) op1_8 :: u8)) AND 0x1 :: u32) in
         let of1 = (cf XOR (ucast (drop_bit 7 result_8 :: u8)) :: u32) in
         (result_8, cf, of1)
       else
         let result_8 = (0 :: u8) in
         (result_8, cf, of1)) in
     rbind (if modC0 i then
         Inr ((), BX_WRITE_8BIT_REGx (i_rm i) (extend8bitL i) result_8 s)
       else
         write_RMW_virtual_byte result_8 s)
     (\<lambda>_ s.
     let s = SET_FLAGS_OSZAPC_LOGIC_8 result_8 s in
     Inr ((), SET_FLAGS_OxxxxC of1 cf s)))))"

definition SHR_Eb :: handler where
  "SHR_Eb i s =
    (let count =
       (if (b1 i) = 0xd2 then
         (ucast (CL s) :: u32)
       else
         (ucast (i_Ib i) :: u32)) in
     let count = count AND 0x1f in
     rbind (if modC0 i then
         Inr (BX_READ_8BIT_REGx (i_rm i) (extend8bitL i) s, s)
       else
         let eaddr = resolve i s in
         read_RMW_virtual_byte (i_seg i) eaddr s)
     (\<lambda>op1_8 s.
     (if count = 0 then
       Inr ((), s)
     else
     let result_8 = drop_bit (unat count) op1_8 in
     rbind (if modC0 i then
         Inr ((), BX_WRITE_8BIT_REGx (i_rm i) (extend8bitL i) result_8 s)
       else
         write_RMW_virtual_byte result_8 s)
     (\<lambda>_ s.
     let cf = ((ucast (drop_bit (unat (count - 1)) op1_8 :: u8)) AND 0x1 :: u32) in
     let of1 = ((drop_bit 7 ((push_bit 1 (ucast result_8)) XOR (ucast result_8))) AND 0x1 :: u32) in
     let s = SET_FLAGS_OSZAPC_LOGIC_8 result_8 s in
     Inr ((), SET_FLAGS_OxxxxC of1 cf s)))))"

definition SAR_Eb :: handler where
  "SAR_Eb i s =
    (let count =
       (if (b1 i) = 0xd2 then
         (ucast (CL s) :: u32)
       else
         (ucast (i_Ib i) :: u32)) in
     let count = count AND 0x1f in
     rbind (if modC0 i then
         Inr (BX_READ_8BIT_REGx (i_rm i) (extend8bitL i) s, s)
       else
         let eaddr = resolve i s in
         read_RMW_virtual_byte (i_seg i) eaddr s)
     (\<lambda>op1_8 s.
     (if count = 0 then
       Inr ((), s)
     else
     let (result_8, cf) =
       (if count < 8 then
         let result_8 =
           (if (op1_8 AND 0x80) \<noteq> 0 then
             (drop_bit (unat count) op1_8) OR (push_bit (unat (8 - count)) 0xff)
           else
             drop_bit (unat count) op1_8) in
         let cf = ((ucast (drop_bit (unat (count - 1)) op1_8 :: u8)) AND 0x1 :: u32) in
         (result_8, cf)
       else
         let result_8 =
           (if (op1_8 AND 0x80) \<noteq> 0 then
             (0xff :: u8)
           else
             (0 :: u8)) in
         let cf = ((ucast result_8) AND 0x1 :: u32) in
         (result_8, cf)) in
     let s = SET_FLAGS_OSZAPC_LOGIC_8 result_8 s in
     let s = SET_FLAGS_OxxxxC 0 cf s in
     (if modC0 i then
       Inr ((), BX_WRITE_8BIT_REGx (i_rm i) (extend8bitL i) result_8 s)
     else
     write_RMW_virtual_byte result_8 s))))"

section \<open>\<^verbatim>\<open>shift16.cc\<close>\<close>

definition SHLD_EwGwM :: handler where
  "SHLD_EwGwM i s =
    (let count =
       (if (b1 i) = 0xa4 then
         (ucast (i_Ib i) :: u32)
       else
         (ucast (CL s) :: u32)) in
     let count = count AND 0x1f in
     let eaddr = resolve i s in
     rbind (read_RMW_virtual_word (i_seg i) eaddr s) (\<lambda>op1_16 s.
     (if count = 0 then
       Inr ((), s)
     else
     let op2_16 = BX_READ_16BIT_REG (i_nnn i) s in
     let temp_32 = ((push_bit 16 (ucast op1_16)) OR (ucast op2_16) :: u32) in
     let result_32 = push_bit (unat count) temp_32 in
     let result_32 =
       (if count > 16 then
         (result_32 OR (push_bit (unat (count - 16)) (ucast op1_16)) :: u32)
       else
         result_32) in
     let result_16 = (ucast (drop_bit 16 result_32 :: u32) :: u16) in
     rbind (write_RMW_virtual_word result_16 s) (\<lambda>_ s.
     let s = SET_FLAGS_OSZAPC_LOGIC_16 result_16 s in
     let cf = (drop_bit (unat (32 - count)) temp_32) AND 0x1 in
     let of1 = (cf XOR (ucast (drop_bit 15 result_16 :: u16)) :: u32) in
     Inr ((), SET_FLAGS_OxxxxC of1 cf s)))))"

definition SHLD_EwGwR :: handler where
  "SHLD_EwGwR i s =
    (let count =
       (if (b1 i) = 0xa4 then
         (ucast (i_Ib i) :: u32)
       else
         (ucast (CL s) :: u32)) in
     let count = count AND 0x1f in
     (if count = 0 then
       Inr ((), s)
     else
     let op1_16 = BX_READ_16BIT_REG (i_rm i) s in
     let op2_16 = BX_READ_16BIT_REG (i_nnn i) s in
     let temp_32 = ((push_bit 16 (ucast op1_16)) OR (ucast op2_16) :: u32) in
     let result_32 = push_bit (unat count) temp_32 in
     let result_32 =
       (if count > 16 then
         (result_32 OR (push_bit (unat (count - 16)) (ucast op1_16)) :: u32)
       else
         result_32) in
     let result_16 = (ucast (drop_bit 16 result_32 :: u32) :: u16) in
     let s = BX_WRITE_16BIT_REG (i_rm i) result_16 s in
     let s = SET_FLAGS_OSZAPC_LOGIC_16 result_16 s in
     let cf = (drop_bit (unat (32 - count)) temp_32) AND 0x1 in
     let of1 = (cf XOR (ucast (drop_bit 15 result_16 :: u16)) :: u32) in
     Inr ((), SET_FLAGS_OxxxxC of1 cf s)))"

definition SHRD_EwGwM :: handler where
  "SHRD_EwGwM i s =
    (let count =
       (if (b1 i) = 0xac then
         (ucast (i_Ib i) :: u32)
       else
         (ucast (CL s) :: u32)) in
     let count = count AND 0x1f in
     let eaddr = resolve i s in
     rbind (read_RMW_virtual_word (i_seg i) eaddr s) (\<lambda>op1_16 s.
     (if count = 0 then
       Inr ((), s)
     else
     let op2_16 = BX_READ_16BIT_REG (i_nnn i) s in
     let temp_32 = ((push_bit 16 (ucast op2_16)) OR (ucast op1_16) :: u32) in
     let result_32 = drop_bit (unat count) temp_32 in
     let result_32 =
       (if count > 16 then
         (result_32 OR (push_bit (unat (32 - count)) (ucast op1_16)) :: u32)
       else
         result_32) in
     let result_16 = (ucast result_32 :: u16) in
     rbind (write_RMW_virtual_word result_16 s) (\<lambda>_ s.
     let s = SET_FLAGS_OSZAPC_LOGIC_16 result_16 s in
     let cf = ((ucast (drop_bit (unat (count - 1)) op1_16 :: u16)) AND 0x1 :: u32) in
     let of1 = ((drop_bit 15 ((push_bit 1 (ucast result_16)) XOR (ucast result_16))) AND 0x1 :: u32) in
     Inr ((), SET_FLAGS_OxxxxC of1 cf s)))))"

definition SHRD_EwGwR :: handler where
  "SHRD_EwGwR i s =
    (let count =
       (if (b1 i) = 0xac then
         (ucast (i_Ib i) :: u32)
       else
         (ucast (CL s) :: u32)) in
     let count = count AND 0x1f in
     (if count = 0 then
       Inr ((), s)
     else
     let op1_16 = BX_READ_16BIT_REG (i_rm i) s in
     let op2_16 = BX_READ_16BIT_REG (i_nnn i) s in
     let temp_32 = ((push_bit 16 (ucast op2_16)) OR (ucast op1_16) :: u32) in
     let result_32 = drop_bit (unat count) temp_32 in
     let result_32 =
       (if count > 16 then
         (result_32 OR (push_bit (unat (32 - count)) (ucast op1_16)) :: u32)
       else
         result_32) in
     let result_16 = (ucast result_32 :: u16) in
     let s = BX_WRITE_16BIT_REG (i_rm i) result_16 s in
     let s = SET_FLAGS_OSZAPC_LOGIC_16 result_16 s in
     let cf = ((ucast (drop_bit (unat (count - 1)) op1_16 :: u16)) AND 0x1 :: u32) in
     let of1 = ((drop_bit 15 ((push_bit 1 (ucast result_16)) XOR (ucast result_16))) AND 0x1 :: u32) in
     Inr ((), SET_FLAGS_OxxxxC of1 cf s)))"

definition ROL_Ew :: handler where
  "ROL_Ew i s =
    (let count =
       (if (b1 i) = 0xd3 then
         (ucast (CL s) :: u32)
       else
         (ucast (i_Ib i) :: u32)) in
     rbind (if modC0 i then
         Inr (BX_READ_16BIT_REG (i_rm i) s, s)
       else
         let eaddr = resolve i s in
         read_RMW_virtual_word (i_seg i) eaddr s)
     (\<lambda>op1_16 s.
     (if (count AND 0x0f) = 0 then
       let s =
         (if (count AND 0x10) \<noteq> 0 then
           let bit0 = ((ucast op1_16) AND 0x1 :: u32) in
           let bit15 = (ucast (drop_bit 15 op1_16 :: u16) :: u32) in
           SET_FLAGS_OxxxxC (bit0 XOR bit15) bit0 s
         else
           s) in
       Inr ((), s)
     else
     let count = count AND 0x0f in
     let result_16 = (push_bit (unat count) op1_16) OR (drop_bit (unat (16 - count)) op1_16) in
     rbind (if modC0 i then
         Inr ((), BX_WRITE_16BIT_REG (i_rm i) result_16 s)
       else
         write_RMW_virtual_word result_16 s)
     (\<lambda>_ s.
     let bit0 = ((ucast result_16) AND 0x1 :: u32) in
     let bit15 = (ucast (drop_bit 15 result_16 :: u16) :: u32) in
     Inr ((), SET_FLAGS_OxxxxC (bit0 XOR bit15) bit0 s)))))"

definition ROR_Ew :: handler where
  "ROR_Ew i s =
    (let count =
       (if (b1 i) = 0xd3 then
         (ucast (CL s) :: u32)
       else
         (ucast (i_Ib i) :: u32)) in
     rbind (if modC0 i then
         Inr (BX_READ_16BIT_REG (i_rm i) s, s)
       else
         let eaddr = resolve i s in
         read_RMW_virtual_word (i_seg i) eaddr s)
     (\<lambda>op1_16 s.
     (if (count AND 0x0f) = 0 then
       let s =
         (if (count AND 0x10) \<noteq> 0 then
           let bit14 = ((ucast (drop_bit 14 op1_16 :: u16)) AND 1 :: u32) in
           let bit15 = ((ucast (drop_bit 15 op1_16 :: u16)) AND 1 :: u32) in
           SET_FLAGS_OxxxxC (bit14 XOR bit15) bit15 s
         else
           s) in
       Inr ((), s)
     else
     let count = count AND 0x0f in
     let result_16 = (drop_bit (unat count) op1_16) OR (push_bit (unat (16 - count)) op1_16) in
     rbind (if modC0 i then
         Inr ((), BX_WRITE_16BIT_REG (i_rm i) result_16 s)
       else
         write_RMW_virtual_word result_16 s)
     (\<lambda>_ s.
     let bit14 = ((ucast (drop_bit 14 result_16 :: u16)) AND 1 :: u32) in
     let bit15 = ((ucast (drop_bit 15 result_16 :: u16)) AND 1 :: u32) in
     Inr ((), SET_FLAGS_OxxxxC (bit14 XOR bit15) bit15 s)))))"

definition RCL_Ew :: handler where
  "RCL_Ew i s =
    (let count =
       (if (b1 i) = 0xd3 then
         (ucast (CL s) :: u32)
       else
         (ucast (i_Ib i) :: u32)) in
     let count = (count AND 0x1f) mod 17 in
     rbind (if modC0 i then
         Inr (BX_READ_16BIT_REG (i_rm i) s, s)
       else
         let eaddr = resolve i s in
         read_RMW_virtual_word (i_seg i) eaddr s)
     (\<lambda>op1_16 s.
     (if count = 0 then
       Inr ((), s)
     else
     let result_16 =
       (if count = 1 then
         ((push_bit 1 op1_16) OR (of_bool (getB_flag CF_flag s)) :: u16)
       else
         let result_16 =
           (if count = 16 then
             ((push_bit 15 (of_bool (getB_flag CF_flag s))) OR (drop_bit 1 op1_16) :: u16)
           else
             (((push_bit (unat count) op1_16) OR (push_bit (unat (count - 1)) (of_bool (getB_flag CF_flag s)))) OR (drop_bit (unat (17 - count)) op1_16) :: u16)) in
         result_16) in
     rbind (if modC0 i then
         Inr ((), BX_WRITE_16BIT_REG (i_rm i) result_16 s)
       else
         write_RMW_virtual_word result_16 s)
     (\<lambda>_ s.
     let cf = ((ucast (drop_bit (unat (16 - count)) op1_16 :: u16)) AND 0x1 :: u32) in
     let of1 = (cf XOR (ucast (drop_bit 15 result_16 :: u16)) :: u32) in
     Inr ((), SET_FLAGS_OxxxxC of1 cf s)))))"

definition RCR_Ew :: handler where
  "RCR_Ew i s =
    (let count =
       (if (b1 i) = 0xd3 then
         (ucast (CL s) :: u32)
       else
         (ucast (i_Ib i) :: u32)) in
     let count = (count AND 0x1f) mod 17 in
     rbind (if modC0 i then
         Inr (BX_READ_16BIT_REG (i_rm i) s, s)
       else
         let eaddr = resolve i s in
         read_RMW_virtual_word (i_seg i) eaddr s)
     (\<lambda>op1_16 s.
     (if count = 0 then
       Inr ((), s)
     else
     let result_16 = (((drop_bit (unat count) op1_16) OR (push_bit (unat (16 - count)) (of_bool (getB_flag CF_flag s)))) OR (push_bit (unat (17 - count)) op1_16) :: u16) in
     rbind (if modC0 i then
         Inr ((), BX_WRITE_16BIT_REG (i_rm i) result_16 s)
       else
         write_RMW_virtual_word result_16 s)
     (\<lambda>_ s.
     let cf = ((ucast (drop_bit (unat (count - 1)) op1_16 :: u16)) AND 0x1 :: u32) in
     let of1 = ((drop_bit 15 ((push_bit 1 (ucast result_16)) XOR (ucast result_16))) AND 0x1 :: u32) in
     Inr ((), SET_FLAGS_OxxxxC of1 cf s)))))"

definition SHL_Ew :: handler where
  "SHL_Ew i s =
    (let of1 = (0 :: u32) in
     let cf = (0 :: u32) in
     let count =
       (if (b1 i) = 0xd3 then
         (ucast (CL s) :: u32)
       else
         (ucast (i_Ib i) :: u32)) in
     let count = count AND 0x1f in
     rbind (if modC0 i then
         Inr (BX_READ_16BIT_REG (i_rm i) s, s)
       else
         let eaddr = resolve i s in
         read_RMW_virtual_word (i_seg i) eaddr s)
     (\<lambda>op1_16 s.
     (if count = 0 then
       Inr ((), s)
     else
     let (result_16, cf, of1) =
       (if count \<le> 16 then
         let result_16 = push_bit (unat count) op1_16 in
         let cf = ((ucast (drop_bit (unat (16 - count)) op1_16 :: u16)) AND 0x1 :: u32) in
         let of1 = (cf XOR (ucast (drop_bit 15 result_16 :: u16)) :: u32) in
         (result_16, cf, of1)
       else
         let result_16 = (0 :: u16) in
         (result_16, cf, of1)) in
     rbind (if modC0 i then
         Inr ((), BX_WRITE_16BIT_REG (i_rm i) result_16 s)
       else
         write_RMW_virtual_word result_16 s)
     (\<lambda>_ s.
     let s = SET_FLAGS_OSZAPC_LOGIC_16 result_16 s in
     Inr ((), SET_FLAGS_OxxxxC of1 cf s)))))"

definition SHR_Ew :: handler where
  "SHR_Ew i s =
    (let count =
       (if (b1 i) = 0xd3 then
         (ucast (CL s) :: u32)
       else
         (ucast (i_Ib i) :: u32)) in
     let count = count AND 0x1f in
     rbind (if modC0 i then
         Inr (BX_READ_16BIT_REG (i_rm i) s, s)
       else
         let eaddr = resolve i s in
         read_RMW_virtual_word (i_seg i) eaddr s)
     (\<lambda>op1_16 s.
     (if count = 0 then
       Inr ((), s)
     else
     let result_16 = drop_bit (unat count) op1_16 in
     rbind (if modC0 i then
         Inr ((), BX_WRITE_16BIT_REG (i_rm i) result_16 s)
       else
         write_RMW_virtual_word result_16 s)
     (\<lambda>_ s.
     let cf = ((ucast (drop_bit (unat (count - 1)) op1_16 :: u16)) AND 0x1 :: u32) in
     let of1 = ((drop_bit 15 ((push_bit 1 (ucast result_16)) XOR (ucast result_16))) AND 0x1 :: u32) in
     let s = SET_FLAGS_OSZAPC_LOGIC_16 result_16 s in
     Inr ((), SET_FLAGS_OxxxxC of1 cf s)))))"

definition SAR_Ew :: handler where
  "SAR_Ew i s =
    (let count =
       (if (b1 i) = 0xd3 then
         (ucast (CL s) :: u32)
       else
         (ucast (i_Ib i) :: u32)) in
     let count = count AND 0x1f in
     rbind (if modC0 i then
         Inr (BX_READ_16BIT_REG (i_rm i) s, s)
       else
         let eaddr = resolve i s in
         read_RMW_virtual_word (i_seg i) eaddr s)
     (\<lambda>op1_16 s.
     (if count = 0 then
       Inr ((), s)
     else
     let (result_16, cf) =
       (if count < 16 then
         let result_16 =
           (if (op1_16 AND 0x8000) \<noteq> 0 then
             (drop_bit (unat count) op1_16) OR (push_bit (unat (16 - count)) 0xffff)
           else
             drop_bit (unat count) op1_16) in
         let cf = ((ucast (drop_bit (unat (count - 1)) op1_16 :: u16)) AND 0x1 :: u32) in
         (result_16, cf)
       else
         let result_16 =
           (if (op1_16 AND 0x8000) \<noteq> 0 then
             (0xffff :: u16)
           else
             (0 :: u16)) in
         let cf = ((ucast result_16) AND 0x1 :: u32) in
         (result_16, cf)) in
     let s = SET_FLAGS_OSZAPC_LOGIC_16 result_16 s in
     let s = SET_FLAGS_OxxxxC 0 cf s in
     (if modC0 i then
       Inr ((), BX_WRITE_16BIT_REG (i_rm i) result_16 s)
     else
     write_RMW_virtual_word result_16 s))))"

section \<open>\<^verbatim>\<open>shift32.cc\<close>\<close>

definition SHLD_EdGdM :: handler where
  "SHLD_EdGdM i s =
    (let eaddr = resolve i s in
     rbind (read_RMW_virtual_dword (i_seg i) eaddr s) (\<lambda>op1_32 s.
     let count =
       (if (b1 i) = 0xa4 then
         (ucast (i_Ib i) :: u32)
       else
         (ucast (CL s) :: u32)) in
     let count = count AND 0x1f in
     (if count = 0 then
       Inr ((), s)
     else
     let op2_32 = BX_READ_32BIT_REG (i_nnn i) s in
     let result_32 = (push_bit (unat count) op1_32) OR (drop_bit (unat (32 - count)) op2_32) in
     rbind (write_RMW_virtual_dword result_32 s) (\<lambda>_ s.
     let s = SET_FLAGS_OSZAPC_LOGIC_32 result_32 s in
     let cf = (drop_bit (unat (32 - count)) op1_32) AND 0x1 in
     let of1 = cf XOR (drop_bit 31 result_32) in
     Inr ((), SET_FLAGS_OxxxxC of1 cf s)))))"

definition SHLD_EdGdR :: handler where
  "SHLD_EdGdR i s =
    (let count =
       (if (b1 i) = 0xa4 then
         (ucast (i_Ib i) :: u32)
       else
         (ucast (CL s) :: u32)) in
     let count = count AND 0x1f in
     (if count = 0 then
       Inr ((), s)
     else
     let op1_32 = BX_READ_32BIT_REG (i_rm i) s in
     let op2_32 = BX_READ_32BIT_REG (i_nnn i) s in
     let result_32 = (push_bit (unat count) op1_32) OR (drop_bit (unat (32 - count)) op2_32) in
     let s = BX_WRITE_32BIT_REGZ (i_rm i) result_32 s in
     let s = SET_FLAGS_OSZAPC_LOGIC_32 result_32 s in
     let cf = (drop_bit (unat (32 - count)) op1_32) AND 0x1 in
     let of1 = cf XOR (drop_bit 31 result_32) in
     Inr ((), SET_FLAGS_OxxxxC of1 cf s)))"

definition SHRD_EdGdM :: handler where
  "SHRD_EdGdM i s =
    (let eaddr = resolve i s in
     rbind (read_RMW_virtual_dword (i_seg i) eaddr s) (\<lambda>op1_32 s.
     let count =
       (if (b1 i) = 0xac then
         (ucast (i_Ib i) :: u32)
       else
         (ucast (CL s) :: u32)) in
     let count = count AND 0x1f in
     (if count = 0 then
       Inr ((), s)
     else
     let op2_32 = BX_READ_32BIT_REG (i_nnn i) s in
     let result_32 = (push_bit (unat (32 - count)) op2_32) OR (drop_bit (unat count) op1_32) in
     rbind (write_RMW_virtual_dword result_32 s) (\<lambda>_ s.
     let s = SET_FLAGS_OSZAPC_LOGIC_32 result_32 s in
     let cf = (drop_bit (unat (count - 1)) op1_32) AND 0x1 in
     let of1 = drop_bit 31 ((push_bit 1 result_32) XOR result_32) in
     Inr ((), SET_FLAGS_OxxxxC of1 cf s)))))"

definition SHRD_EdGdR :: handler where
  "SHRD_EdGdR i s =
    (let count =
       (if (b1 i) = 0xac then
         (ucast (i_Ib i) :: u32)
       else
         (ucast (CL s) :: u32)) in
     let count = count AND 0x1f in
     (if count = 0 then
       Inr ((), s)
     else
     let op1_32 = BX_READ_32BIT_REG (i_rm i) s in
     let op2_32 = BX_READ_32BIT_REG (i_nnn i) s in
     let result_32 = (push_bit (unat (32 - count)) op2_32) OR (drop_bit (unat count) op1_32) in
     let s = BX_WRITE_32BIT_REGZ (i_rm i) result_32 s in
     let s = SET_FLAGS_OSZAPC_LOGIC_32 result_32 s in
     let cf = (drop_bit (unat (count - 1)) op1_32) AND 0x1 in
     let of1 = drop_bit 31 ((push_bit 1 result_32) XOR result_32) in
     Inr ((), SET_FLAGS_OxxxxC of1 cf s)))"

definition ROL_EdM :: handler where
  "ROL_EdM i s =
    (let eaddr = resolve i s in
     rbind (read_RMW_virtual_dword (i_seg i) eaddr s) (\<lambda>op1_32 s.
     let count =
       (if (b1 i) = 0xd3 then
         (ucast (CL s) :: u32)
       else
         (ucast (i_Ib i) :: u32)) in
     let count = count AND 0x1f in
     (if count = 0 then
       Inr ((), s)
     else
     let result_32 = (push_bit (unat count) op1_32) OR (drop_bit (unat (32 - count)) op1_32) in
     rbind (write_RMW_virtual_dword result_32 s) (\<lambda>_ s.
     let bit0 = result_32 AND 0x1 in
     let bit31 = drop_bit 31 result_32 in
     Inr ((), SET_FLAGS_OxxxxC (bit0 XOR bit31) bit0 s)))))"

definition ROL_EdR :: handler where
  "ROL_EdR i s =
    (let count =
       (if (b1 i) = 0xd3 then
         (ucast (CL s) :: u32)
       else
         (ucast (i_Ib i) :: u32)) in
     let count = count AND 0x1f in
     (if count = 0 then
       Inr ((), s)
     else
     let op1_32 = BX_READ_32BIT_REG (i_rm i) s in
     let result_32 = (push_bit (unat count) op1_32) OR (drop_bit (unat (32 - count)) op1_32) in
     let s = BX_WRITE_32BIT_REGZ (i_rm i) result_32 s in
     let bit0 = result_32 AND 0x1 in
     let bit31 = drop_bit 31 result_32 in
     Inr ((), SET_FLAGS_OxxxxC (bit0 XOR bit31) bit0 s)))"

definition ROR_EdM :: handler where
  "ROR_EdM i s =
    (let eaddr = resolve i s in
     rbind (read_RMW_virtual_dword (i_seg i) eaddr s) (\<lambda>op1_32 s.
     let count =
       (if (b1 i) = 0xd3 then
         (ucast (CL s) :: u32)
       else
         (ucast (i_Ib i) :: u32)) in
     let count = count AND 0x1f in
     (if count = 0 then
       Inr ((), s)
     else
     let result_32 = (drop_bit (unat count) op1_32) OR (push_bit (unat (32 - count)) op1_32) in
     rbind (write_RMW_virtual_dword result_32 s) (\<lambda>_ s.
     let bit31 = (drop_bit 31 result_32) AND 1 in
     let bit30 = (drop_bit 30 result_32) AND 1 in
     Inr ((), SET_FLAGS_OxxxxC (bit30 XOR bit31) bit31 s)))))"

definition ROR_EdR :: handler where
  "ROR_EdR i s =
    (let count =
       (if (b1 i) = 0xd3 then
         (ucast (CL s) :: u32)
       else
         (ucast (i_Ib i) :: u32)) in
     let count = count AND 0x1f in
     (if count = 0 then
       Inr ((), s)
     else
     let op1_32 = BX_READ_32BIT_REG (i_rm i) s in
     let result_32 = (drop_bit (unat count) op1_32) OR (push_bit (unat (32 - count)) op1_32) in
     let s = BX_WRITE_32BIT_REGZ (i_rm i) result_32 s in
     let bit31 = (drop_bit 31 result_32) AND 1 in
     let bit30 = (drop_bit 30 result_32) AND 1 in
     Inr ((), SET_FLAGS_OxxxxC (bit30 XOR bit31) bit31 s)))"

definition RCL_EdM :: handler where
  "RCL_EdM i s =
    (let eaddr = resolve i s in
     rbind (read_RMW_virtual_dword (i_seg i) eaddr s) (\<lambda>op1_32 s.
     let count =
       (if (b1 i) = 0xd3 then
         (ucast (CL s) :: u32)
       else
         (ucast (i_Ib i) :: u32)) in
     let count = count AND 0x1f in
     (if count = 0 then
       Inr ((), s)
     else
     let result_32 =
       (if count = 1 then
         ((push_bit 1 op1_32) OR (of_bool (getB_flag CF_flag s)) :: u32)
       else
         (((push_bit (unat count) op1_32) OR (push_bit (unat (count - 1)) (of_bool (getB_flag CF_flag s)))) OR (drop_bit (unat (33 - count)) op1_32) :: u32)) in
     rbind (write_RMW_virtual_dword result_32 s) (\<lambda>_ s.
     let cf = (drop_bit (unat (32 - count)) op1_32) AND 0x1 in
     let of1 = cf XOR (drop_bit 31 result_32) in
     Inr ((), SET_FLAGS_OxxxxC of1 cf s)))))"

definition RCL_EdR :: handler where
  "RCL_EdR i s =
    (let count =
       (if (b1 i) = 0xd3 then
         (ucast (CL s) :: u32)
       else
         (ucast (i_Ib i) :: u32)) in
     let count = count AND 0x1f in
     (if count = 0 then
       Inr ((), s)
     else
     let op1_32 = BX_READ_32BIT_REG (i_rm i) s in
     let result_32 =
       (if count = 1 then
         ((push_bit 1 op1_32) OR (of_bool (getB_flag CF_flag s)) :: u32)
       else
         (((push_bit (unat count) op1_32) OR (push_bit (unat (count - 1)) (of_bool (getB_flag CF_flag s)))) OR (drop_bit (unat (33 - count)) op1_32) :: u32)) in
     let s = BX_WRITE_32BIT_REGZ (i_rm i) result_32 s in
     let cf = (drop_bit (unat (32 - count)) op1_32) AND 0x1 in
     let of1 = cf XOR (drop_bit 31 result_32) in
     Inr ((), SET_FLAGS_OxxxxC of1 cf s)))"

definition RCR_EdM :: handler where
  "RCR_EdM i s =
    (let eaddr = resolve i s in
     rbind (read_RMW_virtual_dword (i_seg i) eaddr s) (\<lambda>op1_32 s.
     let count =
       (if (b1 i) = 0xd3 then
         (ucast (CL s) :: u32)
       else
         (ucast (i_Ib i) :: u32)) in
     let count = count AND 0x1f in
     (if count = 0 then
       Inr ((), s)
     else
     let result_32 =
       (if count = 1 then
         ((drop_bit 1 op1_32) OR (push_bit 31 (of_bool (getB_flag CF_flag s))) :: u32)
       else
         (((drop_bit (unat count) op1_32) OR (push_bit (unat (32 - count)) (of_bool (getB_flag CF_flag s)))) OR (push_bit (unat (33 - count)) op1_32) :: u32)) in
     rbind (write_RMW_virtual_dword result_32 s) (\<lambda>_ s.
     let cf = (drop_bit (unat (count - 1)) op1_32) AND 0x1 in
     let of1 = drop_bit 31 ((push_bit 1 result_32) XOR result_32) in
     Inr ((), SET_FLAGS_OxxxxC of1 cf s)))))"

definition RCR_EdR :: handler where
  "RCR_EdR i s =
    (let count =
       (if (b1 i) = 0xd3 then
         (ucast (CL s) :: u32)
       else
         (ucast (i_Ib i) :: u32)) in
     let count = count AND 0x1f in
     (if count = 0 then
       Inr ((), s)
     else
     let op1_32 = BX_READ_32BIT_REG (i_rm i) s in
     let result_32 =
       (if count = 1 then
         ((drop_bit 1 op1_32) OR (push_bit 31 (of_bool (getB_flag CF_flag s))) :: u32)
       else
         (((drop_bit (unat count) op1_32) OR (push_bit (unat (32 - count)) (of_bool (getB_flag CF_flag s)))) OR (push_bit (unat (33 - count)) op1_32) :: u32)) in
     let s = BX_WRITE_32BIT_REGZ (i_rm i) result_32 s in
     let cf = (drop_bit (unat (count - 1)) op1_32) AND 0x1 in
     let of1 = drop_bit 31 ((push_bit 1 result_32) XOR result_32) in
     Inr ((), SET_FLAGS_OxxxxC of1 cf s)))"

definition SHL_EdM :: handler where
  "SHL_EdM i s =
    (let eaddr = resolve i s in
     rbind (read_RMW_virtual_dword (i_seg i) eaddr s) (\<lambda>op1_32 s.
     let count =
       (if (b1 i) = 0xd3 then
         (ucast (CL s) :: u32)
       else
         (ucast (i_Ib i) :: u32)) in
     let count = count AND 0x1f in
     (if count = 0 then
       Inr ((), s)
     else
     let result_32 = push_bit (unat count) op1_32 in
     rbind (write_RMW_virtual_dword result_32 s) (\<lambda>_ s.
     let cf = (drop_bit (unat (32 - count)) op1_32) AND 0x1 in
     let of1 = cf XOR (drop_bit 31 result_32) in
     let s = SET_FLAGS_OSZAPC_LOGIC_32 result_32 s in
     Inr ((), SET_FLAGS_OxxxxC of1 cf s)))))"

definition SHL_EdR :: handler where
  "SHL_EdR i s =
    (let count =
       (if (b1 i) = 0xd3 then
         (ucast (CL s) :: u32)
       else
         (ucast (i_Ib i) :: u32)) in
     let count = count AND 0x1f in
     (if count = 0 then
       Inr ((), s)
     else
     let op1_32 = BX_READ_32BIT_REG (i_rm i) s in
     let result_32 = push_bit (unat count) op1_32 in
     let cf = (drop_bit (unat (32 - count)) op1_32) AND 0x1 in
     let of1 = cf XOR (drop_bit 31 result_32) in
     let s = BX_WRITE_32BIT_REGZ (i_rm i) result_32 s in
     let s = SET_FLAGS_OSZAPC_LOGIC_32 result_32 s in
     Inr ((), SET_FLAGS_OxxxxC of1 cf s)))"

definition SHR_EdM :: handler where
  "SHR_EdM i s =
    (let eaddr = resolve i s in
     rbind (read_RMW_virtual_dword (i_seg i) eaddr s) (\<lambda>op1_32 s.
     let count =
       (if (b1 i) = 0xd3 then
         (ucast (CL s) :: u32)
       else
         (ucast (i_Ib i) :: u32)) in
     let count = count AND 0x1f in
     (if count = 0 then
       Inr ((), s)
     else
     let result_32 = drop_bit (unat count) op1_32 in
     rbind (write_RMW_virtual_dword result_32 s) (\<lambda>_ s.
     let cf = (drop_bit (unat (count - 1)) op1_32) AND 0x1 in
     let of1 = drop_bit 31 ((push_bit 1 result_32) XOR result_32) in
     let s = SET_FLAGS_OSZAPC_LOGIC_32 result_32 s in
     Inr ((), SET_FLAGS_OxxxxC of1 cf s)))))"

definition SHR_EdR :: handler where
  "SHR_EdR i s =
    (let count =
       (if (b1 i) = 0xd3 then
         (ucast (CL s) :: u32)
       else
         (ucast (i_Ib i) :: u32)) in
     let count = count AND 0x1f in
     (if count = 0 then
       Inr ((), s)
     else
     let op1_32 = BX_READ_32BIT_REG (i_rm i) s in
     let result_32 = drop_bit (unat count) op1_32 in
     let s = BX_WRITE_32BIT_REGZ (i_rm i) result_32 s in
     let cf = (drop_bit (unat (count - 1)) op1_32) AND 0x1 in
     let of1 = drop_bit 31 ((push_bit 1 result_32) XOR result_32) in
     let s = SET_FLAGS_OSZAPC_LOGIC_32 result_32 s in
     Inr ((), SET_FLAGS_OxxxxC of1 cf s)))"

definition SAR_EdM :: handler where
  "SAR_EdM i s =
    (let eaddr = resolve i s in
     rbind (read_RMW_virtual_dword (i_seg i) eaddr s) (\<lambda>op1_32 s.
     let count =
       (if (b1 i) = 0xd3 then
         (ucast (CL s) :: u32)
       else
         (ucast (i_Ib i) :: u32)) in
     let count = count AND 0x1f in
     (if count = 0 then
       Inr ((), s)
     else
     let result_32 =
       (if (op1_32 AND 0x80000000) \<noteq> 0 then
         (drop_bit (unat count) op1_32) OR (push_bit (unat (32 - count)) 0xffffffff)
       else
         drop_bit (unat count) op1_32) in
     rbind (write_RMW_virtual_dword result_32 s) (\<lambda>_ s.
     let s = SET_FLAGS_OSZAPC_LOGIC_32 result_32 s in
     let s = set_flag CF_flag (((drop_bit (unat (count - 1)) op1_32) AND 1) \<noteq> 0) s in
     Inr ((), clear_flag OF_flag s)))))"

definition SAR_EdR :: handler where
  "SAR_EdR i s =
    (let count =
       (if (b1 i) = 0xd3 then
         (ucast (CL s) :: u32)
       else
         (ucast (i_Ib i) :: u32)) in
     let count = count AND 0x1f in
     (if count = 0 then
       Inr ((), s)
     else
     let op1_32 = BX_READ_32BIT_REG (i_rm i) s in
     let result_32 =
       (if (op1_32 AND 0x80000000) \<noteq> 0 then
         (drop_bit (unat count) op1_32) OR (push_bit (unat (32 - count)) 0xffffffff)
       else
         drop_bit (unat count) op1_32) in
     let s = BX_WRITE_32BIT_REGZ (i_rm i) result_32 s in
     let s = SET_FLAGS_OSZAPC_LOGIC_32 result_32 s in
     let s = set_flag CF_flag (((drop_bit (unat (count - 1)) op1_32) AND 1) \<noteq> 0) s in
     Inr ((), clear_flag OF_flag s)))"

section \<open>\<^verbatim>\<open>shift64.cc\<close>\<close>

definition SHLD_EqGqM :: handler where
  "SHLD_EqGqM i s =
    (let eaddr = resolve i s in
     rbind (read_RMW_virtual_qword_64 (i_seg i) eaddr s) (\<lambda>op1_64 s.
     let count =
       (if (b1 i) = 0xa4 then
         (ucast (i_Ib i) :: u32)
       else
         (ucast (CL s) :: u32)) in
     let count = count AND 0x3f in
     (if count = 0 then
       Inr ((), s)
     else
     let op2_64 = BX_READ_64BIT_REG (i_nnn i) s in
     let result_64 = (push_bit (unat count) op1_64) OR (drop_bit (unat (64 - count)) op2_64) in
     rbind (write_RMW_virtual_qword result_64 s) (\<lambda>_ s.
     let s = SET_FLAGS_OSZAPC_LOGIC_64 result_64 s in
     let cf = ((ucast (drop_bit (unat (64 - count)) op1_64 :: u64)) AND 0x1 :: u32) in
     let of1 = (cf XOR (ucast (drop_bit 63 result_64 :: u64)) :: u32) in
     Inr ((), SET_FLAGS_OxxxxC of1 cf s)))))"

definition SHLD_EqGqR :: handler where
  "SHLD_EqGqR i s =
    (let count =
       (if (b1 i) = 0xa4 then
         (ucast (i_Ib i) :: u32)
       else
         (ucast (CL s) :: u32)) in
     let count = count AND 0x3f in
     (if count = 0 then
       Inr ((), s)
     else
     let op1_64 = BX_READ_64BIT_REG (i_rm i) s in
     let op2_64 = BX_READ_64BIT_REG (i_nnn i) s in
     let result_64 = (push_bit (unat count) op1_64) OR (drop_bit (unat (64 - count)) op2_64) in
     let s = BX_WRITE_64BIT_REG (i_rm i) result_64 s in
     let s = SET_FLAGS_OSZAPC_LOGIC_64 result_64 s in
     let cf = ((ucast (drop_bit (unat (64 - count)) op1_64 :: u64)) AND 0x1 :: u32) in
     let of1 = (cf XOR (ucast (drop_bit 63 result_64 :: u64)) :: u32) in
     Inr ((), SET_FLAGS_OxxxxC of1 cf s)))"

definition SHRD_EqGqM :: handler where
  "SHRD_EqGqM i s =
    (let eaddr = resolve i s in
     rbind (read_RMW_virtual_qword_64 (i_seg i) eaddr s) (\<lambda>op1_64 s.
     let count =
       (if (b1 i) = 0xac then
         (ucast (i_Ib i) :: u32)
       else
         (ucast (CL s) :: u32)) in
     let count = count AND 0x3f in
     (if count = 0 then
       Inr ((), s)
     else
     let op2_64 = BX_READ_64BIT_REG (i_nnn i) s in
     let result_64 = (push_bit (unat (64 - count)) op2_64) OR (drop_bit (unat count) op1_64) in
     rbind (write_RMW_virtual_qword result_64 s) (\<lambda>_ s.
     let s = SET_FLAGS_OSZAPC_LOGIC_64 result_64 s in
     let cf = ((ucast (drop_bit (unat (count - 1)) op1_64 :: u64)) AND 0x1 :: u32) in
     let of1 = (ucast (drop_bit 63 ((push_bit 1 result_64) XOR result_64) :: u64) :: u32) in
     Inr ((), SET_FLAGS_OxxxxC of1 cf s)))))"

definition SHRD_EqGqR :: handler where
  "SHRD_EqGqR i s =
    (let count =
       (if (b1 i) = 0xac then
         (ucast (i_Ib i) :: u32)
       else
         (ucast (CL s) :: u32)) in
     let count = count AND 0x3f in
     (if count = 0 then
       Inr ((), s)
     else
     let op1_64 = BX_READ_64BIT_REG (i_rm i) s in
     let op2_64 = BX_READ_64BIT_REG (i_nnn i) s in
     let result_64 = (push_bit (unat (64 - count)) op2_64) OR (drop_bit (unat count) op1_64) in
     let s = BX_WRITE_64BIT_REG (i_rm i) result_64 s in
     let s = SET_FLAGS_OSZAPC_LOGIC_64 result_64 s in
     let cf = ((ucast (drop_bit (unat (count - 1)) op1_64 :: u64)) AND 0x1 :: u32) in
     let of1 = (ucast (drop_bit 63 ((push_bit 1 result_64) XOR result_64) :: u64) :: u32) in
     Inr ((), SET_FLAGS_OxxxxC of1 cf s)))"

definition ROL_EqM :: handler where
  "ROL_EqM i s =
    (let eaddr = resolve i s in
     rbind (read_RMW_virtual_qword_64 (i_seg i) eaddr s) (\<lambda>op1_64 s.
     let count =
       (if (b1 i) = 0xd3 then
         (ucast (CL s) :: u32)
       else
         (ucast (i_Ib i) :: u32)) in
     let count = count AND 0x3f in
     (if count = 0 then
       Inr ((), s)
     else
     let result_64 = (push_bit (unat count) op1_64) OR (drop_bit (unat (64 - count)) op1_64) in
     rbind (write_RMW_virtual_qword result_64 s) (\<lambda>_ s.
     let bit0 = ((ucast result_64) AND 0x1 :: u32) in
     let bit63 = (ucast (drop_bit 63 result_64 :: u64) :: u32) in
     Inr ((), SET_FLAGS_OxxxxC (bit0 XOR bit63) bit0 s)))))"

definition ROL_EqR :: handler where
  "ROL_EqR i s =
    (let count =
       (if (b1 i) = 0xd3 then
         (ucast (CL s) :: u32)
       else
         (ucast (i_Ib i) :: u32)) in
     let count = count AND 0x3f in
     (if count = 0 then
       Inr ((), s)
     else
     let op1_64 = BX_READ_64BIT_REG (i_rm i) s in
     let result_64 = (push_bit (unat count) op1_64) OR (drop_bit (unat (64 - count)) op1_64) in
     let s = BX_WRITE_64BIT_REG (i_rm i) result_64 s in
     let bit0 = ((ucast result_64) AND 0x1 :: u32) in
     let bit63 = (ucast (drop_bit 63 result_64 :: u64) :: u32) in
     Inr ((), SET_FLAGS_OxxxxC (bit0 XOR bit63) bit0 s)))"

definition ROR_EqM :: handler where
  "ROR_EqM i s =
    (let eaddr = resolve i s in
     rbind (read_RMW_virtual_qword_64 (i_seg i) eaddr s) (\<lambda>op1_64 s.
     let count =
       (if (b1 i) = 0xd3 then
         (ucast (CL s) :: u32)
       else
         (ucast (i_Ib i) :: u32)) in
     let count = count AND 0x3f in
     (if count = 0 then
       Inr ((), s)
     else
     let result_64 = (drop_bit (unat count) op1_64) OR (push_bit (unat (64 - count)) op1_64) in
     rbind (write_RMW_virtual_qword result_64 s) (\<lambda>_ s.
     let bit63 = ((ucast (drop_bit 63 result_64 :: u64)) AND 1 :: u32) in
     let bit62 = ((ucast (drop_bit 62 result_64 :: u64)) AND 1 :: u32) in
     Inr ((), SET_FLAGS_OxxxxC (bit62 XOR bit63) bit63 s)))))"

definition ROR_EqR :: handler where
  "ROR_EqR i s =
    (let count =
       (if (b1 i) = 0xd3 then
         (ucast (CL s) :: u32)
       else
         (ucast (i_Ib i) :: u32)) in
     let count = count AND 0x3f in
     (if count = 0 then
       Inr ((), s)
     else
     let op1_64 = BX_READ_64BIT_REG (i_rm i) s in
     let result_64 = (drop_bit (unat count) op1_64) OR (push_bit (unat (64 - count)) op1_64) in
     let s = BX_WRITE_64BIT_REG (i_rm i) result_64 s in
     let bit63 = ((ucast (drop_bit 63 result_64 :: u64)) AND 1 :: u32) in
     let bit62 = ((ucast (drop_bit 62 result_64 :: u64)) AND 1 :: u32) in
     Inr ((), SET_FLAGS_OxxxxC (bit62 XOR bit63) bit63 s)))"

definition RCL_EqM :: handler where
  "RCL_EqM i s =
    (let eaddr = resolve i s in
     rbind (read_RMW_virtual_qword_64 (i_seg i) eaddr s) (\<lambda>op1_64 s.
     let count =
       (if (b1 i) = 0xd3 then
         (ucast (CL s) :: u32)
       else
         (ucast (i_Ib i) :: u32)) in
     let count = count AND 0x3f in
     (if count = 0 then
       Inr ((), s)
     else
     let result_64 =
       (if count = 1 then
         ((push_bit 1 op1_64) OR (of_bool (getB_flag CF_flag s)) :: u64)
       else
         (((push_bit (unat count) op1_64) OR (ucast (push_bit (unat (count - 1)) (of_bool (getB_flag CF_flag s)) :: u32))) OR (drop_bit (unat (65 - count)) op1_64) :: u64)) in
     rbind (write_RMW_virtual_qword result_64 s) (\<lambda>_ s.
     let cf = ((ucast (drop_bit (unat (64 - count)) op1_64 :: u64)) AND 0x1 :: u32) in
     let of1 = (cf XOR (ucast (drop_bit 63 result_64 :: u64)) :: u32) in
     Inr ((), SET_FLAGS_OxxxxC of1 cf s)))))"

definition RCL_EqR :: handler where
  "RCL_EqR i s =
    (let count =
       (if (b1 i) = 0xd3 then
         (ucast (CL s) :: u32)
       else
         (ucast (i_Ib i) :: u32)) in
     let count = count AND 0x3f in
     (if count = 0 then
       Inr ((), s)
     else
     let op1_64 = BX_READ_64BIT_REG (i_rm i) s in
     let result_64 =
       (if count = 1 then
         ((push_bit 1 op1_64) OR (of_bool (getB_flag CF_flag s)) :: u64)
       else
         (((push_bit (unat count) op1_64) OR (ucast (push_bit (unat (count - 1)) (of_bool (getB_flag CF_flag s)) :: u32))) OR (drop_bit (unat (65 - count)) op1_64) :: u64)) in
     let s = BX_WRITE_64BIT_REG (i_rm i) result_64 s in
     let cf = ((ucast (drop_bit (unat (64 - count)) op1_64 :: u64)) AND 0x1 :: u32) in
     let of1 = (cf XOR (ucast (drop_bit 63 result_64 :: u64)) :: u32) in
     Inr ((), SET_FLAGS_OxxxxC of1 cf s)))"

definition RCR_EqM :: handler where
  "RCR_EqM i s =
    (let eaddr = resolve i s in
     rbind (read_RMW_virtual_qword_64 (i_seg i) eaddr s) (\<lambda>op1_64 s.
     let count =
       (if (b1 i) = 0xd3 then
         (ucast (CL s) :: u32)
       else
         (ucast (i_Ib i) :: u32)) in
     let count = count AND 0x3f in
     (if count = 0 then
       Inr ((), s)
     else
     let result_64 =
       (if count = 1 then
         ((drop_bit 1 op1_64) OR (push_bit 63 (of_bool (getB_flag CF_flag s))) :: u64)
       else
         (((drop_bit (unat count) op1_64) OR (ucast (push_bit (unat (64 - count)) (of_bool (getB_flag CF_flag s)) :: u32))) OR (push_bit (unat (65 - count)) op1_64) :: u64)) in
     rbind (write_RMW_virtual_qword result_64 s) (\<lambda>_ s.
     let cf = ((ucast (drop_bit (unat (count - 1)) op1_64 :: u64)) AND 0x1 :: u32) in
     let of1 = (ucast (drop_bit 63 ((push_bit 1 result_64) XOR result_64) :: u64) :: u32) in
     Inr ((), SET_FLAGS_OxxxxC of1 cf s)))))"

definition RCR_EqR :: handler where
  "RCR_EqR i s =
    (let count =
       (if (b1 i) = 0xd3 then
         (ucast (CL s) :: u32)
       else
         (ucast (i_Ib i) :: u32)) in
     let count = count AND 0x3f in
     (if count = 0 then
       Inr ((), s)
     else
     let op1_64 = BX_READ_64BIT_REG (i_rm i) s in
     let result_64 =
       (if count = 1 then
         ((drop_bit 1 op1_64) OR (push_bit 63 (of_bool (getB_flag CF_flag s))) :: u64)
       else
         (((drop_bit (unat count) op1_64) OR (ucast (push_bit (unat (64 - count)) (of_bool (getB_flag CF_flag s)) :: u32))) OR (push_bit (unat (65 - count)) op1_64) :: u64)) in
     let s = BX_WRITE_64BIT_REG (i_rm i) result_64 s in
     let cf = ((ucast (drop_bit (unat (count - 1)) op1_64 :: u64)) AND 0x1 :: u32) in
     let of1 = (ucast (drop_bit 63 ((push_bit 1 result_64) XOR result_64) :: u64) :: u32) in
     Inr ((), SET_FLAGS_OxxxxC of1 cf s)))"

definition SHL_EqM :: handler where
  "SHL_EqM i s =
    (let eaddr = resolve i s in
     rbind (read_RMW_virtual_qword_64 (i_seg i) eaddr s) (\<lambda>op1_64 s.
     let count =
       (if (b1 i) = 0xd3 then
         (ucast (CL s) :: u32)
       else
         (ucast (i_Ib i) :: u32)) in
     let count = count AND 0x3f in
     (if count = 0 then
       Inr ((), s)
     else
     let result_64 = push_bit (unat count) op1_64 in
     let cf = ((ucast (drop_bit (unat (64 - count)) op1_64 :: u64)) AND 0x1 :: u32) in
     let of1 = (cf XOR (ucast (drop_bit 63 result_64 :: u64)) :: u32) in
     rbind (write_RMW_virtual_qword result_64 s) (\<lambda>_ s.
     let s = SET_FLAGS_OSZAPC_LOGIC_64 result_64 s in
     Inr ((), SET_FLAGS_OxxxxC of1 cf s)))))"

definition SHL_EqR :: handler where
  "SHL_EqR i s =
    (let count =
       (if (b1 i) = 0xd3 then
         (ucast (CL s) :: u32)
       else
         (ucast (i_Ib i) :: u32)) in
     let count = count AND 0x3f in
     (if count = 0 then
       Inr ((), s)
     else
     let op1_64 = BX_READ_64BIT_REG (i_rm i) s in
     let result_64 = push_bit (unat count) op1_64 in
     let s = BX_WRITE_64BIT_REG (i_rm i) result_64 s in
     let cf = ((ucast (drop_bit (unat (64 - count)) op1_64 :: u64)) AND 0x1 :: u32) in
     let of1 = (cf XOR (ucast (drop_bit 63 result_64 :: u64)) :: u32) in
     let s = SET_FLAGS_OSZAPC_LOGIC_64 result_64 s in
     Inr ((), SET_FLAGS_OxxxxC of1 cf s)))"

definition SHR_EqM :: handler where
  "SHR_EqM i s =
    (let eaddr = resolve i s in
     rbind (read_RMW_virtual_qword_64 (i_seg i) eaddr s) (\<lambda>op1_64 s.
     let count =
       (if (b1 i) = 0xd3 then
         (ucast (CL s) :: u32)
       else
         (ucast (i_Ib i) :: u32)) in
     let count = count AND 0x3f in
     (if count = 0 then
       Inr ((), s)
     else
     let result_64 = drop_bit (unat count) op1_64 in
     rbind (write_RMW_virtual_qword result_64 s) (\<lambda>_ s.
     let cf = ((ucast (drop_bit (unat (count - 1)) op1_64 :: u64)) AND 0x1 :: u32) in
     let of1 = (ucast (drop_bit 63 ((push_bit 1 result_64) XOR result_64) :: u64) :: u32) in
     let s = SET_FLAGS_OSZAPC_LOGIC_64 result_64 s in
     Inr ((), SET_FLAGS_OxxxxC of1 cf s)))))"

definition SHR_EqR :: handler where
  "SHR_EqR i s =
    (let count =
       (if (b1 i) = 0xd3 then
         (ucast (CL s) :: u32)
       else
         (ucast (i_Ib i) :: u32)) in
     let count = count AND 0x3f in
     (if count = 0 then
       Inr ((), s)
     else
     let op1_64 = BX_READ_64BIT_REG (i_rm i) s in
     let result_64 = drop_bit (unat count) op1_64 in
     let s = BX_WRITE_64BIT_REG (i_rm i) result_64 s in
     let cf = ((ucast (drop_bit (unat (count - 1)) op1_64 :: u64)) AND 0x1 :: u32) in
     let of1 = (ucast (drop_bit 63 ((push_bit 1 result_64) XOR result_64) :: u64) :: u32) in
     let s = SET_FLAGS_OSZAPC_LOGIC_64 result_64 s in
     Inr ((), SET_FLAGS_OxxxxC of1 cf s)))"

definition SAR_EqM :: handler where
  "SAR_EqM i s =
    (let eaddr = resolve i s in
     rbind (read_RMW_virtual_qword_64 (i_seg i) eaddr s) (\<lambda>op1_64 s.
     let count =
       (if (b1 i) = 0xd3 then
         (ucast (CL s) :: u32)
       else
         (ucast (i_Ib i) :: u32)) in
     let count = count AND 0x3f in
     (if count = 0 then
       Inr ((), s)
     else
     let result_64 =
       (if (op1_64 AND 0x8000000000000000) \<noteq> 0 then
         (drop_bit (unat count) op1_64) OR (push_bit (unat (64 - count)) 0xffffffffffffffff)
       else
         drop_bit (unat count) op1_64) in
     rbind (write_RMW_virtual_qword result_64 s) (\<lambda>_ s.
     let s = SET_FLAGS_OSZAPC_LOGIC_64 result_64 s in
     let s = set_flag CF_flag (((drop_bit (unat (count - 1)) op1_64) AND 1) \<noteq> 0) s in
     Inr ((), clear_flag OF_flag s)))))"

definition SAR_EqR :: handler where
  "SAR_EqR i s =
    (let count =
       (if (b1 i) = 0xd3 then
         (ucast (CL s) :: u32)
       else
         (ucast (i_Ib i) :: u32)) in
     let count = count AND 0x3f in
     (if count = 0 then
       Inr ((), s)
     else
     let op1_64 = BX_READ_64BIT_REG (i_rm i) s in
     let result_64 =
       (if (op1_64 AND 0x8000000000000000) \<noteq> 0 then
         (drop_bit (unat count) op1_64) OR (push_bit (unat (64 - count)) 0xffffffffffffffff)
       else
         drop_bit (unat count) op1_64) in
     let s = BX_WRITE_64BIT_REG (i_rm i) result_64 s in
     let s = SET_FLAGS_OSZAPC_LOGIC_64 result_64 s in
     let s = set_flag CF_flag (((drop_bit (unat (count - 1)) op1_64) AND 1) \<noteq> 0) s in
     Inr ((), clear_flag OF_flag s)))"

end
