(* ===== verification/Cpu_Mult.thy ===== *)
theory Cpu_Mult
  imports Cpu_Registers "HOL-Library.Signed_Division"
begin

text \<open>
  Multiplication, division, decimal adjustment and single flags (\<^verbatim>\<open>src/sim/bochs/cpu/mult8.cc\<close>, \<^verbatim>\<open>mult16.cc\<close>, \<^verbatim>\<open>mult32.cc\<close>, \<^verbatim>\<open>bcd.cc\<close>, \<^verbatim>\<open>flag_ctrl.cc\<close>), one definition per handler.
\<close>

unbundle bit_operations_syntax

section \<open>\<^verbatim>\<open>mult8.cc\<close>\<close>

definition MUL_ALEbR :: handler where
  "MUL_ALEbR i s =
    (let op1 = AL s in
     let op2 = BX_READ_8BIT_REGx (i_rm i) (extend8bitL i) s in
     let product_16 = ((ucast (ucast op1 :: u16)) * (ucast (ucast op2 :: u16)) :: u32) in
     let product_8l = ((ucast product_16) AND 0xff :: u8) in
     let product_8h = (ucast (drop_bit 8 product_16 :: u32) :: u8) in
     let s = set_AX (ucast product_16) s in
     let s = SET_FLAGS_OSZAPC_LOGIC_8 product_8l s in
     (if product_8h \<noteq> 0 then
       Inr ((), ASSERT_FLAGS_OxxxxC s)
     else
     Inr ((), s)))"

definition IMUL_ALEbR :: handler where
  "IMUL_ALEbR i s =
    (let op1 = AL s in
     let op2 = BX_READ_8BIT_REGx (i_rm i) (extend8bitL i) s in
     let product_16 = ((scast op1) * (scast op2) :: u16) in
     let product_8 = ((ucast product_16) AND 0xff :: u8) in
     let s = set_AX product_16 s in
     let s = SET_FLAGS_OSZAPC_LOGIC_8 product_8 s in
     (if product_16 \<noteq> (scast (ucast product_16 :: u8)) then
       Inr ((), ASSERT_FLAGS_OxxxxC s)
     else
     Inr ((), s)))"

definition DIV_ALEbR :: handler where
  "DIV_ALEbR i s =
    (let op2 = BX_READ_8BIT_REGx (i_rm i) (extend8bitL i) s in
     (if op2 = 0 then
       exception DE_EXCEPTION 0 s
     else
     let op1 = AX s in
     let quotient_16 = (op1 div (ucast op2) :: u16) in
     let remainder_8 = (ucast (op1 mod (ucast op2) :: u16) :: u8) in
     let quotient_8l = ((ucast quotient_16) AND 0xff :: u8) in
     (if quotient_16 \<noteq> (ucast quotient_8l) then
       exception DE_EXCEPTION 0 s
     else
     let s = set_AL quotient_8l s in
     Inr ((), set_AH remainder_8 s))))"

definition IDIV_ALEbR :: handler where
  "IDIV_ALEbR i s =
    (let op1 = AX s in
     (if op1 = 0x8000 then
       exception DE_EXCEPTION 0 s
     else
     let op2 = BX_READ_8BIT_REGx (i_rm i) (extend8bitL i) s in
     (if op2 = 0 then
       exception DE_EXCEPTION 0 s
     else
     let quotient_16 = (word_of_int (sint op1 sdiv sint (scast op2 :: u16)) :: u16) in
     let remainder_8 = (ucast (word_of_int (sint op1 smod sint (scast op2 :: u16)) :: u16) :: u8) in
     let quotient_8l = ((ucast quotient_16) AND 0xff :: u8) in
     (if quotient_16 \<noteq> (scast quotient_8l) then
       exception DE_EXCEPTION 0 s
     else
     let s = set_AL quotient_8l s in
     Inr ((), set_AH remainder_8 s)))))"

section \<open>\<^verbatim>\<open>mult16.cc\<close>\<close>

definition MUL_AXEwR :: handler where
  "MUL_AXEwR i s =
    (let op1_16 = AX s in
     let op2_16 = BX_READ_16BIT_REG (i_rm i) s in
     let product_32 = ((ucast op1_16) * (ucast op2_16) :: u32) in
     let product_16l = ((ucast product_32) AND 0xffff :: u16) in
     let product_16h = (ucast (drop_bit 16 product_32 :: u32) :: u16) in
     let s = set_AX product_16l s in
     let s = set_DX product_16h s in
     let s = SET_FLAGS_OSZAPC_LOGIC_16 product_16l s in
     (if product_16h \<noteq> 0 then
       Inr ((), ASSERT_FLAGS_OxxxxC s)
     else
     Inr ((), s)))"

definition IMUL_AXEwR :: handler where
  "IMUL_AXEwR i s =
    (let op1_16 = AX s in
     let op2_16 = BX_READ_16BIT_REG (i_rm i) s in
     let product_32 = ((scast op1_16) * (scast op2_16) :: u32) in
     let product_16l = ((ucast product_32) AND 0xffff :: u16) in
     let product_16h = (ucast (signed_drop_bit 16 product_32 :: u32) :: u16) in
     let s = set_AX product_16l s in
     let s = set_DX product_16h s in
     let s = SET_FLAGS_OSZAPC_LOGIC_16 product_16l s in
     (if product_32 \<noteq> (scast (ucast product_32 :: u16)) then
       Inr ((), ASSERT_FLAGS_OxxxxC s)
     else
     Inr ((), s)))"

definition DIV_AXEwR :: handler where
  "DIV_AXEwR i s =
    (let op2_16 = BX_READ_16BIT_REG (i_rm i) s in
     (if op2_16 = 0 then
       exception DE_EXCEPTION 0 s
     else
     let op1_32 = ((push_bit 16 (ucast (DX s))) OR (ucast (AX s)) :: u32) in
     let quotient_32 = (op1_32 div (ucast op2_16) :: u32) in
     let remainder_16 = (ucast (op1_32 mod (ucast op2_16) :: u32) :: u16) in
     let quotient_16l = ((ucast quotient_32) AND 0xffff :: u16) in
     (if quotient_32 \<noteq> (ucast quotient_16l) then
       exception DE_EXCEPTION 0 s
     else
     let s = set_AX quotient_16l s in
     Inr ((), set_DX remainder_16 s))))"

definition IDIV_AXEwR :: handler where
  "IDIV_AXEwR i s =
    (let op1_32 = ((push_bit 16 (ucast (DX s))) OR (ucast (AX s)) :: u32) in
     (if op1_32 = 0x80000000 then
       exception DE_EXCEPTION 0 s
     else
     let op2_16 = BX_READ_16BIT_REG (i_rm i) s in
     (if op2_16 = 0 then
       exception DE_EXCEPTION 0 s
     else
     let quotient_32 = (word_of_int (sint op1_32 sdiv sint (scast op2_16 :: u32)) :: u32) in
     let remainder_16 = (ucast (word_of_int (sint op1_32 smod sint (scast op2_16 :: u32)) :: u32) :: u16) in
     let quotient_16l = ((ucast quotient_32) AND 0xffff :: u16) in
     (if quotient_32 \<noteq> (scast quotient_16l) then
       exception DE_EXCEPTION 0 s
     else
     let s = set_AX quotient_16l s in
     Inr ((), set_DX remainder_16 s)))))"

definition IMUL_GwEwIwR :: handler where
  "IMUL_GwEwIwR i s =
    (let op2_16 = BX_READ_16BIT_REG (i_rm i) s in
     let op3_16 = i_Iw i in
     let product_32 = ((scast op2_16) * (scast op3_16) :: u32) in
     let product_16 = ((ucast product_32) AND 0xffff :: u16) in
     let s = BX_WRITE_16BIT_REG (i_nnn i) product_16 s in
     let s = SET_FLAGS_OSZAPC_LOGIC_16 product_16 s in
     (if product_32 \<noteq> (scast (ucast product_32 :: u16)) then
       Inr ((), ASSERT_FLAGS_OxxxxC s)
     else
     Inr ((), s)))"

definition IMUL_GwEwR :: handler where
  "IMUL_GwEwR i s =
    (let op1_16 = BX_READ_16BIT_REG (i_nnn i) s in
     let op2_16 = BX_READ_16BIT_REG (i_rm i) s in
     let product_32 = ((scast op1_16) * (scast op2_16) :: u32) in
     let product_16 = ((ucast product_32) AND 0xffff :: u16) in
     let s = BX_WRITE_16BIT_REG (i_nnn i) product_16 s in
     let s = SET_FLAGS_OSZAPC_LOGIC_16 product_16 s in
     (if product_32 \<noteq> (scast (ucast product_32 :: u16)) then
       Inr ((), ASSERT_FLAGS_OxxxxC s)
     else
     Inr ((), s)))"

section \<open>\<^verbatim>\<open>mult32.cc\<close>\<close>

definition MUL_EAXEdR :: handler where
  "MUL_EAXEdR i s =
    (let op1_32 = EAX s in
     let op2_32 = BX_READ_32BIT_REG (i_rm i) s in
     let product_64 = ((ucast op1_32) * (ucast op2_32) :: u64) in
     let product_32l = (ucast product_64 :: u32) in
     let product_32h = (ucast (drop_bit 32 product_64 :: u64) :: u32) in
     let s = set_RAX (ucast product_32l) s in
     let s = set_RDX (ucast product_32h) s in
     let s = SET_FLAGS_OSZAPC_LOGIC_32 product_32l s in
     (if product_32h \<noteq> 0 then
       Inr ((), ASSERT_FLAGS_OxxxxC s)
     else
     Inr ((), s)))"

definition IMUL_EAXEdR :: handler where
  "IMUL_EAXEdR i s =
    (let op1_32 = EAX s in
     let op2_32 = BX_READ_32BIT_REG (i_rm i) s in
     let product_64 = ((scast op1_32) * (scast op2_32) :: u64) in
     let product_32l = (ucast product_64 :: u32) in
     let product_32h = (ucast (drop_bit 32 product_64 :: u64) :: u32) in
     let s = set_RAX (ucast product_32l) s in
     let s = set_RDX (ucast product_32h) s in
     let s = SET_FLAGS_OSZAPC_LOGIC_32 product_32l s in
     (if product_64 \<noteq> (scast (ucast product_64 :: u32)) then
       Inr ((), ASSERT_FLAGS_OxxxxC s)
     else
     Inr ((), s)))"

definition DIV_EAXEdR :: handler where
  "DIV_EAXEdR i s =
    (let op2_32 = BX_READ_32BIT_REG (i_rm i) s in
     (if op2_32 = 0 then
       exception DE_EXCEPTION 0 s
     else
     let op1_64 = ((push_bit 32 (ucast (EDX s))) + (ucast (EAX s)) :: u64) in
     let quotient_64 = (op1_64 div (ucast op2_32) :: u64) in
     let remainder_32 = (ucast (op1_64 mod (ucast op2_32) :: u64) :: u32) in
     let quotient_32l = ((ucast quotient_64) AND 0xffffffff :: u32) in
     (if quotient_64 \<noteq> (ucast quotient_32l) then
       exception DE_EXCEPTION 0 s
     else
     let s = set_RAX (ucast quotient_32l) s in
     Inr ((), set_RDX (ucast remainder_32) s))))"

definition IDIV_EAXEdR :: handler where
  "IDIV_EAXEdR i s =
    (let op1_64 = ((push_bit 32 (ucast (EDX s))) OR (ucast (EAX s)) :: u64) in
     (if op1_64 = 0x8000000000000000 then
       exception DE_EXCEPTION 0 s
     else
     let op2_32 = BX_READ_32BIT_REG (i_rm i) s in
     (if op2_32 = 0 then
       exception DE_EXCEPTION 0 s
     else
     let quotient_64 = (word_of_int (sint op1_64 sdiv sint (scast op2_32 :: u64)) :: u64) in
     let remainder_32 = (ucast (word_of_int (sint op1_64 smod sint (scast op2_32 :: u64)) :: u64) :: u32) in
     let quotient_32l = ((ucast quotient_64) AND 0xffffffff :: u32) in
     (if quotient_64 \<noteq> (scast quotient_32l) then
       exception DE_EXCEPTION 0 s
     else
     let s = set_RAX (scast quotient_32l) s in
     Inr ((), set_RDX (scast remainder_32) s)))))"

definition IMUL_GdEdIdR :: handler where
  "IMUL_GdEdIdR i s =
    (let op2_32 = BX_READ_32BIT_REG (i_rm i) s in
     let op3_32 = i_Id i in
     let product_64 = ((scast op2_32) * (scast op3_32) :: u64) in
     let product_32 = ((ucast product_64) AND 0xffffffff :: u32) in
     let s = BX_WRITE_32BIT_REGZ (i_nnn i) product_32 s in
     let s = SET_FLAGS_OSZAPC_LOGIC_32 product_32 s in
     (if product_64 \<noteq> (scast (ucast product_64 :: u32)) then
       Inr ((), ASSERT_FLAGS_OxxxxC s)
     else
     Inr ((), s)))"

definition IMUL_GdEdR :: handler where
  "IMUL_GdEdR i s =
    (let op1_32 = BX_READ_32BIT_REG (i_nnn i) s in
     let op2_32 = BX_READ_32BIT_REG (i_rm i) s in
     let product_64 = ((scast op1_32) * (scast op2_32) :: u64) in
     let product_32 = ((ucast product_64) AND 0xffffffff :: u32) in
     let s = BX_WRITE_32BIT_REGZ (i_nnn i) product_32 s in
     let s = SET_FLAGS_OSZAPC_LOGIC_32 product_32 s in
     (if product_64 \<noteq> (scast (ucast product_64 :: u32)) then
       Inr ((), ASSERT_FLAGS_OxxxxC s)
     else
     Inr ((), s)))"

section \<open>\<^verbatim>\<open>bcd.cc\<close>\<close>

definition AAA :: handler where
  "AAA i s =
    (let s =
       (if (((ucast (AL s)) AND 0x0f :: u32) > 9) \<or> (get_flag AF_flag s) then
         let s = set_AX ((AX s) + 0x106) s in
         let s = assert_flag AF_flag s in
         assert_flag CF_flag s
       else
         let s = clear_flag AF_flag s in
         clear_flag CF_flag s) in
     let s = set_AL ((AL s) AND 0x0f) s in
     let s = clear_flag OF_flag s in
     let s = clear_flag SF_flag s in
     let s = set_flag ZF_flag ((AL s) = 0) s in
     Inr ((), set_PF_base (AL s) s))"

definition AAS :: handler where
  "AAS i s =
    (let s =
       (if (((ucast (AL s)) AND 0x0f :: u32) > 0x09) \<or> (get_flag AF_flag s) then
         let s = set_AX ((AX s) - 0x106) s in
         let s = assert_flag AF_flag s in
         assert_flag CF_flag s
       else
         let s = clear_flag CF_flag s in
         clear_flag AF_flag s) in
     let s = set_AL ((AL s) AND 0x0f) s in
     let s = clear_flag OF_flag s in
     let s = clear_flag SF_flag s in
     let s = set_flag ZF_flag ((AL s) = 0) s in
     Inr ((), set_PF_base (AL s) s))"

definition AAM :: handler where
  "AAM i s =
    (let imm8 = i_Ib i in
     (if imm8 = 0 then
       exception DE_EXCEPTION 0 s
     else
     let al = AL s in
     let s = set_AH (al div imm8) s in
     let s = set_AL (al mod imm8) s in
     Inr ((), SET_FLAGS_OSZAPC_LOGIC_8 (AL s) s)))"

definition AAD :: handler where
  "AAD i s =
    (let tmp = (ucast (AH s) :: u16) in
     let tmp = (tmp * (ucast (i_Ib i)) :: u16) in
     let tmp = (tmp + (ucast (AL s)) :: u16) in
     let s = set_AX (tmp AND 0xff) s in
     Inr ((), SET_FLAGS_OSZAPC_LOGIC_8 (AL s) s))"

definition DAA :: handler where
  "DAA i s =
    (let tmpAL = AL s in
     let tmpCF = (0 :: u32) in
     let (tmpCF, s) =
       (if (((ucast tmpAL) AND 0x0f :: u32) > 0x09) \<or> (get_flag AF_flag s) then
         let tmpCF = (of_bool (((AL s) > 0xf9) \<or> (get_flag CF_flag s)) :: u32) in
         let s = set_AL ((AL s) + 0x06) s in
         let s = assert_flag AF_flag s in
         (tmpCF, s)
       else
         let s = clear_flag AF_flag s in
         (tmpCF, s)) in
     let (tmpCF, s) =
       (if (tmpAL > 0x99) \<or> (get_flag CF_flag s) then
         let s = set_AL ((AL s) + 0x60) s in
         let tmpCF = (1 :: u32) in
         (tmpCF, s)
       else
         let tmpCF = (0 :: u32) in
         (tmpCF, s)) in
     let s = clear_flag OF_flag s in
     let s = set_flag SF_flag ((AL s) \<ge> 0x80) s in
     let s = set_flag ZF_flag ((AL s) = 0) s in
     let s = set_PF_base (AL s) s in
     Inr ((), set_flag CF_flag (tmpCF \<noteq> 0) s))"

definition DAS :: handler where
  "DAS i s =
    (let tmpAL = AL s in
     let tmpCF = (0 :: u32) in
     let (tmpCF, s) =
       (if (((ucast tmpAL) AND 0x0f :: u32) > 0x09) \<or> (get_flag AF_flag s) then
         let tmpCF = (of_bool (((AL s) < 0x06) \<or> (get_flag CF_flag s)) :: u32) in
         let s = set_AL ((AL s) - 0x06) s in
         let s = assert_flag AF_flag s in
         (tmpCF, s)
       else
         let s = clear_flag AF_flag s in
         (tmpCF, s)) in
     let (tmpCF, s) =
       (if (tmpAL > 0x99) \<or> (get_flag CF_flag s) then
         let s = set_AL ((AL s) - 0x60) s in
         let tmpCF = (1 :: u32) in
         (tmpCF, s)
       else
         (tmpCF, s)) in
     let s = clear_flag OF_flag s in
     let s = set_flag SF_flag ((AL s) \<ge> 0x80) s in
     let s = set_flag ZF_flag ((AL s) = 0) s in
     let s = set_PF_base (AL s) s in
     Inr ((), set_flag CF_flag (tmpCF \<noteq> 0) s))"

section \<open>\<^verbatim>\<open>flag_ctrl.cc\<close>\<close>

definition LAHF :: handler where
  "LAHF i s =
    (let (flags, s) = force_flags s in
     Inr ((), set_AH (ucast (flags AND 0xff)) s))"


definition SAHF :: handler where
  "SAHF i s =
    (let s = set_flag SF_flag ((drop_bit 7 ((ucast (AH s)) AND 0x80) :: u32) \<noteq> 0) s in
     let s = set_flag ZF_flag ((drop_bit 6 ((ucast (AH s)) AND 0x40) :: u32) \<noteq> 0) s in
     let s = set_flag AF_flag ((drop_bit 4 ((ucast (AH s)) AND 0x10) :: u32) \<noteq> 0) s in
     let s = set_flag CF_flag (((AH s) AND 0x01) \<noteq> 0) s in
     Inr ((), set_flag PF_flag ((drop_bit 2 ((ucast (AH s)) AND 0x04) :: u32) \<noteq> 0) s))"

definition CLC :: handler where
  "CLC i s =
    (Inr ((), clear_flag CF_flag s))"

definition STC :: handler where
  "STC i s =
    (Inr ((), assert_flag CF_flag s))"

definition CLD :: handler where
  "CLD i s =
    (Inr ((), clear_DF s))"

definition STD :: handler where
  "STD i s =
    (Inr ((), assert_DF s))"

definition CMC :: handler where
  "CMC i s =
    (Inr ((), set_flag CF_flag (\<not> (get_flag CF_flag s)) s))"

definition SALC :: handler where
  "SALC i s =
    ((if get_flag CF_flag s then
       Inr ((), set_AL 0xff s)
     else
     Inr ((), set_AL 0x00 s)))"

end
