(* ===== verification/Cpu_Mult64.thy ===== *)
theory Cpu_Mult64
  imports Cpu_Registers
begin

text \<open>
  Multiplication and division of 64 bits (\<^verbatim>\<open>src/sim/bochs/cpu/mult64.cc\<close>): the 128 bit arithmetic that the code
  builds from words of 32 and 64 bits, and the instructions on it. A \<open>bit128\<close> stands for \<^verbatim>\<open>Bit128u\<close> and for
  \<^verbatim>\<open>Bit128s\<close>. Loops are functions with their termination proofs.
\<close>

unbundle bit_operations_syntax

record bit128 =
  lo128 :: u64
  hi128 :: u64

section \<open>Multiplication\<close>

text \<open>The sum and the carry.\<close>

definition partial_add :: "u32 \<Rightarrow> u32 \<Rightarrow> u32 \<times> u32" where
  "partial_add a b = (let t = a; a = a + b in (a, of_bool (a < t)))"

function carry_loop :: "u32 list \<Rightarrow> nat \<Rightarrow> u32 \<Rightarrow> u32 list" where
  "carry_loop result k c =
     (if k < 4 \<and> c \<noteq> 0 then
        (case partial_add (result ! k) c of (r, c) \<Rightarrow> carry_loop (result[k := r]) (Suc k) c)
      else result)"
  by pat_completeness auto
termination by (relation "measure (\<lambda>(_, k, _). 4 - k)") auto

declare carry_loop.simps [simp del]

definition mul_digit :: "u32 list \<Rightarrow> u32 list \<Rightarrow> nat \<Rightarrow> nat \<Rightarrow> u32 list \<Rightarrow> u32 list" where
  "mul_digit op_1 op_2 i j result =
     (let nn = (ucast (op_1 ! i) * ucast (op_2 ! j) :: u64); k = i + j;
          (r, c) = partial_add (result ! k) (ucast (nn AND 0xffffffff));
          result = result[k := r]; k = Suc k;
          (r, c) = partial_add (result ! k) (ucast (drop_bit 32 nn) + c);
          result = result[k := r]; k = Suc k in
      carry_loop result k c)"

definition long_mul :: "u64 \<Rightarrow> u64 \<Rightarrow> bit128" where
  "long_mul op1 op2 =
     (let op_1 = [ucast (op1 AND 0xffffffff), ucast (drop_bit 32 op1)];
          op_2 = [ucast (op2 AND 0xffffffff), ucast (drop_bit 32 op2)];
          result = fold (\<lambda>i. fold (\<lambda>j. mul_digit op_1 op_2 i j) [0..<2]) [0..<2] [0, 0, 0, 0] in
      \<lparr>lo128 = ucast (result ! 0) + push_bit 32 (ucast (result ! 1)),
       hi128 = ucast (result ! 2) + push_bit 32 (ucast (result ! 3))\<rparr>)"

definition long_neg :: "bit128 \<Rightarrow> bit128" where
  "long_neg n =
     (let t = lo128 n; n = n\<lparr>lo128 := - t\<rparr>; n = (if t - 1 > t then n\<lparr>hi128 := hi128 n - 1\<rparr> else n) in
      n\<lparr>hi128 := NOT (hi128 n)\<rparr>)"

definition long_imul :: "u64 \<Rightarrow> u64 \<Rightarrow> bit128" where
  "long_imul op1 op2 =
     (let s1 = op1 <s 0; op1 = (if s1 then - op1 else op1);
          s2 = op2 <s 0; op2 = (if s2 then - op2 else op2);
          product = long_mul op1 op2 in
      if s1 \<noteq> s2 then long_neg product else product)"

section \<open>Division\<close>

definition long_shl :: "bit128 \<Rightarrow> bit128" where
  "long_shl a =
     (let c = drop_bit 63 (lo128 a) in \<lparr>lo128 = push_bit 1 (lo128 a), hi128 = push_bit 1 (hi128 a) OR c\<rparr>)"

definition long_shr :: "bit128 \<Rightarrow> bit128" where
  "long_shr a =
     (let c = push_bit 63 (hi128 a) in \<lparr>lo128 = drop_bit 1 (lo128 a) OR c, hi128 = drop_bit 1 (hi128 a)\<rparr>)"

text \<open>The difference and the borrow.\<close>

definition long_sub :: "bit128 \<Rightarrow> bit128 \<Rightarrow> bit128 \<times> bool" where
  "long_sub a b =
     (let t = lo128 a; lo = t - lo128 b; c = (of_bool (lo > t) :: u64);
          t = hi128 a; hi = t - (hi128 b + c) in
      (\<lparr>lo128 = lo, hi128 = hi\<rparr>, hi > t))"

definition long_le :: "bit128 \<Rightarrow> bit128 \<Rightarrow> bool" where
  "long_le a b = (if hi128 a = hi128 b then lo128 a \<le> lo128 b else hi128 a \<le> hi128 b)"

function div_grow :: "bit128 \<Rightarrow> bit128 \<Rightarrow> nat \<Rightarrow> bit128 \<times> nat" where
  "div_grow d acc n = (if long_le d acc \<and> n < 128 then div_grow (long_shl d) acc (Suc n) else (d, n))"
  by pat_completeness auto
termination by (relation "measure (\<lambda>(_, _, n). 128 - n)") auto

declare div_grow.simps [simp del]

fun div_rounds :: "nat \<Rightarrow> bit128 \<Rightarrow> bit128 \<Rightarrow> bit128 \<Rightarrow> bit128 \<times> bit128" where
  "div_rounds 0 d acc q = (acc, q)"
| "div_rounds (Suc n) d acc q =
     (let d = long_shr d; q = long_shl q; temp = acc; (acc, c) = long_sub acc d in
      if c then div_rounds n d temp q
      else div_rounds n d acc (q\<lparr>lo128 := lo128 q + 1\<rparr>))"

text \<open>The quotient and the remainder.\<close>

definition long_div :: "bit128 \<Rightarrow> u64 \<Rightarrow> bit128 \<times> u64" where
  "long_div dividend divisor =
     (let d = \<lparr>lo128 = divisor, hi128 = 0\<rparr>; acc = dividend; q = \<lparr>lo128 = 0, hi128 = 0\<rparr>;
          (d, n) = div_grow d acc 0; (acc, q) = div_rounds n d acc q in
      (q, lo128 acc))"

definition long_idiv :: "bit128 \<Rightarrow> u64 \<Rightarrow> bit128 \<times> u64" where
  "long_idiv dividend divisor =
     (let s1 = hi128 dividend <s 0; temp = (if s1 then long_neg dividend else dividend);
          s2 = divisor <s 0; divisor = (if s2 then - divisor else divisor);
          (quotient, remainder) = long_div temp divisor;
          quotient = (if s1 \<noteq> s2 then long_neg quotient else quotient);
          remainder = (if s2 then - remainder else remainder) in
      (quotient, remainder))"

section \<open>Instructions\<close>

definition MUL_RAXEqR :: handler where
  "MUL_RAXEqR i s =
    (let op1_64 = RAX s; op2_64 = BX_READ_64BIT_REG (i_rm i) s;
         product_128 = long_mul op1_64 op2_64;
         s = set_RAX (lo128 product_128) s;
         s = set_RDX (hi128 product_128) s;
         s = SET_FLAGS_OSZAPC_LOGIC_64 (lo128 product_128) s in
     if hi128 product_128 \<noteq> 0 then Inr ((), ASSERT_FLAGS_OxxxxC s) else Inr ((), s))"

text \<open>Whether the product is more than its low half, sign extended.\<close>

definition imul_overflow :: "bit128 \<Rightarrow> bool" where
  "imul_overflow p \<longleftrightarrow> hi128 p + drop_bit 63 (lo128 p) \<noteq> 0"

definition IMUL_RAXEqR :: handler where
  "IMUL_RAXEqR i s =
    (let op1_64 = RAX s; op2_64 = BX_READ_64BIT_REG (i_rm i) s;
         product_128 = long_imul op1_64 op2_64;
         s = set_RAX (lo128 product_128) s;
         s = set_RDX (hi128 product_128) s in
     if imul_overflow product_128 then Inr ((), ASSERT_FLAGS_OxxxxC s) else Inr ((), s))"

definition DIV_RAXEqR :: handler where
  "DIV_RAXEqR i s =
    (let op2_64 = BX_READ_64BIT_REG (i_rm i) s in
     if op2_64 = 0 then exception DE_EXCEPTION 0 s
     else
       let op1_128 = \<lparr>lo128 = RAX s, hi128 = RDX s\<rparr>;
           (quotient_128, remainder_64) = long_div op1_128 op2_64;
           quotient_64l = lo128 quotient_128 in
       if hi128 quotient_128 \<noteq> 0 then exception DE_EXCEPTION 0 s
       else Inr ((), set_RDX remainder_64 (set_RAX quotient_64l s)))"

definition IDIV_RAXEqR :: handler where
  "IDIV_RAXEqR i s =
    (let op1_128 = \<lparr>lo128 = RAX s, hi128 = RDX s\<rparr> in
     if hi128 op1_128 = 0x8000000000000000 \<and> lo128 op1_128 = 0 then exception DE_EXCEPTION 0 s
     else
       let op2_64 = BX_READ_64BIT_REG (i_rm i) s in
       if op2_64 = 0 then exception DE_EXCEPTION 0 s
       else
         let (quotient_128, remainder_64) = long_idiv op1_128 op2_64;
             quotient_64l = lo128 quotient_128 in
         if (lo128 quotient_128 AND 0x8000000000000000 = 0 \<and> hi128 quotient_128 \<noteq> 0) \<or>
            (lo128 quotient_128 AND 0x8000000000000000 \<noteq> 0 \<and> hi128 quotient_128 \<noteq> 0xffffffffffffffff)
         then exception DE_EXCEPTION 0 s
         else Inr ((), set_RDX remainder_64 (set_RAX quotient_64l s)))"

definition IMUL_GqEqIdR :: handler where
  "IMUL_GqEqIdR i s =
    (let op2_64 = BX_READ_64BIT_REG (i_rm i) s; op3_64 = (scast (i_Id i) :: u64);
         product_128 = long_imul op2_64 op3_64;
         s = BX_WRITE_64BIT_REG (i_nnn i) (lo128 product_128) s;
         s = SET_FLAGS_OSZAPC_LOGIC_64 (lo128 product_128) s in
     if imul_overflow product_128 then Inr ((), ASSERT_FLAGS_OxxxxC s) else Inr ((), s))"

definition IMUL_GqEqR :: handler where
  "IMUL_GqEqR i s =
    (let op1_64 = BX_READ_64BIT_REG (i_nnn i) s; op2_64 = BX_READ_64BIT_REG (i_rm i) s;
         product_128 = long_imul op1_64 op2_64;
         s = BX_WRITE_64BIT_REG (i_nnn i) (lo128 product_128) s;
         s = SET_FLAGS_OSZAPC_LOGIC_64 (lo128 product_128) s in
     if imul_overflow product_128 then Inr ((), ASSERT_FLAGS_OxxxxC s) else Inr ((), s))"

end
