(* ===== verification/Cpu_Bits.thy ===== *)
theory Cpu_Bits
  imports Cpu_Registers "HOL-Library.Signed_Division"
begin

text \<open>
  Conditions and single bits (\<^verbatim>\<open>src/sim/bochs/cpu/bit.cc\<close>, \<^verbatim>\<open>bit16.cc\<close>, \<^verbatim>\<open>bit32.cc\<close>, \<^verbatim>\<open>bit64.cc\<close>), one definition per handler.
\<close>

unbundle bit_operations_syntax

section \<open>\<^verbatim>\<open>bit.cc\<close>\<close>

definition SETO_EbM :: handler where
  "SETO_EbM i s =
    (let eaddr = resolve i s in
     let result_8 = (of_bool (getB_flag OF_flag s) :: u8) in
     write_virtual_byte (i_seg i) eaddr result_8 s)"

definition SETO_EbR :: handler where
  "SETO_EbR i s =
    (Inr ((), BX_WRITE_8BIT_REGx (i_rm i) (extend8bitL i) (of_bool (getB_flag OF_flag s)) s))"

definition SETNO_EbM :: handler where
  "SETNO_EbM i s =
    (let eaddr = resolve i s in
     let result_8 = (of_bool (\<not> (getB_flag OF_flag s)) :: u8) in
     write_virtual_byte (i_seg i) eaddr result_8 s)"

definition SETNO_EbR :: handler where
  "SETNO_EbR i s =
    (Inr ((), BX_WRITE_8BIT_REGx (i_rm i) (extend8bitL i) (of_bool (\<not> (getB_flag OF_flag s))) s))"

definition SETB_EbM :: handler where
  "SETB_EbM i s =
    (let eaddr = resolve i s in
     let result_8 = (of_bool (getB_flag CF_flag s) :: u8) in
     write_virtual_byte (i_seg i) eaddr result_8 s)"

definition SETB_EbR :: handler where
  "SETB_EbR i s =
    (Inr ((), BX_WRITE_8BIT_REGx (i_rm i) (extend8bitL i) (of_bool (getB_flag CF_flag s)) s))"

definition SETNB_EbM :: handler where
  "SETNB_EbM i s =
    (let eaddr = resolve i s in
     let result_8 = (of_bool (\<not> (getB_flag CF_flag s)) :: u8) in
     write_virtual_byte (i_seg i) eaddr result_8 s)"

definition SETNB_EbR :: handler where
  "SETNB_EbR i s =
    (Inr ((), BX_WRITE_8BIT_REGx (i_rm i) (extend8bitL i) (of_bool (\<not> (getB_flag CF_flag s))) s))"

definition SETZ_EbM :: handler where
  "SETZ_EbM i s =
    (let eaddr = resolve i s in
     let result_8 = (of_bool (getB_flag ZF_flag s) :: u8) in
     write_virtual_byte (i_seg i) eaddr result_8 s)"

definition SETZ_EbR :: handler where
  "SETZ_EbR i s =
    (Inr ((), BX_WRITE_8BIT_REGx (i_rm i) (extend8bitL i) (of_bool (getB_flag ZF_flag s)) s))"

definition SETNZ_EbM :: handler where
  "SETNZ_EbM i s =
    (let eaddr = resolve i s in
     let result_8 = (of_bool (\<not> (getB_flag ZF_flag s)) :: u8) in
     write_virtual_byte (i_seg i) eaddr result_8 s)"

definition SETNZ_EbR :: handler where
  "SETNZ_EbR i s =
    (Inr ((), BX_WRITE_8BIT_REGx (i_rm i) (extend8bitL i) (of_bool (\<not> (getB_flag ZF_flag s))) s))"

definition SETBE_EbM :: handler where
  "SETBE_EbM i s =
    (let eaddr = resolve i s in
     let result_8 = (of_bool ((getB_flag CF_flag s) \<or> (getB_flag ZF_flag s)) :: u8) in
     write_virtual_byte (i_seg i) eaddr result_8 s)"

definition SETBE_EbR :: handler where
  "SETBE_EbR i s =
    (Inr ((), BX_WRITE_8BIT_REGx (i_rm i) (extend8bitL i) (of_bool ((getB_flag CF_flag s) \<or> (getB_flag ZF_flag s))) s))"

definition SETNBE_EbM :: handler where
  "SETNBE_EbM i s =
    (let eaddr = resolve i s in
     let result_8 = (of_bool (\<not> ((getB_flag CF_flag s) \<or> (getB_flag ZF_flag s))) :: u8) in
     write_virtual_byte (i_seg i) eaddr result_8 s)"

definition SETNBE_EbR :: handler where
  "SETNBE_EbR i s =
    (Inr ((), BX_WRITE_8BIT_REGx (i_rm i) (extend8bitL i) (of_bool (\<not> ((getB_flag CF_flag s) \<or> (getB_flag ZF_flag s)))) s))"

definition SETS_EbM :: handler where
  "SETS_EbM i s =
    (let eaddr = resolve i s in
     let result_8 = (of_bool (getB_flag SF_flag s) :: u8) in
     write_virtual_byte (i_seg i) eaddr result_8 s)"

definition SETS_EbR :: handler where
  "SETS_EbR i s =
    (Inr ((), BX_WRITE_8BIT_REGx (i_rm i) (extend8bitL i) (of_bool (getB_flag SF_flag s)) s))"

definition SETNS_EbM :: handler where
  "SETNS_EbM i s =
    (let eaddr = resolve i s in
     let result_8 = (of_bool (\<not> (getB_flag SF_flag s)) :: u8) in
     write_virtual_byte (i_seg i) eaddr result_8 s)"

definition SETNS_EbR :: handler where
  "SETNS_EbR i s =
    (Inr ((), BX_WRITE_8BIT_REGx (i_rm i) (extend8bitL i) (of_bool (\<not> (getB_flag SF_flag s))) s))"

definition SETP_EbM :: handler where
  "SETP_EbM i s =
    (let eaddr = resolve i s in
     let result_8 = (of_bool (getB_flag PF_flag s) :: u8) in
     write_virtual_byte (i_seg i) eaddr result_8 s)"

definition SETP_EbR :: handler where
  "SETP_EbR i s =
    (Inr ((), BX_WRITE_8BIT_REGx (i_rm i) (extend8bitL i) (of_bool (getB_flag PF_flag s)) s))"

definition SETNP_EbM :: handler where
  "SETNP_EbM i s =
    (let eaddr = resolve i s in
     let result_8 = (of_bool (\<not> (getB_flag PF_flag s)) :: u8) in
     write_virtual_byte (i_seg i) eaddr result_8 s)"

definition SETNP_EbR :: handler where
  "SETNP_EbR i s =
    (Inr ((), BX_WRITE_8BIT_REGx (i_rm i) (extend8bitL i) (of_bool (\<not> (getB_flag PF_flag s))) s))"

definition SETL_EbM :: handler where
  "SETL_EbM i s =
    (let eaddr = resolve i s in
     let result_8 = (of_bool ((getB_flag SF_flag s) \<noteq> (getB_flag OF_flag s)) :: u8) in
     write_virtual_byte (i_seg i) eaddr result_8 s)"

definition SETL_EbR :: handler where
  "SETL_EbR i s =
    (Inr ((), BX_WRITE_8BIT_REGx (i_rm i) (extend8bitL i) (of_bool ((getB_flag SF_flag s) \<noteq> (getB_flag OF_flag s))) s))"

definition SETNL_EbM :: handler where
  "SETNL_EbM i s =
    (let eaddr = resolve i s in
     let result_8 = (of_bool (\<not> ((getB_flag SF_flag s) \<noteq> (getB_flag OF_flag s))) :: u8) in
     write_virtual_byte (i_seg i) eaddr result_8 s)"

definition SETNL_EbR :: handler where
  "SETNL_EbR i s =
    (Inr ((), BX_WRITE_8BIT_REGx (i_rm i) (extend8bitL i) (of_bool (\<not> ((getB_flag SF_flag s) \<noteq> (getB_flag OF_flag s)))) s))"

definition SETLE_EbM :: handler where
  "SETLE_EbM i s =
    (let eaddr = resolve i s in
     let result_8 = (of_bool ((getB_flag ZF_flag s) \<or> ((getB_flag SF_flag s) \<noteq> (getB_flag OF_flag s))) :: u8) in
     write_virtual_byte (i_seg i) eaddr result_8 s)"

definition SETLE_EbR :: handler where
  "SETLE_EbR i s =
    (let result_8 = (of_bool ((getB_flag ZF_flag s) \<or> ((getB_flag SF_flag s) \<noteq> (getB_flag OF_flag s))) :: u8) in
     Inr ((), BX_WRITE_8BIT_REGx (i_rm i) (extend8bitL i) result_8 s))"

definition SETNLE_EbM :: handler where
  "SETNLE_EbM i s =
    (let eaddr = resolve i s in
     let result_8 = (of_bool (\<not> ((getB_flag ZF_flag s) \<or> ((getB_flag SF_flag s) \<noteq> (getB_flag OF_flag s)))) :: u8) in
     write_virtual_byte (i_seg i) eaddr result_8 s)"

definition SETNLE_EbR :: handler where
  "SETNLE_EbR i s =
    (let result_8 = (of_bool (\<not> ((getB_flag ZF_flag s) \<or> ((getB_flag SF_flag s) \<noteq> (getB_flag OF_flag s)))) :: u8) in
     Inr ((), BX_WRITE_8BIT_REGx (i_rm i) (extend8bitL i) result_8 s))"

definition BSWAP_ERX :: handler where
  "BSWAP_ERX i s =
    (let val32 = BX_READ_32BIT_REG (opcodeReg i) s in
     let b0 = val32 AND 0xff in
     let val32 = drop_bit 8 val32 in
     let b1 = val32 AND 0xff in
     let val32 = drop_bit 8 val32 in
     let b2 = val32 AND 0xff in
     let val32 = drop_bit 8 val32 in
     let b3 = val32 in
     let val32 = (((push_bit 24 b0) OR (push_bit 16 b1)) OR (push_bit 8 b2)) OR b3 in
     Inr ((), BX_WRITE_32BIT_REGZ (opcodeReg i) val32 s))"

definition BSWAP_RRX :: handler where
  "BSWAP_RRX i s =
    (let val64 = BX_READ_64BIT_REG (opcodeReg i) s in
     let b0 = val64 AND 0xff in
     let val64 = drop_bit 8 val64 in
     let b1 = val64 AND 0xff in
     let val64 = drop_bit 8 val64 in
     let b2 = val64 AND 0xff in
     let val64 = drop_bit 8 val64 in
     let b3 = val64 AND 0xff in
     let val64 = drop_bit 8 val64 in
     let b4 = val64 AND 0xff in
     let val64 = drop_bit 8 val64 in
     let b5 = val64 AND 0xff in
     let val64 = drop_bit 8 val64 in
     let b6 = val64 AND 0xff in
     let val64 = drop_bit 8 val64 in
     let b7 = val64 in
     let val64 = (((((((push_bit 56 b0) OR (push_bit 48 b1)) OR (push_bit 40 b2)) OR (push_bit 32 b3)) OR (push_bit 24 b4)) OR (push_bit 16 b5)) OR (push_bit 8 b6)) OR b7 in
     Inr ((), BX_WRITE_64BIT_REG (opcodeReg i) val64 s))"

section \<open>\<^verbatim>\<open>bit16.cc\<close>\<close>

text \<open>
  The search of BSF and BSR for a set bit. They call it with a word that has one; the guard on 0 makes the loop total.
\<close>

function bsf_loop :: "'a::len word \<Rightarrow> 'a word \<Rightarrow> 'a word" where
  "bsf_loop op2 op1 = (if op2 = 0 \<or> op2 AND 1 \<noteq> 0 then op1 else bsf_loop (drop_bit 1 op2) (op1 + 1))"
  by pat_completeness auto

termination bsf_loop
proof (relation "measure (\<lambda>(w, _). unat w)")
  fix op2 op1 :: "'a word"
  assume "\<not> (op2 = 0 \<or> op2 AND 1 \<noteq> 0)"
  then have "0 < unat op2" by (simp add: unat_gt_0)
  moreover have "unat (drop_bit 1 op2) = unat op2 div 2" by (simp only: unsigned_drop_bit_eq) (simp add: drop_bit_eq_div take_bit_eq_mod)
  ultimately show "((drop_bit 1 op2, op1 + 1), (op2, op1)) \<in> measure (\<lambda>(w, _). unat w)" by simp
qed simp

lemma top_clear: "w AND push_bit (LENGTH('a) - 1) 1 = 0 \<longleftrightarrow> unat (w :: 'a::len word) < 2 ^ (LENGTH('a) - 1)"
proof -
  let ?n = "LENGTH('a) - 1"
  have "w AND push_bit ?n 1 = 0 \<longleftrightarrow> \<not> bit w ?n"
    by (simp add: and_exp_eq_0_iff_not_bit push_bit_eq_mult)
  also have "bit w ?n \<longleftrightarrow> odd (unat w div 2 ^ ?n)"
    by (simp only: bit_iff_odd [of "unat w", symmetric] bit_unsigned_iff) simp
  also have "unat w < 2 * 2 ^ ?n" using unsigned_less [of w, where ?'a = nat] by (cases "LENGTH('a)") simp_all
  then have "unat w div 2 ^ ?n < 2" by (simp add: less_mult_imp_div_less mult.commute)
  then have "odd (unat w div 2 ^ ?n) \<longleftrightarrow> unat w div 2 ^ ?n \<noteq> 0" by (metis even_zero less_2_cases odd_one One_nat_def)
  finally show ?thesis by (auto simp: div_eq_0_iff)
qed

function bsr_loop :: "'a::len word \<Rightarrow> 'a word \<Rightarrow> 'a word" where
  "bsr_loop op2 op1 =
     (if op2 = 0 \<or> op2 AND push_bit (LENGTH('a) - 1) 1 \<noteq> 0 then op1 else bsr_loop (push_bit 1 op2) (op1 - 1))"
  by pat_completeness auto

lemma push_bit_1_unat: "unat w < 2 ^ (LENGTH('a) - 1) \<Longrightarrow> unat (push_bit 1 (w :: 'a::len word)) = 2 * unat w"
proof -
  assume l: "unat w < 2 ^ (LENGTH('a) - 1)"
  have "2 ^ LENGTH('a) = 2 * (2 :: nat) ^ (LENGTH('a) - 1)" by (cases "LENGTH('a)") simp_all
  then have "2 * unat w < 2 ^ LENGTH('a)" using l by simp
  moreover have "unat (push_bit 1 w) = take_bit LENGTH('a) (2 * unat w)"
    by (simp only: push_bit_eq_mult unat_word_ariths) (simp add: mult.commute take_bit_eq_mod mod_simps)
  ultimately show ?thesis by (simp only: take_bit_nat_eq_self)
qed

termination bsr_loop
proof (relation "measure (\<lambda>(w, _). 2 ^ LENGTH('a) - unat w)")
  fix op2 op1 :: "'a word"
  assume a: "\<not> (op2 = 0 \<or> op2 AND push_bit (LENGTH('a) - 1) 1 \<noteq> 0)"
  then have "unat (push_bit 1 op2) = 2 * unat op2" using push_bit_1_unat top_clear by blast
  moreover have "0 < unat op2" using a by (simp add: unat_gt_0)
  moreover have "unat op2 < 2 ^ LENGTH('a)" by simp
  ultimately have "2 ^ LENGTH('a) - unat (push_bit 1 op2) < 2 ^ LENGTH('a) - unat op2" by linarith
  then show "((push_bit 1 op2, op1 - 1), (op2, op1)) \<in> measure (\<lambda>(w, _). 2 ^ LENGTH('a) - unat w)" by (simp only: in_measure prod.case)
qed simp

declare bsf_loop.simps [simp del] bsr_loop.simps [simp del]

definition BSF_GwEwR :: handler where
  "BSF_GwEwR i s =
    (let op2_16 = BX_READ_16BIT_REG (i_rm i) s in
     if op2_16 = 0 then
       Inr ((), assert_flag ZF_flag s)
     else
     let op1_16 = bsf_loop op2_16 0 in
     let s = SET_FLAGS_OSZAPC_LOGIC_16 op1_16 s in
     let s = clear_flag ZF_flag s in
     Inr ((), BX_WRITE_16BIT_REG (i_nnn i) op1_16 s))"

definition BSR_GwEwR :: handler where
  "BSR_GwEwR i s =
    (let op2_16 = BX_READ_16BIT_REG (i_rm i) s in
     if op2_16 = 0 then
       Inr ((), assert_flag ZF_flag s)
     else
     let op1_16 = bsr_loop op2_16 15 in
     let s = SET_FLAGS_OSZAPC_LOGIC_16 op1_16 s in
     let s = clear_flag ZF_flag s in
     Inr ((), BX_WRITE_16BIT_REG (i_nnn i) op1_16 s))"


definition BT_EwGwM :: handler where
  "BT_EwGwM i s =
    (let eaddr = resolve i s in
     let op2_16 = BX_READ_16BIT_REG (i_nnn i) s in
     let index = op2_16 AND 0x0f in
     let displacement32 = (word_of_int (sint (scast (op2_16 AND 0xfff0 :: u16) :: u32) sdiv sint (16 :: u32)) :: u32) in
     let op1_addr = (eaddr + (scast (2 * displacement32 :: u32)) :: u64) in
     let op1_addr =
       (if \<not> (as32L i) then
         (ucast (ucast op1_addr :: u16) :: u64)
       else
         let op1_addr =
           (if \<not> (as64L i) then
             (ucast (ucast op1_addr :: u32) :: u64)
           else
             op1_addr) in
         op1_addr) in
     rbind (read_virtual_word (i_seg i) op1_addr s) (\<lambda>op1_16 s.
     Inr ((), set_flag CF_flag (((ucast (drop_bit (unat index) op1_16 :: u16)) AND 0x01 :: u32) \<noteq> 0) s)))"

definition BT_EwGwR :: handler where
  "BT_EwGwR i s =
    (let op1_16 = BX_READ_16BIT_REG (i_rm i) s in
     let op2_16 = BX_READ_16BIT_REG (i_nnn i) s in
     let op2_16 = op2_16 AND 0x0f in
     Inr ((), set_flag CF_flag (((ucast (drop_bit (unat op2_16) op1_16 :: u16)) AND 0x01 :: u32) \<noteq> 0) s))"

definition BTS_EwGwM :: handler where
  "BTS_EwGwM i s =
    (let eaddr = resolve i s in
     let op2_16 = BX_READ_16BIT_REG (i_nnn i) s in
     let index = op2_16 AND 0x0f in
     let displacement32 = (word_of_int (sint (scast (op2_16 AND 0xfff0 :: u16) :: u32) sdiv sint (16 :: u32)) :: u32) in
     let op1_addr = (eaddr + (scast (2 * displacement32 :: u32)) :: u64) in
     let op1_addr =
       (if \<not> (as32L i) then
         (ucast (ucast op1_addr :: u16) :: u64)
       else
         let op1_addr =
           (if \<not> (as64L i) then
             (ucast (ucast op1_addr :: u32) :: u64)
           else
             op1_addr) in
         op1_addr) in
     rbind (read_RMW_virtual_word (i_seg i) op1_addr s) (\<lambda>op1_16 s.
     let bit_i = ((ucast (drop_bit (unat index) op1_16 :: u16)) AND 0x01 :: u32) \<noteq> 0 in
     let op1_16 = op1_16 OR (push_bit (unat index) 1) in
     rbind (write_RMW_virtual_word op1_16 s) (\<lambda>_ s.
     Inr ((), set_flag CF_flag bit_i s))))"

definition BTS_EwGwR :: handler where
  "BTS_EwGwR i s =
    (let op1_16 = BX_READ_16BIT_REG (i_rm i) s in
     let op2_16 = BX_READ_16BIT_REG (i_nnn i) s in
     let op2_16 = op2_16 AND 0x0f in
     let s = set_flag CF_flag (((ucast (drop_bit (unat op2_16) op1_16 :: u16)) AND 0x01 :: u32) \<noteq> 0) s in
     let op1_16 = op1_16 OR (push_bit (unat op2_16) 1) in
     Inr ((), BX_WRITE_16BIT_REG (i_rm i) op1_16 s))"

definition BTR_EwGwM :: handler where
  "BTR_EwGwM i s =
    (let eaddr = resolve i s in
     let op2_16 = BX_READ_16BIT_REG (i_nnn i) s in
     let index = op2_16 AND 0x0f in
     let displacement32 = (word_of_int (sint (scast (op2_16 AND 0xfff0 :: u16) :: u32) sdiv sint (16 :: u32)) :: u32) in
     let op1_addr = (eaddr + (scast (2 * displacement32 :: u32)) :: u64) in
     let op1_addr =
       (if \<not> (as32L i) then
         (ucast (ucast op1_addr :: u16) :: u64)
       else
         let op1_addr =
           (if \<not> (as64L i) then
             (ucast (ucast op1_addr :: u32) :: u64)
           else
             op1_addr) in
         op1_addr) in
     rbind (read_RMW_virtual_word (i_seg i) op1_addr s) (\<lambda>op1_16 s.
     let temp_cf = ((ucast (drop_bit (unat index) op1_16 :: u16)) AND 0x01 :: u32) \<noteq> 0 in
     let op1_16 = op1_16 AND (NOT (push_bit (unat index) 1)) in
     rbind (write_RMW_virtual_word op1_16 s) (\<lambda>_ s.
     Inr ((), set_flag CF_flag temp_cf s))))"

definition BTR_EwGwR :: handler where
  "BTR_EwGwR i s =
    (let op1_16 = BX_READ_16BIT_REG (i_rm i) s in
     let op2_16 = BX_READ_16BIT_REG (i_nnn i) s in
     let op2_16 = op2_16 AND 0x0f in
     let s = set_flag CF_flag (((ucast (drop_bit (unat op2_16) op1_16 :: u16)) AND 0x01 :: u32) \<noteq> 0) s in
     let op1_16 = op1_16 AND (NOT (push_bit (unat op2_16) 1)) in
     Inr ((), BX_WRITE_16BIT_REG (i_rm i) op1_16 s))"

definition BTC_EwGwM :: handler where
  "BTC_EwGwM i s =
    (let eaddr = resolve i s in
     let op2_16 = BX_READ_16BIT_REG (i_nnn i) s in
     let index_16 = op2_16 AND 0x0f in
     let displacement16 = (ucast (word_of_int (sint (scast (op2_16 AND 0xfff0 :: u16) :: u32) sdiv sint (16 :: u32)) :: u32) :: u16) in
     let op1_addr = (eaddr + (scast (2 * (scast displacement16) :: u32)) :: u64) in
     let op1_addr =
       (if \<not> (as32L i) then
         (ucast (ucast op1_addr :: u16) :: u64)
       else
         let op1_addr =
           (if \<not> (as64L i) then
             (ucast (ucast op1_addr :: u32) :: u64)
           else
             op1_addr) in
         op1_addr) in
     rbind (read_RMW_virtual_word (i_seg i) op1_addr s) (\<lambda>op1_16 s.
     let temp_CF = ((ucast (drop_bit (unat index_16) op1_16 :: u16)) AND 0x01 :: u32) \<noteq> 0 in
     let op1_16 = op1_16 XOR (push_bit (unat index_16) 1) in
     rbind (write_RMW_virtual_word op1_16 s) (\<lambda>_ s.
     Inr ((), set_flag CF_flag temp_CF s))))"

definition BTC_EwGwR :: handler where
  "BTC_EwGwR i s =
    (let op1_16 = BX_READ_16BIT_REG (i_rm i) s in
     let op2_16 = BX_READ_16BIT_REG (i_nnn i) s in
     let op2_16 = op2_16 AND 0x0f in
     let temp_CF = ((ucast (drop_bit (unat op2_16) op1_16 :: u16)) AND 0x01 :: u32) \<noteq> 0 in
     let op1_16 = op1_16 XOR (push_bit (unat op2_16) 1) in
     let s = BX_WRITE_16BIT_REG (i_rm i) op1_16 s in
     Inr ((), set_flag CF_flag temp_CF s))"

definition BT_EwIbM :: handler where
  "BT_EwIbM i s =
    (let eaddr = resolve i s in
     rbind (read_virtual_word (i_seg i) eaddr s) (\<lambda>op1_16 s.
     let op2_8 = (i_Ib i) AND 0xf in
     Inr ((), set_flag CF_flag (((ucast (drop_bit (unat op2_8) op1_16 :: u16)) AND 0x01 :: u32) \<noteq> 0) s)))"

definition BT_EwIbR :: handler where
  "BT_EwIbR i s =
    (let op1_16 = BX_READ_16BIT_REG (i_rm i) s in
     let op2_8 = (i_Ib i) AND 0xf in
     Inr ((), set_flag CF_flag (((ucast (drop_bit (unat op2_8) op1_16 :: u16)) AND 0x01 :: u32) \<noteq> 0) s))"

definition BTS_EwIbM :: handler where
  "BTS_EwIbM i s =
    (let op2_8 = (i_Ib i) AND 0xf in
     let eaddr = resolve i s in
     rbind (read_RMW_virtual_word (i_seg i) eaddr s) (\<lambda>op1_16 s.
     let temp_CF = ((ucast (drop_bit (unat op2_8) op1_16 :: u16)) AND 0x01 :: u32) \<noteq> 0 in
     let op1_16 = op1_16 OR (push_bit (unat op2_8) 1) in
     rbind (write_RMW_virtual_word op1_16 s) (\<lambda>_ s.
     Inr ((), set_flag CF_flag temp_CF s))))"

definition BTS_EwIbR :: handler where
  "BTS_EwIbR i s =
    (let op2_8 = (i_Ib i) AND 0xf in
     let op1_16 = BX_READ_16BIT_REG (i_rm i) s in
     let temp_CF = ((ucast (drop_bit (unat op2_8) op1_16 :: u16)) AND 0x01 :: u32) \<noteq> 0 in
     let op1_16 = op1_16 OR (push_bit (unat op2_8) 1) in
     let s = BX_WRITE_16BIT_REG (i_rm i) op1_16 s in
     Inr ((), set_flag CF_flag temp_CF s))"

definition BTC_EwIbM :: handler where
  "BTC_EwIbM i s =
    (let op2_8 = (i_Ib i) AND 0xf in
     let eaddr = resolve i s in
     rbind (read_RMW_virtual_word (i_seg i) eaddr s) (\<lambda>op1_16 s.
     let temp_CF = ((ucast (drop_bit (unat op2_8) op1_16 :: u16)) AND 0x01 :: u32) \<noteq> 0 in
     let op1_16 = op1_16 XOR (push_bit (unat op2_8) 1) in
     rbind (write_RMW_virtual_word op1_16 s) (\<lambda>_ s.
     Inr ((), set_flag CF_flag temp_CF s))))"

definition BTC_EwIbR :: handler where
  "BTC_EwIbR i s =
    (let op2_8 = (i_Ib i) AND 0xf in
     let op1_16 = BX_READ_16BIT_REG (i_rm i) s in
     let temp_CF = ((ucast (drop_bit (unat op2_8) op1_16 :: u16)) AND 0x01 :: u32) \<noteq> 0 in
     let op1_16 = op1_16 XOR (push_bit (unat op2_8) 1) in
     let s = BX_WRITE_16BIT_REG (i_rm i) op1_16 s in
     Inr ((), set_flag CF_flag temp_CF s))"

definition BTR_EwIbM :: handler where
  "BTR_EwIbM i s =
    (let op2_8 = (i_Ib i) AND 0xf in
     let eaddr = resolve i s in
     rbind (read_RMW_virtual_word (i_seg i) eaddr s) (\<lambda>op1_16 s.
     let temp_CF = ((ucast (drop_bit (unat op2_8) op1_16 :: u16)) AND 0x01 :: u32) \<noteq> 0 in
     let op1_16 = op1_16 AND (NOT (push_bit (unat op2_8) 1)) in
     rbind (write_RMW_virtual_word op1_16 s) (\<lambda>_ s.
     Inr ((), set_flag CF_flag temp_CF s))))"

definition BTR_EwIbR :: handler where
  "BTR_EwIbR i s =
    (let op2_8 = (i_Ib i) AND 0xf in
     let op1_16 = BX_READ_16BIT_REG (i_rm i) s in
     let temp_CF = ((ucast (drop_bit (unat op2_8) op1_16 :: u16)) AND 0x01 :: u32) \<noteq> 0 in
     let op1_16 = op1_16 AND (NOT (push_bit (unat op2_8) 1)) in
     let s = BX_WRITE_16BIT_REG (i_rm i) op1_16 s in
     Inr ((), set_flag CF_flag temp_CF s))"

definition POPCNT_GwEwR :: handler where
  "POPCNT_GwEwR i s =
    (exception UD_EXCEPTION 0 s)"

section \<open>\<^verbatim>\<open>bit32.cc\<close>\<close>

definition BSF_GdEdR :: handler where
  "BSF_GdEdR i s =
    (let op2_32 = BX_READ_32BIT_REG (i_rm i) s in
     if op2_32 = 0 then
       Inr ((), assert_flag ZF_flag s)
     else
     let op1_32 = bsf_loop op2_32 0 in
     let s = SET_FLAGS_OSZAPC_LOGIC_32 op1_32 s in
     let s = clear_flag ZF_flag s in
     Inr ((), BX_WRITE_32BIT_REGZ (i_nnn i) op1_32 s))"

definition BSR_GdEdR :: handler where
  "BSR_GdEdR i s =
    (let op2_32 = BX_READ_32BIT_REG (i_rm i) s in
     if op2_32 = 0 then
       Inr ((), assert_flag ZF_flag s)
     else
     let op1_32 = bsr_loop op2_32 31 in
     let s = SET_FLAGS_OSZAPC_LOGIC_32 op1_32 s in
     let s = clear_flag ZF_flag s in
     Inr ((), BX_WRITE_32BIT_REGZ (i_nnn i) op1_32 s))"


definition BT_EdGdM :: handler where
  "BT_EdGdM i s =
    (let eaddr = resolve i s in
     let op2_32 = BX_READ_32BIT_REG (i_nnn i) s in
     let index = op2_32 AND 0x1f in
     let displacement32 = (word_of_int (sint (op2_32 AND 0xffffffe0) sdiv sint (32 :: u32)) :: u32) in
     let op1_addr = (eaddr + (scast (4 * displacement32 :: u32)) :: u64) in
     let op1_addr =
       (if \<not> (as32L i) then
         (ucast (ucast op1_addr :: u16) :: u64)
       else
         let op1_addr =
           (if \<not> (as64L i) then
             (ucast (ucast op1_addr :: u32) :: u64)
           else
             op1_addr) in
         op1_addr) in
     rbind (read_virtual_dword (i_seg i) op1_addr s) (\<lambda>op1_32 s.
     Inr ((), set_flag CF_flag (((drop_bit (unat index) op1_32) AND 0x01) \<noteq> 0) s)))"

definition BT_EdGdR :: handler where
  "BT_EdGdR i s =
    (let op1_32 = BX_READ_32BIT_REG (i_rm i) s in
     let op2_32 = BX_READ_32BIT_REG (i_nnn i) s in
     let op2_32 = op2_32 AND 0x1f in
     Inr ((), set_flag CF_flag (((drop_bit (unat op2_32) op1_32) AND 0x01) \<noteq> 0) s))"

definition BTS_EdGdM :: handler where
  "BTS_EdGdM i s =
    (let eaddr = resolve i s in
     let op2_32 = BX_READ_32BIT_REG (i_nnn i) s in
     let index = op2_32 AND 0x1f in
     let displacement32 = (word_of_int (sint (op2_32 AND 0xffffffe0) sdiv sint (32 :: u32)) :: u32) in
     let op1_addr = (eaddr + (scast (4 * displacement32 :: u32)) :: u64) in
     let op1_addr =
       (if \<not> (as32L i) then
         (ucast (ucast op1_addr :: u16) :: u64)
       else
         let op1_addr =
           (if \<not> (as64L i) then
             (ucast (ucast op1_addr :: u32) :: u64)
           else
             op1_addr) in
         op1_addr) in
     rbind (read_RMW_virtual_dword (i_seg i) op1_addr s) (\<lambda>op1_32 s.
     let bit_i = ((drop_bit (unat index) op1_32) AND 0x01) \<noteq> 0 in
     let op1_32 = op1_32 OR (push_bit (unat index) 1) in
     rbind (write_RMW_virtual_dword op1_32 s) (\<lambda>_ s.
     Inr ((), set_flag CF_flag bit_i s))))"

definition BTS_EdGdR :: handler where
  "BTS_EdGdR i s =
    (let op1_32 = BX_READ_32BIT_REG (i_rm i) s in
     let op2_32 = BX_READ_32BIT_REG (i_nnn i) s in
     let op2_32 = op2_32 AND 0x1f in
     let s = set_flag CF_flag (((drop_bit (unat op2_32) op1_32) AND 0x01) \<noteq> 0) s in
     let op1_32 = op1_32 OR (push_bit (unat op2_32) 1) in
     Inr ((), BX_WRITE_32BIT_REGZ (i_rm i) op1_32 s))"

definition BTR_EdGdM :: handler where
  "BTR_EdGdM i s =
    (let eaddr = resolve i s in
     let op2_32 = BX_READ_32BIT_REG (i_nnn i) s in
     let index = op2_32 AND 0x1f in
     let displacement32 = (word_of_int (sint (op2_32 AND 0xffffffe0) sdiv sint (32 :: u32)) :: u32) in
     let op1_addr = (eaddr + (scast (4 * displacement32 :: u32)) :: u64) in
     let op1_addr =
       (if \<not> (as32L i) then
         (ucast (ucast op1_addr :: u16) :: u64)
       else
         let op1_addr =
           (if \<not> (as64L i) then
             (ucast (ucast op1_addr :: u32) :: u64)
           else
             op1_addr) in
         op1_addr) in
     rbind (read_RMW_virtual_dword (i_seg i) op1_addr s) (\<lambda>op1_32 s.
     let temp_cf = ((drop_bit (unat index) op1_32) AND 0x01) \<noteq> 0 in
     let op1_32 = op1_32 AND (NOT (push_bit (unat index) 1)) in
     rbind (write_RMW_virtual_dword op1_32 s) (\<lambda>_ s.
     Inr ((), set_flag CF_flag temp_cf s))))"

definition BTR_EdGdR :: handler where
  "BTR_EdGdR i s =
    (let op1_32 = BX_READ_32BIT_REG (i_rm i) s in
     let op2_32 = BX_READ_32BIT_REG (i_nnn i) s in
     let op2_32 = op2_32 AND 0x1f in
     let s = set_flag CF_flag (((drop_bit (unat op2_32) op1_32) AND 0x01) \<noteq> 0) s in
     let op1_32 = op1_32 AND (NOT (push_bit (unat op2_32) 1)) in
     Inr ((), BX_WRITE_32BIT_REGZ (i_rm i) op1_32 s))"

definition BTC_EdGdM :: handler where
  "BTC_EdGdM i s =
    (let eaddr = resolve i s in
     let op2_32 = BX_READ_32BIT_REG (i_nnn i) s in
     let index_32 = op2_32 AND 0x1f in
     let displacement32 = (word_of_int (sint (op2_32 AND 0xffffffe0) sdiv sint (32 :: u32)) :: u32) in
     let op1_addr = (eaddr + (scast (4 * displacement32 :: u32)) :: u64) in
     let op1_addr =
       (if \<not> (as32L i) then
         (ucast (ucast op1_addr :: u16) :: u64)
       else
         let op1_addr =
           (if \<not> (as64L i) then
             (ucast (ucast op1_addr :: u32) :: u64)
           else
             op1_addr) in
         op1_addr) in
     rbind (read_RMW_virtual_dword (i_seg i) op1_addr s) (\<lambda>op1_32 s.
     let temp_CF = ((drop_bit (unat index_32) op1_32) AND 0x01) \<noteq> 0 in
     let op1_32 = op1_32 XOR (push_bit (unat index_32) 1) in
     let s = set_flag CF_flag temp_CF s in
     write_RMW_virtual_dword op1_32 s))"

definition BTC_EdGdR :: handler where
  "BTC_EdGdR i s =
    (let op1_32 = BX_READ_32BIT_REG (i_rm i) s in
     let op2_32 = BX_READ_32BIT_REG (i_nnn i) s in
     let op2_32 = op2_32 AND 0x1f in
     let temp_CF = ((drop_bit (unat op2_32) op1_32) AND 0x01) \<noteq> 0 in
     let op1_32 = op1_32 XOR (push_bit (unat op2_32) 1) in
     let s = set_flag CF_flag temp_CF s in
     Inr ((), BX_WRITE_32BIT_REGZ (i_rm i) op1_32 s))"

definition BT_EdIbM :: handler where
  "BT_EdIbM i s =
    (let eaddr = resolve i s in
     rbind (read_virtual_dword (i_seg i) eaddr s) (\<lambda>op1_32 s.
     let op2_8 = (i_Ib i) AND 0x1f in
     Inr ((), set_flag CF_flag (((drop_bit (unat op2_8) op1_32) AND 0x01) \<noteq> 0) s)))"

definition BT_EdIbR :: handler where
  "BT_EdIbR i s =
    (let op1_32 = BX_READ_32BIT_REG (i_rm i) s in
     let op2_8 = (i_Ib i) AND 0x1f in
     Inr ((), set_flag CF_flag (((drop_bit (unat op2_8) op1_32) AND 0x01) \<noteq> 0) s))"

definition BTS_EdIbM :: handler where
  "BTS_EdIbM i s =
    (let op2_8 = (i_Ib i) AND 0x1f in
     let eaddr = resolve i s in
     rbind (read_RMW_virtual_dword (i_seg i) eaddr s) (\<lambda>op1_32 s.
     let temp_CF = ((drop_bit (unat op2_8) op1_32) AND 0x01) \<noteq> 0 in
     let op1_32 = op1_32 OR (push_bit (unat op2_8) 1) in
     rbind (write_RMW_virtual_dword op1_32 s) (\<lambda>_ s.
     Inr ((), set_flag CF_flag temp_CF s))))"

definition BTS_EdIbR :: handler where
  "BTS_EdIbR i s =
    (let op2_8 = (i_Ib i) AND 0x1f in
     let op1_32 = BX_READ_32BIT_REG (i_rm i) s in
     let temp_CF = ((drop_bit (unat op2_8) op1_32) AND 0x01) \<noteq> 0 in
     let op1_32 = op1_32 OR (push_bit (unat op2_8) 1) in
     let s = BX_WRITE_32BIT_REGZ (i_rm i) op1_32 s in
     Inr ((), set_flag CF_flag temp_CF s))"

definition BTC_EdIbM :: handler where
  "BTC_EdIbM i s =
    (let op2_8 = (i_Ib i) AND 0x1f in
     let eaddr = resolve i s in
     rbind (read_RMW_virtual_dword (i_seg i) eaddr s) (\<lambda>op1_32 s.
     let temp_CF = ((drop_bit (unat op2_8) op1_32) AND 0x01) \<noteq> 0 in
     let op1_32 = op1_32 XOR (push_bit (unat op2_8) 1) in
     rbind (write_RMW_virtual_dword op1_32 s) (\<lambda>_ s.
     Inr ((), set_flag CF_flag temp_CF s))))"

definition BTC_EdIbR :: handler where
  "BTC_EdIbR i s =
    (let op2_8 = (i_Ib i) AND 0x1f in
     let op1_32 = BX_READ_32BIT_REG (i_rm i) s in
     let temp_CF = ((drop_bit (unat op2_8) op1_32) AND 0x01) \<noteq> 0 in
     let op1_32 = op1_32 XOR (push_bit (unat op2_8) 1) in
     let s = BX_WRITE_32BIT_REGZ (i_rm i) op1_32 s in
     Inr ((), set_flag CF_flag temp_CF s))"

definition BTR_EdIbM :: handler where
  "BTR_EdIbM i s =
    (let op2_8 = (i_Ib i) AND 0x1f in
     let eaddr = resolve i s in
     rbind (read_RMW_virtual_dword (i_seg i) eaddr s) (\<lambda>op1_32 s.
     let temp_CF = ((drop_bit (unat op2_8) op1_32) AND 0x01) \<noteq> 0 in
     let op1_32 = op1_32 AND (NOT (push_bit (unat op2_8) 1)) in
     rbind (write_RMW_virtual_dword op1_32 s) (\<lambda>_ s.
     Inr ((), set_flag CF_flag temp_CF s))))"

definition BTR_EdIbR :: handler where
  "BTR_EdIbR i s =
    (let op2_8 = (i_Ib i) AND 0x1f in
     let op1_32 = BX_READ_32BIT_REG (i_rm i) s in
     let temp_CF = ((drop_bit (unat op2_8) op1_32) AND 0x01) \<noteq> 0 in
     let op1_32 = op1_32 AND (NOT (push_bit (unat op2_8) 1)) in
     let s = BX_WRITE_32BIT_REGZ (i_rm i) op1_32 s in
     Inr ((), set_flag CF_flag temp_CF s))"

definition POPCNT_GdEdR :: handler where
  "POPCNT_GdEdR i s =
    (exception UD_EXCEPTION 0 s)"

section \<open>\<^verbatim>\<open>bit64.cc\<close>\<close>

definition BSF_GqEqR :: handler where
  "BSF_GqEqR i s =
    (let op2_64 = BX_READ_64BIT_REG (i_rm i) s in
     if op2_64 = 0 then
       Inr ((), assert_flag ZF_flag s)
     else
     let op1_64 = bsf_loop op2_64 0 in
     let s = SET_FLAGS_OSZAPC_LOGIC_64 op1_64 s in
     let s = clear_flag ZF_flag s in
     Inr ((), BX_WRITE_64BIT_REG (i_nnn i) op1_64 s))"

definition BSR_GqEqR :: handler where
  "BSR_GqEqR i s =
    (let op2_64 = BX_READ_64BIT_REG (i_rm i) s in
     if op2_64 = 0 then
       Inr ((), assert_flag ZF_flag s)
     else
     let op1_64 = bsr_loop op2_64 63 in
     let s = SET_FLAGS_OSZAPC_LOGIC_64 op1_64 s in
     let s = clear_flag ZF_flag s in
     Inr ((), BX_WRITE_64BIT_REG (i_nnn i) op1_64 s))"


definition BT_EqGqM :: handler where
  "BT_EqGqM i s =
    (let eaddr = resolve i s in
     let op2_64 = BX_READ_64BIT_REG (i_nnn i) s in
     let index = op2_64 AND 0x3f in
     let displacement64 = (word_of_int (sint (op2_64 AND 0xffffffffffffffc0) sdiv sint (64 :: u64)) :: u64) in
     let op1_addr = eaddr + (8 * displacement64) in
     let op1_addr =
       (if \<not> (as64L i) then
         (ucast (ucast op1_addr :: u32) :: u64)
       else
         op1_addr) in
     rbind (read_virtual_qword_64 (i_seg i) op1_addr s) (\<lambda>op1_64 s.
     Inr ((), set_flag CF_flag (((drop_bit (unat index) op1_64) AND 0x01) \<noteq> 0) s)))"

definition BT_EqGqR :: handler where
  "BT_EqGqR i s =
    (let op1_64 = BX_READ_64BIT_REG (i_rm i) s in
     let op2_64 = BX_READ_64BIT_REG (i_nnn i) s in
     let op2_64 = op2_64 AND 0x3f in
     Inr ((), set_flag CF_flag (((drop_bit (unat op2_64) op1_64) AND 0x01) \<noteq> 0) s))"

definition BTS_EqGqM :: handler where
  "BTS_EqGqM i s =
    (let eaddr = resolve i s in
     let op2_64 = BX_READ_64BIT_REG (i_nnn i) s in
     let index = op2_64 AND 0x3f in
     let displacement64 = (word_of_int (sint (op2_64 AND 0xffffffffffffffc0) sdiv sint (64 :: u64)) :: u64) in
     let op1_addr = eaddr + (8 * displacement64) in
     let op1_addr =
       (if \<not> (as64L i) then
         (ucast (ucast op1_addr :: u32) :: u64)
       else
         op1_addr) in
     rbind (read_RMW_virtual_qword_64 (i_seg i) op1_addr s) (\<lambda>op1_64 s.
     let bit_i = ((drop_bit (unat index) op1_64) AND 0x01) \<noteq> 0 in
     let op1_64 = op1_64 OR (push_bit (unat index) 1) in
     rbind (write_RMW_virtual_qword op1_64 s) (\<lambda>_ s.
     Inr ((), set_flag CF_flag bit_i s))))"

definition BTS_EqGqR :: handler where
  "BTS_EqGqR i s =
    (let op1_64 = BX_READ_64BIT_REG (i_rm i) s in
     let op2_64 = BX_READ_64BIT_REG (i_nnn i) s in
     let op2_64 = op2_64 AND 0x3f in
     let s = set_flag CF_flag (((drop_bit (unat op2_64) op1_64) AND 0x01) \<noteq> 0) s in
     let op1_64 = op1_64 OR (push_bit (unat op2_64) 1) in
     Inr ((), BX_WRITE_64BIT_REG (i_rm i) op1_64 s))"

definition BTR_EqGqM :: handler where
  "BTR_EqGqM i s =
    (let eaddr = resolve i s in
     let op2_64 = BX_READ_64BIT_REG (i_nnn i) s in
     let index = op2_64 AND 0x3f in
     let displacement64 = (word_of_int (sint (op2_64 AND 0xffffffffffffffc0) sdiv sint (64 :: u64)) :: u64) in
     let op1_addr = eaddr + (8 * displacement64) in
     let op1_addr =
       (if \<not> (as64L i) then
         (ucast (ucast op1_addr :: u32) :: u64)
       else
         op1_addr) in
     rbind (read_RMW_virtual_qword_64 (i_seg i) op1_addr s) (\<lambda>op1_64 s.
     let temp_cf = ((drop_bit (unat index) op1_64) AND 0x01) \<noteq> 0 in
     let op1_64 = op1_64 AND (NOT (push_bit (unat index) 1)) in
     rbind (write_RMW_virtual_qword op1_64 s) (\<lambda>_ s.
     Inr ((), set_flag CF_flag temp_cf s))))"

definition BTR_EqGqR :: handler where
  "BTR_EqGqR i s =
    (let op1_64 = BX_READ_64BIT_REG (i_rm i) s in
     let op2_64 = BX_READ_64BIT_REG (i_nnn i) s in
     let op2_64 = op2_64 AND 0x3f in
     let s = set_flag CF_flag (((drop_bit (unat op2_64) op1_64) AND 0x01) \<noteq> 0) s in
     let op1_64 = op1_64 AND (NOT (push_bit (unat op2_64) 1)) in
     Inr ((), BX_WRITE_64BIT_REG (i_rm i) op1_64 s))"

definition BTC_EqGqM :: handler where
  "BTC_EqGqM i s =
    (let eaddr = resolve i s in
     let op2_64 = BX_READ_64BIT_REG (i_nnn i) s in
     let index = op2_64 AND 0x3f in
     let displacement64 = (word_of_int (sint (op2_64 AND 0xffffffffffffffc0) sdiv sint (64 :: u64)) :: u64) in
     let op1_addr = eaddr + (8 * displacement64) in
     let op1_addr =
       (if \<not> (as64L i) then
         (ucast (ucast op1_addr :: u32) :: u64)
       else
         op1_addr) in
     rbind (read_RMW_virtual_qword_64 (i_seg i) op1_addr s) (\<lambda>op1_64 s.
     let temp_CF = ((drop_bit (unat index) op1_64) AND 0x01) \<noteq> 0 in
     let op1_64 = op1_64 XOR (push_bit (unat index) 1) in
     let s = set_flag CF_flag temp_CF s in
     write_RMW_virtual_qword op1_64 s))"

definition BTC_EqGqR :: handler where
  "BTC_EqGqR i s =
    (let op1_64 = BX_READ_64BIT_REG (i_rm i) s in
     let op2_64 = BX_READ_64BIT_REG (i_nnn i) s in
     let op2_64 = op2_64 AND 0x3f in
     let temp_CF = ((drop_bit (unat op2_64) op1_64) AND 0x01) \<noteq> 0 in
     let op1_64 = op1_64 XOR (push_bit (unat op2_64) 1) in
     let s = set_flag CF_flag temp_CF s in
     Inr ((), BX_WRITE_64BIT_REG (i_rm i) op1_64 s))"

definition BT_EqIbM :: handler where
  "BT_EqIbM i s =
    (let eaddr = resolve i s in
     rbind (read_virtual_qword_64 (i_seg i) eaddr s) (\<lambda>op1_64 s.
     let op2_8 = (i_Ib i) AND 0x3f in
     Inr ((), set_flag CF_flag (((drop_bit (unat op2_8) op1_64) AND 0x01) \<noteq> 0) s)))"

definition BT_EqIbR :: handler where
  "BT_EqIbR i s =
    (let op1_64 = BX_READ_64BIT_REG (i_rm i) s in
     let op2_8 = (i_Ib i) AND 0x3f in
     Inr ((), set_flag CF_flag (((drop_bit (unat op2_8) op1_64) AND 0x01) \<noteq> 0) s))"

definition BTS_EqIbM :: handler where
  "BTS_EqIbM i s =
    (let op2_8 = (i_Ib i) AND 0x3f in
     let eaddr = resolve i s in
     rbind (read_RMW_virtual_qword_64 (i_seg i) eaddr s) (\<lambda>op1_64 s.
     let temp_CF = ((drop_bit (unat op2_8) op1_64) AND 0x01) \<noteq> 0 in
     let op1_64 = op1_64 OR (push_bit (unat op2_8) 1) in
     rbind (write_RMW_virtual_qword op1_64 s) (\<lambda>_ s.
     Inr ((), set_flag CF_flag temp_CF s))))"

definition BTS_EqIbR :: handler where
  "BTS_EqIbR i s =
    (let op2_8 = (i_Ib i) AND 0x3f in
     let op1_64 = BX_READ_64BIT_REG (i_rm i) s in
     let temp_CF = ((drop_bit (unat op2_8) op1_64) AND 0x01) \<noteq> 0 in
     let op1_64 = op1_64 OR (push_bit (unat op2_8) 1) in
     let s = BX_WRITE_64BIT_REG (i_rm i) op1_64 s in
     Inr ((), set_flag CF_flag temp_CF s))"

definition BTC_EqIbM :: handler where
  "BTC_EqIbM i s =
    (let op2_8 = (i_Ib i) AND 0x3f in
     let eaddr = resolve i s in
     rbind (read_RMW_virtual_qword_64 (i_seg i) eaddr s) (\<lambda>op1_64 s.
     let temp_CF = ((drop_bit (unat op2_8) op1_64) AND 0x01) \<noteq> 0 in
     let op1_64 = op1_64 XOR (push_bit (unat op2_8) 1) in
     rbind (write_RMW_virtual_qword op1_64 s) (\<lambda>_ s.
     Inr ((), set_flag CF_flag temp_CF s))))"

definition BTC_EqIbR :: handler where
  "BTC_EqIbR i s =
    (let op2_8 = (i_Ib i) AND 0x3f in
     let op1_64 = BX_READ_64BIT_REG (i_rm i) s in
     let temp_CF = ((drop_bit (unat op2_8) op1_64) AND 0x01) \<noteq> 0 in
     let op1_64 = op1_64 XOR (push_bit (unat op2_8) 1) in
     let s = BX_WRITE_64BIT_REG (i_rm i) op1_64 s in
     Inr ((), set_flag CF_flag temp_CF s))"

definition BTR_EqIbM :: handler where
  "BTR_EqIbM i s =
    (let op2_8 = (i_Ib i) AND 0x3f in
     let eaddr = resolve i s in
     rbind (read_RMW_virtual_qword_64 (i_seg i) eaddr s) (\<lambda>op1_64 s.
     let temp_CF = ((drop_bit (unat op2_8) op1_64) AND 0x01) \<noteq> 0 in
     let op1_64 = op1_64 AND (NOT (push_bit (unat op2_8) 1)) in
     rbind (write_RMW_virtual_qword op1_64 s) (\<lambda>_ s.
     Inr ((), set_flag CF_flag temp_CF s))))"

definition BTR_EqIbR :: handler where
  "BTR_EqIbR i s =
    (let op2_8 = (i_Ib i) AND 0x3f in
     let op1_64 = BX_READ_64BIT_REG (i_rm i) s in
     let temp_CF = ((drop_bit (unat op2_8) op1_64) AND 0x01) \<noteq> 0 in
     let op1_64 = op1_64 AND (NOT (push_bit (unat op2_8) 1)) in
     let s = BX_WRITE_64BIT_REG (i_rm i) op1_64 s in
     Inr ((), set_flag CF_flag temp_CF s))"

definition POPCNT_GqEqR :: handler where
  "POPCNT_GqEqR i s =
    (exception UD_EXCEPTION 0 s)"

end
