(* ===== verification/Cpu_Move.thy ===== *)
theory Cpu_Move
  imports Cpu_Registers
begin

text \<open>
  Moves (\<^verbatim>\<open>src/sim/bochs/cpu/data_xfer8.cc\<close>, \<^verbatim>\<open>data_xfer16.cc\<close>, \<^verbatim>\<open>data_xfer32.cc\<close>, \<^verbatim>\<open>data_xfer64.cc\<close>), one definition per handler.
\<close>

unbundle bit_operations_syntax

section \<open>\<^verbatim>\<open>data_xfer8.cc\<close>\<close>

definition MOV_RLIb :: handler where
  "MOV_RLIb i s =
    (Inr ((), BX_WRITE_8BIT_REGx (opcodeReg i) (extend8bitL i) (i_Ib i) s))"

definition MOV_RHIb :: handler where
  "MOV_RHIb i s =
    (Inr ((), set_rh (unat ((b1 i) AND 0x03)) (i_Ib i) s))"

definition MOV_EbGbM :: handler where
  "MOV_EbGbM i s =
    (let eaddr = resolve i s in
     write_virtual_byte (i_seg i) eaddr (BX_READ_8BIT_REGx (i_nnn i) (extend8bitL i) s) s)"

definition MOV_GbEbM :: handler where
  "MOV_GbEbM i s =
    (let eaddr = resolve i s in
     rbind (read_virtual_byte (i_seg i) eaddr s) (\<lambda>val8 s.
     Inr ((), BX_WRITE_8BIT_REGx (i_nnn i) (extend8bitL i) val8 s)))"

definition MOV_GbEbR :: handler where
  "MOV_GbEbR i s =
    (let op2 = BX_READ_8BIT_REGx (i_rm i) (extend8bitL i) s in
     Inr ((), BX_WRITE_8BIT_REGx (i_nnn i) (extend8bitL i) op2 s))"

definition MOV_ALOd :: handler where
  "MOV_ALOd i s =
    (rbind (read_virtual_byte_32 (i_seg i) (i_Id i) s) (\<lambda>v s.
     Inr ((), set_AL v s)))"

definition MOV_OdAL :: handler where
  "MOV_OdAL i s =
    (write_virtual_byte_32 (i_seg i) (i_Id i) (AL s) s)"

definition MOV_EbIbM :: handler where
  "MOV_EbIbM i s =
    (let eaddr = resolve i s in
     write_virtual_byte (i_seg i) eaddr (i_Ib i) s)"

definition XLAT :: handler where
  "XLAT i s =
    ((if as64L i then
       rbind (read_virtual_byte_64 (i_seg i) ((RBX s) + (ucast (AL s))) s) (\<lambda>v s.
       Inr ((), set_AL v s))
     else
     (if as32L i then
       rbind (read_virtual_byte (i_seg i) (ucast ((EBX s) + (ucast (AL s)) :: u32)) s) (\<lambda>v1 s.
       Inr ((), set_AL v1 s))
     else
     rbind (read_virtual_byte_32 (i_seg i) (ucast ((BX s) + (ucast (AL s)) :: u16)) s) (\<lambda>v2 s.
     Inr ((), set_AL v2 s)))))"

definition XCHG_EbGbM :: handler where
  "XCHG_EbGbM i s =
    (let eaddr = resolve i s in
     rbind (read_RMW_virtual_byte (i_seg i) eaddr s) (\<lambda>op1 s.
     let op2 = BX_READ_8BIT_REGx (i_nnn i) (extend8bitL i) s in
     rbind (write_RMW_virtual_byte op2 s) (\<lambda>_ s.
     Inr ((), BX_WRITE_8BIT_REGx (i_nnn i) (extend8bitL i) op1 s))))"

definition XCHG_EbGbR :: handler where
  "XCHG_EbGbR i s =
    (let op1 = BX_READ_8BIT_REGx (i_rm i) (extend8bitL i) s in
     let op2 = BX_READ_8BIT_REGx (i_nnn i) (extend8bitL i) s in
     let s = BX_WRITE_8BIT_REGx (i_nnn i) (extend8bitL i) op1 s in
     Inr ((), BX_WRITE_8BIT_REGx (i_rm i) (extend8bitL i) op2 s))"

section \<open>\<^verbatim>\<open>data_xfer16.cc\<close>\<close>

definition MOV_RXIw :: handler where
  "MOV_RXIw i s =
    (Inr ((), BX_WRITE_16BIT_REG (opcodeReg i) (i_Iw i) s))"

definition XCHG_RXAX :: handler where
  "XCHG_RXAX i s =
    (let temp16 = AX s in
     let s = set_AX (BX_READ_16BIT_REG (opcodeReg i) s) s in
     Inr ((), BX_WRITE_16BIT_REG (opcodeReg i) temp16 s))"

definition MOV_EwGwM :: handler where
  "MOV_EwGwM i s =
    (let eaddr = resolve i s in
     write_virtual_word (i_seg i) eaddr (BX_READ_16BIT_REG (i_nnn i) s) s)"

definition MOV_GwEwR :: handler where
  "MOV_GwEwR i s =
    (Inr ((), BX_WRITE_16BIT_REG (i_nnn i) (BX_READ_16BIT_REG (i_rm i) s) s))"

definition MOV_GwEwM :: handler where
  "MOV_GwEwM i s =
    (let eaddr = resolve i s in
     rbind (read_virtual_word (i_seg i) eaddr s) (\<lambda>val16 s.
     Inr ((), BX_WRITE_16BIT_REG (i_nnn i) val16 s)))"

definition LEA_GwM :: handler where
  "LEA_GwM i s =
    (let eaddr = resolve i s in
     Inr ((), BX_WRITE_16BIT_REG (i_nnn i) (ucast eaddr) s))"

definition MOV_AXOd :: handler where
  "MOV_AXOd i s =
    (rbind (read_virtual_word_32 (i_seg i) (i_Id i) s) (\<lambda>v s.
     Inr ((), set_AX v s)))"

definition MOV_OdAX :: handler where
  "MOV_OdAX i s =
    (write_virtual_word_32 (i_seg i) (i_Id i) (AX s) s)"

definition MOV_EwIwM :: handler where
  "MOV_EwIwM i s =
    (let eaddr = resolve i s in
     write_virtual_word (i_seg i) eaddr (i_Iw i) s)"

definition MOVZX_GwEbM :: handler where
  "MOVZX_GwEbM i s =
    (let eaddr = resolve i s in
     rbind (read_virtual_byte (i_seg i) eaddr s) (\<lambda>op2_8 s.
     Inr ((), BX_WRITE_16BIT_REG (i_nnn i) (ucast op2_8) s)))"

definition MOVZX_GwEbR :: handler where
  "MOVZX_GwEbR i s =
    (let op2_8 = BX_READ_8BIT_REGx (i_rm i) (extend8bitL i) s in
     Inr ((), BX_WRITE_16BIT_REG (i_nnn i) (ucast op2_8) s))"

definition MOVSX_GwEbM :: handler where
  "MOVSX_GwEbM i s =
    (let eaddr = resolve i s in
     rbind (read_virtual_byte (i_seg i) eaddr s) (\<lambda>op2_8 s.
     Inr ((), BX_WRITE_16BIT_REG (i_nnn i) (scast (op2_8 :: u8)) s)))"

definition MOVSX_GwEbR :: handler where
  "MOVSX_GwEbR i s =
    (let op2_8 = BX_READ_8BIT_REGx (i_rm i) (extend8bitL i) s in
     Inr ((), BX_WRITE_16BIT_REG (i_nnn i) (scast (op2_8 :: u8)) s))"

definition XCHG_EwGwM :: handler where
  "XCHG_EwGwM i s =
    (let eaddr = resolve i s in
     rbind (read_RMW_virtual_word (i_seg i) eaddr s) (\<lambda>op1_16 s.
     let op2_16 = BX_READ_16BIT_REG (i_nnn i) s in
     rbind (write_RMW_virtual_word op2_16 s) (\<lambda>_ s.
     Inr ((), BX_WRITE_16BIT_REG (i_nnn i) op1_16 s))))"

definition XCHG_EwGwR :: handler where
  "XCHG_EwGwR i s =
    (let op1_16 = BX_READ_16BIT_REG (i_rm i) s in
     let op2_16 = BX_READ_16BIT_REG (i_nnn i) s in
     let s = BX_WRITE_16BIT_REG (i_nnn i) op1_16 s in
     Inr ((), BX_WRITE_16BIT_REG (i_rm i) op2_16 s))"

definition CMOVO_GwEwR :: handler where
  "CMOVO_GwEwR i s =
    ((if get_flag OF_flag s then
       Inr ((), BX_WRITE_16BIT_REG (i_nnn i) (BX_READ_16BIT_REG (i_rm i) s) s)
     else
     Inr ((), s)))"

definition CMOVNO_GwEwR :: handler where
  "CMOVNO_GwEwR i s =
    ((if \<not> (get_flag OF_flag s) then
       Inr ((), BX_WRITE_16BIT_REG (i_nnn i) (BX_READ_16BIT_REG (i_rm i) s) s)
     else
     Inr ((), s)))"

definition CMOVB_GwEwR :: handler where
  "CMOVB_GwEwR i s =
    ((if get_flag CF_flag s then
       Inr ((), BX_WRITE_16BIT_REG (i_nnn i) (BX_READ_16BIT_REG (i_rm i) s) s)
     else
     Inr ((), s)))"

definition CMOVNB_GwEwR :: handler where
  "CMOVNB_GwEwR i s =
    ((if \<not> (get_flag CF_flag s) then
       Inr ((), BX_WRITE_16BIT_REG (i_nnn i) (BX_READ_16BIT_REG (i_rm i) s) s)
     else
     Inr ((), s)))"

definition CMOVZ_GwEwR :: handler where
  "CMOVZ_GwEwR i s =
    ((if get_flag ZF_flag s then
       Inr ((), BX_WRITE_16BIT_REG (i_nnn i) (BX_READ_16BIT_REG (i_rm i) s) s)
     else
     Inr ((), s)))"

definition CMOVNZ_GwEwR :: handler where
  "CMOVNZ_GwEwR i s =
    ((if \<not> (get_flag ZF_flag s) then
       Inr ((), BX_WRITE_16BIT_REG (i_nnn i) (BX_READ_16BIT_REG (i_rm i) s) s)
     else
     Inr ((), s)))"

definition CMOVBE_GwEwR :: handler where
  "CMOVBE_GwEwR i s =
    ((if (get_flag CF_flag s) \<or> (get_flag ZF_flag s) then
       Inr ((), BX_WRITE_16BIT_REG (i_nnn i) (BX_READ_16BIT_REG (i_rm i) s) s)
     else
     Inr ((), s)))"

definition CMOVNBE_GwEwR :: handler where
  "CMOVNBE_GwEwR i s =
    ((if \<not> ((get_flag CF_flag s) \<or> (get_flag ZF_flag s)) then
       Inr ((), BX_WRITE_16BIT_REG (i_nnn i) (BX_READ_16BIT_REG (i_rm i) s) s)
     else
     Inr ((), s)))"

definition CMOVS_GwEwR :: handler where
  "CMOVS_GwEwR i s =
    ((if get_flag SF_flag s then
       Inr ((), BX_WRITE_16BIT_REG (i_nnn i) (BX_READ_16BIT_REG (i_rm i) s) s)
     else
     Inr ((), s)))"

definition CMOVNS_GwEwR :: handler where
  "CMOVNS_GwEwR i s =
    ((if \<not> (get_flag SF_flag s) then
       Inr ((), BX_WRITE_16BIT_REG (i_nnn i) (BX_READ_16BIT_REG (i_rm i) s) s)
     else
     Inr ((), s)))"

definition CMOVP_GwEwR :: handler where
  "CMOVP_GwEwR i s =
    ((if get_flag PF_flag s then
       Inr ((), BX_WRITE_16BIT_REG (i_nnn i) (BX_READ_16BIT_REG (i_rm i) s) s)
     else
     Inr ((), s)))"

definition CMOVNP_GwEwR :: handler where
  "CMOVNP_GwEwR i s =
    ((if \<not> (get_flag PF_flag s) then
       Inr ((), BX_WRITE_16BIT_REG (i_nnn i) (BX_READ_16BIT_REG (i_rm i) s) s)
     else
     Inr ((), s)))"

definition CMOVL_GwEwR :: handler where
  "CMOVL_GwEwR i s =
    ((if (getB_flag SF_flag s) \<noteq> (getB_flag OF_flag s) then
       Inr ((), BX_WRITE_16BIT_REG (i_nnn i) (BX_READ_16BIT_REG (i_rm i) s) s)
     else
     Inr ((), s)))"

definition CMOVNL_GwEwR :: handler where
  "CMOVNL_GwEwR i s =
    ((if (getB_flag SF_flag s) = (getB_flag OF_flag s) then
       Inr ((), BX_WRITE_16BIT_REG (i_nnn i) (BX_READ_16BIT_REG (i_rm i) s) s)
     else
     Inr ((), s)))"

definition CMOVLE_GwEwR :: handler where
  "CMOVLE_GwEwR i s =
    ((if (get_flag ZF_flag s) \<or> ((getB_flag SF_flag s) \<noteq> (getB_flag OF_flag s)) then
       Inr ((), BX_WRITE_16BIT_REG (i_nnn i) (BX_READ_16BIT_REG (i_rm i) s) s)
     else
     Inr ((), s)))"

definition CMOVNLE_GwEwR :: handler where
  "CMOVNLE_GwEwR i s =
    ((if (\<not> (get_flag ZF_flag s)) \<and> ((getB_flag SF_flag s) = (getB_flag OF_flag s)) then
       Inr ((), BX_WRITE_16BIT_REG (i_nnn i) (BX_READ_16BIT_REG (i_rm i) s) s)
     else
     Inr ((), s)))"

section \<open>\<^verbatim>\<open>data_xfer32.cc\<close>\<close>

definition XCHG_ERXEAX :: handler where
  "XCHG_ERXEAX i s =
    ((if opcodeReg i = 0 then
       Inr ((), s)
     else
     let temp32 = EAX s in
     let s = set_RAX (ucast (BX_READ_32BIT_REG (opcodeReg i) s)) s in
     Inr ((), BX_WRITE_32BIT_REGZ (opcodeReg i) temp32 s)))"

definition MOV_ERXId :: handler where
  "MOV_ERXId i s =
    (Inr ((), BX_WRITE_32BIT_REGZ (opcodeReg i) (i_Id i) s))"

definition MOV32_EdGdM :: handler where
  "MOV32_EdGdM i s =
    (let eaddr = (ucast (resolve i s) :: u32) in
     write_virtual_dword_32 (i_seg i) eaddr (BX_READ_32BIT_REG (i_nnn i) s) s)"

definition MOV_GdEdR :: handler where
  "MOV_GdEdR i s =
    (Inr ((), BX_WRITE_32BIT_REGZ (i_nnn i) (BX_READ_32BIT_REG (i_rm i) s) s))"

definition MOV32_GdEdM :: handler where
  "MOV32_GdEdM i s =
    (let eaddr = (ucast (resolve i s) :: u32) in
     rbind (read_virtual_dword_32 (i_seg i) eaddr s) (\<lambda>val32 s.
     Inr ((), BX_WRITE_32BIT_REGZ (i_nnn i) val32 s)))"

definition LEA_GdM :: handler where
  "LEA_GdM i s =
    (let eaddr = resolve i s in
     Inr ((), BX_WRITE_32BIT_REGZ (i_nnn i) (ucast eaddr) s))"

definition MOV_EAXOd :: handler where
  "MOV_EAXOd i s =
    (rbind (read_virtual_dword_32 (i_seg i) (i_Id i) s) (\<lambda>v s.
     Inr ((), set_RAX (ucast v) s)))"

definition MOV_OdEAX :: handler where
  "MOV_OdEAX i s =
    (write_virtual_dword_32 (i_seg i) (i_Id i) (EAX s) s)"

definition MOV_EdIdM :: handler where
  "MOV_EdIdM i s =
    (let eaddr = resolve i s in
     write_virtual_dword (i_seg i) eaddr (i_Id i) s)"

definition MOVZX_GdEbM :: handler where
  "MOVZX_GdEbM i s =
    (let eaddr = resolve i s in
     rbind (read_virtual_byte (i_seg i) eaddr s) (\<lambda>op2_8 s.
     Inr ((), BX_WRITE_32BIT_REGZ (i_nnn i) (ucast op2_8) s)))"

definition MOVZX_GdEbR :: handler where
  "MOVZX_GdEbR i s =
    (let op2_8 = BX_READ_8BIT_REGx (i_rm i) (extend8bitL i) s in
     Inr ((), BX_WRITE_32BIT_REGZ (i_nnn i) (ucast op2_8) s))"

definition MOVZX_GdEwM :: handler where
  "MOVZX_GdEwM i s =
    (let eaddr = resolve i s in
     rbind (read_virtual_word (i_seg i) eaddr s) (\<lambda>op2_16 s.
     Inr ((), BX_WRITE_32BIT_REGZ (i_nnn i) (ucast op2_16) s)))"

definition MOVZX_GdEwR :: handler where
  "MOVZX_GdEwR i s =
    (let op2_16 = BX_READ_16BIT_REG (i_rm i) s in
     Inr ((), BX_WRITE_32BIT_REGZ (i_nnn i) (ucast op2_16) s))"

definition MOVSX_GdEbM :: handler where
  "MOVSX_GdEbM i s =
    (let eaddr = resolve i s in
     rbind (read_virtual_byte (i_seg i) eaddr s) (\<lambda>op2_8 s.
     Inr ((), BX_WRITE_32BIT_REGZ (i_nnn i) (scast (op2_8 :: u8)) s)))"

definition MOVSX_GdEbR :: handler where
  "MOVSX_GdEbR i s =
    (let op2_8 = BX_READ_8BIT_REGx (i_rm i) (extend8bitL i) s in
     Inr ((), BX_WRITE_32BIT_REGZ (i_nnn i) (scast (op2_8 :: u8)) s))"

definition MOVSX_GdEwM :: handler where
  "MOVSX_GdEwM i s =
    (let eaddr = resolve i s in
     rbind (read_virtual_word (i_seg i) eaddr s) (\<lambda>op2_16 s.
     Inr ((), BX_WRITE_32BIT_REGZ (i_nnn i) (scast (op2_16 :: u16)) s)))"

definition MOVSX_GdEwR :: handler where
  "MOVSX_GdEwR i s =
    (let op2_16 = BX_READ_16BIT_REG (i_rm i) s in
     Inr ((), BX_WRITE_32BIT_REGZ (i_nnn i) (scast (op2_16 :: u16)) s))"

definition XCHG_EdGdM :: handler where
  "XCHG_EdGdM i s =
    (let eaddr = resolve i s in
     rbind (read_RMW_virtual_dword (i_seg i) eaddr s) (\<lambda>op1_32 s.
     let op2_32 = BX_READ_32BIT_REG (i_nnn i) s in
     rbind (write_RMW_virtual_dword op2_32 s) (\<lambda>_ s.
     Inr ((), BX_WRITE_32BIT_REGZ (i_nnn i) op1_32 s))))"

definition XCHG_EdGdR :: handler where
  "XCHG_EdGdR i s =
    (let op1_32 = BX_READ_32BIT_REG (i_rm i) s in
     let op2_32 = BX_READ_32BIT_REG (i_nnn i) s in
     let s = BX_WRITE_32BIT_REGZ (i_nnn i) op1_32 s in
     Inr ((), BX_WRITE_32BIT_REGZ (i_rm i) op2_32 s))"

definition CMOVO_GdEdR :: handler where
  "CMOVO_GdEdR i s =
    (let s =
       (if get_flag OF_flag s then
         BX_WRITE_32BIT_REGZ (i_nnn i) (BX_READ_32BIT_REG (i_rm i) s) s
       else
         s) in
     Inr ((), BX_CLEAR_64BIT_HIGH (i_nnn i) s))"

definition CMOVNO_GdEdR :: handler where
  "CMOVNO_GdEdR i s =
    (let s =
       (if \<not> (get_flag OF_flag s) then
         BX_WRITE_32BIT_REGZ (i_nnn i) (BX_READ_32BIT_REG (i_rm i) s) s
       else
         s) in
     Inr ((), BX_CLEAR_64BIT_HIGH (i_nnn i) s))"

definition CMOVB_GdEdR :: handler where
  "CMOVB_GdEdR i s =
    (let s =
       (if get_flag CF_flag s then
         BX_WRITE_32BIT_REGZ (i_nnn i) (BX_READ_32BIT_REG (i_rm i) s) s
       else
         s) in
     Inr ((), BX_CLEAR_64BIT_HIGH (i_nnn i) s))"

definition CMOVNB_GdEdR :: handler where
  "CMOVNB_GdEdR i s =
    (let s =
       (if \<not> (get_flag CF_flag s) then
         BX_WRITE_32BIT_REGZ (i_nnn i) (BX_READ_32BIT_REG (i_rm i) s) s
       else
         s) in
     Inr ((), BX_CLEAR_64BIT_HIGH (i_nnn i) s))"

definition CMOVZ_GdEdR :: handler where
  "CMOVZ_GdEdR i s =
    (let s =
       (if get_flag ZF_flag s then
         BX_WRITE_32BIT_REGZ (i_nnn i) (BX_READ_32BIT_REG (i_rm i) s) s
       else
         s) in
     Inr ((), BX_CLEAR_64BIT_HIGH (i_nnn i) s))"

definition CMOVNZ_GdEdR :: handler where
  "CMOVNZ_GdEdR i s =
    (let s =
       (if \<not> (get_flag ZF_flag s) then
         BX_WRITE_32BIT_REGZ (i_nnn i) (BX_READ_32BIT_REG (i_rm i) s) s
       else
         s) in
     Inr ((), BX_CLEAR_64BIT_HIGH (i_nnn i) s))"

definition CMOVBE_GdEdR :: handler where
  "CMOVBE_GdEdR i s =
    (let s =
       (if (get_flag CF_flag s) \<or> (get_flag ZF_flag s) then
         BX_WRITE_32BIT_REGZ (i_nnn i) (BX_READ_32BIT_REG (i_rm i) s) s
       else
         s) in
     Inr ((), BX_CLEAR_64BIT_HIGH (i_nnn i) s))"

definition CMOVNBE_GdEdR :: handler where
  "CMOVNBE_GdEdR i s =
    (let s =
       (if \<not> ((get_flag CF_flag s) \<or> (get_flag ZF_flag s)) then
         BX_WRITE_32BIT_REGZ (i_nnn i) (BX_READ_32BIT_REG (i_rm i) s) s
       else
         s) in
     Inr ((), BX_CLEAR_64BIT_HIGH (i_nnn i) s))"

definition CMOVS_GdEdR :: handler where
  "CMOVS_GdEdR i s =
    (let s =
       (if get_flag SF_flag s then
         BX_WRITE_32BIT_REGZ (i_nnn i) (BX_READ_32BIT_REG (i_rm i) s) s
       else
         s) in
     Inr ((), BX_CLEAR_64BIT_HIGH (i_nnn i) s))"

definition CMOVNS_GdEdR :: handler where
  "CMOVNS_GdEdR i s =
    (let s =
       (if \<not> (get_flag SF_flag s) then
         BX_WRITE_32BIT_REGZ (i_nnn i) (BX_READ_32BIT_REG (i_rm i) s) s
       else
         s) in
     Inr ((), BX_CLEAR_64BIT_HIGH (i_nnn i) s))"

definition CMOVP_GdEdR :: handler where
  "CMOVP_GdEdR i s =
    (let s =
       (if get_flag PF_flag s then
         BX_WRITE_32BIT_REGZ (i_nnn i) (BX_READ_32BIT_REG (i_rm i) s) s
       else
         s) in
     Inr ((), BX_CLEAR_64BIT_HIGH (i_nnn i) s))"

definition CMOVNP_GdEdR :: handler where
  "CMOVNP_GdEdR i s =
    (let s =
       (if \<not> (get_flag PF_flag s) then
         BX_WRITE_32BIT_REGZ (i_nnn i) (BX_READ_32BIT_REG (i_rm i) s) s
       else
         s) in
     Inr ((), BX_CLEAR_64BIT_HIGH (i_nnn i) s))"

definition CMOVL_GdEdR :: handler where
  "CMOVL_GdEdR i s =
    (let s =
       (if (getB_flag SF_flag s) \<noteq> (getB_flag OF_flag s) then
         BX_WRITE_32BIT_REGZ (i_nnn i) (BX_READ_32BIT_REG (i_rm i) s) s
       else
         s) in
     Inr ((), BX_CLEAR_64BIT_HIGH (i_nnn i) s))"

definition CMOVNL_GdEdR :: handler where
  "CMOVNL_GdEdR i s =
    (let s =
       (if (getB_flag SF_flag s) = (getB_flag OF_flag s) then
         BX_WRITE_32BIT_REGZ (i_nnn i) (BX_READ_32BIT_REG (i_rm i) s) s
       else
         s) in
     Inr ((), BX_CLEAR_64BIT_HIGH (i_nnn i) s))"

definition CMOVLE_GdEdR :: handler where
  "CMOVLE_GdEdR i s =
    (let s =
       (if (get_flag ZF_flag s) \<or> ((getB_flag SF_flag s) \<noteq> (getB_flag OF_flag s)) then
         BX_WRITE_32BIT_REGZ (i_nnn i) (BX_READ_32BIT_REG (i_rm i) s) s
       else
         s) in
     Inr ((), BX_CLEAR_64BIT_HIGH (i_nnn i) s))"

definition CMOVNLE_GdEdR :: handler where
  "CMOVNLE_GdEdR i s =
    (let s =
       (if (\<not> (get_flag ZF_flag s)) \<and> ((getB_flag SF_flag s) = (getB_flag OF_flag s)) then
         BX_WRITE_32BIT_REGZ (i_nnn i) (BX_READ_32BIT_REG (i_rm i) s) s
       else
         s) in
     Inr ((), BX_CLEAR_64BIT_HIGH (i_nnn i) s))"

section \<open>\<^verbatim>\<open>data_xfer64.cc\<close>\<close>

definition XCHG_RRXRAX :: handler where
  "XCHG_RRXRAX i s =
    (let temp64 = RAX s in
     let s = set_RAX (BX_READ_64BIT_REG (opcodeReg i) s) s in
     Inr ((), BX_WRITE_64BIT_REG (opcodeReg i) temp64 s))"

definition MOV_RRXIq :: handler where
  "MOV_RRXIq i s =
    (Inr ((), BX_WRITE_64BIT_REG (opcodeReg i) (i_Iq i) s))"

definition MOV64_GdEdM :: handler where
  "MOV64_GdEdM i s =
    (let eaddr = resolve i s in
     rbind (read_virtual_dword_64 (i_seg i) eaddr s) (\<lambda>val32 s.
     Inr ((), BX_WRITE_32BIT_REGZ (i_nnn i) val32 s)))"

definition MOV64_EdGdM :: handler where
  "MOV64_EdGdM i s =
    (let eaddr = resolve i s in
     write_virtual_dword_64 (i_seg i) eaddr (BX_READ_32BIT_REG (i_nnn i) s) s)"

definition MOV_EqGqM :: handler where
  "MOV_EqGqM i s =
    (let eaddr = resolve i s in
     write_virtual_qword_64 (i_seg i) eaddr (BX_READ_64BIT_REG (i_nnn i) s) s)"

definition MOV_GqEqM :: handler where
  "MOV_GqEqM i s =
    (let eaddr = resolve i s in
     rbind (read_virtual_qword_64 (i_seg i) eaddr s) (\<lambda>val64 s.
     Inr ((), BX_WRITE_64BIT_REG (i_nnn i) val64 s)))"

definition MOV_GqEqR :: handler where
  "MOV_GqEqR i s =
    (Inr ((), BX_WRITE_64BIT_REG (i_nnn i) (BX_READ_64BIT_REG (i_rm i) s) s))"

definition LEA_GqM :: handler where
  "LEA_GqM i s =
    (let eaddr = resolve i s in
     Inr ((), BX_WRITE_64BIT_REG (i_nnn i) eaddr s))"

definition MOV_ALOq :: handler where
  "MOV_ALOq i s =
    (rbind (read_virtual_byte_64 (i_seg i) (i_Iq i) s) (\<lambda>v s.
     Inr ((), set_AL v s)))"

definition MOV_OqAL :: handler where
  "MOV_OqAL i s =
    (write_virtual_byte_64 (i_seg i) (i_Iq i) (AL s) s)"

definition MOV_AXOq :: handler where
  "MOV_AXOq i s =
    (rbind (read_virtual_word_64 (i_seg i) (i_Iq i) s) (\<lambda>v s.
     Inr ((), set_AX v s)))"

definition MOV_OqAX :: handler where
  "MOV_OqAX i s =
    (write_virtual_word_64 (i_seg i) (i_Iq i) (AX s) s)"

definition MOV_EAXOq :: handler where
  "MOV_EAXOq i s =
    (rbind (read_virtual_dword_64 (i_seg i) (i_Iq i) s) (\<lambda>v s.
     Inr ((), set_RAX (ucast v) s)))"

definition MOV_OqEAX :: handler where
  "MOV_OqEAX i s =
    (write_virtual_dword_64 (i_seg i) (i_Iq i) (EAX s) s)"

definition MOV_RAXOq :: handler where
  "MOV_RAXOq i s =
    (rbind (read_virtual_qword_64 (i_seg i) (i_Iq i) s) (\<lambda>v s.
     Inr ((), set_RAX v s)))"

definition MOV_OqRAX :: handler where
  "MOV_OqRAX i s =
    (write_virtual_qword_64 (i_seg i) (i_Iq i) (RAX s) s)"

definition MOV_EqIdM :: handler where
  "MOV_EqIdM i s =
    (let op_64 = (scast (i_Id i :: u32) :: u64) in
     let eaddr = resolve i s in
     write_virtual_qword_64 (i_seg i) eaddr op_64 s)"

definition MOV_EqIdR :: handler where
  "MOV_EqIdR i s =
    (let op_64 = (scast (i_Id i :: u32) :: u64) in
     Inr ((), BX_WRITE_64BIT_REG (i_rm i) op_64 s))"

definition MOVZX_GqEbM :: handler where
  "MOVZX_GqEbM i s =
    (let eaddr = resolve i s in
     rbind (read_virtual_byte_64 (i_seg i) eaddr s) (\<lambda>op2_8 s.
     Inr ((), BX_WRITE_64BIT_REG (i_nnn i) (ucast op2_8) s)))"

definition MOVZX_GqEbR :: handler where
  "MOVZX_GqEbR i s =
    (let op2_8 = BX_READ_8BIT_REGx (i_rm i) (extend8bitL i) s in
     Inr ((), BX_WRITE_64BIT_REG (i_nnn i) (ucast op2_8) s))"

definition MOVZX_GqEwM :: handler where
  "MOVZX_GqEwM i s =
    (let eaddr = resolve i s in
     rbind (read_virtual_word_64 (i_seg i) eaddr s) (\<lambda>op2_16 s.
     Inr ((), BX_WRITE_64BIT_REG (i_nnn i) (ucast op2_16) s)))"

definition MOVZX_GqEwR :: handler where
  "MOVZX_GqEwR i s =
    (let op2_16 = BX_READ_16BIT_REG (i_rm i) s in
     Inr ((), BX_WRITE_64BIT_REG (i_nnn i) (ucast op2_16) s))"

definition MOVSX_GqEbM :: handler where
  "MOVSX_GqEbM i s =
    (let eaddr = resolve i s in
     rbind (read_virtual_byte_64 (i_seg i) eaddr s) (\<lambda>op2_8 s.
     Inr ((), BX_WRITE_64BIT_REG (i_nnn i) (scast (op2_8 :: u8)) s)))"

definition MOVSX_GqEbR :: handler where
  "MOVSX_GqEbR i s =
    (let op2_8 = BX_READ_8BIT_REGx (i_rm i) (extend8bitL i) s in
     Inr ((), BX_WRITE_64BIT_REG (i_nnn i) (scast (op2_8 :: u8)) s))"

definition MOVSX_GqEwM :: handler where
  "MOVSX_GqEwM i s =
    (let eaddr = resolve i s in
     rbind (read_virtual_word_64 (i_seg i) eaddr s) (\<lambda>op2_16 s.
     Inr ((), BX_WRITE_64BIT_REG (i_nnn i) (scast (op2_16 :: u16)) s)))"

definition MOVSX_GqEwR :: handler where
  "MOVSX_GqEwR i s =
    (let op2_16 = BX_READ_16BIT_REG (i_rm i) s in
     Inr ((), BX_WRITE_64BIT_REG (i_nnn i) (scast (op2_16 :: u16)) s))"

definition MOVSX_GqEdM :: handler where
  "MOVSX_GqEdM i s =
    (let eaddr = resolve i s in
     rbind (read_virtual_dword_64 (i_seg i) eaddr s) (\<lambda>op2_32 s.
     Inr ((), BX_WRITE_64BIT_REG (i_nnn i) (scast (op2_32 :: u32)) s)))"

definition MOVSX_GqEdR :: handler where
  "MOVSX_GqEdR i s =
    (let op2_32 = BX_READ_32BIT_REG (i_rm i) s in
     Inr ((), BX_WRITE_64BIT_REG (i_nnn i) (scast (op2_32 :: u32)) s))"

definition XCHG_EqGqM :: handler where
  "XCHG_EqGqM i s =
    (let eaddr = resolve i s in
     rbind (read_RMW_virtual_qword_64 (i_seg i) eaddr s) (\<lambda>op1_64 s.
     let op2_64 = BX_READ_64BIT_REG (i_nnn i) s in
     rbind (write_RMW_virtual_qword op2_64 s) (\<lambda>_ s.
     Inr ((), BX_WRITE_64BIT_REG (i_nnn i) op1_64 s))))"

definition XCHG_EqGqR :: handler where
  "XCHG_EqGqR i s =
    (let op1_64 = BX_READ_64BIT_REG (i_rm i) s in
     let op2_64 = BX_READ_64BIT_REG (i_nnn i) s in
     let s = BX_WRITE_64BIT_REG (i_nnn i) op1_64 s in
     Inr ((), BX_WRITE_64BIT_REG (i_rm i) op2_64 s))"

definition CMOVO_GqEqR :: handler where
  "CMOVO_GqEqR i s =
    ((if get_flag OF_flag s then
       Inr ((), BX_WRITE_64BIT_REG (i_nnn i) (BX_READ_64BIT_REG (i_rm i) s) s)
     else
     Inr ((), s)))"

definition CMOVNO_GqEqR :: handler where
  "CMOVNO_GqEqR i s =
    ((if \<not> (get_flag OF_flag s) then
       Inr ((), BX_WRITE_64BIT_REG (i_nnn i) (BX_READ_64BIT_REG (i_rm i) s) s)
     else
     Inr ((), s)))"

definition CMOVB_GqEqR :: handler where
  "CMOVB_GqEqR i s =
    ((if get_flag CF_flag s then
       Inr ((), BX_WRITE_64BIT_REG (i_nnn i) (BX_READ_64BIT_REG (i_rm i) s) s)
     else
     Inr ((), s)))"

definition CMOVNB_GqEqR :: handler where
  "CMOVNB_GqEqR i s =
    ((if \<not> (get_flag CF_flag s) then
       Inr ((), BX_WRITE_64BIT_REG (i_nnn i) (BX_READ_64BIT_REG (i_rm i) s) s)
     else
     Inr ((), s)))"

definition CMOVZ_GqEqR :: handler where
  "CMOVZ_GqEqR i s =
    ((if get_flag ZF_flag s then
       Inr ((), BX_WRITE_64BIT_REG (i_nnn i) (BX_READ_64BIT_REG (i_rm i) s) s)
     else
     Inr ((), s)))"

definition CMOVNZ_GqEqR :: handler where
  "CMOVNZ_GqEqR i s =
    ((if \<not> (get_flag ZF_flag s) then
       Inr ((), BX_WRITE_64BIT_REG (i_nnn i) (BX_READ_64BIT_REG (i_rm i) s) s)
     else
     Inr ((), s)))"

definition CMOVBE_GqEqR :: handler where
  "CMOVBE_GqEqR i s =
    ((if (get_flag CF_flag s) \<or> (get_flag ZF_flag s) then
       Inr ((), BX_WRITE_64BIT_REG (i_nnn i) (BX_READ_64BIT_REG (i_rm i) s) s)
     else
     Inr ((), s)))"

definition CMOVNBE_GqEqR :: handler where
  "CMOVNBE_GqEqR i s =
    ((if \<not> ((get_flag CF_flag s) \<or> (get_flag ZF_flag s)) then
       Inr ((), BX_WRITE_64BIT_REG (i_nnn i) (BX_READ_64BIT_REG (i_rm i) s) s)
     else
     Inr ((), s)))"

definition CMOVS_GqEqR :: handler where
  "CMOVS_GqEqR i s =
    ((if get_flag SF_flag s then
       Inr ((), BX_WRITE_64BIT_REG (i_nnn i) (BX_READ_64BIT_REG (i_rm i) s) s)
     else
     Inr ((), s)))"

definition CMOVNS_GqEqR :: handler where
  "CMOVNS_GqEqR i s =
    ((if \<not> (get_flag SF_flag s) then
       Inr ((), BX_WRITE_64BIT_REG (i_nnn i) (BX_READ_64BIT_REG (i_rm i) s) s)
     else
     Inr ((), s)))"

definition CMOVP_GqEqR :: handler where
  "CMOVP_GqEqR i s =
    ((if get_flag PF_flag s then
       Inr ((), BX_WRITE_64BIT_REG (i_nnn i) (BX_READ_64BIT_REG (i_rm i) s) s)
     else
     Inr ((), s)))"

definition CMOVNP_GqEqR :: handler where
  "CMOVNP_GqEqR i s =
    ((if \<not> (get_flag PF_flag s) then
       Inr ((), BX_WRITE_64BIT_REG (i_nnn i) (BX_READ_64BIT_REG (i_rm i) s) s)
     else
     Inr ((), s)))"

definition CMOVL_GqEqR :: handler where
  "CMOVL_GqEqR i s =
    ((if (getB_flag SF_flag s) \<noteq> (getB_flag OF_flag s) then
       Inr ((), BX_WRITE_64BIT_REG (i_nnn i) (BX_READ_64BIT_REG (i_rm i) s) s)
     else
     Inr ((), s)))"

definition CMOVNL_GqEqR :: handler where
  "CMOVNL_GqEqR i s =
    ((if (getB_flag SF_flag s) = (getB_flag OF_flag s) then
       Inr ((), BX_WRITE_64BIT_REG (i_nnn i) (BX_READ_64BIT_REG (i_rm i) s) s)
     else
     Inr ((), s)))"

definition CMOVLE_GqEqR :: handler where
  "CMOVLE_GqEqR i s =
    ((if (get_flag ZF_flag s) \<or> ((getB_flag SF_flag s) \<noteq> (getB_flag OF_flag s)) then
       Inr ((), BX_WRITE_64BIT_REG (i_nnn i) (BX_READ_64BIT_REG (i_rm i) s) s)
     else
     Inr ((), s)))"

definition CMOVNLE_GqEqR :: handler where
  "CMOVNLE_GqEqR i s =
    ((if (\<not> (get_flag ZF_flag s)) \<and> ((getB_flag SF_flag s) = (getB_flag OF_flag s)) then
       Inr ((), BX_WRITE_64BIT_REG (i_nnn i) (BX_READ_64BIT_REG (i_rm i) s) s)
     else
     Inr ((), s)))"

end
