(* ===== verification/Cpu_Precise.thy ===== *)
theory Cpu_Precise
  imports Cpu_Access Cpu_Tlb Cpu_Alu8 Cpu_Alu16 Cpu_Alu32 Cpu_Alu64 Cpu_Shift Cpu_Mult Cpu_Mult64 Cpu_Bits Cpu_Move
begin

text \<open>
  Precise faults. An instruction that raises an exception leaves the code of \<^verbatim>\<open>src/sim/bochs/cpu\<close> by a longjmp and is
  run again once the fault is handled, so what it did before must not be seen. An access to memory changes
  the TLB, the accessed and dirty bits and where it went, but no register; an instruction changes registers
  only after its last access that can fault.
\<close>

unbundle bit_operations_syntax

section \<open>What memory accesses keep\<close>

definition arch_regs :: "cpu \<Rightarrow> (nat \<Rightarrow> u64) \<times> u32 \<times> u32 \<times> lf_flags_entry" where
  "arch_regs s = (gen_reg s, eflags s, lf_flags_status s, oszapc s)"

text \<open>Both an access that succeeds and one that faults leave the registers \<open>A\<close> as they were.\<close>

definition keeps :: "(nat \<Rightarrow> u64) \<times> u32 \<times> u32 \<times> lf_flags_entry \<Rightarrow> 'a res \<Rightarrow> bool" where
  "keeps A r \<longleftrightarrow> arch_regs (res_state r) = A"

named_theorems arch "state changes that keep the registers"

lemma keeps_intros:
  "arch_regs s = A \<Longrightarrow> keeps A (Inr (x, s))" "arch_regs s = A \<Longrightarrow> keeps A (Inl (e, s))" "arch_regs s = A \<Longrightarrow> keeps A (exception v c s)"
  by (simp_all add: keeps_def res_state_def exception_def)

lemma keeps_bind:
  assumes "keeps A m" "\<And>x t. arch_regs t = A \<Longrightarrow> keeps A (f x t)"
  shows "keeps A (rbind m f)"
  using assms by (cases m) (auto simp: keeps_def res_state_def)

lemma keeps_if: "(b \<Longrightarrow> keeps A r) \<Longrightarrow> (\<not> b \<Longrightarrow> keeps A q) \<Longrightarrow> keeps A (if b then r else q)"
  by simp

lemma keeps_option: "(\<And>x. v = Some x \<Longrightarrow> keeps A (f x)) \<Longrightarrow> (v = None \<Longrightarrow> keeps A r) \<Longrightarrow> keeps A (case v of None \<Rightarrow> r | Some x \<Rightarrow> f x)"
  by (cases v) simp_all

lemma arch_mark [arch]:
  "arch_regs (mark_A32 a e s) = arch_regs s" "arch_regs (mark_AD32 w a e s) = arch_regs s"
  "arch_regs (mark_A64 a f s) = arch_regs s" "arch_regs (mark_AD64 w a f s) = arch_regs s"
  by (simp_all add: arch_regs_def mark_A32_def mark_AD32_def mark_A64_def mark_AD64_def write_entry32_def write_entry64_def access_write_physical_def)

lemma arch_page [arch]:
  "arch_regs (one_page a s) = arch_regs s" "arch_regs (two_pages a l1 l2 s) = arch_regs s"
  "arch_regs (tlb_fill la rw r s) = arch_regs s" "arch_regs (tlb_direct la rw a s) = arch_regs s"
  "arch_regs (s\<lparr>paddress2 := p\<rparr>) = arch_regs s" "arch_regs (s\<lparr>pages := q\<rparr>) = arch_regs s" "arch_regs (s\<lparr>cr2 := la\<rparr>) = arch_regs s"
  "arch_regs (s\<lparr>panicked := b\<rparr>) = arch_regs s" "arch_regs (set_valid n bits s) = arch_regs s"
  "arch_regs (access_write_physical p bs s) = arch_regs s" "arch_regs (host_write h bs s) = arch_regs s"
  by (simp_all add: arch_regs_def one_page_def two_pages_def tlb_fill_def tlb_direct_def set_tlb_def set_valid_def Let_def
      access_write_physical_def host_write_def split: prod.splits option.splits)

lemma keeps_page_fault: "arch_regs s = A \<Longrightarrow> keeps A (page_fault e la pl rw s)"
  unfolding page_fault_def Let_def by (intro keeps_intros) (simp add: arch)

lemma arch_check_entry [arch]: "check_entry_PAE e r rw nx s = (f, b, t) \<Longrightarrow> arch_regs t = arch_regs s"
  by (auto simp: check_entry_PAE_def Let_def arch split: if_splits)

lemma keeps_get_entry: "arch_regs s = A \<Longrightarrow> keeps A (get_entry_PAE a r la pl rw nx s)"
  unfolding get_entry_PAE_def Let_def
  by (auto split: prod.splits option.splits intro!: keeps_page_fault keeps_intros dest: arch_check_entry)

lemma keeps_rights: "arch_regs s = A \<Longrightarrow> keeps A (rights_PAE la pl rw nx r e s)"
  unfolding rights_PAE_def Let_def by (intro keeps_if keeps_page_fault keeps_intros)

lemma keeps_walk_legacy: "arch_regs s = A \<Longrightarrow> keeps A (walk_legacy la pl rw s)"
  unfolding walk_legacy_def Let_def by (intro keeps_if keeps_page_fault keeps_intros; simp add: arch)

lemma keeps_walk_long: "arch_regs s = A \<Longrightarrow> keeps A (walk_long_mode la pl rw s)"
  unfolding walk_long_mode_def Let_def split_beta
  by (intro keeps_bind keeps_if keeps_page_fault keeps_intros keeps_get_entry keeps_rights; (simp add: arch)?)

lemma arch_load: "load_pdptrs k c s = (b, t) \<Longrightarrow> arch_regs t = arch_regs s"
proof (induction k arbitrary: s)
  case (Suc k)
  then show ?case by (auto simp: Let_def arch_regs_def split: if_splits)
qed (auto simp: arch_regs_def)

lemma keeps_walk_PAE: "arch_regs s = A \<Longrightarrow> keeps A (walk_PAE la pl rw s)"
proof -
  assume A: "arch_regs s = A"
  obtain ok t where t: "(if pdpe_valid s then (True, s) else CheckPDPTR (ucast (cr3_masked s)) s) = (ok, t)" by fastforce
  have tA: "arch_regs t = A" using A t arch_load by (auto simp: CheckPDPTR_def split: if_splits)
  obtain f nx u where u: "check_entry_PAE (pdpe_entry t (unat (drop_bit 30 la AND 3))) PAE_PDPTE_RESERVED_BITS rw False t = (f, nx, u)"
    by (cases "check_entry_PAE (pdpe_entry t (unat (drop_bit 30 la AND 3))) PAE_PDPTE_RESERVED_BITS rw False t") auto
  have uA: "arch_regs u = A" using arch_check_entry [OF u] tA by simp
  show ?thesis unfolding walk_PAE_def Let_def t u prod.case
    using A tA uA unfolding split_beta
    by (cases f; simp only: option.case; intro keeps_if keeps_bind keeps_page_fault keeps_intros keeps_get_entry keeps_rights keeps_walk_long; (simp add: arch)?)
qed

lemma keeps_walk: "arch_regs s = A \<Longrightarrow> keeps A (page_walk la pl rw s)"
  unfolding page_walk_def by (intro keeps_if keeps_walk_PAE keeps_walk_legacy)

lemma keeps_translate: "arch_regs s = A \<Longrightarrow> keeps A (translate_linear la pl rw s)"
  unfolding translate_linear_def Let_def by (intro keeps_if keeps_bind keeps_walk keeps_intros; simp add: arch)

lemma keeps_xlate: "arch_regs s = A \<Longrightarrow> keeps A (xlate_linear la n pl rw s)"
  unfolding xlate_linear_def Let_def by (intro keeps_if keeps_bind keeps_translate keeps_intros; simp add: arch)

lemma arch_xlated_write [arch]: "arch_regs (xlated_write bs s) = arch_regs s"
  by (simp add: xlated_write_def arch split: sum.split)

lemma keeps_linear:
  "arch_regs s = A \<Longrightarrow> keeps A (access_read_linear la n pl rw s)" "arch_regs s = A \<Longrightarrow> keeps A (access_write_linear la bs pl s)"
  unfolding access_read_linear_def access_write_linear_def by (intro keeps_bind keeps_xlate keeps_intros; simp add: arch)+

lemma arch_checks:
  "arch_regs (snd (write_virtual_checks n off len s)) = arch_regs s" "arch_regs (snd (read_virtual_checks n off len s)) = arch_regs s"
  unfolding write_virtual_checks_def read_virtual_checks_def Let_def
  by (simp_all only: if_distrib [of snd] if_distrib [of arch_regs] snd_conv arch if_cancel)

lemma keeps_segment:
  assumes "arch_regs s = A" "\<And>t. arch_regs (snd (checks n off (word_of_nat len) t)) = arch_regs t"
  shows "keeps A (check_segment checks c n off len s)"
  unfolding check_segment_def split_beta using assms by (intro keeps_if keeps_intros; simp)

lemma keeps_checks_64: "arch_regs s = A \<Longrightarrow> keeps A (checks_64 n la len s)"
  unfolding checks_64_def by (intro keeps_if keeps_intros)

lemma keeps_store: "arch_regs s = A \<Longrightarrow> keeps A (linear_store la bs s)"
  unfolding linear_store_def Let_def by (intro keeps_option keeps_if keeps_intros keeps_linear; simp add: arch)

lemma keeps_load: "arch_regs s = A \<Longrightarrow> keeps A (linear_load la n s)"
  unfolding linear_load_def Let_def by (intro keeps_option keeps_if keeps_bind keeps_intros keeps_linear; simp add: arch)

lemma keeps_32:
  "arch_regs s = A \<Longrightarrow> keeps A (write_virtual_32 n off bs s)" "arch_regs s = A \<Longrightarrow> keeps A (read_virtual_32 n off k s)"
  "arch_regs s = A \<Longrightarrow> keeps A (read_RMW_virtual_32 n off k s)"
  unfolding write_virtual_32_def read_virtual_32_def read_RMW_virtual_32_def Let_def
  by (intro keeps_bind keeps_segment arch_checks keeps_store keeps_load keeps_option keeps_if keeps_intros keeps_linear; simp add: arch)+

lemma keeps_64:
  "arch_regs s = A \<Longrightarrow> keeps A (write_virtual_64 n la bs s)" "arch_regs s = A \<Longrightarrow> keeps A (read_virtual_64 n la k s)"
  "arch_regs s = A \<Longrightarrow> keeps A (read_RMW_virtual_64 n la k s)"
  unfolding write_virtual_64_def read_virtual_64_def read_RMW_virtual_64_def Let_def
  by (intro keeps_bind keeps_checks_64 keeps_option keeps_if keeps_intros keeps_linear; simp add: arch)+

lemma keeps_RMW: "arch_regs s = A \<Longrightarrow> keeps A (write_RMW bs l1 l2 s)"
  unfolding write_RMW_def by (cases "pages s"; simp only: sum.case; intro keeps_if keeps_intros; simp add: arch)

lemma keeps_sized:
  "arch_regs s = A \<Longrightarrow> keeps A (write_virtual_byte_32 sg off32 v_byte s)"
  "arch_regs s = A \<Longrightarrow> keeps A (write_virtual_word_32 sg off32 v_word s)"
  "arch_regs s = A \<Longrightarrow> keeps A (write_virtual_dword_32 sg off32 v_dword s)"
  "arch_regs s = A \<Longrightarrow> keeps A (write_virtual_qword_32 sg off32 v_qword s)"
  "arch_regs s = A \<Longrightarrow> keeps A (read_virtual_byte_32 sg off32 s)"
  "arch_regs s = A \<Longrightarrow> keeps A (read_virtual_word_32 sg off32 s)"
  "arch_regs s = A \<Longrightarrow> keeps A (read_virtual_dword_32 sg off32 s)"
  "arch_regs s = A \<Longrightarrow> keeps A (read_virtual_qword_32 sg off32 s)"
  "arch_regs s = A \<Longrightarrow> keeps A (read_RMW_virtual_byte_32 sg off32 s)"
  "arch_regs s = A \<Longrightarrow> keeps A (read_RMW_virtual_word_32 sg off32 s)"
  "arch_regs s = A \<Longrightarrow> keeps A (read_RMW_virtual_dword_32 sg off32 s)"
  "arch_regs s = A \<Longrightarrow> keeps A (read_RMW_virtual_qword_32 sg off32 s)"
  "arch_regs s = A \<Longrightarrow> keeps A (write_virtual_byte_64 sg off v_byte s)"
  "arch_regs s = A \<Longrightarrow> keeps A (write_virtual_word_64 sg off v_word s)"
  "arch_regs s = A \<Longrightarrow> keeps A (write_virtual_dword_64 sg off v_dword s)"
  "arch_regs s = A \<Longrightarrow> keeps A (write_virtual_qword_64 sg off v_qword s)"
  "arch_regs s = A \<Longrightarrow> keeps A (read_virtual_byte_64 sg off s)"
  "arch_regs s = A \<Longrightarrow> keeps A (read_virtual_word_64 sg off s)"
  "arch_regs s = A \<Longrightarrow> keeps A (read_virtual_dword_64 sg off s)"
  "arch_regs s = A \<Longrightarrow> keeps A (read_virtual_qword_64 sg off s)"
  "arch_regs s = A \<Longrightarrow> keeps A (read_RMW_virtual_byte_64 sg off s)"
  "arch_regs s = A \<Longrightarrow> keeps A (read_RMW_virtual_word_64 sg off s)"
  "arch_regs s = A \<Longrightarrow> keeps A (read_RMW_virtual_dword_64 sg off s)"
  "arch_regs s = A \<Longrightarrow> keeps A (read_RMW_virtual_qword_64 sg off s)"
  unfolding write_virtual_byte_32_def
    write_virtual_word_32_def
    write_virtual_dword_32_def
    write_virtual_qword_32_def
    read_virtual_byte_32_def
    read_virtual_word_32_def
    read_virtual_dword_32_def
    read_virtual_qword_32_def
    read_RMW_virtual_byte_32_def
    read_RMW_virtual_word_32_def
    read_RMW_virtual_dword_32_def
    read_RMW_virtual_qword_32_def
    write_virtual_byte_64_def
    write_virtual_word_64_def
    write_virtual_dword_64_def
    write_virtual_qword_64_def
    read_virtual_byte_64_def
    read_virtual_word_64_def
    read_virtual_dword_64_def
    read_virtual_qword_64_def
    read_RMW_virtual_byte_64_def
    read_RMW_virtual_word_64_def
    read_RMW_virtual_dword_64_def
    read_RMW_virtual_qword_64_def
  by (rule keeps_32 keeps_64, assumption)+

lemma keeps_moded:
  "arch_regs s = A \<Longrightarrow> keeps A (write_virtual_byte sg off v_byte s)"
  "arch_regs s = A \<Longrightarrow> keeps A (write_virtual_word sg off v_word s)"
  "arch_regs s = A \<Longrightarrow> keeps A (write_virtual_dword sg off v_dword s)"
  "arch_regs s = A \<Longrightarrow> keeps A (write_virtual_qword sg off v_qword s)"
  "arch_regs s = A \<Longrightarrow> keeps A (read_virtual_byte sg off s)"
  "arch_regs s = A \<Longrightarrow> keeps A (read_RMW_virtual_byte sg off s)"
  "arch_regs s = A \<Longrightarrow> keeps A (read_virtual_word sg off s)"
  "arch_regs s = A \<Longrightarrow> keeps A (read_RMW_virtual_word sg off s)"
  "arch_regs s = A \<Longrightarrow> keeps A (read_virtual_dword sg off s)"
  "arch_regs s = A \<Longrightarrow> keeps A (read_RMW_virtual_dword sg off s)"
  "arch_regs s = A \<Longrightarrow> keeps A (read_virtual_qword sg off s)"
  "arch_regs s = A \<Longrightarrow> keeps A (read_RMW_virtual_qword sg off s)"
  unfolding write_virtual_byte_def
    write_virtual_word_def
    write_virtual_dword_def
    write_virtual_qword_def
    read_virtual_byte_def
    read_RMW_virtual_byte_def
    read_virtual_word_def
    read_RMW_virtual_word_def
    read_virtual_dword_def
    read_RMW_virtual_dword_def
    read_virtual_qword_def
    read_RMW_virtual_qword_def
  by (intro keeps_if keeps_sized; assumption)+

lemma keeps_RMW_sized:
  "arch_regs s = A \<Longrightarrow> keeps A (write_RMW_virtual_byte v_byte s)"
  "arch_regs s = A \<Longrightarrow> keeps A (write_RMW_virtual_word v_word s)"
  "arch_regs s = A \<Longrightarrow> keeps A (write_RMW_virtual_dword v_dword s)"
  "arch_regs s = A \<Longrightarrow> keeps A (write_RMW_virtual_qword v_qword s)"
  unfolding write_RMW_virtual_byte_def write_RMW_virtual_word_def write_RMW_virtual_dword_def write_RMW_virtual_qword_def
  by (cases "pages s"; simp only: sum.case; intro keeps_intros; simp add: arch) (rule keeps_RMW, assumption)+

section \<open>Instructions\<close>

text \<open>The registers are \<open>A\<close> when an instruction faults; it keeps them then.\<close>

definition precise :: "(nat \<Rightarrow> u64) \<times> u32 \<times> u32 \<times> lf_flags_entry \<Rightarrow> 'a res \<Rightarrow> bool" where
  "precise A r \<longleftrightarrow> (\<forall>e t. r = Inl (e, t) \<longrightarrow> arch_regs t = A)"

definition faults_keep :: "handler \<Rightarrow> bool" where
  "faults_keep h \<longleftrightarrow> (\<forall>i s e t. h i s = Inl (e, t) \<longrightarrow> arch_regs t = arch_regs s)"

lemma faults_keepI: "(\<And>i s. precise (arch_regs s) (h i s)) \<Longrightarrow> faults_keep h"
  unfolding faults_keep_def precise_def by blast

lemma precise_Inr: "precise A (Inr r)"
  by (simp add: precise_def)

lemma precise_exception: "arch_regs s = A \<Longrightarrow> precise A (exception v c s)"
  by (simp add: precise_def exception_def)

lemma precise_keeps: "keeps A q \<Longrightarrow> precise A q"
  by (auto simp: precise_def keeps_def res_state_def)

lemma precise_bind:
  assumes "keeps A m" "\<And>x t. arch_regs t = A \<Longrightarrow> precise A (f x t)"
  shows "precise A (rbind m f)"
proof (cases m)
  case (Inl e)
  then show ?thesis using assms(1) by (cases e) (simp add: keeps_def res_state_def precise_def)
next
  case (Inr r)
  then show ?thesis using assms by (cases r) (simp add: keeps_def res_state_def)
qed

lemma precise_if: "(b \<Longrightarrow> precise A r) \<Longrightarrow> (\<not> b \<Longrightarrow> precise A q) \<Longrightarrow> precise A (if b then r else q)"
  by simp

text \<open>The write of a read-modify-write operation does not fault: its read has checked it.\<close>

definition safe :: "'a res \<Rightarrow> bool" where "safe m \<longleftrightarrow> (\<exists>r. m = Inr r)"

lemma safe_rules:
  "safe (Inr r)" "(b \<Longrightarrow> safe m) \<Longrightarrow> (\<not> b \<Longrightarrow> safe n) \<Longrightarrow> safe (if b then m else n)"
  "safe (write_RMW_virtual_byte v8 s)" "safe (write_RMW_virtual_word v16 s)"
  "safe (write_RMW_virtual_dword v32 s)" "safe (write_RMW_virtual_qword v64 s)"
  by (simp_all add: safe_def write_RMW_virtual_byte_def write_RMW_virtual_word_def write_RMW_virtual_dword_def
      write_RMW_virtual_qword_def write_RMW_def split: sum.split)

lemma precise_safe: "safe m \<Longrightarrow> precise A m"
  by (auto simp: safe_def precise_def)

lemma precise_safe_bind: "safe m \<Longrightarrow> (\<And>x t. precise A (f x t)) \<Longrightarrow> precise A (rbind m f)"
  by (auto simp: safe_def precise_def)

lemmas keeps_rules = keeps_if keeps_intros keeps_sized keeps_moded keeps_RMW_sized refl

lemma faults_keep_alu8:
  "faults_keep ADD_EbGbM" "faults_keep ADC_EbGbM" "faults_keep SBB_EbGbM" "faults_keep SBB_EbIbM"
  "faults_keep SUB_EbGbM" "faults_keep CMP_EbGbM" "faults_keep XADD_EbGbM" "faults_keep ADD_EbIbM"
  "faults_keep ADC_EbIbM" "faults_keep SUB_EbIbM" "faults_keep CMP_EbIbM" "faults_keep NEG_EbM"
  "faults_keep INC_EbM" "faults_keep DEC_EbM" "faults_keep CMPXCHG_EbGbM" "faults_keep XOR_EbGbM"
  "faults_keep XOR_EbIbM" "faults_keep OR_EbIbM" "faults_keep NOT_EbM" "faults_keep OR_EbGbM"
  "faults_keep AND_EbGbM" "faults_keep AND_EbIbM"
  by (rule faults_keepI; simp only: ADD_EbGbM_def ADC_EbGbM_def SBB_EbGbM_def SBB_EbIbM_def SUB_EbGbM_def
      CMP_EbGbM_def XADD_EbGbM_def ADD_EbIbM_def ADC_EbIbM_def SUB_EbIbM_def
      CMP_EbIbM_def NEG_EbM_def INC_EbM_def DEC_EbM_def CMPXCHG_EbGbM_def
      XOR_EbGbM_def XOR_EbIbM_def OR_EbIbM_def NOT_EbM_def OR_EbGbM_def
      AND_EbGbM_def AND_EbIbM_def
      Let_def split_beta;
      (rule precise_Inr precise_if precise_exception | assumption | rule refl
        | rule precise_bind precise_keeps, (intro keeps_rules; assumption?; fail)
        | rule precise_safe precise_safe_bind, (intro safe_rules; fail))+)+

lemma faults_keep_alu16:
  "faults_keep ADD_EwGwM" "faults_keep ADC_EwGwM" "faults_keep SBB_EwGwM" "faults_keep SBB_EwIwM"
  "faults_keep SUB_EwGwM" "faults_keep CMP_EwGwM" "faults_keep XADD_EwGwM" "faults_keep ADD_EwIwM"
  "faults_keep ADC_EwIwM" "faults_keep SUB_EwIwM" "faults_keep CMP_EwIwM" "faults_keep NEG_EwM"
  "faults_keep INC_EwM" "faults_keep DEC_EwM" "faults_keep CMPXCHG_EwGwM" "faults_keep XOR_EwGwM"
  "faults_keep XOR_EwIwM" "faults_keep OR_EwIwM" "faults_keep NOT_EwM" "faults_keep OR_EwGwM"
  "faults_keep AND_EwGwM" "faults_keep AND_EwIwM"
  by (rule faults_keepI; simp only: ADD_EwGwM_def ADC_EwGwM_def SBB_EwGwM_def SBB_EwIwM_def SUB_EwGwM_def
      CMP_EwGwM_def XADD_EwGwM_def ADD_EwIwM_def ADC_EwIwM_def SUB_EwIwM_def
      CMP_EwIwM_def NEG_EwM_def INC_EwM_def DEC_EwM_def CMPXCHG_EwGwM_def
      XOR_EwGwM_def XOR_EwIwM_def OR_EwIwM_def NOT_EwM_def OR_EwGwM_def
      AND_EwGwM_def AND_EwIwM_def
      Let_def split_beta;
      (rule precise_Inr precise_if precise_exception | assumption | rule refl
        | rule precise_bind precise_keeps, (intro keeps_rules; assumption?; fail)
        | rule precise_safe precise_safe_bind, (intro safe_rules; fail))+)+

lemma faults_keep_alu32:
  "faults_keep ADD_EdGdM" "faults_keep ADC_EdGdM" "faults_keep SBB_EdGdM" "faults_keep SBB_EdIdM"
  "faults_keep SUB_EdGdM" "faults_keep CMP_EdGdM" "faults_keep CMPXCHG_XBTS" "faults_keep CMPXCHG_IBTS"
  "faults_keep XADD_EdGdM" "faults_keep ADD_EdIdM" "faults_keep ADC_EdIdM" "faults_keep SUB_EdIdM"
  "faults_keep CMP_EdIdM" "faults_keep NEG_EdM" "faults_keep INC_EdM" "faults_keep DEC_EdM"
  "faults_keep CMPXCHG_EdGdM" "faults_keep CMPXCHG8B" "faults_keep XOR_EdGdM" "faults_keep XOR_EdIdM"
  "faults_keep OR_EdIdM" "faults_keep NOT_EdM" "faults_keep OR_EdGdM" "faults_keep AND_EdGdM"
  "faults_keep AND_EdIdM"
  by (rule faults_keepI; simp only: ADD_EdGdM_def ADC_EdGdM_def SBB_EdGdM_def SBB_EdIdM_def SUB_EdGdM_def
      CMP_EdGdM_def CMPXCHG_XBTS_def CMPXCHG_IBTS_def XADD_EdGdM_def ADD_EdIdM_def
      ADC_EdIdM_def SUB_EdIdM_def CMP_EdIdM_def NEG_EdM_def INC_EdM_def
      DEC_EdM_def CMPXCHG_EdGdM_def CMPXCHG8B_def XOR_EdGdM_def XOR_EdIdM_def
      OR_EdIdM_def NOT_EdM_def OR_EdGdM_def AND_EdGdM_def AND_EdIdM_def
      Let_def split_beta;
      (rule precise_Inr precise_if precise_exception | assumption | rule refl
        | rule precise_bind precise_keeps, (intro keeps_rules; assumption?; fail)
        | rule precise_safe precise_safe_bind, (intro safe_rules; fail))+)+

lemma faults_keep_alu64:
  "faults_keep ADD_EqGqM" "faults_keep ADC_EqGqM" "faults_keep SBB_EqGqM" "faults_keep SBB_EqIdM"
  "faults_keep SUB_EqGqM" "faults_keep CMP_EqGqM" "faults_keep XADD_EqGqM" "faults_keep ADD_EqIdM"
  "faults_keep ADC_EqIdM" "faults_keep SUB_EqIdM" "faults_keep CMP_EqIdM" "faults_keep NEG_EqM"
  "faults_keep INC_EqM" "faults_keep DEC_EqM" "faults_keep CMPXCHG_EqGqM" "faults_keep CMPXCHG16B"
  "faults_keep XOR_EqGqM" "faults_keep XOR_EqIdM" "faults_keep OR_EqIdM" "faults_keep NOT_EqM"
  "faults_keep OR_EqGqM" "faults_keep AND_EqGqM" "faults_keep AND_EqIdM"
  by (rule faults_keepI; simp only: ADD_EqGqM_def ADC_EqGqM_def SBB_EqGqM_def SBB_EqIdM_def SUB_EqGqM_def
      CMP_EqGqM_def XADD_EqGqM_def ADD_EqIdM_def ADC_EqIdM_def SUB_EqIdM_def
      CMP_EqIdM_def NEG_EqM_def INC_EqM_def DEC_EqM_def CMPXCHG_EqGqM_def
      CMPXCHG16B_def XOR_EqGqM_def XOR_EqIdM_def OR_EqIdM_def NOT_EqM_def
      OR_EqGqM_def AND_EqGqM_def AND_EqIdM_def
      Let_def split_beta;
      (rule precise_Inr precise_if precise_exception | assumption | rule refl
        | rule precise_bind precise_keeps, (intro keeps_rules; assumption?; fail)
        | rule precise_safe precise_safe_bind, (intro safe_rules; fail))+)+

lemma faults_keep_shift:
  "faults_keep ROL_Eb" "faults_keep ROR_Eb" "faults_keep RCL_Eb" "faults_keep RCR_Eb"
  "faults_keep SHL_Eb" "faults_keep SHR_Eb" "faults_keep SAR_Eb" "faults_keep SHLD_EwGwM"
  "faults_keep SHRD_EwGwM" "faults_keep ROL_Ew" "faults_keep ROR_Ew" "faults_keep RCL_Ew"
  "faults_keep RCR_Ew" "faults_keep SHL_Ew" "faults_keep SHR_Ew" "faults_keep SAR_Ew"
  "faults_keep SHLD_EdGdM" "faults_keep SHRD_EdGdM" "faults_keep ROL_EdM" "faults_keep ROR_EdM"
  "faults_keep RCL_EdM" "faults_keep RCR_EdM" "faults_keep SHL_EdM" "faults_keep SHR_EdM"
  "faults_keep SAR_EdM" "faults_keep SHLD_EqGqM" "faults_keep SHRD_EqGqM" "faults_keep ROL_EqM"
  "faults_keep ROR_EqM" "faults_keep RCL_EqM" "faults_keep RCR_EqM" "faults_keep SHL_EqM"
  "faults_keep SHR_EqM" "faults_keep SAR_EqM"
  by (rule faults_keepI; simp only: ROL_Eb_def ROR_Eb_def RCL_Eb_def RCR_Eb_def SHL_Eb_def
      SHR_Eb_def SAR_Eb_def SHLD_EwGwM_def SHRD_EwGwM_def ROL_Ew_def
      ROR_Ew_def RCL_Ew_def RCR_Ew_def SHL_Ew_def SHR_Ew_def
      SAR_Ew_def SHLD_EdGdM_def SHRD_EdGdM_def ROL_EdM_def ROR_EdM_def
      RCL_EdM_def RCR_EdM_def SHL_EdM_def SHR_EdM_def SAR_EdM_def
      SHLD_EqGqM_def SHRD_EqGqM_def ROL_EqM_def ROR_EqM_def RCL_EqM_def
      RCR_EqM_def SHL_EqM_def SHR_EqM_def SAR_EqM_def
      Let_def split_beta;
      (rule precise_Inr precise_if precise_exception | assumption | rule refl
        | rule precise_bind precise_keeps, (intro keeps_rules; assumption?; fail)
        | rule precise_safe precise_safe_bind, (intro safe_rules; fail))+)+

lemma faults_keep_mult:
  "faults_keep DIV_ALEbR" "faults_keep IDIV_ALEbR" "faults_keep DIV_AXEwR" "faults_keep IDIV_AXEwR"
  "faults_keep DIV_EAXEdR" "faults_keep IDIV_EAXEdR" "faults_keep AAM"
  by (rule faults_keepI; simp only: DIV_ALEbR_def IDIV_ALEbR_def DIV_AXEwR_def IDIV_AXEwR_def DIV_EAXEdR_def
      IDIV_EAXEdR_def AAM_def
      Let_def split_beta;
      (rule precise_Inr precise_if precise_exception | assumption | rule refl
        | rule precise_bind precise_keeps, (intro keeps_rules; assumption?; fail)
        | rule precise_safe precise_safe_bind, (intro safe_rules; fail))+)+

lemma faults_keep_mult64:
  "faults_keep DIV_RAXEqR" "faults_keep IDIV_RAXEqR"
  by (rule faults_keepI; simp only: DIV_RAXEqR_def IDIV_RAXEqR_def
      Let_def split_beta;
      (rule precise_Inr precise_if precise_exception | assumption | rule refl
        | rule precise_bind precise_keeps, (intro keeps_rules; assumption?; fail)
        | rule precise_safe precise_safe_bind, (intro safe_rules; fail))+)+

lemma faults_keep_bits:
  "faults_keep SETO_EbM" "faults_keep SETNO_EbM" "faults_keep SETB_EbM" "faults_keep SETNB_EbM"
  "faults_keep SETZ_EbM" "faults_keep SETNZ_EbM" "faults_keep SETBE_EbM" "faults_keep SETNBE_EbM"
  "faults_keep SETS_EbM" "faults_keep SETNS_EbM" "faults_keep SETP_EbM" "faults_keep SETNP_EbM"
  "faults_keep SETL_EbM" "faults_keep SETNL_EbM" "faults_keep SETLE_EbM" "faults_keep SETNLE_EbM"
  "faults_keep BT_EwGwM" "faults_keep BTS_EwGwM" "faults_keep BTR_EwGwM" "faults_keep BTC_EwGwM"
  "faults_keep BT_EwIbM" "faults_keep BTS_EwIbM" "faults_keep BTC_EwIbM" "faults_keep BTR_EwIbM"
  "faults_keep POPCNT_GwEwR" "faults_keep BT_EdGdM" "faults_keep BTS_EdGdM" "faults_keep BTR_EdGdM"
  "faults_keep BTC_EdGdM" "faults_keep BT_EdIbM" "faults_keep BTS_EdIbM" "faults_keep BTC_EdIbM"
  "faults_keep BTR_EdIbM" "faults_keep POPCNT_GdEdR" "faults_keep BT_EqGqM" "faults_keep BTS_EqGqM"
  "faults_keep BTR_EqGqM" "faults_keep BTC_EqGqM" "faults_keep BT_EqIbM" "faults_keep BTS_EqIbM"
  "faults_keep BTC_EqIbM" "faults_keep BTR_EqIbM" "faults_keep POPCNT_GqEqR"
  by (rule faults_keepI; simp only: SETO_EbM_def SETNO_EbM_def SETB_EbM_def SETNB_EbM_def SETZ_EbM_def
      SETNZ_EbM_def SETBE_EbM_def SETNBE_EbM_def SETS_EbM_def SETNS_EbM_def
      SETP_EbM_def SETNP_EbM_def SETL_EbM_def SETNL_EbM_def SETLE_EbM_def
      SETNLE_EbM_def BT_EwGwM_def BTS_EwGwM_def BTR_EwGwM_def BTC_EwGwM_def
      BT_EwIbM_def BTS_EwIbM_def BTC_EwIbM_def BTR_EwIbM_def POPCNT_GwEwR_def
      BT_EdGdM_def BTS_EdGdM_def BTR_EdGdM_def BTC_EdGdM_def BT_EdIbM_def
      BTS_EdIbM_def BTC_EdIbM_def BTR_EdIbM_def POPCNT_GdEdR_def BT_EqGqM_def
      BTS_EqGqM_def BTR_EqGqM_def BTC_EqGqM_def BT_EqIbM_def BTS_EqIbM_def
      BTC_EqIbM_def BTR_EqIbM_def POPCNT_GqEqR_def
      Let_def split_beta;
      (rule precise_Inr precise_if precise_exception | assumption | rule refl
        | rule precise_bind precise_keeps, (intro keeps_rules; assumption?; fail)
        | rule precise_safe precise_safe_bind, (intro safe_rules; fail))+)+

lemma faults_keep_move:
  "faults_keep MOV_EbGbM" "faults_keep MOV_GbEbM" "faults_keep MOV_ALOd" "faults_keep MOV_OdAL"
  "faults_keep MOV_EbIbM" "faults_keep XLAT" "faults_keep XCHG_EbGbM" "faults_keep MOV_EwGwM"
  "faults_keep MOV_GwEwM" "faults_keep MOV_AXOd" "faults_keep MOV_OdAX" "faults_keep MOV_EwIwM"
  "faults_keep MOVZX_GwEbM" "faults_keep MOVSX_GwEbM" "faults_keep XCHG_EwGwM" "faults_keep MOV32_EdGdM"
  "faults_keep MOV32_GdEdM" "faults_keep MOV_EAXOd" "faults_keep MOV_OdEAX" "faults_keep MOV_EdIdM"
  "faults_keep MOVZX_GdEbM" "faults_keep MOVZX_GdEwM" "faults_keep MOVSX_GdEbM" "faults_keep MOVSX_GdEwM"
  "faults_keep XCHG_EdGdM" "faults_keep MOV64_GdEdM" "faults_keep MOV64_EdGdM" "faults_keep MOV_EqGqM"
  "faults_keep MOV_GqEqM" "faults_keep MOV_ALOq" "faults_keep MOV_OqAL" "faults_keep MOV_AXOq"
  "faults_keep MOV_OqAX" "faults_keep MOV_EAXOq" "faults_keep MOV_OqEAX" "faults_keep MOV_RAXOq"
  "faults_keep MOV_OqRAX" "faults_keep MOV_EqIdM" "faults_keep MOVZX_GqEbM" "faults_keep MOVZX_GqEwM"
  "faults_keep MOVSX_GqEbM" "faults_keep MOVSX_GqEwM" "faults_keep MOVSX_GqEdM" "faults_keep XCHG_EqGqM"
  by (rule faults_keepI; simp only: MOV_EbGbM_def MOV_GbEbM_def MOV_ALOd_def MOV_OdAL_def MOV_EbIbM_def
      XLAT_def XCHG_EbGbM_def MOV_EwGwM_def MOV_GwEwM_def MOV_AXOd_def
      MOV_OdAX_def MOV_EwIwM_def MOVZX_GwEbM_def MOVSX_GwEbM_def XCHG_EwGwM_def
      MOV32_EdGdM_def MOV32_GdEdM_def MOV_EAXOd_def MOV_OdEAX_def MOV_EdIdM_def
      MOVZX_GdEbM_def MOVZX_GdEwM_def MOVSX_GdEbM_def MOVSX_GdEwM_def XCHG_EdGdM_def
      MOV64_GdEdM_def MOV64_EdGdM_def MOV_EqGqM_def MOV_GqEqM_def MOV_ALOq_def
      MOV_OqAL_def MOV_AXOq_def MOV_OqAX_def MOV_EAXOq_def MOV_OqEAX_def
      MOV_RAXOq_def MOV_OqRAX_def MOV_EqIdM_def MOVZX_GqEbM_def MOVZX_GqEwM_def
      MOVSX_GqEbM_def MOVSX_GqEwM_def MOVSX_GqEdM_def XCHG_EqGqM_def
      Let_def split_beta;
      (rule precise_Inr precise_if precise_exception | assumption | rule refl
        | rule precise_bind precise_keeps, (intro keeps_rules; assumption?; fail)
        | rule precise_safe precise_safe_bind, (intro safe_rules; fail))+)+

text \<open>All the instructions of these theories that can raise an exception.\<close>

definition faulting_handlers :: "handler list" where
  "faulting_handlers =
    [ADD_EbGbM, ADC_EbGbM, SBB_EbGbM, SBB_EbIbM, SUB_EbGbM, CMP_EbGbM,
     XADD_EbGbM, ADD_EbIbM, ADC_EbIbM, SUB_EbIbM, CMP_EbIbM, NEG_EbM,
     INC_EbM, DEC_EbM, CMPXCHG_EbGbM, XOR_EbGbM, XOR_EbIbM, OR_EbIbM,
     NOT_EbM, OR_EbGbM, AND_EbGbM, AND_EbIbM, ADD_EwGwM, ADC_EwGwM,
     SBB_EwGwM, SBB_EwIwM, SUB_EwGwM, CMP_EwGwM, XADD_EwGwM, ADD_EwIwM,
     ADC_EwIwM, SUB_EwIwM, CMP_EwIwM, NEG_EwM, INC_EwM, DEC_EwM,
     CMPXCHG_EwGwM, XOR_EwGwM, XOR_EwIwM, OR_EwIwM, NOT_EwM, OR_EwGwM,
     AND_EwGwM, AND_EwIwM, ADD_EdGdM, ADC_EdGdM, SBB_EdGdM, SBB_EdIdM,
     SUB_EdGdM, CMP_EdGdM, CMPXCHG_XBTS, CMPXCHG_IBTS, XADD_EdGdM, ADD_EdIdM,
     ADC_EdIdM, SUB_EdIdM, CMP_EdIdM, NEG_EdM, INC_EdM, DEC_EdM,
     CMPXCHG_EdGdM, CMPXCHG8B, XOR_EdGdM, XOR_EdIdM, OR_EdIdM, NOT_EdM,
     OR_EdGdM, AND_EdGdM, AND_EdIdM, ADD_EqGqM, ADC_EqGqM, SBB_EqGqM,
     SBB_EqIdM, SUB_EqGqM, CMP_EqGqM, XADD_EqGqM, ADD_EqIdM, ADC_EqIdM,
     SUB_EqIdM, CMP_EqIdM, NEG_EqM, INC_EqM, DEC_EqM, CMPXCHG_EqGqM,
     CMPXCHG16B, XOR_EqGqM, XOR_EqIdM, OR_EqIdM, NOT_EqM, OR_EqGqM,
     AND_EqGqM, AND_EqIdM, ROL_Eb, ROR_Eb, RCL_Eb, RCR_Eb,
     SHL_Eb, SHR_Eb, SAR_Eb, SHLD_EwGwM, SHRD_EwGwM, ROL_Ew,
     ROR_Ew, RCL_Ew, RCR_Ew, SHL_Ew, SHR_Ew, SAR_Ew,
     SHLD_EdGdM, SHRD_EdGdM, ROL_EdM, ROR_EdM, RCL_EdM, RCR_EdM,
     SHL_EdM, SHR_EdM, SAR_EdM, SHLD_EqGqM, SHRD_EqGqM, ROL_EqM,
     ROR_EqM, RCL_EqM, RCR_EqM, SHL_EqM, SHR_EqM, SAR_EqM,
     DIV_ALEbR, IDIV_ALEbR, DIV_AXEwR, IDIV_AXEwR, DIV_EAXEdR, IDIV_EAXEdR,
     AAM, DIV_RAXEqR, IDIV_RAXEqR, SETO_EbM, SETNO_EbM, SETB_EbM,
     SETNB_EbM, SETZ_EbM, SETNZ_EbM, SETBE_EbM, SETNBE_EbM, SETS_EbM,
     SETNS_EbM, SETP_EbM, SETNP_EbM, SETL_EbM, SETNL_EbM, SETLE_EbM,
     SETNLE_EbM, BT_EwGwM, BTS_EwGwM, BTR_EwGwM, BTC_EwGwM, BT_EwIbM,
     BTS_EwIbM, BTC_EwIbM, BTR_EwIbM, POPCNT_GwEwR, BT_EdGdM, BTS_EdGdM,
     BTR_EdGdM, BTC_EdGdM, BT_EdIbM, BTS_EdIbM, BTC_EdIbM, BTR_EdIbM,
     POPCNT_GdEdR, BT_EqGqM, BTS_EqGqM, BTR_EqGqM, BTC_EqGqM, BT_EqIbM,
     BTS_EqIbM, BTC_EqIbM, BTR_EqIbM, POPCNT_GqEqR, MOV_EbGbM, MOV_GbEbM,
     MOV_ALOd, MOV_OdAL, MOV_EbIbM, XLAT, XCHG_EbGbM, MOV_EwGwM,
     MOV_GwEwM, MOV_AXOd, MOV_OdAX, MOV_EwIwM, MOVZX_GwEbM, MOVSX_GwEbM,
     XCHG_EwGwM, MOV32_EdGdM, MOV32_GdEdM, MOV_EAXOd, MOV_OdEAX, MOV_EdIdM,
     MOVZX_GdEbM, MOVZX_GdEwM, MOVSX_GdEbM, MOVSX_GdEwM, XCHG_EdGdM, MOV64_GdEdM,
     MOV64_EdGdM, MOV_EqGqM, MOV_GqEqM, MOV_ALOq, MOV_OqAL, MOV_AXOq,
     MOV_OqAX, MOV_EAXOq, MOV_OqEAX, MOV_RAXOq, MOV_OqRAX, MOV_EqIdM,
     MOVZX_GqEbM, MOVZX_GqEwM, MOVSX_GqEbM, MOVSX_GqEwM, MOVSX_GqEdM, XCHG_EqGqM]"

text \<open>
  C17. Faults are precise: each of the 222 modelled instructions that can fault (by the segment, the page, the alignment,
  the divisor, or an operand that is not allowed) leaves the general registers, the flags register and
  the saved operands of the lazy flags as they were before it, so that it can be run again.
\<close>
theorem faults_are_precise: "list_all faults_keep faulting_handlers"
  unfolding faulting_handlers_def
  by (simp only: list.pred_inject simp_thms faults_keep_alu8 faults_keep_alu16 faults_keep_alu32 faults_keep_alu64 faults_keep_shift faults_keep_mult faults_keep_mult64 faults_keep_bits faults_keep_move)

end
