(* ===== verification/Cpu_Wide.thy ===== *)
theory Cpu_Wide
  imports Cpu_Mult64
begin

text \<open>
  The 128 bit arithmetic of \<^verbatim>\<open>src/sim/bochs/cpu/mult64.cc\<close> is that of the numbers. \<open>wide\<close> is the word of
  128 bits that two halves make and \<open>val\<close> its value; for each operation of the code on halves there is a lemma
  that says what it does to the value. The loop of \<open>long_div\<close> subtracts exactly once per bit of the quotient;
  its shifts lose no bit when the quotient fits, and when it does not fit the code sees it.
\<close>

unbundle bit_operations_syntax

definition wide :: "bit128 \<Rightarrow> 128 word" where "wide a = push_bit 64 (ucast (hi128 a)) OR ucast (lo128 a)"
definition val :: "bit128 \<Rightarrow> nat" where "val a = 2 ^ 64 * unat (hi128 a) + unat (lo128 a)"

lemma val_less: "val a < 2 ^ 128"
  using unsigned_less [of "hi128 a", where ?'a = nat] unsigned_less [of "lo128 a", where ?'a = nat] by (simp add: val_def)

lemma bit_wide: "bit (wide a) n \<longleftrightarrow> (if n < 64 then bit (lo128 a) n else bit (hi128 a) (n - 64))"
proof -
  have "n < 64" if "bit (lo128 a) n" using bit_imp_le_length [OF that] by simp
  moreover have "n - 64 < 64" if "bit (hi128 a) (n - 64)" using bit_imp_le_length [OF that] by simp
  ultimately show ?thesis by (auto simp: wide_def bit_or_iff bit_push_bit_iff bit_unsigned_iff)
qed

lemma wide_val: "unat (wide a) = val a"
proof -
  have "push_bit 64 (ucast (hi128 a)) AND ucast (lo128 a) = (0 :: 128 word)"
    by (rule bit_word_eqI) (auto simp: bit_and_iff bit_push_bit_iff bit_unsigned_iff dest: bit_imp_le_length)
  then have "wide a = push_bit 64 (ucast (hi128 a)) + ucast (lo128 a)"
    by (simp only: wide_def disjunctive_add_eq_or)
  then show ?thesis using val_less [of a]
    by (simp add: val_def push_bit_eq_mult unat_word_ariths unsigned_ucast_eq take_bit_nat_eq_self mult.commute)
qed

lemma wide_shl: "wide (long_shl a) = push_bit 1 (wide a)"
proof (rule bit_word_eqI)
  fix n :: nat
  have "n + 63 < 64" if "bit (lo128 a) (n + 63)" using bit_imp_le_length [OF that] by simp
  then show "bit (wide (long_shl a)) n \<longleftrightarrow> bit (push_bit 1 (wide a)) n" if "n < LENGTH(128)"
    using that
    unfolding bit_wide long_shl_def Let_def bit_push_bit_iff bit128.select_convs bit_or_iff bit_drop_bit_eq comp_def
    by (cases "n < 64"; cases "n = 64") (auto dest: bit_imp_le_length simp del: One_nat_def)
qed

lemma wide_shr: "wide (long_shr a) = drop_bit 1 (wide a)"
proof (rule bit_word_eqI)
  fix n :: nat
  show "bit (wide (long_shr a)) n \<longleftrightarrow> bit (drop_bit 1 (wide a)) n" if "n < LENGTH(128)"
    using that
    unfolding bit_wide long_shr_def Let_def bit_push_bit_iff bit128.select_convs bit_or_iff bit_drop_bit_eq comp_def
    by (cases "n < 64"; cases "n = 63") (auto dest: bit_imp_le_length simp del: One_nat_def)
qed

lemma val_shl: "val (long_shl a) = 2 * val a mod 2 ^ 128"
  unfolding wide_val [symmetric] wide_shl by (simp only: push_bit_eq_mult unat_word_ariths) (simp add: mod_simps mult.commute)

lemma val_shr: "val (long_shr a) = val a div 2"
proof -
  have "take_bit 128 (unat (wide a)) = unat (wide a)"
    by (rule take_bit_nat_eq_self) (use unsigned_less [of "wide a", where ?'a = nat] in simp)
  then show ?thesis unfolding wide_val [symmetric] wide_shr
    by (simp only: unsigned_drop_bit_eq) (simp add: drop_bit_eq_div)
qed

lemma long_le_val: "long_le a b \<longleftrightarrow> val a \<le> val b"
  using unsigned_less [of "lo128 a", where ?'a = nat] unsigned_less [of "lo128 b", where ?'a = nat]
  by (auto simp: long_le_def val_def word_le_nat_alt word_unat_eq_iff)

lemma unat_minus_nat: "unat (x - y) = (if unat y \<le> unat x then unat x - unat y else 2 ^ LENGTH('a) + unat x - unat y)" for x y :: "'a::len word"
  by (simp add: unat_sub_if' add.commute)

lemma unat_max64: "unat (- 1 :: u64) = 2 ^ 64 - 1"
  by (simp add: unsigned_minus_1_eq_mask mask_eq_exp_minus_1)

lemma unat_0: "unat w = 0 \<longleftrightarrow> w = 0" for w :: "'a::len word" by (simp add: unat_eq_0)

lemma minus_borrows: "x < x - y \<longleftrightarrow> x < (y :: 'a::len word)"
  using unsigned_less [of y, where ?'a = nat] unsigned_less [of x, where ?'a = nat] by (auto simp: word_less_nat_alt unat_minus_nat add.commute [of "2 ^ LENGTH('a)"] less_diff_conv)

lemma long_sub_val:
  assumes "hi128 b \<noteq> - 1" and s: "long_sub a b = (r, c)"
  shows "c \<longleftrightarrow> val a < val b" "\<not> c \<Longrightarrow> val r = val a - val b"
proof -
  let ?la = "unat (lo128 a)" and ?lb = "unat (lo128 b)" and ?ha = "unat (hi128 a)" and ?hb = "unat (hi128 b)"
  let ?c = "of_bool (lo128 a < lo128 b) :: u64"
  have bounds: "?la < 2 ^ 64" "?lb < 2 ^ 64" "?ha < 2 ^ 64" "?hb < 2 ^ 64"
    using unsigned_less [of "lo128 a", where ?'a = nat] unsigned_less [of "lo128 b", where ?'a = nat]
      unsigned_less [of "hi128 a", where ?'a = nat] unsigned_less [of "hi128 b", where ?'a = nat] by simp_all
  have "?hb \<noteq> 2 ^ 64 - 1" using assms(1) unat_max64 by (metis word_unat_eq_iff)
  then have hb: "unat (hi128 b + ?c) = ?hb + of_bool (?la < ?lb)" using bounds
    by (auto simp: unat_word_ariths word_less_nat_alt)
  have r: "r = \<lparr>lo128 = lo128 a - lo128 b, hi128 = hi128 a - (hi128 b + ?c)\<rparr>" "c \<longleftrightarrow> hi128 a < hi128 b + ?c"
    using s by (auto simp: long_sub_def Let_def minus_borrows)
  then have c: "c \<longleftrightarrow> ?ha < ?hb + of_bool (?la < ?lb)" using r(2) unfolding word_less_nat_alt hb [unfolded word_less_nat_alt] by simp
  then show "c \<longleftrightarrow> val a < val b" using bounds by (auto simp: val_def)
  assume "\<not> c"
  then show "val r = val a - val b" using c bounds by (auto simp: r(1) val_def unat_minus_nat hb)
qed

lemma long_neg_val: "val (long_neg a) = (2 ^ 128 - val a) mod 2 ^ 128"
proof -
  have l: "lo128 a - 1 > lo128 a \<longleftrightarrow> lo128 a = 0" using minus_borrows [of "lo128 a" 1] by (simp add: word_less_nat_alt unat_eq_0)
  have n: "unat (- w) = (if w = 0 then 0 else 2 ^ 64 - unat w)" "unat (NOT w) = 2 ^ 64 - 1 - unat w" for w :: u64
  proof -
    have "NOT w = - 1 - w" by (simp add: not_eq_complement)
    then show "unat (NOT w) = 2 ^ 64 - 1 - unat w"
      using unat_minus_nat [of "- 1" w] unsigned_less [of w, where ?'a = nat] by (simp add: unat_max64)
    show "unat (- w) = (if w = 0 then 0 else 2 ^ 64 - unat w)" using unat_minus_nat [of 0 w] by (simp add: unat_0)
  qed
  have m: "unat (hi128 a - 1) = (if hi128 a = 0 then 2 ^ 64 - 1 else unat (hi128 a) - 1)"
    using unat_minus_nat [of "hi128 a" 1] by (auto simp: unat_0 Suc_le_eq unat_gt_0)
  have h: "0 < unat (hi128 a)" if "hi128 a \<noteq> 0" using that by (simp add: unat_gt_0)
  have b: "unat (lo128 a) < 2 ^ 64" "unat (hi128 a) < 2 ^ 64"
    using unsigned_less [of "lo128 a", where ?'a = nat] unsigned_less [of "hi128 a", where ?'a = nat] by simp_all
  have v: "val (long_neg a) = (if lo128 a = 0 then if hi128 a = 0 then 0 else 2 ^ 64 * (2 ^ 64 - unat (hi128 a))
      else 2 ^ 64 * (2 ^ 64 - 1 - unat (hi128 a)) + (2 ^ 64 - unat (lo128 a)))"
    using b h by (auto simp: long_neg_def val_def Let_def l n m)
  show ?thesis
  proof (cases "val a = 0")
    case True
    then show ?thesis by (simp add: v) (simp add: val_def unat_0)
  next
    case False
    then have "(2 ^ 128 - val a) mod 2 ^ 128 = 2 ^ 128 - val a" using val_less [of a] by simp
    then show ?thesis using b h False by (simp add: v) (auto simp: val_def unat_0)
  qed
qed

section \<open>Division\<close>

lemma val_shl_inc: "val ((long_shl q)\<lparr>lo128 := lo128 (long_shl q) + 1\<rparr>) = 2 * val q mod 2 ^ 128 + 1"
proof -
  have "\<not> bit (lo128 (long_shl q)) 0" by (simp only: long_shl_def Let_def bit128.select_convs bit_push_bit_iff) simp
  moreover have "bit (- 1 :: u64) 0" by simp
  ultimately have "lo128 (long_shl q) \<noteq> - 1" by metis
  then have "unat (lo128 (long_shl q)) \<noteq> 2 ^ 64 - 1" using unat_max64 by (metis word_unat_eq_iff)
  then have "unat (lo128 (long_shl q) + 1) = unat (lo128 (long_shl q)) + 1"
    using unsigned_less [of "lo128 (long_shl q)", where ?'a = nat] by (simp add: unat_plus_if')
  then have "val ((long_shl q)\<lparr>lo128 := lo128 (long_shl q) + 1\<rparr>) = val (long_shl q) + 1" by (simp add: val_def)
  then show ?thesis by (simp only: val_shl)
qed

lemma twice_mod: "(2 * x mod m * y + k) mod m = (x * (2 * y) + k) mod m" for x y k m :: nat
proof -
  have "(2 * x mod m * y + k) mod m = (2 * x * y + k) mod m" by (metis mod_add_left_eq mod_mult_left_eq)
  then show ?thesis by (simp add: ac_simps)
qed

lemma twice_inc_mod: "((2 * x mod m + 1) * y + k) mod m = (x * (2 * y) + (y + k)) mod m" for x y k m :: nat
proof -
  have "((2 * x mod m + 1) * y + k) mod m = (2 * x mod m * y + (y + k)) mod m" by (simp add: algebra_simps)
  then show ?thesis by (simp only: twice_mod)
qed

lemma div_rounds_exact:
  assumes "val d = D * 2 ^ n" "val acc < D * 2 ^ n" "0 < D" "0 < n \<Longrightarrow> D * 2 ^ (n - 1) < (2 ^ 64 - 1) * 2 ^ 64"
    and "div_rounds n d acc q = (acc', q')"
  shows "val acc' = val acc mod D \<and> val q' = (val q * 2 ^ n + val acc div D) mod 2 ^ 128"
  using assms
proof (induction n arbitrary: d acc q)
  case 0
  then show ?case using val_less [of q] by simp
next
  case (Suc n)
  let ?d = "long_shr d" and ?q = "long_shl q"
  have d: "val ?d = D * 2 ^ n" using Suc.prems(1) by (simp add: val_shr)
  have "val ?d < (2 ^ 64 - 1) * 2 ^ 64" using Suc.prems(4) d by simp
  then have hi: "hi128 ?d \<noteq> - 1" by (auto simp: val_def unat_max64)
  have small: "0 < n \<Longrightarrow> D * 2 ^ (n - 1) < (2 ^ 64 - 1) * 2 ^ 64"
  proof -
    assume "0 < n"
    have "(2 :: nat) ^ (n - 1) \<le> 2 ^ n" by (rule power_increasing) simp_all
    then have "D * 2 ^ (n - 1) \<le> D * 2 ^ (Suc n - 1)" by simp
    also have "\<dots> < (2 ^ 64 - 1) * 2 ^ 64" by (rule Suc.prems(4)) simp
    finally show ?thesis .
  qed
  obtain r c where s: "long_sub acc ?d = (r, c)" by fastforce
  note sub = long_sub_val [OF hi s]
  show ?case
  proof (cases c)
    case True
    then have e: "div_rounds n ?d acc ?q = (acc', q')" using Suc.prems(5) s by (simp add: Let_def)
    have "val acc < D * 2 ^ n" using sub(1) True d by simp
    then have "val acc' = val acc mod D \<and> val q' = (val ?q * 2 ^ n + val acc div D) mod 2 ^ 128"
      by (rule Suc.IH [OF d _ Suc.prems(3) small e])
    moreover have "(val ?q * 2 ^ n + val acc div D) mod 2 ^ 128 = (val q * 2 ^ Suc n + val acc div D) mod 2 ^ 128"
      unfolding val_shl power_Suc by (rule twice_mod)
    ultimately show ?thesis by simp
  next
    case False
    let ?q1 = "?q\<lparr>lo128 := lo128 ?q + 1\<rparr>"
    have e: "div_rounds n ?d r ?q1 = (acc', q')" using Suc.prems(5) s False by (simp add: Let_def)
    have r: "val r = val acc - D * 2 ^ n" and ge: "D * 2 ^ n \<le> val acc" using sub False d by simp_all
    then have a: "val acc = val r + D * 2 ^ n" by simp
    have "val r < D * 2 ^ n" using r Suc.prems(2) ge by simp
    then have "val acc' = val r mod D \<and> val q' = (val ?q1 * 2 ^ n + val r div D) mod 2 ^ 128"
      by (rule Suc.IH [OF d _ Suc.prems(3) small e])
    moreover have "val acc mod D = val r mod D" "val acc div D = 2 ^ n + val r div D"
      using Suc.prems(3) by (simp_all add: a)
    moreover have "(val ?q1 * 2 ^ n + val r div D) mod 2 ^ 128 = (val q * 2 ^ Suc n + (2 ^ n + val r div D)) mod 2 ^ 128"
      unfolding val_shl_inc power_Suc by (rule twice_inc_mod)
    ultimately show ?thesis by simp
  qed
qed

lemma div_rounds_bits:
  assumes "div_rounds n d acc q = (acc', q')"
  shows "\<exists>r < 2 ^ n. val q' = (val q * 2 ^ n + r) mod 2 ^ 128"
  using assms
proof (induction n arbitrary: d acc q)
  case 0
  then show ?case using val_less [of q] by simp
next
  case (Suc n)
  let ?q = "long_shl q"
  let ?q1 = "?q\<lparr>lo128 := lo128 ?q + 1\<rparr>"
  obtain r c where s: "long_sub acc (long_shr d) = (r, c)" by fastforce
  show ?case
  proof (cases c)
    case True
    then have "div_rounds n (long_shr d) acc ?q = (acc', q')" using Suc.prems s by (simp add: Let_def)
    then obtain k where k: "k < 2 ^ n" "val q' = (val ?q * 2 ^ n + k) mod 2 ^ 128" using Suc.IH by blast
    have "val q' = (val q * 2 ^ Suc n + k) mod 2 ^ 128"
      unfolding k(2) val_shl power_Suc by (rule twice_mod)
    then show ?thesis using k(1) by (intro exI [of _ k]) simp
  next
    case False
    then have "div_rounds n (long_shr d) r ?q1 = (acc', q')" using Suc.prems s by (simp add: Let_def)
    then obtain k where k: "k < 2 ^ n" "val q' = (val ?q1 * 2 ^ n + k) mod 2 ^ 128" using Suc.IH by blast
    have "val q' = (val q * 2 ^ Suc n + (2 ^ n + k)) mod 2 ^ 128"
      unfolding k(2) val_shl_inc power_Suc by (rule twice_inc_mod)
    then show ?thesis using k(1) by (intro exI [of _ "2 ^ n + k"]) simp
  qed
qed

lemma div_grow_ends:
  assumes "div_grow d acc n = (d', n')" "n \<le> 128"
  shows "n \<le> n' \<and> n' \<le> 128 \<and> (n' = n \<longrightarrow> d' = d) \<and> (n < n' \<longrightarrow> val (long_shr d') \<le> val acc) \<and> (n' < 128 \<longrightarrow> val acc < val d')"
  using assms
proof (induction d acc n rule: div_grow.induct)
  case (1 d acc n)
  show ?case
  proof (cases "long_le d acc \<and> n < 128")
    case True
    then have e: "div_grow (long_shl d) acc (Suc n) = (d', n')" using "1.prems"(1) by (subst (asm) div_grow.simps) simp
    have ih: "Suc n \<le> n' \<and> n' \<le> 128 \<and> (n' = Suc n \<longrightarrow> d' = long_shl d) \<and>
        (Suc n < n' \<longrightarrow> val (long_shr d') \<le> val acc) \<and> (n' < 128 \<longrightarrow> val acc < val d')"
      using "1.IH" [OF True e] True by simp
    have "2 * val d mod 2 ^ 128 div 2 \<le> 2 * val d div 2" by (intro div_le_mono mod_less_eq_dividend)
    then have "val (long_shr (long_shl d)) \<le> val acc" using True unfolding val_shr val_shl long_le_val by linarith
    then show ?thesis using ih by (cases "n' = Suc n") auto
  next
    case False
    then have "(d', n') = (d, n)" using "1.prems"(1) by (subst (asm) div_grow.simps) auto
    then show ?thesis using False "1.prems"(2) by (auto simp: long_le_val)
  qed
qed

lemma div_grow_exact:
  assumes "div_grow d acc n = (d', n')" "val d = D * 2 ^ n"
    and "\<And>m. D * 2 ^ m \<le> val acc \<Longrightarrow> D * 2 ^ Suc m < 2 ^ 128"
  shows "val d' = D * 2 ^ n' \<and> (n < n' \<longrightarrow> D * 2 ^ (n' - 1) \<le> val acc)"
  using assms
proof (induction d acc n rule: div_grow.induct)
  case (1 d acc n)
  show ?case
  proof (cases "long_le d acc \<and> n < 128")
    case True
    then have e: "div_grow (long_shl d) acc (Suc n) = (d', n')" using "1.prems"(1) by (subst (asm) div_grow.simps) simp
    have le: "D * 2 ^ n \<le> val acc" using True "1.prems"(2) by (simp add: long_le_val)
    then have "D * 2 ^ Suc n < 2 ^ 128" by (rule "1.prems"(3))
    then have "val (long_shl d) = D * 2 ^ Suc n" using "1.prems"(2) by (simp add: val_shl ac_simps)
    then have ih: "val d' = D * 2 ^ n' \<and> (Suc n < n' \<longrightarrow> D * 2 ^ (n' - 1) \<le> val acc)"
      using "1.IH" [OF True e _ "1.prems"(3)] by blast
    have "n' = Suc n \<or> Suc n < n' \<or> n' \<le> n" by arith
    then show ?thesis using ih le by auto
  next
    case False
    then have "(d', n') = (d, n)" using "1.prems"(1) by (subst (asm) div_grow.simps) auto
    then show ?thesis using "1.prems"(2) by simp
  qed
qed

text \<open>The division is exact when the divisor can be shifted past the dividend.\<close>

lemma long_div_exact:
  assumes "divisor \<noteq> 0"
    and room: "\<And>m. unat divisor * 2 ^ m \<le> val a \<Longrightarrow> unat divisor * 2 ^ Suc m < 2 ^ 128 \<and> unat divisor * 2 ^ m < (2 ^ 64 - 1) * 2 ^ 64"
    and e: "long_div a divisor = (q, r)"
  shows "val q = val a div unat divisor \<and> unat r = val a mod unat divisor"
proof -
  let ?D = "unat divisor"
  let ?z = "\<lparr>lo128 = 0, hi128 = 0\<rparr> :: bit128"
  obtain d n where g: "div_grow \<lparr>lo128 = divisor, hi128 = 0\<rparr> a 0 = (d, n)" by fastforce
  obtain acc where w: "div_rounds n d a ?z = (acc, q)" and r: "r = lo128 acc"
    using e g by (auto simp: long_div_def Let_def split: prod.splits)
  have v: "val \<lparr>lo128 = divisor, hi128 = 0\<rparr> = ?D * 2 ^ 0" by (simp add: val_def)
  have pos: "0 < ?D" using assms(1) by (simp add: unat_gt_0)
  note ge = div_grow_exact [OF g v conjunct1 [OF room]] and gn = div_grow_ends [OF g]
  have "n < 128"
  proof (rule ccontr)
    assume "\<not> n < 128"
    then have "n = 128" using gn by simp
    then have "?D * 2 ^ 127 \<le> val a" using ge by simp
    then have "?D * 2 ^ 128 < 2 ^ 128" using room [of 127] by simp
    then show False using pos by simp
  qed
  then have "val a < ?D * 2 ^ n" using gn ge by simp
  moreover have "?D * 2 ^ (n - 1) < (2 ^ 64 - 1) * 2 ^ 64" if "0 < n" using ge that room by blast
  ultimately have x: "val acc = val a mod ?D \<and> val q = (val ?z * 2 ^ n + val a div ?D) mod 2 ^ 128"
    using div_rounds_exact [OF _ _ pos _ w] ge by blast
  have "val a div ?D < 2 ^ 128" using val_less [of a] by (meson div_le_dividend le_less_trans)
  then have "val q = val a div ?D" using x by (simp add: val_def)
  moreover have "unat (hi128 acc) = 0 \<and> unat (lo128 acc) = val acc"
  proof -
    have "val acc < ?D" using x pos by simp
    also have "?D < 2 ^ 64" using unsigned_less [of divisor, where ?'a = nat] by simp
    finally show ?thesis by (simp add: val_def)
  qed
  ultimately show ?thesis using x r by simp
qed

lemma long_div_fits:
  assumes "hi128 a < divisor" "long_div a divisor = (q, r)"
  shows "val q = val a div unat divisor \<and> unat r = val a mod unat divisor" "hi128 q = 0"
proof -
  let ?D = "unat divisor"
  have lt: "unat (hi128 a) < ?D" "?D < 2 ^ 64" "unat (lo128 a) < 2 ^ 64"
    using assms(1) unsigned_less [of divisor, where ?'a = nat] unsigned_less [of "lo128 a", where ?'a = nat] by (simp_all add: word_less_nat_alt)
  then have "2 ^ 64 * Suc (unat (hi128 a)) \<le> 2 ^ 64 * ?D" by (intro mult_le_mono2) simp
  then have a: "val a < ?D * 2 ^ 64" using lt by (simp add: val_def)
  have room: "?D * 2 ^ Suc m < 2 ^ 128 \<and> ?D * 2 ^ m < (2 ^ 64 - 1) * 2 ^ 64" if "?D * 2 ^ m \<le> val a" for m
  proof -
    have m: "m \<le> 63"
    proof (rule ccontr)
      assume "\<not> m \<le> 63"
      then have "(2 :: nat) ^ 64 \<le> 2 ^ m" by (intro power_increasing) simp_all
      then have "?D * 2 ^ 64 \<le> ?D * 2 ^ m" by (rule mult_le_mono2)
      then show False using that a by linarith
    qed
    have "?D * 2 ^ m \<le> (2 ^ 64 - 1) * 2 ^ 63" using m lt(2) by (intro mult_le_mono power_increasing) simp_all
    then show ?thesis by simp
  qed
  have "divisor \<noteq> 0" using assms(1) by auto
  then show v: "val q = val a div ?D \<and> unat r = val a mod ?D" by (rule long_div_exact [OF _ room assms(2)])
  have "val a div ?D < 2 ^ 64" using a by (simp add: less_mult_imp_div_less mult.commute)
  then have "unat (hi128 q) = 0" using v by (simp add: val_def)
  then show "hi128 q = 0" by (simp add: unat_0)
qed

lemma div_grow_long:
  assumes "div_grow d acc n = (d', n')" "n \<le> 65" "n \<le> 64 \<Longrightarrow> val d = D * 2 ^ n" "D * 2 ^ 64 \<le> val acc" "D < 2 ^ 64"
  shows "65 \<le> n'"
  using assms
proof (induction d acc n rule: div_grow.induct)
  case (1 d acc n)
  show ?case
  proof (cases "n = 65")
    case True
    then show ?thesis using div_grow_ends [OF "1.prems"(1)] by simp
  next
    case False
    then have n: "n \<le> 64" using "1.prems"(2) by simp
    then have "(2 :: nat) ^ n \<le> 2 ^ 64" by (intro power_increasing) simp_all
    then have "D * 2 ^ n \<le> D * 2 ^ 64" by (rule mult_le_mono2)
    then have "D * 2 ^ n \<le> val acc" using "1.prems"(4) by (rule le_trans)
    then have c: "long_le d acc \<and> n < 128" using "1.prems"(3) [OF n] n by (simp add: long_le_val)
    then have e: "div_grow (long_shl d) acc (Suc n) = (d', n')" using "1.prems"(1) by (subst (asm) div_grow.simps) simp
    have "val (long_shl d) = D * 2 ^ Suc n" if "Suc n \<le> 64"
    proof -
      have "(2 :: nat) ^ Suc n \<le> 2 ^ 64" using that by (intro power_increasing) simp_all
      then have "D * 2 ^ Suc n \<le> D * 2 ^ 64" by (rule mult_le_mono2)
      also have "\<dots> < 2 ^ 128" using "1.prems"(5) by simp
      finally show ?thesis using "1.prems"(3) [OF n] by (simp add: val_shl ac_simps)
    qed
    then show ?thesis using "1.IH" [OF c e _ _ "1.prems"(4,5)] n by simp
  qed
qed

lemma long_div_overflows:
  assumes "divisor \<le> hi128 a" "divisor \<noteq> 0" "long_div a divisor = (q, r)"
  shows "hi128 q \<noteq> 0"
proof -
  let ?D = "unat divisor"
  let ?z = "\<lparr>lo128 = 0, hi128 = 0\<rparr> :: bit128"
  obtain d n where g: "div_grow \<lparr>lo128 = divisor, hi128 = 0\<rparr> a 0 = (d, n)" by fastforce
  obtain acc where w: "div_rounds n d a ?z = (acc, q)"
    using assms(3) g by (auto simp: long_div_def Let_def split: prod.splits)
  have "?D * 2 ^ 64 \<le> val a" using assms(1) by (simp add: val_def word_le_nat_alt)
  then have n: "65 \<le> n" using div_grow_long [OF g, of ?D] unsigned_less [of divisor, where ?'a = nat] by (simp add: val_def)
  then obtain k where k: "n = Suc k" "64 \<le> k" by (cases n) auto
  have "n \<le> 128" "val (long_shr d) \<le> val a" using div_grow_ends [OF g] n by simp_all
  moreover obtain x c where s: "long_sub a (long_shr d) = (x, c)" by fastforce
  moreover have "hi128 (long_shr d) \<noteq> - 1"
  proof -
    have "\<not> bit (hi128 (long_shr d)) 63"
      by (simp only: long_shr_def Let_def bit128.select_convs bit_drop_bit_eq) (auto dest: bit_imp_le_length)
    moreover have "bit (- 1 :: u64) 63" by (simp add: bit_simps)
    ultimately show ?thesis by metis
  qed
  ultimately have "\<not> c" using long_sub_val(1) by fastforce
  then have "div_rounds k (long_shr d) x ((long_shl ?z)\<lparr>lo128 := lo128 (long_shl ?z) + 1\<rparr>) = (acc, q)"
    using w s k(1) by (simp add: Let_def)
  then obtain j where j: "j < 2 ^ k" "val q = (2 ^ k + j) mod 2 ^ 128"
    using div_rounds_bits by (fastforce simp: val_shl_inc val_def [of ?z])
  have "(2 :: nat) ^ k \<le> 2 ^ 127" using \<open>n \<le> 128\<close> k by (intro power_increasing) simp_all
  then have "val q = 2 ^ k + j" using j by simp
  moreover have "(2 :: nat) ^ 64 \<le> 2 ^ k" using k by (intro power_increasing) simp_all
  moreover have "unat (lo128 q) < 2 ^ 64" using unsigned_less [of "lo128 q", where ?'a = nat] by simp
  ultimately have "unat (hi128 q) \<noteq> 0" by (auto simp: val_def)
  then show ?thesis by auto
qed

section \<open>Multiplication\<close>

fun digits :: "u32 list \<Rightarrow> nat" where
  "digits [] = 0"
| "digits (r # rs) = unat r + 2 ^ 32 * digits rs"

lemma digits_less: "digits rs < 2 ^ (32 * length rs)"
proof (induction rs)
  case (Cons r rs)
  have "unat r < 2 ^ 32" using unsigned_less [of r, where ?'a = nat] by simp
  moreover have "2 ^ 32 * Suc (digits rs) \<le> 2 ^ 32 * 2 ^ (32 * length rs)" using Cons by (intro mult_le_mono2) simp
  ultimately show ?case by (simp add: power_add)
qed simp

lemma digits_update: "k < length rs \<Longrightarrow> digits (rs[k := r]) + 2 ^ (32 * k) * unat (rs ! k) = digits rs + 2 ^ (32 * k) * unat r"
proof (induction rs arbitrary: k)
  case (Cons a rs)
  show ?case
  proof (cases k)
    case (Suc n)
    then have "2 ^ 32 * (digits (rs[n := r]) + 2 ^ (32 * n) * unat (rs ! n)) = 2 ^ 32 * (digits rs + 2 ^ (32 * n) * unat r)"
      using Cons by simp
    moreover have "2 ^ (32 * Suc n) = 2 ^ 32 * (2 :: nat) ^ (32 * n)" by (simp add: power_add)
    ultimately show ?thesis using Suc by (simp add: distrib_left mult.assoc)
  qed simp
qed simp

lemma partial_add_unat: "partial_add a b = (r, c) \<Longrightarrow> unat r + 2 ^ 32 * unat c = unat a + unat b"
  using unsigned_less [of a, where ?'a = nat] unsigned_less [of b, where ?'a = nat]
  by (auto simp: partial_add_def Let_def word_less_nat_alt unat_plus_if')

lemma digits_add:
  assumes "partial_add (rs ! k) b = (r, c)" "k < length rs"
  shows "digits (rs[k := r]) + 2 ^ (32 * Suc k) * unat c = digits rs + 2 ^ (32 * k) * unat b"
proof -
  have "2 ^ (32 * k) * (unat r + 2 ^ 32 * unat c) = 2 ^ (32 * k) * (unat (rs ! k) + unat b)"
    using partial_add_unat [OF assms(1)] by simp
  then show ?thesis using digits_update [OF assms(2), of r] by (simp add: power_add algebra_simps)
qed

lemma length_carry_loop [simp]: "length (carry_loop rs k c) = length rs"
  by (induction rs k c rule: carry_loop.induct) (subst carry_loop.simps, auto split: prod.split)

lemma carry_loop_digits:
  "length rs = 4 \<Longrightarrow> k \<le> 4 \<Longrightarrow> digits (carry_loop rs k c) mod 2 ^ 128 = (digits rs + 2 ^ (32 * k) * unat c) mod 2 ^ 128"
proof (induction rs k c rule: carry_loop.induct)
  case (1 rs k c)
  show ?case
  proof (cases "k < 4 \<and> c \<noteq> 0")
    case True
    obtain r d where a: "partial_add (rs ! k) c = (r, d)" by fastforce
    have "carry_loop rs k c = carry_loop (rs[k := r]) (Suc k) d" using True by (subst carry_loop.simps) (simp add: a)
    moreover have "digits (carry_loop (rs[k := r]) (Suc k) d) mod 2 ^ 128 = (digits (rs[k := r]) + 2 ^ (32 * Suc k) * unat d) mod 2 ^ 128"
      using True "1.prems" by (intro "1.IH" [OF _ a [symmetric]]) auto
    ultimately show ?thesis using digits_add [OF a] True "1.prems" by simp
  next
    case False
    then have "carry_loop rs k c = rs" by (subst carry_loop.simps) auto
    moreover have "k = 4 \<or> c = 0" using False "1.prems" by simp
    ultimately show ?thesis by auto
  qed
qed

lemma mul_digit_digits:
  assumes "length rs = 4" "i < 2" "j < 2"
  shows "digits (mul_digit a b i j rs) mod 2 ^ 128 = (digits rs + 2 ^ (32 * (i + j)) * (unat (a ! i) * unat (b ! j))) mod 2 ^ 128"
    and "length (mul_digit a b i j rs) = 4"
proof -
  let ?nn = "ucast (a ! i) * ucast (b ! j) :: u64"
  obtain r1 c1 where p: "partial_add (rs ! (i + j)) (ucast (?nn AND 0xffffffff)) = (r1, c1)" by fastforce
  let ?rs1 = "rs[i + j := r1]"
  obtain r2 c2 where q: "partial_add (?rs1 ! Suc (i + j)) (ucast (drop_bit 32 ?nn) + c1) = (r2, c2)" by fastforce
  have e: "mul_digit a b i j rs = carry_loop (?rs1[Suc (i + j) := r2]) (Suc (Suc (i + j))) c2"
    using p q by (simp add: mul_digit_def Let_def)
  show "length (mul_digit a b i j rs) = 4" using assms(1) by (simp add: e)
  have ab: "unat (a ! i) < 2 ^ 32" "unat (b ! j) < 2 ^ 32"
    using unsigned_less [of "a ! i", where ?'a = nat] unsigned_less [of "b ! j", where ?'a = nat] by simp_all
  have "unat (a ! i) * unat (b ! j) \<le> (2 ^ 32 - 1) * (2 ^ 32 - 1)" using ab by (intro mult_le_mono) simp_all
  moreover have "take_bit 64 (unat (a ! i)) = unat (a ! i)" "take_bit 64 (unat (b ! j)) = unat (b ! j)"
    using ab by (simp_all add: take_bit_nat_eq_self)
  ultimately have nn: "unat ?nn = unat (a ! i) * unat (b ! j)" and top: "unat ?nn div 2 ^ 32 \<le> 2 ^ 32 - 2"
    by (simp_all add: unat_word_ariths unsigned_ucast_eq take_bit_nat_eq_self)
  have lo: "unat (ucast (?nn AND 0xffffffff) :: u32) = unat ?nn mod 2 ^ 32"
  proof -
    have "?nn AND 0xffffffff = take_bit 32 ?nn" by (simp add: take_bit_eq_mask mask_eq_exp_minus_1)
    then show ?thesis by (simp only: unsigned_ucast_eq unsigned_take_bit_eq) (simp add: take_bit_eq_mod)
  qed
  have "unat (ucast (drop_bit 32 ?nn) :: u32) = unat ?nn div 2 ^ 32"
    using top by (simp only: unsigned_ucast_eq unsigned_drop_bit_eq) (simp add: drop_bit_eq_div take_bit_nat_eq_self)
  moreover have "unat c1 \<le> 1" using p by (auto simp: partial_add_def Let_def)
  ultimately have hi: "unat (ucast (drop_bit 32 ?nn) + c1) = unat ?nn div 2 ^ 32 + unat c1"
    using top by (simp add: unat_plus_if')
  have 1: "digits ?rs1 + 2 ^ (32 * Suc (i + j)) * unat c1 = digits rs + 2 ^ (32 * (i + j)) * (unat ?nn mod 2 ^ 32)"
    using digits_add [OF p] assms by (simp add: lo)
  have 2: "digits (?rs1[Suc (i + j) := r2]) + 2 ^ (32 * Suc (Suc (i + j))) * unat c2 =
      digits ?rs1 + 2 ^ (32 * Suc (i + j)) * (unat ?nn div 2 ^ 32 + unat c1)"
    using digits_add [OF q] assms by (simp add: hi)
  have "2 ^ (32 * Suc (i + j)) * (unat ?nn div 2 ^ 32) + 2 ^ (32 * (i + j)) * (unat ?nn mod 2 ^ 32) = 2 ^ (32 * (i + j)) * unat ?nn"
  proof -
    have "2 ^ (32 * Suc (i + j)) * x = 2 ^ (32 * (i + j)) * (2 ^ 32 * x)" for x :: nat by (simp add: power_add)
    then show ?thesis by (metis add_mult_distrib2 mult_div_mod_eq)
  qed
  then have "digits (?rs1[Suc (i + j) := r2]) + 2 ^ (32 * Suc (Suc (i + j))) * unat c2 = digits rs + 2 ^ (32 * (i + j)) * unat ?nn"
    using 1 2 by (simp add: distrib_left)
  then show "digits (mul_digit a b i j rs) mod 2 ^ 128 = (digits rs + 2 ^ (32 * (i + j)) * (unat (a ! i) * unat (b ! j))) mod 2 ^ 128"
    unfolding e nn [symmetric] using assms by (subst carry_loop_digits) simp_all
qed

lemma digits_split: "digits [ucast (a AND 0xffffffff), ucast (drop_bit 32 a)] = unat (a :: u64)"
proof -
  have "a AND 0xffffffff = take_bit 32 a" by (simp add: take_bit_eq_mask mask_eq_exp_minus_1)
  then have l: "unat (ucast (a AND 0xffffffff) :: u32) = unat a mod 2 ^ 32"
    by (simp only: unsigned_ucast_eq unsigned_take_bit_eq) (simp add: take_bit_eq_mod)
  have a: "unat a < 2 ^ 64" using unsigned_less [of a, where ?'a = nat] by simp
  then have "unat a div 2 ^ 32 < 2 ^ 32" by (simp add: less_mult_imp_div_less)
  moreover have "take_bit 64 (unat a) = unat a" using a by (simp add: take_bit_nat_eq_self)
  ultimately have h: "unat (ucast (drop_bit 32 a) :: u32) = unat a div 2 ^ 32"
    by (simp only: unsigned_ucast_eq unsigned_drop_bit_eq) (simp add: drop_bit_eq_div take_bit_nat_eq_self)
  show ?thesis unfolding digits.simps l h by simp
qed

lemma two_digits: "unat (ucast a + push_bit 32 (ucast b) :: u64) = unat a + 2 ^ 32 * unat b" for a b :: u32
proof -
  have l: "unat a < 2 ^ 32" "unat b < 2 ^ 32"
    using unsigned_less [of a, where ?'a = nat] unsigned_less [of b, where ?'a = nat] by simp_all
  then have "unat a + 2 ^ 32 * unat b < 2 ^ 64" by simp
  moreover have "take_bit 64 (unat a) = unat a" "take_bit 64 (unat b) = unat b" using l by (simp_all add: take_bit_nat_eq_self)
  ultimately show ?thesis by (simp add: push_bit_eq_mult unat_word_ariths unsigned_ucast_eq mod_simps mult.commute)
qed

lemma long_mul_val: "val (long_mul a b) = unat a * unat b"
proof -
  let ?a = "[ucast (a AND 0xffffffff), ucast (drop_bit 32 a)] :: u32 list"
  let ?b = "[ucast (b AND 0xffffffff), ucast (drop_bit 32 b)] :: u32 list"
  define r where "r = fold (\<lambda>i. fold (\<lambda>j. mul_digit ?a ?b i j) [0..<2]) [0..<2] [0, 0, 0, 0 :: u32]"
  let ?m = "mul_digit ?a ?b"
  have l: "[0..<2] = [0, 1 :: nat]" by (simp add: upt_rec)
  have r: "r = ?m 1 1 (?m 1 0 (?m 0 1 (?m 0 0 [0, 0, 0, 0])))" unfolding r_def l by simp
  note d = mul_digit_digits
  have len: "length r = 4" unfolding r by (rule d(2))+ simp_all
  define x where "x i j = 2 ^ (32 * (i + j)) * (unat (?a ! i) * unat (?b ! j))" for i j
  have step: "digits rs mod 2 ^ 128 = y mod 2 ^ 128 \<Longrightarrow> length rs = 4 \<Longrightarrow> i < 2 \<Longrightarrow> j < 2 \<Longrightarrow>
      digits (?m i j rs) mod 2 ^ 128 = (y + x i j) mod 2 ^ 128" for rs y i j
    using d(1) [of rs i j ?a ?b] mod_add_cong [of "digits rs" "2 ^ 128" y "x i j" "x i j"] unfolding x_def by (simp only:)
  have len0: "length [0, 0, 0, 0 :: u32] = 4" and idx: "(0 :: nat) < 2" "(1 :: nat) < 2" by simp_all
  note l1 = d(2) [OF len0 idx(1) idx(1), of ?a ?b]
  note l2 = d(2) [OF l1 idx(1) idx(2), of ?a ?b]
  note l3 = d(2) [OF l2 idx(2) idx(1), of ?a ?b]
  have zero: "digits [0, 0, 0, 0] mod 2 ^ 128 = 0 mod 2 ^ 128" by simp
  note s1 = step [OF zero len0 idx(1) idx(1)]
  note s2 = step [OF s1 l1 idx(1) idx(2)]
  note s3 = step [OF s2 l2 idx(2) idx(1)]
  have "digits r mod 2 ^ 128 = (0 + x 0 0 + x 0 1 + x 1 0 + x 1 1) mod 2 ^ 128"
    unfolding r by (rule step [OF s3 l3 idx(2) idx(2)])
  moreover have "0 + x 0 0 + x 0 1 + x 1 0 + x 1 1 = digits ?a * digits ?b" by (simp add: x_def algebra_simps)
  moreover have "unat a * unat b < 2 ^ 128"
  proof -
    have "unat a \<le> 2 ^ 64 - 1" "unat b \<le> 2 ^ 64 - 1"
      using unsigned_less [of a, where ?'a = nat] unsigned_less [of b, where ?'a = nat] by simp_all
    then have "unat a * unat b \<le> (2 ^ 64 - 1) * (2 ^ 64 - 1)" by (rule mult_le_mono)
    then show ?thesis by simp
  qed
  moreover have "digits r < 2 ^ 128" using digits_less [of r] len by simp
  ultimately have dr: "digits r = unat a * unat b" unfolding digits_split by simp
  obtain r0 r1 r2 r3 where rs: "r = [r0, r1, r2, r3]" using len by (auto simp: length_Suc_conv numeral_eq_Suc)
  have "long_mul a b = \<lparr>lo128 = ucast (r ! 0) + push_bit 32 (ucast (r ! 1)), hi128 = ucast (r ! 2) + push_bit 32 (ucast (r ! 3))\<rparr>"
    by (simp only: long_mul_def Let_def r_def)
  then have "val (long_mul a b) = digits r" by (simp add: rs val_def two_digits)
  then show ?thesis by (simp only: dr)
qed

lemma wide_eq: "wide a = word_of_nat (val a)"
  by (simp add: wide_val [symmetric])

lemma wide_mul: "wide (long_mul a b) = ucast a * ucast b"
proof -
  have "word_of_nat (unat a) = (ucast a :: 128 word)" "word_of_nat (unat b) = (ucast b :: 128 word)" by simp_all
  then show ?thesis by (simp add: wide_eq long_mul_val)
qed

lemma wide_neg: "wide (long_neg a) = - wide a"
proof -
  have "unat (- wide a) = unat (wide (long_neg a))"
    unfolding wide_val long_neg_val using unat_minus_nat [of 0 "wide a"] val_less [of a] by (auto simp: wide_val)
  then show ?thesis by (simp add: word_unat_eq_iff)
qed

end
