(* ===== verification/Cpu_Mult64_Spec.thy ===== *)
theory Cpu_Mult64_Spec
  imports Cpu_Wide "HOL-Library.Signed_Division"
begin

text \<open>
  What multiplication and division of 64 bits do (\<^verbatim>\<open>src/sim/bochs/cpu/mult64.cc\<close>): the product and the quotient are
  those of the numbers, and the faults and the flags are raised exactly when the result does not fit.
\<close>

unbundle bit_operations_syntax

section \<open>Signed values\<close>

lemma uint_signed: "uint w = (if sint w < 0 then sint w + 2 ^ LENGTH('a) else sint w)" for w :: "'a::len word"
proof -
  let ?n = "LENGTH('a)"
  have two: "(2 :: int) ^ ?n = 2 * 2 ^ (?n - 1)" by (cases ?n) simp_all
  have b: "- (2 ^ (?n - 1)) \<le> sint w" "sint w < 2 ^ (?n - 1)" using sint_ge [of w] sint_lt [of w] by simp_all
  have "uint w = sint w mod 2 ^ ?n" by (simp add: uint_sint take_bit_eq_mod)
  also have "\<dots> = (if sint w < 0 then sint w + 2 ^ ?n else sint w)"
  proof (cases "sint w < 0")
    case True
    then have "sint w mod 2 ^ ?n = (sint w + 2 ^ ?n) mod 2 ^ ?n" by simp
    also have "\<dots> = sint w + 2 ^ ?n" by (rule mod_pos_pos_trivial) (use b two True in linarith)+
    finally show ?thesis using True by simp
  next
    case False
    then show ?thesis using b two by (simp add: mod_pos_pos_trivial)
  qed
  finally show ?thesis .
qed

lemma abs_unat: "int (unat (if w <s 0 then - w else w)) = \<bar>sint w\<bar>" for w :: "'a::len word"
proof (cases "sint w < 0")
  case True
  then have "w \<noteq> 0" by auto
  then have "unat (- w) = 2 ^ LENGTH('a) - unat w" using unat_minus_nat [of 0 w] by (simp add: unat_0)
  moreover have "unat w \<le> 2 ^ LENGTH('a)" by (rule less_imp_le, rule unsigned_less)
  ultimately have "int (unat (- w)) = 2 ^ LENGTH('a) - int (unat w)" by (simp add: of_nat_diff)
  then show ?thesis using True uint_signed [of w] by (simp add: word_sless_alt)
next
  case False
  then show ?thesis using uint_signed [of w] by (simp add: word_sless_alt)
qed

lemma word_of_sint: "word_of_int (sint w) = (scast w :: 'b::len word)" for w :: "'a::len word"
  by simp

lemma ucast_abs: "(ucast (if w <s 0 then - w else w) :: 128 word) = (if w <s 0 then - scast w else scast w)" for w :: u64
proof -
  have "(ucast x :: 128 word) = word_of_int (int (unat x))" for x :: u64 by simp
  then have "(ucast (if w <s 0 then - w else w) :: 128 word) = word_of_int \<bar>sint w\<bar>" by (simp only: abs_unat)
  also have "\<dots> = (if sint w < 0 then - word_of_int (sint w) else word_of_int (sint w))" by simp
  also have "\<dots> = (if w <s 0 then - scast w else scast w)" by (simp add: word_sless_alt)
  finally show ?thesis .
qed

lemma wide_imul: "wide (long_imul a b) = scast a * scast b"
proof -
  have "long_imul a b = (if (a <s 0) \<noteq> (b <s 0) then long_neg (long_mul (if a <s 0 then - a else a) (if b <s 0 then - b else b))
      else long_mul (if a <s 0 then - a else a) (if b <s 0 then - b else b))"
    by (simp only: long_imul_def Let_def)
  then show ?thesis by (simp only: wide_mul wide_neg ucast_abs if_distrib [of wide]) (auto simp: word_sless_alt)
qed

lemma sint_small: "- (2 ^ (LENGTH('a) - 1)) \<le> k \<Longrightarrow> k < 2 ^ (LENGTH('a) - 1) \<Longrightarrow> sint (word_of_int k :: 'a::len word) = k"
  by (simp add: sint_sbintrunc' signed_take_bit_int_eq_self)

lemma sint_range64: "- (2 ^ 63) \<le> sint (w :: u64)" "sint (w :: u64) < 2 ^ 63"
  using sint_ge [of w] sint_lt [of w] by simp_all

lemma sint_range128: "- (2 ^ 127) \<le> sint (w :: 128 word)" "sint (w :: 128 word) < 2 ^ 127"
  using sint_ge [of w] sint_lt [of w] by simp_all

lemma long_imul_product: "sint (wide (long_imul a b)) = sint a * sint b"
proof -
  have "\<bar>sint a\<bar> * \<bar>sint b\<bar> \<le> 2 ^ 63 * 2 ^ 63" using sint_range64 [of a] sint_range64 [of b] by (intro mult_mono) simp_all
  then have "\<bar>sint a * sint b\<bar> \<le> 2 ^ 126" by (simp add: abs_mult)
  then have "sint (word_of_int (sint a * sint b) :: 128 word) = sint a * sint b" by (intro sint_small) simp_all
  then show ?thesis by (simp add: wide_imul)
qed

lemma wide_negative: "hi128 a <s 0 \<longleftrightarrow> sint (wide a) < 0"
proof -
  have "sint (hi128 a) < 0 \<longleftrightarrow> bit (hi128 a) 63" using bit_last_iff [of "hi128 a"] by simp
  moreover have "sint (wide a) < 0 \<longleftrightarrow> bit (wide a) 127" using bit_last_iff [of "wide a"] by simp
  ultimately show ?thesis by (simp add: word_sless_alt bit_wide)
qed

lemma wide_sign: "sint (hi128 a) < 0 \<longleftrightarrow> sint (wide a) < 0"
  using wide_negative [of a] by (simp add: word_sless_alt)

lemma ucast_wide: "ucast (wide a) = lo128 a"
  by (rule bit_word_eqI) (simp add: bit_unsigned_iff bit_wide)

lemma sint_wide: "sint (wide a) = 2 ^ 64 * sint (hi128 a) + uint (lo128 a)"
proof -
  have "int (unat (wide a)) = 2 ^ 64 * int (unat (hi128 a)) + int (unat (lo128 a))" by (simp only: wide_val val_def) simp
  then have "uint (wide a) = 2 ^ 64 * uint (hi128 a) + uint (lo128 a)" by simp
  then show ?thesis using wide_negative [of a] unfolding uint_signed [of "wide a"] uint_signed [of "hi128 a"] word_sless_alt
    by (auto split: if_splits)
qed

text \<open>The test of the multiplication: the product is more than its low half.\<close>

lemma far_from_zero:
  fixes L H :: int
  assumes "0 \<le> L" "L < 2 ^ 64"
  shows "(\<not> (if L < 2 ^ 63 then H = 0 else H = - 1)) \<longleftrightarrow> 2 ^ 64 * H + L < - (2 ^ 63) \<or> 2 ^ 63 \<le> 2 ^ 64 * H + L"
proof -
  consider "H = 0" | "H = - 1" | "1 \<le> H" | "H \<le> - 2" by linarith
  then show ?thesis using assms by cases auto
qed

lemma imul_overflow_iff: "imul_overflow p \<longleftrightarrow> sint (wide p) < - (2 ^ 63) \<or> 2 ^ 63 \<le> sint (wide p)"
proof -
  let ?L = "uint (lo128 p)" and ?H = "sint (hi128 p)"
  have L: "0 \<le> ?L" "?L < 2 ^ 64" using unsigned_less [of "lo128 p", where ?'a = int] by simp_all
  have l: "unat (lo128 p) < 2 ^ 64" using unsigned_less [of "lo128 p", where ?'a = nat] by simp
  have ul: "unat (lo128 p) < 9223372036854775808 \<longleftrightarrow> ?L < 9223372036854775808"
    using of_nat_less_iff [where ?'a = int, of "unat (lo128 p)" 9223372036854775808] by simp
  have "unat (drop_bit 63 (lo128 p)) = unat (lo128 p) div 2 ^ 63"
    using l by (simp only: unsigned_drop_bit_eq) (simp add: drop_bit_eq_div take_bit_nat_eq_self)
  also have "\<dots> = (if unat (lo128 p) < 2 ^ 63 then 0 else 1)" using l by (auto simp: div_nat_eqI)
  finally have d: "drop_bit 63 (lo128 p) = (if unat (lo128 p) < 2 ^ 63 then 0 else 1)" by (auto simp: word_unat_eq_iff)
  have s: "hi128 p = w \<longleftrightarrow> ?H = sint w" for w by (metis word_of_sint scast_id)
  have "hi128 p + 1 = 0 \<longleftrightarrow> hi128 p = - 1" by (simp add: eq_neg_iff_add_eq_0)
  then have "imul_overflow p \<longleftrightarrow> \<not> (if ?L < 2 ^ 63 then ?H = 0 else ?H = - 1)"
    using s [of 0] s [of "- 1"] by (simp add: imul_overflow_def d ul)
  also have "\<dots> \<longleftrightarrow> 2 ^ 64 * ?H + ?L < - (2 ^ 63) \<or> 2 ^ 63 \<le> 2 ^ 64 * ?H + ?L" by (rule far_from_zero [OF L])
  finally show ?thesis unfolding sint_wide .
qed

text \<open>Signed division: the quotient is truncated; the remainder has the sign of the divisor.\<close>

lemma abs_wide: "int (val (if hi128 a <s 0 then long_neg a else a)) = \<bar>sint (wide a)\<bar>"
proof -
  have "wide (if hi128 a <s 0 then long_neg a else a) = (if wide a <s 0 then - wide a else wide a)"
    by (simp add: wide_neg wide_sign word_sless_alt)
  then have "val (if hi128 a <s 0 then long_neg a else a) = unat (if wide a <s 0 then - wide a else wide a)"
    by (simp only: wide_val [symmetric])
  then show ?thesis by (simp only: abs_unat)
qed

lemma wide_of_int: "wide q = word_of_int (int (val q))"
  by (simp add: wide_eq)

lemma signed_small:
  assumes "0 \<le> x" "x < 2 ^ 63"
  shows "sint (word_of_int ((if b then - 1 else 1) * x) :: u64) = (if b then - 1 else 1) * x"
  by (rule sint_small) (use assms in \<open>cases b; simp\<close>)+

lemma long_idiv_signed:
  assumes "d \<noteq> 0" "sint (wide a) \<noteq> - (2 ^ 127)" and e: "long_idiv a d = (q, r)"
  shows "sint (wide q) = sint (wide a) sdiv sint d \<and> sint r = (if sint d < 0 then - 1 else 1) * (\<bar>sint (wide a)\<bar> mod \<bar>sint d\<bar>)"
proof -
  let ?A = "\<bar>sint (wide a)\<bar>" and ?D = "\<bar>sint d\<bar>"
  let ?a = "if hi128 a <s 0 then long_neg a else a" and ?d = "if d <s 0 then - d else d"
  obtain q0 r0 where l: "long_div ?a ?d = (q0, r0)" by fastforce
  have q: "q = (if (hi128 a <s 0) \<noteq> (d <s 0) then long_neg q0 else q0)" and r: "r = (if d <s 0 then - r0 else r0)"
    using e by (simp_all only: long_idiv_def Let_def l prod.case prod.inject)
  have A: "?A < 2 ^ 127" using sint_range128 [of "wide a"] assms(2) by linarith
  have D: "?D \<le> 2 ^ 63" "0 < ?D"
  proof -
    show "?D \<le> 2 ^ 63" using sint_range64 [of d] by linarith
    have "sint d \<noteq> 0" using assms(1) by (metis signed_0 word_of_sint scast_id)
    then show "0 < ?D" by simp
  qed
  have nat: "val ?a = nat ?A" "unat ?d = nat ?D" using abs_wide [of a] abs_unat [of d] by linarith+
  have room: "unat ?d * 2 ^ Suc m < 2 ^ 128 \<and> unat ?d * 2 ^ m < (2 ^ 64 - 1) * 2 ^ 64" if "unat ?d * 2 ^ m \<le> val ?a" for m
  proof -
    define x y where "x = unat ?d * 2 ^ m" and "y = val ?a"
    have "y < 2 ^ 127" unfolding y_def nat using A by (simp add: nat_less_iff)
    moreover have "x \<le> y" using that by (simp only: x_def y_def)
    ultimately have "2 * x < 2 ^ 128" "x < (2 ^ 64 - 1) * 2 ^ 64" by simp_all
    moreover have "unat ?d * 2 ^ Suc m = 2 * x" by (simp only: x_def power_Suc mult.left_commute)
    ultimately show ?thesis by (simp only: x_def)
  qed
  have "?d \<noteq> 0" using assms(1) by simp
  note x = long_div_exact [OF this room l]
  have vq: "int (val q0) = ?A div ?D" "int (unat r0) = ?A mod ?D"
    using x by (simp_all only: nat) (simp_all add: zdiv_int zmod_int)
  have "?A div ?D \<le> ?A" using zdiv_mono2 [of ?A 1 ?D] D(2) by simp
  then have Q: "0 \<le> ?A div ?D" "?A div ?D < 2 ^ 127" using A D by (simp_all add: pos_imp_zdiv_nonneg_iff)
  have sq: "sint (wide q) = (if (sint (wide a) < 0) \<noteq> (sint d < 0) then - (?A div ?D) else ?A div ?D)"
  proof -
    have "wide q = word_of_int (if (sint (wide a) < 0) \<noteq> (sint d < 0) then - (?A div ?D) else ?A div ?D)"
    proof -
      have "wide q = (if (sint (wide a) < 0) \<noteq> (sint d < 0) then - wide q0 else wide q0)"
        by (simp add: q wide_neg wide_sign word_sless_alt)
      moreover have "wide q0 = word_of_int (?A div ?D)" by (simp only: wide_of_int vq(1))
      ultimately show ?thesis by simp
    qed
    then show ?thesis using Q by (simp add: sint_small)
  qed
  also have "\<dots> = sint (wide a) sdiv sint d"
    using D(2) by (auto simp: signed_divide_int_def sgn_if)
  finally have 1: "sint (wide q) = sint (wide a) sdiv sint d" .
  have R: "0 \<le> ?A mod ?D" "?A mod ?D < 2 ^ 63"
    by (rule pos_mod_sign [OF D(2)]) (rule less_le_trans [OF pos_mod_bound [OF D(2)] D(1)])
  have w: "r = word_of_int ((if sint d < 0 then - 1 else 1) * (?A mod ?D))"
  proof -
    have "r0 = word_of_int (?A mod ?D)" unfolding vq(2) [symmetric] by simp
    then show ?thesis by (simp add: r word_sless_alt)
  qed
  have "sint r = (if sint d < 0 then - 1 else 1) * (?A mod ?D)"
    unfolding w by (rule signed_small [OF R])
  then show ?thesis using 1 by blast
qed

section \<open>The instructions\<close>

text \<open>The number in RDX:RAX.\<close>

definition RDX_RAX :: "cpu \<Rightarrow> nat" where "RDX_RAX s = 2 ^ 64 * unat (RDX s) + unat (RAX s)"

lemma narrow: "hi128 q = 0 \<Longrightarrow> val q = n \<Longrightarrow> lo128 q = word_of_nat n"
  by (auto simp: val_def)

text \<open>Unsigned division: the error exactly when the quotient is too long.\<close>

lemma div64_is_division:
  "DIV_RAXEqR i s =
     (let a = RDX_RAX s; d = unat (BX_READ_64BIT_REG (i_rm i) s) in
      if d = 0 \<or> 2 ^ 64 \<le> a div d then Inl (Exn DE_EXCEPTION 0, s)
      else Inr ((), set_RDX (word_of_nat (a mod d)) (set_RAX (word_of_nat (a div d)) s)))"
proof -
  let ?a = "\<lparr>lo128 = RAX s, hi128 = RDX s\<rparr>" and ?d = "BX_READ_64BIT_REG (i_rm i) s"
  have v: "val ?a = RDX_RAX s" by (simp add: val_def RDX_RAX_def)
  have e: "exception DE_EXCEPTION 0 s = Inl (Exn DE_EXCEPTION 0, s)" by (rule exception_def)
  show ?thesis
  proof (cases "?d = 0")
    case True
    then show ?thesis by (simp add: DIV_RAXEqR_def Let_def e)
  next
    case nz: False
    then have "0 < unat ?d" by (simp add: unat_gt_0)
    then have big: "2 ^ 64 \<le> RDX_RAX s div unat ?d \<longleftrightarrow> ?d \<le> RDX s"
      using unsigned_less [of "RAX s", where ?'a = nat]
      by (simp add: RDX_RAX_def less_eq_div_iff_mult_less_eq word_le_nat_alt) linarith
    obtain q r where l: "long_div ?a ?d = (q, r)" by fastforce
    show ?thesis
    proof (cases "?d \<le> RDX s")
      case True
      then have "hi128 q \<noteq> 0" using long_div_overflows [OF _ nz l] by simp
      then show ?thesis using nz True by (simp only: DIV_RAXEqR_def Let_def l prod.case e big unat_0) simp
    next
      case False
      then have "hi128 ?a < ?d" by simp
      note x = long_div_fits [OF this l]
      have "word_of_nat (unat r) = r" by simp
      then have "r = word_of_nat (RDX_RAX s mod unat ?d)" using x(1) unfolding v by metis
      moreover have "lo128 q = word_of_nat (RDX_RAX s div unat ?d)" using x(1) by (intro narrow [OF x(2)]) (simp only: v)
      ultimately show ?thesis using nz False x(2) by (simp only: DIV_RAXEqR_def Let_def l prod.case e big unat_0) simp
    qed
  qed
qed

lemma lazy_no_carry64:
  "get_lazy CF_flag (SET_FLAGS_OSZAPC_LOGIC_64 r s) = Some False" "get_lazy OF_flag (SET_FLAGS_OSZAPC_LOGIC_64 r s) = Some False"
  by (simp_all add: SET_FLAGS_OSZAPC_LOGIC_64_def SET_FLAGS_OSZAPC_RESULT_64_def SET_FLAGS_OSZAPC_RESULT_SIZE_def
      get_CFLazy_def get_OFLazy_def Let_def)

lemma logic64_clears:
  assumes "f = CF_flag \<or> f = OF_flag"
  shows "\<not> getB_flag f (SET_FLAGS_OSZAPC_LOGIC_64 r s)"
proof -
  have "lf_flags_status (SET_FLAGS_OSZAPC_LOGIC_64 r s) AND lfMask f \<noteq> 0"
    using assms by (auto simp: SET_FLAGS_OSZAPC_LOGIC_64_def SET_FLAGS_OSZAPC_RESULT_64_def SET_FLAGS_OSZAPC_RESULT_SIZE_def
        EFlagsOSZAPCMask_def lfMask_def)
  then show ?thesis using assms lazy_no_carry64 [of r s] by (auto simp: getB_flag_def)
qed

lemma assert_raises:
  assumes "f = CF_flag \<or> f = OF_flag"
  shows "getB_flag f (ASSERT_FLAGS_OxxxxC s)"
proof -
  let ?m = "lfMask OF_flag OR lfMask CF_flag" and ?u = "ASSERT_FLAGS_OxxxxC s"
  have e: "eflags ?u = eflags s OR ?m" "lf_flags_status ?u = lf_flags_status s AND NOT ?m"
    by (simp_all add: ASSERT_FLAGS_OxxxxC_def)
  have b: "bit ?m (bitShift f)" using assms by (auto simp: lfMask_def bit_simps)
  then have "bit (eflags s OR ?m) (bitShift f)" by (simp add: bit_simps)
  then have "drop_bit (bitShift f) (eflags s OR ?m) AND 1 = 1" by (simp add: bit_iff_odd_drop_bit and_one_eq odd_iff_mod_2_eq_one)
  moreover have "(x AND NOT ?m) AND lfMask f = 0" for x
    using assms by (elim disjE) (auto intro!: bit_word_eqI simp: bit_simps)
  ultimately have "drop_bit (bitShift f) (eflags ?u) AND 1 = 1" "lf_flags_status ?u AND lfMask f = 0"
    by (simp_all only: e)
  then show ?thesis by (simp only: getB_flag_def if_True simp_thms)
qed

lemma assert_keeps: "gen_reg (ASSERT_FLAGS_OxxxxC s) = gen_reg s"
  by (simp add: ASSERT_FLAGS_OxxxxC_def)

lemma logic64_keeps: "gen_reg (SET_FLAGS_OSZAPC_LOGIC_64 r s) = gen_reg s"
  by (simp add: SET_FLAGS_OSZAPC_LOGIC_64_def SET_FLAGS_OSZAPC_RESULT_64_def SET_FLAGS_OSZAPC_RESULT_SIZE_def)

text \<open>The end of a multiplication: the flags say whether the result is too small for the product.\<close>

lemma product_flags:
  assumes "t = (if b then ASSERT_FLAGS_OxxxxC (SET_FLAGS_OSZAPC_LOGIC_64 r s) else SET_FLAGS_OSZAPC_LOGIC_64 r s)"
  shows "gen_reg t = gen_reg s" "getB_flag CF_flag t = b" "getB_flag OF_flag t = b"
  using assms by (cases b; simp add: assert_keeps logic64_keeps assert_raises logic64_clears)+

lemma low_product: "lo128 (long_imul a b) = word_of_int (sint a * sint b)"
proof -
  have "lo128 (long_imul a b) = ucast (scast a * scast b :: 128 word)" by (simp only: ucast_wide [symmetric] wide_imul)
  also have "(scast a * scast b :: 128 word) = word_of_int (sint a * sint b)" by simp
  also have "ucast (word_of_int p :: 128 word) = (word_of_int p :: u64)" for p by (rule bit_word_eqI) (simp add: bit_simps)
  finally show ?thesis .
qed

lemma sint_cut: "sint (word_of_int p :: u64) \<noteq> p \<longleftrightarrow> p < - (2 ^ 63) \<or> 2 ^ 63 \<le> p"
proof
  show "p < - (2 ^ 63) \<or> 2 ^ 63 \<le> p" if "sint (word_of_int p :: u64) \<noteq> p"
    by (rule ccontr) (use that sint_small [where ?'a = 64, of p] in \<open>simp add: not_le not_less\<close>)
  show "sint (word_of_int p :: u64) \<noteq> p" if "p < - (2 ^ 63) \<or> 2 ^ 63 \<le> p"
    using that sint_range64 [of "word_of_int p"] by auto
qed

lemma mul64_is_product:
  "\<exists>t. MUL_RAXEqR i s = Inr ((), t)
     \<and> RDX_RAX t = unat (RAX s) * unat (BX_READ_64BIT_REG (i_rm i) s)
     \<and> (getB_flag CF_flag t \<longleftrightarrow> 2 ^ 64 \<le> RDX_RAX t) \<and> (getB_flag OF_flag t \<longleftrightarrow> 2 ^ 64 \<le> RDX_RAX t)"
proof -
  let ?p = "long_mul (RAX s) (BX_READ_64BIT_REG (i_rm i) s)"
  let ?u = "set_RDX (hi128 ?p) (set_RAX (lo128 ?p) s)"
  define t where "t = (if hi128 ?p \<noteq> 0 then ASSERT_FLAGS_OxxxxC (SET_FLAGS_OSZAPC_LOGIC_64 (lo128 ?p) ?u)
    else SET_FLAGS_OSZAPC_LOGIC_64 (lo128 ?p) ?u)"
  note f = product_flags [OF t_def]
  have d: "RDX_RAX t = val ?p"
    by (simp add: RDX_RAX_def val_def RDX_def RAX_def rrx_def f(1) set_RDX_def set_RAX_def set_rrx_def)
  have "2 ^ 64 \<le> val ?p \<longleftrightarrow> hi128 ?p \<noteq> 0"
  proof -
    have "unat (lo128 ?p) < 2 ^ 64" using unsigned_less [of "lo128 ?p", where ?'a = nat] by simp
    then have "2 ^ 64 \<le> val ?p \<longleftrightarrow> unat (hi128 ?p) \<noteq> 0" unfolding val_def by (cases "unat (hi128 ?p)") simp_all
    then show ?thesis by (simp only: unat_0)
  qed
  moreover have "MUL_RAXEqR i s = Inr ((), t)" by (simp add: MUL_RAXEqR_def Let_def t_def)
  ultimately show ?thesis by (intro exI [of _ t] conjI) (simp_all only: f d long_mul_val)
qed

lemma imul64_is_product:
  "\<exists>t. IMUL_GqEqR i s = Inr ((), t)
     \<and> (let p = sint (BX_READ_64BIT_REG (i_nnn i) s) * sint (BX_READ_64BIT_REG (i_rm i) s);
            r = BX_READ_64BIT_REG (i_nnn i) t in
        r = word_of_int p \<and> (getB_flag CF_flag t \<longleftrightarrow> sint r \<noteq> p) \<and> (getB_flag OF_flag t \<longleftrightarrow> sint r \<noteq> p))"
proof -
  let ?a = "BX_READ_64BIT_REG (i_nnn i) s" and ?b = "BX_READ_64BIT_REG (i_rm i) s"
  let ?p = "long_imul ?a ?b"
  let ?u = "BX_WRITE_64BIT_REG (i_nnn i) (lo128 ?p) s"
  define t where "t = (if imul_overflow ?p then ASSERT_FLAGS_OxxxxC (SET_FLAGS_OSZAPC_LOGIC_64 (lo128 ?p) ?u)
    else SET_FLAGS_OSZAPC_LOGIC_64 (lo128 ?p) ?u)"
  note f = product_flags [OF t_def]
  have r: "BX_READ_64BIT_REG (i_nnn i) t = lo128 ?p"
    by (simp add: BX_READ_64BIT_REG_def rrx_def f(1) BX_WRITE_64BIT_REG_def set_rrx_def)
  have w: "lo128 ?p = word_of_int (sint ?a * sint ?b)"
    by (rule low_product)
  moreover have "sint (word_of_int p :: u64) \<noteq> p \<longleftrightarrow> p < - (2 ^ 63) \<or> 2 ^ 63 \<le> p" for p
    by (rule sint_cut)
  ultimately have "imul_overflow ?p \<longleftrightarrow> sint (lo128 ?p) \<noteq> sint ?a * sint ?b"
    by (simp only: imul_overflow_iff long_imul_product)
  moreover have "IMUL_GqEqR i s = Inr ((), t)" by (simp add: IMUL_GqEqR_def Let_def t_def)
  ultimately show ?thesis unfolding Let_def by (intro exI [of _ t] conjI) (simp_all only: f r w)
qed

text \<open>
  C22. Multiplication of 64 bits: without sign, RDX:RAX holds the whole product, and the carry and the overflow flag say
  whether it is more than 64 bits long; with sign, the destination is the product cut to 64 bits, and the flags
  are set exactly when the number that it stands for is not the product.
\<close>
theorem mul_is_product:
  "(\<exists>t. MUL_RAXEqR i s = Inr ((), t)
     \<and> RDX_RAX t = unat (RAX s) * unat (BX_READ_64BIT_REG (i_rm i) s)
     \<and> (getB_flag CF_flag t \<longleftrightarrow> 2 ^ 64 \<le> RDX_RAX t) \<and> (getB_flag OF_flag t \<longleftrightarrow> 2 ^ 64 \<le> RDX_RAX t))
   \<and> (\<exists>t. IMUL_GqEqR i s = Inr ((), t)
     \<and> (let p = sint (BX_READ_64BIT_REG (i_nnn i) s) * sint (BX_READ_64BIT_REG (i_rm i) s);
            r = BX_READ_64BIT_REG (i_nnn i) t in
        r = word_of_int p \<and> (getB_flag CF_flag t \<longleftrightarrow> sint r \<noteq> p) \<and> (getB_flag OF_flag t \<longleftrightarrow> sint r \<noteq> p)))"
  by (rule conjI [OF mul64_is_product imul64_is_product])

lemma top_bit: "drop_bit 63 w = of_bool (bit w 63)" for w :: u64
proof (rule bit_word_eqI)
  fix n
  show "bit (drop_bit 63 w) n \<longleftrightarrow> bit (of_bool (bit w 63) :: u64) n" if "n < LENGTH(64)"
    by (cases "n = 0") (auto simp: bit_simps dest: bit_imp_le_length)
qed

text \<open>The test of the signed division is that of the multiplication.\<close>

lemma idiv_test:
  "(lo128 q AND 0x8000000000000000 = 0 \<and> hi128 q \<noteq> 0) \<or>
   (lo128 q AND 0x8000000000000000 \<noteq> 0 \<and> hi128 q \<noteq> 0xffffffffffffffff) \<longleftrightarrow> imul_overflow q"
proof -
  have m: "(0x8000000000000000 :: u64) = 2 ^ 63" by simp
  have b: "lo128 q AND 0x8000000000000000 = 0 \<longleftrightarrow> \<not> bit (lo128 q) 63"
    unfolding m by (rule and_exp_eq_0_iff_not_bit)
  have "(0xffffffffffffffff :: u64) = - 1" unfolding word_unat_eq_iff unat_max64 by simp
  moreover have "hi128 q + 1 = 0 \<longleftrightarrow> hi128 q = - 1" by (simp only: eq_neg_iff_add_eq_0)
  ultimately have "hi128 q + 1 = 0 \<longleftrightarrow> hi128 q = 0xffffffffffffffff" by (simp only:)
  then show ?thesis by (cases "bit (lo128 q) 63") (simp_all add: imul_overflow_def b top_bit)
qed

lemma least_pair:
  fixes H L :: int
  assumes "0 \<le> L" "L < 2 ^ 64" "- (2 ^ 63) \<le> H"
  shows "2 ^ 64 * H + L = - (2 ^ 127) \<longleftrightarrow> H = - (2 ^ 63) \<and> L = 0"
proof -
  consider "H = - (2 ^ 63)" | "- (2 ^ 63) + 1 \<le> H" using assms(3) by linarith
  then show ?thesis using assms by cases auto
qed

lemma least_value: "hi128 a = 0x8000000000000000 \<and> lo128 a = 0 \<longleftrightarrow> sint (wide a) = - (2 ^ 127)"
proof -
  have "0 \<le> uint (lo128 a)" "uint (lo128 a) < 2 ^ 64" using unsigned_less [of "lo128 a", where ?'a = int] by simp_all
  then have "sint (wide a) = - (2 ^ 127) \<longleftrightarrow> sint (hi128 a) = - (2 ^ 63) \<and> uint (lo128 a) = 0"
    unfolding sint_wide using sint_range64 [of "hi128 a"] by (intro least_pair)
  moreover have "sint (hi128 a) = - (2 ^ 63) \<longleftrightarrow> hi128 a = 0x8000000000000000"
  proof -
    have "sint (0x8000000000000000 :: u64) = - (2 ^ 63)" by simp
    then show ?thesis by (metis word_of_sint scast_id)
  qed
  ultimately show ?thesis by (auto simp: uint_0_iff)
qed

lemma least_quotient:
  assumes "d \<noteq> 0"
  shows "\<not> (- (2 ^ 63) \<le> - (2 ^ 127) sdiv sint (d :: u64) \<and> - (2 ^ 127) sdiv sint d < 2 ^ 63)"
proof -
  have nz: "sint d \<noteq> 0" using assms by (metis signed_0 word_of_sint scast_id)
  then have "0 < \<bar>sint d\<bar>" "\<bar>sint d\<bar> \<le> 2 ^ 63" using sint_range64 [of d] by linarith+
  then have "(2 ^ 127 :: int) div 2 ^ 63 \<le> 2 ^ 127 div \<bar>sint d\<bar>" by (intro zdiv_mono2) simp_all
  then have "2 ^ 64 \<le> 2 ^ 127 div \<bar>sint d\<bar>" by simp
  moreover have "- (2 ^ 127) sdiv sint d = (if sint d < 0 then 2 ^ 127 div \<bar>sint d\<bar> else - (2 ^ 127 div \<bar>sint d\<bar>))"
    using nz by (simp add: signed_divide_int_def sgn_if)
  ultimately show ?thesis by (cases "sint d < 0") simp_all
qed

lemma low_of_wide: "sint (wide q) = k \<Longrightarrow> lo128 q = word_of_int k"
proof -
  assume k: "sint (wide q) = k"
  have "lo128 q = ucast (wide q)" by (simp only: ucast_wide)
  also have "wide q = word_of_int k" using k by (metis word_of_sint scast_id)
  also have "ucast (word_of_int k :: 128 word) = (word_of_int k :: u64)" by (rule bit_word_eqI) (simp add: bit_simps)
  finally show ?thesis .
qed

text \<open>
  C23. Signed division of 64 bits: the divide error is raised exactly when the divisor is zero or the quotient, rounded
  towards zero, is not a 64 bit number (the test for the least dividend only anticipates this), and otherwise RAX is the
  quotient. The remainder has the right size but the sign of the divisor, where the processor gives it the sign of the
  dividend.
\<close>
theorem idiv64_is_division:
  "IDIV_RAXEqR i s =
     (let a = sint (wide \<lparr>lo128 = RAX s, hi128 = RDX s\<rparr>); d = sint (BX_READ_64BIT_REG (i_rm i) s) in
      if d = 0 \<or> a sdiv d < - (2 ^ 63) \<or> 2 ^ 63 \<le> a sdiv d then Inl (Exn DE_EXCEPTION 0, s)
      else Inr ((), set_RDX (word_of_int ((if d < 0 then - 1 else 1) * (\<bar>a\<bar> mod \<bar>d\<bar>)))
                     (set_RAX (word_of_int (a sdiv d)) s)))"
proof -
  let ?a = "\<lparr>lo128 = RAX s, hi128 = RDX s\<rparr>" and ?d = "BX_READ_64BIT_REG (i_rm i) s"
  have e: "exception DE_EXCEPTION 0 s = Inl (Exn DE_EXCEPTION 0, s)" by (rule exception_def)
  have z: "sint ?d = 0 \<longleftrightarrow> ?d = 0" by (metis signed_0 word_of_sint scast_id)
  obtain q r where l: "long_idiv ?a ?d = (q, r)" by fastforce
  consider "?d = 0" | "?d \<noteq> 0" "sint (wide ?a) = - (2 ^ 127)" | "?d \<noteq> 0" "sint (wide ?a) \<noteq> - (2 ^ 127)" by blast
  then show ?thesis
  proof cases
    case 1
    then show ?thesis by (simp add: IDIV_RAXEqR_def Let_def e)
  next
    case 2
    then have "hi128 ?a = 0x8000000000000000 \<and> lo128 ?a = 0" by (simp only: least_value)
    moreover have "sint (wide ?a) sdiv sint ?d < - (2 ^ 63) \<or> 2 ^ 63 \<le> sint (wide ?a) sdiv sint ?d"
      using least_quotient [OF 2(1)] by (simp only: 2) linarith
    ultimately show ?thesis by (simp only: IDIV_RAXEqR_def Let_def e simp_thms if_True)
  next
    case 3
    note x = long_idiv_signed [OF 3 l]
    have "lo128 q = word_of_int (sint (wide ?a) sdiv sint ?d)" by (rule low_of_wide [OF conjunct1 [OF x]])
    moreover have "r = word_of_int (sint r)" by simp
    ultimately show ?thesis using 3 x
      by (simp only: IDIV_RAXEqR_def Let_def e l prod.case idiv_test imul_overflow_iff z least_value simp_thms if_False)
  qed
qed
end
