(* ===== verification/Cpu_Flag_Words.thy ===== *)
theory Cpu_Flag_Words
  imports Cpu_Flags Cpu_Mult64_Spec
begin

text \<open>
  The flags that \<^verbatim>\<open>src/sim/bochs/cpu/lazy_flags.cc\<close> computes from saved operands and what they mean. The operands
  are kept sign extended to 64 bits; the lemmas show that the comparisons the code makes on them are those of
  the operands, for each of the four widths, and that the tests on single bits are the half carry and the
  overflow of the numbers.
\<close>

unbundle bit_operations_syntax

section \<open>Words\<close>

lemma sint_scast: "LENGTH('a) \<le> LENGTH('b) \<Longrightarrow> sint (scast x :: 'b::len word) = sint x" for x :: "'a::len word"
proof -
  assume len: "LENGTH('a) \<le> LENGTH('b)"
  then have "(2 :: int) ^ (LENGTH('a) - 1) \<le> 2 ^ (LENGTH('b) - 1)" by (intro power_increasing) simp_all
  then have "sint (word_of_int (sint x) :: 'b word) = sint x"
    using sint_ge [of x] sint_lt [of x] by (intro sint_small; linarith)
  then show ?thesis by simp
qed

lemma shifted_order: "0 \<le> k \<Longrightarrow> (if h \<le> x then x + k else x) < (if h \<le> y then y + k else y) \<longleftrightarrow> x < y" for h k x y :: int
  by auto

lemma scast_less: "LENGTH('a) \<le> LENGTH('b) \<Longrightarrow> (scast x :: 'b::len word) < scast y \<longleftrightarrow> x < y" for x y :: "'a::len word"
proof -
  assume len: "LENGTH('a) \<le> LENGTH('b)"
  define n m where "n = LENGTH('a)" and "m = LENGTH('b)"
  have "uint (scast x :: 'b word) = (if sint x < 0 then uint x + (2 ^ m - 2 ^ n) else uint x)" for x :: "'a word"
  proof -
    have "sint (scast x :: 'b word) = sint x" by (rule sint_scast [OF len])
    then show ?thesis using uint_signed [of "scast x :: 'b word"] uint_signed [of x] unfolding n_def m_def by simp
  qed
  note u = this
  have nm: "(2 :: int) ^ n \<le> 2 ^ m" using len unfolding n_def m_def by simp
  have b: "0 \<le> uint z" "sint z < 0 \<longleftrightarrow> 2 ^ (n - 1) \<le> uint z" for z :: "'a word"
  proof -
    show "0 \<le> uint z" by simp
    have two: "(2 :: int) ^ n = 2 * 2 ^ (n - 1)" unfolding n_def by (cases "LENGTH('a)") simp_all
    show "sint z < 0 \<longleftrightarrow> 2 ^ (n - 1) \<le> uint z"
      using uint_signed [of z] sint_ge [of z] sint_lt [of z] two unfolding n_def by (auto split: if_splits)
  qed
  have "0 \<le> (2 :: int) ^ m - 2 ^ n" using nm by linarith
  then show ?thesis unfolding word_less_def u b(2) by (rule shifted_order)
qed

lemma scast_le: "LENGTH('a) \<le> LENGTH('b) \<Longrightarrow> (scast x :: 'b::len word) \<le> scast y \<longleftrightarrow> x \<le> y" for x y :: "'a::len word"
  using scast_less [where ?'b = 'b, of y x] by (simp add: not_less [symmetric])

lemma carry_out: "a + b + of_bool c < a \<or> (c \<and> a + b + of_bool c = a) \<longleftrightarrow> 2 ^ LENGTH('a) \<le> unat a + unat b + of_bool c"
  for a b :: "'a::len word"
proof -
  define N where "N = (2 :: nat) ^ LENGTH('a)"
  have a: "unat a < N" "unat b < N" "0 < N" unfolding N_def by (rule unsigned_less)+ simp
  have c: "unat (a + b + of_bool c) = (unat a + unat b + of_bool c) mod N"
    unfolding N_def by (cases c) (simp_all add: unat_word_ariths mod_simps)
  have "(unat a + unat b + of_bool c) mod N = (if N \<le> unat a + unat b + of_bool c then unat a + unat b + of_bool c - N else unat a + unat b + of_bool c)"
    using a by (cases c) (auto simp: le_mod_geq)
  then show ?thesis using a unfolding word_less_nat_alt word_unat_eq_iff c N_def [symmetric] by (cases c) (auto split: if_splits)
qed

lemma borrow_out: "a < a - (b + of_bool c) \<or> (c \<and> b = - 1) \<longleftrightarrow> unat a < unat b + of_bool c"
  for a b :: "'a::len word"
proof -
  have "b + 1 = 0 \<longleftrightarrow> b = - 1" by (simp only: eq_neg_iff_add_eq_0)
  moreover have "unat (b + 1) = (if b + 1 = 0 then 0 else unat b + 1)" using unatSuc [of b] by (simp add: add.commute)
  moreover have "unat a < 2 ^ LENGTH('a)" "unat (- 1 :: 'a word) + 1 = 2 ^ LENGTH('a)"
    by (rule unsigned_less) (simp add: unsigned_minus_1_eq_mask mask_eq_exp_minus_1)
  ultimately show ?thesis by (simp only: minus_borrows) (cases c; auto simp: word_less_nat_alt)
qed

text \<open>The value with its sign of a word that was cut.\<close>

lemma sint_wrap:
  assumes h: "h = 2 ^ (LENGTH('a) - 1)" and "- (2 * h) \<le> k" "k < 2 * h"
  shows "sint (word_of_int k :: 'a::len word) = (if k < - h then k + 2 * h else if h \<le> k then k - 2 * h else k)"
proof -
  have two: "(2 :: int) ^ LENGTH('a) = 2 * h" unfolding h by (cases "LENGTH('a)") simp_all
  have "word_of_int (2 * h) = (0 :: 'a word)" by (simp add: two [symmetric])
  then have w: "word_of_int (k + 2 * h) = (word_of_int k :: 'a word)" "word_of_int (k - 2 * h) = (word_of_int k :: 'a word)"
    by (simp_all only: of_int_add of_int_diff add_0_right diff_0_right)
  note small = sint_small [where ?'a = 'a, folded h]
  consider "k < - h" | "h \<le> k" "\<not> k < - h" | "- h \<le> k" "k < h" by linarith
  then show ?thesis
  proof cases
    case 1
    then have "sint (word_of_int (k + 2 * h) :: 'a word) = k + 2 * h" using assms by (intro small; linarith)
    then show ?thesis using 1 by (simp only: w if_True)
  next
    case 2
    then have "sint (word_of_int (k - 2 * h) :: 'a word) = k - 2 * h" using assms by (intro small; linarith)
    then show ?thesis using 2 by (simp only: w if_True if_False)
  next
    case 3
    then have "sint (word_of_int k :: 'a word) = k" by (intro small)
    then show ?thesis using 3 by (simp only: if_False not_less [symmetric] simp_thms)
  qed
qed

text \<open>The sign of the result tells an overflow of an addition: the operands agree on theirs and the result does not.\<close>

lemma add_overflow:
  "(sint a < 0 \<longleftrightarrow> sint b < 0) \<and> (sint b < 0 \<longleftrightarrow> \<not> sint (a + b + of_bool c) < 0) \<longleftrightarrow>
   sint a + sint b + of_bool c < - (2 ^ (LENGTH('a) - 1)) \<or> 2 ^ (LENGTH('a) - 1) \<le> sint a + sint b + of_bool c"
  for a b :: "'a::len word"
proof -
  define h where "h = (2 :: int) ^ (LENGTH('a) - 1)"
  have r: "- h \<le> sint a" "sint a < h" "- h \<le> sint b" "sint b < h" unfolding h_def using sint_ge sint_lt by auto
  let ?k = "sint a + sint b + of_bool c"
  have e: "a + b + of_bool c = word_of_int ?k" by (cases c) simp_all
  have s: "sint (word_of_int ?k :: 'a word) = (if ?k < - h then ?k + 2 * h else if h \<le> ?k then ?k - 2 * h else ?k)"
    by (rule sint_wrap [OF h_def]) (use r in \<open>cases c; simp\<close>)+
  show ?thesis using r unfolding e s h_def [symmetric] by (cases c) (auto split: if_splits)
qed

lemma sub_overflow:
  "(sint a < 0 \<longleftrightarrow> \<not> sint b < 0) \<and> (sint a < 0 \<longleftrightarrow> \<not> sint (a - (b + of_bool c)) < 0) \<longleftrightarrow>
   sint a - sint b - of_bool c < - (2 ^ (LENGTH('a) - 1)) \<or> 2 ^ (LENGTH('a) - 1) \<le> sint a - sint b - of_bool c"
  for a b :: "'a::len word"
proof -
  define h where "h = (2 :: int) ^ (LENGTH('a) - 1)"
  have r: "- h \<le> sint a" "sint a < h" "- h \<le> sint b" "sint b < h" unfolding h_def using sint_ge sint_lt by auto
  let ?k = "sint a - sint b - of_bool c"
  have e: "a - (b + of_bool c) = word_of_int ?k" by (cases c) simp_all
  have s: "sint (word_of_int ?k :: 'a word) = (if ?k < - h then ?k + 2 * h else if h \<le> ?k then ?k - 2 * h else ?k)"
    by (rule sint_wrap [OF h_def]) (use r in \<open>cases c; simp\<close>)+
  show ?thesis using r unfolding e s h_def [symmetric] by (cases c) (auto split: if_splits)
qed

lemma sign_bit: "w AND 2 ^ (LENGTH('a) - 1) \<noteq> 0 \<longleftrightarrow> sint w < 0" for w :: "'a::len word"
  using and_exp_eq_0_iff_not_bit [of w "LENGTH('a) - 1"] by (simp add: bit_last_iff)

lemma sign_xor: "sint (a XOR b) < 0 \<longleftrightarrow> (sint a < 0 \<longleftrightarrow> \<not> sint b < 0)" for a b :: "'a::len word"
  unfolding bit_last_iff [symmetric] by (auto simp: bit_xor_iff)

lemma sign_and: "sint (a AND b) < 0 \<longleftrightarrow> sint a < 0 \<and> sint b < 0" for a b :: "'a::len word"
  unfolding bit_last_iff [symmetric] by (auto simp: bit_and_iff)

lemma sign_not: "sint (NOT a) < 0 \<longleftrightarrow> \<not> sint a < 0" for a :: "'a::len word"
  unfolding bit_last_iff [symmetric] by (simp add: bit_not_iff_eq)

lemma GET_ADD_OVERFLOW_sign:
  fixes a b r m :: "'a::len word"
  assumes "m = 2 ^ (LENGTH('a) - 1)"
  shows "GET_ADD_OVERFLOW a b r m \<longleftrightarrow> (sint a < 0 \<longleftrightarrow> sint b < 0) \<and> (sint b < 0 \<longleftrightarrow> \<not> sint r < 0)"
  unfolding GET_ADD_OVERFLOW_def assms sign_bit sign_and sign_xor sign_not by auto

lemma GET_SUB_OVERFLOW_sign:
  fixes a b r m :: "'a::len word"
  assumes "m = 2 ^ (LENGTH('a) - 1)"
  shows "GET_SUB_OVERFLOW a b r m \<longleftrightarrow> (sint a < 0 \<longleftrightarrow> \<not> sint b < 0) \<and> (sint a < 0 \<longleftrightarrow> \<not> sint r < 0)"
  unfolding GET_SUB_OVERFLOW_def assms sign_bit sign_and sign_xor by auto

text \<open>The carry out of the low four bits.\<close>

lemma bit_4: "bit w 4 \<longleftrightarrow> odd (unat w div 16)" for w :: "'a::len word"
proof -
  have "bit w 4 \<longleftrightarrow> bit (unat w) 4" by (auto simp: bit_unsigned_iff dest: bit_imp_le_length)
  then show ?thesis by (simp add: bit_iff_odd)
qed

lemma bit_0x10: "w AND 0x10 \<noteq> 0 \<longleftrightarrow> bit w 4" for w :: "'a::len word"
  using and_exp_eq_0_iff_not_bit [of w 4] by simp

lemma half_carry_nat:
  fixes x y k :: nat
  assumes "k \<le> 1"
  shows "(odd (x div 16) \<noteq> odd (y div 16)) \<noteq> odd ((x + y + k) mod 256 div 16) \<longleftrightarrow> 16 \<le> x mod 16 + y mod 16 + k"
proof -
  define p q u v where "p = x div 16" and "q = y div 16" and "u = x mod 16" and "v = y mod 16"
  have x: "x = 16 * p + u" "y = 16 * q + v" unfolding p_def q_def u_def v_def by simp_all
  define r where "r = u + v + k"
  have "u < 16" "v < 16" unfolding u_def v_def by simp_all
  then have r: "r < 32" unfolding r_def using assms by linarith
  have "x + y + k = 16 * (p + q) + r" unfolding r_def x by simp
  then have "(x + y + k) div 16 = p + q + r div 16" by simp
  moreover have "odd (n mod 256 div 16) \<longleftrightarrow> odd (n div 16)" for n :: nat
  proof -
    have "bit (take_bit 8 n) 4 \<longleftrightarrow> bit n 4" by (simp add: bit_take_bit_iff)
    then show ?thesis by (simp add: bit_iff_odd take_bit_eq_mod)
  qed
  moreover have "odd (r div 16) \<longleftrightarrow> 16 \<le> r"
  proof -
    have "r div 16 = (if 16 \<le> r then 1 else 0)" using r by (auto simp: div_nat_eqI)
    then show ?thesis by simp
  qed
  ultimately show ?thesis unfolding p_def [symmetric] q_def [symmetric] u_def [symmetric] v_def [symmetric] r_def [symmetric] by auto
qed

lemma unat_add_carry: "unat (x + y + of_bool c) = (unat x + unat y + of_bool c) mod 256" for x y :: u8
  by (cases c) (simp_all add: unat_word_ariths mod_simps)

lemma half_carry:
  "((x XOR y) XOR (x + y + of_bool c)) AND 0x10 \<noteq> 0 \<longleftrightarrow> 16 \<le> unat x mod 16 + unat y mod 16 + of_bool c"
  for x y :: u8
proof -
  show ?thesis unfolding bit_0x10 unfolding bit_xor_iff unfolding bit_4 unat_add_carry
    by (rule half_carry_nat) simp
qed

lemma borrow_of_sum: "r < 16 \<Longrightarrow> y < 16 \<Longrightarrow>
    16 \<le> r + y + of_bool c \<longleftrightarrow> (if 16 \<le> r + y + of_bool c then r + y + of_bool c - 16 else r + y + of_bool c) < y + of_bool c"
  for r y :: nat
  by (cases c) auto

lemma half_borrow:
  "((x XOR y) XOR (x - (y + of_bool c))) AND 0x10 \<noteq> 0 \<longleftrightarrow> unat x mod 16 < unat y mod 16 + of_bool c"
  for x y :: u8
proof -
  let ?r = "x - (y + of_bool c)"
  have x: "x = ?r + y + of_bool c" by simp
  have "((x XOR y) XOR ?r) AND 0x10 \<noteq> 0 \<longleftrightarrow> ((?r XOR y) XOR (?r + y + of_bool c)) AND 0x10 \<noteq> 0"
    unfolding x [symmetric] by (simp only: ac_simps)
  also have "\<dots> \<longleftrightarrow> 16 \<le> unat ?r mod 16 + unat y mod 16 + of_bool c" by (rule half_carry)
  also have "\<dots> \<longleftrightarrow> unat x mod 16 < unat y mod 16 + of_bool c"
  proof -
    define s where "s = unat ?r mod 16 + unat y mod 16 + of_bool c"
    have "unat x = (unat ?r + unat y + of_bool c) mod 256"
      unfolding unat_add_carry [symmetric] by (rule arg_cong [OF x])
    then have "unat x mod 16 = (unat ?r + unat y + of_bool c) mod 16" by (simp add: mod_mod_cancel)
    also have "\<dots> = s mod 16" unfolding s_def by (metis mod_add_eq mod_add_left_eq)
    finally have "unat x mod 16 = s mod 16" .
    moreover have r: "unat ?r mod 16 < 16" "unat y mod 16 < 16" by simp_all
    then have "s < 32" unfolding s_def by (cases c) simp_all
    then have "s mod 16 = (if 16 \<le> s then s - 16 else s)" by (auto simp: le_mod_geq)
    ultimately have "unat x mod 16 = (if 16 \<le> s then s - 16 else s)" by simp
    then show ?thesis using borrow_of_sum [OF r, of c] unfolding s_def [symmetric] by simp
  qed
  finally show ?thesis .
qed

lemma ucast_add: "LENGTH('b) \<le> LENGTH('a) \<Longrightarrow> (ucast (a + b) :: 'b::len word) = ucast a + ucast b" for a b :: "'a::len word"
  by (simp add: word_unat_eq_iff unsigned_ucast_eq unat_word_ariths take_bit_eq_mod mod_mod_cancel le_imp_power_dvd mod_simps)

lemma ucast_diff: "LENGTH('b) \<le> LENGTH('a) \<Longrightarrow> (ucast (a - b) :: 'b::len word) = ucast a - ucast b" for a b :: "'a::len word"
proof -
  assume "LENGTH('b) \<le> LENGTH('a)"
  from ucast_add [OF this, of "a - b" b] show ?thesis by (simp add: eq_diff_eq)
qed

lemma ucast_scast: "LENGTH('b) \<le> LENGTH('a) \<Longrightarrow> LENGTH('a) \<le> LENGTH('c) \<Longrightarrow> (ucast (scast w :: 'c::len word) :: 'b::len word) = ucast w" for w :: "'a::len word"
proof (rule bit_word_eqI)
  fix n assume "n < LENGTH('b)" "LENGTH('b) \<le> LENGTH('a)" "LENGTH('a) \<le> LENGTH('c)"
  then show "bit (ucast (scast w :: 'c word) :: 'b word) n \<longleftrightarrow> bit (ucast w :: 'b word) n"
    by (cases "n = LENGTH('a) - 1") (auto simp: bit_simps min_def)
qed

section \<open>The parity table\<close>

definition low_ones :: "'a::len word \<Rightarrow> nat" where "low_ones w = length (filter (bit w) [0..<8])"

primrec parities :: "nat \<Rightarrow> nat list" where
  "parities 0 = [1]"
| "parities (Suc n) = parities n @ map (\<lambda>p. 1 - p) (parities n)"

lemma parity_table: "bx_parity_lookup = parities 8"
  by (simp add: bx_parity_lookup_def eval_nat_numeral)

lemma length_parities: "length (parities n) = 2 ^ n"
  by (induction n) simp_all

lemma parities_nth: "i < 2 ^ n \<Longrightarrow> parities n ! i = of_bool (even (length (filter (bit i) [0..<n])))"
proof (induction n arbitrary: i)
  case (Suc n)
  show ?case
  proof (cases "i < 2 ^ n")
    case True
    then have "\<not> bit i n" by (simp add: bit_iff_odd)
    then show ?thesis using True Suc by (simp add: nth_append length_parities)
  next
    case False
    then obtain j where j: "i = 2 ^ n + j" using le_Suc_ex by (metis not_less)
    then have jn: "j < 2 ^ n" using Suc.prems by simp
    then have "bit i n" unfolding j bit_iff_odd by (simp add: div_add_self1)
    moreover have "bit i k = bit j k" if "k < n" for k
    proof -
      have "take_bit n i = take_bit n j" unfolding j by (simp add: take_bit_eq_mod)
      then show ?thesis using that by (metis bit_take_bit_iff)
    qed
    then have "filter (bit i) [0..<n] = filter (bit j) [0..<n]" by (intro filter_cong) simp_all
    ultimately show ?thesis using Suc.IH [OF jn] jn by (simp add: nth_append length_parities j)
  qed
qed simp

lemma parity_lookup: "bx_parity_lookup ! unat (w :: u8) \<noteq> 0 \<longleftrightarrow> even (low_ones w)"
proof -
  have "unat w < 256" using unsigned_less [of w, where ?'a = nat] by simp
  then have "bx_parity_lookup ! unat w \<noteq> 0 \<longleftrightarrow> even (length (filter (bit (unat w)) [0..<8]))"
    unfolding parity_table using parities_nth [of "unat w" 8] by simp
  also have "bit (unat w) = bit w" by (auto simp: fun_eq_iff bit_unsigned_iff dest: bit_imp_le_length)
  finally show ?thesis by (simp only: low_ones_def)
qed

section \<open>The flags of the processor's manual\<close>

text \<open>What the flags mean: of the operands, as numbers with and without sign.\<close>

definition fits_signed :: "'a::len itself \<Rightarrow> int \<Rightarrow> bool" where
  "fits_signed _ k \<longleftrightarrow> - (2 ^ (LENGTH('a) - 1)) \<le> k \<and> k < 2 ^ (LENGTH('a) - 1)"

fun result_flag :: "'a::len word \<Rightarrow> arith_flag \<Rightarrow> bool" where
  "result_flag r ZF_flag = (r = 0)"
| "result_flag r SF_flag = (sint r < 0)"
| "result_flag r PF_flag = even (low_ones r)"
| "result_flag r _ = False"

fun add_flag :: "'a::len word \<Rightarrow> 'a word \<Rightarrow> bool \<Rightarrow> arith_flag \<Rightarrow> bool" where
  "add_flag a b c CF_flag = (2 ^ LENGTH('a) \<le> unat a + unat b + of_bool c)"
| "add_flag a b c AF_flag = (16 \<le> unat a mod 16 + unat b mod 16 + of_bool c)"
| "add_flag a b c OF_flag = (\<not> fits_signed TYPE('a) (sint a + sint b + of_bool c))"
| "add_flag a b c f = result_flag (a + b + of_bool c) f"

fun sub_flag :: "'a::len word \<Rightarrow> 'a word \<Rightarrow> bool \<Rightarrow> arith_flag \<Rightarrow> bool" where
  "sub_flag a b c CF_flag = (unat a < unat b + of_bool c)"
| "sub_flag a b c AF_flag = (unat a mod 16 < unat b mod 16 + of_bool c)"
| "sub_flag a b c OF_flag = (\<not> fits_signed TYPE('a) (sint a - sint b - of_bool c))"
| "sub_flag a b c f = result_flag (a - (b + of_bool c)) f"

lemma all_pending: "EFlagsOSZAPCMask AND lfMask f \<noteq> 0"
  by (cases f) (simp_all add: EFlagsOSZAPCMask_def lfMask_def)

lemma getB_pending: "getB_flag f (SET_FLAGS_OSZAPC_SIZE a b r ins s) \<longleftrightarrow> get_lazy f (SET_FLAGS_OSZAPC_SIZE a b r ins s) = Some True"
  by (simp add: getB_flag_def all_pending SET_FLAGS_OSZAPC_SIZE_def)

lemma getB_pending_result: "getB_flag f (SET_FLAGS_OSZAPC_RESULT_SIZE r ins s) \<longleftrightarrow> get_lazy f (SET_FLAGS_OSZAPC_RESULT_SIZE r ins s) = Some True"
  by (simp add: getB_flag_def all_pending SET_FLAGS_OSZAPC_RESULT_SIZE_def)

lemma entry_SIZE: "oszapc (SET_FLAGS_OSZAPC_SIZE a b r ins s) = \<lparr>lf_op1 = scast a, lf_op2 = scast b, lf_result = scast r, lf_ins = ins\<rparr>"
  by (simp add: SET_FLAGS_OSZAPC_SIZE_def)

lemma low_ones_ucast: "8 \<le> LENGTH('a) \<Longrightarrow> low_ones (ucast w :: u8) = low_ones w" for w :: "'a::len word"
  by (auto simp: low_ones_def bit_simps intro!: arg_cong [where f = length] filter_cong)

text \<open>The three flags that only need the result.\<close>

lemma lazy_result:
  fixes r :: "'a::len word"
  assumes "lf_result (oszapc s) = scast r" "8 \<le> LENGTH('a)" "LENGTH('a) \<le> 64" "f \<in> {ZF_flag, SF_flag, PF_flag}"
  shows "get_lazy f s = Some (result_flag r f)"
proof -
  have l: "LENGTH('a) \<le> LENGTH(64)" "LENGTH(8) \<le> LENGTH('a)" using assms by simp_all
  have z: "(scast r :: u64) = 0 \<longleftrightarrow> r = 0" using scast_le [OF l(1), of r 0] by (simp add: word_le_0_iff)
  have "drop_bit 63 w \<noteq> 0 \<longleftrightarrow> sint w < 0" for w :: u64
    unfolding bit_last_iff [symmetric] top_bit by simp
  then have s: "drop_bit 63 (scast r :: u64) \<noteq> 0 \<longleftrightarrow> sint r < 0" by (simp only: sint_scast [OF l(1)])
  have "(ucast (scast r :: u64) :: u8) = ucast r" by (rule ucast_scast [OF l(2) l(1)])
  then have "bx_parity_lookup ! unat (ucast (scast r :: u64) :: u8) \<noteq> 0 \<longleftrightarrow> even (low_ones r)"
    by (simp only: parity_lookup low_ones_ucast [OF assms(2)])
  then show ?thesis using assms z s by (auto simp: get_ZFLazy_def get_SFLazy_def get_PFLazy_def)
qed

lemma low_nibble: "8 \<le> LENGTH('a) \<Longrightarrow> unat (ucast w :: u8) mod 16 = unat w mod 16" for w :: "'a::len word"
  by (simp add: unsigned_ucast_eq take_bit_eq_mod mod_mod_cancel)

lemma lazy_AF_add:
  fixes a b :: "'a::len word"
  assumes "8 \<le> LENGTH('a)" "LENGTH('a) \<le> 64"
  shows "((ucast (scast a :: u64) XOR ucast (scast b :: u64)) XOR ucast (scast (a + b + of_bool c) :: u64) :: u8) AND 0x10 \<noteq> 0 \<longleftrightarrow>
    add_flag a b c AF_flag"
proof -
  have l: "LENGTH(8) \<le> LENGTH('a)" "LENGTH('a) \<le> LENGTH(64)" using assms by simp_all
  have "(ucast (of_bool c :: 'a word) :: u8) = of_bool c" by (cases c) simp_all
  then show ?thesis
    by (simp only: ucast_scast [OF l] ucast_add [OF l(1)] half_carry low_nibble [OF assms(1)] add_flag.simps)
qed

lemma lazy_AF_sub:
  fixes a b :: "'a::len word"
  assumes "8 \<le> LENGTH('a)" "LENGTH('a) \<le> 64"
  shows "((ucast (scast a :: u64) XOR ucast (scast b :: u64)) XOR ucast (scast (a - (b + of_bool c)) :: u64) :: u8) AND 0x10 \<noteq> 0 \<longleftrightarrow>
    sub_flag a b c AF_flag"
proof -
  have l: "LENGTH(8) \<le> LENGTH('a)" "LENGTH('a) \<le> LENGTH(64)" using assms by simp_all
  have "(ucast (of_bool c :: 'a word) :: u8) = of_bool c" by (cases c) simp_all
  then show ?thesis
    by (simp only: ucast_scast [OF l] ucast_add [OF l(1)] ucast_diff [OF l(1)] half_borrow low_nibble [OF assms(1)] sub_flag.simps)
qed

lemma lazy_OF_add:
  fixes a b :: "'a::len word"
  assumes "LENGTH('a) \<le> LENGTH('b)" "m = 2 ^ (LENGTH('b) - 1)"
  shows "GET_ADD_OVERFLOW (scast a :: 'b::len word) (scast b) (scast (a + b + of_bool c)) m \<longleftrightarrow> add_flag a b c OF_flag"
  unfolding GET_ADD_OVERFLOW_sign [OF assms(2)] sint_scast [OF assms(1)] add_overflow by (auto simp: fits_signed_def)

lemma lazy_OF_sub:
  fixes a b :: "'a::len word"
  assumes "LENGTH('a) \<le> LENGTH('b)" "m = 2 ^ (LENGTH('b) - 1)"
  shows "GET_SUB_OVERFLOW (scast a :: 'b::len word) (scast b) (scast (a - (b + of_bool c))) m \<longleftrightarrow> sub_flag a b c OF_flag"
  unfolding GET_SUB_OVERFLOW_sign [OF assms(2)] sint_scast [OF assms(1)] sub_overflow by (auto simp: fits_signed_def)

text \<open>
  The conversion of the saved operands to 32 bits, which the code makes for operations of less than 64.
\<close>

lemma narrow_scast: "LENGTH('a) \<le> 32 \<Longrightarrow> (ucast (scast w :: u64) :: u32) = scast w" for w :: "'a::len word"
proof (rule bit_word_eqI)
  fix n assume "n < LENGTH(32)" "LENGTH('a) \<le> 32"
  then show "bit (ucast (scast w :: u64) :: u32) n \<longleftrightarrow> bit (scast w :: u32) n" by (simp add: bit_simps)
qed

lemma add_carry_small:
  fixes a b :: "'a::len word"
  assumes "LENGTH('a) \<le> LENGTH('b)"
  shows "\<not> c \<Longrightarrow> (scast (a + b + of_bool c) :: 'b::len word) < scast a \<longleftrightarrow> add_flag a b c CF_flag"
    "c \<Longrightarrow> (scast (a + b + of_bool c) :: 'b::len word) \<le> scast a \<longleftrightarrow> add_flag a b c CF_flag"
  unfolding add_flag.simps carry_out [symmetric] scast_less [OF assms] scast_le [OF assms] by (simp_all only: le_less simp_thms)

lemma sub_borrow_small:
  fixes a b :: "'a::len word"
  assumes "LENGTH('a) \<le> LENGTH('b)"
  shows "(scast a :: 'b::len word) < scast b \<longleftrightarrow> sub_flag a b False CF_flag"
  unfolding sub_flag.simps scast_less [OF assms] by (simp add: word_less_nat_alt)

lemma minus_1_words: "(0xff :: u8) = - 1" "(0xffff :: u16) = - 1" "(0xffffffff :: u32) = - 1" "(0xffffffffffffffff :: u64) = - 1"
  by (simp_all add: word_unat_eq_iff unsigned_minus_1_eq_mask mask_eq_exp_minus_1)

lemma sbb_borrow: "a < a - (b + 1) \<or> b = - 1 \<longleftrightarrow> sub_flag a b True CF_flag" for a b :: "'a::len word"
  unfolding sub_flag.simps borrow_out [symmetric] by simp

text \<open>
  One proof for the four widths: what is left to each of them is that the code looks at its saved operands in
  the way the assumptions say.
\<close>

lemma lazy_add:
  fixes a b :: "'a::len word" and it :: "'b::len itself"
  assumes w: "8 \<le> LENGTH('a)" "LENGTH('a) \<le> 64" "LENGTH('a) \<le> LENGTH('b)"
    and r: "lf_result (oszapc s) = scast (a + b + of_bool c)"
    and cf: "get_CFLazy s = Some (if c then (scast (a + b + of_bool c) :: 'b word) \<le> scast a else (scast (a + b + of_bool c) :: 'b word) < scast a)"
    and af: "get_AFLazy s = Some (((ucast (scast a :: u64) XOR ucast (scast b :: u64)) XOR ucast (scast (a + b + of_bool c) :: u64) :: u8) AND 0x10 \<noteq> 0)"
    and ov: "get_OFLazy s = Some (GET_ADD_OVERFLOW (scast a :: 'b word) (scast b) (scast (a + b + of_bool c)) (2 ^ (LENGTH('b) - 1)))"
  shows "get_lazy f s = Some (add_flag a b c f)"
proof (cases f)
  case CF_flag
  show ?thesis using add_carry_small [OF w(3), of c a b] by (cases c) (simp_all add: CF_flag cf)
next
  case AF_flag
  show ?thesis unfolding AF_flag get_lazy.simps af by (simp only: lazy_AF_add [OF w(1,2)])
next
  case OF_flag
  show ?thesis unfolding OF_flag get_lazy.simps ov by (simp only: lazy_OF_add [OF w(3) refl])
qed (use lazy_result [OF r w(1,2), of f] in simp_all)

lemma lazy_sub:
  fixes a b :: "'a::len word" and it :: "'b::len itself"
  assumes w: "8 \<le> LENGTH('a)" "LENGTH('a) \<le> 64" "LENGTH('a) \<le> LENGTH('b)"
    and r: "lf_result (oszapc s) = scast (a - (b + of_bool c))"
    and cf: "get_CFLazy s = Some (if c then a < a - (b + of_bool c) \<or> b = - 1 else (scast a :: 'b word) < scast b)"
    and af: "get_AFLazy s = Some (((ucast (scast a :: u64) XOR ucast (scast b :: u64)) XOR ucast (scast (a - (b + of_bool c)) :: u64) :: u8) AND 0x10 \<noteq> 0)"
    and ov: "get_OFLazy s = Some (GET_SUB_OVERFLOW (scast a :: 'b word) (scast b) (scast (a - (b + of_bool c))) (2 ^ (LENGTH('b) - 1)))"
  shows "get_lazy f s = Some (sub_flag a b c f)"
proof (cases f)
  case CF_flag
  show ?thesis unfolding CF_flag get_lazy.simps cf
    by (cases c) (simp_all only: if_True if_False sub_borrow_small [OF w(3)] of_bool_eq sbb_borrow simp_thms)
next
  case AF_flag
  show ?thesis unfolding AF_flag get_lazy.simps af by (simp only: lazy_AF_sub [OF w(1,2)])
next
  case OF_flag
  show ?thesis unfolding OF_flag get_lazy.simps ov by (simp only: lazy_OF_sub [OF w(3) refl])
qed (use lazy_result [OF r w(1,2), of f] in simp_all)

lemmas entry = entry_SIZE get_CFLazy_def get_AFLazy_def get_OFLazy_def Let_def lf_flags_entry.simps
lemmas lf_ins_8 = BX_LF_INSTR_ADD_ADC8_def BX_LF_INSTR_SUB_SBB8_def
lemmas lf_ins_16 = BX_LF_INSTR_ADD_ADC16_def BX_LF_INSTR_SUB_SBB16_def
lemmas lf_ins_32 = BX_LF_INSTR_ADD_ADC32_def BX_LF_INSTR_SUB_SBB32_def
lemmas lf_ins_64 = BX_LF_INSTR_ADD_ADC64_def BX_LF_INSTR_SUB_SBB64_def

lemma cut_scast: "(ucast (scast w :: u64) :: u8) = w" for w :: u8 by (simp add: ucast_scast)
lemma cut_scast16: "(ucast (scast w :: u64) :: u16) = w" for w :: u16 by (simp add: ucast_scast)
lemma cut_scast32: "(ucast (scast w :: u64) :: u32) = w" for w :: u32 by (simp add: ucast_scast)

lemma lazy_add8: "get_lazy f (SET_FLAGS_OSZAPC_8 a b (a + b + of_bool c) (BX_LF_INSTR_ADD_ADC8 c) s) = Some (add_flag a b c f)"
  unfolding SET_FLAGS_OSZAPC_8_def
  by (rule lazy_add [where ?'b = 32]; cases c; simp add: entry lf_ins_8 narrow_scast cut_scast cut_scast16 cut_scast32 minus_1_words)

lemma lazy_sub8: "get_lazy f (SET_FLAGS_OSZAPC_8 a b (a - (b + of_bool c)) (BX_LF_INSTR_SUB_SBB8 c) s) = Some (sub_flag a b c f)"
  unfolding SET_FLAGS_OSZAPC_8_def
  by (rule lazy_sub [where ?'b = 32]; cases c; simp add: entry lf_ins_8 narrow_scast cut_scast cut_scast16 cut_scast32 minus_1_words)

lemma lazy_add16: "get_lazy f (SET_FLAGS_OSZAPC_16 a b (a + b + of_bool c) (BX_LF_INSTR_ADD_ADC16 c) s) = Some (add_flag a b c f)"
  unfolding SET_FLAGS_OSZAPC_16_def
  by (rule lazy_add [where ?'b = 32]; cases c; simp add: entry lf_ins_16 narrow_scast cut_scast cut_scast16 cut_scast32 minus_1_words)

lemma lazy_sub16: "get_lazy f (SET_FLAGS_OSZAPC_16 a b (a - (b + of_bool c)) (BX_LF_INSTR_SUB_SBB16 c) s) = Some (sub_flag a b c f)"
  unfolding SET_FLAGS_OSZAPC_16_def
  by (rule lazy_sub [where ?'b = 32]; cases c; simp add: entry lf_ins_16 narrow_scast cut_scast cut_scast16 cut_scast32 minus_1_words)

lemma lazy_add32: "get_lazy f (SET_FLAGS_OSZAPC_32 a b (a + b + of_bool c) (BX_LF_INSTR_ADD_ADC32 c) s) = Some (add_flag a b c f)"
  unfolding SET_FLAGS_OSZAPC_32_def
  by (rule lazy_add [where ?'b = 32]; cases c; simp add: entry lf_ins_32 narrow_scast cut_scast cut_scast16 cut_scast32 minus_1_words)

lemma lazy_sub32: "get_lazy f (SET_FLAGS_OSZAPC_32 a b (a - (b + of_bool c)) (BX_LF_INSTR_SUB_SBB32 c) s) = Some (sub_flag a b c f)"
  unfolding SET_FLAGS_OSZAPC_32_def
  by (rule lazy_sub [where ?'b = 32]; cases c; simp add: entry lf_ins_32 narrow_scast cut_scast cut_scast16 cut_scast32 minus_1_words)

lemma lazy_add64: "get_lazy f (SET_FLAGS_OSZAPC_64 a b (a + b + of_bool c) (BX_LF_INSTR_ADD_ADC64 c) s) = Some (add_flag a b c f)"
  unfolding SET_FLAGS_OSZAPC_64_def
  by (rule lazy_add [where ?'b = 64]; cases c; simp add: entry lf_ins_64 minus_1_words)

lemma lazy_sub64: "get_lazy f (SET_FLAGS_OSZAPC_64 a b (a - (b + of_bool c)) (BX_LF_INSTR_SUB_SBB64 c) s) = Some (sub_flag a b c f)"
  unfolding SET_FLAGS_OSZAPC_64_def
  by (rule lazy_sub [where ?'b = 64]; cases c; simp add: entry lf_ins_64 minus_1_words)

end
