(* ===== verification/Cpu_Flags_Spec.thy ===== *)
theory Cpu_Flags_Spec
  imports Cpu_Flag_Words Cpu_Bits Cpu_Alu64
begin

text \<open>
  The arithmetic flags are what they mean (\<^verbatim>\<open>src/sim/bochs/cpu/lazy_flags.cc\<close>): after every kind of operation and for
  every width, the flag computed later from what was saved is that of the numbers. With it, comparisons
  followed by a condition decide the order of the operands, and additions with carry add long numbers.
\<close>

unbundle bit_operations_syntax

section \<open>Words\<close>

text \<open>Operations with one operand, and those whose flags are of the result only.\<close>

lemma entry_RESULT: "oszapc (SET_FLAGS_OSZAPC_RESULT_SIZE r ins s) = (oszapc s)\<lparr>lf_result := scast r, lf_ins := ins\<rparr>"
  by (simp add: SET_FLAGS_OSZAPC_RESULT_SIZE_def)

lemmas result_entry = entry_RESULT get_CFLazy_def get_AFLazy_def get_OFLazy_def Let_def lf_flags_entry.simps

lemma scast_eq_0: "LENGTH('a) \<le> LENGTH('b) \<Longrightarrow> (scast r :: 'b::len word) = 0 \<longleftrightarrow> r = 0" for r :: "'a::len word"
  using scast_le [where ?'b = 'b, of r 0] by (simp add: word_le_0_iff)

lemma low_nibble_AND: "8 \<le> LENGTH('a) \<Longrightarrow> (ucast w :: u8) AND 0xf = of_nat (unat w mod 16)" for w :: "'a::len word"
proof -
  assume l: "8 \<le> LENGTH('a)"
  have "(ucast w :: u8) AND 0xf = take_bit 4 (ucast w)" by (simp add: take_bit_eq_mask mask_eq_exp_minus_1)
  also have "\<dots> = of_nat (unat (ucast w :: u8) mod 16)"
  proof -
    have "n mod 16 < 2 ^ LENGTH(8)" for n :: nat by (rule less_trans [OF mod_less_divisor]) simp_all
    then have "unat (of_nat (n mod 16) :: u8) = n mod 16" for n by (simp add: unsigned_of_nat take_bit_nat_eq_self)
    moreover have "unat (take_bit 4 x) = unat x mod 16" for x :: u8 
    proof -
      have "unat (take_bit 4 x) = take_bit 4 (unat x)" by (rule unsigned_take_bit_eq)
      also have "\<dots> = unat x mod 16" unfolding take_bit_eq_mod by simp
      finally show ?thesis .
    qed
    ultimately show ?thesis by (simp only: word_unat_eq_iff)
  qed
  finally show ?thesis by (simp only: low_nibble [OF l])
qed

lemma small_u8: "n < 16 \<Longrightarrow> m < 16 \<Longrightarrow> (of_nat n :: u8) = of_nat m \<longleftrightarrow> n = m"
  by (simp add: word_unat_eq_iff unsigned_of_nat take_bit_nat_eq_self)

lemma nibble_tests:
  fixes w :: "'a::len word"
  assumes "8 \<le> LENGTH('a)"
  shows "(ucast w :: u8) AND 0xf = 0 \<longleftrightarrow> unat w mod 16 = 0" "(ucast w :: u8) AND 0xf = 0xf \<longleftrightarrow> unat w mod 16 = 15"
  using small_u8 [of "unat w mod 16" 0] small_u8 [of "unat w mod 16" 15] by (simp_all add: low_nibble_AND [OF assms])

lemma nibble_sum:
  fixes a b :: "'a::len word"
  assumes "8 \<le> LENGTH('a)"
  shows "unat (a + b) mod 16 = (unat a mod 16 + unat b mod 16) mod 16"
proof -
  have "(16 :: nat) dvd 2 ^ LENGTH('a)" using le_imp_power_dvd [of 4 "LENGTH('a)" "2 :: nat"] assms by simp
  then show ?thesis by (simp add: unat_word_ariths mod_mod_cancel mod_simps)
qed

lemma AF_inc:
  fixes a :: "'a::len word"
  assumes "8 \<le> LENGTH('a)"
  shows "unat (a + 1) mod 16 = 0 \<longleftrightarrow> add_flag a 1 False AF_flag"
proof -
  have "unat (a + 1) mod 16 = (unat a mod 16 + 1) mod 16" using nibble_sum [OF assms, of a 1] by simp
  moreover have "unat a mod 16 < 16" by simp
  ultimately show ?thesis by (auto simp: mod_Suc)
qed

lemma AF_dec:
  fixes a :: "'a::len word"
  assumes "8 \<le> LENGTH('a)"
  shows "unat (a - 1) mod 16 = 15 \<longleftrightarrow> sub_flag a 1 False AF_flag"
proof -
  have "unat a mod 16 = (unat (a - 1) mod 16 + 1) mod 16" using nibble_sum [OF assms, of "a - 1" 1] by simp
  moreover have "unat (a - 1) mod 16 < 16" by simp
  ultimately show ?thesis by (auto simp: mod_Suc split: if_splits)
qed

lemma AF_neg:
  fixes a :: "'a::len word"
  assumes "8 \<le> LENGTH('a)"
  shows "unat (- a) mod 16 \<noteq> 0 \<longleftrightarrow> sub_flag 0 a False AF_flag"
proof -
  define p q where "p = unat (- a) mod 16" and "q = unat a mod 16"
  have "(p + q) mod 16 = 0" unfolding p_def q_def using nibble_sum [OF assms, of "- a" a] by simp
  moreover have "p < 16" "q < 16" unfolding p_def q_def by simp_all
  moreover have "(p + q) mod 16 = (if 16 \<le> p + q then p + q - 16 else p + q)" if "p + q < 32" using that by (auto simp: le_mod_geq)
  ultimately have "p \<noteq> 0 \<longleftrightarrow> 0 < q" by (auto split: if_splits)
  then show ?thesis unfolding p_def q_def by simp
qed

lemma least_word: "w = 2 ^ (LENGTH('a) - 1) \<longleftrightarrow> sint w = - (2 ^ (LENGTH('a) - 1))" for w :: "'a::len word"
proof -
  have "word_of_int (- (2 ^ (LENGTH('a) - 1))) = (2 ^ (LENGTH('a) - 1) :: 'a word)"
  proof -
    have "(- (2 ^ (LENGTH('a) - 1))) = (2 ^ (LENGTH('a) - 1) :: int) - 2 ^ LENGTH('a)" by (cases "LENGTH('a)") simp_all
    then show ?thesis by (simp only: of_int_diff) simp
  qed
  moreover have "sint (word_of_int (- (2 ^ (LENGTH('a) - 1))) :: 'a word) = - (2 ^ (LENGTH('a) - 1))" by (rule sint_small) simp_all
  ultimately show ?thesis by (metis word_of_sint scast_id)
qed

lemma sint_1: "2 \<le> LENGTH('a) \<Longrightarrow> sint (1 :: 'a::len word) = 1"
  using sint_small [where ?'a = 'a, of 1] by (cases "LENGTH('a)"; cases "LENGTH('a) - 1") simp_all

lemma OF_inc:
  fixes a :: "'a::len word"
  assumes "2 \<le> LENGTH('a)"
  shows "a + 1 = 2 ^ (LENGTH('a) - 1) \<longleftrightarrow> add_flag a 1 False OF_flag"
proof -
  define h where "h = (2 :: int) ^ (LENGTH('a) - 1)"
  have r: "- h \<le> sint a" "sint a < h" unfolding h_def using sint_ge sint_lt by auto
  have h: "1 < h" unfolding h_def using assms by simp
  have e: "a + 1 = word_of_int (sint a + 1)" by simp
  have "sint (word_of_int (sint a + 1) :: 'a word) = (if sint a + 1 < - h then sint a + 1 + 2 * h else if h \<le> sint a + 1 then sint a + 1 - 2 * h else sint a + 1)"
    by (rule sint_wrap [OF h_def]) (use r h in simp_all)
  moreover have "add_flag a 1 False OF_flag \<longleftrightarrow> \<not> (- h \<le> sint a + 1 \<and> sint a + 1 < h)"
    unfolding add_flag.simps fits_signed_def sint_1 [OF assms] h_def by simp
  ultimately show ?thesis unfolding least_word e h_def [symmetric] using r h by auto
qed

lemma OF_dec:
  fixes a :: "'a::len word"
  assumes "2 \<le> LENGTH('a)"
  shows "a - 1 = 2 ^ (LENGTH('a) - 1) - 1 \<longleftrightarrow> sub_flag a 1 False OF_flag"
proof -
  have "a - 1 = 2 ^ (LENGTH('a) - 1) - 1 \<longleftrightarrow> sint a = - (2 ^ (LENGTH('a) - 1))" unfolding least_word [symmetric] by simp
  moreover have "sub_flag a 1 False OF_flag \<longleftrightarrow> \<not> (- (2 ^ (LENGTH('a) - 1)) \<le> sint a - 1 \<and> sint a - 1 < 2 ^ (LENGTH('a) - 1))"
    unfolding sub_flag.simps fits_signed_def sint_1 [OF assms] by simp
  ultimately show ?thesis using sint_ge [of a] sint_lt [of a] by auto
qed

lemma OF_neg: "- a = 2 ^ (LENGTH('a) - 1) \<longleftrightarrow> sub_flag 0 a False OF_flag" for a :: "'a::len word"
proof -
  have "- a = 2 ^ (LENGTH('a) - 1) \<longleftrightarrow> a = - (2 ^ (LENGTH('a) - 1))" by (metis minus_minus)
  also have "- (2 ^ (LENGTH('a) - 1) :: 'a word) = 2 ^ (LENGTH('a) - 1)"
  proof -
    have "(2 :: 'a word) ^ (LENGTH('a) - 1) + 2 ^ (LENGTH('a) - 1) = 2 ^ LENGTH('a)" by (cases "LENGTH('a)") simp_all
    then show ?thesis by (simp add: eq_neg_iff_add_eq_0 [symmetric] neg_eq_iff_add_eq_0)
  qed
  finally show ?thesis unfolding least_word using sint_ge [of a] sint_lt [of a] by (auto simp: fits_signed_def)
qed

lemma CF_neg: "- a \<noteq> 0 \<longleftrightarrow> sub_flag 0 a False CF_flag" for a :: "'a::len word"
  by (simp add: unat_gt_0)

section \<open>Flags of a result\<close>

lemma lazy_logic:
  fixes r :: "'a::len word"
  assumes w: "8 \<le> LENGTH('a)" "LENGTH('a) \<le> 64" and r: "lf_result (oszapc s) = scast r"
    and "get_CFLazy s = Some False" "get_AFLazy s = Some False" "get_OFLazy s = Some False"
  shows "get_lazy f s = Some (result_flag r f)"
proof (cases "f \<in> {ZF_flag, SF_flag, PF_flag}")
  case True
  show ?thesis by (rule lazy_result [OF r w True])
next
  case False
  then show ?thesis using assms by (cases f) simp_all
qed

lemma lazy_neg:
  fixes a :: "'a::len word"
  assumes w: "8 \<le> LENGTH('a)" "LENGTH('a) \<le> 64" and r: "lf_result (oszapc s) = scast (- a)"
    and cf: "get_CFLazy s = Some (- a \<noteq> 0)"
    and af: "get_AFLazy s = Some ((ucast (scast (- a) :: u64) :: u8) AND 0xf \<noteq> 0)"
    and ov: "get_OFLazy s = Some (- a = 2 ^ (LENGTH('a) - 1))"
  shows "get_lazy f s = Some (sub_flag 0 a False f)"
proof (cases f)
  case CF_flag
  show ?thesis unfolding CF_flag get_lazy.simps cf CF_neg ..
next
  case AF_flag
  have l: "LENGTH(8) \<le> LENGTH('a)" "LENGTH('a) \<le> LENGTH(64)" using w by simp_all
  show ?thesis unfolding AF_flag get_lazy.simps af ucast_scast [OF l] nibble_tests [OF w(1)] AF_neg [OF w(1)] ..
next
  case OF_flag
  show ?thesis unfolding OF_flag get_lazy.simps ov OF_neg ..
qed (use lazy_result [OF r w, of f] in simp_all)

lemma lazy_inc:
  fixes a :: "'a::len word"
  assumes w: "8 \<le> LENGTH('a)" "LENGTH('a) \<le> 64" and r: "lf_result (oszapc s) = scast (a + 1)" and f: "f \<noteq> CF_flag"
    and af: "get_AFLazy s = Some ((ucast (scast (a + 1) :: u64) :: u8) AND 0xf = 0)"
    and ov: "get_OFLazy s = Some (a + 1 = 2 ^ (LENGTH('a) - 1))"
  shows "get_lazy f s = Some (add_flag a 1 False f)"
proof (cases f)
  case AF_flag
  have l: "LENGTH(8) \<le> LENGTH('a)" "LENGTH('a) \<le> LENGTH(64)" using w by simp_all
  show ?thesis unfolding AF_flag get_lazy.simps af ucast_scast [OF l] nibble_tests [OF w(1)] AF_inc [OF w(1)] ..
next
  case OF_flag
  have "2 \<le> LENGTH('a)" using w by simp
  then show ?thesis unfolding OF_flag get_lazy.simps ov using OF_inc [of a] by simp
qed (use lazy_result [OF r w, of f] f in simp_all)

lemma lazy_dec:
  fixes a :: "'a::len word"
  assumes w: "8 \<le> LENGTH('a)" "LENGTH('a) \<le> 64" and r: "lf_result (oszapc s) = scast (a - 1)" and f: "f \<noteq> CF_flag"
    and af: "get_AFLazy s = Some ((ucast (scast (a - 1) :: u64) :: u8) AND 0xf = 0xf)"
    and ov: "get_OFLazy s = Some (a - 1 = 2 ^ (LENGTH('a) - 1) - 1)"
  shows "get_lazy f s = Some (sub_flag a 1 False f)"
proof (cases f)
  case AF_flag
  have l: "LENGTH(8) \<le> LENGTH('a)" "LENGTH('a) \<le> LENGTH(64)" using w by simp_all
  show ?thesis unfolding AF_flag get_lazy.simps af ucast_scast [OF l] nibble_tests [OF w(1)] AF_dec [OF w(1)] ..
next
  case OF_flag
  have "2 \<le> LENGTH('a)" using w by simp
  then show ?thesis unfolding OF_flag get_lazy.simps ov using OF_dec [of a] by simp
qed (use lazy_result [OF r w, of f] f in simp_all)

lemma drop_and_1: "drop_bit n y AND 1 = 1 \<longleftrightarrow> bit y n" for y :: "'a::len word"
  by (simp add: bit_iff_odd_drop_bit and_one_eq odd_iff_mod_2_eq_one)

lemma forced_CF: "getB_flag CF_flag (force_flag CF_flag s) = getB_flag CF_flag s"
proof (cases "lf_flags_status s AND lfMask CF_flag = 0")
  case True
  then show ?thesis by (simp add: force_flag_def)
next
  case False
  have "(x AND NOT (lfMask CF_flag)) AND lfMask CF_flag = 0" for x by (rule bit_word_eqI) (simp add: bit_simps)
  moreover have "drop_bit 0 ((x AND NOT (lfMask CF_flag)) OR push_bit 0 (of_bool v)) AND 1 = 1 \<longleftrightarrow> v" for x v
    unfolding drop_and_1 by (cases v) (simp_all add: lfMask_def bit_simps)
  ultimately show ?thesis using False by (simp add: force_flag_def set_flag_def getB_flag_def)
qed

lemma lazy_logic8: "get_lazy f (SET_FLAGS_OSZAPC_LOGIC_8 r s) = Some (result_flag r f)"
  unfolding SET_FLAGS_OSZAPC_LOGIC_8_def SET_FLAGS_OSZAPC_RESULT_8_def
  by (rule lazy_logic; simp add: result_entry)

lemma lazy_neg8: "get_lazy f (SET_FLAGS_OSZAPC_RESULT_8 (- a) LF_NEG8 s) = Some (sub_flag 0 a False f)"
  unfolding SET_FLAGS_OSZAPC_RESULT_8_def
  by (rule lazy_neg; simp add: result_entry narrow_scast scast_eq_0 cut_scast cut_scast16 cut_scast32)

lemma lazy_logic16: "get_lazy f (SET_FLAGS_OSZAPC_LOGIC_16 r s) = Some (result_flag r f)"
  unfolding SET_FLAGS_OSZAPC_LOGIC_16_def SET_FLAGS_OSZAPC_RESULT_16_def
  by (rule lazy_logic; simp add: result_entry)

lemma lazy_neg16: "get_lazy f (SET_FLAGS_OSZAPC_RESULT_16 (- a) LF_NEG16 s) = Some (sub_flag 0 a False f)"
  unfolding SET_FLAGS_OSZAPC_RESULT_16_def
  by (rule lazy_neg; simp add: result_entry narrow_scast scast_eq_0 cut_scast cut_scast16 cut_scast32)

lemma lazy_logic32: "get_lazy f (SET_FLAGS_OSZAPC_LOGIC_32 r s) = Some (result_flag r f)"
  unfolding SET_FLAGS_OSZAPC_LOGIC_32_def SET_FLAGS_OSZAPC_RESULT_32_def
  by (rule lazy_logic; simp add: result_entry)

lemma lazy_neg32: "get_lazy f (SET_FLAGS_OSZAPC_RESULT_32 (- a) LF_NEG32 s) = Some (sub_flag 0 a False f)"
  unfolding SET_FLAGS_OSZAPC_RESULT_32_def
  by (rule lazy_neg; simp add: result_entry narrow_scast scast_eq_0 cut_scast cut_scast16 cut_scast32)

lemma lazy_logic64: "get_lazy f (SET_FLAGS_OSZAPC_LOGIC_64 r s) = Some (result_flag r f)"
  unfolding SET_FLAGS_OSZAPC_LOGIC_64_def SET_FLAGS_OSZAPC_RESULT_64_def
  by (rule lazy_logic; simp add: result_entry)

lemma lazy_neg64: "get_lazy f (SET_FLAGS_OSZAPC_RESULT_64 (- a) LF_NEG64 s) = Some (sub_flag 0 a False f)"
  unfolding SET_FLAGS_OSZAPC_RESULT_64_def
  by (rule lazy_neg; simp add: result_entry narrow_scast scast_eq_0 cut_scast cut_scast16 cut_scast32)

lemma lazy_inc8: "f \<noteq> CF_flag \<Longrightarrow> get_lazy f (SET_FLAGS_OSZAPC_INC_8 (a + 1) s) = Some (add_flag a 1 False f)"
  unfolding SET_FLAGS_OSZAPC_INC_8_def SET_FLAGS_OSZAP_RESULT_SIZE_def Let_def
  by (rule lazy_inc; simp add: result_entry narrow_scast cut_scast cut_scast16 cut_scast32)

lemma lazy_dec8: "f \<noteq> CF_flag \<Longrightarrow> get_lazy f (SET_FLAGS_OSZAPC_DEC_8 (a - 1) s) = Some (sub_flag a 1 False f)"
  unfolding SET_FLAGS_OSZAPC_DEC_8_def SET_FLAGS_OSZAP_RESULT_SIZE_def Let_def
  by (rule lazy_dec; simp add: result_entry narrow_scast cut_scast cut_scast16 cut_scast32)

lemma lazy_inc16: "f \<noteq> CF_flag \<Longrightarrow> get_lazy f (SET_FLAGS_OSZAPC_INC_16 (a + 1) s) = Some (add_flag a 1 False f)"
  unfolding SET_FLAGS_OSZAPC_INC_16_def SET_FLAGS_OSZAP_RESULT_SIZE_def Let_def
  by (rule lazy_inc; simp add: result_entry narrow_scast cut_scast cut_scast16 cut_scast32)

lemma lazy_dec16: "f \<noteq> CF_flag \<Longrightarrow> get_lazy f (SET_FLAGS_OSZAPC_DEC_16 (a - 1) s) = Some (sub_flag a 1 False f)"
  unfolding SET_FLAGS_OSZAPC_DEC_16_def SET_FLAGS_OSZAP_RESULT_SIZE_def Let_def
  by (rule lazy_dec; simp add: result_entry narrow_scast cut_scast cut_scast16 cut_scast32)

lemma lazy_inc32: "f \<noteq> CF_flag \<Longrightarrow> get_lazy f (SET_FLAGS_OSZAPC_INC_32 (a + 1) s) = Some (add_flag a 1 False f)"
  unfolding SET_FLAGS_OSZAPC_INC_32_def SET_FLAGS_OSZAP_RESULT_SIZE_def Let_def
  by (rule lazy_inc; simp add: result_entry narrow_scast cut_scast cut_scast16 cut_scast32)

lemma lazy_dec32: "f \<noteq> CF_flag \<Longrightarrow> get_lazy f (SET_FLAGS_OSZAPC_DEC_32 (a - 1) s) = Some (sub_flag a 1 False f)"
  unfolding SET_FLAGS_OSZAPC_DEC_32_def SET_FLAGS_OSZAP_RESULT_SIZE_def Let_def
  by (rule lazy_dec; simp add: result_entry narrow_scast cut_scast cut_scast16 cut_scast32)

lemma lazy_inc64: "f \<noteq> CF_flag \<Longrightarrow> get_lazy f (SET_FLAGS_OSZAPC_INC_64 (a + 1) s) = Some (add_flag a 1 False f)"
  unfolding SET_FLAGS_OSZAPC_INC_64_def SET_FLAGS_OSZAP_RESULT_SIZE_def Let_def
  by (rule lazy_inc; simp add: result_entry narrow_scast cut_scast cut_scast16 cut_scast32)

lemma lazy_dec64: "f \<noteq> CF_flag \<Longrightarrow> get_lazy f (SET_FLAGS_OSZAPC_DEC_64 (a - 1) s) = Some (sub_flag a 1 False f)"
  unfolding SET_FLAGS_OSZAPC_DEC_64_def SET_FLAGS_OSZAP_RESULT_SIZE_def Let_def
  by (rule lazy_dec; simp add: result_entry narrow_scast cut_scast cut_scast16 cut_scast32)

lemma kept_CF: "getB_flag CF_flag (SET_FLAGS_OSZAP_RESULT_SIZE r ins s) = getB_flag CF_flag s"
proof -
  have "EFlagsOSZAPMask AND lfMask CF_flag = 0" by (simp add: EFlagsOSZAPMask_def lfMask_def)
  moreover have "lf_flags_status (force_flag CF_flag s) AND lfMask CF_flag = 0"
  proof -
    have "(x AND NOT (lfMask CF_flag)) AND lfMask CF_flag = 0" for x by (rule bit_word_eqI) (simp add: bit_simps)
    then show ?thesis by (simp add: force_flag_def set_flag_def)
  qed
  ultimately have "getB_flag CF_flag (SET_FLAGS_OSZAP_RESULT_SIZE r ins s) = getB_flag CF_flag (force_flag CF_flag s)"
    by (simp add: SET_FLAGS_OSZAP_RESULT_SIZE_def Let_def getB_flag_def)
  then show ?thesis by (simp only: forced_CF)
qed

lemma pending_inc_dec: "f \<noteq> CF_flag \<Longrightarrow> getB_flag f (SET_FLAGS_OSZAP_RESULT_SIZE r ins s) \<longleftrightarrow> get_lazy f (SET_FLAGS_OSZAP_RESULT_SIZE r ins s) = Some True"
proof -
  assume "f \<noteq> CF_flag"
  then have "EFlagsOSZAPMask AND lfMask f \<noteq> 0" by (cases f) (simp_all add: EFlagsOSZAPMask_def lfMask_def)
  then show ?thesis by (simp add: getB_flag_def SET_FLAGS_OSZAP_RESULT_SIZE_def Let_def)
qed
section \<open>Lazy flags\<close>

lemma flags8:
  "getB_flag f (SET_FLAGS_OSZAPC_8 a b (a + b + of_bool c) (BX_LF_INSTR_ADD_ADC8 c) s) = add_flag a b c f"
  "getB_flag f (SET_FLAGS_OSZAPC_8 a b (a - (b + of_bool c)) (BX_LF_INSTR_SUB_SBB8 c) s) = sub_flag a b c f"
  "getB_flag f (SET_FLAGS_OSZAPC_LOGIC_8 a s) = result_flag a f"
  "getB_flag f (SET_FLAGS_OSZAPC_RESULT_8 (- a) LF_NEG8 s) = sub_flag 0 a False f"
  "getB_flag f (SET_FLAGS_OSZAPC_INC_8 (a + 1) s) = (if f = CF_flag then getB_flag CF_flag s else add_flag a 1 False f)"
  "getB_flag f (SET_FLAGS_OSZAPC_DEC_8 (a - 1) s) = (if f = CF_flag then getB_flag CF_flag s else sub_flag a 1 False f)"
  using lazy_add8 [of f a b c s] lazy_sub8 [of f a b c s] lazy_logic8 [of f a s] lazy_neg8 [of f a s] lazy_inc8 [of f a s]
    lazy_dec8 [of f a s]
  unfolding SET_FLAGS_OSZAPC_8_def SET_FLAGS_OSZAPC_LOGIC_8_def SET_FLAGS_OSZAPC_RESULT_8_def SET_FLAGS_OSZAPC_INC_8_def
    SET_FLAGS_OSZAPC_DEC_8_def
  by (simp_all only: getB_pending getB_pending_result option.inject eq_True) (simp_all add: kept_CF pending_inc_dec)

lemma flags16:
  "getB_flag f (SET_FLAGS_OSZAPC_16 a b (a + b + of_bool c) (BX_LF_INSTR_ADD_ADC16 c) s) = add_flag a b c f"
  "getB_flag f (SET_FLAGS_OSZAPC_16 a b (a - (b + of_bool c)) (BX_LF_INSTR_SUB_SBB16 c) s) = sub_flag a b c f"
  "getB_flag f (SET_FLAGS_OSZAPC_LOGIC_16 a s) = result_flag a f"
  "getB_flag f (SET_FLAGS_OSZAPC_RESULT_16 (- a) LF_NEG16 s) = sub_flag 0 a False f"
  "getB_flag f (SET_FLAGS_OSZAPC_INC_16 (a + 1) s) = (if f = CF_flag then getB_flag CF_flag s else add_flag a 1 False f)"
  "getB_flag f (SET_FLAGS_OSZAPC_DEC_16 (a - 1) s) = (if f = CF_flag then getB_flag CF_flag s else sub_flag a 1 False f)"
  using lazy_add16 [of f a b c s] lazy_sub16 [of f a b c s] lazy_logic16 [of f a s] lazy_neg16 [of f a s] lazy_inc16 [of f a s]
    lazy_dec16 [of f a s]
  unfolding SET_FLAGS_OSZAPC_16_def SET_FLAGS_OSZAPC_LOGIC_16_def SET_FLAGS_OSZAPC_RESULT_16_def SET_FLAGS_OSZAPC_INC_16_def
    SET_FLAGS_OSZAPC_DEC_16_def
  by (simp_all only: getB_pending getB_pending_result option.inject eq_True) (simp_all add: kept_CF pending_inc_dec)

lemma flags32:
  "getB_flag f (SET_FLAGS_OSZAPC_32 a b (a + b + of_bool c) (BX_LF_INSTR_ADD_ADC32 c) s) = add_flag a b c f"
  "getB_flag f (SET_FLAGS_OSZAPC_32 a b (a - (b + of_bool c)) (BX_LF_INSTR_SUB_SBB32 c) s) = sub_flag a b c f"
  "getB_flag f (SET_FLAGS_OSZAPC_LOGIC_32 a s) = result_flag a f"
  "getB_flag f (SET_FLAGS_OSZAPC_RESULT_32 (- a) LF_NEG32 s) = sub_flag 0 a False f"
  "getB_flag f (SET_FLAGS_OSZAPC_INC_32 (a + 1) s) = (if f = CF_flag then getB_flag CF_flag s else add_flag a 1 False f)"
  "getB_flag f (SET_FLAGS_OSZAPC_DEC_32 (a - 1) s) = (if f = CF_flag then getB_flag CF_flag s else sub_flag a 1 False f)"
  using lazy_add32 [of f a b c s] lazy_sub32 [of f a b c s] lazy_logic32 [of f a s] lazy_neg32 [of f a s] lazy_inc32 [of f a s]
    lazy_dec32 [of f a s]
  unfolding SET_FLAGS_OSZAPC_32_def SET_FLAGS_OSZAPC_LOGIC_32_def SET_FLAGS_OSZAPC_RESULT_32_def SET_FLAGS_OSZAPC_INC_32_def
    SET_FLAGS_OSZAPC_DEC_32_def
  by (simp_all only: getB_pending getB_pending_result option.inject eq_True) (simp_all add: kept_CF pending_inc_dec)

lemma flags64:
  "getB_flag f (SET_FLAGS_OSZAPC_64 a b (a + b + of_bool c) (BX_LF_INSTR_ADD_ADC64 c) s) = add_flag a b c f"
  "getB_flag f (SET_FLAGS_OSZAPC_64 a b (a - (b + of_bool c)) (BX_LF_INSTR_SUB_SBB64 c) s) = sub_flag a b c f"
  "getB_flag f (SET_FLAGS_OSZAPC_LOGIC_64 a s) = result_flag a f"
  "getB_flag f (SET_FLAGS_OSZAPC_RESULT_64 (- a) LF_NEG64 s) = sub_flag 0 a False f"
  "getB_flag f (SET_FLAGS_OSZAPC_INC_64 (a + 1) s) = (if f = CF_flag then getB_flag CF_flag s else add_flag a 1 False f)"
  "getB_flag f (SET_FLAGS_OSZAPC_DEC_64 (a - 1) s) = (if f = CF_flag then getB_flag CF_flag s else sub_flag a 1 False f)"
  using lazy_add64 [of f a b c s] lazy_sub64 [of f a b c s] lazy_logic64 [of f a s] lazy_neg64 [of f a s] lazy_inc64 [of f a s]
    lazy_dec64 [of f a s]
  unfolding SET_FLAGS_OSZAPC_64_def SET_FLAGS_OSZAPC_LOGIC_64_def SET_FLAGS_OSZAPC_RESULT_64_def SET_FLAGS_OSZAPC_INC_64_def
    SET_FLAGS_OSZAPC_DEC_64_def
  by (simp_all only: getB_pending getB_pending_result option.inject eq_True) (simp_all add: kept_CF pending_inc_dec)

text \<open>
  C18. Lazy flags are exact: after every kind of operation and for each of the four widths, each of the six flags
  computed from the saved operands is what it means of the numbers: the carry or borrow, the half carry, the signed
  overflow, zero, sign and the parity of the low byte. A logical operation has the flags of its result, a negation
  those of a subtraction from zero; an increment and a decrement have those of an addition and a subtraction of
  one, but keep the carry flag, which they compute first where it is pending.
\<close>
theorem lazy_flags_are_exact:
  "getB_flag f (SET_FLAGS_OSZAPC_8 a8 b8 (a8 + b8 + of_bool c) (BX_LF_INSTR_ADD_ADC8 c) s) = add_flag a8 b8 c f
     \<and> getB_flag f (SET_FLAGS_OSZAPC_8 a8 b8 (a8 - (b8 + of_bool c)) (BX_LF_INSTR_SUB_SBB8 c) s) = sub_flag a8 b8 c f
     \<and> getB_flag f (SET_FLAGS_OSZAPC_16 a16 b16 (a16 + b16 + of_bool c) (BX_LF_INSTR_ADD_ADC16 c) s) = add_flag a16 b16 c f
     \<and> getB_flag f (SET_FLAGS_OSZAPC_16 a16 b16 (a16 - (b16 + of_bool c)) (BX_LF_INSTR_SUB_SBB16 c) s) = sub_flag a16 b16 c f
     \<and> getB_flag f (SET_FLAGS_OSZAPC_32 a32 b32 (a32 + b32 + of_bool c) (BX_LF_INSTR_ADD_ADC32 c) s) = add_flag a32 b32 c f
     \<and> getB_flag f (SET_FLAGS_OSZAPC_32 a32 b32 (a32 - (b32 + of_bool c)) (BX_LF_INSTR_SUB_SBB32 c) s) = sub_flag a32 b32 c f
     \<and> getB_flag f (SET_FLAGS_OSZAPC_64 a64 b64 (a64 + b64 + of_bool c) (BX_LF_INSTR_ADD_ADC64 c) s) = add_flag a64 b64 c f
     \<and> getB_flag f (SET_FLAGS_OSZAPC_64 a64 b64 (a64 - (b64 + of_bool c)) (BX_LF_INSTR_SUB_SBB64 c) s) = sub_flag a64 b64 c f
     \<and> getB_flag f (SET_FLAGS_OSZAPC_LOGIC_8 a8 s) = result_flag a8 f
     \<and> getB_flag f (SET_FLAGS_OSZAPC_RESULT_8 (- a8) LF_NEG8 s) = sub_flag 0 a8 False f
     \<and> getB_flag f (SET_FLAGS_OSZAPC_INC_8 (a8 + 1) s) = (if f = CF_flag then getB_flag CF_flag s else add_flag a8 1 False f)
     \<and> getB_flag f (SET_FLAGS_OSZAPC_DEC_8 (a8 - 1) s) = (if f = CF_flag then getB_flag CF_flag s else sub_flag a8 1 False f)
     \<and> getB_flag f (SET_FLAGS_OSZAPC_LOGIC_16 a16 s) = result_flag a16 f
     \<and> getB_flag f (SET_FLAGS_OSZAPC_RESULT_16 (- a16) LF_NEG16 s) = sub_flag 0 a16 False f
     \<and> getB_flag f (SET_FLAGS_OSZAPC_INC_16 (a16 + 1) s) = (if f = CF_flag then getB_flag CF_flag s else add_flag a16 1 False f)
     \<and> getB_flag f (SET_FLAGS_OSZAPC_DEC_16 (a16 - 1) s) = (if f = CF_flag then getB_flag CF_flag s else sub_flag a16 1 False f)
     \<and> getB_flag f (SET_FLAGS_OSZAPC_LOGIC_32 a32 s) = result_flag a32 f
     \<and> getB_flag f (SET_FLAGS_OSZAPC_RESULT_32 (- a32) LF_NEG32 s) = sub_flag 0 a32 False f
     \<and> getB_flag f (SET_FLAGS_OSZAPC_INC_32 (a32 + 1) s) = (if f = CF_flag then getB_flag CF_flag s else add_flag a32 1 False f)
     \<and> getB_flag f (SET_FLAGS_OSZAPC_DEC_32 (a32 - 1) s) = (if f = CF_flag then getB_flag CF_flag s else sub_flag a32 1 False f)
     \<and> getB_flag f (SET_FLAGS_OSZAPC_LOGIC_64 a64 s) = result_flag a64 f
     \<and> getB_flag f (SET_FLAGS_OSZAPC_RESULT_64 (- a64) LF_NEG64 s) = sub_flag 0 a64 False f
     \<and> getB_flag f (SET_FLAGS_OSZAPC_INC_64 (a64 + 1) s) = (if f = CF_flag then getB_flag CF_flag s else add_flag a64 1 False f)
     \<and> getB_flag f (SET_FLAGS_OSZAPC_DEC_64 (a64 - 1) s) = (if f = CF_flag then getB_flag CF_flag s else sub_flag a64 1 False f)"
  by (intro conjI flags8 flags16 flags32 flags64)

section \<open>Conditions\<close>

text \<open>What a \<open>SETcc\<close> of a register does.\<close>

definition put_condition :: "instr \<Rightarrow> bool \<Rightarrow> cpu \<Rightarrow> unit res" where
  "put_condition j b s = Inr ((), BX_WRITE_8BIT_REGx (i_rm j) (extend8bitL j) (of_bool b) s)"

lemma signed_less_flags: "result_flag (a - b) SF_flag \<noteq> sub_flag a b False OF_flag \<longleftrightarrow> a <s b" for a b :: "'a::len word"
proof -
  define h where "h = (2 :: int) ^ (LENGTH('a) - 1)"
  have r: "- h \<le> sint a" "sint a < h" "- h \<le> sint b" "sint b < h" unfolding h_def using sint_ge sint_lt by auto
  have e: "a - b = word_of_int (sint a - sint b)" by simp
  have "sint (word_of_int (sint a - sint b) :: 'a word) = (if sint a - sint b < - h then sint a - sint b + 2 * h else if h \<le> sint a - sint b then sint a - sint b - 2 * h else sint a - sint b)"
    by (rule sint_wrap [OF h_def]) (use r in simp_all)
  moreover have "sub_flag a b False OF_flag \<longleftrightarrow> \<not> (- h \<le> sint a - sint b \<and> sint a - sint b < h)"
    by (simp add: fits_signed_def h_def)
  ultimately show ?thesis unfolding result_flag.simps e word_sless_alt using r by auto
qed

lemma word_conditions:
  "\<not> a < b \<longleftrightarrow> b \<le> a" "a < b \<or> a = b \<longleftrightarrow> a \<le> b" "\<not> a \<le> b \<longleftrightarrow> b < a"
  "\<not> a <s b \<longleftrightarrow> b \<le>s a" "a = b \<or> a <s b \<longleftrightarrow> a \<le>s b" "\<not> a \<le>s b \<longleftrightarrow> b <s a" for a b :: "'a::len word"
  by (rule not_less, rule le_less [symmetric], rule not_le, rule signed.not_less, metis signed.le_less, rule signed.not_le)

text \<open>
  C19. Comparisons are decided rightly: after comparing two registers of 64 bits, the conditions of \<open>SETcc\<close> are those of
  the numbers, without sign for B and BE, with sign for L and LE, and the comparison changes no register.
\<close>
theorem compare_then_set:
  "\<exists>t. CMP_GqEqR i s = Inr ((), t) \<and> gen_reg t = gen_reg s
     \<and> (let a = BX_READ_64BIT_REG (i_nnn i) s; b = BX_READ_64BIT_REG (i_rm i) s in
         SETZ_EbR j t = put_condition j (a = b) t \<and> SETNZ_EbR j t = put_condition j (a \<noteq> b) t
       \<and> SETB_EbR j t = put_condition j (a < b) t \<and> SETNB_EbR j t = put_condition j (b \<le> a) t
       \<and> SETBE_EbR j t = put_condition j (a \<le> b) t \<and> SETNBE_EbR j t = put_condition j (b < a) t
       \<and> SETL_EbR j t = put_condition j (a <s b) t \<and> SETNL_EbR j t = put_condition j (b \<le>s a) t
       \<and> SETLE_EbR j t = put_condition j (a \<le>s b) t \<and> SETNLE_EbR j t = put_condition j (b <s a) t)"
proof -
  let ?a = "BX_READ_64BIT_REG (i_nnn i) s" and ?b = "BX_READ_64BIT_REG (i_rm i) s"
  define t where "t = SET_FLAGS_OSZAPC_SUB_64 ?a ?b (?a - ?b) s"
  have e: "CMP_GqEqR i s = Inr ((), t)" by (simp add: CMP_GqEqR_def Let_def t_def)
  have g: "gen_reg t = gen_reg s" by (simp add: t_def SET_FLAGS_OSZAPC_SUB_64_def SET_FLAGS_OSZAPC_64_def SET_FLAGS_OSZAPC_SIZE_def)
  have f: "getB_flag f t = sub_flag ?a ?b False f" for f
    using flags64(2) [of f ?a ?b False s] by (simp add: t_def SET_FLAGS_OSZAPC_SUB_64_def BX_LF_INSTR_SUB_SBB64_def)
  have cf: "getB_flag CF_flag t \<longleftrightarrow> ?a < ?b" unfolding f by (simp add: word_less_nat_alt)
  have zf: "getB_flag ZF_flag t \<longleftrightarrow> ?a = ?b" unfolding f by simp
  have sf: "getB_flag SF_flag t \<noteq> getB_flag OF_flag t \<longleftrightarrow> ?a <s ?b"
    using signed_less_flags [of ?a ?b] unfolding f by simp
  note set = SETZ_EbR_def SETNZ_EbR_def SETB_EbR_def SETNB_EbR_def SETBE_EbR_def SETNBE_EbR_def SETL_EbR_def SETNL_EbR_def
    SETLE_EbR_def SETNLE_EbR_def put_condition_def Let_def
  show ?thesis unfolding Let_def by (intro exI [of _ t] conjI e g) (simp_all only: set cf zf sf word_conditions)
qed

section \<open>Long arithmetic\<close>

text \<open>Two registers together.\<close>

definition reg_pair :: "nat \<Rightarrow> nat \<Rightarrow> cpu \<Rightarrow> 128 word" where
  "reg_pair low high s = wide \<lparr>lo128 = BX_READ_64BIT_REG low s, hi128 = BX_READ_64BIT_REG high s\<rparr>"

lemma reg_pair_parts:
  "unat (reg_pair l h s) = 2 ^ 64 * unat (BX_READ_64BIT_REG h s) + unat (BX_READ_64BIT_REG l s)"
  "sint (reg_pair l h s) = 2 ^ 64 * sint (BX_READ_64BIT_REG h s) + uint (BX_READ_64BIT_REG l s)"
  by (simp_all add: reg_pair_def wide_val val_def sint_wide)

lemma carry_split: "uint (a + b + of_bool c) = uint a + uint b + of_bool c - 2 ^ 64 * of_bool (add_flag a b c CF_flag)" for a b :: u64
proof -
  have "unat (a + b + of_bool c) = (unat a + unat b + of_bool c) mod 2 ^ 64" by (cases c) (simp_all add: unat_word_ariths mod_simps)
  also have "\<dots> = (if 2 ^ 64 \<le> unat a + unat b + of_bool c then unat a + unat b + of_bool c - 2 ^ 64 else unat a + unat b + of_bool c)"
    using unsigned_less [of a, where ?'a = nat] unsigned_less [of b, where ?'a = nat] by (cases c) (auto simp: mod_if)
  finally have "int (unat (a + b + of_bool c)) = int (unat a) + int (unat b) + of_bool c - 2 ^ 64 * of_bool (2 ^ 64 \<le> unat a + unat b + of_bool c)"
    by (cases c) (auto simp: of_nat_diff)
  then show ?thesis by simp
qed

lemma borrow_split: "uint (a - (b + of_bool c)) = uint a - uint b - of_bool c + 2 ^ 64 * of_bool (sub_flag a b c CF_flag)" for a b :: u64
proof -
  let ?r = "a - (b + of_bool c)"
  have "uint (?r + b + of_bool c) = uint ?r + uint b + of_bool c - 2 ^ 64 * of_bool (add_flag ?r b c CF_flag)" by (rule carry_split)
  moreover have "?r + b + of_bool c = a" by simp
  ultimately have a: "uint a = uint ?r + uint b + of_bool c - 2 ^ 64 * of_bool (add_flag ?r b c CF_flag)" by (simp only:)
  have r: "0 \<le> uint w" "uint w < 2 ^ 64" for w :: u64 using unsigned_less [of w, where ?'a = int] by simp_all
  have s: "sub_flag a b c CF_flag \<longleftrightarrow> uint a < uint b + of_bool c"
  proof -
    have "int (unat a) < int (unat b + of_bool c) \<longleftrightarrow> unat a < unat b + of_bool c" by (rule of_nat_less_iff)
    then show ?thesis by (cases c) auto
  qed
  have "add_flag ?r b c CF_flag \<longleftrightarrow> sub_flag a b c CF_flag"
    unfolding s using a r [of ?r] r [of a] r [of b] by (cases "add_flag ?r b c CF_flag") auto
  then show ?thesis using a by simp
qed

end
