(* ===== verification/Cpu_Register_File.thy ===== *)
theory Cpu_Register_File
  imports Cpu_Flags_Spec Cpu_Mult Cpu_Move Cpu_Access_Spec
begin

text \<open>
  The register file of \<^verbatim>\<open>src/sim/bochs/cpu/cpu.h\<close> as parts that are read and written: the laws of a part and of
  two parts that do not overlap are locales, interpreted on the registers of 8, 16 and 64 bits. Exchanges,
  decimal adjustments and the materialised flags rest on them.
\<close>

unbundle bit_operations_syntax

section \<open>Parts of the register file\<close>

text \<open>A register, or a part of one: reading gives what was written, and writing changes nothing else of it.\<close>

locale register_part =
  fixes get :: "cpu \<Rightarrow> 'a" and put :: "'a \<Rightarrow> cpu \<Rightarrow> cpu"
  assumes get_put: "get (put v s) = v"
    and put_get: "put (get s) s = s"
    and put_put: "put v (put w s) = put v s"
begin

lemma put_same: "get s = v \<Longrightarrow> put v s = s"
  using put_get [of s] by simp

lemma update_update: "put (f (get (put (g (get s)) s))) (put (g (get s)) s) = put (f (g (get s))) s"
  by (simp add: get_put put_put)

end

text \<open>Two parts that do not overlap.\<close>

locale disjoint_parts = this: register_part get put + that: register_part get' put'
  for get :: "cpu \<Rightarrow> 'a" and put :: "'a \<Rightarrow> cpu \<Rightarrow> cpu" and get' :: "cpu \<Rightarrow> 'a" and put' :: "'a \<Rightarrow> cpu \<Rightarrow> cpu" +
  assumes commute: "put v (put' w s) = put' w (put v s)"
    and get_other: "get (put' w s) = get s"
    and other_get: "get' (put v s) = get' s"
begin

definition exchange :: "cpu \<Rightarrow> cpu" where "exchange s = put (get' s) (put' (get s) s)"

lemma exchange_gets: "get (exchange s) = get' s" "get' (exchange s) = get s"
  by (simp_all add: exchange_def this.get_put that.get_put other_get)

lemma exchange_twice: "exchange (exchange s) = s"
proof -
  have "exchange (exchange s) = put (get s) (put' (get' s) (exchange s))" by (simp add: exchange_def [of "exchange s"] exchange_gets)
  also have "\<dots> = put (get s) (put' (get' s) s)" by (simp add: exchange_def commute this.put_put that.put_put)
  also have "\<dots> = s" by (simp add: this.put_get that.put_get)
  finally show ?thesis .
qed

end

lemma masks: "(0xffffffffffffff00 :: u64) = NOT (mask 8)" "(0xffffffffffff00ff :: u64) = NOT (push_bit 8 (mask 8))"
  "(0xffffffffffff0000 :: u64) = NOT (mask 16)"
  by (simp_all add: mask_eq_exp_minus_1)

lemma bit_low: "bit (v :: u8) n \<Longrightarrow> n < 8" "bit (w :: u16) n \<Longrightarrow> n < 16" "bit (u :: u64) n \<Longrightarrow> n < 64"
  by (auto dest: bit_imp_le_length)

lemmas part_bits = masks bit_and_iff bit_or_iff bit_not_iff_eq bit_mask_iff bit_push_bit_iff bit_unsigned_iff bit_drop_bit_eq comp_def

lemma low_word: "ucast ((g AND 0xffffffffffffff00) OR ucast v :: u64) = (v :: u8)"
  "((g AND 0xffffffffffffff00) OR ucast (ucast g :: u8) :: u64) = g"
  "(((g AND 0xffffffffffffff00) OR ucast v) AND 0xffffffffffffff00) OR ucast v' = (g AND 0xffffffffffffff00) OR (ucast v' :: u64)"
  by (rule bit_word_eqI; auto simp: part_bits dest: bit_low)+
lemma high_word: "ucast (drop_bit 8 ((g AND 0xffffffffffff00ff) OR push_bit 8 (ucast v) :: u64)) = (v :: u8)"
  "((g AND 0xffffffffffff00ff) OR push_bit 8 (ucast (ucast (drop_bit 8 g) :: u8)) :: u64) = g"
  "(((g AND 0xffffffffffff00ff) OR push_bit 8 (ucast v)) AND 0xffffffffffff00ff) OR push_bit 8 (ucast v') = (g AND 0xffffffffffff00ff) OR (push_bit 8 (ucast v') :: u64)"
  by (rule bit_word_eqI; auto simp: part_bits dest: bit_low)+

lemma half_word: "ucast ((g AND 0xffffffffffff0000) OR ucast w :: u64) = (w :: u16)"
  "((g AND 0xffffffffffff0000) OR ucast (ucast g :: u16) :: u64) = g"
  "(((g AND 0xffffffffffff0000) OR ucast w) AND 0xffffffffffff0000) OR ucast w' = (g AND 0xffffffffffff0000) OR (ucast w' :: u64)"
  by (rule bit_word_eqI; auto simp: part_bits dest: bit_low)+

lemma both_bytes: "ucast ((g AND 0xffffffffffff00ff) OR push_bit 8 (ucast v') :: u64) = (ucast g :: u8)"
  "ucast (drop_bit 8 ((g AND 0xffffffffffffff00) OR ucast v :: u64)) = (ucast (drop_bit 8 g) :: u8)"
  "(((g AND 0xffffffffffff00ff) OR push_bit 8 (ucast v')) AND 0xffffffffffffff00) OR ucast v =
   ((g AND 0xffffffffffffff00) OR ucast v) AND 0xffffffffffff00ff OR (push_bit 8 (ucast (v' :: u8)) :: u64)" for v :: u8
  by (rule bit_word_eqI; auto simp: part_bits dest: bit_low)+

lemma register_updates:
  "gen_reg (set_rrx n v s) n = v" "set_rrx n v (set_rrx n w s) = set_rrx n v s" "set_rrx n (gen_reg s n) s = s"
  by (simp_all add: set_rrx_def)

lemma other_register: "n \<noteq> m \<Longrightarrow> gen_reg (set_rrx m v s) n = gen_reg s n"
  "n \<noteq> m \<Longrightarrow> set_rrx n v (set_rrx m w s) = set_rrx m w (set_rrx n v s)"
  by (simp_all add: set_rrx_def fun_upd_twist)

lemmas part_defs = rl_def rh_def rx_def rrx_def set_rl_def set_rh_def set_rx_def
lemmas word_parts = low_word high_word half_word both_bytes

interpretation low_byte: register_part "rl n" "set_rl n" for n
  by unfold_locales (simp_all only: part_defs register_updates word_parts)

interpretation high_byte: register_part "rh n" "set_rh n" for n
  by unfold_locales (simp_all only: part_defs register_updates word_parts)

interpretation half: register_part "rx n" "set_rx n" for n
  by unfold_locales (simp_all only: part_defs register_updates word_parts)

interpretation full: register_part "rrx n" "set_rrx n" for n
  by unfold_locales (simp_all only: part_defs register_updates)

lemma bytes_apart:
  "set_rl n v (set_rh m w s) = set_rh m w (set_rl n v s)" "rl n (set_rh m w s) = rl n s" "rh m (set_rl n v s) = rh m s"
proof -
  consider "n = m" | "n \<noteq> m" "m \<noteq> n" by blast
  then have "set_rl n v (set_rh m w s) = set_rh m w (set_rl n v s) \<and> rl n (set_rh m w s) = rl n s \<and> rh m (set_rl n v s) = rh m s"
  proof cases
    case 1
    then show ?thesis by (simp only: part_defs register_updates word_parts simp_thms)
  next
    case 2
    show ?thesis unfolding part_defs other_register(1) [OF 2(1)] other_register(1) [OF 2(2)] other_register(2) [OF 2(1)] by simp
  qed
  then show "set_rl n v (set_rh m w s) = set_rh m w (set_rl n v s)" "rl n (set_rh m w s) = rl n s" "rh m (set_rl n v s) = rh m s" by simp_all
qed

interpretation bytes: disjoint_parts "rl n" "set_rl n" "rh m" "set_rh m" for n m
  by unfold_locales (rule bytes_apart)+

lemma disjoint_registers:
  assumes "n \<noteq> m"
  shows "disjoint_parts (rl n) (set_rl n) (rl m) (set_rl m)" "disjoint_parts (rh n) (set_rh n) (rh m) (set_rh m)"
    "disjoint_parts (rx n) (set_rx n) (rx m) (set_rx m)" "disjoint_parts (rrx n) (set_rrx n) (rrx m) (set_rrx m)"
  using assms by (unfold_locales; simp only: part_defs other_register not_sym)+

text \<open>A byte register: the low byte of a register, or the second byte of one of the first four.\<close>

lemma exchange_again:
  assumes "disjoint_parts get put get' put'"
  shows "put (get' (put (get' s) (put' (get s) s))) (put' (get (put (get' s) (put' (get s) s))) (put (get' s) (put' (get s) s))) = s"
  using disjoint_parts.exchange_twice [OF assms, of s] by (simp only: disjoint_parts.exchange_def [OF assms])

lemma self_exchange:
  assumes "register_part get put"
  shows "put (get (put (get s) (put (get s) s))) (put (get (put (get s) (put (get s) s))) (put (get s) (put (get s) s))) = s"
  by (simp only: register_part.put_get [OF assms])

lemma symmetric_parts:
  assumes "disjoint_parts get put get' put'"
  shows "disjoint_parts get' put' get put"
  using assms unfolding disjoint_parts_def disjoint_parts_axioms_def by simp

text \<open>A byte register: the low byte of a register, or the second byte of one of the first four.\<close>

lemma byte_register:
  "BX_READ_8BIT_REGx r x = (if r AND 4 = 0 \<or> x then rl r else rh (r - 4))"
  "BX_WRITE_8BIT_REGx r x = (if r AND 4 = 0 \<or> x then set_rl r else set_rh (r - 4))"
  by (auto simp: fun_eq_iff BX_READ_8BIT_REGx_def BX_WRITE_8BIT_REGx_def)

interpretation byte: register_part "BX_READ_8BIT_REGx r x" "BX_WRITE_8BIT_REGx r x" for r x
  unfolding byte_register by (simp add: low_byte.register_part_axioms high_byte.register_part_axioms)

lemma byte_registers:
  "BX_READ_8BIT_REGx r x = BX_READ_8BIT_REGx q x \<and> BX_WRITE_8BIT_REGx r x = BX_WRITE_8BIT_REGx q x \<or>
   disjoint_parts (BX_READ_8BIT_REGx r x) (BX_WRITE_8BIT_REGx r x) (BX_READ_8BIT_REGx q x) (BX_WRITE_8BIT_REGx q x)"
proof -
  define r' q' where "r' = r - 4" and "q' = q - 4"
  define a b where "a \<longleftrightarrow> r AND 4 = 0 \<or> x" and "b \<longleftrightarrow> q AND 4 = 0 \<or> x"
  note lh = bytes.disjoint_parts_axioms symmetric_parts [OF bytes.disjoint_parts_axioms]
  show ?thesis unfolding byte_register a_def [symmetric] b_def [symmetric] r'_def [symmetric] q'_def [symmetric]
    using disjoint_registers(1) [of r q] disjoint_registers(2) [of r' q'] lh by (cases a; cases b) auto
qed

text \<open>
  Exchanging two registers twice, of 8, 16 or 64 bits, changes nothing, whatever the two registers are: the same, two
  parts of one.
\<close>
theorem xchg_twice:
  "rbind (XCHG_EbGbR i s) (\<lambda>_. XCHG_EbGbR i) = Inr ((), s) \<and> rbind (XCHG_EwGwR i s) (\<lambda>_. XCHG_EwGwR i) = Inr ((), s)
   \<and> rbind (XCHG_EqGqR i s) (\<lambda>_. XCHG_EqGqR i) = Inr ((), s)"
proof (intro conjI)
  show "rbind (XCHG_EwGwR i s) (\<lambda>_. XCHG_EwGwR i) = Inr ((), s)"
  proof (cases "i_rm i = i_nnn i")
    case True
    then show ?thesis using self_exchange [OF half.register_part_axioms, of "i_rm i" s]
      by (simp add: XCHG_EwGwR_def Let_def BX_READ_16BIT_REG_def BX_WRITE_16BIT_REG_def)
  next
    case False
    then show ?thesis using exchange_again [OF disjoint_registers(3) [OF False], of s]
      by (simp add: XCHG_EwGwR_def Let_def BX_READ_16BIT_REG_def BX_WRITE_16BIT_REG_def)
  qed
  show "rbind (XCHG_EqGqR i s) (\<lambda>_. XCHG_EqGqR i) = Inr ((), s)"
  proof (cases "i_rm i = i_nnn i")
    case True
    then show ?thesis using self_exchange [OF full.register_part_axioms, of "i_rm i" s]
      by (simp add: XCHG_EqGqR_def Let_def BX_READ_64BIT_REG_def BX_WRITE_64BIT_REG_def)
  next
    case False
    then show ?thesis using exchange_again [OF disjoint_registers(4) [OF False], of s]
      by (simp add: XCHG_EqGqR_def Let_def BX_READ_64BIT_REG_def BX_WRITE_64BIT_REG_def)
  qed
  show "rbind (XCHG_EbGbR i s) (\<lambda>_. XCHG_EbGbR i) = Inr ((), s)"
  proof (cases "disjoint_parts (BX_READ_8BIT_REGx (i_rm i) (extend8bitL i)) (BX_WRITE_8BIT_REGx (i_rm i) (extend8bitL i))
      (BX_READ_8BIT_REGx (i_nnn i) (extend8bitL i)) (BX_WRITE_8BIT_REGx (i_nnn i) (extend8bitL i))")
    case True
    then show ?thesis using exchange_again [OF True, of s] by (simp add: XCHG_EbGbR_def Let_def)
  next
    case False
    then show ?thesis using byte_registers [of "i_rm i" "extend8bitL i" "i_nnn i"] self_exchange [OF byte.register_part_axioms, of "i_rm i" "extend8bitL i" s]
      by (simp add: XCHG_EbGbR_def Let_def)
  qed
qed

section \<open>Decimal digits\<close>

lemma digits_again:
  fixes a b :: u8
  assumes "b \<noteq> 0"
  shows "(ucast (a div b) * ucast b + ucast (a mod b)) AND 0xff = (ucast a :: u16)"
proof -
  have l: "LENGTH(8) \<le> LENGTH(16)" by simp
  have a: "unat a < 256" using unsigned_less [of a, where ?'a = nat] by simp
  have "ucast (a div b) * ucast b + ucast (a mod b) = (word_of_nat (unat a div unat b * unat b + unat a mod unat b) :: u16)"

  proof -
    have "(ucast w :: u16) = word_of_nat (unat w)" for w :: u8 by simp
    then show ?thesis by (simp only: unat_div unat_mod of_nat_add of_nat_mult)
  qed
  also have "\<dots> = word_of_nat (unat a)" by (simp only: div_mult_mod_eq)
  also have "\<dots> = ucast a" by simp
  finally have e: "ucast (a div b) * ucast b + ucast (a mod b) = (ucast a :: u16)" .
  have "(0xff :: u16) = mask 8" by (simp add: mask_eq_exp_minus_1)
  then show ?thesis unfolding e by (simp add: bit_eq_iff bit_simps) (auto dest: bit_imp_le_length)
qed

lemma AL_AH_parts: "AL (set_AL v s) = v" "AH (set_AL v (set_AH w s)) = w" "AX (set_AX x s) = x" "AL (set_AH w s) = AL s"
  unfolding AL_def AH_def AX_def set_AL_def set_AH_def set_AX_def
  by (simp_all only: low_byte.get_put half.get_put bytes.get_other bytes.other_get high_byte.get_put)

text \<open>
  Two decimal digits and back: \<open>AAM\<close> splits the byte in AL into the quotient and the remainder by the base in the
  instruction, and \<open>AAD\<close> with the same base puts the byte together again, for every base but zero.
\<close>
theorem aam_aad_roundtrip:
  assumes "i_Ib i \<noteq> 0"
  shows "\<exists>t. rbind (AAM i s) (\<lambda>_. AAD i) = Inr ((), t) \<and> AX t = ucast (AL s)"
proof -
  have f: "AX (SET_FLAGS_OSZAPC_LOGIC_8 r u) = AX u" "AL (SET_FLAGS_OSZAPC_LOGIC_8 r u) = AL u" "AH (SET_FLAGS_OSZAPC_LOGIC_8 r u) = AH u" for r u
    by (simp_all add: AX_def AL_def AH_def rx_def rl_def rh_def SET_FLAGS_OSZAPC_LOGIC_8_def SET_FLAGS_OSZAPC_RESULT_8_def SET_FLAGS_OSZAPC_RESULT_SIZE_def)
  show ?thesis using assms by (simp add: AAM_def AAD_def Let_def f AL_AH_parts digits_again)
qed

definition base_ten :: instr where
  "base_ten = \<lparr>i_resolver = BxResolve64Base, metaInfo1 = 0, metaInfo3 = 0, i_seg = 3, i_nnn = 0, i_rm = 0, sibBase = 0,
     sibIndex = 4, sibScale = 0, i_Id = 10, displ32u = 0\<rparr>"

lemma aam_aad_roundtrip_witness:
  "i_Ib base_ten = 10 \<and> (\<exists>t. rbind (AAM base_ten (small_machine\<lparr>gen_reg := (\<lambda>_. 0x7b)\<rparr>)) (\<lambda>_. AAD base_ten) = Inr ((), t) \<and> AX t = 123)"
  using aam_aad_roundtrip [of base_ten "small_machine\<lparr>gen_reg := (\<lambda>_. 0x7b)\<rparr>"]
  by (simp add: base_ten_def i_Ib_def AL_def rl_def)

section \<open>Materialised flags\<close>

lemma own_bit: "bit (lfMask f) n \<longleftrightarrow> n = bitShift f" 
proof -
  have "bitShift f < 32" by (cases f) simp_all
  then show ?thesis unfolding lfMask_def bit_push_bit_iff bit_1_iff by auto
qed

lemma all_flags_mask: "bit EFlagsOSZAPCMask n \<longleftrightarrow> n \<in> range bitShift"
proof -
  have "range bitShift = bitShift ` {CF_flag, PF_flag, AF_flag, ZF_flag, SF_flag, OF_flag}"
    by (rule arg_cong [where f = "image bitShift"]) (auto intro: arith_flag.exhaust)
  then show ?thesis unfolding EFlagsOSZAPCMask_def bit_or_iff own_bit by auto
qed

lemma bitShift_inj: "bitShift f = bitShift g \<longleftrightarrow> f = g"
  by (cases f; cases g; simp)

lemma get_flag_getB: "get_flag f s = getB_flag f s"
proof -
  have "x AND lfMask f \<noteq> 0 \<longleftrightarrow> bit x (bitShift f)" for x
    unfolding lfMask_def by (simp add: push_bit_eq_mult and_exp_eq_0_iff_not_bit)
  from this [of "eflags s"] show ?thesis
    by (cases "lf_flags_status s AND lfMask f = 0") (simp_all add: get_flag_def getB_flag_def drop_and_1)
qed

text \<open>
  Materialising the flags keeps them: what \<open>force_flags\<close> puts into the register is what the six flags were, the other
  bits of the register and all the rest of the state are unchanged, and no flag is pending any more.
\<close>
theorem force_flags_keeps_flags:
  "\<exists>t. force_flags s = (eflags t, t) \<and> getB_flag f t = getB_flag f s \<and> (bit (eflags t) (bitShift f) \<longleftrightarrow> getB_flag f s)
     \<and> eflags t AND NOT EFlagsOSZAPCMask = eflags s AND NOT EFlagsOSZAPCMask \<and> lf_flags_status t = 0
     \<and> t\<lparr>eflags := eflags s, lf_flags_status := lf_flags_status s\<rparr> = s"
proof (cases "lf_flags_status s = 0")
  case True
  then show ?thesis by (simp add: force_flags_def getB_flag_def drop_and_1)
next
  case False
  define v where "v = flag_bit CF_flag s OR flag_bit PF_flag s OR flag_bit AF_flag s OR flag_bit ZF_flag s OR flag_bit SF_flag s OR flag_bit OF_flag s"
  define t where "t = setEFlagsOSZAPC v s"
  have v: "bit v (bitShift f) \<longleftrightarrow> getB_flag f s"
    unfolding v_def bit_or_iff flag_bit_def get_flag_getB by (cases f) (auto simp: own_bit)
  have m: "bit EFlagsOSZAPCMask (bitShift f)" by (simp add: all_flags_mask)
  have b: "bitShift f < 32" by (cases f) simp_all
  have e: "eflags t = (eflags s AND NOT EFlagsOSZAPCMask) OR (v AND EFlagsOSZAPCMask)" "lf_flags_status t = 0"
    by (simp_all add: t_def setEFlagsOSZAPC_def)
  have bit: "bit (eflags t) (bitShift f) \<longleftrightarrow> getB_flag f s" using m v b by (simp add: e bit_simps)
  have "getB_flag f t \<longleftrightarrow> bit (eflags t) (bitShift f)" by (simp add: getB_flag_def e(2) drop_and_1)
  moreover have "eflags t AND NOT EFlagsOSZAPCMask = eflags s AND NOT EFlagsOSZAPCMask"
    unfolding e by (rule bit_word_eqI) (auto simp: bit_simps)
  moreover have "force_flags s = (eflags t, t)" using False by (simp add: force_flags_def Let_def t_def v_def)
  moreover have "t\<lparr>eflags := eflags s, lf_flags_status := lf_flags_status s\<rparr> = s" by (simp add: t_def setEFlagsOSZAPC_def)
  ultimately show ?thesis using bit e(2) by blast
qed

end
