(* ===== verification/Cpu_Mult_Spec.thy ===== *)
theory Cpu_Mult_Spec
  imports Cpu_Mult Cpu_Flags_Spec
begin

text \<open>
  Division of 8, 16 and 32 bits (\<^verbatim>\<open>src/sim/bochs/cpu/mult8.cc\<close>, \<^verbatim>\<open>mult16.cc\<close>, \<^verbatim>\<open>mult32.cc\<close>): the code divides words of twice
  the width and compares the quotient with its low half.
\<close>

unbundle bit_operations_syntax

lemma unat_wider: "LENGTH('a) \<le> LENGTH('b) \<Longrightarrow> unat (ucast w :: 'b::len word) = unat w" for w :: "'a::len word"
  by (simp add: unsigned_ucast_eq) (metis le_trans less_le_trans one_le_numeral power_increasing take_bit_nat_eq_self unsigned_less)

text \<open>A quotient that its low part stands for.\<close>

lemma cut_fits:
  fixes w :: "'a::len word"
  assumes "LENGTH('b) \<le> LENGTH('a)"
  shows "w \<noteq> ucast (ucast w :: 'b::len word) \<longleftrightarrow> 2 ^ LENGTH('b) \<le> unat w"
proof -
  have "unat (ucast (ucast w :: 'b word) :: 'a word) = unat w mod 2 ^ LENGTH('b)"
    unfolding unat_wider [OF assms] by (simp add: unsigned_ucast_eq take_bit_eq_mod)
  moreover have "unat w mod 2 ^ LENGTH('b) = unat w \<longleftrightarrow> unat w < 2 ^ LENGTH('b)"
    by (metis mod_less mod_less_divisor zero_less_numeral zero_less_power)
  ultimately show ?thesis by (metis not_le word_unat_eq_iff)
qed

lemma AND_all: "w AND 0xff = (w :: u8)" "v AND 0xffff = (v :: u16)" "u AND 0xffffffff = (u :: u32)"
  unfolding minus_1_words by simp_all

lemma unat_div_mod: "unat (a div b) = unat a div unat b" "unat (a mod b) = unat a mod unat b" for a b :: "'a::len word"
  by (simp_all add: unat_div unat_mod)

lemma cut_division:
  fixes a :: "'a::len word" and d :: "'b::len word"
  assumes "LENGTH('b) \<le> LENGTH('a)"
  shows "a div ucast d \<noteq> ucast (ucast (a div ucast d) :: 'b word) \<longleftrightarrow> 2 ^ LENGTH('b) \<le> unat a div unat d"
    "(ucast (a div ucast d) :: 'b word) = word_of_nat (unat a div unat d)" "(ucast (a mod ucast d) :: 'b word) = word_of_nat (unat a mod unat d)"
proof -
  have c: "(ucast w :: 'b word) = word_of_nat (unat w)" for w :: "'a word" by simp
  show "a div ucast d \<noteq> ucast (ucast (a div ucast d) :: 'b word) \<longleftrightarrow> 2 ^ LENGTH('b) \<le> unat a div unat d"
    by (simp only: cut_fits [OF assms] unat_div_mod unat_wider [OF assms])
  show "(ucast (a div ucast d) :: 'b word) = word_of_nat (unat a div unat d)" "(ucast (a mod ucast d) :: 'b word) = word_of_nat (unat a mod unat d)"
    by (simp_all only: c unat_div_mod unat_wider [OF assms])
qed

lemma joined16: "unat (push_bit 16 (ucast h) OR ucast l :: u32) = 2 ^ 16 * unat h + unat l" for h l :: u16
proof -
  have "push_bit 16 (ucast h) AND ucast l = (0 :: u32)"
    by (rule bit_word_eqI) (auto simp: bit_and_iff bit_push_bit_iff bit_unsigned_iff dest: bit_imp_le_length)
  then have "push_bit 16 (ucast h) OR ucast l = (push_bit 16 (ucast h) + ucast l :: u32)" by (simp only: disjunctive_add_eq_or)
  moreover have "2 ^ 16 * unat h + unat l < 2 ^ 32"
    using unsigned_less [of h, where ?'a = nat] unsigned_less [of l, where ?'a = nat] by simp
  ultimately show ?thesis
    by (simp add: push_bit_eq_mult unat_word_ariths unsigned_ucast_eq take_bit_nat_eq_self mult.commute)
qed

lemma joined32: "unat (push_bit 32 (ucast h) + ucast l :: u64) = 2 ^ 32 * unat h + unat l" for h l :: u32
  using two_digits [of l h] by (simp only: add.commute)

lemma disj_ifs: "(if b then x else if c then x else y) = (if b \<or> c then x else y)"
  by simp

lemma small_div_is_division:
  "DIV_ALEbR i s =
     (let a = unat (AX s); d = unat (BX_READ_8BIT_REGx (i_rm i) (extend8bitL i) s) in
      if d = 0 \<or> 2 ^ 8 \<le> a div d then Inl (Exn DE_EXCEPTION 0, s)
      else Inr ((), set_AH (word_of_nat (a mod d)) (set_AL (word_of_nat (a div d)) s)))
   \<and> DIV_AXEwR i s =
     (let a = 2 ^ 16 * unat (DX s) + unat (AX s); d = unat (BX_READ_16BIT_REG (i_rm i) s) in
      if d = 0 \<or> 2 ^ 16 \<le> a div d then Inl (Exn DE_EXCEPTION 0, s)
      else Inr ((), set_DX (word_of_nat (a mod d)) (set_AX (word_of_nat (a div d)) s)))
   \<and> DIV_EAXEdR i s =
     (let a = 2 ^ 32 * unat (EDX s) + unat (EAX s); d = unat (BX_READ_32BIT_REG (i_rm i) s) in
      if d = 0 \<or> 2 ^ 32 \<le> a div d then Inl (Exn DE_EXCEPTION 0, s)
      else Inr ((), set_RDX (ucast (word_of_nat (a mod d) :: u32)) (set_RAX (ucast (word_of_nat (a div d) :: u32)) s)))"
proof (intro conjI)
  have e: "exception DE_EXCEPTION 0 s = Inl (Exn DE_EXCEPTION 0, s)" by (rule exception_def)
  have l: "LENGTH(8) \<le> LENGTH(16)" "LENGTH(16) \<le> LENGTH(32)" "LENGTH(32) \<le> LENGTH(64)" by simp_all
  have n: "LENGTH(8) = 8" "LENGTH(16) = 16" "LENGTH(32) = 32" by simp_all
  show "DIV_ALEbR i s =
     (let a = unat (AX s); d = unat (BX_READ_8BIT_REGx (i_rm i) (extend8bitL i) s) in
      if d = 0 \<or> 2 ^ 8 \<le> a div d then Inl (Exn DE_EXCEPTION 0, s)
      else Inr ((), set_AH (word_of_nat (a mod d)) (set_AL (word_of_nat (a div d)) s)))"
    unfolding DIV_ALEbR_def Let_def AND_all e unfolding cut_division(1) [OF l(1)]
    unfolding cut_division(2,3) [OF l(1)] unat_0 n by (simp only: disj_ifs)
  show "DIV_AXEwR i s =
     (let a = 2 ^ 16 * unat (DX s) + unat (AX s); d = unat (BX_READ_16BIT_REG (i_rm i) s) in
      if d = 0 \<or> 2 ^ 16 \<le> a div d then Inl (Exn DE_EXCEPTION 0, s)
      else Inr ((), set_DX (word_of_nat (a mod d)) (set_AX (word_of_nat (a div d)) s)))"
    unfolding DIV_AXEwR_def Let_def AND_all e unfolding cut_division(1) [OF l(2)]
    unfolding cut_division(2,3) [OF l(2)] unat_0 n joined16 by (simp only: disj_ifs)
  show "DIV_EAXEdR i s =
     (let a = 2 ^ 32 * unat (EDX s) + unat (EAX s); d = unat (BX_READ_32BIT_REG (i_rm i) s) in
      if d = 0 \<or> 2 ^ 32 \<le> a div d then Inl (Exn DE_EXCEPTION 0, s)
      else Inr ((), set_RDX (ucast (word_of_nat (a mod d) :: u32)) (set_RAX (ucast (word_of_nat (a div d) :: u32)) s)))"
    unfolding DIV_EAXEdR_def Let_def AND_all e unfolding cut_division(1) [OF l(3)]
    unfolding cut_division(2,3) [OF l(3)] unat_0 n joined32 by (simp only: disj_ifs)
qed

text \<open>
  C21. Unsigned division of 8, 16, 32 and 64 bits divides: the divide error is raised exactly when the divisor is zero or
  the quotient is too long for its register, and otherwise the two registers get the quotient and the remainder
  and nothing else changes; those of 32 bits clear the upper halves. For 64 bits this is about the loop that shifts
  and subtracts.
\<close>
theorem div_is_division:
  "DIV_ALEbR i s =
     (let a = unat (AX s); d = unat (BX_READ_8BIT_REGx (i_rm i) (extend8bitL i) s) in
      if d = 0 \<or> 2 ^ 8 \<le> a div d then Inl (Exn DE_EXCEPTION 0, s)
      else Inr ((), set_AH (word_of_nat (a mod d)) (set_AL (word_of_nat (a div d)) s)))
   \<and> DIV_AXEwR i s =
     (let a = 2 ^ 16 * unat (DX s) + unat (AX s); d = unat (BX_READ_16BIT_REG (i_rm i) s) in
      if d = 0 \<or> 2 ^ 16 \<le> a div d then Inl (Exn DE_EXCEPTION 0, s)
      else Inr ((), set_DX (word_of_nat (a mod d)) (set_AX (word_of_nat (a div d)) s)))
   \<and> DIV_EAXEdR i s =
     (let a = 2 ^ 32 * unat (EDX s) + unat (EAX s); d = unat (BX_READ_32BIT_REG (i_rm i) s) in
      if d = 0 \<or> 2 ^ 32 \<le> a div d then Inl (Exn DE_EXCEPTION 0, s)
      else Inr ((), set_RDX (ucast (word_of_nat (a mod d) :: u32)) (set_RAX (ucast (word_of_nat (a div d) :: u32)) s)))
   \<and> DIV_RAXEqR i s =
     (let a = RDX_RAX s; d = unat (BX_READ_64BIT_REG (i_rm i) s) in
      if d = 0 \<or> 2 ^ 64 \<le> a div d then Inl (Exn DE_EXCEPTION 0, s)
      else Inr ((), set_RDX (word_of_nat (a mod d)) (set_RAX (word_of_nat (a div d)) s)))"
  by (intro conjI small_div_is_division [THEN conjunct1] small_div_is_division [THEN conjunct2, THEN conjunct1]
      small_div_is_division [THEN conjunct2, THEN conjunct2] div64_is_division)

end
