(* ===== verification/Cpu_Bits_Spec.thy ===== *)
theory Cpu_Bits_Spec
  imports Cpu_Flags_Spec
begin

text \<open>
  The bit scans of \<^verbatim>\<open>src/sim/bochs/cpu/bit16.cc\<close>, \<^verbatim>\<open>bit32.cc\<close> and \<^verbatim>\<open>bit64.cc\<close> find the ends of the operand.
\<close>

unbundle bit_operations_syntax

lemma bits_finite: "finite {n. bit w n}" for w :: "'a::len word"
  by (rule finite_subset [of _ "{..<LENGTH('a)}"]) (auto dest: bit_imp_le_length)

lemma bits_nonempty: "w \<noteq> 0 \<Longrightarrow> {n. bit w n} \<noteq> {}" for w :: "'a::len word"
  by (auto simp: bit_eq_iff)

lemma Min_Suc: "finite A \<Longrightarrow> A \<noteq> {} \<Longrightarrow> Min (Suc ` A) = Suc (Min A)"
  by (simp add: mono_Min_commute [symmetric] mono_def)

lemma Max_Suc: "finite A \<Longrightarrow> A \<noteq> {} \<Longrightarrow> Max (Suc ` A) = Suc (Max A)"
  by (simp add: mono_Max_commute [symmetric] mono_def)

lemma bsf_loop_least: "w \<noteq> 0 \<Longrightarrow> bsf_loop w a = a + word_of_nat (Min {n. bit w n})" for w :: "'a::len word"
proof (induction w a rule: bsf_loop.induct)
  case (1 w a)
  show ?case
  proof (cases "bit w 0")
    case True
    then have "Min {n. bit w n} = 0" using bits_finite [of w] by (intro Min_eqI) auto
    moreover have "w AND 1 \<noteq> 0" using True by (simp add: and_one_eq bit_0 odd_iff_mod_2_eq_one)
    ultimately show ?thesis by (subst bsf_loop.simps) simp
  next
    case False
    then have o: "w AND 1 = 0" by (simp add: and_one_eq bit_0 even_iff_mod_2_eq_zero)
    have s: "{n. bit w n} = Suc ` {n. bit (drop_bit 1 w) n}"
    proof (intro set_eqI iffI)
      fix n assume "n \<in> {n. bit w n}"
      then show "n \<in> Suc ` {n. bit (drop_bit 1 w) n}" using False by (cases n) (auto simp: bit_drop_bit_eq)
    qed (auto simp: bit_drop_bit_eq)
    then have d: "drop_bit 1 w \<noteq> 0" using bits_nonempty [OF 1(2)] by auto
    have "bsf_loop w a = bsf_loop (drop_bit 1 w) (a + 1)" using 1(2) o by (subst bsf_loop.simps) simp
    also have "\<dots> = a + 1 + word_of_nat (Min {n. bit (drop_bit 1 w) n})" using 1 o d by simp
    also have "\<dots> = a + word_of_nat (Min {n. bit w n})"
      unfolding s Min_Suc [OF bits_finite bits_nonempty [OF d]] by simp
    finally show ?thesis .
  qed
qed

lemma bsr_loop_greatest: "w \<noteq> 0 \<Longrightarrow> bsr_loop w a = a - word_of_nat (LENGTH('a) - 1 - Max {n. bit w n})" for w :: "'a::len word"
proof (induction w a rule: bsr_loop.induct)
  case (1 w a)
  let ?n = "LENGTH('a) - 1"
  have m: "w AND push_bit ?n 1 = 0 \<longleftrightarrow> \<not> bit w ?n" by (simp add: and_exp_eq_0_iff_not_bit push_bit_eq_mult)
  show ?case
  proof (cases "bit w ?n")
    case True
    then have "Max {n. bit w n} = ?n" using bits_finite [of w] by (intro Max_eqI) (auto dest!: bit_imp_le_length)
    then show ?thesis using True m by (subst bsr_loop.simps) simp
  next
    case False
    have s: "{n. bit (push_bit 1 w) n} = Suc ` {n. bit w n}"
    proof (intro set_eqI iffI)
      fix n assume "n \<in> {n. bit (push_bit 1 w) n}"
      then show "n \<in> Suc ` {n. bit w n}" unfolding mem_Collect_eq bit_push_bit_iff by (cases n) auto
    next
      fix n assume "n \<in> Suc ` {n. bit w n}"
      then obtain k where k: "n = Suc k" "bit w k" by auto
      then have "k \<noteq> ?n" "k < LENGTH('a)" using False bit_imp_le_length by auto
      then show "n \<in> {n. bit (push_bit 1 w) n}" using k unfolding mem_Collect_eq bit_push_bit_iff by simp
    qed
    have p: "push_bit 1 w \<noteq> 0" using s bits_nonempty [OF 1(2)] by auto
    have "Max {n. bit (push_bit 1 w) n} \<in> {n. bit (push_bit 1 w) n}" by (rule Max_in [OF bits_finite bits_nonempty [OF p]])
    then have lt: "Suc (Max {n. bit w n}) \<le> ?n"
      unfolding s Max_Suc [OF bits_finite bits_nonempty [OF 1(2)]] by (auto simp: s [symmetric] dest!: bit_imp_le_length)
    have "bsr_loop w a = bsr_loop (push_bit 1 w) (a - 1)" using 1(2) False m by (subst bsr_loop.simps) simp
    also have "\<dots> = a - 1 - word_of_nat (?n - Suc (Max {n. bit w n}))"
      using 1 False m p unfolding s Max_Suc [OF bits_finite bits_nonempty [OF 1(2)]] by simp
    also have "\<dots> = a - word_of_nat (?n - Max {n. bit w n})"
    proof -
      have "?n - Max {n. bit w n} = Suc (?n - Suc (Max {n. bit w n}))" using lt by simp
      then show ?thesis by (simp del: of_nat_diff)
    qed
    finally show ?thesis .
  qed
qed

lemma status_cleared: "lf_flags_status (clear_flag f s) AND lfMask f = 0" "lf_flags_status (assert_flag f s) AND lfMask f = 0"
  by (auto intro!: bit_word_eqI simp: clear_flag_def assert_flag_def bit_simps)

lemma bit_own_mask: "bit (lfMask f) (bitShift f)"
  by (cases f) (simp_all add: lfMask_def bit_simps)

lemma getB_clear: "\<not> getB_flag f (clear_flag f s)" "getB_flag f (assert_flag f s)"
  unfolding getB_flag_def status_cleared drop_and_1 by (simp_all add: clear_flag_def assert_flag_def bit_simps bit_own_mask)

lemma lazy_registers: "getB_flag f (s\<lparr>gen_reg := g\<rparr>) = getB_flag f s"
  by (cases f) (simp_all add: getB_flag_def get_CFLazy_def get_AFLazy_def get_OFLazy_def get_ZFLazy_def get_SFLazy_def get_PFLazy_def)

text \<open>
  C24. Bit scans of 64 bits: the loops of BSF and BSR end, the result is the number of the least and of the greatest bit that is
  set, the zero flag says that there is none, and then the destination is left alone.
\<close>
theorem bit_scans_find_the_ends:
  "\<exists>t u. BSF_GqEqR i s = Inr ((), t) \<and> BSR_GqEqR i s = Inr ((), u)
     \<and> (let w = BX_READ_64BIT_REG (i_rm i) s in
        getB_flag ZF_flag t = (w = 0) \<and> getB_flag ZF_flag u = (w = 0)
      \<and> BX_READ_64BIT_REG (i_nnn i) t = (if w = 0 then BX_READ_64BIT_REG (i_nnn i) s else word_of_nat (Min {n. bit w n}))
      \<and> BX_READ_64BIT_REG (i_nnn i) u = (if w = 0 then BX_READ_64BIT_REG (i_nnn i) s else word_of_nat (Max {n. bit w n})))"
proof (cases "BX_READ_64BIT_REG (i_rm i) s = 0")
  case True
  have "gen_reg (assert_flag ZF_flag s) = gen_reg s" by (simp add: assert_flag_def)
  then show ?thesis using True by (simp add: BSF_GqEqR_def BSR_GqEqR_def Let_def getB_clear BX_READ_64BIT_REG_def rrx_def)
next
  case False
  let ?w = "BX_READ_64BIT_REG (i_rm i) s"
  have "Max {n. bit ?w n} \<in> {n. bit ?w n}" by (rule Max_in [OF bits_finite bits_nonempty [OF False]])
  then have "Max {n. bit ?w n} \<le> 63" by (auto dest!: bit_imp_le_length)
  then have "(63 :: u64) - word_of_nat (63 - Max {n. bit ?w n}) = word_of_nat (Max {n. bit ?w n})" by (simp add: of_nat_diff)
  then have g: "bsr_loop ?w 63 = word_of_nat (Max {n. bit ?w n})" using bsr_loop_greatest [OF False, of 63] by simp
  have l: "bsf_loop ?w 0 = word_of_nat (Min {n. bit ?w n})" using bsf_loop_least [OF False, of 0] by simp
  have w: "getB_flag f (BX_WRITE_64BIT_REG r v t) = getB_flag f t" "BX_READ_64BIT_REG r (BX_WRITE_64BIT_REG r v t) = v" for f r v t
    by (simp_all add: lazy_registers BX_WRITE_64BIT_REG_def BX_READ_64BIT_REG_def rrx_def set_rrx_def)
  show ?thesis using False by (simp add: BSF_GqEqR_def BSR_GqEqR_def Let_def getB_clear w g l)
qed

end
