(* ===== verification/Cpu_Long_Arith.thy ===== *)
theory Cpu_Long_Arith
  imports Cpu_Flags_Spec Cpu_Access_Spec
begin

text \<open>
  Arithmetic on numbers of two registers: the pairs ADD, ADC and SUB, SBB of \<^verbatim>\<open>src/sim/bochs/cpu/arith64.cc\<close> add and
  subtract numbers of 128 bits, through the carry flag that is only computed between the two instructions.
\<close>

unbundle bit_operations_syntax

lemma gen_reg_flags64 [simp]:
  "gen_reg (SET_FLAGS_OSZAPC_64 a b r ins s) = gen_reg s" "gen_reg (SET_FLAGS_OSZAPC_ADD_64 a b r s) = gen_reg s"
  "gen_reg (SET_FLAGS_OSZAPC_SUB_64 a b r s) = gen_reg s"
  by (simp_all add: SET_FLAGS_OSZAPC_64_def SET_FLAGS_OSZAPC_ADD_64_def SET_FLAGS_OSZAPC_SUB_64_def SET_FLAGS_OSZAPC_SIZE_def)

lemmas reg64 = BX_READ_64BIT_REG_def BX_WRITE_64BIT_REG_def rrx_def set_rrx_def

lemma long_carry:
  fixes H L :: int
  assumes "0 \<le> L" "L < 2 ^ 64"
  shows "- (2 ^ 127) \<le> 2 ^ 64 * H + L \<and> 2 ^ 64 * H + L < 2 ^ 127 \<longleftrightarrow> - (2 ^ 63) \<le> H \<and> H < 2 ^ 63"
    "2 ^ 128 \<le> 2 ^ 64 * H + L \<longleftrightarrow> 2 ^ 64 \<le> H" "2 ^ 64 * H + L < 0 \<longleftrightarrow> H < 0"
  using assms by auto

lemma uint_pair: "uint (reg_pair l h s) = 2 ^ 64 * uint (BX_READ_64BIT_REG h s) + uint (BX_READ_64BIT_REG l s)"
proof -
  have "int (unat (reg_pair l h s)) = 2 ^ 64 * int (unat (BX_READ_64BIT_REG h s)) + int (unat (BX_READ_64BIT_REG l s))"
    by (simp only: reg_pair_parts) simp
  then show ?thesis by simp
qed

lemma uint_bound: "0 \<le> uint w" "uint w < 2 ^ 64" for w :: u64
  using unsigned_less [of w, where ?'a = int] by simp_all

lemma carry_flags_int:
  "add_flag a b c CF_flag \<longleftrightarrow> 2 ^ LENGTH('a) \<le> uint a + uint b + of_bool c"
  "sub_flag a b c CF_flag \<longleftrightarrow> uint a - uint b - of_bool c < 0" for a b :: "'a::len word"
proof -
  have "int (2 ^ LENGTH('a)) \<le> int (unat a + unat b + of_bool c) \<longleftrightarrow> 2 ^ LENGTH('a) \<le> unat a + unat b + of_bool c" by (rule of_nat_le_iff)
  then show "add_flag a b c CF_flag \<longleftrightarrow> 2 ^ LENGTH('a) \<le> uint a + uint b + of_bool c" by (cases c) (simp_all add: ac_simps)
  have "int (unat a) < int (unat b + of_bool c) \<longleftrightarrow> unat a < unat b + of_bool c" by (rule of_nat_less_iff)
  then show "sub_flag a b c CF_flag \<longleftrightarrow> uint a - uint b - of_bool c < 0" by (cases c) auto
qed

lemma halves_lengths: "LENGTH(128) = 128" "LENGTH(64) = 64" "(128 :: nat) - 1 = 127" "(64 :: nat) - 1 = 63"
  by simp_all

text \<open>The carry and the overflow of a long operation are those of its high half.\<close>

lemma long_CF:
  fixes a b :: "128 word" and h k l :: u64
  shows "uint a + uint b = 2 ^ 64 * (uint h + uint k + of_bool c) + uint l \<Longrightarrow> add_flag h k c CF_flag = add_flag a b False CF_flag"
    "uint a - uint b = 2 ^ 64 * (uint h - uint k - of_bool c) + uint l \<Longrightarrow> sub_flag h k c CF_flag = sub_flag a b False CF_flag"
  by (simp_all only: carry_flags_int of_bool_eq add_0_right diff_0_right halves_lengths long_carry [OF uint_bound])

lemma long_OF:
  fixes a b :: "128 word" and h k l :: u64
  shows "sint a + sint b = 2 ^ 64 * (sint h + sint k + of_bool c) + uint l \<Longrightarrow> add_flag h k c OF_flag = add_flag a b False OF_flag"
    "sint a - sint b = 2 ^ 64 * (sint h - sint k - of_bool c) + uint l \<Longrightarrow> sub_flag h k c OF_flag = sub_flag a b False OF_flag"
  by (simp_all only: add_flag.simps sub_flag.simps fits_signed_def of_bool_eq add_0_right diff_0_right halves_lengths
      long_carry [OF uint_bound])

text \<open>Numbers of 128 bits from their halves.\<close>

lemma pair_is: "reg_pair l h s = word_of_int (2 ^ 64 * uint (BX_READ_64BIT_REG h s) + uint (BX_READ_64BIT_REG l s))"
  by (metis uint_pair word_of_int_uint)

lemma long_wraps: "(word_of_int (2 ^ 64 * (k - 2 ^ 64 * d) + l) :: 128 word) = word_of_int (2 ^ 64 * k + l)"
proof -
  have "2 ^ 64 * (k - 2 ^ 64 * d) + l = 2 ^ 64 * k + l - 2 ^ LENGTH(128) * d" by simp
  also have "(word_of_int \<dots> :: 128 word) = word_of_int (2 ^ 64 * k + l)" 
  proof -
    have "(word_of_int (2 ^ LENGTH(128)) :: 128 word) = 0" by (simp only: of_int_power of_int_numeral word_exp_length_eq_0)
    then show ?thesis by (simp only: of_int_diff of_int_mult mult_zero_left diff_0_right)
  qed
  finally show ?thesis .
qed

lemma add_adc_long:
  assumes "i_nnn i \<noteq> i_nnn j" "i_nnn i \<noteq> i_rm j"
  shows "\<exists>t. rbind (ADD_GqEqR i s) (\<lambda>_. ADC_GqEqR j) = Inr ((), t)
     \<and> (let a = reg_pair (i_nnn i) (i_nnn j) s; b = reg_pair (i_rm i) (i_rm j) s in
        reg_pair (i_nnn i) (i_nnn j) t = a + b \<and> getB_flag CF_flag t = add_flag a b False CF_flag
      \<and> getB_flag OF_flag t = add_flag a b False OF_flag)"
proof -
  let ?al = "BX_READ_64BIT_REG (i_nnn i) s" and ?bl = "BX_READ_64BIT_REG (i_rm i) s"
  let ?ah = "BX_READ_64BIT_REG (i_nnn j) s" and ?bh = "BX_READ_64BIT_REG (i_rm j) s"
  let ?a = "reg_pair (i_nnn i) (i_nnn j) s" and ?b = "reg_pair (i_rm i) (i_rm j) s"
  define c where "c = add_flag ?al ?bl False CF_flag"
  define u where "u = SET_FLAGS_OSZAPC_ADD_64 ?al ?bl (?al + ?bl) (BX_WRITE_64BIT_REG (i_nnn i) (?al + ?bl) s)"
  define t where "t = SET_FLAGS_OSZAPC_64 ?ah ?bh (?ah + ?bh + of_bool c) (BX_LF_INSTR_ADD_ADC64 c)
    (BX_WRITE_64BIT_REG (i_nnn j) (?ah + ?bh + of_bool c) u)"
  have u: "getB_flag CF_flag u = c"
    using flags64(1) [of CF_flag ?al ?bl False] by (simp add: u_def c_def SET_FLAGS_OSZAPC_ADD_64_def BX_LF_INSTR_ADD_ADC64_def)
  have r: "BX_READ_64BIT_REG (i_nnn j) u = ?ah" "BX_READ_64BIT_REG (i_rm j) u = ?bh"
    using assms by (simp_all add: u_def reg64)
  have e: "rbind (ADD_GqEqR i s) (\<lambda>_. ADC_GqEqR j) = Inr ((), t)"
    by (simp add: ADD_GqEqR_def Let_def u_def [symmetric]) (simp add: ADC_GqEqR_def Let_def u r t_def)
  have tr: "BX_READ_64BIT_REG (i_nnn i) t = ?al + ?bl" "BX_READ_64BIT_REG (i_nnn j) t = ?ah + ?bh + of_bool c"
    using assms by (simp_all add: t_def u_def reg64)
  have low: "uint (?al + ?bl) = uint ?al + uint ?bl - 2 ^ 64 * of_bool c" using carry_split [of ?al ?bl False] by (simp add: c_def)
  have s: "reg_pair (i_nnn i) (i_nnn j) t = ?a + ?b"
  proof -
    have "reg_pair (i_nnn i) (i_nnn j) t =
      word_of_int (2 ^ 64 * (uint ?ah + uint ?bh + of_bool c - 2 ^ 64 * of_bool (add_flag ?ah ?bh c CF_flag)) + uint (?al + ?bl))"
      by (simp only: pair_is tr carry_split)
    also have "\<dots> = word_of_int (2 ^ 64 * (uint ?ah + uint ?bh + of_bool c) + uint (?al + ?bl))" by (rule long_wraps)
    also have "2 ^ 64 * (uint ?ah + uint ?bh + of_bool c) + uint (?al + ?bl) = uint ?a + uint ?b" unfolding uint_pair low by simp
    also have "word_of_int (uint ?a + uint ?b) = ?a + ?b" by simp
    finally show ?thesis .
  qed
  have "uint ?a + uint ?b = 2 ^ 64 * (uint ?ah + uint ?bh + of_bool c) + uint (?al + ?bl)" unfolding uint_pair low by simp
  then have "getB_flag CF_flag t = add_flag ?a ?b False CF_flag"
    unfolding t_def flags64 by (rule long_CF(1))
  moreover have "sint ?a + sint ?b = 2 ^ 64 * (sint ?ah + sint ?bh + of_bool c) + uint (?al + ?bl)" unfolding reg_pair_parts(2) low by simp
  then have "getB_flag OF_flag t = add_flag ?a ?b False OF_flag"
    unfolding t_def flags64 by (rule long_OF(1))
  ultimately show ?thesis unfolding Let_def by (intro exI [of _ t] conjI e s)
qed

lemma sub_sbb_long:
  assumes "i_nnn i \<noteq> i_nnn j" "i_nnn i \<noteq> i_rm j"
  shows "\<exists>t. rbind (SUB_GqEqR i s) (\<lambda>_. SBB_GqEqR j) = Inr ((), t)
     \<and> (let a = reg_pair (i_nnn i) (i_nnn j) s; b = reg_pair (i_rm i) (i_rm j) s in
        reg_pair (i_nnn i) (i_nnn j) t = a - b \<and> getB_flag CF_flag t = sub_flag a b False CF_flag
      \<and> getB_flag OF_flag t = sub_flag a b False OF_flag)"
proof -
  let ?al = "BX_READ_64BIT_REG (i_nnn i) s" and ?bl = "BX_READ_64BIT_REG (i_rm i) s"
  let ?ah = "BX_READ_64BIT_REG (i_nnn j) s" and ?bh = "BX_READ_64BIT_REG (i_rm j) s"
  let ?a = "reg_pair (i_nnn i) (i_nnn j) s" and ?b = "reg_pair (i_rm i) (i_rm j) s"
  define c where "c = sub_flag ?al ?bl False CF_flag"
  define u where "u = SET_FLAGS_OSZAPC_SUB_64 ?al ?bl (?al - ?bl) (BX_WRITE_64BIT_REG (i_nnn i) (?al - ?bl) s)"
  define t where "t = SET_FLAGS_OSZAPC_64 ?ah ?bh (?ah - (?bh + of_bool c)) (BX_LF_INSTR_SUB_SBB64 c)
    (BX_WRITE_64BIT_REG (i_nnn j) (?ah - (?bh + of_bool c)) u)"
  have u: "getB_flag CF_flag u = c"
    using flags64(2) [of CF_flag ?al ?bl False] by (simp add: u_def c_def SET_FLAGS_OSZAPC_SUB_64_def BX_LF_INSTR_SUB_SBB64_def)
  have r: "BX_READ_64BIT_REG (i_nnn j) u = ?ah" "BX_READ_64BIT_REG (i_rm j) u = ?bh"
    using assms by (simp_all add: u_def reg64)
  have e: "rbind (SUB_GqEqR i s) (\<lambda>_. SBB_GqEqR j) = Inr ((), t)"
    by (simp add: SUB_GqEqR_def Let_def u_def [symmetric]) (simp add: SBB_GqEqR_def Let_def u r t_def)
  have tr: "BX_READ_64BIT_REG (i_nnn i) t = ?al - ?bl" "BX_READ_64BIT_REG (i_nnn j) t = ?ah - (?bh + of_bool c)"
    using assms by (simp_all add: t_def u_def reg64)
  have low: "uint (?al - ?bl) = uint ?al - uint ?bl + 2 ^ 64 * of_bool c" using borrow_split [of ?al ?bl False] by (simp add: c_def)
  have s: "reg_pair (i_nnn i) (i_nnn j) t = ?a - ?b"
  proof -
    have "reg_pair (i_nnn i) (i_nnn j) t =
      word_of_int (2 ^ 64 * (uint ?ah - uint ?bh - of_bool c - 2 ^ 64 * (- of_bool (sub_flag ?ah ?bh c CF_flag))) + uint (?al - ?bl))"
      by (simp only: pair_is tr borrow_split mult_minus_right diff_minus_eq_add)
    also have "\<dots> = word_of_int (2 ^ 64 * (uint ?ah - uint ?bh - of_bool c) + uint (?al - ?bl))" by (rule long_wraps)
    also have "2 ^ 64 * (uint ?ah - uint ?bh - of_bool c) + uint (?al - ?bl) = uint ?a - uint ?b" unfolding uint_pair low by simp
    also have "word_of_int (uint ?a - uint ?b) = ?a - ?b" by simp
    finally show ?thesis .
  qed
  have "uint ?a - uint ?b = 2 ^ 64 * (uint ?ah - uint ?bh - of_bool c) + uint (?al - ?bl)" unfolding uint_pair low by simp
  then have "getB_flag CF_flag t = sub_flag ?a ?b False CF_flag"
    unfolding t_def flags64 by (rule long_CF(2))
  moreover have "sint ?a - sint ?b = 2 ^ 64 * (sint ?ah - sint ?bh - of_bool c) + uint (?al - ?bl)" unfolding reg_pair_parts(2) low by simp
  then have "getB_flag OF_flag t = sub_flag ?a ?b False OF_flag"
    unfolding t_def flags64 by (rule long_OF(2))
  ultimately show ?thesis unfolding Let_def by (intro exI [of _ t] conjI e s)
qed

text \<open>Registers 0 and 5 and registers 2 and 3, with a carry between the halves.\<close>

definition two_registers :: "nat \<Rightarrow> nat \<Rightarrow> instr" where
  "two_registers dst src =
     \<lparr>i_resolver = BxResolve64Base, metaInfo1 = 0, metaInfo3 = 0, i_seg = 3, i_nnn = dst, i_rm = src, sibBase = 0,
      sibIndex = 4, sibScale = 0, i_Id = 0, displ32u = 0\<rparr>"

definition carry_machine :: cpu where
  "carry_machine = small_machine\<lparr>gen_reg := (\<lambda>_. 0)(0 := 0xffffffffffffffff, 2 := 1)\<rparr>"

lemma carry_pairs: "reg_pair 0 5 carry_machine = 0xffffffffffffffff" "reg_pair 2 3 carry_machine = 1"
  by (simp_all add: reg_pair_def carry_machine_def reg64 wide_def)



text \<open>
  C20. Long arithmetic: an addition of the low halves and then one with carry of the high halves add numbers of 128
  bits, a subtraction and then one with borrow subtract them, and the carry and the overflow flag are those of
  the long operation.
\<close>
theorem long_arithmetic:
  assumes "i_nnn i \<noteq> i_nnn j" "i_nnn i \<noteq> i_rm j"
  shows "(\<exists>t. rbind (ADD_GqEqR i s) (\<lambda>_. ADC_GqEqR j) = Inr ((), t)
     \<and> (let a = reg_pair (i_nnn i) (i_nnn j) s; b = reg_pair (i_rm i) (i_rm j) s in
        reg_pair (i_nnn i) (i_nnn j) t = a + b \<and> getB_flag CF_flag t = add_flag a b False CF_flag
      \<and> getB_flag OF_flag t = add_flag a b False OF_flag))
   \<and> (\<exists>t. rbind (SUB_GqEqR i s) (\<lambda>_. SBB_GqEqR j) = Inr ((), t)
     \<and> (let a = reg_pair (i_nnn i) (i_nnn j) s; b = reg_pair (i_rm i) (i_rm j) s in
        reg_pair (i_nnn i) (i_nnn j) t = a - b \<and> getB_flag CF_flag t = sub_flag a b False CF_flag
      \<and> getB_flag OF_flag t = sub_flag a b False OF_flag))"
  by (intro conjI add_adc_long [OF assms] sub_sbb_long [OF assms])

lemma long_arithmetic_witness:
  "(\<exists>t. rbind (ADD_GqEqR (two_registers 0 2) carry_machine) (\<lambda>_. ADC_GqEqR (two_registers 5 3)) = Inr ((), t)
     \<and> reg_pair 0 5 t = 0x10000000000000000 \<and> \<not> getB_flag CF_flag t) \<and>
   (\<exists>t. rbind (SUB_GqEqR (two_registers 2 0) carry_machine) (\<lambda>_. SBB_GqEqR (two_registers 3 5)) = Inr ((), t)
     \<and> reg_pair 2 3 t = 1 - 0xffffffffffffffff \<and> getB_flag CF_flag t)"
  using long_arithmetic [of "two_registers 0 2" "two_registers 5 3" carry_machine]
    long_arithmetic [of "two_registers 2 0" "two_registers 3 5" carry_machine]
  by (auto simp: two_registers_def Let_def carry_pairs)

end
