(* ===== verification/Spec2Isabelle.thy ===== *)
theory Spec2Isabelle
  imports Allocator Cpu_Tlb_Reach Ne2k_Driver Pic_Spec Dma_Spec Apic_Delivery Pit_Wrap Pc_System_Spec
    Cpu_Access_Spec Cpu_Precise Cpu_Register_File Cpu_Mult_Spec Cpu_Bits_Spec Cpu_Long_Arith
begin

text \<open>
  A model of ActiveRDMA, a remote memory service with mobile code, and of the simulated machine it
  runs on: a Bochs PC whose NE2000 network card (\<^verbatim>\<open>src/sim/bochs/iodev/ne2k.cc\<close>) hands every
  received frame to an interceptor (\<^verbatim>\<open>src/sim/bochs/iodev/ActiveRDMA.cc\<close>) before the guest sees it.
  The interceptor answers memory requests itself, by calling a memory server written in Java
  (\<^verbatim>\<open>src/src/server/SimpleServer.java\<close>) in a Java machine inside the simulator; everything else goes
  to the card's receive ring, from which the guest's driver reads it after an interrupt through the
  controllers.

  Parts, from the wire to the guest:

  \<^item> \<open>Machine_Prelude\<close>: machine words, byte order, block stores, and the interfaces as locales
    (\<open>flat_memory\<close>, \<open>codec\<close>, \<open>irq_sink\<close>, \<open>timed_device\<close>). \<open>Frame_Queue\<close>: the interface of a receive path
    (\<open>frame_queue\<close>).
  \<^item> \<open>Messages\<close> and \<open>Simple_Server\<close>: the wire format of \<^verbatim>\<open>MessageFactory.java\<close> and the server's
    memory, operations and dispatch. A Java exception is a value; \<open>serve\<close> tells a reply, null and an
    escaping exception apart. A request may name the size of the array that answers it; \<open>heap_max\<close> bounds the arrays
    that the heap has room for, and the arrays that a request itself carries are taken to fit.
  \<^item> \<open>Allocator\<close>: the lock-free allocator of \<^verbatim>\<open>ActiveRDMA.java\<close>, concurrent clients as schedules;
    its interface to the server is the locale \<open>counter_service\<close>.
  \<^item> \<open>Active_RDMA\<close>: the interceptor; a frame is its bytes, a fault (an access out of bounds, a
    negative array length, a null reply) is a value that ends the run.
  \<^item> \<open>Ne2k_State\<close>, \<open>Ne2k\<close>, \<open>Ne2k_Ring\<close>, \<open>Ne2k_Card\<close>: the card, one definition per function or case
    group of \<^verbatim>\<open>ne2k.cc\<close>; what it does to its environment is its event list. \<open>Ne2k_Invariant\<close>: what
    holds on every reachable card. \<open>Ne2k_Driver\<close>: the card as a driver uses it; the receive ring is a
    queue.
  \<^item> \<open>Pic\<close>, \<open>Pic_Spec\<close>: the two 8259 interrupt controllers and their contract. \<open>Ioapic\<close>: the I/O APIC.
    \<open>Lapic\<close>: the local APICs and their bus (\<^verbatim>\<open>cpu/apic.cc\<close>); \<open>Lapic_Spec\<close>: what holds in every run of them;
    \<open>Apic_Delivery\<close>: from a pin of the I/O APIC to the vector a processor gets, arbitration, the timer.
    \<open>Dma\<close>, \<open>Dma_Spec\<close>: the two 8237 DMA controllers and block transfers.
  \<^item> \<open>Pit\<close>: the 82C54 timer chip. \<open>Pit_Count\<close>, \<open>Pit_Spec\<close>: its BCD and binary counts, and the states
    (\<open>in_step\<close>) from which skipping many clocks equals taking them one by one, the law of the locale
    \<open>timed_device\<close>. \<open>Pit_Rate\<close>: programmed counters, the rate generator and the square wave.
    \<open>Pit_Wrap\<close>: the timer device, from virtual microseconds to the interrupt controller's line 0.
  \<^item> \<open>Pc_System\<close>: the timers of the system in processor ticks (\<^verbatim>\<open>pc_system.cc\<close>) and the lines it keeps.
    \<open>Pc_System_Spec\<close>: the countdown never passes a timer; a timer is called when it is due and only then.
  \<^item> \<open>Cpu_State\<close>, \<open>Cpu_Paging\<close>: the processor's memory accesses (\<^verbatim>\<open>cpu/paging.cc\<close>): page walks, TLB, linear
    memory; an exception is a value with the state it left. \<open>Cpu_Paging_Spec\<close>, \<open>Cpu_Long_Walk\<close>: a walk finds its page
    again (locale \<open>page_entries\<close> for the two sizes of entries). \<open>Cpu_Tlb\<close>, \<open>Cpu_Tlb_Spec\<close>: the TLB is coherent with the
    tables, and memory behind it keeps what is stored. \<open>Cpu_Tlb_Reach\<close>: runs of flushes, translations, invalidations and
    stores outside the tables keep it so; in them a translation is the walk. \<open>Cpu_Access\<close>: loads, stores and read-modify-write accesses
    of instructions through a segment (\<^verbatim>\<open>access.cc\<close>, \<^verbatim>\<open>access32.cc\<close>, \<^verbatim>\<open>access64.cc\<close>); \<open>Cpu_Access_Spec\<close>: the cached
    segment check and the TLB's host pointers are the full check and the full translation.
  \<^item> The processor's integer instructions, one definition per handler of the code (a function of the decoded
    instruction and the processor, whose result is an exception or the new state). \<open>Cpu_Flags\<close>: the lazy flags
    (\<^verbatim>\<open>lazy_flags.cc\<close>, macros of \<^verbatim>\<open>cpu.h\<close>). \<open>Cpu_Registers\<close>: the register names, the decoded instruction and its
    operand's address (\<^verbatim>\<open>instr.h\<close>, \<^verbatim>\<open>resolver.cc\<close>). \<open>Cpu_Alu8\<close>, \<open>Cpu_Alu16\<close>, \<open>Cpu_Alu32\<close>, \<open>Cpu_Alu64\<close>: \<^verbatim>\<open>arith8.cc\<close> and
    \<^verbatim>\<open>logical8.cc\<close> to \<^verbatim>\<open>arith64.cc\<close> and \<^verbatim>\<open>logical64.cc\<close>. \<open>Cpu_Shift\<close>: \<^verbatim>\<open>shift8.cc\<close> to \<^verbatim>\<open>shift64.cc\<close>. \<open>Cpu_Mult\<close>: \<^verbatim>\<open>mult8.cc\<close>,
    \<^verbatim>\<open>mult16.cc\<close>, \<^verbatim>\<open>mult32.cc\<close>, \<^verbatim>\<open>bcd.cc\<close>, \<^verbatim>\<open>flag_ctrl.cc\<close>. \<open>Cpu_Mult64\<close>: \<^verbatim>\<open>mult64.cc\<close>. \<open>Cpu_Bits\<close>: \<^verbatim>\<open>bit.cc\<close>, \<^verbatim>\<open>bit16.cc\<close>,
    \<^verbatim>\<open>bit32.cc\<close>, \<^verbatim>\<open>bit64.cc\<close>. \<open>Cpu_Move\<close>: \<^verbatim>\<open>data_xfer8.cc\<close> to \<^verbatim>\<open>data_xfer64.cc\<close>.
  \<^item> What these instructions do. \<open>Cpu_Wide\<close>, \<open>Cpu_Mult64_Spec\<close>, \<open>Cpu_Mult_Spec\<close>: the 128 bit arithmetic built from
    halves is that of the numbers; products, quotients, divide errors. \<open>Cpu_Flag_Words\<close>, \<open>Cpu_Flags_Spec\<close>: the flags
    computed from saved operands are what the flags mean, and conditions decide comparisons. \<open>Cpu_Long_Arith\<close>:
    additions with carry make long additions. \<open>Cpu_Bits_Spec\<close>: bit scans. \<open>Cpu_Register_File\<close>: the parts of registers
    (locales \<open>register_part\<close>, \<open>disjoint_parts\<close>), exchanges, decimal digits, materialised flags. \<open>Cpu_Precise\<close>: an
    instruction that faults has changed no register.
  \<^item> This theory: the parts together. A request on the wire to the reply on the wire; a frame on the
    wire to the interrupt vector.

  Integers keep the widths of the source (\<open>u8\<close>, \<open>u16\<close>, \<open>u32\<close>, \<open>u64\<close>); \<open>nat\<close> and \<open>int\<close> stand for
  values that the code keeps in wider types than it needs. The loops of the controllers run over at
  most 8 lines or 24 pins and are written with that many rounds; the checksum's folding loop has a
  termination proof, and so have the loops of the timer, which end because the clocks or microseconds
  left to spend decrease, and the loops of division and of the bit scans; nothing needs fuel. A shift of a
  machine word by its width or more, which C leaves undefined and which some rotations through carry of
  \<^verbatim>\<open>shift64.cc\<close> make, is 0 in the model.

  Parameters, for code that is not part of the repository: the Java machine (\<open>jvm\<close>, instantiated here
  with the modelled server), the class loader and digest (\<open>loader\<close>), the clock readings around a
  request, the virtual clock of the timer, the device callbacks of the DMA controllers, the answer of the APIC bus,
  the handlers of the system's timers and its conversions between microseconds and ticks (products of doubles). Conditions under
  which a theorem holds are its hypotheses, each with a witness at a concrete state.

  Not modelled: the rest of the Bochs tree that is not named here (of the processor: the decoder
  and the execution loop, control transfer, string and stack instructions, segment loads, interrupts and tasks,
  floating point and SSE; the memory map, disks, display, user interface, debugger), host networking back ends, state saving, logging, the Java file system
  examples and the client's socket transport.
\<close>

unbundle bit_operations_syntax

section \<open>The interceptor with the server behind it\<close>

definition server_jvm :: "'c loader \<Rightarrow> 'c server jvm" where
  "server_jvm ld =
     \<lparr>serve_call = (\<lambda>v req. case serve ld req v of (Reply bs, v') \<Rightarrow> (Some bs, v') | (_, v') \<Rightarrow> (None, v')),
      stat_call = getStat\<rparr>"

definition request_frame :: "u32 \<Rightarrow> operation \<Rightarrow> bytes \<Rightarrow> bool" where
  "request_frame me op data = (op_ok op \<and> (\<exists>n junk. udp_to me UDP_PORT data n \<and> take n (drop 42 data) = write_op op @ junk))"

definition reply_frame :: "ne2k \<Rightarrow> 'v rdma \<Rightarrow> bytes \<Rightarrow> bytes \<Rightarrow> bytes" where
  "reply_frame s r data reply =
     udp_frame (take 6 (drop 6 data)) (physaddr s) (m_my_ip r) (ntohl (take 4 (drop 26 data)))
       (ntohs (take 2 (drop 34 data))) reply"

lemma udp_frame_payload:
  "length dst = 6 \<Longrightarrow> length src = 6 \<Longrightarrow> drop 42 (udp_frame dst src a b port payload) = payload @ replicate (18 - length payload) 0"
proof -
  have "length (ip_check a b n) = 2" for n by (simp add: ip_check_def Let_def)
  then have "length (ip_bytes a b n (ip_check a b n)) = 20" for n by (simp add: ip_bytes_def)
  then show "length dst = 6 \<Longrightarrow> length src = 6 \<Longrightarrow> ?thesis" by (simp add: udp_frame_def)
qed

lemma request_served:
  assumes req: "request_frame (m_my_ip r) op (take len buf)"
    and srv: "visit ld op (m_srv r) = (Inr res, v')"
    and reply: "length (write_result res) \<le> 2006" "length (physaddr s) = 6"
  shows "\<exists>r'. rx_handler (server_jvm ld) clk buf len (s, r) =
      Inr (emit (Send_Pkt (reply_frame s r (take len buf) (write_result res))) s, r') \<and> m_srv r' = v'"
proof -
  let ?d = "take len buf"
  obtain n junk where n: "udp_to (m_my_ip r) UDP_PORT ?d n" "take n (drop 42 ?d) = write_op op @ junk"
    and ok: "op_ok op" using req unfolding request_frame_def by blast
  have "serve ld (take n (drop 42 ?d)) (m_srv r) = (Reply (write_result res), v')"
    unfolding n(2) by (simp add: serve_op [OF ok] srv)
  then have call: "serve_call (server_jvm ld) (m_srv r) (take n (drop 42 ?d)) = (Some (write_result res), v')"
    by (simp add: server_jvm_def)
  let ?r = "after_serve clk v' (arrived ?d r)"
  have "42 \<le> length ?d" using n(1) by (simp add: udp_to_def)
  then have len: "length (m_partner_eth ?r) = 6" by (auto simp: after_serve_def arrived_def min_def)
  have fields: "m_partner_eth ?r = take 6 (drop 6 ?d)" "m_my_ip ?r = m_my_ip r" "sent ?r = sent r" "m_srv ?r = v'"
    by (simp_all add: after_serve_def arrived_def)
  have "handle_packet (server_jvm ld) clk (physaddr s) ?d r =
      Inr (True, ?r\<lparr>sent := sent r @ [reply_frame s r ?d (write_result res)]\<rparr>)"
    unfolding handle_packet_request [OF n(1) call]
    by (simp add: send_udp_packet_frame [OF len reply(2,1)] fields reply_frame_def)
  then show ?thesis by (simp add: rx_handler_def fields)
qed

lemma reply_payload:
  assumes "request_frame me op data" and "length (physaddr s) = 6" and "result_ok res"
  shows "\<exists>pad. read_result (drop 42 (reply_frame s r data (write_result res))) = Inr (res, pad)"
proof -
  have "42 \<le> length data" using assms(1) by (auto simp: request_frame_def udp_to_def)
  then have "drop 42 (reply_frame s r data (write_result res)) =
      write_result res @ replicate (18 - length (write_result res)) 0"
    using assms(2) by (simp add: reply_frame_def udp_frame_payload)
  then show ?thesis using result_codec.get_put [OF assms(3)] by simp
qed

lemma rx_handler_cases:
  assumes "rx_handler J clk buf len (s, r) = Inr (s', r')"
  shows "(\<exists>f. s' = emit (Send_Pkt f) s \<and> sent r' = sent r @ [f]) \<or>
    (s' = rx_frame buf len s \<and> sent r' = sent r \<and> m_srv r' = m_srv r)"
proof -
  obtain b t where h: "handle_packet J clk (physaddr s) (take len buf) r = Inr (b, t)"
    using assms by (auto simp: rx_handler_def split: sum.splits)
  note i = handle_packet_intercepts [OF h]
  show ?thesis using assms i by (cases b) (auto simp: rx_handler_def h)
qed

section \<open>The interrupt line of the card\<close>

fun irq_commands :: "ne2k_event list \<Rightarrow> (nat \<times> bool) list" where
  "irq_commands [] = []"
| "irq_commands (Pic_Raise n # es) = (n, True) # irq_commands es"
| "irq_commands (Pic_Lower n # es) = (n, False) # irq_commands es"
| "irq_commands (_ # es) = irq_commands es"

definition pics_after :: "ne2k_event list \<Rightarrow> pics \<Rightarrow> pics" where
  "pics_after es p = drive raise_irq lower_irq (irq_commands es) p"

lemma wired_commands:
  "list_all (own_event False n) es \<Longrightarrow> e \<in> set (irq_commands es) \<Longrightarrow> fst e = n"
  by (induction es rule: irq_commands.induct) auto

lemma level_after_line:
  "list_all (own_event False n) es \<Longrightarrow> level_after n b (irq_commands es) = line_after b es"
  by (induction es arbitrary: b rule: irq_commands.induct) auto

lemma card_pin:
  assumes "nic_reach s" and "\<not> pci_enabled s" and "base_irq s \<in> pic_lines"
  shows "pic_pin (pics_after (out s) p) (base_irq s) = line_after (pic_pin p (base_irq s)) (out s)"
    and "m \<in> pic_lines \<Longrightarrow> m \<noteq> base_irq s \<Longrightarrow> pic_pin (pics_after (out s) p) m = pic_pin p m"
proof -
  have own: "list_all (own_event False (base_irq s)) (out s)"
    using nic_reach_ok [OF assms(1)] assms(2) by (simp add: nic_ok_def wired_def)
  have lines: "fst e \<in> pic_lines" if "e \<in> set (irq_commands (out s))" for e
    using wired_commands [OF own that] assms(3) by simp
  note pin = pic_sink.pin_drive [OF lines]
  show "pic_pin (pics_after (out s) p) (base_irq s) = line_after (pic_pin p (base_irq s)) (out s)"
    unfolding pics_after_def using pin assms(3) level_after_line [OF own] by simp
  assume m: "m \<in> pic_lines" "m \<noteq> base_irq s"
  have "level_after m b es = b" if "\<forall>e\<in>set es. fst e \<noteq> m" for b es
    using that by (induction m b es rule: level_after.induct) auto
  then have "level_after m b (irq_commands (out s)) = b" for b
    using wired_commands [OF own] m(2) by blast
  then show "pic_pin (pics_after (out s) p) m = pic_pin p m"
    unfolding pics_after_def using pin m(1) by simp
qed

text \<open>A request that is not answered: the server throws, or the answer is too long.\<close>

lemma request_not_served:
  assumes req: "request_frame (m_my_ip r) op (take len buf)" and srv: "visit ld op (m_srv r) = (x, v')"
  shows "x = Inl e \<Longrightarrow> rx_handler (server_jvm ld) clk buf len (s, r) = Inl Null_Reply"
    and "x = Inr res \<Longrightarrow> 2006 < length (write_result res) \<Longrightarrow>
      rx_handler (server_jvm ld) clk buf len (s, r) = Inl Buffer_Overflow"
proof -
  let ?d = "take len buf"
  obtain n junk where n: "udp_to (m_my_ip r) UDP_PORT ?d n" "take n (drop 42 ?d) = write_op op @ junk"
    and ok: "op_ok op" using req unfolding request_frame_def by blast
  have call: "serve_call (server_jvm ld) (m_srv r) (take n (drop 42 ?d)) =
      (case x of Inl e \<Rightarrow> (None, v') | Inr res \<Rightarrow> (Some (write_result res), v'))"
    unfolding n(2) by (simp add: server_jvm_def serve_op [OF ok] srv split: sum.split)
  show "x = Inl e \<Longrightarrow> rx_handler (server_jvm ld) clk buf len (s, r) = Inl Null_Reply"
    using handle_packet_request [OF n(1) call [THEN trans]] by (simp add: rx_handler_def)
  show "x = Inr res \<Longrightarrow> 2006 < length (write_result res) \<Longrightarrow>
      rx_handler (server_jvm ld) clk buf len (s, r) = Inl Buffer_Overflow"
    using handle_packet_request [OF n(1) call [THEN trans]] by (simp add: rx_handler_def send_udp_packet_overflow)
qed

lemma array_length: "length xs \<le> length (writeArray put_byte (Some xs))" "length ws \<le> length (writeArray put_int (Some ws))"
  by (simp add: writeArray_def) (induction ws; simp add: writeArray_def)

lemma short_result_ok:
  assumes "length (write_result res) \<le> 2006"
  shows "result_ok res"
proof -
  have "length (writeArray put_int (res_ints res)) \<le> 2006" "length (writeArray put_byte (res_bytes res)) \<le> 2006"
    using assms by (simp_all add: write_result_def)
  then have "length ws \<le> 2006" if "res_ints res = Some ws" for ws
    using that array_length(2) [of ws] by simp
  moreover have "length xs \<le> 2006" if "res_bytes res = Some xs" for xs
    using that array_length(1) [of xs] \<open>length (writeArray put_byte (res_bytes res)) \<le> 2006\<close> by simp
  ultimately show ?thesis by (fastforce simp: result_ok_def array_ok_def split: option.split)
qed

text \<open>
  C1. A well-formed memory request on the wire for the card's address (\<open>request_frame\<close>) is executed once by the
  server, and the outcome decides what follows. A result that encodes to at most 2006 bytes: the guest never sees
  the frame, and the card sends back one frame, addressed to the requester, whose payload decodes to the operation's
  result. A longer result: no reply, the frame buffer of 2048 bytes overflows. An exception that escapes from
  the server: no reply, the null result of the call is dereferenced.
\<close>

theorem remote_request_served:
  assumes "request_frame (m_my_ip r) op (take len buf)" and "length (physaddr s) = 6"
  shows "case visit ld op (m_srv r) of
      (Inr res, v') \<Rightarrow>
        if length (write_result res) \<le> 2006
        then \<exists>r' reply pad. rx_handler (server_jvm ld) clk buf len (s, r) = Inr (emit (Send_Pkt reply) s, r') \<and>
          m_srv r' = v' \<and> take 6 reply = take 6 (drop 6 (take len buf)) \<and> read_result (drop 42 reply) = Inr (res, pad)
        else rx_handler (server_jvm ld) clk buf len (s, r) = Inl Buffer_Overflow
    | (Inl e, v') \<Rightarrow> rx_handler (server_jvm ld) clk buf len (s, r) = Inl Null_Reply"
proof -
  obtain x v' where v: "visit ld op (m_srv r) = (x, v')" by fastforce
  note bad = request_not_served [OF assms(1) v, of _ clk s]
  show ?thesis
  proof (cases x)
    case (Inl e)
    then show ?thesis using bad(1) v by simp
  next
    case (Inr res)
    have "42 \<le> length (take len buf)" using assms(1) by (auto simp: request_frame_def udp_to_def)
    then have to: "take 6 (reply_frame s r (take len buf) (write_result res)) = take 6 (drop 6 (take len buf))"
      by (auto simp: reply_frame_def udp_frame_def min_def)
    have "\<exists>r' reply pad. rx_handler (server_jvm ld) clk buf len (s, r) = Inr (emit (Send_Pkt reply) s, r') \<and>
        m_srv r' = v' \<and> take 6 reply = take 6 (drop 6 (take len buf)) \<and> read_result (drop 42 reply) = Inr (res, pad)"
      if "length (write_result res) \<le> 2006"
      using request_served [OF assms(1) v [unfolded Inr] that assms(2), of clk] to
        reply_payload [OF assms short_result_ok [OF that]] by blast
    then show ?thesis using bad(2) [OF Inr] v Inr by simp
  qed
qed

text \<open>A compare-and-swap sent by station 9 to a machine whose memory has 64 bytes.\<close>

definition cas_frame :: bytes where
  "cas_frame = udp_frame [0x52, 0x54, 0, 0x12, 0x34, 0x56] [2, 0, 0, 0, 0, 9] 0x0a000001 0x0a000002 UDP_PORT
     (write_op (CAS 8 0 7))"

definition example_rdma :: "unit server rdma" where
  "example_rdma = new_rdma (zero_server 64 1024) [0, 0, 0, 0, 0, 0]"

lemma example_rdma_fields: "m_my_ip example_rdma = 0x0a000002" "m_srv example_rdma = zero_server 64 1024"
  by (simp_all add: example_rdma_def new_rdma_def)

lemma cas_frame_request: "request_frame (m_my_ip example_rdma) (CAS 8 0 7) (take (length cas_frame) cas_frame)"
proof -
  have "length (write_op (CAS 8 0 7)) \<le> 2006" by simp
  note p = udp_frame_parses [OF _ _ this, where dst = "[0x52, 0x54, 0, 0x12, 0x34, 0x56]" and
      src = "[2, 0, 0, 0, 0, 9]" and a = "0x0a000001" and b = "0x0a000002" and port = UDP_PORT]
  then show ?thesis
    unfolding request_frame_def example_rdma_fields cas_frame_def by (auto simp del: write_op.simps)
qed

lemma remote_request_served_witness:
  "\<exists>r' reply pad. rx_handler (server_jvm no_code) ((0, 0), (0, 9)) cas_frame (length cas_frame) (live_card, example_rdma) =
      Inr (emit (Send_Pkt reply) live_card, r') \<and>
    m_srv r' = snd (srv_cas 8 0 7 (zero_server 64 1024)) \<and>
    take 6 reply = take 6 (drop 6 (take (length cas_frame) cas_frame)) \<and>
    read_result (drop 42 reply) = Inr (\<lparr>res_error = OK, res_ints = Some [1], res_bytes = None\<rparr>, pad)"
proof -
  have "length (physaddr live_card) = 6" by (simp add: live_card_def)
  from remote_request_served [OF cas_frame_request this, of no_code "((0, 0), (0, 9))"] show ?thesis
    unfolding example_rdma_fields cas_example by (simp add: write_result_def writeArray_def put_int_def)
qed

text \<open>
  C26. On a frame whose headers, and for a memory request the announced payload, lie inside it (\<open>frame_ok\<close>), the
  interceptor in front of the memory server fails in exactly two cases, both of a request for the server: the
  server throws or answers null, and the null result is dereferenced; or its answer is longer than 2006 bytes, and
  the frame buffer overflows. Otherwise it reads and writes nothing out of bounds.
\<close>

theorem interceptor_fault_cases:
  assumes "frame_ok (m_my_ip r) data"
  shows "handle_packet (server_jvm ld) clk my_eth data r = Inl e \<longleftrightarrow>
    memory_request (m_my_ip r) data \<and>
    (case fst (serve ld (request_payload data) (m_srv r)) of
       Reply bs \<Rightarrow> 2006 < length bs \<and> e = Buffer_Overflow
     | Null \<Rightarrow> e = Null_Reply
     | Throws x \<Rightarrow> e = Null_Reply)"
  unfolding handle_packet_fault [OF assms]
  by (auto simp: server_jvm_def split: prod.split served.split)

text \<open>A compare-and-swap is answered, and a request of 500 words, 2012 bytes of result, overflows the buffer.\<close>

definition read_frame :: bytes where
  "read_frame = udp_frame [0x52, 0x54, 0, 0x12, 0x34, 0x56] [2, 0, 0, 0, 0, 9] 0x0a000001 0x0a000002 UDP_PORT
     (write_op (Read 0 500))"

lemma interceptor_fault_cases_witness:
  "handle_packet (server_jvm no_code) ((0, 0), (0, 9)) (physaddr live_card) read_frame
     (new_rdma (zero_server 2000 2000) [0, 0, 0, 0, 0, 0]) = Inl Buffer_Overflow"
proof -
  let ?v = "zero_server 2000 2000 :: unit server" and ?r = "new_rdma (zero_server 2000 2000 :: unit server) [0, 0, 0, 0, 0, 0]"
  have ip: "m_my_ip ?r = 0x0a000002" "m_srv ?r = ?v" by (simp_all add: new_rdma_def)
  have "length (write_op (Read 0 500)) \<le> 2006" by simp
  note p = udp_frame_parses [OF _ _ this, where dst = "[0x52, 0x54, 0, 0x12, 0x34, 0x56]" and
      src = "[2, 0, 0, 0, 0, 9]" and a = "0x0a000001" and b = "0x0a000002" and port = UDP_PORT, folded read_frame_def]
  have u: "udp_to (m_my_ip ?r) UDP_PORT read_frame (length (write_op (Read 0 500)))"
    "take (length (write_op (Read 0 500))) (drop 42 read_frame) = write_op (Read 0 500)"
    using p(1,2) by (simp_all add: ip del: write_op.simps)
  note f = udp_to_request [OF u(1), unfolded u(2)]
  have s: "server_ok ?v" "in_range ?v 0 (4 * unat (500 :: u32))" by (simp_all add: server_ok_def in_range_def zero_server_def)
  have "fst (serve no_code (write_op (Read 0 500)) ?v) = Reply (write_result
      \<lparr>res_error = OK, res_ints = Some (words_at (memory ?v) 0 500), res_bytes = None\<rparr>)"
    using serve_op [of "Read 0 500" no_code "[]" ?v] srv_r_in [OF s] by (simp add: zero_server_def del: write_op.simps)
  moreover have length_words: "length (words_at (memory ?v) 0 500) = 500" by (simp add: words_at_def)
  moreover have "length (concat (map put_int ws)) = 4 * length ws" for ws by (induction ws) simp_all
  from this [of "words_at (memory ?v) 0 500"] have "2006 < length (write_result \<lparr>res_error = OK, res_ints = Some (words_at (memory ?v) 0 500), res_bytes = None\<rparr>)"
    by (simp add: write_result_def writeArray_def length_words)
  ultimately show ?thesis using interceptor_fault_cases [OF f(1)] f(2,3) by (simp add: ip)
qed

text \<open>
  C4. A compare-and-swap that arrives on the wire for a word inside the memory is atomic end to end:
  the requester is told whether the word had the expected value, the word changes exactly then, and
  nothing else in the memory or in the card's packet memory does.
\<close>

theorem remote_cas_is_atomic:
  assumes "request_frame (m_my_ip r) (CAS a t v) (take len buf)"
    and "server_ok (m_srv r)" and "unat a + 4 \<le> memory_size (m_srv r)" and "length (physaddr s) = 6"
  shows "\<exists>r' reply pad. rx_handler (server_jvm ld) clk buf len (s, r) = Inr (emit (Send_Pkt reply) s, r') \<and>
    read_result (drop 42 reply) = Inr (\<lparr>res_error = OK,
      res_ints = Some [if word_at (memory (m_srv r)) (unat a) = t then 1 else 0], res_bytes = None\<rparr>, pad) \<and>
    memory (m_srv r') = (if word_at (memory (m_srv r)) (unat a) = t
                         then blit (unat a) (le_bytes 4 (unat v)) (memory (m_srv r)) else memory (m_srv r))"
proof -
  let ?hit = "word_at (memory (m_srv r)) (unat a) = t"
  let ?res = "\<lparr>res_error = OK, res_ints = Some [if ?hit then 1 else 0], res_bytes = None\<rparr>"
  have "in_range (m_srv r) a 4" using assms(3) by (simp add: in_range_def)
  note cas = srv_cas_in [OF assms(2) this, of t v]
  have visit: "visit ld (CAS a t v) (m_srv r) = (Inr ?res, snd (srv_cas a t v (m_srv r)))"
    by (simp add: cas)
  have small: "length (write_result ?res) \<le> 2006" "result_ok ?res"
    by (simp_all add: write_result_def writeArray_def result_ok_def array_ok_def put_int_def)
  show ?thesis
    using request_served [OF assms(1) visit small(1) assms(4), of clk] reply_payload [OF assms(1,4) small(2)]
    by (fastforce simp: cas)
qed

lemma remote_cas_is_atomic_witness:
  "\<exists>r' reply pad. rx_handler (server_jvm no_code) ((0, 0), (0, 9)) cas_frame (length cas_frame) (live_card, example_rdma) =
      Inr (emit (Send_Pkt reply) live_card, r') \<and>
    read_result (drop 42 reply) = Inr (\<lparr>res_error = OK,
      res_ints = Some [if word_at (memory (m_srv example_rdma)) (unat (8 :: u32)) = 0 then 1 else 0], res_bytes = None\<rparr>, pad) \<and>
    memory (m_srv r') = (if word_at (memory (m_srv example_rdma)) (unat (8 :: u32)) = 0
                         then blit (unat (8 :: u32)) (le_bytes 4 (unat (7 :: u32))) (memory (m_srv example_rdma))
                         else memory (m_srv example_rdma))"
  by (rule remote_cas_is_atomic [OF cas_frame_request])
    (simp_all add: example_rdma_fields zero_server_ok live_card_def del: le_bytes_numeral)

text \<open>
  C16. The interceptor is transparent: a frame it does not answer reaches the receive ring as if it
  were not there, with the memory server untouched; a frame it answers leaves the card as it was
  but for the one frame sent.
\<close>

theorem interceptor_is_transparent:
  assumes "rx_handler J clk buf len (s, r) = Inr (s', r')"
  shows "(s' = rx_frame buf len s \<and> sent r' = sent r \<and> m_srv r' = m_srv r) \<or>
    (\<exists>f. s' = emit (Send_Pkt f) s \<and> sent r' = sent r @ [f])"
  using rx_handler_cases [OF assms] by blast

lemma interceptor_is_transparent_witness:
  "\<exists>s' r'. rx_handler (server_jvm no_code) ((0, 0), (0, 9)) broadcast_buf 300 (live_card, example_rdma) = Inr (s', r') \<and>
    ((s' = rx_frame broadcast_buf 300 live_card \<and> sent r' = sent example_rdma \<and> m_srv r' = m_srv example_rdma) \<or>
     (\<exists>f. s' = emit (Send_Pkt f) live_card \<and> sent r' = sent example_rdma @ [f]))"
proof -
  have "peek (take 300 broadcast_buf) 12 = Some 7" by (simp add: peek_def broadcast_buf_def nth_append)
  then have "rx_handler (server_jvm no_code) ((0, 0), (0, 9)) broadcast_buf 300 (live_card, example_rdma) =
      Inr (rx_frame broadcast_buf 300 live_card, example_rdma)"
    by (simp add: rx_handler_def handle_packet_def)
  with interceptor_is_transparent [OF this] show ?thesis by blast
qed

text \<open>
  The interrupt controllers see the line the card drives: with the card's commands carried out
  on any controllers, its pin has the level the card set last, so it is high while an unmasked event
  is pending, and every other device's pin is as it was.
\<close>

theorem card_drives_its_pin:
  assumes "nic_reach s" and "\<not> pci_enabled s" and "base_irq s \<in> pic_lines"
  shows "pic_pin (pics_after (out s) p) (base_irq s) = line_after (pic_pin p (base_irq s)) (out s) \<and>
    (irq_due s \<longrightarrow> pic_pin (pics_after (out s) p) (base_irq s)) \<and>
    (\<forall>m\<in>pic_lines. m \<noteq> base_irq s \<longrightarrow> pic_pin (pics_after (out s) p) m = pic_pin p m)"
proof -
  note pin = card_pin(1) [OF assms, of p] card_pin(2) [OF assms, where p = p]
  have high: "line_after b es" if "line_after False es" for b es
    using that by (induction b es rule: line_after.induct) (auto split: if_splits)
  have "irq_due s \<longrightarrow> irq_line s" using nic_reach_ok [OF assms(1)] by (simp add: nic_ok_def irq_inv_def)
  then show ?thesis using pin high unfolding irq_line_def by blast
qed

lemma card_drives_its_pin_witness: "pic_pin (pics_after (out probed_card) (pic_init False)) 3"
proof -
  have "base_irq probed_card \<in> pic_lines" using probed_card_line by (simp add: pic_lines_def)
  from card_drives_its_pin [OF probed_card_reach _ this]
  have "pic_pin (pics_after (out probed_card) (pic_init False)) (base_irq probed_card)"
    using probed_card_line(2) probed_card_due by blast
  then show ?thesis by (simp only: probed_card_line)
qed

text \<open>
  A frame that the card takes interrupts the CPU: with reception unmasked and the card's line
  idle at the controllers, carrying out the commands the card issued and acknowledging gives the
  vector programmed for the card's line.
\<close>

theorem received_frame_interrupts:
  assumes "ring_ok s" and "6 \<le> n" "n < 2 ^ 31" and "n + 4 \<le> length buf" and "rx_takes buf n s"
    and "IMR_rx_inte (IMR s)" and "\<not> pci_enabled s" and "line_idle (base_irq s) p"
  shows "\<exists>new. out (rx_frame buf n s) = out s @ new \<and> fst (IAC (pics_after new p)) = irq_vector (base_irq s) p"
proof -
  let ?P = "(n + 263) div 256"
  have "rx_frame buf n s = rx_signal buf (rx_store buf n (int ?P) s)"
    using assms(5) rx_frame_cases [OF assms(1-3), of buf] assms(4) by simp
  moreover obtain M p' where "rx_store buf n (int ?P) s = s\<lparr>mem := M, curr_page := p'\<rparr>"
    using assms(5) rx_store_cells [OF assms(1) _ refl assms(4)] unfolding rx_takes_def rx_room_def by blast
  ultimately have "out (rx_frame buf n s) = out s @ [Pic_Raise (base_irq s)]"
    using assms(6,7) by (simp add: out_rx_signal)
  then show ?thesis using idle_vector [OF assms(8)] by (simp add: pics_after_def)
qed

lemma received_frame_interrupts_witness:
  "\<exists>new. out (rx_frame broadcast_buf 300 live_card) = out live_card @ new \<and>
    fst (IAC (pics_after new open_pics)) = irq_vector (base_irq live_card) open_pics"
  by (rule received_frame_interrupts [OF live_card_ring(1) _ _ _ live_card_takes])
    (simp_all add: broadcast_buf_def live_card_def open_pics_idle)

end
